(* ===== verification/Prelude.thy ===== *)
theory Prelude
  imports Main "HOL-Library.Sublist"
begin

text \<open>
  Shared vocabulary of the development: the error values of the Go code, the model of
  time, the fault oracle of the database, and tables (lists of rows) with the SQL
  statements the stores use on them.

  \<^item> Times are integers, nanoseconds since the Unix epoch; \<open>zero_time\<close> is Go's zero
    \<open>time.Time\<close>.
  \<^item> A table is the list of its rows. \<open>tbl_insert\<close> is \<open>INSERT\<close> under a primary key,
    \<open>tbl_upsert\<close> is \<open>INSERT ... ON CONFLICT (key) DO UPDATE\<close>, \<open>tbl_update\<close> is
    \<open>UPDATE ... WHERE\<close>, \<open>tbl_delete\<close> is \<open>DELETE ... WHERE\<close>, \<open>order_desc\<close> and \<open>order_asc\<close>
    are \<open>ORDER BY\<close> on one column. Where SQL leaves the order of equal keys open, the
    model keeps the order of insertion.
  \<^item> Every statement sent to PostgreSQL may fail (connection, timeout). A handler takes
    an oracle that says which of its statements fail; a failed statement returns
    \<open>ErrDB\<close> and changes nothing.
\<close>

named_theorems tbl_simps \<open>unconditional facts on tables\<close>
named_theorems frame \<open>what an operation leaves unchanged\<close>
named_theorems preserve \<open>invariants an operation preserves\<close>

section \<open>Time, errors, faults\<close>

type_synonym time = int
type_synonym duration = int

definition nanosecond :: duration where "nanosecond = 1"
definition second :: duration where "second = 1000000000"
definition minute :: duration where "minute = 60 * second"
definition hour :: duration where "hour = 60 * minute"
definition zero_time :: time where "zero_time = - 62135596800 * second"

lemmas duration_defs = nanosecond_def second_def minute_def hour_def

lemma duration_pos [simp]: "0 < second" "0 < minute" "0 < hour"
  by (simp_all add: duration_defs)

text \<open>Go's integer division drops the fraction.\<close>

definition quot :: "int \<Rightarrow> int \<Rightarrow> int" where
  "quot x y = (let q = \<bar>x\<bar> div \<bar>y\<bar> in if (x < 0) = (y < 0) then q else - q)"

lemma quot_pos: "x \<ge> 0 \<Longrightarrow> y > 0 \<Longrightarrow> quot x y = x div y"
  unfolding quot_def Let_def by simp

datatype go_error =
    ErrDB                  \<comment> \<open>an error of the driver: the statement did not run\<close>
  | ErrNoRows              \<comment> \<open>\<open>sql.ErrNoRows\<close>\<close>
  | ErrUnique              \<comment> \<open>unique or primary key violation\<close>
  | ErrMsg string          \<comment> \<open>\<open>fmt.Errorf\<close> with its text\<close>
  | ErrInvalidMute string  \<comment> \<open>\<open>ErrInvalidMute\<close> wrapped with its message\<close>
  | ErrMuteSourceNotFound
  | ErrMuteNotActive

type_synonym 'a result = "go_error + 'a"

text \<open>A statement is named after the store method that issues it; where one handler issues
  it several times, the name carries what tells the issues apart.\<close>

type_synonym db_op = string
type_synonym faults = "db_op \<Rightarrow> bool"

definition no_faults :: faults where "no_faults _ = False"

lemma no_faults [simp]: "\<not> no_faults op"
  by (simp add: no_faults_def)

definition guard_db :: "faults \<Rightarrow> db_op \<Rightarrow> 'a result \<Rightarrow> 'a result" where
  "guard_db flt op r = (if flt op then Inl ErrDB else r)"

lemma guard_db_Inr [simp]: "guard_db flt op r = Inr x \<longleftrightarrow> \<not> flt op \<and> r = Inr x"
  by (simp add: guard_db_def)

lemma guard_db_ok [simp]: "\<not> flt op \<Longrightarrow> guard_db flt op r = r"
  by (simp add: guard_db_def)

lemma guard_db_fail [simp]: "flt op \<Longrightarrow> guard_db flt op r = Inl ErrDB"
  by (simp add: guard_db_def)

text \<open>A statement a handler reaches at several places: \<open>at_site\<close> gives the call at one place its
  own faults.\<close>

definition at_site :: "string \<Rightarrow> faults \<Rightarrow> faults" where
  "at_site site flt = (\<lambda>op. flt (site @ CHR ''/'' # op))"

lemma at_site_no_faults [simp]: "at_site site no_faults = no_faults"
  by (simp add: at_site_def no_faults_def fun_eq_iff)

section \<open>Tables\<close>

definition tbl_find :: "('r \<Rightarrow> 'k) \<Rightarrow> 'k \<Rightarrow> 'r list \<Rightarrow> 'r option" where
  "tbl_find key k t = find (\<lambda>r. key r = k) t"

definition tbl_has :: "('r \<Rightarrow> 'k) \<Rightarrow> 'k \<Rightarrow> 'r list \<Rightarrow> bool" where
  "tbl_has key k t \<longleftrightarrow> k \<in> set (map key t)"

definition tbl_insert :: "('r \<Rightarrow> 'k) \<Rightarrow> 'r \<Rightarrow> 'r list \<Rightarrow> 'r list result" where
  "tbl_insert key r t = (if tbl_has key (key r) t then Inl ErrUnique else Inr (t @ [r]))"

definition tbl_update :: "('r \<Rightarrow> bool) \<Rightarrow> ('r \<Rightarrow> 'r) \<Rightarrow> 'r list \<Rightarrow> 'r list" where
  "tbl_update p f t = map (\<lambda>r. if p r then f r else r) t"

definition tbl_upsert :: "('r \<Rightarrow> 'k) \<Rightarrow> ('r \<Rightarrow> 'r) \<Rightarrow> 'r \<Rightarrow> 'r list \<Rightarrow> 'r list" where
  "tbl_upsert key f r t =
     (if tbl_has key (key r) t then tbl_update (\<lambda>x. key x = key r) f t else t @ [r])"

definition tbl_delete :: "('r \<Rightarrow> bool) \<Rightarrow> 'r list \<Rightarrow> 'r list" where
  "tbl_delete p t = filter (\<lambda>r. \<not> p r) t"

definition pk :: "('r \<Rightarrow> 'k) \<Rightarrow> 'r list \<Rightarrow> bool" where
  "pk key t \<longleftrightarrow> distinct (map key t)"

lemma tbl_find_Some: "tbl_find key k t = Some r \<Longrightarrow> r \<in> set t \<and> key r = k"
  by (auto simp: tbl_find_def find_Some_iff)

lemma tbl_find_None: "tbl_find key k t = None \<longleftrightarrow> \<not> tbl_has key k t"
  by (auto simp: tbl_find_def tbl_has_def find_None_iff)

lemma tbl_has_iff: "tbl_has key k t \<longleftrightarrow> (\<exists>r \<in> set t. key r = k)"
  by (auto simp: tbl_has_def)

lemma tbl_find_unique: "pk key t \<Longrightarrow> r \<in> set t \<Longrightarrow> tbl_find key (key r) t = Some r"
  by (induction t) (auto simp: pk_def tbl_find_def)

lemma tbl_find_Cons [simp]:
  "tbl_find key k (r # t) = (if key r = k then Some r else tbl_find key k t)"
  by (simp add: tbl_find_def)

lemma tbl_find_Nil [simp]: "tbl_find key k [] = None"
  by (simp add: tbl_find_def)

lemma tbl_find_append: "tbl_find key k (t @ u) =
    (case tbl_find key k t of None \<Rightarrow> tbl_find key k u | Some r \<Rightarrow> Some r)"
  by (induction t) auto

lemma tbl_insert_Inr: "tbl_insert key r t = Inr t' \<longleftrightarrow> \<not> tbl_has key (key r) t \<and> t' = t @ [r]"
  by (auto simp: tbl_insert_def)

lemma pk_insert [preserve]: "pk key t \<Longrightarrow> tbl_insert key r t = Inr t' \<Longrightarrow> pk key t'"
  by (auto simp: tbl_insert_Inr pk_def tbl_has_def)

lemma map_key_update:
  assumes "\<And>r. p r \<Longrightarrow> key (f r) = key r"
  shows "map key (tbl_update p f t) = map key t"
  using assms by (induction t) (auto simp: tbl_update_def)

lemma pk_update [preserve]:
  assumes "pk key t" and "\<And>r. p r \<Longrightarrow> key (f r) = key r"
  shows "pk key (tbl_update p f t)"
  using assms by (simp add: pk_def map_key_update)

lemma tbl_has_update:
  assumes "\<And>r. p r \<Longrightarrow> key (f r) = key r"
  shows "tbl_has key k (tbl_update p f t) = tbl_has key k t"
  using assms by (simp add: tbl_has_def map_key_update)

lemma pk_upsert [preserve]:
  assumes "pk key t" and "\<And>x. key x = key r \<Longrightarrow> key (f x) = key r"
  shows "pk key (tbl_upsert key f r t)"
proof (cases "tbl_has key (key r) t")
  case True
  have "pk key (tbl_update (\<lambda>x. key x = key r) f t)"
    by (rule pk_update[OF assms(1)]) (simp add: assms(2))
  with True show ?thesis by (simp add: tbl_upsert_def)
next
  case False
  with assms(1) show ?thesis by (auto simp: tbl_upsert_def pk_def tbl_has_def)
qed

lemma pk_delete [preserve]: "pk key t \<Longrightarrow> pk key (tbl_delete p t)"
  by (auto simp: pk_def tbl_delete_def distinct_map_filter)

lemma tbl_update_Cons [simp]:
  "tbl_update p f (r # t) = (if p r then f r else r) # tbl_update p f t"
  by (simp add: tbl_update_def)

lemma tbl_update_Nil [simp]: "tbl_update p f [] = []"
  by (simp add: tbl_update_def)

lemma length_tbl_update [simp]: "length (tbl_update p f t) = length t"
  by (simp add: tbl_update_def)

lemma tbl_find_update:
  assumes "\<And>r. p r \<Longrightarrow> key (f r) = key r"
  shows "tbl_find key k (tbl_update p f t) =
    map_option (\<lambda>r. if p r then f r else r) (tbl_find key k t)"
  using assms by (induction t) auto

lemma tbl_find_delete_same:
  "tbl_find key k (tbl_delete (\<lambda>r. key r = k) t) = None"
  by (induction t) (auto simp: tbl_delete_def)

lemma tbl_find_delete_other:
  "k \<noteq> k' \<Longrightarrow> tbl_find key k (tbl_delete (\<lambda>r. key r = k') t) = tbl_find key k t"
  by (induction t) (auto simp: tbl_delete_def)

lemma tbl_find_insert:
  assumes "tbl_insert key r t = Inr t'"
  shows "tbl_find key k t' = (if k = key r then Some r else tbl_find key k t)"
proof -
  from assms have "tbl_find key (key r) t = None" "t' = t @ [r]"
    by (auto simp: tbl_insert_Inr tbl_find_None)
  then show ?thesis by (auto simp: tbl_find_append split: option.splits)
qed

lemma tbl_find_upsert_other:
  assumes "k \<noteq> key r" and "\<And>x. key x = key r \<Longrightarrow> key (f x) = key r"
  shows "tbl_find key k (tbl_upsert key f r t) = tbl_find key k t"
proof (cases "tbl_has key (key r) t")
  case True
  have "tbl_find key k (tbl_update (\<lambda>x. key x = key r) f t) =
    map_option (\<lambda>x. if key x = key r then f x else x) (tbl_find key k t)"
    using assms(2) by (intro tbl_find_update) auto
  moreover have "tbl_find key k t = Some x \<Longrightarrow> key x \<noteq> key r" for x
    using assms(1) by (auto dest: tbl_find_Some)
  ultimately show ?thesis using True
    by (cases "tbl_find key k t") (auto simp: tbl_upsert_def)
next
  case False
  then show ?thesis using assms(1)
    by (auto simp: tbl_upsert_def tbl_find_append split: option.splits)
qed

lemma tbl_find_upsert_same:
  assumes "\<And>x. key x = key r \<Longrightarrow> key (f x) = key r"
  shows "tbl_find key (key r) (tbl_upsert key f r t) =
    (case tbl_find key (key r) t of None \<Rightarrow> Some r | Some x \<Rightarrow> Some (f x))"
proof (cases "tbl_find key (key r) t")
  case None
  then have "\<not> tbl_has key (key r) t" by (simp add: tbl_find_None)
  with None show ?thesis by (simp add: tbl_upsert_def tbl_find_append)
next
  case (Some x)
  then have h: "tbl_has key (key r) t" by (metis tbl_find_None option.distinct(1))
  have "tbl_find key (key r) (tbl_update (\<lambda>x. key x = key r) f t) =
    map_option (\<lambda>x. if key x = key r then f x else x) (tbl_find key (key r) t)"
    using assms by (intro tbl_find_update) auto
  with Some h show ?thesis
    by (auto simp: tbl_upsert_def dest: tbl_find_Some)
qed

subsection \<open>Ordered queries\<close>

definition order_desc :: "('r \<Rightarrow> int) \<Rightarrow> 'r list \<Rightarrow> 'r list" where
  "order_desc f t = sort_key (\<lambda>r. - f r) t"

definition order_asc :: "('r \<Rightarrow> int) \<Rightarrow> 'r list \<Rightarrow> 'r list" where
  "order_asc f t = sort_key f t"

definition first_row :: "'r list \<Rightarrow> 'r option" where
  "first_row t = (case t of [] \<Rightarrow> None | r # _ \<Rightarrow> Some r)"

lemma set_order [simp]: "set (order_desc f t) = set t" "set (order_asc f t) = set t"
  by (simp_all add: order_desc_def order_asc_def)

lemma length_order [simp]: "length (order_desc f t) = length t" "length (order_asc f t) = length t"
  by (simp_all add: order_desc_def order_asc_def)

lemma first_row_None [simp]: "first_row t = None \<longleftrightarrow> t = []"
  by (simp add: first_row_def split: list.splits)

lemma order_desc_Nil [simp]: "order_desc f t = [] \<longleftrightarrow> t = []"
  by (metis set_empty set_order(1))

lemma first_row_desc:
  assumes "first_row (order_desc f t) = Some r"
  shows "r \<in> set t \<and> (\<forall>x \<in> set t. f x \<le> f r)"
proof -
  obtain rs where o: "order_desc f t = r # rs"
    using assms by (auto simp: first_row_def split: list.splits)
  have "sorted (map (\<lambda>r. - f r) (order_desc f t))"
    by (simp add: order_desc_def)
  then have "\<forall>x \<in> set (r # rs). - f r \<le> - f x"
    by (simp add: o)
  moreover have "set (r # rs) = set t"
    using set_order(1)[of f t] o by simp
  ultimately show ?thesis by auto
qed

lemma first_row_desc_None: "first_row (order_desc f t) = None \<longleftrightarrow> t = []"
  by simp

section \<open>Lists and options\<close>

lemma find_filter: "find p xs = first_row (filter p xs)"
  by (induction xs) (auto simp: first_row_def)

lemma filter_find_None: "find p xs = None \<longleftrightarrow> filter p xs = []"
  by (induction xs) auto

lemma ex_set_find: "(\<exists>x \<in> set xs. p x) \<longleftrightarrow> find p xs \<noteq> None"
  by (auto simp: find_None_iff)

end
