(* ===== verification/GoStrings.thy ===== *)
theory GoStrings
  imports Prelude
begin

text \<open>
  The functions of Go's \<open>strings\<close>, \<open>strconv\<close> and \<open>fmt\<close> packages and of SQL on text that
  the source uses, on byte strings. A Go string is its list of bytes; case mapping and
  white space are those of the ASCII bytes, and bytes from 128 on are left alone (Go also
  maps letters outside ASCII, which no literal of the source contains).
\<close>

named_theorems str_simps \<open>facts on the Go string functions\<close>

section \<open>Characters\<close>

abbreviation ord :: "char \<Rightarrow> nat" where "ord c \<equiv> of_char c"

definition is_upper :: "char \<Rightarrow> bool" where
  "is_upper c \<longleftrightarrow> 65 \<le> ord c \<and> ord c \<le> 90"

definition is_lower :: "char \<Rightarrow> bool" where
  "is_lower c \<longleftrightarrow> 97 \<le> ord c \<and> ord c \<le> 122"

definition is_digit :: "char \<Rightarrow> bool" where
  "is_digit c \<longleftrightarrow> 48 \<le> ord c \<and> ord c \<le> 57"

definition is_letter :: "char \<Rightarrow> bool" where
  "is_letter c \<longleftrightarrow> is_lower c \<or> is_upper c"

definition is_space :: "char \<Rightarrow> bool" where
  "is_space c \<longleftrightarrow> (9 \<le> ord c \<and> ord c \<le> 13) \<or> ord c = 32"

definition lower_char :: "char \<Rightarrow> char" where
  "lower_char c = (if is_upper c then char_of (ord c + 32) else c)"

definition upper_char :: "char \<Rightarrow> char" where
  "upper_char c = (if is_lower c then char_of (ord c - 32) else c)"

lemma ord_char_of: "n < 256 \<Longrightarrow> ord (char_of n) = n"
  by (simp add: of_char_of)

lemma ord_lower_char: "ord (lower_char c) = (if is_upper c then ord c + 32 else ord c)"
  by (simp add: lower_char_def is_upper_def ord_char_of)

lemma lower_char_not_upper [simp]: "\<not> is_upper (lower_char c)"
  by (auto simp: is_upper_def ord_lower_char)

lemma lower_char_idem [simp]: "lower_char (lower_char c) = lower_char c"
  by (simp add: lower_char_def [of "lower_char c"])

lemma is_space_lower [simp]: "is_space (lower_char c) = is_space c"
  by (auto simp: is_space_def ord_lower_char is_upper_def)

section \<open>Case, white space, splitting and joining\<close>

definition to_lower :: "string \<Rightarrow> string" where
  "to_lower s = map lower_char s"

definition to_upper :: "string \<Rightarrow> string" where
  "to_upper s = map upper_char s"

definition equal_fold :: "string \<Rightarrow> string \<Rightarrow> bool" where
  "equal_fold s t \<longleftrightarrow> to_lower s = to_lower t"

definition trim_left :: "string \<Rightarrow> string" where
  "trim_left s = dropWhile is_space s"

definition trim_space :: "string \<Rightarrow> string" where
  "trim_space s = rev (dropWhile is_space (rev (trim_left s)))"

fun split_pred :: "(char \<Rightarrow> bool) \<Rightarrow> string \<Rightarrow> string list" where
  "split_pred p [] = [[]]"
| "split_pred p (c # cs) =
     (if p c then [] # split_pred p cs
      else (case split_pred p cs of [] \<Rightarrow> [[c]] | w # ws \<Rightarrow> (c # w) # ws))"

definition str_fields :: "string \<Rightarrow> string list" where
  "str_fields s = filter (\<lambda>w. w \<noteq> []) (split_pred is_space s)"

definition split_char :: "char \<Rightarrow> string \<Rightarrow> string list" where
  "split_char sep s = split_pred (\<lambda>c. c = sep) s"

fun join_str :: "string \<Rightarrow> string list \<Rightarrow> string" where
  "join_str sep [] = []"
| "join_str sep [w] = w"
| "join_str sep (w # v # ws) = w @ sep @ join_str sep (v # ws)"

lemma to_lower_idem [simp]: "to_lower (to_lower s) = to_lower s"
  by (simp add: to_lower_def)

lemma to_lower_append [simp]: "to_lower (s @ t) = to_lower s @ to_lower t"
  by (simp add: to_lower_def)

lemma to_lower_Nil [simp]: "to_lower s = [] \<longleftrightarrow> s = []" "to_lower [] = []"
  by (simp_all add: to_lower_def)

lemma length_to_lower [simp]: "length (to_lower s) = length s"
  by (simp add: to_lower_def)

lemma equal_fold_refl [simp]: "equal_fold s s"
  by (simp add: equal_fold_def)

lemma equal_fold_sym: "equal_fold s t \<Longrightarrow> equal_fold t s"
  by (simp add: equal_fold_def)

lemma equal_fold_trans: "equal_fold s t \<Longrightarrow> equal_fold t u \<Longrightarrow> equal_fold s u"
  by (simp add: equal_fold_def)

lemma equal_fold_lower [simp]: "equal_fold (to_lower s) t = equal_fold s t"
  "equal_fold s (to_lower t) = equal_fold s t"
  by (simp_all add: equal_fold_def)

lemma dropWhile_idem: "dropWhile p (dropWhile p xs) = dropWhile p xs"
  by (induction xs) auto

lemma dropWhile_head: "dropWhile p xs = [] \<or> \<not> p (hd (dropWhile p xs))"
  by (metis hd_dropWhile)

lemma dropWhile_keep: "xs = [] \<or> \<not> p (hd xs) \<Longrightarrow> dropWhile p xs = xs"
  by (cases xs) auto

lemma hd_trim_right: "rev (dropWhile p (rev xs)) = [] \<or> hd (rev (dropWhile p (rev xs))) = hd xs"
proof -
  have "xs = rev (dropWhile p (rev xs)) @ rev (takeWhile p (rev xs))"
    by (metis rev_append rev_rev_ident takeWhile_dropWhile_id)
  then show ?thesis by (metis hd_append2)
qed

lemma trim_space_idem [simp]: "trim_space (trim_space s) = trim_space s"
proof -
  let ?u = "dropWhile is_space s"
  let ?r = "rev (dropWhile is_space (rev ?u))"
  have "?u = [] \<or> \<not> is_space (hd ?u)" by (rule dropWhile_head)
  moreover have "?r = [] \<or> hd ?r = hd ?u" by (rule hd_trim_right)
  ultimately have "?r = [] \<or> \<not> is_space (hd ?r)" by (metis dropWhile.simps(1) rev.simps(1))
  then have "dropWhile is_space ?r = ?r" by (rule dropWhile_keep)
  then show ?thesis unfolding trim_space_def trim_left_def by (simp add: dropWhile_idem)
qed

lemma split_pred_nonempty [simp]: "split_pred p s \<noteq> []"
  by (induction s) (auto split: list.splits)

lemma split_pred_word:
  assumes "\<forall>c \<in> set w. \<not> p c"
  shows "split_pred p w = [w]"
  using assms by (induction w) auto

lemma split_pred_app:
  assumes "\<forall>c \<in> set w. \<not> p c" and "p d"
  shows "split_pred p (w @ d # s) = w # split_pred p s"
  using assms by (induction w) auto

lemma split_pred_no_sep: "\<forall>w \<in> set (split_pred p s). \<forall>c \<in> set w. \<not> p c"
proof (induction s)
  case Nil
  then show ?case by simp
next
  case (Cons a s)
  then show ?case by (cases "split_pred p s") auto
qed

lemma str_fields_word: "w \<in> set (str_fields s) \<Longrightarrow> w \<noteq> [] \<and> (\<forall>c \<in> set w. \<not> is_space c)"
  by (auto simp: str_fields_def split_pred_no_sep[rule_format])

text \<open>Splitting what was joined gives the words back: \<open>strings.Fields\<close> undoes
  \<open>strings.Join(_, " ")\<close> on words without white space.\<close>

lemma str_fields_join:
  assumes "\<forall>w \<in> set ws. w \<noteq> [] \<and> (\<forall>c \<in> set w. \<not> is_space c)"
  shows "str_fields (join_str '' '' ws) = ws"
  using assms
proof (induction "'' ''::string" ws rule: join_str.induct)
  case 1
  then show ?case by (simp add: str_fields_def)
next
  case (2 w)
  then show ?case by (simp add: str_fields_def split_pred_word)
next
  case (3 w v ws)
  have sp: "is_space CHR '' ''" by (simp add: is_space_def)
  from 3 have "split_pred is_space (w @ CHR '' '' # join_str '' '' (v # ws))
      = w # split_pred is_space (join_str '' '' (v # ws))"
    by (intro split_pred_app) (use sp in auto)
  with 3 show ?case by (simp add: str_fields_def)
qed

section \<open>Searching\<close>

fun has_prefix :: "string \<Rightarrow> string \<Rightarrow> bool" where
  "has_prefix s [] = True"
| "has_prefix [] (p # ps) = False"
| "has_prefix (c # cs) (p # ps) = (c = p \<and> has_prefix cs ps)"

fun contains_str :: "string \<Rightarrow> string \<Rightarrow> bool" where
  "contains_str [] sub = (sub = [])"
| "contains_str (c # cs) sub = (has_prefix (c # cs) sub \<or> contains_str cs sub)"

fun index_str :: "string \<Rightarrow> string \<Rightarrow> nat option" where
  "index_str [] sub = (if sub = [] then Some 0 else None)"
| "index_str (c # cs) sub =
     (if has_prefix (c # cs) sub then Some 0 else map_option Suc (index_str cs sub))"

definition has_suffix :: "string \<Rightarrow> string \<Rightarrow> bool" where
  "has_suffix s t = has_prefix (rev s) (rev t)"

definition trim_suffix :: "string \<Rightarrow> string \<Rightarrow> string" where
  "trim_suffix s t = (if has_suffix s t then take (length s - length t) s else s)"

definition contains_any :: "string \<Rightarrow> string list \<Rightarrow> bool" where
  "contains_any s subs = (\<exists>sub \<in> set subs. contains_str s sub)"

lemma has_prefix_iff: "has_prefix s p \<longleftrightarrow> (\<exists>t. s = p @ t)"
  by (induction s p rule: has_prefix.induct) auto

lemma contains_iff: "contains_str s sub \<longleftrightarrow> (\<exists>u v. s = u @ sub @ v)"
proof (induction s)
  case Nil
  then show ?case by simp
next
  case (Cons c cs)
  have "(\<exists>u v. c # cs = u @ sub @ v) \<longleftrightarrow>
        (\<exists>v. c # cs = sub @ v) \<or> (\<exists>u v. cs = u @ sub @ v)"
    by (auto simp: Cons_eq_append_conv)
  with Cons show ?case by (simp add: has_prefix_iff)
qed

lemma contains_appendI: "contains_str s sub \<Longrightarrow> contains_str (p @ s @ q) sub"
proof -
  assume "contains_str s sub"
  then obtain u v where "s = u @ sub @ v" by (auto simp: contains_iff)
  then have "p @ s @ q = (p @ u) @ sub @ (v @ q)" by simp
  then show ?thesis unfolding contains_iff by blast
qed

lemma index_contains: "index_str s sub = None \<longleftrightarrow> \<not> contains_str s sub"
  by (induction s) auto

lemma index_str_Some: "index_str s sub = Some i \<Longrightarrow> has_prefix (drop i s) sub \<and> i + length sub \<le> length s"
proof (induction s arbitrary: i)
  case Nil
  then show ?case by (auto split: if_splits)
next
  case (Cons c cs)
  show ?case
  proof (cases "has_prefix (c # cs) sub")
    case True
    with Cons.prems show ?thesis by (auto simp: has_prefix_iff dest: arg_cong[where f = length])
  next
    case False
    with Cons show ?thesis by auto
  qed
qed

lemma has_prefix_contains: "has_prefix s p \<Longrightarrow> contains_str s p"
  by (metis has_prefix_iff contains_iff append_Nil)

lemma contains_lower: "contains_str s sub \<Longrightarrow> contains_str (to_lower s) (to_lower sub)"
  by (auto simp: contains_iff) metis

section \<open>SQL text\<close>

text \<open>\<open>s LIKE pattern\<close> with the default escape character (a backslash).\<close>

fun sql_like :: "string \<Rightarrow> string \<Rightarrow> bool" where
  "sql_like [] s = (s = [])"
| "sql_like (q # p) [] = (q = CHR ''%'' \<and> sql_like p [])"
| "sql_like (q # p) (c # s) =
     (if q = CHR ''%'' then sql_like p (c # s) \<or> sql_like (q # p) s
      else if q = CHR ''_'' then sql_like p s
      else if q = CHR 0x5C then (case p of [] \<Rightarrow> False | e # p' \<Rightarrow> e = c \<and> sql_like p' s)
      else q = c \<and> sql_like p s)"

definition like_plain :: "string \<Rightarrow> bool" where
  "like_plain p \<longleftrightarrow> (\<forall>c \<in> set p. c \<noteq> CHR ''%'' \<and> c \<noteq> CHR ''_'' \<and> c \<noteq> CHR 0x5C)"

lemma sql_like_any: "sql_like ''%'' s"
  by (induction s) auto

lemma sql_like_prefix:
  assumes "like_plain p"
  shows "sql_like (p @ ''%'') s \<longleftrightarrow> has_prefix s p"
  using assms
proof (induction p arbitrary: s)
  case Nil
  then show ?case by (simp add: sql_like_any)
next
  case (Cons c p)
  then show ?case by (cases s) (auto simp: like_plain_def)
qed

text \<open>A pattern without wildcards between two \<open>%\<close> tests for a substring.\<close>

lemma sql_like_contains:
  assumes "like_plain p"
  shows "sql_like (CHR ''%'' # p @ ''%'') s \<longleftrightarrow> contains_str s p"
proof (induction s)
  case Nil
  have "sql_like (p @ ''%'') [] \<longleftrightarrow> has_prefix [] p"
    using assms by (rule sql_like_prefix)
  then show ?case by (cases p) auto
next
  case (Cons c s)
  have "sql_like (p @ ''%'') (c # s) \<longleftrightarrow> has_prefix (c # s) p"
    using assms by (rule sql_like_prefix)
  with Cons show ?case by simp
qed

section \<open>Numbers\<close>

definition digit_char :: "nat \<Rightarrow> char" where
  "digit_char d = char_of (48 + d)"

fun show_nat :: "nat \<Rightarrow> string" where
  "show_nat n = (if n < 10 then [digit_char n] else show_nat (n div 10) @ [digit_char (n mod 10)])"

declare show_nat.simps [simp del]

definition show_int :: "int \<Rightarrow> string" where
  "show_int i = (if i < 0 then CHR ''-'' # show_nat (nat (- i)) else show_nat (nat i))"

definition digit_val :: "char \<Rightarrow> nat" where
  "digit_val c = ord c - 48"

definition read_nat :: "string \<Rightarrow> nat" where
  "read_nat ds = foldl (\<lambda>n c. 10 * n + digit_val c) 0 ds"

lemma ord_digit_char: "d < 10 \<Longrightarrow> ord (digit_char d) = 48 + d"
  by (simp add: digit_char_def ord_char_of)

lemma digit_val_char [simp]: "d < 10 \<Longrightarrow> digit_val (digit_char d) = d"
  by (simp add: digit_val_def ord_digit_char)

lemma is_digit_char [simp]: "d < 10 \<Longrightarrow> is_digit (digit_char d)"
  by (simp add: is_digit_def ord_digit_char)

lemma show_nat_digits: "\<forall>c \<in> set (show_nat n). is_digit c"
proof (induction n rule: show_nat.induct)
  case (1 n)
  show ?case
  proof (cases "n < 10")
    case True
    then show ?thesis by (simp add: show_nat.simps [of n])
  next
    case False
    with 1 show ?thesis by (simp add: show_nat.simps [of n])
  qed
qed

lemma show_nat_nonempty [simp]: "show_nat n \<noteq> []"
  by (simp add: show_nat.simps [of n])

text \<open>Reading a printed number gives it back.\<close>

lemma read_show_nat: "read_nat (show_nat n) = n"
proof (induction n rule: show_nat.induct)
  case (1 n)
  show ?case
  proof (cases "n < 10")
    case True
    then show ?thesis by (simp add: show_nat.simps [of n] read_nat_def)
  next
    case False
    then have "read_nat (show_nat (n div 10)) = n div 10" using 1 by simp
    with False show ?thesis by (simp add: show_nat.simps [of n] read_nat_def)
  qed
qed

lemma show_nat_inj [simp]: "show_nat m = show_nat n \<longleftrightarrow> m = n"
  by (metis read_show_nat)

section \<open>Maps of strings\<close>

text \<open>A \<open>map[string]string\<close> is the list of its entries, the first entry of a key being its
  value; reading an absent key gives the empty string, as Go's zero value does.\<close>

type_synonym smap = "(string \<times> string) list"

definition sget :: "smap \<Rightarrow> string \<Rightarrow> string" where
  "sget m k = (case map_of m k of None \<Rightarrow> [] | Some v \<Rightarrow> v)"

lemma sget_Nil [simp]: "sget [] k = []"
  by (simp add: sget_def)

lemma sget_Cons [simp]: "sget ((j, v) # m) k = (if k = j then v else sget m k)"
  by (auto simp: sget_def)

section \<open>Evaluation of character classes\<close>

text \<open>On the bits of a character, for concrete texts.\<close>

lemma is_upper_code [code]:
  "is_upper (Char b0 b1 b2 b3 b4 b5 b6 b7) \<longleftrightarrow> \<not> b7 \<and> b6 \<and> \<not> b5 \<and> (b0 \<or> b1 \<or> b2 \<or> b3 \<or> b4) \<and>
     (b4 \<and> b3 \<longrightarrow> \<not> b2 \<and> \<not> (b1 \<and> b0))"
  by (cases b0; cases b1; cases b2; cases b3; cases b4; cases b5; cases b6; cases b7) (simp_all add: is_upper_def)
lemma is_lower_code [code]:
  "is_lower (Char b0 b1 b2 b3 b4 b5 b6 b7) \<longleftrightarrow> \<not> b7 \<and> b6 \<and> b5 \<and> (b0 \<or> b1 \<or> b2 \<or> b3 \<or> b4) \<and>
     (b4 \<and> b3 \<longrightarrow> \<not> b2 \<and> \<not> (b1 \<and> b0))"
  by (cases b0; cases b1; cases b2; cases b3; cases b4; cases b5; cases b6; cases b7) (simp_all add: is_lower_def)
lemma is_digit_code [code]:
  "is_digit (Char b0 b1 b2 b3 b4 b5 b6 b7) \<longleftrightarrow> \<not> b7 \<and> \<not> b6 \<and> b5 \<and> b4 \<and> (b3 \<longrightarrow> \<not> b2 \<and> \<not> b1)"
  by (cases b0; cases b1; cases b2; cases b3; cases b4; cases b5; cases b6; cases b7) (simp_all add: is_digit_def)
lemma is_space_code [code]:
  "is_space (Char b0 b1 b2 b3 b4 b5 b6 b7) \<longleftrightarrow> \<not> b7 \<and> \<not> b6 \<and> \<not> b4 \<and>
     (if b5 then \<not> (b0 \<or> b1 \<or> b2 \<or> b3) else b3 \<and> (b0 \<or> b1 \<or> b2) \<and> \<not> (b2 \<and> b1))"
  by (cases b0; cases b1; cases b2; cases b3; cases b4; cases b5; cases b6; cases b7) (simp_all add: is_space_def)
lemma lower_char_code [code]:
  "lower_char (Char b0 b1 b2 b3 b4 b5 b6 b7) =
     (let c = Char b0 b1 b2 b3 b4 b5 b6 b7 in if is_upper c then Char b0 b1 b2 b3 b4 True b6 b7 else c)"
  by (cases b0; cases b1; cases b2; cases b3; cases b4; cases b5; cases b6; cases b7)
     (simp_all add: lower_char_def is_upper_def char_of_def bit_numeral_rec bit_Suc bit_0 Let_def char_of_eq_iff of_char_def)
lemma upper_char_code [code]:
  "upper_char (Char b0 b1 b2 b3 b4 b5 b6 b7) =
     (let c = Char b0 b1 b2 b3 b4 b5 b6 b7 in if is_lower c then Char b0 b1 b2 b3 b4 False b6 b7 else c)"
  by (cases b0; cases b1; cases b2; cases b3; cases b4; cases b5; cases b6; cases b7)
     (simp_all add: upper_char_def is_lower_def char_of_def bit_numeral_rec bit_Suc bit_0 Let_def char_of_eq_iff of_char_def)

section \<open>Pieces\<close>

lemma split_pred_append: "p c \<Longrightarrow> split_pred p (a @ c # b) = split_pred p a @ split_pred p b"
  by (induction a) (auto split: list.splits)

lemma split_pred_unfold:
  "split_pred p s = takeWhile (\<lambda>c. \<not> p c) s #
     (case dropWhile (\<lambda>c. \<not> p c) s of [] \<Rightarrow> [] | c # r \<Rightarrow> split_pred p r)"
  by (induction s) auto

lemma split_pred_mem:
  "w \<in> set (split_pred p s) \<longleftrightarrow>
     (\<exists>a b. s = a @ w @ b \<and> (\<forall>c \<in> set w. \<not> p c) \<and> (a = [] \<or> p (last a)) \<and> (b = [] \<or> p (hd b)))"
proof
  show "w \<in> set (split_pred p s) \<Longrightarrow>
    \<exists>a b. s = a @ w @ b \<and> (\<forall>c \<in> set w. \<not> p c) \<and> (a = [] \<or> p (last a)) \<and> (b = [] \<or> p (hd b))"
  proof (induction s rule: length_induct)
    case (1 s)
    let ?t = "takeWhile (\<lambda>c. \<not> p c) s"
    show ?case
    proof (cases "w = ?t")
      case True
      have "s = [] @ ?t @ dropWhile (\<lambda>c. \<not> p c) s" by simp
      moreover have "dropWhile (\<lambda>c. \<not> p c) s = [] \<or> p (hd (dropWhile (\<lambda>c. \<not> p c) s))"
        using hd_dropWhile[of "\<lambda>c. \<not> p c" s] by auto
      ultimately show ?thesis using True by (metis set_takeWhileD)
    next
      case False
      with 1(2) obtain c r where d: "dropWhile (\<lambda>c. \<not> p c) s = c # r" and w: "w \<in> set (split_pred p r)"
        by (cases "dropWhile (\<lambda>c. \<not> p c) s") (simp_all add: split_pred_unfold[of p s])
      have s: "s = (?t @ [c]) @ r" using d by (metis append_Cons append_Nil append_assoc takeWhile_dropWhile_id)
      have c: "p c" using hd_dropWhile[of "\<lambda>c. \<not> p c" s] d by simp
      have "length r < length s" by (subst s) simp
      with 1(1) w obtain a b where "r = a @ w @ b" "\<forall>c \<in> set w. \<not> p c" "a = [] \<or> p (last a)" "b = [] \<or> p (hd b)"
        by blast
      then show ?thesis using c by (intro exI[of _ "(?t @ [c]) @ a"] exI[of _ b]) (use s in auto)
    qed
  qed
next
  assume "\<exists>a b. s = a @ w @ b \<and> (\<forall>c \<in> set w. \<not> p c) \<and> (a = [] \<or> p (last a)) \<and> (b = [] \<or> p (hd b))"
  then obtain a b where s: "s = a @ w @ b" and w: "\<forall>c \<in> set w. \<not> p c" and a: "a = [] \<or> p (last a)"
    and b: "b = [] \<or> p (hd b)" by blast
  have own: "split_pred p (w @ b) = [w] @ (if b = [] then [] else split_pred p (tl b))"
    using w b by (cases b) (simp_all add: split_pred_word split_pred_app)
  show "w \<in> set (split_pred p s)"
  proof (cases "a = []")
    case False
    then have "s = butlast a @ last a # (w @ b)" using s by simp
    with split_pred_append[of p "last a" "butlast a" "w @ b"] a False own show ?thesis by simp
  qed (use s own in simp)
qed

end
