(* ===== verification/CommandPolicy.thy ===== *)
theory CommandPolicy
  imports GoStrings
begin

text \<open>
  The command gate of \<open>internal/security/command_policy.go\<close>: which commands the backend
  forwards to a remote agent. \<open>evaluate_command\<close> is \<open>EvaluateCommand\<close> with its three rules
  in order (injection check, observe allowlist, approval gate); \<open>contains_injection\<close> and
  \<open>in_allowlist\<close> are its two loops. The locale \<open>command_gate\<close> is what a caller that forwards
  commands (the remediation orchestrator) relies on.
\<close>

section \<open>Decisions\<close>

type_synonym ExecutionMode = string

definition ModeObserve :: ExecutionMode where "ModeObserve = ''observe''"
definition ModeAct :: ExecutionMode where "ModeAct = ''act''"

record PolicyDecision =
  pd_allowed :: bool
  pd_mode :: ExecutionMode
  pd_reason :: string
  pd_sanitized :: string

definition shellDangerousSequences :: "string list" where
  "shellDangerousSequences =
    [''&&'', ''||'', '';'', ''|'', [CHR 0x60], ''$('', ''${'']"

definition observeAllowlist :: "string list" where
  "observeAllowlist =
    [''df '', ''df'' @ [CHR 0x09], ''du '', ''free '', ''free'' @ [CHR 0x09], ''top '', ''uptime'',
     ''cat /proc/'', ''cat /etc/os-release'', ''cat /var/log/'', ''ps aux'', ''ps -ef'',
     ''netstat '', ''ss '', ''ip addr'', ''ip route'', ''systemctl status'',
     ''systemctl is-active'', ''journalctl '', ''docker ps'', ''docker stats'',
     ''docker system df'', ''kubectl get'', ''kubectl describe'', ''kubectl logs'',
     ''kubectl top'', ''lsblk'', ''lsof '', ''iostat'', ''vmstat'', ''mpstat'', ''sar '',
     ''nslookup '', ''dig '', ''ping '', ''traceroute '', ''curl '', ''head '', ''tail '',
     ''wc '', ''sort '', ''grep '', ''find '', ''ls '', ''hostname'', ''uname '', ''sysctl '',
     ''mount'', ''blkid'', ''fdisk -l'']"

text \<open>\<open>containsInjection\<close>: the first forbidden sequence that occurs.\<close>

definition contains_injection :: "string \<Rightarrow> string option" where
  "contains_injection cmd = find (contains_str cmd) shellDangerousSequences"

definition in_allowlist :: "string \<Rightarrow> bool" where
  "in_allowlist cmd =
     (\<exists>prefix \<in> set observeAllowlist. has_prefix (to_lower cmd) (to_lower prefix))"

definition deny :: "ExecutionMode \<Rightarrow> string \<Rightarrow> PolicyDecision" where
  "deny mode reason = \<lparr>pd_allowed = False, pd_mode = mode, pd_reason = reason, pd_sanitized = []\<rparr>"

definition em_dash :: string where "em_dash = [CHR 0xE2, CHR 0x80, CHR 0x94]"

definition evaluate_command :: "string \<Rightarrow> string \<Rightarrow> bool \<Rightarrow> PolicyDecision" where
  "evaluate_command cmd0 actionType approved =
    (let cmd = trim_space cmd0 in
     if cmd = [] then deny [] ''empty command''
     else case contains_injection cmd of
       Some seq \<Rightarrow> deny [] (''command blocked: forbidden shell sequence '' @ [CHR 0x22] @ seq
                            @ [CHR 0x22] @ '' detected'')
     | None \<Rightarrow>
        if \<not> in_allowlist cmd then
          deny ModeAct (''command is not in the diagnostic observe allowlist '' @ em_dash
                @ '' only read-only diagnostic commands may be forwarded to agents'')
        else if actionType = ''remediation'' \<and> \<not> approved then
          deny ModeObserve ''remediation action requires explicit operator approval before agent execution''
        else
          \<lparr>pd_allowed = True, pd_mode = ModeObserve,
           pd_reason = ''command passed injection check, observe allowlist, and approval policy'',
           pd_sanitized = cmd\<rparr>)"

definition classify_action_mode :: "string \<Rightarrow> ExecutionMode" where
  "classify_action_mode actionType =
     (if to_lower actionType = ''remediation'' then ModeAct else ModeObserve)"

section \<open>What the gate promises\<close>

text \<open>A command that may be forwarded: not empty, without surrounding white space, free of
  every forbidden sequence and starting with an allowlisted prefix.\<close>

definition forwardable :: "string \<Rightarrow> bool" where
  "forwardable cmd \<longleftrightarrow>
     cmd \<noteq> [] \<and> trim_space cmd = cmd \<and>
     (\<forall>seq \<in> set shellDangerousSequences. \<not> contains_str cmd seq) \<and>
     in_allowlist cmd"

lemma contains_injection_None:
  "contains_injection cmd = None \<longleftrightarrow> (\<forall>seq \<in> set shellDangerousSequences. \<not> contains_str cmd seq)"
  by (auto simp: contains_injection_def find_None_iff)

lemma contains_injection_Some:
  "contains_injection cmd = Some seq \<Longrightarrow> seq \<in> set shellDangerousSequences \<and> contains_str cmd seq"
  by (auto simp: contains_injection_def find_Some_iff)

lemma deny_simps [simp]:
  "pd_allowed (deny m r) = False" "pd_mode (deny m r) = m" "pd_reason (deny m r) = r"
  "pd_sanitized (deny m r) = []"
  by (simp_all add: deny_def)

lemma evaluate_command_allowed_iff:
  "pd_allowed (evaluate_command cmd ty approved) \<longleftrightarrow>
     forwardable (trim_space cmd) \<and> (ty = ''remediation'' \<longrightarrow> approved)"
proof (cases "contains_injection (trim_space cmd)")
  case None
  then have "\<forall>seq \<in> set shellDangerousSequences. \<not> contains_str (trim_space cmd) seq"
    by (simp only: contains_injection_None)
  with None show ?thesis by (simp add: evaluate_command_def Let_def forwardable_def)
next
  case (Some seq)
  from contains_injection_Some[OF this] have "\<not> forwardable (trim_space cmd)"
    by (auto simp: forwardable_def)
  with Some show ?thesis by (simp add: evaluate_command_def Let_def)
qed

lemma evaluate_command_sanitized:
  "pd_sanitized (evaluate_command cmd ty approved) =
     (if pd_allowed (evaluate_command cmd ty approved) then trim_space cmd else [])"
  by (simp add: evaluate_command_def Let_def split: option.split)

lemma evaluate_command_trim:
  "evaluate_command (trim_space cmd) ty approved = evaluate_command cmd ty approved"
  by (simp add: evaluate_command_def)

section \<open>The interface of the gate\<close>

locale command_gate =
  fixes gate :: "string \<Rightarrow> string \<Rightarrow> bool \<Rightarrow> PolicyDecision"
    and safe :: "string \<Rightarrow> bool"
  assumes gate_safe: "pd_allowed (gate cmd ty approved) \<Longrightarrow> safe (pd_sanitized (gate cmd ty approved))"
    and gate_approval: "pd_allowed (gate cmd ''remediation'' approved) \<Longrightarrow> approved"
    and gate_mono: "pd_allowed (gate cmd ty False) \<Longrightarrow> gate cmd ty True = gate cmd ty False"
begin

lemma gate_unsafe: "\<not> safe (pd_sanitized (gate cmd ty approved)) \<Longrightarrow> \<not> pd_allowed (gate cmd ty approved)"
  using gate_safe by blast

lemma gate_remediation: "\<not> pd_allowed (gate cmd ''remediation'' False)"
  using gate_approval by blast

text \<open>Forwarding a list of commands through the gate forwards safe commands only.\<close>

definition forwarded :: "string \<Rightarrow> bool \<Rightarrow> string list \<Rightarrow> string list" where
  "forwarded ty approved cmds =
     map (\<lambda>c. pd_sanitized (gate c ty approved)) (filter (\<lambda>c. pd_allowed (gate c ty approved)) cmds)"

lemma forwarded_safe: "c \<in> set (forwarded ty approved cmds) \<Longrightarrow> safe c"
  using gate_safe by (auto simp: forwarded_def)

end

interpretation cmd_gate: command_gate evaluate_command forwardable
proof unfold_locales
  fix cmd ty approved
  assume "pd_allowed (evaluate_command cmd ty approved)"
  then show "forwardable (pd_sanitized (evaluate_command cmd ty approved))"
    by (simp add: evaluate_command_sanitized evaluate_command_allowed_iff)
next
  fix cmd approved
  assume "pd_allowed (evaluate_command cmd ''remediation'' approved)"
  then show "approved" by (simp add: evaluate_command_allowed_iff)
next
  fix cmd ty
  assume "pd_allowed (evaluate_command cmd ty False)"
  then have "ty \<noteq> ''remediation''" by (auto simp: evaluate_command_allowed_iff)
  then show "evaluate_command cmd ty True = evaluate_command cmd ty False"
    by (simp add: evaluate_command_def Let_def split: option.split)
qed

section \<open>Properties\<close>

text \<open>C1: the command gate decides exactly by its three rules. \<open>EvaluateCommand\<close> allows a
  command if and only if the trimmed command is not empty, contains none of the forbidden
  shell sequences, starts (ignoring case) with an allowlisted prefix, and, for a remediation
  action, carries an approval; the command it hands on is then the trimmed one, and a second
  evaluation of what it hands on gives the same decision.\<close>

theorem command_gate_exact:
  "(pd_allowed (evaluate_command cmd ty approved) \<longleftrightarrow>
      trim_space cmd \<noteq> [] \<and>
      (\<forall>seq \<in> set shellDangerousSequences. \<not> contains_str (trim_space cmd) seq) \<and>
      in_allowlist (trim_space cmd) \<and> (ty = ''remediation'' \<longrightarrow> approved)) \<and>
   (pd_allowed (evaluate_command cmd ty approved) \<longrightarrow>
      pd_sanitized (evaluate_command cmd ty approved) = trim_space cmd \<and>
      evaluate_command (pd_sanitized (evaluate_command cmd ty approved)) ty approved =
        evaluate_command cmd ty approved)"
  by (auto simp: evaluate_command_allowed_iff forwardable_def evaluate_command_sanitized
      evaluate_command_trim)

theorem command_gate_exact_witness:
  "pd_allowed (evaluate_command ''  Uptime -p'' ''diagnostic'' False) \<and>
   pd_sanitized (evaluate_command ''  Uptime -p'' ''diagnostic'' False) = ''Uptime -p'' \<and>
   \<not> pd_allowed (evaluate_command ''uptime; reboot'' ''diagnostic'' True)"
proof -
  have a: "pd_allowed (evaluate_command ''  Uptime -p'' ''diagnostic'' False)" by code_simp
  have b: "trim_space ''  Uptime -p'' = ''Uptime -p''" by code_simp
  have c: "\<not> pd_allowed (evaluate_command ''uptime; reboot'' ''diagnostic'' True)" by code_simp
  from a b c command_gate_exact[of "''  Uptime -p''" "''diagnostic''" False] show ?thesis by simp
qed

text \<open>The gate does not stop every chaining of commands. The single ampersand, the
  newline and the output redirection are not among the forbidden sequences, so an allowlisted
  prefix followed by one of them and any other command is allowed for diagnostics without an
  approval, although the package promises that dangerous sequences are blocked.\<close>

theorem command_gate_gap:
  "pd_allowed (evaluate_command ''uptime & reboot'' ''diagnostic'' False) \<and>
   pd_allowed (evaluate_command (''uptime'' @ [CHR 0x0A] @ ''reboot'') ''diagnostic'' False) \<and>
   pd_allowed (evaluate_command ''df -h > /etc/passwd'' ''diagnostic'' False) \<and>
   pd_allowed (evaluate_command ''find / -delete'' ''diagnostic'' False)"
  by (intro conjI) code_simp+

end
