(* ===== verification/Models.thy ===== *)
theory Models
  imports GoStrings
begin

text \<open>
  The data of \<open>internal/models\<close> that the stores and services share: \<open>Event\<close> (the persisted
  form of an alert, \<open>models/event.go\<close>), \<open>Incident\<close> (\<open>models/incident.go\<close>) and the filter and
  page of the incident list (\<open>models/incident_list.go\<close>). A record has the fields of the Go
  struct in their order, with a prefix for the struct. A \<open>*time.Time\<close> is a \<open>time option\<close>; a
  nil slice and an empty slice are both \<open>[]\<close>.
\<close>

definition SeverityUnknown :: string where "SeverityUnknown = ''unknown''"

definition AlertValueLabels :: "string list" where
  "AlertValueLabels =
    [''annotation.value'', ''grafana.value'', ''zabbix.item_value'', ''otel.metric.value'']"

record Event =
  ev_id :: string
  ev_tenant_id :: string
  ev_source :: string
  ev_external_id :: string
  ev_service :: string
  ev_resource :: string
  ev_environment :: string
  ev_severity :: string
  ev_type :: string
  ev_title :: string
  ev_message :: string
  ev_labels :: smap
  ev_timestamp :: time
  ev_alert_status :: string
  ev_fingerprint :: string
  ev_trace_id :: string
  ev_span_id :: string
  ev_ingest_schema :: string
  ev_attrs_json :: string

text \<open>Go's zero value of the struct.\<close>

definition event_zero :: Event where
  "event_zero = \<lparr>ev_id = [], ev_tenant_id = [], ev_source = [], ev_external_id = [],
     ev_service = [], ev_resource = [], ev_environment = [], ev_severity = [], ev_type = [],
     ev_title = [], ev_message = [], ev_labels = [], ev_timestamp = zero_time,
     ev_alert_status = [], ev_fingerprint = [], ev_trace_id = [], ev_span_id = [],
     ev_ingest_schema = [], ev_attrs_json = []\<rparr>"

record Incident =
  inc_id :: string
  inc_service :: string
  inc_severity :: string
  inc_status :: string
  inc_event_ids :: "string list"
  inc_first_event_time :: time
  inc_last_event_time :: time
  inc_title :: string
  inc_correlation_pattern :: string
  inc_correlation_score :: int
  inc_correlation_reason :: string
  inc_confidence :: int
  inc_risk_score :: int
  inc_event_count :: int
  inc_root_cause_summary :: string
  inc_root_cause_type :: string
  inc_reasoning :: "string list"
  inc_what_changed_type :: string
  inc_what_changed_service :: string
  inc_what_changed_version :: string
  inc_what_changed_description :: string
  inc_what_changed_timestamp :: "time option"
  inc_what_changed_confidence :: int
  inc_impacted_services :: "string list"
  inc_impact_count :: int
  inc_seen_before :: bool
  inc_recurring_count :: int
  inc_similar_incident_id :: string
  inc_last_seen_at :: "time option"
  inc_fingerprint :: string
  inc_tenant_id :: string
  inc_parent_incident_id :: string
  inc_merged_incident_ids :: "string list"
  inc_is_merged :: bool
  inc_priority_score :: int

definition incident_zero :: Incident where
  "incident_zero = \<lparr>inc_id = [], inc_service = [], inc_severity = [], inc_status = [],
     inc_event_ids = [], inc_first_event_time = zero_time, inc_last_event_time = zero_time,
     inc_title = [], inc_correlation_pattern = [], inc_correlation_score = 0,
     inc_correlation_reason = [], inc_confidence = 0, inc_risk_score = 0, inc_event_count = 0,
     inc_root_cause_summary = [], inc_root_cause_type = [], inc_reasoning = [],
     inc_what_changed_type = [], inc_what_changed_service = [], inc_what_changed_version = [],
     inc_what_changed_description = [], inc_what_changed_timestamp = None,
     inc_what_changed_confidence = 0, inc_impacted_services = [], inc_impact_count = 0,
     inc_seen_before = False, inc_recurring_count = 0, inc_similar_incident_id = [],
     inc_last_seen_at = None, inc_fingerprint = [], inc_tenant_id = [],
     inc_parent_incident_id = [], inc_merged_incident_ids = [], inc_is_merged = False,
     inc_priority_score = 0\<rparr>"

record IncidentListFilter =
  flt_tenant_id :: string
  flt_status :: string
  flt_severity :: string
  flt_service :: string
  flt_search :: string
  flt_from :: "time option"
  flt_to :: "time option"
  flt_page :: int
  flt_page_size :: int
  flt_sort_by :: string
  flt_sort_order :: string

record IncidentListItem =
  item_id :: string
  item_service :: string
  item_severity :: string
  item_status :: string
  item_first_event_time :: time
  item_last_event_time :: time
  item_title :: string
  item_event_count :: int
  item_confidence :: int
  item_risk_score :: int
  item_impact_count :: int
  item_root_cause_summary :: string
  item_what_changed_type :: string
  item_has_what_changed :: bool
  item_seen_before :: bool
  item_recurring_count :: int
  item_similar_incident_id :: string
  item_priority_score :: int

record IncidentListResponse =
  page_items :: "IncidentListItem list"
  page_page :: int
  page_page_size :: int
  page_total :: int
  page_has_more :: bool

text \<open>Severities in the order the platform ranks them (\<open>severityWeight\<close> of
  \<open>correlation_service.go\<close>).\<close>

definition severity_weight :: "string \<Rightarrow> int" where
  "severity_weight sev =
    (let s = to_lower sev in
     if s = ''critical'' then 4 else if s = ''high'' then 3 else if s = ''medium'' then 2
     else if s = ''low'' then 1 else 0)"

lemma severity_weight_bounds [simp]: "0 \<le> severity_weight s" "severity_weight s \<le> 4"
  by (simp_all add: severity_weight_def Let_def)

text \<open>A tenant column that the code leaves empty is written as \<open>default\<close>.\<close>

definition tenant_or_default :: "string \<Rightarrow> string" where
  "tenant_or_default t = (if t = [] then ''default'' else t)"

lemma tenant_or_default_nonempty [simp]: "tenant_or_default t \<noteq> []"
  by (simp add: tenant_or_default_def)

lemma tenant_or_default_idem [simp]: "tenant_or_default (tenant_or_default t) = tenant_or_default t"
  by (simp add: tenant_or_default_def)

end
