(* ===== verification/EventStore.thy ===== *)
theory EventStore
  imports Models
begin

text \<open>
  \<open>internal/store/event_store.go\<close>: the table of events. The state is the list of its rows
  (\<open>id\<close> is the primary key; the JSON column of the labels is the map itself, \<open>'{}'\<close> and \<open>''\<close>
  being the empty map). \<open>save_event\<close> is the upsert with its \<open>ON CONFLICT\<close> clause; the other
  definitions are the queries. A query that scans only some columns returns the others as
  Go's zero values, as the code does.
\<close>

type_synonym event_db = "Event list"

definition events_ok :: "event_db \<Rightarrow> bool" where
  "events_ok db \<longleftrightarrow> pk ev_id db"

section \<open>Writing\<close>

text \<open>\<open>AddEvent\<close>: seven columns, the rest at the defaults of the schema.\<close>

definition add_event :: "faults \<Rightarrow> Event \<Rightarrow> event_db \<Rightarrow> event_db result" where
  "add_event flt e db = guard_db flt ''AddEvent''
     (tbl_insert ev_id
       (event_zero\<lparr>ev_id := ev_id e, ev_tenant_id := ''default'', ev_source := ev_source e,
          ev_type := ev_type e, ev_service := ev_service e, ev_severity := ev_severity e,
          ev_message := ev_message e, ev_timestamp := ev_timestamp e\<rparr>) db)"

text \<open>The \<open>labels_json\<close> expression of the upsert: an empty map keeps the stored labels; a
  recovery keeps the value labels the alert fired with; any other write replaces them.
  The right operand of \<open>||\<close> wins.\<close>

definition value_labels :: "smap \<Rightarrow> smap" where
  "value_labels m = filter (\<lambda>(k, _). k \<in> set AlertValueLabels) m"

definition merge_labels :: "Event \<Rightarrow> Event \<Rightarrow> smap" where
  "merge_labels old new =
    (if ev_labels new = [] then ev_labels old
     else if ev_alert_status new = ''resolved'' \<and> ev_labels old \<noteq> []
       then value_labels (ev_labels old) @ ev_labels new
     else ev_labels new)"

definition conflict_update :: "Event \<Rightarrow> Event \<Rightarrow> Event" where
  "conflict_update new old =
    (if ev_tenant_id old = ev_tenant_id new then
       old\<lparr>ev_fingerprint := ev_fingerprint new,
           ev_title := ev_title new,
           ev_trace_id := ev_trace_id new,
           ev_span_id := ev_span_id new,
           ev_ingest_schema := ev_ingest_schema new,
           ev_attrs_json := ev_attrs_json new,
           ev_labels := merge_labels old new,
           ev_alert_status := (if ev_alert_status new = [] then ev_alert_status old
                               else ev_alert_status new)\<rparr>
     else old)"

definition event_row :: "Event \<Rightarrow> Event" where
  "event_row e = e\<lparr>ev_tenant_id := tenant_or_default (ev_tenant_id e)\<rparr>"

definition save_event :: "faults \<Rightarrow> Event \<Rightarrow> event_db \<Rightarrow> event_db result" where
  "save_event flt e db = guard_db flt ''SaveEvent''
     (Inr (tbl_upsert ev_id (conflict_update (event_row e)) (event_row e) db))"

section \<open>Reading\<close>

text \<open>The columns \<open>GetEvents\<close> and \<open>GetEventsByIDs\<close> scan.\<close>

definition event_view :: "Event \<Rightarrow> Event" where
  "event_view r = event_zero\<lparr>ev_id := ev_id r, ev_source := ev_source r, ev_type := ev_type r,
     ev_service := ev_service r, ev_severity := ev_severity r, ev_title := ev_title r,
     ev_message := ev_message r, ev_timestamp := ev_timestamp r, ev_labels := ev_labels r\<rparr>"

definition clamp_limit :: "int \<Rightarrow> int" where
  "clamp_limit limit = (let l = (if limit \<le> 0 then 50 else limit) in if l > 1000 then 1000 else l)"

definition get_events :: "faults \<Rightarrow> int \<Rightarrow> int \<Rightarrow> event_db \<Rightarrow> Event list result" where
  "get_events flt limit offset db = guard_db flt ''GetEvents''
     (Inr (map event_view (take (nat (clamp_limit limit))
        (drop (nat (if offset < 0 then 0 else offset)) (order_desc ev_timestamp db)))))"

definition get_events_by_ids :: "faults \<Rightarrow> string list \<Rightarrow> event_db \<Rightarrow> Event list result" where
  "get_events_by_ids flt ids db =
    (if ids = [] then Inr []
     else guard_db flt ''GetEventsByIDs''
       (Inr (map event_view (order_asc ev_timestamp (filter (\<lambda>r. ev_id r \<in> set ids) db)))))"

text \<open>\<open>muteEventColumns\<close>.\<close>

definition mute_view :: "Event \<Rightarrow> Event" where
  "mute_view r = event_zero\<lparr>ev_id := ev_id r, ev_tenant_id := ev_tenant_id r,
     ev_source := ev_source r, ev_service := ev_service r, ev_resource := ev_resource r,
     ev_environment := ev_environment r, ev_severity := ev_severity r, ev_title := ev_title r,
     ev_timestamp := ev_timestamp r, ev_labels := ev_labels r,
     ev_ingest_schema := ev_ingest_schema r\<rparr>"

definition get_tenant_events_by_ids ::
    "faults \<Rightarrow> string \<Rightarrow> string list \<Rightarrow> event_db \<Rightarrow> Event list result" where
  "get_tenant_events_by_ids flt tenant ids db =
    (if ids = [] then Inr []
     else guard_db flt ''queryMuteEvents''
       (Inr (map mute_view (order_desc ev_timestamp
          (filter (\<lambda>r. ev_tenant_id r = tenant \<and> ev_id r \<in> set ids) db)))))"

definition recent_tenant_events ::
    "faults \<Rightarrow> string \<Rightarrow> string \<Rightarrow> time \<Rightarrow> nat \<Rightarrow> event_db \<Rightarrow> Event list result" where
  "recent_tenant_events flt tenant service since limit db = guard_db flt ''queryMuteEvents''
     (Inr (map mute_view (take limit (order_desc ev_timestamp
        (filter (\<lambda>r. ev_tenant_id r = tenant \<and> since \<le> ev_timestamp r \<and>
            (service = [] \<or> to_lower (ev_service r) = to_lower service)) db)))))"

definition find_recent_duplicate ::
    "faults \<Rightarrow> Event \<Rightarrow> duration \<Rightarrow> event_db \<Rightarrow> (Event \<times> bool) result" where
  "find_recent_duplicate flt e window db = guard_db flt ''FindRecentDuplicate''
     (case first_row (order_desc ev_timestamp
        (filter (\<lambda>r. equal_fold (ev_service r) (trim_space (ev_service e)) \<and>
                     equal_fold (ev_severity r) (trim_space (ev_severity e)) \<and>
                     equal_fold (ev_message r) (trim_space (ev_message e)) \<and>
                     ev_timestamp e - window \<le> ev_timestamp r \<and>
                     ev_timestamp r \<le> ev_timestamp e + window) db)) of
        None \<Rightarrow> Inr (event_zero, False)
      | Some r \<Rightarrow> Inr (event_zero\<lparr>ev_id := ev_id r, ev_source := ev_source r, ev_type := ev_type r,
            ev_service := ev_service r, ev_severity := ev_severity r, ev_message := ev_message r,
            ev_timestamp := ev_timestamp r\<rparr>, True))"

definition count_events_in_period :: "faults \<Rightarrow> string \<Rightarrow> time \<Rightarrow> event_db \<Rightarrow> nat result" where
  "count_events_in_period flt tenant since db = guard_db flt ''CountEventsInPeriod''
     (Inr (length (filter (\<lambda>r. ev_tenant_id r = tenant \<and> since \<le> ev_timestamp r) db)))"

definition count_unique_fingerprints :: "faults \<Rightarrow> string \<Rightarrow> time \<Rightarrow> event_db \<Rightarrow> nat result" where
  "count_unique_fingerprints flt tenant since db = guard_db flt ''CountUniqueFingerprints''
     (Inr (length (remdups (map ev_fingerprint (filter (\<lambda>r. ev_tenant_id r = tenant \<and>
        since \<le> ev_timestamp r \<and> ev_fingerprint r \<noteq> []) db)))))"

text \<open>\<open>FingerprintSeenInWindow\<close>: a failed query counts as "not seen".\<close>

definition fingerprint_seen ::
    "faults \<Rightarrow> string \<Rightarrow> string \<Rightarrow> time \<Rightarrow> string \<Rightarrow> event_db \<Rightarrow> bool" where
  "fingerprint_seen flt tenant fp windowStart excludeID db =
    (if fp = [] then False
     else if flt ''FingerprintSeenInWindow'' then False
     else 0 < length (filter (\<lambda>r. ev_fingerprint r = fp \<and> windowStart \<le> ev_timestamp r \<and>
              ev_id r \<noteq> excludeID \<and> ev_tenant_id r = tenant_or_default tenant) db))"

section \<open>Lemmas\<close>

lemma conflict_update_id [simp]: "ev_id (conflict_update n e) = ev_id e"
  by (simp add: conflict_update_def)

lemma conflict_update_tenant [simp]: "ev_tenant_id (conflict_update n e) = ev_tenant_id e"
  by (simp add: conflict_update_def)

lemma conflict_update_timestamp [simp]: "ev_timestamp (conflict_update n e) = ev_timestamp e"
  by (simp add: conflict_update_def)

lemma event_row_simps [simp]:
  "ev_id (event_row e) = ev_id e"
  "ev_tenant_id (event_row e) = tenant_or_default (ev_tenant_id e)"
  "ev_labels (event_row e) = ev_labels e"
  "ev_fingerprint (event_row e) = ev_fingerprint e"
  "ev_timestamp (event_row e) = ev_timestamp e"
  "ev_alert_status (event_row e) = ev_alert_status e"
  by (simp_all add: event_row_def)

lemma add_event_ok [preserve]: "events_ok db \<Longrightarrow> add_event flt e db = Inr db' \<Longrightarrow> events_ok db'"
  by (auto simp: events_ok_def add_event_def intro: pk_insert)

lemma save_event_Inr:
  "save_event flt e db = Inr db' \<longleftrightarrow>
     \<not> flt ''SaveEvent'' \<and> db' = tbl_upsert ev_id (conflict_update (event_row e)) (event_row e) db"
  by (auto simp: save_event_def)

lemma save_event_ok [preserve]: "events_ok db \<Longrightarrow> save_event flt e db = Inr db' \<Longrightarrow> events_ok db'"
  by (auto simp: events_ok_def save_event_Inr intro!: pk_upsert)

lemma save_event_other [frame]:
  assumes "save_event flt e db = Inr db'" "i \<noteq> ev_id e"
  shows "tbl_find ev_id i db' = tbl_find ev_id i db"
  using assms by (simp add: save_event_Inr tbl_find_upsert_other)

lemma save_event_find:
  assumes "save_event flt e db = Inr db'"
  shows "tbl_find ev_id (ev_id e) db' = Some (case tbl_find ev_id (ev_id e) db of
      None \<Rightarrow> event_row e | Some old \<Rightarrow> conflict_update (event_row e) old)"
proof -
  have "tbl_find ev_id (ev_id (event_row e))
        (tbl_upsert ev_id (conflict_update (event_row e)) (event_row e) db)
      = (case tbl_find ev_id (ev_id (event_row e)) db of None \<Rightarrow> Some (event_row e)
         | Some x \<Rightarrow> Some (conflict_update (event_row e) x))"
    by (rule tbl_find_upsert_same) simp
  with assms show ?thesis by (simp add: save_event_Inr split: option.splits)
qed

lemma upsert_other_rows:
  assumes "\<not> p r" and "\<And>x. p (f x) = p x" and "\<And>x. p x \<Longrightarrow> f x = x"
  shows "filter p (tbl_upsert key f r t) = filter p t"
proof -
  have "filter p (tbl_update q f t) = filter p t" for q
    using assms(2,3) by (induction t) (auto simp: tbl_update_def)
  with assms(1) show ?thesis by (simp add: tbl_upsert_def)
qed

lemma sget_append: "sget (m @ n) k = (if k \<in> fst ` set m then sget m k else sget n k)"
  by (auto simp: sget_def map_add_def dom_map_of_conv_image_fst[symmetric] split: option.splits)

lemma sget_value_labels: "k \<in> set AlertValueLabels \<Longrightarrow> sget (value_labels m) k = sget m k"
  by (induction m) (auto simp: value_labels_def)

lemma dom_value_labels:
  "fst ` set (value_labels m) = fst ` set m \<inter> set AlertValueLabels"
  by (force simp: value_labels_def)

lemma fingerprint_seen_iff:
  "fingerprint_seen flt tenant fp ws x db \<longleftrightarrow>
     fp \<noteq> [] \<and> \<not> flt ''FingerprintSeenInWindow'' \<and>
     (\<exists>r \<in> set db. ev_fingerprint r = fp \<and> ws \<le> ev_timestamp r \<and> ev_id r \<noteq> x \<and>
        ev_tenant_id r = tenant_or_default tenant)"
  by (auto simp: fingerprint_seen_def filter_empty_conv)

lemma length_get_events: "get_events flt l off db = Inr evs \<Longrightarrow> length evs \<le> 1000"
  by (auto simp: get_events_def clamp_limit_def Let_def)

lemma get_tenant_events_own:
  "get_tenant_events_by_ids flt tenant ids db = Inr evs \<Longrightarrow> e \<in> set evs \<Longrightarrow> ev_tenant_id e = tenant"
  by (auto simp: get_tenant_events_by_ids_def mute_view_def split: if_splits)

section \<open>Properties\<close>

text \<open>A write of one tenant leaves the rows of every other tenant as they were.
  \<open>SaveEvent\<close> never creates, changes or takes over a row whose tenant is not the (defaulted)
  tenant of the event, even when the event carries the ID of such a row.\<close>

theorem save_event_tenant_isolation:
  assumes "save_event flt e db = Inr db'"
  shows "filter (\<lambda>r. ev_tenant_id r \<noteq> tenant_or_default (ev_tenant_id e)) db' =
         filter (\<lambda>r. ev_tenant_id r \<noteq> tenant_or_default (ev_tenant_id e)) db"
  using assms unfolding save_event_Inr
  by (auto intro!: upsert_other_rows simp: conflict_update_def)

theorem save_event_tenant_isolation_witness:
  "let mine = event_zero\<lparr>ev_id := ''e1'', ev_tenant_id := ''acme'', ev_title := ''cpu''\<rparr>;
       other = event_zero\<lparr>ev_id := ''e1'', ev_tenant_id := ''globex'', ev_title := ''disk''\<rparr>
   in save_event no_faults mine [other] = Inr [other] \<and>
      filter (\<lambda>r. ev_tenant_id r \<noteq> ''acme'') [other] = [other]"
proof -
  let ?mine = "event_zero\<lparr>ev_id := ''e1'', ev_tenant_id := ''acme'', ev_title := ''cpu''\<rparr>"
  let ?other = "event_zero\<lparr>ev_id := ''e1'', ev_tenant_id := ''globex'', ev_title := ''disk''\<rparr>"
  have s: "save_event no_faults ?mine [?other] = Inr [?other]" by code_simp
  from save_event_tenant_isolation[OF s] s show ?thesis
    by (simp add: Let_def tenant_or_default_def)
qed

text \<open>A recovery keeps the measured value the alert fired with. When a stored event of the
  tenant carries a value label and a \<open>resolved\<close> write of the same event arrives, the label still
  reads as the stored value afterwards, whatever value the recovery carries.\<close>

theorem recovery_keeps_fired_value:
  assumes "save_event flt e db = Inr db'"
    and "tbl_find ev_id (ev_id e) db = Some old"
    and "ev_tenant_id old = tenant_or_default (ev_tenant_id e)"
    and "ev_alert_status e = ''resolved''"
    and "k \<in> set AlertValueLabels" and "k \<in> fst ` set (ev_labels old)"
  shows "\<exists>new. tbl_find ev_id (ev_id e) db' = Some new \<and>
           sget (ev_labels new) k = sget (ev_labels old) k \<and> ev_alert_status new = ''resolved''"
proof -
  have "tbl_find ev_id (ev_id e) db' = Some (conflict_update (event_row e) old)"
    using save_event_find[OF assms(1)] assms(2) by simp
  moreover have "sget (merge_labels old (event_row e)) k = sget (ev_labels old) k"
    using assms(4,5,6)
    by (auto simp: merge_labels_def sget_append sget_value_labels dom_value_labels)
  ultimately show ?thesis using assms(3,4) by (simp add: conflict_update_def)
qed

theorem recovery_keeps_fired_value_witness:
  "let old = event_zero\<lparr>ev_id := ''e1'', ev_tenant_id := ''default'', ev_labels := [(''grafana.value'', ''95'')]\<rparr>;
       e = event_zero\<lparr>ev_id := ''e1'', ev_labels := [(''grafana.value'', ''50''), (''x'', ''y'')],
             ev_alert_status := ''resolved''\<rparr>
   in \<exists>db' new. save_event no_faults e [old] = Inr db' \<and> tbl_find ev_id ''e1'' db' = Some new \<and>
        sget (ev_labels new) ''grafana.value'' = ''95''"
proof -
  let ?old = "event_zero\<lparr>ev_id := ''e1'', ev_tenant_id := ''default'', ev_labels := [(''grafana.value'', ''95'')]\<rparr>"
  let ?e = "event_zero\<lparr>ev_id := ''e1'', ev_labels := [(''grafana.value'', ''50''), (''x'', ''y'')],
             ev_alert_status := ''resolved''\<rparr>"
  obtain db' where s: "save_event no_faults ?e [?old] = Inr db'" by (simp add: save_event_def)
  have "\<exists>new. tbl_find ev_id (ev_id ?e) db' = Some new \<and>
      sget (ev_labels new) ''grafana.value'' = sget (ev_labels ?old) ''grafana.value'' \<and>
      ev_alert_status new = ''resolved''"
    by (rule recovery_keeps_fired_value[OF s])
       (simp_all add: event_zero_def tenant_or_default_def AlertValueLabels_def)
  with s show ?thesis by (auto simp: Let_def event_zero_def)
qed

end
