(* ===== verification/IncidentStore.thy ===== *)
theory IncidentStore
  imports Models "HOL-Library.Multiset" "HOL-Library.AList" "HOL-Library.Char_ord" "HOL-Library.List_Lexorder"
begin

text \<open>
  \<open>internal/store/incident_store.go\<close> and \<open>incident_store_ext.go\<close>: the tables \<open>incidents\<close> and
  \<open>incident_events\<close>. A row of \<open>incidents\<close> is an \<open>Incident\<close> without its event IDs (they live in
  the link table) and without \<open>what_changed_confidence\<close> (the table has no such column); the
  column \<open>slack_channel_id\<close> is kept beside it. A transaction that fails leaves the state as it
  was. Text columns are compared byte by byte.
\<close>

record incident_db =
  db_rows :: "Incident list"
  db_links :: "(string \<times> string) list"
  db_slack :: smap

definition empty_incident_db :: incident_db where
  "empty_incident_db = \<lparr>db_rows = [], db_links = [], db_slack = []\<rparr>"

section \<open>Rows and links\<close>

definition incident_row :: "Incident \<Rightarrow> Incident" where
  "incident_row inc = inc\<lparr>inc_event_ids := [], inc_what_changed_confidence := 0\<rparr>"

definition event_ids_of :: "string \<Rightarrow> incident_db \<Rightarrow> string list" where
  "event_ids_of iid db = map snd (filter (\<lambda>l. fst l = iid) (db_links db))"

definition with_events :: "Incident \<Rightarrow> string list \<Rightarrow> Incident" where
  "with_events row ids = row\<lparr>inc_event_ids := ids\<rparr>"

definition incidents_ok :: "incident_db \<Rightarrow> bool" where
  "incidents_ok db \<longleftrightarrow> pk inc_id (db_rows db) \<and> distinct (db_links db) \<and>
     (\<forall>r \<in> set (db_rows db). incident_row r = r \<and> inc_tenant_id r \<noteq> [])"

text \<open>The loop of \<open>INSERT INTO incident_events\<close> inside a transaction.\<close>

fun link_all :: "string \<Rightarrow> string list \<Rightarrow> (string \<times> string) list \<Rightarrow> (string \<times> string) list result" where
  "link_all iid [] links = Inr links"
| "link_all iid (e # es) links =
     (if (iid, e) \<in> set links then Inl ErrUnique else link_all iid es (links @ [(iid, e)]))"

text \<open>\<open>INSERT ... ON CONFLICT DO NOTHING\<close>.\<close>

definition link_quiet :: "string \<Rightarrow> string \<Rightarrow> (string \<times> string) list \<Rightarrow> (string \<times> string) list" where
  "link_quiet iid e links = (if (iid, e) \<in> set links then links else links @ [(iid, e)])"

section \<open>Writing\<close>

definition add_incident :: "faults \<Rightarrow> Incident \<Rightarrow> incident_db \<Rightarrow> incident_db result" where
  "add_incident flt inc db = guard_db flt ''AddIncident''
     (case tbl_insert inc_id
         (incident_row (inc\<lparr>inc_tenant_id := tenant_or_default (inc_tenant_id inc)\<rparr>)) (db_rows db) of
        Inl e \<Rightarrow> Inl e
      | Inr rows \<Rightarrow>
          (case link_all (inc_id inc) (inc_event_ids inc) (db_links db) of
             Inl e \<Rightarrow> Inl e
           | Inr links \<Rightarrow> Inr (db\<lparr>db_rows := rows, db_links := links\<rparr>)))"

text \<open>\<open>UPDATE incidents SET ...\<close>: every column except \<open>tenant_id\<close> (and the Slack channel).\<close>

definition overwrite_row :: "Incident \<Rightarrow> Incident \<Rightarrow> Incident" where
  "overwrite_row inc row = incident_row (inc\<lparr>inc_tenant_id := inc_tenant_id row\<rparr>)"

definition update_incident :: "faults \<Rightarrow> Incident \<Rightarrow> incident_db \<Rightarrow> incident_db result" where
  "update_incident flt inc db = guard_db flt ''UpdateIncident''
     (case link_all (inc_id inc) (inc_event_ids inc)
         (filter (\<lambda>l. fst l \<noteq> inc_id inc) (db_links db)) of
        Inl e \<Rightarrow> Inl e
      | Inr links \<Rightarrow>
          Inr (db\<lparr>db_rows := tbl_update (\<lambda>r. inc_id r = inc_id inc) (overwrite_row inc) (db_rows db),
                  db_links := links\<rparr>))"

definition set_status_rows :: "string \<Rightarrow> string \<Rightarrow> Incident list \<Rightarrow> Incident list" where
  "set_status_rows iid status = tbl_update (\<lambda>r. inc_id r = iid) (\<lambda>r. r\<lparr>inc_status := status\<rparr>)"

definition add_event_to_incident ::
    "faults \<Rightarrow> string \<Rightarrow> string \<Rightarrow> incident_db \<Rightarrow> incident_db result" where
  "add_event_to_incident flt iid e db = guard_db flt ''AddEventToIncident''
     (Inr (db\<lparr>db_links := link_quiet iid e (db_links db)\<rparr>))"

definition update_slack_channel ::
    "faults \<Rightarrow> string \<Rightarrow> string \<Rightarrow> incident_db \<Rightarrow> incident_db result" where
  "update_slack_channel flt iid channel db = guard_db flt ''UpdateSlackChannelID''
     (Inr (if tbl_has inc_id iid (db_rows db) then db\<lparr>db_slack := (iid, channel) # db_slack db\<rparr> else db))"

section \<open>Reading one incident\<close>

definition get_event_ids :: "faults \<Rightarrow> string \<Rightarrow> incident_db \<Rightarrow> string list result" where
  "get_event_ids flt iid db = guard_db flt ''GetEventIDsByIncidentID'' (Inr (event_ids_of iid db))"

text \<open>\<open>GetIncidentByID\<close>: not found and a failed query look the same to the caller.\<close>

definition get_incident :: "faults \<Rightarrow> string \<Rightarrow> incident_db \<Rightarrow> Incident option" where
  "get_incident flt iid db =
    (if flt ''GetIncidentByID'' then None
     else case tbl_find inc_id iid (db_rows db) of
       None \<Rightarrow> None
     | Some r \<Rightarrow> (case get_event_ids flt (inc_id r) db of
                   Inl _ \<Rightarrow> None | Inr ids \<Rightarrow> Some (with_events r ids)))"

definition get_slack_channel :: "faults \<Rightarrow> string \<Rightarrow> incident_db \<Rightarrow> string" where
  "get_slack_channel flt iid db =
    (if flt ''GetSlackChannelID'' \<or> \<not> tbl_has inc_id iid (db_rows db) then []
     else sget (db_slack db) iid)"

text \<open>\<open>UpdateIncidentStatus\<close> writes, then reads the incident back.\<close>

definition update_incident_status ::
    "faults \<Rightarrow> string \<Rightarrow> string \<Rightarrow> incident_db \<Rightarrow> Incident result \<times> incident_db" where
  "update_incident_status flt iid status db =
    (if flt ''UpdateIncidentStatus'' then (Inl ErrDB, db)
     else if \<not> tbl_has inc_id iid (db_rows db) then (Inl ErrNoRows, db)
     else let db' = db\<lparr>db_rows := set_status_rows iid status (db_rows db)\<rparr> in
       (case get_incident flt iid db' of
          None \<Rightarrow> (Inl ErrNoRows, db') | Some inc \<Rightarrow> (Inr inc, db')))"

definition get_incidents :: "faults \<Rightarrow> incident_db \<Rightarrow> Incident list result" where
  "get_incidents flt db = guard_db flt ''GetIncidents''
     (if db_rows db \<noteq> [] \<and> flt ''GetEventIDsByIncidentID'' then Inl ErrDB
      else Inr (map (\<lambda>r. with_events r (event_ids_of (inc_id r) db)) (db_rows db)))"

definition find_recent_similar ::
    "faults \<Rightarrow> string \<Rightarrow> string \<Rightarrow> time \<Rightarrow> incident_db \<Rightarrow> Incident option result" where
  "find_recent_similar flt service pattern t db = guard_db flt ''FindRecentSimilarIncident''
     (case first_row (order_desc inc_last_event_time
        (filter (\<lambda>r. equal_fold (inc_service r) service \<and>
                     equal_fold (inc_correlation_pattern r) pattern \<and>
                     t - 7 * 24 * hour \<le> inc_last_event_time r \<and>
                     inc_last_event_time r \<le> t - 1 * minute) (db_rows db))) of
        None \<Rightarrow> Inr None
      | Some r \<Rightarrow> (case get_event_ids flt (inc_id r) db of
                    Inl e \<Rightarrow> Inl e | Inr ids \<Rightarrow> Inr (Some (with_events r ids))))"

section \<open>The queries of correlation\<close>

definition is_active :: "Incident \<Rightarrow> bool" where
  "is_active r \<longleftrightarrow> inc_status r \<in> {''open'', ''acknowledged''}"

text \<open>When reading the event IDs fails, these two finders return the incident without them.\<close>

definition loaded_or_bare :: "faults \<Rightarrow> Incident \<Rightarrow> incident_db \<Rightarrow> Incident" where
  "loaded_or_bare flt r db =
    (case get_event_ids flt (inc_id r) db of Inl _ \<Rightarrow> r | Inr ids \<Rightarrow> with_events r ids)"

definition find_open_for_service ::
    "faults \<Rightarrow> string \<Rightarrow> string \<Rightarrow> time \<Rightarrow> incident_db \<Rightarrow> Incident option" where
  "find_open_for_service flt tenant service windowStart db =
    (if flt ''FindOpenIncidentForService'' then None
     else map_option (\<lambda>r. loaded_or_bare flt r db)
       (first_row (order_desc inc_last_event_time
          (filter (\<lambda>r. equal_fold (inc_service r) service \<and> is_active r \<and>
                       windowStart \<le> inc_last_event_time r \<and>
                       inc_tenant_id r = tenant_or_default tenant) (db_rows db)))))"

definition find_open_by_fingerprint ::
    "faults \<Rightarrow> string \<Rightarrow> string \<Rightarrow> incident_db \<Rightarrow> Incident option" where
  "find_open_by_fingerprint flt tenant fp db =
    (if fp = [] \<or> flt ''FindOpenIncidentByFingerprint'' then None
     else case first_row (order_desc inc_last_event_time
          (filter (\<lambda>r. inc_fingerprint r = fp \<and> is_active r \<and>
                       inc_tenant_id r = tenant_or_default tenant) (db_rows db))) of
       None \<Rightarrow> None
     | Some r \<Rightarrow> get_incident flt (inc_id r) db)"

definition find_open_for_services ::
    "faults \<Rightarrow> string \<Rightarrow> string list \<Rightarrow> time \<Rightarrow> incident_db \<Rightarrow> Incident option" where
  "find_open_for_services flt tenant services windowStart db =
    (if services = [] \<or> flt ''FindOpenIncidentForServices'' then None
     else map_option (\<lambda>r. loaded_or_bare flt r db)
       (first_row (order_desc inc_last_event_time
          (filter (\<lambda>r. to_lower (inc_service r) \<in> set (map to_lower services) \<and> is_active r \<and>
                       windowStart \<le> inc_last_event_time r \<and>
                       inc_tenant_id r = tenant_or_default tenant) (db_rows db)))))"

definition move_events :: "faults \<Rightarrow> string \<Rightarrow> string \<Rightarrow> incident_db \<Rightarrow> incident_db result" where
  "move_events flt fromID toID db =
    (case get_event_ids flt fromID db of
       Inl e \<Rightarrow> Inl e
     | Inr ids \<Rightarrow>
         if ids = [] then Inr db
         else guard_db flt ''MoveEventsToIncident''
           (Inr (db\<lparr>db_links := foldl (\<lambda>l e. link_quiet toID e l) (db_links db) ids\<rparr>)))"

section \<open>The incident list\<close>

text \<open>\<open>buildIncidentListWhereClause\<close>: the conjunction of the clauses the filter asks for.\<close>

definition like_lower :: "string \<Rightarrow> string \<Rightarrow> bool" where
  "like_lower col term = sql_like (CHR ''%'' # to_lower term @ ''%'') (to_lower col)"

definition list_where :: "IncidentListFilter \<Rightarrow> Incident \<Rightarrow> bool" where
  "list_where f r \<longleftrightarrow>
     inc_tenant_id r = tenant_or_default (flt_tenant_id f) \<and>
     (flt_status f = [] \<or> inc_status r = flt_status f) \<and>
     (flt_severity f = [] \<or> inc_severity r = flt_severity f) \<and>
     (flt_service f = [] \<or> like_lower (inc_service r) (flt_service f)) \<and>
     (flt_search f = [] \<or> like_lower (inc_title r) (flt_search f) \<or>
        like_lower (inc_service r) (flt_search f) \<or>
        like_lower (inc_root_cause_summary r) (flt_search f)) \<and>
     (case flt_from f of None \<Rightarrow> True | Some t \<Rightarrow> t \<le> inc_last_event_time r) \<and>
     (case flt_to f of None \<Rightarrow> True | Some t \<Rightarrow> inc_last_event_time r \<le> t)"

text \<open>\<open>buildIncidentOrderByClause\<close>: a column of the white list, or the priority (always
  descending) and then the time of the last event; every direction but \<open>ASC\<close> is \<open>DESC\<close>.\<close>

datatype order_column =
    ByLastEventTime | ByFirstEventTime | BySeverity | ByStatus | ByService | ByTitle
  | ByRiskScore | ByConfidence | ByPriorityScore | ByPriorityThenTime

definition order_column_of :: "string \<Rightarrow> order_column" where
  "order_column_of sortBy =
    (if sortBy = ''last_event_time'' then ByLastEventTime
     else if sortBy = ''first_event_time'' then ByFirstEventTime
     else if sortBy = ''severity'' then BySeverity
     else if sortBy = ''status'' then ByStatus
     else if sortBy = ''service'' then ByService
     else if sortBy = ''title'' then ByTitle
     else if sortBy = ''risk_score'' then ByRiskScore
     else if sortBy = ''confidence'' then ByConfidence
     else if sortBy = ''priority_score'' then ByPriorityScore
     else ByPriorityThenTime)"

definition order_ascending :: "string \<Rightarrow> bool" where
  "order_ascending sortOrder \<longleftrightarrow> to_upper sortOrder = ''ASC''"

definition directed :: "bool \<Rightarrow> 'a list \<Rightarrow> 'a list" where
  "directed asc xs = (if asc then xs else rev xs)"

definition order_rows :: "order_column \<Rightarrow> bool \<Rightarrow> Incident list \<Rightarrow> Incident list" where
  "order_rows col asc rows =
    (case col of
       ByLastEventTime \<Rightarrow> directed asc (sort_key inc_last_event_time rows)
     | ByFirstEventTime \<Rightarrow> directed asc (sort_key inc_first_event_time rows)
     | BySeverity \<Rightarrow> directed asc (sort_key inc_severity rows)
     | ByStatus \<Rightarrow> directed asc (sort_key inc_status rows)
     | ByService \<Rightarrow> directed asc (sort_key inc_service rows)
     | ByTitle \<Rightarrow> directed asc (sort_key inc_title rows)
     | ByRiskScore \<Rightarrow> directed asc (sort_key inc_risk_score rows)
     | ByConfidence \<Rightarrow> directed asc (sort_key inc_confidence rows)
     | ByPriorityScore \<Rightarrow> directed asc (sort_key inc_priority_score rows)
     | ByPriorityThenTime \<Rightarrow>
         order_desc inc_priority_score (directed asc (sort_key inc_last_event_time rows)))"

definition list_item :: "incident_db \<Rightarrow> Incident \<Rightarrow> IncidentListItem" where
  "list_item db r = \<lparr>item_id = inc_id r, item_service = inc_service r,
     item_severity = inc_severity r, item_status = inc_status r,
     item_first_event_time = inc_first_event_time r, item_last_event_time = inc_last_event_time r,
     item_title = inc_title r, item_event_count = int (length (event_ids_of (inc_id r) db)),
     item_confidence = inc_confidence r, item_risk_score = inc_risk_score r,
     item_impact_count = inc_impact_count r, item_root_cause_summary = inc_root_cause_summary r,
     item_what_changed_type = inc_what_changed_type r,
     item_has_what_changed = (trim_space (inc_what_changed_type r) \<noteq> []),
     item_seen_before = inc_seen_before r, item_recurring_count = inc_recurring_count r,
     item_similar_incident_id = inc_similar_incident_id r,
     item_priority_score = inc_priority_score r\<rparr>"

text \<open>A negative \<open>LIMIT\<close> or \<open>OFFSET\<close> is an error of the statement.\<close>

definition list_incidents ::
    "faults \<Rightarrow> IncidentListFilter \<Rightarrow> incident_db \<Rightarrow> IncidentListResponse result" where
  "list_incidents flt f db =
    (if flt ''ListIncidents/count'' then Inl ErrDB
     else let rows = filter (list_where f) (db_rows db);
              total = int (length rows);
              limit = flt_page_size f;
              offset = (flt_page f - 1) * flt_page_size f
       in if flt ''ListIncidents'' \<or> limit < 0 \<or> offset < 0 then Inl ErrDB
          else let items = map (list_item db) (take (nat limit) (drop (nat offset)
                     (order_rows (order_column_of (flt_sort_by f)) (order_ascending (flt_sort_order f)) rows)))
            in Inr \<lparr>page_items = items, page_page = flt_page f, page_page_size = flt_page_size f,
                    page_total = total, page_has_more = offset + int (length items) < total\<rparr>)"

section \<open>Counts and dashboards\<close>

definition count_similar_by_service :: "faults \<Rightarrow> string \<Rightarrow> string \<Rightarrow> incident_db \<Rightarrow> nat" where
  "count_similar_by_service flt service excludeID db =
    (if trim_space service = [] \<or> flt ''CountSimilarByService'' then 0
     else length (filter (\<lambda>r. inc_service r = service \<and> inc_id r \<noteq> excludeID) (db_rows db)))"

definition suggest_tier :: "string \<Rightarrow> string" where
  "suggest_tier service =
    (let svc = to_lower service in
     if contains_any svc [''payment'', ''checkout'', ''order''] then ''TIER_0''
     else if contains_any svc [''api'', ''service'', ''gateway''] then ''TIER_1''
     else if contains_any svc [''worker'', ''cron'', ''batch''] then ''TIER_3''
     else ''TIER_2'')"

record DiscoveredService =
  ds_service :: string
  ds_incident_count :: nat
  ds_max_severity :: string
  ds_last_incident :: time
  ds_suggested_tier :: string

definition discovered_service :: "Incident list \<Rightarrow> string \<Rightarrow> DiscoveredService" where
  "discovered_service rows service =
    (let mine = filter (\<lambda>r. inc_service r = service) rows in
     \<lparr>ds_service = service, ds_incident_count = length mine,
      ds_max_severity = fold (\<lambda>r m. max (inc_severity r) m) mine [],
      ds_last_incident = fold (\<lambda>r m. max (inc_last_event_time r) m) mine
         (case mine of [] \<Rightarrow> zero_time | r # _ \<Rightarrow> inc_last_event_time r),
      ds_suggested_tier = suggest_tier service\<rparr>)"

definition get_discovered_services ::
    "faults \<Rightarrow> string \<Rightarrow> incident_db \<Rightarrow> DiscoveredService list result" where
  "get_discovered_services flt tenant db = guard_db flt ''GetDiscoveredServices''
     (let rows = filter (\<lambda>r. inc_tenant_id r = tenant) (db_rows db) in
      Inr (order_desc (\<lambda>d. int (ds_incident_count d))
             (map (discovered_service rows) (remdups (map inc_service rows)))))"

definition count_incidents_in_period :: "faults \<Rightarrow> string \<Rightarrow> time \<Rightarrow> incident_db \<Rightarrow> nat result" where
  "count_incidents_in_period flt tenant since db = guard_db flt ''CountIncidentsInPeriod''
     (Inr (length (filter (\<lambda>r. inc_tenant_id r = tenant \<and> since \<le> inc_first_event_time r)
             (db_rows db))))"

definition count_confirmed_incidents :: "faults \<Rightarrow> string \<Rightarrow> time \<Rightarrow> incident_db \<Rightarrow> nat result" where
  "count_confirmed_incidents flt tenant since db = guard_db flt ''CountConfirmedIncidents''
     (Inr (length (filter (\<lambda>r. inc_tenant_id r = tenant \<and> since \<le> inc_first_event_time r \<and>
             inc_status r \<in> {''acknowledged'', ''resolved'', ''investigating''}) (db_rows db))))"

text \<open>\<open>ListOpenIncidentsByTenant\<close> scans eleven columns.\<close>

definition open_view :: "Incident \<Rightarrow> Incident" where
  "open_view r = incident_zero\<lparr>inc_id := inc_id r, inc_service := inc_service r,
     inc_severity := inc_severity r, inc_status := inc_status r,
     inc_fingerprint := inc_fingerprint r, inc_risk_score := inc_risk_score r,
     inc_impact_count := inc_impact_count r, inc_first_event_time := inc_first_event_time r,
     inc_last_event_time := inc_last_event_time r,
     inc_what_changed_type := inc_what_changed_type r,
     inc_impacted_services := inc_impacted_services r\<rparr>"

definition list_open_by_tenant :: "faults \<Rightarrow> string \<Rightarrow> incident_db \<Rightarrow> Incident list result" where
  "list_open_by_tenant flt tenant db = guard_db flt ''ListOpenIncidentsByTenant''
     (Inr (map open_view (order_desc inc_first_event_time
        (filter (\<lambda>r. inc_tenant_id r = tenant \<and> is_active r) (db_rows db)))))"

definition get_status_counts ::
    "faults \<Rightarrow> string \<Rightarrow> incident_db \<Rightarrow> (string \<times> nat) list result" where
  "get_status_counts flt tenant db = guard_db flt ''GetStatusCounts''
     (let statuses = map inc_status (filter (\<lambda>r. inc_tenant_id r = tenant) (db_rows db)) in
      Inr (foldl (\<lambda>m s. AList.update s (count_list statuses s) m)
             [(''open'', 0), (''acknowledged'', 0), (''resolved'', 0)] (remdups statuses)))"

section \<open>Lemmas: rows, links, invariant\<close>

lemma incident_row_simps [simp]:
  "inc_id (incident_row r) = inc_id r" "inc_service (incident_row r) = inc_service r"
  "inc_severity (incident_row r) = inc_severity r" "inc_status (incident_row r) = inc_status r"
  "inc_event_ids (incident_row r) = []" "inc_tenant_id (incident_row r) = inc_tenant_id r"
  "inc_last_event_time (incident_row r) = inc_last_event_time r"
  "inc_fingerprint (incident_row r) = inc_fingerprint r"
  "incident_row (incident_row r) = incident_row r"
  by (simp_all add: incident_row_def)

lemma with_events_simps [simp]:
  "inc_id (with_events r ids) = inc_id r" "inc_service (with_events r ids) = inc_service r"
  "inc_severity (with_events r ids) = inc_severity r" "inc_status (with_events r ids) = inc_status r"
  "inc_event_ids (with_events r ids) = ids" "inc_tenant_id (with_events r ids) = inc_tenant_id r"
  "inc_last_event_time (with_events r ids) = inc_last_event_time r"
  "inc_fingerprint (with_events r ids) = inc_fingerprint r"
  "incident_row (with_events r ids) = incident_row r"
  by (simp_all add: with_events_def incident_row_def)

lemma overwrite_row_simps [simp]:
  "inc_id (overwrite_row inc r) = inc_id inc" "inc_tenant_id (overwrite_row inc r) = inc_tenant_id r"
  "incident_row (overwrite_row inc r) = overwrite_row inc r"
  by (simp_all add: overwrite_row_def)

lemma link_all_eq:
  "link_all iid es links =
     (if distinct es \<and> (\<forall>e \<in> set es. (iid, e) \<notin> set links)
      then Inr (links @ map (Pair iid) es) else Inl ErrUnique)"
  by (induction es arbitrary: links) auto

lemma link_all_Inr:
  "link_all iid es links = Inr links' \<longleftrightarrow>
     distinct es \<and> (\<forall>e \<in> set es. (iid, e) \<notin> set links) \<and> links' = links @ map (Pair iid) es"
  by (auto simp: link_all_eq)

lemma map_snd_Pair [simp]: "map (snd \<circ> Pair a) es = es"
  by (simp add: comp_def)

lemma link_quiet_distinct [preserve]: "distinct links \<Longrightarrow> distinct (link_quiet iid e links)"
  by (simp add: link_quiet_def)

lemma set_link_quiet [simp]: "set (link_quiet iid e links) = insert (iid, e) (set links)"
  by (auto simp: link_quiet_def)

lemma add_incident_Inr:
  "add_incident flt inc db = Inr db' \<longleftrightarrow>
     \<not> flt ''AddIncident'' \<and> \<not> tbl_has inc_id (inc_id inc) (db_rows db) \<and>
     distinct (inc_event_ids inc) \<and> (\<forall>e \<in> set (inc_event_ids inc). (inc_id inc, e) \<notin> set (db_links db)) \<and>
     db' = db\<lparr>db_rows := db_rows db @
               [incident_row (inc\<lparr>inc_tenant_id := tenant_or_default (inc_tenant_id inc)\<rparr>)],
             db_links := db_links db @ map (Pair (inc_id inc)) (inc_event_ids inc)\<rparr>"
  by (auto simp: add_incident_def tbl_insert_def link_all_eq)

lemma update_incident_Inr:
  "update_incident flt inc db = Inr db' \<longleftrightarrow>
     \<not> flt ''UpdateIncident'' \<and> distinct (inc_event_ids inc) \<and>
     db' = db\<lparr>db_rows := tbl_update (\<lambda>r. inc_id r = inc_id inc) (overwrite_row inc) (db_rows db),
             db_links := filter (\<lambda>l. fst l \<noteq> inc_id inc) (db_links db) @
                         map (Pair (inc_id inc)) (inc_event_ids inc)\<rparr>"
  by (auto simp: update_incident_def link_all_eq)

lemma add_event_Inr:
  "add_event_to_incident flt iid e db = Inr db' \<longleftrightarrow>
     \<not> flt ''AddEventToIncident'' \<and> db' = db\<lparr>db_links := link_quiet iid e (db_links db)\<rparr>"
  by (auto simp: add_event_to_incident_def)

lemma incidents_okD:
  assumes "incidents_ok db"
  shows "pk inc_id (db_rows db)" "distinct (db_links db)"
    "r \<in> set (db_rows db) \<Longrightarrow> incident_row r = r"
    "r \<in> set (db_rows db) \<Longrightarrow> inc_tenant_id r \<noteq> []"
  using assms by (auto simp: incidents_ok_def)

lemma empty_incidents_ok [preserve]: "incidents_ok empty_incident_db"
  by (simp add: incidents_ok_def empty_incident_db_def pk_def)

lemma add_incident_ok [preserve]:
  assumes "incidents_ok db" "add_incident flt inc db = Inr db'"
  shows "incidents_ok db'"
proof -
  from assms(1) have "distinct (db_links db)" by (rule incidents_okD)
  with assms show ?thesis
    by (auto simp: incidents_ok_def add_incident_Inr pk_def tbl_has_def distinct_map inj_on_def)
qed

lemma update_incident_ok [preserve]:
  assumes "incidents_ok db" "update_incident flt inc db = Inr db'"
  shows "incidents_ok db'"
proof -
  have p: "pk inc_id (tbl_update (\<lambda>r. inc_id r = inc_id inc) (overwrite_row inc) (db_rows db))"
    using incidents_okD(1)[OF assms(1)] by (rule pk_update) simp
  from assms(2) have d: "distinct (inc_event_ids inc)" by (simp add: update_incident_Inr)
  have l: "distinct (filter (\<lambda>l. fst l \<noteq> inc_id inc) (db_links db) @ map (Pair (inc_id inc)) (inc_event_ids inc))"
    using incidents_okD(2)[OF assms(1)] d by (auto simp: distinct_map inj_on_def)
  have "\<forall>r \<in> set (tbl_update (\<lambda>r. inc_id r = inc_id inc) (overwrite_row inc) (db_rows db)).
      incident_row r = r \<and> inc_tenant_id r \<noteq> []"
    using assms(1) by (auto simp: tbl_update_def incidents_ok_def)
  with p l assms(2) show ?thesis by (simp add: incidents_ok_def update_incident_Inr)
qed

lemma add_event_ok' [preserve]:
  "incidents_ok db \<Longrightarrow> add_event_to_incident flt iid e db = Inr db' \<Longrightarrow> incidents_ok db'"
  by (auto simp: incidents_ok_def add_event_Inr link_quiet_distinct)

lemma set_status_ok:
  assumes "incidents_ok db"
  shows "incidents_ok (db\<lparr>db_rows := set_status_rows iid st (db_rows db)\<rparr>)"
proof -
  have "pk inc_id (set_status_rows iid st (db_rows db))"
    unfolding set_status_rows_def using incidents_okD(1)[OF assms] by (rule pk_update) simp
  moreover have "\<forall>r \<in> set (set_status_rows iid st (db_rows db)). incident_row r = r \<and> inc_tenant_id r \<noteq> []"
  proof
    fix r assume "r \<in> set (set_status_rows iid st (db_rows db))"
    then obtain q where q: "q \<in> set (db_rows db)" "r = q \<or> r = q\<lparr>inc_status := st\<rparr>"
      by (auto simp: set_status_rows_def tbl_update_def)
    from incidents_okD(3,4)[OF assms q(1)] q(2) show "incident_row r = r \<and> inc_tenant_id r \<noteq> []"
      by (cases q) (auto simp: incident_row_def)
  qed
  ultimately show ?thesis using incidents_okD(2)[OF assms] by (simp add: incidents_ok_def)
qed

lemma update_incident_status_ok [preserve]:
  "incidents_ok db \<Longrightarrow> incidents_ok (snd (update_incident_status flt iid st db))"
  by (simp add: update_incident_status_def Let_def set_status_ok split: option.split)

lemma move_events_ok [preserve]:
  assumes "incidents_ok db" "move_events flt a b db = Inr db'"
  shows "incidents_ok db'"
proof -
  have "distinct (foldl (\<lambda>l e. link_quiet b e l) links ids)" if "distinct links" for links ids
    using that by (induction ids arbitrary: links) (auto simp: link_quiet_distinct)
  with assms show ?thesis
    by (auto simp: move_events_def incidents_ok_def split: sum.splits if_splits)
qed

section \<open>Lemmas: what is read after a write\<close>

lemma event_ids_append:
  "map snd (filter (\<lambda>l. fst l = i) (xs @ map (Pair j) es)) =
     map snd (filter (\<lambda>l. fst l = i) xs) @ (if i = j then es else [])"
  by (auto simp: filter_map comp_def)

lemma event_ids_update:
  assumes "update_incident flt inc db = Inr db'"
  shows "event_ids_of i db' = (if i = inc_id inc then inc_event_ids inc else event_ids_of i db)"
proof -
  have "map snd (filter (\<lambda>l. fst l = i) (filter (\<lambda>l. fst l \<noteq> inc_id inc) (db_links db))) =
     (if i = inc_id inc then [] else event_ids_of i db)"
    by (auto simp: event_ids_of_def filter_empty_conv intro!: arg_cong[where f = "map snd"] filter_cong)
  moreover from assms have "db_links db' = filter (\<lambda>l. fst l \<noteq> inc_id inc) (db_links db) @
      map (Pair (inc_id inc)) (inc_event_ids inc)"
    by (simp add: update_incident_Inr)
  ultimately show ?thesis
    unfolding event_ids_of_def[of i db'] by (simp only: event_ids_append) simp
qed

lemma event_ids_add:
  assumes "add_incident flt inc db = Inr db'"
  shows "event_ids_of i db' = event_ids_of i db @ (if i = inc_id inc then inc_event_ids inc else [])"
  using assms by (simp add: add_incident_Inr event_ids_of_def event_ids_append)

lemma event_ids_link_quiet:
  assumes "add_event_to_incident flt j e db = Inr db'"
  shows "event_ids_of i db' = event_ids_of i db @
     (if i = j \<and> e \<notin> set (event_ids_of i db) then [e] else [])"
  using assms by (force simp: add_event_Inr event_ids_of_def link_quiet_def)

lemma rows_find_update:
  assumes "update_incident flt inc db = Inr db'"
  shows "tbl_find inc_id i (db_rows db') =
    map_option (\<lambda>r. if inc_id r = inc_id inc then overwrite_row inc r else r) (tbl_find inc_id i (db_rows db))"
  using assms by (auto simp: update_incident_Inr intro!: tbl_find_update)

lemma get_incident_Some:
  "get_incident flt i db = Some inc \<longleftrightarrow>
     \<not> flt ''GetIncidentByID'' \<and> \<not> flt ''GetEventIDsByIncidentID'' \<and>
     (\<exists>r. tbl_find inc_id i (db_rows db) = Some r \<and> inc = with_events r (event_ids_of i db))"
  by (auto simp: get_incident_def get_event_ids_def guard_db_def dest: tbl_find_Some split: option.splits)

lemma get_incident_id: "get_incident flt i db = Some inc \<Longrightarrow> inc_id inc = i"
  by (auto simp: get_incident_Some dest: tbl_find_Some)

lemma get_incident_no_faults:
  "get_incident no_faults i db =
     map_option (\<lambda>r. with_events r (event_ids_of i db)) (tbl_find inc_id i (db_rows db))"
  by (auto simp: get_incident_def get_event_ids_def dest: tbl_find_Some split: option.splits)

section \<open>The contract of the finders\<close>

text \<open>What correlation relies on when it looks for an incident to merge into: the incident found
  is a stored, active one that matches; without faults, finding none means there is none; and
  no other match was active later.\<close>

locale incident_finder =
  fixes finder :: "faults \<Rightarrow> incident_db \<Rightarrow> Incident option"
    and wanted :: "Incident \<Rightarrow> bool"
  assumes found: "finder flt db = Some inc \<Longrightarrow> incidents_ok db \<Longrightarrow>
      \<exists>r \<in> set (db_rows db). wanted r \<and> is_active r \<and> inc = with_events r (inc_event_ids inc) \<and>
         (\<forall>q \<in> set (db_rows db). wanted q \<and> is_active q \<longrightarrow> inc_last_event_time q \<le> inc_last_event_time r)"
    and none_found: "finder no_faults db = None \<Longrightarrow> incidents_ok db \<Longrightarrow>
      r \<in> set (db_rows db) \<Longrightarrow> \<not> (wanted r \<and> is_active r)"
    and found_events: "finder no_faults db = Some inc \<Longrightarrow> incidents_ok db \<Longrightarrow>
      inc_event_ids inc = event_ids_of (inc_id inc) db"
begin

lemma found_row:
  assumes "finder flt db = Some inc" "incidents_ok db"
  shows "tbl_find inc_id (inc_id inc) (db_rows db) = Some (incident_row inc)"
proof -
  from found[OF assms] obtain r where r: "r \<in> set (db_rows db)" "inc = with_events r (inc_event_ids inc)"
    by blast
  have "tbl_find inc_id (inc_id r) (db_rows db) = Some r"
    using tbl_find_unique[OF incidents_okD(1)[OF assms(2)] r(1)] .
  moreover have "incident_row r = r" by (rule incidents_okD(3)[OF assms(2) r(1)])
  ultimately show ?thesis by (subst r(2), subst (2) r(2)) simp
qed

lemma found_active:
  assumes "finder flt db = Some inc" "incidents_ok db"
  shows "is_active inc"
proof -
  from found[OF assms] obtain r where "is_active r" "inc = with_events r (inc_event_ids inc)" by blast
  then show ?thesis by (metis is_active_def with_events_simps(4))
qed

lemma found_iff:
  assumes "incidents_ok db"
  shows "finder no_faults db \<noteq> None \<longleftrightarrow> (\<exists>r \<in> set (db_rows db). wanted r \<and> is_active r)"
  using none_found[OF _ assms] found[OF _ assms] by (cases "finder no_faults db") (auto, blast)

end

lemma first_match:
  assumes "first_row (order_desc f (filter p rows)) = Some r"
  shows "r \<in> set rows \<and> p r \<and> (\<forall>q \<in> set rows. p q \<longrightarrow> f q \<le> f r)"
  using first_row_desc[OF assms] by auto

lemma loaded_or_bare_with:
  "incident_row r = r \<Longrightarrow> loaded_or_bare flt r db = with_events r (inc_event_ids (loaded_or_bare flt r db))"
  by (simp add: loaded_or_bare_def with_events_def incident_row_def split: sum.split)

lemma loaded_or_bare_events:
  "inc_event_ids (loaded_or_bare no_faults r db) = event_ids_of (inc_id (loaded_or_bare no_faults r db)) db"
  by (simp add: loaded_or_bare_def get_event_ids_def)

definition service_match :: "string \<Rightarrow> string \<Rightarrow> time \<Rightarrow> Incident \<Rightarrow> bool" where
  "service_match tenant service windowStart r \<longleftrightarrow>
     equal_fold (inc_service r) service \<and> windowStart \<le> inc_last_event_time r \<and>
     inc_tenant_id r = tenant_or_default tenant"

definition services_match :: "string \<Rightarrow> string list \<Rightarrow> time \<Rightarrow> Incident \<Rightarrow> bool" where
  "services_match tenant services windowStart r \<longleftrightarrow>
     to_lower (inc_service r) \<in> set (map to_lower services) \<and>
     windowStart \<le> inc_last_event_time r \<and> inc_tenant_id r = tenant_or_default tenant"

definition fingerprint_match :: "string \<Rightarrow> string \<Rightarrow> Incident \<Rightarrow> bool" where
  "fingerprint_match tenant fp r \<longleftrightarrow>
     fp \<noteq> [] \<and> inc_fingerprint r = fp \<and> inc_tenant_id r = tenant_or_default tenant"

interpretation by_service: incident_finder
  "\<lambda>flt. find_open_for_service flt tenant service ws" "service_match tenant service ws"
  for tenant service ws
proof unfold_locales
  fix flt db inc
  assume f: "find_open_for_service flt tenant service ws db = Some inc" and ok: "incidents_ok db"
  then obtain r where r: "first_row (order_desc inc_last_event_time
        (filter (\<lambda>r. equal_fold (inc_service r) service \<and> is_active r \<and>
           ws \<le> inc_last_event_time r \<and> inc_tenant_id r = tenant_or_default tenant) (db_rows db))) = Some r"
    and inc: "inc = loaded_or_bare flt r db"
    by (auto simp: find_open_for_service_def split: if_splits)
  note m = first_match[OF r]
  moreover from m ok have "incident_row r = r" by (simp add: incidents_okD)
  then have "inc = with_events r (inc_event_ids inc)" unfolding inc by (rule loaded_or_bare_with)
  ultimately show "\<exists>r \<in> set (db_rows db). service_match tenant service ws r \<and> is_active r \<and>
      inc = with_events r (inc_event_ids inc) \<and>
      (\<forall>q \<in> set (db_rows db). service_match tenant service ws q \<and> is_active q \<longrightarrow>
          inc_last_event_time q \<le> inc_last_event_time r)"
    by (intro bexI[of _ r]) (auto simp: service_match_def)
next
  fix db r
  assume "find_open_for_service no_faults tenant service ws db = None" "r \<in> set (db_rows db)"
  then show "\<not> (service_match tenant service ws r \<and> is_active r)"
    by (auto simp: find_open_for_service_def service_match_def filter_empty_conv)
next
  fix db inc
  assume "find_open_for_service no_faults tenant service ws db = Some inc"
  then show "inc_event_ids inc = event_ids_of (inc_id inc) db"
    by (auto simp: find_open_for_service_def loaded_or_bare_events)
qed

interpretation by_services: incident_finder
  "\<lambda>flt. find_open_for_services flt tenant services ws" "services_match tenant services ws"
  for tenant services ws
proof unfold_locales
  fix flt db inc
  assume f: "find_open_for_services flt tenant services ws db = Some inc" and ok: "incidents_ok db"
  then obtain r where r: "first_row (order_desc inc_last_event_time
        (filter (\<lambda>r. to_lower (inc_service r) \<in> set (map to_lower services) \<and> is_active r \<and>
           ws \<le> inc_last_event_time r \<and> inc_tenant_id r = tenant_or_default tenant) (db_rows db))) = Some r"
    and inc: "inc = loaded_or_bare flt r db"
    by (auto simp: find_open_for_services_def split: if_splits)
  note m = first_match[OF r]
  moreover from m ok have "incident_row r = r" by (simp add: incidents_okD)
  then have "inc = with_events r (inc_event_ids inc)" unfolding inc by (rule loaded_or_bare_with)
  ultimately show "\<exists>r \<in> set (db_rows db). services_match tenant services ws r \<and> is_active r \<and>
      inc = with_events r (inc_event_ids inc) \<and>
      (\<forall>q \<in> set (db_rows db). services_match tenant services ws q \<and> is_active q \<longrightarrow>
          inc_last_event_time q \<le> inc_last_event_time r)"
    by (intro bexI[of _ r]) (auto simp: services_match_def)
next
  fix db r
  assume "find_open_for_services no_faults tenant services ws db = None" "r \<in> set (db_rows db)"
  then show "\<not> (services_match tenant services ws r \<and> is_active r)"
    by (auto simp: find_open_for_services_def services_match_def filter_empty_conv split: if_splits)
next
  fix db inc
  assume "find_open_for_services no_faults tenant services ws db = Some inc"
  then show "inc_event_ids inc = event_ids_of (inc_id inc) db"
    by (auto simp: find_open_for_services_def loaded_or_bare_events split: if_splits)
qed

interpretation by_fingerprint: incident_finder
  "\<lambda>flt. find_open_by_fingerprint flt tenant fp" "fingerprint_match tenant fp"
  for tenant fp
proof unfold_locales
  fix flt db inc
  assume f: "find_open_by_fingerprint flt tenant fp db = Some inc" and ok: "incidents_ok db"
  then obtain r where r: "first_row (order_desc inc_last_event_time
        (filter (\<lambda>r. inc_fingerprint r = fp \<and> is_active r \<and>
           inc_tenant_id r = tenant_or_default tenant) (db_rows db))) = Some r"
    and g: "get_incident flt (inc_id r) db = Some inc" and ne: "fp \<noteq> []"
    by (auto simp: find_open_by_fingerprint_def split: if_splits option.splits)
  note m = first_match[OF r]
  have "tbl_find inc_id (inc_id r) (db_rows db) = Some r"
    using m incidents_okD(1)[OF ok] by (simp add: tbl_find_unique)
  with g have "inc = with_events r (inc_event_ids inc)" by (auto simp: get_incident_Some)
  with m ne show "\<exists>r \<in> set (db_rows db). fingerprint_match tenant fp r \<and> is_active r \<and>
      inc = with_events r (inc_event_ids inc) \<and>
      (\<forall>q \<in> set (db_rows db). fingerprint_match tenant fp q \<and> is_active q \<longrightarrow>
          inc_last_event_time q \<le> inc_last_event_time r)"
    by (intro bexI[of _ r]) (auto simp: fingerprint_match_def)
next
  fix db r
  assume n: "find_open_by_fingerprint no_faults tenant fp db = None" and r: "r \<in> set (db_rows db)"
  show "\<not> (fingerprint_match tenant fp r \<and> is_active r)"
  proof
    assume a: "fingerprint_match tenant fp r \<and> is_active r"
    define rows where "rows = filter (\<lambda>r. inc_fingerprint r = fp \<and> is_active r \<and>
        inc_tenant_id r = tenant_or_default tenant) (db_rows db)"
    from a r have "rows \<noteq> []" by (auto simp: fingerprint_match_def rows_def filter_empty_conv)
    then obtain q where q: "first_row (order_desc inc_last_event_time rows) = Some q"
      by (cases "first_row (order_desc inc_last_event_time rows)") auto
    then have "q \<in> set (db_rows db)" using first_row_desc by (fastforce simp: rows_def)
    then have "tbl_find inc_id (inc_id q) (db_rows db) \<noteq> None"
      by (auto simp: tbl_find_None tbl_has_iff)
    with q n a show False
      by (auto simp: find_open_by_fingerprint_def fingerprint_match_def get_incident_no_faults
          rows_def[symmetric])
  qed
next
  fix db inc
  assume "find_open_by_fingerprint no_faults tenant fp db = Some inc"
  then show "inc_event_ids inc = event_ids_of (inc_id inc) db"
    by (auto simp: find_open_by_fingerprint_def get_incident_no_faults split: if_splits option.splits
        dest: tbl_find_Some)
qed

section \<open>Lemmas: the list\<close>

lemma concat_pages: "concat (map (\<lambda>p. take k (drop (p * k) xs)) [0..<n]) = take (n * k) xs"
proof (induction n)
  case 0
  then show ?case by simp
next
  case (Suc n)
  have "take (n * k + k) xs = take (n * k) xs @ take k (drop (n * k) xs)"
    by (rule take_add)
  with Suc show ?case by (simp add: add.commute)
qed

lemma mset_order_rows [simp]: "mset (order_rows col asc rows) = mset rows"
  by (cases col) (auto simp: order_rows_def directed_def order_desc_def)

lemma list_incidents_ok:
  assumes "0 \<le> flt_page_size f" "1 \<le> flt_page f"
  shows "\<exists>page. list_incidents no_faults f db = Inr page \<and>
     page_total page = int (length (filter (list_where f) (db_rows db))) \<and>
     page_items page = map (list_item db) (take (nat (flt_page_size f))
        (drop (nat ((flt_page f - 1) * flt_page_size f))
          (order_rows (order_column_of (flt_sort_by f)) (order_ascending (flt_sort_order f))
             (filter (list_where f) (db_rows db))))) \<and>
     (page_has_more page \<longleftrightarrow> (flt_page f - 1) * flt_page_size f + int (length (page_items page))
          < page_total page)"
  using assms by (auto simp: list_incidents_def Let_def not_less mult_less_0_iff)

lemma list_where_page [simp]: "list_where (f\<lparr>flt_page := p\<rparr>) = list_where f"
  by (simp add: list_where_def fun_eq_iff)

text \<open>The IDs of one page, pages counted from 0.\<close>

definition page_ids :: "IncidentListFilter \<Rightarrow> incident_db \<Rightarrow> nat \<Rightarrow> string list" where
  "page_ids f db p =
    (case list_incidents no_faults (f\<lparr>flt_page := int p + 1\<rparr>) db of
       Inl _ \<Rightarrow> [] | Inr page \<Rightarrow> map item_id (page_items page))"

lemma page_ids_slice:
  assumes "0 \<le> flt_page_size f"
  shows "page_ids f db p = take (nat (flt_page_size f)) (drop (p * nat (flt_page_size f))
     (map inc_id (order_rows (order_column_of (flt_sort_by f)) (order_ascending (flt_sort_order f))
        (filter (list_where f) (db_rows db)))))"
proof -
  have "nat (int p * flt_page_size f) = p * nat (flt_page_size f)"
    using assms by (simp add: nat_mult_distrib)
  then show ?thesis
    using list_incidents_ok[of "f\<lparr>flt_page := int p + 1\<rparr>" db] assms
    by (auto simp: page_ids_def take_map drop_map list_item_def comp_def)
qed

section \<open>Properties\<close>

text \<open>An incident that was added is read back as it was given, and nothing else changes.
  After a successful \<open>AddIncident\<close>, \<open>GetIncidentByID\<close> returns the incident with its tenant
  defaulted and its event IDs linked (after links an earlier write may have left under the same
  ID; \<open>what_changed_confidence\<close> has no column and reads as zero), and every other incident reads
  as before.\<close>

theorem add_incident_roundtrip:
  assumes "add_incident flt inc db = Inr db'"
  shows "get_incident no_faults (inc_id inc) db' =
      Some (inc\<lparr>inc_tenant_id := tenant_or_default (inc_tenant_id inc),
                inc_what_changed_confidence := 0,
                inc_event_ids := event_ids_of (inc_id inc) db @ inc_event_ids inc\<rparr>) \<and>
    (\<forall>i. i \<noteq> inc_id inc \<longrightarrow> get_incident no_faults i db' = get_incident no_faults i db)"
proof -
  have rows: "db_rows db' = db_rows db @
      [incident_row (inc\<lparr>inc_tenant_id := tenant_or_default (inc_tenant_id inc)\<rparr>)]"
    and new: "tbl_find inc_id (inc_id inc) (db_rows db) = None"
    using assms by (auto simp: add_incident_Inr tbl_find_None)
  show ?thesis
    using new by (auto simp: get_incident_no_faults rows tbl_find_append event_ids_add[OF assms]
        with_events_def incident_row_def split: option.split)
qed

theorem add_incident_roundtrip_witness:
  "let inc = incident_zero\<lparr>inc_id := ''inc-1'', inc_service := ''api'', inc_event_ids := [''e1'', ''e2'']\<rparr>
   in \<exists>db'. add_incident no_faults inc empty_incident_db = Inr db' \<and>
        get_incident no_faults ''inc-1'' db' = Some (inc\<lparr>inc_tenant_id := ''default''\<rparr>)"
proof -
  let ?inc = "incident_zero\<lparr>inc_id := ''inc-1'', inc_service := ''api'', inc_event_ids := [''e1'', ''e2'']\<rparr>"
  obtain db' where a: "add_incident no_faults ?inc empty_incident_db = Inr db'"
    by (simp add: add_incident_Inr empty_incident_db_def tbl_has_def incident_zero_def)
  from add_incident_roundtrip[OF a] a show ?thesis
    by (simp add: Let_def incident_zero_def tenant_or_default_def event_ids_of_def empty_incident_db_def)
qed

text \<open>\<open>UpdateIncident\<close> is all or nothing. On an existing incident it succeeds without faults
  exactly when the given event IDs have no duplicates; then the incident reads back as given,
  except that the tenant never changes, and every other incident reads as before. With a
  duplicate the transaction fails on the primary key of the links and changes nothing.\<close>

theorem update_incident_exact:
  assumes "tbl_find inc_id (inc_id inc) (db_rows db) = Some old"
  shows "if distinct (inc_event_ids inc)
     then \<exists>db'. update_incident no_faults inc db = Inr db' \<and>
        get_incident no_faults (inc_id inc) db' =
          Some (inc\<lparr>inc_tenant_id := inc_tenant_id old, inc_what_changed_confidence := 0\<rparr>) \<and>
        (\<forall>i. i \<noteq> inc_id inc \<longrightarrow> get_incident no_faults i db' = get_incident no_faults i db)
     else update_incident no_faults inc db = Inl ErrUnique"
proof (cases "distinct (inc_event_ids inc)")
  case True
  then obtain db' where u: "update_incident no_faults inc db = Inr db'"
    by (simp add: update_incident_Inr)
  have "inc_id old = inc_id inc" using assms by (auto dest: tbl_find_Some)
  then have "get_incident no_faults (inc_id inc) db' =
      Some (inc\<lparr>inc_tenant_id := inc_tenant_id old, inc_what_changed_confidence := 0\<rparr>)"
    using assms by (simp add: get_incident_no_faults rows_find_update[OF u] event_ids_update[OF u]
        overwrite_row_def with_events_def incident_row_def)
  moreover have "get_incident no_faults i db' = get_incident no_faults i db" if "i \<noteq> inc_id inc" for i
  proof (cases "tbl_find inc_id i (db_rows db)")
    case None
    then show ?thesis by (simp add: get_incident_no_faults rows_find_update[OF u])
  next
    case (Some r)
    then have "inc_id r = i" by (auto dest: tbl_find_Some)
    with Some that show ?thesis
      by (simp add: get_incident_no_faults rows_find_update[OF u] event_ids_update[OF u])
  qed
  ultimately show ?thesis using True u by auto
next
  case False
  then show ?thesis by (simp add: update_incident_def link_all_eq)
qed

theorem update_incident_exact_witness:
  "let db = \<lparr>db_rows = [incident_zero\<lparr>inc_id := ''i'', inc_tenant_id := ''acme''\<rparr>], db_links = [(''i'', ''e1'')],
             db_slack = []\<rparr>;
       inc = incident_zero\<lparr>inc_id := ''i'', inc_severity := ''high'', inc_event_ids := [''e1'', ''e2'']\<rparr>
   in (\<exists>db'. update_incident no_faults inc db = Inr db' \<and>
         get_incident no_faults ''i'' db' = Some (inc\<lparr>inc_tenant_id := ''acme''\<rparr>)) \<and>
      update_incident no_faults (inc\<lparr>inc_event_ids := [''e1'', ''e1'']\<rparr>) db = Inl ErrUnique"
proof -
  let ?old = "incident_zero\<lparr>inc_id := ''i'', inc_tenant_id := ''acme''\<rparr>"
  let ?db = "\<lparr>db_rows = [?old], db_links = [(''i'', ''e1'')], db_slack = []\<rparr>"
  let ?inc = "incident_zero\<lparr>inc_id := ''i'', inc_severity := ''high'', inc_event_ids := [''e1'', ''e2'']\<rparr>"
  have f: "tbl_find inc_id (inc_id ?inc) (db_rows ?db) = Some ?old"
    "tbl_find inc_id (inc_id (?inc\<lparr>inc_event_ids := [''e1'', ''e1'']\<rparr>)) (db_rows ?db) = Some ?old"
    by simp_all
  from update_incident_exact[OF f(1)] update_incident_exact[OF f(2)] show ?thesis
    by (auto simp: Let_def incident_zero_def)
qed

text \<open>The incident correlation merges into is the right one. \<open>FindOpenIncidentForService\<close>
  returns an incident exactly when the tenant has an open or acknowledged one of the service
  (ignoring case) active within the window; the one returned is such an incident with all its
  linked events, and no other such incident was active later.\<close>

theorem find_open_for_service_exact:
  assumes "incidents_ok db"
  shows "case find_open_for_service no_faults tenant service ws db of
      None \<Rightarrow> \<forall>r \<in> set (db_rows db). \<not> (service_match tenant service ws r \<and> is_active r)
    | Some inc \<Rightarrow> tbl_find inc_id (inc_id inc) (db_rows db) = Some (incident_row inc) \<and>
        service_match tenant service ws inc \<and> is_active inc \<and>
        inc_event_ids inc = event_ids_of (inc_id inc) db \<and>
        (\<forall>q \<in> set (db_rows db). service_match tenant service ws q \<and> is_active q \<longrightarrow>
            inc_last_event_time q \<le> inc_last_event_time inc)"
proof (cases "find_open_for_service no_faults tenant service ws db")
  case None
  with by_service.none_found[OF _ assms] show ?thesis by simp
next
  case (Some inc)
  obtain r where "service_match tenant service ws r" "inc = with_events r (inc_event_ids inc)"
    "\<forall>q \<in> set (db_rows db). service_match tenant service ws q \<and> is_active q \<longrightarrow>
        inc_last_event_time q \<le> inc_last_event_time r"
    using by_service.found[OF Some assms] by blast
  then have "service_match tenant service ws inc"
    "\<forall>q \<in> set (db_rows db). service_match tenant service ws q \<and> is_active q \<longrightarrow>
        inc_last_event_time q \<le> inc_last_event_time inc"
    by (metis service_match_def with_events_simps(2,6,7))+
  with Some by_service.found_row[OF Some assms] by_service.found_active[OF Some assms]
    by_service.found_events[OF Some assms]
  show ?thesis by simp
qed

theorem find_open_for_service_exact_witness:
  "let old = incident_zero\<lparr>inc_id := ''a'', inc_service := ''API'', inc_status := ''open'',
         inc_tenant_id := ''default'', inc_last_event_time := 5\<rparr>;
       db = \<lparr>db_rows = [old, old\<lparr>inc_id := ''b'', inc_last_event_time := 9\<rparr>], db_links = [(''b'', ''e'')], db_slack = []\<rparr>
   in \<exists>inc. find_open_for_service no_faults [] ''api'' 4 db = Some inc \<and> inc_id inc = ''b'' \<and>
        inc_event_ids inc = event_ids_of ''b'' db"
proof -
  let ?old = "incident_zero\<lparr>inc_id := ''a'', inc_service := ''API'', inc_status := ''open'',
         inc_tenant_id := ''default'', inc_last_event_time := 5\<rparr>"
  let ?db = "\<lparr>db_rows = [?old, ?old\<lparr>inc_id := ''b'', inc_last_event_time := 9\<rparr>], db_links = [(''b'', ''e'')], db_slack = []\<rparr>"
  have ok: "incidents_ok ?db" by code_simp
  have "map_option inc_id (find_open_for_service no_faults [] ''api'' 4 ?db) = Some ''b''" by code_simp
  with find_open_for_service_exact[OF ok, of "[]" "''api''" 4] show ?thesis
    by (auto simp: Let_def)
qed

text \<open>The pages of the incident list partition the matching incidents. For a positive page
  size, the pages 1 to \<open>n\<close> of a fixed filter and order, put together, hold every incident the
  filter matches exactly once, as soon as \<open>n\<close> pages have room for them.\<close>

theorem list_pages_partition:
  assumes "0 < flt_page_size f"
    and "length (filter (list_where f) (db_rows db)) \<le> n * nat (flt_page_size f)"
  shows "mset (concat (map (page_ids f db) [0..<n])) =
         mset (map inc_id (filter (list_where f) (db_rows db)))"
proof -
  let ?o = "map inc_id (order_rows (order_column_of (flt_sort_by f)) (order_ascending (flt_sort_order f))
      (filter (list_where f) (db_rows db)))"
  have "page_ids f db = (\<lambda>p. take (nat (flt_page_size f)) (drop (p * nat (flt_page_size f)) ?o))"
    using assms(1) by (intro ext page_ids_slice) simp
  then have "concat (map (page_ids f db) [0..<n]) = take (n * nat (flt_page_size f)) ?o"
    by (simp only: concat_pages)
  moreover have "length ?o = length (filter (list_where f) (db_rows db))"
    by (metis length_map mset_order_rows size_mset)
  ultimately have "concat (map (page_ids f db) [0..<n]) = ?o" using assms(2) by simp
  then show ?thesis by simp
qed

theorem list_pages_partition_witness:
  "let f = \<lparr>flt_tenant_id = [], flt_status = [], flt_severity = [], flt_service = [], flt_search = [],
         flt_from = None, flt_to = None, flt_page = 1, flt_page_size = 2, flt_sort_by = [], flt_sort_order = []\<rparr>;
       r = incident_zero\<lparr>inc_tenant_id := ''default''\<rparr>;
       db = \<lparr>db_rows = [r\<lparr>inc_id := ''a''\<rparr>, r\<lparr>inc_id := ''b''\<rparr>, r\<lparr>inc_id := ''c''\<rparr>], db_links = [], db_slack = []\<rparr>
   in mset (concat (map (page_ids f db) [0..<2])) = {#''a'', ''b'', ''c''#}"
proof -
  let ?f = "\<lparr>flt_tenant_id = [], flt_status = [], flt_severity = [], flt_service = [], flt_search = [],
         flt_from = None, flt_to = None, flt_page = 1, flt_page_size = 2, flt_sort_by = [], flt_sort_order = []\<rparr>"
  let ?r = "incident_zero\<lparr>inc_tenant_id := ''default''\<rparr>"
  let ?db = "\<lparr>db_rows = [?r\<lparr>inc_id := ''a''\<rparr>, ?r\<lparr>inc_id := ''b''\<rparr>, ?r\<lparr>inc_id := ''c''\<rparr>], db_links = [], db_slack = []\<rparr>"
  have l: "length (filter (list_where ?f) (db_rows ?db)) \<le> 2 * nat (flt_page_size ?f)" by code_simp
  have i: "map inc_id (filter (list_where ?f) (db_rows ?db)) = [''a'', ''b'', ''c'']" by code_simp
  have "0 < flt_page_size ?f" by simp
  from list_pages_partition[OF this l] show ?thesis unfolding i Let_def by simp
qed

end
