(* ===== verification/GoFloat.thy ===== *)
theory GoFloat
  imports GoStrings Complex_Main
begin

text \<open>
  Floating-point values as the source uses them: a \<open>float64\<close> is not a number, an infinity or
  a finite value, kept as an exact rational (Go rounds it to binary64). \<open>parse_finite\<close> is
  \<open>strconv.ParseFloat(s, 64)\<close> for callers that treat an error, a NaN and an infinity alike:
  decimal and hexadecimal syntax, underscores between digits, and the range check.
\<close>

datatype gofloat = NaN | Inf bool | Fin rat

text \<open>\<open><\<close> on \<open>float64\<close>: every comparison with NaN is false.\<close>

fun float_less :: "gofloat \<Rightarrow> gofloat \<Rightarrow> bool" where
  "float_less NaN y = False"
| "float_less x NaN = False"
| "float_less (Inf neg) y = (neg \<and> y \<noteq> Inf True)"
| "float_less (Fin x) (Inf neg) = (\<not> neg)"
| "float_less (Fin x) (Fin y) = (x < y)"

definition is_finite :: "gofloat \<Rightarrow> bool" where
  "is_finite v = (case v of Fin _ \<Rightarrow> True | _ \<Rightarrow> False)"

section \<open>Syntax\<close>

definition lower_ord :: "char \<Rightarrow> nat" where "lower_ord c = ord (lower_char c)"

definition hex_letter :: "char \<Rightarrow> bool" where
  "hex_letter c \<longleftrightarrow> 97 \<le> lower_ord c \<and> lower_ord c \<le> 102"

definition base_digit :: "bool \<Rightarrow> char \<Rightarrow> nat option" where
  "base_digit hex c =
    (if is_digit c then Some (ord c - 48)
     else if hex \<and> hex_letter c then Some (lower_ord c - 87)
     else None)"

definition split_sign :: "string \<Rightarrow> bool \<times> string" where
  "split_sign s = (case s of [] \<Rightarrow> (False, [])
     | c # cs \<Rightarrow> if c = CHR ''-'' then (True, cs) else if c = CHR ''+'' then (False, cs) else (False, s))"

text \<open>The mantissa loop of \<open>readFloat\<close>: number read so far, digits after the dot, whether the dot
  and whether a digit was seen.\<close>

fun read_mantissa :: "bool \<Rightarrow> nat \<Rightarrow> nat \<Rightarrow> bool \<Rightarrow> bool \<Rightarrow> string \<Rightarrow> nat \<times> nat \<times> bool \<times> string" where
  "read_mantissa hex n fd dot dig [] = (n, fd, dig, [])"
| "read_mantissa hex n fd dot dig (c # cs) =
    (if c = CHR ''_'' then read_mantissa hex n fd dot dig cs
     else if c = CHR ''.'' then
       (if dot then (n, fd, dig, c # cs) else read_mantissa hex n fd True dig cs)
     else case base_digit hex c of
       Some d \<Rightarrow> read_mantissa hex ((if hex then 16 else 10) * n + d) (if dot then fd + 1 else fd) dot True cs
     | None \<Rightarrow> (n, fd, dig, c # cs))"

fun read_exponent :: "nat \<Rightarrow> string \<Rightarrow> nat \<times> string" where
  "read_exponent e [] = (e, [])"
| "read_exponent e (c # cs) =
    (if c = CHR ''_'' then read_exponent e cs
     else if is_digit c then read_exponent (if e < 10000 then 10 * e + (ord c - 48) else e) cs
     else (e, c # cs))"

text \<open>\<open>underscoreOK\<close>: an underscore stands between digits (or after the base prefix).\<close>

datatype last_char = Start | Digit | Underscore | Other

fun underscores_ok :: "bool \<Rightarrow> last_char \<Rightarrow> string \<Rightarrow> bool" where
  "underscores_ok hex st [] = (st \<noteq> Underscore)"
| "underscores_ok hex st (c # cs) =
    (if is_digit c \<or> (hex \<and> hex_letter c) then underscores_ok hex Digit cs
     else if c = CHR ''_'' then st = Digit \<and> underscores_ok hex Underscore cs
     else st \<noteq> Underscore \<and> underscores_ok hex Other cs)"

definition has_hex_prefix :: "string \<Rightarrow> bool" where
  "has_hex_prefix s = (case s of c # d # _ # _ \<Rightarrow> c = CHR ''0'' \<and> lower_char d = CHR ''x'' | _ \<Rightarrow> False)"

definition scale :: "nat \<Rightarrow> int \<Rightarrow> rat" where
  "scale b e = (if 0 \<le> e then of_nat b ^ nat e else 1 / of_nat b ^ nat (- e))"

text \<open>The largest magnitude that still rounds to a finite \<open>float64\<close> lies below this bound.\<close>

definition float_limit :: rat where "float_limit = 2 ^ 1024 - 2 ^ 970"

definition parse_finite :: "string \<Rightarrow> rat option" where
  "parse_finite s =
    (let (neg, t) = split_sign s;
         hex = has_hex_prefix t;
         body = (if hex then drop 2 t else t);
         (n, fd, dig, rest) = read_mantissa hex 0 0 False False body;
         finish = (\<lambda>e. let v = of_nat n * scale (if hex then 16 else 10) (- int fd) *
                              scale (if hex then 2 else 10) e
                       in if (CHR ''_'' \<in> set s \<longrightarrow> underscores_ok hex (if hex then Digit else Start) body) \<and> v < float_limit
                          then Some (if neg then - v else v) else None)
     in if \<not> dig then None
        else case rest of
          [] \<Rightarrow> if hex then None else finish 0
        | c # cs \<Rightarrow>
            if lower_char c \<noteq> (if hex then CHR ''p'' else CHR ''e'') then None
            else let (eneg, ds) = split_sign cs in
              (case ds of [] \<Rightarrow> None
               | d # _ \<Rightarrow>
                  if \<not> is_digit d then None
                  else let (e, tl) = read_exponent 0 ds in
                    if tl \<noteq> [] then None else finish (if eneg then - int e else int e)))"

end
