(* ===== verification/AlertMuteStore.thy ===== *)
theory AlertMuteStore
  imports Models GoFloat
begin

text \<open>
  \<open>internal/models/alert_mute.go\<close> and \<open>internal/store/alert_mute_store.go\<close>: alert mutes, the
  log of the alerts they stopped, and the queries on both. \<open>StatusAt\<close> derives the status of a
  mute; the stored column set has no status. The locale \<open>mute_repository\<close> is the interface
  \<open>muteRepository\<close> through which the mute service uses the store.
\<close>

section \<open>Mutes\<close>

definition MuteAll :: string where "MuteAll = ''all''"

definition MuteDuration :: duration where "MuteDuration = 7 * 24 * hour"

definition MuteStatusActive :: string where "MuteStatusActive = ''active''"
definition MuteStatusExpired :: string where "MuteStatusExpired = ''expired''"
definition MuteStatusUnmuted :: string where "MuteStatusUnmuted = ''unmuted''"

record AlertMute =
  mu_id :: string
  mu_tenant_id :: string
  mu_alert_names :: "string list"
  mu_devices :: "string list"
  mu_service :: string
  mu_environment :: string
  mu_value_min :: "gofloat option"
  mu_value_max :: "gofloat option"
  mu_reason :: string
  mu_incident_id :: string
  mu_created_by :: string
  mu_created_at :: time
  mu_ends_at :: time
  mu_unmuted_at :: "time option"
  mu_unmuted_by :: string
  mu_match_count :: int
  mu_last_matched_at :: "time option"
  mu_status :: string

definition status_at :: "AlertMute \<Rightarrow> time \<Rightarrow> string" where
  "status_at m now =
    (if mu_unmuted_at m \<noteq> None then MuteStatusUnmuted
     else if \<not> now < mu_ends_at m then MuteStatusExpired
     else MuteStatusActive)"

record AlertMuteLogEntry =
  ml_id :: int
  ml_tenant_id :: string
  ml_mute_id :: string
  ml_event_id :: string
  ml_alert_name :: string
  ml_device :: string
  ml_service :: string
  ml_value :: string
  ml_received_at :: time

section \<open>The tables\<close>

record mute_db =
  mdb_mutes :: "AlertMute list"
  mdb_log :: "AlertMuteLogEntry list"
  mdb_next_log_id :: int

definition mutes_ok :: "mute_db \<Rightarrow> bool" where
  "mutes_ok db \<longleftrightarrow> pk mu_id (mdb_mutes db)"

text \<open>\<open>Create\<close> writes thirteen columns; the others have the defaults of the schema.\<close>

definition mute_row :: "AlertMute \<Rightarrow> AlertMute" where
  "mute_row m = m\<lparr>mu_unmuted_at := None, mu_unmuted_by := [], mu_match_count := 0,
     mu_last_matched_at := None, mu_status := []\<rparr>"

definition create_mute :: "faults \<Rightarrow> AlertMute \<Rightarrow> mute_db \<Rightarrow> mute_db result" where
  "create_mute flt m db = guard_db flt ''Create''
     (case tbl_insert mu_id (mute_row m) (mdb_mutes db) of
        Inl e \<Rightarrow> Inl e | Inr rows \<Rightarrow> Inr (db\<lparr>mdb_mutes := rows\<rparr>))"

definition in_force :: "time \<Rightarrow> AlertMute \<Rightarrow> bool" where
  "in_force now m \<longleftrightarrow> mu_unmuted_at m = None \<and> now < mu_ends_at m"

definition active_mutes :: "faults \<Rightarrow> string \<Rightarrow> time \<Rightarrow> mute_db \<Rightarrow> AlertMute list result" where
  "active_mutes flt tenant now db = guard_db flt ''ActiveMutes''
     (Inr (order_asc mu_created_at
        (filter (\<lambda>m. mu_tenant_id m = tenant \<and> in_force now m) (mdb_mutes db))))"

definition list_recent_mutes :: "faults \<Rightarrow> string \<Rightarrow> time \<Rightarrow> mute_db \<Rightarrow> AlertMute list result" where
  "list_recent_mutes flt tenant since db = guard_db flt ''ListRecent''
     (Inr (take 200 (order_desc mu_created_at
        (filter (\<lambda>m. mu_tenant_id m = tenant \<and>
           since < (case mu_unmuted_at m of Some t \<Rightarrow> t | None \<Rightarrow> mu_ends_at m)) (mdb_mutes db)))))"

definition unmute_row :: "faults \<Rightarrow> string \<Rightarrow> string \<Rightarrow> string \<Rightarrow> time \<Rightarrow> mute_db \<Rightarrow> mute_db result" where
  "unmute_row flt tenant mid userID now db = guard_db flt ''Unmute''
     (let p = (\<lambda>m. mu_tenant_id m = tenant \<and> mu_id m = mid \<and> in_force now m) in
      if \<exists>m \<in> set (mdb_mutes db). p m
      then Inr (db\<lparr>mdb_mutes := tbl_update p
                  (\<lambda>m. m\<lparr>mu_unmuted_at := Some now, mu_unmuted_by := userID\<rparr>) (mdb_mutes db)\<rparr>)
      else Inl ErrMuteNotActive)"

text \<open>\<open>RecordMatch\<close>: a log row with the next serial number, and the counters of the mute.\<close>

definition record_match :: "faults \<Rightarrow> AlertMuteLogEntry \<Rightarrow> mute_db \<Rightarrow> mute_db result" where
  "record_match flt e db = guard_db flt ''RecordMatch''
     (Inr (db\<lparr>mdb_log := mdb_log db @ [e\<lparr>ml_id := mdb_next_log_id db\<rparr>],
              mdb_next_log_id := mdb_next_log_id db + 1,
              mdb_mutes := tbl_update (\<lambda>m. mu_tenant_id m = ml_tenant_id e \<and> mu_id m = ml_mute_id e)
                (\<lambda>m. m\<lparr>mu_match_count := mu_match_count m + 1,
                       mu_last_matched_at := Some (ml_received_at e)\<rparr>) (mdb_mutes db)\<rparr>))"

definition list_mute_log ::
    "faults \<Rightarrow> string \<Rightarrow> string \<Rightarrow> int \<Rightarrow> int \<Rightarrow> mute_db \<Rightarrow> AlertMuteLogEntry list result" where
  "list_mute_log flt tenant muteID limit offset db =
    (if flt ''ListLog'' \<or> limit < 0 \<or> offset < 0 then Inl ErrDB
     else Inr (take (nat limit) (drop (nat offset)
        (order_desc ml_received_at (order_desc ml_id
          (filter (\<lambda>e. ml_tenant_id e = tenant \<and> (muteID = [] \<or> ml_mute_id e = muteID)) (mdb_log db)))))))"

definition count_log_since :: "faults \<Rightarrow> string \<Rightarrow> time \<Rightarrow> mute_db \<Rightarrow> nat result" where
  "count_log_since flt tenant since db = guard_db flt ''CountLogSince''
     (Inr (length (filter (\<lambda>e. ml_tenant_id e = tenant \<and> since \<le> ml_received_at e) (mdb_log db))))"

section \<open>Lemmas\<close>

lemma MuteStatus_distinct [simp]:
  "MuteStatusActive \<noteq> MuteStatusExpired" "MuteStatusActive \<noteq> MuteStatusUnmuted"
  "MuteStatusExpired \<noteq> MuteStatusActive" "MuteStatusUnmuted \<noteq> MuteStatusActive"
  by (simp_all add: MuteStatusActive_def MuteStatusExpired_def MuteStatusUnmuted_def)

lemma status_active_iff: "status_at m now = MuteStatusActive \<longleftrightarrow> in_force now m"
  by (simp add: status_at_def in_force_def)

lemma in_force_earlier: "in_force now m \<Longrightarrow> t \<le> now \<Longrightarrow> in_force t m"
  by (auto simp: in_force_def)

text \<open>A mute without its counters: all that matching reads.\<close>

definition mute_core :: "AlertMute \<Rightarrow> AlertMute" where
  "mute_core m = m\<lparr>mu_match_count := 0, mu_last_matched_at := None\<rparr>"

lemma mute_core_simps [simp]:
  "mu_id (mute_core m) = mu_id m" "mu_tenant_id (mute_core m) = mu_tenant_id m"
  "mu_alert_names (mute_core m) = mu_alert_names m" "mu_devices (mute_core m) = mu_devices m"
  "mu_service (mute_core m) = mu_service m" "mu_environment (mute_core m) = mu_environment m"
  "mu_value_min (mute_core m) = mu_value_min m" "mu_value_max (mute_core m) = mu_value_max m"
  "mu_created_at (mute_core m) = mu_created_at m" "mu_ends_at (mute_core m) = mu_ends_at m"
  "mu_unmuted_at (mute_core m) = mu_unmuted_at m"
  "in_force now (mute_core m) = in_force now m"
  by (simp_all add: mute_core_def in_force_def)

lemma create_mute_ok [preserve]: "mutes_ok db \<Longrightarrow> create_mute flt m db = Inr db' \<Longrightarrow> mutes_ok db'"
  by (auto simp: mutes_ok_def create_mute_def intro: pk_insert split: sum.splits)

lemma unmute_row_ok [preserve]: "mutes_ok db \<Longrightarrow> unmute_row flt t i u now db = Inr db' \<Longrightarrow> mutes_ok db'"
  by (auto simp: mutes_ok_def unmute_row_def Let_def intro!: pk_update split: if_splits)

lemma record_match_ok [preserve]: "mutes_ok db \<Longrightarrow> record_match flt e db = Inr db' \<Longrightarrow> mutes_ok db'"
  by (auto simp: mutes_ok_def record_match_def intro!: pk_update)

text \<open>Recording a match changes counters only.\<close>

lemma map_core_record:
  assumes "record_match flt e db = Inr db'"
  shows "map mute_core (mdb_mutes db') = map mute_core (mdb_mutes db)"
  using assms by (auto simp: record_match_def tbl_update_def mute_core_def)

section \<open>The interface of the repository\<close>

text \<open>The mutes of a tenant in force at a time, oldest first: what \<open>ActiveMutes\<close> promises.\<close>

definition due_mutes :: "string \<Rightarrow> time \<Rightarrow> AlertMute list \<Rightarrow> AlertMute list" where
  "due_mutes tenant now ms =
     order_asc mu_created_at (filter (\<lambda>m. mu_tenant_id m = tenant \<and> in_force now m) (map mute_core ms))"

definition other_tenants :: "string \<Rightarrow> AlertMute list \<Rightarrow> AlertMute list" where
  "other_tenants tenant ms = filter (\<lambda>m. mu_tenant_id m \<noteq> tenant) (map mute_core ms)"

lemma due_mutes_other:
  assumes "other_tenants t ms = other_tenants t ms'" "t' \<noteq> t"
  shows "due_mutes t' now ms = due_mutes t' now ms'"
proof -
  have e: "filter (\<lambda>m. mu_tenant_id m = t' \<and> in_force now m) (map mute_core xs) =
        filter (\<lambda>m. mu_tenant_id m = t' \<and> in_force now m) (other_tenants t xs)" for xs
    using assms(2) by (auto simp: other_tenants_def intro!: filter_cong)
  show ?thesis unfolding due_mutes_def e[of ms] e[of ms'] assms(1) by (rule refl)
qed

locale mute_repository =
  fixes mutes_of :: "'s \<Rightarrow> AlertMute list"
    and log_of :: "'s \<Rightarrow> AlertMuteLogEntry list"
    and create :: "faults \<Rightarrow> AlertMute \<Rightarrow> 's \<Rightarrow> 's result"
    and active :: "faults \<Rightarrow> string \<Rightarrow> time \<Rightarrow> 's \<Rightarrow> AlertMute list result"
    and unmute :: "faults \<Rightarrow> string \<Rightarrow> string \<Rightarrow> string \<Rightarrow> time \<Rightarrow> 's \<Rightarrow> 's result"
    and note_match :: "faults \<Rightarrow> AlertMuteLogEntry \<Rightarrow> 's \<Rightarrow> 's result"
  assumes active_law: "active flt t now s = Inr ms \<Longrightarrow> map mute_core ms = due_mutes t now (mutes_of s)"
    and active_works: "\<exists>ms. active no_faults t now s = Inr ms"
    and create_others: "create flt m s = Inr s' \<Longrightarrow>
        other_tenants (mu_tenant_id m) (mutes_of s') = other_tenants (mu_tenant_id m) (mutes_of s)"
    and create_log: "create flt m s = Inr s' \<Longrightarrow> log_of s' = log_of s"
    and unmute_others: "unmute flt t i u now s = Inr s' \<Longrightarrow>
        other_tenants t (mutes_of s') = other_tenants t (mutes_of s)"
    and unmute_ends: "unmute flt t i u now s = Inr s' \<Longrightarrow>
        \<forall>m \<in> set (due_mutes t now (mutes_of s')). mu_id m \<noteq> i"
    and record_core: "note_match flt e s = Inr s' \<Longrightarrow> map mute_core (mutes_of s') = map mute_core (mutes_of s)"
    and record_log: "note_match flt e s = Inr s' \<Longrightarrow> \<exists>n. log_of s' = log_of s @ [e\<lparr>ml_id := n\<rparr>]"
    and record_works: "\<exists>s'. note_match no_faults e s = Inr s'"

lemma other_tenants_update:
  assumes "\<And>m. p m \<Longrightarrow> mu_tenant_id m = t" and "\<And>m. mu_tenant_id (f m) = mu_tenant_id m"
  shows "other_tenants t (tbl_update p f ms) = other_tenants t ms"
  using assms by (induction ms) (auto simp: other_tenants_def)

lemma map_core_order: "map mute_core (order_asc mu_created_at ms) = order_asc mu_created_at (map mute_core ms)"
proof -
  have "map f (insort_key g x xs) = insort_key g (f x) (map f xs)" if "\<And>y. g (f y) = g y"
    for f :: "AlertMute \<Rightarrow> AlertMute" and g :: "AlertMute \<Rightarrow> int" and x xs
    using that by (induction xs) auto
  then show ?thesis unfolding order_asc_def by (induction ms) auto
qed

interpretation mute_store: mute_repository mdb_mutes mdb_log create_mute active_mutes unmute_row record_match
proof unfold_locales
  fix flt t now s ms
  assume "active_mutes flt t now s = Inr ms"
  then show "map mute_core ms = due_mutes t now (mdb_mutes s)"
    by (auto simp: active_mutes_def due_mutes_def map_core_order filter_map comp_def)
next
  fix t now s
  show "\<exists>ms. active_mutes no_faults t now s = Inr ms" by (simp add: active_mutes_def)
next
  fix flt m s s'
  assume "create_mute flt m s = Inr s'"
  then show "other_tenants (mu_tenant_id m) (mdb_mutes s') = other_tenants (mu_tenant_id m) (mdb_mutes s)"
    "mdb_log s' = mdb_log s"
    by (auto simp: create_mute_def tbl_insert_def other_tenants_def mute_row_def split: if_splits)
next
  fix flt t i u now s s'
  assume u: "unmute_row flt t i u now s = Inr s'"
  then show "other_tenants t (mdb_mutes s') = other_tenants t (mdb_mutes s)"
    by (auto simp: unmute_row_def Let_def intro!: other_tenants_update split: if_splits)
  show "\<forall>m \<in> set (due_mutes t now (mdb_mutes s')). mu_id m \<noteq> i"
    using u by (auto simp: unmute_row_def Let_def due_mutes_def tbl_update_def in_force_def mute_core_def
        split: if_splits)
next
  fix flt e s s'
  assume r: "record_match flt e s = Inr s'"
  then show "map mute_core (mdb_mutes s') = map mute_core (mdb_mutes s)" by (rule map_core_record)
  from r show "\<exists>n. mdb_log s' = mdb_log s @ [e\<lparr>ml_id := n\<rparr>]"
    by (auto simp: record_match_def)
next
  fix e s
  show "\<exists>s'. record_match no_faults e s = Inr s'" by (simp add: record_match_def)
qed

end
