(* ===== verification/AlertMutes.thy ===== *)
theory AlertMutes
  imports AlertMuteStore "HOL-Library.AList" "HOL-Library.Char_ord" "HOL-Library.List_Lexorder"
begin

text \<open>
  \<open>internal/services/alert_mute_service.go\<close>: admin-created mutes that stop matching alerts
  before they reach an incident. The service keeps a per-tenant cache of the active mutes in
  front of its repository; the operations of the repository are parameters here, as they are
  an interface in the code (\<open>muteRepository\<close>). Each operation reads the clock once.
\<close>

definition muteCacheTTL :: duration where "muteCacheTTL = 5 * second"
definition muteReasonMaxLen :: nat where "muteReasonMaxLen = 500"
definition mutePreviewWindow :: duration where "mutePreviewWindow = 7 * 24 * hour"
definition mutePreviewScanCap :: nat where "mutePreviewScanCap = 20000"
definition muteSuggestScanCap :: nat where "muteSuggestScanCap = 5000"
definition muteMaxKnownDevice :: nat where "muteMaxKnownDevice = 50"
definition muteMaxIncidentIDs :: nat where "muteMaxIncidentIDs = 500"
definition mutePreviewTopDev :: nat where "mutePreviewTopDev = 10"

definition deviceLabelKeys :: "string list" where
  "deviceLabelKeys = [''instance'', ''host'', ''hostname'', ''host.name'', ''node'',
     ''k8s.node.name'', ''pod'', ''k8s.pod.name'', ''service.instance.id'']"

definition environmentLabelKeys :: "string list" where
  "environmentLabelKeys = [''environment'', ''env'', ''deployment.environment'']"

section \<open>Ordered sets\<close>

text \<open>\<open>orderedSet.add\<close>; the set \<open>seen\<close> of the code holds the lower-cased items.\<close>

definition os_add :: "string list \<Rightarrow> string \<Rightarrow> string list" where
  "os_add items v = (if v = [] \<or> to_lower v \<in> set (map to_lower items) then items else items @ [v])"

fun normalize_from :: "string list \<Rightarrow> string list \<Rightarrow> string list" where
  "normalize_from items [] = items"
| "normalize_from items (v # vs) =
     (if equal_fold (trim_space v) MuteAll then [MuteAll]
      else normalize_from (os_add items (trim_space v)) vs)"

definition normalize_mute_list :: "string list \<Rightarrow> string list" where
  "normalize_mute_list vs = normalize_from [] vs"

section \<open>Matching\<close>

definition mute_schema :: "Event \<Rightarrow> string" where
  "mute_schema e =
    (if ev_ingest_schema e = [] \<and> equal_fold (ev_source e) ''prometheus'' then ''prometheus''
     else ev_ingest_schema e)"

definition is_muteable :: "Event \<Rightarrow> bool" where
  "is_muteable e \<longleftrightarrow> sget (ev_labels e) ''neuroops_test'' \<noteq> ''true'' \<and>
     mute_schema e \<in> {''prometheus'', ''otel-metrics'', ''zabbix'', ''grafana''}"

definition mute_alert_name :: "Event \<Rightarrow> string" where
  "mute_alert_name e =
    (if mute_schema e \<in> {''prometheus'', ''zabbix'', ''grafana''} then trim_space (sget (ev_labels e) ''alertname'')
     else if mute_schema e = ''otel-metrics'' then trim_space (sget (ev_labels e) ''otel.metric.name'')
     else [])"

text \<open>The first label of the list with a value.\<close>

definition first_label :: "string list \<Rightarrow> smap \<Rightarrow> string" where
  "first_label keys labels =
    (case find (\<lambda>v. v \<noteq> []) (map (\<lambda>k. trim_space (sget labels k)) keys) of None \<Rightarrow> [] | Some v \<Rightarrow> v)"

definition mute_device :: "Event \<Rightarrow> string" where
  "mute_device e =
    (if trim_space (ev_resource e) \<noteq> [] then trim_space (ev_resource e)
     else first_label deviceLabelKeys (ev_labels e))"

definition mute_environment :: "Event \<Rightarrow> string" where
  "mute_environment e =
    (if trim_space (ev_environment e) \<noteq> [] then trim_space (ev_environment e)
     else first_label environmentLabelKeys (ev_labels e))"

definition mute_value_label :: "string \<Rightarrow> string" where
  "mute_value_label schema =
    (if schema = ''prometheus'' then ''annotation.value''
     else if schema = ''otel-metrics'' then ''otel.metric.value''
     else if schema = ''zabbix'' then ''zabbix.item_value''
     else if schema = ''grafana'' then ''grafana.value'' else [])"

text \<open>\<open>muteValue\<close>: the value when a number could be read, and the raw text.\<close>

definition mute_value :: "Event \<Rightarrow> gofloat option \<times> string" where
  "mute_value e =
    (let raw = (if mute_value_label (mute_schema e) = [] then []
                else trim_space (sget (ev_labels e) (mute_value_label (mute_schema e)))) in
     if raw = [] then (None, [])
     else (map_option Fin (parse_finite (trim_space (trim_suffix raw ''%''))), raw))"

definition match_mute_list :: "string list \<Rightarrow> string \<Rightarrow> bool" where
  "match_mute_list items v \<longleftrightarrow>
     MuteAll \<in> set items \<or> (v \<noteq> [] \<and> (\<exists>item \<in> set items. equal_fold item v))"

definition in_value_range :: "AlertMute \<Rightarrow> Event \<Rightarrow> bool" where
  "in_value_range m e \<longleftrightarrow>
    (if mu_value_min m = None \<and> mu_value_max m = None then True
     else case fst (mute_value e) of
       None \<Rightarrow> False
     | Some v \<Rightarrow> (case mu_value_min m of None \<Rightarrow> True | Some lo \<Rightarrow> \<not> float_less v lo) \<and>
                 (case mu_value_max m of None \<Rightarrow> True | Some hi \<Rightarrow> \<not> float_less hi v))"

definition mute_matches :: "AlertMute \<Rightarrow> Event \<Rightarrow> time \<Rightarrow> bool" where
  "mute_matches m e now \<longleftrightarrow>
     status_at m now = MuteStatusActive \<and> mu_tenant_id m = ev_tenant_id e \<and> is_muteable e \<and>
     match_mute_list (mu_alert_names m) (mute_alert_name e) \<and>
     match_mute_list (mu_devices m) (mute_device e) \<and>
     (mu_service m = [] \<or> equal_fold (mu_service m) (ev_service e)) \<and>
     (mu_environment m = [] \<or> equal_fold (mu_environment m) (mute_environment e)) \<and>
     in_value_range m e"

section \<open>The pipeline hook\<close>

record 's mute_service =
  ms_repo :: 's
  ms_cache :: "string \<rightharpoonup> AlertMute list \<times> time"

definition invalidate :: "string \<Rightarrow> 's mute_service \<Rightarrow> 's mute_service" where
  "invalidate tenant st = st\<lparr>ms_cache := (ms_cache st)(tenant := None)\<rparr>"

definition load_active ::
    "(faults \<Rightarrow> string \<Rightarrow> time \<Rightarrow> 's \<Rightarrow> AlertMute list result) \<Rightarrow> faults \<Rightarrow> time \<Rightarrow> string \<Rightarrow>
     's mute_service \<Rightarrow> AlertMute list result \<times> 's mute_service" where
  "load_active active flt now tenant st =
    (case active flt tenant now (ms_repo st) of
       Inl e \<Rightarrow> (Inl e, st)
     | Inr ms \<Rightarrow> (Inr ms, st\<lparr>ms_cache := (ms_cache st)(tenant \<mapsto> (ms, now))\<rparr>))"

definition active_for ::
    "(faults \<Rightarrow> string \<Rightarrow> time \<Rightarrow> 's \<Rightarrow> AlertMute list result) \<Rightarrow> faults \<Rightarrow> time \<Rightarrow> string \<Rightarrow>
     's mute_service \<Rightarrow> AlertMute list result \<times> 's mute_service" where
  "active_for active flt now tenant st =
    (case ms_cache st tenant of
       Some (ms, loaded) \<Rightarrow>
         if now - loaded < muteCacheTTL then (Inr ms, st) else load_active active flt now tenant st
     | None \<Rightarrow> load_active active flt now tenant st)"

definition mute_entry :: "AlertMute \<Rightarrow> Event \<Rightarrow> time \<Rightarrow> AlertMuteLogEntry" where
  "mute_entry m e now = \<lparr>ml_id = 0, ml_tenant_id = ev_tenant_id e, ml_mute_id = mu_id m,
     ml_event_id = ev_id e, ml_alert_name = mute_alert_name e, ml_device = mute_device e,
     ml_service = ev_service e, ml_value = snd (mute_value e), ml_received_at = now\<rparr>"

definition mute_check ::
    "(faults \<Rightarrow> string \<Rightarrow> time \<Rightarrow> 's \<Rightarrow> AlertMute list result) \<Rightarrow>
     (faults \<Rightarrow> AlertMuteLogEntry \<Rightarrow> 's \<Rightarrow> 's result) \<Rightarrow> faults \<Rightarrow> time \<Rightarrow> Event \<Rightarrow>
     's mute_service \<Rightarrow> bool \<times> 's mute_service" where
  "mute_check active record flt now e st =
    (if \<not> is_muteable e then (False, st)
     else case active_for active flt now (ev_tenant_id e) st of
       (Inl _, st1) \<Rightarrow> (False, st1)
     | (Inr ms, st1) \<Rightarrow>
         (case find (\<lambda>m. mute_matches m e now) ms of
            None \<Rightarrow> (False, st1)
          | Some m \<Rightarrow>
              (case record flt (mute_entry m e now) (ms_repo st1) of
                 Inl _ \<Rightarrow> (True, st1)
               | Inr repo \<Rightarrow> (True, st1\<lparr>ms_repo := repo\<rparr>))))"

section \<open>Admin operations\<close>

record AlertMuteRequest =
  req_alert_names :: "string list"
  req_devices :: "string list"
  req_service :: string
  req_environment :: string
  req_value_min :: "gofloat option"
  req_value_max :: "gofloat option"
  req_reason :: string
  req_incident_id :: string

text \<open>\<open>buildMute\<close>; the incident source may be absent.\<close>

definition build_mute ::
    "(string \<Rightarrow> Incident option) option \<Rightarrow> AlertMuteRequest \<Rightarrow> string \<Rightarrow> time \<Rightarrow> bool \<Rightarrow> AlertMute result" where
  "build_mute incidents req tenant now requireReason =
    (let names = normalize_mute_list (req_alert_names req);
         devices = normalize_mute_list (req_devices req);
         service = trim_space (req_service req);
         environment = trim_space (req_environment req);
         reason = trim_space (req_reason req);
         incidentID = trim_space (req_incident_id req);
         bad = (\<lambda>v. case v of None \<Rightarrow> False | Some x \<Rightarrow> \<not> is_finite x)
     in if names = [] then Inl (ErrInvalidMute ''choose at least one alert name, or all'')
        else if devices = [] then Inl (ErrInvalidMute ''choose at least one device, or all'')
        else if hd names = MuteAll \<and> hd devices = MuteAll \<and> service = [] \<and> environment = [] then
          Inl (ErrInvalidMute ''this would mute every alert; narrow it by alert name, device, service or environment'')
        else if bad (req_value_min req) \<or> bad (req_value_max req) then
          Inl (ErrInvalidMute ''value range must be a number'')
        else if (case (req_value_min req, req_value_max req) of
                   (Some lo, Some hi) \<Rightarrow> float_less hi lo | _ \<Rightarrow> False) then
          Inl (ErrInvalidMute ''value range minimum is greater than the maximum'')
        else if requireReason \<and> reason = [] then Inl (ErrInvalidMute ''reason is required'')
        else if length reason > muteReasonMaxLen then
          Inl (ErrInvalidMute (''reason must be '' @ show_nat muteReasonMaxLen @ '' characters or fewer''))
        else if incidentID \<noteq> [] \<and>
                (case incidents of None \<Rightarrow> False
                 | Some get \<Rightarrow> (case get incidentID of None \<Rightarrow> True | Some inc \<Rightarrow> inc_tenant_id inc \<noteq> tenant)) then
          Inl ErrMuteSourceNotFound
        else Inr \<lparr>mu_id = [], mu_tenant_id = tenant, mu_alert_names = names, mu_devices = devices,
               mu_service = service, mu_environment = environment, mu_value_min = req_value_min req,
               mu_value_max = req_value_max req, mu_reason = reason, mu_incident_id = incidentID,
               mu_created_by = [], mu_created_at = now, mu_ends_at = now + MuteDuration,
               mu_unmuted_at = None, mu_unmuted_by = [], mu_match_count = 0,
               mu_last_matched_at = None, mu_status = MuteStatusActive\<rparr>)"

definition service_create ::
    "(faults \<Rightarrow> AlertMute \<Rightarrow> 's \<Rightarrow> 's result) \<Rightarrow> (string \<Rightarrow> Incident option) option \<Rightarrow> faults \<Rightarrow> time \<Rightarrow>
     AlertMuteRequest \<Rightarrow> string \<Rightarrow> string \<Rightarrow> 's mute_service \<Rightarrow> AlertMute result \<times> 's mute_service" where
  "service_create create incidents flt now req tenant userID st =
    (case build_mute incidents req tenant now True of
       Inl e \<Rightarrow> (Inl e, st)
     | Inr m0 \<Rightarrow>
        let m = m0\<lparr>mu_id := ''mute-'' @ show_int now, mu_created_by := userID\<rparr> in
        (case create flt m (ms_repo st) of
           Inl e \<Rightarrow> (Inl e, st)
         | Inr repo \<Rightarrow> (Inr m, invalidate tenant (st\<lparr>ms_repo := repo\<rparr>))))"

definition service_unmute ::
    "(faults \<Rightarrow> string \<Rightarrow> string \<Rightarrow> string \<Rightarrow> time \<Rightarrow> 's \<Rightarrow> 's result) \<Rightarrow> faults \<Rightarrow> time \<Rightarrow>
     string \<Rightarrow> string \<Rightarrow> string \<Rightarrow> 's mute_service \<Rightarrow> unit result \<times> 's mute_service" where
  "service_unmute unmute flt now tenant muteID userID st =
    (case unmute flt tenant muteID userID now (ms_repo st) of
       Inl e \<Rightarrow> (Inl e, st)
     | Inr repo \<Rightarrow> (Inr (), invalidate tenant (st\<lparr>ms_repo := repo\<rparr>)))"

text \<open>\<open>topCounts\<close>: the \<open>n\<close> largest entries, ties by key.\<close>

definition top_counts :: "(string \<times> nat) list \<Rightarrow> nat \<Rightarrow> (string \<times> nat) list" where
  "top_counts m n =
    (if length m \<le> n then m
     else take n (order_desc (\<lambda>kv. int (snd kv)) (sort_key fst m)))"

definition count_device :: "string \<Rightarrow> (string \<times> nat) list \<Rightarrow> (string \<times> nat) list" where
  "count_device d m = AList.update d (Suc (case map_of m d of None \<Rightarrow> 0 | Some n \<Rightarrow> n)) m"

record AlertMutePreview =
  mp_matched :: nat
  mp_scanned :: nat
  mp_window_days :: int
  mp_by_device :: "(string \<times> nat) list"
  mp_truncated :: bool

text \<open>\<open>Preview\<close>; \<open>recent\<close> is \<open>RecentTenantEvents\<close> of the event source.\<close>

definition service_preview ::
    "(string \<Rightarrow> Incident option) option \<Rightarrow> (string \<Rightarrow> string \<Rightarrow> time \<Rightarrow> nat \<Rightarrow> Event list result) \<Rightarrow>
     time \<Rightarrow> AlertMuteRequest \<Rightarrow> string \<Rightarrow> AlertMutePreview result" where
  "service_preview incidents recent now req tenant =
    (case build_mute incidents req tenant now False of
       Inl e \<Rightarrow> Inl e
     | Inr m \<Rightarrow>
        (case recent tenant (mu_service m) (now - mutePreviewWindow) mutePreviewScanCap of
           Inl e \<Rightarrow> Inl e
         | Inr evs \<Rightarrow>
            let hits = filter (\<lambda>e. mute_matches m e now) evs in
            Inr \<lparr>mp_matched = length hits, mp_scanned = length evs,
                 mp_window_days = mutePreviewWindow div (24 * hour),
                 mp_by_device = top_counts (fold (\<lambda>e. count_device (mute_device e)) hits []) mutePreviewTopDev,
                 mp_truncated = (mutePreviewScanCap \<le> length evs)\<rparr>))"

record AlertMuteSuggestion =
  sg_alert_names :: "string list"
  sg_devices :: "string list"
  sg_service :: string
  sg_environment :: string
  sg_known_devices :: "string list"
  sg_incident_id :: string
  sg_supported :: bool

text \<open>Where a suggestion starts from: the alerts and the service.\<close>

definition suggest_source ::
    "(string \<Rightarrow> string list \<Rightarrow> Event list result) \<Rightarrow> (string \<Rightarrow> Incident option) \<Rightarrow>
     string \<Rightarrow> string \<Rightarrow> string \<Rightarrow> (Event list \<times> string) result" where
  "suggest_source by_ids get_inc tenant eventID incidentID =
    (if eventID \<noteq> [] then
       (case by_ids tenant [eventID] of
          Inl e \<Rightarrow> Inl e
        | Inr [] \<Rightarrow> Inl ErrMuteSourceNotFound
        | Inr (e # evs) \<Rightarrow> Inr (e # evs, ev_service e))
     else if incidentID \<noteq> [] then
       (case get_inc incidentID of
          None \<Rightarrow> Inl ErrMuteSourceNotFound
        | Some inc \<Rightarrow>
            if inc_tenant_id inc \<noteq> tenant then Inl ErrMuteSourceNotFound
            else let n = length (inc_event_ids inc);
                     ids = (if n > muteMaxIncidentIDs then drop (n - muteMaxIncidentIDs) (inc_event_ids inc)
                            else inc_event_ids inc)
                 in (case by_ids tenant ids of
                       Inl e \<Rightarrow> Inl e | Inr evs \<Rightarrow> Inr (evs, inc_service inc)))
     else Inl (ErrInvalidMute ''event_id or incident_id is required''))"

definition service_suggest ::
    "(string \<Rightarrow> string list \<Rightarrow> Event list result) \<Rightarrow>
     (string \<Rightarrow> string \<Rightarrow> time \<Rightarrow> nat \<Rightarrow> Event list result) \<Rightarrow> (string \<Rightarrow> Incident option) \<Rightarrow>
     time \<Rightarrow> string \<Rightarrow> string \<Rightarrow> string \<Rightarrow> AlertMuteSuggestion result" where
  "service_suggest by_ids recent get_inc now tenant eventID incidentID =
    (case suggest_source by_ids get_inc tenant eventID incidentID of
       Inl e \<Rightarrow> Inl e
     | Inr (src, service) \<Rightarrow>
        let usable = filter is_muteable src;
            names = foldl os_add [] (map mute_alert_name usable);
            devices = foldl os_add [] (map mute_device usable);
            envs = foldl os_add [] (map mute_environment usable);
            known =
              (if names = [] then []
               else case recent tenant [] (now - mutePreviewWindow) muteSuggestScanCap of
                 Inl _ \<Rightarrow> []
               | Inr evs \<Rightarrow>
                  let same = filter (\<lambda>e. is_muteable e \<and>
                        to_lower (mute_alert_name e) \<in> set (map to_lower names)) evs;
                      skip = foldl os_add [] devices
                  in take muteMaxKnownDevice
                       (sort (drop (length skip) (foldl os_add skip (map mute_device same)))))
        in Inr \<lparr>sg_alert_names = names, sg_devices = devices, sg_service = service,
                sg_environment = (case envs of [env] \<Rightarrow> env | _ \<Rightarrow> []),
                sg_known_devices = known, sg_incident_id = incidentID,
                sg_supported = (usable \<noteq> [])\<rparr>)"

record AlertMuteList =
  aml_items :: "AlertMute list"
  aml_active_count :: nat
  aml_muted_7d :: nat

text \<open>\<open>List\<close>: active mutes first, each group in the order of the store (a stable sort).\<close>

definition service_list ::
    "(string \<Rightarrow> time \<Rightarrow> AlertMute list result) \<Rightarrow> (string \<Rightarrow> time \<Rightarrow> nat result) \<Rightarrow> time \<Rightarrow> string \<Rightarrow>
     AlertMuteList result" where
  "service_list recent count now tenant =
    (case recent tenant (now - MuteDuration) of
       Inl e \<Rightarrow> Inl e
     | Inr ms \<Rightarrow>
        let items = map (\<lambda>m. m\<lparr>mu_status := status_at m now\<rparr>) ms;
            act = (\<lambda>m. mu_status m = MuteStatusActive)
        in (case count tenant (now - 7 * 24 * hour) of
              Inl e \<Rightarrow> Inl e
            | Inr n \<Rightarrow> Inr \<lparr>aml_items = filter act items @ filter (\<lambda>m. \<not> act m) items,
                            aml_active_count = length (filter act items), aml_muted_7d = n\<rparr>))"

section \<open>Lemmas: normalisation\<close>

lemma os_add_set: "set (os_add items v) \<subseteq> insert v (set items)"
  by (auto simp: os_add_def)

lemma os_add_fold_iff:
  "(\<exists>x \<in> set (os_add items v). equal_fold x w) \<longleftrightarrow>
     (\<exists>x \<in> set items. equal_fold x w) \<or> (v \<noteq> [] \<and> equal_fold v w)"
proof (cases "\<exists>x \<in> set items. to_lower x = to_lower v")
  case True
  then obtain x where x: "x \<in> set items" "to_lower x = to_lower v" ..
  then have "to_lower v \<in> set (map to_lower items)" by (metis image_eqI image_set)
  then have "os_add items v = items" by (simp add: os_add_def)
  moreover have "equal_fold v w \<Longrightarrow> equal_fold x w" by (simp add: equal_fold_def x(2))
  ultimately show ?thesis using x(1) by metis
next
  case False
  then have "os_add items v = (if v = [] then items else items @ [v])" by (force simp: os_add_def)
  then show ?thesis by auto
qed

lemma os_add_distinct: "distinct (map to_lower items) \<Longrightarrow> distinct (map to_lower (os_add items v))"
  by (auto simp: os_add_def)

definition clean_list :: "string list \<Rightarrow> bool" where
  "clean_list items \<longleftrightarrow> distinct (map to_lower items) \<and>
     (\<forall>x \<in> set items. x \<noteq> [] \<and> trim_space x = x \<and> \<not> equal_fold x MuteAll)"

lemma clean_os_add:
  "clean_list items \<Longrightarrow> \<not> equal_fold (trim_space v) MuteAll \<Longrightarrow> clean_list (os_add items (trim_space v))"
  by (auto simp: clean_list_def os_add_def)

lemma normalize_from_clean:
  "clean_list items \<Longrightarrow> normalize_from items vs = [MuteAll] \<or> clean_list (normalize_from items vs)"
  by (induction items vs rule: normalize_from.induct) (auto simp: clean_os_add)

lemma normalize_clean:
  "normalize_mute_list vs = [MuteAll] \<or> clean_list (normalize_mute_list vs)"
  unfolding normalize_mute_list_def by (rule normalize_from_clean) (simp add: clean_list_def)

lemma clean_not_all: "clean_list items \<Longrightarrow> MuteAll \<notin> set items"
  by (auto simp: clean_list_def)

lemma normalize_from_match:
  assumes "clean_list items"
  shows "match_mute_list (normalize_from items vs) w \<longleftrightarrow>
     (\<exists>v \<in> set vs. equal_fold (trim_space v) MuteAll) \<or>
     (w \<noteq> [] \<and> ((\<exists>x \<in> set items. equal_fold x w) \<or> (\<exists>v \<in> set vs. equal_fold (trim_space v) w)))"
  using assms
proof (induction items vs rule: normalize_from.induct)
  case (1 items)
  then show ?case by (auto simp: match_mute_list_def dest: clean_not_all)
next
  case (2 items v vs)
  show ?case
  proof (cases "equal_fold (trim_space v) MuteAll")
    case True
    then show ?thesis by (simp add: match_mute_list_def)
  next
    case False
    then have "clean_list (os_add items (trim_space v))" using 2(2) by (rule clean_os_add[rotated])
    note ih = 2(1)[OF False this]
    have "trim_space v \<noteq> []" if "w \<noteq> []" "equal_fold (trim_space v) w"
    proof
      assume "trim_space v = []"
      with that show False by (simp add: equal_fold_def eq_commute[of "[]"])
    qed
    then have "(\<exists>x \<in> set (os_add items (trim_space v)). equal_fold x w) \<longleftrightarrow>
        (\<exists>x \<in> set items. equal_fold x w) \<or> equal_fold (trim_space v) w" if "w \<noteq> []"
      using that unfolding os_add_fold_iff by blast
    with ih False show ?thesis by auto
  qed
qed

section \<open>Lemmas: requests\<close>

lemma build_mute_Inr:
  assumes "build_mute incidents req tenant now rr = Inr m"
  shows "normalize_mute_list (req_alert_names req) \<noteq> [] \<and>
    normalize_mute_list (req_devices req) \<noteq> [] \<and>
    \<not> (hd (normalize_mute_list (req_alert_names req)) = MuteAll \<and>
       hd (normalize_mute_list (req_devices req)) = MuteAll \<and>
       trim_space (req_service req) = [] \<and> trim_space (req_environment req) = []) \<and>
    (rr \<longrightarrow> trim_space (req_reason req) \<noteq> []) \<and>
    length (trim_space (req_reason req)) \<le> muteReasonMaxLen \<and>
    m = \<lparr>mu_id = [], mu_tenant_id = tenant,
         mu_alert_names = normalize_mute_list (req_alert_names req),
         mu_devices = normalize_mute_list (req_devices req),
         mu_service = trim_space (req_service req), mu_environment = trim_space (req_environment req),
         mu_value_min = req_value_min req, mu_value_max = req_value_max req,
         mu_reason = trim_space (req_reason req), mu_incident_id = trim_space (req_incident_id req),
         mu_created_by = [], mu_created_at = now, mu_ends_at = now + MuteDuration,
         mu_unmuted_at = None, mu_unmuted_by = [], mu_match_count = 0,
         mu_last_matched_at = None, mu_status = MuteStatusActive\<rparr>"
  using assms unfolding build_mute_def Let_def
  by (simp only: split: if_split_asm) (simp_all add: not_less)

section \<open>The cache is transparent\<close>

text \<open>The answer without a cache: the first mute of the tenant in force that matches.\<close>

definition reference_mute :: "AlertMute list \<Rightarrow> Event \<Rightarrow> time \<Rightarrow> AlertMute option" where
  "reference_mute ms e now = find (\<lambda>m. mute_matches m e now) (due_mutes (ev_tenant_id e) now ms)"

lemma in_value_range_core [simp]: "in_value_range (mute_core m) e = in_value_range m e"
  by (simp only: in_value_range_def mute_core_simps)

lemma mute_matches_core [simp]: "mute_matches (mute_core m) e now = mute_matches m e now"
  by (simp add: mute_matches_def status_active_iff)

lemma mute_matches_in_force: "mute_matches m e now \<Longrightarrow> in_force now m \<and> mu_tenant_id m = ev_tenant_id e"
  by (simp add: mute_matches_def status_active_iff)

lemma mute_entry_core [simp]: "mute_entry (mute_core m) e now = mute_entry m e now"
  by (simp add: mute_entry_def)

lemma filter_due:
  assumes "l \<le> now"
  shows "filter (\<lambda>m. mute_matches m e now) (due_mutes (ev_tenant_id e) l ms) =
         filter (\<lambda>m. mute_matches m e now) (due_mutes (ev_tenant_id e) now ms)"
proof -
  have "filter (\<lambda>m. mute_matches m e now) (due_mutes (ev_tenant_id e) t ms) =
      order_asc mu_created_at (filter (\<lambda>m. mute_matches m e now) (map mute_core ms))" if "t \<le> now" for t
    unfolding due_mutes_def order_asc_def filter_sort filter_filter
    using that by (intro arg_cong[where f = "sort_key mu_created_at"] filter_cong)
      (auto dest: mute_matches_in_force in_force_earlier)
  from this[OF assms] this[of now] show ?thesis by simp
qed

lemma find_map_core:
  "map_option mute_core (find (\<lambda>m. mute_matches m e now) ms) =
     find (\<lambda>m. mute_matches m e now) (map mute_core ms)"
  by (induction ms) auto

lemma find_due:
  assumes "l \<le> now" "map mute_core ms = due_mutes (ev_tenant_id e) l tbl"
  shows "map_option mute_core (find (\<lambda>m. mute_matches m e now) ms) = reference_mute tbl e now"
  unfolding find_map_core assms(2) reference_mute_def
  by (simp only: find_filter filter_due[OF assms(1)])

context mute_repository
begin

definition coherent :: "time \<Rightarrow> 's mute_service \<Rightarrow> bool" where
  "coherent now st \<longleftrightarrow> (\<forall>t ms l. ms_cache st t = Some (ms, l) \<longrightarrow>
     l \<le> now \<and> map mute_core ms = due_mutes t l (mutes_of (ms_repo st)))"

lemma coherent_start: "coherent now \<lparr>ms_repo = s, ms_cache = Map.empty\<rparr>"
  by (simp add: coherent_def)

lemma coherent_later: "coherent now st \<Longrightarrow> now \<le> now' \<Longrightarrow> coherent now' st"
  by (auto simp: coherent_def intro: order_trans)

lemma coherent_write:
  assumes "coherent now st" "other_tenants t (mutes_of s') = other_tenants t (mutes_of (ms_repo st))"
  shows "coherent now (invalidate t (st\<lparr>ms_repo := s'\<rparr>))"
  using assms due_mutes_other[OF assms(2)] by (auto simp: coherent_def invalidate_def)

lemma coherent_create:
  assumes "coherent now st"
  shows "coherent now (snd (service_create create incidents flt now req tenant u st))"
proof (cases "build_mute incidents req tenant now True")
  case (Inl e)
  with assms show ?thesis by (simp add: service_create_def)
next
  case (Inr m)
  let ?m = "m\<lparr>mu_id := ''mute-'' @ show_int now, mu_created_by := u\<rparr>"
  have t: "mu_tenant_id ?m = tenant" using build_mute_Inr[OF Inr] by simp
  show ?thesis
  proof (cases "create flt ?m (ms_repo st)")
    case (Inl e)
    with assms Inr show ?thesis by (simp add: service_create_def Let_def)
  next
    case (Inr s')
    have "coherent now (invalidate tenant (st\<lparr>ms_repo := s'\<rparr>))"
      by (rule coherent_write[OF assms]) (use create_others[OF Inr] t in simp)
    with Inr \<open>build_mute _ _ _ _ _ = _\<close> show ?thesis by (simp add: service_create_def Let_def)
  qed
qed

lemma coherent_unmute:
  assumes "coherent now st"
  shows "coherent now (snd (service_unmute unmute flt now tenant i u st))"
proof (cases "unmute flt tenant i u now (ms_repo st)")
  case (Inl e)
  with assms show ?thesis by (simp add: service_unmute_def)
next
  case (Inr s')
  with coherent_write[OF assms unmute_others[OF Inr]] show ?thesis by (simp add: service_unmute_def)
qed

lemma load_active_coherent:
  assumes "coherent now st" "load_active active flt now t st = (r, st1)"
  shows "coherent now st1 \<and> ms_repo st1 = ms_repo st \<and>
    (\<forall>ms. r = Inr ms \<longrightarrow> map mute_core ms = due_mutes t now (mutes_of (ms_repo st)))"
  using assms active_law[of flt t now "ms_repo st"]
  by (auto simp: load_active_def coherent_def split: sum.splits if_splits)

lemma active_for_coherent:
  assumes "coherent now st" "active_for active flt now t st = (r, st1)"
  shows "coherent now st1 \<and> ms_repo st1 = ms_repo st \<and>
    (\<forall>ms. r = Inr ms \<longrightarrow> (\<exists>l \<le> now. map mute_core ms = due_mutes t l (mutes_of (ms_repo st))))"
proof (cases "\<exists>ms l. ms_cache st t = Some (ms, l) \<and> now - l < muteCacheTTL")
  case True
  then obtain ms l where c: "ms_cache st t = Some (ms, l)" "now - l < muteCacheTTL" by blast
  then have "r = Inr ms" "st1 = st" using assms(2) by (auto simp: active_for_def)
  moreover have "l \<le> now" "map mute_core ms = due_mutes t l (mutes_of (ms_repo st))"
    using assms(1) c(1) unfolding coherent_def by blast+
  ultimately show ?thesis using assms(1) by blast
next
  case False
  then have "active_for active flt now t st = load_active active flt now t st"
    by (auto simp: active_for_def split: option.split)
  with load_active_coherent[OF assms(1)] assms(2) show ?thesis by auto
qed

lemma active_for_works: "\<exists>ms st1. active_for active no_faults now t st = (Inr ms, st1)"
  using active_works[of t now "ms_repo st"]
  by (auto simp: active_for_def load_active_def split: option.split)

lemma check_true:
  assumes "coherent now st" "fst (mute_check active note_match flt now e st)"
  shows "reference_mute (mutes_of (ms_repo st)) e now \<noteq> None"
proof -
  obtain r st1 where a: "active_for active flt now (ev_tenant_id e) st = (r, st1)" by fastforce
  from assms(2) a obtain ms m where r: "r = Inr ms" "find (\<lambda>m. mute_matches m e now) ms = Some m"
    by (auto simp: mute_check_def split: if_splits sum.splits option.splits)
  with active_for_coherent[OF assms(1) a] obtain l where
    "l \<le> now" "map mute_core ms = due_mutes (ev_tenant_id e) l (mutes_of (ms_repo st))" by auto
  from find_due[OF this] r(2) show ?thesis by (metis option.distinct(1) option.simps(9))
qed

lemma reference_muteable: "reference_mute tbl e now \<noteq> None \<Longrightarrow> is_muteable e"
  by (auto simp: reference_mute_def find_None_iff mute_matches_def)

lemma coherent_check:
  assumes "coherent now st"
  shows "coherent now (snd (mute_check active note_match flt now e st))"
proof -
  obtain r st1 where a: "active_for active flt now (ev_tenant_id e) st = (r, st1)" by fastforce
  have c: "coherent now st1" using active_for_coherent[OF assms a] by simp
  have "coherent now (st1\<lparr>ms_repo := s'\<rparr>)" if "note_match flt x (ms_repo st1) = Inr s'" for x s'
    using c record_core[OF that] by (auto simp: coherent_def due_mutes_def)
  with assms c a show ?thesis
    by (auto simp: mute_check_def split: sum.split option.split)
qed

lemma check_no_faults:
  assumes "coherent now st"
  shows "case reference_mute (mutes_of (ms_repo st)) e now of
      None \<Rightarrow> fst (mute_check active note_match no_faults now e st) = False \<and>
        ms_repo (snd (mute_check active note_match no_faults now e st)) = ms_repo st
    | Some m \<Rightarrow> fst (mute_check active note_match no_faults now e st) = True \<and>
        (\<exists>n. log_of (ms_repo (snd (mute_check active note_match no_faults now e st))) =
           log_of (ms_repo st) @ [(mute_entry m e now)\<lparr>ml_id := n\<rparr>])"
proof (cases "is_muteable e")
  case False
  then have "reference_mute (mutes_of (ms_repo st)) e now = None" using reference_muteable by blast
  with False show ?thesis by (simp add: mute_check_def)
next
  case True
  obtain ms st1 where a: "active_for active no_faults now (ev_tenant_id e) st = (Inr ms, st1)"
    using active_for_works by blast
  from active_for_coherent[OF assms a] obtain l where l: "l \<le> now" "ms_repo st1 = ms_repo st"
    "map mute_core ms = due_mutes (ev_tenant_id e) l (mutes_of (ms_repo st))" by auto
  note f = find_due[OF l(1,3)]
  show ?thesis
  proof (cases "find (\<lambda>m. mute_matches m e now) ms")
    case None
    with f True a l(2) show ?thesis by (simp add: mute_check_def)
  next
    case (Some m)
    obtain s' where s': "note_match no_faults (mute_entry m e now) (ms_repo st) = Inr s'"
      using record_works by blast
    from record_log[OF this] f Some True a l(2) s' show ?thesis
      by (auto simp: mute_check_def f[symmetric])
  qed
qed

text \<open>When the repository can say which mutes are active, a mute in force is obeyed, whatever else fails.\<close>

lemma check_obeys:
  assumes "coherent now st" "reference_mute (mutes_of (ms_repo st)) e now = Some m"
    and "active flt (ev_tenant_id e) now (ms_repo st) = Inr ms0"
  shows "\<exists>st'. mute_check active note_match flt now e st = (True, st') \<and>
    (case note_match flt (mute_entry m e now) (ms_repo st) of
       Inl _ \<Rightarrow> ms_repo st' = ms_repo st | Inr s' \<Rightarrow> ms_repo st' = s')"
proof -
  have "is_muteable e" by (rule reference_muteable[of "mutes_of (ms_repo st)" _ now]) (simp add: assms(2))
  have "\<exists>ms st1. active_for active flt now (ev_tenant_id e) st = (Inr ms, st1)"
    using assms(3) by (auto simp: active_for_def load_active_def split: option.split)
  then obtain ms st1 where a: "active_for active flt now (ev_tenant_id e) st = (Inr ms, st1)" by blast
  from active_for_coherent[OF assms(1) a] obtain l where l: "l \<le> now" "ms_repo st1 = ms_repo st"
    "map mute_core ms = due_mutes (ev_tenant_id e) l (mutes_of (ms_repo st))" by auto
  from find_due[OF l(1,3)] assms(2) obtain m' where m': "find (\<lambda>m. mute_matches m e now) ms = Some m'"
    "mute_core m' = m" by auto
  with \<open>is_muteable e\<close> a l(2) show ?thesis
    by (auto simp: mute_check_def split: sum.split)
qed

text \<open>When neither a fresh cache entry nor the repository can say which mutes are active, the
  alert goes through.\<close>

lemma check_fails_open:
  assumes "active flt (ev_tenant_id e) now (ms_repo st) = Inl err"
    and "\<And>ms l. ms_cache st (ev_tenant_id e) = Some (ms, l) \<Longrightarrow> muteCacheTTL \<le> now - l"
  shows "mute_check active note_match flt now e st = (False, st)"
  using assms by (auto simp: mute_check_def active_for_def load_active_def split: option.split)

end

section \<open>Runs of the service\<close>

text \<open>The states one instance of the service reaches on the store, under any faults, while time
  passes. It starts with an empty cache on any table.\<close>

inductive mute_run :: "mute_db mute_service \<Rightarrow> time \<Rightarrow> bool" where
  start: "mute_run \<lparr>ms_repo = db, ms_cache = Map.empty\<rparr> now"
| tick: "mute_run st now \<Longrightarrow> now \<le> now' \<Longrightarrow> mute_run st now'"
| created: "mute_run st now \<Longrightarrow>
    mute_run (snd (service_create create_mute incidents flt now req tenant u st)) now"
| unmuted: "mute_run st now \<Longrightarrow>
    mute_run (snd (service_unmute unmute_row flt now tenant i u st)) now"
| checked: "mute_run st now \<Longrightarrow>
    mute_run (snd (mute_check active_mutes record_match flt now e st)) now"

lemma mute_run_coherent: "mute_run st now \<Longrightarrow> mute_store.coherent now st"
proof (induction rule: mute_run.induct)
  case (start db now)
  show ?case by (rule mute_store.coherent_start)
next
  case (tick st now now')
  from mute_store.coherent_later[OF tick.IH tick.hyps(2)] show ?case .
next
  case (created st now incidents flt req tenant u)
  from mute_store.coherent_create[OF created.IH] show ?case .
next
  case (unmuted st now flt tenant i u)
  from mute_store.coherent_unmute[OF unmuted.IH] show ?case .
next
  case (checked st now flt e)
  from mute_store.coherent_check[OF checked.IH] show ?case .
qed

lemma reference_mute_stored:
  assumes "reference_mute tbl e now = Some m"
  shows "\<exists>m0 \<in> set tbl. m = mute_core m0 \<and> mute_matches m0 e now"
proof -
  from assms have "m \<in> set (due_mutes (ev_tenant_id e) now tbl)" "mute_matches m e now"
    by (auto simp: reference_mute_def find_Some_iff)
  then show ?thesis by (auto simp: due_mutes_def)
qed

section \<open>Properties\<close>

text \<open>C2: the cache of the mute service is transparent. In every state a service instance
  reaches, a check without faults answers exactly as the mute table does: the alert is muted if
  and only if some mute of its tenant in force now matches it, the first such mute by creation
  gets exactly one new log entry describing the alert, and otherwise nothing is written. A stale
  cache entry never shows through, although entries live for five seconds.\<close>

theorem mute_cache_transparent:
  assumes "mute_run st now"
  shows "case reference_mute (mdb_mutes (ms_repo st)) e now of
      None \<Rightarrow> \<not> fst (mute_check active_mutes record_match no_faults now e st) \<and>
        ms_repo (snd (mute_check active_mutes record_match no_faults now e st)) = ms_repo st
    | Some m \<Rightarrow> fst (mute_check active_mutes record_match no_faults now e st) \<and>
        (\<exists>n. mdb_log (ms_repo (snd (mute_check active_mutes record_match no_faults now e st))) =
           mdb_log (ms_repo st) @ [(mute_entry m e now)\<lparr>ml_id := n\<rparr>])"
  using mute_store.check_no_faults[OF mute_run_coherent[OF assms], of e]
  by (simp split: option.splits)

definition example_mute :: AlertMute where
  "example_mute = \<lparr>mu_id = ''m1'', mu_tenant_id = ''acme'', mu_alert_names = [''DiskFull''],
     mu_devices = [''all''], mu_service = [], mu_environment = [], mu_value_min = None,
     mu_value_max = None, mu_reason = ''maintenance'', mu_incident_id = [], mu_created_by = ''u'',
     mu_created_at = 0, mu_ends_at = MuteDuration, mu_unmuted_at = None, mu_unmuted_by = [],
     mu_match_count = 0, mu_last_matched_at = None, mu_status = []\<rparr>"

definition example_alert :: Event where
  "example_alert = event_zero\<lparr>ev_id := ''e1'', ev_tenant_id := ''acme'', ev_source := ''Prometheus'',
     ev_resource := ''db-1'', ev_labels := [(''alertname'', ''diskfull'')]\<rparr>"

theorem mute_cache_transparent_witness:
  "let st = \<lparr>ms_repo = \<lparr>mdb_mutes = [example_mute], mdb_log = [], mdb_next_log_id = 1\<rparr>, ms_cache = Map.empty\<rparr>
   in mute_run st 5 \<and> fst (mute_check active_mutes record_match no_faults 5 example_alert st) \<and>
      length (mdb_log (ms_repo (snd (mute_check active_mutes record_match no_faults 5 example_alert st)))) = 1"
proof -
  let ?st = "\<lparr>ms_repo = \<lparr>mdb_mutes = [example_mute], mdb_log = [], mdb_next_log_id = 1\<rparr>, ms_cache = Map.empty\<rparr>"
  have r: "mute_run ?st 5" by (rule mute_run.start)
  have "reference_mute [example_mute] example_alert 5 \<noteq> None" by code_simp
  with mute_cache_transparent[OF r, of example_alert] r show ?thesis
    by (auto simp: Let_def split: option.splits)
qed

text \<open>C3: an alert is hidden only for a cause, whatever fails. If a check reports an alert as
  muted, under any faults, the table holds a mute of the alert's own tenant, in force at that
  moment, that matches it, and the alert is not a test alert. And if the active mutes cannot be
  read and no cache entry is younger than five seconds, the alert goes through.\<close>

theorem mute_hides_with_cause_only:
  assumes "mute_run st now"
  shows "(fst (mute_check active_mutes record_match flt now e st) \<longrightarrow>
      (\<exists>m \<in> set (mdb_mutes (ms_repo st)). mu_tenant_id m = ev_tenant_id e \<and> in_force now m \<and>
         mute_matches m e now \<and> sget (ev_labels e) ''neuroops_test'' \<noteq> ''true'')) \<and>
    (flt ''ActiveMutes'' \<and>
     (\<forall>ms l. ms_cache st (ev_tenant_id e) = Some (ms, l) \<longrightarrow> muteCacheTTL \<le> now - l) \<longrightarrow>
       mute_check active_mutes record_match flt now e st = (False, st))"
proof (intro conjI impI)
  assume "fst (mute_check active_mutes record_match flt now e st)"
  from mute_store.check_true[OF mute_run_coherent[OF assms] this] obtain m where
    "reference_mute (mdb_mutes (ms_repo st)) e now = Some m" by auto
  from reference_mute_stored[OF this] obtain m0 where
    "m0 \<in> set (mdb_mutes (ms_repo st))" "mute_matches m0 e now" by blast
  then show "\<exists>m \<in> set (mdb_mutes (ms_repo st)). mu_tenant_id m = ev_tenant_id e \<and> in_force now m \<and>
         mute_matches m e now \<and> sget (ev_labels e) ''neuroops_test'' \<noteq> ''true''"
    by (intro bexI[of _ m0]) (auto simp: mute_matches_def status_active_iff is_muteable_def)
next
  assume a: "flt ''ActiveMutes'' \<and>
     (\<forall>ms l. ms_cache st (ev_tenant_id e) = Some (ms, l) \<longrightarrow> muteCacheTTL \<le> now - l)"
  have "active_mutes flt (ev_tenant_id e) now (ms_repo st) = Inl ErrDB"
    using a by (simp add: active_mutes_def)
  then show "mute_check active_mutes record_match flt now e st = (False, st)"
    by (rule mute_store.check_fails_open) (use a in blast)
qed

theorem mute_hides_with_cause_only_witness:
  "let st = \<lparr>ms_repo = \<lparr>mdb_mutes = [example_mute], mdb_log = [], mdb_next_log_id = 1\<rparr>, ms_cache = Map.empty\<rparr>
   in mute_check active_mutes record_match (\<lambda>op. op = ''ActiveMutes'') 5 example_alert st = (False, st) \<and>
      in_force 5 example_mute \<and> mute_matches example_mute example_alert 5"
proof -
  let ?st = "\<lparr>ms_repo = \<lparr>mdb_mutes = [example_mute], mdb_log = [], mdb_next_log_id = 1\<rparr>, ms_cache = Map.empty\<rparr>"
  have r: "mute_run ?st 5" by (rule mute_run.start)
  have c: "fst (mute_check active_mutes record_match no_faults 5 example_alert ?st)" by code_simp
  from mute_hides_with_cause_only[OF r, of no_faults example_alert] c
    mute_hides_with_cause_only[OF r, of "\<lambda>op. op = ''ActiveMutes''" example_alert]
  show ?thesis by (simp add: Let_def)
qed

text \<open>Ending a mute early takes effect at once. After a successful \<open>Unmute\<close>, the very next
  check at that moment never mutes an alert through the mute that was ended: an alert that only
  that mute matched goes through, with or without a cache entry from before.\<close>

theorem unmute_takes_effect_at_once:
  assumes "mute_run st now"
    and "service_unmute unmute_row flt now tenant i u st = (Inr (), st')"
    and "ev_tenant_id e = tenant"
    and "\<forall>m \<in> set (mdb_mutes (ms_repo st')). mute_matches m e now \<longrightarrow> mu_id m = i"
  shows "\<not> fst (mute_check active_mutes record_match flt' now e st')"
proof
  assume c: "fst (mute_check active_mutes record_match flt' now e st')"
  have st': "st' = snd (service_unmute unmute_row flt now tenant i u st)" using assms(2) by simp
  have "mute_run st' now" unfolding st' by (rule mute_run.unmuted[OF assms(1)])
  from mute_store.check_true[OF mute_run_coherent[OF this] c] obtain m where
    m: "reference_mute (mdb_mutes (ms_repo st')) e now = Some m" by auto
  from reference_mute_stored[OF m] assms(4) have "mu_id m = i" by auto
  moreover have "m \<in> set (due_mutes tenant now (mdb_mutes (ms_repo st')))"
    using m assms(3) by (auto simp: reference_mute_def find_Some_iff)
  moreover obtain s' where "unmute_row flt tenant i u now (ms_repo st) = Inr s'" "ms_repo st' = s'"
    using assms(2) by (auto simp: service_unmute_def invalidate_def split: sum.splits)
  ultimately show False using mute_store.unmute_ends by fastforce
qed

theorem unmute_takes_effect_at_once_witness:
  "let st = \<lparr>ms_repo = \<lparr>mdb_mutes = [example_mute], mdb_log = [], mdb_next_log_id = 1\<rparr>,
             ms_cache = Map.empty\<rparr>;
       st1 = snd (mute_check active_mutes record_match no_faults 5 example_alert st);
       st2 = snd (service_unmute unmute_row no_faults 6 ''acme'' ''m1'' ''u'' st1)
   in fst (mute_check active_mutes record_match no_faults 5 example_alert st) \<and>
      \<not> fst (mute_check active_mutes record_match no_faults 6 example_alert st2)"
proof -
  let ?st = "\<lparr>ms_repo = \<lparr>mdb_mutes = [example_mute], mdb_log = [], mdb_next_log_id = 1\<rparr>, ms_cache = Map.empty\<rparr>"
  let ?st1 = "snd (mute_check active_mutes record_match no_faults 5 example_alert ?st)"
  let ?st2 = "snd (service_unmute unmute_row no_faults 6 ''acme'' ''m1'' ''u'' ?st1)"
  have "mute_run ?st1 6"
    by (rule mute_run.tick[OF mute_run.checked[OF mute_run.start]]) simp
  moreover have "fst (service_unmute unmute_row no_faults 6 ''acme'' ''m1'' ''u'' ?st1) = Inr ()" by code_simp
  then have "service_unmute unmute_row no_faults 6 ''acme'' ''m1'' ''u'' ?st1 = (Inr (), ?st2)"
    by (simp add: prod_eq_iff)
  moreover have "ev_tenant_id example_alert = ''acme''" by code_simp
  moreover have "\<forall>m \<in> set (mdb_mutes (ms_repo ?st2)). mute_matches m example_alert 6 \<longrightarrow> mu_id m = ''m1''"
    by code_simp
  ultimately have "\<not> fst (mute_check active_mutes record_match no_faults 6 example_alert ?st2)"
    by (rule unmute_takes_effect_at_once)
  moreover have "fst (mute_check active_mutes record_match no_faults 5 example_alert ?st)" by code_simp
  ultimately show ?thesis by (simp only: Let_def simp_thms)
qed

text \<open>What an admin may mute. A mute that \<open>Create\<close> returns belongs to the tenant, ends exactly
  seven days after its creation, names at least one alert and one device, gives a reason of at
  most 500 bytes, and never mutes everything: when it covers all alerts on all devices it is
  narrowed by a service or an environment.\<close>

theorem created_mute_valid:
  assumes "service_create create_mute incidents flt now req tenant u st = (Inr m, st')"
  shows "mu_tenant_id m = tenant \<and> mu_created_by m = u \<and> mu_ends_at m = mu_created_at m + MuteDuration \<and>
    mu_alert_names m \<noteq> [] \<and> mu_devices m \<noteq> [] \<and> mu_reason m \<noteq> [] \<and> length (mu_reason m) \<le> 500 \<and>
    (hd (mu_alert_names m) = MuteAll \<and> hd (mu_devices m) = MuteAll \<longrightarrow>
       mu_service m \<noteq> [] \<or> mu_environment m \<noteq> []) \<and> ms_cache st' tenant = None"
proof -
  obtain m0 where b: "build_mute incidents req tenant now True = Inr m0"
    and m: "m = m0\<lparr>mu_id := ''mute-'' @ show_int now, mu_created_by := u\<rparr>"
    and c: "ms_cache st' tenant = None"
    using assms by (auto simp: service_create_def Let_def invalidate_def split: sum.splits)
  from build_mute_Inr[OF b] m c show ?thesis by (auto simp: muteReasonMaxLen_def)
qed

theorem created_mute_valid_witness:
  "let req = \<lparr>req_alert_names = ['' DiskFull ''], req_devices = [''ALL''], req_service = [],
         req_environment = [], req_value_min = None, req_value_max = None,
         req_reason = ''maintenance'', req_incident_id = []\<rparr>;
       st = \<lparr>ms_repo = \<lparr>mdb_mutes = [], mdb_log = [], mdb_next_log_id = 1\<rparr>, ms_cache = Map.empty\<rparr>
   in \<exists>m st'. service_create create_mute None no_faults 7 req ''acme'' ''u'' st = (Inr m, st') \<and>
        mu_ends_at m = 7 + MuteDuration \<and> mu_tenant_id m = ''acme''"
proof -
  let ?req = "\<lparr>req_alert_names = ['' DiskFull ''], req_devices = [''ALL''], req_service = [],
         req_environment = [], req_value_min = None, req_value_max = None,
         req_reason = ''maintenance'', req_incident_id = []\<rparr>"
  let ?st = "\<lparr>ms_repo = \<lparr>mdb_mutes = [], mdb_log = [], mdb_next_log_id = 1\<rparr>, ms_cache = Map.empty\<rparr>"
  let ?r = "service_create create_mute None no_faults 7 ?req ''acme'' ''u'' ?st"
  have "(case fst ?r of Inr m \<Rightarrow> mu_created_at m = 7 | Inl _ \<Rightarrow> False)" by code_simp
  then obtain m where "?r = (Inr m, snd ?r)" "mu_created_at m = 7"
    by (cases ?r) (auto split: sum.splits)
  with created_mute_valid[of None no_faults 7 ?req "''acme''" "''u''" ?st m "snd ?r"]
  show ?thesis unfolding Let_def by metis
qed

text \<open>Normalising the lists of a request does not change what they match. The normalised
  list is the single entry \<open>all\<close> or a list of trimmed, non-empty entries without repetitions up to
  case, and it matches a value exactly when some entry of the request, trimmed, is \<open>all\<close> or
  equals the value up to case.\<close>

theorem normalize_keeps_matching:
  "(normalize_mute_list vs = [MuteAll] \<or>
      (distinct (map to_lower (normalize_mute_list vs)) \<and>
       (\<forall>x \<in> set (normalize_mute_list vs). x \<noteq> [] \<and> trim_space x = x \<and> \<not> equal_fold x MuteAll))) \<and>
   (match_mute_list (normalize_mute_list vs) w \<longleftrightarrow>
      (\<exists>v \<in> set vs. equal_fold (trim_space v) MuteAll) \<or>
      (w \<noteq> [] \<and> (\<exists>v \<in> set vs. equal_fold (trim_space v) w)))"
  using normalize_clean[of vs] normalize_from_match[of "[]" vs w]
  by (simp add: clean_list_def normalize_mute_list_def)

theorem normalize_keeps_matching_witness:
  "normalize_mute_list ['' CPU'', ''cpu '', [], ''disk''] = [''CPU'', ''disk''] \<and>
   match_mute_list (normalize_mute_list ['' CPU'', ''cpu '', [], ''disk'']) ''Cpu''"
proof -
  have a: "normalize_mute_list ['' CPU'', ''cpu '', [], ''disk''] = [''CPU'', ''disk'']" by code_simp
  have "\<exists>v \<in> set ['' CPU'', ''cpu '', [], ''disk'']. equal_fold (trim_space v) ''Cpu''" by code_simp
  with normalize_keeps_matching[of "['' CPU'', ''cpu '', [], ''disk'']" "''Cpu''"] a show ?thesis
    by simp
qed

end
