(* ===== verification/StatusStores.thy ===== *)
theory StatusStores
  imports Models
begin

text \<open>
  The two tables written on every status change: \<open>internal/store/incident_status_history_store.go\<close>
  and \<open>incident_metrics_store.go\<close> (with \<open>RecordIncidentMetrics\<close> of
  \<open>services/engineering_health_service.go\<close>, which computes the metrics row). The serial IDs of
  the rows are not kept.
\<close>

section \<open>Status history\<close>

record StatusRecord =
  sr_tenant_id :: string
  sr_incident_id :: string
  sr_previous_status :: string
  sr_new_status :: string
  sr_note :: string
  sr_changed_by :: string
  sr_changed_at :: time

definition add_record ::
    "faults \<Rightarrow> time \<Rightarrow> string \<Rightarrow> string \<Rightarrow> string \<Rightarrow> string \<Rightarrow> string \<Rightarrow> string \<Rightarrow>
     StatusRecord list \<Rightarrow> StatusRecord list result" where
  "add_record flt now tenant iid previous new note by history = guard_db flt ''AddRecord''
     (Inr (history @ [\<lparr>sr_tenant_id = tenant, sr_incident_id = iid, sr_previous_status = previous,
        sr_new_status = new, sr_note = note, sr_changed_by = by, sr_changed_at = now\<rparr>]))"

definition get_history ::
    "faults \<Rightarrow> string \<Rightarrow> string \<Rightarrow> StatusRecord list \<Rightarrow> StatusRecord list result" where
  "get_history flt tenant iid history = guard_db flt ''GetByIncidentID''
     (Inr (order_desc sr_changed_at
        (filter (\<lambda>r. sr_tenant_id r = tenant \<and> sr_incident_id r = iid) history)))"

section \<open>Incident metrics\<close>

record IncidentMetrics =
  im_incident_id :: string
  im_tenant_id :: string
  im_detected_at :: "time option"
  im_acknowledged_at :: "time option"
  im_resolved_at :: "time option"
  im_ttd_seconds :: int
  im_tta_seconds :: int
  im_ttr_seconds :: int
  im_responder :: string
  im_is_auto_resolved :: bool
  im_toil_minutes :: int

definition coalesce :: "'a option \<Rightarrow> 'a option \<Rightarrow> 'a option" where
  "coalesce x y = (case x of None \<Rightarrow> y | Some _ \<Rightarrow> x)"

definition positive_or :: "int \<Rightarrow> int \<Rightarrow> int" where
  "positive_or x y = (if 0 < x then x else y)"

definition merge_metrics :: "IncidentMetrics \<Rightarrow> IncidentMetrics \<Rightarrow> IncidentMetrics" where
  "merge_metrics new old =
    old\<lparr>im_detected_at := coalesce (im_detected_at new) (im_detected_at old),
        im_acknowledged_at := coalesce (im_acknowledged_at new) (im_acknowledged_at old),
        im_resolved_at := coalesce (im_resolved_at new) (im_resolved_at old),
        im_ttd_seconds := positive_or (im_ttd_seconds new) (im_ttd_seconds old),
        im_tta_seconds := positive_or (im_tta_seconds new) (im_tta_seconds old),
        im_ttr_seconds := positive_or (im_ttr_seconds new) (im_ttr_seconds old),
        im_responder := (if im_responder new \<noteq> [] then im_responder new else im_responder old),
        im_is_auto_resolved := (im_is_auto_resolved new \<or> im_is_auto_resolved old),
        im_toil_minutes := positive_or (im_toil_minutes new) (im_toil_minutes old)\<rparr>"

definition upsert_metrics ::
    "faults \<Rightarrow> IncidentMetrics \<Rightarrow> IncidentMetrics list \<Rightarrow> IncidentMetrics list result" where
  "upsert_metrics flt m t = guard_db flt ''IncidentMetrics.Upsert''
     (Inr (tbl_upsert im_incident_id (merge_metrics m) m t))"

definition get_metrics :: "faults \<Rightarrow> string \<Rightarrow> IncidentMetrics list \<Rightarrow> IncidentMetrics option result" where
  "get_metrics flt iid t = guard_db flt ''IncidentMetrics.GetByIncidentID'' (Inr (tbl_find im_incident_id iid t))"

definition get_metrics_for_period ::
    "faults \<Rightarrow> string \<Rightarrow> time \<Rightarrow> IncidentMetrics list \<Rightarrow> IncidentMetrics list result" where
  "get_metrics_for_period flt tenant since t = guard_db flt ''IncidentMetrics.GetForPeriod''
     (Inr (order_desc (\<lambda>m. case im_detected_at m of None \<Rightarrow> 0 | Some d \<Rightarrow> d)
        (filter (\<lambda>m. im_tenant_id m = tenant \<and>
           (case im_detected_at m of None \<Rightarrow> False | Some d \<Rightarrow> since \<le> d)) t)))"

text \<open>\<open>RecordIncidentMetrics\<close>: whole seconds since the first event; one tenth of the time to
  resolve, in minutes and at least one, counts as toil.\<close>

definition seconds_since :: "time \<Rightarrow> time \<Rightarrow> int" where
  "seconds_since first now = (if first = zero_time then 0 else quot (now - first) second)"

definition metrics_row :: "time \<Rightarrow> Incident \<Rightarrow> string \<Rightarrow> string \<Rightarrow> IncidentMetrics" where
  "metrics_row now inc action responder =
    (let first = inc_first_event_time inc;
         secs = seconds_since first now;
         m = \<lparr>im_incident_id = inc_id inc, im_tenant_id = inc_tenant_id inc, im_detected_at = None,
              im_acknowledged_at = None, im_resolved_at = None, im_ttd_seconds = 0,
              im_tta_seconds = 0, im_ttr_seconds = 0, im_responder = responder,
              im_is_auto_resolved = False, im_toil_minutes = 0\<rparr>
     in if action = ''detected'' then m\<lparr>im_detected_at := Some now, im_ttd_seconds := secs\<rparr>
        else if action = ''ack'' then
          m\<lparr>im_acknowledged_at := Some now, im_detected_at := Some first, im_tta_seconds := secs\<rparr>
        else if action = ''resolve'' then
          m\<lparr>im_resolved_at := Some now, im_detected_at := Some first, im_ttr_seconds := secs,
            im_toil_minutes := (if first = zero_time then 0 else max 1 (quot (quot secs 60) 10))\<rparr>
        else m)"

definition record_incident_metrics ::
    "faults \<Rightarrow> time \<Rightarrow> Incident \<Rightarrow> string \<Rightarrow> string \<Rightarrow> IncidentMetrics list \<Rightarrow> IncidentMetrics list result" where
  "record_incident_metrics flt now inc action responder t =
     upsert_metrics flt (metrics_row now inc action responder) t"

section \<open>Lemmas\<close>

lemma metrics_row_id [simp]: "im_incident_id (metrics_row now inc a r) = inc_id inc"
  by (simp add: metrics_row_def Let_def)

lemma merge_metrics_id [simp]: "im_incident_id (merge_metrics n m) = im_incident_id m"
  by (simp add: merge_metrics_def)

lemma seconds_since_bounds:
  assumes "first \<le> now" "first \<noteq> zero_time"
  shows "0 \<le> seconds_since first now \<and> seconds_since first now * second \<le> now - first \<and>
     now - first < (seconds_since first now + 1) * second"
proof -
  define q r where "q = (now - first) div second" and "r = (now - first) mod second"
  have "seconds_since first now = q"
    using assms by (simp add: seconds_since_def quot_pos q_def)
  moreover have "q * second + r = now - first" unfolding q_def r_def by simp
  moreover have "0 \<le> r" "r < second" unfolding r_def by simp_all
  moreover have "0 \<le> q" using assms(1) unfolding q_def by (simp add: pos_imp_zdiv_nonneg_iff)
  ultimately show ?thesis by (simp add: algebra_simps)
qed

lemma upsert_metrics_ok [preserve]:
  "pk im_incident_id t \<Longrightarrow> upsert_metrics flt m t = Inr t' \<Longrightarrow> pk im_incident_id t'"
  by (auto simp: upsert_metrics_def intro!: pk_upsert)

end
