(* ===== verification/World.thy ===== *)
theory World
  imports EventStore IncidentStore StatusStores AlertMutes
begin

text \<open>
  The state the incident pipeline works on: its tables, the mute service with its cache, and
  the work it hands to other goroutines. \<open>wiring\<close> says which optional services are wired in
  (the \<open>Set...\<close> methods of the services; a nil service is \<open>False\<close> or \<open>None\<close>). Work started with
  \<open>go\<close> is recorded in the order it is started, with the arguments it gets; what it does later
  is not part of the step that starts it.
\<close>

text \<open>\<open>AutoClosePending\<close> of \<open>store/incident_auto_close_store.go\<close>, the row of
  \<open>incident_auto_close\<close>.\<close>

record AutoClosePending =
  ac_incident_id :: string
  ac_tenant_id :: string
  ac_recovered_at :: time
  ac_closes_at :: time
  ac_alert_count :: nat

text \<open>\<open>AutoResolveRule\<close> of \<open>models/runbook.go\<close>.\<close>

record AutoResolveRule =
  ar_id :: string
  ar_tenant_id :: string
  ar_name :: string
  ar_pattern :: string
  ar_service :: string
  ar_severity :: string
  ar_action :: string
  ar_cooldown_minutes :: int
  ar_enabled :: bool
  ar_times_fired :: int
  ar_created_at :: time

datatype async_effect =
    GoMarkMilestone string string          \<comment> \<open>onboarding: tenant, milestone\<close>
  | GoWhatsApp string Incident
  | GoPush string Incident
  | GoSlackChannel Incident
  | GoTriggerRemediation Incident "int option"
  | GoAutoBaseline string string           \<comment> \<open>business impact: tenant, service\<close>
  | GoRecordResolution string string       \<comment> \<open>incident memory: incident, tenant\<close>
  | GoAudit string string string string string  \<comment> \<open>tenant, actor, action, type, resource\<close>

record world =
  w_events :: event_db
  w_incidents :: incident_db
  w_history :: "StatusRecord list"
  w_metrics :: "IncidentMetrics list"
  w_pending :: "AutoClosePending list"
  w_rules :: "AutoResolveRule list"
  w_mutes :: "mute_db mute_service"
  w_async :: "async_effect list"

definition empty_world :: world where
  "empty_world = \<lparr>w_events = [], w_incidents = empty_incident_db, w_history = [], w_metrics = [],
     w_pending = [], w_rules = [],
     w_mutes = \<lparr>ms_repo = \<lparr>mdb_mutes = [], mdb_log = [], mdb_next_log_id = 1\<rparr>, ms_cache = Map.empty\<rparr>,
     w_async = []\<rparr>"

record wiring =
  wi_mutes :: bool
  wi_auto_close :: bool
  wi_auto_resolve :: bool
  wi_health :: bool
  wi_history :: bool
  wi_onboarding :: bool
  wi_whatsapp :: bool
  wi_push :: bool
  wi_slack :: bool          \<comment> \<open>wired in and configured\<close>
  wi_orchestrator :: bool
  wi_impact :: bool
  wi_memory :: bool

definition spawn :: "async_effect \<Rightarrow> world \<Rightarrow> world" where
  "spawn a w = w\<lparr>w_async := w_async w @ [a]\<rparr>"

definition spawn_if :: "bool \<Rightarrow> async_effect \<Rightarrow> world \<Rightarrow> world" where
  "spawn_if c a w = (if c then spawn a w else w)"

text \<open>A write whose error the caller ignores or only logs.\<close>

definition or_keep :: "'a result \<Rightarrow> 'a \<Rightarrow> 'a" where
  "or_keep r x = (case r of Inl _ \<Rightarrow> x | Inr y \<Rightarrow> y)"

lemma or_keep_simps [simp]: "or_keep (Inl e) x = x" "or_keep (Inr y) x = y"
  by (simp_all add: or_keep_def)

definition world_ok :: "world \<Rightarrow> bool" where
  "world_ok w \<longleftrightarrow> events_ok (w_events w) \<and> incidents_ok (w_incidents w) \<and>
     pk im_incident_id (w_metrics w) \<and> pk ac_incident_id (w_pending w) \<and> pk ar_id (w_rules w) \<and>
     mutes_ok (ms_repo (w_mutes w))"

lemma empty_world_ok: "world_ok empty_world"
  by (simp add: world_ok_def empty_world_def events_ok_def pk_def mutes_ok_def empty_incidents_ok)

lemma spawn_frame [simp]:
  "w_events (spawn a w) = w_events w" "w_incidents (spawn a w) = w_incidents w"
  "w_history (spawn a w) = w_history w" "w_metrics (spawn a w) = w_metrics w"
  "w_pending (spawn a w) = w_pending w" "w_rules (spawn a w) = w_rules w"
  "w_mutes (spawn a w) = w_mutes w" "w_async (spawn a w) = w_async w @ [a]"
  by (simp_all add: spawn_def)

lemma spawn_if_frame [simp]:
  "w_events (spawn_if c a w) = w_events w" "w_incidents (spawn_if c a w) = w_incidents w"
  "w_history (spawn_if c a w) = w_history w" "w_metrics (spawn_if c a w) = w_metrics w"
  "w_pending (spawn_if c a w) = w_pending w" "w_rules (spawn_if c a w) = w_rules w"
  "w_mutes (spawn_if c a w) = w_mutes w"
  "w_async (spawn_if c a w) = w_async w @ (if c then [a] else [])"
  by (simp_all add: spawn_if_def)

lemma world_ok_spawn [simp]: "world_ok (spawn a w) = world_ok w" "world_ok (spawn_if c a w) = world_ok w"
  by (simp_all add: world_ok_def)

end
