(* ===== verification/IncidentOps.thy ===== *)
theory IncidentOps
  imports World
begin

text \<open>
  \<open>internal/services/incident_service.go\<close>: the status changes of an incident and the filter of
  the incident list. \<open>update_status_by\<close> is \<open>UpdateIncidentStatusBy\<close>: it validates, reads the
  incident, writes the status, and then records the change (audit, history, metrics, follow-up
  work), ignoring what fails there.
\<close>

section \<open>Status changes\<close>

definition map_action :: "string \<Rightarrow> string result" where
  "map_action action =
    (let a = to_lower (trim_space action) in
     if a = ''ack'' then Inr ''acknowledged''
     else if a = ''resolve'' then Inr ''resolved''
     else if a = ''reopen'' then Inr ''open''
     else Inl (ErrMsg ''invalid action''))"

definition status_note :: "string \<Rightarrow> string \<Rightarrow> string \<Rightarrow> string" where
  "status_note action previous new =
    (let a = to_lower (trim_space action);
         moved = ''Incident moved from '' @ previous @ '' to '' @ new in
     if a = ''ack'' then moved @ '' for active triage.''
     else if a = ''resolve'' then moved @ '' after remediation.''
     else if a = ''reopen'' then
       moved @ '' because the issue reappeared or requires further validation.''
     else moved @ ''.'')"

text \<open>What follows a successful write: audit entry, history, metrics, baseline, memory.\<close>

definition after_status_change ::
    "wiring \<Rightarrow> faults \<Rightarrow> time \<Rightarrow> string \<Rightarrow> string \<Rightarrow> string \<Rightarrow> string \<Rightarrow> Incident \<Rightarrow> Incident \<Rightarrow> world \<Rightarrow> world" where
  "after_status_change wi flt now action actor note0 new current updated w =
    (let iid = inc_id updated;
         note = (if note0 = [] then status_note action (inc_status current) new else note0);
         w1 = spawn (GoAudit (inc_tenant_id current) actor (''incident.'' @ new) ''incident'' iid) w;
         w2 = (if wi_history wi then
                 w1\<lparr>w_history := or_keep (add_record flt now (inc_tenant_id updated) iid
                      (inc_status current) new note actor (w_history w1)) (w_history w1)\<rparr>
               else w1);
         w3 = (if wi_health wi then
                 w2\<lparr>w_metrics := or_keep (record_incident_metrics flt now updated action actor (w_metrics w2))
                      (w_metrics w2)\<rparr>
               else w2);
         w4 = spawn_if (new = ''resolved'' \<and> wi_impact wi)
                (GoAutoBaseline (inc_tenant_id updated) (inc_service updated)) w3
     in spawn_if (new = ''resolved'' \<and> wi_memory wi)
          (GoRecordResolution iid (inc_tenant_id updated)) w4)"

definition update_status_by ::
    "wiring \<Rightarrow> faults \<Rightarrow> time \<Rightarrow> string \<Rightarrow> string \<Rightarrow> string \<Rightarrow> string \<Rightarrow> world \<Rightarrow> Incident result \<times> world" where
  "update_status_by wi flt now incidentID action actor note w =
    (let iid = trim_space incidentID in
     if iid = [] then (Inl (ErrMsg ''incident id is required''), w)
     else case map_action action of
       Inl e \<Rightarrow> (Inl e, w)
     | Inr new \<Rightarrow>
        (case get_incident (at_site ''current'' flt) iid (w_incidents w) of
           None \<Rightarrow> (Inl ErrNoRows, w)
         | Some current \<Rightarrow>
            (case update_incident_status flt iid new (w_incidents w) of
               (Inl e, db) \<Rightarrow> (Inl e, w\<lparr>w_incidents := db\<rparr>)
             | (Inr updated, db) \<Rightarrow>
                 (Inr updated,
                  after_status_change wi flt now action actor note new current updated
                    (w\<lparr>w_incidents := db\<rparr>)))))"

definition update_status ::
    "wiring \<Rightarrow> faults \<Rightarrow> time \<Rightarrow> string \<Rightarrow> string \<Rightarrow> world \<Rightarrow> Incident result \<times> world" where
  "update_status wi flt now incidentID action w =
     update_status_by wi flt now incidentID action ''operator'' [] w"

section \<open>The list filter\<close>

definition valid_sort :: "string list" where
  "valid_sort = [''last_event_time'', ''first_event_time'', ''severity'', ''status'', ''service'',
     ''title'', ''risk_score'', ''confidence'', ''priority_score'']"

definition trim_filter :: "IncidentListFilter \<Rightarrow> IncidentListFilter" where
  "trim_filter f = f\<lparr>flt_status := to_lower (trim_space (flt_status f)),
     flt_severity := to_lower (trim_space (flt_severity f)),
     flt_service := trim_space (flt_service f), flt_search := trim_space (flt_search f),
     flt_sort_by := trim_space (flt_sort_by f), flt_sort_order := trim_space (flt_sort_order f)\<rparr>"

definition filter_defaults :: "IncidentListFilter \<Rightarrow> IncidentListFilter" where
  "filter_defaults f =
    (let size = (if flt_page_size f \<le> 0 then 20 else flt_page_size f) in
     f\<lparr>flt_page := (if flt_page f \<le> 0 then 1 else flt_page f),
       flt_page_size := (if size > 100 then 100 else size),
       flt_sort_by := (if flt_sort_by f = [] then ''last_event_time'' else flt_sort_by f),
       flt_sort_order := (if flt_sort_order f = [] then ''desc'' else to_lower (flt_sort_order f))\<rparr>)"

definition normalize_list_filter :: "IncidentListFilter \<Rightarrow> IncidentListFilter result" where
  "normalize_list_filter f0 =
    (let f = trim_filter f0; g = filter_defaults f in
     if flt_status f \<noteq> [] \<and> flt_status f \<notin> {''open'', ''acknowledged'', ''resolved''} then
       Inl (ErrMsg ''invalid status value'')
     else if flt_severity f \<noteq> [] \<and>
             flt_severity f \<notin> {''critical'', ''high'', ''medium'', ''low'', ''info'', SeverityUnknown} then
       Inl (ErrMsg ''invalid severity value'')
     else if flt_sort_by f \<noteq> [] \<and> flt_sort_by f \<notin> set valid_sort then
       Inl (ErrMsg ''invalid sort_by value'')
     else if flt_sort_order g \<noteq> ''asc'' \<and> flt_sort_order g \<noteq> ''desc'' then
       Inl (ErrMsg ''invalid sort_order value'')
     else if length (flt_search f) > 200 then Inl (ErrMsg ''search value too long'')
     else if length (flt_service f) > 120 then Inl (ErrMsg ''service value too long'')
     else if (case (flt_from f, flt_to f) of (Some a, Some b) \<Rightarrow> b < a | _ \<Rightarrow> False) then
       Inl (ErrMsg ''from must be earlier than to'')
     else Inr g)"

definition service_list_incidents ::
    "faults \<Rightarrow> IncidentListFilter \<Rightarrow> world \<Rightarrow> IncidentListResponse result" where
  "service_list_incidents flt f w =
    (case normalize_list_filter f of Inl e \<Rightarrow> Inl e | Inr g \<Rightarrow> list_incidents flt g (w_incidents w))"

section \<open>Lemmas\<close>

lemma after_status_change_frame [simp]:
  "w_events (after_status_change wi flt now a ac n new c u w) = w_events w"
  "w_incidents (after_status_change wi flt now a ac n new c u w) = w_incidents w"
  "w_pending (after_status_change wi flt now a ac n new c u w) = w_pending w"
  "w_rules (after_status_change wi flt now a ac n new c u w) = w_rules w"
  "w_mutes (after_status_change wi flt now a ac n new c u w) = w_mutes w"
  by (simp_all add: after_status_change_def Let_def)

lemma update_incident_status_frame [simp]:
  "db_links (snd (update_incident_status flt i st db)) = db_links db"
  "db_slack (snd (update_incident_status flt i st db)) = db_slack db"
  by (simp_all add: update_incident_status_def Let_def split: option.split)

lemma update_incident_status_rows:
  "db_rows (snd (update_incident_status flt i st db)) = db_rows db \<or>
   db_rows (snd (update_incident_status flt i st db)) = set_status_rows i st (db_rows db)"
  by (simp add: update_incident_status_def Let_def split: option.split)

lemma update_incident_status_Inr:
  assumes "update_incident_status flt i st db = (Inr inc, db')"
  shows "db' = db\<lparr>db_rows := set_status_rows i st (db_rows db)\<rparr>"
    and "tbl_has inc_id i (db_rows db)"
    and "get_incident flt i db' = Some inc"
  using assms by (auto simp: update_incident_status_def Let_def split: if_splits option.splits)

lemma update_status_by_frame [simp]:
  "w_events (snd (update_status_by wi flt now i a ac n w)) = w_events w"
  "w_pending (snd (update_status_by wi flt now i a ac n w)) = w_pending w"
  "w_rules (snd (update_status_by wi flt now i a ac n w)) = w_rules w"
  "w_mutes (snd (update_status_by wi flt now i a ac n w)) = w_mutes w"
  by (simp_all add: update_status_by_def Let_def split: sum.split option.split prod.split)

lemma update_status_by_links [simp]:
  "db_links (w_incidents (snd (update_status_by wi flt now i a ac n w))) = db_links (w_incidents w)"
proof -
  have "db_links db = db_links (w_incidents w)"
    if "update_incident_status flt' j st (w_incidents w) = (r, db)" for flt' j st r db
    using update_incident_status_frame(1)[of flt' j st "w_incidents w"] that by simp
  then show ?thesis
    by (auto simp: update_status_by_def Let_def split: sum.split option.split prod.split)
qed

lemma update_status_by_rows:
  "db_rows (w_incidents (snd (update_status_by wi flt now i a ac n w))) = db_rows (w_incidents w) \<or>
   (\<exists>st. map_action a = Inr st \<and> db_rows (w_incidents (snd (update_status_by wi flt now i a ac n w))) =
      set_status_rows (trim_space i) st (db_rows (w_incidents w)))"
proof -
  have "db_rows db = db_rows (w_incidents w) \<or> db_rows db = set_status_rows j st (db_rows (w_incidents w))"
    if "update_incident_status flt' j st (w_incidents w) = (r, db)" for flt' j st r db
    using update_incident_status_rows[of flt' j st "w_incidents w"] that by simp
  then show ?thesis
    by (auto simp: update_status_by_def Let_def split: sum.split option.split prod.split)
qed

lemma find_set_status:
  "tbl_find inc_id k (set_status_rows i st rows) =
    map_option (\<lambda>r. if k = i then r\<lparr>inc_status := st\<rparr> else r) (tbl_find inc_id k rows)"
proof -
  have "tbl_find inc_id k (set_status_rows i st rows) =
      map_option (\<lambda>r. if inc_id r = i then r\<lparr>inc_status := st\<rparr> else r) (tbl_find inc_id k rows)"
    unfolding set_status_rows_def by (rule tbl_find_update) simp
  then show ?thesis by (cases "tbl_find inc_id k rows") (auto dest: tbl_find_Some)
qed

lemma get_after_status:
  assumes "get_incident no_faults i db = Some cur"
  shows "get_incident no_faults k (db\<lparr>db_rows := set_status_rows i st (db_rows db)\<rparr>) =
    (if k = i then Some (cur\<lparr>inc_status := st\<rparr>) else get_incident no_faults k db)"
proof -
  have "event_ids_of j (db\<lparr>db_rows := rows\<rparr>) = event_ids_of j db" for j rows
    by (simp add: event_ids_of_def)
  with assms show ?thesis
    by (auto simp: get_incident_no_faults find_set_status with_events_def option.map_comp comp_def)
qed

lemma update_incident_status_no_faults:
  assumes "get_incident no_faults i db = Some cur"
  shows "update_incident_status no_faults i st db =
    (Inr (cur\<lparr>inc_status := st\<rparr>), db\<lparr>db_rows := set_status_rows i st (db_rows db)\<rparr>)"
proof -
  have "tbl_has inc_id i (db_rows db)"
    using assms tbl_find_None[of inc_id i "db_rows db"] by (auto simp: get_incident_no_faults)
  then show ?thesis by (simp add: update_incident_status_def Let_def get_after_status[OF assms])
qed

lemma update_status_by_ok:
  assumes "get_incident no_faults (trim_space i) (w_incidents w) = Some cur"
    and "map_action a = Inr st" and "trim_space i \<noteq> []"
  shows "update_status_by wi no_faults now i a actor note w =
    (Inr (cur\<lparr>inc_status := st\<rparr>),
     after_status_change wi no_faults now a actor note st cur (cur\<lparr>inc_status := st\<rparr>)
       (w\<lparr>w_incidents := (w_incidents w)\<lparr>db_rows :=
          set_status_rows (trim_space i) st (db_rows (w_incidents w))\<rparr>\<rparr>))"
  using assms by (simp add: update_status_by_def Let_def update_incident_status_no_faults)

lemma world_ok_after_status_change:
  assumes "world_ok w"
  shows "world_ok (after_status_change wi flt now a ac n new c u w)"
proof -
  have "pk im_incident_id (or_keep (record_incident_metrics flt now u a ac t) t)" if "pk im_incident_id t" for t
    using that upsert_metrics_ok[OF that] by (simp add: record_incident_metrics_def or_keep_def split: sum.split)
  with assms show ?thesis by (simp add: world_ok_def after_status_change_def Let_def)
qed

lemma update_status_by_ok_world [preserve]:
  assumes "world_ok w"
  shows "world_ok (snd (update_status_by wi flt now i a ac n w))"
proof -
  have "world_ok (w\<lparr>w_incidents := snd (update_incident_status flt j st (w_incidents w))\<rparr>)" for j st
    using assms update_incident_status_ok by (simp add: world_ok_def)
  then have "world_ok (w\<lparr>w_incidents := db\<rparr>)"
    if "update_incident_status flt j st (w_incidents w) = (r, db)" for j st r db
    using that by (metis snd_conv)
  with assms show ?thesis
    by (auto simp: update_status_by_def Let_def intro!: world_ok_after_status_change
        split: sum.split option.split prod.split)
qed

lemma filter_defaults_bounds:
  "1 \<le> flt_page (filter_defaults f)" "1 \<le> flt_page_size (filter_defaults f)"
  "flt_page_size (filter_defaults f) \<le> 100"
  "flt_tenant_id (filter_defaults (trim_filter f)) = flt_tenant_id f"
  by (simp_all add: filter_defaults_def trim_filter_def Let_def)

lemma normalize_list_filter_Inr:
  assumes "normalize_list_filter f = Inr g"
  shows "g = filter_defaults (trim_filter f)"
  using assms unfolding normalize_list_filter_def Let_def
  by (simp only: sum.simps split: if_split_asm)

section \<open>Properties\<close>

text \<open>A status change does exactly what it says. For an existing incident and one of the
  actions \<open>ack\<close>, \<open>resolve\<close>, \<open>reopen\<close> (in any case, with any white space around), without faults,
  the incident returned and stored is the old one with the mapped status; every other incident
  is unchanged; and the history gains exactly one record with the previous status, the new
  status, the actor, the time and the note (a default note when none is given).\<close>

theorem status_change_exact:
  assumes "get_incident no_faults (trim_space i) (w_incidents w) = Some cur"
    and "map_action a = Inr st" and "trim_space i \<noteq> []" and "wi_history wi"
  shows "\<exists>w'. update_status_by wi no_faults now i a actor note w = (Inr (cur\<lparr>inc_status := st\<rparr>), w') \<and>
    (\<forall>k. get_incident no_faults k (w_incidents w') =
       (if k = trim_space i then Some (cur\<lparr>inc_status := st\<rparr>) else get_incident no_faults k (w_incidents w))) \<and>
    w_history w' = w_history w @ [\<lparr>sr_tenant_id = inc_tenant_id cur, sr_incident_id = trim_space i,
       sr_previous_status = inc_status cur, sr_new_status = st,
       sr_note = (if note = [] then status_note a (inc_status cur) st else note),
       sr_changed_by = actor, sr_changed_at = now\<rparr>]"
proof -
  have id: "inc_id cur = trim_space i" using assms(1) by (rule get_incident_id)
  show ?thesis
    using assms(4) by (intro exI[of _ "snd (update_status_by wi no_faults now i a actor note w)"])
      (simp add: update_status_by_ok[OF assms(1-3)] get_after_status[OF assms(1)] after_status_change_def
        Let_def add_record_def id)
qed

theorem status_change_exact_witness:
  "let wi = \<lparr>wi_mutes = True, wi_auto_close = True, wi_auto_resolve = True, wi_health = True,
         wi_history = True, wi_onboarding = True, wi_whatsapp = True, wi_push = True, wi_slack = True,
         wi_orchestrator = True, wi_impact = True, wi_memory = True\<rparr>;
       inc = incident_zero\<lparr>inc_id := ''i1'', inc_tenant_id := ''acme'', inc_status := ''open''\<rparr>;
       w = empty_world\<lparr>w_incidents := \<lparr>db_rows = [inc], db_links = [], db_slack = []\<rparr>\<rparr>
   in \<exists>w'. update_status_by wi no_faults 7 '' i1'' '' Resolve'' ''ann'' [] w = (Inr (inc\<lparr>inc_status := ''resolved''\<rparr>), w') \<and>
        map sr_new_status (w_history w') = [''resolved'']"
proof -
  let ?wi = "\<lparr>wi_mutes = True, wi_auto_close = True, wi_auto_resolve = True, wi_health = True,
         wi_history = True, wi_onboarding = True, wi_whatsapp = True, wi_push = True, wi_slack = True,
         wi_orchestrator = True, wi_impact = True, wi_memory = True\<rparr>"
  let ?inc = "incident_zero\<lparr>inc_id := ''i1'', inc_tenant_id := ''acme'', inc_status := ''open''\<rparr>"
  let ?w = "empty_world\<lparr>w_incidents := \<lparr>db_rows = [?inc], db_links = [], db_slack = []\<rparr>\<rparr>"
  have t: "trim_space '' i1'' = ''i1''" by code_simp
  have "get_incident no_faults (trim_space '' i1'') (w_incidents ?w) = Some ?inc"
    by (simp add: t get_incident_no_faults event_ids_of_def with_events_def incident_zero_def)
  moreover have "map_action '' Resolve'' = Inr ''resolved''" by code_simp
  moreover have "trim_space '' i1'' \<noteq> []" by (simp add: t)
  moreover have "wi_history ?wi" by simp
  ultimately obtain w' where
    "update_status_by ?wi no_faults 7 '' i1'' '' Resolve'' ''ann'' [] ?w = (Inr (?inc\<lparr>inc_status := ''resolved''\<rparr>), w')"
    "map sr_new_status (w_history w') = map sr_new_status (w_history ?w) @ [''resolved'']"
    using status_change_exact[of "'' i1''" ?w ?inc "'' Resolve''" "''resolved''" ?wi 7 "''ann''" "[]"]
    by auto
  then show ?thesis by (auto simp: Let_def empty_world_def)
qed

text \<open>A list request that passes validation always yields a page. When the filter is
  accepted, the query without faults succeeds with at most 100 items, all of them incidents of
  the (defaulted) tenant of the request that match the normalised filter.\<close>

theorem list_request_bounded:
  assumes "normalize_list_filter f = Inr g"
  shows "\<exists>page. service_list_incidents no_faults f w = Inr page \<and> length (page_items page) \<le> 100 \<and>
    (\<forall>item \<in> set (page_items page). \<exists>r \<in> set (db_rows (w_incidents w)). inc_id r = item_id item \<and>
       inc_tenant_id r = tenant_or_default (flt_tenant_id f) \<and> list_where g r)"
proof -
  note n = filter_defaults_bounds[of "trim_filter f"] filter_defaults_bounds(4)[of f]
  note n = n[folded normalize_list_filter_Inr[OF assms]]
  obtain page where p: "list_incidents no_faults g (w_incidents w) = Inr page"
    "page_items page = map (list_item (w_incidents w)) (take (nat (flt_page_size g))
        (drop (nat ((flt_page g - 1) * flt_page_size g))
          (order_rows (order_column_of (flt_sort_by g)) (order_ascending (flt_sort_order g))
             (filter (list_where g) (db_rows (w_incidents w))))))"
    using list_incidents_ok[of g "w_incidents w"] n by auto
  have "length (page_items page) \<le> 100" using n(3) by (simp add: p(2))
  moreover have "\<exists>r \<in> set (db_rows (w_incidents w)). inc_id r = item_id item \<and>
       inc_tenant_id r = tenant_or_default (flt_tenant_id f) \<and> list_where g r"
    if "item \<in> set (page_items page)" for item
  proof -
    from that obtain r where r: "item = list_item (w_incidents w) r"
      "r \<in> set (order_rows (order_column_of (flt_sort_by g)) (order_ascending (flt_sort_order g))
             (filter (list_where g) (db_rows (w_incidents w))))"
      by (auto simp: p(2) dest!: in_set_takeD in_set_dropD)
    then have "r \<in> set (db_rows (w_incidents w))" "list_where g r"
      using mset_eq_setD[OF mset_order_rows] by fastforce+
    then show ?thesis using n(5) by (intro bexI[of _ r]) (auto simp: r(1) list_item_def list_where_def)
  qed
  ultimately show ?thesis using assms p(1) by (auto simp: service_list_incidents_def)
qed

theorem list_request_bounded_witness:
  "let f = \<lparr>flt_tenant_id = ''acme'', flt_status = '' Open'', flt_severity = [], flt_service = [],
         flt_search = [], flt_from = None, flt_to = None, flt_page = 0, flt_page_size = 500,
         flt_sort_by = [], flt_sort_order = ''ASC''\<rparr>
   in \<exists>page. service_list_incidents no_faults f empty_world = Inr page \<and> length (page_items page) \<le> 100"
proof -
  let ?f = "\<lparr>flt_tenant_id = ''acme'', flt_status = '' Open'', flt_severity = [], flt_service = [],
         flt_search = [], flt_from = None, flt_to = None, flt_page = 0, flt_page_size = 500,
         flt_sort_by = [], flt_sort_order = ''ASC''\<rparr>"
  have "(case normalize_list_filter ?f of Inr _ \<Rightarrow> True | Inl _ \<Rightarrow> False)" by code_simp
  then obtain g where "normalize_list_filter ?f = Inr g" by (auto split: sum.splits)
  from list_request_bounded[OF this, of empty_world] show ?thesis by (auto simp: Let_def)
qed

end
