(* ===== verification/AutoClose.thy ===== *)
theory AutoClose
  imports IncidentOps
begin

text \<open>
  Closing incidents when their alerts recover: the queries of
  \<open>internal/store/incident_auto_close_store.go\<close> on the tables, and the service of
  \<open>internal/services/auto_close_service.go\<close>, whose repository and resolver are interfaces and
  hence parameters here. \<open>alert_resolved\<close> starts quiet periods, \<open>incident_active\<close> cancels one,
  \<open>close_due\<close> closes what is due. An alert of a source that never sends a resolve keeps the
  status \<open>''\<close> and counts as unresolved.
\<close>

section \<open>The store\<close>

definition open_incidents_with_event :: "faults \<Rightarrow> string \<Rightarrow> string \<Rightarrow> world \<Rightarrow> string list result" where
  "open_incidents_with_event flt tenant eventID w = guard_db flt ''OpenIncidentsWithEvent''
     (Inr (map inc_id (filter (\<lambda>r. (inc_id r, eventID) \<in> set (db_links (w_incidents w)) \<and>
        inc_tenant_id r = tenant \<and> is_active r) (db_rows (w_incidents w)))))"

definition open_statuses_with_event ::
    "faults \<Rightarrow> string \<Rightarrow> string \<Rightarrow> world \<Rightarrow> (string \<times> string) list result" where
  "open_statuses_with_event flt tenant eventID w = guard_db flt ''OpenIncidentStatusesWithEvent''
     (Inr (map (\<lambda>r. (inc_id r, inc_status r))
        (filter (\<lambda>r. (inc_id r, eventID) \<in> set (db_links (w_incidents w)) \<and>
           inc_tenant_id r = tenant \<and> is_active r) (db_rows (w_incidents w)))))"

text \<open>The status of every alert linked to an incident that is stored under the tenant.\<close>

definition alert_statuses :: "string \<Rightarrow> string \<Rightarrow> world \<Rightarrow> string list" where
  "alert_statuses tenant iid w =
     concat (map (\<lambda>e. map ev_alert_status (filter (\<lambda>r. ev_id r = e \<and> ev_tenant_id r = tenant) (w_events w)))
       (event_ids_of iid (w_incidents w)))"

definition alert_counts :: "faults \<Rightarrow> string \<Rightarrow> string \<Rightarrow> world \<Rightarrow> (nat \<times> nat) result" where
  "alert_counts flt tenant iid w = guard_db flt ''AlertCounts''
     (let sts = alert_statuses tenant iid w in
      Inr (length sts, length (filter (\<lambda>s. s \<noteq> ''resolved'') sts)))"

definition mark_recovered :: "faults \<Rightarrow> AutoClosePending \<Rightarrow> world \<Rightarrow> world result" where
  "mark_recovered flt p w = guard_db flt ''MarkRecovered''
     (Inr (w\<lparr>w_pending := tbl_upsert ac_incident_id
        (\<lambda>q. q\<lparr>ac_recovered_at := ac_recovered_at p, ac_closes_at := ac_closes_at p,
               ac_alert_count := ac_alert_count p\<rparr>) p (w_pending w)\<rparr>))"

definition clear_recovered :: "faults \<Rightarrow> string \<Rightarrow> world \<Rightarrow> world result" where
  "clear_recovered flt iid w = guard_db flt ''ClearRecovered''
     (Inr (w\<lparr>w_pending := tbl_delete (\<lambda>p. ac_incident_id p = iid) (w_pending w)\<rparr>))"

definition pending_close :: "faults \<Rightarrow> string \<Rightarrow> world \<Rightarrow> AutoClosePending option result" where
  "pending_close flt iid w = guard_db flt ''Pending'' (Inr (tbl_find ac_incident_id iid (w_pending w)))"

definition claim_due :: "faults \<Rightarrow> time \<Rightarrow> nat \<Rightarrow> world \<Rightarrow> (AutoClosePending list \<times> world) result" where
  "claim_due flt now limit w = guard_db flt ''ClaimDue''
     (let due = take limit (order_asc ac_closes_at (filter (\<lambda>p. ac_closes_at p \<le> now) (w_pending w)))
      in Inr (due, w\<lparr>w_pending := tbl_delete (\<lambda>p. ac_incident_id p \<in> set (map ac_incident_id due)) (w_pending w)\<rparr>))"

definition incident_is_open :: "faults \<Rightarrow> string \<Rightarrow> string \<Rightarrow> world \<Rightarrow> bool result" where
  "incident_is_open flt tenant iid w = guard_db flt ''IncidentIsOpen''
     (Inr (\<exists>r \<in> set (db_rows (w_incidents w)). inc_id r = iid \<and> inc_tenant_id r = tenant \<and> is_active r))"

section \<open>The service\<close>

definition DefaultAutoCloseQuietPeriod :: duration where "DefaultAutoCloseQuietPeriod = 5 * minute"
definition autoCloseActor :: string where "autoCloseActor = ''neuroops-auto-close''"

definition quiet_period :: "duration \<Rightarrow> duration" where
  "quiet_period quiet = (if quiet \<le> 0 then DefaultAutoCloseQuietPeriod else quiet)"

text \<open>\<open>AlertResolved\<close>: the loop over the incidents that hold the alert. The statements of one
  round of the loop fail on their own.\<close>

definition start_quiet ::
    "(faults \<Rightarrow> string \<Rightarrow> string \<Rightarrow> 's \<Rightarrow> (nat \<times> nat) result) \<Rightarrow>
     (faults \<Rightarrow> AutoClosePending \<Rightarrow> 's \<Rightarrow> 's result) \<Rightarrow> faults \<Rightarrow> time \<Rightarrow> duration \<Rightarrow> string \<Rightarrow>
     string \<Rightarrow> 's \<Rightarrow> 's" where
  "start_quiet counts mark flt now quiet tenant iid s =
    (case counts (at_site iid flt) tenant iid s of
       Inl _ \<Rightarrow> s
     | Inr (n, bad) \<Rightarrow>
        if n = 0 \<or> bad > 0 then s
        else (case mark (at_site iid flt)
                \<lparr>ac_incident_id = iid, ac_tenant_id = tenant, ac_recovered_at = now,
                 ac_closes_at = now + quiet, ac_alert_count = n\<rparr> s of
               Inl _ \<Rightarrow> s | Inr s' \<Rightarrow> s'))"

definition alert_resolved ::
    "(faults \<Rightarrow> string \<Rightarrow> string \<Rightarrow> 's \<Rightarrow> string list result) \<Rightarrow>
     (faults \<Rightarrow> string \<Rightarrow> string \<Rightarrow> 's \<Rightarrow> (nat \<times> nat) result) \<Rightarrow>
     (faults \<Rightarrow> AutoClosePending \<Rightarrow> 's \<Rightarrow> 's result) \<Rightarrow> faults \<Rightarrow> time \<Rightarrow> duration \<Rightarrow> Event \<Rightarrow> 's \<Rightarrow> 's" where
  "alert_resolved holding counts mark flt now quiet e s =
    (case holding flt (ev_tenant_id e) (ev_id e) s of
       Inl _ \<Rightarrow> s
     | Inr ids \<Rightarrow> fold (start_quiet counts mark flt now quiet (ev_tenant_id e)) ids s)"

definition incident_active ::
    "(faults \<Rightarrow> string \<Rightarrow> 's \<Rightarrow> 's result) \<Rightarrow> faults \<Rightarrow> string \<Rightarrow> 's \<Rightarrow> 's" where
  "incident_active clear flt iid s = or_keep (clear flt iid s) s"

definition pending_close_at :: "faults \<Rightarrow> string \<Rightarrow> world \<Rightarrow> time option" where
  "pending_close_at flt iid w =
    (case pending_close flt iid w of Inl _ \<Rightarrow> None | Inr p \<Rightarrow> map_option ac_closes_at p)"

text \<open>\<open>quiet.Round(time.Second)\<close> and \<open>Duration.String\<close> on whole seconds.\<close>

definition round_seconds :: "duration \<Rightarrow> int" where
  "round_seconds d = (d + second div 2) div second"

definition show_seconds :: "int \<Rightarrow> string" where
  "show_seconds n =
    (if n = 0 then ''0s''
     else (if n \<ge> 3600 then show_int (n div 3600) @ ''h'' else []) @
          (if n \<ge> 60 then show_int (n div 60 mod 60) @ ''m'' else []) @
          show_int (n mod 60) @ ''s'')"

definition close_note :: "nat \<Rightarrow> duration \<Rightarrow> string" where
  "close_note n quiet = ''Resolved automatically: all '' @ show_nat n @
     '' alert(s) recovered and stayed quiet for '' @ show_seconds (round_seconds quiet) @ ''.''"

text \<open>One round of the loop of \<open>CloseDue\<close>, with the number closed so far.\<close>

definition close_one ::
    "(faults \<Rightarrow> string \<Rightarrow> string \<Rightarrow> 's \<Rightarrow> bool result) \<Rightarrow>
     (faults \<Rightarrow> string \<Rightarrow> string \<Rightarrow> 's \<Rightarrow> (nat \<times> nat) result) \<Rightarrow>
     (faults \<Rightarrow> string \<Rightarrow> string \<Rightarrow> string \<Rightarrow> string \<Rightarrow> 's \<Rightarrow> Incident result \<times> 's) \<Rightarrow>
     faults \<Rightarrow> duration \<Rightarrow> AutoClosePending \<Rightarrow> nat \<times> 's \<Rightarrow> nat \<times> 's" where
  "close_one is_open counts resolve flt quiet p st =
    (let (closed, s) = st; f = at_site (ac_incident_id p) flt in
     case is_open f (ac_tenant_id p) (ac_incident_id p) s of
       Inl _ \<Rightarrow> (closed, s)
     | Inr opn \<Rightarrow>
        if \<not> opn then (closed, s)
        else (case counts f (ac_tenant_id p) (ac_incident_id p) s of
                Inl _ \<Rightarrow> (closed, s)
              | Inr (n, bad) \<Rightarrow>
                 if n = 0 \<or> bad > 0 then (closed, s)
                 else (case resolve f (ac_incident_id p) ''resolve'' autoCloseActor (close_note n quiet) s of
                         (Inl _, s') \<Rightarrow> (closed, s')
                       | (Inr _, s') \<Rightarrow> (Suc closed, s'))))"

definition close_due ::
    "(faults \<Rightarrow> time \<Rightarrow> nat \<Rightarrow> 's \<Rightarrow> (AutoClosePending list \<times> 's) result) \<Rightarrow>
     (faults \<Rightarrow> string \<Rightarrow> string \<Rightarrow> 's \<Rightarrow> bool result) \<Rightarrow>
     (faults \<Rightarrow> string \<Rightarrow> string \<Rightarrow> 's \<Rightarrow> (nat \<times> nat) result) \<Rightarrow>
     (faults \<Rightarrow> string \<Rightarrow> string \<Rightarrow> string \<Rightarrow> string \<Rightarrow> 's \<Rightarrow> Incident result \<times> 's) \<Rightarrow>
     faults \<Rightarrow> time \<Rightarrow> duration \<Rightarrow> 's \<Rightarrow> nat \<times> 's" where
  "close_due claim is_open counts resolve flt now quiet s =
    (case claim flt now 100 s of
       Inl _ \<Rightarrow> (0, s)
     | Inr (due, s1) \<Rightarrow> fold (close_one is_open counts resolve flt quiet) due (0, s1))"

section \<open>What the service relies on\<close>

definition all_resolved :: "string list \<Rightarrow> bool" where
  "all_resolved sts \<longleftrightarrow> sts \<noteq> [] \<and> (\<forall>s \<in> set sts. s = ''resolved'')"

lemma all_resolved_counts:
  "all_resolved sts \<longleftrightarrow> length sts \<noteq> 0 \<and> \<not> 0 < length (filter (\<lambda>s. s \<noteq> ''resolved'') sts)"
  by (auto simp: all_resolved_def filter_empty_conv)

text \<open>The repository and the resolver as the service sees them: the pending closes, the incident
  rows and the statuses of the alerts of an incident.\<close>

locale auto_close_store =
  fixes inv :: "'s \<Rightarrow> bool"
    and pending_of :: "'s \<Rightarrow> AutoClosePending list"
    and row_of :: "'s \<Rightarrow> string \<Rightarrow> Incident option"
    and statuses :: "'s \<Rightarrow> string \<Rightarrow> string \<Rightarrow> string list"
    and counts :: "faults \<Rightarrow> string \<Rightarrow> string \<Rightarrow> 's \<Rightarrow> (nat \<times> nat) result"
    and is_open :: "faults \<Rightarrow> string \<Rightarrow> string \<Rightarrow> 's \<Rightarrow> bool result"
    and mark :: "faults \<Rightarrow> AutoClosePending \<Rightarrow> 's \<Rightarrow> 's result"
    and clear :: "faults \<Rightarrow> string \<Rightarrow> 's \<Rightarrow> 's result"
    and claim :: "faults \<Rightarrow> time \<Rightarrow> nat \<Rightarrow> 's \<Rightarrow> (AutoClosePending list \<times> 's) result"
    and resolve :: "faults \<Rightarrow> string \<Rightarrow> string \<Rightarrow> string \<Rightarrow> string \<Rightarrow> 's \<Rightarrow> Incident result \<times> 's"
  assumes counts_law: "counts flt t i s = Inr (n, bad) \<Longrightarrow>
      n = length (statuses s t i) \<and> bad = length (filter (\<lambda>x. x \<noteq> ''resolved'') (statuses s t i))"
    and is_open_law: "is_open flt t i s = Inr b \<Longrightarrow> inv s \<Longrightarrow>
      b = (\<exists>r. row_of s i = Some r \<and> inc_tenant_id r = t \<and> is_active r)"
    and mark_law: "mark flt p s = Inr s' \<Longrightarrow> (inv s \<longrightarrow> inv s') \<and> row_of s' = row_of s \<and>
      statuses s' = statuses s \<and>
      (\<forall>q \<in> set (pending_of s'). q \<in> set (pending_of s) \<or>
         (ac_incident_id q = ac_incident_id p \<and> ac_closes_at q = ac_closes_at p))"
    and clear_law: "clear flt i s = Inr s' \<Longrightarrow> (inv s \<longrightarrow> inv s') \<and> row_of s' = row_of s \<and>
      statuses s' = statuses s \<and> pending_of s' = filter (\<lambda>p. ac_incident_id p \<noteq> i) (pending_of s)"
    and claim_law: "claim flt now k s = Inr (due, s') \<Longrightarrow> (inv s \<longrightarrow> inv s') \<and> row_of s' = row_of s \<and>
      statuses s' = statuses s \<and> set due \<subseteq> set (pending_of s) \<and> (\<forall>p \<in> set due. ac_closes_at p \<le> now) \<and>
      pending_of s' = filter (\<lambda>p. ac_incident_id p \<notin> ac_incident_id ` set due) (pending_of s)"
    and resolve_law: "resolve flt i ''resolve'' actor note s = (r, s') \<Longrightarrow> inv s \<Longrightarrow>
      inv s' \<and> statuses s' = statuses s \<and> pending_of s' = pending_of s \<and>
      (\<forall>j. row_of s' j = row_of s j \<or>
         (j = trim_space i \<and> row_of s' j = map_option (\<lambda>x. x\<lparr>inc_status := ''resolved''\<rparr>) (row_of s j)))"
begin

text \<open>A pending close that may be carried out now.\<close>

definition ripe :: "'s \<Rightarrow> AutoClosePending \<Rightarrow> bool" where
  "ripe s p \<longleftrightarrow> (\<exists>r. row_of s (ac_incident_id p) = Some r \<and> inc_tenant_id r = ac_tenant_id p \<and> is_active r) \<and>
     all_resolved (statuses s (ac_tenant_id p) (ac_incident_id p))"

lemma close_one_step:
  assumes "close_one is_open counts resolve flt quiet p (k, s) = (k', s')" "inv s"
  shows "inv s' \<and> statuses s' = statuses s \<and> pending_of s' = pending_of s \<and>
    (\<forall>j. row_of s' j = row_of s j \<or>
       (j = trim_space (ac_incident_id p) \<and> ripe s p \<and>
        row_of s' j = map_option (\<lambda>x. x\<lparr>inc_status := ''resolved''\<rparr>) (row_of s j)))"
proof (cases "s' = s")
  case True
  with assms(2) show ?thesis by simp
next
  case False
  let ?f = "at_site (ac_incident_id p) flt"
  from assms(1) False obtain n bad r where o: "is_open ?f (ac_tenant_id p) (ac_incident_id p) s = Inr True"
    and c: "counts ?f (ac_tenant_id p) (ac_incident_id p) s = Inr (n, bad)" "n \<noteq> 0" "\<not> bad > 0"
    and r: "resolve ?f (ac_incident_id p) ''resolve'' autoCloseActor (close_note n quiet) s = (r, s')"
    by (auto simp: close_one_def Let_def split: sum.splits if_splits prod.splits)
  have "ripe s p"
    using is_open_law[OF o assms(2)] counts_law[OF c(1)] c(2,3)
    by (simp add: ripe_def all_resolved_counts)
  with resolve_law[OF r assms(2)] show ?thesis by blast
qed

lemma ripe_back:
  assumes "ripe s' p" "statuses s' = statuses s"
    and "\<And>j. row_of s' j = row_of s j \<or> row_of s' j = map_option (\<lambda>x. x\<lparr>inc_status := ''resolved''\<rparr>) (row_of s j)"
  shows "ripe s p"
  using assms(1,2) assms(3)[of "ac_incident_id p"] by (auto simp: ripe_def is_active_def)

lemma close_loop:
  assumes "fold (close_one is_open counts resolve flt quiet) due (k, s) = (k', s')" "inv s"
  shows "inv s' \<and> statuses s' = statuses s \<and> pending_of s' = pending_of s \<and>
    (\<forall>j. row_of s' j = row_of s j \<or>
       ((\<exists>p \<in> set due. j = trim_space (ac_incident_id p) \<and> ripe s p) \<and>
        row_of s' j = map_option (\<lambda>x. x\<lparr>inc_status := ''resolved''\<rparr>) (row_of s j)))"
  using assms
proof (induction due arbitrary: k s)
  case Nil
  then show ?case by simp
next
  case (Cons p due)
  obtain k1 s1 where one: "close_one is_open counts resolve flt quiet p (k, s) = (k1, s1)" by fastforce
  note step = close_one_step[OF one Cons.prems(2)]
  from Cons.prems(1) one have f: "fold (close_one is_open counts resolve flt quiet) due (k1, s1) = (k', s')"
    by simp
  from step have "inv s1" by simp
  note rest = Cons.IH[OF f this]
  have ripe_s: "ripe s1 q \<Longrightarrow> ripe s q" for q
    using ripe_back[of s1 q s] step by blast
  have "row_of s' j = row_of s j \<or>
       ((\<exists>q \<in> set (p # due). j = trim_space (ac_incident_id q) \<and> ripe s q) \<and>
        row_of s' j = map_option (\<lambda>x. x\<lparr>inc_status := ''resolved''\<rparr>) (row_of s j))" for j
  proof -
    have a: "row_of s1 j = row_of s j \<or> (j = trim_space (ac_incident_id p) \<and> ripe s p \<and>
        row_of s1 j = map_option (\<lambda>x. x\<lparr>inc_status := ''resolved''\<rparr>) (row_of s j))"
      using step by blast
    have b: "row_of s' j = row_of s1 j \<or>
       ((\<exists>q \<in> set due. j = trim_space (ac_incident_id q) \<and> ripe s1 q) \<and>
        row_of s' j = map_option (\<lambda>x. x\<lparr>inc_status := ''resolved''\<rparr>) (row_of s1 j))"
      using rest by blast
    from a b ripe_s show ?thesis by (cases "row_of s j") auto
  qed
  moreover have "inv s' \<and> statuses s' = statuses s \<and> pending_of s' = pending_of s"
    using rest step by simp
  ultimately show ?case by blast
qed

lemma close_due_only_ripe:
  assumes "close_due claim is_open counts resolve flt now quiet s = (k, s')" "inv s"
    and "row_of s' j \<noteq> row_of s j"
  shows "row_of s' j = map_option (\<lambda>x. x\<lparr>inc_status := ''resolved''\<rparr>) (row_of s j) \<and>
    (\<exists>p \<in> set (pending_of s). ac_closes_at p \<le> now \<and> j = trim_space (ac_incident_id p) \<and> ripe s p)"
proof -
  obtain due s1 where cl: "claim flt now 100 s = Inr (due, s1)"
    and f: "fold (close_one is_open counts resolve flt quiet) due (0, s1) = (k, s')"
    using assms(1,3) by (auto simp: close_due_def split: sum.splits prod.splits)
  note law = claim_law[OF cl]
  then have same: "row_of s1 = row_of s" "statuses s1 = statuses s" "inv s1" using assms(2) by auto
  from close_loop[OF f same(3)] assms(3) obtain p where
    "p \<in> set due" "j = trim_space (ac_incident_id p)" "ripe s1 p"
    "row_of s' j = map_option (\<lambda>x. x\<lparr>inc_status := ''resolved''\<rparr>) (row_of s j)"
    unfolding same(1) by blast
  moreover have "ripe s1 p = ripe s p" by (simp add: ripe_def same)
  ultimately show ?thesis using law by blast
qed

lemma close_due_inv:
  assumes "close_due claim is_open counts resolve flt now quiet s = (k, s')" "inv s"
  shows "inv s'"
proof (cases "claim flt now 100 s")
  case (Inl e)
  with assms show ?thesis by (simp add: close_due_def)
next
  case (Inr ds)
  obtain due s1 where cl: "claim flt now 100 s = Inr (due, s1)" using Inr by (cases ds) auto
  with assms(1) have f: "fold (close_one is_open counts resolve flt quiet) due (0, s1) = (k, s')"
    by (simp add: close_due_def)
  from claim_law[OF cl] assms(2) have "inv s1" by simp
  from close_loop[OF f this] show ?thesis by simp
qed

text \<open>Once a pending close is cancelled, nothing but a new recovery closes the incident.\<close>

lemma cancelled_not_closed:
  assumes "clear flt i s = Inr s1" "inv s" "\<And>p. p \<in> set (pending_of s) \<Longrightarrow> trim_space (ac_incident_id p) = ac_incident_id p"
    and "close_due claim is_open counts resolve flt' now quiet s1 = (k, s')"
  shows "row_of s' i = row_of s i"
proof (rule ccontr)
  assume d: "row_of s' i \<noteq> row_of s i"
  note c = clear_law[OF assms(1)]
  with assms(2) have "inv s1" by simp
  from close_due_only_ripe[OF assms(4) this, of i] d c obtain p where
    "p \<in> set (pending_of s1)" "i = trim_space (ac_incident_id p)" by auto
  with c assms(3) show False by auto
qed

text \<open>A quiet period starts for recovered incidents only, and ends one quiet period later.\<close>

lemma start_quiet_step:
  assumes "q \<in> set (pending_of (start_quiet counts mark flt now quiet t i s))" "q \<notin> set (pending_of s)"
  shows "ac_incident_id q = i \<and> ac_closes_at q = now + quiet \<and> all_resolved (statuses s t i)"
proof -
  let ?f = "at_site i flt"
  from assms obtain n bad s' where c: "counts ?f t i s = Inr (n, bad)" "n \<noteq> 0" "\<not> bad > 0"
    and m: "mark ?f \<lparr>ac_incident_id = i, ac_tenant_id = t, ac_recovered_at = now,
                 ac_closes_at = now + quiet, ac_alert_count = n\<rparr> s = Inr s'"
    and s': "start_quiet counts mark flt now quiet t i s = s'"
    by (auto simp: start_quiet_def split: sum.splits if_splits)
  from counts_law[OF c(1)] c(2,3) have "all_resolved (statuses s t i)"
    by (simp add: all_resolved_counts)
  moreover from mark_law[OF m] assms s' have "ac_incident_id q = i \<and> ac_closes_at q = now + quiet"
    by auto
  ultimately show ?thesis by simp
qed

lemma start_quiet_frame:
  "row_of (start_quiet counts mark flt now quiet t i s) = row_of s \<and>
   statuses (start_quiet counts mark flt now quiet t i s) = statuses s \<and>
   (inv s \<longrightarrow> inv (start_quiet counts mark flt now quiet t i s))"
  using mark_law by (auto simp: start_quiet_def split: sum.split)

lemma quiet_loop:
  assumes "q \<in> set (pending_of (fold (start_quiet counts mark flt now quiet t) ids s))"
    and "q \<notin> set (pending_of s)"
  shows "ac_incident_id q \<in> set ids \<and> ac_closes_at q = now + quiet \<and> all_resolved (statuses s t (ac_incident_id q))"
  using assms
proof (induction ids arbitrary: s)
  case Nil
  then show ?case by simp
next
  case (Cons i ids)
  let ?s1 = "start_quiet counts mark flt now quiet t i s"
  show ?case
  proof (cases "q \<in> set (pending_of ?s1)")
    case True
    from start_quiet_step[OF this Cons.prems(2)] show ?thesis by simp
  next
    case False
    from Cons.IH[OF _ False] Cons.prems(1) start_quiet_frame[of flt now quiet t i s] show ?thesis by simp
  qed
qed

end

section \<open>On the tables\<close>

definition stored_row :: "world \<Rightarrow> string \<Rightarrow> Incident option" where
  "stored_row w i = tbl_find inc_id i (db_rows (w_incidents w))"

definition resolve_on :: "wiring \<Rightarrow> time \<Rightarrow> faults \<Rightarrow> string \<Rightarrow> string \<Rightarrow> string \<Rightarrow> string \<Rightarrow> world \<Rightarrow>
    Incident result \<times> world" where
  "resolve_on wi now flt i action actor note w = update_status_by wi flt now i action actor note w"

lemma map_action_resolve [simp]: "map_action ''resolve'' = Inr ''resolved''"
  by code_simp

lemma alert_statuses_frame:
  assumes "w_events w' = w_events w" "db_links (w_incidents w') = db_links (w_incidents w)"
  shows "alert_statuses t i w' = alert_statuses t i w"
  using assms by (simp add: alert_statuses_def event_ids_of_def)

lemma pk_mark:
  "pk ac_incident_id t \<Longrightarrow> pk ac_incident_id (tbl_upsert ac_incident_id
     (\<lambda>q. q\<lparr>ac_recovered_at := a, ac_closes_at := b, ac_alert_count := c\<rparr>) p t)"
  by (rule pk_upsert) simp_all

interpretation world_close: auto_close_store
  world_ok w_pending stored_row "\<lambda>w t i. alert_statuses t i w" alert_counts incident_is_open
  mark_recovered clear_recovered claim_due "resolve_on wi now" for wi now
proof unfold_locales
  fix flt t i w n bad
  assume "alert_counts flt t i w = Inr (n, bad)"
  then show "n = length (alert_statuses t i w) \<and>
      bad = length (filter (\<lambda>x. x \<noteq> ''resolved'') (alert_statuses t i w))"
    by (auto simp: alert_counts_def Let_def)
next
  fix flt t i w b
  assume b: "incident_is_open flt t i w = Inr b" and ok: "world_ok w"
  then have "pk inc_id (db_rows (w_incidents w))" by (simp add: world_ok_def incidents_ok_def)
  then have "(\<exists>r \<in> set (db_rows (w_incidents w)). inc_id r = i \<and> inc_tenant_id r = t \<and> is_active r) =
      (\<exists>r. stored_row w i = Some r \<and> inc_tenant_id r = t \<and> is_active r)"
    by (auto simp: stored_row_def dest: tbl_find_Some tbl_find_unique)
  with b show "b = (\<exists>r. stored_row w i = Some r \<and> inc_tenant_id r = t \<and> is_active r)"
    by (simp add: incident_is_open_def)
next
  fix flt p w w'
  assume m: "mark_recovered flt p w = Inr w'"
  then have w': "w' = w\<lparr>w_pending := tbl_upsert ac_incident_id
        (\<lambda>q. q\<lparr>ac_recovered_at := ac_recovered_at p, ac_closes_at := ac_closes_at p,
               ac_alert_count := ac_alert_count p\<rparr>) p (w_pending w)\<rparr>"
    by (simp add: mark_recovered_def)
  have "world_ok w \<longrightarrow> world_ok w'" by (simp add: world_ok_def w' pk_mark)
  moreover have "alert_statuses t i w' = alert_statuses t i w" for t i
    by (rule alert_statuses_frame) (simp_all add: w')
  ultimately show "(world_ok w \<longrightarrow> world_ok w') \<and> stored_row w' = stored_row w \<and>
      (\<lambda>t i. alert_statuses t i w') = (\<lambda>t i. alert_statuses t i w) \<and>
      (\<forall>q \<in> set (w_pending w'). q \<in> set (w_pending w) \<or>
         (ac_incident_id q = ac_incident_id p \<and> ac_closes_at q = ac_closes_at p))"
    by (auto simp: w' stored_row_def fun_eq_iff tbl_upsert_def tbl_update_def)
next
  fix flt i w w'
  assume "clear_recovered flt i w = Inr w'"
  then have w': "w' = w\<lparr>w_pending := tbl_delete (\<lambda>p. ac_incident_id p = i) (w_pending w)\<rparr>"
    by (simp add: clear_recovered_def)
  have "alert_statuses t i w' = alert_statuses t i w" for t i
    by (rule alert_statuses_frame) (simp_all add: w')
  then show "(world_ok w \<longrightarrow> world_ok w') \<and> stored_row w' = stored_row w \<and>
      (\<lambda>t i. alert_statuses t i w') = (\<lambda>t i. alert_statuses t i w) \<and>
      w_pending w' = filter (\<lambda>p. ac_incident_id p \<noteq> i) (w_pending w)"
    by (auto simp: w' stored_row_def fun_eq_iff world_ok_def pk_delete tbl_delete_def)
       (simp add: pk_def distinct_map_filter)
next
  fix flt now k w due w'
  assume "claim_due flt now k w = Inr (due, w')"
  then have due: "due = take k (order_asc ac_closes_at (filter (\<lambda>p. ac_closes_at p \<le> now) (w_pending w)))"
    and w': "w' = w\<lparr>w_pending := tbl_delete (\<lambda>p. ac_incident_id p \<in> set (map ac_incident_id due)) (w_pending w)\<rparr>"
    by (auto simp: claim_due_def Let_def)
  have "alert_statuses t i w' = alert_statuses t i w" for t i
    by (rule alert_statuses_frame) (simp_all add: w')
  moreover have "set due \<subseteq> set (filter (\<lambda>p. ac_closes_at p \<le> now) (w_pending w))"
    unfolding due by (metis set_order(2) set_take_subset)
  moreover have "world_ok w \<longrightarrow> world_ok w'" by (simp add: w' world_ok_def pk_delete)
  ultimately show "(world_ok w \<longrightarrow> world_ok w') \<and> stored_row w' = stored_row w \<and>
      (\<lambda>t i. alert_statuses t i w') = (\<lambda>t i. alert_statuses t i w) \<and>
      set due \<subseteq> set (w_pending w) \<and> (\<forall>p \<in> set due. ac_closes_at p \<le> now) \<and>
      w_pending w' = filter (\<lambda>p. ac_incident_id p \<notin> ac_incident_id ` set due) (w_pending w)"
    by (auto simp: w' stored_row_def fun_eq_iff tbl_delete_def)
next
  fix flt i actor tx w r w'
  assume r: "resolve_on wi now flt i ''resolve'' actor tx w = (r, w')" and ok: "world_ok w"
  then have w': "w' = snd (update_status_by wi flt now i ''resolve'' actor tx w)"
    by (simp add: resolve_on_def)
  have "alert_statuses t j w' = alert_statuses t j w" for t j
    by (rule alert_statuses_frame) (simp_all add: w')
  moreover have "world_ok w'" unfolding w' using ok by (rule update_status_by_ok_world)
  moreover have "stored_row w' j = stored_row w j \<or> (j = trim_space i \<and>
      stored_row w' j = map_option (\<lambda>x. x\<lparr>inc_status := ''resolved''\<rparr>) (stored_row w j))" for j
    using update_status_by_rows[of wi flt now i "''resolve''" actor tx w]
    unfolding w' stored_row_def
    by (cases "tbl_find inc_id j (db_rows (w_incidents w))"; cases "j = trim_space i")
       (auto simp: find_set_status)
  ultimately show "world_ok w' \<and> (\<lambda>t i. alert_statuses t i w') = (\<lambda>t i. alert_statuses t i w) \<and>
      w_pending w' = w_pending w \<and> (\<forall>j. stored_row w' j = stored_row w j \<or> (j = trim_space i \<and>
      stored_row w' j = map_option (\<lambda>x. x\<lparr>inc_status := ''resolved''\<rparr>) (stored_row w j)))"
    by (auto simp: w' fun_eq_iff)
qed

section \<open>Properties\<close>

text \<open>C4: auto-close resolves recovered incidents only. Whatever fails while \<open>CloseDue\<close> runs, the
  only change it makes to a stored incident is its status, to resolved; and then a pending close
  of that incident had reached its closing time, the incident was open or acknowledged in the
  tenant of the pending close, and it held at least one alert, all of them resolved.\<close>

theorem auto_close_only_recovered:
  assumes "world_ok w"
    and "close_due claim_due incident_is_open alert_counts (resolve_on wi now) flt now quiet w = (k, w')"
    and "stored_row w' j \<noteq> stored_row w j"
  shows "stored_row w' j = map_option (\<lambda>x. x\<lparr>inc_status := ''resolved''\<rparr>) (stored_row w j) \<and>
    (\<exists>p \<in> set (w_pending w). ac_closes_at p \<le> now \<and> trim_space (ac_incident_id p) = j \<and>
       (\<exists>r. stored_row w (ac_incident_id p) = Some r \<and> inc_tenant_id r = ac_tenant_id p \<and> is_active r) \<and>
       all_resolved (alert_statuses (ac_tenant_id p) (ac_incident_id p) w))"
  using world_close.close_due_only_ripe[OF assms(2,1,3)]
  unfolding world_close.ripe_def by blast

definition recovered_world :: world where
  "recovered_world = empty_world\<lparr>
     w_events := [event_zero\<lparr>ev_id := ''e1'', ev_tenant_id := ''acme'', ev_alert_status := ''resolved''\<rparr>],
     w_incidents := \<lparr>db_rows = [incident_zero\<lparr>inc_id := ''i1'', inc_tenant_id := ''acme'',
        inc_status := ''open''\<rparr>], db_links = [(''i1'', ''e1'')], db_slack = []\<rparr>,
     w_pending := [\<lparr>ac_incident_id = ''i1'', ac_tenant_id = ''acme'', ac_recovered_at = 0,
        ac_closes_at = 300, ac_alert_count = 1\<rparr>]\<rparr>"

definition all_wired :: wiring where
  "all_wired = \<lparr>wi_mutes = True, wi_auto_close = True, wi_auto_resolve = True, wi_health = True,
     wi_history = True, wi_onboarding = True, wi_whatsapp = True, wi_push = True, wi_slack = True,
     wi_orchestrator = True, wi_impact = True, wi_memory = True\<rparr>"

lemma recovered_world_ok: "world_ok recovered_world"
  by (simp add: world_ok_def recovered_world_def empty_world_def events_ok_def incidents_ok_def pk_def
      mutes_ok_def incident_row_def incident_zero_def)

theorem auto_close_only_recovered_witness:
  "let r = close_due claim_due incident_is_open alert_counts (resolve_on all_wired 400) no_faults 400
             (5 * minute) recovered_world
   in fst r = 1 \<and> map_option inc_status (stored_row (snd r) ''i1'') = Some ''resolved'' \<and>
      all_resolved (alert_statuses ''acme'' ''i1'' recovered_world)"
proof -
  let ?r = "close_due claim_due incident_is_open alert_counts (resolve_on all_wired 400) no_faults 400
             (5 * minute) recovered_world"
  have k: "fst ?r = 1" by code_simp
  have st: "map_option inc_status (stored_row (snd ?r) ''i1'') = Some ''resolved''" by code_simp
  have o: "map_option inc_status (stored_row recovered_world ''i1'') = Some ''open''" by code_simp
  have "?r = (fst ?r, snd ?r)" by simp
  moreover have "stored_row (snd ?r) ''i1'' \<noteq> stored_row recovered_world ''i1''"
    using st o by auto
  ultimately obtain p where "p \<in> set (w_pending recovered_world)"
    "all_resolved (alert_statuses (ac_tenant_id p) (ac_incident_id p) recovered_world)"
    using auto_close_only_recovered[OF recovered_world_ok] by blast
  then have "all_resolved (alert_statuses ''acme'' ''i1'' recovered_world)"
    by (simp add: recovered_world_def)
  with k st show ?thesis by (simp add: Let_def)
qed

text \<open>A quiet period starts for a recovered incident and for nothing else. Every pending
  close that \<open>AlertResolved\<close> adds belongs to an open or acknowledged incident of the alert's
  tenant that holds the alert, all of whose alerts are resolved, and closes exactly one quiet
  period after this moment.\<close>

theorem quiet_period_starts_when_recovered:
  assumes "q \<in> set (w_pending (alert_resolved open_incidents_with_event alert_counts mark_recovered
             flt now quiet e w))"
    and "q \<notin> set (w_pending w)"
  shows "ac_closes_at q = now + quiet \<and>
    all_resolved (alert_statuses (ev_tenant_id e) (ac_incident_id q) w) \<and>
    (\<exists>r \<in> set (db_rows (w_incidents w)). inc_id r = ac_incident_id q \<and> is_active r \<and>
       inc_tenant_id r = ev_tenant_id e \<and> (inc_id r, ev_id e) \<in> set (db_links (w_incidents w)))"
proof (cases "open_incidents_with_event flt (ev_tenant_id e) (ev_id e) w")
  case (Inl err)
  with assms show ?thesis by (simp add: alert_resolved_def)
next
  case (Inr ids)
  with assms have "q \<in> set (w_pending (fold (start_quiet alert_counts mark_recovered flt now quiet
      (ev_tenant_id e)) ids w))" by (simp add: alert_resolved_def)
  note l = world_close.quiet_loop[OF this assms(2)]
  from l Inr obtain r where "r \<in> set (db_rows (w_incidents w))" "inc_id r = ac_incident_id q"
    "is_active r" "inc_tenant_id r = ev_tenant_id e" "(inc_id r, ev_id e) \<in> set (db_links (w_incidents w))"
    by (auto simp: open_incidents_with_event_def)
  with l show ?thesis by blast
qed

theorem quiet_period_starts_when_recovered_witness:
  "let e = event_zero\<lparr>ev_id := ''e1'', ev_tenant_id := ''acme''\<rparr>;
       w' = alert_resolved open_incidents_with_event alert_counts mark_recovered no_faults 7 300 e
              (recovered_world\<lparr>w_pending := []\<rparr>)
   in map ac_closes_at (w_pending w') = [307]"
proof -
  let ?e = "event_zero\<lparr>ev_id := ''e1'', ev_tenant_id := ''acme''\<rparr>"
  let ?w = "recovered_world\<lparr>w_pending := []\<rparr>"
  let ?w' = "alert_resolved open_incidents_with_event alert_counts mark_recovered no_faults 7 300 ?e ?w"
  have "length (w_pending ?w') = 1" by code_simp
  then obtain q where q: "w_pending ?w' = [q]" by (auto simp: length_Suc_conv)
  have "ac_closes_at q = 7 + 300"
    using quiet_period_starts_when_recovered[of q no_faults 7 300 ?e ?w] q by simp
  with q show ?thesis by (simp add: Let_def)
qed

text \<open>An alert that joins or fires again cancels the close. After \<open>IncidentActive\<close> cleared the
  pending close of an incident, no later run of \<open>CloseDue\<close>, at any time and under any faults,
  changes the incident; only a new recovery can start another quiet period. (Pending closes are
  kept under trimmed incident IDs.)\<close>

theorem active_alert_cancels_close:
  assumes "world_ok w" and "\<not> flt ''ClearRecovered''"
    and "\<forall>p \<in> set (w_pending w). trim_space (ac_incident_id p) = ac_incident_id p"
    and "close_due claim_due incident_is_open alert_counts (resolve_on wi now) flt' now quiet
           (incident_active clear_recovered flt i w) = (k, w')"
  shows "stored_row w' i = stored_row w i"
proof -
  obtain w1 where c: "clear_recovered flt i w = Inr w1" using assms(2) by (simp add: clear_recovered_def)
  with assms(4) have d: "close_due claim_due incident_is_open alert_counts (resolve_on wi now) flt' now quiet w1 = (k, w')"
    by (simp add: incident_active_def)
  show ?thesis by (rule world_close.cancelled_not_closed[OF c assms(1) _ d]) (use assms(3) in blast)
qed

theorem active_alert_cancels_close_witness:
  "let w1 = incident_active clear_recovered no_faults ''i1'' recovered_world;
       r = close_due claim_due incident_is_open alert_counts (resolve_on all_wired 400) no_faults 400
             (5 * minute) w1
   in stored_row (snd r) ''i1'' = stored_row recovered_world ''i1''"
proof -
  let ?w1 = "incident_active clear_recovered no_faults ''i1'' recovered_world"
  let ?r = "close_due claim_due incident_is_open alert_counts (resolve_on all_wired 400) no_faults 400
             (5 * minute) ?w1"
  have t: "\<forall>p \<in> set (w_pending recovered_world). trim_space (ac_incident_id p) = ac_incident_id p"
    by code_simp
  have "?r = (fst ?r, snd ?r)" by simp
  from active_alert_cancels_close[OF recovered_world_ok _ t this] show ?thesis
    by (simp add: Let_def)
qed

end
