(* ===== verification/AutoResolve.thy ===== *)
theory AutoResolve
  imports IncidentOps
begin

text \<open>
  Rules that resolve an incident as soon as it is created:
  \<open>internal/store/auto_resolve_store.go\<close> (the table of rules) and
  \<open>internal/services/auto_resolve_service.go\<close> (\<open>CheckAndResolve\<close> and the administration of
  rules).
\<close>

section \<open>The store\<close>

definition create_rule_row :: "faults \<Rightarrow> time \<Rightarrow> AutoResolveRule \<Rightarrow> world \<Rightarrow> world result" where
  "create_rule_row flt now r w = guard_db flt ''AutoResolve.Create''
     (case tbl_insert ar_id (r\<lparr>ar_times_fired := 0, ar_created_at := now\<rparr>) (w_rules w) of
        Inl e \<Rightarrow> Inl e | Inr rs \<Rightarrow> Inr (w\<lparr>w_rules := rs\<rparr>))"

definition get_rules :: "faults \<Rightarrow> string \<Rightarrow> int \<Rightarrow> int \<Rightarrow> world \<Rightarrow> AutoResolveRule list result" where
  "get_rules flt tenant limit offset w = guard_db flt ''GetRules''
     (Inr (take (nat (clamp_limit limit)) (drop (nat (if offset < 0 then 0 else offset))
        (order_desc ar_created_at (filter (\<lambda>r. ar_tenant_id r = tenant) (w_rules w))))))"

definition get_rule_by_id :: "faults \<Rightarrow> string \<Rightarrow> world \<Rightarrow> AutoResolveRule option result" where
  "get_rule_by_id flt rid w = guard_db flt ''GetRuleByID'' (Inr (tbl_find ar_id rid (w_rules w)))"

definition update_rule :: "faults \<Rightarrow> AutoResolveRule \<Rightarrow> world \<Rightarrow> world result" where
  "update_rule flt r w = guard_db flt ''UpdateRule''
     (Inr (w\<lparr>w_rules := tbl_update (\<lambda>q. ar_id q = ar_id r)
        (\<lambda>q. q\<lparr>ar_name := ar_name r, ar_pattern := ar_pattern r, ar_service := ar_service r,
               ar_severity := ar_severity r, ar_action := ar_action r,
               ar_cooldown_minutes := ar_cooldown_minutes r, ar_enabled := ar_enabled r\<rparr>) (w_rules w)\<rparr>))"

definition delete_rule :: "faults \<Rightarrow> string \<Rightarrow> world \<Rightarrow> world result" where
  "delete_rule flt rid w = guard_db flt ''DeleteRule''
     (Inr (w\<lparr>w_rules := tbl_delete (\<lambda>r. ar_id r = rid) (w_rules w)\<rparr>))"

definition increment_fired :: "faults \<Rightarrow> string \<Rightarrow> world \<Rightarrow> world result" where
  "increment_fired flt rid w = guard_db flt ''IncrementFired''
     (Inr (w\<lparr>w_rules := tbl_update (\<lambda>r. ar_id r = rid)
        (\<lambda>r. r\<lparr>ar_times_fired := ar_times_fired r + 1\<rparr>) (w_rules w)\<rparr>))"

definition rule_matches :: "string \<Rightarrow> string \<Rightarrow> string \<Rightarrow> string \<Rightarrow> AutoResolveRule \<Rightarrow> bool" where
  "rule_matches tenant service severity pattern r \<longleftrightarrow>
     ar_enabled r \<and> (ar_service r = [] \<or> ar_service r = service) \<and>
     (ar_severity r = [] \<or> ar_severity r = severity) \<and>
     (ar_pattern r = [] \<or> sql_like (CHR ''%'' # ar_pattern r @ ''%'') pattern) \<and>
     ar_tenant_id r = tenant_or_default tenant"

definition find_matching_rules ::
    "faults \<Rightarrow> string \<Rightarrow> string \<Rightarrow> string \<Rightarrow> string \<Rightarrow> world \<Rightarrow> AutoResolveRule list result" where
  "find_matching_rules flt tenant service severity pattern w = guard_db flt ''FindMatchingRules''
     (Inr (order_asc ar_created_at (filter (rule_matches tenant service severity pattern) (w_rules w))))"

section \<open>The service\<close>

text \<open>The loop of \<open>CheckAndResolve\<close>: the first rule that resolves and whose write succeeds wins.\<close>

fun resolve_first :: "faults \<Rightarrow> string \<Rightarrow> AutoResolveRule list \<Rightarrow> world \<Rightarrow> string option \<times> world" where
  "resolve_first flt iid [] w = (None, w)"
| "resolve_first flt iid (r # rs) w =
    (if ar_action r = ''resolve'' then
       (case update_incident_status (at_site (ar_id r) flt) iid ''resolved'' (w_incidents w) of
          (Inl _, db) \<Rightarrow> resolve_first flt iid rs (w\<lparr>w_incidents := db\<rparr>)
        | (Inr _, db) \<Rightarrow>
            let w1 = w\<lparr>w_incidents := db\<rparr> in
            (Some (ar_name r), or_keep (increment_fired (at_site (ar_id r) flt) (ar_id r) w1) w1))
     else resolve_first flt iid rs w)"

definition check_and_resolve :: "faults \<Rightarrow> Incident \<Rightarrow> world \<Rightarrow> string option \<times> world" where
  "check_and_resolve flt inc w =
    (case find_matching_rules flt (inc_tenant_id inc) (inc_service inc) (inc_severity inc)
        (to_lower (inc_title inc @ '' '' @ inc_root_cause_summary inc)) w of
       Inl _ \<Rightarrow> (None, w)
     | Inr rules \<Rightarrow> resolve_first flt (inc_id inc) rules w)"

record AutoResolveRuleRequest =
  arr_name :: string
  arr_pattern :: string
  arr_service :: string
  arr_severity :: string
  arr_action :: string
  arr_cooldown_minutes :: int

definition create_rule ::
    "faults \<Rightarrow> time \<Rightarrow> AutoResolveRuleRequest \<Rightarrow> string \<Rightarrow> world \<Rightarrow> AutoResolveRule result \<times> world" where
  "create_rule flt now req tenant w =
    (if arr_name req = [] then (Inl (ErrMsg ''rule name is required''), w)
     else let rule = \<lparr>ar_id = ''ar-'' @ show_int now, ar_tenant_id = tenant, ar_name = arr_name req,
                ar_pattern = arr_pattern req, ar_service = arr_service req,
                ar_severity = arr_severity req,
                ar_action = (if arr_action req = [] then ''resolve'' else arr_action req),
                ar_cooldown_minutes = (if arr_cooldown_minutes req \<le> 0 then 30 else arr_cooldown_minutes req),
                ar_enabled = True, ar_times_fired = 0, ar_created_at = now\<rparr>
          in (case create_rule_row flt now rule w of
                Inl e \<Rightarrow> (Inl e, w) | Inr w' \<Rightarrow> (Inr rule, w')))"

definition toggle_rule :: "faults \<Rightarrow> string \<Rightarrow> bool \<Rightarrow> world \<Rightarrow> unit result \<times> world" where
  "toggle_rule flt rid enabled w =
    (case get_rule_by_id flt rid w of
       Inl e \<Rightarrow> (Inl e, w)
     | Inr None \<Rightarrow> (Inl (ErrMsg (''rule not found: '' @ rid)), w)
     | Inr (Some r) \<Rightarrow>
         (case update_rule flt (r\<lparr>ar_enabled := enabled\<rparr>) w of
            Inl e \<Rightarrow> (Inl e, w) | Inr w' \<Rightarrow> (Inr (), w')))"

section \<open>Lemmas\<close>

lemma increment_fired_frame:
  "increment_fired flt rid w = Inr w' \<Longrightarrow> w_events w' = w_events w \<and> w_incidents w' = w_incidents w \<and>
     w_history w' = w_history w \<and> w_metrics w' = w_metrics w \<and> w_pending w' = w_pending w \<and>
     w_mutes w' = w_mutes w \<and> w_async w' = w_async w \<and> (pk ar_id (w_rules w) \<longrightarrow> pk ar_id (w_rules w'))"
  by (auto simp: increment_fired_def intro!: pk_update)

lemma resolve_first_frame:
  assumes "resolve_first flt iid rs w = (x, w')"
  shows "w_events w' = w_events w \<and> w_history w' = w_history w \<and> w_metrics w' = w_metrics w \<and>
    w_pending w' = w_pending w \<and> w_mutes w' = w_mutes w \<and> w_async w' = w_async w \<and>
    db_links (w_incidents w') = db_links (w_incidents w) \<and>
    (db_rows (w_incidents w') = db_rows (w_incidents w) \<or>
     db_rows (w_incidents w') = set_status_rows iid ''resolved'' (db_rows (w_incidents w)))"
  using assms
proof (induction flt iid rs w rule: resolve_first.induct)
  case (1 flt iid w)
  then show ?case by simp
next
  case (2 flt iid r rs w)
  have idem: "set_status_rows iid ''resolved'' (set_status_rows iid ''resolved'' rows) =
      set_status_rows iid ''resolved'' rows" for rows
    by (auto simp: set_status_rows_def tbl_update_def)
  show ?case
  proof (cases "ar_action r = ''resolve''")
    case False
    with 2 show ?thesis by simp
  next
    case True
    obtain res db where u: "update_incident_status (at_site (ar_id r) flt) iid ''resolved'' (w_incidents w) = (res, db)"
      by fastforce
    have db: "db_links db = db_links (w_incidents w)" "db_rows db = db_rows (w_incidents w) \<or>
        db_rows db = set_status_rows iid ''resolved'' (db_rows (w_incidents w))"
      using update_incident_status_frame[of "at_site (ar_id r) flt" iid "''resolved''" "w_incidents w"]
        update_incident_status_rows[of "at_site (ar_id r) flt" iid "''resolved''" "w_incidents w"] u by auto
    show ?thesis
    proof (cases res)
      case (Inl e)
      have rest: "resolve_first flt iid rs (w\<lparr>w_incidents := db\<rparr>) = (x, w')"
        using 2(3) True u Inl by simp
      from 2(1)[OF True u[symmetric] Inl rest] db idem show ?thesis by auto
    next
      case (Inr inc)
      let ?w1 = "w\<lparr>w_incidents := db\<rparr>"
      have w': "w' = or_keep (increment_fired (at_site (ar_id r) flt) (ar_id r) ?w1) ?w1"
        using 2(3) True u Inr by (simp add: Let_def)
      show ?thesis
      proof (cases "increment_fired (at_site (ar_id r) flt) (ar_id r) ?w1")
        case (Inl e)
        with w' db show ?thesis by simp
      next
        case (Inr w2)
        from increment_fired_frame[OF this] w' Inr db show ?thesis by simp
      qed
    qed
  qed
qed

lemma resolve_first_Some:
  assumes "resolve_first flt iid rs w = (Some name, w')"
  shows "\<exists>r \<in> set rs. ar_name r = name \<and> ar_action r = ''resolve''"
  using assms
  by (induction flt iid rs w rule: resolve_first.induct)
     (auto simp: Let_def split: if_splits prod.splits sum.splits)

lemma lower_no_upper: "contains_str (to_lower s) p \<Longrightarrow> c \<in> set p \<Longrightarrow> \<not> is_upper c"
proof -
  assume "contains_str (to_lower s) p" "c \<in> set p"
  then have "c \<in> set (to_lower s)" by (auto simp: contains_iff)
  then show "\<not> is_upper c" by (auto simp: to_lower_def)
qed

section \<open>Properties\<close>

text \<open>An incident is auto-resolved only by a rule that says so, and nothing else changes.
  When \<open>CheckAndResolve\<close> reports a rule, it is an enabled rule of the incident's (defaulted) tenant
  with the action \<open>resolve\<close> that matches its service, severity and text; and whatever it reports,
  under any faults, the stored incidents change at most in the status of this incident, to
  resolved, and no link, event, mute or pending close changes.\<close>

theorem auto_resolve_needs_rule:
  assumes "check_and_resolve flt inc w = (res, w')"
  shows "(\<forall>name. res = Some name \<longrightarrow>
       (\<exists>r \<in> set (w_rules w). ar_name r = name \<and> ar_action r = ''resolve'' \<and>
          rule_matches (inc_tenant_id inc) (inc_service inc) (inc_severity inc)
            (to_lower (inc_title inc @ '' '' @ inc_root_cause_summary inc)) r)) \<and>
    (db_rows (w_incidents w') = db_rows (w_incidents w) \<or>
     db_rows (w_incidents w') = set_status_rows (inc_id inc) ''resolved'' (db_rows (w_incidents w))) \<and>
    db_links (w_incidents w') = db_links (w_incidents w) \<and> w_events w' = w_events w \<and>
    w_pending w' = w_pending w \<and> w_mutes w' = w_mutes w"
proof (cases "find_matching_rules flt (inc_tenant_id inc) (inc_service inc) (inc_severity inc)
    (to_lower (inc_title inc @ '' '' @ inc_root_cause_summary inc)) w")
  case (Inl e)
  with assms show ?thesis by (simp add: check_and_resolve_def)
next
  case (Inr rules)
  with assms have r: "resolve_first flt (inc_id inc) rules w = (res, w')"
    by (simp add: check_and_resolve_def)
  have "\<exists>r \<in> set (w_rules w). ar_name r = name \<and> ar_action r = ''resolve'' \<and>
          rule_matches (inc_tenant_id inc) (inc_service inc) (inc_severity inc)
            (to_lower (inc_title inc @ '' '' @ inc_root_cause_summary inc)) r" if "res = Some name" for name
  proof -
    from resolve_first_Some[OF r[unfolded that]] obtain q where
      "q \<in> set rules" "ar_name q = name" "ar_action q = ''resolve''" by blast
    with Inr show ?thesis by (intro bexI[of _ q]) (auto simp: find_matching_rules_def)
  qed
  with resolve_first_frame[OF r] show ?thesis by blast
qed

definition example_rule :: AutoResolveRule where
  "example_rule = \<lparr>ar_id = ''ar-1'', ar_tenant_id = ''acme'', ar_name = ''noise'', ar_pattern = ''disk'',
     ar_service = [], ar_severity = ''low'', ar_action = ''resolve'', ar_cooldown_minutes = 30,
     ar_enabled = True, ar_times_fired = 0, ar_created_at = 0\<rparr>"

theorem auto_resolve_needs_rule_witness:
  "let inc = incident_zero\<lparr>inc_id := ''i1'', inc_tenant_id := ''acme'', inc_severity := ''low'',
         inc_title := ''Disk almost full'', inc_status := ''open''\<rparr>;
       w = empty_world\<lparr>w_rules := [example_rule],
             w_incidents := \<lparr>db_rows = [inc], db_links = [], db_slack = []\<rparr>\<rparr>
   in fst (check_and_resolve no_faults inc w) = Some ''noise'' \<and>
      map inc_status (db_rows (w_incidents (snd (check_and_resolve no_faults inc w)))) = [''resolved''] \<and>
      (\<exists>r \<in> set (w_rules w). ar_name r = ''noise'' \<and> ar_action r = ''resolve'')"
proof -
  let ?inc = "incident_zero\<lparr>inc_id := ''i1'', inc_tenant_id := ''acme'', inc_severity := ''low'',
         inc_title := ''Disk almost full'', inc_status := ''open''\<rparr>"
  let ?w = "empty_world\<lparr>w_rules := [example_rule],
             w_incidents := \<lparr>db_rows = [?inc], db_links = [], db_slack = []\<rparr>\<rparr>"
  let ?r = "check_and_resolve no_faults ?inc ?w"
  have f: "fst ?r = Some ''noise''" by code_simp
  have s: "map inc_status (db_rows (w_incidents (snd ?r))) = [''resolved'']" by code_simp
  have "?r = (fst ?r, snd ?r)" by simp
  from auto_resolve_needs_rule[OF this] f have
    "\<exists>r \<in> set (w_rules ?w). ar_name r = ''noise'' \<and> ar_action r = ''resolve''" by blast
  with f s show ?thesis by (simp only: Let_def simp_thms)
qed

text \<open>A rule whose pattern has an upper-case letter never fires. \<open>CheckAndResolve\<close> lower-cases
  the text of the incident but \<open>FindMatchingRules\<close> compares it with the pattern as it was typed,
  so a pattern without wildcards that holds an upper-case letter matches no incident at all, not
  even one whose title is the pattern.\<close>

theorem upper_case_rule_never_fires:
  assumes "like_plain (ar_pattern r)" and "c \<in> set (ar_pattern r)" and "is_upper c"
  shows "\<not> rule_matches tenant service severity (to_lower text) r"
proof -
  from assms(2) have "ar_pattern r \<noteq> []" by auto
  moreover have "\<not> sql_like (CHR ''%'' # ar_pattern r @ ''%'') (to_lower text)"
    using lower_no_upper[OF _ assms(2)] assms(3) by (auto simp: sql_like_contains[OF assms(1)])
  ultimately show ?thesis by (simp add: rule_matches_def)
qed

theorem upper_case_rule_never_fires_witness:
  "\<not> rule_matches ''acme'' ''db'' ''low'' (to_lower ''OOMKilled'') (example_rule\<lparr>ar_pattern := ''OOMKilled''\<rparr>)"
proof -
  have "like_plain (ar_pattern (example_rule\<lparr>ar_pattern := ''OOMKilled''\<rparr>))"
    by (simp add: like_plain_def)
  moreover have "CHR ''K'' \<in> set (ar_pattern (example_rule\<lparr>ar_pattern := ''OOMKilled''\<rparr>))" by simp
  moreover have "is_upper CHR ''K''" by code_simp
  ultimately show ?thesis by (rule upper_case_rule_never_fires)
qed

end
