(* ===== verification/KnowledgeMatch.thy ===== *)
theory KnowledgeMatch
  imports GoStrings
begin

text \<open>
  \<open>internal/services/knowledge_base.go\<close>: the matcher that finds a known incident pattern for
  the text of an alert. The theorems hold for every table of entries; the tables themselves
  are in \<open>KbSystem\<close> to \<open>KbAdvanced\<close> and put together in \<open>KnowledgeEntries\<close>.
\<close>

record KnowledgeEntry =
  kb_id :: string
  kb_category :: string
  kb_sub_category :: string
  kb_keywords :: "string list"
  kb_anti_words :: "string list"
  kb_metric_name :: string
  kb_severity :: string
  kb_root_cause :: string
  kb_reasoning :: "string list"
  kb_impact :: string
  kb_resolution_steps :: "string list"
  kb_prevention :: string
  kb_base_confidence :: int
  kb_base_risk_score :: int

record KnowledgeBase =
  kb_entries :: "KnowledgeEntry list"
  kb_by_category :: "string \<rightharpoonup> KnowledgeEntry list"
  kb_by_metric :: "string \<rightharpoonup> KnowledgeEntry list"

definition append_at :: "string \<Rightarrow> KnowledgeEntry \<Rightarrow> (string \<rightharpoonup> KnowledgeEntry list) \<Rightarrow>
    (string \<rightharpoonup> KnowledgeEntry list)" where
  "append_at k e m = m(k \<mapsto> (case m k of None \<Rightarrow> [] | Some es \<Rightarrow> es) @ [e])"

definition index_entry :: "KnowledgeEntry \<Rightarrow> KnowledgeBase \<Rightarrow> KnowledgeBase" where
  "index_entry e kb = kb\<lparr>kb_by_category := append_at (kb_category e) e (kb_by_category kb),
     kb_by_metric := (if kb_metric_name e \<noteq> [] then append_at (kb_metric_name e) e (kb_by_metric kb)
                      else kb_by_metric kb)\<rparr>"

definition new_knowledge_base :: "KnowledgeEntry list \<Rightarrow> KnowledgeBase" where
  "new_knowledge_base entries = fold index_entry entries
     \<lparr>kb_entries = entries, kb_by_category = Map.empty, kb_by_metric = Map.empty\<rparr>"

section \<open>Keywords\<close>

definition minKeywordMatches :: nat where "minKeywordMatches = 2"
definition standaloneKeywordMinLen :: nat where "standaloneKeywordMinLen = 10"

definition is_word_char :: "char \<Rightarrow> bool" where
  "is_word_char c \<longleftrightarrow> is_lower c \<or> is_digit c"

text \<open>\<open>tokenize\<close>: the set of the words, as a list.\<close>

definition tokenize :: "string \<Rightarrow> string list" where
  "tokenize text = filter (\<lambda>w. w \<noteq> []) (split_pred (\<lambda>c. \<not> is_word_char c) (to_lower text))"

definition trim_cutset :: "string \<Rightarrow> string \<Rightarrow> string" where
  "trim_cutset cutset s =
     rev (dropWhile (\<lambda>c. c \<in> set cutset) (rev (dropWhile (\<lambda>c. c \<in> set cutset) s)))"

definition keyword_cutset :: string where
  "keyword_cutset = ''.,:;()[]{}'' @ [CHR 0x22, CHR 0x27]"

definition keyword_hits :: "string list \<Rightarrow> string \<Rightarrow> bool" where
  "keyword_hits tokens keyword =
    (let parts = str_fields (to_lower keyword) in
     if parts = [] then False
     else list_all (\<lambda>p. let q = trim_cutset keyword_cutset p in q = [] \<or> q \<in> set tokens) parts)"

definition is_standalone_keyword :: "string \<Rightarrow> bool" where
  "is_standalone_keyword keyword \<longleftrightarrow>
     1 < length (str_fields keyword) \<or> standaloneKeywordMinLen \<le> length keyword"

section \<open>The best match\<close>

definition entry_excluded :: "string list \<Rightarrow> KnowledgeEntry \<Rightarrow> bool" where
  "entry_excluded tokens e \<longleftrightarrow> list_ex (keyword_hits tokens) (kb_anti_words e)"

definition hit_count :: "string list \<Rightarrow> KnowledgeEntry \<Rightarrow> nat" where
  "hit_count tokens e = length (filter (keyword_hits tokens) (kb_keywords e))"

definition hit_standalone :: "string list \<Rightarrow> KnowledgeEntry \<Rightarrow> bool" where
  "hit_standalone tokens e \<longleftrightarrow>
     list_ex (\<lambda>kw. keyword_hits tokens kw \<and> is_standalone_keyword kw) (kb_keywords e)"

definition eligible :: "string list \<Rightarrow> KnowledgeEntry \<Rightarrow> bool" where
  "eligible tokens e \<longleftrightarrow> \<not> entry_excluded tokens e \<and> hit_count tokens e \<noteq> 0 \<and>
     \<not> (hit_count tokens e < minKeywordMatches \<and> \<not> hit_standalone tokens e)"

definition best_step :: "string list \<Rightarrow> KnowledgeEntry \<Rightarrow> KnowledgeEntry option \<times> nat \<Rightarrow>
    KnowledgeEntry option \<times> nat" where
  "best_step tokens e st =
    (if eligible tokens e \<and> snd st < hit_count tokens e then (Some e, hit_count tokens e) else st)"

definition best_keyword_match :: "KnowledgeEntry list \<Rightarrow> string \<Rightarrow> KnowledgeEntry option" where
  "best_keyword_match candidates rawText =
    (let tokens = tokenize rawText in
     if tokens = [] then None
     else let (best, bestCount) = fold (best_step tokens) candidates (None, 0) in
       if bestCount = 0 then None else best)"

definition kb_match :: "KnowledgeBase \<Rightarrow> string \<Rightarrow> string \<Rightarrow> string \<Rightarrow> KnowledgeEntry option" where
  "kb_match kb title message metricName =
    (let text = title @ '' '' @ message;
         by_text = (if to_lower text = '' '' then None else best_keyword_match (kb_entries kb) text)
     in if metricName = [] then by_text
        else case kb_by_metric kb metricName of
          None \<Rightarrow> by_text
        | Some candidates \<Rightarrow>
            (case best_keyword_match candidates text of
               Some e \<Rightarrow> Some e
             | None \<Rightarrow> (case candidates of [] \<Rightarrow> by_text | c # _ \<Rightarrow> Some c)))"

definition kb_match_by_incident ::
    "KnowledgeBase \<Rightarrow> string \<Rightarrow> string \<Rightarrow> string list \<Rightarrow> KnowledgeEntry option" where
  "kb_match_by_incident kb title rootCause reasoning =
     kb_match kb (foldl (\<lambda>acc r. acc @ '' '' @ r) (title @ '' '' @ rootCause) reasoning) [] []"

section \<open>Lemmas\<close>

lemma append_at_lookup:
  "append_at k e m j = (if j = k then Some ((case m k of None \<Rightarrow> [] | Some es \<Rightarrow> es) @ [e]) else m j)"
  by (simp add: append_at_def)

lemma index_entries:
  "kb_entries (fold index_entry es kb) = kb_entries kb"
  "(case kb_by_metric (fold index_entry es kb) j of None \<Rightarrow> [] | Some xs \<Rightarrow> xs) =
     (case kb_by_metric kb j of None \<Rightarrow> [] | Some xs \<Rightarrow> xs) @
       filter (\<lambda>e. kb_metric_name e = j \<and> kb_metric_name e \<noteq> []) es"
  by (induction es arbitrary: kb) (auto simp: index_entry_def append_at_lookup)

lemma by_metric_filter:
  "(case kb_by_metric (new_knowledge_base es) j of None \<Rightarrow> [] | Some xs \<Rightarrow> xs) =
     filter (\<lambda>e. kb_metric_name e = j \<and> kb_metric_name e \<noteq> []) es"
  unfolding new_knowledge_base_def by (subst index_entries(2)) simp

lemma kb_entries_new [simp]: "kb_entries (new_knowledge_base es) = es"
  by (simp add: new_knowledge_base_def index_entries)

lemma best_fold:
  assumes "fold (best_step tokens) es (b0, n0) = (b, n)"
    and "\<And>e. b0 = Some e \<Longrightarrow> eligible tokens e \<and> hit_count tokens e = n0" and "b0 = None \<longleftrightarrow> n0 = 0"
  shows "(b = None \<longleftrightarrow> n = 0) \<and> n0 \<le> n \<and>
    (\<forall>e. b = Some e \<longrightarrow> eligible tokens e \<and> hit_count tokens e = n \<and> (e \<in> set es \<or> b0 = Some e)) \<and>
    (\<forall>e \<in> set es. eligible tokens e \<longrightarrow> hit_count tokens e \<le> n)"
  using assms
proof (induction es arbitrary: b0 n0)
  case Nil
  then show ?case by auto
next
  case (Cons e es)
  obtain b1 n1 where s: "best_step tokens e (b0, n0) = (b1, n1)" by fastforce
  have f: "fold (best_step tokens) es (b1, n1) = (b, n)" using Cons.prems(1) s by simp
  have c: "n0 \<le> n1" "eligible tokens e \<Longrightarrow> hit_count tokens e \<le> n1"
    "b1 = Some e \<or> b1 = b0" "b1 = None \<longleftrightarrow> n1 = 0"
    "\<And>x. b1 = Some x \<Longrightarrow> eligible tokens x \<and> hit_count tokens x = n1"
    using s Cons.prems(2,3) by (auto simp: best_step_def eligible_def split: if_splits)
  from Cons.IH[OF f c(5) c(4)] c show ?case by auto
qed

lemma best_match_Some:
  assumes "best_keyword_match es text = Some e"
  shows "e \<in> set es \<and> eligible (tokenize text) e \<and>
    (\<forall>x \<in> set es. eligible (tokenize text) x \<longrightarrow> hit_count (tokenize text) x \<le> hit_count (tokenize text) e)"
proof -
  obtain b n where f: "fold (best_step (tokenize text)) es (None, 0) = (b, n)" by fastforce
  from assms f have "b = Some e" by (auto simp: best_keyword_match_def Let_def split: if_splits)
  with best_fold[OF f] show ?thesis by simp
qed

lemma kb_match_member:
  assumes "kb_match (new_knowledge_base es) title message metric = Some e"
  shows "e \<in> set es"
proof -
  have *: "x \<in> set es" if "kb_by_metric (new_knowledge_base es) metric = Some xs" "x \<in> set xs" for x xs
    using by_metric_filter[of es metric] that by auto
  from assms show ?thesis
    by (auto simp: kb_match_def Let_def dest!: best_match_Some dest: * split: if_splits option.splits list.splits)
qed

lemma keyword_hits_Nil: "keyword_hits [] k \<Longrightarrow> \<forall>p \<in> set (str_fields (to_lower k)). trim_cutset keyword_cutset p = []"
  by (auto simp: keyword_hits_def Let_def list_all_iff split: if_splits)

lemma best_match_None:
  assumes "best_keyword_match es text = None" "tokenize text \<noteq> []" "e \<in> set es"
  shows "\<not> eligible (tokenize text) e"
proof
  assume el: "eligible (tokenize text) e"
  obtain b n where f: "fold (best_step (tokenize text)) es (None, 0) = (b, n)" by fastforce
  from best_fold[OF f] assms(3) el have "n \<noteq> 0" "b \<noteq> None"
    by (auto simp: eligible_def)
  with assms(1,2) f show False by (auto simp: best_keyword_match_def Let_def)
qed

lemma tokenize_chars: "w \<in> set (tokenize text) \<Longrightarrow> c \<in> set w \<Longrightarrow> is_word_char c"
  using split_pred_no_sep[of "\<lambda>c. \<not> is_word_char c" "to_lower text"] by (auto simp: tokenize_def)

text \<open>A keyword that nothing matches: some word of it still has a separator inside when the punctuation around it is gone.\<close>

definition keyword_dead :: "string \<Rightarrow> bool" where
  "keyword_dead kw \<longleftrightarrow>
     list_ex (\<lambda>w. list_ex (\<lambda>c. \<not> is_word_char c) (trim_cutset keyword_cutset w)) (str_fields (to_lower kw))"

lemma space_not_word: "is_space c \<Longrightarrow> \<not> is_word_char c"
  by (auto simp: is_space_def is_word_char_def is_lower_def is_digit_def)

lemma cutset_not_word: "c \<in> set keyword_cutset \<Longrightarrow> \<not> is_word_char c"
proof -
  have "list_all (\<lambda>c. \<not> is_word_char c) keyword_cutset" by code_simp
  then show "c \<in> set keyword_cutset \<Longrightarrow> \<not> is_word_char c" by (simp add: list_all_iff)
qed

lemma trim_cutset_parts:
  "\<exists>l r. w = l @ trim_cutset cs w @ r \<and> set l \<subseteq> set cs \<and> set r \<subseteq> set cs"
proof -
  let ?in = "\<lambda>c. c \<in> set cs"
  let ?d = "dropWhile ?in w"
  have "?d = trim_cutset cs w @ rev (takeWhile ?in (rev ?d))"
    by (metis rev_append rev_rev_ident takeWhile_dropWhile_id trim_cutset_def)
  then have "w = takeWhile ?in w @ trim_cutset cs w @ rev (takeWhile ?in (rev ?d))"
    by (metis takeWhile_dropWhile_id)
  moreover have "set (takeWhile ?in w) \<subseteq> set cs" "set (rev (takeWhile ?in (rev ?d))) \<subseteq> set cs"
    by (auto dest: set_takeWhileD)
  ultimately show ?thesis by blast
qed

lemma live_part_found:
  assumes "w \<in> set (str_fields s)" "\<forall>c \<in> set (trim_cutset keyword_cutset w). is_word_char c"
    and "trim_cutset keyword_cutset w \<noteq> []"
  shows "trim_cutset keyword_cutset w \<in> set (filter (\<lambda>w. w \<noteq> []) (split_pred (\<lambda>c. \<not> is_word_char c) s))"
proof -
  let ?q = "trim_cutset keyword_cutset w"
  from assms(1) obtain a b where s: "s = a @ w @ b" "a = [] \<or> is_space (last a)" "b = [] \<or> is_space (hd b)"
    by (auto simp: str_fields_def split_pred_mem)
  obtain l r where w: "w = l @ ?q @ r" "set l \<subseteq> set keyword_cutset" "set r \<subseteq> set keyword_cutset"
    using trim_cutset_parts by blast
  have "s = (a @ l) @ ?q @ (r @ b)" using s(1) w(1) by simp
  moreover have "a @ l = [] \<or> \<not> is_word_char (last (a @ l))"
    using s(2) w(2) space_not_word cutset_not_word by (cases "l = []") (auto simp: subset_iff)
  moreover have "r @ b = [] \<or> \<not> is_word_char (hd (r @ b))"
    using s(3) w(3) space_not_word cutset_not_word by (cases r) auto
  ultimately have "?q \<in> set (split_pred (\<lambda>c. \<not> is_word_char c) s)"
    using assms(2) unfolding split_pred_mem by blast
  with assms(3) show ?thesis by simp
qed

lemma live_keyword_hits:
  assumes "\<not> keyword_dead kw" "str_fields (to_lower kw) \<noteq> []"
  shows "keyword_hits (tokenize kw) kw"
  using assms live_part_found[of _ "to_lower kw"]
  by (auto simp: keyword_hits_def Let_def list_all_iff keyword_dead_def list_ex_iff tokenize_def)

lemma dead_never: "keyword_dead kw \<Longrightarrow> \<not> keyword_hits (tokenize text) kw"
proof
  assume "keyword_dead kw" "keyword_hits (tokenize text) kw"
  then obtain w c where "w \<in> set (str_fields (to_lower kw))" "c \<in> set (trim_cutset keyword_cutset w)"
    "\<not> is_word_char c" by (auto simp: keyword_dead_def list_ex_iff)
  moreover from this have "trim_cutset keyword_cutset w \<in> set (tokenize text)"
    using \<open>keyword_hits (tokenize text) kw\<close> by (auto simp: keyword_hits_def Let_def list_all_iff split: if_splits)
  ultimately show False using tokenize_chars[of "trim_cutset keyword_cutset w" "text" c] by simp
qed

section \<open>Properties\<close>

text \<open>The matcher never claims a cause on one weak signal. When \<open>Match\<close> finds an entry for a
  text without a metric name, none of the entry's anti-words occurs, at least two of its keywords
  do, or one that is specific enough to stand alone, and no other entry of the table that
  qualifies has more keyword hits.\<close>

theorem kb_match_corroborated:
  assumes "kb_match (new_knowledge_base es) title message [] = Some e"
  defines "tokens \<equiv> tokenize (title @ '' '' @ message)"
  shows "e \<in> set es \<and> (\<forall>aw \<in> set (kb_anti_words e). \<not> keyword_hits tokens aw) \<and>
    (2 \<le> hit_count tokens e \<or>
       (\<exists>kw \<in> set (kb_keywords e). keyword_hits tokens kw \<and> is_standalone_keyword kw)) \<and>
    (\<forall>x \<in> set es. eligible tokens x \<longrightarrow> hit_count tokens x \<le> hit_count tokens e)"
proof -
  from assms(1) have "best_keyword_match es (title @ '' '' @ message) = Some e"
    by (auto simp: kb_match_def Let_def split: if_splits)
  from best_match_Some[OF this] show ?thesis
    by (auto simp: tokens_def eligible_def entry_excluded_def hit_standalone_def list_ex_iff
        minKeywordMatches_def not_less)
qed

definition oom_entry :: KnowledgeEntry where
  "oom_entry = \<lparr>kb_id = ''oom'', kb_category = ''system'', kb_sub_category = ''memory'',
     kb_keywords = [''oom'', ''memory'', ''out of memory''], kb_anti_words = [''room''],
     kb_metric_name = [], kb_severity = ''critical'', kb_root_cause = ''memory exhausted'',
     kb_reasoning = [], kb_impact = [], kb_resolution_steps = [], kb_prevention = [],
     kb_base_confidence = 90, kb_base_risk_score = 85\<rparr>"

theorem kb_match_corroborated_witness:
  "\<exists>e. kb_match (new_knowledge_base [oom_entry]) ''OOM: out of'' ''memory'' [] = Some e \<and>
     2 \<le> hit_count (tokenize ''OOM: out of memory'') e"
proof -
  have "map_option kb_id (kb_match (new_knowledge_base [oom_entry]) ''OOM: out of'' ''memory'' []) = Some ''oom''"
    by code_simp
  then obtain e where e: "kb_match (new_knowledge_base [oom_entry]) ''OOM: out of'' ''memory'' [] = Some e"
    by auto
  from kb_match_corroborated[OF e] have "e = oom_entry" by simp
  moreover have "2 \<le> hit_count (tokenize ''OOM: out of memory'') oom_entry" by code_simp
  ultimately show ?thesis using e by simp
qed

text \<open>A keyword with a separator inside a word can never hit. \<open>tokenize\<close> splits the text at
  every character but letters and digits, while \<open>keywordHits\<close> splits the keyword at white space
  only, so a keyword such as \<open>pg_hba.conf rejects\<close> or \<open>max_connections\<close> is dead: no text matches
  it, not even the keyword itself.\<close>

theorem separator_keyword_dead:
  assumes "w \<in> set (str_fields (to_lower kw))" and "c \<in> set (trim_cutset keyword_cutset w)"
    and "\<not> is_word_char c"
  shows "\<not> keyword_hits (tokenize text) kw"
  using assms by (intro dead_never) (auto simp: keyword_dead_def list_ex_iff)

theorem separator_keyword_dead_witness:
  "\<not> keyword_hits (tokenize ''max_connections'') ''max_connections''"
proof -
  have "''max_connections'' \<in> set (str_fields (to_lower ''max_connections''))" by code_simp
  moreover have "CHR ''_'' \<in> set (trim_cutset keyword_cutset ''max_connections'')" by code_simp
  moreover have "\<not> is_word_char CHR ''_''" by code_simp
  ultimately show ?thesis by (rule separator_keyword_dead)
qed

text \<open>A keyword matches some text unless it is dead, and then it matches none. A keyword that is not blank hits on a
  text, and at least on its own, exactly when none of its words has a separator inside (\<open>keyword_dead\<close>).\<close>

theorem keyword_dead_iff:
  assumes "str_fields (to_lower kw) \<noteq> []"
  shows "keyword_dead kw \<longleftrightarrow> (\<forall>text. \<not> keyword_hits (tokenize text) kw)"
  using live_keyword_hits[OF _ assms] dead_never by blast

theorem keyword_dead_iff_witness:
  "(\<forall>text. \<not> keyword_hits (tokenize text) ''read-only'') \<and>
   \<not> (\<forall>text. \<not> keyword_hits (tokenize text) ''(read only)'')"
proof -
  have "str_fields (to_lower ''read-only'') \<noteq> []" "str_fields (to_lower ''(read only)'') \<noteq> []" by code_simp+
  moreover have "keyword_dead ''read-only''" "\<not> keyword_dead ''(read only)''" by code_simp+
  ultimately show ?thesis using keyword_dead_iff by blast
qed

end
