(* ===== verification/GoSha256.thy ===== *)
theory GoSha256
  imports GoStrings "HOL-Library.Word"
begin

unbundle bit_operations_syntax

text \<open>
  SHA-256 (\<open>crypto/sha256\<close>) on byte strings, with its 32-bit arithmetic on words, and the
  hexadecimal rendering \<open>fmt.Sprintf("%x", ...)\<close> of bytes. The alert fingerprints of the
  correlation service are its first eight bytes.
\<close>

type_synonym w32 = "32 word"

text \<open>The round constants and the initial state are the first 32 bits of the fractional parts of
  the cube roots and square roots of the first primes (FIPS 180-4, 4.2.2 and 5.3.3), computed here
  by setting the bits of the root from the highest down.\<close>

definition sha_primes :: "int list" where
  "sha_primes =
    [2, 3, 5, 7, 11, 13, 17, 19, 23, 29, 31, 37, 41, 43, 47, 53, 59, 61, 67, 71, 73, 79,
     83, 89, 97, 101, 103, 107, 109, 113, 127, 131, 137, 139, 149, 151, 157, 163, 167,
     173, 179, 181, 191, 193, 197, 199, 211, 223, 227, 229, 233, 239, 241, 251, 257, 263,
     269, 271, 277, 281, 283, 293, 307, 311]"

definition root_of :: "nat \<Rightarrow> int \<Rightarrow> int" where
  "root_of k n = fold (\<lambda>b r. if (r + 2 ^ b) ^ k \<le> n then r + 2 ^ b else r) (rev [0..<40]) 0"

definition root_word :: "nat \<Rightarrow> int \<Rightarrow> w32" where
  "root_word k p = of_int (root_of k (p * 2 ^ (32 * k)))"

definition sha_k :: "w32 list" where "sha_k = map (root_word 3) sha_primes"

definition sha_h0 :: "w32 list" where "sha_h0 = map (root_word 2) (take 8 sha_primes)"

definition rotr :: "nat \<Rightarrow> w32 \<Rightarrow> w32" where
  "rotr n x = (drop_bit n x OR push_bit (32 - n) x)"

definition big_sigma0 :: "w32 \<Rightarrow> w32" where
  "big_sigma0 x = (rotr 2 x XOR rotr 13 x XOR rotr 22 x)"
definition big_sigma1 :: "w32 \<Rightarrow> w32" where
  "big_sigma1 x = (rotr 6 x XOR rotr 11 x XOR rotr 25 x)"
definition small_sigma0 :: "w32 \<Rightarrow> w32" where
  "small_sigma0 x = (rotr 7 x XOR rotr 18 x XOR drop_bit 3 x)"
definition small_sigma1 :: "w32 \<Rightarrow> w32" where
  "small_sigma1 x = (rotr 17 x XOR rotr 19 x XOR drop_bit 10 x)"

definition sha_ch :: "w32 \<Rightarrow> w32 \<Rightarrow> w32 \<Rightarrow> w32" where
  "sha_ch x y z = ((x AND y) XOR (NOT x AND z))"
definition sha_maj :: "w32 \<Rightarrow> w32 \<Rightarrow> w32 \<Rightarrow> w32" where
  "sha_maj x y z = ((x AND y) XOR (x AND z) XOR (y AND z))"

text \<open>The message schedule: sixteen words of the block, extended to sixty-four.\<close>

fun extend_schedule :: "nat \<Rightarrow> w32 list \<Rightarrow> w32 list" where
  "extend_schedule 0 ws = ws"
| "extend_schedule (Suc n) ws =
    (let t = length ws in
     extend_schedule n (ws @ [small_sigma1 (ws ! (t - 2)) + ws ! (t - 7) +
                              small_sigma0 (ws ! (t - 15)) + ws ! (t - 16)]))"

fun sha_round :: "w32 \<times> w32 \<Rightarrow> w32 list \<Rightarrow> w32 list" where
  "sha_round (k, w) [a, b, c, d, e, f, g, h] =
    (let t1 = h + big_sigma1 e + sha_ch e f g + k + w;
         t2 = big_sigma0 a + sha_maj a b c
     in [t1 + t2, a, b, c, d + t1, e, f, g])"
| "sha_round kw st = st"

definition sha_block :: "w32 list \<Rightarrow> w32 list \<Rightarrow> w32 list" where
  "sha_block block st =
     map2 (+) st (fold sha_round (zip sha_k (extend_schedule 48 block)) st)"

definition word_of_bytes :: "nat list \<Rightarrow> w32" where
  "word_of_bytes bs = of_nat (foldl (\<lambda>n b. 256 * n + b) 0 bs)"

fun chunks :: "nat \<Rightarrow> nat \<Rightarrow> 'a list \<Rightarrow> 'a list list" where
  "chunks 0 n xs = []"
| "chunks (Suc fuel) n xs = (if xs = [] then [] else take n xs # chunks fuel n (drop n xs))"

definition be_bytes :: "nat \<Rightarrow> nat \<Rightarrow> nat list" where
  "be_bytes k n = map (\<lambda>i. n div 256 ^ (k - 1 - i) mod 256) [0..<k]"

text \<open>Padding to a multiple of 64 bytes: \<open>0x80\<close>, zeros, the length in bits.\<close>

definition sha_pad :: "nat list \<Rightarrow> nat list" where
  "sha_pad bs = bs @ [128] @ replicate (nat ((55 - int (length bs)) mod 64)) 0 @ be_bytes 8 (8 * length bs)"

definition sha256_bytes :: "nat list \<Rightarrow> nat list" where
  "sha256_bytes bs =
    (let padded = sha_pad bs;
         blocks = map (\<lambda>c. map word_of_bytes (chunks 16 4 c)) (chunks (length padded) 64 padded)
     in concat (map (\<lambda>w. be_bytes 4 (unat w)) (fold sha_block blocks sha_h0)))"

definition hex_digit :: "nat \<Rightarrow> char" where
  "hex_digit d = (if d < 10 then char_of (48 + d) else char_of (87 + d))"

definition hex_bytes :: "nat list \<Rightarrow> string" where
  "hex_bytes bs = concat (map (\<lambda>b. [hex_digit (b div 16), hex_digit (b mod 16)]) bs)"

definition sha256 :: "string \<Rightarrow> nat list" where
  "sha256 s = sha256_bytes (map ord s)"

section \<open>Sizes\<close>

lemma length_be_bytes [simp]: "length (be_bytes k n) = k"
  by (simp add: be_bytes_def)

lemma be_bytes_bound: "b \<in> set (be_bytes k n) \<Longrightarrow> b < 256"
  by (auto simp: be_bytes_def)

lemma length_sha_pad: "length (sha_pad bs) mod 64 = 0"
proof -
  let ?l = "int (length bs)"
  have "int (length (sha_pad bs)) = ?l + 9 + (55 - ?l) mod 64"
    by (simp add: sha_pad_def)
  then have "int (length (sha_pad bs)) mod 64 = (?l + 9 + (55 - ?l)) mod 64"
    by (simp only: mod_add_right_eq)
  then have "int (length (sha_pad bs) mod 64) = 0"
    by (simp add: zmod_int)
  then show ?thesis by simp
qed

lemma length_sha_round [simp]: "length (sha_round kw st) = length st"
  by (cases "(kw, st)" rule: sha_round.cases) (auto simp: Let_def)

lemma length_sha_rounds [simp]: "length (fold sha_round kws st) = length st"
  by (induction kws arbitrary: st) auto

lemma length_sha_block [simp]: "length (sha_block b st) = length st"
  by (simp add: sha_block_def)

lemma length_sha_blocks [simp]: "length (fold sha_block bs st) = length st"
  by (induction bs arbitrary: st) auto

lemma length_concat_const:
  "(\<And>x. length (f x) = n) \<Longrightarrow> length (concat (map f xs)) = n * length xs"
  by (induction xs) auto

lemma length_sha256_bytes [simp]: "length (sha256_bytes bs) = 32"
proof -
  have "length (concat (map (\<lambda>w. be_bytes 4 (unat w)) ws)) = 4 * length ws" for ws :: "w32 list"
    by (rule length_concat_const) simp
  then show ?thesis by (simp add: sha256_bytes_def Let_def sha_h0_def sha_primes_def)
qed

lemma length_sha256 [simp]: "length (sha256 s) = 32"
  by (simp add: sha256_def)

lemma sha256_bound: "b \<in> set (sha256 s) \<Longrightarrow> b < 256"
  by (auto simp: sha256_def sha256_bytes_def Let_def dest: be_bytes_bound)

lemma length_hex_bytes [simp]: "length (hex_bytes bs) = 2 * length bs"
  unfolding hex_bytes_def by (rule length_concat_const) simp

definition is_hex_char :: "char \<Rightarrow> bool" where
  "is_hex_char c \<longleftrightarrow> is_digit c \<or> (97 \<le> ord c \<and> ord c \<le> 102)"

lemma hex_digit_ok: "d < 16 \<Longrightarrow> is_hex_char (hex_digit d)"
  by (auto simp: hex_digit_def is_hex_char_def is_digit_def ord_char_of)

lemma hex_bytes_ok: "\<forall>b \<in> set bs. b < 256 \<Longrightarrow> c \<in> set (hex_bytes bs) \<Longrightarrow> is_hex_char c"
  by (auto simp: hex_bytes_def intro!: hex_digit_ok)

end
