(* ===== verification/Fingerprinting.thy ===== *)
theory Fingerprinting
  imports Models GoSha256
begin

text \<open>
  The pure part of \<open>internal/services/correlation_service.go\<close>: the fingerprint of an alert, the
  texts and scores of a new incident, and the service dependency map of
  \<open>internal/config/service_dependencies.go\<close>. Everything here is a function of the event or the
  incident alone.
\<close>

section \<open>Fingerprints\<close>

definition count_chars :: "(char \<Rightarrow> bool) \<Rightarrow> string \<Rightarrow> nat" where
  "count_chars p w = length (filter p w)"

definition is_instance_token :: "string \<Rightarrow> bool" where
  "is_instance_token word =
    (let digits = count_chars is_digit word;
         letters = count_chars is_letter word;
         dots = count_chars (\<lambda>c. c = CHR ''.'') word;
         dashes = count_chars (\<lambda>c. c = CHR ''-'') word;
         size = length word
     in if size = 0 then False
        else if digits = size \<and> size > 3 then True
        else if dots = 3 \<and> digits > dots then True
        else if size \<ge> 32 \<and> dashes \<ge> 3 \<and> letters > 0 \<and> digits > 0 then True
        else if size \<ge> 10 \<and> dashes \<ge> 1 \<and> digits > 0 \<and> letters > 0 then True
        else False)"

definition normalize_alert_title :: "string \<Rightarrow> string" where
  "normalize_alert_title title =
     join_str '' '' (filter (\<lambda>w. \<not> is_instance_token w) (str_fields title))"

definition fingerprint_title :: "Event \<Rightarrow> string" where
  "fingerprint_title e =
    (let title = normalize_alert_title (to_lower (trim_space (ev_title e))) in
     if title = [] then normalize_alert_title (to_lower (trim_space (ev_message e))) else title)"

definition fingerprint_input :: "Event \<Rightarrow> string" where
  "fingerprint_input e =
     to_lower (trim_space (ev_source e)) @ ''|'' @ to_lower (trim_space (ev_service e)) @ ''|'' @
     to_lower (trim_space (ev_severity e)) @ ''|'' @ fingerprint_title e"

definition compute_event_fingerprint :: "Event \<Rightarrow> string" where
  "compute_event_fingerprint e = hex_bytes (take 8 (sha256 (fingerprint_input e)))"

section \<open>Scores\<close>

definition initial_confidence :: "string \<Rightarrow> int" where
  "initial_confidence sev =
    (let s = to_lower sev in
     if s = ''critical'' then 75 else if s = ''high'' then 65 else if s = ''medium'' then 55 else 45)"

definition initial_risk_score :: "string \<Rightarrow> int" where
  "initial_risk_score sev =
    (let s = to_lower sev in
     if s = ''critical'' then 90 else if s = ''high'' then 70 else if s = ''medium'' then 50 else 30)"

definition clamp_int :: "int \<Rightarrow> int \<Rightarrow> int \<Rightarrow> int" where
  "clamp_int v lo hi = (if v < lo then lo else if v > hi then hi else v)"

definition severity_points :: "string \<Rightarrow> int" where
  "severity_points sev =
    (let s = to_lower sev in
     if s = ''critical'' then 40 else if s = ''high'' then 30 else if s = ''medium'' then 15
     else if s = ''low'' then 5 else if s = SeverityUnknown then 15 else 0)"

definition compute_priority_score :: "Incident \<Rightarrow> int" where
  "compute_priority_score inc =
    (let eventScore = (if inc_event_count inc * 4 > 20 then 20 else inc_event_count inc * 4);
         impactScore = (if inc_impact_count inc * 3 > 10 then 10 else inc_impact_count inc * 3);
         score = severity_points (inc_severity inc) + eventScore + quot (inc_risk_score inc) 5 +
                 (if inc_seen_before inc then 10 else 0) + impactScore
     in if score > 100 then 100 else score)"

section \<open>Texts\<close>

definition em_dash_sp :: string where "em_dash_sp = '' '' @ [CHR 0xE2, CHR 0x80, CHR 0x94] @ '' ''"

definition title_case_severity :: "string \<Rightarrow> string" where
  "title_case_severity sev =
    (let s = to_lower (trim_space sev) in
     if s = [] then ''Unknown'' else to_upper (take 1 s) @ drop 1 s)"

definition build_title :: "Event \<Rightarrow> string" where
  "build_title e =
    (if ev_title e \<noteq> [] then ev_title e
     else if ev_message e \<noteq> [] then
       (if length (ev_message e) > 120 then take 120 (ev_message e) else ev_message e)
     else title_case_severity (ev_severity e) @ '' incident on '' @ ev_service e)"

text \<open>Cutting a short prefix that ends in a separator: what follows the separator, trimmed.\<close>

definition strip_prefix :: "string \<Rightarrow> nat \<Rightarrow> string \<Rightarrow> string" where
  "strip_prefix sep limit msg =
    (case index_str msg sep of
       Some i \<Rightarrow> if i < limit then trim_space (drop (i + 2) msg) else msg
     | None \<Rightarrow> msg)"

definition build_default_root_cause :: "Event \<Rightarrow> string" where
  "build_default_root_cause e =
    (let m0 = trim_space (ev_title e);
         m1 = (if m0 = [] then trim_space (ev_message e) else m0);
         m2 = strip_prefix ''] '' 12 m1;
         m3 = strip_prefix '': '' 30 m2;
         msg = (if length m3 > 200 then take 200 m3 else m3)
     in if msg = [] then title_case_severity (ev_severity e) @ '' alert on '' @ ev_service e
        else msg)"

definition when_any :: "string \<Rightarrow> string list \<Rightarrow> string \<Rightarrow> string list" where
  "when_any msg subs line = (if contains_any msg subs then [line] else [])"

definition build_reasoning :: "Event \<Rightarrow> string \<Rightarrow> string list" where
  "build_reasoning e rootCause =
    (let msg = to_lower (ev_message e) in
     [''Detected '' @ ev_severity e @ ''-severity event from '' @ ev_source e @ '' on service '' @ ev_service e] @
     (if rootCause \<noteq> [] then [''Root cause analysis: '' @ rootCause] else []) @
     (if ev_source e = ''neuroops-agent'' then
        [''Event originated from NeuroOps agent monitoring'' @ em_dash_sp @
         ''this is a real system signal, not a synthetic test''] else []) @
     when_any msg [''connection refused'', ''connection reset'']
       (''Network connectivity failure detected'' @ em_dash_sp @
        ''the target service or port is not accepting connections'') @
     when_any msg [''timeout'', ''timed out'']
       ''Request timeout indicates either the downstream service is overloaded or network latency is elevated'' @
     when_any msg [''permission denied'', ''access denied'']
       (''Access control failure'' @ em_dash_sp @ ''check credentials, certificates, or IAM policies'') @
     when_any msg [''out of memory'', ''oom'']
       (''Memory exhaustion'' @ em_dash_sp @ ''the process was killed by the OS OOM killer'') @
     when_any msg [''disk'', ''no space left'']
       (''Disk space exhaustion'' @ em_dash_sp @ ''writes are failing and services may crash''))"

definition classify_root_cause_type :: "Event \<Rightarrow> string" where
  "classify_root_cause_type e =
    (let txt = to_lower (ev_title e @ '' '' @ ev_message e) in
     if contains_any txt [''database'', ''db'', ''sql'', ''redis''] then ''database''
     else if contains_str txt ''timeout'' then ''timeout''
     else if contains_any txt [''memory'', ''oom''] then ''memory''
     else if contains_str txt ''cpu'' then ''cpu''
     else if contains_any txt [''network'', ''connect''] then ''network''
     else ''service_alert'')"

section \<open>Service dependencies\<close>

definition ServiceDependencies :: "(string \<times> string list) list" where
  "ServiceDependencies =
    [(''checkout-api'', [''payments-api'', ''inventory-api'']),
     (''payments-api'', [''database'', ''fraud-service'']),
     (''inventory-api'', [''database'']),
     (''fraud-service'', [''ml-service'']),
     (''ml-service'', []),
     (''database'', [])]"

text \<open>The order of the result is that of a Go map and has no meaning.\<close>

definition get_related_services :: "string \<Rightarrow> string list" where
  "get_related_services service = remdups
    ((case map_of ServiceDependencies (to_lower service) of None \<Rightarrow> [] | Some deps \<Rightarrow> deps) @
     map fst (filter (\<lambda>(_, deps). \<exists>dep \<in> set deps. equal_fold dep service) ServiceDependencies))"

section \<open>Lemmas\<close>

lemma clamp_int_bounds: "lo \<le> hi \<Longrightarrow> lo \<le> clamp_int v lo hi \<and> clamp_int v lo hi \<le> hi"
  by (simp add: clamp_int_def)

lemma severity_points_bounds: "0 \<le> severity_points s" "severity_points s \<le> 40"
  by (simp_all add: severity_points_def Let_def)

lemma normalize_words:
  "str_fields (normalize_alert_title t) = filter (\<lambda>w. \<not> is_instance_token w) (str_fields t)"
  unfolding normalize_alert_title_def by (rule str_fields_join) (auto dest: str_fields_word)

lemma normalize_idem: "normalize_alert_title (normalize_alert_title t) = normalize_alert_title t"
  unfolding normalize_alert_title_def[of "normalize_alert_title t"] normalize_words
  by (simp add: normalize_alert_title_def)

lemma normalize_eq_iff:
  "normalize_alert_title s = normalize_alert_title t \<longleftrightarrow>
     filter (\<lambda>w. \<not> is_instance_token w) (str_fields s) = filter (\<lambda>w. \<not> is_instance_token w) (str_fields t)"
  by (metis normalize_alert_title_def normalize_words)

lemma priority_le: "compute_priority_score inc \<le> 100"
  by (simp add: compute_priority_score_def Let_def)

lemma priority_nonneg:
  assumes "0 \<le> inc_event_count inc" "0 \<le> inc_risk_score inc" "0 \<le> inc_impact_count inc"
  shows "0 \<le> compute_priority_score inc"
proof -
  have "0 \<le> quot (inc_risk_score inc) 5" using assms(2) by (simp add: quot_pos)
  with assms severity_points_bounds(1)[of "inc_severity inc"] show ?thesis
    by (simp add: compute_priority_score_def Let_def)
qed

section \<open>Properties\<close>

text \<open>A fingerprint identifies the alert, not the instance. It is always sixteen hexadecimal
  digits; and two events get the same fingerprint when their source, service and severity agree
  up to case and surrounding white space and their titles leave the same words once the
  instance tokens (numbers, IP addresses, UUIDs, pod names) are dropped, provided some word is
  left.\<close>

theorem fingerprint_ignores_instances:
  assumes "equal_fold (trim_space (ev_source e)) (trim_space (ev_source f))"
    and "equal_fold (trim_space (ev_service e)) (trim_space (ev_service f))"
    and "equal_fold (trim_space (ev_severity e)) (trim_space (ev_severity f))"
    and "filter (\<lambda>w. \<not> is_instance_token w) (str_fields (to_lower (trim_space (ev_title e)))) =
         filter (\<lambda>w. \<not> is_instance_token w) (str_fields (to_lower (trim_space (ev_title f))))"
    and "filter (\<lambda>w. \<not> is_instance_token w) (str_fields (to_lower (trim_space (ev_title e)))) \<noteq> []"
  shows "compute_event_fingerprint e = compute_event_fingerprint f \<and>
    length (compute_event_fingerprint e) = 16 \<and>
    (\<forall>c \<in> set (compute_event_fingerprint e). is_hex_char c)"
proof -
  have t: "normalize_alert_title (to_lower (trim_space (ev_title e))) =
      normalize_alert_title (to_lower (trim_space (ev_title f)))"
    using assms(4) by (simp add: normalize_eq_iff)
  have "normalize_alert_title (to_lower (trim_space (ev_title e))) \<noteq> []"
  proof
    assume "normalize_alert_title (to_lower (trim_space (ev_title e))) = []"
    then have "str_fields (normalize_alert_title (to_lower (trim_space (ev_title e)))) = []"
      by (simp add: str_fields_def)
    with assms(5) show False by (simp add: normalize_words)
  qed
  with t have "fingerprint_title e = fingerprint_title f" by (simp add: fingerprint_title_def Let_def)
  with assms(1-3) have "compute_event_fingerprint e = compute_event_fingerprint f"
    by (simp add: compute_event_fingerprint_def fingerprint_input_def equal_fold_def)
  moreover have "\<forall>b \<in> set (take 8 (sha256 (fingerprint_input e))). b < 256"
    using sha256_bound by (auto dest: in_set_takeD)
  ultimately show ?thesis
    using hex_bytes_ok by (auto simp: compute_event_fingerprint_def)
qed

theorem fingerprint_ignores_instances_witness:
  "compute_event_fingerprint (event_zero\<lparr>ev_source := ''prometheus'', ev_service := ''api'',
      ev_severity := ''high'', ev_title := ''Pod web-7f9c4-x1 restarted 10.0.0.1''\<rparr>) =
   compute_event_fingerprint (event_zero\<lparr>ev_source := ''Prometheus '', ev_service := ''API'',
      ev_severity := ''HIGH'', ev_title := ''pod web-58d44-q7 restarted 10.0.0.2''\<rparr>)"
proof -
  let ?e = "event_zero\<lparr>ev_source := ''prometheus'', ev_service := ''api'',
      ev_severity := ''high'', ev_title := ''Pod web-7f9c4-x1 restarted 10.0.0.1''\<rparr>"
  let ?f = "event_zero\<lparr>ev_source := ''Prometheus '', ev_service := ''API'',
      ev_severity := ''HIGH'', ev_title := ''pod web-58d44-q7 restarted 10.0.0.2''\<rparr>"
  have "equal_fold (trim_space (ev_source ?e)) (trim_space (ev_source ?f))" by code_simp
  moreover have "equal_fold (trim_space (ev_service ?e)) (trim_space (ev_service ?f))" by code_simp
  moreover have "equal_fold (trim_space (ev_severity ?e)) (trim_space (ev_severity ?f))" by code_simp
  moreover have "filter (\<lambda>w. \<not> is_instance_token w) (str_fields (to_lower (trim_space (ev_title ?e)))) =
      filter (\<lambda>w. \<not> is_instance_token w) (str_fields (to_lower (trim_space (ev_title ?f))))" by code_simp
  moreover have "filter (\<lambda>w. \<not> is_instance_token w) (str_fields (to_lower (trim_space (ev_title ?e)))) \<noteq> []"
    by code_simp
  ultimately show ?thesis using fingerprint_ignores_instances[of ?e ?f] by blast
qed

text \<open>The priority of an incident stays within 0 and 100. It never exceeds 100, whatever the
  fields hold, and is not negative when the counts and the risk score are not.\<close>

theorem priority_bounded:
  "compute_priority_score inc \<le> 100 \<and>
   (0 \<le> inc_event_count inc \<and> 0 \<le> inc_risk_score inc \<and> 0 \<le> inc_impact_count inc \<longrightarrow>
      0 \<le> compute_priority_score inc)"
  using priority_le priority_nonneg by blast

theorem priority_bounded_witness:
  "compute_priority_score (incident_zero\<lparr>inc_severity := ''Critical'', inc_event_count := 9,
      inc_risk_score := 90, inc_seen_before := True, inc_impact_count := 5\<rparr>) = 98 \<and>
   0 \<le> compute_priority_score (incident_zero\<lparr>inc_severity := ''Critical'', inc_event_count := 9,
      inc_risk_score := 90, inc_seen_before := True, inc_impact_count := 5\<rparr>)"
proof -
  let ?i = "incident_zero\<lparr>inc_severity := ''Critical'', inc_event_count := 9,
      inc_risk_score := 90, inc_seen_before := True, inc_impact_count := 5\<rparr>"
  have "compute_priority_score ?i = 98" by code_simp
  with priority_bounded[of ?i] show ?thesis by simp
qed

end
