(* ===== verification/Correlation.thy ===== *)
theory Correlation
  imports Fingerprinting KnowledgeMatch AutoClose AutoResolve
begin

text \<open>
  The stateful part of \<open>internal/services/correlation_service.go\<close>: what happens to an alert.
  \<open>process_event\<close> stores it, drops it when it is muted or a duplicate, merges it into an open
  incident (same fingerprint; same service or a related one within five minutes) or creates a
  new incident. \<open>wiring\<close> says which services are wired in, \<open>kb\<close> is the knowledge base when there
  is one. Each operation reads the clock once.
\<close>

definition correlationWindowMinutes :: int where "correlationWindowMinutes = 5"
definition dedupWindowMinutes :: int where "dedupWindowMinutes = 5"

section \<open>Merging an alert into an incident\<close>

definition rescored :: "Incident \<Rightarrow> Incident" where
  "rescored inc = inc\<lparr>inc_priority_score := compute_priority_score inc\<rparr>"

definition merged_fields :: "Event \<Rightarrow> Incident \<Rightarrow> Incident" where
  "merged_fields e inc =
    (let count = inc_event_count inc + 1 in
         inc\<lparr>
           inc_last_event_time := (if inc_last_event_time inc < ev_timestamp e then ev_timestamp e
                                   else inc_last_event_time inc),
           inc_event_count := count,
           inc_event_ids := (if ev_id e \<in> set (inc_event_ids inc) then inc_event_ids inc
                             else inc_event_ids inc @ [ev_id e]),
           inc_severity := (if severity_weight (inc_severity inc) < severity_weight (ev_severity e)
                            then ev_severity e else inc_severity inc),
           inc_correlation_pattern := ''time_window_service_grouping'',
           inc_correlation_score := (if inc_correlation_score inc < 100
                                     then clamp_int (inc_correlation_score inc + 10) 0 100
                                     else inc_correlation_score inc),
           inc_correlation_reason := show_int count @ '' alerts grouped for service '' @ [CHR 0x27] @
             inc_service inc @ [CHR 0x27] @ '' within '' @ show_int correlationWindowMinutes @ ''-min window'',
           inc_confidence := clamp_int (inc_confidence inc + 5) 0 100\<rparr>)"

definition merged_incident :: "Event \<Rightarrow> Incident \<Rightarrow> Incident" where
  "merged_incident e inc = rescored (merged_fields e inc)"

definition merge_event :: "wiring \<Rightarrow> faults \<Rightarrow> Incident \<Rightarrow> Event \<Rightarrow> world \<Rightarrow> world" where
  "merge_event wi flt inc e w =
    (let w1 = w\<lparr>w_incidents := or_keep (update_incident flt (merged_incident e inc) (w_incidents w))
                 (w_incidents w)\<rparr>;
         w2 = w1\<lparr>w_incidents := or_keep (add_event_to_incident flt (inc_id inc) (ev_id e) (w_incidents w1))
                 (w_incidents w1)\<rparr>
     in if wi_auto_close wi then incident_active clear_recovered flt (inc_id inc) w2 else w2)"

section \<open>Creating an incident\<close>

definition incident_id_at :: "time \<Rightarrow> string" where
  "incident_id_at now = ''inc-'' @ show_int now"

definition kb_entry_for :: "KnowledgeBase option \<Rightarrow> Event \<Rightarrow> KnowledgeEntry option" where
  "kb_entry_for kb e =
    (case kb of None \<Rightarrow> None
     | Some k \<Rightarrow> kb_match k (ev_title e) (ev_message e) (sget (ev_labels e) ''metric.name''))"

definition new_incident :: "KnowledgeBase option \<Rightarrow> time \<Rightarrow> Event \<Rightarrow> Incident" where
  "new_incident kb now e =
    (let rootCause = build_default_root_cause e;
         base = incident_zero\<lparr>
           inc_id := incident_id_at now,
           inc_title := build_title e,
           inc_service := ev_service e,
           inc_severity := ev_severity e,
           inc_status := ''open'',
           inc_first_event_time := ev_timestamp e,
           inc_last_event_time := ev_timestamp e,
           inc_event_count := 1,
           inc_event_ids := [ev_id e],
           inc_fingerprint := ev_fingerprint e,
           inc_tenant_id := ev_tenant_id e,
           inc_correlation_pattern := ''new_incident'',
           inc_correlation_score := 50,
           inc_correlation_reason := ''First alert for service '' @ [CHR 0x27] @ ev_service e @ [CHR 0x27],
           inc_confidence := initial_confidence (ev_severity e),
           inc_risk_score := initial_risk_score (ev_severity e),
           inc_root_cause_summary := rootCause,
           inc_root_cause_type := classify_root_cause_type e,
           inc_reasoning := build_reasoning e rootCause\<rparr>;
         inc = (case kb_entry_for kb e of
                  None \<Rightarrow> base
                | Some k \<Rightarrow> base\<lparr>
                    inc_root_cause_summary := kb_root_cause k,
                    inc_reasoning := kb_reasoning k,
                    inc_confidence := kb_base_confidence k,
                    inc_risk_score := kb_base_risk_score k,
                    inc_correlation_pattern := ''kb_match:'' @ kb_id k\<rparr>)
     in rescored inc)"

definition recorded :: "wiring \<Rightarrow> faults \<Rightarrow> time \<Rightarrow> Incident \<Rightarrow> world \<Rightarrow> world" where
  "recorded wi flt now inc w =
    (if wi_health wi then
       w\<lparr>w_metrics := or_keep (record_incident_metrics flt now inc ''detected'' [] (w_metrics w)) (w_metrics w)\<rparr>
     else w)"

definition resolved_by_rule :: "wiring \<Rightarrow> faults \<Rightarrow> Incident \<Rightarrow> world \<Rightarrow> world" where
  "resolved_by_rule wi flt inc w = (if wi_auto_resolve wi then snd (check_and_resolve flt inc w) else w)"

text \<open>What follows the insert, whether it succeeded or not: its error is dropped.\<close>

definition after_create :: "wiring \<Rightarrow> faults \<Rightarrow> time \<Rightarrow> Incident \<Rightarrow> world \<Rightarrow> world" where
  "after_create wi flt now inc w =
    (let w1 = spawn_if (wi_onboarding wi) (GoMarkMilestone (inc_tenant_id inc) ''incident_created'') w;
         w2 = recorded wi flt now inc w1;
         w3 = resolved_by_rule wi flt inc w2;
         w4 = spawn_if (inc_severity inc = ''critical'' \<and> wi_whatsapp wi) (GoWhatsApp (inc_tenant_id inc) inc) w3;
         w5 = spawn_if (wi_push wi) (GoPush (inc_tenant_id inc) inc) w4;
         w6 = spawn_if (inc_severity inc = ''critical'' \<and> wi_slack wi) (GoSlackChannel inc) w5
     in spawn_if (wi_orchestrator wi) (GoTriggerRemediation inc None) w6)"

definition create_incident ::
    "wiring \<Rightarrow> KnowledgeBase option \<Rightarrow> faults \<Rightarrow> time \<Rightarrow> Event \<Rightarrow> world \<Rightarrow> world" where
  "create_incident wi kb flt now e w =
    (let inc = new_incident kb now e
     in after_create wi flt now inc
          (w\<lparr>w_incidents := or_keep (add_incident flt inc (w_incidents w)) (w_incidents w)\<rparr>))"

section \<open>Processing an alert\<close>

definition find_related_incident :: "faults \<Rightarrow> Event \<Rightarrow> time \<Rightarrow> incident_db \<Rightarrow> Incident option" where
  "find_related_incident flt e windowStart db =
    (case find_open_for_service (at_site ''service'' flt) (ev_tenant_id e) (ev_service e) windowStart db of
       Some inc \<Rightarrow> Some inc
     | None \<Rightarrow>
        (let related = get_related_services (ev_service e) in
         if related \<noteq> [] then
           find_open_for_services (at_site ''services'' flt) (ev_tenant_id e) related windowStart db
         else None))"

definition find_existing :: "faults \<Rightarrow> Event \<Rightarrow> incident_db \<Rightarrow> Incident option" where
  "find_existing flt e db =
    (case find_open_by_fingerprint (at_site ''fingerprint'' flt) (ev_tenant_id e) (ev_fingerprint e) db of
       Some inc \<Rightarrow> Some inc
     | None \<Rightarrow> find_related_incident flt e (ev_timestamp e - correlationWindowMinutes * minute) db)"

definition with_fingerprint :: "Event \<Rightarrow> Event" where
  "with_fingerprint e =
    (if ev_fingerprint e = [] then e\<lparr>ev_fingerprint := compute_event_fingerprint e\<rparr> else e)"

definition check_muted :: "wiring \<Rightarrow> faults \<Rightarrow> time \<Rightarrow> Event \<Rightarrow> world \<Rightarrow> bool \<times> world" where
  "check_muted wi flt now e w =
    (if wi_mutes wi then
       (let (muted, st) = mute_check active_mutes record_match flt now e (w_mutes w)
        in (muted, w\<lparr>w_mutes := st\<rparr>))
     else (False, w))"

text \<open>\<open>ProcessEvent\<close> from the dedup check on.\<close>

definition correlate ::
    "wiring \<Rightarrow> KnowledgeBase option \<Rightarrow> faults \<Rightarrow> time \<Rightarrow> Event \<Rightarrow> world \<Rightarrow> bool \<times> world" where
  "correlate wi kb flt now e w =
    (if fingerprint_seen flt (ev_tenant_id e) (ev_fingerprint e)
          (ev_timestamp e - dedupWindowMinutes * minute) (ev_id e) (w_events w)
     then (False, w)
     else case find_existing flt e (w_incidents w) of
       Some inc \<Rightarrow> (True, merge_event wi flt inc e w)
     | None \<Rightarrow> (True, create_incident wi kb flt now e w))"

definition store_event :: "faults \<Rightarrow> Event \<Rightarrow> world \<Rightarrow> world" where
  "store_event flt e w = w\<lparr>w_events := or_keep (save_event flt e (w_events w)) (w_events w)\<rparr>"

definition process_event ::
    "wiring \<Rightarrow> KnowledgeBase option \<Rightarrow> faults \<Rightarrow> time \<Rightarrow> Event \<Rightarrow> world \<Rightarrow> bool \<times> world" where
  "process_event wi kb flt now e0 w =
    (let e = with_fingerprint e0;
         (muted, w2) = check_muted wi flt now e (store_event flt e w)
     in if muted then (False, w2) else correlate wi kb flt now e w2)"

definition process_resolved :: "wiring \<Rightarrow> faults \<Rightarrow> time \<Rightarrow> duration \<Rightarrow> Event \<Rightarrow> world \<Rightarrow> world" where
  "process_resolved wi flt now quiet e w =
    (if wi_auto_close wi
     then alert_resolved open_incidents_with_event alert_counts mark_recovered flt now quiet e w else w)"

section \<open>Merging two incidents\<close>

definition quoted :: "string \<Rightarrow> string" where "quoted s = [CHR 0x22] @ s @ [CHR 0x22]"

definition merged_child :: "string \<Rightarrow> Incident \<Rightarrow> Incident" where
  "merged_child parentID child = child\<lparr>inc_is_merged := True, inc_parent_incident_id := parentID,
     inc_status := ''resolved''\<rparr>"

text \<open>The parent after the child's (already changed) fields went into it, before its event IDs
  are read again.\<close>

definition merged_parent :: "Incident \<Rightarrow> Incident \<Rightarrow> Incident" where
  "merged_parent parent child =
    (let ids = inc_merged_incident_ids parent @ [inc_id child] in
     parent\<lparr>inc_merged_incident_ids := ids,
       inc_event_count := inc_event_count parent + inc_event_count child,
       inc_last_event_time := (if inc_last_event_time parent < inc_last_event_time child
                               then inc_last_event_time child else inc_last_event_time parent),
       inc_severity := (if severity_weight (inc_severity parent) < severity_weight (inc_severity child)
                        then inc_severity child else inc_severity parent),
       inc_correlation_pattern := ''cross_service_merge'',
       inc_correlation_reason := ''Merged '' @ show_nat (length ids + 1) @ '' incidents across services''\<rparr>)"

text \<open>\<open>MergeIncidents\<close>: three transactions, with no rollback across them. A wrapped error is the
  error it wraps.\<close>

definition merge_incidents ::
    "faults \<Rightarrow> string \<Rightarrow> string \<Rightarrow> incident_db \<Rightarrow> unit result \<times> incident_db" where
  "merge_incidents flt parentID childID db =
    (case get_incident (at_site ''parent'' flt) parentID db of
       None \<Rightarrow> (Inl (ErrMsg (''parent incident '' @ quoted parentID @ '' not found'')), db)
     | Some parent \<Rightarrow>
    (case get_incident (at_site ''child'' flt) childID db of
       None \<Rightarrow> (Inl (ErrMsg (''child incident '' @ quoted childID @ '' not found'')), db)
     | Some child0 \<Rightarrow>
    (case move_events (at_site ''move'' flt) childID parentID db of
       Inl err \<Rightarrow> (Inl err, db)
     | Inr db1 \<Rightarrow>
    (let child = merged_child parentID child0 in
     case update_incident (at_site ''child'' flt) child db1 of
       Inl err \<Rightarrow> (Inl err, db1)
     | Inr db2 \<Rightarrow>
    (let parent1 = merged_parent parent child;
         parent2 = (case get_event_ids (at_site ''parent/reload'' flt) parentID db2 of
                      Inl _ \<Rightarrow> parent1 | Inr ids \<Rightarrow> parent1\<lparr>inc_event_ids := ids\<rparr>)
     in case update_incident (at_site ''parent'' flt) parent2 db2 of
          Inl err \<Rightarrow> (Inl err, db2)
        | Inr db3 \<Rightarrow> (Inr (), db3))))))"

section \<open>Lemmas: merging\<close>

lemma priority_ignores_priority [simp]:
  "compute_priority_score (inc\<lparr>inc_priority_score := x\<rparr>) = compute_priority_score inc"
  by (simp add: compute_priority_score_def)

lemma rescored_simps [simp]:
  "inc_id (rescored inc) = inc_id inc" "inc_tenant_id (rescored inc) = inc_tenant_id inc"
  "inc_status (rescored inc) = inc_status inc" "inc_service (rescored inc) = inc_service inc"
  "inc_fingerprint (rescored inc) = inc_fingerprint inc" "inc_title (rescored inc) = inc_title inc"
  "inc_root_cause_summary (rescored inc) = inc_root_cause_summary inc"
  "inc_first_event_time (rescored inc) = inc_first_event_time inc"
  "inc_last_event_time (rescored inc) = inc_last_event_time inc"
  "inc_event_count (rescored inc) = inc_event_count inc" "inc_event_ids (rescored inc) = inc_event_ids inc"
  "inc_severity (rescored inc) = inc_severity inc" "inc_confidence (rescored inc) = inc_confidence inc"
  "inc_correlation_score (rescored inc) = inc_correlation_score inc"
  "inc_priority_score (rescored inc) = compute_priority_score inc"
  "compute_priority_score (rescored inc) = compute_priority_score inc"
  by (simp_all add: rescored_def)

lemma merged_incident_simps [simp]:
  "inc_id (merged_incident e inc) = inc_id inc" "inc_tenant_id (merged_incident e inc) = inc_tenant_id inc"
  "inc_status (merged_incident e inc) = inc_status inc" "inc_service (merged_incident e inc) = inc_service inc"
  "inc_fingerprint (merged_incident e inc) = inc_fingerprint inc"
  "inc_title (merged_incident e inc) = inc_title inc"
  "inc_root_cause_summary (merged_incident e inc) = inc_root_cause_summary inc"
  "inc_first_event_time (merged_incident e inc) = inc_first_event_time inc"
  "inc_event_count (merged_incident e inc) = inc_event_count inc + 1"
  "inc_last_event_time (merged_incident e inc) = max (inc_last_event_time inc) (ev_timestamp e)"
  "inc_event_ids (merged_incident e inc) =
     (if ev_id e \<in> set (inc_event_ids inc) then inc_event_ids inc else inc_event_ids inc @ [ev_id e])"
  by (simp_all add: merged_incident_def merged_fields_def Let_def max_def)

lemma merged_severity:
  "severity_weight (inc_severity (merged_incident e inc)) =
     max (severity_weight (inc_severity inc)) (severity_weight (ev_severity e))"
  by (simp add: merged_incident_def merged_fields_def Let_def max_def)

lemma merged_scores:
  "0 \<le> inc_confidence (merged_incident e inc)" "inc_confidence (merged_incident e inc) \<le> 100"
  "inc_correlation_score inc \<le> 100 \<Longrightarrow> inc_correlation_score (merged_incident e inc) \<le> 100"
  "inc_priority_score (merged_incident e inc) \<le> 100"
  "inc_priority_score (merged_incident e inc) = compute_priority_score (merged_incident e inc)"
  by (simp_all add: merged_incident_def priority_le) (simp_all add: merged_fields_def Let_def clamp_int_def)

lemma keep_tenant: "inc_tenant_id inc = t \<Longrightarrow> inc\<lparr>inc_tenant_id := t\<rparr> = inc"
  by auto

text \<open>The tables after a merge, step by step.\<close>

definition merged_rows :: "faults \<Rightarrow> Incident \<Rightarrow> Event \<Rightarrow> incident_db \<Rightarrow> incident_db" where
  "merged_rows flt inc e db =
    (let db1 = or_keep (update_incident flt (merged_incident e inc) db) db
     in or_keep (add_event_to_incident flt (inc_id inc) (ev_id e) db1) db1)"

lemma incident_active_frame [simp]:
  "w_events (incident_active clear_recovered flt i w) = w_events w"
  "w_incidents (incident_active clear_recovered flt i w) = w_incidents w"
  "w_history (incident_active clear_recovered flt i w) = w_history w"
  "w_metrics (incident_active clear_recovered flt i w) = w_metrics w"
  "w_rules (incident_active clear_recovered flt i w) = w_rules w"
  "w_mutes (incident_active clear_recovered flt i w) = w_mutes w"
  "w_async (incident_active clear_recovered flt i w) = w_async w"
  by (simp_all add: incident_active_def clear_recovered_def guard_db_def)

lemma merge_event_eq:
  "merge_event wi flt inc e w =
    (if wi_auto_close wi
     then incident_active clear_recovered flt (inc_id inc) (w\<lparr>w_incidents := merged_rows flt inc e (w_incidents w)\<rparr>)
     else w\<lparr>w_incidents := merged_rows flt inc e (w_incidents w)\<rparr>)"
  unfolding merge_event_def merged_rows_def Let_def by simp

lemma merge_event_frame [simp]:
  "w_events (merge_event wi flt inc e w) = w_events w"
  "w_incidents (merge_event wi flt inc e w) = merged_rows flt inc e (w_incidents w)"
  "w_history (merge_event wi flt inc e w) = w_history w"
  "w_metrics (merge_event wi flt inc e w) = w_metrics w"
  "w_rules (merge_event wi flt inc e w) = w_rules w"
  "w_mutes (merge_event wi flt inc e w) = w_mutes w"
  "w_async (merge_event wi flt inc e w) = w_async w"
  by (simp_all add: merge_event_eq)

lemma or_keep_cases: "(\<And>y. r = Inr y \<Longrightarrow> P y) \<Longrightarrow> P x \<Longrightarrow> P (or_keep r x)"
  by (cases r) simp_all

lemma merged_rows_ok [preserve]: "incidents_ok db \<Longrightarrow> incidents_ok (merged_rows flt inc e db)"
  unfolding merged_rows_def Let_def
  by (rule or_keep_cases, erule add_event_ok'[rotated]; rule or_keep_cases)
     (assumption | erule update_incident_ok[rotated])+

lemma merge_event_pending:
  "w_pending (merge_event wi flt inc e w) =
     (if wi_auto_close wi \<and> \<not> flt ''ClearRecovered''
      then tbl_delete (\<lambda>p. ac_incident_id p = inc_id inc) (w_pending w) else w_pending w)"
  by (simp add: merge_event_eq incident_active_def clear_recovered_def guard_db_def)

lemma merge_event_ok [preserve]: "world_ok w \<Longrightarrow> world_ok (merge_event wi flt inc e w)"
  by (simp add: world_ok_def merge_event_pending pk_delete merged_rows_ok)

lemma merged_rows_find:
  assumes "tbl_find inc_id (inc_id inc) (db_rows db) = Some (incident_row inc)"
  shows "tbl_find inc_id j (db_rows (merged_rows flt inc e db)) =
    (if j = inc_id inc \<and> \<not> flt ''UpdateIncident'' \<and> distinct (inc_event_ids inc)
     then Some (incident_row (merged_incident e inc)) else tbl_find inc_id j (db_rows db))"
proof -
  define db1 where "db1 = or_keep (update_incident flt (merged_incident e inc) db) db"
  have "db_rows (merged_rows flt inc e db) = db_rows db1"
    by (simp add: merged_rows_def db1_def[symmetric] Let_def add_event_to_incident_def guard_db_def)
  moreover have "tbl_find inc_id j (db_rows db1) =
    (if j = inc_id inc \<and> \<not> flt ''UpdateIncident'' \<and> distinct (inc_event_ids inc)
     then Some (incident_row (merged_incident e inc)) else tbl_find inc_id j (db_rows db))"
  proof (cases "update_incident flt (merged_incident e inc) db")
    case (Inl err)
    then have "flt ''UpdateIncident'' \<or> \<not> distinct (inc_event_ids inc)"
      by (auto simp: update_incident_def link_all_eq guard_db_def split: if_splits)
    with Inl show ?thesis by (auto simp: db1_def)
  next
    case (Inr db')
    then have "\<not> flt ''UpdateIncident'' \<and> distinct (inc_event_ids inc)"
      using update_incident_Inr[of flt "merged_incident e inc" db db'] by (auto split: if_splits)
    moreover have "overwrite_row (merged_incident e inc) (incident_row inc) = incident_row (merged_incident e inc)"
      by (simp add: overwrite_row_def keep_tenant)
    ultimately show ?thesis using Inr assms rows_find_update[OF Inr, of j]
      by (cases "tbl_find inc_id j (db_rows db)") (auto simp: db1_def dest: tbl_find_Some)
  qed
  ultimately show ?thesis by simp
qed

lemma merged_rows_events:
  assumes "\<not> flt ''UpdateIncident''" "distinct (inc_event_ids inc)"
  shows "event_ids_of j (merged_rows flt inc e db) =
    (if j = inc_id inc then inc_event_ids (merged_incident e inc) else event_ids_of j db)"
proof -
  obtain db1 where u: "update_incident flt (merged_incident e inc) db = Inr db1"
    using assms by (simp add: update_incident_Inr)
  show ?thesis
  proof (cases "add_event_to_incident flt (inc_id inc) (ev_id e) db1")
    case (Inl err)
    with u show ?thesis by (simp add: merged_rows_def event_ids_update[OF u])
  next
    case (Inr db2)
    with u show ?thesis
      by (auto simp: merged_rows_def event_ids_link_quiet[OF Inr] event_ids_update[OF u])
  qed
qed

lemma merged_rows_linked:
  assumes "\<not> flt ''AddEventToIncident''"
  shows "(inc_id inc, ev_id e) \<in> set (db_links (merged_rows flt inc e db))"
  using assms by (simp add: merged_rows_def Let_def add_event_to_incident_def)

text \<open>The links after a merge, whatever fails.\<close>

lemma merged_rows_links:
  "i \<noteq> inc_id inc \<Longrightarrow> event_ids_of i (merged_rows flt inc e db) = event_ids_of i db"
  "set (event_ids_of (inc_id inc) (merged_rows flt inc e db)) \<subseteq>
     insert (ev_id e) (set (inc_event_ids inc) \<union> set (event_ids_of (inc_id inc) db))"
  "set (event_ids_of (inc_id inc) db) \<subseteq> set (inc_event_ids inc) \<Longrightarrow>
     set (event_ids_of (inc_id inc) db) \<subseteq> set (event_ids_of (inc_id inc) (merged_rows flt inc e db))"
proof -
  define db1 where "db1 = or_keep (update_incident flt (merged_incident e inc) db) db"
  have m: "merged_rows flt inc e db = or_keep (add_event_to_incident flt (inc_id inc) (ev_id e) db1) db1"
    by (simp add: merged_rows_def Let_def db1_def)
  have u: "event_ids_of j db1 = event_ids_of j db \<or>
      event_ids_of j db1 = (if j = inc_id inc then inc_event_ids (merged_incident e inc) else event_ids_of j db)" for j
  proof (cases "update_incident flt (merged_incident e inc) db")
    case (Inr db')
    then show ?thesis using event_ids_update[OF Inr, of j] by (simp add: db1_def)
  qed (simp add: db1_def)
  have a: "event_ids_of j (merged_rows flt inc e db) = event_ids_of j db1 @
      (if j = inc_id inc \<and> \<not> flt ''AddEventToIncident'' \<and> ev_id e \<notin> set (event_ids_of j db1) then [ev_id e] else [])" for j
  proof (cases "add_event_to_incident flt (inc_id inc) (ev_id e) db1")
    case (Inl err)
    then show ?thesis by (auto simp: m add_event_to_incident_def guard_db_def split: if_splits)
  next
    case (Inr db2)
    have "\<not> flt ''AddEventToIncident''" using Inr by (simp add: add_event_Inr)
    with Inr show ?thesis by (simp add: m event_ids_link_quiet[OF Inr])
  qed
  show "i \<noteq> inc_id inc \<Longrightarrow> event_ids_of i (merged_rows flt inc e db) = event_ids_of i db" using u[of i] by (auto simp: a)
  show "set (event_ids_of (inc_id inc) (merged_rows flt inc e db)) \<subseteq>
     insert (ev_id e) (set (inc_event_ids inc) \<union> set (event_ids_of (inc_id inc) db))"
    using u[of "inc_id inc"] by (auto simp: a split: if_splits)
  show "set (event_ids_of (inc_id inc) db) \<subseteq> set (inc_event_ids inc) \<Longrightarrow>
     set (event_ids_of (inc_id inc) db) \<subseteq> set (event_ids_of (inc_id inc) (merged_rows flt inc e db))"
    using u[of "inc_id inc"] by (auto simp: a split: if_splits)
qed

section \<open>Lemmas: finding\<close>

text \<open>What correlation counts as an incident the alert belongs to.\<close>

definition belongs :: "Event \<Rightarrow> Incident \<Rightarrow> bool" where
  "belongs e r \<longleftrightarrow> is_active r \<and> inc_tenant_id r = tenant_or_default (ev_tenant_id e) \<and>
     ((ev_fingerprint e \<noteq> [] \<and> inc_fingerprint r = ev_fingerprint e) \<or>
      (ev_timestamp e - correlationWindowMinutes * minute \<le> inc_last_event_time r \<and>
       (equal_fold (inc_service r) (ev_service e) \<or>
        to_lower (inc_service r) \<in> set (map to_lower (get_related_services (ev_service e))))))"

lemma belongs_with_events [simp]: "belongs e (with_events r ids) = belongs e r"
  by (simp add: belongs_def is_active_def)

lemma find_existing_row:
  assumes "find_existing flt e db = Some inc" "incidents_ok db"
  shows "tbl_find inc_id (inc_id inc) (db_rows db) = Some (incident_row inc) \<and> belongs e inc"
proof -
  have b: "belongs e i" if "i = with_events r (inc_event_ids i)" "belongs e r" for i r
    using that by (metis belongs_with_events)
  consider (fp) "find_open_by_fingerprint (at_site ''fingerprint'' flt) (ev_tenant_id e) (ev_fingerprint e) db = Some inc"
    | (svc) "find_open_for_service (at_site ''service'' flt) (ev_tenant_id e) (ev_service e)
        (ev_timestamp e - correlationWindowMinutes * minute) db = Some inc"
    | (svcs) "find_open_for_services (at_site ''services'' flt) (ev_tenant_id e) (get_related_services (ev_service e))
        (ev_timestamp e - correlationWindowMinutes * minute) db = Some inc"
    using assms(1) by (auto simp: find_existing_def find_related_incident_def Let_def split: option.splits if_splits)
  then show ?thesis
  proof cases
    case fp
    from by_fingerprint.found[OF fp assms(2)] b have "belongs e inc"
      by (auto simp: fingerprint_match_def belongs_def)
    with by_fingerprint.found_row[OF fp assms(2)] show ?thesis by simp
  next
    case svc
    from by_service.found[OF svc assms(2)] b have "belongs e inc"
      by (auto simp: service_match_def belongs_def)
    with by_service.found_row[OF svc assms(2)] show ?thesis by simp
  next
    case svcs
    from by_services.found[OF svcs assms(2)] b have "belongs e inc"
      by (auto simp: services_match_def belongs_def)
    with by_services.found_row[OF svcs assms(2)] show ?thesis by simp
  qed
qed

lemma belongsD: "belongs e r \<Longrightarrow> is_active r \<and> inc_tenant_id r = tenant_or_default (ev_tenant_id e)"
  by (simp add: belongs_def)

lemma find_existing_none:
  assumes "incidents_ok db"
  shows "find_existing no_faults e db = None \<longleftrightarrow> (\<forall>r \<in> set (db_rows db). \<not> belongs e r)"
proof -
  let ?ws = "ev_timestamp e - correlationWindowMinutes * minute"
  let ?rel = "get_related_services (ev_service e)"
  note f = by_fingerprint.found_iff[OF assms, of "ev_tenant_id e" "ev_fingerprint e"]
  note s = by_service.found_iff[OF assms, of "ev_tenant_id e" "ev_service e" ?ws]
  note v = by_services.found_iff[OF assms, of "ev_tenant_id e" ?rel ?ws]
  have "find_open_for_services no_faults (ev_tenant_id e) [] ?ws db = None"
    by (simp add: find_open_for_services_def)
  then have "find_existing no_faults e db = None \<longleftrightarrow>
      find_open_by_fingerprint no_faults (ev_tenant_id e) (ev_fingerprint e) db = None \<and>
      find_open_for_service no_faults (ev_tenant_id e) (ev_service e) ?ws db = None \<and>
      find_open_for_services no_faults (ev_tenant_id e) ?rel ?ws db = None"
    by (auto simp: find_existing_def find_related_incident_def Let_def split: option.split)
  also have "\<dots> \<longleftrightarrow> (\<forall>r \<in> set (db_rows db). \<not> belongs e r)"
    using f s v unfolding fingerprint_match_def service_match_def services_match_def belongs_def by blast
  finally show ?thesis .
qed

lemma find_existing_events:
  assumes "find_existing no_faults e db = Some inc" "incidents_ok db"
  shows "inc_event_ids inc = event_ids_of (inc_id inc) db"
  using assms
  by (auto simp: find_existing_def find_related_incident_def Let_def split: option.splits if_splits
      dest: by_fingerprint.found_events by_service.found_events by_services.found_events)

lemma event_ids_distinct: "incidents_ok db \<Longrightarrow> distinct (event_ids_of i db)"
  by (force simp: incidents_ok_def event_ids_of_def distinct_map inj_on_def)

text \<open>The two statements that load the links of the incident found. When one fails, the incident comes without links.\<close>

definition links_read :: "faults \<Rightarrow> bool" where
  "links_read flt \<longleftrightarrow> \<not> flt ''service/GetEventIDsByIncidentID'' \<and> \<not> flt ''services/GetEventIDsByIncidentID''"

lemma find_existing_links:
  assumes "find_existing flt e db = Some inc" "incidents_ok db"
  shows "set (inc_event_ids inc) \<subseteq> set (event_ids_of (inc_id inc) db)"
    and "links_read flt \<Longrightarrow> inc_event_ids inc = event_ids_of (inc_id inc) db"
proof -
  have l: "set (inc_event_ids (loaded_or_bare f r db)) \<subseteq> set (event_ids_of (inc_id (loaded_or_bare f r db)) db) \<and>
      (\<not> f ''GetEventIDsByIncidentID'' \<longrightarrow>
        inc_event_ids (loaded_or_bare f r db) = event_ids_of (inc_id (loaded_or_bare f r db)) db)"
    if "first_row (order_desc inc_last_event_time (filter P (db_rows db))) = Some r" for f r P
  proof -
    have "r \<in> set (db_rows db)" using first_row_desc[OF that] by simp
    then have "inc_event_ids r = []" using incidents_okD(3)[OF assms(2)] incident_row_simps(5)[of r] by simp
    then show ?thesis by (simp add: loaded_or_bare_def get_event_ids_def guard_db_def)
  qed
  have s: "set (inc_event_ids i) \<subseteq> set (event_ids_of (inc_id i) db) \<and>
      (\<not> f ''GetEventIDsByIncidentID'' \<longrightarrow> inc_event_ids i = event_ids_of (inc_id i) db)"
    if "find_open_for_service f t sv ws db = Some i \<or> find_open_for_services f t svs ws db = Some i" for f t sv ws svs i
    using that l by (auto simp: find_open_for_service_def find_open_for_services_def split: if_splits)
  have g: "inc_event_ids i = event_ids_of (inc_id i) db" if "find_open_by_fingerprint f t fp db = Some i" for f t fp i
    using that by (auto simp: find_open_by_fingerprint_def get_incident_def get_event_ids_def guard_db_def
        split: option.splits if_splits dest!: tbl_find_Some)
  have c: "find_open_by_fingerprint (at_site ''fingerprint'' flt) (ev_tenant_id e) (ev_fingerprint e) db = Some inc \<or>
      (\<exists>f. (links_read flt \<longrightarrow> \<not> f ''GetEventIDsByIncidentID'') \<and> (\<exists>t sv ws svs. find_open_for_service f t sv ws db = Some inc \<or>
        find_open_for_services f t svs ws db = Some inc))"
    using assms(1) unfolding find_existing_def find_related_incident_def Let_def links_read_def
    by (fastforce simp: at_site_def split: option.splits if_splits)
  show "set (inc_event_ids inc) \<subseteq> set (event_ids_of (inc_id inc) db)" using c s g by fastforce
  show "links_read flt \<Longrightarrow> inc_event_ids inc = event_ids_of (inc_id inc) db" using c s g by metis
qed

section \<open>Lemmas: creating\<close>

lemma check_and_resolve_frame:
  "w_events (snd (check_and_resolve flt inc w)) = w_events w \<and>
   w_history (snd (check_and_resolve flt inc w)) = w_history w \<and>
   w_metrics (snd (check_and_resolve flt inc w)) = w_metrics w \<and>
   w_pending (snd (check_and_resolve flt inc w)) = w_pending w \<and>
   w_mutes (snd (check_and_resolve flt inc w)) = w_mutes w \<and>
   w_async (snd (check_and_resolve flt inc w)) = w_async w \<and>
   db_links (w_incidents (snd (check_and_resolve flt inc w))) = db_links (w_incidents w) \<and>
   (db_rows (w_incidents (snd (check_and_resolve flt inc w))) = db_rows (w_incidents w) \<or>
    db_rows (w_incidents (snd (check_and_resolve flt inc w))) =
      set_status_rows (inc_id inc) ''resolved'' (db_rows (w_incidents w)))"
proof (cases "find_matching_rules flt (inc_tenant_id inc) (inc_service inc) (inc_severity inc)
    (to_lower (inc_title inc @ '' '' @ inc_root_cause_summary inc)) w")
  case (Inl err)
  then show ?thesis by (simp add: check_and_resolve_def)
next
  case (Inr rules)
  obtain x w' where r: "resolve_first flt (inc_id inc) rules w = (x, w')" by fastforce
  with Inr have "check_and_resolve flt inc w = (x, w')" by (simp add: check_and_resolve_def)
  with resolve_first_frame[OF r] show ?thesis by simp
qed

lemma increment_fired_rules_ok:
  "pk ar_id (w_rules w) \<Longrightarrow> pk ar_id (w_rules (or_keep (increment_fired f j w) w))"
  by (auto simp: or_keep_def dest: increment_fired_frame split: sum.split)

lemma resolve_first_rules_ok:
  assumes "pk ar_id (w_rules w)"
  shows "pk ar_id (w_rules (snd (resolve_first flt i rs w)))"
  using assms
proof (induction rs arbitrary: w)
  case Nil
  then show ?case by simp
next
  case (Cons r rs)
  obtain res db where u: "update_incident_status (at_site (ar_id r) flt) i ''resolved'' (w_incidents w) = (res, db)"
    by fastforce
  have "pk ar_id (w_rules (w\<lparr>w_incidents := db\<rparr>))" using Cons.prems by simp
  with u Cons show ?case by (cases res) (simp_all add: Let_def increment_fired_rules_ok)
qed

lemma check_and_resolve_ok [preserve]:
  assumes "world_ok w"
  shows "world_ok (snd (check_and_resolve flt inc w))"
proof -
  let ?w = "snd (check_and_resolve flt inc w)"
  note f = check_and_resolve_frame[of flt inc w]
  have i: "incidents_ok (w_incidents w)" using assms by (simp add: world_ok_def)
  have "incidents_ok ((w_incidents w)\<lparr>db_rows := db_rows (w_incidents ?w)\<rparr>)"
    using f i set_status_ok[OF i] by auto
  with f have "incidents_ok (w_incidents ?w)" by (simp add: incidents_ok_def)
  moreover have "pk ar_id (w_rules ?w)"
    using assms resolve_first_rules_ok by (auto simp: world_ok_def check_and_resolve_def split: sum.split)
  ultimately show ?thesis using f assms by (simp add: world_ok_def)
qed

lemma recorded_frame [simp]:
  "w_events (recorded wi flt now inc w) = w_events w" "w_incidents (recorded wi flt now inc w) = w_incidents w"
  "w_pending (recorded wi flt now inc w) = w_pending w" "w_mutes (recorded wi flt now inc w) = w_mutes w"
  "w_rules (recorded wi flt now inc w) = w_rules w" "w_async (recorded wi flt now inc w) = w_async w"
  by (simp_all add: recorded_def)

lemma recorded_ok [preserve]: "world_ok w \<Longrightarrow> world_ok (recorded wi flt now inc w)"
proof -
  assume ok: "world_ok w"
  then have "pk im_incident_id (or_keep (record_incident_metrics flt now inc ''detected'' [] (w_metrics w)) (w_metrics w))"
    by (auto simp: world_ok_def record_incident_metrics_def or_keep_def intro: upsert_metrics_ok split: sum.split)
  with ok show ?thesis by (simp add: world_ok_def recorded_def)
qed

lemma resolved_by_rule_frame [simp]:
  "w_events (resolved_by_rule wi flt inc w) = w_events w" "w_pending (resolved_by_rule wi flt inc w) = w_pending w"
  "w_mutes (resolved_by_rule wi flt inc w) = w_mutes w" "w_async (resolved_by_rule wi flt inc w) = w_async w"
  "db_links (w_incidents (resolved_by_rule wi flt inc w)) = db_links (w_incidents w)"
  using check_and_resolve_frame[of flt inc w] by (simp_all add: resolved_by_rule_def)

lemma resolved_by_rule_ok [preserve]: "world_ok w \<Longrightarrow> world_ok (resolved_by_rule wi flt inc w)"
  by (simp add: resolved_by_rule_def check_and_resolve_ok)

lemma resolved_by_rule_rows:
  "tbl_find inc_id j (db_rows (w_incidents (resolved_by_rule wi flt inc w))) = tbl_find inc_id j (db_rows (w_incidents w)) \<or>
   j = inc_id inc \<and> tbl_find inc_id j (db_rows (w_incidents (resolved_by_rule wi flt inc w))) =
     map_option (\<lambda>r. r\<lparr>inc_status := ''resolved''\<rparr>) (tbl_find inc_id j (db_rows (w_incidents w)))"
proof -
  have "db_rows (w_incidents (resolved_by_rule wi flt inc w)) = db_rows (w_incidents w) \<or>
      db_rows (w_incidents (resolved_by_rule wi flt inc w)) =
        set_status_rows (inc_id inc) ''resolved'' (db_rows (w_incidents w))"
    using check_and_resolve_frame[of flt inc w] by (simp add: resolved_by_rule_def)
  then show ?thesis
    by (cases "tbl_find inc_id j (db_rows (w_incidents w))"; cases "j = inc_id inc")
       (auto simp: find_set_status)
qed

definition creation_work :: "wiring \<Rightarrow> Incident \<Rightarrow> async_effect list" where
  "creation_work wi inc =
    (if inc_severity inc = ''critical'' \<and> wi_whatsapp wi then [GoWhatsApp (inc_tenant_id inc) inc] else []) @
    (if wi_push wi then [GoPush (inc_tenant_id inc) inc] else []) @
    (if inc_severity inc = ''critical'' \<and> wi_slack wi then [GoSlackChannel inc] else []) @
    (if wi_orchestrator wi then [GoTriggerRemediation inc None] else [])"

lemma after_create_frame [simp]:
  "w_events (after_create wi flt now inc w) = w_events w"
  "w_pending (after_create wi flt now inc w) = w_pending w"
  "w_mutes (after_create wi flt now inc w) = w_mutes w"
  "db_links (w_incidents (after_create wi flt now inc w)) = db_links (w_incidents w)"
  by (simp_all add: after_create_def Let_def)

lemma after_create_ok [preserve]: "world_ok w \<Longrightarrow> world_ok (after_create wi flt now inc w)"
  by (simp add: after_create_def Let_def resolved_by_rule_ok recorded_ok)

lemma after_create_rows:
  "stored_row (after_create wi flt now inc w) j = stored_row w j \<or>
   j = inc_id inc \<and> stored_row (after_create wi flt now inc w) j =
     map_option (\<lambda>r. r\<lparr>inc_status := ''resolved''\<rparr>) (stored_row w j)"
  using resolved_by_rule_rows[of j wi flt inc "recorded wi flt now inc
      (spawn_if (wi_onboarding wi) (GoMarkMilestone (inc_tenant_id inc) ''incident_created'') w)"]
  by (simp add: after_create_def Let_def stored_row_def)

lemma after_create_async:
  "w_async (after_create wi flt now inc w) = w_async w @
     (if wi_onboarding wi then [GoMarkMilestone (inc_tenant_id inc) ''incident_created''] else []) @
     creation_work wi inc"
  by (simp add: after_create_def Let_def creation_work_def)

lemma new_incident_simps [simp]:
  "inc_id (new_incident kb now e) = incident_id_at now" "inc_tenant_id (new_incident kb now e) = ev_tenant_id e"
  "inc_service (new_incident kb now e) = ev_service e" "inc_severity (new_incident kb now e) = ev_severity e"
  "inc_status (new_incident kb now e) = ''open''" "inc_event_ids (new_incident kb now e) = [ev_id e]"
  "inc_event_count (new_incident kb now e) = 1" "inc_fingerprint (new_incident kb now e) = ev_fingerprint e"
  "inc_last_event_time (new_incident kb now e) = ev_timestamp e"
  by (simp_all add: new_incident_def Let_def split: option.split)

lemma create_rows:
  assumes "stored_row w (incident_id_at now) = None"
  shows "stored_row (create_incident wi kb flt now e w) j =
      (if j = incident_id_at now then stored_row (create_incident wi kb flt now e w) j else stored_row w j)"
    and "stored_row (create_incident wi kb flt now e w) (incident_id_at now) = Some r \<Longrightarrow>
      inc_tenant_id r = tenant_or_default (ev_tenant_id e) \<and> inc_service r = ev_service e \<and>
      inc_fingerprint r = ev_fingerprint e \<and> inc_severity r = ev_severity e \<and> inc_event_count r = 1 \<and>
      inc_status r \<in> {''open'', ''resolved''}"
proof -
  let ?i = "new_incident kb now e"
  let ?db = "or_keep (add_incident flt ?i (w_incidents w)) (w_incidents w)"
  let ?w1 = "w\<lparr>w_incidents := ?db\<rparr>"
  have c: "create_incident wi kb flt now e w = after_create wi flt now ?i ?w1"
    by (simp add: create_incident_def Let_def)
  have add: "stored_row ?w1 j = stored_row w j \<or> (j = incident_id_at now \<and>
      stored_row ?w1 j = Some (incident_row (?i\<lparr>inc_tenant_id := tenant_or_default (ev_tenant_id e)\<rparr>)))" for j
  proof (cases "add_incident flt ?i (w_incidents w)")
    case (Inl err)
    then show ?thesis by (simp add: stored_row_def)
  next
    case (Inr db)
    then have "?db = db" by simp
    moreover from Inr have "db_rows db = db_rows (w_incidents w) @
        [incident_row (?i\<lparr>inc_tenant_id := tenant_or_default (ev_tenant_id e)\<rparr>)]"
      by (simp add: add_incident_Inr)
    ultimately have "db_rows ?db = db_rows (w_incidents w) @
        [incident_row (?i\<lparr>inc_tenant_id := tenant_or_default (ev_tenant_id e)\<rparr>)]" by simp
    with assms show ?thesis
      by (cases "tbl_find inc_id j (db_rows (w_incidents w))") (auto simp: stored_row_def tbl_find_append)
  qed
  have after: "stored_row (after_create wi flt now ?i ?w1) j = stored_row ?w1 j \<or>
      j = incident_id_at now \<and> stored_row (after_create wi flt now ?i ?w1) j =
        map_option (\<lambda>r. r\<lparr>inc_status := ''resolved''\<rparr>) (stored_row ?w1 j)" for j
    using after_create_rows[of wi flt now ?i ?w1 j] by simp
  show "stored_row (create_incident wi kb flt now e w) j =
      (if j = incident_id_at now then stored_row (create_incident wi kb flt now e w) j else stored_row w j)"
    using add[of j] after[of j] by (auto simp: c)
  show "inc_tenant_id r = tenant_or_default (ev_tenant_id e) \<and> inc_service r = ev_service e \<and>
      inc_fingerprint r = ev_fingerprint e \<and> inc_severity r = ev_severity e \<and> inc_event_count r = 1 \<and>
      inc_status r \<in> {''open'', ''resolved''}"
    if "stored_row (create_incident wi kb flt now e w) (incident_id_at now) = Some r"
    using add[of "incident_id_at now"] after[of "incident_id_at now"] assms that
    by (auto simp: c incident_row_def)
qed

lemma create_incident_ok [preserve]:
  assumes "world_ok w"
  shows "world_ok (create_incident wi kb flt now e w)"
proof -
  have "incidents_ok (or_keep (add_incident flt inc (w_incidents w)) (w_incidents w))" for inc
    using assms by (auto simp: world_ok_def or_keep_def intro: add_incident_ok split: sum.split)
  with assms have "world_ok (w\<lparr>w_incidents := or_keep (add_incident flt (new_incident kb now e) (w_incidents w))
      (w_incidents w)\<rparr>)" by (simp add: world_ok_def)
  then show ?thesis by (simp add: create_incident_def Let_def after_create_ok)
qed

lemma create_incident_frame [simp]:
  "w_events (create_incident wi kb flt now e w) = w_events w"
  "w_pending (create_incident wi kb flt now e w) = w_pending w"
  "w_mutes (create_incident wi kb flt now e w) = w_mutes w"
  by (simp_all add: create_incident_def Let_def)

section \<open>Lemmas: an alert arrives\<close>

lemma store_event_frame [simp]:
  "w_incidents (store_event flt e w) = w_incidents w" "w_history (store_event flt e w) = w_history w"
  "w_metrics (store_event flt e w) = w_metrics w" "w_pending (store_event flt e w) = w_pending w"
  "w_rules (store_event flt e w) = w_rules w" "w_mutes (store_event flt e w) = w_mutes w"
  "w_async (store_event flt e w) = w_async w"
  by (simp_all add: store_event_def)

lemma store_event_ok [preserve]: "world_ok w \<Longrightarrow> world_ok (store_event flt e w)"
  by (auto simp: world_ok_def store_event_def or_keep_def intro: save_event_ok split: sum.split)

lemma check_muted_frame:
  assumes "check_muted wi flt now e w = (m, w')"
  shows "w_incidents w' = w_incidents w" "w_history w' = w_history w" "w_metrics w' = w_metrics w"
    "w_pending w' = w_pending w" "w_rules w' = w_rules w" "w_events w' = w_events w" "w_async w' = w_async w"
  using assms by (auto simp: check_muted_def split: if_splits prod.splits)

lemma active_for_repo:
  "active_for active flt now t st = (r, st') \<Longrightarrow> ms_repo st' = ms_repo st"
  by (auto simp: active_for_def load_active_def split: option.splits sum.splits if_splits)

lemma mute_check_ok:
  assumes "mutes_ok (ms_repo st)" "mute_check active_mutes record_match flt now e st = (m, st')"
  shows "mutes_ok (ms_repo st')"
proof (cases "active_for active_mutes flt now (ev_tenant_id e) st")
  case (Pair r st1)
  then have repo: "ms_repo st1 = ms_repo st" by (rule active_for_repo)
  from Pair assms(2) have "ms_repo st' = ms_repo st \<or> ms_repo st' = ms_repo st1 \<or>
      (\<exists>entry. record_match flt entry (ms_repo st1) = Inr (ms_repo st'))"
    by (auto simp: mute_check_def split: if_splits sum.splits option.splits)
  with assms(1) show ?thesis by (auto simp: repo intro: record_match_ok)
qed

lemma check_muted_ok [preserve]:
  assumes "world_ok w" "check_muted wi flt now e w = (m, w')"
  shows "world_ok w'"
  using assms mute_check_ok
  by (fastforce simp: world_ok_def check_muted_def split: if_splits prod.splits)

lemma with_fingerprint_simps [simp]:
  "ev_id (with_fingerprint e) = ev_id e" "ev_tenant_id (with_fingerprint e) = ev_tenant_id e"
  "ev_service (with_fingerprint e) = ev_service e" "ev_severity (with_fingerprint e) = ev_severity e"
  "ev_timestamp (with_fingerprint e) = ev_timestamp e" "ev_labels (with_fingerprint e) = ev_labels e"
  by (simp_all add: with_fingerprint_def)

lemma incident_row_rescored [simp]: "incident_row (rescored inc) = rescored (incident_row inc)"
proof -
  have "compute_priority_score (incident_row inc) = compute_priority_score inc"
    by (simp add: compute_priority_score_def incident_row_def)
  then show ?thesis by (simp only: rescored_def) (simp add: incident_row_def)
qed

text \<open>A merge depends on the stored columns alone.\<close>

lemma merged_row: "incident_row (merged_incident e (incident_row inc)) = incident_row (merged_incident e inc)"
proof -
  have "incident_row (merged_fields e (incident_row inc)) = incident_row (merged_fields e inc)"
    by (simp add: merged_fields_def incident_row_def Let_def)
  then show ?thesis by (simp add: merged_incident_def)
qed

text \<open>The four ways an alert goes, from the state it finds.\<close>

definition arrived :: "wiring \<Rightarrow> faults \<Rightarrow> time \<Rightarrow> Event \<Rightarrow> world \<Rightarrow> bool \<times> world" where
  "arrived wi flt now e w =
     check_muted wi flt now (with_fingerprint e) (store_event flt (with_fingerprint e) w)"

lemma arrived_frame:
  assumes "arrived wi flt now e w = (m, w2)"
  shows "w_incidents w2 = w_incidents w" "w_history w2 = w_history w" "w_metrics w2 = w_metrics w"
    "w_pending w2 = w_pending w" "w_rules w2 = w_rules w" "w_async w2 = w_async w"
    "w_events w2 = w_events (store_event flt (with_fingerprint e) w)"
  using check_muted_frame[OF assms[unfolded arrived_def]] by simp_all

lemma arrived_ok [preserve]: "world_ok w \<Longrightarrow> arrived wi flt now e w = (m, w2) \<Longrightarrow> world_ok w2"
  unfolding arrived_def by (rule check_muted_ok[OF store_event_ok])

definition seen :: "faults \<Rightarrow> Event \<Rightarrow> world \<Rightarrow> bool" where
  "seen flt e w \<longleftrightarrow> fingerprint_seen flt (ev_tenant_id e) (ev_fingerprint (with_fingerprint e))
     (ev_timestamp e - dedupWindowMinutes * minute) (ev_id e) (w_events w)"

lemma process_event_cases [consumes 1, case_names muted duplicate merged created]:
  assumes "process_event wi kb flt now e w = (b, w')"
  obtains (muted) w2 where "\<not> b" "arrived wi flt now e w = (True, w2)" "w' = w2"
  | (duplicate) w2 where "\<not> b" "arrived wi flt now e w = (False, w2)" "seen flt e w2" "w' = w2"
  | (merged) w2 inc where "b" "arrived wi flt now e w = (False, w2)" "\<not> seen flt e w2"
      "find_existing flt (with_fingerprint e) (w_incidents w) = Some inc"
      "w' = merge_event wi flt inc (with_fingerprint e) w2"
  | (created) w2 where "b" "arrived wi flt now e w = (False, w2)" "\<not> seen flt e w2"
      "find_existing flt (with_fingerprint e) (w_incidents w) = None"
      "w' = create_incident wi kb flt now (with_fingerprint e) w2"
proof -
  obtain m w2 where a: "arrived wi flt now e w = (m, w2)" by fastforce
  then have p: "process_event wi kb flt now e w =
      (if m then (False, w2) else correlate wi kb flt now (with_fingerprint e) w2)"
    by (simp add: process_event_def arrived_def Let_def)
  show thesis
  proof (cases m)
    case True
    with p assms a muted show ?thesis by simp
  next
    case False
    with p assms have c: "correlate wi kb flt now (with_fingerprint e) w2 = (b, w')" by simp
    show ?thesis
    proof (cases "seen flt e w2")
      case True
      with c have "\<not> b" "w' = w2" by (simp_all add: correlate_def seen_def)
      with a False True duplicate show ?thesis by simp
    next
      case fresh: False
      with c arrived_frame(1)[OF a] have
        "(b, w') = (case find_existing flt (with_fingerprint e) (w_incidents w) of
            Some inc \<Rightarrow> (True, merge_event wi flt inc (with_fingerprint e) w2)
          | None \<Rightarrow> (True, create_incident wi kb flt now (with_fingerprint e) w2))"
        by (simp add: correlate_def seen_def)
      with a False fresh merged created show ?thesis
        by (cases "find_existing flt (with_fingerprint e) (w_incidents w)") auto
    qed
  qed
qed

text \<open>What happens to a stored incident when an alert of the tenant is processed.\<close>

definition touched_by :: "Event \<Rightarrow> Incident \<Rightarrow> Incident \<Rightarrow> bool" where
  "touched_by e r r' \<longleftrightarrow> is_active r \<and> inc_tenant_id r = tenant_or_default (ev_tenant_id e) \<and>
     r' = incident_row (merged_incident e r)"

lemma merge_rows:
  assumes "find_existing flt e (w_incidents w) = Some inc" "incidents_ok (w_incidents w)"
    and "stored_row w i = Some r"
  shows "stored_row (merge_event wi flt' inc e w) i = Some r \<or>
    (i = inc_id inc \<and> (\<exists>r'. stored_row (merge_event wi flt' inc e w) i = Some r' \<and> touched_by e r r'))"
proof -
  note f = find_existing_row[OF assms(1,2)]
  have a: "is_active (incident_row inc)" "inc_tenant_id (incident_row inc) = tenant_or_default (ev_tenant_id e)"
    using f belongsD[of e inc] by (simp_all add: is_active_def)
  from f assms(3) have "i = inc_id inc \<Longrightarrow> r = incident_row inc" by (simp add: stored_row_def)
  with merged_rows_find[OF conjunct1[OF f], of i flt' e] assms(3) a show ?thesis
    by (auto simp: stored_row_def touched_by_def merged_row)
qed

lemma merge_rows_none:
  assumes "find_existing flt e (w_incidents w) = Some inc" "incidents_ok (w_incidents w)"
    and "stored_row w i = None"
  shows "stored_row (merge_event wi flt' inc e w) i = None"
proof -
  note f = find_existing_row[OF assms(1,2)]
  with assms(3) have "i \<noteq> inc_id inc" by (auto simp: stored_row_def)
  with merged_rows_find[OF conjunct1[OF f], of i flt' e] assms(3) show ?thesis
    by (simp add: stored_row_def)
qed

lemma process_event_ok [preserve]:
  assumes "world_ok w" "process_event wi kb flt now e w = (b, w')"
  shows "world_ok w'"
  using assms(2)
proof (cases rule: process_event_cases)
  case (muted w2)
  with arrived_ok[OF assms(1)] show ?thesis by simp
next
  case (duplicate w2)
  with arrived_ok[OF assms(1)] show ?thesis by simp
next
  case (merged w2 inc)
  with arrived_ok[OF assms(1)] show ?thesis by (simp add: merge_event_ok)
next
  case (created w2)
  with arrived_ok[OF assms(1)] show ?thesis by (simp add: create_incident_ok)
qed

lemma get_incident_rows:
  "get_incident no_faults i (w_incidents w) =
     map_option (\<lambda>r. with_events r (event_ids_of i (w_incidents w))) (stored_row w i)"
  by (simp add: get_incident_no_faults stored_row_def)

lemma stored_row_plain:
  "incidents_ok (w_incidents w) \<Longrightarrow> stored_row w i = Some r \<Longrightarrow> incident_row r = r \<and> inc_id r = i"
  by (auto simp: stored_row_def intro: incidents_okD(3) dest: tbl_find_Some)

lemma stored_get:
  assumes "incidents_ok (w_incidents w)" "get_incident no_faults i (w_incidents w) = Some inc"
  shows "stored_row w i = Some (incident_row inc)" "inc_id inc = i"
    "inc_event_ids inc = event_ids_of i (w_incidents w)"
proof -
  from assms(2) obtain r where r: "stored_row w i = Some r" "inc = with_events r (event_ids_of i (w_incidents w))"
    by (auto simp: get_incident_rows)
  from stored_row_plain[OF assms(1) r(1)] r show "stored_row w i = Some (incident_row inc)" "inc_id inc = i"
    "inc_event_ids inc = event_ids_of i (w_incidents w)" by simp_all
qed

lemma with_events_row: "with_events (incident_row inc) ids = inc\<lparr>inc_event_ids := ids, inc_what_changed_confidence := 0\<rparr>"
  by (simp add: with_events_def incident_row_def)

lemma create_links:
  assumes "\<not> flt ''AddIncident''" "stored_row w (incident_id_at now) = None"
    and "event_ids_of (incident_id_at now) (w_incidents w) = []"
  shows "event_ids_of j (w_incidents (create_incident wi kb flt now e w)) =
      event_ids_of j (w_incidents w) @ (if j = incident_id_at now then [ev_id e] else [])"
    and "\<exists>r. stored_row (create_incident wi kb flt now e w) (incident_id_at now) = Some r"
proof -
  let ?i = "new_incident kb now e"
  have "\<not> tbl_has inc_id (incident_id_at now) (db_rows (w_incidents w))"
    using assms(2) by (simp add: stored_row_def tbl_find_None)
  moreover have "(incident_id_at now, ev_id e) \<notin> set (db_links (w_incidents w))"
    using assms(3) by (auto simp: event_ids_of_def filter_empty_conv)
  ultimately obtain db where a: "add_incident flt ?i (w_incidents w) = Inr db"
    using assms(1) by (simp add: add_incident_Inr)
  then have c: "create_incident wi kb flt now e w = after_create wi flt now ?i (w\<lparr>w_incidents := db\<rparr>)"
    by (simp add: create_incident_def Let_def)
  have "event_ids_of j (w_incidents (create_incident wi kb flt now e w)) = event_ids_of j db"
    unfolding c event_ids_of_def by simp
  then show "event_ids_of j (w_incidents (create_incident wi kb flt now e w)) =
      event_ids_of j (w_incidents w) @ (if j = incident_id_at now then [ev_id e] else [])"
    by (simp add: event_ids_add[OF a])
  have "stored_row (w\<lparr>w_incidents := db\<rparr>) (incident_id_at now) \<noteq> None"
    using a by (simp add: stored_row_def add_incident_Inr tbl_find_None tbl_has_def)
  then show "\<exists>r. stored_row (create_incident wi kb flt now e w) (incident_id_at now) = Some r"
    using after_create_rows[of wi flt now ?i "w\<lparr>w_incidents := db\<rparr>" "incident_id_at now"] by (auto simp: c)
qed

lemma created_cases:
  assumes "stored_row w (incident_id_at now) = None"
    and w'_def: "w' = create_incident wi kb flt now e w" and i_def: "i = incident_id_at now"
  shows "j \<noteq> i \<Longrightarrow> stored_row w' j = stored_row w j \<and> event_ids_of j (w_incidents w') = event_ids_of j (w_incidents w)"
    and "stored_row w' i = None \<and> event_ids_of i (w_incidents w') = event_ids_of i (w_incidents w) \<or>
      (\<exists>r. stored_row w' i = Some r \<and> inc_tenant_id r = tenant_or_default (ev_tenant_id e) \<and> inc_service r = ev_service e \<and>
         event_ids_of i (w_incidents w') = event_ids_of i (w_incidents w) @ [ev_id e])"
proof -
  let ?i = "new_incident kb now e"
  let ?db = "or_keep (add_incident flt ?i (w_incidents w)) (w_incidents w)"
  have w': "w' = after_create wi flt now ?i (w\<lparr>w_incidents := ?db\<rparr>)"
    by (simp add: w'_def create_incident_def Let_def)
  have l: "event_ids_of k (w_incidents w') = event_ids_of k ?db" for k unfolding w' event_ids_of_def by simp
  note rows = create_rows[OF assms(1), of wi kb flt e, folded w'_def i_def]
  show "j \<noteq> i \<Longrightarrow> stored_row w' j = stored_row w j \<and> event_ids_of j (w_incidents w') = event_ids_of j (w_incidents w)"
    using rows(1)[of j] by (cases "add_incident flt ?i (w_incidents w)") (auto simp: l i_def event_ids_add)
  show "stored_row w' i = None \<and> event_ids_of i (w_incidents w') = event_ids_of i (w_incidents w) \<or>
      (\<exists>r. stored_row w' i = Some r \<and> inc_tenant_id r = tenant_or_default (ev_tenant_id e) \<and> inc_service r = ev_service e \<and>
         event_ids_of i (w_incidents w') = event_ids_of i (w_incidents w) @ [ev_id e])"
  proof (cases "add_incident flt ?i (w_incidents w)")
    case (Inl err)
    then have "stored_row w' i = None"
      using assms(1) after_create_rows[of wi flt now ?i "w\<lparr>w_incidents := ?db\<rparr>" i] by (auto simp: w' stored_row_def i_def)
    with Inl show ?thesis by (simp add: l)
  next
    case (Inr db)
    have "stored_row (w\<lparr>w_incidents := db\<rparr>) i \<noteq> None"
      using Inr by (auto simp: stored_row_def add_incident_Inr tbl_find_None tbl_has_def i_def)
    then obtain r where "stored_row w' i = Some r"
      using after_create_rows[of wi flt now ?i "w\<lparr>w_incidents := ?db\<rparr>" i] Inr by (auto simp: w')
    with rows(2)[of r] Inr show ?thesis by (auto simp: l i_def event_ids_add)
  qed
qed

section \<open>Properties: one alert\<close>

text \<open>What a merge does to the incident as it is read.\<close>

definition merge_effect :: "Event \<Rightarrow> Incident \<Rightarrow> Incident \<Rightarrow> bool" where
  "merge_effect e inc new \<longleftrightarrow>
     severity_weight (inc_severity new) = max (severity_weight (inc_severity inc)) (severity_weight (ev_severity e)) \<and>
     inc_event_count new = inc_event_count inc + 1 \<and>
     inc_event_ids new = (if ev_id e \<in> set (inc_event_ids inc) then inc_event_ids inc
                          else inc_event_ids inc @ [ev_id e]) \<and>
     inc_last_event_time new = max (inc_last_event_time inc) (ev_timestamp e) \<and>
     0 \<le> inc_confidence new \<and> inc_confidence new \<le> 100 \<and>
     inc_priority_score new = compute_priority_score new \<and>
     inc_status new = inc_status inc \<and> inc_tenant_id new = inc_tenant_id inc \<and>
     inc_root_cause_summary new = inc_root_cause_summary inc"

lemma merge_effect_row:
  "merge_effect e inc (with_events (incident_row (merged_incident e inc)) (inc_event_ids (merged_incident e inc)))"
proof -
  have "compute_priority_score (with_events (incident_row (merged_incident e inc)) ids) =
      compute_priority_score (merged_incident e inc)" for ids
    by (simp add: compute_priority_score_def with_events_row)
  then show ?thesis
    using merged_scores(1,2,5)[of e inc] merged_severity[of e inc]
    by (simp add: merge_effect_def with_events_row)
qed

text \<open>C5: merging an alert into a stored incident does exactly this. Without faults the incident
  read afterwards is the old one with the merge applied: severity never lower than before nor
  lower than the alert's, one more occurrence, the alert linked once, the last event time not
  moved back, confidence within 0 and 100 and the priority recomputed; status, tenant and root
  cause stay. Every other incident reads as before, and the pending close is cancelled when
  auto-close is wired in.\<close>

theorem merge_event_exact:
  assumes "incidents_ok (w_incidents w)" and "get_incident no_faults i (w_incidents w) = Some inc"
  shows "(\<exists>new. get_incident no_faults i (w_incidents (merge_event wi no_faults inc e w)) = Some new \<and>
       merge_effect e inc new) \<and>
    (\<forall>j. j \<noteq> i \<longrightarrow> get_incident no_faults j (w_incidents (merge_event wi no_faults inc e w)) =
       get_incident no_faults j (w_incidents w)) \<and>
    (wi_auto_close wi \<longrightarrow>
       (\<forall>p \<in> set (w_pending (merge_event wi no_faults inc e w)). ac_incident_id p \<noteq> i))"
proof -
  note s = stored_get[OF assms]
  have f: "tbl_find inc_id (inc_id inc) (db_rows (w_incidents w)) = Some (incident_row inc)"
    using s by (simp add: stored_row_def)
  have d: "distinct (inc_event_ids inc)" using s(3) event_ids_distinct[OF assms(1)] by simp
  let ?w = "merge_event wi no_faults inc e w"
  have "get_incident no_faults i (w_incidents ?w) =
      Some (with_events (incident_row (merged_incident e inc)) (inc_event_ids (merged_incident e inc)))"
    using s(2) d by (simp add: get_incident_no_faults merged_rows_find[OF f] merged_rows_events)
  moreover have "\<forall>j. j \<noteq> i \<longrightarrow>
      get_incident no_faults j (w_incidents ?w) = get_incident no_faults j (w_incidents w)"
    using s(2) d by (simp add: get_incident_no_faults merged_rows_find[OF f] merged_rows_events)
  moreover have "wi_auto_close wi \<longrightarrow> (\<forall>p \<in> set (w_pending ?w). ac_incident_id p \<noteq> i)"
    using s(2) by (simp add: merge_event_pending tbl_delete_def)
  ultimately show ?thesis using merge_effect_row by blast
qed

definition one_incident :: Incident where
  "one_incident = incident_zero\<lparr>inc_id := ''i1'', inc_tenant_id := ''acme'', inc_service := ''api'',
     inc_severity := ''medium'', inc_status := ''open'', inc_event_count := 1, inc_confidence := 98,
     inc_risk_score := 50, inc_fingerprint := ''f1'', inc_last_event_time := 1000\<rparr>"

definition one_incident_world :: world where
  "one_incident_world = empty_world\<lparr>w_incidents := \<lparr>db_rows = [one_incident], db_links = [(''i1'', ''e1'')],
     db_slack = []\<rparr>\<rparr>"

definition next_alert :: Event where
  "next_alert = event_zero\<lparr>ev_id := ''e2'', ev_tenant_id := ''acme'', ev_service := ''api'',
     ev_severity := ''critical'', ev_title := ''API down'', ev_timestamp := 2000, ev_fingerprint := ''f2''\<rparr>"

lemma one_incident_ok: "world_ok one_incident_world"
  by (simp add: world_ok_def one_incident_world_def empty_world_def events_ok_def incidents_ok_def pk_def
      mutes_ok_def incident_row_def incident_zero_def one_incident_def)

theorem merge_event_exact_witness:
  "\<exists>new. get_incident no_faults ''i1'' (w_incidents (merge_event all_wired no_faults
      (one_incident\<lparr>inc_event_ids := [''e1'']\<rparr>) next_alert one_incident_world)) = Some new \<and>
    severity_weight (inc_severity new) = 4 \<and> inc_event_ids new = [''e1'', ''e2''] \<and> inc_event_count new = 2"
proof -
  have ok: "incidents_ok (w_incidents one_incident_world)" using one_incident_ok by (simp add: world_ok_def)
  have g: "get_incident no_faults ''i1'' (w_incidents one_incident_world) = Some (one_incident\<lparr>inc_event_ids := [''e1'']\<rparr>)"
    by code_simp
  have "severity_weight ''medium'' = 2" "severity_weight ''critical'' = 4" by code_simp+
  with merge_event_exact[OF ok g, of all_wired next_alert] show ?thesis
    by (auto simp: merge_effect_def one_incident_def next_alert_def incident_zero_def)
qed

text \<open>C6: whatever fails, processing an alert touches one incident at most, and only one of its own tenant. Suppose that the
  ID drawn for a new incident is unused. Then there is one incident such that every other keeps its row and its linked
  alerts. If it was stored before, it either keeps row and links too, or it is open or acknowledged, belongs to the
  (defaulted) tenant of the alert, and its row stays or receives exactly one merge; no alert but this one is linked to it,
  and none loses its link unless the statement that loads the links fails (then the links kept are this alert's alone). If
  it was not stored, it is either still not, or it has the drawn ID, that tenant and the service of the alert, and the
  alert as its only new link. The tables stay well formed.\<close>

theorem process_event_footprint:
  assumes "world_ok w" and "stored_row w (incident_id_at now) = None"
    and "process_event wi kb flt now e w = (b, w')"
  shows "world_ok w' \<and>
    (\<exists>i. (\<forall>j. j \<noteq> i \<longrightarrow> stored_row w' j = stored_row w j \<and>
            event_ids_of j (w_incidents w') = event_ids_of j (w_incidents w)) \<and>
      (case stored_row w i of
         Some r \<Rightarrow>
           stored_row w' i = Some r \<and> event_ids_of i (w_incidents w') = event_ids_of i (w_incidents w) \<or>
           is_active r \<and> inc_tenant_id r = tenant_or_default (ev_tenant_id e) \<and>
           stored_row w' i \<in> {Some r, Some (incident_row (merged_incident (with_fingerprint e) r))} \<and>
           set (event_ids_of i (w_incidents w')) \<subseteq> insert (ev_id e) (set (event_ids_of i (w_incidents w))) \<and>
           (links_read flt \<longrightarrow> set (event_ids_of i (w_incidents w)) \<subseteq> set (event_ids_of i (w_incidents w')))
       | None \<Rightarrow>
           stored_row w' i = None \<and> event_ids_of i (w_incidents w') = event_ids_of i (w_incidents w) \<or>
           i = incident_id_at now \<and> (\<exists>r. stored_row w' i = Some r \<and>
             inc_tenant_id r = tenant_or_default (ev_tenant_id e) \<and> inc_service r = ev_service e \<and>
             event_ids_of i (w_incidents w') = event_ids_of i (w_incidents w) @ [ev_id e])))"
  using assms(3)
proof (cases rule: process_event_cases)
  case (muted w2)
  then have "w_incidents w' = w_incidents w" using arrived_frame(1) by simp
  then have "stored_row w' = stored_row w" "w_incidents w' = w_incidents w" by (simp_all add: stored_row_def fun_eq_iff)
  with process_event_ok[OF assms(1,3)] show ?thesis by (simp split: option.split)
next
  case (duplicate w2)
  then have "w_incidents w' = w_incidents w" using arrived_frame(1) by simp
  then have "stored_row w' = stored_row w" "w_incidents w' = w_incidents w" by (simp_all add: stored_row_def fun_eq_iff)
  with process_event_ok[OF assms(1,3)] show ?thesis by (simp split: option.split)
next
  case (merged w2 inc)
  have i: "w_incidents w2 = w_incidents w" by (rule arrived_frame(1)[OF merged(2)])
  then have same: "stored_row w2 = stored_row w" by (simp add: stored_row_def fun_eq_iff)
  have ok: "incidents_ok (w_incidents w2)" using assms(1) i by (simp add: world_ok_def)
  note f = merged(4)[folded i]
  have row: "stored_row w (inc_id inc) = Some (incident_row inc)" and b: "belongs (with_fingerprint e) inc"
    using find_existing_row[OF f ok] i by (simp_all add: stored_row_def)
  have other: "stored_row w' j = stored_row w j" if "j \<noteq> inc_id inc" for j
    using merge_rows[OF f ok, of j _ wi flt] merge_rows_none[OF f ok, of j wi flt] merged(5) same that
    by (cases "stored_row w j") auto
  have "stored_row w' (inc_id inc) \<in> {Some (incident_row inc), Some (incident_row (merged_incident (with_fingerprint e) (incident_row inc)))}"
    using merge_rows[OF f ok, of "inc_id inc" "incident_row inc" wi flt] merged(5) same row by (auto simp: touched_by_def)
  moreover have "is_active (incident_row inc)" "inc_tenant_id (incident_row inc) = tenant_or_default (ev_tenant_id e)"
    using belongsD[OF b] by (simp_all add: is_active_def)
  moreover have "event_ids_of j (w_incidents w') = event_ids_of j (w_incidents w)" if "j \<noteq> inc_id inc" for j
    using merged_rows_links(1)[OF that] by (simp add: merged(5) i)
  moreover have "set (event_ids_of (inc_id inc) (w_incidents w')) \<subseteq> insert (ev_id e) (set (event_ids_of (inc_id inc) (w_incidents w)))"
    using merged_rows_links(2)[of inc flt "with_fingerprint e" "w_incidents w"] find_existing_links(1)[OF f ok]
    by (auto simp: merged(5) i)
  moreover have "set (event_ids_of (inc_id inc) (w_incidents w)) \<subseteq> set (event_ids_of (inc_id inc) (w_incidents w'))" if "links_read flt"
    using merged_rows_links(3)[of inc "w_incidents w" flt "with_fingerprint e"] find_existing_links(2)[OF f ok that]
    by (simp add: merged(5) i)
  ultimately show ?thesis
    using process_event_ok[OF assms(1,3)] other by (intro conjI exI[of _ "inc_id inc"]) (simp_all add: row)
next
  case (created w2)
  have i: "w_incidents w2 = w_incidents w" by (rule arrived_frame(1)[OF created(2)])
  then have same: "stored_row w2 = stored_row w" by (simp add: stored_row_def fun_eq_iff)
  have n: "stored_row w2 (incident_id_at now) = None" using same assms(2) by simp
  show ?thesis
    using process_event_ok[OF assms(1,3)] assms(2) created_cases[OF n created(5) refl]
    by (intro conjI exI[of _ "incident_id_at now"]) (auto simp: created(5) i same)
qed

theorem process_event_footprint_witness:
  "let w' = snd (process_event all_wired None (\<lambda>op. op = ''SaveEvent'') 7 next_alert one_incident_world) in
   world_ok w' \<and> stored_row w' ''i1'' = Some (incident_row (merged_incident next_alert one_incident))"
proof -
  let ?w' = "snd (process_event all_wired None (\<lambda>op. op = ''SaveEvent'') 7 next_alert one_incident_world)"
  have n: "stored_row one_incident_world (incident_id_at 7) = None" by code_simp
  have s: "stored_row one_incident_world ''i1'' = Some one_incident" by code_simp
  have "map_option inc_event_count (stored_row ?w' ''i1'') = Some 2" by code_simp
  moreover have "inc_event_count one_incident = 1" by code_simp
  ultimately have d: "stored_row ?w' ''i1'' \<noteq> Some one_incident" by auto
  have f: "with_fingerprint next_alert = next_alert" by (simp add: with_fingerprint_def next_alert_def)
  have "process_event all_wired None (\<lambda>op. op = ''SaveEvent'') 7 next_alert one_incident_world =
      (fst (process_event all_wired None (\<lambda>op. op = ''SaveEvent'') 7 next_alert one_incident_world), ?w')"
    by simp
  note p = process_event_footprint[OF one_incident_ok n this]
  from p[THEN conjunct2] have "stored_row ?w' ''i1'' = Some (incident_row (merged_incident next_alert one_incident))"
  proof (elim exE conjE, goal_cases)
    case (1 k)
    have "k = ''i1''" using 1(1) s d by metis
    with 1(2) s d show ?case by (auto simp: f)
  qed
  with p show ?thesis by (simp add: Let_def)
qed

text \<open>C7: an alert that passes reaches exactly the incident it should. Without faults, when
  \<open>ProcessEvent\<close> returns true: if some open or acknowledged incident of the tenant has the alert's
  fingerprint, or is of the same or a related service and was active in the last five minutes,
  the alert is merged into one of these; otherwise a new incident of the alert's service and
  severity appears. Either way that incident reads back with the alert linked to it.\<close>

theorem alert_reaches_incident:
  assumes "world_ok w" and "stored_row w (incident_id_at now) = None"
    and "event_ids_of (incident_id_at now) (w_incidents w) = []"
    and "process_event wi kb no_faults now e w = (True, w')"
  shows "\<exists>i new. get_incident no_faults i (w_incidents w') = Some new \<and> ev_id e \<in> set (inc_event_ids new) \<and>
     inc_tenant_id new = tenant_or_default (ev_tenant_id e) \<and>
     (if \<exists>r \<in> set (db_rows (w_incidents w)). belongs (with_fingerprint e) r
      then \<exists>old. get_incident no_faults i (w_incidents w) = Some old \<and> belongs (with_fingerprint e) old \<and>
             merge_effect (with_fingerprint e) old new
      else i = incident_id_at now \<and> inc_service new = ev_service e \<and> inc_severity new = ev_severity e \<and>
             inc_event_count new = 1)"
  using assms(4)
proof (cases rule: process_event_cases)
  case (merged w2 inc)
  have i: "w_incidents w2 = w_incidents w" by (rule arrived_frame(1)[OF merged(2)])
  have ok: "incidents_ok (w_incidents w)" using assms(1) by (simp add: world_ok_def)
  have b: "belongs (with_fingerprint e) inc" using find_existing_row[OF merged(4) ok] by blast
  have f: "tbl_find inc_id (inc_id inc) (db_rows (w_incidents w)) = Some (incident_row inc)"
    using find_existing_row[OF merged(4) ok] by blast
  have ids: "inc_event_ids inc = event_ids_of (inc_id inc) (w_incidents w)"
    by (rule find_existing_events[OF merged(4) ok])
  then have d: "distinct (inc_event_ids inc)" using event_ids_distinct[OF ok] by simp
  let ?e = "with_fingerprint e"
  let ?new = "with_events (incident_row (merged_incident ?e inc)) (inc_event_ids (merged_incident ?e inc))"
  let ?old = "with_events (incident_row inc) (inc_event_ids inc)"
  have "get_incident no_faults (inc_id inc) (w_incidents w') = Some ?new"
    using d by (simp add: merged(5) i get_incident_no_faults merged_rows_find[OF f] merged_rows_events)
  moreover have "get_incident no_faults (inc_id inc) (w_incidents w) = Some ?old"
    using f ids by (simp add: get_incident_no_faults)
  moreover have "merge_effect ?e ?old ?new"
    using merge_effect_row[of ?e inc] by (simp add: merge_effect_def with_events_row)
  moreover have "belongs ?e ?old" using b by (simp add: belongs_def is_active_def)
  moreover have "\<exists>r \<in> set (db_rows (w_incidents w)). belongs ?e r"
    using find_existing_none[OF ok, of ?e] merged(4) by auto
  moreover have "ev_id e \<in> set (inc_event_ids ?new)" by simp
  moreover have "inc_tenant_id ?new = tenant_or_default (ev_tenant_id e)"
    using belongsD[OF b] by simp
  ultimately show ?thesis by (intro exI[of _ "inc_id inc"] exI[of _ ?new]) auto
next
  case (created w2)
  have i: "w_incidents w2 = w_incidents w" by (rule arrived_frame(1)[OF created(2)])
  have ok: "incidents_ok (w_incidents w)" using assms(1) by (simp add: world_ok_def)
  have n: "stored_row w2 (incident_id_at now) = None" "event_ids_of (incident_id_at now) (w_incidents w2) = []"
    using assms(2,3) i by (simp_all add: stored_row_def)
  have "\<not> no_faults ''AddIncident''" by simp
  note l = create_links[where flt = no_faults and wi = wi and kb = kb and e = "with_fingerprint e", OF this n]
  from l(2) created(5) obtain r where r: "stored_row w' (incident_id_at now) = Some r" by auto
  have o: "inc_tenant_id r = tenant_or_default (ev_tenant_id e)" "inc_service r = ev_service e"
    "inc_severity r = ev_severity e" "inc_event_count r = 1"
    using create_rows(2)[OF n(1), of wi kb no_faults "with_fingerprint e" r] r created(5) by simp_all
  have "\<not> (\<exists>r \<in> set (db_rows (w_incidents w)). belongs (with_fingerprint e) r)"
    using find_existing_none[OF ok, of "with_fingerprint e"] created(4) by auto
  moreover have "get_incident no_faults (incident_id_at now) (w_incidents w') = Some (with_events r [ev_id e])"
    using r n(2) l(1)[where j = "incident_id_at now"] by (simp add: get_incident_rows created(5))
  ultimately show ?thesis using o
    by (intro exI[of _ "incident_id_at now"] exI[of _ "with_events r [ev_id e]"]) (simp add: with_events_def)
qed simp_all

theorem alert_reaches_incident_witness:
  "\<exists>new. get_incident no_faults ''inc-7'' (w_incidents (snd (process_event all_wired None no_faults 7
      (next_alert\<lparr>ev_service := ''billing''\<rparr>) one_incident_world))) = Some new \<and>
    ev_id next_alert \<in> set (inc_event_ids new) \<and> inc_severity new = ''critical''"
proof -
  let ?e = "next_alert\<lparr>ev_service := ''billing''\<rparr>"
  let ?r = "process_event all_wired None no_faults 7 ?e one_incident_world"
  have n: "stored_row one_incident_world (incident_id_at 7) = None"
    "event_ids_of (incident_id_at 7) (w_incidents one_incident_world) = []" by code_simp+
  have "fst ?r" by code_simp
  then have p: "?r = (True, snd ?r)" by (cases ?r) simp
  have nb: "list_all (\<lambda>r. \<not> belongs (with_fingerprint ?e) r) (db_rows (w_incidents one_incident_world))"
    by code_simp
  have id: "incident_id_at 7 = ''inc-7''" by code_simp
  have "ev_severity ?e = ''critical''" "ev_id ?e = ev_id next_alert" by code_simp+
  with alert_reaches_incident[OF one_incident_ok n p] nb show ?thesis
    by (auto simp: list_all_iff id)
qed

end
