(* ===== verification/IncidentNotes.thy ===== *)
theory IncidentNotes
  imports AutoClose
begin

text \<open>
  \<open>internal/services/incident_note_service.go\<close>: a note from the source of an alert goes to the timeline of every open
  incident that contains it. \<open>order\<close> is the order in which Go ranges over the incidents.
\<close>

definition note_one ::
    "faults \<Rightarrow> time \<Rightarrow> string \<Rightarrow> string \<Rightarrow> string \<Rightarrow> string \<times> string \<Rightarrow> nat \<times> world \<Rightarrow> nat \<times> world" where
  "note_one flt now tenant actor nt is st =
    (let (i, status) = is; (n, w) = st in
     case add_record (at_site i flt) now tenant i status status nt actor (w_history w) of
       Inl _ \<Rightarrow> (n, w) | Inr h \<Rightarrow> (n + 1, w\<lparr>w_history := h\<rparr>))"

definition note_for_event ::
    "((string \<times> string) list \<Rightarrow> (string \<times> string) list) \<Rightarrow> faults \<Rightarrow> time \<Rightarrow> string \<Rightarrow> string \<Rightarrow> string \<Rightarrow> string \<Rightarrow> world \<Rightarrow>
     nat \<times> world" where
  "note_for_event order flt now tenant eventID actor nt w =
    (case open_statuses_with_event flt tenant eventID w of
       Inl _ \<Rightarrow> (0, w)
     | Inr incidents \<Rightarrow> fold (note_one flt now tenant actor nt) (order incidents) (0, w))"

lemma note_one_frame:
  "w_events (snd (note_one flt now tenant actor nt is st)) = w_events (snd st) \<and>
   w_incidents (snd (note_one flt now tenant actor nt is st)) = w_incidents (snd st) \<and>
   w_mutes (snd (note_one flt now tenant actor nt is st)) = w_mutes (snd st) \<and>
   world_ok (snd (note_one flt now tenant actor nt is st)) = world_ok (snd st)"
  by (auto simp: note_one_def world_ok_def split: prod.split sum.split)

lemma note_for_event_frame:
  "w_events (snd (note_for_event order flt now tenant e actor nt w)) = w_events w \<and>
   w_incidents (snd (note_for_event order flt now tenant e actor nt w)) = w_incidents w \<and>
   w_mutes (snd (note_for_event order flt now tenant e actor nt w)) = w_mutes w \<and>
   world_ok (snd (note_for_event order flt now tenant e actor nt w)) = world_ok w"
proof -
  have "w_events (snd (fold (note_one flt now tenant actor nt) ns st)) = w_events (snd st) \<and>
      w_incidents (snd (fold (note_one flt now tenant actor nt) ns st)) = w_incidents (snd st) \<and>
      w_mutes (snd (fold (note_one flt now tenant actor nt) ns st)) = w_mutes (snd st) \<and>
      world_ok (snd (fold (note_one flt now tenant actor nt) ns st)) = world_ok (snd st)" for ns st
    by (induction ns arbitrary: st) (simp_all add: note_one_frame)
  then show ?thesis by (auto simp: note_for_event_def split: sum.split)
qed

end
