(* ===== verification/Pipeline.thy ===== *)
theory Pipeline
  imports Correlation IncidentNotes
begin

text \<open>
  Sequences of operations on the incident pipeline: repeated alerts and the dedup window, merging
  two incidents, losses under partial failure, and the states the running system reaches
  (\<open>pipeline\<close>), with what holds in all of them.
\<close>

section \<open>Repeated alerts\<close>

text \<open>One alert after another, each at its own time.\<close>

fun process_all ::
    "wiring \<Rightarrow> KnowledgeBase option \<Rightarrow> faults \<Rightarrow> (time \<times> Event) list \<Rightarrow> world \<Rightarrow> bool list \<times> world" where
  "process_all wi kb flt [] w = ([], w)"
| "process_all wi kb flt ((now, e) # es) w =
    (let (b, w1) = process_event wi kb flt now e w; (bs, w2) = process_all wi kb flt es w1
     in (b # bs, w2))"

lemma process_all_Cons:
  assumes "process_event wi kb flt now e w = (b, w1)"
  shows "process_all wi kb flt ((now, e) # es) w =
    (b # fst (process_all wi kb flt es w1), snd (process_all wi kb flt es w1))"
  using assms by (simp split: prod.split)

text \<open>Alerts with the fingerprint \<open>fp\<close> of the tenant \<open>t\<close>, under IDs not used before, each at most
  one dedup window after the one before; the first at most one window after \<open>prev\<close>.\<close>

fun repeats :: "string \<Rightarrow> string \<Rightarrow> time \<Rightarrow> string list \<Rightarrow> (time \<times> Event) list \<Rightarrow> bool" where
  "repeats t fp prev used [] = True"
| "repeats t fp prev used ((now, e) # es) =
    (ev_tenant_id e = t \<and> ev_fingerprint e = fp \<and> ev_id e \<notin> set used \<and>
     ev_timestamp e \<le> prev + dedupWindowMinutes * minute \<and>
     repeats t fp (ev_timestamp e) (ev_id e # used) es)"

lemma with_fingerprint_same: "ev_fingerprint e \<noteq> [] \<Longrightarrow> with_fingerprint e = e"
  by (simp add: with_fingerprint_def)

lemma store_new_event:
  assumes "\<not> tbl_has ev_id (ev_id e) (w_events w)"
  shows "w_events (store_event no_faults e w) = w_events w @ [event_row e]"
  using assms by (simp add: store_event_def save_event_def tbl_upsert_def)

lemma repeat_suppressed:
  assumes "ev_fingerprint e \<noteq> []" "\<not> tbl_has ev_id (ev_id e) (w_events w)"
    and "r \<in> set (w_events w)" "ev_fingerprint r = ev_fingerprint e"
    and "ev_tenant_id r = tenant_or_default (ev_tenant_id e)"
    and "ev_timestamp e \<le> ev_timestamp r + dedupWindowMinutes * minute"
    and "process_event wi kb no_faults now e w = (b, w')"
  shows "\<not> b \<and> w_incidents w' = w_incidents w \<and> w_pending w' = w_pending w \<and> w_async w' = w_async w \<and>
    w_events w' = w_events w @ [event_row e]"
proof -
  note fp = with_fingerprint_same[OF assms(1)]
  have ev: "w_events w2 = w_events w @ [event_row e]" if "arrived wi no_faults now e w = (m, w2)" for m w2
    using arrived_frame(7)[OF that] store_new_event[OF assms(2)] by (simp add: fp)
  have "ev_id r \<noteq> ev_id e" using assms(2,3) by (auto simp: tbl_has_iff)
  then have s: "seen no_faults e w2" if "arrived wi no_faults now e w = (m, w2)" for m w2
    using ev[OF that] assms(1,3-6) by (auto simp: seen_def fp fingerprint_seen_iff)
  from assms(7) show ?thesis
  proof (cases rule: process_event_cases)
    case (muted w2)
    with ev arrived_frame[of wi no_faults now e w True w2] show ?thesis by simp
  next
    case (duplicate w2)
    with ev arrived_frame[of wi no_faults now e w False w2] show ?thesis by simp
  qed (use s in simp_all)
qed

lemma repeats_all_suppressed:
  assumes "repeats t fp prev used es" "fp \<noteq> []" "set (map ev_id (w_events w)) \<subseteq> set used"
    and "\<exists>r \<in> set (w_events w). ev_fingerprint r = fp \<and> ev_tenant_id r = tenant_or_default t \<and> ev_timestamp r = prev"
    and "process_all wi kb no_faults es w = (bs, w')"
  shows "(\<forall>b \<in> set bs. \<not> b) \<and> length bs = length es \<and> w_incidents w' = w_incidents w \<and>
    w_pending w' = w_pending w \<and> w_async w' = w_async w"
  using assms(1,3-)
proof (induction es arbitrary: prev used w bs)
  case Nil
  then show ?case by simp
next
  case (Cons ne es)
  obtain now e where ne: "ne = (now, e)" by fastforce
  obtain b w1 where p: "process_event wi kb no_faults now e w = (b, w1)" by fastforce
  from process_all_Cons[OF p, of es] Cons.prems(4) have
    "(b # fst (process_all wi kb no_faults es w1), snd (process_all wi kb no_faults es w1)) = (bs, w')"
    unfolding ne by (rule trans[OF sym])
  then obtain bs' where q: "process_all wi kb no_faults es w1 = (bs', w')" and bs: "bs = b # bs'"
    by (cases "process_all wi kb no_faults es w1") auto
  from Cons.prems(3) obtain r where r: "r \<in> set (w_events w)" "ev_fingerprint r = fp"
    "ev_tenant_id r = tenant_or_default t" "ev_timestamp r = prev" by blast
  have new: "\<not> tbl_has ev_id (ev_id e) (w_events w)"
    using Cons.prems(1,2) by (auto simp: ne tbl_has_def)
  have "\<not> b \<and> w_incidents w1 = w_incidents w \<and> w_pending w1 = w_pending w \<and> w_async w1 = w_async w \<and>
      w_events w1 = w_events w @ [event_row e]"
    using Cons.prems(1) assms(2) r by (intro repeat_suppressed[OF _ new r(1) _ _ _ p]) (simp_all add: ne)
  moreover from this Cons.prems(1,2) have
    "(\<forall>b \<in> set bs'. \<not> b) \<and> length bs' = length es \<and> w_incidents w' = w_incidents w1 \<and>
     w_pending w' = w_pending w1 \<and> w_async w' = w_async w1"
    by (intro Cons.IH[OF _ _ _ q, of "ev_timestamp e" "ev_id e # used"]) (auto simp: ne)
  ultimately show ?case by (auto simp: bs ne)
qed

section \<open>Merging two incidents\<close>

lemma foldl_link_quiet:
  "distinct ids \<Longrightarrow> map snd (filter (\<lambda>l. fst l = i) (foldl (\<lambda>l e. link_quiet b e l) links ids)) =
     map snd (filter (\<lambda>l. fst l = i) links) @
     (if i = b then filter (\<lambda>e. (b, e) \<notin> set links) ids else [])"
proof (induction ids arbitrary: links)
  case Nil
  then show ?case by simp
next
  case (Cons e ids)
  have "filter (\<lambda>x. (b, x) \<notin> set (link_quiet b e links)) ids = filter (\<lambda>x. (b, x) \<notin> set links) ids"
    using Cons.prems by (auto intro!: filter_cong)
  moreover have "map snd (filter (\<lambda>l. fst l = i) (link_quiet b e links)) =
      map snd (filter (\<lambda>l. fst l = i) links) @ (if i = b \<and> (b, e) \<notin> set links then [e] else [])"
    by (simp add: link_quiet_def)
  ultimately show ?case using Cons by simp
qed

lemma move_events_no_faults:
  assumes "incidents_ok db"
  obtains db' where "move_events no_faults a b db = Inr db'" "db_rows db' = db_rows db"
    "\<And>i. event_ids_of i db' = event_ids_of i db @
       (if i = b then filter (\<lambda>e. e \<notin> set (event_ids_of b db)) (event_ids_of a db) else [])"
proof -
  let ?ids = "event_ids_of a db"
  let ?db = "db\<lparr>db_links := foldl (\<lambda>l e. link_quiet b e l) (db_links db) ?ids\<rparr>"
  have mem: "(b, e) \<notin> set (db_links db) \<longleftrightarrow> e \<notin> set (event_ids_of b db)" for e
    by (force simp: event_ids_of_def)
  have "event_ids_of i ?db = event_ids_of i db @
       (if i = b then filter (\<lambda>e. e \<notin> set (event_ids_of b db)) ?ids else [])" for i
    using foldl_link_quiet[OF event_ids_distinct[OF assms], of i b "db_links db" a]
    by (simp add: event_ids_of_def[of i] mem)
  moreover have "move_events no_faults a b db = Inr (if ?ids = [] then db else ?db)"
    by (simp add: move_events_def get_event_ids_def)
  ultimately show thesis by (intro that[of "if ?ids = [] then db else ?db"]) auto
qed

lemma update_no_faults:
  assumes "incidents_ok db" "get_incident no_faults i db = Some cur" "inc_id inc = i" "distinct (inc_event_ids inc)"
  obtains db' where "update_incident no_faults inc db = Inr db'" "incidents_ok db'"
    "\<And>j. event_ids_of j db' = (if j = i then inc_event_ids inc else event_ids_of j db)"
    "get_incident no_faults i db' =
       Some (inc\<lparr>inc_tenant_id := inc_tenant_id cur, inc_what_changed_confidence := 0\<rparr>)"
    "\<And>j. j \<noteq> i \<Longrightarrow> get_incident no_faults j db' = get_incident no_faults j db"
proof -
  obtain db' where u: "update_incident no_faults inc db = Inr db'"
    using assms(4) by (simp add: update_incident_Inr)
  note ev = event_ids_update[OF u]
  obtain r where r: "tbl_find inc_id i (db_rows db) = Some r" "cur = with_events r (event_ids_of i db)"
    using assms(2) by (auto simp: get_incident_no_faults)
  have "get_incident no_faults i db' =
       Some (inc\<lparr>inc_tenant_id := inc_tenant_id cur, inc_what_changed_confidence := 0\<rparr>)"
    using r assms(3) tbl_find_Some[OF r(1)]
    by (simp add: get_incident_no_faults rows_find_update[OF u] ev overwrite_row_def with_events_def incident_row_def)
  moreover have "get_incident no_faults j db' = get_incident no_faults j db" if "j \<noteq> i" for j
    using that assms(3)
    by (cases "tbl_find inc_id j (db_rows db)")
       (auto simp: get_incident_no_faults rows_find_update[OF u] ev dest: tbl_find_Some)
  moreover have "event_ids_of j db' = (if j = i then inc_event_ids inc else event_ids_of j db)" for j
    using ev assms(3) by simp
  ultimately show thesis using that u update_incident_ok[OF assms(1) u] by blast
qed

lemma get_incident_move:
  assumes "db_rows db' = db_rows db" "get_incident no_faults i db = Some inc"
  shows "get_incident no_faults i db' = Some (inc\<lparr>inc_event_ids := event_ids_of i db'\<rparr>)"
  using assms by (auto simp: get_incident_no_faults with_events_def)

text \<open>The parent as it reads after a merge.\<close>

definition parent_effect :: "Incident \<Rightarrow> Incident \<Rightarrow> Incident \<Rightarrow> bool" where
  "parent_effect parent child new \<longleftrightarrow>
     set (inc_event_ids new) = set (inc_event_ids parent) \<union> set (inc_event_ids child) \<and>
     inc_event_count new = inc_event_count parent + inc_event_count child \<and>
     severity_weight (inc_severity new) = max (severity_weight (inc_severity parent)) (severity_weight (inc_severity child)) \<and>
     inc_last_event_time new = max (inc_last_event_time parent) (inc_last_event_time child) \<and>
     inc_merged_incident_ids new = inc_merged_incident_ids parent @ [inc_id child] \<and>
     inc_status new = inc_status parent \<and> inc_tenant_id new = inc_tenant_id parent"

lemma merged_parent_effect:
  assumes "set ids = set (inc_event_ids parent) \<union> set (inc_event_ids child)"
  shows "parent_effect parent child ((merged_parent parent (merged_child p child))
    \<lparr>inc_event_ids := ids, inc_tenant_id := inc_tenant_id parent, inc_what_changed_confidence := 0\<rparr>)"
  using assms by (simp add: parent_effect_def merged_parent_def merged_child_def Let_def max_def)

lemma merge_incidents_ok [preserve]:
  assumes "incidents_ok db"
  shows "incidents_ok (snd (merge_incidents flt p c db))"
proof -
  have u: "incidents_ok (snd (case update_incident f inc d of Inl err \<Rightarrow> (Inl err, d) | Inr d' \<Rightarrow> (Inr (), d')))"
    if "incidents_ok d" for f inc d
    using that by (cases "update_incident f inc d") (auto intro: update_incident_ok)
  show ?thesis
  proof (cases "get_incident (at_site ''parent'' flt) p db")
    case None
    with assms show ?thesis by (simp add: merge_incidents_def)
  next
    case parent: (Some parent)
    show ?thesis
    proof (cases "get_incident (at_site ''child'' flt) c db")
      case None
      with assms parent show ?thesis by (simp add: merge_incidents_def)
    next
      case child: (Some child0)
      show ?thesis
      proof (cases "move_events (at_site ''move'' flt) c p db")
        case (Inl err)
        with assms parent child show ?thesis by (simp add: merge_incidents_def)
      next
        case (Inr db1)
        then have ok1: "incidents_ok db1" by (rule move_events_ok[OF assms])
        show ?thesis
        proof (cases "update_incident (at_site ''child'' flt) (merged_child p child0) db1")
          case (Inl err)
          with ok1 parent child Inr show ?thesis by (simp add: merge_incidents_def Let_def)
        next
          case upd: (Inr db2)
          from u[OF update_incident_ok[OF ok1 upd]] parent child Inr upd show ?thesis
            by (simp add: merge_incidents_def Let_def)
        qed
      qed
    qed
  qed
qed

section \<open>The running pipeline\<close>

text \<open>One operation on the pipeline at the time \<open>now\<close>, under any faults.\<close>

inductive pipeline_step :: "wiring \<Rightarrow> KnowledgeBase option \<Rightarrow> time \<Rightarrow> world \<Rightarrow> world \<Rightarrow> bool"
  for wi kb now where
  alert: "pipeline_step wi kb now w (snd (process_event wi kb flt now e w))"
| recovered: "pipeline_step wi kb now w (process_resolved wi flt now quiet e w)"
| operator_action: "pipeline_step wi kb now w (snd (update_status_by wi flt now i action actor nt w))"
| sweep: "pipeline_step wi kb now w
    (snd (close_due claim_due incident_is_open alert_counts (resolve_on wi now) flt now quiet w))"
| merge_two: "pipeline_step wi kb now w (w\<lparr>w_incidents := snd (merge_incidents flt p c (w_incidents w))\<rparr>)"
| mute: "pipeline_step wi kb now w
    (w\<lparr>w_mutes := snd (service_create create_mute incidents flt now req tenant u (w_mutes w))\<rparr>)"
| unmute: "pipeline_step wi kb now w
    (w\<lparr>w_mutes := snd (service_unmute unmute_row flt now tenant i u (w_mutes w))\<rparr>)"
| add_rule: "pipeline_step wi kb now w (snd (create_rule flt now rr tenant w))"
| switch_rule: "pipeline_step wi kb now w (snd (toggle_rule flt rid enabled w))"
| stored: "pipeline_step wi kb now w (store_event flt e w)"
| noted: "pipeline_step wi kb now w (snd (note_for_event order flt now tenant eventID actor nt w))"

text \<open>The states reached from well-formed tables and an empty mute cache, while time passes.\<close>

inductive pipeline :: "wiring \<Rightarrow> KnowledgeBase option \<Rightarrow> time \<Rightarrow> world \<Rightarrow> bool" for wi kb where
  start: "world_ok w \<Longrightarrow> ms_cache (w_mutes w) = Map.empty \<Longrightarrow> \<forall>r \<in> set (db_rows (w_incidents w)).
      inc_status r \<in> {''open'', ''acknowledged'', ''resolved''} \<Longrightarrow> pipeline wi kb now w"
| wait: "pipeline wi kb now w \<Longrightarrow> now \<le> now' \<Longrightarrow> pipeline wi kb now' w"
| step: "pipeline wi kb now w \<Longrightarrow> pipeline_step wi kb now w w' \<Longrightarrow> pipeline wi kb now w'"

definition status_ok :: "Incident \<Rightarrow> bool" where
  "status_ok r \<longleftrightarrow> inc_status r \<in> {''open'', ''acknowledged'', ''resolved''}"

definition statuses_ok :: "incident_db \<Rightarrow> bool" where
  "statuses_ok db \<longleftrightarrow> (\<forall>r \<in> set (db_rows db). status_ok r)"

definition pipeline_inv :: "time \<Rightarrow> world \<Rightarrow> bool" where
  "pipeline_inv now w \<longleftrightarrow> world_ok w \<and> statuses_ok (w_incidents w) \<and> mute_store.coherent now (w_mutes w)"

subsection \<open>Statuses\<close>

lemma status_ok_simps [simp]:
  "status_ok (incident_row r) = status_ok r" "status_ok (with_events r ids) = status_ok r"
  "status_ok (overwrite_row inc r) = status_ok inc" "status_ok (merged_incident e inc) = status_ok inc"
  "status_ok (merged_child p inc)" "status_ok (merged_parent inc c) = status_ok inc"
  "status_ok (inc\<lparr>inc_event_ids := ids\<rparr>) = status_ok inc" "status_ok (new_incident kb now e)"
  "status_ok (inc\<lparr>inc_tenant_id := t\<rparr>) = status_ok inc"
  by (simp_all add: status_ok_def overwrite_row_def merged_child_def merged_parent_def Let_def)

lemma statuses_update:
  assumes "statuses_ok db" "status_ok inc"
  shows "statuses_ok (or_keep (update_incident flt inc db) db)"
  using assms by (auto simp: or_keep_def update_incident_Inr statuses_ok_def tbl_update_def split: sum.split)

lemma statuses_link: "statuses_ok db \<Longrightarrow> statuses_ok (or_keep (add_event_to_incident flt i e db) db)"
  by (auto simp: or_keep_def add_event_Inr statuses_ok_def split: sum.split)

lemma statuses_add:
  "statuses_ok db \<Longrightarrow> status_ok inc \<Longrightarrow> statuses_ok (or_keep (add_incident flt inc db) db)"
  by (auto simp: or_keep_def add_incident_Inr statuses_ok_def split: sum.split)

lemma statuses_set:
  assumes "statuses_ok db" "st \<in> {''open'', ''acknowledged'', ''resolved''}"
    and "db_rows db' = db_rows db \<or> db_rows db' = set_status_rows i st (db_rows db)"
  shows "statuses_ok db'"
  using assms by (auto simp: statuses_ok_def status_ok_def set_status_rows_def tbl_update_def)

lemma map_action_status: "map_action a = Inr st \<Longrightarrow> st \<in> {''open'', ''acknowledged'', ''resolved''}"
  by (auto simp: map_action_def Let_def split: if_splits)

lemma statuses_found:
  assumes "find_existing flt e db = Some inc" "incidents_ok db" "statuses_ok db"
  shows "status_ok inc"
proof -
  have "incident_row inc \<in> set (db_rows db)"
    using find_existing_row[OF assms(1,2)] by (auto dest: tbl_find_Some)
  with assms(3) have "status_ok (incident_row inc)" unfolding statuses_ok_def by blast
  then show ?thesis by simp
qed

lemma statuses_get: "get_incident flt i db = Some inc \<Longrightarrow> statuses_ok db \<Longrightarrow> status_ok inc"
  by (auto simp: get_incident_Some statuses_ok_def dest!: tbl_find_Some)

lemma statuses_stored:
  assumes "world_ok w"
  shows "statuses_ok (w_incidents w) \<longleftrightarrow> (\<forall>i r. stored_row w i = Some r \<longrightarrow> status_ok r)"
proof -
  have "pk inc_id (db_rows (w_incidents w))" using assms by (simp add: world_ok_def incidents_ok_def)
  then show ?thesis
    unfolding statuses_ok_def stored_row_def by (metis tbl_find_Some tbl_find_unique)
qed

lemma statuses_resolved:
  assumes "world_ok w" "world_ok w'" "statuses_ok (w_incidents w)"
    and "\<And>j. stored_row w' j = stored_row w j \<or>
      stored_row w' j = map_option (\<lambda>x. x\<lparr>inc_status := ''resolved''\<rparr>) (stored_row w j)"
  shows "statuses_ok (w_incidents w')"
  unfolding statuses_stored[OF assms(2)]
proof (intro allI impI)
  fix i r assume r: "stored_row w' i = Some r"
  have old: "status_ok q" if "stored_row w i = Some q" for q
    using assms(3) that unfolding statuses_stored[OF assms(1)] by blast
  from assms(4)[of i] show "status_ok r"
  proof
    assume "stored_row w' i = stored_row w i"
    with r old show ?thesis by simp
  next
    assume "stored_row w' i = map_option (\<lambda>x. x\<lparr>inc_status := ''resolved''\<rparr>) (stored_row w i)"
    with r show ?thesis by (auto simp: status_ok_def)
  qed
qed

lemma after_create_status:
  "db_rows (w_incidents (after_create wi flt now inc w)) = db_rows (w_incidents w) \<or>
   db_rows (w_incidents (after_create wi flt now inc w)) = set_status_rows (inc_id inc) ''resolved'' (db_rows (w_incidents w))"
  using check_and_resolve_frame[of flt inc "recorded wi flt now inc
      (spawn_if (wi_onboarding wi) (GoMarkMilestone (inc_tenant_id inc) ''incident_created'') w)"]
  by (auto simp: after_create_def Let_def resolved_by_rule_def)

lemma process_event_statuses:
  assumes "world_ok w" "statuses_ok (w_incidents w)" "process_event wi kb flt now e w = (b, w')"
  shows "statuses_ok (w_incidents w')"
  using assms(3)
proof (cases rule: process_event_cases)
  case (muted w2)
  with arrived_frame(1)[OF muted(2)] assms(2) show ?thesis by simp
next
  case (duplicate w2)
  with arrived_frame(1)[OF duplicate(2)] assms(2) show ?thesis by simp
next
  case (merged w2 inc)
  have ok: "incidents_ok (w_incidents w)" using assms(1) by (simp add: world_ok_def)
  have "status_ok (merged_incident (with_fingerprint e) inc)"
    using statuses_found[OF merged(4) ok assms(2)] by simp
  then have "statuses_ok (merged_rows flt inc (with_fingerprint e) (w_incidents w))"
    unfolding merged_rows_def Let_def using assms(2) by (intro statuses_link statuses_update)
  with arrived_frame(1)[OF merged(2)] show ?thesis by (simp add: merged(5))
next
  case (created w2)
  have "statuses_ok (or_keep (add_incident flt (new_incident kb now (with_fingerprint e)) (w_incidents w2)) (w_incidents w2))"
    using assms(2) arrived_frame(1)[OF created(2)] by (intro statuses_add) simp_all
  from statuses_set[OF this, of "''resolved''" "w_incidents (after_create wi flt now
      (new_incident kb now (with_fingerprint e)) (w2\<lparr>w_incidents := or_keep (add_incident flt
        (new_incident kb now (with_fingerprint e)) (w_incidents w2)) (w_incidents w2)\<rparr>))" "incident_id_at now"]
    after_create_status[of wi flt now "new_incident kb now (with_fingerprint e)" "w2\<lparr>w_incidents := or_keep
        (add_incident flt (new_incident kb now (with_fingerprint e)) (w_incidents w2)) (w_incidents w2)\<rparr>"]
  show ?thesis unfolding created(5) create_incident_def Let_def by simp
qed

lemma merge_incidents_statuses:
  assumes "statuses_ok db"
  shows "statuses_ok (snd (merge_incidents flt p c db))"
proof (cases "get_incident (at_site ''parent'' flt) p db")
  case None
  with assms show ?thesis by (simp add: merge_incidents_def)
next
  case parent: (Some parent)
  show ?thesis
  proof (cases "get_incident (at_site ''child'' flt) c db")
    case None
    with assms parent show ?thesis by (simp add: merge_incidents_def)
  next
    case child: (Some child0)
    show ?thesis
    proof (cases "move_events (at_site ''move'' flt) c p db")
      case (Inl err)
      with assms parent child show ?thesis by (simp add: merge_incidents_def)
    next
      case (Inr db1)
      then have s1: "statuses_ok db1"
        using assms by (auto simp: move_events_def statuses_ok_def split: sum.splits if_splits)
      have p: "status_ok (merged_parent parent x)" "status_ok ((merged_parent parent x)\<lparr>inc_event_ids := ids\<rparr>)" for x ids
        using statuses_get[OF parent assms] by simp_all
      have two: "statuses_ok (snd (case update_incident f x d of Inl err \<Rightarrow> (Inl err, d) | Inr d' \<Rightarrow> (Inr (), d')))"
        if "statuses_ok d" "status_ok x" for f x d
        using statuses_update[OF that, of f] by (cases "update_incident f x d") simp_all
      show ?thesis
      proof (cases "update_incident (at_site ''child'' flt) (merged_child p child0) db1")
        case (Inl err)
        with s1 parent child Inr show ?thesis by (simp add: merge_incidents_def Let_def)
      next
        case upd: (Inr db2)
        have "statuses_ok db2"
          using statuses_update[OF s1, of "merged_child p child0" "at_site ''child'' flt"] upd by simp
        with two p parent child Inr upd show ?thesis
          by (simp add: merge_incidents_def Let_def split: sum.split)
      qed
    qed
  qed
qed

subsection \<open>The invariant\<close>

lemma alert_resolved_world:
  "stored_row (alert_resolved open_incidents_with_event alert_counts mark_recovered flt now quiet e w) = stored_row w \<and>
   (world_ok w \<longrightarrow> world_ok (alert_resolved open_incidents_with_event alert_counts mark_recovered flt now quiet e w)) \<and>
   w_mutes (alert_resolved open_incidents_with_event alert_counts mark_recovered flt now quiet e w) = w_mutes w"
proof -
  have m: "w_mutes (start_quiet alert_counts mark_recovered flt now quiet t i w) = w_mutes w" for t i w
    by (auto simp: start_quiet_def mark_recovered_def guard_db_def split: sum.splits if_splits)
  have "stored_row (fold (start_quiet alert_counts mark_recovered flt now quiet t) ids w) = stored_row w \<and>
      (world_ok w \<longrightarrow> world_ok (fold (start_quiet alert_counts mark_recovered flt now quiet t) ids w)) \<and>
      w_mutes (fold (start_quiet alert_counts mark_recovered flt now quiet t) ids w) = w_mutes w" for t ids
  proof (induction ids arbitrary: w)
    case (Cons i ids)
    with world_close.start_quiet_frame[of flt now quiet t i w] m show ?case by simp
  qed simp
  then show ?thesis by (simp add: alert_resolved_def split: sum.split)
qed

lemma close_due_mutes:
  "w_mutes (snd (close_due claim_due incident_is_open alert_counts (resolve_on wi now) flt now quiet w)) = w_mutes w"
proof -
  have one: "w_mutes (snd (close_one incident_is_open alert_counts (resolve_on wi now) flt quiet p st)) = w_mutes (snd st)"
    for p st
  proof -
    obtain k v where st: "st = (k, v)" by fastforce
    have "w_mutes v' = w_mutes v" if "resolve_on wi now f i a ac n v = (r, v')" for f i a ac n r v'
      using arg_cong[OF that[unfolded resolve_on_def], of "w_mutes o snd"] by simp
    then show ?thesis by (auto simp: close_one_def st Let_def split: sum.split prod.split)
  qed
  have "w_mutes (snd (fold (close_one incident_is_open alert_counts (resolve_on wi now) flt quiet) due st)) = w_mutes (snd st)"
    for due st
    by (induction due arbitrary: st) (simp_all add: one)
  then show ?thesis
    by (auto simp: close_due_def claim_due_def Let_def guard_db_def split: sum.splits prod.splits)
qed

lemma service_create_ok:
  "mutes_ok (ms_repo st) \<Longrightarrow> mutes_ok (ms_repo (snd (service_create create_mute incidents flt now req tenant u st)))"
  by (auto simp: service_create_def Let_def invalidate_def intro: create_mute_ok split: sum.split)

lemma service_unmute_ok:
  "mutes_ok (ms_repo st) \<Longrightarrow> mutes_ok (ms_repo (snd (service_unmute unmute_row flt now tenant i u st)))"
  by (auto simp: service_unmute_def invalidate_def intro: unmute_row_ok split: sum.split)

lemma process_event_mutes:
  assumes "process_event wi kb flt now e w = (b, w')"
  shows "w_mutes w' = w_mutes w \<or>
    w_mutes w' = snd (mute_check active_mutes record_match flt now (with_fingerprint e) (w_mutes w))"
proof -
  have a: "w_mutes w2 = w_mutes w \<or>
      w_mutes w2 = snd (mute_check active_mutes record_match flt now (with_fingerprint e) (w_mutes w))"
    if "arrived wi flt now e w = (m, w2)" for m w2
    using that by (auto simp: arrived_def check_muted_def split: if_splits prod.splits)
  from assms show ?thesis by (cases rule: process_event_cases) (use a in simp_all)
qed

lemma rules_frame:
  "w_incidents (snd (create_rule flt now rr tenant w)) = w_incidents w" "w_mutes (snd (create_rule flt now rr tenant w)) = w_mutes w"
  "w_incidents (snd (toggle_rule flt rid enabled w)) = w_incidents w" "w_mutes (snd (toggle_rule flt rid enabled w)) = w_mutes w"
  by (auto simp: create_rule_def create_rule_row_def toggle_rule_def update_rule_def Let_def guard_db_def
      split: sum.splits option.splits)

lemma rules_ok:
  assumes "world_ok w"
  shows "world_ok (snd (create_rule flt now rr tenant w))" "world_ok (snd (toggle_rule flt rid enabled w))"
proof -
  have "world_ok w'" if "create_rule_row flt now r w = Inr w'" for r w'
    using that assms by (auto simp: create_rule_row_def world_ok_def intro: pk_insert split: sum.splits)
  then show "world_ok (snd (create_rule flt now rr tenant w))"
    using assms by (auto simp: create_rule_def Let_def split: sum.split)
  have "world_ok w'" if "update_rule flt r w = Inr w'" for r w'
    using that assms by (auto simp: update_rule_def world_ok_def intro!: pk_update)
  then show "world_ok (snd (toggle_rule flt rid enabled w))"
    using assms by (auto simp: toggle_rule_def split: sum.split option.split)
qed

lemma inv_alert:
  assumes "pipeline_inv now w"
  shows "pipeline_inv now (snd (process_event wi kb flt now e w))"
proof -
  obtain b w' where p: "process_event wi kb flt now e w = (b, w')" by fastforce
  have "mute_store.coherent now (w_mutes w')"
    using process_event_mutes[OF p] assms mute_store.coherent_check[of now "w_mutes w" flt "with_fingerprint e"]
    by (auto simp: pipeline_inv_def)
  with p assms process_event_ok[OF _ p] process_event_statuses[OF _ _ p] show ?thesis
    by (simp add: pipeline_inv_def)
qed

lemma inv_recovered:
  assumes "pipeline_inv now w"
  shows "pipeline_inv now (process_resolved wi flt now quiet e w)"
proof (cases "wi_auto_close wi")
  case True
  let ?w = "alert_resolved open_incidents_with_event alert_counts mark_recovered flt now quiet e w"
  have ok: "world_ok w" using assms by (simp add: pipeline_inv_def)
  note f = alert_resolved_world[of flt now quiet e w]
  have ok': "world_ok ?w" using f ok by blast
  have "statuses_ok (w_incidents ?w)"
    by (rule statuses_resolved[OF ok ok']) (use f assms in \<open>simp_all add: pipeline_inv_def\<close>)
  with ok' f assms True show ?thesis by (simp add: pipeline_inv_def process_resolved_def)
next
  case False
  with assms show ?thesis by (simp add: process_resolved_def)
qed

lemma inv_action:
  assumes "pipeline_inv now w"
  shows "pipeline_inv now (snd (update_status_by wi flt now i action actor nt w))"
proof -
  have "statuses_ok (w_incidents (snd (update_status_by wi flt now i action actor nt w)))"
    using update_status_by_rows[of wi flt now i action actor nt w]
  proof
    assume "db_rows (w_incidents (snd (update_status_by wi flt now i action actor nt w))) = db_rows (w_incidents w)"
    with assms show ?thesis by (simp add: pipeline_inv_def statuses_ok_def)
  next
    assume "\<exists>st. map_action action = Inr st \<and>
      db_rows (w_incidents (snd (update_status_by wi flt now i action actor nt w))) =
        set_status_rows (trim_space i) st (db_rows (w_incidents w))"
    then obtain st where st: "map_action action = Inr st"
      and rows: "db_rows (w_incidents (snd (update_status_by wi flt now i action actor nt w))) =
        set_status_rows (trim_space i) st (db_rows (w_incidents w))" by blast
    have "statuses_ok (w_incidents w)" using assms by (simp add: pipeline_inv_def)
    then show ?thesis by (rule statuses_set[OF _ map_action_status[OF st] disjI2[OF rows]])
  qed
  with assms show ?thesis by (simp add: pipeline_inv_def update_status_by_ok_world)
qed

lemma inv_sweep:
  assumes "pipeline_inv now w"
  shows "pipeline_inv now
    (snd (close_due claim_due incident_is_open alert_counts (resolve_on wi now) flt now quiet w))"
proof -
  obtain k w' where c: "close_due claim_due incident_is_open alert_counts (resolve_on wi now) flt now quiet w = (k, w')"
    by fastforce
  have ok: "world_ok w" using assms by (simp add: pipeline_inv_def)
  have ok': "world_ok w'" by (rule world_close.close_due_inv[OF c ok])
  have "statuses_ok (w_incidents w')"
    by (rule statuses_resolved[OF ok ok'])
       (use assms world_close.close_due_only_ripe[OF c ok] in \<open>auto simp: pipeline_inv_def\<close>)
  with ok' close_due_mutes[of wi now flt quiet w] c assms show ?thesis by (simp add: pipeline_inv_def)
qed

lemma pipeline_step_inv:
  assumes "pipeline_step wi kb now w w'" "pipeline_inv now w"
  shows "pipeline_inv now w'"
  using assms(1)
proof cases
  case (alert flt e)
  with inv_alert[OF assms(2)] show ?thesis by simp
next
  case (recovered flt quiet e)
  with inv_recovered[OF assms(2)] show ?thesis by simp
next
  case (operator_action flt i action actor nt)
  with inv_action[OF assms(2)] show ?thesis by simp
next
  case (sweep flt quiet)
  with inv_sweep[OF assms(2)] show ?thesis by simp
next
  case (merge_two flt p c)
  with assms(2) show ?thesis
    by (simp add: pipeline_inv_def world_ok_def merge_incidents_ok merge_incidents_statuses)
next
  case (mute incidents flt req tenant u)
  with assms(2) mute_store.coherent_create show ?thesis
    by (simp add: pipeline_inv_def world_ok_def service_create_ok)
next
  case (unmute flt tenant i u)
  with assms(2) mute_store.coherent_unmute show ?thesis
    by (simp add: pipeline_inv_def world_ok_def service_unmute_ok)
next
  case (add_rule flt rr tenant)
  with assms(2) rules_ok show ?thesis by (simp add: pipeline_inv_def rules_frame)
next
  case (switch_rule flt rid enabled)
  with assms(2) rules_ok show ?thesis by (simp add: pipeline_inv_def rules_frame)
next
  case (stored flt e)
  with assms(2) show ?thesis by (simp add: pipeline_inv_def store_event_ok)
next
  case (noted order flt tenant eventID actor nt)
  with assms(2) show ?thesis by (simp add: pipeline_inv_def note_for_event_frame)
qed

lemma pipeline_invariant: "pipeline wi kb now w \<Longrightarrow> pipeline_inv now w"
proof (induction rule: pipeline.induct)
  case (start w now)
  then show ?case
    by (simp add: pipeline_inv_def statuses_ok_def status_ok_def mute_store.coherent_def)
next
  case (wait now w now')
  with mute_store.coherent_later[of now "w_mutes w" now'] show ?case by (simp add: pipeline_inv_def)
next
  case (step now w w')
  with pipeline_step_inv show ?case by blast
qed

section \<open>Properties\<close>

text \<open>Inside the dedup window, repeats are dropped for as long as they keep coming. Once an
  alert with a fingerprint is stored for the tenant, every further alert with that fingerprint
  under a new ID, each within five minutes of the one before, is suppressed: \<open>ProcessEvent\<close>
  returns false every time and no incident, pending close or follow-up work changes. Because a
  suppressed alert is stored too, the window slides with it, without a limit on the total time
  and whether or not any incident of the alert is open.\<close>

theorem repeats_suppressed:
  assumes "repeats t fp prev (map ev_id (w_events w)) es" and "fp \<noteq> []"
    and "\<exists>r \<in> set (w_events w). ev_fingerprint r = fp \<and> ev_tenant_id r = tenant_or_default t \<and>
           ev_timestamp r = prev"
    and "process_all wi kb no_faults es w = (bs, w')"
  shows "bs = replicate (length es) False \<and> w_incidents w' = w_incidents w \<and>
    w_pending w' = w_pending w \<and> w_async w' = w_async w"
proof -
  note r = repeats_all_suppressed[OF assms(1,2) order_refl assms(3,4)]
  then have "\<forall>b \<in> set bs. b = False" by auto
  then have "bs = replicate (length bs) False" by (induction bs) auto
  with r show ?thesis by simp
qed

definition repeated_alerts :: "(time \<times> Event) list" where
  "repeated_alerts =
    [(1, next_alert\<lparr>ev_id := ''e3'', ev_timestamp := 2000 + 4 * minute\<rparr>),
     (2, next_alert\<lparr>ev_id := ''e4'', ev_timestamp := 2000 + 8 * minute\<rparr>),
     (3, next_alert\<lparr>ev_id := ''e5'', ev_timestamp := 2000 + 12 * minute\<rparr>)]"

theorem repeats_suppressed_witness:
  "let w = empty_world\<lparr>w_events := [next_alert]\<rparr> in
   w_incidents w = empty_incident_db \<and>
   fst (process_all all_wired None no_faults repeated_alerts w) = [False, False, False] \<and>
   w_incidents (snd (process_all all_wired None no_faults repeated_alerts w)) = empty_incident_db"
proof -
  let ?w = "empty_world\<lparr>w_events := [next_alert]\<rparr>"
  let ?r = "process_all all_wired None no_faults repeated_alerts ?w"
  have r: "repeats ''acme'' ''f2'' 2000 (map ev_id (w_events ?w)) repeated_alerts" by code_simp
  have s: "\<exists>r \<in> set (w_events ?w). ev_fingerprint r = ''f2'' \<and> ev_tenant_id r = tenant_or_default ''acme'' \<and>
      ev_timestamp r = 2000"
    by (simp add: next_alert_def event_zero_def tenant_or_default_def)
  have "length repeated_alerts = 3" by code_simp
  moreover have "?r = (fst ?r, snd ?r)" by simp
  note repeats_suppressed[OF r _ s this]
  ultimately show ?thesis by (simp add: Let_def empty_world_def numeral_3_eq_3)
qed

text \<open>Merging after a partial read failure loses links. When the query for an open incident
  of the service succeeds but reading its event IDs fails, the finder returns the incident
  without them, and merging an alert into it then replaces all its links by the one new link.\<close>

theorem merge_after_failed_read_loses_links:
  assumes "incidents_ok (w_incidents w)"
    and "find_open_for_service flt tenant service ws (w_incidents w) = Some inc"
    and "flt ''GetEventIDsByIncidentID''" and "\<not> flt' ''UpdateIncident''"
  shows "event_ids_of (inc_id inc) (w_incidents (merge_event wi flt' inc e w)) = [ev_id e]"
proof -
  from assms(2) obtain r where r: "r \<in> set (db_rows (w_incidents w))" "inc = loaded_or_bare flt r (w_incidents w)"
    by (auto simp: find_open_for_service_def split: if_splits dest!: first_match)
  then have "inc = r" using assms(3) by (simp add: loaded_or_bare_def get_event_ids_def)
  with incidents_okD(3)[OF assms(1) r(1)] have "inc_event_ids inc = []"
    by (metis incident_row_simps(5))
  with assms(4) show ?thesis by (simp add: merged_rows_events)
qed

theorem merge_after_failed_read_loses_links_witness:
  "let flt = (\<lambda>op. op = ''GetEventIDsByIncidentID'') in
   event_ids_of ''i1'' (w_incidents one_incident_world) = [''e1''] \<and>
   event_ids_of ''i1'' (w_incidents (merge_event all_wired no_faults one_incident next_alert one_incident_world)) = [''e2'']"
proof -
  let ?flt = "\<lambda>op. op = ''GetEventIDsByIncidentID''"
  have ok: "incidents_ok (w_incidents one_incident_world)" using one_incident_ok by (simp add: world_ok_def)
  have f: "find_open_for_service ?flt ''acme'' ''api'' 0 (w_incidents one_incident_world) = Some one_incident"
    by code_simp
  have e: "event_ids_of ''i1'' (w_incidents one_incident_world) = [''e1'']" by code_simp
  have i: "inc_id one_incident = ''i1''" "ev_id next_alert = ''e2''" by code_simp+
  have "\<not> no_faults ''UpdateIncident''" by simp
  from merge_after_failed_read_loses_links[where flt' = no_faults, OF ok f _ this] i e
  show ?thesis by (simp add: Let_def)
qed

text \<open>Merging two incidents collects everything in the parent, and copies rather than moves
  the links. Without faults, for two different stored incidents, \<open>MergeIncidents\<close> succeeds: the
  parent then links the alerts of both, counts the occurrences of both, and has the higher
  severity and the later last event time; the child is resolved and marked as merged into the
  parent but keeps all its own links; every other incident reads as before. Nothing requires the
  two to be of the same tenant.\<close>

theorem merge_incidents_exact:
  assumes "incidents_ok db" and "p \<noteq> c"
    and "get_incident no_faults p db = Some parent" and "get_incident no_faults c db = Some child"
  shows "\<exists>db' new. merge_incidents no_faults p c db = (Inr (), db') \<and> incidents_ok db' \<and>
    get_incident no_faults p db' = Some new \<and> parent_effect parent child new \<and>
    get_incident no_faults c db' = Some ((merged_child p child)\<lparr>inc_what_changed_confidence := 0\<rparr>) \<and>
    (\<forall>j. j \<noteq> p \<and> j \<noteq> c \<longrightarrow> get_incident no_faults j db' = get_incident no_faults j db)"
proof -
  have pid: "inc_id parent = p" "inc_id child = c" using assms(3,4) by (auto dest: get_incident_id)
  have pids: "inc_event_ids parent = event_ids_of p db" "inc_event_ids child = event_ids_of c db"
    using assms(3,4) by (auto simp: get_incident_no_faults)
  obtain db1 where m: "move_events no_faults c p db = Inr db1" "db_rows db1 = db_rows db"
    and ev1: "\<And>i. event_ids_of i db1 = event_ids_of i db @
       (if i = p then filter (\<lambda>e. e \<notin> set (event_ids_of p db)) (event_ids_of c db) else [])"
    using move_events_no_faults[OF assms(1), of c p] by blast
  have ok1: "incidents_ok db1" by (rule move_events_ok[OF assms(1) m(1)])
  let ?child = "merged_child p child"
  have "get_incident no_faults c db1 = Some child"
    using get_incident_move[OF m(2) assms(4)] assms(2) pids(2) by (simp add: ev1)
  moreover have "inc_id ?child = c" "distinct (inc_event_ids ?child)"
    using pid pids(2) event_ids_distinct[OF assms(1)] by (simp_all add: merged_child_def)
  ultimately obtain db2 where u: "update_incident no_faults ?child db1 = Inr db2" and ok2: "incidents_ok db2"
    and ev2: "\<And>j. event_ids_of j db2 = (if j = c then inc_event_ids ?child else event_ids_of j db1)"
    and g2: "get_incident no_faults c db2 =
       Some (?child\<lparr>inc_tenant_id := inc_tenant_id child, inc_what_changed_confidence := 0\<rparr>)"
    and o2: "\<And>j. j \<noteq> c \<Longrightarrow> get_incident no_faults j db2 = get_incident no_faults j db1"
    using update_no_faults[OF ok1, of c child ?child] by metis
  let ?ids = "event_ids_of p db2"
  let ?parent = "(merged_parent parent ?child)\<lparr>inc_event_ids := ?ids\<rparr>"
  have gp: "get_incident no_faults p db2 = Some (parent\<lparr>inc_event_ids := event_ids_of p db1\<rparr>)"
    using o2[OF assms(2)] get_incident_move[OF m(2) assms(3)] by simp
  have "inc_id ?parent = p" "distinct (inc_event_ids ?parent)"
    using pid event_ids_distinct[OF ok2] by (simp_all add: merged_parent_def Let_def)
  then obtain db3 where v: "update_incident no_faults ?parent db2 = Inr db3" and ok3: "incidents_ok db3"
    and g3: "get_incident no_faults p db3 = Some (?parent\<lparr>inc_tenant_id :=
       inc_tenant_id (parent\<lparr>inc_event_ids := event_ids_of p db1\<rparr>), inc_what_changed_confidence := 0\<rparr>)"
    and o3: "\<And>j. j \<noteq> p \<Longrightarrow> get_incident no_faults j db3 = get_incident no_faults j db2"
    using update_no_faults[OF ok2 gp, of ?parent] by metis
  have "merge_incidents no_faults p c db = (Inr (), db3)"
    using assms(3,4) m(1) u v by (simp add: merge_incidents_def Let_def get_event_ids_def)
  moreover have "parent_effect parent child (?parent\<lparr>inc_tenant_id :=
       inc_tenant_id (parent\<lparr>inc_event_ids := event_ids_of p db1\<rparr>), inc_what_changed_confidence := 0\<rparr>)"
  proof -
    have "set ?ids = set (inc_event_ids parent) \<union> set (inc_event_ids child)"
      using assms(2) pids by (auto simp: ev2 ev1)
    from merged_parent_effect[OF this, of p] show ?thesis by simp
  qed
  moreover have "get_incident no_faults c db3 = Some (?child\<lparr>inc_what_changed_confidence := 0\<rparr>)"
    using g2 o3[of c] assms(2) by (simp add: merged_child_def)
  moreover have "get_incident no_faults j db3 = get_incident no_faults j db" if "j \<noteq> p \<and> j \<noteq> c" for j
    using that o3[of j] o2[of j] by (simp add: get_incident_no_faults m(2) ev1)
  ultimately show ?thesis using ok3 g3 by blast
qed

theorem merge_incidents_exact_witness:
  "let child = one_incident\<lparr>inc_id := ''i2'', inc_tenant_id := ''globex'', inc_severity := ''high''\<rparr>;
       db = \<lparr>db_rows = [one_incident, child], db_links = [(''i1'', ''e1''), (''i2'', ''e2'')], db_slack = []\<rparr>
   in \<exists>db' new. merge_incidents no_faults ''i1'' ''i2'' db = (Inr (), db') \<and>
        get_incident no_faults ''i1'' db' = Some new \<and> set (inc_event_ids new) = {''e1'', ''e2''} \<and>
        map_option inc_event_ids (get_incident no_faults ''i2'' db') = Some [''e2'']"
proof -
  let ?child = "one_incident\<lparr>inc_id := ''i2'', inc_tenant_id := ''globex'', inc_severity := ''high''\<rparr>"
  let ?db = "\<lparr>db_rows = [one_incident, ?child], db_links = [(''i1'', ''e1''), (''i2'', ''e2'')], db_slack = []\<rparr>"
  have ok: "incidents_ok ?db"
    by (simp add: incidents_ok_def pk_def one_incident_def incident_zero_def incident_row_def)
  have p: "get_incident no_faults ''i1'' ?db = Some (one_incident\<lparr>inc_event_ids := [''e1'']\<rparr>)" by code_simp
  have c: "get_incident no_faults ''i2'' ?db = Some (?child\<lparr>inc_event_ids := [''e2'']\<rparr>)" by code_simp
  have "''i1'' \<noteq> ''i2''" by simp
  from merge_incidents_exact[OF ok this p c] obtain db' new where
    "merge_incidents no_faults ''i1'' ''i2'' ?db = (Inr (), db')"
    "get_incident no_faults ''i1'' db' = Some new"
    "parent_effect (one_incident\<lparr>inc_event_ids := [''e1'']\<rparr>) (?child\<lparr>inc_event_ids := [''e2'']\<rparr>) new"
    "get_incident no_faults ''i2'' db' =
       Some ((merged_child ''i1'' (?child\<lparr>inc_event_ids := [''e2'']\<rparr>))\<lparr>inc_what_changed_confidence := 0\<rparr>)"
    by blast
  moreover from this(3) have "set (inc_event_ids new) = {''e1'', ''e2''}"
    by (simp add: parent_effect_def insert_commute)
  ultimately show ?thesis by (simp add: Let_def merged_child_def)
qed

text \<open>C8: what always holds of the running pipeline. Start from well-formed tables and an empty
  mute cache, let alerts, recoveries, operators, the auto-close sweep, incident merges, mutes and
  rules act in any order, each under any faults, while time passes. In every state reached the
  tables are well formed, every incident is open, acknowledged or resolved, and a matching mute
  in force is obeyed whenever the table of mutes can be read, whatever else fails and whatever the
  mute cache holds: the alert is stored like any other but not processed, no incident changes,
  and the match is logged (unless that write fails).\<close>

theorem pipeline_sound:
  assumes "pipeline wi kb now w"
  shows "world_ok w \<and>
    (\<forall>r \<in> set (db_rows (w_incidents w)). inc_status r \<in> {''open'', ''acknowledged'', ''resolved''}) \<and>
    (wi_mutes wi \<and> \<not> flt ''ActiveMutes'' \<and>
     reference_mute (mdb_mutes (ms_repo (w_mutes w))) (with_fingerprint e) now = Some m \<longrightarrow>
       (\<exists>w' n. process_event wi kb flt now e w = (False, w') \<and> w_incidents w' = w_incidents w \<and>
          w_events w' = w_events (store_event flt (with_fingerprint e) w) \<and>
          mdb_log (ms_repo (w_mutes w')) = mdb_log (ms_repo (w_mutes w)) @
            (if flt ''RecordMatch'' then [] else [(mute_entry m (with_fingerprint e) now)\<lparr>ml_id := n\<rparr>])))"
proof -
  have inv: "pipeline_inv now w" by (rule pipeline_invariant[OF assms])
  have "\<exists>w' n. process_event wi kb flt now e w = (False, w') \<and> w_incidents w' = w_incidents w \<and>
          w_events w' = w_events (store_event flt (with_fingerprint e) w) \<and>
          mdb_log (ms_repo (w_mutes w')) = mdb_log (ms_repo (w_mutes w)) @
            (if flt ''RecordMatch'' then [] else [(mute_entry m (with_fingerprint e) now)\<lparr>ml_id := n\<rparr>])"
    if mute: "wi_mutes wi" "\<not> flt ''ActiveMutes''"
      "reference_mute (mdb_mutes (ms_repo (w_mutes w))) (with_fingerprint e) now = Some m"
  proof -
    let ?e = "with_fingerprint e"
    have "mute_store.coherent now (w_mutes w)" using inv by (simp add: pipeline_inv_def)
    moreover obtain ms where "active_mutes flt (ev_tenant_id ?e) now (ms_repo (w_mutes w)) = Inr ms"
      using mute(2) by (simp add: active_mutes_def)
    ultimately obtain st where "mute_check active_mutes record_match flt now ?e (w_mutes w) = (True, st)"
      "case record_match flt (mute_entry m ?e now) (ms_repo (w_mutes w)) of
         Inl _ \<Rightarrow> ms_repo st = ms_repo (w_mutes w) | Inr s' \<Rightarrow> ms_repo st = s'"
      using mute_store.check_obeys mute(3) by blast
    with mute(1) show ?thesis
      by (intro exI[of _ "snd (process_event wi kb flt now e w)"] exI[of _ "mdb_next_log_id (ms_repo (w_mutes w))"])
         (auto simp: process_event_def check_muted_def Let_def record_match_def guard_db_def)
  qed
  with inv show ?thesis by (auto simp: pipeline_inv_def statuses_ok_def status_ok_def)
qed

theorem pipeline_sound_witness:
  "let w = one_incident_world\<lparr>w_mutes := \<lparr>ms_repo = \<lparr>mdb_mutes = [example_mute], mdb_log = [], mdb_next_log_id = 1\<rparr>,
         ms_cache = Map.empty\<rparr>\<rparr>;
       e = example_alert\<lparr>ev_fingerprint := ''f1''\<rparr>
   in pipeline all_wired None 5 w \<and>
      (\<exists>w'. process_event all_wired None (\<lambda>op. op = ''SaveEvent'') 5 e w = (False, w') \<and> w_incidents w' = w_incidents w)"
proof -
  let ?w = "one_incident_world\<lparr>w_mutes := \<lparr>ms_repo = \<lparr>mdb_mutes = [example_mute], mdb_log = [], mdb_next_log_id = 1\<rparr>,
         ms_cache = Map.empty\<rparr>\<rparr>"
  let ?e = "example_alert\<lparr>ev_fingerprint := ''f1''\<rparr>"
  have "world_ok ?w" using one_incident_ok by (simp add: world_ok_def mutes_ok_def pk_def)
  moreover have "\<forall>r \<in> set (db_rows (w_incidents ?w)). inc_status r \<in> {''open'', ''acknowledged'', ''resolved''}"
    by (simp add: one_incident_world_def one_incident_def)
  ultimately have p: "pipeline all_wired None 5 ?w" by (intro pipeline.start) simp_all
  have "reference_mute (mdb_mutes (ms_repo (w_mutes ?w))) (with_fingerprint ?e) 5 \<noteq> None" by code_simp
  then obtain m where "reference_mute (mdb_mutes (ms_repo (w_mutes ?w))) (with_fingerprint ?e) 5 = Some m"
    by blast
  moreover have "wi_mutes all_wired" by (simp add: all_wired_def)
  ultimately have "\<exists>w'. process_event all_wired None (\<lambda>op. op = ''SaveEvent'') 5 ?e ?w = (False, w') \<and> w_incidents w' = w_incidents ?w"
    using pipeline_sound[OF p, of "\<lambda>op. op = ''SaveEvent''" ?e m] by auto
  with p show ?thesis by (simp only: Let_def)
qed

end
