(* ===== verification/Executions.thy ===== *)
theory Executions
  imports GoStrings
begin

text \<open>
  \<open>internal/models/action_execution.go\<close> and \<open>internal/store/action_execution_store.go\<close>: the table
  \<open>action_executions\<close> of remediation actions with its approval workflow. An execution waits for
  approval while its \<open>approval_status\<close> is \<open>pending\<close>.
\<close>

record ActionExecution =
  ax_id :: string
  ax_tenant_id :: string
  ax_incident_id :: string
  ax_action_id :: string
  ax_action_label :: string
  ax_action_desc :: string
  ax_chain_position :: int
  ax_status :: string
  ax_execution_mode :: string
  ax_result_output :: string
  ax_error_message :: string
  ax_started_at :: "time option"
  ax_completed_at :: "time option"
  ax_verified :: bool
  ax_verification_result :: string
  ax_created_at :: time
  ax_requires_approval :: bool
  ax_approval_status :: string
  ax_approved_by :: string
  ax_approved_at :: "time option"
  ax_rejected_by :: string
  ax_rejection_reason :: string
  ax_rollback_ref :: string
  ax_rollback_reason :: string
  ax_rolled_back_by :: string

definition execution_zero :: ActionExecution where
  "execution_zero = \<lparr>ax_id = [], ax_tenant_id = [], ax_incident_id = [], ax_action_id = [],
     ax_action_label = [], ax_action_desc = [], ax_chain_position = 0, ax_status = [],
     ax_execution_mode = [], ax_result_output = [], ax_error_message = [], ax_started_at = None,
     ax_completed_at = None, ax_verified = False, ax_verification_result = [],
     ax_created_at = zero_time, ax_requires_approval = False, ax_approval_status = [],
     ax_approved_by = [], ax_approved_at = None, ax_rejected_by = [], ax_rejection_reason = [],
     ax_rollback_ref = [], ax_rollback_reason = [], ax_rolled_back_by = []\<rparr>"

type_synonym exec_db = "ActionExecution list"

section \<open>The statements\<close>

definition create_execution :: "faults \<Rightarrow> ActionExecution \<Rightarrow> exec_db \<Rightarrow> exec_db result" where
  "create_execution flt e db = guard_db flt ''ActionExecution.Create'' (tbl_insert ax_id e db)"

text \<open>\<open>GetByIncidentID\<close> scans the first sixteen columns.\<close>

definition execution_view :: "ActionExecution \<Rightarrow> ActionExecution" where
  "execution_view e = e\<lparr>ax_requires_approval := False, ax_approval_status := [], ax_approved_by := [],
     ax_approved_at := None, ax_rejected_by := [], ax_rejection_reason := [], ax_rollback_ref := [],
     ax_rollback_reason := [], ax_rolled_back_by := []\<rparr>"

definition executions_of_incident :: "faults \<Rightarrow> string \<Rightarrow> exec_db \<Rightarrow> ActionExecution list result" where
  "executions_of_incident flt iid db = guard_db flt ''ActionExecution.GetByIncidentID''
     (Inr (map execution_view (order_asc ax_chain_position (order_asc ax_created_at
        (filter (\<lambda>e. ax_incident_id e = iid) db)))))"

definition get_execution :: "faults \<Rightarrow> string \<Rightarrow> exec_db \<Rightarrow> ActionExecution option result" where
  "get_execution flt eid db = guard_db flt ''ActionExecution.GetByID'' (Inr (tbl_find ax_id eid db))"

definition update_execution :: "faults \<Rightarrow> ActionExecution \<Rightarrow> exec_db \<Rightarrow> exec_db result" where
  "update_execution flt e db = guard_db flt ''ActionExecution.Update''
     (Inr (tbl_update (\<lambda>r. ax_id r = ax_id e)
        (\<lambda>r. r\<lparr>ax_status := ax_status e, ax_result_output := ax_result_output e,
               ax_error_message := ax_error_message e, ax_started_at := ax_started_at e,
               ax_completed_at := ax_completed_at e, ax_verified := ax_verified e,
               ax_verification_result := ax_verification_result e\<rparr>) db))"

definition approve_execution :: "faults \<Rightarrow> string \<Rightarrow> string \<Rightarrow> time \<Rightarrow> exec_db \<Rightarrow> exec_db result" where
  "approve_execution flt eid approvedBy approvedAt db = guard_db flt ''ActionExecution.Approve''
     (Inr (tbl_update (\<lambda>r. ax_id r = eid \<and> ax_approval_status r = ''pending'')
        (\<lambda>r. r\<lparr>ax_approval_status := ''approved'', ax_approved_by := approvedBy,
               ax_approved_at := Some approvedAt, ax_status := ''approved''\<rparr>) db))"

definition reject_execution :: "faults \<Rightarrow> string \<Rightarrow> string \<Rightarrow> string \<Rightarrow> exec_db \<Rightarrow> exec_db result" where
  "reject_execution flt eid rejectedBy reason db = guard_db flt ''ActionExecution.Reject''
     (Inr (tbl_update (\<lambda>r. ax_id r = eid \<and> ax_approval_status r = ''pending'')
        (\<lambda>r. r\<lparr>ax_approval_status := ''rejected'', ax_rejected_by := rejectedBy,
               ax_rejection_reason := reason, ax_status := ''rejected''\<rparr>) db))"

definition rollback_execution :: "faults \<Rightarrow> string \<Rightarrow> string \<Rightarrow> string \<Rightarrow> string \<Rightarrow> exec_db \<Rightarrow> exec_db result" where
  "rollback_execution flt eid rolledBackBy reason rollbackRef db = guard_db flt ''ActionExecution.Rollback''
     (Inr (tbl_update (\<lambda>r. ax_id r = eid)
        (\<lambda>r. r\<lparr>ax_status := ''rolled_back'', ax_rolled_back_by := rolledBackBy,
               ax_rollback_reason := reason, ax_rollback_ref := rollbackRef\<rparr>) db))"

section \<open>Runs\<close>

text \<open>One successful statement on the table.\<close>

inductive exec_step :: "exec_db \<Rightarrow> exec_db \<Rightarrow> bool" where
  created: "create_execution flt e db = Inr db' \<Longrightarrow> exec_step db db'"
| updated: "update_execution flt e db = Inr db' \<Longrightarrow> exec_step db db'"
| approved: "approve_execution flt i u t db = Inr db' \<Longrightarrow> exec_step db db'"
| rejected: "reject_execution flt i u why db = Inr db' \<Longrightarrow> exec_step db db'"
| rolled_back: "rollback_execution flt i u why ref db = Inr db' \<Longrightarrow> exec_step db db'"

inductive_cases exec_stepE: "exec_step db db'"

abbreviation exec_run :: "exec_db \<Rightarrow> exec_db \<Rightarrow> bool" where "exec_run \<equiv> exec_step\<^sup>*\<^sup>*"

text \<open>What decides the approval of an execution.\<close>

definition approval_of :: "ActionExecution \<Rightarrow> string \<times> string \<times> time option \<times> string \<times> string" where
  "approval_of e = (ax_approval_status e, ax_approved_by e, ax_approved_at e, ax_rejected_by e, ax_rejection_reason e)"

lemma find_guarded_update:
  assumes "\<And>r. ax_id (f r) = ax_id r" and "tbl_find ax_id i db = Some e"
    and "\<And>r. p r \<Longrightarrow> r = e \<Longrightarrow> approval_of (f r) = approval_of r"
  shows "\<exists>e'. tbl_find ax_id i (tbl_update p f db) = Some e' \<and> approval_of e' = approval_of e"
proof -
  have "tbl_find ax_id i (tbl_update p f db) = map_option (\<lambda>r. if p r then f r else r) (tbl_find ax_id i db)"
    by (rule tbl_find_update) (simp add: assms(1))
  with assms(2,3) show ?thesis by auto
qed

lemma exec_step_approval:
  assumes "exec_step db db'" "tbl_find ax_id i db = Some e" "ax_approval_status e \<noteq> ''pending''"
  shows "\<exists>e'. tbl_find ax_id i db' = Some e' \<and> approval_of e' = approval_of e"
  using assms(1)
proof (cases rule: exec_step.cases)
  case (created flt x)
  then have "tbl_insert ax_id x db = Inr db'" by (simp add: create_execution_def)
  from tbl_find_insert[OF this, of i] assms(2) this show ?thesis
    by (auto simp: tbl_insert_Inr tbl_has_iff dest: tbl_find_Some)
next
  case (updated flt x)
  then have "db' = tbl_update (\<lambda>r. ax_id r = ax_id x) (\<lambda>r. r\<lparr>ax_status := ax_status x,
      ax_result_output := ax_result_output x, ax_error_message := ax_error_message x,
      ax_started_at := ax_started_at x, ax_completed_at := ax_completed_at x, ax_verified := ax_verified x,
      ax_verification_result := ax_verification_result x\<rparr>) db" by (simp add: update_execution_def)
  then show ?thesis using assms(2) by (simp only:) (rule find_guarded_update; simp add: approval_of_def)
next
  case (approved flt k u t)
  then have "db' = tbl_update (\<lambda>r. ax_id r = k \<and> ax_approval_status r = ''pending'')
      (\<lambda>r. r\<lparr>ax_approval_status := ''approved'', ax_approved_by := u, ax_approved_at := Some t,
             ax_status := ''approved''\<rparr>) db" by (simp add: approve_execution_def)
  then show ?thesis using assms(2,3) by (simp only:) (rule find_guarded_update; simp add: approval_of_def)
next
  case (rejected flt k u why)
  then have "db' = tbl_update (\<lambda>r. ax_id r = k \<and> ax_approval_status r = ''pending'')
      (\<lambda>r. r\<lparr>ax_approval_status := ''rejected'', ax_rejected_by := u, ax_rejection_reason := why,
             ax_status := ''rejected''\<rparr>) db" by (simp add: reject_execution_def)
  then show ?thesis using assms(2,3) by (simp only:) (rule find_guarded_update; simp add: approval_of_def)
next
  case (rolled_back flt k u why ref)
  then have "db' = tbl_update (\<lambda>r. ax_id r = k) (\<lambda>r. r\<lparr>ax_status := ''rolled_back'',
      ax_rolled_back_by := u, ax_rollback_reason := why, ax_rollback_ref := ref\<rparr>) db"
    by (simp add: rollback_execution_def)
  then show ?thesis using assms(2) by (simp only:) (rule find_guarded_update; simp add: approval_of_def)
qed

lemma exec_step_pk [preserve]: "exec_step db db' \<Longrightarrow> pk ax_id db \<Longrightarrow> pk ax_id db'"
  by (erule exec_stepE)
     (auto simp: create_execution_def update_execution_def approve_execution_def reject_execution_def
        rollback_execution_def intro: pk_insert intro!: pk_update)

lemma exec_run_approval:
  assumes "exec_run db db'" and "tbl_find ax_id i db = Some e" and "ax_approval_status e \<noteq> ''pending''"
  shows "\<exists>e'. tbl_find ax_id i db' = Some e' \<and> approval_of e' = approval_of e"
  using assms
proof (induction rule: rtranclp_induct)
  case base
  then show ?case by simp
next
  case (step y z)
  then obtain e' where e': "tbl_find ax_id i y = Some e'" "approval_of e' = approval_of e" by blast
  then have "ax_approval_status e' \<noteq> ''pending''" using step.prems by (simp add: approval_of_def)
  from exec_step_approval[OF step.hyps(2) e'(1) this] e'(2) show ?case by simp
qed

section \<open>Properties\<close>

text \<open>An approval is decided once. When an execution is no longer pending, no sequence of
  creations, updates, approvals, rejections and rollbacks, of this or of any other execution, ever
  changes its approval status, its approver, its rejecter or the reason, and the execution is never
  lost; a second approval or a rejection that comes too late changes nothing.\<close>

theorem approval_decided_once:
  assumes "exec_run db db'" and "tbl_find ax_id i db = Some e" and "ax_approval_status e \<noteq> ''pending''"
  shows "\<exists>e'. tbl_find ax_id i db' = Some e' \<and> ax_approval_status e' = ax_approval_status e \<and>
     ax_approved_by e' = ax_approved_by e \<and> ax_approved_at e' = ax_approved_at e \<and>
     ax_rejected_by e' = ax_rejected_by e \<and> ax_rejection_reason e' = ax_rejection_reason e"
  using exec_run_approval[OF assms] by (auto simp: approval_of_def)

theorem approval_decided_once_witness:
  "let e = execution_zero\<lparr>ax_id := ''x1'', ax_approval_status := ''pending''\<rparr> in
   \<exists>db1 db2 e'. approve_execution no_faults ''x1'' ''ann'' 5 [e] = Inr db1 \<and>
     reject_execution no_faults ''x1'' ''bob'' ''late'' db1 = Inr db2 \<and>
     tbl_find ax_id ''x1'' db2 = Some e' \<and> ax_approval_status e' = ''approved'' \<and> ax_approved_by e' = ''ann''"
proof -
  let ?e = "execution_zero\<lparr>ax_id := ''x1'', ax_approval_status := ''pending''\<rparr>"
  let ?a = "?e\<lparr>ax_approval_status := ''approved'', ax_approved_by := ''ann'', ax_approved_at := Some 5,
      ax_status := ''approved''\<rparr>"
  have a: "approve_execution no_faults ''x1'' ''ann'' 5 [?e] = Inr [?a]"
    by (simp add: approve_execution_def)
  obtain db2 where r: "reject_execution no_faults ''x1'' ''bob'' ''late'' [?a] = Inr db2"
    by (simp add: reject_execution_def)
  have f: "tbl_find ax_id ''x1'' [?a] = Some ?a" by simp
  have "ax_approval_status ?a \<noteq> ''pending''" by simp
  from approval_decided_once[OF r_into_rtranclp[of exec_step, OF exec_step.rejected[OF r]] f this] a r
  show ?thesis by (auto simp: Let_def)
qed

end
