(* ===== verification/PolicyStore.thy ===== *)
theory PolicyStore
  imports EventStore Executions
begin

text \<open>
  \<open>internal/models/policy.go\<close> with the stores \<open>policy_store.go\<close>, \<open>circuit_breaker_store.go\<close> and
  \<open>policy_execution_trail_store.go\<close>: execution policies, the state of their circuit breakers, and
  the append-only trail of evaluations. A JSON column holds the value it encodes.
\<close>

section \<open>The data\<close>

record ExecutionPolicy =
  po_id :: string
  po_tenant_id :: string
  po_name :: string
  po_enabled :: bool
  po_priority :: int
  po_service :: string
  po_environment :: string
  po_severity :: string
  po_execution_mode :: string
  po_requires_approval :: bool
  po_approval_groups :: string
  po_approval_timeout_minutes :: int
  po_blackout_start :: string
  po_blackout_end :: string
  po_business_hours_start :: string
  po_business_hours_end :: string
  po_business_hours_timezone :: string
  po_enforce_business_hours :: bool
  po_max_per_hour :: int
  po_max_concurrent_actions :: int
  po_max_impacted_services :: int
  po_max_retries :: int
  po_retry_strategy :: string
  po_retry_backoff_seconds :: int
  po_cooldown_seconds :: int
  po_timeout_seconds :: int
  po_circuit_breaker_enabled :: bool
  po_circuit_breaker_threshold :: int
  po_circuit_breaker_window_seconds :: int
  po_circuit_breaker_cooldown_minutes :: int
  po_simulation_mode :: bool
  po_dry_run_mode :: bool
  po_rollback_webhook_url :: string
  po_rollback_script_ref :: string
  po_created_at :: time
  po_updated_at :: time

definition policy_zero :: ExecutionPolicy where
  "policy_zero = \<lparr>po_id = [], po_tenant_id = [], po_name = [], po_enabled = False, po_priority = 0,
     po_service = [], po_environment = [], po_severity = [], po_execution_mode = [],
     po_requires_approval = False, po_approval_groups = [], po_approval_timeout_minutes = 0,
     po_blackout_start = [], po_blackout_end = [], po_business_hours_start = [],
     po_business_hours_end = [], po_business_hours_timezone = [], po_enforce_business_hours = False,
     po_max_per_hour = 0, po_max_concurrent_actions = 0, po_max_impacted_services = 0,
     po_max_retries = 0, po_retry_strategy = [], po_retry_backoff_seconds = 0,
     po_cooldown_seconds = 0, po_timeout_seconds = 0, po_circuit_breaker_enabled = False,
     po_circuit_breaker_threshold = 0, po_circuit_breaker_window_seconds = 0,
     po_circuit_breaker_cooldown_minutes = 0, po_simulation_mode = False, po_dry_run_mode = False,
     po_rollback_webhook_url = [], po_rollback_script_ref = [], po_created_at = zero_time,
     po_updated_at = zero_time\<rparr>"

definition approval_group_list :: "ExecutionPolicy \<Rightarrow> string list" where
  "approval_group_list p =
    (if po_approval_groups p = [] then []
     else filter (\<lambda>t. t \<noteq> []) (map trim_space (split_char CHR '','' (po_approval_groups p))))"

record PolicyEvalContext =
  pc_tenant_id :: string
  pc_incident_id :: string
  pc_action_id :: string
  pc_service :: string
  pc_environment :: string
  pc_severity :: string
  pc_impacted_services :: int
  pc_actor :: string
  pc_is_dry_run :: bool

text \<open>\<open>models.PolicyDecision\<close>.\<close>

record ExecutionDecision =
  ed_allowed :: bool
  ed_execution_mode :: string
  ed_reason :: string
  ed_policy_id :: string
  ed_is_simulation :: bool
  ed_is_dry_run :: bool
  ed_requires_approval :: bool
  ed_approval_groups :: "string list"
  ed_approval_timeout :: int
  ed_trail_id :: string
  ed_circuit_open :: bool
  ed_denial_code :: string

definition decision_zero :: ExecutionDecision where
  "decision_zero = \<lparr>ed_allowed = False, ed_execution_mode = [], ed_reason = [], ed_policy_id = [],
     ed_is_simulation = False, ed_is_dry_run = False, ed_requires_approval = False,
     ed_approval_groups = [], ed_approval_timeout = 0, ed_trail_id = [], ed_circuit_open = False,
     ed_denial_code = []\<rparr>"

record PolicyExecutionTrail =
  tr_id :: string
  tr_tenant_id :: string
  tr_policy_id :: string
  tr_policy_name :: string
  tr_incident_id :: string
  tr_action_id :: string
  tr_service :: string
  tr_environment :: string
  tr_severity :: string
  tr_decision :: string
  tr_denial_code :: string
  tr_execution_mode :: string
  tr_reason :: string
  tr_is_simulation :: bool
  tr_is_dry_run :: bool
  tr_actor :: string
  tr_context :: PolicyEvalContext
  tr_evaluated_at :: time

record CircuitBreakerState =
  cb_policy_id :: string
  cb_tenant_id :: string
  cb_is_open :: bool
  cb_consecutive_failures :: int
  cb_last_failure_at :: "time option"
  cb_opened_at :: "time option"
  cb_will_reset_at :: "time option"
  cb_updated_at :: time

record policy_db =
  pdb_policies :: "ExecutionPolicy list"
  pdb_breakers :: "CircuitBreakerState list"
  pdb_trail :: "PolicyExecutionTrail list"
  pdb_executions :: exec_db

section \<open>Policies\<close>

definition create_policy_row :: "faults \<Rightarrow> ExecutionPolicy \<Rightarrow> policy_db \<Rightarrow> policy_db result" where
  "create_policy_row flt p db = guard_db flt ''Policy.Create''
     (case tbl_insert po_id p (pdb_policies db) of
        Inl e \<Rightarrow> Inl e | Inr ps \<Rightarrow> Inr (db\<lparr>pdb_policies := ps\<rparr>))"

text \<open>Every column but the ID, the tenant and the creation time.\<close>

definition update_policy_row :: "faults \<Rightarrow> ExecutionPolicy \<Rightarrow> policy_db \<Rightarrow> policy_db result" where
  "update_policy_row flt p db = guard_db flt ''Policy.Update''
     (Inr (db\<lparr>pdb_policies := tbl_update (\<lambda>q. po_id q = po_id p)
        (\<lambda>q. p\<lparr>po_tenant_id := po_tenant_id q, po_created_at := po_created_at q\<rparr>) (pdb_policies db)\<rparr>))"

definition delete_policy_row :: "faults \<Rightarrow> string \<Rightarrow> policy_db \<Rightarrow> policy_db result" where
  "delete_policy_row flt i db = guard_db flt ''Policy.Delete''
     (Inr (db\<lparr>pdb_policies := tbl_delete (\<lambda>p. po_id p = i) (pdb_policies db)\<rparr>))"

definition by_priority :: "ExecutionPolicy list \<Rightarrow> ExecutionPolicy list" where
  "by_priority ps = order_desc po_priority (order_desc po_created_at ps)"

definition get_policies :: "faults \<Rightarrow> string \<Rightarrow> int \<Rightarrow> int \<Rightarrow> policy_db \<Rightarrow> ExecutionPolicy list result" where
  "get_policies flt tenant limit offset db = guard_db flt ''GetPolicies''
     (Inr (take (nat (clamp_limit limit)) (drop (nat (if offset < 0 then 0 else offset))
        (by_priority (filter (\<lambda>p. po_tenant_id p = tenant) (pdb_policies db))))))"

definition get_policy_by_id :: "faults \<Rightarrow> string \<Rightarrow> policy_db \<Rightarrow> ExecutionPolicy option result" where
  "get_policy_by_id flt i db = guard_db flt ''GetPolicyByID'' (Inr (tbl_find po_id i (pdb_policies db)))"

definition policy_matches :: "string \<Rightarrow> string \<Rightarrow> string \<Rightarrow> ExecutionPolicy \<Rightarrow> bool" where
  "policy_matches service environment severity p \<longleftrightarrow>
     (po_service p = [] \<or> po_service p = service) \<and>
     (po_environment p = [] \<or> po_environment p = environment) \<and>
     (po_severity p = [] \<or> po_severity p = severity)"

definition policy_score :: "ExecutionPolicy \<Rightarrow> int" where
  "policy_score p = (if po_service p \<noteq> [] then 4 else 0) + (if po_environment p \<noteq> [] then 2 else 0) +
     (if po_severity p \<noteq> [] then 1 else 0)"

text \<open>The loop of \<open>FindMatchingPolicy\<close> with its best policy so far and the score of that.\<close>

definition pick_policy :: "string \<Rightarrow> string \<Rightarrow> string \<Rightarrow> ExecutionPolicy \<Rightarrow>
    ExecutionPolicy option \<times> int \<Rightarrow> ExecutionPolicy option \<times> int" where
  "pick_policy service environment severity p best =
    (if policy_matches service environment severity p \<and> snd best < policy_score p
     then (Some p, policy_score p) else best)"

definition find_matching_policy ::
    "faults \<Rightarrow> string \<Rightarrow> string \<Rightarrow> string \<Rightarrow> string \<Rightarrow> policy_db \<Rightarrow> ExecutionPolicy option result" where
  "find_matching_policy flt tenant service environment severity db = guard_db flt ''FindMatchingPolicy''
     (Inr (fst (fold (pick_policy service environment severity)
        (by_priority (filter (\<lambda>p. po_tenant_id p = tenant \<and> po_enabled p) (pdb_policies db))) (None, -1))))"

definition count_recent_executions :: "faults \<Rightarrow> string \<Rightarrow> time \<Rightarrow> policy_db \<Rightarrow> nat result" where
  "count_recent_executions flt tenant since db = guard_db flt ''CountRecentExecutions''
     (Inr (length (filter (\<lambda>e. ax_tenant_id e = tenant \<and> since \<le> ax_created_at e) (pdb_executions db))))"

definition count_running_executions :: "faults \<Rightarrow> string \<Rightarrow> policy_db \<Rightarrow> nat result" where
  "count_running_executions flt tenant db = guard_db flt ''CountRunningExecutions''
     (Inr (length (filter (\<lambda>e. ax_tenant_id e = tenant \<and>
        ax_status e \<in> {''running'', ''pending_approval'', ''approved''}) (pdb_executions db))))"

section \<open>Circuit breakers\<close>

definition get_breaker :: "faults \<Rightarrow> string \<Rightarrow> policy_db \<Rightarrow> CircuitBreakerState option result" where
  "get_breaker flt pid db = guard_db flt ''CircuitBreaker.Get'' (Inr (tbl_find cb_policy_id pid (pdb_breakers db)))"

definition get_breakers :: "faults \<Rightarrow> string \<Rightarrow> policy_db \<Rightarrow> CircuitBreakerState list result" where
  "get_breakers flt tenant db = guard_db flt ''CircuitBreaker.GetByTenant''
     (Inr (order_desc (\<lambda>b. if cb_is_open b then 1 else 0) (order_desc cb_consecutive_failures
        (filter (\<lambda>b. cb_tenant_id b = tenant) (pdb_breakers db)))))"

definition fresh_breaker :: "time \<Rightarrow> string \<Rightarrow> string \<Rightarrow> int \<Rightarrow> CircuitBreakerState" where
  "fresh_breaker now pid tenant failures = \<lparr>cb_policy_id = pid, cb_tenant_id = tenant, cb_is_open = False,
     cb_consecutive_failures = failures, cb_last_failure_at = None, cb_opened_at = None,
     cb_will_reset_at = None, cb_updated_at = now\<rparr>"

definition failed_breaker :: "time \<Rightarrow> int \<Rightarrow> int \<Rightarrow> CircuitBreakerState \<Rightarrow> CircuitBreakerState" where
  "failed_breaker now threshold cooldownMinutes b =
    (let n = cb_consecutive_failures b + 1; opens = (threshold \<le> n \<and> \<not> cb_is_open b) in
     b\<lparr>cb_consecutive_failures := n, cb_last_failure_at := Some now, cb_updated_at := now,
       cb_is_open := (if threshold \<le> n then True else cb_is_open b),
       cb_opened_at := (if opens then Some now else cb_opened_at b),
       cb_will_reset_at := (if opens then Some (now + cooldownMinutes * minute) else cb_will_reset_at b)\<rparr>)"

definition record_failure ::
    "faults \<Rightarrow> time \<Rightarrow> string \<Rightarrow> string \<Rightarrow> int \<Rightarrow> int \<Rightarrow> policy_db \<Rightarrow> policy_db result" where
  "record_failure flt now pid tenant threshold cooldownMinutes db = guard_db flt ''RecordFailure''
     (Inr (db\<lparr>pdb_breakers := tbl_upsert cb_policy_id (failed_breaker now threshold cooldownMinutes)
        ((fresh_breaker now pid tenant 1)\<lparr>cb_last_failure_at := Some now\<rparr>) (pdb_breakers db)\<rparr>))"

definition record_success :: "faults \<Rightarrow> time \<Rightarrow> string \<Rightarrow> string \<Rightarrow> policy_db \<Rightarrow> policy_db result" where
  "record_success flt now pid tenant db = guard_db flt ''RecordSuccess''
     (Inr (db\<lparr>pdb_breakers := tbl_upsert cb_policy_id
        (\<lambda>b. b\<lparr>cb_consecutive_failures := 0, cb_updated_at := now\<rparr>)
        (fresh_breaker now pid tenant 0) (pdb_breakers db)\<rparr>))"

definition closed_breaker :: "time \<Rightarrow> CircuitBreakerState \<Rightarrow> CircuitBreakerState" where
  "closed_breaker now b = b\<lparr>cb_is_open := False, cb_consecutive_failures := 0, cb_opened_at := None,
     cb_will_reset_at := None, cb_updated_at := now\<rparr>"

definition reset_breaker :: "faults \<Rightarrow> time \<Rightarrow> string \<Rightarrow> string \<Rightarrow> policy_db \<Rightarrow> policy_db result" where
  "reset_breaker flt now pid tenant db = guard_db flt ''CircuitBreaker.Reset''
     (Inr (db\<lparr>pdb_breakers := tbl_upsert cb_policy_id (closed_breaker now)
        (fresh_breaker now pid tenant 0) (pdb_breakers db)\<rparr>))"

text \<open>A comparison with a \<open>NULL\<close> reset time is not true.\<close>

definition reset_is_due :: "time \<Rightarrow> CircuitBreakerState \<Rightarrow> bool" where
  "reset_is_due now b \<longleftrightarrow> cb_is_open b \<and> (case cb_will_reset_at b of None \<Rightarrow> False | Some t \<Rightarrow> t \<le> now)"

definition auto_reset :: "faults \<Rightarrow> time \<Rightarrow> string \<Rightarrow> policy_db \<Rightarrow> policy_db result" where
  "auto_reset flt now pid db = guard_db flt ''AutoReset''
     (Inr (db\<lparr>pdb_breakers := tbl_update (\<lambda>b. cb_policy_id b = pid \<and> reset_is_due now b) (closed_breaker now)
        (pdb_breakers db)\<rparr>))"

section \<open>The trail\<close>

definition append_trail :: "faults \<Rightarrow> PolicyExecutionTrail \<Rightarrow> policy_db \<Rightarrow> policy_db result" where
  "append_trail flt t db = guard_db flt ''Trail.Append''
     (case tbl_insert tr_id t (pdb_trail db) of Inl e \<Rightarrow> Inl e | Inr ts \<Rightarrow> Inr (db\<lparr>pdb_trail := ts\<rparr>))"

definition trail_by_policy :: "faults \<Rightarrow> string \<Rightarrow> int \<Rightarrow> policy_db \<Rightarrow> PolicyExecutionTrail list result" where
  "trail_by_policy flt pid limit db = guard_db flt ''Trail.GetByPolicy''
     (Inr (take (nat (if limit \<le> 0 then 50 else limit)) (order_desc tr_evaluated_at
        (filter (\<lambda>t. tr_policy_id t = pid) (pdb_trail db)))))"

definition trail_by_tenant :: "faults \<Rightarrow> string \<Rightarrow> int \<Rightarrow> policy_db \<Rightarrow> PolicyExecutionTrail list result" where
  "trail_by_tenant flt tenant limit db = guard_db flt ''Trail.GetByTenant''
     (Inr (take (nat (if limit \<le> 0 then 100 else limit)) (order_desc tr_evaluated_at
        (filter (\<lambda>t. tr_tenant_id t = tenant) (pdb_trail db)))))"

definition trail_by_incident :: "faults \<Rightarrow> string \<Rightarrow> policy_db \<Rightarrow> PolicyExecutionTrail list result" where
  "trail_by_incident flt iid db = guard_db flt ''Trail.GetByIncident''
     (Inr (order_desc tr_evaluated_at (filter (\<lambda>t. tr_incident_id t = iid) (pdb_trail db))))"

section \<open>The choice of a policy\<close>

text \<open>What \<open>FindMatchingPolicy\<close> maximises, in lexicographic order.\<close>

datatype policy_rank = Rank (rank_score: int) (rank_priority: int) (rank_created: time)

instantiation policy_rank :: linorder
begin

definition less_eq_policy_rank :: "policy_rank \<Rightarrow> policy_rank \<Rightarrow> bool" where
  "less_eq_policy_rank a b \<longleftrightarrow> rank_score a < rank_score b \<or> rank_score a = rank_score b \<and>
     (rank_priority a < rank_priority b \<or> rank_priority a = rank_priority b \<and> rank_created a \<le> rank_created b)"

definition less_policy_rank :: "policy_rank \<Rightarrow> policy_rank \<Rightarrow> bool" where
  "less_policy_rank a b \<longleftrightarrow> a \<le> b \<and> \<not> b \<le> (a::policy_rank)"

instance
proof
  fix a b c :: policy_rank
  show "a < b \<longleftrightarrow> a \<le> b \<and> \<not> b \<le> a" by (rule less_policy_rank_def)
  show "a \<le> a" by (simp add: less_eq_policy_rank_def)
  show "a \<le> b \<Longrightarrow> b \<le> c \<Longrightarrow> a \<le> c" by (auto simp: less_eq_policy_rank_def)
  show "a \<le> b \<Longrightarrow> b \<le> a \<Longrightarrow> a = b" by (cases a; cases b) (auto simp: less_eq_policy_rank_def)
  show "a \<le> b \<or> b \<le> a" by (auto simp: less_eq_policy_rank_def)
qed

end

definition policy_rank_of :: "ExecutionPolicy \<Rightarrow> policy_rank" where
  "policy_rank_of p = Rank (policy_score p) (po_priority p) (po_created_at p)"

lemma order_desc_stable:
  assumes "sorted_wrt (\<lambda>x y. f y \<le> f x) xs"
  shows "sorted_wrt (\<lambda>x y. g y < g x \<or> g y = g x \<and> f y \<le> f x) (order_desc g xs)"
proof -
  let ?ys = "order_desc g xs"
  have s: "sorted_wrt (\<lambda>x y. g y \<le> g x) ?ys"
    using sorted_sort_key[of "\<lambda>r. - g r" xs] by (simp add: order_desc_def sorted_map)
  have k: "sorted_wrt (\<lambda>x y. f y \<le> f x) (filter (\<lambda>y. g y = k) ?ys)" for k
  proof -
    have "filter (\<lambda>y. - g y = - k) ?ys = filter (\<lambda>y. - g y = - k) xs"
      unfolding order_desc_def by (rule sort_key_stable)
    then show ?thesis using sorted_wrt_filter[OF assms, of "\<lambda>y. g y = k"] by simp
  qed
  show ?thesis
  proof (rule sorted_wrt_iff_nth_less[THEN iffD2], intro allI impI)
    fix i j assume ij: "i < j" "j < length ?ys"
    have "?ys = take j ?ys @ ?ys ! j # drop (Suc j) ?ys" using ij(2) by (rule id_take_nth_drop)
    then have "filter (\<lambda>y. g y = g (?ys ! j)) ?ys =
        filter (\<lambda>y. g y = g (?ys ! j)) (take j ?ys) @ ?ys ! j # filter (\<lambda>y. g y = g (?ys ! j)) (drop (Suc j) ?ys)"
      by (metis (mono_tags, lifting) filter.simps(2) filter_append)
    with k[of "g (?ys ! j)"] have "\<forall>x \<in> set (filter (\<lambda>y. g y = g (?ys ! j)) (take j ?ys)). f (?ys ! j) \<le> f x"
      by (simp add: sorted_wrt_append)
    moreover have "?ys ! i \<in> set (take j ?ys)"
      using ij by (auto simp: in_set_conv_nth intro!: exI[of _ i])
    moreover have "g (?ys ! j) \<le> g (?ys ! i)" using s ij by (simp add: sorted_wrt_iff_nth_less)
    ultimately show "g (?ys ! j) < g (?ys ! i) \<or> g (?ys ! j) = g (?ys ! i) \<and> f (?ys ! j) \<le> f (?ys ! i)"
      by auto
  qed
qed

lemma by_priority_sorted:
  "sorted_wrt (\<lambda>x y. po_priority y < po_priority x \<or> po_priority y = po_priority x \<and> po_created_at y \<le> po_created_at x)
     (by_priority ps)"
  unfolding by_priority_def
proof (rule order_desc_stable)
  show "sorted_wrt (\<lambda>x y. po_created_at y \<le> po_created_at x) (order_desc po_created_at ps)"
    using sorted_sort_key[of "\<lambda>r. - po_created_at r" ps] by (simp add: order_desc_def sorted_map)
qed

text \<open>The loop finds the first matching policy of the highest score.\<close>

lemma pick_policy_fold:
  "case fold (pick_policy sv env sev) ps (None, -1) of
     (None, k) \<Rightarrow> k = -1 \<and> (\<forall>q \<in> set ps. \<not> policy_matches sv env sev q)
   | (Some p, k) \<Rightarrow> k = policy_score p \<and> policy_matches sv env sev p \<and>
       (\<exists>ys zs. ps = ys @ p # zs \<and>
          (\<forall>q \<in> set ys. policy_matches sv env sev q \<longrightarrow> policy_score q < policy_score p) \<and>
          (\<forall>q \<in> set zs. policy_matches sv env sev q \<longrightarrow> policy_score q \<le> policy_score p))"
proof (induction ps rule: rev_induct)
  case Nil
  then show ?case by simp
next
  case (snoc x ps)
  obtain b k where b: "fold (pick_policy sv env sev) ps (None, -1) = (b, k)" by (meson surj_pair)
  have last_step: "fold (pick_policy sv env sev) (ps @ [x]) (None, -1) =
      (if policy_matches sv env sev x \<and> k < policy_score x then (Some x, policy_score x) else (b, k))"
    using b by (simp add: pick_policy_def[of sv env sev x])
  show ?case
  proof (cases b)
    case None
    have pos: "-1 < policy_score x" by (simp add: policy_score_def)
    have n: "k = -1" "\<forall>q \<in> set ps. \<not> policy_matches sv env sev q"
      using snoc unfolding b None by auto
    have "\<exists>ys zs. ps @ [x] = ys @ x # zs \<and>
        (\<forall>q \<in> set ys. policy_matches sv env sev q \<longrightarrow> policy_score q < policy_score x) \<and>
        (\<forall>q \<in> set zs. policy_matches sv env sev q \<longrightarrow> policy_score q \<le> policy_score x)"
      by (rule exI[of _ ps], rule exI[of _ "[]"]) (simp add: n(2))
    then show ?thesis unfolding last_step using n pos None by (simp split: if_split)
  next
    case (Some p)
    from snoc b Some obtain ys zs where o: "k = policy_score p" "policy_matches sv env sev p" "ps = ys @ p # zs"
      "\<forall>q \<in> set ys. policy_matches sv env sev q \<longrightarrow> policy_score q < policy_score p"
      "\<forall>q \<in> set zs. policy_matches sv env sev q \<longrightarrow> policy_score q \<le> policy_score p" by auto
    show ?thesis
    proof (cases "policy_matches sv env sev x \<and> k < policy_score x")
      case True
      have "\<forall>q \<in> set ps. policy_matches sv env sev q \<longrightarrow> policy_score q < policy_score x"
        using o True by fastforce
      with True show ?thesis unfolding last_step
        by simp (rule exI[of _ ps], rule exI[of _ "[]"], simp)
    next
      case False
      have "\<exists>ys' zs'. ps @ [x] = ys' @ p # zs' \<and>
          (\<forall>q \<in> set ys'. policy_matches sv env sev q \<longrightarrow> policy_score q < policy_score p) \<and>
          (\<forall>q \<in> set zs'. policy_matches sv env sev q \<longrightarrow> policy_score q \<le> policy_score p)"
        using o False by (intro exI[of _ ys] exI[of _ "zs @ [x]"]) auto
      with Some o(1,2) show ?thesis unfolding last_step if_not_P[OF False] by simp
    qed
  qed
qed

section \<open>Properties\<close>

definition eligible_policy :: "string \<Rightarrow> string \<Rightarrow> string \<Rightarrow> string \<Rightarrow> ExecutionPolicy \<Rightarrow> bool" where
  "eligible_policy tenant sv env sev p \<longleftrightarrow>
     po_tenant_id p = tenant \<and> po_enabled p \<and> policy_matches sv env sev p"

lemma found_policy_in_loop:
  assumes "find_matching_policy flt tenant sv env sev db = Inr (Some p)"
  shows "p \<in> set (pdb_policies db) \<and> eligible_policy tenant sv env sev p"
proof -
  let ?ts = "filter (\<lambda>p. po_tenant_id p = tenant \<and> po_enabled p) (pdb_policies db)"
  obtain k where f: "fold (pick_policy sv env sev) (by_priority ?ts) (None, -1) = (Some p, k)"
    using assms by (cases "fold (pick_policy sv env sev) (by_priority ?ts) (None, -1)") (simp add: find_matching_policy_def)
  from pick_policy_fold[where sv = sv and env = env and sev = sev and ps = "by_priority ?ts"] f
  have m: "policy_matches sv env sev p" "\<exists>ys zs. by_priority ?ts = ys @ p # zs" by auto
  then have "p \<in> set (by_priority ?ts)" by auto
  with m(1) show ?thesis by (simp add: by_priority_def eligible_policy_def)
qed

lemmas found_policy_eligible = found_policy_in_loop[THEN conjunct1] found_policy_in_loop[THEN conjunct2]

text \<open>The policy of an execution. \<open>FindMatchingPolicy\<close> returns no policy exactly when no
  enabled policy of the tenant matches the service, the environment and the severity; otherwise it
  returns one of the tenant's own enabled matching policies, and no other one of these is more
  specific, nor as specific with a higher priority, nor equal in both and newer.\<close>

theorem find_matching_policy_best:
  assumes "find_matching_policy flt tenant sv env sev db = Inr r"
  shows "case r of
     None \<Rightarrow> filter (eligible_policy tenant sv env sev) (pdb_policies db) = []
   | Some p \<Rightarrow> p \<in> set (filter (eligible_policy tenant sv env sev) (pdb_policies db)) \<and>
       Max (set (map policy_rank_of (filter (eligible_policy tenant sv env sev) (pdb_policies db)))) = policy_rank_of p"
proof -
  let ?ts = "filter (\<lambda>p. po_tenant_id p = tenant \<and> po_enabled p) (pdb_policies db)"
  let ?ps = "by_priority ?ts"
  have set_ps: "set ?ps = set ?ts" by (simp add: by_priority_def)
  obtain k where f: "fold (pick_policy sv env sev) ?ps (None, -1) = (r, k)"
    using assms by (cases "fold (pick_policy sv env sev) ?ps (None, -1)") (simp add: find_matching_policy_def)
  show ?thesis
  proof (cases r)
    case None
    with pick_policy_fold[where sv = sv and env = env and sev = sev and ps = ?ps] f have "\<forall>q \<in> set ?ps. \<not> policy_matches sv env sev q" by simp
    with None set_ps show ?thesis by (auto simp: filter_empty_conv eligible_policy_def)
  next
    case (Some p)
    with pick_policy_fold[where sv = sv and env = env and sev = sev and ps = ?ps] f obtain ys zs where o:
      "policy_matches sv env sev p" "?ps = ys @ p # zs"
      "\<forall>q \<in> set ys. policy_matches sv env sev q \<longrightarrow> policy_score q < policy_score p"
      "\<forall>q \<in> set zs. policy_matches sv env sev q \<longrightarrow> policy_score q \<le> policy_score p" by auto
    have "p \<in> set ?ts" using o(2) set_ps by (metis in_set_conv_decomp)
    then have p: "p \<in> set (filter (eligible_policy tenant sv env sev) (pdb_policies db))"
      using o(1) by (simp add: eligible_policy_def)
    have after: "\<forall>q \<in> set zs. po_priority q < po_priority p \<or> po_priority q = po_priority p \<and> po_created_at q \<le> po_created_at p"
      using by_priority_sorted[of ?ts] o(2) by (simp add: sorted_wrt_append)
    have "policy_rank_of q \<le> policy_rank_of p"
      if "q \<in> set (filter (eligible_policy tenant sv env sev) (pdb_policies db))" for q
    proof -
      have m: "policy_matches sv env sev q" using that by (simp add: eligible_policy_def)
      have "q \<in> set ?ps" using that set_ps by (simp add: eligible_policy_def)
      then have "q \<in> set ys \<or> q = p \<or> q \<in> set zs" using o(2) by auto
      then show ?thesis using o(3,4) after m
        by (fastforce simp: policy_rank_of_def less_eq_policy_rank_def)
    qed
    then have "Max (set (map policy_rank_of (filter (eligible_policy tenant sv env sev) (pdb_policies db)))) = policy_rank_of p"
      using p by (intro Max_eqI) auto
    with Some p show ?thesis by simp
  qed
qed

theorem find_matching_policy_best_witness:
  "let a = policy_zero\<lparr>po_id := ''a'', po_tenant_id := ''t'', po_enabled := True, po_priority := 9\<rparr>;
       b = policy_zero\<lparr>po_id := ''b'', po_tenant_id := ''t'', po_enabled := True, po_service := ''pay''\<rparr>;
       db = \<lparr>pdb_policies = [a, b], pdb_breakers = [], pdb_trail = [], pdb_executions = []\<rparr>
   in find_matching_policy no_faults ''t'' ''pay'' ''prod'' ''high'' db = Inr (Some b) \<and>
      Max (set (map policy_rank_of (filter (eligible_policy ''t'' ''pay'' ''prod'' ''high'') (pdb_policies db)))) = policy_rank_of b"
proof -
  let ?a = "policy_zero\<lparr>po_id := ''a'', po_tenant_id := ''t'', po_enabled := True, po_priority := 9\<rparr>"
  let ?b = "policy_zero\<lparr>po_id := ''b'', po_tenant_id := ''t'', po_enabled := True, po_service := ''pay''\<rparr>"
  let ?db = "\<lparr>pdb_policies = [?a, ?b], pdb_breakers = [], pdb_trail = [], pdb_executions = []\<rparr>"
  have r: "find_matching_policy no_faults ''t'' ''pay'' ''prod'' ''high'' ?db = Inr (Some ?b)" by code_simp
  from find_matching_policy_best[OF r] r show ?thesis by (simp only: Let_def option.case simp_thms)
qed

end
