(* ===== verification/PolicyEngine.thy ===== *)
theory PolicyEngine
  imports PolicyStore "HOL-Library.Word"
begin

text \<open>
  \<open>internal/services/policy_service.go\<close>: the evaluation of execution policies. \<open>evaluate\<close> is
  \<open>Evaluate\<close>, which closes an elapsed circuit breaker, writes the trail and decides; \<open>simulate\<close> is
  \<open>Simulate\<close>, which only reads. The time zone database is not part of the source: it is the
  argument \<open>zones\<close>, giving for a zone name its offset from UTC at a time, or \<open>None\<close> for a name it
  does not know. A service has a trail store or not (\<open>trailed\<close>). One evaluation reads the clock
  once.
\<close>

section \<open>Time windows\<close>

type_synonym zone_db = "string \<Rightarrow> (time \<Rightarrow> duration) option"

text \<open>\<open>time.LoadLocation\<close> as the code uses it: UTC by name, and UTC for an unknown name.\<close>

definition zone_offset :: "zone_db \<Rightarrow> string \<Rightarrow> time \<Rightarrow> duration" where
  "zone_offset zones name t =
    (if name = [] \<or> name = ''UTC'' then 0
     else case zones name of None \<Rightarrow> 0 | Some f \<Rightarrow> f t)"

definition minute_of_day :: "zone_db \<Rightarrow> string \<Rightarrow> time \<Rightarrow> int" where
  "minute_of_day zones name t = ((t + zone_offset zones name t) div minute) mod 1440"

text \<open>\<open>%d\<close> of \<open>fmt.Sscanf\<close>: blanks but no line break, an optional sign, digits of a 64-bit integer.
  What follows the last number is ignored.\<close>

definition scan_blanks :: "string \<Rightarrow> string" where
  "scan_blanks s = dropWhile (\<lambda>c. is_space c \<and> ord c \<noteq> 10) s"

definition scan_digits :: "bool \<Rightarrow> string \<Rightarrow> (int \<times> string) option" where
  "scan_digits neg s =
    (let ds = takeWhile is_digit s; v = (if neg then - int (read_nat ds) else int (read_nat ds)) in
     if ds = [] \<or> v < - (2 ^ 63) \<or> 2 ^ 63 \<le> v then None else Some (v, dropWhile is_digit s))"

definition scan_int :: "string \<Rightarrow> (int \<times> string) option" where
  "scan_int s =
    (case scan_blanks s of
       [] \<Rightarrow> None
     | c # cs \<Rightarrow> if c = CHR ''-'' then scan_digits True cs
                 else if c = CHR ''+'' then scan_digits False cs else scan_digits False (c # cs))"

text \<open>\<open>parseHHMM\<close>: hours and minutes are not checked; the sum is a 64-bit integer.\<close>

definition parse_hhmm :: "string \<Rightarrow> int option" where
  "parse_hhmm s =
    (case scan_int s of
       None \<Rightarrow> None
     | Some (h, rest) \<Rightarrow>
        (case rest of
           [] \<Rightarrow> None
         | c # cs \<Rightarrow> if c \<noteq> CHR '':'' then None
                     else (case scan_int cs of
                             None \<Rightarrow> None
                           | Some (m, _) \<Rightarrow> Some (sint (word_of_int (h * 60 + m) :: 64 word)))))"

definition is_in_time_window :: "zone_db \<Rightarrow> string \<Rightarrow> string \<Rightarrow> string \<Rightarrow> time \<Rightarrow> bool" where
  "is_in_time_window zones start stop zone now =
    (let cur = minute_of_day zones zone now in
     case (parse_hhmm start, parse_hhmm stop) of
       (Some a, Some b) \<Rightarrow> if a \<le> b then a \<le> cur \<and> cur \<le> b else a \<le> cur \<or> cur \<le> b
     | _ \<Rightarrow> False)"

section \<open>Texts\<close>

definition en_dash :: string where "en_dash = '' '' @ [CHR 0xE2, CHR 0x80, CHR 0x93] @ '' ''"
definition long_dash :: string where "long_dash = '' '' @ [CHR 0xE2, CHR 0x80, CHR 0x94] @ '' ''"

text \<open>\<open>%q\<close>: a quoted string; bytes from 128 on are taken to be printable text.\<close>

definition hex_nibble :: "nat \<Rightarrow> char" where
  "hex_nibble n = (if n < 10 then char_of (48 + n) else char_of (87 + n))"

definition quote_char :: "char \<Rightarrow> string" where
  "quote_char c =
    (let n = ord c; slash = CHR 0x5C in
     if n = 34 \<or> n = 92 then [slash, c]
     else if n = 7 then [slash, CHR ''a''] else if n = 8 then [slash, CHR ''b'']
     else if n = 12 then [slash, CHR ''f''] else if n = 10 then [slash, CHR ''n'']
     else if n = 13 then [slash, CHR ''r''] else if n = 9 then [slash, CHR ''t'']
     else if n = 11 then [slash, CHR ''v'']
     else if n < 32 \<or> n = 127 then [slash, CHR ''x'', hex_nibble (n div 16), hex_nibble (n mod 16)]
     else [c])"

definition go_quote :: "string \<Rightarrow> string" where
  "go_quote s = [CHR 0x22] @ concat (map quote_char s) @ [CHR 0x22]"

section \<open>Decisions\<close>

definition default_decision :: "string \<Rightarrow> string \<Rightarrow> ExecutionDecision" where
  "default_decision reason pid = decision_zero\<lparr>ed_allowed := True, ed_execution_mode := ''manual'',
     ed_reason := reason, ed_policy_id := pid\<rparr>"

definition deny_by :: "ExecutionPolicy \<Rightarrow> string \<Rightarrow> string \<Rightarrow> ExecutionDecision" where
  "deny_by p code reason = decision_zero\<lparr>ed_execution_mode := po_execution_mode p,
     ed_policy_id := po_id p, ed_reason := reason, ed_denial_code := code\<rparr>"

fun first_some :: "'a option list \<Rightarrow> 'a option" where
  "first_some [] = None"
| "first_some (None # xs) = first_some xs"
| "first_some (Some x # xs) = Some x"

definition business_zone :: "ExecutionPolicy \<Rightarrow> string" where
  "business_zone p = (if po_business_hours_timezone p = [] then ''UTC'' else po_business_hours_timezone p)"

text \<open>The checks 1 to 6, in the order of the code. A count that cannot be read does not deny.\<close>

definition breaker_denial :: "faults \<Rightarrow> ExecutionPolicy \<Rightarrow> policy_db \<Rightarrow> ExecutionDecision option" where
  "breaker_denial flt p db =
    (if po_circuit_breaker_enabled p then
       (case get_breaker flt (po_id p) db of
          Inr (Some b) \<Rightarrow>
            if cb_is_open b then
              Some ((deny_by p ''CIRCUIT_OPEN'' (''circuit breaker open ('' @ show_int (cb_consecutive_failures b) @
                '' consecutive failures)''))\<lparr>ed_circuit_open := True\<rparr>)
            else None
        | _ \<Rightarrow> None)
     else None)"

definition blackout_denial :: "zone_db \<Rightarrow> time \<Rightarrow> ExecutionPolicy \<Rightarrow> ExecutionDecision option" where
  "blackout_denial zones now p =
    (if po_blackout_start p \<noteq> [] \<and> po_blackout_end p \<noteq> [] \<and>
        is_in_time_window zones (po_blackout_start p) (po_blackout_end p) ''UTC'' now
     then Some (deny_by p ''BLACKOUT'' (''blackout window active ('' @ po_blackout_start p @ en_dash @
            po_blackout_end p @ '' UTC)''))
     else None)"

definition hours_denial :: "zone_db \<Rightarrow> time \<Rightarrow> ExecutionPolicy \<Rightarrow> ExecutionDecision option" where
  "hours_denial zones now p =
    (if po_enforce_business_hours p \<and> po_business_hours_start p \<noteq> [] \<and> po_business_hours_end p \<noteq> [] \<and>
        \<not> is_in_time_window zones (po_business_hours_start p) (po_business_hours_end p) (business_zone p) now
     then Some (deny_by p ''BUSINESS_HOURS'' (''outside business hours ('' @ po_business_hours_start p @ en_dash @
            po_business_hours_end p @ '' '' @ business_zone p @ '')''))
     else None)"

definition rate_denial :: "faults \<Rightarrow> time \<Rightarrow> PolicyEvalContext \<Rightarrow> ExecutionPolicy \<Rightarrow> policy_db \<Rightarrow> ExecutionDecision option" where
  "rate_denial flt now c p db =
    (if 0 < po_max_per_hour p then
       (case count_recent_executions flt (pc_tenant_id c) (now - hour) db of
          Inl _ \<Rightarrow> None
        | Inr n \<Rightarrow>
            if po_max_per_hour p \<le> int n then
              Some (deny_by p ''RATE_LIMIT'' (''rate limit: '' @ show_nat n @ ''/'' @
                show_int (po_max_per_hour p) @ '' executions in the last hour''))
            else None)
     else None)"

definition concurrency_denial :: "faults \<Rightarrow> PolicyEvalContext \<Rightarrow> ExecutionPolicy \<Rightarrow> policy_db \<Rightarrow> ExecutionDecision option" where
  "concurrency_denial flt c p db =
    (if 0 < po_max_concurrent_actions p then
       (case count_running_executions flt (pc_tenant_id c) db of
          Inl _ \<Rightarrow> None
        | Inr n \<Rightarrow>
            if po_max_concurrent_actions p \<le> int n then
              Some (deny_by p ''BLAST_RADIUS'' (''blast-radius: '' @ show_nat n @ ''/'' @
                show_int (po_max_concurrent_actions p) @ '' concurrent actions already running''))
            else None)
     else None)"

definition impact_denial :: "PolicyEvalContext \<Rightarrow> ExecutionPolicy \<Rightarrow> ExecutionDecision option" where
  "impact_denial c p =
    (if 0 < po_max_impacted_services p \<and> po_max_impacted_services p < pc_impacted_services c
     then Some (deny_by p ''BLAST_RADIUS'' (''blast-radius: incident affects '' @ show_int (pc_impacted_services c) @
            '' services (limit '' @ show_int (po_max_impacted_services p) @ '')''))
     else None)"

definition mode_with_approval :: "ExecutionPolicy \<Rightarrow> string" where
  "mode_with_approval p =
    (if po_requires_approval p \<and> po_execution_mode p = ''auto'' then ''approval'' else po_execution_mode p)"

text \<open>Steps 7 and 8.\<close>

definition permitted :: "PolicyEvalContext \<Rightarrow> ExecutionPolicy \<Rightarrow> ExecutionDecision" where
  "permitted c p =
    (let ok = decision_zero\<lparr>ed_allowed := True, ed_policy_id := po_id p\<rparr>;
         named = ''policy '' @ go_quote (po_name p)
     in if po_dry_run_mode p \<or> pc_is_dry_run c then
          ok\<lparr>ed_execution_mode := ''dry_run'', ed_is_dry_run := True,
             ed_reason := named @ long_dash @ ''dry-run mode: evaluation logged, no action created''\<rparr>
        else if po_simulation_mode p then
          ok\<lparr>ed_execution_mode := ''simulation'', ed_is_simulation := True,
             ed_reason := named @ long_dash @ ''simulation mode: action recorded but not executed''\<rparr>
        else
          ok\<lparr>ed_execution_mode := mode_with_approval p,
             ed_reason := named @ '' allows execution in '' @ mode_with_approval p @ '' mode'',
             ed_requires_approval := po_requires_approval p,
             ed_approval_groups := approval_group_list p,
             ed_approval_timeout := po_approval_timeout_minutes p\<rparr>)"

section \<open>Evaluation\<close>

definition trail_entry :: "time \<Rightarrow> PolicyEvalContext \<Rightarrow> ExecutionDecision \<Rightarrow> ExecutionPolicy option \<Rightarrow> PolicyExecutionTrail" where
  "trail_entry now c d p =
    \<lparr>tr_id = ''trail-'' @ show_int now, tr_tenant_id = pc_tenant_id c, tr_policy_id = ed_policy_id d,
     tr_policy_name = (case p of None \<Rightarrow> [] | Some q \<Rightarrow> po_name q), tr_incident_id = pc_incident_id c,
     tr_action_id = pc_action_id c, tr_service = pc_service c, tr_environment = pc_environment c,
     tr_severity = pc_severity c,
     tr_decision = (if ed_is_dry_run d then ''dry_run'' else if ed_is_simulation d then ''simulation''
                    else if \<not> ed_allowed d then ''denied'' else ''allowed''),
     tr_denial_code = ed_denial_code d, tr_execution_mode = ed_execution_mode d, tr_reason = ed_reason d,
     tr_is_simulation = ed_is_simulation d, tr_is_dry_run = ed_is_dry_run d, tr_actor = pc_actor c,
     tr_context = c, tr_evaluated_at = now\<rparr>"

definition write_trail ::
    "bool \<Rightarrow> faults \<Rightarrow> time \<Rightarrow> PolicyEvalContext \<Rightarrow> ExecutionDecision \<Rightarrow> ExecutionPolicy option \<Rightarrow> policy_db \<Rightarrow> policy_db" where
  "write_trail trailed flt now c d p db =
    (if trailed then (case append_trail flt (trail_entry now c d p) db of Inl _ \<Rightarrow> db | Inr db' \<Rightarrow> db') else db)"

definition decide ::
    "zone_db \<Rightarrow> faults \<Rightarrow> time \<Rightarrow> PolicyEvalContext \<Rightarrow> ExecutionPolicy \<Rightarrow> policy_db \<Rightarrow> ExecutionDecision" where
  "decide zones flt now c p db =
    (case first_some [breaker_denial flt p db, blackout_denial zones now p, hours_denial zones now p,
        rate_denial flt now c p db, concurrency_denial flt c p db, impact_denial c p] of
       Some d \<Rightarrow> d | None \<Rightarrow> permitted c p)"

definition elapsed_breaker_closed :: "faults \<Rightarrow> time \<Rightarrow> ExecutionPolicy \<Rightarrow> policy_db \<Rightarrow> policy_db" where
  "elapsed_breaker_closed flt now p db =
    (if po_circuit_breaker_enabled p then
       (case auto_reset flt now (po_id p) db of Inl _ \<Rightarrow> db | Inr db' \<Rightarrow> db') else db)"

definition evaluate ::
    "zone_db \<Rightarrow> bool \<Rightarrow> faults \<Rightarrow> time \<Rightarrow> PolicyEvalContext \<Rightarrow> policy_db \<Rightarrow> ExecutionDecision \<times> policy_db" where
  "evaluate zones trailed flt now c db =
    (case find_matching_policy flt (pc_tenant_id c) (pc_service c) (pc_environment c) (pc_severity c) db of
       Inl _ \<Rightarrow> (default_decision ''policy lookup failed, defaulting to manual'' [], db)
     | Inr None \<Rightarrow>
         let d = default_decision ''no matching policy, defaulting to manual execution'' []
         in (d, write_trail trailed flt now c d None db)
     | Inr (Some p) \<Rightarrow>
         let db1 = elapsed_breaker_closed flt now p db; d = decide zones flt now c p db1
         in (d, write_trail trailed flt now c d (Some p) db1))"

section \<open>Simulation\<close>

text \<open>\<open>evaluatePure\<close>: the same checks with shorter reasons and no execution mode on a denial; an
  open breaker whose reset time has come does not deny, and a count that cannot be read is 0.\<close>

definition pure_deny :: "ExecutionPolicy \<Rightarrow> string \<Rightarrow> string \<Rightarrow> ExecutionDecision" where
  "pure_deny p code reason =
    decision_zero\<lparr>ed_policy_id := po_id p, ed_reason := reason, ed_denial_code := code\<rparr>"

definition count_or_zero :: "nat result \<Rightarrow> int" where
  "count_or_zero r = (case r of Inl _ \<Rightarrow> 0 | Inr n \<Rightarrow> int n)"

definition pure_breaker :: "faults \<Rightarrow> time \<Rightarrow> ExecutionPolicy \<Rightarrow> policy_db \<Rightarrow> ExecutionDecision option" where
  "pure_breaker flt now p db =
    (if po_circuit_breaker_enabled p then
       (case get_breaker flt (po_id p) db of
          Inr (Some b) \<Rightarrow>
            if cb_is_open b \<and> (case cb_will_reset_at b of None \<Rightarrow> True | Some t \<Rightarrow> now < t) then
              Some ((pure_deny p ''CIRCUIT_OPEN'' ''circuit breaker open'')\<lparr>ed_circuit_open := True\<rparr>)
            else None
        | _ \<Rightarrow> None)
     else None)"

definition pure_blackout :: "zone_db \<Rightarrow> time \<Rightarrow> ExecutionPolicy \<Rightarrow> ExecutionDecision option" where
  "pure_blackout zones now p =
    (if po_blackout_start p \<noteq> [] \<and> po_blackout_end p \<noteq> [] \<and>
        is_in_time_window zones (po_blackout_start p) (po_blackout_end p) ''UTC'' now
     then Some (pure_deny p ''BLACKOUT'' ''blackout window'') else None)"

definition pure_hours :: "zone_db \<Rightarrow> time \<Rightarrow> ExecutionPolicy \<Rightarrow> ExecutionDecision option" where
  "pure_hours zones now p =
    (if po_enforce_business_hours p \<and> po_business_hours_start p \<noteq> [] \<and> po_business_hours_end p \<noteq> [] \<and>
        \<not> is_in_time_window zones (po_business_hours_start p) (po_business_hours_end p) (business_zone p) now
     then Some (pure_deny p ''BUSINESS_HOURS'' ''outside business hours'') else None)"

definition pure_rate :: "faults \<Rightarrow> time \<Rightarrow> PolicyEvalContext \<Rightarrow> ExecutionPolicy \<Rightarrow> policy_db \<Rightarrow> ExecutionDecision option" where
  "pure_rate flt now c p db =
    (let n = count_or_zero (count_recent_executions flt (pc_tenant_id c) (now - hour) db) in
     if 0 < po_max_per_hour p \<and> po_max_per_hour p \<le> n
     then Some (pure_deny p ''RATE_LIMIT'' (''rate limit '' @ show_int n @ ''/'' @ show_int (po_max_per_hour p)))
     else None)"

definition pure_concurrency :: "faults \<Rightarrow> PolicyEvalContext \<Rightarrow> ExecutionPolicy \<Rightarrow> policy_db \<Rightarrow> ExecutionDecision option" where
  "pure_concurrency flt c p db =
    (let n = count_or_zero (count_running_executions flt (pc_tenant_id c) db) in
     if 0 < po_max_concurrent_actions p \<and> po_max_concurrent_actions p \<le> n
     then Some (pure_deny p ''BLAST_RADIUS'' ''concurrent action limit'') else None)"

definition pure_impact :: "PolicyEvalContext \<Rightarrow> ExecutionPolicy \<Rightarrow> ExecutionDecision option" where
  "pure_impact c p =
    (if 0 < po_max_impacted_services p \<and> po_max_impacted_services p < pc_impacted_services c
     then Some (pure_deny p ''BLAST_RADIUS'' ''impacted services limit'') else None)"

definition pure_permitted :: "PolicyEvalContext \<Rightarrow> ExecutionPolicy \<Rightarrow> ExecutionDecision" where
  "pure_permitted c p =
    (let ok = decision_zero\<lparr>ed_allowed := True, ed_policy_id := po_id p\<rparr>
     in if po_dry_run_mode p \<or> pc_is_dry_run c then
          ok\<lparr>ed_execution_mode := ''dry_run'', ed_is_dry_run := True, ed_reason := ''dry-run mode''\<rparr>
        else if po_simulation_mode p then
          ok\<lparr>ed_execution_mode := ''simulation'', ed_is_simulation := True, ed_reason := ''simulation mode''\<rparr>
        else
          ok\<lparr>ed_execution_mode := mode_with_approval p,
             ed_requires_approval := po_requires_approval p,
             ed_approval_groups := approval_group_list p,
             ed_approval_timeout := po_approval_timeout_minutes p,
             ed_reason := ''policy '' @ go_quote (po_name p) @ '' allows '' @ mode_with_approval p\<rparr>)"

definition evaluate_pure ::
    "zone_db \<Rightarrow> faults \<Rightarrow> time \<Rightarrow> PolicyEvalContext \<Rightarrow> ExecutionPolicy \<Rightarrow> policy_db \<Rightarrow> ExecutionDecision" where
  "evaluate_pure zones flt now c p db =
    (case first_some [pure_breaker flt now p db, pure_blackout zones now p, pure_hours zones now p,
        pure_rate flt now c p db, pure_concurrency flt c p db, pure_impact c p] of
       Some d \<Rightarrow> d | None \<Rightarrow> pure_permitted c p)"

definition simulate :: "zone_db \<Rightarrow> faults \<Rightarrow> time \<Rightarrow> PolicyEvalContext \<Rightarrow> policy_db \<Rightarrow> ExecutionDecision" where
  "simulate zones flt now c db =
    (let sc = c\<lparr>pc_is_dry_run := False\<rparr> in
     case find_matching_policy flt (pc_tenant_id sc) (pc_service sc) (pc_environment sc) (pc_severity sc) db of
       Inl _ \<Rightarrow> default_decision ''policy lookup failed'' []
     | Inr None \<Rightarrow> default_decision ''no matching policy'' []
     | Inr (Some p) \<Rightarrow>
         let d = evaluate_pure zones flt now sc p db in d\<lparr>ed_reason := ''[SIMULATION] '' @ ed_reason d\<rparr>)"

section \<open>Changing policies and breakers\<close>

definition or_default :: "'a \<Rightarrow> 'a \<Rightarrow> 'a \<Rightarrow> 'a" where
  "or_default zero d x = (if x = zero then d else x)"

definition with_defaults :: "time \<Rightarrow> ExecutionPolicy \<Rightarrow> ExecutionPolicy" where
  "with_defaults now p = p\<lparr>
     po_id := or_default [] (''pol-'' @ show_int now) (po_id p),
     po_execution_mode := or_default [] ''manual'' (po_execution_mode p),
     po_max_retries := or_default 0 2 (po_max_retries p),
     po_cooldown_seconds := or_default 0 300 (po_cooldown_seconds p),
     po_timeout_seconds := or_default 0 90 (po_timeout_seconds p),
     po_max_per_hour := or_default 0 10 (po_max_per_hour p),
     po_retry_strategy := or_default [] ''exponential'' (po_retry_strategy p),
     po_retry_backoff_seconds := or_default 0 30 (po_retry_backoff_seconds p),
     po_circuit_breaker_threshold := or_default 0 5 (po_circuit_breaker_threshold p),
     po_circuit_breaker_window_seconds := or_default 0 3600 (po_circuit_breaker_window_seconds p),
     po_circuit_breaker_cooldown_minutes := or_default 0 30 (po_circuit_breaker_cooldown_minutes p),
     po_approval_timeout_minutes := or_default 0 60 (po_approval_timeout_minutes p),
     po_business_hours_timezone := or_default [] ''UTC'' (po_business_hours_timezone p),
     po_created_at := now, po_updated_at := now\<rparr>"

definition create_policy :: "faults \<Rightarrow> time \<Rightarrow> ExecutionPolicy \<Rightarrow> policy_db \<Rightarrow> policy_db result" where
  "create_policy flt now p db = create_policy_row flt (with_defaults now p) db"

definition update_policy :: "faults \<Rightarrow> time \<Rightarrow> ExecutionPolicy \<Rightarrow> policy_db \<Rightarrow> policy_db result" where
  "update_policy flt now p db = update_policy_row flt (p\<lparr>po_updated_at := now\<rparr>) db"

text \<open>\<open>RecordExecutionOutcome\<close>; an error of the store is logged.\<close>

definition record_execution_outcome ::
    "faults \<Rightarrow> time \<Rightarrow> string \<Rightarrow> string \<Rightarrow> bool \<Rightarrow> ExecutionPolicy option \<Rightarrow> policy_db \<Rightarrow> policy_db" where
  "record_execution_outcome flt now pid tenant succeeded policy db =
    (case policy of
       None \<Rightarrow> db
     | Some p \<Rightarrow>
        if \<not> po_circuit_breaker_enabled p then db
        else (case (if succeeded then record_success flt now pid tenant db
                    else record_failure flt now pid tenant (po_circuit_breaker_threshold p)
                           (po_circuit_breaker_cooldown_minutes p) db) of
                Inl _ \<Rightarrow> db | Inr db' \<Rightarrow> db'))"

section \<open>Facts about the checks\<close>

lemma first_some_rel:
  "list_all2 (rel_option R) xs ys \<Longrightarrow> rel_option R (first_some xs) (first_some ys)"
  by (induction rule: list_all2_induct) (auto elim!: option.rel_cases)

lemma first_some_None: "first_some xs = None \<longleftrightarrow> set xs \<subseteq> {None}"
  by (induction xs rule: first_some.induct) auto

lemma first_some_Some: "first_some xs = Some d \<Longrightarrow> Some d \<in> set xs"
  by (induction xs rule: first_some.induct) auto

lemma auto_reset_find:
  "auto_reset flt now pid db = Inr db' \<Longrightarrow>
   tbl_find cb_policy_id k (pdb_breakers db') =
     map_option (\<lambda>b. if cb_policy_id b = pid \<and> reset_is_due now b then closed_breaker now b else b)
       (tbl_find cb_policy_id k (pdb_breakers db))"
  by (auto simp: auto_reset_def closed_breaker_def intro!: tbl_find_update)

lemma elapsed_breaker_find:
  assumes "po_circuit_breaker_enabled p" and "\<not> flt ''AutoReset''"
  shows "tbl_find cb_policy_id (po_id p) (pdb_breakers (elapsed_breaker_closed flt now p db)) =
     map_option (\<lambda>b. if reset_is_due now b then closed_breaker now b else b)
       (tbl_find cb_policy_id (po_id p) (pdb_breakers db))"
proof -
  obtain db1 where db1: "auto_reset flt now (po_id p) db = Inr db1"
    using assms(2) by (simp add: auto_reset_def)
  have "tbl_find cb_policy_id (po_id p) (pdb_breakers db1) =
     map_option (\<lambda>b. if reset_is_due now b then closed_breaker now b else b)
       (tbl_find cb_policy_id (po_id p) (pdb_breakers db))"
    unfolding auto_reset_find[OF db1]
    by (cases "tbl_find cb_policy_id (po_id p) (pdb_breakers db)") (auto dest: tbl_find_Some)
  with db1 assms(1) show ?thesis by (simp add: elapsed_breaker_closed_def)
qed

lemma elapsed_breaker_frame [frame]:
  "pdb_policies (elapsed_breaker_closed flt now p db) = pdb_policies db"
  "pdb_trail (elapsed_breaker_closed flt now p db) = pdb_trail db"
  "pdb_executions (elapsed_breaker_closed flt now p db) = pdb_executions db"
  by (simp_all add: elapsed_breaker_closed_def auto_reset_def guard_db_def)

lemma write_trail_frame [frame]:
  "pdb_policies (write_trail trailed flt now c d p db) = pdb_policies db"
  "pdb_breakers (write_trail trailed flt now c d p db) = pdb_breakers db"
  "pdb_executions (write_trail trailed flt now c d p db) = pdb_executions db"
  by (auto simp: write_trail_def append_trail_def guard_db_def split: sum.splits)

text \<open>A simulated decision and the real one differ in the reason, and in the mode of a denial.\<close>

definition predicts :: "ExecutionDecision \<Rightarrow> ExecutionDecision \<Rightarrow> bool" where
  "predicts s d \<longleftrightarrow>
     s = d\<lparr>ed_reason := ed_reason s, ed_execution_mode := (if ed_allowed d then ed_execution_mode d else [])\<rparr>"

lemma predicts_deny: "predicts (pure_deny p code r) (deny_by p code r')"
  "predicts ((pure_deny p code r)\<lparr>ed_circuit_open := True\<rparr>) ((deny_by p code r')\<lparr>ed_circuit_open := True\<rparr>)"
  by (simp_all add: predicts_def pure_deny_def deny_by_def decision_zero_def)

lemma predicts_breaker:
  "rel_option predicts (pure_breaker no_faults now p db)
     (breaker_denial no_faults p (elapsed_breaker_closed no_faults now p db))"
proof (cases "po_circuit_breaker_enabled p")
  case True
  show ?thesis
  proof (cases "tbl_find cb_policy_id (po_id p) (pdb_breakers db)")
    case None
    then show ?thesis using elapsed_breaker_find[where flt = no_faults, OF True no_faults, where now = now and db = db]
      by (simp add: pure_breaker_def breaker_denial_def get_breaker_def)
  next
    case (Some b)
    have "tbl_find cb_policy_id (po_id p) (pdb_breakers (elapsed_breaker_closed no_faults now p db)) =
        Some (if reset_is_due now b then closed_breaker now b else b)"
      using elapsed_breaker_find[where flt = no_faults, OF True no_faults, where now = now and db = db] Some by simp
    with Some True show ?thesis
      by (auto simp: pure_breaker_def breaker_denial_def get_breaker_def predicts_deny reset_is_due_def
          closed_breaker_def split: option.splits)
  qed
qed (simp add: pure_breaker_def breaker_denial_def)

lemma predicts_windows:
  "rel_option predicts (pure_blackout zones now p) (blackout_denial zones now p)"
  "rel_option predicts (pure_hours zones now p) (hours_denial zones now p)"
  "rel_option predicts (pure_impact c p) (impact_denial c p)"
  by (simp_all add: pure_blackout_def blackout_denial_def pure_hours_def hours_denial_def
      pure_impact_def impact_denial_def predicts_deny)

lemma predicts_counts:
  "pdb_executions db' = pdb_executions db \<Longrightarrow>
   rel_option predicts (pure_rate no_faults now c p db) (rate_denial no_faults now c p db')"
  "pdb_executions db' = pdb_executions db \<Longrightarrow>
   rel_option predicts (pure_concurrency no_faults c p db) (concurrency_denial no_faults c p db')"
  by (simp_all add: pure_rate_def rate_denial_def pure_concurrency_def concurrency_denial_def
      count_recent_executions_def count_running_executions_def count_or_zero_def predicts_deny)

lemma predicts_permitted: "predicts (pure_permitted c p) (permitted c p)"
  by (simp add: predicts_def pure_permitted_def permitted_def decision_zero_def Let_def)

lemma predicts_decide:
  "predicts (evaluate_pure zones no_faults now c p db)
     (decide zones no_faults now c p (elapsed_breaker_closed no_faults now p db))"
proof -
  let ?db = "elapsed_breaker_closed no_faults now p db"
  have "rel_option predicts
      (first_some [pure_breaker no_faults now p db, pure_blackout zones now p, pure_hours zones now p,
        pure_rate no_faults now c p db, pure_concurrency no_faults c p db, pure_impact c p])
      (first_some [breaker_denial no_faults p ?db, blackout_denial zones now p, hours_denial zones now p,
        rate_denial no_faults now c p ?db, concurrency_denial no_faults c p ?db, impact_denial c p])"
    by (intro first_some_rel list.rel_intros predicts_breaker predicts_windows predicts_counts frame)
  then show ?thesis unfolding evaluate_pure_def decide_def
    by (cases rule: option.rel_cases) (simp_all add: predicts_permitted)
qed

section \<open>Repeated failures\<close>

text \<open>The row of a breaker after the failures at the times \<open>ts\<close>, the first of them the first record
  of the policy. The insert of the first failure never opens it, so that two failures are needed
  even for a threshold of 1.\<close>

definition failures_to_open :: "int \<Rightarrow> nat" where
  "failures_to_open threshold = max 2 (nat threshold)"

definition breaker_after :: "string \<Rightarrow> string \<Rightarrow> int \<Rightarrow> int \<Rightarrow> time list \<Rightarrow> CircuitBreakerState" where
  "breaker_after pid tenant threshold cooldown ts =
    (let k = failures_to_open threshold; opened = (k \<le> length ts) in
     \<lparr>cb_policy_id = pid, cb_tenant_id = tenant, cb_is_open = opened,
      cb_consecutive_failures = int (length ts), cb_last_failure_at = Some (last ts),
      cb_opened_at = (if opened then Some (ts ! (k - 1)) else None),
      cb_will_reset_at = (if opened then Some (ts ! (k - 1) + cooldown * minute) else None),
      cb_updated_at = last ts\<rparr>)"

lemma failed_breaker_after:
  assumes "ts \<noteq> []"
  shows "failed_breaker t threshold cooldown (breaker_after pid tenant threshold cooldown ts) =
     breaker_after pid tenant threshold cooldown (ts @ [t])"
proof -
  let ?k = "failures_to_open threshold"
  have k: "2 \<le> ?k" by (simp add: failures_to_open_def)
  have th: "threshold \<le> int (length ts) + 1 \<longleftrightarrow> ?k \<le> Suc (length ts)"
    using assms by (cases ts) (auto simp: failures_to_open_def)
  consider "?k \<le> length ts" | "?k = Suc (length ts)" | "Suc (length ts) < ?k" by linarith
  then show ?thesis
  proof cases
    case 1
    then have "?k - 1 < length ts" using k by linarith
    then have "(ts @ [t]) ! (?k - 1) = ts ! (?k - 1)" by (simp add: nth_append)
    with 1 th show ?thesis by (simp add: failed_breaker_def breaker_after_def Let_def)
  next
    case 2
    then show ?thesis using th by (simp add: failed_breaker_def breaker_after_def Let_def)
  next
    case 3
    then show ?thesis using th by (simp add: failed_breaker_def breaker_after_def Let_def)
  qed
qed

lemma record_failure_find:
  "record_failure flt t pid tenant threshold cooldown db = Inr db' \<Longrightarrow>
   tbl_find cb_policy_id pid (pdb_breakers db') =
     (case tbl_find cb_policy_id pid (pdb_breakers db) of
        None \<Rightarrow> Some (breaker_after pid tenant threshold cooldown [t])
      | Some b \<Rightarrow> Some (failed_breaker t threshold cooldown b))"
proof -
  let ?r = "(fresh_breaker t pid tenant 1)\<lparr>cb_last_failure_at := Some t\<rparr>"
  assume "record_failure flt t pid tenant threshold cooldown db = Inr db'"
  then have e: "pdb_breakers db' = tbl_upsert cb_policy_id (failed_breaker t threshold cooldown) ?r (pdb_breakers db)"
    by (auto simp: record_failure_def)
  have "tbl_find cb_policy_id (cb_policy_id ?r) (pdb_breakers db') =
     (case tbl_find cb_policy_id (cb_policy_id ?r) (pdb_breakers db) of
        None \<Rightarrow> Some ?r | Some b \<Rightarrow> Some (failed_breaker t threshold cooldown b))"
    unfolding e by (rule tbl_find_upsert_same) (simp add: failed_breaker_def Let_def)
  moreover have "?r = breaker_after pid tenant threshold cooldown [t]"
    by (simp add: fresh_breaker_def breaker_after_def failures_to_open_def Let_def)
  moreover have "cb_policy_id ?r = pid" by (simp add: fresh_breaker_def)
  ultimately show ?thesis by (simp only:)
qed

lemma record_outcome_find:
  assumes "po_circuit_breaker_enabled p" and "\<not> flt ''RecordFailure''"
  shows "tbl_find cb_policy_id (po_id p)
       (pdb_breakers (record_execution_outcome flt t (po_id p) tenant False (Some p) db)) =
     (case tbl_find cb_policy_id (po_id p) (pdb_breakers db) of
        None \<Rightarrow> Some (breaker_after (po_id p) tenant (po_circuit_breaker_threshold p)
                        (po_circuit_breaker_cooldown_minutes p) [t])
      | Some b \<Rightarrow> Some (failed_breaker t (po_circuit_breaker_threshold p)
                          (po_circuit_breaker_cooldown_minutes p) b))"
proof -
  obtain db1 where r: "record_failure flt t (po_id p) tenant (po_circuit_breaker_threshold p)
      (po_circuit_breaker_cooldown_minutes p) db = Inr db1"
    using assms(2) by (simp add: record_failure_def)
  then have "record_execution_outcome flt t (po_id p) tenant False (Some p) db = db1"
    using assms(1) by (simp add: record_execution_outcome_def)
  with record_failure_find[OF r] show ?thesis by simp
qed

lemma other_denial_codes:
  "blackout_denial zones now p = Some d \<Longrightarrow> ed_denial_code d = ''BLACKOUT''"
  "hours_denial zones now p = Some d \<Longrightarrow> ed_denial_code d = ''BUSINESS_HOURS''"
  "rate_denial flt now c p db = Some d \<Longrightarrow> ed_denial_code d = ''RATE_LIMIT''"
  "concurrency_denial flt c p db = Some d \<Longrightarrow> ed_denial_code d = ''BLAST_RADIUS''"
  "impact_denial c p = Some d \<Longrightarrow> ed_denial_code d = ''BLAST_RADIUS''"
  "ed_denial_code (permitted c p) = []"
  by (auto simp: blackout_denial_def hours_denial_def rate_denial_def concurrency_denial_def
      impact_denial_def deny_by_def permitted_def decision_zero_def Let_def split: if_splits sum.splits)

lemma denials_deny:
  "breaker_denial flt p db = Some d \<Longrightarrow> \<not> ed_allowed d"
  "blackout_denial zones now p = Some d \<Longrightarrow> \<not> ed_allowed d"
  "hours_denial zones now p = Some d \<Longrightarrow> \<not> ed_allowed d"
  "rate_denial flt now c p db = Some d \<Longrightarrow> \<not> ed_allowed d"
  "concurrency_denial flt c p db = Some d \<Longrightarrow> \<not> ed_allowed d"
  "impact_denial c p = Some d \<Longrightarrow> \<not> ed_allowed d"
  by (auto simp: breaker_denial_def blackout_denial_def hours_denial_def rate_denial_def concurrency_denial_def
      impact_denial_def deny_by_def decision_zero_def split: if_splits sum.splits option.splits)

lemma denials_name_policy:
  "breaker_denial flt p db = Some d \<Longrightarrow> ed_policy_id d = po_id p"
  "blackout_denial zones now p = Some d \<Longrightarrow> ed_policy_id d = po_id p"
  "hours_denial zones now p = Some d \<Longrightarrow> ed_policy_id d = po_id p"
  "rate_denial flt now c p db = Some d \<Longrightarrow> ed_policy_id d = po_id p"
  "concurrency_denial flt c p db = Some d \<Longrightarrow> ed_policy_id d = po_id p"
  "impact_denial c p = Some d \<Longrightarrow> ed_policy_id d = po_id p"
  "ed_policy_id (permitted c p) = po_id p"
  by (auto simp: breaker_denial_def blackout_denial_def hours_denial_def rate_denial_def concurrency_denial_def
      impact_denial_def deny_by_def permitted_def decision_zero_def Let_def split: if_splits sum.splits option.splits)

lemma decide_policy_id: "ed_policy_id (decide zones flt now c p db) = po_id p"
  unfolding decide_def by (auto split: option.splits dest!: first_some_Some simp: denials_name_policy)

lemma permitted_auto:
  "ed_execution_mode (permitted c p) = ''auto'' \<Longrightarrow> po_execution_mode p = ''auto'' \<and>
     \<not> po_requires_approval p \<and> \<not> po_dry_run_mode p \<and> \<not> po_simulation_mode p \<and> \<not> pc_is_dry_run c"
  by (simp add: permitted_def mode_with_approval_def Let_def split: if_splits)

lemma passed_breaker: "breaker_denial flt p db = None \<Longrightarrow>
   \<not> (po_circuit_breaker_enabled p \<and> \<not> flt ''CircuitBreaker.Get'' \<and>
      (case tbl_find cb_policy_id (po_id p) (pdb_breakers db) of None \<Rightarrow> False | Some b \<Rightarrow> cb_is_open b))"
  by (auto simp: breaker_denial_def get_breaker_def split: option.splits if_splits)

lemma passed_blackout: "blackout_denial zones now p = None \<Longrightarrow>
   \<not> (po_blackout_start p \<noteq> [] \<and> po_blackout_end p \<noteq> [] \<and>
      is_in_time_window zones (po_blackout_start p) (po_blackout_end p) ''UTC'' now)"
  by (simp add: blackout_denial_def split: if_splits)

lemma passed_hours: "hours_denial zones now p = None \<Longrightarrow>
   \<not> (po_enforce_business_hours p \<and> po_business_hours_start p \<noteq> [] \<and> po_business_hours_end p \<noteq> [] \<and>
      \<not> is_in_time_window zones (po_business_hours_start p) (po_business_hours_end p) (business_zone p) now)"
  by (simp add: hours_denial_def split: if_splits)

lemma passed_rate: "rate_denial flt now c p db = None \<Longrightarrow>
   \<not> (0 < po_max_per_hour p \<and> \<not> flt ''CountRecentExecutions'' \<and>
      po_max_per_hour p \<le> int (length (filter
        (\<lambda>e. ax_tenant_id e = pc_tenant_id c \<and> now - hour \<le> ax_created_at e) (pdb_executions db))))"
  by (auto simp: rate_denial_def count_recent_executions_def guard_db_def split: if_splits)

lemma passed_concurrency: "concurrency_denial flt c p db = None \<Longrightarrow>
   \<not> (0 < po_max_concurrent_actions p \<and> \<not> flt ''CountRunningExecutions'' \<and>
      po_max_concurrent_actions p \<le> int (length (filter (\<lambda>e. ax_tenant_id e = pc_tenant_id c \<and>
        ax_status e \<in> {''running'', ''pending_approval'', ''approved''}) (pdb_executions db))))"
  by (auto simp: concurrency_denial_def count_running_executions_def guard_db_def split: if_splits)

lemma passed_impact: "impact_denial c p = None \<Longrightarrow>
   \<not> (0 < po_max_impacted_services p \<and> po_max_impacted_services p < pc_impacted_services c)"
  by (simp add: impact_denial_def split: if_splits)

lemma write_trail_grows:
  "pdb_trail (write_trail trailed flt now c d p db) = pdb_trail db \<or>
   pdb_trail (write_trail trailed flt now c d p db) = pdb_trail db @ [trail_entry now c d p]"
  by (auto simp: write_trail_def append_trail_def guard_db_def tbl_insert_def split: sum.splits)

lemma elapsed_breaker_rows:
  "list_all2 (\<lambda>b b'. b' = b \<or> reset_is_due now b \<and> cb_policy_id b = po_id p \<and> b' = closed_breaker now b)
     (pdb_breakers db) (pdb_breakers (elapsed_breaker_closed flt now p db))"
  by (auto simp: elapsed_breaker_closed_def auto_reset_def guard_db_def tbl_update_def list_all2_same
      list.rel_map)

section \<open>Properties\<close>

text \<open>C13: a simulation foretells the evaluation. While the database answers, \<open>Simulate\<close> returns
  the decision that \<open>Evaluate\<close> takes at that moment for the same context without the dry-run flag:
  the same permission, denial code, policy, approval, simulation and breaker flags, and the same
  execution mode where the action is allowed. It differs in the text of the reason, and leaves the
  mode of a denial empty.\<close>

theorem simulate_predicts_evaluate:
  "let d = fst (evaluate zones trailed no_faults now (c\<lparr>pc_is_dry_run := False\<rparr>) db);
       s = simulate zones no_faults now c db
   in s = d\<lparr>ed_reason := ed_reason s,
            ed_execution_mode := (if ed_allowed d then ed_execution_mode d else [])\<rparr>"
proof -
  let ?c = "c\<lparr>pc_is_dry_run := False\<rparr>"
  have keep: "predicts (s\<lparr>ed_reason := r\<rparr>) d" if "predicts s d" for s d r
  proof -
    have "s = d\<lparr>ed_reason := ed_reason s, ed_execution_mode := (if ed_allowed d then ed_execution_mode d else [])\<rparr>"
      using that by (simp only: predicts_def)
    then show ?thesis unfolding predicts_def by (cases s; cases d) simp
  qed
  have "predicts (simulate zones no_faults now c db) (fst (evaluate zones trailed no_faults now ?c db))"
  proof (cases "find_matching_policy no_faults (pc_tenant_id c) (pc_service c) (pc_environment c) (pc_severity c) db")
    case (Inl e)
    then show ?thesis
      by (simp add: simulate_def evaluate_def Let_def predicts_def default_decision_def decision_zero_def)
  next
    case (Inr r)
    show ?thesis
    proof (cases r)
      case None
      with Inr show ?thesis
        by (simp add: simulate_def evaluate_def Let_def predicts_def default_decision_def decision_zero_def)
    next
      case (Some p)
      from keep[OF predicts_decide[of zones now ?c p db]] Inr Some show ?thesis
        by (simp add: simulate_def evaluate_def Let_def)
    qed
  qed
  then show ?thesis unfolding predicts_def Let_def .
qed

text \<open>Consecutive failures open the circuit breaker. From the first record of a policy on, a
  run of failures at the times \<open>ts\<close> counts every one of them; the breaker opens at failure number
  \<open>max 2 threshold\<close> (a threshold of 1 needs two failures, as the first one is only inserted),
  with the reset time one cooldown after that failure, and later failures move neither.\<close>

theorem failures_open_breaker:
  assumes "po_circuit_breaker_enabled p" and "tbl_find cb_policy_id (po_id p) (pdb_breakers db) = None"
    and "ts \<noteq> []" and "\<not> flt ''RecordFailure''"
  shows "tbl_find cb_policy_id (po_id p) (pdb_breakers
       (fold (\<lambda>t. record_execution_outcome flt t (po_id p) tenant False (Some p)) ts db)) =
     Some (breaker_after (po_id p) tenant (po_circuit_breaker_threshold p)
             (po_circuit_breaker_cooldown_minutes p) ts)"
  using assms(3)
proof (induction ts rule: rev_nonempty_induct)
  case (single t)
  from record_outcome_find[where flt = flt, OF assms(1,4)] assms(2) show ?case by simp
next
  case (snoc t ts)
  then show ?case using record_outcome_find[where flt = flt, OF assms(1,4)] by (simp add: failed_breaker_after)
qed

theorem failures_open_breaker_witness:
  "let p = policy_zero\<lparr>po_id := ''p'', po_circuit_breaker_enabled := True, po_circuit_breaker_threshold := 1,
         po_circuit_breaker_cooldown_minutes := 30\<rparr>;
       db = \<lparr>pdb_policies = [p], pdb_breakers = [], pdb_trail = [], pdb_executions = []\<rparr>;
       after = (\<lambda>ts. tbl_find cb_policy_id ''p'' (pdb_breakers
          (fold (\<lambda>t. record_execution_outcome no_faults t ''p'' ''t'' False (Some p)) ts db)))
   in map_option cb_is_open (after [10]) = Some False \<and>
      map_option cb_is_open (after [10, 20]) = Some True \<and>
      map_option cb_will_reset_at (after [10, 20, 30]) = Some (Some (20 + 30 * minute))"
proof -
  let ?p = "policy_zero\<lparr>po_id := ''p'', po_circuit_breaker_enabled := True, po_circuit_breaker_threshold := 1,
      po_circuit_breaker_cooldown_minutes := 30\<rparr>"
  let ?db = "\<lparr>pdb_policies = [?p], pdb_breakers = [], pdb_trail = [], pdb_executions = []\<rparr>"
  have h: "po_circuit_breaker_enabled ?p" "tbl_find cb_policy_id (po_id ?p) (pdb_breakers ?db) = None" by simp_all
  have i: "po_id ?p = ''p''" by simp
  have th: "po_circuit_breaker_threshold ?p = 1" "po_circuit_breaker_cooldown_minutes ?p = 30" by simp_all
  have at: "tbl_find cb_policy_id ''p'' (pdb_breakers
       (fold (\<lambda>t. record_execution_outcome no_faults t ''p'' ''t'' False (Some ?p)) ts ?db)) =
     Some (breaker_after ''p'' ''t'' 1 30 ts)" if "ts \<noteq> []" for ts
    using failures_open_breaker[where flt = no_faults, OF h that no_faults, where tenant = "''t''"]
    by (simp only: i th)
  show ?thesis unfolding Let_def at[OF list.distinct(2)]
    by (simp add: breaker_after_def failures_to_open_def)
qed

text \<open>An open breaker stops the policy until its reset time and no longer. While a matching
  policy's breaker is open, every evaluation before the reset time is denied with the code
  \<open>CIRCUIT_OPEN\<close> and leaves the breaker as it is; the first one at or after it closes the breaker
  with its count at 0 and is not denied for the breaker.\<close>

theorem open_breaker_until_reset:
  assumes "find_matching_policy flt (pc_tenant_id c) (pc_service c) (pc_environment c) (pc_severity c) db = Inr (Some p)"
    and "po_circuit_breaker_enabled p" and "\<not> flt ''AutoReset''" and "\<not> flt ''CircuitBreaker.Get''"
    and "tbl_find cb_policy_id (po_id p) (pdb_breakers db) = Some b"
    and "cb_is_open b" and "cb_will_reset_at b = Some t"
  shows "let d = fst (evaluate zones trailed flt now c db); db' = snd (evaluate zones trailed flt now c db)
    in (if now < t then ed_denial_code d = ''CIRCUIT_OPEN'' \<and> \<not> ed_allowed d
        else ed_denial_code d \<noteq> ''CIRCUIT_OPEN'') \<and>
       tbl_find cb_policy_id (po_id p) (pdb_breakers db') = Some (if now < t then b else closed_breaker now b)"
proof -
  let ?db = "elapsed_breaker_closed flt now p db"
  have due: "reset_is_due now b \<longleftrightarrow> \<not> now < t" using assms(6,7) by (auto simp: reset_is_due_def)
  have f: "tbl_find cb_policy_id (po_id p) (pdb_breakers ?db) = Some (if now < t then b else closed_breaker now b)"
    using elapsed_breaker_find[where flt = flt, OF assms(2,3), where now = now and db = db] assms(5) due by simp
  have e: "fst (evaluate zones trailed flt now c db) = decide zones flt now c p ?db"
    "pdb_breakers (snd (evaluate zones trailed flt now c db)) = pdb_breakers ?db"
    using assms(1) by (simp_all add: evaluate_def Let_def frame)
  have den: "breaker_denial flt p ?db \<noteq> None \<longleftrightarrow> now < t"
    using f assms(2,4,6) by (simp add: breaker_denial_def get_breaker_def closed_breaker_def)
  show ?thesis
  proof (cases "now < t")
    case True
    then obtain d where d: "breaker_denial flt p ?db = Some d" using den by blast
    then have "ed_denial_code d = ''CIRCUIT_OPEN'' \<and> \<not> ed_allowed d"
      using f assms(2,4,6) True
      by (auto simp: breaker_denial_def get_breaker_def deny_by_def decision_zero_def)
    with d True f e show ?thesis by (simp add: Let_def decide_def)
  next
    case False
    with den have "breaker_denial flt p ?db = None" by blast
    then have "ed_denial_code (decide zones flt now c p ?db) \<noteq> ''CIRCUIT_OPEN''"
      by (auto simp: decide_def other_denial_codes split: option.splits dest!: first_some_Some)
    with False f e show ?thesis by (simp add: Let_def)
  qed
qed

theorem open_breaker_until_reset_witness:
  "let p = policy_zero\<lparr>po_id := ''p'', po_tenant_id := ''t'', po_enabled := True, po_circuit_breaker_enabled := True\<rparr>;
       b = (fresh_breaker 0 ''p'' ''t'' 3)\<lparr>cb_is_open := True, cb_will_reset_at := Some 5\<rparr>;
       db = \<lparr>pdb_policies = [p], pdb_breakers = [b], pdb_trail = [], pdb_executions = []\<rparr>;
       c = \<lparr>pc_tenant_id = ''t'', pc_incident_id = ''i'', pc_action_id = ''a'', pc_service = ''pay'',
            pc_environment = ''prod'', pc_severity = ''high'', pc_impacted_services = 1, pc_actor = ''ann'',
            pc_is_dry_run = False\<rparr>
   in ed_denial_code (fst (evaluate (\<lambda>_. None) True no_faults 4 c db)) = ''CIRCUIT_OPEN'' \<and>
      ed_denial_code (fst (evaluate (\<lambda>_. None) True no_faults 5 c db)) \<noteq> ''CIRCUIT_OPEN''"
proof -
  let ?p = "policy_zero\<lparr>po_id := ''p'', po_tenant_id := ''t'', po_enabled := True, po_circuit_breaker_enabled := True\<rparr>"
  let ?b = "(fresh_breaker 0 ''p'' ''t'' 3)\<lparr>cb_is_open := True, cb_will_reset_at := Some 5\<rparr>"
  let ?db = "\<lparr>pdb_policies = [?p], pdb_breakers = [?b], pdb_trail = [], pdb_executions = []\<rparr>"
  let ?c = "\<lparr>pc_tenant_id = ''t'', pc_incident_id = ''i'', pc_action_id = ''a'', pc_service = ''pay'',
      pc_environment = ''prod'', pc_severity = ''high'', pc_impacted_services = 1, pc_actor = ''ann'',
      pc_is_dry_run = False\<rparr>"
  have f: "find_matching_policy no_faults (pc_tenant_id ?c) (pc_service ?c) (pc_environment ?c) (pc_severity ?c) ?db
      = Inr (Some ?p)" by code_simp
  have e: "po_circuit_breaker_enabled ?p" by simp
  have b: "tbl_find cb_policy_id (po_id ?p) (pdb_breakers ?db) = Some ?b" "cb_is_open ?b" "cb_will_reset_at ?b = Some 5"
    by code_simp+
  note at = open_breaker_until_reset[where flt = no_faults, OF f e no_faults no_faults b,
      where zones = "\<lambda>_. None" and trailed = True]
  have "\<not> (5::int) < 5" and "(4::int) < 5" by simp_all
  with at[where now = 4] at[where now = 5] show ?thesis unfolding Let_def by (simp only: if_True if_False simp_thms)
qed

text \<open>C14: what an automatic execution has passed. Whenever an evaluation allows the mode \<open>auto\<close>,
  whatever statements of it failed, the tenant has an enabled policy matching the context that is
  itself in the mode \<open>auto\<close>, asks for no approval and is neither in dry-run nor in simulation mode,
  nor is the request a dry run; its blackout window is not in force, its business hours, when both ends
  are given and it enforces them, are, and the incident is within its limit of services. Its breaker is
  not open and the tenant is below both limits on executions, each unless the statement that reads it
  failed.\<close>

theorem auto_mode_authorised:
  assumes "evaluate zones trailed flt now c db = (d, db')" and "ed_allowed d" and "ed_execution_mode d = ''auto''"
  shows "\<exists>p \<in> set (pdb_policies db).
     eligible_policy (pc_tenant_id c) (pc_service c) (pc_environment c) (pc_severity c) p \<and>
     po_execution_mode p = ''auto'' \<and> \<not> po_requires_approval p \<and> \<not> po_dry_run_mode p \<and>
     \<not> po_simulation_mode p \<and> \<not> pc_is_dry_run c \<and>
     \<not> (po_blackout_start p \<noteq> [] \<and> po_blackout_end p \<noteq> [] \<and>
        is_in_time_window zones (po_blackout_start p) (po_blackout_end p) ''UTC'' now) \<and>
     \<not> (po_enforce_business_hours p \<and> po_business_hours_start p \<noteq> [] \<and> po_business_hours_end p \<noteq> [] \<and>
        \<not> is_in_time_window zones (po_business_hours_start p) (po_business_hours_end p) (business_zone p) now) \<and>
     \<not> (0 < po_max_impacted_services p \<and> po_max_impacted_services p < pc_impacted_services c) \<and>
     \<not> (po_circuit_breaker_enabled p \<and> \<not> flt ''CircuitBreaker.Get'' \<and>
        (case tbl_find cb_policy_id (po_id p) (pdb_breakers db') of None \<Rightarrow> False | Some b \<Rightarrow> cb_is_open b)) \<and>
     \<not> (0 < po_max_per_hour p \<and> \<not> flt ''CountRecentExecutions'' \<and>
        po_max_per_hour p \<le> int (length (filter
          (\<lambda>e. ax_tenant_id e = pc_tenant_id c \<and> now - hour \<le> ax_created_at e) (pdb_executions db)))) \<and>
     \<not> (0 < po_max_concurrent_actions p \<and> \<not> flt ''CountRunningExecutions'' \<and>
        po_max_concurrent_actions p \<le> int (length (filter (\<lambda>e. ax_tenant_id e = pc_tenant_id c \<and>
          ax_status e \<in> {''running'', ''pending_approval'', ''approved''}) (pdb_executions db))))"
proof -
  obtain p where p: "find_matching_policy flt (pc_tenant_id c) (pc_service c) (pc_environment c) (pc_severity c) db = Inr (Some p)"
    using assms by (auto simp: evaluate_def Let_def default_decision_def split: sum.splits option.splits)
  let ?db = "elapsed_breaker_closed flt now p db"
  have d: "d = decide zones flt now c p ?db" and b: "pdb_breakers db' = pdb_breakers ?db"
    using assms(1) p by (auto simp: evaluate_def Let_def frame)
  from assms(2) have none: "first_some [breaker_denial flt p ?db, blackout_denial zones now p, hours_denial zones now p,
      rate_denial flt now c p ?db, concurrency_denial flt c p ?db, impact_denial c p] = None"
    unfolding d decide_def by (auto split: option.splits dest!: first_some_Some dest: denials_deny[OF sym])
  with d have "d = permitted c p" by (simp add: decide_def)
  with assms(3) have perm: "po_execution_mode p = ''auto'' \<and> \<not> po_requires_approval p \<and> \<not> po_dry_run_mode p \<and>
      \<not> po_simulation_mode p \<and> \<not> pc_is_dry_run c" by (auto dest: permitted_auto)
  from none have checks: "breaker_denial flt p ?db = None" "blackout_denial zones now p = None"
    "hours_denial zones now p = None" "rate_denial flt now c p ?db = None"
    "concurrency_denial flt c p ?db = None" "impact_denial c p = None"
    by (simp_all add: first_some_None)
  note passed = passed_breaker[OF checks(1)] passed_blackout[OF checks(2)] passed_hours[OF checks(3)]
    passed_rate[OF checks(4)] passed_concurrency[OF checks(5)] passed_impact[OF checks(6)]
  show ?thesis
    using found_policy_eligible[OF p] perm passed
    by (intro bexI[of _ p]) (simp_all only: b frame simp_thms)
qed

theorem auto_mode_authorised_witness:
  "let p = policy_zero\<lparr>po_id := ''p'', po_tenant_id := ''t'', po_enabled := True, po_execution_mode := ''auto''\<rparr>;
       db = \<lparr>pdb_policies = [p], pdb_breakers = [], pdb_trail = [], pdb_executions = []\<rparr>;
       c = \<lparr>pc_tenant_id = ''t'', pc_incident_id = ''i'', pc_action_id = ''a'', pc_service = ''pay'',
            pc_environment = ''prod'', pc_severity = ''high'', pc_impacted_services = 1, pc_actor = ''ann'',
            pc_is_dry_run = False\<rparr>
   in ed_execution_mode (fst (evaluate (\<lambda>_. None) True no_faults 0 c db)) = ''auto'' \<and>
      (\<exists>p \<in> set (pdb_policies db). eligible_policy ''t'' ''pay'' ''prod'' ''high'' p \<and> \<not> po_requires_approval p)"
proof -
  let ?p = "policy_zero\<lparr>po_id := ''p'', po_tenant_id := ''t'', po_enabled := True, po_execution_mode := ''auto''\<rparr>"
  let ?db = "\<lparr>pdb_policies = [?p], pdb_breakers = [], pdb_trail = [], pdb_executions = []\<rparr>"
  let ?c = "\<lparr>pc_tenant_id = ''t'', pc_incident_id = ''i'', pc_action_id = ''a'', pc_service = ''pay'',
      pc_environment = ''prod'', pc_severity = ''high'', pc_impacted_services = 1, pc_actor = ''ann'',
      pc_is_dry_run = False\<rparr>"
  let ?r = "evaluate (\<lambda>_. None) True no_faults 0 ?c ?db"
  have a: "ed_allowed (fst ?r)" "ed_execution_mode (fst ?r) = ''auto''" by code_simp+
  obtain q where q: "q \<in> set (pdb_policies ?db)"
    "eligible_policy (pc_tenant_id ?c) (pc_service ?c) (pc_environment ?c) (pc_severity ?c) q"
    "\<not> po_requires_approval q"
    using auto_mode_authorised[OF prod.collapse[symmetric] a] by blast
  then have "\<exists>p \<in> set (pdb_policies ?db). eligible_policy ''t'' ''pay'' ''prod'' ''high'' p \<and> \<not> po_requires_approval p"
    unfolding PolicyEvalContext.select_convs by (intro bexI[of _ q] conjI)
  with a(2) show ?thesis unfolding Let_def by (rule conjI)
qed

text \<open>What an evaluation writes. Whatever statements fail, an evaluation changes neither a
  policy nor an execution; a breaker changes only when it is the matching policy's, open, and past
  its reset time, and then it is closed; the trail keeps every earlier entry in place and grows by
  at most the one entry of this evaluation, which records the decision returned.\<close>

theorem evaluate_footprint:
  assumes "evaluate zones trailed flt now c db = (d, db')"
  shows "pdb_policies db' = pdb_policies db \<and> pdb_executions db' = pdb_executions db \<and>
     list_all2 (\<lambda>b b'. b' = b \<or> reset_is_due now b \<and> cb_policy_id b = ed_policy_id d \<and> b' = closed_breaker now b)
       (pdb_breakers db) (pdb_breakers db') \<and>
     (pdb_trail db' = pdb_trail db \<or> (\<exists>p. pdb_trail db' = pdb_trail db @ [trail_entry now c d p]))"
proof (cases "find_matching_policy flt (pc_tenant_id c) (pc_service c) (pc_environment c) (pc_severity c) db")
  case (Inl e)
  with assms show ?thesis by (auto simp: evaluate_def list_all2_same)
next
  case (Inr r)
  show ?thesis
  proof (cases r)
    case None
    with assms Inr have "db' = write_trail trailed flt now c d None db" by (auto simp: evaluate_def Let_def)
    then show ?thesis using write_trail_grows[of trailed flt now c d None db]
      by (auto simp: frame list_all2_same)
  next
    case (Some p)
    let ?db = "elapsed_breaker_closed flt now p db"
    from assms Inr Some have e: "db' = write_trail trailed flt now c d (Some p) ?db"
      and d: "ed_policy_id d = po_id p"
      by (auto simp: evaluate_def Let_def decide_policy_id)
    show ?thesis using write_trail_grows[of trailed flt now c d "Some p" ?db] elapsed_breaker_rows[of now p db flt]
      by (auto simp: frame e d)
  qed
qed

theorem evaluate_footprint_witness:
  "let p = policy_zero\<lparr>po_id := ''p'', po_tenant_id := ''t'', po_enabled := True, po_circuit_breaker_enabled := True\<rparr>;
       b = (fresh_breaker 0 ''p'' ''t'' 3)\<lparr>cb_is_open := True, cb_will_reset_at := Some 5\<rparr>;
       db = \<lparr>pdb_policies = [p], pdb_breakers = [b], pdb_trail = [], pdb_executions = []\<rparr>;
       c = \<lparr>pc_tenant_id = ''t'', pc_incident_id = ''i'', pc_action_id = ''a'', pc_service = ''pay'',
            pc_environment = ''prod'', pc_severity = ''high'', pc_impacted_services = 1, pc_actor = ''ann'',
            pc_is_dry_run = False\<rparr>
   in pdb_breakers (snd (evaluate (\<lambda>_. None) True no_faults 7 c db)) = [closed_breaker 7 b] \<and>
      pdb_policies (snd (evaluate (\<lambda>_. None) True no_faults 7 c db)) = [p]"
proof -
  let ?p = "policy_zero\<lparr>po_id := ''p'', po_tenant_id := ''t'', po_enabled := True, po_circuit_breaker_enabled := True\<rparr>"
  let ?b = "(fresh_breaker 0 ''p'' ''t'' 3)\<lparr>cb_is_open := True, cb_will_reset_at := Some 5\<rparr>"
  let ?db = "\<lparr>pdb_policies = [?p], pdb_breakers = [?b], pdb_trail = [], pdb_executions = []\<rparr>"
  let ?c = "\<lparr>pc_tenant_id = ''t'', pc_incident_id = ''i'', pc_action_id = ''a'', pc_service = ''pay'',
      pc_environment = ''prod'', pc_severity = ''high'', pc_impacted_services = 1, pc_actor = ''ann'',
      pc_is_dry_run = False\<rparr>"
  let ?r = "evaluate (\<lambda>_. None) True no_faults 7 ?c ?db"
  have b: "pdb_breakers (snd ?r) = [closed_breaker 7 ?b]" by code_simp
  have p: "pdb_policies (snd ?r) = [?p]"
    using evaluate_footprint[OF prod.collapse[symmetric], of "\<lambda>_. None" True no_faults 7 ?c ?db]
    by (simp only: policy_db.select_convs)
  from b p show ?thesis unfolding Let_def by (rule conjI)
qed

end
