(* ===== verification/Actions.thy ===== *)
theory Actions
  imports Models KnowledgeMatch
begin

text \<open>
  \<open>internal/services/action_service.go\<close> with \<open>models/action.go\<close>, and of
  \<open>incident_detail_service.go\<close> the classification of an incident it rests on (\<open>buildInsight\<close>):
  the list of actions proposed for an incident. The knowledge base is an argument; \<open>None\<close> is a
  base that is not set.
\<close>

section \<open>Insight\<close>

record IncidentInsight =
  in_incident_type :: string
  in_likely_root_cause :: string
  in_why_this_is_likely :: "string list"
  in_recommended_checks :: "string list"
  in_suggested_action :: string
  in_confidence :: string

definition prefer_reasoning :: "string list \<Rightarrow> string list \<Rightarrow> string list" where
  "prefer_reasoning current fallback = (if current \<noteq> [] then current else fallback)"

definition confidence_label :: "int \<Rightarrow> string" where
  "confidence_label c = (if 80 \<le> c then ''high'' else if 60 \<le> c then ''medium'' else ''low'')"

definition base_why :: "Incident \<Rightarrow> string list" where
  "base_why inc = prefer_reasoning (inc_reasoning inc) [''Correlated signals point to an active service issue.''] @
     (if inc_seen_before inc
      then [''A similar incident was seen previously, which increases pattern confidence.''] else [])"

definition build_insight :: "string \<Rightarrow> Incident \<Rightarrow> IncidentInsight" where
  "build_insight pat inc =
    (let why = base_why inc;
         insight = (\<lambda>ty why checks act. \<lparr>in_incident_type = ty,
           in_likely_root_cause = inc_root_cause_summary inc, in_why_this_is_likely = why,
           in_recommended_checks = checks, in_suggested_action = act,
           in_confidence = confidence_label (inc_confidence inc)\<rparr>)
     in
     if pat = ''database_issue'' then
       insight ''database_failure'' (why @ [''Database-oriented keywords were found in the incident event stream.''])
         [''Check database primary-node health and listener availability.'',
          ''Validate network connectivity between the service and the database tier.'',
          ''Inspect connection pool exhaustion and authentication failures.'',
          ''Review failover, replication, or database maintenance activity.'']
         ''Start with database reachability and primary-node health before restarting the application service.''
     else if pat = ''failure_then_timeout'' then
       insight ''service_degradation'' (why @ [''Failure-related and timeout-related signals appeared in the same incident window.''])
         [''Check application logs around the first failure timestamp.'',
          ''Inspect downstream database or API dependency latency.'',
          ''Check queue backlog, thread pool usage, or request saturation for the service.'',
          ''Verify whether a recent deploy or config change happened before the incident started.'']
         ''Investigate dependency health and service saturation first. Do not restart blindly until logs and downstream latency are checked.''
     else if pat = ''timeout_only'' then
       insight ''response_timeout'' (why @ [''Timeout-related signals were observed without a stronger preceding failure pattern.''])
         [''Check upstream and downstream response times.'',
          ''Inspect network connectivity and gateway timeout settings.'',
          ''Review CPU, memory, and concurrency saturation for the service.'',
          ''Check whether dependency calls are taking longer than normal.'']
         ''Validate dependency latency and service load before considering restart or scale-up actions.''
     else if pat = ''latency_only'' then
       insight ''latency_degradation'' (why @ [''Latency-related wording dominated the event sequence.''])
         [''Inspect CPU, memory, and response-time trends for the service.'',
          ''Check database query duration and external API call latency.'',
          ''Review recent traffic spikes or batch workloads hitting the service.'',
          ''Inspect any recent deployment, feature flag, or config changes.'']
         ''Investigate service load and slow dependencies before taking disruptive recovery actions.''
     else if pat = ''failure_only'' then
       insight ''service_failure'' (why @ [''Failure-related wording dominated the correlated event set.''])
         [''Inspect service error logs and stack traces.'',
          ''Check configuration, secrets, and environment variables.'',
          ''Validate downstream dependency availability and credentials.'',
          ''Review recent deploy or release activity for regression risk.'']
         ''Start with application logs and recent change history to isolate direct failure causes.''
     else
       insight ''unknown'' why
         [''Inspect service logs around the incident window.'',
          ''Review recent deployment or configuration changes.'',
          ''Check resource utilization and downstream dependency health.'']
         ''Gather more telemetry before concluding root cause.'')"

section \<open>Actions\<close>

record Action =
  act_id :: string
  act_label :: string
  act_description :: string
  act_type :: string
  act_severity :: string
  act_risk_level :: string
  act_requires_approval :: bool

definition action :: "string \<Rightarrow> string \<Rightarrow> string \<Rightarrow> string \<Rightarrow> string \<Rightarrow> string \<Rightarrow> bool \<Rightarrow> Action" where
  "action i label desc ty sev risk approval = \<lparr>act_id = i, act_label = label, act_description = desc,
     act_type = ty, act_severity = sev, act_risk_level = risk, act_requires_approval = approval\<rparr>"

definition normalize_action_severity :: "string \<Rightarrow> string" where
  "normalize_action_severity sev =
    (let s = to_lower (trim_space sev) in
     if s = ''critical'' then ''critical'' else if s = ''high'' then ''high''
     else if s = ''medium'' then ''medium'' else ''low'')"

text \<open>\<open>strings.LastIndex\<close> of a blank, -1 when there is none.\<close>

definition last_space :: "string \<Rightarrow> int" where
  "last_space s = int (length (dropWhile (\<lambda>c. c \<noteq> CHR '' '') (rev s))) - 1"

definition truncate_label :: "string \<Rightarrow> nat \<Rightarrow> string" where
  "truncate_label s m =
    (if length s \<le> m then s
     else let l = last_space (take m s) in
       if int (m div 2) < l then take (nat l) s @ ''...'' else take m s @ ''...'')"

definition safe_incident_id :: "string \<Rightarrow> string" where
  "safe_incident_id v = (if trim_space v = [] then ''previous similar incident'' else v)"

definition build_what_changed :: "Incident \<Rightarrow> string" where
  "build_what_changed inc =
    (let ty = trim_space (inc_what_changed_type inc);
         sv = trim_space (inc_what_changed_service inc);
         version = trim_space (inc_what_changed_version inc);
         service = (if sv = [] then inc_service inc else sv)
     in if ty = [] then ''Review change history aligned with the incident window''
        else if version \<noteq> [] then
          ''Review the recent '' @ ty @ '' on '' @ service @ '' ('' @ version @ '') because it aligns with the incident window''
        else ''Review the recent '' @ ty @ '' on '' @ service @ '' because it aligns with the incident window'')"

definition service_or_app :: "Incident \<Rightarrow> string" where
  "service_or_app inc = (let s = trim_space (inc_service inc) in if s = [] then ''app'' else s)"

subsection \<open>Steps of the knowledge base\<close>

definition disruptive_step :: "string \<Rightarrow> bool" where
  "disruptive_step step \<longleftrightarrow> contains_str (to_lower step) ''kill'' \<or> contains_str (to_lower step) ''restart'' \<or>
     contains_str (to_lower step) ''delete''"

definition kb_action :: "Incident \<Rightarrow> nat \<Rightarrow> string \<Rightarrow> Action" where
  "kb_action inc i step =
    (if disruptive_step step then
       action (''kb-step-'' @ show_nat (i + 1)) (truncate_label step 60) step ''remediation''
         (normalize_action_severity (inc_severity inc)) ''medium'' True
     else
       action (''kb-step-'' @ show_nat (i + 1)) (truncate_label step 60) step ''diagnostic''
         (normalize_action_severity (inc_severity inc)) ''low'' False)"

definition kb_actions :: "KnowledgeBase option \<Rightarrow> Incident \<Rightarrow> Action list" where
  "kb_actions kb inc =
    (case kb of
       None \<Rightarrow> []
     | Some k \<Rightarrow>
        (case kb_match_by_incident k (inc_title inc) (inc_root_cause_summary inc) (inc_reasoning inc) of
           None \<Rightarrow> []
         | Some e \<Rightarrow> map (\<lambda>(i, step). kb_action inc i step) (enumerate 0 (take 5 (kb_resolution_steps e)))))"

subsection \<open>Actions by type of incident\<close>

definition primary_diagnostic :: "Incident \<Rightarrow> string \<Rightarrow> Action" where
  "primary_diagnostic inc ty =
    (let svc = service_or_app inc in
     if ty = ''database_failure'' then
       action ''check-db-health'' ''Check Database Health''
         (''Run: pg_isready -h localhost -p 5432 && psql -U postgres -c '' @ [CHR 0x27] @
           ''SELECT count(*) FROM pg_stat_activity;'' @ [CHR 0x27, CHR 0x0A] @
           ''Also check: systemctl status postgresql'' @ [CHR 0x0A] @
           ''Look for refused connections, auth failures, or max_connections exhaustion.'')
         ''diagnostic'' ''high'' ''low'' False
     else if ty = ''response_timeout'' then
       action ''check-downstream-latency'' ''Check Slow Dependency Path''
         (''Run: curl -w '' @ [CHR 0x27] @ ''%{time_total}s'' @ [CHR 0x5C] @ ''n'' @ [CHR 0x27] @
           '' -o /dev/null -s http://localhost:8080/health'' @ [CHR 0x0A] @
           ''Also: ss -tnp | grep ESTABLISHED | wc -l'' @ [CHR 0x0A] @ ''And: netstat -s | grep -i timeout''
           @ [CHR 0x0A] @ ''Map which downstream call is adding latency.'')
         ''diagnostic'' (normalize_action_severity (inc_severity inc)) ''low'' False
     else if ty = ''service_degradation'' then
       action ''inspect-service-logs'' ''Inspect Failure Progression in Logs''
         (''Run: journalctl -u '' @ svc @ '' -n 200 --no-pager | grep -E '' @ [CHR 0x27] @
           ''ERROR|WARN|panic|fatal'' @ [CHR 0x27, CHR 0x0A] @ ''Or: tail -200 /var/log/'' @ svc @
           ''/error.log'' @ [CHR 0x0A] @
           ''Find the first error timestamp and correlate with the incident window.'')
         ''diagnostic'' ''high'' ''low'' False
     else if ty = ''latency_degradation'' then
       action ''check-load-and-latency'' ''Check CPU / Memory / Load Pressure''
         (''Run: top -bn1 | head -20'' @ [CHR 0x0A] @ ''And: free -h'' @ [CHR 0x0A] @ ''And: uptime'' @
           [CHR 0x0A] @ ''And: iostat -x 1 3'' @ [CHR 0x0A] @
           ''Look for CPU steal, iowait >5%, or memory swap usage indicating resource saturation.'')
         ''diagnostic'' (normalize_action_severity (inc_severity inc)) ''low'' False
     else if ty = ''service_failure'' then
       action ''inspect-error-logs'' ''Inspect Error Logs and Stack Traces''
         (''Run: journalctl -u '' @ svc @ '' --since '' @ [CHR 0x27] @ ''30 minutes ago'' @ [CHR 0x27] @
           '' --no-pager'' @ [CHR 0x0A] @ ''Or: grep -E '' @ [CHR 0x27] @ ''Exception|ERROR|panic'' @
           [CHR 0x27] @ '' /var/log/'' @ svc @ ''/*.log | tail -50'' @ [CHR 0x0A] @
           ''Identify the exception type and the first failure line.'')
         ''diagnostic'' (normalize_action_severity (inc_severity inc)) ''low'' False
     else
       action ''triage-incident'' ''Start Structured Triage''
         (''Run: top -bn1 | head -5 && df -h && free -h'' @ [CHR 0x0A] @
           ''Review the incident timeline and correlated signals in the platform before taking any action. Document findings before each step.'')
         ''investigation'' (normalize_action_severity (inc_severity inc)) ''low'' False)"

definition secondary_diagnostic :: "Incident \<Rightarrow> string \<Rightarrow> Action" where
  "secondary_diagnostic inc ty =
    (
     if ty = ''database_failure'' then
       action ''check-db-network-path'' ''Check DB Network Path''
         ''Validate network reachability between the service and database tier, including DNS, routing, and intermediate connectivity''
         ''diagnostic'' ''high'' ''low'' False
     else if ty = ''response_timeout'' then
       action ''check-service-saturation'' ''Check Service Saturation''
         ''Inspect thread pools, concurrency limits, queue build-up, worker starvation, and request backlog''
         ''diagnostic'' (normalize_action_severity (inc_severity inc)) ''low'' False
     else if ty = ''service_degradation'' then
       action ''review-recent-deploys'' ''Review Recent Deployment or Config Change''
         ''Verify whether recent releases, flags, or config changes align with the start of degradation''
         ''investigation'' (normalize_action_severity (inc_severity inc)) ''low'' False
     else if ty = ''latency_degradation'' then
       action ''review-query-and-external-latency'' ''Review Query and External Call Latency''
         ''Check slow queries and external dependency calls that may be increasing service response time''
         ''diagnostic'' (normalize_action_severity (inc_severity inc)) ''low'' False
     else if ty = ''service_failure'' then
       action ''validate-config-and-secrets'' ''Validate Config and Secrets''
         ''Check environment variables, secrets, token validity, and release-time configuration drift''
         ''investigation'' (normalize_action_severity (inc_severity inc)) ''low'' False
     else
       action ''inspect-correlated-events'' ''Inspect Correlated Events''
         ''Review each correlated event to determine whether the issue is escalating, repeating, or change-related''
         ''investigation'' (normalize_action_severity (inc_severity inc)) ''low'' False)"

definition remediation_actions :: "Incident \<Rightarrow> string \<Rightarrow> Action list" where
  "remediation_actions inc ty =
    (
     if ty = ''database_failure'' then
       [action ''restart-db-client-connections'' ''Restart DB Client Connections''
          ''Restart connection pools or database clients only after database reachability and listener checks are complete''
          ''remediation'' ''high'' ''medium'' True] @
       (if 3 \<le> inc_impact_count inc \<or> 80 \<le> inc_risk_score inc then
        [action ''failover-db-path'' ''Evaluate Database Failover Path''
           ''Evaluate controlled database failover or traffic reroute because blast radius and business risk are elevated''
           ''remediation'' ''critical'' ''high'' True]
        else [])
     else if ty = ''response_timeout'' then
       [action ''scale-service-capacity'' ''Scale Service Capacity''
          ''Increase service replicas or worker capacity if latency analysis confirms saturation instead of dependency failure''
          ''remediation'' (normalize_action_severity (inc_severity inc)) ''medium'' True] @
       (if inc_what_changed_type inc \<noteq> [] then
        [action ''rollback-recent-change'' ''Consider Rolling Back Recent Change''
           ''Evaluate rollback because incident timing aligns with a recent deployment or configuration change''
           ''remediation'' (normalize_action_severity (inc_severity inc)) ''high'' True]
        else [])
     else if ty = ''service_degradation'' then
       [action ''restart-affected-service'' ''Restart Affected Service''
          ''Restart the affected service only after checking logs, dependency health, and recent changes''
          ''remediation'' (normalize_action_severity (inc_severity inc)) ''high'' True,
        action ''rollback-release'' ''Rollback Release or Flag''
          ''Rollback recent release, feature flag, or config shift if degradation clearly started after change introduction''
          ''remediation'' (normalize_action_severity (inc_severity inc)) ''high'' True]
     else if ty = ''latency_degradation'' then
       [action ''shed-or-throttle-load'' ''Throttle or Shed Non-Critical Load''
          ''Reduce non-critical load to protect service availability while root cause is isolated''
          ''remediation'' (normalize_action_severity (inc_severity inc)) ''medium'' True]
     else if ty = ''service_failure'' then
       [action ''restart-service-instance'' ''Restart Service Instance''
          ''Restart the service only after validating that configuration, secrets, and dependencies are not the primary cause''
          ''remediation'' (normalize_action_severity (inc_severity inc)) ''high'' True]
     else
       [action ''manual-triage-escalation'' ''Escalate to Manual Triage''
          ''Escalate for operator-led diagnosis because the current evidence does not support a safe automated remediation path''
          ''generic'' (normalize_action_severity (inc_severity inc)) ''low'' False])"

definition verify_text :: "Incident \<Rightarrow> string \<Rightarrow> string" where
  "verify_text inc ty =
    (let svc = service_or_app inc in
     if ty = ''database_failure'' then
       (''1. pg_isready -h localhost -p 5432  (expect: accepting connections)'' @ [CHR 0x0A] @
         ''2. psql -U postgres -c '' @ [CHR 0x27] @
         ''SELECT count(*) FROM pg_stat_activity WHERE state=$$active$$;'' @ [CHR 0x27, CHR 0x0A] @
         ''3. Check error rate in your monitoring '' @ [CHR 0xE2, CHR 0x80, CHR 0x94] @
         '' confirm it returned to baseline.'' @ [CHR 0x0A] @ ''4. If all healthy '' @
         [CHR 0xE2, CHR 0x86, CHR 0x92] @ '' mark incident as Resolved.'')
     else if ty = ''response_timeout'' \<or> ty = ''latency_degradation'' then
       (''1. curl -w '' @ [CHR 0x27] @ ''%{time_total}s'' @ [CHR 0x5C] @ ''n'' @ [CHR 0x27] @
         '' -o /dev/null -s http://localhost:8080/health'' @ [CHR 0x0A] @
         ''   (expect: <200ms response time)'' @ [CHR 0x0A] @ ''2. tail -20 /var/log/'' @ svc @
         ''/access.log | grep -v '' @ [CHR 0x27] @ ''2[0-9][0-9]'' @ [CHR 0x27, CHR 0x0A] @
         ''   (expect: no 5xx errors)'' @ [CHR 0x0A] @ ''3. Check p99 latency in monitoring '' @
         [CHR 0xE2, CHR 0x80, CHR 0x94] @ '' confirm it dropped to baseline.'' @ [CHR 0x0A] @
         ''4. If all healthy '' @ [CHR 0xE2, CHR 0x86, CHR 0x92] @ '' mark incident as Resolved.'')
     else if ty = ''service_degradation'' \<or> ty = ''service_failure'' then
       (''1. systemctl is-active '' @ svc @ ''  (expect: active)'' @ [CHR 0x0A] @ ''2. journalctl -u '' @ svc
         @ '' --since '' @ [CHR 0x27] @ ''5 minutes ago'' @ [CHR 0x27] @ '' --no-pager | grep -c ERROR'' @
         [CHR 0x0A] @ ''   (expect: 0 errors)'' @ [CHR 0x0A] @
         ''3. curl -sf http://localhost:8080/health && echo OK'' @ [CHR 0x0A] @ ''   (expect: 200 OK)'' @
         [CHR 0x0A] @ ''4. If all checks pass '' @ [CHR 0xE2, CHR 0x86, CHR 0x92] @
         '' mark incident as Resolved.'')
     else
       (''1. Check service health: curl -sf http://localhost:8080/health && echo OK'' @ [CHR 0x0A] @
         ''2. Check system load: uptime  (expect: load avg <4.0)'' @ [CHR 0x0A] @
         ''3. Check error logs: journalctl -u '' @ svc @ '' --since '' @ [CHR 0x27] @ ''5 minutes ago'' @
         [CHR 0x27] @ '' | grep -c ERROR'' @ [CHR 0x0A] @ ''   (expect: 0)'' @ [CHR 0x0A] @
         ''4. Confirm in monitoring that the alert has cleared.'' @ [CHR 0x0A] @ ''5. If all checks pass '' @
         [CHR 0xE2, CHR 0x86, CHR 0x92] @ '' mark incident as Resolved.''))"

definition verification_action :: "Incident \<Rightarrow> string \<Rightarrow> Action" where
  "verification_action inc ty = action ''verify-resolution'' ''Verify Incident Is Resolved'' (verify_text inc ty)
     ''verification'' (normalize_action_severity (inc_severity inc)) ''low'' False"

definition context_actions :: "Incident \<Rightarrow> Action list" where
  "context_actions inc =
    (let sev = normalize_action_severity (inc_severity inc) in
     (if inc_seen_before inc then
        [action ''compare-last-incident'' ''Compare With Previous Incident''
           (''Review similar incident '' @ safe_incident_id (inc_similar_incident_id inc) @
             '' and compare symptoms, timing, and recovery path before taking disruptive action'')
           ''investigation'' sev ''low'' False]
      else []) @
     (if inc_what_changed_type inc \<noteq> [] then
        [action ''review-recent-change'' ''Review Recent Change'' (build_what_changed inc) ''investigation'' sev ''low'' False]
      else []) @
     (if 3 \<le> inc_impact_count inc then
        [action ''notify-impacted-owners'' ''Notify Impacted Service Owners''
           (''Notify downstream owners because '' @ show_int (inc_impact_count inc) @
             '' services are in the current blast radius'')
           ''coordination'' sev ''low'' False]
      else []) @
     (if 80 \<le> inc_risk_score inc then
        [action ''protect-business-flow'' ''Protect Business-Critical Flow''
           ''Apply mitigation planning first because current incident risk is high and the blast radius may expand quickly''
           ''coordination'' sev ''low'' False]
      else []))"

section \<open>The list\<close>

text \<open>\<open>deduplicateActions\<close>: the IDs seen so far.\<close>

fun dedupe_from :: "string list \<Rightarrow> Action list \<Rightarrow> Action list" where
  "dedupe_from seen [] = []"
| "dedupe_from seen (a # as) =
    (if trim_space (act_id a) = [] \<or> act_id a \<in> set seen then dedupe_from seen as
     else a # dedupe_from (act_id a # seen) as)"

definition deduplicate_actions :: "Action list \<Rightarrow> Action list" where
  "deduplicate_actions as = dedupe_from [] as"

definition type_score :: "string \<Rightarrow> int" where
  "type_score ty =
    (if ty = ''diagnostic'' then 120 else if ty = ''investigation'' then 95
     else if ty = ''coordination'' then 75 else if ty = ''remediation'' then 45 else 20)"

definition risk_score_of :: "string \<Rightarrow> int" where
  "risk_score_of risk =
    (let r = to_lower (trim_space risk) in
     if r = ''low'' then 25 else if r = ''medium'' then 8 else if r = ''high'' then -20 else 0)"

definition action_score :: "Incident \<Rightarrow> string \<Rightarrow> Action \<Rightarrow> int" where
  "action_score inc ty a =
     type_score (act_type a) + risk_score_of (act_risk_level a) +
     (if \<not> act_requires_approval a then 15 else -10) +
     (if inc_what_changed_type inc \<noteq> [] \<and> act_id a = ''review-recent-change'' then 45 else 0) +
     (if inc_seen_before inc \<and> act_id a = ''compare-last-incident'' then 35 else 0) +
     (if 3 \<le> inc_impact_count inc \<and> act_id a = ''notify-impacted-owners'' then 30 else 0) +
     (if 80 \<le> inc_risk_score inc \<and> act_id a = ''protect-business-flow'' then 40 else 0) +
     (if ty = ''database_failure'' \<and> (act_id a = ''check-db-health'' \<or> act_id a = ''check-db-network-path'') then 30 else 0) +
     (if ty = ''response_timeout'' \<and> (act_id a = ''check-downstream-latency'' \<or> act_id a = ''check-service-saturation'') then 25 else 0) +
     (if ty = ''service_failure'' \<and> act_id a = ''inspect-error-logs'' then 25 else 0) -
     (if contains_str (to_lower (act_label a)) ''restart'' then 15 else 0) -
     (if contains_str (to_lower (act_label a)) ''rollback'' then 5 else 0)"

definition prioritize_actions :: "Action list \<Rightarrow> Incident \<Rightarrow> string \<Rightarrow> Action list" where
  "prioritize_actions as inc ty = order_desc (action_score inc ty) as"

definition proposed_actions :: "KnowledgeBase option \<Rightarrow> Incident \<Rightarrow> string \<Rightarrow> Action list" where
  "proposed_actions kb inc ty = kb_actions kb inc @ [primary_diagnostic inc ty, secondary_diagnostic inc ty] @
     remediation_actions inc ty @ context_actions inc"

definition build_actions :: "KnowledgeBase option \<Rightarrow> Incident \<Rightarrow> IncidentInsight \<Rightarrow> Action list" where
  "build_actions kb inc insight =
    (let ty = in_incident_type insight in
     prioritize_actions (deduplicate_actions (proposed_actions kb inc ty)) inc ty @ [verification_action inc ty])"

definition get_primary_action :: "Action list \<Rightarrow> Action option" where
  "get_primary_action as =
    (let safe = (\<lambda>a. equal_fold (act_risk_level a) ''low'' \<and> \<not> act_requires_approval a) in
     case find (\<lambda>a. act_type a = ''diagnostic'' \<and> safe a) as of
       Some a \<Rightarrow> Some a
     | None \<Rightarrow>
        (case find (\<lambda>a. (act_type a = ''investigation'' \<or> act_type a = ''coordination'') \<and> safe a) as of
           Some a \<Rightarrow> Some a
         | None \<Rightarrow> first_row as))"

section \<open>Lemmas\<close>

lemma action_simps [simp]:
  "act_id (action i l d t s r q) = i" "act_label (action i l d t s r q) = l"
  "act_description (action i l d t s r q) = d" "act_type (action i l d t s r q) = t"
  "act_risk_level (action i l d t s r q) = r" "act_requires_approval (action i l d t s r q) = q"
  by (simp_all add: action_def)

text \<open>Keeps the simplifier out of the texts.\<close>

lemma action_cong: "q = q' \<Longrightarrow> action i l d t s r q = action i l d t s r q'"
  by simp

text \<open>What holds of every single action that is proposed.\<close>

definition action_ok :: "Action \<Rightarrow> bool" where
  "action_ok a \<longleftrightarrow> act_requires_approval a = (act_type a = ''remediation'') \<and>
     (if act_type a = ''remediation'' then act_risk_level a \<in> {''medium'', ''high''} else act_risk_level a = ''low'') \<and>
     act_id a \<noteq> ''verify-resolution'' \<and> trim_space (act_id a) \<noteq> []"

lemma nonblank_id: "\<not> is_space c \<Longrightarrow> trim_space (c # s) \<noteq> []"
  by (simp add: trim_space_def trim_left_def)

lemma primary_diagnostic_ok: "action_ok (primary_diagnostic inc ty)"
  unfolding primary_diagnostic_def Let_def if_distrib[of action_ok]
  by (simp add: action_ok_def nonblank_id is_space_def cong: action_cong)

lemma primary_diagnostic_type:
  "act_type (primary_diagnostic inc ty) = ''diagnostic'' \<or> act_type (primary_diagnostic inc ty) = ''investigation''"
  unfolding primary_diagnostic_def Let_def if_distrib[of act_type] by (simp cong: action_cong)

lemma secondary_diagnostic_ok: "action_ok (secondary_diagnostic inc ty)"
  unfolding secondary_diagnostic_def if_distrib[of action_ok]
  by (simp add: action_ok_def nonblank_id is_space_def cong: action_cong)

lemma remediation_actions_ok: "list_all action_ok (remediation_actions inc ty)"
  by (simp add: remediation_actions_def action_ok_def nonblank_id is_space_def cong: action_cong)

lemma context_actions_ok: "list_all action_ok (context_actions inc)"
  by (simp add: context_actions_def action_ok_def Let_def nonblank_id is_space_def cong: action_cong)

lemma kb_action_ok: "action_ok (kb_action inc i step)"
  by (simp add: kb_action_def action_ok_def nonblank_id is_space_def)

lemma kb_actions_ok: "list_all action_ok (kb_actions kb inc)"
  by (auto simp: kb_actions_def list_all_iff kb_action_ok split: option.splits)

lemmas proposals_ok = primary_diagnostic_ok secondary_diagnostic_ok remediation_actions_ok context_actions_ok
  kb_actions_ok

lemma proposed_ok: "list_all action_ok (proposed_actions kb inc ty)"
  by (simp add: proposed_actions_def proposals_ok)

lemma dedupe_from_set: "set (dedupe_from seen as) \<subseteq> set as"
  by (induction as arbitrary: seen) auto

lemma dedupe_from_ids:
  "distinct (map act_id (dedupe_from seen as)) \<and> set (map act_id (dedupe_from seen as)) \<inter> set seen = {}"
proof (induction as arbitrary: seen)
  case Nil
  then show ?case by simp
next
  case (Cons a as)
  from Cons.IH[of "act_id a # seen"] Cons.IH[of seen] show ?case by auto
qed

lemma dedupe_from_complete:
  "a \<in> set as \<Longrightarrow> trim_space (act_id a) \<noteq> [] \<Longrightarrow> act_id a \<notin> set seen \<Longrightarrow>
   \<exists>b \<in> set (dedupe_from seen as). act_id b = act_id a"
proof (induction as arbitrary: seen)
  case Nil
  then show ?case by simp
next
  case (Cons x as)
  show ?case
  proof (cases "act_id x = act_id a")
    case True
    with Cons.prems show ?thesis by simp
  next
    case False
    with Cons.prems have "a \<in> set as" "act_id a \<notin> set (act_id x # seen)" by auto
    with Cons.IH Cons.prems False show ?thesis by simp
  qed
qed

lemma prioritize_set [simp]: "set (prioritize_actions as inc ty) = set as"
  by (simp add: prioritize_actions_def)

lemma prioritize_sorted:
  "sorted_wrt (\<lambda>a b. action_score inc ty b \<le> action_score inc ty a) (prioritize_actions as inc ty)"
  using sorted_sort_key[of "\<lambda>a. - action_score inc ty a" as]
  by (simp add: prioritize_actions_def order_desc_def sorted_map)

lemma prioritize_distinct:
  "distinct (map act_id as) \<Longrightarrow> distinct (map act_id (prioritize_actions as inc ty))"
  by (simp add: prioritize_actions_def order_desc_def distinct_map)

lemma build_actions_eq:
  "build_actions kb inc insight =
     prioritize_actions (deduplicate_actions (proposed_actions kb inc (in_incident_type insight))) inc (in_incident_type insight) @
     [verification_action inc (in_incident_type insight)]"
  by (simp add: build_actions_def Let_def)

lemma deduplicated_ok: "list_all action_ok (deduplicate_actions (proposed_actions kb inc ty))"
  using proposed_ok[of kb inc ty] dedupe_from_set[of "[]" "proposed_actions kb inc ty"]
  by (auto simp: deduplicate_actions_def list_all_iff)

lemma primary_ids: "act_id (primary_diagnostic inc ty) \<in>
   {''check-db-health'', ''check-downstream-latency'', ''inspect-service-logs'', ''check-load-and-latency'',
    ''inspect-error-logs'', ''triage-incident''}"
  unfolding primary_diagnostic_def Let_def if_distrib[of act_id] by (simp cong: action_cong)

definition other_ids :: "string set" where
  "other_ids = {''check-db-network-path'', ''check-service-saturation'', ''review-recent-deploys'',
     ''review-query-and-external-latency'', ''validate-config-and-secrets'', ''inspect-correlated-events'',
     ''restart-db-client-connections'', ''failover-db-path'', ''scale-service-capacity'', ''rollback-recent-change'',
     ''restart-affected-service'', ''rollback-release'', ''shed-or-throttle-load'', ''restart-service-instance'',
     ''manual-triage-escalation'', ''compare-last-incident'', ''review-recent-change'', ''notify-impacted-owners'',
     ''protect-business-flow''}"

lemma other_ids:
  "act_id (secondary_diagnostic inc ty) \<in> other_ids"
  "list_all (\<lambda>a. act_id a \<in> other_ids) (remediation_actions inc ty)"
  "list_all (\<lambda>a. act_id a \<in> other_ids) (context_actions inc)"
  by (simp_all add: other_ids_def secondary_diagnostic_def remediation_actions_def context_actions_def Let_def cong: action_cong)

lemma kb_ids: "a \<in> set (kb_actions kb inc) \<Longrightarrow> has_prefix (act_id a) ''kb-step-''"
  by (auto simp: kb_actions_def kb_action_def split: option.splits if_splits)

lemma primary_not_other: "act_id (primary_diagnostic inc ty) \<notin> other_ids"
  "\<not> has_prefix (act_id (primary_diagnostic inc ty)) ''kb-step-''"
  using primary_ids[of inc ty] by (auto simp: other_ids_def)

lemma same_primary:
  assumes "a \<in> set (proposed_actions kb inc ty)" and "act_id a = act_id (primary_diagnostic inc ty)"
  shows "a = primary_diagnostic inc ty"
proof (rule ccontr)
  assume "a \<noteq> primary_diagnostic inc ty"
  with assms(1) have "a \<in> set (kb_actions kb inc) \<or> act_id a \<in> other_ids"
    using other_ids by (auto simp: proposed_actions_def list_all_iff)
  with assms(2) primary_not_other[of inc ty] kb_ids[of a kb inc] show False by auto
qed

lemma find_SomeD: "find P xs = Some x \<Longrightarrow> P x \<and> x \<in> set xs"
  by (auto simp: find_Some_iff)

lemma primary_of_harmless:
  assumes "p \<in> set as" "act_type p = ''diagnostic'' \<or> act_type p = ''investigation''"
    and "equal_fold (act_risk_level p) ''low''" "\<not> act_requires_approval p"
  shows "\<exists>a. get_primary_action as = Some a \<and> act_type a \<noteq> ''remediation'' \<and> \<not> act_requires_approval a \<and>
     equal_fold (act_risk_level a) ''low''"
proof (cases "find (\<lambda>a. act_type a = ''diagnostic'' \<and> equal_fold (act_risk_level a) ''low'' \<and> \<not> act_requires_approval a) as")
  case (Some a)
  from find_SomeD[OF this] show ?thesis by (simp add: get_primary_action_def Let_def Some)
next
  case None
  then have "act_type p = ''investigation''" using assms by (auto simp: find_None_iff)
  then have "find (\<lambda>a. (act_type a = ''investigation'' \<or> act_type a = ''coordination'') \<and>
      equal_fold (act_risk_level a) ''low'' \<and> \<not> act_requires_approval a) as \<noteq> None"
    using assms by (auto simp: find_None_iff)
  then obtain a where a: "find (\<lambda>a. (act_type a = ''investigation'' \<or> act_type a = ''coordination'') \<and>
      equal_fold (act_risk_level a) ''low'' \<and> \<not> act_requires_approval a) as = Some a" by blast
  from find_SomeD[OF a] show ?thesis by (auto simp: get_primary_action_def Let_def None a)
qed

lemma build_actions_facts:
  "let as = build_actions kb inc insight; score = action_score inc (in_incident_type insight) in
   list_all (\<lambda>a. act_requires_approval a = (act_type a = ''remediation'')) as \<and>
   list_all (\<lambda>a. (act_risk_level a = ''low'') = (act_type a \<noteq> ''remediation'')) as \<and>
   distinct (map act_id as) \<and> act_id (last as) = ''verify-resolution'' \<and>
   sorted_wrt (\<lambda>a b. score b \<le> score a) (butlast as)"
proof -
  let ?ty = "in_incident_type insight"
  let ?ds = "deduplicate_actions (proposed_actions kb inc ?ty)"
  have ok: "list_all action_ok ?ds" by (rule deduplicated_ok)
  have "distinct (map act_id (prioritize_actions ?ds inc ?ty))"
    by (rule prioritize_distinct) (simp add: deduplicate_actions_def dedupe_from_ids)
  moreover have "''verify-resolution'' \<notin> act_id ` set ?ds"
    using ok by (auto simp: list_all_iff action_ok_def)
  ultimately have "distinct (map act_id (build_actions kb inc insight))"
    by (simp add: build_actions_eq verification_action_def)
  with ok show ?thesis
    by (auto simp: Let_def build_actions_eq list_all_iff action_ok_def verification_action_def prioritize_sorted)
qed

section \<open>Properties\<close>

text \<open>What the list of proposed actions is. Exactly the remediations require approval, and no
  remediation is of low risk; the IDs are distinct; the list ends with the verification of the
  resolution, and all before it is ordered by descending score.\<close>

theorem proposed_actions_safe:
  "let as = build_actions kb inc insight; score = action_score inc (in_incident_type insight) in
   list_all (\<lambda>a. act_requires_approval a = (act_type a = ''remediation'')) as \<and>
   list_all (\<lambda>a. (act_risk_level a = ''low'') = (act_type a \<noteq> ''remediation'')) as \<and>
   distinct (map act_id as) \<and> act_id (last as) = ''verify-resolution'' \<and>
   sorted_wrt (\<lambda>a b. score b \<le> score a) (butlast as)"
  by (rule build_actions_facts)

text \<open>The primary action. The action put first for the operator exists for every incident, is
  not a remediation and needs no approval, whatever the knowledge base proposes.\<close>

theorem primary_action_harmless:
  "case get_primary_action (build_actions kb inc insight) of
     None \<Rightarrow> False
   | Some a \<Rightarrow> act_type a \<noteq> ''remediation'' \<and> \<not> act_requires_approval a \<and> equal_fold (act_risk_level a) ''low''"
proof -
  let ?ty = "in_incident_type insight"
  let ?as = "build_actions kb inc insight"
  let ?p = "primary_diagnostic inc ?ty"
  have "trim_space (act_id ?p) \<noteq> []" and "?p \<in> set (proposed_actions kb inc ?ty)"
    using primary_diagnostic_ok[of inc ?ty] by (simp_all add: action_ok_def proposed_actions_def)
  then obtain b where b: "b \<in> set (deduplicate_actions (proposed_actions kb inc ?ty))" "act_id b = act_id ?p"
    using dedupe_from_complete[of ?p _ "[]"] by (auto simp: deduplicate_actions_def)
  then have "b \<in> set (proposed_actions kb inc ?ty)"
    using dedupe_from_set by (auto simp: deduplicate_actions_def)
  with b(2) have "b = ?p" by (rule same_primary[rotated])
  with b have p: "?p \<in> set ?as" by (simp add: build_actions_eq)
  have all: "list_all (\<lambda>a. act_requires_approval a = (act_type a = ''remediation'')) ?as"
    "list_all (\<lambda>a. (act_risk_level a = ''low'') = (act_type a \<noteq> ''remediation'')) ?as"
    using build_actions_facts[of kb inc insight] by (simp_all add: Let_def)
  have "\<exists>a. get_primary_action ?as = Some a \<and> act_type a \<noteq> ''remediation'' \<and> \<not> act_requires_approval a \<and>
      equal_fold (act_risk_level a) ''low''"
    using p primary_diagnostic_type[of inc ?ty] primary_diagnostic_ok[of inc ?ty]
    by (intro primary_of_harmless[of ?p]) (auto simp: action_ok_def equal_fold_refl)
  then show ?thesis by auto
qed

end
