(* ===== verification/Float64.thy ===== *)
theory Float64
  imports GoFloat "HOL-Library.Log_Nat"
begin

text \<open>
  Arithmetic on \<open>float64\<close> as Go does it: the exact result, rounded to the nearest binary64 value,
  ties to even, with gradual underflow and overflow to an infinity. The sign of a zero is not kept.
  \<open>show_fixed1\<close> is the verb \<open>%.1f\<close>.
\<close>

section \<open>Rounding\<close>

definition round_even :: "rat \<Rightarrow> int" where
  "round_even y = (let f = \<lfloor>y\<rfloor>; r = y - of_int f in
     if r < 1 / 2 then f else if 1 / 2 < r then f + 1 else if even f then f else f + 1)"

text \<open>\<open>\<lfloor>log2 x\<rfloor>\<close> for a positive \<open>x\<close>: the bit lengths of numerator and denominator leave two
  candidates.\<close>

definition log2_floor :: "rat \<Rightarrow> int" where
  "log2_floor x = (let (n, d) = quotient_of x; k = bitlen n - bitlen d in
     if x < scale 2 k then k - 1 else k)"

definition round64 :: "rat \<Rightarrow> gofloat" where
  "round64 x =
    (if x = 0 then Fin 0
     else let e = max (-1074) (log2_floor \<bar>x\<bar> - 52);
              v = of_int (round_even (\<bar>x\<bar> / scale 2 e)) * scale 2 e
          in if 2 ^ 1024 \<le> v then Inf (x < 0) else Fin (if x < 0 then - v else v))"

section \<open>Operations\<close>

fun float_sub :: "gofloat \<Rightarrow> gofloat \<Rightarrow> gofloat" where
  "float_sub (Fin x) (Fin y) = round64 (x - y)"
| "float_sub (Inf s) (Fin y) = Inf s"
| "float_sub (Fin x) (Inf t) = Inf (\<not> t)"
| "float_sub (Inf s) (Inf t) = (if s = t then NaN else Inf s)"
| "float_sub NaN y = NaN"
| "float_sub x NaN = NaN"

text \<open>Division by a zero gives an infinity with the sign of the dividend, which is right for a
  positive zero; the source never divides by a zero.\<close>

fun float_div :: "gofloat \<Rightarrow> gofloat \<Rightarrow> gofloat" where
  "float_div (Fin x) (Fin y) = (if y = 0 then (if x = 0 then NaN else Inf (x < 0)) else round64 (x / y))"
| "float_div (Inf s) (Fin y) = Inf (s \<noteq> (y < 0))"
| "float_div (Fin x) (Inf t) = Fin 0"
| "float_div (Inf s) (Inf t) = NaN"
| "float_div NaN y = NaN"
| "float_div x NaN = NaN"

definition float_of_int :: "int \<Rightarrow> gofloat" where "float_of_int n = round64 (of_int n)"

text \<open>\<open>int(f)\<close> of a finite value in range, and \<open>Duration.Minutes()\<close>, \<open>Duration.Seconds()\<close>.\<close>

definition trunc_rat :: "rat \<Rightarrow> int" where "trunc_rat x = (if x < 0 then - \<lfloor>- x\<rfloor> else \<lfloor>x\<rfloor>)"

fun float_add_fin :: "rat \<Rightarrow> gofloat \<Rightarrow> gofloat" where
  "float_add_fin x (Fin y) = round64 (x + y)"
| "float_add_fin x y = y"

fun float_trunc :: "gofloat \<Rightarrow> int" where
  "float_trunc (Fin x) = trunc_rat x"
| "float_trunc _ = - (2 ^ 63)"

definition whole_units :: "duration \<Rightarrow> duration \<Rightarrow> int" where
  "whole_units unit d = (let q = quot d unit; r = d - q * unit in
     float_trunc (float_add_fin (of_int q) (round64 (of_int r / of_int unit))))"

section \<open>Text\<close>

definition show_fixed1 :: "rat \<Rightarrow> string" where
  "show_fixed1 x = (let n = nat (round_even (\<bar>x\<bar> * 10)) in
     (if x < 0 then ''-'' else []) @ show_nat (n div 10) @ ''.'' @ show_nat (n mod 10))"

section \<open>Lemmas\<close>

lemma scale_pos [simp]: "0 < scale 2 e"
  by (simp add: scale_def)

lemma round_even_nonneg: "0 \<le> y \<Longrightarrow> 0 \<le> round_even y"
  by (auto simp: round_even_def Let_def)

lemma round_even_mono: "x \<le> y \<Longrightarrow> round_even x \<le> round_even y"
proof -
  assume le: "x \<le> y"
  then have f: "\<lfloor>x\<rfloor> \<le> \<lfloor>y\<rfloor>" by (rule floor_mono)
  have b: "\<lfloor>z\<rfloor> \<le> round_even z \<and> round_even z \<le> \<lfloor>z\<rfloor> + 1" for z by (simp add: round_even_def Let_def)
  show ?thesis
  proof (cases "\<lfloor>x\<rfloor> = \<lfloor>y\<rfloor>")
    case True
    then show ?thesis using le by (simp add: round_even_def Let_def)
  next
    case False
    then have "\<lfloor>x\<rfloor> + 1 \<le> \<lfloor>y\<rfloor>" using f by simp
    with b[of x] b[of y] show ?thesis by linarith
  qed
qed

lemma round64_sign: "round64 x = Fin v \<Longrightarrow> (0 \<le> x \<longrightarrow> 0 \<le> v) \<and> (x \<le> 0 \<longrightarrow> v \<le> 0)"
proof -
  assume r: "round64 x = Fin v"
  let ?e = "max (-1074) (log2_floor \<bar>x\<bar> - 52)"
  have "0 \<le> round_even (\<bar>x\<bar> / scale 2 ?e)" by (rule round_even_nonneg) (simp add: less_imp_le)
  then have "0 \<le> (of_int (round_even (\<bar>x\<bar> / scale 2 ?e)) :: rat) * scale 2 ?e" by (simp add: less_imp_le)
  with r show ?thesis by (auto simp: round64_def Let_def split: if_splits)
qed

lemma round64_not_NaN [simp]: "round64 x \<noteq> NaN"
  by (simp add: round64_def Let_def)

lemma round64_Inf: "round64 x = Inf s \<Longrightarrow> s \<longleftrightarrow> x < 0"
  by (auto simp: round64_def Let_def split: if_splits)

text \<open>A rounded value below a negative bound was itself negative.\<close>

lemma round64_neg: "float_less (round64 x) (Fin c) \<Longrightarrow> c \<le> 0 \<Longrightarrow> x < 0"
  using round64_sign[of x] round64_Inf[of x] by (cases "round64 x") force+

section \<open>How near\<close>

lemma scale_diff: "0 \<le> a \<Longrightarrow> 0 \<le> b \<Longrightarrow> scale 2 (a - b) = 2 ^ nat a / 2 ^ nat b"
proof (cases "b \<le> a")
  case True
  assume "0 \<le> a" "0 \<le> b"
  with True have "nat a = nat (a - b) + nat b" by simp
  then show ?thesis using True by (simp add: scale_def power_add)
next
  case False
  assume "0 \<le> a" "0 \<le> b"
  with False have "nat b = nat (b - a) + nat a" by simp
  then show ?thesis using False by (simp add: scale_def power_add)
qed

lemma scale_mono: "a \<le> b \<Longrightarrow> scale 2 a \<le> scale 2 b"
proof -
  assume ab: "a \<le> b"
  define m where "m = max 0 (- a)"
  have "0 \<le> a + m" "0 \<le> b + m" "0 \<le> m" using ab by (auto simp: m_def)
  then have "scale 2 a = 2 ^ nat (a + m) / 2 ^ nat m" "scale 2 b = 2 ^ nat (b + m) / 2 ^ nat m"
    using scale_diff[of "a + m" m] scale_diff[of "b + m" m] by simp_all
  moreover have "nat (a + m) \<le> nat (b + m)" using ab by simp
  ultimately show ?thesis by (simp add: divide_right_mono power_increasing)
qed

lemma log2_floor_le: "0 < x \<Longrightarrow> scale 2 (log2_floor x) \<le> x"
proof -
  assume pos: "0 < x"
  obtain n d where q: "quotient_of x = (n, d)" by fastforce
  then have x: "x = of_int n / of_int d" "0 < d" by (auto simp: quotient_of_div quotient_of_denom_pos)
  with pos have n: "0 < n" by (simp add: zero_less_divide_iff)
  have bn: "(2::int) ^ nat (bitlen n - 1) \<le> n" and bd: "d < 2 ^ nat (bitlen d)"
    using bitlen_bounds[OF n] bitlen_bounds[OF x(2)] by simp_all
  have "1 \<le> bitlen n" using n by (metis bitlen_eq_zero_iff bitlen_nonneg int_one_le_iff_zero_less le_less not_less)
  then have "scale 2 (bitlen n - bitlen d - 1) = 2 ^ nat (bitlen n - 1) / 2 ^ nat (bitlen d)"
    using scale_diff[of "bitlen n - 1" "bitlen d"] bitlen_nonneg[of d] by (simp add: algebra_simps)
  also have "\<dots> \<le> of_int n / of_int d"
  proof (rule frac_le)
    show "(2::rat) ^ nat (bitlen n - 1) \<le> of_int n" using bn by (metis of_int_le_iff of_int_numeral of_int_power)
    show "of_int d \<le> (2::rat) ^ nat (bitlen d)" using bd by (metis less_imp_le of_int_le_iff of_int_numeral of_int_power)
  qed (use x(2) n in simp_all)
  finally show ?thesis using x(1) q by (auto simp: log2_floor_def Let_def not_less)
qed

lemma round_even_near: "\<bar>of_int (round_even y) - y\<bar> \<le> 1 / 2"
  unfolding round_even_def Let_def by (auto simp: abs_if) linarith+

lemma round_even_half: "1 \<le> y \<Longrightarrow> y / 2 \<le> of_int (round_even y)" "1 \<le> y \<Longrightarrow> of_int (round_even y) \<le> 2 * y"
  using round_even_near[of y] unfolding abs_le_iff by linarith+

text \<open>Rounding a value well inside the range loses less than half of it and gains less than it.\<close>

lemma round64_near:
  assumes "scale 2 (-1000) \<le> x" "x \<le> 2 ^ 1000"
  obtains v where "round64 x = Fin v" "x / 2 \<le> v" "v \<le> 2 * x"
proof -
  have pos: "0 < x" using assms(1) scale_pos[of "-1000"] by linarith
  let ?e = "max (-1074) (log2_floor x - 52)"
  let ?y = "x / scale 2 ?e"
  let ?v = "of_int (round_even ?y) * scale 2 ?e"
  have "scale 2 ?e \<le> x"
  proof (cases "log2_floor x - 52 \<le> -1074")
    case True
    then have "scale 2 ?e \<le> scale 2 (-1000)" by (intro scale_mono) simp
    with assms(1) show ?thesis by linarith
  next
    case False
    then have "scale 2 ?e \<le> scale 2 (log2_floor x)" by (intro scale_mono) simp
    with log2_floor_le[OF pos] show ?thesis by linarith
  qed
  then have y: "1 \<le> ?y" by simp
  then have r: "?y / 2 \<le> of_int (round_even ?y)" "of_int (round_even ?y) \<le> 2 * ?y"
    using round_even_half[OF y] by blast+
  have "x / 2 \<le> ?v" "?v \<le> 2 * x"
    using mult_right_mono[OF r(1), of "scale 2 ?e"] mult_right_mono[OF r(2), of "scale 2 ?e"] by (simp_all add: less_imp_le less_imp_neq[symmetric])
  moreover have "2 * x < 2 ^ 1024" using assms(2) by (auto intro: le_less_trans[of _ "2 * 2 ^ 1000"])
  ultimately have "round64 x = Fin ?v" using pos by (simp add: round64_def Let_def)
  with \<open>x / 2 \<le> ?v\<close> \<open>?v \<le> 2 * x\<close> that show thesis by blast
qed

text \<open>A value in the normal range is off by at most one part in \<open>2^53\<close>; so a value that is not so near to an integer keeps
  its whole part.\<close>

lemma round64_close:
  assumes "1 \<le> x" "x \<le> 2 ^ 1000"
  obtains v where "round64 x = Fin v" "\<bar>v - x\<bar> \<le> x / 2 ^ 53"
proof -
  have pos: "0 < x" using assms(1) by simp
  have one: "scale 2 (log2_floor x) \<le> x" by (rule log2_floor_le[OF pos])
  have small: "scale 2 (-1000) \<le> x"
    using scale_mono[of "-1000" 0] assms(1) by (simp add: scale_def)
  from round64_near[OF small assms(2)] obtain v where v: "round64 x = Fin v" "x / 2 \<le> v" by blast
  let ?e = "max (-1074) (log2_floor x - 52)"
  have "v = of_int (round_even (x / scale 2 ?e)) * scale 2 ?e"
    using v(1) pos by (auto simp: round64_def Let_def split: if_splits)
  then have "v - x = (of_int (round_even (x / scale 2 ?e)) - x / scale 2 ?e) * scale 2 ?e"
    by (simp add: left_diff_distrib less_imp_neq[OF scale_pos, symmetric])
  then have d: "\<bar>v - x\<bar> \<le> 1 / 2 * scale 2 ?e"
    using mult_right_mono[OF round_even_near[of "x / scale 2 ?e"], of "scale 2 ?e"]
    by (simp add: abs_mult less_imp_le)
  have "scale 2 ?e \<le> x / 2 ^ 52"
  proof (cases "log2_floor x - 52 \<le> -1074")
    case True
    then have "scale 2 ?e \<le> scale 2 (-100)" by (intro scale_mono) simp
    also have "\<dots> \<le> 1 / 2 ^ 52" by (simp add: scale_def)
    also have "\<dots> \<le> x / 2 ^ 52" using assms(1) by (simp add: divide_right_mono)
    finally show ?thesis .
  next
    case False
    define m where "m = max 0 (- log2_floor x)"
    have m: "0 \<le> log2_floor x + m" "0 \<le> m" by (auto simp: m_def)
    have "scale 2 (log2_floor x - 52) = 2 ^ nat (log2_floor x + m) / 2 ^ nat (m + 52)"
      using scale_diff[of "log2_floor x + m" "m + 52"] m by simp
    also have "\<dots> = scale 2 (log2_floor x) / 2 ^ 52"
      using scale_diff[of "log2_floor x + m" m] m by (simp add: nat_add_distrib power_add)
    also have "\<dots> \<le> x / 2 ^ 52" using one by (simp add: divide_right_mono)
    finally show ?thesis using False by simp
  qed
  with d have "\<bar>v - x\<bar> \<le> x / 2 ^ 53" by simp
  with v(1) that show thesis by blast
qed

lemma float_trunc_round:
  assumes "1 \<le> x" "x \<le> 2 ^ 1000" "of_int k + x / 2 ^ 53 \<le> x" "x + x / 2 ^ 53 < of_int k + 1" "0 \<le> k"
  shows "float_trunc (round64 x) = k"
proof -
  obtain v where v: "round64 x = Fin v" "\<bar>v - x\<bar> \<le> x / 2 ^ 53" using round64_close[OF assms(1,2)] by blast
  then have "of_int k \<le> v" "v < of_int k + 1" using assms(3,4) by linarith+
  moreover have "0 \<le> (of_int k :: rat)" using assms(5) by simp
  ultimately show ?thesis using v(1) by (simp add: trunc_rat_def floor_eq_iff)
qed

end
