(* ===== verification/LogStore.thy ===== *)
theory LogStore
  imports EventStore
begin

text \<open>
  \<open>internal/store/log_store.go\<close> with \<open>models/log_entry.go\<close>, and the tail of the log that
  \<open>internal/handlers/log_explorer_handler.go\<close> streams to a browser. The table is the list of its
  rows in the order of insertion; a statement is atomic, so the serial key grows along the list.
\<close>

section \<open>The table\<close>

record LogEntry =
  le_id :: int
  le_tenant_id :: string
  le_agent_id :: string
  le_host_ip :: string
  le_log_source :: string
  le_log_tag :: string
  le_event_type :: string
  le_event_category :: string
  le_message :: string
  le_raw_json :: string
  le_timestamp :: time

record log_db =
  ldb_rows :: "LogEntry list"
  ldb_next :: int

definition empty_log_db :: log_db where "empty_log_db = \<lparr>ldb_rows = [], ldb_next = 1\<rparr>"

text \<open>The key of a new row is drawn from the sequence; the ID in the argument is not sent.\<close>

definition append_log :: "LogEntry \<Rightarrow> log_db \<Rightarrow> log_db" where
  "append_log e db = \<lparr>ldb_rows = ldb_rows db @ [e\<lparr>le_id := ldb_next db\<rparr>], ldb_next = ldb_next db + 1\<rparr>"

definition insert_log :: "faults \<Rightarrow> LogEntry \<Rightarrow> log_db \<Rightarrow> log_db result" where
  "insert_log flt e db = guard_db flt ''Log.Insert'' (Inr (append_log e db))"

definition insert_log_batch :: "faults \<Rightarrow> LogEntry list \<Rightarrow> log_db \<Rightarrow> log_db result" where
  "insert_log_batch flt es db =
    (if es = [] then Inr db else guard_db flt ''Log.InsertBatch'' (Inr (fold append_log es db)))"

section \<open>Queries\<close>

record LogQuery =
  lq_tenant_id :: string
  lq_agent_id :: string
  lq_host_ip :: string
  lq_category :: string
  lq_tag :: string
  lq_search :: string
  lq_from :: "time option"
  lq_to :: "time option"
  lq_limit :: int
  lq_offset :: int

record LogQueryResponse =
  lr_entries :: "LogEntry list"
  lr_total :: nat
  lr_has_more :: bool

text \<open>\<open>buildLogWhere\<close>: an empty field filters nothing; \<open>ILIKE\<close> ignores the case.\<close>

definition log_where :: "LogQuery \<Rightarrow> LogEntry \<Rightarrow> bool" where
  "log_where q e \<longleftrightarrow>
     (lq_tenant_id q \<noteq> [] \<longrightarrow> le_tenant_id e = lq_tenant_id q) \<and>
     (lq_agent_id q \<noteq> [] \<longrightarrow> le_agent_id e = lq_agent_id q) \<and>
     (lq_host_ip q \<noteq> [] \<longrightarrow> le_host_ip e = lq_host_ip q) \<and>
     (lq_category q \<noteq> [] \<longrightarrow> le_event_category e = lq_category q) \<and>
     (lq_tag q \<noteq> [] \<longrightarrow> le_log_tag e = lq_tag q) \<and>
     (lq_search q \<noteq> [] \<longrightarrow> sql_like (CHR ''%'' # to_lower (lq_search q) @ ''%'') (to_lower (le_message e))) \<and>
     (case lq_from q of None \<Rightarrow> True | Some t \<Rightarrow> t \<le> le_timestamp e) \<and>
     (case lq_to q of None \<Rightarrow> True | Some t \<Rightarrow> le_timestamp e \<le> t)"

definition query_logs :: "faults \<Rightarrow> LogQuery \<Rightarrow> log_db \<Rightarrow> LogQueryResponse result" where
  "query_logs flt q db =
    (let hits = filter (log_where q) (ldb_rows db);
         limit = (if lq_limit q \<le> 0 then 100 else lq_limit q);
         offset = (if lq_offset q < 0 then 0 else lq_offset q);
         page = take (nat limit) (drop (nat offset) (order_desc le_timestamp hits))
     in if flt ''Log.Count'' \<or> flt ''Log.Query'' then Inl ErrDB
        else Inr \<lparr>lr_entries = page, lr_total = length hits,
                  lr_has_more = (offset + int (length page) < int (length hits))\<rparr>)"

record LogStats =
  lst_total :: nat
  lst_by_category :: "(string \<times> nat) list"
  lst_by_host :: "(string \<times> nat) list"
  lst_by_tag :: "(string \<times> nat) list"
  lst_recent_errors :: nat

definition count_logs_by :: "(LogEntry \<Rightarrow> string) \<Rightarrow> LogEntry list \<Rightarrow> (string \<times> nat) list" where
  "count_logs_by f es = map (\<lambda>k. (k, length (filter (\<lambda>e. f e = k) es))) (remdups (map f es))"

definition top_log_counts :: "(LogEntry \<Rightarrow> string) \<Rightarrow> LogEntry list \<Rightarrow> (string \<times> nat) list" where
  "top_log_counts f es = take 20 (order_desc (\<lambda>(_, n). int n) (count_logs_by f es))"

definition log_stats :: "faults \<Rightarrow> time \<Rightarrow> string \<Rightarrow> time \<Rightarrow> log_db \<Rightarrow> LogStats result" where
  "log_stats flt now tenant since db =
    (let es = filter (\<lambda>e. le_tenant_id e = tenant \<and> since \<le> le_timestamp e) (ldb_rows db);
         cats = count_logs_by le_event_category es
     in if flt ''Log.StatsByCategory'' \<or> flt ''Log.StatsByHost'' \<or> flt ''Log.StatsByTag'' \<or> flt ''Log.StatsErrors''
        then Inl ErrDB
        else Inr \<lparr>lst_total = sum_list (map snd cats), lst_by_category = cats,
          lst_by_host = top_log_counts le_host_ip es, lst_by_tag = top_log_counts le_log_tag es,
          lst_recent_errors = length (filter (\<lambda>e. le_tenant_id e = tenant \<and> le_event_category e = ''error'' \<and>
            now - hour \<le> le_timestamp e) (ldb_rows db))\<rparr>)"

definition new_logs_since :: "faults \<Rightarrow> string \<Rightarrow> int \<Rightarrow> int \<Rightarrow> log_db \<Rightarrow> LogEntry list result" where
  "new_logs_since flt tenant since limit db = guard_db flt ''GetNewLogsSince''
     (Inr (take (nat (if limit \<le> 0 then 50 else limit)) (order_asc le_id
        (filter (\<lambda>e. le_tenant_id e = tenant \<and> since < le_id e) (ldb_rows db)))))"

section \<open>The stream\<close>

text \<open>A client of \<open>LogExplorerHandler.Stream\<close>: the greatest key seen and the entries sent. One tick
  of the handler's ticker; a failed query is skipped.\<close>

record log_reader =
  rd_last :: int
  rd_sent :: "LogEntry list"

definition send_entry :: "LogEntry \<Rightarrow> log_reader \<Rightarrow> log_reader" where
  "send_entry e r = \<lparr>rd_last = (if rd_last r < le_id e then le_id e else rd_last r), rd_sent = rd_sent r @ [e]\<rparr>"

definition stream_tick :: "faults \<Rightarrow> string \<Rightarrow> log_db \<Rightarrow> log_reader \<Rightarrow> log_reader" where
  "stream_tick flt tenant db r =
    (case new_logs_since flt tenant (rd_last r) 50 db of
       Inl _ \<Rightarrow> r
     | Inr es \<Rightarrow> fold send_entry es r)"

text \<open>What happens to the table and to one reader of a tenant.\<close>

inductive stream_run :: "string \<Rightarrow> log_db \<times> log_reader \<Rightarrow> log_db \<times> log_reader \<Rightarrow> bool" for tenant where
  start: "stream_run tenant s s"
| logged: "stream_run tenant s (db, r) \<Longrightarrow> insert_log flt e db = Inr db' \<Longrightarrow> stream_run tenant s (db', r)"
| batch: "stream_run tenant s (db, r) \<Longrightarrow> insert_log_batch flt es db = Inr db' \<Longrightarrow> stream_run tenant s (db', r)"
| tick: "stream_run tenant s (db, r) \<Longrightarrow> stream_run tenant s (db, stream_tick flt tenant db r)"

section \<open>Lemmas\<close>

definition logs_ok :: "log_db \<Rightarrow> bool" where
  "logs_ok db \<longleftrightarrow> sorted_wrt (<) (map le_id (ldb_rows db)) \<and> (\<forall>e \<in> set (ldb_rows db). le_id e < ldb_next db)"

lemma append_log_simps: "ldb_rows (append_log e db) = ldb_rows db @ [e\<lparr>le_id := ldb_next db\<rparr>]"
  "ldb_next (append_log e db) = ldb_next db + 1"
  by (simp_all add: append_log_def)

lemma append_log_ok [preserve]: "logs_ok db \<Longrightarrow> logs_ok (append_log e db)"
  by (auto simp: logs_ok_def append_log_def sorted_wrt_append)

lemma fold_append_ok [preserve]: "logs_ok db \<Longrightarrow> logs_ok (fold append_log es db)"
  by (induction es arbitrary: db) (simp_all add: append_log_ok)

lemma insert_log_ok [preserve]: "insert_log flt e db = Inr db' \<Longrightarrow> logs_ok db \<Longrightarrow> logs_ok db'"
  by (auto simp: insert_log_def append_log_ok)

lemma insert_log_batch_ok [preserve]: "insert_log_batch flt es db = Inr db' \<Longrightarrow> logs_ok db \<Longrightarrow> logs_ok db'"
  by (auto simp: insert_log_batch_def fold_append_ok split: if_splits)

text \<open>The tenant's log from a key on, as the reader should see it.\<close>

definition tenant_log :: "string \<Rightarrow> log_db \<Rightarrow> LogEntry list" where
  "tenant_log tenant db = filter (\<lambda>e. le_tenant_id e = tenant) (ldb_rows db)"

definition after :: "int \<Rightarrow> LogEntry list \<Rightarrow> LogEntry list" where
  "after k es = filter (\<lambda>e. k < le_id e) es"

lemma sorted_log: "logs_ok db \<Longrightarrow> sorted_wrt (\<lambda>a b. le_id a < le_id b) (tenant_log tenant db)"
  by (simp add: logs_ok_def tenant_log_def sorted_wrt_map sorted_wrt_filter)

lemma order_asc_sorted: "sorted_wrt (\<lambda>a b. le_id a < le_id b) es \<Longrightarrow> order_asc le_id es = es"
  unfolding order_asc_def
proof (rule sort_key_id_if_sorted)
  assume "sorted_wrt (\<lambda>a b. le_id a < le_id b) es"
  then have "sorted_wrt (\<lambda>a b. le_id a \<le> le_id b) es"
    by (rule sorted_wrt_mono_rel[rotated]) simp
  then show "sorted (map le_id es)" by (simp add: sorted_map)
qed

lemma new_logs_eq:
  assumes "logs_ok db" "\<not> flt ''GetNewLogsSince''"
  shows "new_logs_since flt tenant k 50 db = Inr (take 50 (after k (tenant_log tenant db)))"
proof -
  have "sorted_wrt (\<lambda>a b. le_id a < le_id b) (after k (tenant_log tenant db))"
    using sorted_log[OF assms(1)] by (simp add: after_def sorted_wrt_filter)
  moreover have "filter (\<lambda>e. le_tenant_id e = tenant \<and> k < le_id e) (ldb_rows db) = after k (tenant_log tenant db)"
    by (simp add: after_def tenant_log_def conj_commute)
  ultimately show ?thesis using assms(2) by (simp add: new_logs_since_def order_asc_sorted)
qed

lemma fold_send: "sorted_wrt (\<lambda>a b. le_id a < le_id b) es \<Longrightarrow> \<forall>e \<in> set es. rd_last r < le_id e \<Longrightarrow>
    fold send_entry es r = \<lparr>rd_last = (if es = [] then rd_last r else le_id (last es)), rd_sent = rd_sent r @ es\<rparr>"
proof (induction es arbitrary: r)
  case (Cons e es)
  let ?r = "send_entry e r"
  have "rd_last ?r = le_id e" "rd_sent ?r = rd_sent r @ [e]" using Cons.prems by (simp_all add: send_entry_def)
  with Cons.IH[of ?r] Cons.prems show ?case by auto
qed simp

lemma fold_append_rows: "\<exists>new. ldb_rows (fold append_log es db) = ldb_rows db @ new \<and>
    (\<forall>e \<in> set new. ldb_next db \<le> le_id e) \<and> ldb_next db \<le> ldb_next (fold append_log es db)"
proof (induction es arbitrary: db)
  case (Cons e es)
  from Cons.IH[of "append_log e db"] obtain new
    where "ldb_rows (fold append_log es (append_log e db)) = ldb_rows (append_log e db) @ new"
      "\<forall>x \<in> set new. ldb_next (append_log e db) \<le> le_id x"
      "ldb_next (append_log e db) \<le> ldb_next (fold append_log es (append_log e db))"
    by auto
  then show ?case by (intro exI[of _ "e\<lparr>le_id := ldb_next db\<rparr> # new"]) (auto simp: append_log_simps)
qed simp

text \<open>Between ticks: what has been sent is the part of the log after the first key up to the last.\<close>

definition reader_ok :: "string \<Rightarrow> int \<Rightarrow> log_db \<Rightarrow> log_reader \<Rightarrow> bool" where
  "reader_ok tenant k db r \<longleftrightarrow> k \<le> rd_last r \<and> (rd_last r < ldb_next db \<or> rd_last r = k) \<and>
     rd_sent r = filter (\<lambda>e. le_id e \<le> rd_last r) (after k (tenant_log tenant db))"

lemma reader_ok_append:
  assumes "reader_ok tenant k db r" "k < ldb_next db" "ldb_rows db' = ldb_rows db @ new"
    "\<forall>e \<in> set new. ldb_next db \<le> le_id e" "ldb_next db \<le> ldb_next db'"
  shows "reader_ok tenant k db' r"
proof -
  have "rd_last r < ldb_next db" using assms(1,2) by (auto simp: reader_ok_def)
  then have "\<forall>e \<in> set new. \<not> le_id e \<le> rd_last r" using assms(4) by force
  then have "filter (\<lambda>e. p e \<and> q e \<and> le_id e \<le> rd_last r) new = []" for p q
    by (auto simp: filter_empty_conv)
  then show ?thesis using assms by (auto simp: reader_ok_def after_def tenant_log_def)
qed

lemma take_filter_upto:
  assumes "sorted_wrt (\<lambda>a b. le_id a < le_id b) es" and "take n es \<noteq> []"
  shows "filter (\<lambda>e. le_id e \<le> le_id (last (take n es))) es = take n es"
proof -
  let ?m = "le_id (last (take n es))"
  have s: "sorted_wrt (\<lambda>a b. le_id a < le_id b) (take n es @ drop n es)" using assms(1) by simp
  have l: "last (take n es) \<in> set (take n es)" using assms(2) by simp
  have lo: "\<forall>e \<in> set (take n es). le_id e \<le> ?m"
  proof
    fix e assume "e \<in> set (take n es)"
    then have "e \<in> set (butlast (take n es)) \<or> e = last (take n es)"
      by (metis assms(2) append_butlast_last_id in_set_butlastD rotate1.simps(2) set_rotate1 set_ConsD)
    moreover have "sorted_wrt (\<lambda>a b. le_id a < le_id b) (butlast (take n es) @ [last (take n es)])"
      using s assms(2) by (simp add: sorted_wrt_append)
    ultimately show "le_id e \<le> ?m" by (auto simp: sorted_wrt_append)
  qed
  have hi: "\<forall>e \<in> set (drop n es). \<not> le_id e \<le> ?m"
    using s l unfolding sorted_wrt_append by (meson linorder_not_le)
  have "filter (\<lambda>e. le_id e \<le> ?m) (take n es @ drop n es) = take n es"
    using lo hi by (auto simp: filter_id_conv filter_empty_conv simp del: append_take_drop_id)
  then show ?thesis by simp
qed

lemma sorted_split:
  "sorted_wrt (\<lambda>a b. le_id a < le_id b) xs \<Longrightarrow>
   xs = filter (\<lambda>e. le_id e \<le> m) xs @ filter (\<lambda>e. m < le_id e) xs"
proof (induction xs)
  case (Cons x xs)
  show ?case
  proof (cases "le_id x \<le> m")
    case False
    then have "\<forall>y \<in> set xs. m < le_id y" using Cons.prems by force
    then have "filter (\<lambda>e. le_id e \<le> m) xs = []" "filter (\<lambda>e. m < le_id e) xs = xs"
      by (auto simp: filter_empty_conv filter_id_conv)
    with False show ?thesis by simp
  qed (use Cons in simp)
qed simp

lemma reader_ok_tick:
  assumes ok: "logs_ok db" "reader_ok tenant k db r"
  shows "reader_ok tenant k db (stream_tick flt tenant db r)"
proof (cases "flt ''GetNewLogsSince''")
  case True
  then show ?thesis using ok(2) by (simp add: stream_tick_def new_logs_since_def)
next
  case False
  let ?log = "tenant_log tenant db" and ?m = "rd_last r"
  let ?new = "after ?m ?log"
  let ?es = "take 50 ?new"
  have k: "k \<le> ?m" and sent: "rd_sent r = filter (\<lambda>e. le_id e \<le> ?m) (after k ?log)"
    using ok(2) by (auto simp: reader_ok_def)
  have s: "sorted_wrt (\<lambda>a b. le_id a < le_id b) ?new"
    using sorted_log[OF ok(1)] by (simp add: after_def sorted_wrt_filter)
  then have s': "sorted_wrt (\<lambda>a b. le_id a < le_id b) ?es" by (simp add: sorted_wrt_take)
  have above: "\<forall>e \<in> set ?es. ?m < le_id e" by (auto simp: after_def dest: in_set_takeD)
  have t: "stream_tick flt tenant db r = fold send_entry ?es r"
    using new_logs_eq[of db flt tenant ?m] ok(1) False by (simp add: stream_tick_def)
  show ?thesis
  proof (cases "?es = []")
    case True
    with t ok(2) show ?thesis by simp
  next
    case False
    let ?l = "le_id (last ?es)"
    have l: "last ?es \<in> set ?es" using False by simp
    then have ml: "?m < ?l" using above by simp
    have "last ?es \<in> set (ldb_rows db)" using l by (auto simp: after_def tenant_log_def dest: in_set_takeD)
    then have next': "?l < ldb_next db" using ok(1) by (simp add: logs_ok_def)
    have new: "?new = filter (\<lambda>e. ?m < le_id e) (after k ?log)"
      using k by (auto simp: after_def intro: filter_cong)
    have "filter (\<lambda>e. le_id e \<le> ?l) (after k ?log) =
        filter (\<lambda>e. le_id e \<le> ?m) (after k ?log) @ filter (\<lambda>e. le_id e \<le> ?l) ?new"
    proof -
      have srt: "sorted_wrt (\<lambda>a b. le_id a < le_id b) (after k ?log)"
        using sorted_log[OF ok(1)] by (simp add: after_def sorted_wrt_filter)
      have "filter (\<lambda>e. le_id e \<le> ?l) (after k ?log) = filter (\<lambda>e. le_id e \<le> ?l)
          (filter (\<lambda>e. le_id e \<le> ?m) (after k ?log) @ filter (\<lambda>e. ?m < le_id e) (after k ?log))"
        using sorted_split[OF srt, of ?m] by simp
      moreover have "filter (\<lambda>e. le_id e \<le> ?l) (filter (\<lambda>e. le_id e \<le> ?m) xs) = filter (\<lambda>e. le_id e \<le> ?m) xs"
        for xs using ml by (auto intro: filter_cong)
      ultimately show ?thesis by (simp add: new)
    qed
    also have "filter (\<lambda>e. le_id e \<le> ?l) ?new = ?es" using s False by (rule take_filter_upto)
    finally show ?thesis using t fold_send[OF s' above] False sent k ml next'
      by (simp add: reader_ok_def)
  qed
qed

lemma stream_run_ok:
  "stream_run tenant s s' \<Longrightarrow> logs_ok (fst s) \<Longrightarrow> k < ldb_next (fst s) \<Longrightarrow> reader_ok tenant k (fst s) (snd s) \<Longrightarrow>
   logs_ok (fst s') \<and> k < ldb_next (fst s') \<and> reader_ok tenant k (fst s') (snd s')"
proof (induction rule: stream_run.induct)
  case (logged s db r flt e db')
  then have ih: "logs_ok db" "k < ldb_next db" "reader_ok tenant k db r" by simp_all
  have e: "db' = fold append_log [e] db" using logged.hyps by (simp add: insert_log_def)
  obtain new where "ldb_rows db' = ldb_rows db @ new" "\<forall>e \<in> set new. ldb_next db \<le> le_id e"
      "ldb_next db \<le> ldb_next db'" unfolding e using fold_append_rows by blast
  with ih reader_ok_append[OF ih(3,2)] insert_log_ok[OF logged.hyps(2)] show ?case by auto
next
  case (batch s db r flt es db')
  then have ih: "logs_ok db" "k < ldb_next db" "reader_ok tenant k db r" by simp_all
  have e: "db' = fold append_log es db" using batch.hyps by (auto simp: insert_log_batch_def split: if_splits)
  obtain new where "ldb_rows db' = ldb_rows db @ new" "\<forall>e \<in> set new. ldb_next db \<le> le_id e"
      "ldb_next db \<le> ldb_next db'" unfolding e using fold_append_rows by blast
  with ih reader_ok_append[OF ih(3,2)] insert_log_batch_ok[OF batch.hyps(2)] show ?case by auto
next
  case (tick s db r flt)
  then show ?case by (simp add: reader_ok_tick)
qed simp

section \<open>Properties\<close>

text \<open>C17: the stream tails the log. From a reader that has seen the keys up to \<open>k\<close>, whatever is
  logged and whichever queries fail, the entries sent are those of the tenant with a key above \<open>k\<close>
  and at most the last one seen, in the order they were logged: none twice, none skipped, none of
  another tenant.\<close>

theorem stream_tails_log:
  assumes "stream_run tenant (db0, \<lparr>rd_last = k, rd_sent = []\<rparr>) (db, r)"
    and "logs_ok db0" and "k < ldb_next db0"
  shows "rd_sent r = filter (\<lambda>e. le_tenant_id e = tenant \<and> k < le_id e \<and> le_id e \<le> rd_last r) (ldb_rows db) \<and>
    sorted_wrt (<) (map le_id (rd_sent r))"
proof -
  have "filter (\<lambda>e. le_id e \<le> k) (after k es) = []" for es by (auto simp: after_def filter_empty_conv)
  then have "reader_ok tenant k db0 \<lparr>rd_last = k, rd_sent = []\<rparr>" by (simp add: reader_ok_def)
  with stream_run_ok[OF assms(1), of k] assms(2,3) have ok: "logs_ok db" "reader_ok tenant k db r" by simp_all
  then have e: "rd_sent r = filter (\<lambda>e. le_tenant_id e = tenant \<and> k < le_id e \<and> le_id e \<le> rd_last r) (ldb_rows db)"
    by (simp add: reader_ok_def after_def tenant_log_def)
  from ok(1) have "sorted_wrt (\<lambda>a b. le_id a < le_id b) (rd_sent r)"
    unfolding e by (simp add: logs_ok_def sorted_wrt_map sorted_wrt_filter)
  with e show ?thesis by (simp add: sorted_wrt_map)
qed

definition sample_log :: "string \<Rightarrow> string \<Rightarrow> LogEntry" where
  "sample_log tenant msg = \<lparr>le_id = 0, le_tenant_id = tenant, le_agent_id = [], le_host_ip = [], le_log_source = [],
     le_log_tag = [], le_event_type = ''log'', le_event_category = ''info'', le_message = msg, le_raw_json = ''{}'',
     le_timestamp = 0\<rparr>"

theorem stream_tails_log_witness:
  "let db = fold append_log [sample_log ''t1'' ''a'', sample_log ''t2'' ''b'', sample_log ''t1'' ''c''] empty_log_db;
       r = stream_tick no_faults ''t1'' db \<lparr>rd_last = 0, rd_sent = []\<rparr>
   in map le_message (rd_sent r) = [''a'', ''c''] \<and> rd_last r = 3 \<and> sorted_wrt (<) (map le_id (rd_sent r))"
proof -
  define db where "db = fold append_log [sample_log ''t1'' ''a'', sample_log ''t2'' ''b'', sample_log ''t1'' ''c''] empty_log_db"
  define r where "r = stream_tick no_faults ''t1'' db \<lparr>rd_last = 0, rd_sent = []\<rparr>"
  have "insert_log_batch no_faults [sample_log ''t1'' ''a'', sample_log ''t2'' ''b'', sample_log ''t1'' ''c''] empty_log_db =
      Inr db" by (simp add: insert_log_batch_def db_def)
  then have "stream_run ''t1'' (empty_log_db, \<lparr>rd_last = 0, rd_sent = []\<rparr>) (db, r)"
    unfolding r_def by (intro stream_run.tick stream_run.batch[OF stream_run.start])
  moreover have "logs_ok empty_log_db" "0 < ldb_next empty_log_db" by (simp_all add: logs_ok_def empty_log_db_def)
  ultimately have p: "rd_sent r = filter (\<lambda>e. le_tenant_id e = ''t1'' \<and> 0 < le_id e \<and> le_id e \<le> rd_last r) (ldb_rows db)"
      "sorted_wrt (<) (map le_id (rd_sent r))"
    using stream_tails_log by blast+
  have l: "rd_last r = 3" by (simp add: r_def stream_tick_def new_logs_since_def db_def append_log_def empty_log_db_def
      sample_log_def order_asc_def send_entry_def)
  have "map le_message (rd_sent r) = [''a'', ''c'']"
    unfolding p(1) l by (simp add: db_def append_log_def empty_log_db_def sample_log_def)
  with p(2) l show ?thesis by (simp add: Let_def r_def db_def)
qed

end
