(* ===== verification/AgentStore.thy ===== *)
theory AgentStore
  imports EventStore Complex_Main
begin

text \<open>
  \<open>internal/store/agent_store.go\<close> and \<open>internal/store/agent_enrollment_store.go\<close> with
  \<open>models/agent.go\<close>: registered agents with their encrypted signing secrets, the metrics they
  report, and the single-use tokens that enrol them. A decoded JSON value is a \<open>json\<close>; a column of
  JSON text holds the value it encodes.
\<close>

section \<open>The data\<close>

text \<open>Go's \<open>interface{}\<close> after \<open>json.Unmarshal\<close>; a number is a \<open>float64\<close>, kept as a rational.\<close>

datatype json =
    JNull
  | JBool bool
  | JNum rat
  | JStr string
  | JArr "json list"
  | JObj "(string \<times> json) list"

type_synonym json_obj = "(string \<times> json) list"

record Agent =
  ag_id :: string
  ag_tenant_id :: string
  ag_name :: string
  ag_host_ip :: string
  ag_os_type :: string
  ag_version :: string
  ag_status :: string
  ag_last_seen_at :: time
  ag_registered_at :: time
  ag_metadata :: smap

record agent_row =
  gr_agent :: Agent
  gr_secret_enc :: string
  gr_enrolled_via :: string
  gr_last_rotated_at :: "time option"

record agent_metric =
  am_agent_id :: string
  am_metric_type :: string
  am_timestamp :: time
  am_data :: json_obj

record EnrollmentToken =
  et_id :: string
  et_tenant_id :: string
  et_label :: string
  et_expires_at :: time
  et_used_at :: "time option"
  et_used_by_agent_id :: string
  et_created_by :: string
  et_created_at :: time

record token_row =
  tk_token :: EnrollmentToken
  tk_hash :: string

record agent_db =
  gdb_agents :: "agent_row list"
  gdb_metrics :: "agent_metric list"
  gdb_tokens :: "token_row list"

definition row_id :: "agent_row \<Rightarrow> string" where "row_id r = ag_id (gr_agent r)"
definition token_id :: "token_row \<Rightarrow> string" where "token_id r = et_id (tk_token r)"

definition agents_ok :: "agent_db \<Rightarrow> bool" where
  "agents_ok db \<longleftrightarrow> pk row_id (gdb_agents db) \<and> pk token_id (gdb_tokens db)"

section \<open>Agents\<close>

text \<open>What the conflict clause of the upserts takes from the new row; the tenant, the status and the
  time of the registration stay.\<close>

definition refreshed :: "Agent \<Rightarrow> Agent \<Rightarrow> Agent" where
  "refreshed new old = old\<lparr>ag_last_seen_at := ag_last_seen_at new, ag_version := ag_version new,
     ag_host_ip := ag_host_ip new, ag_os_type := ag_os_type new, ag_name := ag_name new,
     ag_metadata := ag_metadata new\<rparr>"

definition register_agent :: "faults \<Rightarrow> Agent \<Rightarrow> agent_db \<Rightarrow> agent_db result" where
  "register_agent flt a db = guard_db flt ''Agent.Register''
     (Inr (db\<lparr>gdb_agents := tbl_upsert row_id (\<lambda>r. r\<lparr>gr_agent := refreshed a (gr_agent r)\<rparr>)
        \<lparr>gr_agent = a, gr_secret_enc = [], gr_enrolled_via = [], gr_last_rotated_at = None\<rparr> (gdb_agents db)\<rparr>))"

definition register_with_secret ::
    "faults \<Rightarrow> time \<Rightarrow> Agent \<Rightarrow> string \<Rightarrow> string \<Rightarrow> agent_db \<Rightarrow> agent_db result" where
  "register_with_secret flt now a secretEnc enrolledVia db = guard_db flt ''Agent.RegisterWithSecret''
     (Inr (db\<lparr>gdb_agents := tbl_upsert row_id
        (\<lambda>r. r\<lparr>gr_agent := refreshed a (gr_agent r), gr_secret_enc := secretEnc,
               gr_enrolled_via := enrolledVia, gr_last_rotated_at := Some now\<rparr>)
        \<lparr>gr_agent = a, gr_secret_enc = secretEnc, gr_enrolled_via = enrolledVia,
         gr_last_rotated_at = Some now\<rparr> (gdb_agents db)\<rparr>))"

definition get_secret_enc :: "faults \<Rightarrow> string \<Rightarrow> agent_db \<Rightarrow> string result" where
  "get_secret_enc flt i db = guard_db flt ''GetSecretEnc''
     (Inr (case tbl_find row_id i (gdb_agents db) of None \<Rightarrow> [] | Some r \<Rightarrow> gr_secret_enc r))"

definition rotate_secret :: "faults \<Rightarrow> time \<Rightarrow> string \<Rightarrow> string \<Rightarrow> agent_db \<Rightarrow> agent_db result" where
  "rotate_secret flt now i secretEnc db = guard_db flt ''RotateSecret''
     (if tbl_has row_id i (gdb_agents db)
      then Inr (db\<lparr>gdb_agents := tbl_update (\<lambda>r. row_id r = i)
             (\<lambda>r. r\<lparr>gr_secret_enc := secretEnc, gr_last_rotated_at := Some now\<rparr>) (gdb_agents db)\<rparr>)
      else Inl ErrNoRows)"

definition on_agent :: "string \<Rightarrow> (Agent \<Rightarrow> Agent) \<Rightarrow> agent_db \<Rightarrow> agent_db" where
  "on_agent i f db = db\<lparr>gdb_agents := tbl_update (\<lambda>r. row_id r = i)
     (\<lambda>r. r\<lparr>gr_agent := f (gr_agent r)\<rparr>) (gdb_agents db)\<rparr>"

definition update_last_seen :: "faults \<Rightarrow> time \<Rightarrow> string \<Rightarrow> agent_db \<Rightarrow> agent_db result" where
  "update_last_seen flt now i db = guard_db flt ''UpdateLastSeen''
     (Inr (on_agent i (\<lambda>a. a\<lparr>ag_last_seen_at := now\<rparr>) db))"

definition update_agent_status :: "faults \<Rightarrow> string \<Rightarrow> string \<Rightarrow> agent_db \<Rightarrow> agent_db result" where
  "update_agent_status flt i status db = guard_db flt ''Agent.UpdateStatus''
     (Inr (on_agent i (\<lambda>a. a\<lparr>ag_status := status\<rparr>) db))"

definition mark_inactive :: "faults \<Rightarrow> time \<Rightarrow> agent_db \<Rightarrow> agent_db result" where
  "mark_inactive flt cutoff db = guard_db flt ''MarkInactive''
     (Inr (db\<lparr>gdb_agents := tbl_update
        (\<lambda>r. ag_last_seen_at (gr_agent r) < cutoff \<and> ag_status (gr_agent r) = ''active'')
        (\<lambda>r. r\<lparr>gr_agent := (gr_agent r)\<lparr>ag_status := ''inactive''\<rparr>\<rparr>) (gdb_agents db)\<rparr>))"

definition delete_agent :: "faults \<Rightarrow> string \<Rightarrow> agent_db \<Rightarrow> agent_db result" where
  "delete_agent flt i db = guard_db flt ''DeleteAgent''
     (Inr (db\<lparr>gdb_agents := tbl_delete (\<lambda>r. row_id r = i) (gdb_agents db)\<rparr>))"

definition get_agents :: "faults \<Rightarrow> string \<Rightarrow> int \<Rightarrow> int \<Rightarrow> agent_db \<Rightarrow> Agent list result" where
  "get_agents flt tenant limit offset db = guard_db flt ''GetAgents''
     (Inr (take (nat (clamp_limit limit)) (drop (nat (if offset < 0 then 0 else offset))
        (order_desc ag_last_seen_at (filter (\<lambda>a. ag_tenant_id a = tenant) (map gr_agent (gdb_agents db)))))))"

definition get_agent_by_id :: "faults \<Rightarrow> string \<Rightarrow> agent_db \<Rightarrow> Agent option result" where
  "get_agent_by_id flt i db = guard_db flt ''GetAgentByID''
     (Inr (map_option gr_agent (tbl_find row_id i (gdb_agents db))))"

definition get_agent_for_tenant :: "faults \<Rightarrow> string \<Rightarrow> string \<Rightarrow> agent_db \<Rightarrow> Agent option result" where
  "get_agent_for_tenant flt i tenant db = guard_db flt ''GetAgentForTenant''
     (Inr (find (\<lambda>a. ag_id a = i \<and> ag_tenant_id a = tenant) (map gr_agent (gdb_agents db))))"

section \<open>Metrics\<close>

definition save_metric :: "faults \<Rightarrow> string \<Rightarrow> string \<Rightarrow> time \<Rightarrow> json_obj \<Rightarrow> agent_db \<Rightarrow> agent_db result" where
  "save_metric flt i ty ts data db = guard_db flt ''SaveMetric''
     (Inr (db\<lparr>gdb_metrics := gdb_metrics db @
        [\<lparr>am_agent_id = i, am_metric_type = ty, am_timestamp = ts, am_data = data\<rparr>]\<rparr>))"

text \<open>The code overwrites the key \<open>timestamp\<close> of each object with the time of the row as RFC 3339
  text, which \<open>show_time\<close> gives.\<close>

definition set_key :: "string \<Rightarrow> json \<Rightarrow> json_obj \<Rightarrow> json_obj" where
  "set_key k v ob = (k, v) # filter (\<lambda>(j, _). j \<noteq> k) ob"

definition get_recent_metrics ::
    "(time \<Rightarrow> string) \<Rightarrow> faults \<Rightarrow> string \<Rightarrow> string \<Rightarrow> int \<Rightarrow> agent_db \<Rightarrow> json_obj list result" where
  "get_recent_metrics show_time flt i ty limit db = guard_db flt ''GetRecentMetrics''
     (Inr (map (\<lambda>m. set_key ''timestamp'' (JStr (show_time (am_timestamp m))) (am_data m))
        (take (nat (if limit \<le> 0 then 10 else limit)) (order_desc am_timestamp
          (filter (\<lambda>m. am_agent_id m = i \<and> (ty = [] \<or> am_metric_type m = ty)) (gdb_metrics db))))))"

section \<open>Enrolment tokens\<close>

text \<open>\<open>hash\<close> is \<open>hashToken\<close>, the hexadecimal SHA-256 of the token.\<close>

definition create_token :: "(string \<Rightarrow> string) \<Rightarrow> faults \<Rightarrow> EnrollmentToken \<Rightarrow> string \<Rightarrow> agent_db \<Rightarrow> agent_db result" where
  "create_token hash flt t raw db = guard_db flt ''EnrollmentToken.Create''
     (case tbl_insert token_id \<lparr>tk_token = t\<lparr>et_used_at := None, et_used_by_agent_id := []\<rparr>, tk_hash = hash raw\<rparr>
        (gdb_tokens db) of
        Inl e \<Rightarrow> Inl e | Inr ts \<Rightarrow> Inr (db\<lparr>gdb_tokens := ts\<rparr>))"

definition find_by_raw_token :: "(string \<Rightarrow> string) \<Rightarrow> faults \<Rightarrow> string \<Rightarrow> agent_db \<Rightarrow> EnrollmentToken option result" where
  "find_by_raw_token hash flt raw db = guard_db flt ''FindByRawToken''
     (Inr (map_option tk_token (tbl_find tk_hash (hash raw) (gdb_tokens db))))"

definition mark_used :: "faults \<Rightarrow> time \<Rightarrow> string \<Rightarrow> string \<Rightarrow> agent_db \<Rightarrow> agent_db result" where
  "mark_used flt now i agentID db = guard_db flt ''MarkUsed''
     (Inr (db\<lparr>gdb_tokens := tbl_update (\<lambda>r. token_id r = i)
        (\<lambda>r. r\<lparr>tk_token := (tk_token r)\<lparr>et_used_at := Some now, et_used_by_agent_id := agentID\<rparr>\<rparr>) (gdb_tokens db)\<rparr>))"

definition list_tokens :: "faults \<Rightarrow> string \<Rightarrow> agent_db \<Rightarrow> EnrollmentToken list result" where
  "list_tokens flt tenant db = guard_db flt ''EnrollmentToken.ListByTenant''
     (Inr (take 200 (order_desc et_created_at
        (filter (\<lambda>t. et_tenant_id t = tenant) (map tk_token (gdb_tokens db))))))"

definition delete_token :: "faults \<Rightarrow> string \<Rightarrow> string \<Rightarrow> agent_db \<Rightarrow> agent_db result" where
  "delete_token flt i tenant db = guard_db flt ''EnrollmentToken.Delete''
     (Inr (db\<lparr>gdb_tokens := tbl_delete (\<lambda>r. token_id r = i \<and> et_tenant_id (tk_token r) = tenant) (gdb_tokens db)\<rparr>))"

definition delete_expired_tokens :: "faults \<Rightarrow> time \<Rightarrow> agent_db \<Rightarrow> agent_db result" where
  "delete_expired_tokens flt now db = guard_db flt ''DeleteExpired''
     (Inr (db\<lparr>gdb_tokens := tbl_delete (\<lambda>r. et_expires_at (tk_token r) < now \<and> et_used_at (tk_token r) = None)
        (gdb_tokens db)\<rparr>))"

section \<open>Lemmas\<close>

lemma refreshed_simps [simp]:
  "ag_id (refreshed new old) = ag_id old" "ag_tenant_id (refreshed new old) = ag_tenant_id old"
  "ag_status (refreshed new old) = ag_status old"
  by (simp_all add: refreshed_def)

lemma register_with_secret_find:
  assumes "register_with_secret flt now a enc via db = Inr db'"
  shows "tbl_find row_id (ag_id a) (gdb_agents db') =
     Some (case tbl_find row_id (ag_id a) (gdb_agents db) of
        None \<Rightarrow> \<lparr>gr_agent = a, gr_secret_enc = enc, gr_enrolled_via = via, gr_last_rotated_at = Some now\<rparr>
      | Some r \<Rightarrow> r\<lparr>gr_agent := refreshed a (gr_agent r), gr_secret_enc := enc, gr_enrolled_via := via,
                    gr_last_rotated_at := Some now\<rparr>)"
proof -
  let ?r = "\<lparr>gr_agent = a, gr_secret_enc = enc, gr_enrolled_via = via, gr_last_rotated_at = Some now\<rparr>"
  let ?f = "\<lambda>r. r\<lparr>gr_agent := refreshed a (gr_agent r), gr_secret_enc := enc, gr_enrolled_via := via,
      gr_last_rotated_at := Some now\<rparr>"
  have e: "gdb_agents db' = tbl_upsert row_id ?f ?r (gdb_agents db)"
    using assms by (auto simp: register_with_secret_def)
  have "tbl_find row_id (row_id ?r) (tbl_upsert row_id ?f ?r (gdb_agents db)) =
      (case tbl_find row_id (row_id ?r) (gdb_agents db) of None \<Rightarrow> Some ?r | Some x \<Rightarrow> Some (?f x))"
    by (rule tbl_find_upsert_same) (simp add: row_id_def)
  then show ?thesis unfolding e by (simp add: row_id_def split: option.split)
qed

end
