(* ===== verification/AgentAuth.thy ===== *)
theory AgentAuth
  imports AgentStore GoSha256 "HOL-Library.Word"
begin

text \<open>
  How an agent proves who it is: \<open>internal/middleware/agent_auth.go\<close> (signed requests with a
  timestamp and a nonce) and the registration of \<open>internal/handlers/agent_handler.go\<close>. HMAC and
  SHA-256 are written out; the decryption of a stored secret with the server's key (AES-GCM) and the
  fresh secret of a registration are arguments. An HTTP request is the record of the headers and the
  body the code reads. One request reads the clock once.
\<close>

section \<open>Signatures\<close>

definition byte_list :: "string \<Rightarrow> nat list" where "byte_list s = map of_char s"

definition hmac_key :: "string \<Rightarrow> nat list" where
  "hmac_key key =
    (let k = (if 64 < length key then sha256_bytes (byte_list key) else byte_list key)
     in k @ replicate (64 - length k) 0)"

definition xor_byte :: "nat \<Rightarrow> nat \<Rightarrow> nat" where
  "xor_byte a b = unat (semiring_bit_operations_class.xor (of_nat a) (of_nat b) :: 8 word)"

definition hmac_sha256 :: "string \<Rightarrow> string \<Rightarrow> nat list" where
  "hmac_sha256 key msg =
    (let k = hmac_key key in
     sha256_bytes (map (xor_byte 0x5C) k @ sha256_bytes (map (xor_byte 0x36) k @ byte_list msg)))"

text \<open>\<open>strconv.ParseInt\<close> with base 10 and 64 bits.\<close>

definition parse_int64 :: "string \<Rightarrow> int option" where
  "parse_int64 s =
    (let neg = (s \<noteq> [] \<and> hd s = CHR ''-'');
         ds = (if s \<noteq> [] \<and> (hd s = CHR ''-'' \<or> hd s = CHR ''+'') then tl s else s);
         v = (if neg then - int (read_nat ds) else int (read_nat ds))
     in if ds = [] \<or> \<not> list_all is_digit ds \<or> v < - (2 ^ 63) \<or> 2 ^ 63 \<le> v then None else Some v)"

section \<open>Requests\<close>

record agent_request =
  rq_method :: string
  rq_agent_token :: string   \<comment> \<open>\<open>X-Agent-Token\<close>\<close>
  rq_agent_id :: string
  rq_timestamp :: string
  rq_nonce :: string
  rq_signature :: string
  rq_body :: "string option" \<comment> \<open>\<open>None\<close>: reading the body fails\<close>

record auth_config =
  au_dev_token :: string
  au_is_prod :: bool
  au_decrypt :: "string \<Rightarrow> string option"

datatype auth_outcome =
    Unverified                 \<comment> \<open>passed on without an agent\<close>
  | Verified string string     \<comment> \<open>passed on as this agent of this tenant\<close>
  | Refused string

text \<open>\<open>nonceCache\<close>: the expiry of each \<open>agent:nonce\<close>.\<close>

type_synonym nonce_cache = "string \<rightharpoonup> time"

definition nonce_key :: "string \<Rightarrow> string \<Rightarrow> string" where
  "nonce_key agentID nonce = agentID @ '':'' @ nonce"

definition use_nonce :: "time \<Rightarrow> string \<Rightarrow> string \<Rightarrow> nonce_cache \<Rightarrow> bool \<times> nonce_cache" where
  "use_nonce now agentID nonce c =
    (case c (nonce_key agentID nonce) of
       Some _ \<Rightarrow> (False, c)
     | None \<Rightarrow> (True, c(nonce_key agentID nonce \<mapsto> now + 10 * minute)))"

definition cleanup_nonces :: "time \<Rightarrow> nonce_cache \<Rightarrow> nonce_cache" where
  "cleanup_nonces now c =
    (\<lambda>k. case c k of None \<Rightarrow> None | Some e \<Rightarrow> if e < now then None else Some e)"

definition unix :: "time \<Rightarrow> int" where "unix t = t div second"

text \<open>\<open>absInt(time.Now().Unix()-ts)\<close> in 64-bit arithmetic.\<close>

definition clock_skew :: "time \<Rightarrow> int \<Rightarrow> int" where
  "clock_skew now ts =
    (let d = (word_of_int (unix now - ts) :: 64 word) in sint (if sint d < 0 then - d else d))"

definition line :: string where "line = [CHR 0x0A]"

definition canonical_request :: "agent_request \<Rightarrow> string \<Rightarrow> string" where
  "canonical_request rq body = rq_method rq @ line @ rq_agent_id rq @ line @ rq_timestamp rq @ line @
     rq_nonce rq @ line @ hex_bytes (sha256 body)"

definition request_signature :: "string \<Rightarrow> agent_request \<Rightarrow> string \<Rightarrow> string" where
  "request_signature secret rq body = hex_bytes (hmac_sha256 secret (canonical_request rq body))"

text \<open>The agent, its secret, the signature, the nonce.\<close>

definition check_signature ::
    "auth_config \<Rightarrow> faults \<Rightarrow> time \<Rightarrow> agent_request \<Rightarrow> string \<Rightarrow> agent_db \<Rightarrow> nonce_cache \<Rightarrow>
     auth_outcome \<times> nonce_cache" where
  "check_signature cfg flt now rq body db c =
    (case get_agent_by_id flt (rq_agent_id rq) db of
       Inl _ \<Rightarrow> (Refused ''unknown agent'', c)
     | Inr None \<Rightarrow> (Refused ''unknown agent'', c)
     | Inr (Some a) \<Rightarrow>
        (case get_secret_enc flt (rq_agent_id rq) db of
           Inl _ \<Rightarrow> (Refused ''agent not cryptographically enrolled; re-register to obtain a signing secret'', c)
         | Inr enc \<Rightarrow>
            if enc = [] then (Refused ''agent not cryptographically enrolled; re-register to obtain a signing secret'', c)
            else (case au_decrypt cfg enc of
               None \<Rightarrow> (Refused ''internal error: secret decryption failed'', c)
             | Some secret \<Rightarrow>
                if request_signature secret rq body \<noteq> rq_signature rq then (Refused ''invalid signature'', c)
                else let (fresh, c') = use_nonce now (rq_agent_id rq) (rq_nonce rq) c in
                  if fresh then (Verified (rq_agent_id rq) (ag_tenant_id a), c')
                  else (Refused ''nonce already used (replay detected)'', c'))))"

text \<open>The clock is read twice: \<open>seen\<close> for the window, \<open>now\<close> when the nonce is recorded, after the body has been read and the
  agent looked up. The cache is only touched then, so other requests may pass between the two.\<close>

definition authenticate ::
    "auth_config \<Rightarrow> faults \<Rightarrow> time \<Rightarrow> time \<Rightarrow> agent_request \<Rightarrow> agent_db \<Rightarrow> nonce_cache \<Rightarrow> auth_outcome \<times> nonce_cache" where
  "authenticate cfg flt seen now rq db c =
    (if \<not> au_is_prod cfg \<and> au_dev_token cfg = [] then (Unverified, c)
     else if au_dev_token cfg \<noteq> [] \<and> rq_agent_token rq = au_dev_token cfg then (Unverified, c)
     else if rq_agent_id rq = [] \<or> rq_timestamp rq = [] \<or> rq_nonce rq = [] \<or> rq_signature rq = [] then
       (Refused ''missing required headers: X-Agent-ID, X-Timestamp, X-Nonce, X-Signature'', c)
     else (case parse_int64 (rq_timestamp rq) of
         None \<Rightarrow> (Refused (''X-Timestamp out of acceptable window ('' @ [CHR 0xC2, CHR 0xB1] @ ''5 min)''), c)
       | Some ts \<Rightarrow>
          if 300 < clock_skew seen ts
          then (Refused (''X-Timestamp out of acceptable window ('' @ [CHR 0xC2, CHR 0xB1] @ ''5 min)''), c)
          else if length (rq_nonce rq) < 32 then (Refused ''X-Nonce too short (minimum 32 hex characters)'', c)
          else (case rq_body rq of
                  None \<Rightarrow> (Refused ''failed to read request body'', c)
                | Some body \<Rightarrow> check_signature cfg flt now rq body db c)))"

section \<open>Registration\<close>

record register_request =
  rr_claims :: "(string \<times> string) option"  \<comment> \<open>tenant and user of a JWT\<close>
  rr_enrollment_token :: string
  rr_agent_token :: string
  rr_agent_id :: string
  rr_name :: string
  rr_host_ip :: string
  rr_os_type :: string
  rr_version :: string

record register_config =
  rc_hash :: "string \<Rightarrow> string"   \<comment> \<open>\<open>hashToken\<close>\<close>
  rc_dev_token :: string
  rc_is_prod :: bool
  rc_has_store :: bool              \<comment> \<open>an enrolment store is wired in\<close>

definition hash_token :: "string \<Rightarrow> string" where "hash_token raw = hex_bytes (sha256 raw)"

text \<open>\<open>resolveRegistrationAuth\<close>: tenant and origin, or \<open>None\<close> for a refusal.\<close>

definition resolve_registration_auth ::
    "register_config \<Rightarrow> faults \<Rightarrow> time \<Rightarrow> register_request \<Rightarrow> agent_db \<Rightarrow> (string \<times> string) option \<times> agent_db" where
  "resolve_registration_auth cfg flt now rq db =
    (case rr_claims rq of
       Some (tenant, user) \<Rightarrow> (Some (tenant, ''jwt:'' @ user), db)
     | None \<Rightarrow>
        if rr_enrollment_token rq \<noteq> [] \<and> rc_has_store cfg then
          (case find_by_raw_token (rc_hash cfg) flt (rr_enrollment_token rq) db of
             Inl _ \<Rightarrow> (None, db)
           | Inr None \<Rightarrow> (None, db)
           | Inr (Some t) \<Rightarrow>
              if et_used_at t \<noteq> None then (None, db)
              else if et_expires_at t < now then (None, db)
              else (case mark_used flt now (et_id t) (rr_agent_id rq) db of
                      Inl _ \<Rightarrow> (None, db)
                    | Inr db' \<Rightarrow> (Some (et_tenant_id t, ''enrollment:'' @ et_id t), db')))
        else if rc_dev_token cfg \<noteq> [] \<and> rr_agent_token rq = rc_dev_token cfg then
          (Some (''default'', ''legacy-dev-token''), db)
        else if rc_dev_token cfg = [] \<and> rc_has_store cfg \<and> \<not> rc_is_prod cfg then
          (Some (''default'', ''open-dev''), db)
        else (None, db))"

datatype register_outcome = Registered string | HttpError nat

text \<open>\<open>AgentHandler.Register\<close> once the body is decoded. \<open>secret\<close> is the fresh secret in its plain and
  its encrypted form, or \<open>None\<close> when making one fails.\<close>

definition registered_agent :: "time \<Rightarrow> string \<Rightarrow> register_request \<Rightarrow> Agent" where
  "registered_agent now tenant rq = \<lparr>ag_id = rr_agent_id rq, ag_tenant_id = tenant, ag_name = rr_name rq,
     ag_host_ip = rr_host_ip rq, ag_os_type = rr_os_type rq, ag_version = rr_version rq,
     ag_status = ''active'', ag_last_seen_at = now, ag_registered_at = now, ag_metadata = []\<rparr>"

definition register_handler ::
    "register_config \<Rightarrow> faults \<Rightarrow> time \<Rightarrow> (string \<times> string) option \<Rightarrow> register_request \<Rightarrow> agent_db \<Rightarrow>
     register_outcome \<times> agent_db" where
  "register_handler cfg flt now secret rq db =
    (if rr_agent_id rq = [] then (HttpError 400, db)
     else (case resolve_registration_auth cfg flt now rq db of
       (None, db1) \<Rightarrow> (HttpError 401, db1)
     | (Some (tenant, via), db1) \<Rightarrow>
        (case secret of
           None \<Rightarrow> (HttpError 500, db1)
         | Some (raw, enc) \<Rightarrow>
            (case register_with_secret flt now
                    (registered_agent now (if tenant = [] then ''default'' else tenant) rq) enc via db1 of
               Inl _ \<Rightarrow> (HttpError 500, db1)
             | Inr db2 \<Rightarrow> (Registered raw, db2)))))"

text \<open>\<open>RotateSecret\<close> for an agent of the caller's tenant.\<close>

definition rotate_handler ::
    "faults \<Rightarrow> time \<Rightarrow> (string \<times> string) option \<Rightarrow> string option \<Rightarrow> string \<Rightarrow> agent_db \<Rightarrow> register_outcome \<times> agent_db" where
  "rotate_handler flt now secret claims_tenant agentID db =
    (if agentID = [] then (HttpError 400, db)
     else (case claims_tenant of
       None \<Rightarrow> (HttpError 401, db)
     | Some tenant \<Rightarrow>
        (case get_agent_by_id flt agentID db of
           Inl _ \<Rightarrow> (HttpError 404, db)
         | Inr None \<Rightarrow> (HttpError 404, db)
         | Inr (Some a) \<Rightarrow>
            if ag_tenant_id a \<noteq> tenant then (HttpError 403, db)
            else (case secret of
               None \<Rightarrow> (HttpError 500, db)
             | Some (raw, enc) \<Rightarrow>
                (case rotate_secret flt now agentID enc db of
                   Inl _ \<Rightarrow> (HttpError 500, db)
                 | Inr db' \<Rightarrow> (Registered raw, db'))))))"

section \<open>Lemmas\<close>

subsection \<open>The clock\<close>

lemma sint_small: "- (2 ^ 63) \<le> x \<Longrightarrow> x < 2 ^ 63 \<Longrightarrow> sint (word_of_int x :: 64 word) = x"
  by (simp add: int_word_sint)

lemma sint_large: "2 ^ 63 \<le> x \<Longrightarrow> x < 2 ^ 64 \<Longrightarrow> sint (word_of_int x :: 64 word) = x - 2 ^ 64"
proof -
  assume "2 ^ 63 \<le> x" "x < 2 ^ 64"
  then have "(x - 2 ^ 63) mod 2 ^ 64 = x - 2 ^ 63" by (intro mod_pos_pos_trivial) simp_all
  moreover have "(x + 2 ^ 63) mod 2 ^ 64 = ((x - 2 ^ 63) + 2 ^ 64) mod 2 ^ 64" by (simp add: add.commute)
  ultimately have "(x + 2 ^ 63) mod 2 ^ 64 = x - 2 ^ 63" by (simp only: mod_add_self2)
  then show ?thesis by (simp add: int_word_sint)
qed

lemma clock_skew_cases:
  assumes "0 \<le> unix now" "unix now < 2 ^ 62" "- (2 ^ 63) \<le> ts" "ts < 2 ^ 63" "clock_skew now ts \<le> 300"
  shows "\<bar>unix now - ts\<bar> \<le> 300 \<or> ts = unix now - 2 ^ 63"
proof -
  define d where "d = unix now - ts"
  let ?w = "word_of_int d :: 64 word"
  have neg: "- ?w = word_of_int (- d)" by simp
  have range: "- (2 ^ 63) < d" "d < 2 ^ 64" using assms by (simp_all add: d_def)
  have skew: "clock_skew now ts = sint (if sint ?w < 0 then - ?w else ?w)"
    by (simp add: clock_skew_def Let_def d_def)
  consider "d < 0" | "0 \<le> d" "d < 2 ^ 63" | "d = 2 ^ 63" | "2 ^ 63 < d" by linarith
  then show ?thesis
  proof cases
    case 1
    then have "clock_skew now ts = - d"
      unfolding skew neg using range sint_small[of d] sint_small[of "- d"] by simp
    with assms(5) 1 show ?thesis by (simp add: d_def)
  next
    case 2
    then have "clock_skew now ts = d" unfolding skew using sint_small[of d] by simp
    with assms(5) 2 show ?thesis by (simp add: d_def)
  next
    case 3
    then show ?thesis by (simp add: d_def)
  next
    case 4
    then have "sint ?w = d - 2 ^ 64" using range sint_large[of d] by simp
    then have "clock_skew now ts = sint (word_of_int (- d) :: 64 word)" unfolding skew neg using range by simp
    also have "word_of_int (- d) = (word_of_int (2 ^ 64 - d) :: 64 word)"
      by (simp add: word_of_int_2p_len[where 'a = 64, simplified])
    also have "sint (word_of_int (2 ^ 64 - d) :: 64 word) = 2 ^ 64 - d" using 4 range by (intro sint_small) simp_all
    finally have "2 ^ 64 - d \<le> 300" using assms(5) by simp
    moreover have "d \<le> 2 ^ 62 + 2 ^ 63" using assms by (simp add: d_def)
    ultimately show ?thesis by simp
  qed
qed

lemma parse_int64_range: "parse_int64 s = Some v \<Longrightarrow> - (2 ^ 63) \<le> v \<and> v < 2 ^ 63"
  by (simp add: parse_int64_def Let_def split: if_splits)

subsection \<open>What an accepted request has shown\<close>

lemma authenticate_Verified:
  assumes "authenticate cfg flt seen now rq db c = (Verified i tenant, c')"
  obtains ts body a enc secret where
    "parse_int64 (rq_timestamp rq) = Some ts" "clock_skew seen ts \<le> 300" "32 \<le> length (rq_nonce rq)"
    "rq_body rq = Some body" "i = rq_agent_id rq" "rq_agent_id rq \<noteq> []"
    "tbl_find row_id i (gdb_agents db) = Some a" "ag_tenant_id (gr_agent a) = tenant"
    "gr_secret_enc a = enc" "au_decrypt cfg enc = Some secret" "enc \<noteq> []"
    "rq_signature rq = request_signature secret rq body"
    "c (nonce_key i (rq_nonce rq)) = None" "c' = c(nonce_key i (rq_nonce rq) \<mapsto> now + 10 * minute)"
  using assms
  by (auto simp: authenticate_def check_signature_def get_agent_by_id_def get_secret_enc_def use_nonce_def Let_def
      guard_db_def split: if_splits option.splits sum.splits prod.splits)

subsection \<open>The nonces over time\<close>

text \<open>What one server does to its cache as time passes.\<close>

inductive nonce_run :: "time \<Rightarrow> nonce_cache \<Rightarrow> time \<Rightarrow> nonce_cache \<Rightarrow> bool" where
  refl: "nonce_run t c t c"
| tick: "nonce_run t c t' c' \<Longrightarrow> t' \<le> t'' \<Longrightarrow> nonce_run t c t'' c'"
| request: "nonce_run t c t' c' \<Longrightarrow> nonce_run t c t' (snd (authenticate cfg flt seen t' rq db c'))"
| cleanup: "nonce_run t c t' c' \<Longrightarrow> nonce_run t c t' (cleanup_nonces t' c')"

lemma authenticate_keeps_nonces: "c k = Some e \<Longrightarrow> snd (authenticate cfg flt seen now rq db c) k = Some e"
  by (auto simp: authenticate_def check_signature_def use_nonce_def Let_def split: option.splits sum.splits)

lemma nonce_run_keeps:
  "nonce_run t c t' c' \<Longrightarrow> c k = Some e \<Longrightarrow> t \<le> t' \<and> (c' k = Some e \<or> e < t')"
proof (induction rule: nonce_run.induct)
  case (request t c t' c' cfg flt seen rq db)
  then show ?case using authenticate_keeps_nonces[of c' k e] by auto
qed (auto simp: cleanup_nonces_def)

lemma clock_skew_near: "\<bar>unix now - ts\<bar> \<le> 300 \<Longrightarrow> clock_skew now ts \<le> 300"
proof -
  define d where "d = unix now - ts"
  let ?w = "word_of_int d :: 64 word"
  assume "\<bar>unix now - ts\<bar> \<le> 300"
  then have d: "\<bar>d\<bar> \<le> 300" by (simp add: d_def)
  have neg: "- ?w = word_of_int (- d)" by simp
  have "clock_skew now ts = sint (if sint ?w < 0 then - ?w else ?w)"
    by (simp add: clock_skew_def Let_def d_def)
  then show ?thesis using d sint_small[of d] sint_small[of "- d"] unfolding neg by (simp split: if_splits)
qed

lemma unix_add: "unix (t + 10 * minute) = unix t + 600"
proof -
  have e: "10 * minute = 600 * second" by (simp add: minute_def)
  have "second \<noteq> 0" by (simp add: second_def)
  then show ?thesis unfolding e unix_def by simp
qed

lemma unix_mono: "s \<le> t \<Longrightarrow> unix s \<le> unix t"
  by (simp add: unix_def zdiv_mono1)

lemma hmac_nonempty: "request_signature secret rq body \<noteq> []"
proof -
  have "length (request_signature secret rq body) = 64"
    by (simp add: request_signature_def hmac_sha256_def Let_def)
  then show ?thesis by auto
qed

lemma authenticate_accepts:
  assumes "au_is_prod cfg" "au_dev_token cfg = []" "rq_agent_id rq \<noteq> []" "32 \<le> length (rq_nonce rq)"
    "parse_int64 (rq_timestamp rq) = Some ts" "\<bar>unix seen - ts\<bar> \<le> 300" "rq_body rq = Some body"
    "tbl_find row_id (rq_agent_id rq) (gdb_agents db) = Some a" "gr_secret_enc a \<noteq> []"
    "au_decrypt cfg (gr_secret_enc a) = Some secret" "rq_signature rq = request_signature secret rq body"
    "c (nonce_key (rq_agent_id rq) (rq_nonce rq)) = None"
  shows "authenticate cfg no_faults seen now rq db c = (Verified (rq_agent_id rq) (ag_tenant_id (gr_agent a)),
     c(nonce_key (rq_agent_id rq) (rq_nonce rq) \<mapsto> now + 10 * minute))"
proof -
  have "rq_timestamp rq \<noteq> []" "rq_nonce rq \<noteq> []" "rq_signature rq \<noteq> []"
    using assms(4,5,11) hmac_nonempty[of secret rq body] by (auto simp: parse_int64_def)
  moreover have "\<not> 300 < clock_skew seen ts" using clock_skew_near[OF assms(6)] by simp
  ultimately show ?thesis using assms
    by (simp add: authenticate_def check_signature_def get_agent_by_id_def get_secret_enc_def use_nonce_def Let_def)
qed

subsection \<open>Enrolment tokens\<close>

definition spent :: "string \<Rightarrow> agent_db \<Rightarrow> bool" where
  "spent h db \<longleftrightarrow> list_all (\<lambda>r. tk_hash r = h \<longrightarrow> et_used_at (tk_token r) \<noteq> None) (gdb_tokens db)"

text \<open>What happens to the table of tokens when no token with the hash \<open>h\<close> is created anew.\<close>

inductive enroll_run :: "register_config \<Rightarrow> string \<Rightarrow> agent_db \<Rightarrow> agent_db \<Rightarrow> bool" for cfg h where
  stay: "enroll_run cfg h db db"
| registers: "enroll_run cfg h db db1 \<Longrightarrow> enroll_run cfg h db (snd (register_handler cfg flt now secret rq db1))"
| creates: "enroll_run cfg h db db1 \<Longrightarrow> rc_hash cfg raw \<noteq> h \<Longrightarrow> create_token (rc_hash cfg) flt t raw db1 = Inr db2 \<Longrightarrow>
    enroll_run cfg h db db2"
| deletes: "enroll_run cfg h db db1 \<Longrightarrow> delete_token flt i tenant db1 = Inr db2 \<Longrightarrow> enroll_run cfg h db db2"
| expires: "enroll_run cfg h db db1 \<Longrightarrow> delete_expired_tokens flt now db1 = Inr db2 \<Longrightarrow> enroll_run cfg h db db2"

lemma mark_used_spent: "spent h db \<Longrightarrow> mark_used flt now i agentID db = Inr db' \<Longrightarrow> spent h db'"
  by (auto simp: spent_def mark_used_def list_all_iff tbl_update_def)

lemma resolve_spent: "spent h db \<Longrightarrow> spent h (snd (resolve_registration_auth cfg flt now rq db))"
  by (auto simp: resolve_registration_auth_def mark_used_spent split: option.splits sum.splits prod.splits if_splits)

lemma register_tokens: "register_with_secret flt now a enc via db = Inr db' \<Longrightarrow> gdb_tokens db' = gdb_tokens db"
  by (auto simp: register_with_secret_def)

lemma register_handler_spent: "spent h db \<Longrightarrow> spent h (snd (register_handler cfg flt now secret rq db))"
  using resolve_spent[of h db cfg flt now rq]
  by (auto simp: register_handler_def spent_def register_tokens split: option.splits sum.splits prod.splits)

lemma enroll_run_spent: "enroll_run cfg h db db' \<Longrightarrow> spent h db \<Longrightarrow> spent h db'"
proof (induction rule: enroll_run.induct)
  case (registers db db1 flt now secret rq)
  then show ?case by (simp add: register_handler_spent)
qed (auto simp: spent_def create_token_def delete_token_def delete_expired_tokens_def tbl_delete_def tbl_insert_def
    list_all_iff split: if_splits)

definition sample_request :: "string \<Rightarrow> agent_request" where
  "sample_request secret =
    (let rq = \<lparr>rq_method = ''POST'', rq_agent_token = [], rq_agent_id = ''a1'', rq_timestamp = ''1300'',
       rq_nonce = replicate 32 (CHR ''0''), rq_signature = [], rq_body = Some ''{}''\<rparr>
     in rq\<lparr>rq_signature := request_signature secret rq ''{}''\<rparr>)"

definition sample_config :: auth_config where
  "sample_config = \<lparr>au_dev_token = [], au_is_prod = True, au_decrypt = (\<lambda>enc. Some (tl enc))\<rparr>"

definition sample_agents :: agent_db where
  "sample_agents = \<lparr>gdb_agents = [\<lparr>gr_agent = \<lparr>ag_id = ''a1'', ag_tenant_id = ''t1'', ag_name = [], ag_host_ip = [],
       ag_os_type = [], ag_version = [], ag_status = ''active'', ag_last_seen_at = 0, ag_registered_at = 0, ag_metadata = []\<rparr>,
     gr_secret_enc = ''xs'', gr_enrolled_via = [], gr_last_rotated_at = None\<rparr>], gdb_metrics = [], gdb_tokens = []\<rparr>"

lemma sample_accepted:
  assumes "c (nonce_key ''a1'' (replicate 32 (CHR ''0''))) = None" and "\<bar>unix seen - 1300\<bar> \<le> 300"
  shows "authenticate sample_config no_faults seen now (sample_request ''s'') sample_agents c =
    (Verified ''a1'' ''t1'', c(nonce_key ''a1'' (replicate 32 (CHR ''0'')) \<mapsto> now + 10 * minute))"
proof -
  let ?rq = "sample_request ''s''"
  let ?row = "hd (gdb_agents sample_agents)"
  have p: "parse_int64 (rq_timestamp ?rq) = Some 1300"
    by (simp add: sample_request_def Let_def parse_int64_def read_nat_def digit_val_def is_digit_def)
  have sig: "rq_signature ?rq = request_signature ''s'' ?rq ''{}''"
    by (simp add: sample_request_def Let_def request_signature_def canonical_request_def)
  have f: "tbl_find row_id (rq_agent_id ?rq) (gdb_agents sample_agents) = Some ?row"
    by (simp add: sample_request_def Let_def sample_agents_def row_id_def)
  have m: "au_is_prod sample_config" "au_dev_token sample_config = []" "rq_agent_id ?rq \<noteq> []"
    "32 \<le> length (rq_nonce ?rq)" "rq_body ?rq = Some ''{}''" "gr_secret_enc ?row \<noteq> []"
    "au_decrypt sample_config (gr_secret_enc ?row) = Some ''s''"
    by (simp_all add: sample_config_def sample_request_def Let_def sample_agents_def)
  have c: "c (nonce_key (rq_agent_id ?rq) (rq_nonce ?rq)) = None"
    using assms(1) by (simp add: sample_request_def Let_def)
  note accepts = authenticate_accepts[where cfg = sample_config and rq = ?rq and seen = seen and now = now and c = c and
    db = sample_agents and a = ?row and ts = 1300 and body = "''{}''" and secret = "''s''"]
  from accepts[OF m(1-4) p assms(2) m(5) f m(6,7) sig c] show ?thesis
    by (simp add: sample_request_def Let_def sample_agents_def)
qed

lemma accepted_authentic:
  assumes "authenticate cfg flt seen now rq db c = (Verified i tenant, c')" and "0 \<le> unix seen" and "unix seen < 2 ^ 62"
  shows "\<exists>a secret body ts. i = rq_agent_id rq \<and> tbl_find row_id i (gdb_agents db) = Some a \<and>
     ag_tenant_id (gr_agent a) = tenant \<and> au_decrypt cfg (gr_secret_enc a) = Some secret \<and>
     rq_body rq = Some body \<and> rq_signature rq = request_signature secret rq body \<and>
     parse_int64 (rq_timestamp rq) = Some ts \<and> (\<bar>unix seen - ts\<bar> \<le> 300 \<or> ts = unix seen - 2 ^ 63) \<and>
     c (nonce_key i (rq_nonce rq)) = None \<and> c' (nonce_key i (rq_nonce rq)) = Some (now + 10 * minute)"
  using assms(1)
proof (rule authenticate_Verified)
  fix ts body a enc secret
  assume a: "parse_int64 (rq_timestamp rq) = Some ts" "clock_skew seen ts \<le> 300" "32 \<le> length (rq_nonce rq)"
    "rq_body rq = Some body" "i = rq_agent_id rq" "rq_agent_id rq \<noteq> []"
    "tbl_find row_id i (gdb_agents db) = Some a" "ag_tenant_id (gr_agent a) = tenant"
    "gr_secret_enc a = enc" "au_decrypt cfg enc = Some secret" "enc \<noteq> []"
    "rq_signature rq = request_signature secret rq body"
    "c (nonce_key i (rq_nonce rq)) = None" "c' = c(nonce_key i (rq_nonce rq) \<mapsto> now + 10 * minute)"
  from parse_int64_range[OF a(1)] have r: "- (2 ^ 63) \<le> ts" "ts < 2 ^ 63" by simp_all
  have "\<bar>unix seen - ts\<bar> \<le> 300 \<or> ts = unix seen - 2 ^ 63"
    by (rule clock_skew_cases[OF assms(2,3) r a(2)])
  with a show ?thesis by auto
qed

lemma first_use_spends:
  assumes "register_handler cfg flt now secret rq db = (Registered raw, db1)"
    and "rr_claims rq = None" "rr_enrollment_token rq \<noteq> []" "rc_has_store cfg"
    and "distinct (map tk_hash (gdb_tokens db))"
  shows "spent (rc_hash cfg (rr_enrollment_token rq)) db1"
proof -
  let ?h = "rc_hash cfg (rr_enrollment_token rq)"
  obtain tenant via dbm where r: "resolve_registration_auth cfg flt now rq db = (Some (tenant, via), dbm)"
      "gdb_tokens db1 = gdb_tokens dbm"
    using assms(1) by (auto simp: register_handler_def register_tokens split: if_splits option.splits prod.splits sum.splits)
  then obtain k where k: "tbl_find tk_hash ?h (gdb_tokens db) = Some k"
      "mark_used flt now (et_id (tk_token k)) (rr_agent_id rq) db = Inr dbm"
    using assms(2-4) by (auto simp: resolve_registration_auth_def find_by_raw_token_def guard_db_def
        split: option.splits sum.splits if_splits)
  have only: "r = k" if "r \<in> set (gdb_tokens db)" "tk_hash r = ?h" for r
    using tbl_find_Some[OF k(1)] that assms(5) by (metis distinct_map inj_onD)
  have "spent ?h dbm" using k(2) only
    by (auto simp: spent_def mark_used_def list_all_iff tbl_update_def token_id_def)
  with r(2) show ?thesis by (simp add: spent_def)
qed

section \<open>Properties\<close>

text \<open>C15: an accepted request is authentic. Whatever statements fail, a request is passed on as an
  agent only when that agent is registered, under the tenant of its own row; the request carries the
  HMAC of its method, agent, timestamp, nonce and body under the agent's decrypted secret; its nonce
  was not in the cache and is there afterwards for ten minutes; and its timestamp is within five
  minutes of the clock at the first look, or lies exactly \<open>2^63\<close> seconds before it, where the 64-bit difference wraps
  to its own negation.\<close>

theorem accepted_request_authentic:
  assumes "authenticate cfg flt seen now rq db c = (Verified i tenant, c')" and "0 \<le> unix seen" and "unix seen < 2 ^ 62"
  shows "\<exists>a secret body ts. i = rq_agent_id rq \<and> tbl_find row_id i (gdb_agents db) = Some a \<and>
     ag_tenant_id (gr_agent a) = tenant \<and> au_decrypt cfg (gr_secret_enc a) = Some secret \<and>
     rq_body rq = Some body \<and> rq_signature rq = request_signature secret rq body \<and>
     parse_int64 (rq_timestamp rq) = Some ts \<and> (\<bar>unix seen - ts\<bar> \<le> 300 \<or> ts = unix seen - 2 ^ 63) \<and>
     c (nonce_key i (rq_nonce rq)) = None \<and> c' (nonce_key i (rq_nonce rq)) = Some (now + 10 * minute)"
  by (rule accepted_authentic[OF assms])

theorem accepted_request_authentic_witness:
  "authenticate sample_config no_faults (1000 * second) (1000 * second) (sample_request ''s'') sample_agents Map.empty =
     (Verified ''a1'' ''t1'', [nonce_key ''a1'' (replicate 32 (CHR ''0'')) \<mapsto> 1000 * second + 10 * minute]) \<and>
   (\<exists>secret. rq_signature (sample_request ''s'') = request_signature secret (sample_request ''s'') ''{}'')"
proof -
  have u: "unix (1000 * second) = 1000" by (simp add: unix_def second_def)
  have a: "authenticate sample_config no_faults (1000 * second) (1000 * second) (sample_request ''s'') sample_agents Map.empty =
     (Verified ''a1'' ''t1'', [nonce_key ''a1'' (replicate 32 (CHR ''0'')) \<mapsto> 1000 * second + 10 * minute])"
    by (rule sample_accepted) (simp_all add: u)
  have b: "rq_body (sample_request ''s'') = Some ''{}''" by (simp add: sample_request_def Let_def)
  have "0 \<le> unix (1000 * second)" "unix (1000 * second) < 2 ^ 62" by (simp_all add: u)
  from accepted_request_authentic[OF a this] a b show ?thesis by auto
qed

text \<open>C16: replays. Take a server that is not restarted in between, and a request it has accepted. It accepts the same
  request again, after any other requests and clean-ups, only later than ten minutes after it recorded the nonce, and only
  when the time the replay itself spends between its two looks at the clock makes up for what the stamp was less than five
  minutes ahead (a stamp that lies exactly \<open>2^63\<close> seconds back needs ten minutes of it). In particular a request that is
  answered at once is accepted twice only if it was stamped the full five minutes ahead, and a replay of a request that was
  not stamped ahead must be held for five minutes.\<close>

theorem replay_window:
  assumes "authenticate cfg flt s1 t1 rq db1 c = (Verified i tenant, c1)" and "nonce_run t1 c1 t2 c2"
    and "authenticate cfg flt' s2 t2 rq db2 c2 = (Verified j tenant', c3)"
    and "s1 \<le> t1" "s2 \<le> t2" "0 \<le> unix s1" "0 \<le> unix s2" "unix t2 < 2 ^ 62"
  shows "\<exists>ts. parse_int64 (rq_timestamp rq) = Some ts \<and> t1 + 10 * minute < t2 \<and>
    (unix t1 + 300 \<le> ts + (unix t2 - unix s2) \<or> ts = unix s1 - 2 ^ 63 \<and> 600 \<le> unix t2 - unix s2)"
proof -
  let ?k = "nonce_key i (rq_nonce rq)"
  have "t1 \<le> t2" using nonce_run_keeps[OF assms(2), of ?k "t1 + 10 * minute"]
      authenticate_Verified[OF assms(1)] by (metis fun_upd_same)
  then have u: "unix s1 \<le> unix t1" "unix t1 \<le> unix t2" "unix s2 \<le> unix t2" using assms(4,5) by (simp_all add: unix_mono)
  obtain ts where a: "i = rq_agent_id rq" "parse_int64 (rq_timestamp rq) = Some ts"
      "\<bar>unix s1 - ts\<bar> \<le> 300 \<or> ts = unix s1 - 2 ^ 63" "c1 ?k = Some (t1 + 10 * minute)"
    using accepted_authentic[OF assms(1,6)] u assms(8) by auto
  obtain ts' where b: "j = rq_agent_id rq" "parse_int64 (rq_timestamp rq) = Some ts'"
      "\<bar>unix s2 - ts'\<bar> \<le> 300 \<or> ts' = unix s2 - 2 ^ 63" "c2 (nonce_key j (rq_nonce rq)) = None"
    using accepted_authentic[OF assms(3,7)] u assms(8) by auto
  from nonce_run_keeps[OF assms(2) a(4)] a(1) b(1,4) have late: "t1 + 10 * minute < t2" by auto
  then have u2: "unix t1 + 600 \<le> unix t2" using unix_mono[of "t1 + 10 * minute" t2] by (simp add: unix_add)
  have ts: "ts' = ts" using a(2) b(2) by simp
  have "unix t1 + 300 \<le> ts + (unix t2 - unix s2) \<or> ts = unix s1 - 2 ^ 63 \<and> 600 \<le> unix t2 - unix s2"
    using a(3) b(3) ts u u2 assms(6-8) by auto
  with a(2) late show ?thesis by blast
qed

theorem replay_window_witness:
  "let rq = sample_request ''s''; t1 = 1100 * second; s2 = 1600 * second; t2 = 1701 * second;
       c1 = snd (authenticate sample_config no_faults t1 t1 rq sample_agents Map.empty);
       c2 = cleanup_nonces t2 c1
   in fst (authenticate sample_config no_faults t1 t1 rq sample_agents Map.empty) = Verified ''a1'' ''t1'' \<and>
      fst (authenticate sample_config no_faults s2 t2 rq sample_agents c2) = Verified ''a1'' ''t1'' \<and>
      t1 + 10 * minute < t2"
proof -
  let ?k = "nonce_key ''a1'' (replicate 32 (CHR ''0''))"
  let ?t1 = "1100 * second" and ?s2 = "1600 * second" and ?t2 = "1701 * second"
  let ?c1 = "[?k \<mapsto> ?t1 + 10 * minute]"
  have u: "unix ?t1 = 1100" "unix ?s2 = 1600" "unix ?t2 = 1701" by (simp_all add: unix_def second_def)
  have a: "authenticate sample_config no_faults ?t1 ?t1 (sample_request ''s'') sample_agents Map.empty =
     (Verified ''a1'' ''t1'', ?c1)" by (rule sample_accepted) (simp_all add: u)
  have gone: "cleanup_nonces ?t2 ?c1 ?k = None" by (simp add: cleanup_nonces_def duration_defs)
  have b: "authenticate sample_config no_faults ?s2 ?t2 (sample_request ''s'') sample_agents (cleanup_nonces ?t2 ?c1) =
     (Verified ''a1'' ''t1'', (cleanup_nonces ?t2 ?c1)(?k \<mapsto> ?t2 + 10 * minute))"
    by (rule sample_accepted) (simp_all add: gone u)
  have "?t1 \<le> ?t2" by (simp add: second_def)
  then have run: "nonce_run ?t1 ?c1 ?t2 (cleanup_nonces ?t2 ?c1)"
    by (intro nonce_run.cleanup nonce_run.tick[OF nonce_run.refl])
  have o: "?t1 \<le> ?t1" "?s2 \<le> ?t2" by (simp_all add: second_def)
  have w: "0 \<le> unix ?t1" "0 \<le> unix ?s2" "unix ?t2 < 2 ^ 62" by (simp_all add: u)
  from replay_window[OF a run b o w] a b show ?thesis by (auto simp: Let_def)
qed

text \<open>An enrolment token enrols once. After a registration that used a token, no later
  registration with the same token succeeds, whatever registrations, new tokens, deletions and
  expiries lie in between.\<close>

theorem enrollment_token_single_use:
  assumes "register_handler cfg flt now secret rq db = (Registered raw, db1)"
    and "rr_claims rq = None" "rr_enrollment_token rq \<noteq> []" "rc_has_store cfg"
    and "distinct (map tk_hash (gdb_tokens db))"
    and "enroll_run cfg (rc_hash cfg (rr_enrollment_token rq)) db1 db2"
    and "rr_claims rq' = None" "rr_enrollment_token rq' = rr_enrollment_token rq"
  shows "fst (register_handler cfg flt' now' secret' rq' db2) \<in> {HttpError 400, HttpError 401}"
proof -
  let ?h = "rc_hash cfg (rr_enrollment_token rq)"
  have "spent ?h db1" using first_use_spends[OF assms(1-5)] .
  with assms(6) have "spent ?h db2" by (rule enroll_run_spent)
  then have "fst (resolve_registration_auth cfg flt' now' rq' db2) = None"
    using assms(3,4,7,8)
    by (auto simp: resolve_registration_auth_def find_by_raw_token_def spent_def list_all_iff guard_db_def
        split: option.splits sum.splits dest!: tbl_find_Some)
  then show ?thesis by (auto simp: register_handler_def split: prod.splits)
qed

definition sample_token :: token_row where
  "sample_token = \<lparr>tk_token = \<lparr>et_id = ''k1'', et_tenant_id = ''t2'', et_label = [], et_expires_at = 100,
     et_used_at = None, et_used_by_agent_id = [], et_created_by = [], et_created_at = 0\<rparr>, tk_hash = ''raw''\<rparr>"

definition sample_register :: register_request where
  "sample_register = \<lparr>rr_claims = None, rr_enrollment_token = ''raw'', rr_agent_token = [], rr_agent_id = ''a1'',
     rr_name = ''n'', rr_host_ip = [], rr_os_type = [], rr_version = []\<rparr>"

definition sample_register_config :: register_config where
  "sample_register_config = \<lparr>rc_hash = (\<lambda>s. s), rc_dev_token = [], rc_is_prod = True, rc_has_store = True\<rparr>"

lemmas sample_register_defs = sample_token_def sample_register_def sample_register_config_def sample_agents_def

lemma sample_registered:
  "fst (register_handler sample_register_config no_faults 5 (Some (''s'', ''xs'')) sample_register
     (sample_agents\<lparr>gdb_tokens := [sample_token]\<rparr>)) = Registered ''s''"
  by (simp add: register_handler_def resolve_registration_auth_def find_by_raw_token_def mark_used_def
      register_with_secret_def sample_register_defs)

theorem enrollment_token_single_use_witness:
  "let db = sample_agents\<lparr>gdb_tokens := [sample_token]\<rparr>;
       (out, db1) = register_handler sample_register_config no_faults 5 (Some (''s'', ''xs'')) sample_register db
   in out = Registered ''s'' \<and>
      fst (register_handler sample_register_config no_faults 6 (Some (''s'', ''xs'')) sample_register db1)
        \<in> {HttpError 400, HttpError 401}"
proof -
  let ?db = "sample_agents\<lparr>gdb_tokens := [sample_token]\<rparr>"
  obtain db1 where r: "register_handler sample_register_config no_faults 5 (Some (''s'', ''xs'')) sample_register ?db =
      (Registered ''s'', db1)" using sample_registered by (metis prod.collapse)
  have q: "rr_claims sample_register = None" "rr_enrollment_token sample_register \<noteq> []"
      "rc_has_store sample_register_config" "distinct (map tk_hash (gdb_tokens ?db))"
    by (simp_all add: sample_register_defs)
  have run: "enroll_run sample_register_config (rc_hash sample_register_config (rr_enrollment_token sample_register)) db1 db1"
    by (rule enroll_run.stay)
  from enrollment_token_single_use[where flt' = no_faults and now' = 6 and secret' = "Some (''s'', ''xs'')",
      OF r q run q(1) HOL.refl] r show ?thesis
    by simp
qed

text \<open>Whose secret a registration replaces. A registration keyed to one tenant that names an
  agent of another tenant succeeds: the row keeps its tenant but takes the new secret, the one the
  caller is handed and the next requests of that agent are checked against.\<close>

theorem enrollment_takes_over_agent:
  assumes "rr_claims rq = None" "rr_enrollment_token rq \<noteq> []" "rc_has_store cfg" "rr_agent_id rq \<noteq> []"
    and "tbl_find tk_hash (rc_hash cfg (rr_enrollment_token rq)) (gdb_tokens db) = Some k"
    and "et_used_at (tk_token k) = None" "now \<le> et_expires_at (tk_token k)"
    and "tbl_find row_id (rr_agent_id rq) (gdb_agents db) = Some a"
    and "ag_tenant_id (gr_agent a) \<noteq> et_tenant_id (tk_token k)"
  shows "\<exists>db' a'. register_handler cfg no_faults now (Some (raw, enc)) rq db = (Registered raw, db') \<and>
     tbl_find row_id (rr_agent_id rq) (gdb_agents db') = Some a' \<and>
     ag_tenant_id (gr_agent a') = ag_tenant_id (gr_agent a) \<and> gr_secret_enc a' = enc"
proof -
  let ?i = "rr_agent_id rq" and ?t = "et_tenant_id (tk_token k)" and ?v = "''enrollment:'' @ et_id (tk_token k)"
  obtain dbm where m: "mark_used no_faults now (et_id (tk_token k)) ?i db = Inr dbm" "gdb_agents dbm = gdb_agents db"
    by (simp add: mark_used_def)
  have r: "resolve_registration_auth cfg no_faults now rq db = (Some (?t, ?v), dbm)"
    using assms(1-7) m(1) by (simp add: resolve_registration_auth_def find_by_raw_token_def)
  define ag where "ag = registered_agent now (if ?t = [] then ''default'' else ?t) rq"
  have ag: "ag_id ag = ?i" by (simp add: ag_def registered_agent_def)
  obtain db' where w: "register_with_secret no_faults now ag enc ?v dbm = Inr db'"
    by (simp add: register_with_secret_def)
  have "register_handler cfg no_faults now (Some (raw, enc)) rq db = (Registered raw, db')"
    using assms(4) r w by (simp add: register_handler_def ag_def)
  moreover from register_with_secret_find[OF w] assms(8) m(2) ag
  have "tbl_find row_id ?i (gdb_agents db') = Some (a\<lparr>gr_agent := refreshed ag (gr_agent a), gr_secret_enc := enc,
      gr_enrolled_via := ?v, gr_last_rotated_at := Some now\<rparr>)" by simp
  ultimately show ?thesis by simp
qed

theorem enrollment_takes_over_agent_witness:
  "\<exists>db' a'. register_handler sample_register_config no_faults 5 (Some (''s'', ''xs'')) sample_register
       (sample_agents\<lparr>gdb_tokens := [sample_token]\<rparr>) = (Registered ''s'', db') \<and>
     tbl_find row_id ''a1'' (gdb_agents db') = Some a' \<and>
     ag_tenant_id (gr_agent a') = ''t1'' \<and> et_tenant_id (tk_token sample_token) = ''t2'' \<and> gr_secret_enc a' = ''xs''"
  using enrollment_takes_over_agent[of sample_register sample_register_config "sample_agents\<lparr>gdb_tokens := [sample_token]\<rparr>"
      sample_token 5 "hd (gdb_agents sample_agents)" "''s''" "''xs''"]
  by (simp add: sample_register_defs row_id_def)

end
