(* ===== verification/Verification.thy ===== *)
theory Verification
  imports Float64 LogStore AgentStore IncidentStore
begin

text \<open>
  Closed-loop verification of a remediation: \<open>internal/services/verification_service.go\<close>,
  \<open>internal/store/verification_store.go\<close> and \<open>models/verification.go\<close>. Snapshots before and after an
  action, the checks, the proof items derived from their difference, and the record that decides
  whether the incident may be closed automatically. One operation reads the clock once. A record with
  a missing snapshot is stored as the empty object and read back as missing.
\<close>

section \<open>The data\<close>

record VerificationSnapshot =
  vs_captured_at :: string
  vs_error_rate :: gofloat
  vs_cpu :: gofloat
  vs_memory :: gofloat
  vs_active_alerts :: int
  vs_error_count :: int
  vs_latency :: gofloat
  vs_confidence :: int

record ProofItem =
  pi_type :: string
  pi_label :: string
  pi_value :: gofloat
  pi_threshold :: gofloat
  pi_unit :: string
  pi_status :: string
  pi_captured_at :: string

record VerificationCheck =
  vc_name :: string
  vc_type :: string
  vc_status :: string
  vc_detail :: string

record VerificationRecord =
  vr_id :: string
  vr_tenant_id :: string
  vr_incident_id :: string
  vr_execution_id :: string
  vr_strategy :: string
  vr_status :: string
  vr_checks :: "VerificationCheck list"
  vr_result :: string
  vr_before :: "VerificationSnapshot option"
  vr_after :: "VerificationSnapshot option"
  vr_confidence_before :: int
  vr_confidence_after :: int
  vr_proof_items :: "ProofItem list"
  vr_rollback_triggered :: bool
  vr_auto_close_eligible :: bool
  vr_verified_at :: "time option"
  vr_created_at :: time

text \<open>What the service reads: the incidents and, when they are wired in, the logs and the agents.\<close>

record verify_env =
  ve_incidents :: incident_db
  ve_logs :: "log_db option"
  ve_agents :: "agent_db option"
  ve_show_time :: "time \<Rightarrow> string"   \<comment> \<open>the layout \<open>time.RFC3339\<close>\<close>

type_synonym verification_db = "VerificationRecord list"

section \<open>The store\<close>

definition create_verification :: "faults \<Rightarrow> VerificationRecord \<Rightarrow> verification_db \<Rightarrow> verification_db result" where
  "create_verification flt v db = guard_db flt ''Verification.Create'' (tbl_insert vr_id v db)"

definition get_verification :: "faults \<Rightarrow> string \<Rightarrow> verification_db \<Rightarrow> VerificationRecord result" where
  "get_verification flt i db = guard_db flt ''Verification.GetByID''
     (case tbl_find vr_id i db of
        None \<Rightarrow> Inl (ErrMsg (''verification record not found: '' @ i)) | Some v \<Rightarrow> Inr v)"

definition verifications_of_incident :: "faults \<Rightarrow> string \<Rightarrow> verification_db \<Rightarrow> VerificationRecord list result" where
  "verifications_of_incident flt i db = guard_db flt ''Verification.GetByIncidentID''
     (Inr (order_desc vr_created_at (filter (\<lambda>v. vr_incident_id v = i) db)))"

definition update_verification :: "faults \<Rightarrow> VerificationRecord \<Rightarrow> verification_db \<Rightarrow> verification_db result" where
  "update_verification flt v db = guard_db flt ''Verification.Update''
     (Inr (tbl_update (\<lambda>r. vr_id r = vr_id v)
        (\<lambda>r. r\<lparr>vr_status := vr_status v, vr_checks := vr_checks v, vr_result := vr_result v,
               vr_before := vr_before v, vr_after := vr_after v,
               vr_confidence_before := vr_confidence_before v, vr_confidence_after := vr_confidence_after v,
               vr_proof_items := vr_proof_items v, vr_rollback_triggered := vr_rollback_triggered v,
               vr_auto_close_eligible := vr_auto_close_eligible v, vr_verified_at := vr_verified_at v\<rparr>) db))"

definition count_recent_verifications :: "faults \<Rightarrow> string \<Rightarrow> time \<Rightarrow> verification_db \<Rightarrow> nat result" where
  "count_recent_verifications flt i since db = guard_db flt ''Verification.CountRecentByIncident''
     (Inr (length (filter (\<lambda>v. vr_incident_id v = i \<and> since \<le> vr_created_at v) db)))"

section \<open>Snapshots\<close>

definition num_or_zero :: "json_obj \<Rightarrow> string \<Rightarrow> gofloat" where
  "num_or_zero m k = (case map_of m k of Some (JNum x) \<Rightarrow> Fin x | _ \<Rightarrow> Fin 0)"

text \<open>The newest \<open>cpu_memory\<close> metric of the agent seen last: \<open>None\<close> when there is no agent, \<open>Some None\<close>
  when the agent has none.\<close>

definition latest_metric :: "faults \<Rightarrow> verify_env \<Rightarrow> agent_db \<Rightarrow> string \<Rightarrow> json_obj option option" where
  "latest_metric flt env agents tenant =
    (case get_agents flt tenant 500 0 agents of
       Inl _ \<Rightarrow> None
     | Inr [] \<Rightarrow> None
     | Inr (a # _) \<Rightarrow> Some (case get_recent_metrics (ve_show_time env) flt (ag_id a) ''cpu_memory'' 1 agents of
          Inl _ \<Rightarrow> None | Inr [] \<Rightarrow> None | Inr (m # _) \<Rightarrow> Some m))"

definition error_query :: "Incident \<Rightarrow> time \<Rightarrow> int \<Rightarrow> LogQuery" where
  "error_query inc since limit = \<lparr>lq_tenant_id = inc_tenant_id inc, lq_agent_id = [], lq_host_ip = [],
     lq_category = ''error'', lq_tag = [], lq_search = inc_service inc, lq_from = Some since, lq_to = None,
     lq_limit = limit, lq_offset = 0\<rparr>"

definition capture_snapshot :: "faults \<Rightarrow> verify_env \<Rightarrow> Incident \<Rightarrow> time \<Rightarrow> VerificationSnapshot" where
  "capture_snapshot flt env inc t =
    (let errors = (case ve_logs env of None \<Rightarrow> 0
           | Some logs \<Rightarrow> (case query_logs flt (error_query inc (t - 5 * minute) 100) logs of
               Inl _ \<Rightarrow> 0 | Inr resp \<Rightarrow> int (lr_total resp)));
         m = (case ve_agents env of None \<Rightarrow> []
           | Some agents \<Rightarrow> (case latest_metric flt env agents (inc_tenant_id inc) of
               Some (Some m) \<Rightarrow> m | _ \<Rightarrow> []))
     in \<lparr>vs_captured_at = ve_show_time env t,
         vs_error_rate = (if 0 < errors then float_div (float_of_int errors) (Fin 5) else Fin 0),
         vs_cpu = num_or_zero m ''cpu_percent'', vs_memory = num_or_zero m ''memory_percent'',
         vs_active_alerts = 0, vs_error_count = errors, vs_latency = num_or_zero m ''latency_ms_p99'',
         vs_confidence = inc_confidence inc\<rparr>)"

section \<open>Checks\<close>

definition check_of :: "string \<Rightarrow> string \<Rightarrow> string \<Rightarrow> string \<Rightarrow> VerificationCheck" where
  "check_of name ty status detail = \<lparr>vc_name = name, vc_type = ty, vc_status = status, vc_detail = detail\<rparr>"

definition check_no_new_errors :: "faults \<Rightarrow> verify_env \<Rightarrow> time \<Rightarrow> Incident \<Rightarrow> VerificationCheck" where
  "check_no_new_errors flt env now inc =
    check_of ''no_new_errors'' ''no_new_errors''
      (case ve_logs env of None \<Rightarrow> ''skipped''
       | Some logs \<Rightarrow> (case query_logs flt (error_query inc (now - 5 * minute) 1) logs of
           Inl _ \<Rightarrow> ''skipped''
         | Inr resp \<Rightarrow> if lr_total resp = 0 then ''passed'' else ''failed''))
      (case ve_logs env of None \<Rightarrow> ''log store not available''
       | Some logs \<Rightarrow> (case query_logs flt (error_query inc (now - 5 * minute) 1) logs of
           Inl _ \<Rightarrow> ''query error''
         | Inr resp \<Rightarrow> if lr_total resp = 0 then ''No new error logs in the last 5 minutes''
             else show_nat (lr_total resp) @ '' error log(s) found in the last 5 minutes''))"

definition show_float1 :: "gofloat \<Rightarrow> string" where
  "show_float1 f = (case f of Fin x \<Rightarrow> show_fixed1 x | Inf neg \<Rightarrow> (if neg then ''-Inf'' else ''+Inf'') | NaN \<Rightarrow> ''NaN'')"

definition usage_text :: "gofloat \<Rightarrow> gofloat \<Rightarrow> string" where
  "usage_text cpu mem = ''CPU: '' @ show_float1 cpu @ ''%, Memory: '' @ show_float1 mem @ ''%''"

definition check_metric_stable :: "faults \<Rightarrow> verify_env \<Rightarrow> Incident \<Rightarrow> VerificationCheck" where
  "check_metric_stable flt env inc =
    (let mk = check_of ''metric_stable'' ''metric_below_threshold'' in
     case ve_agents env of None \<Rightarrow> mk ''skipped'' ''agent store not available''
     | Some agents \<Rightarrow> (case latest_metric flt env agents (inc_tenant_id inc) of
         None \<Rightarrow> mk ''skipped'' ''no agents found for tenant''
       | Some None \<Rightarrow> mk ''skipped'' ''no recent metrics available''
       | Some (Some m) \<Rightarrow>
          (let cpu = num_or_zero m ''cpu_percent''; mem = num_or_zero m ''memory_percent'' in
           if float_less cpu (Fin 85) \<and> float_less mem (Fin 90)
           then mk ''passed'' (usage_text cpu mem @ ('' '' @ [CHR 0xE2, CHR 0x80, CHR 0x94] @ '' within thresholds''))
           else mk ''failed'' (usage_text cpu mem @ ('' '' @ [CHR 0xE2, CHR 0x80, CHR 0x94] @ '' exceeds thresholds (CPU<85%, Mem<90%)'')))))"

definition check_incident_age :: "time \<Rightarrow> Incident \<Rightarrow> VerificationCheck" where
  "check_incident_age now inc =
    (let mk = check_of ''incident_age'' ''service_healthy''; d = now - inc_last_event_time inc in
     if inc_last_event_time inc = zero_time then mk ''skipped'' ''unable to determine incident age''
     else if 30 * minute < d
     then mk ''passed'' (''No new events for '' @ show_int (whole_units minute d) @ ('' minutes '' @ [CHR 0xE2, CHR 0x80, CHR 0x94] @ '' incident likely resolved''))
     else mk ''failed'' (''Last event was '' @ show_int (whole_units minute d) @ ('' minutes ago '' @ [CHR 0xE2, CHR 0x80, CHR 0x94] @ '' still within active window'')))"

definition check_confidence_improved :: "VerificationSnapshot \<Rightarrow> VerificationSnapshot \<Rightarrow> VerificationCheck" where
  "check_confidence_improved b a =
    (let delta = vs_confidence a - vs_confidence b; mk = check_of ''confidence_improved'' ''confidence_delta'';
         span = show_int (vs_confidence b) @ ('' '' @ [CHR 0xE2, CHR 0x86, CHR 0x92] @ '' '') @ show_int (vs_confidence a) in
     if 10 \<le> delta then mk ''passed'' (''Confidence improved by '' @ show_int delta @ '' pts ('' @ span @ '')'')
     else if 0 \<le> delta
     then mk ''passed'' (''Confidence stable at '' @ show_int (vs_confidence a) @ '' (delta: +'' @ show_int delta @ '')'')
     else mk ''failed'' (''Confidence dropped by '' @ show_int (- delta) @ '' pts ('' @ span @
            ('') '' @ [CHR 0xE2, CHR 0x80, CHR 0x94] @ '' action may have degraded the system'')))"

section \<open>Proof items\<close>

text \<open>The constant \<open>threshold\<close> is converted to \<open>float64\<close> before the comparison.\<close>

definition proof_threshold :: gofloat where "proof_threshold = round64 (1 / 20)"
definition neg_threshold :: gofloat where "neg_threshold = round64 (- 1 / 20)"

definition proof_status :: "gofloat \<Rightarrow> gofloat \<Rightarrow> bool \<Rightarrow> string" where
  "proof_status b a lower =
    (if b = Fin 0 \<and> a = Fin 0 then ''neutral''
     else let base = (if b = Fin 0 then a else b);
              d = float_div (float_sub a b) base
          in if lower \<and> float_less d neg_threshold then ''improved''
             else if \<not> lower \<and> float_less proof_threshold d then ''improved''
             else if lower \<and> float_less proof_threshold d then ''degraded''
             else if \<not> lower \<and> float_less d neg_threshold then ''degraded''
             else ''neutral'')"

definition metric_proof :: "string \<Rightarrow> string \<Rightarrow> string \<Rightarrow> string \<Rightarrow> gofloat \<Rightarrow> gofloat \<Rightarrow> ProofItem list" where
  "metric_proof ty label unit taken b a =
    (if float_less (Fin 0) b \<or> float_less (Fin 0) a
     then [\<lparr>pi_type = ty, pi_label = label, pi_value = a, pi_threshold = b, pi_unit = unit,
            pi_status = proof_status b a True, pi_captured_at = taken\<rparr>] else [])"

definition derive_proof_items :: "VerificationSnapshot option \<Rightarrow> VerificationSnapshot \<Rightarrow> ProofItem list" where
  "derive_proof_items bsnap a =
    (case bsnap of None \<Rightarrow> []
     | Some b \<Rightarrow>
        metric_proof ''metric_drop'' ''Error rate'' ''errors/min'' (vs_captured_at a) (vs_error_rate b) (vs_error_rate a) @
        metric_proof ''metric_drop'' ''CPU utilization'' ''%'' (vs_captured_at a) (vs_cpu b) (vs_cpu a) @
        metric_proof ''metric_drop'' ''Memory utilization'' ''%'' (vs_captured_at a) (vs_memory b) (vs_memory a) @
        metric_proof ''latency_drop'' ''Latency p99'' ''ms'' (vs_captured_at a) (vs_latency b) (vs_latency a) @
        (if 0 < vs_error_count b \<and> vs_error_count a = 0
         then [\<lparr>pi_type = ''error_clear'', pi_label = ''Error logs cleared'', pi_value = Fin 0,
                pi_threshold = float_of_int (vs_error_count b), pi_unit = ''errors'', pi_status = ''improved'',
                pi_captured_at = vs_captured_at a\<rparr>] else []))"

definition has_improved :: "ProofItem list \<Rightarrow> bool" where
  "has_improved items \<longleftrightarrow> (\<exists>p \<in> set items. pi_status p = ''improved'')"

section \<open>The operations\<close>

definition count_passed :: "VerificationCheck list \<Rightarrow> nat" where
  "count_passed cs = length (filter (\<lambda>c. vc_status c = ''passed'') cs)"

definition resolve_status :: "nat \<Rightarrow> nat \<Rightarrow> string \<times> string" where
  "resolve_status passed of_all =
    (if passed = of_all then (''resolved'', ''passed'')
     else if 0 < passed then (''partially_resolved'', ''passed'')
     else (''not_resolved'', ''failed''))"

definition verification_id :: "time \<Rightarrow> string" where "verification_id now = ''vr-'' @ show_int now"

definition not_found :: "string \<Rightarrow> go_error" where "not_found i = ErrMsg (''incident not found: '' @ i)"

definition start_verification ::
    "faults \<Rightarrow> verify_env \<Rightarrow> time \<Rightarrow> string \<Rightarrow> string \<Rightarrow> verification_db \<Rightarrow>
     (VerificationRecord \<times> verification_db) result" where
  "start_verification flt env now incidentID executionID db =
    (case get_incident flt incidentID (ve_incidents env) of
       None \<Rightarrow> Inl (not_found incidentID)
     | Some inc \<Rightarrow>
        (let snap = capture_snapshot (at_site ''before'' flt) env inc now;
             r = \<lparr>vr_id = verification_id now, vr_tenant_id = inc_tenant_id inc, vr_incident_id = incidentID,
                  vr_execution_id = executionID, vr_strategy = ''closed_loop'', vr_status = ''pending'',
                  vr_checks = [], vr_result = ''pending'', vr_before = Some snap, vr_after = None,
                  vr_confidence_before = vs_confidence snap, vr_confidence_after = 0, vr_proof_items = [],
                  vr_rollback_triggered = False, vr_auto_close_eligible = False, vr_verified_at = None,
                  vr_created_at = now\<rparr>
         in case create_verification flt r db of Inl e \<Rightarrow> Inl e | Inr db' \<Rightarrow> Inr (r, db')))"

text \<open>The record \<open>CompleteVerification\<close> computes from the stored one.\<close>

definition completed_checks ::
    "faults \<Rightarrow> verify_env \<Rightarrow> time \<Rightarrow> Incident \<Rightarrow> VerificationSnapshot option \<Rightarrow> VerificationSnapshot \<Rightarrow>
     VerificationCheck list" where
  "completed_checks flt env now inc bsnap snap =
    [check_no_new_errors (at_site ''check'' flt) env now inc, check_metric_stable (at_site ''check'' flt) env inc,
     check_incident_age now inc] @
    (case bsnap of None \<Rightarrow> [] | Some b \<Rightarrow> [check_confidence_improved b snap])"

definition completed_record ::
    "faults \<Rightarrow> verify_env \<Rightarrow> time \<Rightarrow> Incident \<Rightarrow> VerificationRecord \<Rightarrow> VerificationRecord" where
  "completed_record flt env now inc r =
    (let snap = capture_snapshot (at_site ''after'' flt) env inc now;
         checks = completed_checks flt env now inc (vr_before r) snap;
         items = vr_proof_items r @ derive_proof_items (vr_before r) snap;
         outcome = resolve_status (count_passed checks) (length checks);
         drop = vr_confidence_before r - vs_confidence snap
     in r\<lparr>vr_after := Some snap, vr_confidence_after := vs_confidence snap, vr_checks := checks,
          vr_proof_items := items, vr_result := fst outcome, vr_status := snd outcome,
          vr_rollback_triggered := (vr_before r \<noteq> None \<and> 20 \<le> drop) \<or> vr_rollback_triggered r,
          vr_auto_close_eligible := (fst outcome = ''resolved'' \<and> has_improved items),
          vr_verified_at := Some now\<rparr>)"

definition complete_verification ::
    "faults \<Rightarrow> verify_env \<Rightarrow> time \<Rightarrow> string \<Rightarrow> verification_db \<Rightarrow> VerificationRecord result \<times> verification_db" where
  "complete_verification flt env now vrID db =
    (case get_verification flt vrID db of
       Inl e \<Rightarrow> (Inl e, db)
     | Inr r \<Rightarrow>
        (case get_incident flt (vr_incident_id r) (ve_incidents env) of
           None \<Rightarrow> (Inl (not_found (vr_incident_id r)), db)
         | Some inc \<Rightarrow>
            (let r' = completed_record flt env now inc r in
             (Inr r', case update_verification flt r' db of Inl _ \<Rightarrow> db | Inr db' \<Rightarrow> db'))))"

definition trigger_rollback ::
    "faults \<Rightarrow> time \<Rightarrow> string \<Rightarrow> verification_db \<Rightarrow> (VerificationRecord \<times> verification_db) result" where
  "trigger_rollback flt now vrID db =
    (case get_verification flt vrID db of
       Inl e \<Rightarrow> Inl e
     | Inr r \<Rightarrow>
        (let r' = r\<lparr>vr_rollback_triggered := True, vr_result := ''rolled_back'', vr_status := ''failed'',
                    vr_verified_at := Some now\<rparr>
         in case update_verification flt r' db of Inl e \<Rightarrow> Inl e | Inr db' \<Rightarrow> Inr (r', db')))"

definition attach_proof ::
    "faults \<Rightarrow> verify_env \<Rightarrow> time \<Rightarrow> string \<Rightarrow> ProofItem \<Rightarrow> verification_db \<Rightarrow>
     (VerificationRecord \<times> verification_db) result" where
  "attach_proof flt env now vrID item db =
    (case get_verification flt vrID db of
       Inl e \<Rightarrow> Inl e
     | Inr r \<Rightarrow>
        (let it = (if pi_captured_at item = [] then item\<lparr>pi_captured_at := ve_show_time env now\<rparr> else item);
             items = vr_proof_items r @ [it];
             r' = r\<lparr>vr_proof_items := items,
                    vr_auto_close_eligible := (vr_result r = ''resolved'' \<and> has_improved items)\<rparr>
         in case update_verification flt r' db of Inl e \<Rightarrow> Inl e | Inr db' \<Rightarrow> Inr (r', db')))"

text \<open>The one-shot forms take both snapshots now, the first with the logs of ten to zero minutes ago
  and the same newest metric.\<close>

definition one_shot ::
    "string \<Rightarrow> (VerificationSnapshot \<Rightarrow> VerificationSnapshot \<Rightarrow> VerificationCheck list) \<Rightarrow> faults \<Rightarrow> verify_env \<Rightarrow> time \<Rightarrow>
     Incident \<Rightarrow> string \<Rightarrow> string \<Rightarrow> VerificationRecord" where
  "one_shot strategy checks_of flt env now inc incidentID executionID =
    (let b = capture_snapshot (at_site ''before'' flt) env inc (now - 5 * minute);
         a = capture_snapshot (at_site ''after'' flt) env inc now;
         checks = checks_of b a;
         outcome = resolve_status (count_passed checks) (length checks)
     in \<lparr>vr_id = verification_id now, vr_tenant_id = inc_tenant_id inc, vr_incident_id = incidentID,
         vr_execution_id = executionID, vr_strategy = strategy, vr_status = snd outcome, vr_checks = checks,
         vr_result = fst outcome, vr_before = Some b, vr_after = Some a, vr_confidence_before = vs_confidence b,
         vr_confidence_after = vs_confidence a, vr_proof_items = derive_proof_items (Some b) a,
         vr_rollback_triggered = False, vr_auto_close_eligible = False, vr_verified_at = Some now, vr_created_at = now\<rparr>)"

definition verify_incident ::
    "faults \<Rightarrow> verify_env \<Rightarrow> time \<Rightarrow> string \<Rightarrow> verification_db \<Rightarrow> VerificationRecord result \<times> verification_db" where
  "verify_incident flt env now incidentID db =
    (case get_incident flt incidentID (ve_incidents env) of
       None \<Rightarrow> (Inl (not_found incidentID), db)
     | Some inc \<Rightarrow>
        (let checks = (\<lambda>b a. [check_no_new_errors (at_site ''check'' flt) env now inc,
               check_metric_stable (at_site ''check'' flt) env inc, check_incident_age now inc,
               check_confidence_improved b a]);
             r = one_shot ''composite'' checks flt env now inc incidentID [];
             r' = r\<lparr>vr_auto_close_eligible := (vr_result r = ''resolved'' \<and> has_improved (vr_proof_items r))\<rparr>
         in (Inr r', case create_verification flt r' db of Inl _ \<Rightarrow> db | Inr db' \<Rightarrow> db')))"

definition verify_action ::
    "faults \<Rightarrow> verify_env \<Rightarrow> time \<Rightarrow> string \<Rightarrow> string \<Rightarrow> verification_db \<Rightarrow> VerificationRecord result \<times> verification_db" where
  "verify_action flt env now incidentID executionID db =
    (case get_incident flt incidentID (ve_incidents env) of
       None \<Rightarrow> (Inl (not_found incidentID), db)
     | Some inc \<Rightarrow>
        (let checks = (\<lambda>b a. [check_no_new_errors (at_site ''check'' flt) env now inc,
               check_metric_stable (at_site ''check'' flt) env inc, check_confidence_improved b a]);
             r = one_shot ''action_verify'' checks flt env now inc incidentID executionID
         in (Inr r, case create_verification flt r db of Inl _ \<Rightarrow> db | Inr db' \<Rightarrow> db')))"

definition summarize_result :: "string \<Rightarrow> string" where
  "summarize_result r =
    (if to_lower r = ''resolved'' then ''Resolved''
     else if to_lower r = ''partially_resolved'' then ''Partially resolved''
     else if to_lower r = ''rolled_back'' then ''Rolled back'' else ''Not resolved'')"

section \<open>Lemmas\<close>

lemma resolve_status_resolved: "fst (resolve_status p t) = ''resolved'' \<longleftrightarrow> p = t"
  by (simp add: resolve_status_def)

lemma count_passed_all: "count_passed cs = length cs \<longleftrightarrow> (\<forall>c \<in> set cs. vc_status c = ''passed'')"
proof
  assume all: "count_passed cs = length cs"
  have "vc_status c = ''passed''" if "c \<in> set cs" for c
  proof (rule ccontr)
    assume "vc_status c \<noteq> ''passed''"
    with that have "count_passed cs < length cs"
      using length_filter_less[of c cs "\<lambda>c. vc_status c = ''passed''"] by (simp add: count_passed_def)
    with all show False by simp
  qed
  then show "\<forall>c \<in> set cs. vc_status c = ''passed''" by blast
qed (simp add: count_passed_def)

lemma status_check_of [simp]: "vc_status (check_of name ty status detail) = status"
  by (simp add: check_of_def)

lemma no_new_errors_passed:
  "vc_status (check_no_new_errors flt env now inc) = ''passed'' \<longleftrightarrow>
   (\<exists>logs. ve_logs env = Some logs \<and> \<not> flt ''Log.Count'' \<and> \<not> flt ''Log.Query'' \<and>
      (\<forall>e \<in> set (ldb_rows logs). \<not> log_where (error_query inc (now - 5 * minute) 1) e))"
  by (auto simp: check_no_new_errors_def query_logs_def Let_def filter_empty_conv split: option.splits)

lemma metric_stable_passed:
  "vc_status (check_metric_stable flt env inc) = ''passed'' \<longleftrightarrow>
   (\<exists>agents m. ve_agents env = Some agents \<and> latest_metric flt env agents (inc_tenant_id inc) = Some (Some m) \<and>
      float_less (num_or_zero m ''cpu_percent'') (Fin 85) \<and> float_less (num_or_zero m ''memory_percent'') (Fin 90))"
  by (auto simp: check_metric_stable_def Let_def split: option.splits)

lemma incident_age_passed:
  "vc_status (check_incident_age now inc) = ''passed'' \<longleftrightarrow>
   inc_last_event_time inc \<noteq> zero_time \<and> 30 * minute < now - inc_last_event_time inc"
  by (simp add: check_incident_age_def Let_def)

lemma confidence_passed:
  "vc_status (check_confidence_improved b a) = ''passed'' \<longleftrightarrow> vs_confidence b \<le> vs_confidence a"
  by (simp add: check_confidence_improved_def Let_def)

lemma snapshot_confidence [simp]: "vs_confidence (capture_snapshot flt env inc t) = inc_confidence inc"
  by (simp add: capture_snapshot_def Let_def)

lemma completed_record_simps:
  fixes r env inc
  defines "snap flt now \<equiv> capture_snapshot (at_site ''after'' flt) env inc now"
  shows "vr_id (completed_record flt env now inc r) = vr_id r"
    "vr_incident_id (completed_record flt env now inc r) = vr_incident_id r"
    "vr_before (completed_record flt env now inc r) = vr_before r"
    "vr_confidence_before (completed_record flt env now inc r) = vr_confidence_before r"
    "vr_checks (completed_record flt env now inc r) = completed_checks flt env now inc (vr_before r) (snap flt now)"
    "vr_proof_items (completed_record flt env now inc r) =
       vr_proof_items r @ derive_proof_items (vr_before r) (snap flt now)"
    "vr_result (completed_record flt env now inc r) =
       fst (resolve_status (count_passed (completed_checks flt env now inc (vr_before r) (snap flt now)))
              (length (completed_checks flt env now inc (vr_before r) (snap flt now))))"
    "vr_rollback_triggered (completed_record flt env now inc r) \<longleftrightarrow>
       (vr_before r \<noteq> None \<and> 20 \<le> vr_confidence_before r - inc_confidence inc) \<or> vr_rollback_triggered r"
    "vr_auto_close_eligible (completed_record flt env now inc r) \<longleftrightarrow>
       vr_result (completed_record flt env now inc r) = ''resolved'' \<and>
       has_improved (vr_proof_items (completed_record flt env now inc r))"
  by (simp_all add: completed_record_def snap_def Let_def)

lemma complete_verification_Inr:
  assumes "complete_verification flt env now i db = (Inr r, db')"
  obtains old inc where "tbl_find vr_id i db = Some old" "get_incident flt (vr_incident_id old) (ve_incidents env) = Some inc"
    "r = completed_record flt env now inc old"
    "db' = (case update_verification flt r db of Inl _ \<Rightarrow> db | Inr x \<Rightarrow> x)"
  using assms by (auto simp: complete_verification_def get_verification_def Let_def guard_db_def split: sum.splits option.splits if_splits)

text \<open>What holds of every record the service stores.\<close>

definition record_ok :: "VerificationRecord \<Rightarrow> bool" where
  "record_ok r \<longleftrightarrow>
     (\<forall>b. vr_before r = Some b \<longrightarrow> vr_confidence_before r = vs_confidence b) \<and>
     (vr_result r = ''resolved'' \<longrightarrow> (\<forall>c \<in> set (vr_checks r). vc_status c = ''passed'')) \<and>
     (vr_auto_close_eligible r \<longrightarrow> has_improved (vr_proof_items r) \<and>
        (vr_result r = ''resolved'' \<or> vr_result r = ''rolled_back'' \<and> vr_rollback_triggered r))"

definition records_ok :: "verification_db \<Rightarrow> bool" where
  "records_ok db \<longleftrightarrow> pk vr_id db \<and> (\<forall>r \<in> set db. record_ok r)"

lemma create_ok [preserve]:
  "create_verification flt r db = Inr db' \<Longrightarrow> record_ok r \<Longrightarrow> records_ok db \<Longrightarrow> records_ok db'"
  by (auto simp: create_verification_def records_ok_def tbl_insert_Inr pk_def tbl_has_def)

lemma update_ok [preserve]:
  assumes "update_verification flt r db = Inr db'" and "record_ok r" and "records_ok db"
  shows "records_ok db'"
proof -
  have "record_ok (x\<lparr>vr_status := vr_status r, vr_checks := vr_checks r, vr_result := vr_result r,
      vr_before := vr_before r, vr_after := vr_after r, vr_confidence_before := vr_confidence_before r,
      vr_confidence_after := vr_confidence_after r, vr_proof_items := vr_proof_items r,
      vr_rollback_triggered := vr_rollback_triggered r, vr_auto_close_eligible := vr_auto_close_eligible r,
      vr_verified_at := vr_verified_at r\<rparr>)" for x
    using assms(2) by (simp add: record_ok_def)
  moreover have "pk vr_id db'" using assms by (auto simp: update_verification_def records_ok_def intro: pk_update)
  ultimately show ?thesis using assms(1,3) by (auto simp: update_verification_def records_ok_def tbl_update_def)
qed

lemma get_ok: "get_verification flt i db = Inr r \<Longrightarrow> records_ok db \<Longrightarrow> record_ok r"
  by (auto simp: get_verification_def records_ok_def split: option.splits dest: tbl_find_Some)

lemma completed_ok: "record_ok r \<Longrightarrow> record_ok (completed_record flt env now inc r)"
  by (simp add: record_ok_def completed_record_simps resolve_status_resolved count_passed_all)

inductive verification_run :: "verification_db \<Rightarrow> verification_db \<Rightarrow> bool" where
  init: "verification_run db db"
| started: "verification_run db db1 \<Longrightarrow> start_verification flt env now i x db1 = Inr (r, db2) \<Longrightarrow> verification_run db db2"
| completed: "verification_run db db1 \<Longrightarrow> complete_verification flt env now i db1 = (out, db2) \<Longrightarrow> verification_run db db2"
| rolled: "verification_run db db1 \<Longrightarrow> trigger_rollback flt now i db1 = Inr (r, db2) \<Longrightarrow> verification_run db db2"
| attached: "verification_run db db1 \<Longrightarrow> attach_proof flt env now i item db1 = Inr (r, db2) \<Longrightarrow> verification_run db db2"
| incident: "verification_run db db1 \<Longrightarrow> verify_incident flt env now i db1 = (out, db2) \<Longrightarrow> verification_run db db2"
| action: "verification_run db db1 \<Longrightarrow> verify_action flt env now i x db1 = (out, db2) \<Longrightarrow> verification_run db db2"

lemma start_ok [preserve]:
  "start_verification flt env now i x db = Inr (r, db') \<Longrightarrow> records_ok db \<Longrightarrow> records_ok db'"
  by (auto simp: start_verification_def Let_def record_ok_def split: option.splits sum.splits elim!: create_ok)

lemma complete_ok [preserve]:
  "complete_verification flt env now i db = (out, db') \<Longrightarrow> records_ok db \<Longrightarrow> records_ok db'"
  by (auto simp: complete_verification_def Let_def split: sum.splits option.splits
      elim!: update_ok intro!: completed_ok dest: get_ok)

lemma rollback_ok [preserve]:
  "trigger_rollback flt now i db = Inr (r, db') \<Longrightarrow> records_ok db \<Longrightarrow> records_ok db'"
  by (auto simp: trigger_rollback_def Let_def record_ok_def split: sum.splits elim!: update_ok dest!: get_ok)

lemma attach_ok [preserve]:
  "attach_proof flt env now i item db = Inr (r, db') \<Longrightarrow> records_ok db \<Longrightarrow> records_ok db'"
  by (auto simp: attach_proof_def Let_def record_ok_def split: sum.splits elim!: update_ok dest!: get_ok)

lemma one_shot_simps:
  fixes b a
  defines "b flt env inc now \<equiv> capture_snapshot (at_site ''before'' flt) env inc (now - 5 * minute)"
    and "a flt env inc now \<equiv> capture_snapshot (at_site ''after'' flt) env inc now"
  shows "vr_before (one_shot s c flt env now inc i x) = Some (b flt env inc now)"
    "vr_confidence_before (one_shot s c flt env now inc i x) = vs_confidence (b flt env inc now)"
    "vr_checks (one_shot s c flt env now inc i x) = c (b flt env inc now) (a flt env inc now)"
    "vr_result (one_shot s c flt env now inc i x) =
       fst (resolve_status (count_passed (c (b flt env inc now) (a flt env inc now)))
              (length (c (b flt env inc now) (a flt env inc now))))"
    "\<not> vr_auto_close_eligible (one_shot s c flt env now inc i x)"
  by (simp_all add: one_shot_def b_def a_def Let_def)

lemma one_shot_ok: "record_ok (one_shot s c flt env now inc i x)"
  by (simp add: record_ok_def one_shot_simps resolve_status_resolved count_passed_all)

lemma one_shot_eligible_ok: "record_ok ((one_shot s c flt env now inc i x)\<lparr>vr_auto_close_eligible :=
    (vr_result (one_shot s c flt env now inc i x) = ''resolved'' \<and>
     has_improved (vr_proof_items (one_shot s c flt env now inc i x)))\<rparr>)"
  using one_shot_ok[of s c flt env now inc i x] by (simp add: record_ok_def)

lemma verify_incident_ok [preserve]:
  "verify_incident flt env now i db = (out, db') \<Longrightarrow> records_ok db \<Longrightarrow> records_ok db'"
  by (auto simp: verify_incident_def Let_def split: option.splits sum.splits elim!: create_ok intro!: one_shot_eligible_ok)

lemma verify_action_ok [preserve]:
  "verify_action flt env now i x db = (out, db') \<Longrightarrow> records_ok db \<Longrightarrow> records_ok db'"
  by (auto simp: verify_action_def Let_def split: option.splits sum.splits elim!: create_ok intro!: one_shot_ok)

lemma verification_run_ok: "verification_run db db' \<Longrightarrow> records_ok db \<Longrightarrow> records_ok db'"
  by (induction rule: verification_run.induct)
    (auto intro: start_ok complete_ok rollback_ok attach_ok verify_incident_ok verify_action_ok)

lemma eligible_evidence:
  assumes "complete_verification flt env now i db = (Inr r, db')" and "vr_auto_close_eligible r"
  shows "\<exists>inc logs agents m. get_incident flt (vr_incident_id r) (ve_incidents env) = Some inc \<and>
     ve_logs env = Some logs \<and> (\<forall>e \<in> set (ldb_rows logs). \<not> log_where (error_query inc (now - 5 * minute) 1) e) \<and>
     ve_agents env = Some agents \<and>
     latest_metric (at_site ''check'' flt) env agents (inc_tenant_id inc) = Some (Some m) \<and>
     float_less (num_or_zero m ''cpu_percent'') (Fin 85) \<and> float_less (num_or_zero m ''memory_percent'') (Fin 90) \<and>
     30 * minute < now - inc_last_event_time inc \<and>
     (\<forall>b. vr_before r = Some b \<longrightarrow> vs_confidence b \<le> inc_confidence inc) \<and> has_improved (vr_proof_items r)"
proof -
  obtain old inc where old: "get_incident flt (vr_incident_id old) (ve_incidents env) = Some inc"
      "r = completed_record flt env now inc old"
    using assms(1) by (rule complete_verification_Inr)
  define checks where "checks = completed_checks flt env now inc (vr_before old)
      (capture_snapshot (at_site ''after'' flt) env inc now)"
  have "\<forall>c \<in> set checks. vc_status c = ''passed''" and imp: "has_improved (vr_proof_items r)"
    using assms(2) by (simp_all add: old(2) completed_record_simps resolve_status_resolved count_passed_all checks_def)
  then have "vc_status (check_no_new_errors (at_site ''check'' flt) env now inc) = ''passed''"
      "vc_status (check_metric_stable (at_site ''check'' flt) env inc) = ''passed''"
      "vc_status (check_incident_age now inc) = ''passed''"
      "\<forall>b. vr_before old = Some b \<longrightarrow> vs_confidence b \<le> inc_confidence inc"
    by (auto simp: checks_def completed_checks_def confidence_passed)
  with old(1) imp show ?thesis
    unfolding no_new_errors_passed metric_stable_passed incident_age_passed
    by (auto simp: old(2) completed_record_simps)
qed

section \<open>Properties\<close>

text \<open>What stands behind a completed verification that allows the automatic close. The logs were
  searched and hold no error of the service in the last five minutes; the newest metric of the
  tenant's agent is below both thresholds; the last event is more than thirty minutes old; the
  confidence has not dropped since the first snapshot; and at least one proof item says improved.
  Missing stores, failed queries and skipped checks never lead here.\<close>

theorem auto_close_evidence:
  assumes "complete_verification flt env now i db = (Inr r, db')" and "vr_auto_close_eligible r"
  shows "\<exists>inc logs agents m. get_incident flt (vr_incident_id r) (ve_incidents env) = Some inc \<and>
     ve_logs env = Some logs \<and> (\<forall>e \<in> set (ldb_rows logs). \<not> log_where (error_query inc (now - 5 * minute) 1) e) \<and>
     ve_agents env = Some agents \<and>
     latest_metric (at_site ''check'' flt) env agents (inc_tenant_id inc) = Some (Some m) \<and>
     float_less (num_or_zero m ''cpu_percent'') (Fin 85) \<and> float_less (num_or_zero m ''memory_percent'') (Fin 90) \<and>
     30 * minute < now - inc_last_event_time inc \<and>
     (\<forall>b. vr_before r = Some b \<longrightarrow> vs_confidence b \<le> inc_confidence inc) \<and> has_improved (vr_proof_items r)"
  by (rule eligible_evidence[OF assms])

definition sample_incident :: Incident where
  "sample_incident = incident_zero\<lparr>inc_id := ''i1'', inc_service := ''api'', inc_tenant_id := ''t1'', inc_last_event_time := 0,
     inc_confidence := 60\<rparr>"

definition sample_metric_agents :: agent_db where
  "sample_metric_agents = \<lparr>gdb_agents = [\<lparr>gr_agent = \<lparr>ag_id = ''a1'', ag_tenant_id = ''t1'', ag_name = [],
       ag_host_ip = ''10.0.0.1'', ag_os_type = [], ag_version = [], ag_status = ''active'', ag_last_seen_at = 0,
       ag_registered_at = 0, ag_metadata = []\<rparr>, gr_secret_enc = [], gr_enrolled_via = [], gr_last_rotated_at = None\<rparr>],
     gdb_metrics = [\<lparr>am_agent_id = ''a1'', am_metric_type = ''cpu_memory'', am_timestamp = 0,
       am_data = [(''cpu_percent'', JNum 40), (''memory_percent'', JNum 50)]\<rparr>], gdb_tokens = []\<rparr>"

definition sample_env :: verify_env where
  "sample_env = \<lparr>ve_incidents = \<lparr>db_rows = [sample_incident], db_links = [], db_slack = []\<rparr>, ve_logs = Some empty_log_db,
     ve_agents = Some sample_metric_agents, ve_show_time = show_int\<rparr>"

definition sample_item :: ProofItem where
  "sample_item = \<lparr>pi_type = ''manual'', pi_label = [], pi_value = Fin 0, pi_threshold = Fin 0, pi_unit = [],
     pi_status = ''improved'', pi_captured_at = ''now''\<rparr>"

definition sample_record :: VerificationRecord where
  "sample_record = \<lparr>vr_id = ''vr-0'', vr_tenant_id = ''t1'', vr_incident_id = ''i1'', vr_execution_id = [],
     vr_strategy = ''closed_loop'', vr_status = ''pending'', vr_checks = [], vr_result = ''pending'',
     vr_before = Some (capture_snapshot no_faults sample_env sample_incident 0), vr_after = None,
     vr_confidence_before = 60, vr_confidence_after = 0, vr_proof_items = [],
     vr_rollback_triggered = False, vr_auto_close_eligible = False, vr_verified_at = None, vr_created_at = 0\<rparr>"

lemma sample_checks:
  "\<forall>c \<in> set (completed_checks no_faults sample_env (100 * minute) sample_incident (vr_before sample_record)
      (capture_snapshot no_faults sample_env sample_incident (100 * minute))). vc_status c = ''passed''"
proof -
  have "vc_status (check_no_new_errors no_faults sample_env (100 * minute) sample_incident) = ''passed''"
    unfolding no_new_errors_passed by (simp add: sample_env_def empty_log_db_def)
  moreover have "latest_metric no_faults sample_env sample_metric_agents ''t1'' =
      Some (Some [(''timestamp'', JStr (show_int 0)), (''cpu_percent'', JNum 40), (''memory_percent'', JNum 50)])"
    by (simp add: latest_metric_def get_agents_def get_recent_metrics_def sample_metric_agents_def sample_env_def
        clamp_limit_def order_desc_def set_key_def)
  then have "vc_status (check_metric_stable no_faults sample_env sample_incident) = ''passed''"
    unfolding metric_stable_passed by (simp add: sample_env_def sample_incident_def num_or_zero_def)
  moreover have "vc_status (check_incident_age (100 * minute) sample_incident) = ''passed''"
    unfolding incident_age_passed by (simp add: sample_incident_def duration_defs zero_time_def)
  ultimately show ?thesis by (simp add: completed_checks_def sample_record_def confidence_passed)
qed

lemma sample_completed:
  obtains r db where "verification_run [] [sample_record\<lparr>vr_proof_items := [sample_item]\<rparr>]"
    "complete_verification no_faults sample_env (100 * minute) ''vr-0''
       [sample_record\<lparr>vr_proof_items := [sample_item]\<rparr>] = (Inr r, db)"
    "vr_auto_close_eligible r" "\<exists>x \<in> set db. vr_auto_close_eligible x \<and> vr_result x = ''resolved''"
proof -
  let ?r = "sample_record\<lparr>vr_proof_items := [sample_item]\<rparr>"
  have inc: "get_incident no_faults ''i1'' (ve_incidents sample_env) = Some sample_incident"
    by (simp add: get_incident_no_faults sample_env_def sample_incident_def with_events_def event_ids_of_def
        incident_zero_def)
  have t: "inc_tenant_id sample_incident = ''t1''" "inc_confidence sample_incident = 60"
    by (simp_all add: sample_incident_def)
  have z: "show_nat 0 = ''0''" by code_simp
  have start: "start_verification no_faults sample_env 0 ''i1'' [] [] = Inr (sample_record, [sample_record])"
    by (simp add: start_verification_def inc Let_def sample_record_def create_verification_def tbl_insert_def
        tbl_has_def verification_id_def show_int_def z t)
  have get: "get_verification no_faults ''vr-0'' [x] = Inr x" if "vr_id x = ''vr-0''" for x
    using that by (simp add: get_verification_def)
  have sid: "vr_id sample_record = ''vr-0''" "vr_incident_id sample_record = ''i1''" "vr_proof_items sample_record = []"
      "vr_result sample_record = ''pending''" "\<not> vr_auto_close_eligible sample_record"
    by (simp_all add: sample_record_def)
  have item: "pi_captured_at sample_item \<noteq> []" "has_improved (sample_item # xs)" for xs
    by (simp_all add: sample_item_def has_improved_def)
  have attach: "attach_proof no_faults sample_env 0 ''vr-0'' sample_item [sample_record] = Inr (?r, [?r])"
    using sid item by (simp add: attach_proof_def get Let_def update_verification_def)
  have run: "verification_run [] [?r]"
    using verification_run.attached[OF verification_run.started[OF verification_run.init start] attach] .
  let ?c = "completed_record no_faults sample_env (100 * minute) sample_incident ?r"
  have res: "vr_result ?c = ''resolved''"
    using sample_checks by (simp add: completed_record_simps resolve_status_resolved count_passed_all)
  then have el: "vr_auto_close_eligible ?c" by (simp add: completed_record_simps(6,9) item)
  obtain db where db: "complete_verification no_faults sample_env (100 * minute) ''vr-0'' [?r] = (Inr ?c, db)"
      "\<exists>x \<in> set db. vr_auto_close_eligible x \<and> vr_result x = ''resolved''"
    using sid el res
    by (simp add: complete_verification_def get inc Let_def update_verification_def completed_record_simps(1))
  show thesis by (rule that[OF run db(1) el db(2)])
qed

theorem auto_close_evidence_witness:
  "\<exists>r db. complete_verification no_faults sample_env (100 * minute) ''vr-0''
      [sample_record\<lparr>vr_proof_items := [sample_item]\<rparr>] = (Inr r, db) \<and>
     vr_auto_close_eligible r \<and> has_improved (vr_proof_items r)"
proof -
  obtain r db where c: "complete_verification no_faults sample_env (100 * minute) ''vr-0''
      [sample_record\<lparr>vr_proof_items := [sample_item]\<rparr>] = (Inr r, db)" "vr_auto_close_eligible r"
    using sample_completed by metis
  from auto_close_evidence[OF c] c show ?thesis by blast
qed

text \<open>C18: the records over time. Whatever operations run on the store, a record marked eligible
  holds an improved proof item, and its result is resolved with every check passed, or it has been
  rolled back by hand afterwards.\<close>

theorem eligible_records:
  assumes "verification_run [] db" and "r \<in> set db" and "vr_auto_close_eligible r"
  shows "has_improved (vr_proof_items r) \<and>
    (vr_result r = ''resolved'' \<and> (\<forall>c \<in> set (vr_checks r). vc_status c = ''passed'') \<or>
     vr_result r = ''rolled_back'' \<and> vr_rollback_triggered r)"
proof -
  have "records_ok []" by (simp add: records_ok_def pk_def)
  with assms(1) have "records_ok db" by (rule verification_run_ok)
  with assms(2,3) show ?thesis by (auto simp: records_ok_def record_ok_def)
qed

theorem eligible_records_witness:
  "\<exists>db x. verification_run [] db \<and> x \<in> set db \<and> vr_result x = ''resolved'' \<and> has_improved (vr_proof_items x)"
proof -
  obtain r db where c: "verification_run [] [sample_record\<lparr>vr_proof_items := [sample_item]\<rparr>]"
      "complete_verification no_faults sample_env (100 * minute) ''vr-0''
       [sample_record\<lparr>vr_proof_items := [sample_item]\<rparr>] = (Inr r, db)"
      "\<exists>x \<in> set db. vr_auto_close_eligible x \<and> vr_result x = ''resolved''"
    using sample_completed by metis
  then obtain x where x: "x \<in> set db" "vr_auto_close_eligible x" "vr_result x = ''resolved''" by auto
  have run: "verification_run [] db" using verification_run.completed[OF c(1,2)] .
  from eligible_records[OF run x(1,2)] run x(1,3) show ?thesis by blast
qed

text \<open>A record stays eligible when an operator rolls the action back.\<close>

lemma rollback_keeps_eligible:
  "trigger_rollback flt now i db = Inr (r, db') \<Longrightarrow> get_verification flt i db = Inr old \<Longrightarrow>
   vr_auto_close_eligible r = vr_auto_close_eligible old \<and> vr_result r = ''rolled_back''"
  by (auto simp: trigger_rollback_def Let_def split: sum.splits)

end
