(* ===== verification/IncidentMemory.thy ===== *)
theory IncidentMemory
  imports IncidentStore Float64 "HOL-Library.Multiset"
begin

text \<open>
  What past resolutions teach: \<open>internal/services/incident_memory_service.go\<close>,
  \<open>internal/store/incident_memory_store.go\<close> and \<open>ResolutionRecord\<close>, \<open>PatternHistory\<close> of
  \<open>models/incident_detail.go\<close>. The playbook ranks the keys of a Go map, whose order of iteration is
  open: \<open>enum\<close> lists the distinct keys in the order of one run.
\<close>

record resolution_row =
  ir_tenant_id :: string
  ir_fingerprint :: string
  ir_service :: string
  ir_incident_id :: string
  ir_ttr_seconds :: int
  ir_actions_taken :: "string list"
  ir_note :: string
  ir_resolved_at :: time

type_synonym memory_db = "resolution_row list"

record ResolutionRecord =
  rs_incident_id :: string
  rs_resolved_at :: string
  rs_ttr_seconds :: int
  rs_actions_taken :: "string list"
  rs_resolution_note :: string

record PatternHistory =
  ph_fingerprint :: string
  ph_service :: string
  ph_recurrence_count :: nat
  ph_suggested_playbook :: "string list"
  ph_past_resolutions :: "ResolutionRecord list"

section \<open>The store\<close>

definition store_resolution :: "faults \<Rightarrow> resolution_row \<Rightarrow> memory_db \<Rightarrow> memory_db result" where
  "store_resolution flt r db = guard_db flt ''RecordResolution''
     (Inr (tbl_upsert ir_incident_id
        (\<lambda>x. x\<lparr>ir_ttr_seconds := ir_ttr_seconds r, ir_actions_taken := ir_actions_taken r, ir_note := ir_note r,
               ir_resolved_at := ir_resolved_at r\<rparr>) r db))"

definition same_pattern :: "string \<Rightarrow> string \<Rightarrow> string \<Rightarrow> resolution_row \<Rightarrow> bool" where
  "same_pattern tenant fp service r \<longleftrightarrow> ir_tenant_id r = tenant \<and>
     (ir_fingerprint r = fp \<or> fp = [] \<and> ir_service r = service)"

definition resolution_view :: "(time \<Rightarrow> string) \<Rightarrow> resolution_row \<Rightarrow> ResolutionRecord" where
  "resolution_view show_time r = \<lparr>rs_incident_id = ir_incident_id r, rs_resolved_at = show_time (ir_resolved_at r),
     rs_ttr_seconds = ir_ttr_seconds r, rs_actions_taken = ir_actions_taken r, rs_resolution_note = ir_note r\<rparr>"

definition past_resolutions ::
    "(time \<Rightarrow> string) \<Rightarrow> faults \<Rightarrow> string \<Rightarrow> string \<Rightarrow> string \<Rightarrow> int \<Rightarrow> memory_db \<Rightarrow> ResolutionRecord list result" where
  "past_resolutions show_time flt tenant fp service limit db = guard_db flt ''GetPatternHistory''
     (Inr (map (resolution_view show_time) (take (nat (if limit \<le> 0 then 10 else limit))
        (order_desc ir_resolved_at (filter (same_pattern tenant fp service) db)))))"

definition count_resolutions :: "faults \<Rightarrow> string \<Rightarrow> string \<Rightarrow> string \<Rightarrow> memory_db \<Rightarrow> nat" where
  "count_resolutions flt tenant fp service db =
    (if flt ''CountResolutions'' then 0 else length (filter (same_pattern tenant fp service) db))"

section \<open>The service\<close>

definition resolution_of :: "time \<Rightarrow> Incident \<Rightarrow> string \<Rightarrow> string \<Rightarrow> resolution_row" where
  "resolution_of now inc tenant memo = \<lparr>ir_tenant_id = tenant, ir_fingerprint = inc_fingerprint inc,
     ir_service = inc_service inc, ir_incident_id = inc_id inc,
     ir_ttr_seconds = (if inc_first_event_time inc = zero_time then 0
                       else whole_units second (now - inc_first_event_time inc)),
     ir_actions_taken = (if inc_reasoning inc = [] then [''Manual resolution''] else inc_reasoning inc),
     ir_note = memo, ir_resolved_at = now\<rparr>"

definition record_resolution ::
    "faults \<Rightarrow> time \<Rightarrow> incident_db \<Rightarrow> string \<Rightarrow> string \<Rightarrow> string \<Rightarrow> memory_db \<Rightarrow> memory_db result" where
  "record_resolution flt now incidents incidentID tenant memo db =
    (case get_incident flt incidentID incidents of
       None \<Rightarrow> Inl (ErrMsg (''incident not found: '' @ incidentID))
     | Some inc \<Rightarrow> store_resolution flt (resolution_of now inc tenant memo) db)"

text \<open>The trimmed actions of all records, blanks dropped; the count of an action is how often it
  occurs there.\<close>

definition playbook_actions :: "ResolutionRecord list \<Rightarrow> string list" where
  "playbook_actions rs = filter (\<lambda>a. a \<noteq> []) (map trim_space (concat (map rs_actions_taken rs)))"

definition build_playbook :: "(string list \<Rightarrow> string list) \<Rightarrow> ResolutionRecord list \<Rightarrow> string list" where
  "build_playbook enum rs =
    (let as = playbook_actions rs
     in take 5 (order_desc (\<lambda>a. int (count_list as a)) (enum as)))"

definition pattern_history ::
    "(time \<Rightarrow> string) \<Rightarrow> (string list \<Rightarrow> string list) \<Rightarrow> faults \<Rightarrow> incident_db \<Rightarrow> string \<Rightarrow> string \<Rightarrow> memory_db \<Rightarrow>
     PatternHistory result" where
  "pattern_history show_time enum flt incidents incidentID tenant db =
    (case get_incident flt incidentID incidents of
       None \<Rightarrow> Inl (ErrMsg (''incident not found: '' @ incidentID))
     | Some inc \<Rightarrow>
        (case past_resolutions show_time flt tenant (inc_fingerprint inc) (inc_service inc) 10 db of
           Inl e \<Rightarrow> Inl e
         | Inr rs \<Rightarrow> Inr \<lparr>ph_fingerprint = inc_fingerprint inc, ph_service = inc_service inc,
             ph_recurrence_count = count_resolutions flt tenant (inc_fingerprint inc) (inc_service inc) db,
             ph_suggested_playbook = build_playbook enum rs, ph_past_resolutions = rs\<rparr>))"

section \<open>Lemmas\<close>

lemma take_order_desc_best:
  assumes "a \<in> set (take n (order_desc f xs))" and "b \<in> set xs" and "b \<notin> set (take n (order_desc f xs))"
  shows "f b \<le> f a"
proof -
  let ?ys = "order_desc f xs"
  have "sorted (map (\<lambda>r. - f r) ?ys)" by (simp add: order_desc_def)
  then have s: "sorted_wrt (\<lambda>x y. f y \<le> f x) (take n ?ys @ drop n ?ys)" by (simp add: sorted_map)
  have "b \<in> set (take n ?ys @ drop n ?ys)" using assms(2) by simp
  with assms(3) have "b \<in> set (drop n ?ys)" by (metis Un_iff set_append)
  with assms(1) s show ?thesis unfolding sorted_wrt_append by blast
qed

lemma playbook_bounds:
  assumes "set (enum (playbook_actions rs)) = set (playbook_actions rs)" and "distinct (enum (playbook_actions rs))"
  shows "length (build_playbook enum rs) = min 5 (card (set (playbook_actions rs)))"
    "distinct (build_playbook enum rs)" "set (build_playbook enum rs) \<subseteq> set (playbook_actions rs)"
proof -
  let ?as = "playbook_actions rs"
  have "length (enum ?as) = card (set ?as)" using distinct_card[OF assms(2)] assms(1) by simp
  then show "length (build_playbook enum rs) = min 5 (card (set ?as))"
    by (simp add: build_playbook_def Let_def min.commute)
  show "distinct (build_playbook enum rs)" using assms(2)
    by (simp add: build_playbook_def Let_def order_desc_def)
  show "set (build_playbook enum rs) \<subseteq> set ?as"
    unfolding build_playbook_def Let_def
    using set_take_subset[of 5 "order_desc (\<lambda>a. int (count_list ?as a)) (enum ?as)"] assms(1)
    by (simp only: set_order)
qed

section \<open>Properties\<close>

text \<open>The playbook. In whatever order the map is iterated, the suggested playbook has no
  duplicates, holds the five most frequent actions of the past resolutions (all of them when there
  are fewer), and no action left out occurs more often than one taken in.\<close>

theorem playbook_most_frequent:
  assumes "set (enum (playbook_actions rs)) = set (playbook_actions rs)" and "distinct (enum (playbook_actions rs))"
  shows "distinct (build_playbook enum rs) \<and> set (build_playbook enum rs) \<subseteq> set (playbook_actions rs) \<and>
    length (build_playbook enum rs) = min 5 (card (set (playbook_actions rs))) \<and>
    (\<forall>a \<in> set (build_playbook enum rs). \<forall>b \<in> set (playbook_actions rs) - set (build_playbook enum rs).
       count_list (playbook_actions rs) b \<le> count_list (playbook_actions rs) a)"
proof -
  let ?as = "playbook_actions rs"
  have "count_list ?as b \<le> count_list ?as a"
    if "a \<in> set (build_playbook enum rs)" "b \<in> set ?as - set (build_playbook enum rs)" for a b
    using take_order_desc_best[of a 5 "\<lambda>a. int (count_list ?as a)" "enum ?as" b] that assms(1)
    by (simp add: build_playbook_def Let_def)
  with playbook_bounds[where enum = enum and rs = rs, OF assms] show ?thesis by blast
qed

theorem playbook_most_frequent_witness:
  "let rs = [\<lparr>rs_incident_id = ''i1'', rs_resolved_at = [], rs_ttr_seconds = 5,
              rs_actions_taken = ['' flush'', ''restart'', ''flush ''], rs_resolution_note = []\<rparr>]
   in build_playbook remdups rs = [''flush'', ''restart''] \<and> distinct (build_playbook remdups rs) \<and>
      length (build_playbook remdups rs) = min 5 (card (set (playbook_actions rs)))"
proof -
  let ?rs = "[\<lparr>rs_incident_id = ''i1'', rs_resolved_at = [], rs_ttr_seconds = 5,
              rs_actions_taken = ['' flush'', ''restart'', ''flush ''], rs_resolution_note = []\<rparr>]"
  have e: "set (remdups (playbook_actions ?rs)) = set (playbook_actions ?rs)" "distinct (remdups (playbook_actions ?rs))"
    by simp_all
  have "build_playbook remdups ?rs = [''flush'', ''restart'']" by code_simp
  with playbook_most_frequent[where enum = remdups, OF e] show ?thesis by (simp add: Let_def)
qed

end
