(* ===== verification/Orchestrator.thy ===== *)
theory Orchestrator
  imports Actions PolicyEngine Verification IncidentMemory IncidentOps CommandPolicy
begin

text \<open>
  The automatic remediation of \<open>internal/services/remediation_orchestrator.go\<close>: a new incident, the
  first remediation proposed for it, the policy engine, an execution, the agent, the verification, and
  on success the closed incident and the recorded resolution. What agents answer is an oracle; every
  call to one, every Slack request and every audit entry is recorded in the state. An execution reads
  the clock when it starts and when the agent has answered.
\<close>

section \<open>State and surroundings\<close>

text \<open>The answer to \<open>POST /execute\<close>: no connection, a body that cannot be read (each with its
  error), a body that is not JSON, or the fields \<open>output\<close> and \<open>error\<close>.\<close>

datatype agent_reply = AgentDown string | AgentBroken string | AgentRaw string | AgentReply string string

record remedy_config =
  rc_zones :: zone_db
  rc_trailed :: bool
  rc_kb :: "KnowledgeBase option"
  rc_wiring :: wiring
  rc_slack_ready :: bool                    \<comment> \<open>wired in and configured\<close>
  rc_verification :: bool
  rc_memory :: bool
  rc_incident_service :: bool
  rc_show_time :: "time \<Rightarrow> string"
  rc_healthy :: "string \<Rightarrow> bool"           \<comment> \<open>\<open>GET /health\<close> answers 200\<close>
  rc_execute :: "string \<Rightarrow> string \<Rightarrow> agent_reply"  \<comment> \<open>host and command\<close>

record remedy_state =
  rm_world :: world
  rm_policy :: policy_db                    \<comment> \<open>with the executions\<close>
  rm_verifications :: verification_db
  rm_memory :: memory_db
  rm_logs :: "log_db option"
  rm_agents :: "agent_db option"
  rm_calls :: "(string \<times> string) list"     \<comment> \<open>commands sent: host and command\<close>
  rm_slack :: "(string \<times> string \<times> string) list"  \<comment> \<open>approval requests: channel, execution, reason\<close>

definition on_executions :: "(exec_db \<Rightarrow> exec_db result) \<Rightarrow> remedy_state \<Rightarrow> remedy_state" where
  "on_executions f s = (case f (pdb_executions (rm_policy s)) of
     Inl _ \<Rightarrow> s | Inr db \<Rightarrow> s\<lparr>rm_policy := (rm_policy s)\<lparr>pdb_executions := db\<rparr>\<rparr>)"

definition remedy_env :: "remedy_config \<Rightarrow> remedy_state \<Rightarrow> verify_env" where
  "remedy_env cfg s = \<lparr>ve_incidents = w_incidents (rm_world s), ve_logs = rm_logs s, ve_agents = rm_agents s,
     ve_show_time = rc_show_time cfg\<rparr>"

section \<open>The command of an action\<close>

definition safe_prefixes :: "string list" where
  "safe_prefixes = [''systemctl restart '', ''systemctl stop '', ''systemctl start '',
     ''kubectl rollout restart '', ''kubectl scale '',
     ''df '', ''free '', ''top '', ''uptime'', ''ps aux'',
     ''journalctl '', ''curl '', ''grep '', ''tail '', ''cat /var/log/'']"

definition trim_blanks :: "string \<Rightarrow> string" where
  "trim_blanks s = (let blank = (\<lambda>c. c = CHR '' '' \<or> c = CHR 0x09)
     in rev (dropWhile blank (rev (dropWhile blank s))))"

text \<open>From the position found: trimmed, cut at a line break that is not at its start, and at 200
  bytes.\<close>

definition cut_command :: "string \<Rightarrow> string" where
  "cut_command s =
    (let cmd = trim_blanks s; nl = length (takeWhile (\<lambda>c. c \<noteq> CHR 0x0A \<and> c \<noteq> CHR 0x0D) cmd) in
     take 200 (if 0 < nl \<and> nl < length cmd then take nl cmd else cmd))"

definition command_in :: "string \<Rightarrow> string option" where
  "command_in text0 =
    (case filter (\<lambda>p. index_str (to_lower text0) p \<noteq> None) safe_prefixes of
       [] \<Rightarrow> None
     | p # _ \<Rightarrow> (case index_str (to_lower text0) p of None \<Rightarrow> None | Some i \<Rightarrow> Some (cut_command (drop i text0))))"

definition extract_orchestrator_command :: "string \<Rightarrow> string \<Rightarrow> string" where
  "extract_orchestrator_command label desc =
    (case command_in label of Some c \<Rightarrow> c
     | None \<Rightarrow> (case command_in desc of Some c \<Rightarrow> c | None \<Rightarrow> []))"

section \<open>Agents\<close>

definition find_active_agent_host :: "remedy_config \<Rightarrow> faults \<Rightarrow> string \<Rightarrow> agent_db option \<Rightarrow> string" where
  "find_active_agent_host cfg flt tenant agents =
    (case find (rc_healthy cfg) [''localhost'', ''127.0.0.1''] of
       Some h \<Rightarrow> h
     | None \<Rightarrow>
        (case agents of
           None \<Rightarrow> []
         | Some db \<Rightarrow>
            (case get_agents flt tenant 500 0 db of
               Inl _ \<Rightarrow> []
             | Inr as \<Rightarrow>
                (case find (\<lambda>a. ag_status a = ''active'' \<and> ag_host_ip a \<noteq> [] \<and> rc_healthy cfg (ag_host_ip a)) as of
                   None \<Rightarrow> [] | Some a \<Rightarrow> ag_host_ip a))))"

text \<open>\<open>callAgent\<close>: the output, or the error.\<close>

definition agent_output :: "agent_reply \<Rightarrow> string + string" where
  "agent_output r =
    (case r of AgentDown e \<Rightarrow> Inl (''connect to agent: '' @ e)
     | AgentBroken e \<Rightarrow> Inl (''read agent response: '' @ e)
     | AgentRaw body \<Rightarrow> Inr body
     | AgentReply out err \<Rightarrow> Inr (if err \<noteq> [] then out @ [CHR 0x0A] @ ''(error: '' @ err @ '')'' else out))"

text \<open>The agent part of an execution: status, output, and the calls made.\<close>

definition run_on_agent ::
    "remedy_config \<Rightarrow> faults \<Rightarrow> string \<Rightarrow> string \<Rightarrow> string \<Rightarrow> agent_db option \<Rightarrow>
     string \<times> string \<times> (string \<times> string) list" where
  "run_on_agent cfg flt tenant rawCmd actionType agents =
    (if rawCmd = [] then (''manual'', (''No executable command detected '' @ [CHR 0xE2, CHR 0x80, CHR 0x94] @ '' action requires manual execution.''), [])
     else let d = evaluate_command rawCmd actionType True in
       if \<not> pd_allowed d then (''policy_blocked'', ''Command blocked by security policy: '' @ pd_reason d, [])
       else let host = find_active_agent_host cfg flt tenant agents in
         if host = [] then (''no_agent'', (''No active agent available '' @ [CHR 0xE2, CHR 0x80, CHR 0x94] @ '' action queued for manual execution.''), [])
         else (case agent_output (rc_execute cfg host (pd_sanitized d)) of
             Inl e \<Rightarrow> (''error'', ''Agent execution failed: '' @ e, [(host, pd_sanitized d)])
           | Inr out \<Rightarrow> (''executed'', out, [(host, pd_sanitized d)])))"

section \<open>An execution\<close>

definition resolution_memo :: "Action \<Rightarrow> ActionExecution \<Rightarrow> string \<Rightarrow> string" where
  "resolution_memo a e res = ''Auto-remediated via '' @ go_quote (act_label a) @ '' ('' @ ax_execution_mode e @
     ''). Verification: '' @ res @ ''.''"

text \<open>Before-snapshot: the ID of the record, empty when there is none.\<close>

definition begin_verification ::
    "remedy_config \<Rightarrow> faults \<Rightarrow> time \<Rightarrow> Incident \<Rightarrow> ActionExecution \<Rightarrow> remedy_state \<Rightarrow> string \<times> remedy_state" where
  "begin_verification cfg flt now inc e s =
    (if rc_verification cfg then
       (case start_verification (at_site ''start'' flt) (remedy_env cfg s) now (inc_id inc) (ax_id e) (rm_verifications s) of
          Inl _ \<Rightarrow> ([], s)
        | Inr (v, db) \<Rightarrow> (vr_id v, s\<lparr>rm_verifications := db\<rparr>))
     else ([], s))"

definition close_if_eligible ::
    "remedy_config \<Rightarrow> faults \<Rightarrow> time \<Rightarrow> Incident \<Rightarrow> VerificationRecord \<Rightarrow> remedy_state \<Rightarrow> remedy_state" where
  "close_if_eligible cfg flt now inc v s =
    (if vr_auto_close_eligible v \<and> rc_incident_service cfg
     then s\<lparr>rm_world := snd (update_status (rc_wiring cfg) (at_site ''close'' flt) now (inc_id inc) ''resolve'' (rm_world s))\<rparr>
     else s)"

definition remember ::
    "remedy_config \<Rightarrow> faults \<Rightarrow> time \<Rightarrow> Incident \<Rightarrow> Action \<Rightarrow> ActionExecution \<Rightarrow> VerificationRecord \<Rightarrow>
     remedy_state \<Rightarrow> remedy_state" where
  "remember cfg flt now inc a e v s =
    (if vr_result v \<noteq> ''not_resolved'' \<and> rc_memory cfg then
       (case record_resolution flt now (w_incidents (rm_world s)) (inc_id inc) (inc_tenant_id inc)
               (resolution_memo a e (vr_result v)) (rm_memory s) of
          Inl _ \<Rightarrow> s | Inr db \<Rightarrow> s\<lparr>rm_memory := db\<rparr>)
     else s)"

definition finish_verification ::
    "remedy_config \<Rightarrow> faults \<Rightarrow> time \<Rightarrow> string \<Rightarrow> Incident \<Rightarrow> Action \<Rightarrow> ActionExecution \<Rightarrow> remedy_state \<Rightarrow> remedy_state" where
  "finish_verification cfg flt now vrID inc a e s =
    (if vrID = [] \<or> \<not> rc_verification cfg then s
     else (case complete_verification (at_site ''complete'' flt) (remedy_env cfg s) now vrID (rm_verifications s) of
         (Inl _, db) \<Rightarrow> s\<lparr>rm_verifications := db\<rparr>
       | (Inr v, db) \<Rightarrow>
          remember cfg flt now inc a e v (close_if_eligible cfg flt now inc v (s\<lparr>rm_verifications := db\<rparr>))))"

definition run_execution ::
    "remedy_config \<Rightarrow> faults \<Rightarrow> time \<Rightarrow> time \<Rightarrow> ActionExecution \<Rightarrow> Incident \<Rightarrow> Action \<Rightarrow> string \<Rightarrow>
     remedy_state \<Rightarrow> remedy_state" where
  "run_execution cfg flt now later e0 inc a actor s0 =
    (let e1 = e0\<lparr>ax_started_at := Some now, ax_status := ''running''\<rparr>;
         s1 = on_executions (update_execution (at_site ''running'' flt) e1) s0;
         (vrID, s2) = begin_verification cfg flt now inc e1 s1;
         (status, out, calls) = run_on_agent cfg flt (inc_tenant_id inc)
            (extract_orchestrator_command (act_label a) (act_description a)) (act_type a) (rm_agents s2);
         e2 = e1\<lparr>ax_completed_at := Some later, ax_status := status, ax_result_output := out\<rparr>;
         s3 = on_executions (update_execution (at_site ''completed'' flt) e2) (s2\<lparr>rm_calls := rm_calls s2 @ calls\<rparr>);
         s4 = s3\<lparr>rm_world := spawn (GoAudit (inc_tenant_id inc) actor ''remediation.executed'' ''execution'' (ax_id e2)) (rm_world s3)\<rparr>
     in finish_verification cfg flt later vrID inc a e2 s4)"

section \<open>The trigger\<close>

definition remediation_context :: "Incident \<Rightarrow> Action \<Rightarrow> PolicyEvalContext" where
  "remediation_context inc a = \<lparr>pc_tenant_id = inc_tenant_id inc, pc_incident_id = inc_id inc, pc_action_id = act_id a,
     pc_service = inc_service inc, pc_environment = ''production'', pc_severity = inc_severity inc,
     pc_impacted_services = inc_impact_count inc, pc_actor = [], pc_is_dry_run = False\<rparr>"

definition chosen_remediation :: "KnowledgeBase option \<Rightarrow> Incident \<Rightarrow> Action option" where
  "chosen_remediation kb inc = find (\<lambda>a. act_type a = ''remediation'')
     (build_actions kb inc (build_insight (inc_correlation_pattern inc) inc))"

definition auto_approved :: "ExecutionDecision \<Rightarrow> int option \<Rightarrow> bool" where
  "auto_approved d rca \<longleftrightarrow> ed_allowed d \<and> ed_execution_mode d = ''auto'' \<and>
     (case rca of None \<Rightarrow> False | Some c \<Rightarrow> 90 \<le> c)"

definition planned_execution :: "time \<Rightarrow> Incident \<Rightarrow> Action \<Rightarrow> ExecutionDecision \<Rightarrow> bool \<Rightarrow> ActionExecution" where
  "planned_execution now inc a d auto = execution_zero\<lparr>ax_id := ''exec-'' @ show_int now,
     ax_tenant_id := inc_tenant_id inc, ax_incident_id := inc_id inc, ax_action_id := act_id a,
     ax_action_label := act_label a, ax_action_desc := act_description a, ax_chain_position := 1,
     ax_status := (if auto then ''planned'' else ''pending_approval''),
     ax_execution_mode := (if auto then ''auto'' else ed_execution_mode d),
     ax_requires_approval := act_requires_approval a,
     ax_approval_status := (if auto then [] else ''pending''), ax_created_at := now\<rparr>"

definition request_approval ::
    "remedy_config \<Rightarrow> faults \<Rightarrow> Incident \<Rightarrow> Action \<Rightarrow> ExecutionDecision \<Rightarrow> string \<Rightarrow> remedy_state \<Rightarrow> remedy_state" where
  "request_approval cfg flt inc a d execID s =
    (let channel = get_slack_channel flt (inc_id inc) (w_incidents (rm_world s));
         reason = (if ed_reason d = [] then ''Policy requires approval for '' @ act_risk_level a @ '' risk '' @
                     act_type a @ '' actions.'' else ed_reason d)
     in if \<not> ed_allowed d \<or> channel = [] \<or> \<not> rc_slack_ready cfg then s
        else s\<lparr>rm_slack := rm_slack s @ [(channel, execID, reason)]\<rparr>)"

definition trigger_remediation ::
    "remedy_config \<Rightarrow> faults \<Rightarrow> time \<Rightarrow> time \<Rightarrow> Incident \<Rightarrow> int option \<Rightarrow> remedy_state \<Rightarrow> remedy_state" where
  "trigger_remediation cfg flt now later inc rca s =
    (if inc_severity inc \<noteq> ''critical'' \<and> inc_severity inc \<noteq> ''high'' then s
     else (case chosen_remediation (rc_kb cfg) inc of
       None \<Rightarrow> s
     | Some a \<Rightarrow>
        (let (d, pdb) = evaluate (rc_zones cfg) (rc_trailed cfg) flt now (remediation_context inc a) (rm_policy s);
             auto = auto_approved d rca;
             e = planned_execution now inc a d auto;
             s1 = s\<lparr>rm_policy := pdb\<rparr>
         in case create_execution flt e (pdb_executions pdb) of
              Inl _ \<Rightarrow> s1
            | Inr db \<Rightarrow>
                let s2 = s1\<lparr>rm_policy := pdb\<lparr>pdb_executions := db\<rparr>\<rparr> in
                if auto then run_execution cfg flt now later e inc a ''system:orchestrator'' s2
                else request_approval cfg flt inc a d (ax_id e) s2)))"

section \<open>Decisions of an operator\<close>

definition execute_approved_action ::
    "remedy_config \<Rightarrow> faults \<Rightarrow> time \<Rightarrow> time \<Rightarrow> string \<Rightarrow> string \<Rightarrow> remedy_state \<Rightarrow> unit result \<times> remedy_state" where
  "execute_approved_action cfg flt now later execID approvedBy s =
    (case get_execution flt execID (pdb_executions (rm_policy s)) of
       Inl _ \<Rightarrow> (Inl (ErrMsg (''execution not found: '' @ execID)), s)
     | Inr None \<Rightarrow> (Inl (ErrMsg (''execution not found: '' @ execID)), s)
     | Inr (Some e) \<Rightarrow>
        if ax_approval_status e \<noteq> ''pending'' then
          (Inl (ErrMsg (''execution '' @ execID @ '' is not pending approval (status: '' @ ax_approval_status e @ '')'')), s)
        else (case approve_execution flt execID approvedBy now (pdb_executions (rm_policy s)) of
            Inl er \<Rightarrow> (Inl er, s)
          | Inr db \<Rightarrow>
             (let s1 = s\<lparr>rm_policy := (rm_policy s)\<lparr>pdb_executions := db\<rparr>\<rparr> in
              case get_incident flt (ax_incident_id e) (w_incidents (rm_world s1)) of
                None \<Rightarrow> (Inl (ErrMsg (''incident not found: '' @ ax_incident_id e)), s1)
              | Some inc \<Rightarrow>
                 (Inr (), run_execution cfg flt now later e inc
                    (action (ax_action_id e) (ax_action_label e) (ax_action_desc e) ''remediation'' [] ''medium'' False)
                    approvedBy s1))))"

definition reject_action ::
    "faults \<Rightarrow> string \<Rightarrow> string \<Rightarrow> string \<Rightarrow> remedy_state \<Rightarrow> unit result \<times> remedy_state" where
  "reject_action flt execID rejectedBy reason s =
    (case get_execution flt execID (pdb_executions (rm_policy s)) of
       Inl _ \<Rightarrow> (Inl (ErrMsg (''execution not found: '' @ execID)), s)
     | Inr None \<Rightarrow> (Inl (ErrMsg (''execution not found: '' @ execID)), s)
     | Inr (Some e) \<Rightarrow>
        if ax_approval_status e \<noteq> ''pending'' then
          (Inl (ErrMsg (''execution '' @ execID @ '' is not pending approval'')), s)
        else (case reject_execution flt execID rejectedBy reason (pdb_executions (rm_policy s)) of
            Inl er \<Rightarrow> (Inl er, s)
          | Inr db \<Rightarrow> (Inr (), s\<lparr>rm_policy := (rm_policy s)\<lparr>pdb_executions := db\<rparr>\<rparr>)))"

section \<open>Lemmas\<close>

subsection \<open>Frames\<close>

lemma on_executions_frame [simp]:
  "rm_world (on_executions f s) = rm_world s" "rm_calls (on_executions f s) = rm_calls s"
  "rm_verifications (on_executions f s) = rm_verifications s" "rm_logs (on_executions f s) = rm_logs s"
  "rm_agents (on_executions f s) = rm_agents s" "rm_slack (on_executions f s) = rm_slack s"
  by (simp_all add: on_executions_def split: sum.split)

lemma begin_verification_frame [simp]:
  "rm_world (snd (begin_verification cfg flt now inc e s)) = rm_world s"
  "rm_calls (snd (begin_verification cfg flt now inc e s)) = rm_calls s"
  "rm_logs (snd (begin_verification cfg flt now inc e s)) = rm_logs s"
  "rm_agents (snd (begin_verification cfg flt now inc e s)) = rm_agents s"
  by (simp_all add: begin_verification_def split: sum.split prod.split)

lemma finish_verification_calls [simp]: "rm_calls (finish_verification cfg flt now i inc a e s) = rm_calls s"
  by (simp add: finish_verification_def remember_def close_if_eligible_def split: sum.split prod.split)

subsection \<open>Calls\<close>

definition agent_host_ok :: "remedy_config \<Rightarrow> string \<Rightarrow> agent_db option \<Rightarrow> string \<Rightarrow> bool" where
  "agent_host_ok cfg tenant agents h \<longleftrightarrow> rc_healthy cfg h \<and>
     (if rc_healthy cfg ''localhost'' then h = ''localhost'' else if rc_healthy cfg ''127.0.0.1'' then h = ''127.0.0.1''
      else \<exists>db r. agents = Some db \<and> r \<in> set (gdb_agents db) \<and>
        ag_tenant_id (gr_agent r) = tenant \<and> ag_status (gr_agent r) = ''active'' \<and> ag_host_ip (gr_agent r) = h)"

lemma get_agents_tenant: "get_agents flt tenant l k db = Inr as \<Longrightarrow> a \<in> set as \<Longrightarrow>
    ag_tenant_id a = tenant \<and> (\<exists>r \<in> set (gdb_agents db). a = gr_agent r)"
  by (auto simp: get_agents_def dest!: in_set_takeD in_set_dropD)

lemma find_active_agent_host_ok:
  "find_active_agent_host cfg flt tenant agents \<noteq> [] \<Longrightarrow>
   agent_host_ok cfg tenant agents (find_active_agent_host cfg flt tenant agents)"
proof (cases "find (rc_healthy cfg) [''localhost'', ''127.0.0.1'']")
  case (Some h)
  then show ?thesis by (auto simp: find_active_agent_host_def agent_host_ok_def split: if_splits)
next
  case None
  assume "find_active_agent_host cfg flt tenant agents \<noteq> []"
  with None obtain db as a where a: "agents = Some db" "get_agents flt tenant 500 0 db = Inr as"
      "find (\<lambda>a. ag_status a = ''active'' \<and> ag_host_ip a \<noteq> [] \<and> rc_healthy cfg (ag_host_ip a)) as = Some a"
      "find_active_agent_host cfg flt tenant agents = ag_host_ip a"
    by (auto simp: find_active_agent_host_def split: option.splits sum.splits)
  then have "a \<in> set as" "ag_status a = ''active''" "rc_healthy cfg (ag_host_ip a)" by (auto simp: find_Some_iff)
  moreover have "\<not> rc_healthy cfg ''localhost''" "\<not> rc_healthy cfg ''127.0.0.1''" using None by (auto split: if_splits)
  ultimately show ?thesis using a(1,4) get_agents_tenant[OF a(2)] by (auto simp: agent_host_ok_def)
qed

lemma run_on_agent_calls:
  assumes "run_on_agent cfg flt tenant raw ty agents = (st, out, calls)"
  shows "calls = [] \<or> (\<exists>h. calls = [(h, trim_space raw)] \<and> forwardable (trim_space raw) \<and>
    agent_host_ok cfg tenant agents h)"
proof (cases "calls = []")
  case False
  let ?d = "evaluate_command raw ty True" and ?h = "find_active_agent_host cfg flt tenant agents"
  from False assms have c: "calls = [(?h, pd_sanitized ?d)]" "pd_allowed ?d" "?h \<noteq> []"
    by (auto simp: run_on_agent_def Let_def split: if_splits sum.splits)
  then have "pd_sanitized ?d = trim_space raw" by (simp add: evaluate_command_sanitized)
  with cmd_gate.gate_safe[OF c(2)] c(1) find_active_agent_host_ok[OF c(3)] show ?thesis by simp
qed simp

lemma run_execution_calls:
  "\<exists>st out calls. run_on_agent cfg flt (inc_tenant_id inc)
      (extract_orchestrator_command (act_label a) (act_description a)) (act_type a) (rm_agents s) = (st, out, calls) \<and>
    rm_calls (run_execution cfg flt now later e inc a actor s) = rm_calls s @ calls"
  by (simp add: run_execution_def Let_def split_beta) (metis prod.collapse)

subsection \<open>Closing\<close>

lemma begin_verification_record:
  assumes "begin_verification cfg flt now inc e s = (i, s')" and "i \<noteq> []"
  obtains v where "tbl_find vr_id i (rm_verifications s') = Some v" "vr_incident_id v = inc_id inc"
  using assms
  by (auto simp: begin_verification_def start_verification_def Let_def create_verification_def
      split: if_splits sum.splits option.splits dest!: tbl_find_insert[where k = "verification_id now"])

lemma finish_verification_closes:
  assumes "w_incidents (rm_world (finish_verification cfg flt now i inc a e s)) \<noteq> w_incidents (rm_world s)"
  obtains v db where "complete_verification (at_site ''complete'' flt) (remedy_env cfg s) now i (rm_verifications s) = (Inr v, db)"
    "vr_auto_close_eligible v"
  using assms
  by (auto simp: finish_verification_def remember_def close_if_eligible_def split: if_splits sum.splits prod.splits)

lemma run_execution_incidents:
  assumes "w_incidents (rm_world (run_execution cfg flt now later e inc a actor s)) \<noteq> w_incidents (rm_world s)"
  obtains i s4 v0 v db where "i \<noteq> []" "remedy_env cfg s4 = remedy_env cfg s"
    "tbl_find vr_id i (rm_verifications s4) = Some v0" "vr_incident_id v0 = inc_id inc"
    "complete_verification (at_site ''complete'' flt) (remedy_env cfg s4) later i (rm_verifications s4) = (Inr v, db)"
    "vr_auto_close_eligible v"
proof -
  define e1 where "e1 = e\<lparr>ax_started_at := Some now, ax_status := ''running''\<rparr>"
  define s1 where "s1 = on_executions (update_execution (at_site ''running'' flt) e1) s"
  obtain i s2 where b: "begin_verification cfg flt now inc e1 s1 = (i, s2)"
    by (cases "begin_verification cfg flt now inc e1 s1")
  obtain e2 s4 where fin: "run_execution cfg flt now later e inc a actor s = finish_verification cfg flt later i inc a e2 s4"
    and s4: "w_incidents (rm_world s4) = w_incidents (rm_world s2)" "rm_logs s4 = rm_logs s2" "rm_agents s4 = rm_agents s2"
      "rm_verifications s4 = rm_verifications s2"
    using b unfolding run_execution_def Let_def e1_def[symmetric] s1_def[symmetric] by (simp add: split_beta spawn_def)
  have s2: "rm_world s2 = rm_world s" "rm_logs s2 = rm_logs s" "rm_agents s2 = rm_agents s"
    using begin_verification_frame[of cfg flt now inc e1 s1] unfolding b snd_conv by (simp_all add: s1_def)
  have env: "remedy_env cfg s4 = remedy_env cfg s" by (simp add: remedy_env_def s4 s2)
  have changed: "w_incidents (rm_world (finish_verification cfg flt later i inc a e2 s4)) \<noteq> w_incidents (rm_world s4)"
    using assms by (simp add: fin s4 s2)
  then have ne: "i \<noteq> []" by (auto simp: finish_verification_def)
  from changed obtain v db where c: "complete_verification (at_site ''complete'' flt) (remedy_env cfg s4) later i (rm_verifications s4) = (Inr v, db)"
    "vr_auto_close_eligible v" by (rule finish_verification_closes)
  obtain v0 where "tbl_find vr_id i (rm_verifications s2) = Some v0" "vr_incident_id v0 = inc_id inc"
    using b ne by (rule begin_verification_record)
  with ne env c that s4(4) show ?thesis by metis
qed

lemma close_evidence:
  assumes "w_incidents (rm_world (run_execution cfg flt now later e inc a actor s)) \<noteq> w_incidents (rm_world s)"
  shows "\<exists>i logs agents m. get_incident (at_site ''complete'' flt) (inc_id inc) (w_incidents (rm_world s)) = Some i \<and>
     rm_logs s = Some logs \<and>
     (\<forall>x \<in> set (ldb_rows logs). \<not> log_where (error_query i (later - 5 * minute) 1) x) \<and>
     rm_agents s = Some agents \<and>
     latest_metric (at_site ''check'' (at_site ''complete'' flt)) (remedy_env cfg s) agents (inc_tenant_id i) = Some (Some m) \<and>
     float_less (num_or_zero m ''cpu_percent'') (Fin 85) \<and> float_less (num_or_zero m ''memory_percent'') (Fin 90) \<and>
     30 * minute < later - inc_last_event_time i"
proof -
  from assms obtain i s4 v0 v db where r: "i \<noteq> []" "remedy_env cfg s4 = remedy_env cfg s"
    "tbl_find vr_id i (rm_verifications s4) = Some v0" "vr_incident_id v0 = inc_id inc"
    "complete_verification (at_site ''complete'' flt) (remedy_env cfg s4) later i (rm_verifications s4) = (Inr v, db)"
    "vr_auto_close_eligible v" by (rule run_execution_incidents)
  obtain old x where old: "tbl_find vr_id i (rm_verifications s4) = Some old" "v = completed_record (at_site ''complete'' flt) (remedy_env cfg s4) later x old"
    using r(5) by (rule complete_verification_Inr) blast
  with r(3,4) have vi: "vr_incident_id v = inc_id inc" by (simp add: completed_record_simps)
  have env: "ve_incidents (remedy_env cfg s) = w_incidents (rm_world s)" "ve_logs (remedy_env cfg s) = rm_logs s"
      "ve_agents (remedy_env cfg s) = rm_agents s" by (simp_all add: remedy_env_def)
  from eligible_evidence[OF r(5,6)] show ?thesis unfolding r(2) vi env by blast
qed

lemma evaluate_executions: "pdb_executions (snd (evaluate zones trailed flt now c db)) = pdb_executions db"
  by (simp add: evaluate_def Let_def frame split: sum.split option.split)

text \<open>The other way round: enough for the close.\<close>

lemma update_status_resolves:
  assumes "get_incident no_faults i (w_incidents w) = Some cur" and "i \<noteq> []" and "trim_space i = i"
  shows "w_incidents (snd (update_status wi no_faults now i ''resolve'' w)) =
    (w_incidents w)\<lparr>db_rows := set_status_rows i ''resolved'' (db_rows (w_incidents w))\<rparr>"
proof -
  have "map_action ''resolve'' = Inr ''resolved''" by code_simp
  with assms update_incident_status_no_faults[OF assms(1), of "''resolved''"] show ?thesis
    by (simp add: update_status_def update_status_by_def Let_def)
qed

lemma run_execution_resolves:
  assumes "rc_verification cfg" "rc_incident_service cfg"
    and "get_incident no_faults (inc_id inc) (w_incidents (rm_world s)) = Some i"
    and "inc_id inc \<noteq> []" "trim_space (inc_id inc) = inc_id inc"
    and "\<not> tbl_has vr_id (verification_id now) (rm_verifications s)"
    and "\<forall>c \<in> set (completed_checks no_faults (remedy_env cfg s) later i
           (Some (capture_snapshot no_faults (remedy_env cfg s) i now))
           (capture_snapshot no_faults (remedy_env cfg s) i later)). vc_status c = ''passed''"
    and "has_improved (derive_proof_items (Some (capture_snapshot no_faults (remedy_env cfg s) i now))
           (capture_snapshot no_faults (remedy_env cfg s) i later))"
  shows "w_incidents (rm_world (run_execution cfg no_faults now later e inc a actor s)) =
    (w_incidents (rm_world s))\<lparr>db_rows := set_status_rows (inc_id inc) ''resolved'' (db_rows (w_incidents (rm_world s)))\<rparr>"
proof -
  define e1 where "e1 = e\<lparr>ax_started_at := Some now, ax_status := ''running''\<rparr>"
  define s1 where "s1 = on_executions (update_execution no_faults e1) s"
  have env1: "remedy_env cfg s1 = remedy_env cfg s" "rm_verifications s1 = rm_verifications s"
    by (simp_all add: remedy_env_def s1_def)
  have inc: "get_incident no_faults (inc_id inc) (ve_incidents (remedy_env cfg s)) = Some i"
    using assms(3) by (simp add: remedy_env_def)
  obtain v where v: "start_verification no_faults (remedy_env cfg s1) now (inc_id inc) (ax_id e1) (rm_verifications s1) =
      Inr (v, rm_verifications s @ [v])" "vr_id v = verification_id now" "vr_incident_id v = inc_id inc"
      "vr_before v = Some (capture_snapshot no_faults (remedy_env cfg s) i now)" "vr_proof_items v = []"
    using assms(6) inc by (simp add: start_verification_def env1 Let_def create_verification_def tbl_insert_def)
  define s2 where "s2 = s1\<lparr>rm_verifications := rm_verifications s @ [v]\<rparr>"
  have b: "begin_verification cfg no_faults now inc e1 s1 = (verification_id now, s2)"
    using assms(1) v by (simp add: begin_verification_def s2_def)
  obtain e2 s4 where fin: "run_execution cfg no_faults now later e inc a actor s =
      finish_verification cfg no_faults later (verification_id now) inc a e2 s4"
    and s4: "w_incidents (rm_world s4) = w_incidents (rm_world s2)" "rm_logs s4 = rm_logs s2" "rm_agents s4 = rm_agents s2"
      "rm_verifications s4 = rm_verifications s2"
    using b unfolding run_execution_def Let_def e1_def[symmetric] at_site_no_faults s1_def[symmetric]
    by (simp add: split_beta spawn_def)
  have env4: "remedy_env cfg s4 = remedy_env cfg s" by (simp add: remedy_env_def s4 s2_def s1_def)
  define c where "c = completed_record no_faults (remedy_env cfg s) later i v"
  have find: "tbl_find vr_id (verification_id now) (rm_verifications s4) = Some v"
    using assms(6) v(2) by (simp add: s4 s2_def tbl_find_append tbl_find_None[THEN iffD2])
  have comp: "\<exists>db. complete_verification no_faults (remedy_env cfg s4) later (verification_id now) (rm_verifications s4) = (Inr c, db)"
    using find v(3) inc by (simp add: complete_verification_def get_verification_def env4 c_def Let_def)
  have "vr_auto_close_eligible c"
    using assms(7,8) v(4,5) by (simp add: c_def completed_record_simps resolve_status_resolved count_passed_all)
  moreover have "w_incidents (rm_world (remember cfg no_faults later inc a e2 c x)) = w_incidents (rm_world x)" for x
    by (simp add: remember_def split: sum.split)
  moreover have ne: "verification_id now \<noteq> []" by (simp add: verification_id_def)
  ultimately have "w_incidents (rm_world (run_execution cfg no_faults now later e inc a actor s)) =
      w_incidents (snd (update_status (rc_wiring cfg) no_faults later (inc_id inc) ''resolve'' (rm_world s4)))"
    using comp assms(1,2) by (auto simp: fin finish_verification_def close_if_eligible_def)
  also have "\<dots> = (w_incidents (rm_world s4))\<lparr>db_rows := set_status_rows (inc_id inc) ''resolved'' (db_rows (w_incidents (rm_world s4)))\<rparr>"
    using assms(3-5) by (intro update_status_resolves[where cur = i]) (simp_all add: s4 s2_def s1_def)
  finally show ?thesis by (simp add: s4 s2_def s1_def)
qed

subsection \<open>Commands that change something\<close>

definition changing_stems :: "string list" where
  "changing_stems = [''systemctl restart'', ''systemctl stop'', ''systemctl start'', ''kubectl rollout restart'', ''kubectl scale'']"

lemma safe_prefixes_split: "safe_prefixes = map (\<lambda>p. p @ '' '') changing_stems @ drop 5 safe_prefixes"
  by (simp add: safe_prefixes_def changing_stems_def)

lemma has_prefix_append: "has_prefix (a @ b) c \<Longrightarrow> has_prefix a c \<or> has_prefix c a"
proof (induction a arbitrary: c)
  case (Cons x a)
  then show ?case by (cases c) auto
qed simp

text \<open>No allowlisted prefix is comparable with one of the stems.\<close>

lemma allowlist_lower: "map to_lower observeAllowlist = observeAllowlist"
  by code_simp

lemma stems_not_allowed:
  "list_all (\<lambda>stem. list_all (\<lambda>p. \<not> has_prefix stem p \<and> \<not> has_prefix p stem) observeAllowlist) changing_stems"
  by (simp add: observeAllowlist_def changing_stems_def)

lemma stem_not_forwardable:
  assumes "stem \<in> set changing_stems" and "has_prefix (to_lower cmd) stem"
  shows "\<not> in_allowlist cmd"
proof
  assume "in_allowlist cmd"
  then obtain p where p: "p \<in> set observeAllowlist" "has_prefix (to_lower cmd) (to_lower p)"
    by (auto simp: in_allowlist_def)
  from assms(2) obtain t where "to_lower cmd = stem @ t" by (auto simp: has_prefix_iff)
  with p(2) have "has_prefix stem (to_lower p) \<or> has_prefix (to_lower p) stem" using has_prefix_append by simp
  moreover have "to_lower p = p" using allowlist_lower p(1) by (metis map_idI map_eq_conv list.map_id0 id_apply list.map_ident)
  ultimately show False using stems_not_allowed assms(1) p(1) by (auto simp: list_all_iff)
qed

lemma dropWhile_rev_keep:
  assumes "t \<noteq> []" and "\<not> p (last t)"
  shows "\<exists>w. rev (dropWhile p (rev (t @ u))) = t @ w"
proof (cases "\<forall>c \<in> set u. p c")
  case True
  then have "\<And>c. c \<in> set (rev u) \<Longrightarrow> p c" by simp
  then have "dropWhile p (rev (t @ u)) = dropWhile p (rev t)" by (simp only: rev_append dropWhile_append2)
  also have "\<dots> = rev t" using assms by (intro dropWhile_keep) (simp add: hd_rev)
  finally show ?thesis by simp
next
  case False
  then obtain c where "c \<in> set (rev u)" "\<not> p c" by auto
  then have "dropWhile p (rev (t @ u)) = dropWhile p (rev u) @ rev t" by (simp add: dropWhile_append1)
  then show ?thesis by simp
qed

lemma trim_ends:
  assumes "t \<noteq> []" "\<not> p (hd t)" "\<not> p (last t)"
  shows "\<exists>w. rev (dropWhile p (rev (dropWhile p (t @ u)))) = t @ w"
proof -
  have "dropWhile p (t @ u) = t @ u" using assms by (intro dropWhile_keep) simp
  with dropWhile_rev_keep[of t p u] assms(1,3) show ?thesis by metis
qed

lemma cut_command_prefix:
  assumes "t \<noteq> []" "\<not> is_space (hd t)" "\<not> is_space (last t)" "\<forall>c \<in> set t. c \<noteq> CHR 0x0A \<and> c \<noteq> CHR 0x0D"
    "length t < 200"
  shows "\<exists>w. trim_space (cut_command (t @ u)) = t @ w"
proof -
  have "\<not> (hd t = CHR '' '' \<or> hd t = CHR 0x09)" "\<not> (last t = CHR '' '' \<or> last t = CHR 0x09)"
    using assms(2,3) by (auto simp: is_space_def)
  then obtain w where w: "trim_blanks (t @ u) = t @ w"
    using trim_ends[of t "\<lambda>c. c = CHR '' '' \<or> c = CHR 0x09" u] assms(1) by (auto simp: trim_blanks_def Let_def)
  have "\<exists>v. cut_command (t @ u) = t @ v"
    using assms(4,5) by (auto simp: cut_command_def Let_def w takeWhile_append2)
  then obtain v where v: "cut_command (t @ u) = t @ v" ..
  show ?thesis
    using trim_ends[of t is_space v] assms(1-3) by (simp add: v trim_space_def trim_left_def)
qed

lemma stems_shape:
  "list_all (\<lambda>s. s \<noteq> [] \<and> \<not> is_space (hd s) \<and> \<not> is_space (last s) \<and>
     list_all (\<lambda>c. c \<noteq> CHR 0x0A \<and> c \<noteq> CHR 0x0D) s \<and> length s < 200) changing_stems"
  by (simp add: changing_stems_def is_space_def)

lemma changing_command_kept:
  assumes "stem \<in> set changing_stems" and "has_prefix (to_lower text) stem"
  shows "has_prefix (to_lower (trim_space (cut_command text))) stem"
proof -
  obtain r where r: "to_lower text = stem @ r" using assms(2) by (auto simp: has_prefix_iff)
  define t u where "t = take (length stem) text" and "u = drop (length stem) text"
  have t: "to_lower t = stem" using r by (simp add: t_def to_lower_def take_map[symmetric])
  have sh: "stem \<noteq> []" "\<not> is_space (hd stem)" "\<not> is_space (last stem)"
      "\<forall>c \<in> set stem. c \<noteq> CHR 0x0A \<and> c \<noteq> CHR 0x0D" "length stem < 200"
    using stems_shape assms(1) by (auto simp: list_all_iff)
  have ne: "t \<noteq> []" using t sh(1) by auto
  then have ends: "\<not> is_space (hd t)" "\<not> is_space (last t)"
    using sh(2,3) unfolding t[symmetric] by (simp_all add: to_lower_def hd_map last_map)
  have nl: "\<forall>c \<in> set t. c \<noteq> CHR 0x0A \<and> c \<noteq> CHR 0x0D"
  proof
    fix c assume "c \<in> set t"
    then have "lower_char c \<in> set stem" unfolding t[symmetric] by (simp add: to_lower_def)
    with sh(4) have "lower_char c \<noteq> CHR 0x0A \<and> lower_char c \<noteq> CHR 0x0D" by blast
    then show "c \<noteq> CHR 0x0A \<and> c \<noteq> CHR 0x0D" by (auto simp: lower_char_def is_upper_def)
  qed
  have "length t < 200" using sh(5) unfolding t[symmetric] by simp
  then obtain w where "trim_space (cut_command (t @ u)) = t @ w" using cut_command_prefix[OF ne ends nl] by blast
  then have "trim_space (cut_command text) = t @ w" by (simp add: t_def u_def)
  then show ?thesis by (simp add: t has_prefix_iff)
qed

lemma changing_command_blocked:
  "stem \<in> set changing_stems \<Longrightarrow> has_prefix (to_lower text) stem \<Longrightarrow>
   \<not> pd_allowed (evaluate_command (cut_command text) ty approved)"
  using stem_not_forwardable[OF _ changing_command_kept]
  by (simp add: evaluate_command_allowed_iff forwardable_def)

lemma cut_command_nonempty:
  assumes "stem \<in> set changing_stems" and "has_prefix (to_lower text) stem"
  shows "cut_command text \<noteq> []"
proof
  assume "cut_command text = []"
  then have "trim_space (cut_command text) = []" by (simp add: trim_space_def trim_left_def)
  with changing_command_kept[OF assms] have "has_prefix [] stem" by simp
  with assms(1) stems_shape show False by (auto simp: list_all_iff has_prefix_iff)
qed

lemma command_in_changing:
  assumes "stem \<in> set changing_stems" and "contains_str (to_lower text) (stem @ '' '')"
  shows "\<exists>stem' i. stem' \<in> set changing_stems \<and> command_in text = Some (cut_command (drop i text)) \<and>
    has_prefix (to_lower (drop i text)) stem'"
proof -
  let ?f = "\<lambda>p. index_str (to_lower text) p \<noteq> None"
  have "?f (stem @ '' '')" using assms(2) by (simp add: index_contains)
  with assms(1) have "filter ?f (map (\<lambda>p. p @ '' '') changing_stems) \<noteq> []" by (auto simp: filter_empty_conv)
  then obtain p ps where p: "filter ?f (map (\<lambda>p. p @ '' '') changing_stems) = p # ps"
    by (cases "filter ?f (map (\<lambda>p. p @ '' '') changing_stems)") auto
  then have f: "filter ?f safe_prefixes = p # (ps @ filter ?f (drop 5 safe_prefixes))"
    by (subst safe_prefixes_split) (simp only: filter_append append_Cons)
  have "p \<in> set (filter ?f (map (\<lambda>p. p @ '' '') changing_stems))" by (simp only: p list.set_intros)
  then obtain stem' i where i: "stem' \<in> set changing_stems" "p = stem' @ '' ''" "index_str (to_lower text) p = Some i"
    by auto
  then have "has_prefix (drop i (to_lower text)) (stem' @ '' '')" using index_str_Some by metis
  then have "has_prefix (to_lower (drop i text)) stem'" by (auto simp: has_prefix_iff to_lower_def drop_map)
  moreover have "command_in text = Some (cut_command (drop i text))"
    using f i(3) by (simp add: command_in_def)
  ultimately show ?thesis using i(1) by blast
qed

section \<open>Properties\<close>

text \<open>C19: what the automatic remediation sends to agents. A trigger sends at most one command. It
  sends one only for a critical or high incident with a completed analysis of confidence 90 or more,
  when the policy engine allows the mode \<open>auto\<close> for the remediation chosen; the command then passes
  the command gate, and the host is healthy. When the server itself runs an agent, that agent is used,
  whatever the tenant; otherwise the host is that of an active agent of the incident's tenant. This
  holds whatever statements fail and whatever agents answer.\<close>

theorem trigger_calls_gated:
  "let s' = trigger_remediation cfg flt now later inc rca s in
   rm_calls s' = rm_calls s \<or>
   (\<exists>h c a v. rm_calls s' = rm_calls s @ [(h, c)] \<and> rca = Some v \<and> 90 \<le> v \<and>
      inc_severity inc \<in> {''critical'', ''high''} \<and> chosen_remediation (rc_kb cfg) inc = Some a \<and>
      ed_allowed (fst (evaluate (rc_zones cfg) (rc_trailed cfg) flt now (remediation_context inc a) (rm_policy s))) \<and>
      ed_execution_mode (fst (evaluate (rc_zones cfg) (rc_trailed cfg) flt now (remediation_context inc a) (rm_policy s))) = ''auto'' \<and>
      forwardable c \<and> agent_host_ok cfg (inc_tenant_id inc) (rm_agents s) h)"
proof (cases "chosen_remediation (rc_kb cfg) inc")
  case None
  then show ?thesis by (simp add: trigger_remediation_def Let_def)
next
  case (Some a)
  obtain d pdb where ev: "evaluate (rc_zones cfg) (rc_trailed cfg) flt now (remediation_context inc a) (rm_policy s) = (d, pdb)"
    by (cases "evaluate (rc_zones cfg) (rc_trailed cfg) flt now (remediation_context inc a) (rm_policy s)")
  let ?e = "planned_execution now inc a d (auto_approved d rca)"
  let ?s' = "trigger_remediation cfg flt now later inc rca s"
  show ?thesis
  proof (cases "rm_calls ?s' = rm_calls s")
    case False
    then have sev: "inc_severity inc \<in> {''critical'', ''high''}"
      by (auto simp: trigger_remediation_def split: if_splits)
    obtain db where db: "create_execution flt ?e (pdb_executions pdb) = Inr db" and auto: "auto_approved d rca"
      and run: "?s' = run_execution cfg flt now later ?e inc a ''system:orchestrator''
          (s\<lparr>rm_policy := pdb\<lparr>pdb_executions := db\<rparr>\<rparr>)"
      using False Some ev sev
      by (auto simp: trigger_remediation_def request_approval_def Let_def split: if_splits sum.splits)
    let ?s2 = "s\<lparr>rm_policy := pdb\<lparr>pdb_executions := db\<rparr>\<rparr>"
    obtain st out calls where c: "run_on_agent cfg flt (inc_tenant_id inc)
          (extract_orchestrator_command (act_label a) (act_description a)) (act_type a) (rm_agents ?s2) = (st, out, calls)"
        "rm_calls ?s' = rm_calls ?s2 @ calls"
      using run_execution_calls unfolding run by blast
    with False have "calls \<noteq> []" by auto
    with run_on_agent_calls[OF c(1)] c(2) obtain h cmd where h: "rm_calls ?s' = rm_calls s @ [(h, cmd)]"
        "forwardable cmd" "agent_host_ok cfg (inc_tenant_id inc) (rm_agents s) h" by auto
    from auto obtain v where "rca = Some v" "90 \<le> v" "ed_allowed d" "ed_execution_mode d = ''auto''"
      by (auto simp: auto_approved_def split: option.splits)
    with sev Some ev h show ?thesis by (auto simp: Let_def)
  qed simp
qed

text \<open>What the automatic close rests on. When running an execution changes an incident in any
  way, the logs are wired in and hold no error of the incident's service in the five minutes before
  the agent answered, the newest metric of the tenant's agent is below both thresholds, and the last
  event of the incident is more than thirty minutes old.\<close>

theorem auto_close_rests_on_evidence:
  assumes "w_incidents (rm_world (run_execution cfg flt now later e inc a actor s)) \<noteq> w_incidents (rm_world s)"
  shows "\<exists>i logs agents m. get_incident (at_site ''complete'' flt) (inc_id inc) (w_incidents (rm_world s)) = Some i \<and>
     rm_logs s = Some logs \<and>
     (\<forall>x \<in> set (ldb_rows logs). \<not> log_where (error_query i (later - 5 * minute) 1) x) \<and>
     rm_agents s = Some agents \<and>
     latest_metric (at_site ''check'' (at_site ''complete'' flt)) (remedy_env cfg s) agents (inc_tenant_id i) = Some (Some m) \<and>
     float_less (num_or_zero m ''cpu_percent'') (Fin 85) \<and> float_less (num_or_zero m ''memory_percent'') (Fin 90) \<and>
     30 * minute < later - inc_last_event_time i"
  by (rule close_evidence[OF assms])

definition sample_wiring :: wiring where
  "sample_wiring = \<lparr>wi_mutes = False, wi_auto_close = False, wi_auto_resolve = False, wi_health = False, wi_history = False,
     wi_onboarding = False, wi_whatsapp = False, wi_push = False, wi_slack = False, wi_orchestrator = True,
     wi_impact = False, wi_memory = False\<rparr>"

definition sample_remedy :: remedy_config where
  "sample_remedy = \<lparr>rc_zones = (\<lambda>_. None), rc_trailed = True, rc_kb = None, rc_wiring = sample_wiring, rc_slack_ready = True,
     rc_verification = True, rc_memory = True, rc_incident_service = True, rc_show_time = show_int,
     rc_healthy = (\<lambda>h. h = ''localhost''), rc_execute = (\<lambda>h c. AgentReply ''ok'' [])\<rparr>"

definition open_incident :: Incident where "open_incident = sample_incident\<lparr>inc_status := ''open''\<rparr>"

definition sample_state :: remedy_state where
  "sample_state = \<lparr>rm_world = empty_world\<lparr>w_incidents := \<lparr>db_rows = [open_incident], db_links = [], db_slack = []\<rparr>\<rparr>,
     rm_policy = \<lparr>pdb_policies = [], pdb_breakers = [], pdb_trail = [], pdb_executions = []\<rparr>,
     rm_verifications = [], rm_memory = [],
     rm_logs = Some \<lparr>ldb_rows = [(sample_log ''t1'' ''api'')\<lparr>le_event_category := ''error''\<rparr>], ldb_next = 2\<rparr>,
     rm_agents = Some sample_metric_agents, rm_calls = [], rm_slack = []\<rparr>"

definition sample_action :: Action where
  "sample_action = action ''a'' ''check'' ''Run uptime'' ''remediation'' [] ''medium'' True"

lemma sample_env_simps:
  "ve_incidents (remedy_env sample_remedy sample_state) = \<lparr>db_rows = [open_incident], db_links = [], db_slack = []\<rparr>"
  "ve_logs (remedy_env sample_remedy sample_state) =
     Some \<lparr>ldb_rows = [(sample_log ''t1'' ''api'')\<lparr>le_event_category := ''error''\<rparr>], ldb_next = 2\<rparr>"
  "ve_agents (remedy_env sample_remedy sample_state) = Some sample_metric_agents"
  "w_incidents (rm_world sample_state) = \<lparr>db_rows = [open_incident], db_links = [], db_slack = []\<rparr>"
  "rm_verifications sample_state = []"
  by (simp_all add: remedy_env_def sample_state_def)

lemma open_incident_simps [simp]:
  "inc_id open_incident = ''i1''" "inc_service open_incident = ''api''" "inc_tenant_id open_incident = ''t1''"
  "inc_last_event_time open_incident = 0" "inc_confidence open_incident = 60" "inc_status open_incident = ''open''"
  "inc_event_ids open_incident = []"
  by (simp_all add: open_incident_def sample_incident_def incident_zero_def)

lemma sample_run_facts:
  shows "rc_verification sample_remedy" "rc_incident_service sample_remedy"
    "get_incident no_faults (inc_id open_incident) (w_incidents (rm_world sample_state)) = Some open_incident"
    "inc_id open_incident \<noteq> []" "trim_space (inc_id open_incident) = inc_id open_incident"
    "\<not> tbl_has vr_id (verification_id minute) (rm_verifications sample_state)"
    "\<forall>c \<in> set (completed_checks no_faults (remedy_env sample_remedy sample_state) (100 * minute) open_incident
           (Some (capture_snapshot no_faults (remedy_env sample_remedy sample_state) open_incident minute))
           (capture_snapshot no_faults (remedy_env sample_remedy sample_state) open_incident (100 * minute))).
       vc_status c = ''passed''"
    "has_improved (derive_proof_items
       (Some (capture_snapshot no_faults (remedy_env sample_remedy sample_state) open_incident minute))
       (capture_snapshot no_faults (remedy_env sample_remedy sample_state) open_incident (100 * minute)))"
proof -
  let ?env = "remedy_env sample_remedy sample_state"
  let ?b = "capture_snapshot no_faults ?env open_incident minute"
  let ?a = "capture_snapshot no_faults ?env open_incident (100 * minute)"
  show "get_incident no_faults (inc_id open_incident) (w_incidents (rm_world sample_state)) = Some open_incident"
    by (simp add: get_incident_no_faults sample_env_simps with_events_def event_ids_of_def)
  have hit: "sql_like ''%api%'' ''api''" "to_lower ''api'' = ''api''" by code_simp+
  have errors: "vs_error_count ?b = 1" "vs_error_count ?a = 0"
    by (simp_all add: capture_snapshot_def Let_def sample_env_simps query_logs_def error_query_def log_where_def
        sample_log_def hit duration_defs)
  have "vc_status (check_no_new_errors no_faults ?env (100 * minute) open_incident) = ''passed''"
    unfolding no_new_errors_passed
    by (simp add: sample_env_simps error_query_def log_where_def sample_log_def duration_defs)
  moreover have "\<exists>m. latest_metric no_faults ?env sample_metric_agents ''t1'' = Some (Some m) \<and>
      map_of m ''cpu_percent'' = Some (JNum 40) \<and> map_of m ''memory_percent'' = Some (JNum 50)"
    by (simp add: latest_metric_def get_agents_def get_recent_metrics_def sample_metric_agents_def
        clamp_limit_def order_desc_def set_key_def)
  then have "vc_status (check_metric_stable no_faults ?env open_incident) = ''passed''"
    unfolding metric_stable_passed by (auto simp: sample_env_simps num_or_zero_def)
  moreover have "vc_status (check_incident_age (100 * minute) open_incident) = ''passed''"
    unfolding incident_age_passed by (simp add: duration_defs zero_time_def)
  ultimately show "\<forall>c \<in> set (completed_checks no_faults ?env (100 * minute) open_incident (Some ?b) ?a). vc_status c = ''passed''"
    by (simp add: completed_checks_def confidence_passed)
  show "has_improved (derive_proof_items (Some ?b) ?a)"
    by (simp add: derive_proof_items_def has_improved_def errors)
  show "rc_verification sample_remedy" "rc_incident_service sample_remedy" by (simp_all add: sample_remedy_def)
  show "inc_id open_incident \<noteq> []" "\<not> tbl_has vr_id (verification_id minute) (rm_verifications sample_state)"
    by (simp_all add: sample_env_simps tbl_has_def)
  have "trim_space ''i1'' = ''i1''" by code_simp
  then show "trim_space (inc_id open_incident) = inc_id open_incident" by simp
qed

lemma sample_run_resolves:
  "w_incidents (rm_world (run_execution sample_remedy no_faults minute (100 * minute) e open_incident a actor sample_state)) =
     \<lparr>db_rows = [open_incident\<lparr>inc_status := ''resolved''\<rparr>], db_links = [], db_slack = []\<rparr>"
  using run_execution_resolves[OF sample_run_facts, of e a actor]
  by (simp add: sample_env_simps set_status_rows_def)

lemma resolved_not_open: "open_incident\<lparr>inc_status := ''resolved''\<rparr> \<noteq> open_incident"
  by (auto dest: arg_cong[of _ _ inc_status])

theorem auto_close_rests_on_evidence_witness:
  "w_incidents (rm_world (run_execution sample_remedy no_faults minute (100 * minute) execution_zero open_incident
      sample_action ''ann'' sample_state)) \<noteq> w_incidents (rm_world sample_state) \<and>
   (\<exists>agents m. latest_metric no_faults (remedy_env sample_remedy sample_state) agents ''t1'' = Some (Some m) \<and>
      float_less (num_or_zero m ''cpu_percent'') (Fin 85))"
proof -
  have c: "w_incidents (rm_world (run_execution sample_remedy no_faults minute (100 * minute) execution_zero open_incident
      sample_action ''ann'' sample_state)) \<noteq> w_incidents (rm_world sample_state)"
    using resolved_not_open by (simp add: sample_run_resolves sample_env_simps)
  obtain i agents m where e: "get_incident no_faults (inc_id open_incident) (w_incidents (rm_world sample_state)) = Some i"
      "latest_metric no_faults (remedy_env sample_remedy sample_state) agents (inc_tenant_id i) = Some (Some m)"
      "float_less (num_or_zero m ''cpu_percent'') (Fin 85)"
    using auto_close_rests_on_evidence[OF c] unfolding at_site_no_faults by blast
  then have "i = open_incident" using sample_run_facts(3) by simp
  with e(2,3) c show ?thesis by auto
qed

text \<open>C20: a remedied incident is closed. With verification and the incident service wired in and no
  failing statement, running an execution sets the status of its incident to \<open>resolved\<close> and changes
  no other row, whenever every check passes once the agent has answered and the two snapshots show
  an improvement.\<close>

theorem remedied_incident_closed:
  assumes "rc_verification cfg" "rc_incident_service cfg"
    and "get_incident no_faults (inc_id inc) (w_incidents (rm_world s)) = Some i"
    and "inc_id inc \<noteq> []" "trim_space (inc_id inc) = inc_id inc"
    and "\<not> tbl_has vr_id (verification_id now) (rm_verifications s)"
    and "\<forall>c \<in> set (completed_checks no_faults (remedy_env cfg s) later i
           (Some (capture_snapshot no_faults (remedy_env cfg s) i now))
           (capture_snapshot no_faults (remedy_env cfg s) i later)). vc_status c = ''passed''"
    and "has_improved (derive_proof_items (Some (capture_snapshot no_faults (remedy_env cfg s) i now))
           (capture_snapshot no_faults (remedy_env cfg s) i later))"
  shows "w_incidents (rm_world (run_execution cfg no_faults now later e inc a actor s)) =
    (w_incidents (rm_world s))\<lparr>db_rows := set_status_rows (inc_id inc) ''resolved'' (db_rows (w_incidents (rm_world s)))\<rparr>"
  by (rule run_execution_resolves[OF assms])

theorem remedied_incident_closed_witness:
  "map inc_status (db_rows (w_incidents (rm_world (run_execution sample_remedy no_faults minute (100 * minute) execution_zero
     open_incident sample_action ''ann'' sample_state)))) = [''resolved'']"
  using remedied_incident_closed[OF sample_run_facts, of execution_zero sample_action "''ann''"]
  by (simp add: sample_env_simps set_status_rows_def)

text \<open>What the automatic remediation cannot do. Whenever the label of an action contains one of
  the commands that change something (restart, stop or start a unit, restart or scale a deployment),
  or the description does and the label has no command at all, the command taken from it is refused
  by the command gate: the execution ends as \<open>policy_blocked\<close> and nothing is sent.\<close>

theorem changing_commands_never_sent:
  assumes "stem \<in> set changing_stems"
    and "contains_str (to_lower label) (stem @ '' '') \<or> command_in label = None \<and> contains_str (to_lower desc) (stem @ '' '')"
  shows "\<exists>why. run_on_agent cfg flt tenant (extract_orchestrator_command label desc) ty agents = (''policy_blocked'', why, [])"
proof -
  obtain tx where t: "extract_orchestrator_command label desc = (case command_in tx of Some c \<Rightarrow> c | None \<Rightarrow> [])"
      "contains_str (to_lower tx) (stem @ '' '')"
  proof (cases "contains_str (to_lower label) (stem @ '' '')")
    case True
    moreover obtain c where "command_in label = Some c" using command_in_changing[OF assms(1) True] by blast
    ultimately show thesis using that[of label] by (simp add: extract_orchestrator_command_def)
  next
    case False
    with assms(2) show thesis using that[of desc] by (simp add: extract_orchestrator_command_def)
  qed
  from command_in_changing[OF assms(1) t(2)] obtain stem' i where i: "stem' \<in> set changing_stems"
      "command_in tx = Some (cut_command (drop i tx))" "has_prefix (to_lower (drop i tx)) stem'" by blast
  let ?c = "cut_command (drop i tx)"
  have x: "extract_orchestrator_command label desc = ?c" using t(1) i(2) by simp
  have no: "\<not> pd_allowed (evaluate_command ?c ty True)" using changing_command_blocked[OF i(1,3)] .
  have "?c \<noteq> []" using cut_command_nonempty[OF i(1,3)] .
  with no show ?thesis unfolding x by (simp add: run_on_agent_def Let_def)
qed

theorem changing_commands_never_sent_witness:
  "\<exists>why. run_on_agent sample_remedy no_faults ''t1'' (extract_orchestrator_command ''Systemctl Restart nginx'' [])
     ''remediation'' None = (''policy_blocked'', why, [])"
proof (rule changing_commands_never_sent)
  show "''systemctl restart'' \<in> set changing_stems" by (simp add: changing_stems_def)
  have "contains_str (to_lower ''Systemctl Restart nginx'') (''systemctl restart'' @ '' '')" by code_simp
  then show "contains_str (to_lower ''Systemctl Restart nginx'') (''systemctl restart'' @ '' '') \<or>
    command_in ''Systemctl Restart nginx'' = None \<and> contains_str (to_lower []) (''systemctl restart'' @ '' '')" ..
qed

text \<open>A denial is not final. When the policy engine denies the remediation of an incident, no one
  is asked for an approval, but an execution waiting for one is stored all the same, and approving it
  later runs it.\<close>

theorem denied_remediation_can_run:
  assumes "inc_severity inc \<in> {''critical'', ''high''}" and "chosen_remediation (rc_kb cfg) inc = Some a"
    and "\<not> ed_allowed (fst (evaluate (rc_zones cfg) (rc_trailed cfg) no_faults now (remediation_context inc a) (rm_policy s)))"
    and "\<not> tbl_has ax_id (''exec-'' @ show_int now) (pdb_executions (rm_policy s))"
    and "get_incident no_faults (inc_id inc) (w_incidents (rm_world s)) = Some i"
  shows "let s' = trigger_remediation cfg no_faults now later inc rca s in
    rm_slack s' = rm_slack s \<and>
    (\<exists>e. tbl_find ax_id (''exec-'' @ show_int now) (pdb_executions (rm_policy s')) = Some e \<and>
       ax_status e = ''pending_approval'' \<and> ax_approval_status e = ''pending'' \<and>
       fst (execute_approved_action cfg no_faults t1 t2 (''exec-'' @ show_int now) user s') = Inr ())"
proof -
  obtain d pdb where ev: "evaluate (rc_zones cfg) (rc_trailed cfg) no_faults now (remediation_context inc a) (rm_policy s) = (d, pdb)"
    by (cases "evaluate (rc_zones cfg) (rc_trailed cfg) no_faults now (remediation_context inc a) (rm_policy s)")
  then have ex: "pdb_executions pdb = pdb_executions (rm_policy s)"
    using evaluate_executions by (metis snd_conv)
  have den: "\<not> ed_allowed d" "\<not> auto_approved d rca" using assms(3) ev by (simp_all add: auto_approved_def)
  define e where "e = planned_execution now inc a d False"
  have e: "ax_id e = ''exec-'' @ show_int now" "ax_status e = ''pending_approval''" "ax_approval_status e = ''pending''"
      "ax_incident_id e = inc_id inc" by (simp_all add: e_def planned_execution_def)
  define s' where "s' = s\<lparr>rm_policy := pdb\<lparr>pdb_executions := pdb_executions (rm_policy s) @ [e]\<rparr>\<rparr>"
  have "create_execution no_faults e (pdb_executions (rm_policy s)) = Inr (pdb_executions (rm_policy s) @ [e])"
    using assms(4) by (simp add: create_execution_def tbl_insert_Inr e)
  then have run: "trigger_remediation cfg no_faults now later inc rca s = s'"
    using assms(1,2) ev den ex
    by (auto simp: trigger_remediation_def Let_def request_approval_def e_def s'_def)
  have find: "tbl_find ax_id (''exec-'' @ show_int now) (pdb_executions (rm_policy s')) = Some e"
    using assms(4) by (simp add: s'_def tbl_find_append tbl_find_None[THEN iffD2] e)
  have "fst (execute_approved_action cfg no_faults t1 t2 (''exec-'' @ show_int now) user s') = Inr ()"
    using assms(5) find e by (simp add: execute_approved_action_def get_execution_def approve_execution_def Let_def s'_def)
  with find e show ?thesis by (simp add: run Let_def s'_def)
qed

definition grave_incident :: Incident where
  "grave_incident = open_incident\<lparr>inc_severity := ''critical'', inc_impact_count := 5,
     inc_correlation_pattern := ''database_issue''\<rparr>"

definition denying_state :: remedy_state where
  "denying_state = sample_state\<lparr>
     rm_policy := \<lparr>pdb_policies = [policy_zero\<lparr>po_id := ''p'', po_tenant_id := ''t1'', po_enabled := True,
         po_execution_mode := ''auto'', po_max_impacted_services := 1\<rparr>],
       pdb_breakers = [], pdb_trail = [], pdb_executions = []\<rparr>\<rparr>"

lemma grave_chosen: "chosen_remediation None grave_incident \<noteq> None"
proof -
  have "list_ex (\<lambda>a. act_type a = ''remediation'')
      (deduplicate_actions (proposed_actions None grave_incident ''database_failure''))" by code_simp
  moreover have "in_incident_type (build_insight (inc_correlation_pattern grave_incident) grave_incident) = ''database_failure''"
    by (simp add: grave_incident_def build_insight_def Let_def)
  ultimately show ?thesis by (auto simp: chosen_remediation_def build_actions_eq find_None_iff list_ex_iff)
qed

lemma grave_denied:
  "\<not> ed_allowed (fst (evaluate (\<lambda>_. None) True no_faults 0 (remediation_context grave_incident a) (rm_policy denying_state)))"
  by code_simp

theorem denied_remediation_can_run_witness:
  "let s' = trigger_remediation sample_remedy no_faults 0 0 grave_incident None denying_state in
     rm_slack s' = [] \<and>
     fst (execute_approved_action sample_remedy no_faults minute (2 * minute) (''exec-'' @ show_int 0) ''ann'' s') = Inr ()"
proof -
  obtain a where a: "chosen_remediation (rc_kb sample_remedy) grave_incident = Some a"
    using grave_chosen by (auto simp: sample_remedy_def)
  have inc: "get_incident no_faults (inc_id grave_incident) (w_incidents (rm_world denying_state)) = Some open_incident"
    using sample_run_facts(3) by (simp add: grave_incident_def denying_state_def)
  have sev: "inc_severity grave_incident \<in> {''critical'', ''high''}" by (simp add: grave_incident_def)
  have fresh: "\<not> tbl_has ax_id (''exec-'' @ show_int 0) (pdb_executions (rm_policy denying_state))"
    by (simp add: denying_state_def tbl_has_def)
  have den: "\<not> ed_allowed (fst (evaluate (rc_zones sample_remedy) (rc_trailed sample_remedy) no_faults 0
      (remediation_context grave_incident a) (rm_policy denying_state)))"
    using grave_denied by (simp add: sample_remedy_def)
  have "rm_slack denying_state = []" by (simp add: denying_state_def sample_state_def)
  with denied_remediation_can_run[OF sev a den fresh inc, of 0 None minute "2 * minute" "''ann''"] show ?thesis
    unfolding Let_def by metis
qed

definition tail_entry :: KnowledgeEntry where
  "tail_entry = \<lparr>kb_id = ''disk-full'', kb_category = ''system'', kb_sub_category = ''disk'', kb_keywords = [''disk full''],
     kb_anti_words = [], kb_metric_name = [], kb_severity = ''critical'', kb_root_cause = ''Disk is full'', kb_reasoning = [],
     kb_impact = [], kb_resolution_steps = [''tail -n 50 /var/log/syslog and look for the last restart''], kb_prevention = [],
     kb_base_confidence = 80, kb_base_risk_score = 70\<rparr>"

definition disk_incident :: Incident where
  "disk_incident = open_incident\<lparr>inc_severity := ''critical'', inc_title := ''disk full''\<rparr>"

definition tail_remedy :: remedy_config where
  "tail_remedy = sample_remedy\<lparr>rc_kb := Some (new_knowledge_base [tail_entry]), rc_healthy := (\<lambda>h. h = ''10.0.0.1''),
     rc_verification := False\<rparr>"

definition auto_state :: remedy_state where
  "auto_state = sample_state\<lparr>
     rm_policy := \<lparr>pdb_policies = [policy_zero\<lparr>po_id := ''p'', po_tenant_id := ''t1'', po_enabled := True,
         po_execution_mode := ''auto''\<rparr>], pdb_breakers = [], pdb_trail = [], pdb_executions = []\<rparr>\<rparr>"

theorem trigger_calls_gated_witness:
  "\<exists>h c. rm_calls (trigger_remediation tail_remedy no_faults 0 0 disk_incident (Some 95) auto_state) = [(h, c)] \<and>
     forwardable c \<and> agent_host_ok tail_remedy ''t1'' (Some sample_metric_agents) h"
proof -
  have "rm_calls (trigger_remediation tail_remedy no_faults 0 0 disk_incident (Some 95) auto_state) \<noteq> []" by code_simp
  moreover have "rm_calls auto_state = []" "rm_agents auto_state = Some sample_metric_agents"
    "inc_tenant_id disk_incident = ''t1''" by (simp_all add: auto_state_def sample_state_def disk_incident_def)
  ultimately show ?thesis
    using trigger_calls_gated[of tail_remedy no_faults 0 0 disk_incident "Some 95" auto_state] by (auto simp: Let_def)
qed

end
