(* ===== verification/ActionApi.thy ===== *)
theory ActionApi
  imports Orchestrator
begin

text \<open>
  The actions an operator runs and decides over HTTP: \<open>internal/handlers/action_handler.go\<close> with
  \<open>internal/store/action_audit_store.go\<close>, and \<open>internal/handlers/action_execution_handler.go\<close>.
  A request is the record of what the handler reads from it; decoding JSON and routing are outside.
  What \<open>audit.Log\<close> writes is recorded as in the other theories.
\<close>

section \<open>The audit of actions\<close>

record ActionAudit =
  aa_id :: int
  aa_action_id :: string
  aa_incident_id :: string
  aa_approved :: bool
  aa_status :: string
  aa_message :: string
  aa_executed_at :: string
  aa_actor_id :: string
  aa_tenant_id :: string
  aa_source_ip :: string
  aa_command :: string
  aa_action_type :: string
  aa_risk_level :: string
  aa_execution_mode :: string
  aa_policy_reason :: string

record audit_db =
  adb_rows :: "ActionAudit list"
  adb_next :: int

definition add_audit :: "faults \<Rightarrow> ActionAudit \<Rightarrow> audit_db \<Rightarrow> audit_db result" where
  "add_audit flt a db = guard_db flt ''AddAudit''
     (Inr \<lparr>adb_rows = adb_rows db @ [a\<lparr>aa_id := adb_next db\<rparr>], adb_next = adb_next db + 1\<rparr>)"

text \<open>\<open>executed_at\<close> is text: newest first is the descending bytewise order.\<close>

fun text_less :: "string \<Rightarrow> string \<Rightarrow> bool" where
  "text_less [] t = (t \<noteq> [])"
| "text_less (c # s) [] = False"
| "text_less (c # s) (d # t) = (of_char c < (of_char d :: nat) \<or> c = d \<and> text_less s t)"

fun insert_newest :: "ActionAudit \<Rightarrow> ActionAudit list \<Rightarrow> ActionAudit list" where
  "insert_newest a [] = [a]"
| "insert_newest a (b # bs) =
    (if text_less (aa_executed_at a) (aa_executed_at b) then b # insert_newest a bs else a # b # bs)"

definition newest_first :: "ActionAudit list \<Rightarrow> ActionAudit list" where
  "newest_first as = foldr insert_newest as []"

definition audits_by_incident :: "faults \<Rightarrow> string \<Rightarrow> string \<Rightarrow> audit_db \<Rightarrow> ActionAudit list" where
  "audits_by_incident flt tenant incidentID db =
    (if flt ''GetAuditsByIncident'' then []
     else newest_first (filter (\<lambda>a. aa_tenant_id a = tenant \<and> aa_incident_id a = incidentID) (adb_rows db)))"

definition audits_by_tenant :: "faults \<Rightarrow> string \<Rightarrow> int \<Rightarrow> audit_db \<Rightarrow> ActionAudit list" where
  "audits_by_tenant flt tenant limit db =
    (if flt ''GetAuditsByTenant'' then []
     else take (nat (if limit \<le> 0 then 50 else limit)) (newest_first (filter (\<lambda>a. aa_tenant_id a = tenant) (adb_rows db))))"

section \<open>Running an action\<close>

text \<open>The answer of an agent to this handler: no connection, a body that ends early or does not parse
  (each with the error text), or the fields \<open>status\<close>, \<open>output\<close>, \<open>error\<close>.\<close>

datatype exec_reply = ExecDown string | ExecCut string | ExecBad string | ExecReply string string string

record action_config =
  ah_healthy :: "string \<Rightarrow> bool"
  ah_execute :: "string \<Rightarrow> string \<Rightarrow> exec_reply"
  ah_show_time :: "time \<Rightarrow> string"
  ah_audited :: bool                       \<comment> \<open>an audit store is wired in\<close>

record action_request =
  ar_claims :: "(string \<times> string) option"  \<comment> \<open>user and tenant of the JWT\<close>
  ar_forwarded_for :: string               \<comment> \<open>header \<open>X-Forwarded-For\<close>\<close>
  ar_remote_addr :: string
  ar_action_id :: string
  ar_incident :: string
  ar_label :: string
  ar_description :: string
  ar_type :: string
  ar_risk_level :: string
  ar_approved :: bool

record action_state =
  as_agents :: "agent_db option"
  as_audits :: audit_db
  as_calls :: "(string \<times> string) list"
  as_platform :: "async_effect list"       \<comment> \<open>entries of the platform's audit log\<close>

datatype action_response =
    ActionFailed nat string
  | ActionDone string string string        \<comment> \<open>status, output, command\<close>

definition command_prefixes :: "string list" where
  "command_prefixes =
    [''df '', ''du '', ''free '', ''top '', ''uptime'', ''ps aux'', ''ps -ef'',
     ''netstat '', ''ss '', ''ip addr'', ''ip route'',
     ''systemctl status'', ''systemctl is-active'',
     ''docker ps'', ''docker stats'', ''docker system'',
     ''kubectl get'', ''kubectl describe'', ''kubectl logs'', ''kubectl top'',
     ''lsblk'', ''iostat'', ''vmstat'', ''mpstat'',
     ''cat /proc/'', ''cat /var/log/'',
     ''find '', ''ls '', ''tail '', ''head '', ''grep '',
     ''hostname'', ''uname '', ''mount'', ''blkid'',
     ''curl '', ''journalctl '']"

definition colon_prefixes :: "string list" where
  "colon_prefixes =
    [''df'', ''du'', ''free'', ''top'', ''ps'', ''systemctl'', ''docker'', ''kubectl'', ''cat'', ''ls'',
     ''tail'', ''find'', ''curl'', ''journalctl'']"

definition first_line_200 :: "string \<Rightarrow> string" where
  "first_line_200 cmd =
    (let nl = length (takeWhile (\<lambda>c. c \<noteq> CHR 0x0A \<and> c \<noteq> CHR 0x0D) cmd)
     in take 200 (if 0 < nl \<and> nl < length cmd then take nl cmd else cmd))"

definition command_of_text :: "string \<Rightarrow> string option" where
  "command_of_text tx =
    (case filter (\<lambda>p. index_str (to_lower tx) p \<noteq> None) command_prefixes of
       p # _ \<Rightarrow> (case index_str (to_lower tx) p of
           Some i \<Rightarrow> Some (first_line_200 (trim_space (drop i tx))) | None \<Rightarrow> None)
     | [] \<Rightarrow>
        (case index_str tx '': '' of
           None \<Rightarrow> None
         | Some i \<Rightarrow>
            (let rest = trim_space (drop (i + 2) tx) in
             if list_ex (has_prefix (to_lower rest)) colon_prefixes then Some (first_line_200 rest) else None)))"

definition extract_command :: "string \<Rightarrow> string \<Rightarrow> string" where
  "extract_command label desc =
    (case command_of_text label of Some c \<Rightarrow> c
     | None \<Rightarrow> (case command_of_text desc of Some c \<Rightarrow> c | None \<Rightarrow> []))"

definition action_agent_host :: "action_config \<Rightarrow> faults \<Rightarrow> string \<Rightarrow> agent_db option \<Rightarrow> string" where
  "action_agent_host cfg flt tenant agents =
    (case find (ah_healthy cfg) [''localhost'', ''127.0.0.1''] of
       Some h \<Rightarrow> h
     | None \<Rightarrow>
        (case agents of
           None \<Rightarrow> []
         | Some db \<Rightarrow>
            (case get_agents flt tenant 500 0 db of
               Inl _ \<Rightarrow> []
             | Inr as \<Rightarrow>
                (case find (\<lambda>a. ag_status a = ''active'' \<and> ag_host_ip a \<noteq> [] \<and> ah_healthy cfg (ag_host_ip a)) as of
                   None \<Rightarrow> [] | Some a \<Rightarrow> ag_host_ip a))))"

definition execute_on_agent :: "exec_reply \<Rightarrow> string + string" where
  "execute_on_agent r =
    (case r of ExecDown e \<Rightarrow> Inl (''connect to agent: '' @ e)
     | ExecCut e \<Rightarrow> Inl (''read agent response: '' @ e)
     | ExecBad e \<Rightarrow> Inl (''parse agent response: '' @ e)
     | ExecReply status out err \<Rightarrow>
         Inr (if status = ''denied'' then out
              else if err \<noteq> [] then out @ [CHR 0x0A] @ ''(exit error: '' @ err @ '')'' else out))"

definition audit_message :: "string \<Rightarrow> string \<Rightarrow> string \<Rightarrow> string" where
  "audit_message label desc out =
    (let m = label @ ('' '' @ [CHR 0xE2, CHR 0x80, CHR 0x94] @ '' '') @ desc in
     if out = [] then m
     else m @ [CHR 0x0A, CHR 0x0A] @ ''Output:'' @ [CHR 0x0A] @
       (if 500 < length out then take 500 out @ ''... (truncated)'' else out))"

definition extract_source_ip :: "action_request \<Rightarrow> string" where
  "extract_source_ip rq =
    (if ar_forwarded_for rq \<noteq> [] then trim_space (takeWhile (\<lambda>c. c \<noteq> CHR '','') (ar_forwarded_for rq))
     else if CHR '':'' \<in> set (ar_remote_addr rq)
       then rev (tl (dropWhile (\<lambda>c. c \<noteq> CHR '':'') (rev (ar_remote_addr rq))))
       else ar_remote_addr rq)"

definition audit_row :: "action_request \<Rightarrow> string \<Rightarrow> string \<Rightarrow> string \<Rightarrow> string \<Rightarrow> string \<Rightarrow> ActionAudit" where
  "audit_row rq now_text status msg cmd why =
    \<lparr>aa_id = 0, aa_action_id = trim_space (ar_action_id rq), aa_incident_id = trim_space (ar_incident rq),
     aa_approved = ar_approved rq, aa_status = status, aa_message = msg, aa_executed_at = now_text,
     aa_actor_id = (case ar_claims rq of None \<Rightarrow> [] | Some (u, _) \<Rightarrow> u),
     aa_tenant_id = (case ar_claims rq of None \<Rightarrow> [] | Some (_, t) \<Rightarrow> t),
     aa_source_ip = extract_source_ip rq, aa_command = cmd, aa_action_type = ar_type rq,
     aa_risk_level = ar_risk_level rq, aa_execution_mode = classify_action_mode (ar_type rq), aa_policy_reason = why\<rparr>"

definition record_audit :: "action_config \<Rightarrow> faults \<Rightarrow> string \<Rightarrow> ActionAudit \<Rightarrow> action_state \<Rightarrow> action_state" where
  "record_audit cfg flt event a s =
    (let s1 = (if ah_audited cfg then
          (case add_audit flt a (as_audits s) of Inl _ \<Rightarrow> s | Inr db \<Rightarrow> s\<lparr>as_audits := db\<rparr>) else s)
     in s1\<lparr>as_platform := as_platform s1 @ [GoAudit (aa_tenant_id a) (aa_actor_id a) event ''action'' (aa_action_id a)]\<rparr>)"

text \<open>The part with the agent: status, output, and the calls made.\<close>

definition forward_command ::
    "action_config \<Rightarrow> faults \<Rightarrow> string \<Rightarrow> string \<Rightarrow> agent_db option \<Rightarrow> string \<times> string \<times> (string \<times> string) list" where
  "forward_command cfg flt tenant cmd agents =
    (let host = action_agent_host cfg flt tenant agents in
     if host = [] then (''no_agent'', ''No active agent available for remote execution'', [])
     else (case execute_on_agent (ah_execute cfg host cmd) of
         Inl e \<Rightarrow> (''error'', ''Agent execution failed: '' @ e, [(host, cmd)])
       | Inr out \<Rightarrow> (''executed'', out, [(host, cmd)])))"

definition execute_action ::
    "action_config \<Rightarrow> faults \<Rightarrow> time \<Rightarrow> action_request \<Rightarrow> action_state \<Rightarrow> action_response \<times> action_state" where
  "execute_action cfg flt now rq s =
    (let actionID = trim_space (ar_action_id rq); incidentID = trim_space (ar_incident rq) in
     if actionID = [] then (ActionFailed 400 ''action_id is required'', s)
     else if incidentID = [] then (ActionFailed 400 ''incident_id is required'', s)
     else
      (let tenant = (case ar_claims rq of None \<Rightarrow> [] | Some (_, t) \<Rightarrow> t);
           label = (if trim_space (ar_label rq) = [] then actionID else trim_space (ar_label rq));
           desc = (if trim_space (ar_description rq) = [] then ''Action executed'' else trim_space (ar_description rq));
           raw = extract_command label desc;
           at_text = ah_show_time cfg now;
           d = evaluate_command raw (ar_type rq) (ar_approved rq)
       in if raw \<noteq> [] \<and> \<not> pd_allowed d then
            (ActionFailed 403 (pd_reason d),
             record_audit cfg flt ''action.policy_blocked''
               (audit_row rq at_text ''policy_blocked'' (''Command blocked by policy: '' @ pd_reason d) raw (pd_reason d)) s)
          else
            (let (status, out, calls) =
                   (if raw = [] then (''manual'', (''This action requires manual execution '' @ [CHR 0xE2, CHR 0x80, CHR 0x94] @ '' no executable command detected''), [])
                    else forward_command cfg flt tenant (pd_sanitized d) (as_agents s));
                 cmd = (if raw = [] then [] else pd_sanitized d);
                 why = (if raw = [] then ''no executable command in action description'' else pd_reason d)
             in (ActionDone status out cmd,
                 record_audit cfg flt ''action.executed''
                   (audit_row rq at_text status (audit_message label desc out) cmd why)
                   (s\<lparr>as_calls := as_calls s @ calls\<rparr>)))))"

definition get_action_audit :: "faults \<Rightarrow> bool \<Rightarrow> string \<Rightarrow> string \<Rightarrow> audit_db \<Rightarrow> nat + ActionAudit list" where
  "get_action_audit flt audited tenant incident_param db =
    (let iid = trim_space incident_param in
     if iid = [] then Inl 400 else Inr (if audited then audits_by_incident flt tenant iid db else []))"

section \<open>Deciding on executions\<close>

record execution_request =
  er_tenant :: string                      \<comment> \<open>\<open>TenantFromRequest\<close>\<close>
  er_claims :: "(string \<times> string) option"  \<comment> \<open>user and tenant\<close>

record new_execution =
  ne_action_id :: string
  ne_label :: string
  ne_desc :: string
  ne_requires_approval :: bool
  ne_mode :: string

definition claim_user :: "execution_request \<Rightarrow> string" where
  "claim_user rq = (case er_claims rq of None \<Rightarrow> ''unknown'' | Some (u, _) \<Rightarrow> if u = [] then ''unknown'' else u)"

definition recorded_row :: "time \<Rightarrow> string \<Rightarrow> string \<Rightarrow> new_execution \<Rightarrow> ActionExecution" where
  "recorded_row now tenant incidentID b = execution_zero\<lparr>
     ax_id := ''exec-'' @ show_int now, ax_tenant_id := tenant, ax_incident_id := incidentID,
     ax_action_id := ne_action_id b, ax_action_label := ne_label b, ax_action_desc := ne_desc b,
     ax_chain_position := 0,
     ax_status := (if ne_requires_approval b then ''pending_approval'' else ''planned''),
     ax_execution_mode := (if ne_mode b = [] then ''manual'' else ne_mode b),
     ax_requires_approval := ne_requires_approval b,
     ax_approval_status := (if ne_requires_approval b then ''pending'' else []), ax_created_at := now\<rparr>"

definition record_execution ::
    "faults \<Rightarrow> time \<Rightarrow> execution_request \<Rightarrow> string \<Rightarrow> new_execution \<Rightarrow> exec_db \<Rightarrow> (nat + ActionExecution) \<times> exec_db" where
  "record_execution flt now rq incidentID b db =
    (if incidentID = [] then (Inl 400, db)
     else if ne_action_id b = [] then (Inl 400, db)
     else
      (let tenant = (case er_claims rq of Some (_, t) \<Rightarrow> if t \<noteq> [] then t else er_tenant rq | None \<Rightarrow> er_tenant rq);
           e = recorded_row now tenant incidentID b
       in case create_execution flt e db of Inl _ \<Rightarrow> (Inl 500, db) | Inr db' \<Rightarrow> (Inr e, db')))"

definition handle_get_executions :: "faults \<Rightarrow> string \<Rightarrow> exec_db \<Rightarrow> nat + ActionExecution list" where
  "handle_get_executions flt incidentID db =
    (if incidentID = [] then Inl 400
     else (case executions_of_incident flt incidentID db of Inl _ \<Rightarrow> Inl 500 | Inr es \<Rightarrow> Inr es))"

text \<open>The status code of the answer, and the table.\<close>

definition handle_approve :: "faults \<Rightarrow> time \<Rightarrow> execution_request \<Rightarrow> string \<Rightarrow> exec_db \<Rightarrow> nat \<times> exec_db" where
  "handle_approve flt now rq execID db =
    (if execID = [] then (400, db)
     else (case get_execution flt execID db of
       Inl _ \<Rightarrow> (404, db)
     | Inr None \<Rightarrow> (404, db)
     | Inr (Some e) \<Rightarrow>
        if ax_approval_status e \<noteq> ''pending'' then (409, db)
        else (case approve_execution flt execID (claim_user rq) now db of
                Inl _ \<Rightarrow> (500, db) | Inr db' \<Rightarrow> (200, db'))))"

definition handle_reject :: "faults \<Rightarrow> execution_request \<Rightarrow> string \<Rightarrow> string option \<Rightarrow> exec_db \<Rightarrow> nat \<times> exec_db" where
  "handle_reject flt rq execID body db =
    (if execID = [] then (400, db)
     else (case get_execution flt execID db of
       Inl _ \<Rightarrow> (404, db)
     | Inr None \<Rightarrow> (404, db)
     | Inr (Some e) \<Rightarrow>
        if ax_approval_status e \<noteq> ''pending'' then (409, db)
        else (case body of
            None \<Rightarrow> (400, db)
          | Some reason \<Rightarrow>
             (case reject_execution flt execID (claim_user rq) reason db of
                Inl _ \<Rightarrow> (500, db) | Inr db' \<Rightarrow> (200, db')))))"

definition handle_rollback ::
    "faults \<Rightarrow> execution_request \<Rightarrow> string \<Rightarrow> (string \<times> string) option \<Rightarrow> exec_db \<Rightarrow> nat \<times> exec_db" where
  "handle_rollback flt rq execID body db =
    (if execID = [] then (400, db)
     else (case get_execution flt execID db of
       Inl _ \<Rightarrow> (404, db)
     | Inr None \<Rightarrow> (404, db)
     | Inr (Some e) \<Rightarrow>
        if ax_status e = ''rolled_back'' then (409, db)
        else (case body of
            None \<Rightarrow> (400, db)
          | Some (reason, ref) \<Rightarrow>
             (case rollback_execution flt execID (claim_user rq) reason ref db of
                Inl _ \<Rightarrow> (500, db) | Inr db' \<Rightarrow> (200, db')))))"

text \<open>\<open>/api/v1/executions/{id}/approve\<close> and the like.\<close>

definition extract_exec_id :: "string \<Rightarrow> string \<Rightarrow> string" where
  "extract_exec_id path sfx = trim_space (last (split_char CHR ''/'' (trim_suffix (trim_suffix path sfx) ''/'')))"

definition extract_incident_for_exec :: "string \<Rightarrow> string" where
  "extract_incident_for_exec path = extract_exec_id path ''/executions''"

section \<open>Lemmas\<close>

lemma action_agent_host_ok:
  assumes "action_agent_host cfg flt tenant agents \<noteq> []"
  shows "ah_healthy cfg (action_agent_host cfg flt tenant agents) \<and>
    (if ah_healthy cfg ''localhost'' then action_agent_host cfg flt tenant agents = ''localhost''
     else if ah_healthy cfg ''127.0.0.1'' then action_agent_host cfg flt tenant agents = ''127.0.0.1''
     else (\<exists>db r. agents = Some db \<and> r \<in> set (gdb_agents db) \<and> ag_tenant_id (gr_agent r) = tenant \<and>
        ag_status (gr_agent r) = ''active'' \<and> ag_host_ip (gr_agent r) = action_agent_host cfg flt tenant agents))"
proof (cases "find (ah_healthy cfg) [''localhost'', ''127.0.0.1'']")
  case (Some h)
  then show ?thesis by (auto simp: action_agent_host_def split: if_splits)
next
  case None
  with assms obtain db as a where a: "agents = Some db" "get_agents flt tenant 500 0 db = Inr as"
      "find (\<lambda>a. ag_status a = ''active'' \<and> ag_host_ip a \<noteq> [] \<and> ah_healthy cfg (ag_host_ip a)) as = Some a"
      "action_agent_host cfg flt tenant agents = ag_host_ip a"
    by (auto simp: action_agent_host_def split: option.splits sum.splits)
  then have "a \<in> set as" "ag_status a = ''active''" "ah_healthy cfg (ag_host_ip a)" by (auto simp: find_Some_iff)
  moreover have "\<not> ah_healthy cfg ''localhost''" "\<not> ah_healthy cfg ''127.0.0.1''" using None by (auto split: if_splits)
  ultimately show ?thesis using a(1,4) get_agents_tenant[OF a(2)] by auto
qed

lemma forward_command_calls:
  assumes "forward_command cfg flt tenant cmd agents = (st, out, calls)"
  shows "st \<in> {''no_agent'', ''error'', ''executed''} \<and>
    (calls = [] \<or> (\<exists>h. calls = [(h, cmd)] \<and> h \<noteq> [] \<and> h = action_agent_host cfg flt tenant agents))"
  using assms by (auto simp: forward_command_def Let_def split: if_splits sum.splits)

lemma audit_row_simps [simp]:
  "aa_status (audit_row rq t st m c w) = st" "aa_command (audit_row rq t st m c w) = c"
  "aa_action_id (audit_row rq t st m c w) = trim_space (ar_action_id rq)"
  "aa_incident_id (audit_row rq t st m c w) = trim_space (ar_incident rq)"
  "aa_approved (audit_row rq t st m c w) = ar_approved rq" "aa_policy_reason (audit_row rq t st m c w) = w"
  "aa_actor_id (audit_row rq t st m c w) = (case ar_claims rq of None \<Rightarrow> [] | Some (u, _) \<Rightarrow> u)"
  "aa_tenant_id (audit_row rq t st m c w) = (case ar_claims rq of None \<Rightarrow> [] | Some (_, t) \<Rightarrow> t)"
  by (simp_all add: audit_row_def)

lemma record_audit_rows:
  assumes "ah_audited cfg" "\<not> flt ''AddAudit''"
  shows "adb_rows (as_audits (record_audit cfg flt ev a s)) = adb_rows (as_audits s) @ [a\<lparr>aa_id := adb_next (as_audits s)\<rparr>]"
  using assms by (simp add: record_audit_def add_audit_def)

lemma record_audit_frame [simp]:
  "as_calls (record_audit cfg flt ev a s) = as_calls s" "as_agents (record_audit cfg flt ev a s) = as_agents s"
  "as_platform (record_audit cfg flt ev a s) =
     as_platform s @ [GoAudit (aa_tenant_id a) (aa_actor_id a) ev ''action'' (aa_action_id a)]"
  by (auto simp: record_audit_def split: sum.split)

definition requested_command :: "action_request \<Rightarrow> string" where
  "requested_command rq =
    (let label = trim_space (ar_label rq); desc = trim_space (ar_description rq) in
     extract_command (if label = [] then trim_space (ar_action_id rq) else label)
       (if desc = [] then ''Action executed'' else desc))"

text \<open>The three ways through the handler once the identifiers are there.\<close>

lemma execute_action_blocked:
  assumes "trim_space (ar_action_id rq) \<noteq> []" "trim_space (ar_incident rq) \<noteq> []" "requested_command rq \<noteq> []"
    and "\<not> pd_allowed (evaluate_command (requested_command rq) (ar_type rq) (ar_approved rq))"
  shows "\<exists>m w. execute_action cfg flt now rq s = (ActionFailed 403 w,
     record_audit cfg flt ''action.policy_blocked''
       (audit_row rq (ah_show_time cfg now) ''policy_blocked'' m (requested_command rq) w) s)"
  using assms unfolding requested_command_def Let_def execute_action_def by simp metis

lemma execute_action_manual:
  assumes "trim_space (ar_action_id rq) \<noteq> []" "trim_space (ar_incident rq) \<noteq> []" "requested_command rq = []"
  shows "\<exists>m w out. execute_action cfg flt now rq s = (ActionDone ''manual'' out [],
     record_audit cfg flt ''action.executed'' (audit_row rq (ah_show_time cfg now) ''manual'' m [] w) s)"
  using assms unfolding requested_command_def Let_def execute_action_def by simp metis

lemma execute_action_forwarded:
  assumes "trim_space (ar_action_id rq) \<noteq> []" "trim_space (ar_incident rq) \<noteq> []" "requested_command rq \<noteq> []"
    and "pd_allowed (evaluate_command (requested_command rq) (ar_type rq) (ar_approved rq))"
    and "forward_command cfg flt (case ar_claims rq of None \<Rightarrow> [] | Some (_, t) \<Rightarrow> t)
           (trim_space (requested_command rq)) (as_agents s) = (st, out, calls)"
  shows "\<exists>m w. execute_action cfg flt now rq s = (ActionDone st out (trim_space (requested_command rq)),
     record_audit cfg flt ''action.executed''
       (audit_row rq (ah_show_time cfg now) st m (trim_space (requested_command rq)) w) (s\<lparr>as_calls := as_calls s @ calls\<rparr>))"
proof -
  have "pd_sanitized (evaluate_command (requested_command rq) (ar_type rq) (ar_approved rq)) = trim_space (requested_command rq)"
    using assms(4) by (simp add: evaluate_command_sanitized)
  with assms show ?thesis unfolding requested_command_def Let_def execute_action_def by simp metis
qed

subsection \<open>Executions\<close>

text \<open>What every stored execution satisfies.\<close>

definition execution_statuses :: "string list" where
  "execution_statuses = [''planned'', ''pending_approval'', ''approved'', ''rejected'', ''running'', ''manual'',
     ''policy_blocked'', ''no_agent'', ''error'', ''executed'', ''rolled_back'']"

definition execution_ok :: "ActionExecution \<Rightarrow> bool" where
  "execution_ok e \<longleftrightarrow> ax_status e \<in> set execution_statuses \<and>
     ax_approval_status e \<in> {[], ''pending'', ''approved'', ''rejected''} \<and>
     (ax_approval_status e = ''approved'' \<longrightarrow> ax_approved_by e \<noteq> [] \<and> ax_approved_at e \<noteq> None) \<and>
     (ax_approval_status e = ''rejected'' \<longrightarrow> ax_rejected_by e \<noteq> []) \<and>
     (ax_requires_approval e \<and> ax_approval_status e = [] \<longrightarrow> ax_execution_mode e = ''auto'')"

definition executions_ok :: "exec_db \<Rightarrow> bool" where
  "executions_ok db \<longleftrightarrow> pk ax_id db \<and> list_all execution_ok db"

lemma executions_ok_insert:
  "executions_ok db \<Longrightarrow> execution_ok e \<Longrightarrow> create_execution flt e db = Inr db' \<Longrightarrow> executions_ok db'"
  by (auto simp: executions_ok_def create_execution_def tbl_insert_Inr intro: pk_insert)

lemma executions_ok_update:
  assumes "executions_ok db" and "\<And>r. ax_id (f r) = ax_id r" and "\<And>r. execution_ok r \<Longrightarrow> p r \<Longrightarrow> execution_ok (f r)"
  shows "executions_ok (tbl_update p f db)"
  using assms by (auto simp: executions_ok_def list_all_iff tbl_update_def intro!: pk_update[unfolded tbl_update_def])

lemma update_execution_ok:
  assumes "update_execution flt e db = Inr db'" and "executions_ok db" and "ax_status e \<in> set execution_statuses"
  shows "executions_ok db'"
proof -
  have "db' = tbl_update (\<lambda>r. ax_id r = ax_id e)
      (\<lambda>r. r\<lparr>ax_status := ax_status e, ax_result_output := ax_result_output e, ax_error_message := ax_error_message e,
        ax_started_at := ax_started_at e, ax_completed_at := ax_completed_at e, ax_verified := ax_verified e,
        ax_verification_result := ax_verification_result e\<rparr>) db"
    using assms(1) by (simp add: update_execution_def)
  with assms(2,3) show ?thesis
    by (simp only:) (rule executions_ok_update, simp_all add: execution_ok_def)
qed

lemma approve_execution_ok:
  assumes "approve_execution flt i u t db = Inr db'" and "executions_ok db" and "u \<noteq> []"
  shows "executions_ok db'"
proof -
  have "db' = tbl_update (\<lambda>r. ax_id r = i \<and> ax_approval_status r = ''pending'')
      (\<lambda>r. r\<lparr>ax_approval_status := ''approved'', ax_approved_by := u, ax_approved_at := Some t, ax_status := ''approved''\<rparr>) db"
    using assms(1) by (simp add: approve_execution_def)
  with assms(2,3) show ?thesis
    by (simp only:) (rule executions_ok_update, simp_all add: execution_ok_def execution_statuses_def)
qed

lemma reject_execution_ok:
  assumes "reject_execution flt i u why db = Inr db'" and "executions_ok db" and "u \<noteq> []"
  shows "executions_ok db'"
proof -
  have "db' = tbl_update (\<lambda>r. ax_id r = i \<and> ax_approval_status r = ''pending'')
      (\<lambda>r. r\<lparr>ax_approval_status := ''rejected'', ax_rejected_by := u, ax_rejection_reason := why, ax_status := ''rejected''\<rparr>) db"
    using assms(1) by (simp add: reject_execution_def)
  with assms(2,3) show ?thesis
    by (simp only:) (rule executions_ok_update, simp_all add: execution_ok_def execution_statuses_def)
qed

lemma rollback_execution_ok:
  assumes "rollback_execution flt i u why ref db = Inr db'" and "executions_ok db"
  shows "executions_ok db'"
proof -
  have "db' = tbl_update (\<lambda>r. ax_id r = i) (\<lambda>r. r\<lparr>ax_status := ''rolled_back'', ax_rolled_back_by := u,
      ax_rollback_reason := why, ax_rollback_ref := ref\<rparr>) db"
    using assms(1) by (simp add: rollback_execution_def)
  with assms(2) show ?thesis
    by (simp only:) (rule executions_ok_update, simp_all add: execution_ok_def execution_statuses_def)
qed

lemma claim_user_nonempty [simp]: "claim_user rq \<noteq> []"
  by (simp add: claim_user_def split: option.split prod.split)

text \<open>A request to one of the handlers, or one step of the orchestrator, on the table.\<close>

inductive api_step :: "exec_db \<Rightarrow> exec_db \<Rightarrow> bool" where
  recorded: "api_step db (snd (record_execution flt now rq iid b db))"
| approval: "api_step db (snd (handle_approve flt now rq i db))"
| rejection: "api_step db (snd (handle_reject flt rq i body db))"
| rollback: "api_step db (snd (handle_rollback flt rq i detail db))"
| triggered: "pdb_executions (rm_policy s) = db \<Longrightarrow>
    api_step db (pdb_executions (rm_policy (trigger_remediation cfg flt now later inc rca s)))"
| approved_run: "pdb_executions (rm_policy s) = db \<Longrightarrow> u \<noteq> [] \<Longrightarrow>
    api_step db (pdb_executions (rm_policy (snd (execute_approved_action cfg flt now later i u s))))"
| rejected_run: "pdb_executions (rm_policy s) = db \<Longrightarrow> u \<noteq> [] \<Longrightarrow>
    api_step db (pdb_executions (rm_policy (snd (reject_action flt i u why s))))"

lemma recorded_row_ok: "execution_ok (recorded_row now t iid b)"
  by (simp add: recorded_row_def execution_ok_def execution_statuses_def execution_zero_def)

lemma planned_execution_ok: "execution_ok (planned_execution now inc a d auto)"
  by (simp add: planned_execution_def execution_ok_def execution_statuses_def execution_zero_def)

lemma record_execution_ok: "executions_ok db \<Longrightarrow> executions_ok (snd (record_execution flt now rq iid b db))"
  by (auto simp: record_execution_def Let_def split: sum.split intro: executions_ok_insert[OF _ recorded_row_ok])

lemma handle_approve_ok: "executions_ok db \<Longrightarrow> executions_ok (snd (handle_approve flt now rq i db))"
  by (auto simp: handle_approve_def split: sum.split option.split intro: approve_execution_ok[OF _ _ claim_user_nonempty])

lemma handle_reject_ok: "executions_ok db \<Longrightarrow> executions_ok (snd (handle_reject flt rq i body db))"
  by (auto simp: handle_reject_def split: sum.split option.split intro: reject_execution_ok[OF _ _ claim_user_nonempty])

lemma handle_rollback_ok: "executions_ok db \<Longrightarrow> executions_ok (snd (handle_rollback flt rq i detail db))"
  by (auto simp: handle_rollback_def split: sum.split option.split prod.split intro: rollback_execution_ok)

lemma on_executions_ok:
  assumes "executions_ok (pdb_executions (rm_policy s))"
    and "\<And>db'. f (pdb_executions (rm_policy s)) = Inr db' \<Longrightarrow> executions_ok db'"
  shows "executions_ok (pdb_executions (rm_policy (on_executions f s)))"
  using assms by (auto simp: on_executions_def split: sum.split)

lemma verification_policy [simp]:
  "rm_policy (snd (begin_verification cfg flt now inc e s)) = rm_policy s"
  "rm_policy (finish_verification cfg flt now i inc a e s) = rm_policy s"
  by (simp_all add: begin_verification_def finish_verification_def remember_def close_if_eligible_def
      split: sum.split prod.split)

lemma run_on_agent_status: "run_on_agent cfg flt tenant raw ty agents = (st, out, calls) \<Longrightarrow>
    st \<in> set execution_statuses"
  by (auto simp: run_on_agent_def Let_def execution_statuses_def split: if_splits sum.splits)

lemma run_execution_ok:
  assumes "executions_ok (pdb_executions (rm_policy s))"
  shows "executions_ok (pdb_executions (rm_policy (run_execution cfg flt now later e inc a actor s)))"
proof -
  let ?e1 = "e\<lparr>ax_started_at := Some now, ax_status := ''running''\<rparr>"
  let ?s1 = "on_executions (update_execution (at_site ''running'' flt) ?e1) s"
  have 1: "executions_ok (pdb_executions (rm_policy ?s1))"
    by (rule on_executions_ok[OF assms]) (auto elim!: update_execution_ok simp: assms execution_statuses_def)
  obtain i s2 where b: "begin_verification cfg flt now inc ?e1 ?s1 = (i, s2)" by fastforce
  then have 2: "rm_policy s2 = rm_policy ?s1" using verification_policy(1) by (metis snd_conv)
  obtain st out calls where r: "run_on_agent cfg flt (inc_tenant_id inc)
      (extract_orchestrator_command (act_label a) (act_description a)) (act_type a) (rm_agents s2) = (st, out, calls)"
    by (metis prod_cases3)
  have 3: "executions_ok (pdb_executions (rm_policy (on_executions
      (update_execution (at_site ''completed'' flt) (?e1\<lparr>ax_completed_at := Some later, ax_status := st, ax_result_output := out\<rparr>))
      (s2\<lparr>rm_calls := rm_calls s2 @ calls\<rparr>))))"
    by (rule on_executions_ok) (use 1 2 run_on_agent_status[OF r] in \<open>auto elim!: update_execution_ok\<close>)
  show ?thesis using 3 by (simp add: run_execution_def Let_def b r)
qed

lemma trigger_remediation_ok:
  assumes "executions_ok (pdb_executions (rm_policy s))"
  shows "executions_ok (pdb_executions (rm_policy (trigger_remediation cfg flt now later inc rca s)))"
proof (cases "chosen_remediation (rc_kb cfg) inc")
  case None
  with assms show ?thesis by (simp add: trigger_remediation_def)
next
  case (Some a)
  obtain d pdb where ev: "evaluate (rc_zones cfg) (rc_trailed cfg) flt now (remediation_context inc a) (rm_policy s) = (d, pdb)"
    by fastforce
  then have ex: "pdb_executions pdb = pdb_executions (rm_policy s)" using evaluate_executions by (metis snd_conv)
  let ?e = "planned_execution now inc a d (auto_approved d rca)"
  show ?thesis
  proof (cases "create_execution flt ?e (pdb_executions pdb)")
    case (Inl er)
    with assms Some ev ex show ?thesis by (simp add: trigger_remediation_def Let_def)
  next
    case (Inr db)
    with assms ex have ok: "executions_ok db" by (auto intro: executions_ok_insert[OF _ planned_execution_ok])
    with assms Some ev Inr show ?thesis
      by (auto simp: trigger_remediation_def Let_def request_approval_def intro!: run_execution_ok)
  qed
qed

lemma execute_approved_action_ok:
  assumes "executions_ok (pdb_executions (rm_policy s))" "u \<noteq> []"
  shows "executions_ok (pdb_executions (rm_policy (snd (execute_approved_action cfg flt now later i u s))))"
  using assms
  by (auto simp: execute_approved_action_def Let_def split: sum.split option.split
      intro: approve_execution_ok intro!: run_execution_ok)

lemma reject_action_ok:
  assumes "executions_ok (pdb_executions (rm_policy s))" "u \<noteq> []"
  shows "executions_ok (pdb_executions (rm_policy (snd (reject_action flt i u why s))))"
  using assms by (auto simp: reject_action_def split: sum.split option.split intro: reject_execution_ok)

lemma api_step_ok: "api_step db db' \<Longrightarrow> executions_ok db \<Longrightarrow> executions_ok db'"
  by (induction rule: api_step.induct)
     (auto intro: record_execution_ok handle_approve_ok handle_reject_ok handle_rollback_ok
        trigger_remediation_ok execute_approved_action_ok reject_action_ok)

subsection \<open>Approved over the API\<close>

lemma handle_approve_done:
  assumes "handle_approve flt now rq i db = (200, db')"
  obtains e where "tbl_find ax_id i db' = Some e" "ax_approval_status e = ''approved''" "ax_approved_by e = claim_user rq"
proof -
  from assms obtain e where e: "tbl_find ax_id i db = Some e" "ax_approval_status e = ''pending''"
      "approve_execution flt i (claim_user rq) now db = Inr db'"
    by (auto simp: handle_approve_def get_execution_def split: if_splits sum.splits option.splits)
  from e(1) have "ax_id e = i" by (auto dest: tbl_find_Some)
  have "tbl_find ax_id i db' = map_option (\<lambda>r. if ax_id r = i \<and> ax_approval_status r = ''pending'' then
      r\<lparr>ax_approval_status := ''approved'', ax_approved_by := claim_user rq, ax_approved_at := Some now,
        ax_status := ''approved''\<rparr> else r) (tbl_find ax_id i db)"
    using e(3) by (auto simp: approve_execution_def intro!: tbl_find_update)
  with e(1,2) \<open>ax_id e = i\<close> that show thesis by simp
qed

lemma decided_not_run:
  assumes "tbl_find ax_id i (pdb_executions (rm_policy s)) = Some e" "ax_approval_status e \<noteq> ''pending''"
  shows "\<exists>er. execute_approved_action cfg flt now later i u s = (Inl er, s)"
  using assms by (auto simp: execute_approved_action_def get_execution_def guard_db_def)

section \<open>Properties\<close>

text \<open>C21: every request to run an action leaves exactly one row in the audit. When the request names
  an action and an incident and the insert does not fail, the row carries the user and the tenant of
  the JWT, never ones from the body. Either the command gate refuses: the answer is 403, the row says
  \<open>policy_blocked\<close>, and nothing is sent; or the answer's status and command are those of the row, and
  at most one command is sent: that one, fit to be forwarded, to a healthy host, for a remediation only
  when the request says it is approved. When the server itself runs an agent, that agent gets the
  command, whatever the tenant; otherwise an active agent of the caller's tenant does.\<close>

theorem execute_action_audited:
  assumes "trim_space (ar_action_id rq) \<noteq> []" "trim_space (ar_incident rq) \<noteq> []"
    and "ah_audited cfg" "\<not> flt ''AddAudit''"
    and "ar_claims rq = Some (user, tenant)"
  shows "\<exists>a resp s' calls. execute_action cfg flt now rq s = (resp, s') \<and>
    adb_rows (as_audits s') = adb_rows (as_audits s) @ [a] \<and> as_calls s' = as_calls s @ calls \<and>
    aa_actor_id a = user \<and> aa_tenant_id a = tenant \<and> aa_action_id a = trim_space (ar_action_id rq) \<and>
    aa_incident_id a = trim_space (ar_incident rq) \<and> aa_approved a = ar_approved rq \<and>
    ((\<exists>why. resp = ActionFailed 403 why \<and> aa_status a = ''policy_blocked'' \<and> aa_policy_reason a = why \<and> calls = []) \<or>
     (\<exists>st out c. resp = ActionDone st out c \<and> aa_status a = st \<and> aa_command a = c \<and>
        (calls = [] \<or> (\<exists>h. calls = [(h, c)] \<and> forwardable c \<and> \<not> (ar_type rq = ''remediation'' \<and> \<not> ar_approved rq) \<and>
           ah_healthy cfg h \<and> (if ah_healthy cfg ''localhost'' then h = ''localhost''
             else if ah_healthy cfg ''127.0.0.1'' then h = ''127.0.0.1''
             else (\<exists>db r. as_agents s = Some db \<and> r \<in> set (gdb_agents db) \<and> ag_tenant_id (gr_agent r) = tenant \<and>
                ag_status (gr_agent r) = ''active'' \<and> ag_host_ip (gr_agent r) = h))))))"
proof -
  let ?raw = "requested_command rq"
  note rows = record_audit_rows[where cfg = cfg and flt = flt, OF assms(3,4)]
  have claims: "(case ar_claims rq of None \<Rightarrow> [] | Some (u, _) \<Rightarrow> u) = user"
      "(case ar_claims rq of None \<Rightarrow> [] | Some (_, t) \<Rightarrow> t) = tenant" using assms(5) by simp_all
  consider (manual) "?raw = []"
    | (blocked) "?raw \<noteq> []" "\<not> pd_allowed (evaluate_command ?raw (ar_type rq) (ar_approved rq))"
    | (sent) "?raw \<noteq> []" "pd_allowed (evaluate_command ?raw (ar_type rq) (ar_approved rq))" by blast
  then show ?thesis
  proof cases
    case manual
    obtain m w out where "execute_action cfg flt now rq s = (ActionDone ''manual'' out [],
       record_audit cfg flt ''action.executed'' (audit_row rq (ah_show_time cfg now) ''manual'' m [] w) s)"
      using execute_action_manual[OF assms(1,2) manual] by blast
    then show ?thesis by (auto simp: rows claims)
  next
    case blocked
    obtain m w where "execute_action cfg flt now rq s = (ActionFailed 403 w,
       record_audit cfg flt ''action.policy_blocked''
         (audit_row rq (ah_show_time cfg now) ''policy_blocked'' m ?raw w) s)"
      using execute_action_blocked[OF assms(1,2) blocked] by blast
    then show ?thesis by (auto simp: rows claims)
  next
    case sent
    obtain st out calls where f: "forward_command cfg flt tenant (trim_space ?raw) (as_agents s) = (st, out, calls)"
      by (metis prod_cases3)
    from sent(2) have g: "forwardable (trim_space ?raw)" "\<not> (ar_type rq = ''remediation'' \<and> \<not> ar_approved rq)"
      by (simp_all add: evaluate_command_allowed_iff)
    have c: "calls = [] \<or> (\<exists>h. calls = [(h, trim_space ?raw)] \<and> ah_healthy cfg h \<and> (if ah_healthy cfg ''localhost'' then h = ''localhost''
             else if ah_healthy cfg ''127.0.0.1'' then h = ''127.0.0.1''
             else (\<exists>db r. as_agents s = Some db \<and> r \<in> set (gdb_agents db) \<and> ag_tenant_id (gr_agent r) = tenant \<and>
                ag_status (gr_agent r) = ''active'' \<and> ag_host_ip (gr_agent r) = h)))"
      using forward_command_calls[OF f] action_agent_host_ok[of cfg flt tenant "as_agents s"] by auto
    obtain m w where x: "execute_action cfg flt now rq s = (ActionDone st out (trim_space ?raw),
       record_audit cfg flt ''action.executed'' (audit_row rq (ah_show_time cfg now) st m (trim_space ?raw) w)
         (s\<lparr>as_calls := as_calls s @ calls\<rparr>))"
      using execute_action_forwarded[OF assms(1,2) sent] f unfolding claims by blast
    show ?thesis
      by (rule exI[of _ "(audit_row rq (ah_show_time cfg now) st m (trim_space ?raw) w)\<lparr>aa_id := adb_next (as_audits s)\<rparr>"],
          unfold x) (use g c in \<open>auto simp: rows claims\<close>)
  qed
qed

definition sample_api :: action_config where
  "sample_api = \<lparr>ah_healthy = (\<lambda>h. h = ''localhost''), ah_execute = (\<lambda>_ _. ExecReply ''ok'' ''up 3 days'' []),
     ah_show_time = (\<lambda>_. ''2024-01-01T00:00:00Z''), ah_audited = True\<rparr>"

definition sample_request :: action_request where
  "sample_request = \<lparr>ar_claims = Some (''ann'', ''t1''), ar_forwarded_for = [], ar_remote_addr = ''10.0.0.9:555'',
     ar_action_id = ''a1'', ar_incident = ''i1'', ar_label = ''Check: uptime -p'', ar_description = [],
     ar_type = ''diagnostic'', ar_risk_level = ''low'', ar_approved = False\<rparr>"

definition sample_audit_state :: action_state where
  "sample_audit_state = \<lparr>as_agents = None, as_audits = \<lparr>adb_rows = [], adb_next = 1\<rparr>, as_calls = [], as_platform = []\<rparr>"

theorem execute_action_audited_witness:
  "(\<exists>a. adb_rows (as_audits (snd (execute_action sample_api no_faults 0 sample_request sample_audit_state))) = [a] \<and>
      aa_actor_id a = ''ann'' \<and> aa_tenant_id a = ''t1'') \<and>
   as_calls (snd (execute_action sample_api no_faults 0 sample_request sample_audit_state)) = [(''localhost'', ''uptime -p'')]"
proof -
  have "trim_space (ar_action_id sample_request) \<noteq> []" "trim_space (ar_incident sample_request) \<noteq> []"
    by code_simp+
  moreover have "ah_audited sample_api" "ar_claims sample_request = Some (''ann'', ''t1'')"
    by (simp_all add: sample_api_def sample_request_def)
  moreover have "as_calls (snd (execute_action sample_api no_faults 0 sample_request sample_audit_state)) =
      [(''localhost'', ''uptime -p'')]" by code_simp
  ultimately show ?thesis
    using execute_action_audited[of sample_request sample_api no_faults "''ann''" "''t1''" 0 sample_audit_state]
    by (auto simp: no_faults_def sample_audit_state_def)
qed

text \<open>C22: the executions stay well formed. Whatever handler of the API or step of the orchestrator
  runs, with or without failing statements, the identifiers stay unique and every execution keeps
  a known status and a known approval status; an approved one names its approver and the time, a
  rejected one its rejecter, and one that requires an approval has been entered into the approval
  workflow unless its mode is \<open>auto\<close>.\<close>

theorem executions_well_formed:
  assumes "api_step\<^sup>*\<^sup>* [] db"
  shows "executions_ok db"
  using assms
proof (induction rule: rtranclp_induct)
  case base
  then show ?case by (simp add: executions_ok_def pk_def)
next
  case (step y z)
  from api_step_ok[OF step.hyps(2) step.IH] show ?case .
qed

definition operator_request :: execution_request where
  "operator_request = \<lparr>er_tenant = ''t1'', er_claims = Some (''ann'', ''t1'')\<rparr>"

definition asked_restart :: new_execution where
  "asked_restart = \<lparr>ne_action_id = ''a1'', ne_label = ''Restart'', ne_desc = [], ne_requires_approval = True, ne_mode = []\<rparr>"

theorem executions_well_formed_witness:
  "let db1 = snd (record_execution no_faults 7 operator_request ''i1'' asked_restart []);
       db2 = snd (handle_approve no_faults 9 operator_request ''exec-7'' db1)
   in map ax_status db2 = [''approved''] \<and> executions_ok db2"
proof -
  let ?db1 = "snd (record_execution no_faults 7 operator_request ''i1'' asked_restart [])"
  let ?db2 = "snd (handle_approve no_faults 9 operator_request ''exec-7'' ?db1)"
  have "api_step\<^sup>*\<^sup>* [] ?db2"
    by (meson api_step.recorded api_step.approval rtranclp.rtrancl_refl rtranclp.rtrancl_into_rtrancl)
  from executions_well_formed[OF this] have "executions_ok ?db2" .
  moreover have "map ax_status ?db2 = [''approved'']" by code_simp
  ultimately show ?thesis by (simp add: Let_def)
qed

text \<open>C23: an approval given over the API runs nothing, ever. Once \<open>HandleApprove\<close> has answered 200,
  then after any further statements on the table the orchestrator's \<open>ExecuteApprovedAction\<close> refuses
  the execution as no longer pending and changes nothing.\<close>

theorem api_approval_never_runs:
  assumes "handle_approve flt now rq i db = (200, db')" and "exec_run db' (pdb_executions (rm_policy s))"
  shows "\<exists>er. execute_approved_action cfg flt' t1 t2 i u s = (Inl er, s)"
proof -
  obtain e where e: "tbl_find ax_id i db' = Some e" "ax_approval_status e = ''approved''"
    using handle_approve_done[OF assms(1)] by blast
  from e(2) have "ax_approval_status e \<noteq> ''pending''" by simp
  from exec_run_approval[OF assms(2) e(1) this] obtain e' where
    e': "tbl_find ax_id i (pdb_executions (rm_policy s)) = Some e'" "approval_of e' = approval_of e" by blast
  from e'(2) e(2) have "ax_approval_status e' \<noteq> ''pending''" by (simp add: approval_of_def)
  from decided_not_run[OF e'(1) this] show ?thesis .
qed

definition waiting_execution :: ActionExecution where
  "waiting_execution = execution_zero\<lparr>ax_id := ''x1'', ax_incident_id := ''i1'', ax_approval_status := ''pending''\<rparr>"

theorem api_approval_never_runs_witness:
  "\<exists>db' er. handle_approve no_faults 5 operator_request ''x1'' [waiting_execution] = (200, db') \<and>
     execute_approved_action sample_remedy no_faults 6 7 ''x1'' ''bob''
       (sample_state\<lparr>rm_policy := (rm_policy sample_state)\<lparr>pdb_executions := db'\<rparr>\<rparr>) =
     (Inl er, sample_state\<lparr>rm_policy := (rm_policy sample_state)\<lparr>pdb_executions := db'\<rparr>\<rparr>)"
proof -
  obtain db' where a: "handle_approve no_faults 5 operator_request ''x1'' [waiting_execution] = (200, db')"
    by (simp add: handle_approve_def get_execution_def approve_execution_def waiting_execution_def)
  have "exec_run db' (pdb_executions (rm_policy (sample_state\<lparr>rm_policy := (rm_policy sample_state)\<lparr>pdb_executions := db'\<rparr>\<rparr>)))"
    by simp
  from api_approval_never_runs[OF a this, of sample_remedy no_faults 6 7 "''bob''"] a show ?thesis by blast
qed

end
