(* ===== verification/Topology.thy ===== *)
theory Topology
  imports IncidentStore GoFloat
begin

text \<open>
  \<open>internal/models/topology.go\<close> and \<open>internal/store/topology_store.go\<close>: the graph of services, with
  the health of its nodes, and the two recursive queries over it. PostgreSQL computes the propagated
  confidence in its type \<open>REAL\<close>; what it makes of a number there and in a cast to \<open>INTEGER\<close> is a
  parameter, and a value out of range makes the query fail. A recursive query is run as PostgreSQL
  documents it: the working table starts with the rows of the first part and is replaced by the rows
  the second part makes of it until it is empty.
\<close>

section \<open>Tables\<close>

record NodeHealth =
  nh_id :: int
  nh_node :: string
  nh_tenant :: string
  nh_status :: string
  nh_cpu_pct :: rat
  nh_mem_pct :: rat
  nh_error_rate_pct :: rat
  nh_latency_ms_p99 :: rat
  nh_recorded_at :: time

record TopologyNode =
  tn_id :: string
  tn_tenant_id :: string
  tn_node_type :: string
  tn_name :: string
  tn_display_name :: string
  tn_tier :: string
  tn_owner_team :: string
  tn_is_customer_facing :: bool
  tn_version :: string
  tn_environment :: string
  tn_metadata :: smap
  tn_auto_discovered :: bool
  tn_health :: "NodeHealth option"          \<comment> \<open>joined on reading\<close>
  tn_created_at :: time
  tn_updated_at :: time

record TopologyEdge =
  te_id :: string
  te_tenant_id :: string
  te_from :: string
  te_to :: string
  te_relation :: string
  te_weight :: rat
  te_confidence :: int
  te_propagation_factor :: rat
  te_latency_ms_p99 :: rat
  te_error_rate_pct :: rat
  te_auto_discovered :: bool
  te_from_name :: string                    \<comment> \<open>joined on reading\<close>
  te_to_name :: string
  te_created_at :: time
  te_updated_at :: time

record topology_db =
  td_nodes :: "TopologyNode list"
  td_edges :: "TopologyEdge list"
  td_health :: "NodeHealth list"
  td_next :: int

definition empty_topology :: topology_db where
  "empty_topology = \<lparr>td_nodes = [], td_edges = [], td_health = [], td_next = 1\<rparr>"

definition node_key :: "TopologyNode \<Rightarrow> string \<times> string" where
  "node_key n = (tn_tenant_id n, tn_name n)"

definition edge_key :: "TopologyEdge \<Rightarrow> string \<times> string \<times> string \<times> string" where
  "edge_key e = (te_tenant_id e, te_from e, te_to e, te_relation e)"

section \<open>Nodes\<close>

text \<open>\<open>ON CONFLICT (tenant_id, name)\<close>: the identifier of the stored row stays. A new row whose
  identifier is taken violates the primary key.\<close>

definition node_update :: "time \<Rightarrow> TopologyNode \<Rightarrow> TopologyNode \<Rightarrow> TopologyNode" where
  "node_update now n r = r\<lparr>tn_node_type := tn_node_type n, tn_display_name := tn_display_name n,
     tn_tier := tn_tier n, tn_owner_team := tn_owner_team n, tn_is_customer_facing := tn_is_customer_facing n,
     tn_version := tn_version n, tn_environment := tn_environment n, tn_metadata := tn_metadata n,
     tn_auto_discovered := tn_auto_discovered n, tn_updated_at := now\<rparr>"

definition upsert_node :: "faults \<Rightarrow> time \<Rightarrow> TopologyNode \<Rightarrow> topology_db \<Rightarrow> topology_db result" where
  "upsert_node flt now n db = guard_db flt ''UpsertNode''
     (if tbl_has node_key (node_key n) (td_nodes db)
      then Inr (db\<lparr>td_nodes := tbl_update (\<lambda>r. node_key r = node_key n) (node_update now n) (td_nodes db)\<rparr>)
      else if tbl_has tn_id (tn_id n) (td_nodes db) then Inl ErrUnique
      else Inr (db\<lparr>td_nodes := td_nodes db @ [n\<lparr>tn_health := None, tn_created_at := now, tn_updated_at := now\<rparr>]\<rparr>))"

definition latest_health :: "string \<Rightarrow> topology_db \<Rightarrow> NodeHealth option" where
  "latest_health nid db = first_row (order_desc nh_recorded_at (filter (\<lambda>h. nh_node h = nid) (td_health db)))"

definition with_health :: "topology_db \<Rightarrow> TopologyNode \<Rightarrow> TopologyNode" where
  "with_health db n = n\<lparr>tn_health := latest_health (tn_id n) db\<rparr>"

definition get_nodes :: "faults \<Rightarrow> string \<Rightarrow> topology_db \<Rightarrow> TopologyNode list result" where
  "get_nodes flt tenant db = guard_db flt ''GetNodes''
     (Inr (map (with_health db) (sort_key tn_node_type (sort_key tn_name
        (filter (\<lambda>n. tn_tenant_id n = tenant) (td_nodes db))))))"

definition get_node_by_name :: "faults \<Rightarrow> string \<Rightarrow> string \<Rightarrow> topology_db \<Rightarrow> TopologyNode option result" where
  "get_node_by_name flt tenant name db = guard_db flt ''GetNodeByName''
     (Inr (map_option (with_health db) (tbl_find node_key (tenant, name) (td_nodes db))))"

definition get_node_by_id :: "faults \<Rightarrow> string \<Rightarrow> topology_db \<Rightarrow> TopologyNode option result" where
  "get_node_by_id flt nid db = guard_db flt ''GetNodeByID''
     (Inr (map_option (with_health db) (tbl_find tn_id nid (td_nodes db))))"

definition get_node_for_tenant :: "faults \<Rightarrow> string \<Rightarrow> string \<Rightarrow> topology_db \<Rightarrow> TopologyNode option result" where
  "get_node_for_tenant flt nid tenant db = guard_db flt ''GetNodeByIDForTenant''
     (Inr (map_option (with_health db) (find (\<lambda>n. tn_id n = nid \<and> tn_tenant_id n = tenant) (td_nodes db))))"

text \<open>The foreign keys cascade.\<close>

definition delete_node :: "faults \<Rightarrow> string \<Rightarrow> topology_db \<Rightarrow> topology_db result" where
  "delete_node flt nid db = guard_db flt ''DeleteNode''
     (Inr (if tbl_has tn_id nid (td_nodes db)
       then db\<lparr>td_nodes := tbl_delete (\<lambda>n. tn_id n = nid) (td_nodes db),
               td_edges := tbl_delete (\<lambda>e. te_from e = nid \<or> te_to e = nid) (td_edges db),
               td_health := tbl_delete (\<lambda>h. nh_node h = nid) (td_health db)\<rparr>
       else db))"

section \<open>Edges\<close>

record pg_numbers =
  pg_real :: "rat \<Rightarrow> rat option"            \<comment> \<open>the value in \<open>REAL\<close>, none out of range\<close>
  pg_integer :: "rat \<Rightarrow> int option"         \<comment> \<open>\<open>CAST(... AS INTEGER)\<close>\<close>

definition edge_update :: "time \<Rightarrow> TopologyEdge \<Rightarrow> TopologyEdge \<Rightarrow> TopologyEdge" where
  "edge_update now e r = r\<lparr>te_weight := te_weight e, te_confidence := te_confidence e,
     te_propagation_factor := te_propagation_factor e, te_latency_ms_p99 := te_latency_ms_p99 e,
     te_error_rate_pct := te_error_rate_pct e, te_auto_discovered := te_auto_discovered e, te_updated_at := now\<rparr>"

text \<open>The row as stored, unless one of its numbers does not fit.\<close>

definition stored_edge :: "pg_numbers \<Rightarrow> time \<Rightarrow> TopologyEdge \<Rightarrow> TopologyEdge option" where
  "stored_edge num now e =
    (case (pg_real num (te_weight e), pg_real num (te_propagation_factor e), pg_real num (te_latency_ms_p99 e),
           pg_real num (te_error_rate_pct e)) of
       (Some w, Some f, Some l, Some r) \<Rightarrow>
         Some (e\<lparr>te_weight := w, te_propagation_factor := f, te_latency_ms_p99 := l, te_error_rate_pct := r,
           te_from_name := [], te_to_name := [], te_created_at := now, te_updated_at := now\<rparr>)
     | _ \<Rightarrow> None)"

text \<open>Both ends have to be nodes, of whatever tenant.\<close>

definition upsert_edge :: "pg_numbers \<Rightarrow> faults \<Rightarrow> time \<Rightarrow> TopologyEdge \<Rightarrow> topology_db \<Rightarrow> topology_db result" where
  "upsert_edge num flt now e0 db = guard_db flt ''UpsertEdge''
     (case stored_edge num now e0 of
        None \<Rightarrow> Inl ErrDB
      | Some e \<Rightarrow>
         if tbl_has edge_key (edge_key e) (td_edges db)
         then Inr (db\<lparr>td_edges := tbl_update (\<lambda>r. edge_key r = edge_key e) (edge_update now e) (td_edges db)\<rparr>)
         else if tbl_has te_id (te_id e) (td_edges db) then Inl ErrUnique
         else if \<not> tbl_has tn_id (te_from e) (td_nodes db) \<or> \<not> tbl_has tn_id (te_to e) (td_nodes db) then Inl ErrDB
         else Inr (db\<lparr>td_edges := td_edges db @ [e]\<rparr>))"

definition node_name :: "topology_db \<Rightarrow> string \<Rightarrow> string" where
  "node_name db nid = (case tbl_find tn_id nid (td_nodes db) of None \<Rightarrow> [] | Some n \<Rightarrow> tn_name n)"

definition get_edges :: "faults \<Rightarrow> string \<Rightarrow> topology_db \<Rightarrow> TopologyEdge list result" where
  "get_edges flt tenant db = guard_db flt ''GetEdges''
     (Inr (sort_key te_from_name (sort_key te_to_name
        (map (\<lambda>e. e\<lparr>te_from_name := node_name db (te_from e), te_to_name := node_name db (te_to e)\<rparr>)
          (filter (\<lambda>e. te_tenant_id e = tenant) (td_edges db))))))"

definition delete_edge :: "faults \<Rightarrow> string \<Rightarrow> topology_db \<Rightarrow> topology_db result" where
  "delete_edge flt eid db = guard_db flt ''DeleteEdge''
     (Inr (db\<lparr>td_edges := tbl_delete (\<lambda>e. te_id e = eid) (td_edges db)\<rparr>))"

section \<open>Traversal\<close>

record cte_row =
  cr_node :: string
  cr_depth :: int
  cr_conf :: "rat option"
  cr_relation :: string
  cr_path :: "string list"

record TraversalHop =
  th_node :: string
  th_depth :: int
  th_confidence :: int
  th_relation :: string
  th_path :: "string list"

text \<open>\<open>src\<close> and \<open>dst\<close> are the two columns of an edge: downstream from its tail to its head, upstream
  the other way round.\<close>

definition base_rows ::
    "pg_numbers \<Rightarrow> (TopologyEdge \<Rightarrow> string) \<Rightarrow> (TopologyEdge \<Rightarrow> string) \<Rightarrow> string \<Rightarrow> string \<Rightarrow> TopologyEdge list \<Rightarrow> cte_row list" where
  "base_rows num src dst tenant start edges =
    map (\<lambda>e. \<lparr>cr_node = dst e, cr_depth = 1, cr_conf = pg_real num (of_int (te_confidence e)),
              cr_relation = te_relation e, cr_path = [src e, dst e]\<rparr>)
      (filter (\<lambda>e. src e = start \<and> te_tenant_id e = tenant) edges)"

definition next_rows ::
    "pg_numbers \<Rightarrow> (TopologyEdge \<Rightarrow> string) \<Rightarrow> (TopologyEdge \<Rightarrow> string) \<Rightarrow> string \<Rightarrow> int \<Rightarrow> TopologyEdge list \<Rightarrow>
     cte_row list \<Rightarrow> cte_row list" where
  "next_rows num src dst tenant maxDepth edges work =
    concat (map (\<lambda>r. map (\<lambda>e. \<lparr>cr_node = dst e, cr_depth = cr_depth r + 1,
          cr_conf = (case cr_conf r of None \<Rightarrow> None | Some c \<Rightarrow> pg_real num (c * te_propagation_factor e)),
          cr_relation = te_relation e, cr_path = cr_path r @ [dst e]\<rparr>)
        (filter (\<lambda>e. src e = cr_node r \<and> te_tenant_id e = tenant \<and> cr_depth r < maxDepth \<and>
           dst e \<notin> set (cr_path r)) edges)) work)"

definition depth_left :: "int \<Rightarrow> cte_row list \<Rightarrow> nat" where
  "depth_left maxDepth work = foldr (\<lambda>r m. max (Suc (nat (maxDepth - cr_depth r))) m) work 0"

lemma depth_left_ge: "r \<in> set work \<Longrightarrow> Suc (nat (maxDepth - cr_depth r)) \<le> depth_left maxDepth work"
  by (induction work) (auto simp: depth_left_def)

lemma depth_left_less: "(\<And>r. r \<in> set work \<Longrightarrow> Suc (nat (maxDepth - cr_depth r)) < n) \<Longrightarrow> 0 < n \<Longrightarrow>
    depth_left maxDepth work < n"
  by (induction work) (auto simp: depth_left_def)

lemma next_rows_in: "r' \<in> set (next_rows num src dst tenant maxDepth edges work) \<Longrightarrow>
    \<exists>r \<in> set work. \<exists>e \<in> set edges. src e = cr_node r \<and> te_tenant_id e = tenant \<and> cr_depth r < maxDepth \<and>
      dst e \<notin> set (cr_path r) \<and> cr_node r' = dst e \<and> cr_depth r' = cr_depth r + 1 \<and> cr_path r' = cr_path r @ [dst e]"
  unfolding next_rows_def by fastforce

lemma depth_left_next:
  assumes "work \<noteq> []"
  shows "depth_left maxDepth (next_rows num src dst tenant maxDepth edges work) < depth_left maxDepth work"
proof (rule depth_left_less)
  fix r' assume "r' \<in> set (next_rows num src dst tenant maxDepth edges work)"
  then obtain r where "r \<in> set work" "cr_depth r < maxDepth" "cr_depth r' = cr_depth r + 1"
    using next_rows_in by blast
  then show "Suc (nat (maxDepth - cr_depth r')) < depth_left maxDepth work"
    using depth_left_ge[of r work maxDepth] by simp
next
  obtain r where "r \<in> set work" using assms by (cases work) auto
  from depth_left_ge[OF this, of maxDepth] show "0 < depth_left maxDepth work" by simp
qed

function cte_rows ::
    "pg_numbers \<Rightarrow> (TopologyEdge \<Rightarrow> string) \<Rightarrow> (TopologyEdge \<Rightarrow> string) \<Rightarrow> string \<Rightarrow> int \<Rightarrow> TopologyEdge list \<Rightarrow>
     cte_row list \<Rightarrow> cte_row list" where
  "cte_rows num src dst tenant maxDepth edges work =
    (if work = [] then []
     else work @ cte_rows num src dst tenant maxDepth edges (next_rows num src dst tenant maxDepth edges work))"
  by pat_completeness auto

termination
  by (relation "measure (\<lambda>(num, src, dst, tenant, maxDepth, edges, work). depth_left maxDepth work)")
     (simp_all add: depth_left_next)

declare cte_rows.simps [simp del]

text \<open>\<open>SELECT DISTINCT ON (f)\<close> of ordered rows, and the loops with a map of what was seen: the first
  element of each value.\<close>

fun first_per :: "('a \<Rightarrow> 'k) \<Rightarrow> 'k list \<Rightarrow> 'a list \<Rightarrow> 'a list" where
  "first_per f seen [] = []"
| "first_per f seen (x # xs) = (if f x \<in> set seen then first_per f seen xs else x # first_per f (f x # seen) xs)"

definition distinct_on_node :: "cte_row list \<Rightarrow> cte_row list" where
  "distinct_on_node rows = first_per cr_node [] (sort_key cr_node (order_asc cr_depth rows))"

definition row_in_range :: "pg_numbers \<Rightarrow> cte_row \<Rightarrow> bool" where
  "row_in_range num r \<longleftrightarrow> (case cr_conf r of None \<Rightarrow> False | Some c \<Rightarrow> pg_integer num c \<noteq> None)"

definition row_hop :: "pg_numbers \<Rightarrow> cte_row \<Rightarrow> TraversalHop" where
  "row_hop num r = \<lparr>th_node = cr_node r, th_depth = cr_depth r,
     th_confidence = (case cr_conf r of None \<Rightarrow> 0 | Some c \<Rightarrow> (case pg_integer num c of None \<Rightarrow> 0 | Some i \<Rightarrow> i)),
     th_relation = cr_relation r, th_path = cr_path r\<rparr>"

definition traverse_rows ::
    "pg_numbers \<Rightarrow> (TopologyEdge \<Rightarrow> string) \<Rightarrow> (TopologyEdge \<Rightarrow> string) \<Rightarrow> string \<Rightarrow> string \<Rightarrow> int \<Rightarrow> topology_db \<Rightarrow> cte_row list" where
  "traverse_rows num src dst start tenant maxDepth db =
    cte_rows num src dst tenant maxDepth (td_edges db) (base_rows num src dst tenant start (td_edges db))"

definition traverse ::
    "pg_numbers \<Rightarrow> (TopologyEdge \<Rightarrow> string) \<Rightarrow> (TopologyEdge \<Rightarrow> string) \<Rightarrow> string \<Rightarrow> string \<Rightarrow> int \<Rightarrow> topology_db \<Rightarrow>
     TraversalHop list result" where
  "traverse num src dst start tenant maxDepth db =
    (let rows = traverse_rows num src dst start tenant maxDepth db in
     if list_all (row_in_range num) rows then Inr (map (row_hop num) (distinct_on_node rows)) else Inl ErrDB)"

definition get_downstream ::
    "pg_numbers \<Rightarrow> faults \<Rightarrow> string \<Rightarrow> string \<Rightarrow> int \<Rightarrow> topology_db \<Rightarrow> TraversalHop list result" where
  "get_downstream num flt nid tenant maxDepth db =
    guard_db flt ''GetDownstream'' (traverse num te_from te_to nid tenant maxDepth db)"

definition get_upstream ::
    "pg_numbers \<Rightarrow> faults \<Rightarrow> string \<Rightarrow> string \<Rightarrow> int \<Rightarrow> topology_db \<Rightarrow> TraversalHop list result" where
  "get_upstream num flt nid tenant maxDepth db =
    guard_db flt ''GetUpstream'' (traverse num te_to te_from nid tenant maxDepth db)"

section \<open>Health\<close>

record NodeHealthInput =
  hi_node :: string
  hi_status :: string
  hi_cpu_pct :: rat
  hi_mem_pct :: rat
  hi_error_rate_pct :: rat
  hi_latency_ms_p99 :: rat

text \<open>The insert, then a delete whose failure is ignored. A number out of the range of \<open>REAL\<close>, and
  a node that does not exist, make the insert fail.\<close>

definition health_row :: "pg_numbers \<Rightarrow> time \<Rightarrow> NodeHealthInput \<Rightarrow> string \<Rightarrow> int \<Rightarrow> NodeHealth option" where
  "health_row num now h tenant i =
    (case (pg_real num (hi_cpu_pct h), pg_real num (hi_mem_pct h), pg_real num (hi_error_rate_pct h),
           pg_real num (hi_latency_ms_p99 h)) of
       (Some c, Some m, Some e, Some l) \<Rightarrow>
         Some \<lparr>nh_id = i, nh_node = hi_node h, nh_tenant = tenant, nh_status = hi_status h, nh_cpu_pct = c,
           nh_mem_pct = m, nh_error_rate_pct = e, nh_latency_ms_p99 = l, nh_recorded_at = now\<rparr>
     | _ \<Rightarrow> None)"

definition trim_health :: "string \<Rightarrow> NodeHealth list \<Rightarrow> NodeHealth list" where
  "trim_health nid hs =
    (let keep = map nh_id (take 100 (order_desc nh_recorded_at (filter (\<lambda>h. nh_node h = nid) hs)))
     in tbl_delete (\<lambda>h. nh_node h = nid \<and> nh_id h \<notin> set keep) hs)"

definition record_health ::
    "pg_numbers \<Rightarrow> faults \<Rightarrow> time \<Rightarrow> NodeHealthInput \<Rightarrow> string \<Rightarrow> topology_db \<Rightarrow> topology_db result" where
  "record_health num flt now h tenant db =
    (if flt ''RecordHealth'' \<or> \<not> tbl_has tn_id (hi_node h) (td_nodes db) then Inl ErrDB
     else (case health_row num now h tenant (td_next db) of
        None \<Rightarrow> Inl ErrDB
      | Some r \<Rightarrow>
         (let db1 = db\<lparr>td_health := td_health db @ [r], td_next := td_next db + 1\<rparr>
          in Inr (if flt ''RecordHealth/trim'' then db1
                  else db1\<lparr>td_health := trim_health (hi_node h) (td_health db1)\<rparr>))))"

section \<open>What a traversal finds\<close>

text \<open>The graph of a tenant, and the number of edges of a shortest way.\<close>

definition links :: "(TopologyEdge \<Rightarrow> string) \<Rightarrow> (TopologyEdge \<Rightarrow> string) \<Rightarrow> string \<Rightarrow> topology_db \<Rightarrow> (string \<times> string) set" where
  "links src dst tenant db = (\<lambda>e. (src e, dst e)) ` set (filter (\<lambda>e. te_tenant_id e = tenant) (td_edges db))"

definition at_distance :: "(string \<times> string) set \<Rightarrow> string \<Rightarrow> string \<Rightarrow> nat \<Rightarrow> bool" where
  "at_distance R a b d \<longleftrightarrow> (a, b) \<in> R ^^ d \<and> (\<forall>k < d. (a, b) \<notin> R ^^ k)"

lemma at_distance_unique: "at_distance R a b d \<Longrightarrow> at_distance R a b d' \<Longrightarrow> d = d'"
  unfolding at_distance_def by (metis linorder_neqE_nat)

lemma at_distance_self [simp]: "at_distance R a a d \<longleftrightarrow> d = 0"
  by (auto simp: at_distance_def dest!: spec[of _ 0])

lemma at_distance_le: "(a, b) \<in> R ^^ k \<Longrightarrow> \<exists>d \<le> k. at_distance R a b d"
proof (induction k rule: less_induct)
  case (less k)
  show ?case
  proof (cases "\<exists>j < k. (a, b) \<in> R ^^ j")
    case True
    then obtain j where "j < k" "(a, b) \<in> R ^^ j" by blast
    with less.IH[OF this] show ?thesis by (meson le_trans less_imp_le)
  next
    case False
    with less.prems have "at_distance R a b k" by (simp add: at_distance_def)
    then show ?thesis by blast
  qed
qed

lemma at_distance_step:
  assumes "at_distance R a c (Suc d)"
  obtains b where "at_distance R a b d" "(b, c) \<in> R"
proof -
  from assms obtain b where b: "(a, b) \<in> R ^^ d" "(b, c) \<in> R" by (auto simp: at_distance_def)
  moreover have "(a, b) \<notin> R ^^ k" if "k < d" for k
  proof
    assume "(a, b) \<in> R ^^ k"
    with b(2) have "(a, c) \<in> R ^^ Suc k" by auto
    with assms that show False by (auto simp: at_distance_def simp del: relpow.simps)
  qed
  ultimately show thesis using that[of b] by (auto simp: at_distance_def)
qed

subsection \<open>The rows\<close>

text \<open>A row holds a way from the start without a repetition after its first node.\<close>

definition row_ok :: "(string \<times> string) set \<Rightarrow> string \<Rightarrow> cte_row \<Rightarrow> bool" where
  "row_ok R start r \<longleftrightarrow> (\<exists>p. cr_path r = start # p \<and> p \<noteq> [] \<and> last p = cr_node r \<and> distinct p \<and>
     start \<notin> set (tl p) \<and> cr_depth r = int (length p)) \<and>
     (\<forall>i < length (cr_path r). (start, cr_path r ! i) \<in> R ^^ i)"

lemma base_row_ok: "r \<in> set (base_rows num src dst tenant start (td_edges db)) \<Longrightarrow> row_ok (links src dst tenant db) start r"
  by (auto simp: base_rows_def row_ok_def links_def less_Suc_eq nth_Cons split: nat.splits)

lemma next_row_ok:
  assumes "\<forall>r \<in> set work. row_ok (links src dst tenant db) start r"
    and "r' \<in> set (next_rows num src dst tenant maxDepth (td_edges db) work)"
  shows "row_ok (links src dst tenant db) start r'"
proof -
  let ?R = "links src dst tenant db"
  from next_rows_in[OF assms(2)] obtain r e where r: "r \<in> set work" "e \<in> set (td_edges db)" "src e = cr_node r"
      "te_tenant_id e = tenant" "dst e \<notin> set (cr_path r)" "cr_node r' = dst e" "cr_depth r' = cr_depth r + 1"
      "cr_path r' = cr_path r @ [dst e]" by blast
  from assms(1) r(1) obtain p where p: "cr_path r = start # p" "p \<noteq> []" "last p = cr_node r" "distinct p"
      "start \<notin> set (tl p)" "cr_depth r = int (length p)"
      and w: "\<forall>i < length (cr_path r). (start, cr_path r ! i) \<in> ?R ^^ i" by (auto simp: row_ok_def)
  have edge: "(cr_node r, dst e) \<in> ?R" using r(2-4) unfolding links_def by force
  have "(start, cr_path r ! length p) \<in> ?R ^^ length p" using w p(1) by simp
  moreover have "cr_path r ! length p = cr_node r" using p(1-3) by (simp add: last_conv_nth nth_Cons')
  ultimately have new: "(start, dst e) \<in> ?R ^^ Suc (length p)" using edge by auto
  have "(start, cr_path r' ! i) \<in> ?R ^^ i" if "i < length (cr_path r')" for i
  proof (cases "i < length (cr_path r)")
    case True
    with w r(8) show ?thesis by (simp add: nth_append)
  next
    case False
    with that have "i = Suc (length p)" using r(8) p(1) by simp
    with new r(8) p(1) show ?thesis by (simp add: nth_append del: relpow.simps)
  qed
  then show ?thesis using r p
    by (auto simp: row_ok_def simp del: relpow.simps intro!: exI[of _ "p @ [dst e]"])
qed

definition cte_round ::
    "pg_numbers \<Rightarrow> (TopologyEdge \<Rightarrow> string) \<Rightarrow> (TopologyEdge \<Rightarrow> string) \<Rightarrow> string \<Rightarrow> string \<Rightarrow> int \<Rightarrow> topology_db \<Rightarrow> nat \<Rightarrow> cte_row list" where
  "cte_round num src dst start tenant maxDepth db k =
    (next_rows num src dst tenant maxDepth (td_edges db) ^^ k) (base_rows num src dst tenant start (td_edges db))"

lemma cte_round_0: "cte_round num src dst start tenant maxDepth db 0 = base_rows num src dst tenant start (td_edges db)"
  by (simp add: cte_round_def)

lemma cte_round_Suc: "cte_round num src dst start tenant maxDepth db (Suc k) =
    next_rows num src dst tenant maxDepth (td_edges db) (cte_round num src dst start tenant maxDepth db k)"
  by (simp add: cte_round_def)

lemma cte_round_ok:
  "\<forall>r \<in> set (cte_round num src dst start tenant maxDepth db k).
     row_ok (links src dst tenant db) start r \<and> cr_depth r = int (Suc k)"
proof (induction k)
  case 0
  show ?case using base_row_ok by (auto simp: cte_round_0 base_rows_def)
next
  case (Suc k)
  then have ok: "\<forall>r \<in> set (cte_round num src dst start tenant maxDepth db k). row_ok (links src dst tenant db) start r" by blast
  show ?case
  proof
    fix r' assume r': "r' \<in> set (cte_round num src dst start tenant maxDepth db (Suc k))"
    then have "row_ok (links src dst tenant db) start r'" using next_row_ok[OF ok] by (simp add: cte_round_Suc)
    moreover have "cr_depth r' = int (Suc (Suc k))"
      using r' Suc by (auto simp: cte_round_Suc dest!: next_rows_in)
    ultimately show "row_ok (links src dst tenant db) start r' \<and> cr_depth r' = int (Suc (Suc k))" ..
  qed
qed

lemma next_rows_Nil [simp]: "next_rows num src dst tenant maxDepth edges [] = []"
  by (simp add: next_rows_def)

lemma next_funpow_Nil [simp]: "(next_rows num src dst tenant maxDepth edges ^^ k) [] = []"
  by (induction k) simp_all

text \<open>The rows are those of the rounds up to the first empty one.\<close>

lemma cte_rows_unfold:
  "(next_rows num src dst tenant maxDepth edges ^^ n) work = [] \<Longrightarrow>
   cte_rows num src dst tenant maxDepth edges work =
     concat (map (\<lambda>k. (next_rows num src dst tenant maxDepth edges ^^ k) work) [0..<n])"
proof (induction n arbitrary: work)
  case 0
  then show ?case by (simp add: cte_rows.simps)
next
  case (Suc n)
  let ?f = "next_rows num src dst tenant maxDepth edges"
  have "cte_rows num src dst tenant maxDepth edges (?f work) = concat (map (\<lambda>k. (?f ^^ k) (?f work)) [0..<n])"
    using Suc by (simp add: funpow_swap1)
  moreover have "concat (map (\<lambda>k. (?f ^^ k) work) [0..<Suc n]) = work @ concat (map (\<lambda>k. (?f ^^ k) (?f work)) [0..<n])"
    by (simp add: upt_rec[of 0] map_Suc_upt[symmetric] comp_def funpow_swap1 del: upt.simps)
  ultimately show ?case
    by (subst cte_rows.simps) auto
qed

subsection \<open>When it ends\<close>

definition target_nodes :: "(TopologyEdge \<Rightarrow> string) \<Rightarrow> string \<Rightarrow> topology_db \<Rightarrow> string list" where
  "target_nodes dst tenant db = remdups (map dst (filter (\<lambda>e. te_tenant_id e = tenant) (td_edges db)))"

definition rounds_needed :: "(TopologyEdge \<Rightarrow> string) \<Rightarrow> string \<Rightarrow> int \<Rightarrow> topology_db \<Rightarrow> nat" where
  "rounds_needed dst tenant maxDepth db = min (nat (max 1 maxDepth)) (length (target_nodes dst tenant db))"

lemma target_nodes_links: "set (target_nodes dst tenant db) = Range (links src dst tenant db)"
  by (force simp: target_nodes_def links_def)

lemma row_path_targets:
  assumes "row_ok (links src dst tenant db) start r" and "cr_path r = start # p"
  shows "set p \<subseteq> set (target_nodes dst tenant db)"
proof
  fix x assume "x \<in> set p"
  then obtain i where i: "i < length p" "p ! i = x" by (auto simp: in_set_conv_nth)
  with assms have "(start, x) \<in> links src dst tenant db ^^ Suc i"
    unfolding row_ok_def by (metis length_Cons not_less_eq nth_Cons_Suc)
  then show "x \<in> set (target_nodes dst tenant db)" unfolding target_nodes_links[of _ _ _ src] by auto
qed

lemma cte_round_nodes:
  assumes "length (target_nodes dst tenant db) \<le> k"
  shows "cte_round num src dst start tenant maxDepth db k = []"
proof (rule ccontr)
  assume "cte_round num src dst start tenant maxDepth db k \<noteq> []"
  then obtain r where r: "r \<in> set (cte_round num src dst start tenant maxDepth db k)" by fastforce
  from cte_round_ok r have ok: "row_ok (links src dst tenant db) start r" "cr_depth r = int (Suc k)" by blast+
  from ok obtain p where p: "cr_path r = start # p" "distinct p" "length p = Suc k" by (auto simp: row_ok_def)
  have "length p = card (set p)" using p(2) by (simp add: distinct_card)
  also have "\<dots> \<le> card (set (target_nodes dst tenant db))"
    by (rule card_mono) (use row_path_targets[OF ok(1) p(1)] in auto)
  also have "\<dots> \<le> length (target_nodes dst tenant db)" by (rule card_length)
  finally show False using p(3) assms by simp
qed

lemma cte_round_depth:
  assumes "nat (max 1 maxDepth) \<le> k"
  shows "cte_round num src dst start tenant maxDepth db k = []"
proof (rule ccontr)
  assume ne: "cte_round num src dst start tenant maxDepth db k \<noteq> []"
  from assms obtain j where k: "k = Suc j" by (cases k) auto
  with ne obtain r' where "r' \<in> set (next_rows num src dst tenant maxDepth (td_edges db)
      (cte_round num src dst start tenant maxDepth db j))" by (fastforce simp: cte_round_Suc)
  from next_rows_in[OF this] obtain r where "r \<in> set (cte_round num src dst start tenant maxDepth db j)"
      "cr_depth r < maxDepth" by blast
  with cte_round_ok have "int (Suc j) < maxDepth" by fastforce
  with assms k show False by simp
qed

lemma traverse_rows_rounds:
  assumes "rounds_needed dst tenant maxDepth db \<le> n"
  shows "traverse_rows num src dst start tenant maxDepth db =
    concat (map (cte_round num src dst start tenant maxDepth db) [0..<n])"
proof -
  have "cte_round num src dst start tenant maxDepth db n = []"
    using assms cte_round_nodes cte_round_depth by (auto simp: rounds_needed_def min_le_iff_disj)
  then show ?thesis
    unfolding traverse_rows_def cte_round_def by (subst cte_rows_unfold) (auto simp: comp_def)
qed

lemma traverse_rows_set:
  "set (traverse_rows num src dst start tenant maxDepth db) = (\<Union>k. set (cte_round num src dst start tenant maxDepth db k))"
proof -
  have "r \<in> set (traverse_rows num src dst start tenant maxDepth db)"
    if "r \<in> set (cte_round num src dst start tenant maxDepth db k)" for r k
    using that unfolding traverse_rows_rounds[of dst tenant maxDepth db "max (Suc k) (rounds_needed dst tenant maxDepth db)",
        OF max.cobounded2] by (auto intro!: bexI[of _ k])
  then show ?thesis
    unfolding traverse_rows_rounds[OF order_refl, of num src dst start tenant maxDepth db] by auto
qed

subsection \<open>Which nodes it finds\<close>

lemma round_has_distance:
  assumes "at_distance (links src dst tenant db) start n (Suc k)" and "int (Suc k) \<le> max 1 maxDepth"
  shows "\<exists>r \<in> set (cte_round num src dst start tenant maxDepth db k). cr_node r = n"
  using assms
proof (induction k arbitrary: n)
  case 0
  then have "(start, n) \<in> links src dst tenant db" by (auto simp: at_distance_def)
  then show ?case by (force simp: cte_round_0 base_rows_def links_def)
next
  case (Suc k)
  let ?R = "links src dst tenant db"
  from Suc.prems(1) obtain b where b: "at_distance ?R start b (Suc k)" "(b, n) \<in> ?R" by (rule at_distance_step)
  with Suc obtain r where r: "r \<in> set (cte_round num src dst start tenant maxDepth db k)" "cr_node r = b" by force
  have ok: "row_ok ?R start r" "cr_depth r = int (Suc k)" using cte_round_ok r(1) by blast+
  have new: "n \<notin> set (cr_path r)"
  proof
    assume "n \<in> set (cr_path r)"
    then obtain i where i: "i < length (cr_path r)" "cr_path r ! i = n" by (auto simp: in_set_conv_nth)
    with ok(1) have "(start, n) \<in> ?R ^^ i" by (auto simp: row_ok_def)
    moreover have "length (cr_path r) = Suc (Suc k)" using ok by (auto simp: row_ok_def)
    ultimately show False using i(1) Suc.prems(1) by (simp add: at_distance_def del: relpow.simps)
  qed
  from b(2) obtain e where e: "e \<in> set (td_edges db)" "te_tenant_id e = tenant" "src e = b" "dst e = n"
    by (auto simp: links_def)
  have "cr_depth r < maxDepth" using ok(2) Suc.prems(2) by simp
  with r e new show ?case by (force simp: cte_round_Suc next_rows_def)
qed

lemma round_distance:
  assumes "r \<in> set (cte_round num src dst start tenant maxDepth db k)"
  shows "(start, cr_node r) \<in> links src dst tenant db ^^ Suc k" "cr_depth r = int (Suc k)"
    "int (Suc k) \<le> max 1 maxDepth" "cr_node r = start \<Longrightarrow> k = 0"
proof -
  have ok: "row_ok (links src dst tenant db) start r" "cr_depth r = int (Suc k)" using cte_round_ok assms by blast+
  then obtain p where p: "cr_path r = start # p" "p \<noteq> []" "last p = cr_node r" "length p = Suc k" "start \<notin> set (tl p)"
    by (auto simp: row_ok_def)
  have "(start, cr_path r ! Suc k) \<in> links src dst tenant db ^^ Suc k"
    using ok(1) p(1,4) unfolding row_ok_def by (metis length_Cons lessI)
  moreover have "cr_path r ! Suc k = cr_node r" using p by (simp add: last_conv_nth)
  ultimately show "(start, cr_node r) \<in> links src dst tenant db ^^ Suc k" by simp
  show "cr_depth r = int (Suc k)" by (rule ok(2))
  show "int (Suc k) \<le> max 1 maxDepth"
  proof (rule ccontr)
    assume "\<not> int (Suc k) \<le> max 1 maxDepth"
    then have "nat (max 1 maxDepth) \<le> k" by simp
    from cte_round_depth[OF this, of num src dst start tenant db] assms show False by simp
  qed
  show "k = 0" if "cr_node r = start"
  proof (rule ccontr)
    assume "k \<noteq> 0"
    with p(4) have "tl p \<noteq> []" by (cases p) auto
    with p(2,3) have "cr_node r \<in> set (tl p)" by (metis last_in_set last_tl)
    with that p(5) show False by simp
  qed
qed

subsection \<open>One hop for each node\<close>

lemma first_per_distinct: "distinct (map f (first_per f seen xs)) \<and> f ` set (first_per f seen xs) = f ` set xs - set seen"
  by (induction f seen xs rule: first_per.induct) auto

lemma first_per_hd: "x \<in> set (first_per f seen xs) \<Longrightarrow> x = hd (filter (\<lambda>y. f y = f x) xs) \<and> x \<in> set xs \<and> f x \<notin> set seen"
proof (induction f seen xs rule: first_per.induct)
  case (2 f seen y ys)
  show ?case
  proof (cases "f y \<in> set seen")
    case True
    with 2 show ?thesis by auto
  next
    case False
    with "2.prems" consider "x = y" | "x \<in> set (first_per f (f y # seen) ys)" by auto
    then show ?thesis
    proof cases
      case 1
      with False show ?thesis by simp
    next
      case 2
      with "2.IH"(2)[OF False] show ?thesis by auto
    qed
  qed
qed simp

lemma distinct_on_node_least:
  assumes "r \<in> set (distinct_on_node rows)"
  shows "r \<in> set rows \<and> (\<forall>r' \<in> set rows. cr_node r' = cr_node r \<longrightarrow> cr_depth r \<le> cr_depth r')"
proof -
  let ?sel = "\<lambda>y. cr_node y = cr_node r"
  have "filter ?sel (sort_key cr_node (order_asc cr_depth rows)) = filter ?sel (order_asc cr_depth rows)"
    by (rule sort_key_stable)
  with assms first_per_hd[of r cr_node "[]" "sort_key cr_node (order_asc cr_depth rows)"]
  have r: "r = hd (filter ?sel (order_asc cr_depth rows))" "r \<in> set rows" by (auto simp: distinct_on_node_def)
  have "sorted (map cr_depth (filter ?sel (order_asc cr_depth rows)))"
    unfolding order_asc_def by (rule sorted_filter) simp
  moreover have "filter ?sel (order_asc cr_depth rows) \<noteq> []" using r(2) by (auto simp: filter_empty_conv)
  then obtain ys where ys: "filter ?sel (order_asc cr_depth rows) = r # ys" using r(1) by (cases "filter ?sel (order_asc cr_depth rows)") auto
  ultimately have "\<forall>y \<in> set (r # ys). cr_depth r \<le> cr_depth y" by auto
  moreover have "set (r # ys) = {y \<in> set rows. ?sel y}" using ys[symmetric] by simp
  ultimately show ?thesis using r(2) by auto
qed

lemma distinct_on_node_nodes:
  "distinct (map cr_node (distinct_on_node rows)) \<and> cr_node ` set (distinct_on_node rows) = cr_node ` set rows"
  using first_per_distinct[of cr_node "[]" "sort_key cr_node (order_asc cr_depth rows)"] by (simp add: distinct_on_node_def)

text \<open>What a hop of a traversal is: the nearest way to a node within the depth, or the start itself
  over an edge from it to itself.\<close>

definition hop_at :: "(string \<times> string) set \<Rightarrow> string \<Rightarrow> int \<Rightarrow> string \<Rightarrow> int \<Rightarrow> bool" where
  "hop_at R start maxDepth n d \<longleftrightarrow>
     (if n = start then d = 1 \<and> (start, start) \<in> R
      else 1 \<le> d \<and> d \<le> max 1 maxDepth \<and> at_distance R start n (nat d))"

lemma distinct_on_rows:
  assumes "links src dst tenant db = R"
  shows "(\<exists>r \<in> set (distinct_on_node (traverse_rows num src dst start tenant maxDepth db)). cr_node r = n \<and> cr_depth r = d) \<longleftrightarrow>
    hop_at R start maxDepth n d"
proof
  let ?rows = "traverse_rows num src dst start tenant maxDepth db"
  assume "\<exists>r \<in> set (distinct_on_node ?rows). cr_node r = n \<and> cr_depth r = d"
  then obtain r where r: "r \<in> set (distinct_on_node ?rows)" "cr_node r = n" "cr_depth r = d" by blast
  note least = distinct_on_node_least[OF r(1)]
  then obtain k where k: "r \<in> set (cte_round num src dst start tenant maxDepth db k)" by (auto simp: traverse_rows_set)
  note dist = round_distance[OF k]
  show "hop_at R start maxDepth n d"
  proof (cases "n = start")
    case True
    with dist(4) r(2) have "k = 0" by simp
    with dist(1,2) r(2,3) True assms show ?thesis by (simp add: hop_at_def)
  next
    case False
    from at_distance_le[OF dist(1)] obtain m where m: "m \<le> Suc k" "at_distance R start n m"
      using assms r(2) by blast
    with False obtain j where j: "m = Suc j" by (cases m) (auto simp: at_distance_def)
    have "int (Suc j) \<le> max 1 maxDepth" using m(1) j dist(3) by linarith
    from round_has_distance[of src dst tenant db start n j maxDepth num] m(2) j this assms
    obtain r' where r': "r' \<in> set (cte_round num src dst start tenant maxDepth db j)" "cr_node r' = n" by blast
    have "r' \<in> set ?rows" using r'(1) by (auto simp: traverse_rows_set)
    with least r'(2) r(2) have "cr_depth r \<le> cr_depth r'" by simp
    with round_distance(2)[OF r'(1)] have "cr_depth r \<le> int (Suc j)" by simp
    with dist(2) m(1) j have "k = j" by simp
    with r(3) dist(2,3) have d: "d = int (Suc j)" "int (Suc j) \<le> max 1 maxDepth" by simp_all
    from m(2) j False d(2) show ?thesis unfolding d(1) hop_at_def nat_int by simp
  qed
next
  let ?rows = "traverse_rows num src dst start tenant maxDepth db"
  assume h: "hop_at R start maxDepth n d"
  obtain j where j: "d = int (Suc j)" "d \<le> max 1 maxDepth" "(start, n) \<in> R ^^ Suc j"
      "\<exists>r \<in> set (cte_round num src dst start tenant maxDepth db j). cr_node r = n"
  proof (cases "n = start")
    case True
    with h assms have "(start, start) \<in> links src dst tenant db" "d = 1" by (simp_all add: hop_at_def)
    then have "\<exists>r \<in> set (cte_round num src dst start tenant maxDepth db 0). cr_node r = n"
      using True by (force simp: cte_round_0 base_rows_def links_def)
    with that[of 0] \<open>d = 1\<close> True h assms show thesis by (simp add: hop_at_def)
  next
    case False
    with h have d: "1 \<le> d" "d \<le> max 1 maxDepth" "at_distance R start n (nat d)" by (simp_all add: hop_at_def)
    then have s: "nat d = Suc (nat d - 1)" by simp
    with d have "at_distance (links src dst tenant db) start n (Suc (nat d - 1))" "int (Suc (nat d - 1)) \<le> max 1 maxDepth"
      using assms by simp_all
    from round_has_distance[OF this, of num] that[of "nat d - 1"] d s show thesis by (simp add: at_distance_def)
  qed
  then obtain r0 where r0: "r0 \<in> set (cte_round num src dst start tenant maxDepth db j)" "cr_node r0 = n" by blast
  then have "n \<in> cr_node ` set ?rows" by (auto simp: traverse_rows_set)
  then have "n \<in> cr_node ` set (distinct_on_node ?rows)" using distinct_on_node_nodes[of ?rows] by simp
  then obtain r where r: "r \<in> set (distinct_on_node ?rows)" "cr_node r = n" by auto
  note least = distinct_on_node_least[OF r(1)]
  then obtain k where k: "r \<in> set (cte_round num src dst start tenant maxDepth db k)" by (auto simp: traverse_rows_set)
  note dist = round_distance[OF k]
  have "r0 \<in> set ?rows" using r0(1) by (auto simp: traverse_rows_set)
  with least r0(2) r(2) have "cr_depth r \<le> cr_depth r0" by simp
  with dist(2) round_distance(2)[OF r0(1)] have le: "k \<le> j" by simp
  have "k = j"
  proof (cases "n = start")
    case True
    with h j(1) have "j = 0" by (simp add: hop_at_def)
    with le show ?thesis by simp
  next
    case False
    with h j(1) have "at_distance R start n (Suc j)" by (simp add: hop_at_def del: of_nat_Suc)
    with dist(1) r(2) assms have "\<not> Suc k < Suc j" by (auto simp: at_distance_def simp del: relpow.simps)
    with le show ?thesis by simp
  qed
  with dist(2) j(1) r show "\<exists>r \<in> set (distinct_on_node ?rows). cr_node r = n \<and> cr_depth r = d" by auto
qed

subsection \<open>The interface of a traversal\<close>

locale traversal_query =
  fixes query :: "string \<Rightarrow> string \<Rightarrow> int \<Rightarrow> topology_db \<Rightarrow> TraversalHop list result"
    and graph :: "string \<Rightarrow> topology_db \<Rightarrow> (string \<times> string) set"
  assumes query_once: "query start tenant maxDepth db = Inr hops \<Longrightarrow> distinct (map th_node hops)"
    and query_hops: "query start tenant maxDepth db = Inr hops \<Longrightarrow>
      (\<exists>h \<in> set hops. th_node h = n \<and> th_depth h = d) \<longleftrightarrow> hop_at (graph tenant db) start maxDepth n d"
begin

lemma hop_facts:
  assumes "query start tenant maxDepth db = Inr hops" "h \<in> set hops"
  shows "hop_at (graph tenant db) start maxDepth (th_node h) (th_depth h)"
  using query_hops[OF assms(1), of "th_node h" "th_depth h"] assms(2) by blast

lemma hop_nodes:
  assumes "query start tenant maxDepth db = Inr hops"
  shows "set (map th_node hops) = {n. \<exists>d. hop_at (graph tenant db) start maxDepth n d}"
proof -
  have "n \<in> set (map th_node hops) \<longleftrightarrow> (\<exists>d. \<exists>h \<in> set hops. th_node h = n \<and> th_depth h = d)" for n by auto
  then show ?thesis unfolding query_hops[OF assms] by blast
qed

lemma hop_depth:
  assumes "query start tenant maxDepth db = Inr hops" "h \<in> set hops"
  shows "1 \<le> th_depth h \<and> th_depth h \<le> max 1 maxDepth"
  using hop_facts[OF assms] by (auto simp: hop_at_def split: if_splits)

lemma hop_no_start:
  assumes "query start tenant maxDepth db = Inr hops" "(start, start) \<notin> graph tenant db"
  shows "start \<notin> set (map th_node hops)"
  using assms(2) unfolding hop_nodes[OF assms(1)] by (simp add: hop_at_def)

lemma hop_deeper:
  assumes "query start tenant maxDepth db = Inr hops" "query start tenant maxDepth' db = Inr hops'" "maxDepth \<le> maxDepth'"
  shows "set (map th_node hops) \<subseteq> set (map th_node hops')"
proof -
  have "hop_at (graph tenant db) start maxDepth' n d" if "hop_at (graph tenant db) start maxDepth n d" for n d
    using that assms(3) by (auto simp: hop_at_def split: if_splits)
  then show ?thesis unfolding hop_nodes[OF assms(1)] hop_nodes[OF assms(2)] by blast
qed

lemma hop_count:
  assumes "query start tenant maxDepth db = Inr hops"
  shows "length hops = card {n. \<exists>d. hop_at (graph tenant db) start maxDepth n d}"
  using distinct_card[OF query_once[OF assms]] hop_nodes[OF assms] by simp

end

lemma traverse_Inr:
  "traverse num src dst start tenant maxDepth db = Inr hops \<longleftrightarrow>
   list_all (row_in_range num) (traverse_rows num src dst start tenant maxDepth db) \<and>
   hops = map (row_hop num) (distinct_on_node (traverse_rows num src dst start tenant maxDepth db))"
  by (auto simp: traverse_def Let_def)

lemma row_hop_simps [simp]:
  "th_node (row_hop num r) = cr_node r" "th_depth (row_hop num r) = cr_depth r" "th_path (row_hop num r) = cr_path r"
  by (simp_all add: row_hop_def)

lemma traverse_once: "traverse num src dst start tenant maxDepth db = Inr hops \<Longrightarrow> distinct (map th_node hops)"
  using distinct_on_node_nodes by (auto simp: traverse_Inr comp_def)

lemma traverse_hops: "traverse num src dst start tenant maxDepth db = Inr hops \<Longrightarrow>
    (\<exists>h \<in> set hops. th_node h = n \<and> th_depth h = d) \<longleftrightarrow> hop_at (links src dst tenant db) start maxDepth n d"
  using distinct_on_rows[OF refl, where src = src and dst = dst and tenant = tenant and db = db and num = num and
      start = start and maxDepth = maxDepth and n = n and d = d] by (auto simp: traverse_Inr)

interpretation downstream: traversal_query "get_downstream num flt" "links te_from te_to" for num flt
  by unfold_locales (auto simp: get_downstream_def dest: traverse_once traverse_hops)

interpretation upstream: traversal_query "get_upstream num flt" "links te_to te_from" for num flt
  by unfold_locales (auto simp: get_upstream_def dest: traverse_once traverse_hops)

text \<open>The path of a hop.\<close>

definition path_ok :: "(string \<times> string) set \<Rightarrow> string \<Rightarrow> TraversalHop \<Rightarrow> bool" where
  "path_ok R start h \<longleftrightarrow> hd (th_path h) = start \<and> last (th_path h) = th_node h \<and> distinct (tl (th_path h)) \<and>
     int (length (th_path h)) = th_depth h + 1 \<and>
     (\<forall>i < length (th_path h). (start, th_path h ! i) \<in> R ^^ i)"

lemma traverse_path:
  assumes "traverse num src dst start tenant maxDepth db = Inr hops" "h \<in> set hops"
  shows "path_ok (links src dst tenant db) start h"
proof -
  from assms obtain r where r: "h = row_hop num r" "r \<in> set (distinct_on_node (traverse_rows num src dst start tenant maxDepth db))"
    by (auto simp: traverse_Inr)
  with distinct_on_node_least[OF r(2)] obtain k where "r \<in> set (cte_round num src dst start tenant maxDepth db k)"
    by (auto simp: traverse_rows_set)
  with cte_round_ok have "row_ok (links src dst tenant db) start r" by blast
  with r(1) show ?thesis by (auto simp: row_ok_def path_ok_def)
qed

lemma traverse_total:
  "list_all (row_in_range num) (traverse_rows num src dst start tenant maxDepth db) \<Longrightarrow>
   \<exists>hops. traverse num src dst start tenant maxDepth db = Inr hops"
  by (simp add: traverse_def)

lemma links_swap: "links te_to te_from tenant db = (links te_from te_to tenant db)\<inverse>"
  by (force simp: links_def)

lemma relpow_inverse: "(R\<inverse>) ^^ n = (R ^^ n)\<inverse>" for R :: "(string \<times> string) set"
  by (induction n) (simp_all add: converse_relcomp[symmetric] relpow_commute)

lemma at_distance_converse: "at_distance (R\<inverse>) a b d \<longleftrightarrow> at_distance R b a d"
  by (simp add: at_distance_def relpow_inverse)

section \<open>What the tables keep\<close>

definition topology_ok :: "topology_db \<Rightarrow> bool" where
  "topology_ok db \<longleftrightarrow> pk tn_id (td_nodes db) \<and> pk node_key (td_nodes db) \<and>
     pk te_id (td_edges db) \<and> pk edge_key (td_edges db) \<and>
     (\<forall>e \<in> set (td_edges db). tbl_has tn_id (te_from e) (td_nodes db) \<and> tbl_has tn_id (te_to e) (td_nodes db)) \<and>
     (\<forall>h \<in> set (td_health db). tbl_has tn_id (nh_node h) (td_nodes db)) \<and>
     pk nh_id (td_health db) \<and> (\<forall>h \<in> set (td_health db). nh_id h < td_next db)"

inductive topology_step :: "topology_db \<Rightarrow> topology_db \<Rightarrow> bool" where
  node_put: "upsert_node flt now n db = Inr db' \<Longrightarrow> topology_step db db'"
| node_gone: "delete_node flt nid db = Inr db' \<Longrightarrow> topology_step db db'"
| edge_put: "upsert_edge num flt now e db = Inr db' \<Longrightarrow> topology_step db db'"
| edge_gone: "delete_edge flt eid db = Inr db' \<Longrightarrow> topology_step db db'"
| health_put: "record_health num flt now h tenant db = Inr db' \<Longrightarrow> topology_step db db'"

inductive_cases topology_stepE: "topology_step db db'"

lemma node_update_keys [simp]: "tn_id (node_update now n r) = tn_id r" "node_key (node_update now n r) = node_key r"
  by (simp_all add: node_update_def node_key_def)

lemma edge_update_keys [simp]: "te_id (edge_update now e r) = te_id r" "edge_key (edge_update now e r) = edge_key r"
    "te_from (edge_update now e r) = te_from r" "te_to (edge_update now e r) = te_to r"
    "te_tenant_id (edge_update now e r) = te_tenant_id r"
  by (simp_all add: edge_update_def edge_key_def)

lemma pk_snoc: "pk key t \<Longrightarrow> \<not> tbl_has key (key r) t \<Longrightarrow> pk key (t @ [r])"
  by (auto simp: pk_def tbl_has_def)

lemma tbl_has_snoc: "tbl_has key k (t @ [r]) \<longleftrightarrow> tbl_has key k t \<or> key r = k"
  by (auto simp: tbl_has_def)

lemma upsert_node_ok:
  assumes "upsert_node flt now n db = Inr db'" "topology_ok db"
  shows "topology_ok db'"
proof (cases "tbl_has node_key (node_key n) (td_nodes db)")
  case True
  with assms(1) have "db' = db\<lparr>td_nodes := tbl_update (\<lambda>r. node_key r = node_key n) (node_update now n) (td_nodes db)\<rparr>"
    by (simp add: upsert_node_def)
  with assms(2) show ?thesis by (auto simp: topology_ok_def tbl_has_update intro!: pk_update)
next
  case False
  let ?n = "n\<lparr>tn_health := None, tn_created_at := now, tn_updated_at := now\<rparr>"
  from False assms(1) have "db' = db\<lparr>td_nodes := td_nodes db @ [?n]\<rparr>" "\<not> tbl_has tn_id (tn_id n) (td_nodes db)"
    by (auto simp: upsert_node_def split: if_splits)
  with False assms(2) show ?thesis
    by (auto simp: topology_ok_def tbl_has_snoc node_key_def intro!: pk_snoc)
qed

lemma tbl_has_delete: "tbl_has key k (tbl_delete (\<lambda>n. key n = nid) t) \<longleftrightarrow> tbl_has key k t \<and> k \<noteq> nid"
  by (auto simp: tbl_has_def tbl_delete_def)

lemma delete_node_ok:
  assumes "delete_node flt nid db = Inr db'" "topology_ok db"
  shows "topology_ok db'"
  using assms
  by (auto simp: delete_node_def topology_ok_def tbl_has_delete intro: pk_delete split: if_splits)
     (auto simp: tbl_delete_def)

lemma stored_edge_keys: "stored_edge num now e0 = Some e \<Longrightarrow> te_id e = te_id e0 \<and> edge_key e = edge_key e0 \<and>
    te_from e = te_from e0 \<and> te_to e = te_to e0 \<and> te_tenant_id e = te_tenant_id e0"
  by (auto simp: stored_edge_def edge_key_def split: option.splits)

lemma upsert_edge_ok:
  assumes "upsert_edge num flt now e0 db = Inr db'" "topology_ok db"
  shows "topology_ok db'"
proof -
  from assms(1) obtain e where e: "stored_edge num now e0 = Some e" by (auto simp: upsert_edge_def split: option.splits)
  show ?thesis
  proof (cases "tbl_has edge_key (edge_key e) (td_edges db)")
    case True
    with assms(1) e have "db' = db\<lparr>td_edges := tbl_update (\<lambda>r. edge_key r = edge_key e) (edge_update now e) (td_edges db)\<rparr>"
      by (simp add: upsert_edge_def)
    with assms(2) show ?thesis
      by (auto simp: topology_ok_def tbl_update_def intro!: pk_update[unfolded tbl_update_def])
  next
    case False
    with assms(1) e have "db' = db\<lparr>td_edges := td_edges db @ [e]\<rparr>" "\<not> tbl_has te_id (te_id e) (td_edges db)"
        "tbl_has tn_id (te_from e) (td_nodes db)" "tbl_has tn_id (te_to e) (td_nodes db)"
      by (auto simp: upsert_edge_def split: if_splits)
    with False assms(2) show ?thesis by (auto simp: topology_ok_def intro!: pk_snoc)
  qed
qed

lemma delete_edge_ok: "delete_edge flt eid db = Inr db' \<Longrightarrow> topology_ok db \<Longrightarrow> topology_ok db'"
  by (auto simp: delete_edge_def topology_ok_def tbl_delete_def pk_def distinct_map_filter)

lemma trim_health_subset: "set (trim_health nid hs) \<subseteq> set hs" "pk nh_id hs \<Longrightarrow> pk nh_id (trim_health nid hs)"
  by (auto simp: trim_health_def Let_def tbl_delete_def pk_def distinct_map_filter)

lemma record_health_ok:
  assumes "record_health num flt now h tenant db = Inr db'" "topology_ok db"
  shows "topology_ok db'"
proof -
  from assms(1) obtain r where r: "health_row num now h tenant (td_next db) = Some r" "tbl_has tn_id (hi_node h) (td_nodes db)"
      "db' = db\<lparr>td_health := td_health db @ [r], td_next := td_next db + 1\<rparr> \<or>
       db' = db\<lparr>td_health := trim_health (hi_node h) (td_health db @ [r]), td_next := td_next db + 1\<rparr>"
    by (auto simp: record_health_def Let_def split: if_splits option.splits)
  from r(1) have "nh_id r = td_next db" "nh_node r = hi_node h" by (auto simp: health_row_def split: option.splits)
  with r(2) assms(2) have "topology_ok (db\<lparr>td_health := td_health db @ [r], td_next := td_next db + 1\<rparr>)"
    by (fastforce simp: topology_ok_def tbl_has_iff intro!: pk_snoc)
  with r(3) trim_health_subset[where hs = "td_health db @ [r]" and nid = "hi_node h"] show ?thesis
    by (fastforce simp: topology_ok_def)
qed

lemma topology_step_ok: "topology_step db db' \<Longrightarrow> topology_ok db \<Longrightarrow> topology_ok db'"
  by (erule topology_stepE)
     (auto dest: upsert_node_ok delete_node_ok upsert_edge_ok delete_edge_ok record_health_ok)

section \<open>Properties\<close>

text \<open>C24: the recursive query ends on every graph, with cycles or without, whatever the depth asked
  for. Its rows are those of its rounds, of which there are at most as many as the tenant's edges have
  different targets (and at most the depth, or one): after that many rounds the working table is empty.\<close>

theorem traversal_terminates:
  "traverse_rows num src dst start tenant maxDepth db =
     concat (map (cte_round num src dst start tenant maxDepth db) [0..<rounds_needed dst tenant maxDepth db]) \<and>
   cte_round num src dst start tenant maxDepth db (rounds_needed dst tenant maxDepth db) = [] \<and>
   rounds_needed dst tenant maxDepth db \<le> length (target_nodes dst tenant db)"
proof (intro conjI)
  show "traverse_rows num src dst start tenant maxDepth db =
      concat (map (cte_round num src dst start tenant maxDepth db) [0..<rounds_needed dst tenant maxDepth db])"
    by (rule traverse_rows_rounds) simp
  show "cte_round num src dst start tenant maxDepth db (rounds_needed dst tenant maxDepth db) = []"
    using cte_round_nodes[of dst tenant db] cte_round_depth[of maxDepth] by (auto simp: rounds_needed_def min_def)
qed (simp add: rounds_needed_def)

text \<open>C25: \<open>GetDownstream\<close> is breadth-first search. When the statement does not fail and no propagated
  confidence leaves the range of its type, every node within the depth over edges of the tenant is
  returned once, with the length of a shortest way to it as its depth and a way without repetitions
  as its path, and nothing else is; the node asked for is returned only when it has an edge to itself.\<close>

theorem downstream_is_shortest_paths:
  assumes "\<not> flt ''GetDownstream''"
    and "list_all (row_in_range num) (traverse_rows num te_from te_to start tenant maxDepth db)"
  shows "\<exists>hops. get_downstream num flt start tenant maxDepth db = Inr hops \<and> distinct (map th_node hops) \<and>
     (\<forall>n d. (\<exists>h \<in> set hops. th_node h = n \<and> th_depth h = d) \<longleftrightarrow> hop_at (links te_from te_to tenant db) start maxDepth n d) \<and>
     list_all (path_ok (links te_from te_to tenant db) start) hops"
proof -
  obtain hops where t: "traverse num te_from te_to start tenant maxDepth db = Inr hops"
    using traverse_total[OF assms(2)] by blast
  then have g: "get_downstream num flt start tenant maxDepth db = Inr hops" using assms(1) by (simp add: get_downstream_def)
  have "list_all (path_ok (links te_from te_to tenant db) start) hops"
    using traverse_path[OF t] by (simp add: list_all_iff)
  with g downstream.query_once[OF g] downstream.query_hops[OF g] show ?thesis by blast
qed

definition exact_numbers :: pg_numbers where
  "exact_numbers = \<lparr>pg_real = Some, pg_integer = (\<lambda>x. Some \<lfloor>x\<rfloor>)\<rparr>"

definition sample_node :: "string \<Rightarrow> TopologyNode" where
  "sample_node i = \<lparr>tn_id = i, tn_tenant_id = ''t1'', tn_node_type = ''service'', tn_name = i, tn_display_name = i,
     tn_tier = ''internal'', tn_owner_team = [], tn_is_customer_facing = False, tn_version = [], tn_environment = [],
     tn_metadata = [], tn_auto_discovered = False, tn_health = None, tn_created_at = 0, tn_updated_at = 0\<rparr>"

definition sample_edge :: "string \<Rightarrow> string \<Rightarrow> TopologyEdge" where
  "sample_edge a b = \<lparr>te_id = a @ b, te_tenant_id = ''t1'', te_from = a, te_to = b, te_relation = ''calls'', te_weight = 1,
     te_confidence = 80, te_propagation_factor = 1 / 2, te_latency_ms_p99 = 0, te_error_rate_pct = 0,
     te_auto_discovered = False, te_from_name = [], te_to_name = [], te_created_at = 0, te_updated_at = 0\<rparr>"

text \<open>A cycle of three.\<close>

definition ring :: topology_db where
  "ring = \<lparr>td_nodes = map sample_node [''a'', ''b'', ''c''],
     td_edges = [sample_edge ''a'' ''b'', sample_edge ''b'' ''c'', sample_edge ''c'' ''a''], td_health = [], td_next = 1\<rparr>"

lemma ring_rows:
  "map (\<lambda>r. (cr_node r, cr_depth r, cr_path r)) (traverse_rows exact_numbers te_from te_to ''a'' ''t1'' 5 ring) =
     [(''b'', 1, [''a'', ''b'']), (''c'', 2, [''a'', ''b'', ''c''])] \<and>
   list_all (row_in_range exact_numbers) (traverse_rows exact_numbers te_from te_to ''a'' ''t1'' 5 ring)"
  by code_simp

theorem downstream_is_shortest_paths_witness:
  "\<exists>hops. get_downstream exact_numbers no_faults ''a'' ''t1'' 5 ring = Inr hops \<and>
     (\<exists>h \<in> set hops. th_node h = ''c'' \<and> th_depth h = 2) \<and> ''a'' \<notin> set (map th_node hops)"
proof -
  obtain hops where g: "get_downstream exact_numbers no_faults ''a'' ''t1'' 5 ring = Inr hops"
      "\<forall>n d. (\<exists>h \<in> set hops. th_node h = n \<and> th_depth h = d) \<longleftrightarrow> hop_at (links te_from te_to ''t1'' ring) ''a'' 5 n d"
    using downstream_is_shortest_paths[where flt = no_faults, OF no_faults ring_rows[THEN conjunct2]] by blast
  have R: "links te_from te_to ''t1'' ring = {(''a'', ''b''), (''b'', ''c''), (''c'', ''a'')}"
    by (simp add: links_def ring_def sample_edge_def insert_commute)
  have "(''a'', ''c'') \<in> links te_from te_to ''t1'' ring ^^ 2" unfolding R by (simp add: numeral_2_eq_2 relcomp_unfold)
  then have "at_distance (links te_from te_to ''t1'' ring) ''a'' ''c'' 2"
    unfolding at_distance_def R by (auto simp: numeral_2_eq_2 less_Suc_eq)
  then have "hop_at (links te_from te_to ''t1'' ring) ''a'' 5 ''c'' 2" by (simp add: hop_at_def)
  moreover have "\<not> hop_at (links te_from te_to ''t1'' ring) ''a'' 5 ''a'' d" for d by (simp add: hop_at_def R)
  ultimately have "\<exists>h \<in> set hops. th_node h = ''c'' \<and> th_depth h = 2" "\<forall>h \<in> set hops. th_node h \<noteq> ''a''"
    using g(2) by blast+
  then show ?thesis using g(1) by (auto 0 4 simp: image_iff)
qed

text \<open>The two traversals mirror each other. When both queries answer, a node is found upstream of
  another at some depth exactly when that one is found downstream of it at the same depth.\<close>

theorem upstream_mirrors_downstream:
  assumes "get_upstream num flt a tenant maxDepth db = Inr ups" and "get_downstream num flt' b tenant maxDepth db = Inr downs"
  shows "(\<exists>h \<in> set ups. th_node h = b \<and> th_depth h = d) \<longleftrightarrow> (\<exists>h \<in> set downs. th_node h = a \<and> th_depth h = d)"
  unfolding upstream.query_hops[OF assms(1)] downstream.query_hops[OF assms(2)]
  by (auto simp: hop_at_def links_swap at_distance_converse)

theorem upstream_mirrors_downstream_witness:
  "\<exists>ups downs. get_upstream exact_numbers no_faults ''c'' ''t1'' 5 ring = Inr ups \<and>
     get_downstream exact_numbers no_faults ''a'' ''t1'' 5 ring = Inr downs \<and>
     (\<exists>h \<in> set ups. th_node h = ''a'' \<and> th_depth h = 2) \<and> (\<exists>h \<in> set downs. th_node h = ''c'' \<and> th_depth h = 2)"
proof -
  have "list_all (row_in_range exact_numbers) (traverse_rows exact_numbers te_to te_from ''c'' ''t1'' 5 ring)" by code_simp
  then obtain ups where u: "get_upstream exact_numbers no_faults ''c'' ''t1'' 5 ring = Inr ups"
    using traverse_total[of exact_numbers te_to te_from "''c''" "''t1''" 5 ring] by (auto simp: get_upstream_def)
  obtain downs where d: "get_downstream exact_numbers no_faults ''a'' ''t1'' 5 ring = Inr downs"
    using traverse_total[OF ring_rows[THEN conjunct2]] by (auto simp: get_downstream_def)
  then have "downs = map (row_hop exact_numbers) (distinct_on_node (traverse_rows exact_numbers te_from te_to ''a'' ''t1'' 5 ring))"
    by (auto simp: get_downstream_def traverse_Inr)
  moreover have "\<exists>r \<in> set (distinct_on_node (traverse_rows exact_numbers te_from te_to ''a'' ''t1'' 5 ring)).
      cr_node r = ''c'' \<and> cr_depth r = 2" by code_simp
  ultimately have h: "\<exists>h \<in> set downs. th_node h = ''c'' \<and> th_depth h = 2" by auto
  with upstream_mirrors_downstream[OF u d, of 2] u d show ?thesis by blast
qed

text \<open>The tables stay consistent. Every sequence of successful operations on an empty topology
  leaves identifiers unique, at most one node of a tenant for a name and one edge for two nodes and a
  relation, and no edge or health sample without its nodes.\<close>

theorem topology_consistent:
  assumes "topology_step\<^sup>*\<^sup>* empty_topology db"
  shows "topology_ok db"
  using assms
proof (induction rule: rtranclp_induct)
  case base
  then show ?case by (simp add: topology_ok_def empty_topology_def pk_def)
next
  case (step y z)
  from topology_step_ok[OF step.hyps(2) step.IH] show ?case .
qed

theorem topology_consistent_witness:
  "\<exists>db1 db2 db3. upsert_node no_faults 1 (sample_node ''a'') empty_topology = Inr db1 \<and>
     upsert_edge exact_numbers no_faults 2 (sample_edge ''a'' ''a'') db1 = Inr db2 \<and>
     delete_node no_faults ''a'' db2 = Inr db3 \<and> length (td_edges db2) = 1 \<and> td_edges db3 = [] \<and> topology_ok db3"
proof -
  obtain db1 where a: "upsert_node no_faults 1 (sample_node ''a'') empty_topology = Inr db1"
      "td_nodes db1 = [(sample_node ''a'')\<lparr>tn_created_at := 1, tn_updated_at := 1\<rparr>]" "td_edges db1 = []"
    by (simp add: upsert_node_def empty_topology_def tbl_has_def sample_node_def)
  obtain db2 where b: "upsert_edge exact_numbers no_faults 2 (sample_edge ''a'' ''a'') db1 = Inr db2"
      "length (td_edges db2) = 1" "list_all (\<lambda>e. te_from e = ''a'') (td_edges db2)" "td_nodes db2 = td_nodes db1"
    using a(2,3) by (simp add: upsert_edge_def stored_edge_def exact_numbers_def tbl_has_def sample_edge_def sample_node_def)
  obtain db3 where c: "delete_node no_faults ''a'' db2 = Inr db3" "td_edges db3 = []"
    using a(2) b(3,4) by (auto simp: delete_node_def tbl_has_def sample_node_def tbl_delete_def list_all_iff filter_empty_conv)
  have "topology_step\<^sup>*\<^sup>* empty_topology db3"
    using topology_step.node_put[OF a(1)] topology_step.edge_put[OF b(1)] topology_step.node_gone[OF c(1)]
    by (meson rtranclp.rtrancl_refl rtranclp.rtrancl_into_rtrancl)
  from topology_consistent[OF this] a(1) b(1,2) c show ?thesis by blast
qed

end
