(* ===== verification/GoSort.thy ===== *)
theory GoSort
  imports Prelude "HOL-Library.Multiset"
begin

text \<open>
  \<open>sort.Slice\<close>: up to twelve elements Go's \<open>pdqsort\<close> is the insertion sort of
  \<open>insertionSort_func\<close>, whatever the comparison; for longer slices the algorithm is a parameter, of
  which only the documented contract is used. The locale \<open>slice_sorting\<close> is that contract for a
  comparison of keys.
\<close>

text \<open>The inner loop moves an element to the front past those it is less than; the part before it is
  kept in reverse.\<close>

fun sift :: "('a \<Rightarrow> 'a \<Rightarrow> bool) \<Rightarrow> 'a \<Rightarrow> 'a list \<Rightarrow> 'a list" where
  "sift lt x [] = [x]"
| "sift lt x (y # ys) = (if lt x y then y # sift lt x ys else x # y # ys)"

definition insertion_sort :: "('a \<Rightarrow> 'a \<Rightarrow> bool) \<Rightarrow> 'a list \<Rightarrow> 'a list" where
  "insertion_sort lt xs = rev (foldl (\<lambda>acc x. sift lt x acc) [] xs)"

type_synonym 'a long_sort = "('a \<Rightarrow> 'a \<Rightarrow> bool) \<Rightarrow> 'a list \<Rightarrow> 'a list"

definition sort_slice :: "'a long_sort \<Rightarrow> ('a \<Rightarrow> 'a \<Rightarrow> bool) \<Rightarrow> 'a list \<Rightarrow> 'a list" where
  "sort_slice long lt xs = (if length xs \<le> 12 then insertion_sort lt xs else long lt xs)"

section \<open>The contract\<close>

text \<open>A permutation, and in order when the comparison is one of keys.\<close>

definition long_sort_ok :: "'a long_sort \<Rightarrow> ('a \<Rightarrow> int) \<Rightarrow> bool" where
  "long_sort_ok long key \<longleftrightarrow> (\<forall>xs. mset (long (\<lambda>a b. key a < key b) xs) = mset xs \<and>
     sorted (map key (long (\<lambda>a b. key a < key b) xs)))"

locale slice_sorting =
  fixes sorter :: "('a \<Rightarrow> 'a \<Rightarrow> bool) \<Rightarrow> 'a list \<Rightarrow> 'a list" and key :: "'a \<Rightarrow> int"
  assumes sorter_mset: "mset (sorter (\<lambda>a b. key a < key b) xs) = mset xs"
    and sorter_sorted: "sorted (map key (sorter (\<lambda>a b. key a < key b) xs))"
begin

lemma sorter_set: "set (sorter (\<lambda>a b. key a < key b) xs) = set xs"
  using sorter_mset by (rule mset_eq_setD)

lemma sorter_length: "length (sorter (\<lambda>a b. key a < key b) xs) = length xs"
  using sorter_mset by (rule mset_eq_length)

lemma sorter_least: "sorter (\<lambda>a b. key a < key b) xs = y # ys \<Longrightarrow> x \<in> set xs \<Longrightarrow> key y \<le> key x"
  using sorter_sorted[of xs] sorter_set[of xs] by auto

lemma sorter_distinct: "distinct (map f (sorter (\<lambda>a b. key a < key b) xs)) = distinct (map f xs)"
  using sorter_mset[of xs] by (metis mset_map mset_eq_imp_distinct_iff)

end

lemma mset_sift [simp]: "mset (sift lt x ys) = add_mset x (mset ys)"
  by (induction ys) auto

lemma foldl_sift_mset: "mset (foldl (\<lambda>acc x. sift lt x acc) acc xs) = mset acc + mset xs"
  by (induction xs arbitrary: acc) auto

lemma insertion_sort_mset [simp]: "mset (insertion_sort lt xs) = mset xs"
  by (simp add: insertion_sort_def foldl_sift_mset)

text \<open>The reversed prefix falls in every key the comparison respects.\<close>

lemma sift_sorted:
  assumes "sorted_wrt (\<lambda>a b. key b \<le> key a) ys"
    and "\<And>y. y \<in> set ys \<Longrightarrow> key x < key y \<Longrightarrow> lt x y" and "\<And>y. y \<in> set ys \<Longrightarrow> lt x y \<Longrightarrow> key x \<le> key y"
  shows "sorted_wrt (\<lambda>a b. key b \<le> (key a :: int)) (sift lt x ys)"
  using assms
proof (induction ys)
  case (Cons y ys)
  have sub: "set (sift lt x ys) = insert x (set ys)"
    by (metis mset_sift set_mset_add_mset_insert set_mset_mset)
  show ?case
  proof (cases "lt x y")
    case True
    have "sorted_wrt (\<lambda>a b. key b \<le> key a) (sift lt x ys)" using Cons by auto
    with True Cons.prems sub show ?thesis by auto
  next
    case False
    then have "key y \<le> key x" using Cons.prems(2)[of y] by force
    with False Cons.prems(1) show ?thesis by auto
  qed
qed simp

lemma insertion_sort_sorted:
  assumes "\<And>x y. key x < key y \<Longrightarrow> lt x y" and "\<And>x y. lt x y \<Longrightarrow> key x \<le> (key y :: int)"
  shows "sorted (map key (insertion_sort lt xs))"
proof -
  have "sorted_wrt (\<lambda>a b. key b \<le> key a) (foldl (\<lambda>acc x. sift lt x acc) acc xs)"
    if "sorted_wrt (\<lambda>a b. key b \<le> key a) acc" for acc
    using that
  proof (induction xs arbitrary: acc)
    case (Cons x xs)
    have "sorted_wrt (\<lambda>a b. key b \<le> key a) (sift lt x acc)" using Cons.prems assms by (rule sift_sorted)
    with Cons.IH show ?case by simp
  qed simp
  then show ?thesis by (simp add: insertion_sort_def sorted_wrt_rev sorted_map)
qed

interpretation short_slice: slice_sorting insertion_sort key for key :: "'a \<Rightarrow> int"
  by unfold_locales (simp, rule insertion_sort_sorted, auto)

lemma sort_slice_mset: "long_sort_ok long key \<Longrightarrow> mset (sort_slice long (\<lambda>a b. key a < key b) xs) = mset xs"
  by (simp add: sort_slice_def long_sort_ok_def)

lemma sort_slice_sorted: "long_sort_ok long key \<Longrightarrow> sorted (map key (sort_slice long (\<lambda>a b. key a < key b) xs))"
  by (simp add: sort_slice_def long_sort_ok_def short_slice.sorter_sorted)

lemma sort_slice_set: "long_sort_ok long key \<Longrightarrow> set (sort_slice long (\<lambda>a b. key a < key b) xs) = set xs"
  by (metis mset_eq_setD sort_slice_mset)

lemma sort_slice_distinct:
  "long_sort_ok long key \<Longrightarrow> distinct (map f (sort_slice long (\<lambda>a b. key a < key b) xs)) = distinct (map f xs)"
  using sort_slice_mset[of long key xs] by (metis mset_map mset_eq_imp_distinct_iff)

text \<open>Insertion sort fulfils the contract on any length.\<close>

lemma long_sort_ok_insertion: "long_sort_ok insertion_sort key"
  by (simp add: long_sort_ok_def short_slice.sorter_sorted)

end
