(* ===== verification/CausalEngine.thy ===== *)
theory CausalEngine
  imports Topology GoSort Float64 PolicyEngine
begin

text \<open>
  \<open>internal/services/causal_engine_service.go\<close> and \<open>internal/models/causal_chain.go\<close>: the causal graph of
  an incident, with one node for each service that alerted and one for a change, edges from earlier to
  later nodes, the most credible chain from a cause to a symptom, and up to two alternatives. What
  \<open>GetIncidentDetail\<close> and the business impact service return are arguments; the order in which Go
  ranges over a map and the sort of more than twelve elements are oracles.
\<close>

section \<open>Data\<close>

record WhatChanged =
  wc_type :: string
  wc_service :: string
  wc_version :: string
  wc_description :: string
  wc_timestamp :: string

text \<open>The fields of \<open>IncidentDetail\<close> the analyses read; of the evidence references their types.\<close>

record detail_view =
  dv_incident :: Incident
  dv_events :: "Event list"
  dv_what_changed :: WhatChanged
  dv_evidence :: "string list"

record CausalNode =
  cn_id :: string
  cn_node_type :: string
  cn_service :: string
  cn_event_id :: string
  cn_label :: string
  cn_detail :: string
  cn_severity :: string
  cn_timestamp :: time
  cn_is_root :: bool
  cn_is_leaf :: bool
  cn_confidence :: int

record CausalEdge =
  ce_from :: string
  ce_to :: string
  ce_confidence :: int
  ce_mechanism :: string
  ce_lag_seconds :: int
  ce_evidence :: string

record CausalChain =
  cc_nodes :: "CausalNode list"
  cc_edges :: "CausalEdge list"
  cc_confidence :: int
  cc_narrative :: string

record CausalImpactSummary =
  ci_revenue_loss :: rat
  ci_duration_minutes :: rat
  ci_severity :: string
  ci_label :: string

record CausalDAG =
  dag_incident_id :: string
  dag_nodes :: "CausalNode list"
  dag_edges :: "CausalEdge list"
  dag_primary :: CausalChain
  dag_alternatives :: "CausalChain list"
  dag_overall :: int
  dag_impact :: "CausalImpactSummary option"
  dag_algorithm :: string

text \<open>Revenue loss, minutes, and the confidence score when there is an estimate.\<close>

record impact_view =
  iv_revenue :: rat
  iv_minutes :: rat
  iv_score :: "rat option"

record causal_env =
  ca_numbers :: pg_numbers
  ca_topology :: "topology_db option"
  ca_details :: "string \<Rightarrow> detail_view option"
  ca_impact :: "(string \<Rightarrow> impact_view option) option"
  ca_parse_time :: "string \<Rightarrow> time option"   \<comment> \<open>\<open>time.Parse(time.RFC3339, s)\<close>\<close>
  ca_range :: "string list \<Rightarrow> string list"   \<comment> \<open>the order in which \<open>range\<close> takes the keys of a map\<close>
  ca_long :: "CausalNode long_sort"

section \<open>Text\<close>

definition go_rem :: "int \<Rightarrow> int \<Rightarrow> int" where "go_rem x y = x - quot x y * y"

definition causal_fmt_duration :: "duration \<Rightarrow> string" where
  "causal_fmt_duration d =
    (if d < minute then show_int (whole_units second d) @ ''s''
     else if d < hour then show_int (whole_units minute d) @ ''m'' @ show_int (go_rem (whole_units second d) 60) @ ''s''
     else show_int (whole_units hour d) @ ''h'' @ show_int (go_rem (whole_units minute d) 60) @ ''m'')"

text \<open>\<open>strings.ToUpper(p[:1]) + p[1:]\<close> of the fields between \<open>-\<close>, \<open>_\<close> and \<open>.\<close>.\<close>

definition capitalize :: "string \<Rightarrow> string" where
  "capitalize p = (case p of [] \<Rightarrow> [] | c # cs \<Rightarrow> upper_char c # cs)"

definition humanize_label :: "string \<Rightarrow> string" where
  "humanize_label i = join_str '' '' (map capitalize
     (filter (\<lambda>p. p \<noteq> []) (split_pred (\<lambda>c. c = CHR ''-'' \<or> c = CHR ''_'' \<or> c = CHR ''.'') i)))"

definition causal_node_type :: "string \<Rightarrow> string" where
  "causal_node_type sev = (if to_lower sev \<in> {''critical'', ''high''} then ''symptom'' else ''alert'')"

definition alert_node_label :: "string \<Rightarrow> string \<Rightarrow> string \<Rightarrow> string" where
  "alert_node_label svc title sev =
    (if title \<noteq> [] \<and> length title < 80 then title
     else humanize_label svc @
      (if to_lower sev = ''critical'' then '': critical failure''
       else if to_lower sev = ''high'' then '': high-severity alert''
       else if to_lower sev = ''medium'' then '': degraded''
       else '': alert''))"

definition causal_change_label :: "WhatChanged \<Rightarrow> string" where
  "causal_change_label wc =
    (let svc = (if wc_service wc = [] then ''service'' else wc_service wc) in
     if wc_version wc \<noteq> [] then ''Deployed '' @ svc @ ''@'' @ wc_version wc
     else capitalize (to_lower (wc_type wc)) @ '' on '' @ svc)"

definition causal_change_detail :: "WhatChanged \<Rightarrow> string" where
  "causal_change_detail wc =
    (if wc_description wc \<noteq> [] then wc_description wc
     else if wc_version wc \<noteq> [] then ''Version '' @ wc_version wc @ '' deployed to '' @ wc_service wc @ '' at '' @ wc_timestamp wc
     else wc_type wc @ '' change on '' @ wc_service wc)"

definition edge_mechanism :: "string \<Rightarrow> string" where
  "edge_mechanism relation =
    (let r = to_lower relation in
     if r \<in> {''calls'', ''routes_to'', ''depends_on''} then ''dependency_call''
     else if r = ''runs_on'' then ''resource_pressure''
     else if r = ''change_caused'' then ''config_change''
     else ''cascade'')"

definition severity_to_confidence :: "string \<Rightarrow> int" where
  "severity_to_confidence sev =
    (let s = to_lower sev in
     if s = ''critical'' then 90 else if s = ''high'' then 80 else if s = ''medium'' then 70 else 60)"

definition two_digits :: "int \<Rightarrow> string" where
  "two_digits n = (if n < 10 then ''0'' else []) @ show_int n"

text \<open>\<open>t.UTC().Format("15:04:05")\<close>.\<close>

definition show_clock :: "time \<Rightarrow> string" where
  "show_clock t = (let s = (t div second) mod 86400 in
     two_digits (s div 3600) @ '':'' @ two_digits (s div 60 mod 60) @ '':'' @ two_digits (s mod 60))"

section \<open>Confidence\<close>

fun float_plus :: "gofloat \<Rightarrow> gofloat \<Rightarrow> gofloat" where
  "float_plus (Fin x) y = float_add_fin x y"
| "float_plus x (Fin y) = x"
| "float_plus (Inf s) (Inf t) = (if s = t then Inf s else NaN)"
| "float_plus x y = NaN"

definition causal_temporal_score :: "duration \<Rightarrow> int" where
  "causal_temporal_score lag =
    (if lag \<le> 60 * second then 95 else if lag \<le> 5 * minute then 87 else if lag \<le> 10 * minute then 76
     else if lag \<le> 15 * minute then 62 else if lag \<le> 30 * minute then 44 else 25)"

definition topology_edge_confidence :: "int \<Rightarrow> duration \<Rightarrow> int" where
  "topology_edge_confidence propConf lag = quot (propConf + causal_temporal_score lag) 2"

definition change_edge_confidence :: "duration \<Rightarrow> int \<Rightarrow> int" where
  "change_edge_confidence lag changeConf = quot (changeConf + causal_temporal_score lag) 2"

text \<open>The product with the \<open>float64\<close> nearest to 0.65.\<close>

definition temporal_only_conf :: "duration \<Rightarrow> int" where
  "temporal_only_conf lag =
    (case round64 (65 / 100) of
       Fin c \<Rightarrow> float_trunc (round64 (of_int (causal_temporal_score lag) * c)) | _ \<Rightarrow> 0)"

definition sum_recip :: "CausalEdge list \<Rightarrow> gofloat" where
  "sum_recip es = foldl (\<lambda>s e. float_plus s (float_div (Fin 1) (float_of_int (ce_confidence e)))) (Fin 0) es"

definition harmonic_mean :: "CausalEdge list \<Rightarrow> int" where
  "harmonic_mean es =
    (if es = [] then 0
     else if list_ex (\<lambda>e. ce_confidence e \<le> 0) es then 0
     else float_trunc (float_div (float_of_int (int (length es))) (sum_recip es)))"

fun narrative_loop :: "CausalNode list \<Rightarrow> CausalEdge list \<Rightarrow> string" where
  "narrative_loop [] es = []"
| "narrative_loop (n # ns) es =
    cn_label n @ (if cn_timestamp n = zero_time then [] else '' ('' @ show_clock (cn_timestamp n) @ '')'') @
    (case es of [] \<Rightarrow> narrative_loop ns []
     | e # es' \<Rightarrow> ('' '' @ [CHR 0xE2, CHR 0x86, CHR 0x92] @ ''['') @ show_int (ce_confidence e) @ (''%]'' @ [CHR 0xE2, CHR 0x86, CHR 0x92] @ '' '') @ narrative_loop ns es')"

definition build_causal_narrative :: "CausalNode list \<Rightarrow> CausalEdge list \<Rightarrow> string" where
  "build_causal_narrative ns es = (if ns = [] then ''No causal chain established.'' else narrative_loop ns es)"

section \<open>Nodes\<close>

text \<open>The map \<open>serviceFirst\<close>, in the order of first insertion.\<close>

definition alert_node :: "Incident \<Rightarrow> Event \<Rightarrow> CausalNode" where
  "alert_node inc ev =
    (let svc = (if trim_space (ev_service ev) = [] then inc_service inc else trim_space (ev_service ev)) in
     \<lparr>cn_id = ''alert:'' @ svc, cn_node_type = causal_node_type (ev_severity ev), cn_service = svc,
      cn_event_id = ev_id ev, cn_label = alert_node_label svc (ev_title ev) (ev_severity ev), cn_detail = ev_title ev,
      cn_severity = ev_severity ev,
      cn_timestamp = (if ev_timestamp ev = zero_time then inc_first_event_time inc else ev_timestamp ev),
      cn_is_root = False, cn_is_leaf = False, cn_confidence = severity_to_confidence (ev_severity ev)\<rparr>)"

definition note_first :: "CausalNode \<Rightarrow> CausalNode list \<Rightarrow> CausalNode list" where
  "note_first n ns =
    (case tbl_find cn_service (cn_service n) ns of
       None \<Rightarrow> ns @ [n]
     | Some old \<Rightarrow> if cn_timestamp n < cn_timestamp old then tbl_update (\<lambda>m. cn_service m = cn_service n) (\<lambda>_. n) ns else ns)"

definition service_first :: "Incident \<Rightarrow> Event list \<Rightarrow> CausalNode list" where
  "service_first inc evs = foldl (\<lambda>ns ev. note_first (alert_node inc ev) ns) [] evs"

definition earlier :: "CausalNode \<Rightarrow> CausalNode \<Rightarrow> bool" where
  "earlier a b = (cn_timestamp a < cn_timestamp b)"

text \<open>Ranging over the map, then sorting.\<close>

definition alert_nodes :: "causal_env \<Rightarrow> Incident \<Rightarrow> Event list \<Rightarrow> CausalNode list" where
  "alert_nodes env inc evs =
    (let m = service_first inc evs in
     sort_slice (ca_long env) earlier
       (concat (map (\<lambda>k. case tbl_find cn_service k m of None \<Rightarrow> [] | Some n \<Rightarrow> [n]) (ca_range env (map cn_service m)))))"

definition change_node :: "causal_env \<Rightarrow> detail_view \<Rightarrow> CausalNode list \<Rightarrow> CausalNode option" where
  "change_node env dv alerts =
    (let wc = dv_what_changed dv; inc = dv_incident dv in
     if wc_type wc = [] then None
     else
      (let fallback = (case alerts of a # _ \<Rightarrow> cn_timestamp a | [] \<Rightarrow> inc_first_event_time inc) - 15 * minute;
           ts = (case ca_parse_time env (wc_timestamp wc) of
                   None \<Rightarrow> fallback | Some t \<Rightarrow> if t = zero_time then fallback else t);
           conf = (if inc_what_changed_confidence inc = 0 then 70 else inc_what_changed_confidence inc);
           svc = (if wc_service wc = [] then inc_service inc else wc_service wc)
       in Some \<lparr>cn_id = ''change:'' @ wc_type wc @ '':'' @ svc, cn_node_type = ''change'', cn_service = svc, cn_event_id = [],
                cn_label = causal_change_label wc, cn_detail = causal_change_detail wc, cn_severity = [],
                cn_timestamp = ts, cn_is_root = True, cn_is_leaf = False, cn_confidence = conf\<rparr>))"

definition all_nodes :: "CausalNode option \<Rightarrow> CausalNode list \<Rightarrow> CausalNode list" where
  "all_nodes ch alerts = (case ch of None \<Rightarrow> alerts | Some c \<Rightarrow> c # alerts)"

section \<open>Edges\<close>

text \<open>\<open>nodeByService\<close> and \<open>nodeByID\<close>: the last node with a key.\<close>

definition node_by_service :: "CausalNode list \<Rightarrow> string \<Rightarrow> CausalNode option" where
  "node_by_service ns svc = tbl_find cn_service svc (rev ns)"

definition node_by_id :: "CausalNode list \<Rightarrow> string \<Rightarrow> CausalNode option" where
  "node_by_id ns i = tbl_find cn_id i (rev ns)"

definition hop_edge :: "faults \<Rightarrow> topology_db \<Rightarrow> CausalNode list \<Rightarrow> CausalNode \<Rightarrow> TraversalHop \<Rightarrow> CausalEdge list" where
  "hop_edge flt db ns from0 hop =
    (case get_node_by_id (at_site (th_node hop) flt) (th_node hop) db of
       Inl _ \<Rightarrow> [] | Inr None \<Rightarrow> []
     | Inr (Some n) \<Rightarrow>
        (case node_by_service ns (tn_name n) of
           None \<Rightarrow> []
         | Some to0 \<Rightarrow>
            (let lag = cn_timestamp to0 - cn_timestamp from0 in
             if cn_id to0 = cn_id from0 \<or> \<not> earlier from0 to0 \<or> 30 * minute < lag then []
             else [\<lparr>ce_from = cn_id from0, ce_to = cn_id to0, ce_confidence = topology_edge_confidence (th_confidence hop) lag,
                    ce_mechanism = edge_mechanism (th_relation hop), ce_lag_seconds = whole_units second lag,
                    ce_evidence = cn_service from0 @ ('' '' @ [CHR 0xE2, CHR 0x86, CHR 0x92] @ '' '') @ cn_service to0 @ '' via '' @ th_relation hop @
                      '' (topology-confirmed, propagation '' @ show_int (th_confidence hop) @ ''%, lag '' @
                      causal_fmt_duration lag @ '')''\<rparr>])))"

definition node_edges :: "causal_env \<Rightarrow> faults \<Rightarrow> string \<Rightarrow> topology_db \<Rightarrow> CausalNode list \<Rightarrow> CausalNode \<Rightarrow> CausalEdge list" where
  "node_edges env flt tenant db ns from0 =
    (let flt' = at_site (cn_id from0) flt in
     case get_node_by_name flt' tenant (cn_service from0) db of
       Inl _ \<Rightarrow> [] | Inr None \<Rightarrow> []
     | Inr (Some n) \<Rightarrow>
        (case get_downstream (ca_numbers env) flt' (tn_id n) tenant 2 db of
           Inl _ \<Rightarrow> [] | Inr hops \<Rightarrow> concat (map (hop_edge flt' db ns from0) hops)))"

definition change_edge :: "CausalNode \<Rightarrow> CausalNode \<Rightarrow> string \<Rightarrow> CausalEdge list" where
  "change_edge ch to0 evidence =
    (let lag = cn_timestamp to0 - cn_timestamp ch in
     if 0 < lag \<and> lag < 60 * minute then
       [\<lparr>ce_from = cn_id ch, ce_to = cn_id to0, ce_confidence = change_edge_confidence lag (cn_confidence ch),
         ce_mechanism = ''config_change'', ce_lag_seconds = whole_units second lag,
         ce_evidence = evidence @ causal_fmt_duration lag\<rparr>]
     else [])"

definition build_topology_edges ::
    "causal_env \<Rightarrow> faults \<Rightarrow> string \<Rightarrow> topology_db \<Rightarrow> CausalNode list \<Rightarrow> CausalNode option \<Rightarrow> CausalEdge list" where
  "build_topology_edges env flt tenant db ns ch =
    concat (map (node_edges env flt tenant db ns) ns) @
    (case ch of None \<Rightarrow> []
     | Some c \<Rightarrow>
        (case node_by_service ns (cn_service c) of
           None \<Rightarrow> []
         | Some to0 \<Rightarrow>
            if cn_id to0 = cn_id c then []
            else change_edge c to0 (cn_label c @ '' on '' @ cn_service c @ '' preceded the first alert by '')))"

text \<open>The chain of the alerts in time, broken at a gap of more than half an hour.\<close>

fun alert_chain :: "CausalNode list \<Rightarrow> CausalEdge list" where
  "alert_chain (p # q # ns) =
    (let lag = cn_timestamp q - cn_timestamp p in
     if 30 * minute < lag then []
     else \<lparr>ce_from = cn_id p, ce_to = cn_id q, ce_confidence = temporal_only_conf lag, ce_mechanism = ''cascade'',
           ce_lag_seconds = whole_units second lag,
           ce_evidence = cn_service p @ '' preceded '' @ cn_service q @ '' by '' @ causal_fmt_duration lag @
             ('' (temporal inference '' @ [CHR 0xE2, CHR 0x80, CHR 0x94] @ '' no topology data available)'')\<rparr> # alert_chain (q # ns))"
| "alert_chain ns = []"

definition build_temporal_edges :: "causal_env \<Rightarrow> CausalNode list \<Rightarrow> CausalNode option \<Rightarrow> CausalEdge list" where
  "build_temporal_edges env ns ch =
    (let alerts = sort_slice (ca_long env) earlier (filter (\<lambda>n. cn_node_type n \<noteq> ''change'') ns) in
     (case (ch, alerts) of
        (Some c, a # _) \<Rightarrow> change_edge c a (cn_label c @ '' preceded the first alert on '' @ cn_service a @ '' by '')
      | _ \<Rightarrow> []) @ alert_chain alerts)"

section \<open>Chains\<close>

definition out_edges :: "CausalEdge list \<Rightarrow> string \<Rightarrow> CausalEdge list" where
  "out_edges es i = filter (\<lambda>e. ce_from e = i) es"

definition has_cause :: "CausalEdge list \<Rightarrow> string \<Rightarrow> bool" where
  "has_cause es i = (\<exists>e \<in> set es. ce_to e = i)"

type_synonym best_chain = "int \<times> CausalNode list \<times> CausalEdge list"

text \<open>The depth-first search. The first argument counts the levels left: the source gives up below
  depth 20, that is after the twenty-first node of a path.\<close>

definition consider_chain :: "CausalNode list \<Rightarrow> CausalEdge list \<Rightarrow> best_chain \<Rightarrow> best_chain" where
  "consider_chain path pes best =
    (if length path < 2 then best
     else let c = harmonic_mean pes in if fst best < c then (c, path, pes) else best)"

fun chain_dfs ::
    "nat \<Rightarrow> CausalNode list \<Rightarrow> CausalEdge list \<Rightarrow> string \<Rightarrow> CausalNode list \<Rightarrow> CausalEdge list \<Rightarrow> best_chain \<Rightarrow> best_chain" where
  "chain_dfs 0 ns es i path pes best = best"
| "chain_dfs (Suc left) ns es i path pes best =
    (case node_by_id ns i of
       None \<Rightarrow> best
     | Some n \<Rightarrow>
        if out_edges es i = [] then consider_chain (path @ [n]) pes best
        else foldl (\<lambda>b e. chain_dfs left ns es (ce_to e) (path @ [n]) (pes @ [e]) b) best (out_edges es i))"

definition search_chains :: "CausalNode list \<Rightarrow> CausalEdge list \<Rightarrow> best_chain" where
  "search_chains ns es =
    foldl (\<lambda>b n. if has_cause es (cn_id n) then b else chain_dfs 21 ns es (cn_id n) [] [] b) (-1, [], []) ns"

definition find_critical_path :: "CausalNode list \<Rightarrow> CausalEdge list \<Rightarrow> CausalChain" where
  "find_critical_path ns es =
    (if ns = [] then \<lparr>cc_nodes = [], cc_edges = [], cc_confidence = 0, cc_narrative = []\<rparr>
     else
      (let (c, bn, be) = search_chains ns es;
           bn' = (if bn = [] then ns else bn);
           c' = (if bn = [] then 50 else c)
       in \<lparr>cc_nodes = bn', cc_edges = be, cc_confidence = max 0 c', cc_narrative = build_causal_narrative bn' be\<rparr>))"

fun best_out_edge :: "CausalEdge list \<Rightarrow> CausalEdge option" where
  "best_out_edge [] = None"
| "best_out_edge (e # es) = Some (foldl (\<lambda>b x. if ce_confidence b < ce_confidence x then x else b) e es)"

fun greedy_chain :: "nat \<Rightarrow> CausalNode list \<Rightarrow> CausalEdge list \<Rightarrow> string \<Rightarrow> CausalNode list \<times> CausalEdge list" where
  "greedy_chain 0 ns es i = ([], [])"
| "greedy_chain (Suc k) ns es i =
    (case node_by_id ns i of
       None \<Rightarrow> ([], [])
     | Some n \<Rightarrow>
        (case best_out_edge (out_edges es i) of
           None \<Rightarrow> ([n], [])
         | Some e \<Rightarrow> (let (ns', es') = greedy_chain k ns es (ce_to e) in (n # ns', e # es'))))"

fun alternative_loop :: "CausalNode list \<Rightarrow> CausalEdge list \<Rightarrow> string list \<Rightarrow> CausalNode list \<Rightarrow> CausalChain list \<Rightarrow> CausalChain list" where
  "alternative_loop ns es used [] alts = alts"
| "alternative_loop ns es used (n # rest) alts =
    (if cn_id n \<in> set used \<or> has_cause es (cn_id n) \<or> out_edges es (cn_id n) = [] then alternative_loop ns es used rest alts
     else
      (let (cns, ces) = greedy_chain 10 ns es (cn_id n);
           alts' = (if 2 \<le> length cns
                    then alts @ [\<lparr>cc_nodes = cns, cc_edges = ces, cc_confidence = harmonic_mean ces,
                                  cc_narrative = build_causal_narrative cns ces\<rparr>]
                    else alts)
       in if 2 \<le> length alts' then alts' else alternative_loop ns es used rest alts'))"

definition find_alternative_chains :: "CausalNode list \<Rightarrow> CausalEdge list \<Rightarrow> CausalChain \<Rightarrow> CausalChain list" where
  "find_alternative_chains ns es primary = alternative_loop ns es (map cn_id (cc_nodes primary)) ns []"

section \<open>The graph\<close>

definition mark_ends :: "CausalEdge list \<Rightarrow> CausalNode option \<Rightarrow> CausalNode list \<Rightarrow> CausalNode list" where
  "mark_ends es ch ns = map (\<lambda>n. n\<lparr>cn_is_root := (\<not> has_cause es (cn_id n) \<or> (case ch of None \<Rightarrow> False | Some c \<Rightarrow> cn_id n = cn_id c)),
     cn_is_leaf := (out_edges es (cn_id n) = [])\<rparr>) ns"

definition overall_confidence :: "CausalChain \<Rightarrow> CausalNode option \<Rightarrow> int" where
  "overall_confidence primary ch =
    min 98 (case ch of None \<Rightarrow> cc_confidence primary
      | Some c \<Rightarrow> if 0 < cn_confidence c then quot (cc_confidence primary * 2 + cn_confidence c) 3 else cc_confidence primary)"

definition show_whole :: "rat \<Rightarrow> string" where "show_whole x = (if x < 0 then ''-'' else []) @ show_nat (nat (round_even \<bar>x\<bar>))"

definition append_impact :: "string \<Rightarrow> Incident \<Rightarrow> impact_view \<Rightarrow> CausalDAG \<Rightarrow> CausalDAG" where
  "append_impact incidentID inc iv dag =
    (let conf = (case iv_score iv of None \<Rightarrow> 70 | Some sc \<Rightarrow> float_trunc (round64 (sc * 100)));
         label = ''Revenue loss: $'' @ show_whole (iv_revenue iv) @ '' over '' @ show_whole (iv_minutes iv) @ '' min'';
         node = \<lparr>cn_id = ''impact:'' @ incidentID, cn_node_type = ''impact'', cn_service = inc_service inc, cn_event_id = [],
                 cn_label = label,
                 cn_detail = ''Estimated '' @ inc_severity inc @ '' severity revenue impact based on SRE cost model.'',
                 cn_severity = inc_severity inc, cn_timestamp = inc_last_event_time inc, cn_is_root = False,
                 cn_is_leaf = True, cn_confidence = conf\<rparr>;
         dag1 = dag\<lparr>dag_nodes := dag_nodes dag @ [node],
                    dag_impact := Some \<lparr>ci_revenue_loss = iv_revenue iv, ci_duration_minutes = iv_minutes iv,
                                        ci_severity = inc_severity inc, ci_label = label\<rparr>\<rparr>;
         p = dag_primary dag
     in if cc_nodes p = [] then dag1
        else dag1\<lparr>dag_edges := dag_edges dag @
                  [\<lparr>ce_from = cn_id (last (cc_nodes p)), ce_to = cn_id node, ce_confidence = conf,
                    ce_mechanism = ''business_impact'', ce_lag_seconds = 0,
                    ce_evidence = ''Customer-facing degradation on '' @ inc_service inc @ '' caused ~$'' @ show_whole (iv_revenue iv) @
                      '' revenue loss over '' @ show_whole (iv_minutes iv) @ '' minutes.''\<rparr>],
                  dag_primary := p\<lparr>cc_nodes := cc_nodes p @ [node],
                    cc_narrative := cc_narrative p @ ('' '' @ [CHR 0xE2, CHR 0x86, CHR 0x92] @ ''['') @ show_int conf @ (''%]'' @ [CHR 0xE2, CHR 0x86, CHR 0x92] @ '' '') @ label\<rparr>\<rparr>)"

text \<open>Edges from the topology when there are any, else from the order in time.\<close>

definition causal_edges :: "causal_env \<Rightarrow> faults \<Rightarrow> string \<Rightarrow> CausalNode list \<Rightarrow> CausalNode option \<Rightarrow> CausalEdge list \<times> string" where
  "causal_edges env flt tenant ns ch =
    (let topo = (case ca_topology env of None \<Rightarrow> [] | Some db \<Rightarrow> build_topology_edges env flt tenant db ns ch) in
     if topo \<noteq> [] then (topo, ''topology_temporal'') else (build_temporal_edges env ns ch, ''temporal_only''))"

definition build_causal_dag :: "causal_env \<Rightarrow> faults \<Rightarrow> string \<Rightarrow> string \<Rightarrow> CausalDAG result" where
  "build_causal_dag env flt incidentID tenant =
    (case ca_details env incidentID of
       None \<Rightarrow> Inl (ErrMsg (''incident '' @ go_quote incidentID @ '' not found''))
     | Some dv \<Rightarrow>
        (let alerts = alert_nodes env (dv_incident dv) (dv_events dv);
             ch = change_node env dv alerts;
             ns = all_nodes ch alerts;
             (es, algorithm) = causal_edges env flt tenant ns ch;
             marked = mark_ends es ch ns;
             primary = find_critical_path marked es;
             dag = \<lparr>dag_incident_id = incidentID, dag_nodes = marked, dag_edges = es, dag_primary = primary,
                    dag_alternatives = find_alternative_chains marked es primary,
                    dag_overall = overall_confidence primary ch, dag_impact = None, dag_algorithm = algorithm\<rparr>
         in Inr (case ca_impact env of
               None \<Rightarrow> dag
             | Some f \<Rightarrow> (case f incidentID of None \<Rightarrow> dag | Some iv \<Rightarrow> append_impact incidentID (dv_incident dv) iv dag))))"

section \<open>Chains and the search\<close>

text \<open>All chains from a node to one without effects, of at most so many nodes.\<close>

fun chains :: "nat \<Rightarrow> CausalNode list \<Rightarrow> CausalEdge list \<Rightarrow> string \<Rightarrow> (CausalNode list \<times> CausalEdge list) list" where
  "chains 0 ns es i = []"
| "chains (Suc k) ns es i =
    (case node_by_id ns i of
       None \<Rightarrow> []
     | Some n \<Rightarrow>
        if out_edges es i = [] then [([n], [])]
        else concat (map (\<lambda>e. map (\<lambda>c. (n # fst c, e # snd c)) (chains k ns es (ce_to e))) (out_edges es i)))"

text \<open>What makes a chain: every edge is one of the graph and joins the two nodes around it.\<close>

fun chain_ok :: "CausalNode list \<Rightarrow> CausalEdge list \<Rightarrow> string \<Rightarrow> CausalNode list \<Rightarrow> CausalEdge list \<Rightarrow> bool" where
  "chain_ok ns es i [n] [] = (node_by_id ns i = Some n \<and> out_edges es i = [])"
| "chain_ok ns es i (n # m # p) (e # q) =
    (node_by_id ns i = Some n \<and> e \<in> set es \<and> ce_from e = i \<and> chain_ok ns es (ce_to e) (m # p) q)"
| "chain_ok ns es i p q = False"

lemma chain_ok_nonempty: "chain_ok ns es i p q \<Longrightarrow> \<exists>n p'. p = n # p'"
  by (cases p) auto

lemma chains_iff: "(p, q) \<in> set (chains k ns es i) \<longleftrightarrow> length p \<le> k \<and> chain_ok ns es i p q"
proof (induction k arbitrary: i p q)
  case 0
  then show ?case by (auto dest: chain_ok_nonempty)
next
  case (Suc k)
  show ?case
  proof (cases "node_by_id ns i")
    case None
    then have "\<not> chain_ok ns es i p q" by (cases "(ns, es, i, p, q)" rule: chain_ok.cases) auto
    with None show ?thesis by simp
  next
    case (Some n)
    show ?thesis
    proof (cases "out_edges es i")
      case Nil
      then have "\<forall>e \<in> set es. ce_from e \<noteq> i" by (simp add: out_edges_def filter_empty_conv)
      then have "chain_ok ns es i p q \<longleftrightarrow> p = [n] \<and> q = []"
        using Some Nil by (cases "(ns, es, i, p, q)" rule: chain_ok.cases) auto
      with Some Nil show ?thesis by auto
    next
      case (Cons e0 es0)
      have "(p, q) \<in> set (chains (Suc k) ns es i) \<longleftrightarrow>
          (\<exists>e \<in> set (out_edges es i). \<exists>c \<in> set (chains k ns es (ce_to e)). p = n # fst c \<and> q = e # snd c)"
      proof -
        have "chains (Suc k) ns es i =
            concat (map (\<lambda>e. map (\<lambda>c. (n # fst c, e # snd c)) (chains k ns es (ce_to e))) (out_edges es i))"
          using Some Cons by simp
        then have "set (chains (Suc k) ns es i) =
            (\<Union>e \<in> set (out_edges es i). (\<lambda>c. (n # fst c, e # snd c)) ` set (chains k ns es (ce_to e)))"
          by (simp only: set_concat set_map image_image)
        then show ?thesis by (simp only: UN_iff image_iff prod.inject)
      qed
      also have "\<dots> \<longleftrightarrow> (\<exists>e p' q'. e \<in> set (out_edges es i) \<and> p = n # p' \<and> q = e # q' \<and>
          (p', q') \<in> set (chains k ns es (ce_to e)))"
        by (metis (no_types, lifting) fst_conv snd_conv surj_pair)
      also have "\<dots> \<longleftrightarrow> (\<exists>e p' q'. e \<in> set (out_edges es i) \<and> p = n # p' \<and> q = e # q' \<and> length p' \<le> k \<and>
          chain_ok ns es (ce_to e) p' q')"
        by (simp only: Suc.IH)
      also have "\<dots> \<longleftrightarrow> length p \<le> Suc k \<and> chain_ok ns es i p q"
      proof (cases "(ns, es, i, p, q)" rule: chain_ok.cases)
        case (1 ns' es' i' m)
        with Cons show ?thesis by (auto dest: chain_ok_nonempty)
      next
        case (2 ns' es' i' m m' p' e q')
        with Some show ?thesis by (auto simp: out_edges_def)
      qed (auto dest: chain_ok_nonempty)
      finally show ?thesis .
    qed
  qed
qed

definition take_chain :: "CausalNode list \<Rightarrow> CausalEdge list \<Rightarrow> best_chain \<Rightarrow> CausalNode list \<times> CausalEdge list \<Rightarrow> best_chain" where
  "take_chain path pes b c = consider_chain (path @ fst c) (pes @ snd c) b"

lemma foldl_concat: "foldl f a (concat xss) = foldl (foldl f) a xss"
  by (induction xss arbitrary: a) simp_all

lemma foldl_map_arg: "foldl f a (map g xs) = foldl (\<lambda>b x. f b (g x)) a xs"
  by (induction xs arbitrary: a) simp_all

lemma chain_dfs_chains: "chain_dfs k ns es i path pes best = foldl (take_chain path pes) best (chains k ns es i)"
proof (induction k arbitrary: i path pes best)
  case (Suc k)
  show ?case
  proof (cases "node_by_id ns i")
    case (Some n)
    have step: "foldl (take_chain path pes) b (map (\<lambda>c. (n # fst c, e # snd c)) (chains k ns es (ce_to e))) =
        chain_dfs k ns es (ce_to e) (path @ [n]) (pes @ [e]) b" for b e
      by (simp add: Suc.IH foldl_map_arg take_chain_def)
    with Some show ?thesis
      by (simp add: foldl_concat foldl_map_arg take_chain_def)
  qed simp
qed simp

definition cause_chains :: "CausalNode list \<Rightarrow> CausalEdge list \<Rightarrow> (CausalNode list \<times> CausalEdge list) list" where
  "cause_chains ns es = concat (map (\<lambda>n. chains 21 ns es (cn_id n)) (filter (\<lambda>n. \<not> has_cause es (cn_id n)) ns))"

lemma search_chains_all: "search_chains ns es = foldl (take_chain [] []) (-1, [], []) (cause_chains ns es)"
proof -
  have "foldl (\<lambda>b n. if has_cause es (cn_id n) then b else chain_dfs 21 ns es (cn_id n) [] [] b) b xs =
      foldl (take_chain [] []) b (concat (map (\<lambda>n. chains 21 ns es (cn_id n)) (filter (\<lambda>n. \<not> has_cause es (cn_id n)) xs)))" for b xs
    by (induction xs arbitrary: b) (simp_all add: chain_dfs_chains)
  then show ?thesis by (simp add: search_chains_def cause_chains_def)
qed

lemma take_chain_best:
  assumes "foldl (take_chain [] []) b cs = b'"
  shows "fst b \<le> fst b' \<and> (\<forall>c \<in> set cs. 2 \<le> length (fst c) \<longrightarrow> harmonic_mean (snd c) \<le> fst b') \<and>
    (b' = b \<or> (\<exists>c \<in> set cs. 2 \<le> length (fst c) \<and> b' = (harmonic_mean (snd c), fst c, snd c)))"
  using assms
proof (induction cs arbitrary: b)
  case (Cons c cs)
  from Cons.prems have "foldl (take_chain [] []) (take_chain [] [] b c) cs = b'" by simp
  from Cons.IH[OF this] show ?case
    by (auto simp: take_chain_def consider_chain_def Let_def split: if_splits)
qed simp

lemma cause_chains_iff: "c \<in> set (cause_chains ns es) \<longleftrightarrow>
    (\<exists>n \<in> set ns. \<not> has_cause es (cn_id n) \<and> length (fst c) \<le> 21 \<and> chain_ok ns es (cn_id n) (fst c) (snd c))"
  using chains_iff[of "fst c" "snd c" 21] by (auto simp: cause_chains_def)

subsection \<open>The mean is never negative\<close>

lemma recip_bounds:
  assumes "0 < c" "c < 2 ^ 63"
  obtains v where "float_div (Fin 1) (float_of_int c) = Fin v" "1 / 2 ^ 66 \<le> v" "v \<le> 4"
proof -
  have "(of_int c :: rat) < of_int (2 ^ 63)" using assms(2) by (simp only: of_int_less_iff)
  with assms(1) have c: "(1::rat) \<le> of_int c" "of_int c \<le> (2::rat) ^ 63" by simp_all
  have "scale 2 (-1000) \<le> (1::rat)" by (simp add: scale_def)
  with c(1) have "scale 2 (-1000) \<le> of_int c" by linarith
  moreover have "of_int c \<le> (2::rat) ^ 1000" using c(2) by (rule order_trans) simp
  ultimately obtain w where w: "round64 (of_int c) = Fin w" "of_int c / 2 \<le> w" "w \<le> 2 * of_int c" by (rule round64_near)
  with c have w': "1 / 2 \<le> w" "w \<le> 2 ^ 64" by simp_all
  then have r: "1 / 2 ^ 64 \<le> 1 / w" "1 / w \<le> 2" by (simp_all add: field_simps)
  have "scale 2 (-1000) \<le> (1::rat) / 2 ^ 64" by (simp add: scale_def)
  with r have "scale 2 (-1000) \<le> 1 / w" by linarith
  moreover have "1 / w \<le> 2 ^ 1000" using r(2) by (rule order_trans) simp
  ultimately obtain v where v: "round64 (1 / w) = Fin v" "1 / w / 2 \<le> v" "v \<le> 2 * (1 / w)" by (rule round64_near)
  have "1 / 2 ^ 66 \<le> v" using v(2) r(1) by simp
  moreover have "v \<le> 4" using v(3) r(2) by linarith
  ultimately show thesis using that v(1) w(1) w'(1) by (auto simp: float_of_int_def)
qed

lemma sum_bounds:
  assumes "\<forall>e \<in> set es. 0 < ce_confidence e \<and> ce_confidence e < 2 ^ 63" and "length es \<le> 40"
  shows "\<exists>v. sum_recip es = Fin v \<and> 0 \<le> v \<and> v \<le> 8 * 2 ^ length es - 8 \<and> (es \<noteq> [] \<longrightarrow> 1 / 2 ^ 67 \<le> v)"
  using assms
proof (induction es rule: rev_induct)
  case Nil
  then show ?case by (simp add: sum_recip_def)
next
  case (snoc e es)
  then obtain u where u: "sum_recip es = Fin u" "0 \<le> u" "u \<le> 8 * 2 ^ length es - 8" by auto
  have ce: "0 < ce_confidence e" "ce_confidence e < 2 ^ 63" using snoc.prems(1) by simp_all
  obtain r where r: "float_div (Fin 1) (float_of_int (ce_confidence e)) = Fin r" "1 / 2 ^ 66 \<le> r" "r \<le> 4"
    using recip_bounds[OF ce] .
  have x: "1 / 2 ^ 66 \<le> u + r" "u + r \<le> 8 * 2 ^ length es - 4" using u r by linarith+
  have "(2::rat) ^ length es \<le> 2 ^ 40" using snoc.prems(2) by (intro power_increasing) simp_all
  with x(2) have "u + r \<le> 8 * 2 ^ 40" by linarith
  then have hi: "u + r \<le> 2 ^ 1000" by (rule order_trans) simp
  have "scale 2 (-1000) \<le> (1::rat) / 2 ^ 66" by (simp add: scale_def)
  with x(1) have lo: "scale 2 (-1000) \<le> u + r" by linarith
  from lo hi obtain v where v: "round64 (u + r) = Fin v" "(u + r) / 2 \<le> v" "v \<le> 2 * (u + r)" by (rule round64_near)
  have "sum_recip (es @ [e]) = Fin v" using u(1) r(1) v(1) by (simp add: sum_recip_def)
  moreover have "1 / 2 ^ 67 \<le> v" using v(2) x(1) by simp
  moreover from this have "0 \<le> v" by (rule order_trans[rotated]) simp
  moreover have "v \<le> 8 * 2 ^ length (es @ [e]) - 8" using v(3) x(2) by simp
  ultimately show ?case by blast
qed

lemma harmonic_mean_nonneg:
  assumes "\<forall>e \<in> set es. ce_confidence e < 2 ^ 63" and "length es \<le> 40"
  shows "0 \<le> harmonic_mean es"
proof (cases "es = [] \<or> list_ex (\<lambda>e. ce_confidence e \<le> 0) es")
  case True
  then show ?thesis by (auto simp: harmonic_mean_def)
next
  case False
  with assms(1) have "\<forall>e \<in> set es. 0 < ce_confidence e \<and> ce_confidence e < 2 ^ 63" by (auto simp: list_ex_iff not_le)
  from sum_bounds[OF this assms(2)] False obtain s where s: "sum_recip es = Fin s" "1 / 2 ^ 67 \<le> s" by auto
  let ?n = "of_int (int (length es)) :: rat"
  have n: "1 \<le> ?n" "?n \<le> 40" using False assms(2) by (cases es, simp_all)
  have "scale 2 (-1000) \<le> (1::rat)" by (simp add: scale_def)
  with n(1) have "scale 2 (-1000) \<le> ?n" by linarith
  moreover have "?n \<le> 2 ^ 1000" using n(2) by (rule order_trans) simp
  ultimately obtain m where m: "round64 ?n = Fin m" "?n / 2 \<le> m" "m \<le> 2 * ?n" by (rule round64_near)
  have sp: "0 < s" using s(2) by (rule less_le_trans[rotated]) simp
  have "0 \<le> m" using m(2) n(1) by linarith
  then have q: "0 \<le> m / s" using sp by simp
  have "m / s \<le> 80 / (1 / 2 ^ 67)" using m(3) n(2) s(2) \<open>0 \<le> m\<close> by (intro frac_le) simp_all
  then have up: "m / s \<le> 2 ^ 1000" by (rule order_trans) simp
  have "round64 (m / s) \<noteq> Inf False"
  proof (cases "scale 2 (-1000) \<le> m / s")
    case True
    from round64_near[OF this up] show ?thesis by force
  next
    case False
    moreover have "1 / 2 \<le> m" using m(2) n(1) by linarith
    then have "(1 / 2) / s \<le> m / s" using sp by (intro divide_right_mono) simp_all
    moreover have "s \<le> 8 * 2 ^ 40"
    proof -
      have "(2::rat) ^ length es \<le> 2 ^ 40" using assms(2) by (intro power_increasing) simp_all
      with sum_bounds[OF \<open>\<forall>e \<in> set es. 0 < ce_confidence e \<and> ce_confidence e < 2 ^ 63\<close> assms(2)] s(1) show ?thesis by auto
    qed
    then have "1 / (16 * 2 ^ 40) \<le> (1 / 2) / s" using sp by (simp add: field_simps)
    moreover have "scale 2 (-1000) \<le> (1::rat) / (16 * 2 ^ 40)" by (simp add: scale_def)
    ultimately show ?thesis by linarith
  qed
  moreover have "\<not> m / s < 0" using q by linarith
  ultimately obtain w where w: "round64 (m / s) = Fin w"
    using round64_Inf[of "m / s"] round64_not_NaN[of "m / s"] by (cases "round64 (m / s)") auto
  with round64_sign[OF w] q have "0 \<le> w" by simp
  moreover have "harmonic_mean es = trunc_rat w"
    using False s(1) sp m(1) w by (simp add: harmonic_mean_def float_of_int_def)
  ultimately show ?thesis by (simp add: trunc_rat_def)
qed

lemma chain_ok_length: "chain_ok ns es i p q \<Longrightarrow> length p = Suc (length q) \<and> set q \<subseteq> set es"
  by (induction ns es i p q rule: chain_ok.induct) auto

subsection \<open>The critical path\<close>

definition best_of :: "CausalNode list \<Rightarrow> CausalEdge list \<Rightarrow> (CausalNode list \<times> CausalEdge list) \<Rightarrow> bool" where
  "best_of ns es c \<longleftrightarrow> c \<in> set (cause_chains ns es) \<and> 2 \<le> length (fst c) \<and>
     (\<forall>c' \<in> set (cause_chains ns es). 2 \<le> length (fst c') \<longrightarrow> harmonic_mean (snd c') \<le> harmonic_mean (snd c))"

lemma critical_path:
  assumes "ns \<noteq> []" and "\<forall>e \<in> set es. ce_confidence e < 2 ^ 63"
  shows "(\<exists>c. best_of ns es c \<and> cc_nodes (find_critical_path ns es) = fst c \<and> cc_edges (find_critical_path ns es) = snd c \<and>
       cc_confidence (find_critical_path ns es) = harmonic_mean (snd c)) \<or>
    ((\<forall>c \<in> set (cause_chains ns es). length (fst c) < 2) \<and> cc_nodes (find_critical_path ns es) = ns \<and>
       cc_edges (find_critical_path ns es) = [] \<and> cc_confidence (find_critical_path ns es) = 50)"
proof -
  obtain s bn be where b: "search_chains ns es = (s, bn, be)" by (metis prod_cases3)
  have nonneg: "0 \<le> harmonic_mean (snd c)" if "c \<in> set (cause_chains ns es)" for c
  proof -
    from that obtain n :: CausalNode where "length (fst c) \<le> 21" "chain_ok ns es (cn_id n) (fst c) (snd c)"
      unfolding cause_chains_iff by blast
    with chain_ok_length[OF this(2)] assms(2) show ?thesis by (intro harmonic_mean_nonneg) auto
  qed
  note taken = take_chain_best[OF b[unfolded search_chains_all], unfolded fst_conv]
  have all: "\<forall>c \<in> set (cause_chains ns es). 2 \<le> length (fst c) \<longrightarrow> harmonic_mean (snd c) \<le> s"
    by (rule taken[THEN conjunct2, THEN conjunct1])
  have one: "(s, bn, be) = (-1, [], []) \<or> (\<exists>c \<in> set (cause_chains ns es). 2 \<le> length (fst c) \<and>
       s = harmonic_mean (snd c) \<and> bn = fst c \<and> be = snd c)"
    using taken[THEN conjunct2, THEN conjunct2] by (simp only: prod.inject)
  from one show ?thesis
  proof
    assume z: "(s, bn, be) = (-1, [], [])"
    have "length (fst c) < 2" if "c \<in> set (cause_chains ns es)" for c
      using all nonneg[OF that] that z by force
    with assms(1) b z show ?thesis by (auto simp: find_critical_path_def)
  next
    assume "\<exists>c \<in> set (cause_chains ns es). 2 \<le> length (fst c) \<and> s = harmonic_mean (snd c) \<and> bn = fst c \<and> be = snd c"
    then obtain c where c: "c \<in> set (cause_chains ns es)" "2 \<le> length (fst c)" "s = harmonic_mean (snd c)" "bn = fst c" "be = snd c" by blast
    with all have "best_of ns es c" by (simp add: best_of_def)
    moreover have "bn \<noteq> []" using c(2,4) by auto
    moreover have "find_critical_path ns es = \<lparr>cc_nodes = bn, cc_edges = be, cc_confidence = s,
        cc_narrative = build_causal_narrative bn be\<rparr>"
      using assms(1) b \<open>bn \<noteq> []\<close> nonneg[OF c(1)] c(3) by (simp add: find_critical_path_def)
    ultimately show ?thesis using c(3-5) by (intro disjI1 exI[of _ c]) simp
  qed
qed

subsection \<open>The nodes\<close>

text \<open>The law of \<open>range\<close>: every key once.\<close>

definition range_ok :: "(string list \<Rightarrow> string list) \<Rightarrow> bool" where
  "range_ok f \<longleftrightarrow> (\<forall>ks. distinct ks \<longrightarrow> distinct (f ks) \<and> set (f ks) = set ks)"

definition env_ok :: "causal_env \<Rightarrow> bool" where
  "env_ok env \<longleftrightarrow> range_ok (ca_range env) \<and> long_sort_ok (ca_long env) cn_timestamp"

lemma earlier_key: "earlier = (\<lambda>a b. cn_timestamp a < cn_timestamp b)"
  by (simp add: earlier_def fun_eq_iff)

lemma note_first_service:
  "pk cn_service ns \<Longrightarrow> pk cn_service (note_first n ns)"
  "cn_service ` set (note_first n ns) = insert (cn_service n) (cn_service ` set ns)"
proof -
  show "pk cn_service (note_first n ns)" if "pk cn_service ns"
    using that by (auto simp: note_first_def tbl_find_None intro!: pk_snoc pk_update split: option.split)
  show "cn_service ` set (note_first n ns) = insert (cn_service n) (cn_service ` set ns)"
  proof (cases "tbl_find cn_service (cn_service n) ns")
    case (Some old)
    then have "old \<in> set ns" "cn_service old = cn_service n" by (auto dest: tbl_find_Some)
    moreover have "map cn_service (tbl_update (\<lambda>m. cn_service m = cn_service n) (\<lambda>_. n) ns) = map cn_service ns"
      by (rule map_key_update) simp
    then have "cn_service ` set (tbl_update (\<lambda>m. cn_service m = cn_service n) (\<lambda>_. n) ns) = cn_service ` set ns"
      by (metis set_map)
    ultimately show ?thesis using Some by (auto simp: note_first_def insert_absorb) (metis image_eqI)+
  qed (simp add: note_first_def)
qed

text \<open>The node of a service stands for one of its events, and none of them is earlier.\<close>

definition first_of :: "Incident \<Rightarrow> Event list \<Rightarrow> CausalNode list \<Rightarrow> bool" where
  "first_of inc evs ns \<longleftrightarrow> pk cn_service ns \<and> (\<forall>n \<in> set ns. \<exists>ev \<in> set evs. n = alert_node inc ev) \<and>
     (\<forall>ev \<in> set evs. \<exists>n \<in> set ns. cn_service n = cn_service (alert_node inc ev) \<and>
        cn_timestamp n \<le> cn_timestamp (alert_node inc ev))"

lemma first_of_step:
  assumes "first_of inc evs ns"
  shows "first_of inc (evs @ [ev]) (note_first (alert_node inc ev) ns)"
proof -
  let ?a = "alert_node inc ev"
  have pk: "pk cn_service ns" using assms by (simp add: first_of_def)
  have from_ev: "\<forall>n \<in> set (note_first ?a ns). \<exists>e \<in> set (evs @ [ev]). n = alert_node inc e"
    using assms by (auto simp: first_of_def note_first_def tbl_update_def split: option.splits)
  have keep: "\<exists>m \<in> set (note_first ?a ns). cn_service m = cn_service n \<and> cn_timestamp m \<le> cn_timestamp n"
    if n: "n \<in> set ns" for n
  proof (cases "tbl_find cn_service (cn_service ?a) ns")
    case None
    with n show ?thesis by (auto simp: note_first_def)
  next
    case (Some old)
    show ?thesis
    proof (cases "cn_timestamp ?a < cn_timestamp old \<and> cn_service n = cn_service ?a")
      case True
      have "tbl_find cn_service (cn_service n) ns = Some n" using tbl_find_unique[OF pk n] .
      with Some True have "old = n" by simp
      with Some True n show ?thesis by (force simp: note_first_def tbl_update_def)
    next
      case False
      with Some n show ?thesis by (force simp: note_first_def tbl_update_def)
    qed
  qed
  have new: "\<exists>m \<in> set (note_first ?a ns). cn_service m = cn_service ?a \<and> cn_timestamp m \<le> cn_timestamp ?a"
  proof (cases "tbl_find cn_service (cn_service ?a) ns")
    case None
    then show ?thesis by (auto simp: note_first_def)
  next
    case (Some old)
    then have "old \<in> set ns" "cn_service old = cn_service ?a" by (auto dest: tbl_find_Some)
    with Some show ?thesis by (force simp: note_first_def tbl_update_def)
  qed
  show ?thesis
    unfolding first_of_def
  proof (intro conjI ballI)
    fix e assume "e \<in> set (evs @ [ev])"
    then consider "e \<in> set evs" | "e = ev" by auto
    then show "\<exists>n \<in> set (note_first ?a ns). cn_service n = cn_service (alert_node inc e) \<and> cn_timestamp n \<le> cn_timestamp (alert_node inc e)"
    proof cases
      case 1
      with assms obtain n where n: "n \<in> set ns" "cn_service n = cn_service (alert_node inc e)"
          "cn_timestamp n \<le> cn_timestamp (alert_node inc e)" unfolding first_of_def by blast
      with keep[OF n(1)] show ?thesis by fastforce
    qed (use new in simp)
  qed (use from_ev note_first_service(1)[OF pk] in auto)
qed

lemma service_first_first: "first_of inc evs (service_first inc evs)"
proof (induction evs rule: rev_induct)
  case Nil
  then show ?case by (simp add: service_first_def first_of_def pk_def)
next
  case (snoc ev evs)
  from first_of_step[OF snoc] show ?case by (simp add: service_first_def)
qed

lemma ranged_nodes:
  assumes "range_ok f" "pk cn_service m"
  shows "set (concat (map (\<lambda>k. case tbl_find cn_service k m of None \<Rightarrow> [] | Some n \<Rightarrow> [n]) (f (map cn_service m)))) = set m \<and>
    distinct (map cn_service (concat (map (\<lambda>k. case tbl_find cn_service k m of None \<Rightarrow> [] | Some n \<Rightarrow> [n]) (f (map cn_service m)))))"
proof -
  let ?ks = "f (map cn_service m)"
  let ?g = "\<lambda>k. case tbl_find cn_service k m of None \<Rightarrow> [] | Some n \<Rightarrow> [n]"
  from assms have ks: "distinct ?ks" "set ?ks = cn_service ` set m" by (auto simp: range_ok_def pk_def)
  have hit: "\<exists>n \<in> set m. ?g k = [n] \<and> cn_service n = k" if "k \<in> set ?ks" for k
  proof -
    from that ks(2) obtain n where "n \<in> set m" "cn_service n = k" by auto
    with tbl_find_unique[OF assms(2), of n] show ?thesis by force
  qed
  have "map cn_service (concat (map ?g xs)) = xs" if "set xs \<subseteq> set ?ks" for xs
    using that by (induction xs) (use hit in fastforce)+
  then have services: "map cn_service (concat (map ?g ?ks)) = ?ks" by simp
  have "set (concat (map ?g ?ks)) = set m"
  proof
    show "set (concat (map ?g ?ks)) \<subseteq> set m" by (auto split: option.splits dest!: tbl_find_Some sym[of "Some _"])
    show "set m \<subseteq> set (concat (map ?g ?ks))"
    proof
      fix n assume n: "n \<in> set m"
      then have "cn_service n \<in> set ?ks" using ks(2) by simp
      then show "n \<in> set (concat (map ?g ?ks))"
        using tbl_find_unique[OF assms(2) n] by (auto intro!: bexI[of _ "cn_service n"])
    qed
  qed
  with services ks(1) show ?thesis by simp
qed

lemma alert_nodes_facts:
  assumes "env_ok env"
  shows "first_of inc evs (alert_nodes env inc evs)" "sorted (map cn_timestamp (alert_nodes env inc evs))"
proof -
  let ?m = "service_first inc evs"
  let ?xs = "concat (map (\<lambda>k. case tbl_find cn_service k ?m of None \<Rightarrow> [] | Some n \<Rightarrow> [n]) (ca_range env (map cn_service ?m)))"
  have law: "long_sort_ok (ca_long env) cn_timestamp" and rng: "range_ok (ca_range env)" using assms by (simp_all add: env_ok_def)
  have m: "first_of inc evs ?m" by (rule service_first_first)
  then have "pk cn_service ?m" by (simp add: first_of_def)
  from ranged_nodes[OF rng this] have xs: "set ?xs = set ?m" "distinct (map cn_service ?xs)" by blast+
  have eq: "alert_nodes env inc evs = sort_slice (ca_long env) earlier ?xs" by (simp add: alert_nodes_def Let_def)
  have "set (alert_nodes env inc evs) = set ?m" unfolding eq earlier_key using sort_slice_set[OF law] xs(1) by simp
  moreover have "pk cn_service (alert_nodes env inc evs)"
    unfolding pk_def eq earlier_key using sort_slice_distinct[OF law] xs(2) by blast
  ultimately show "first_of inc evs (alert_nodes env inc evs)" using m by (simp add: first_of_def)
  show "sorted (map cn_timestamp (alert_nodes env inc evs))" unfolding eq earlier_key by (rule sort_slice_sorted[OF law])
qed

lemma alert_node_simps [simp]: "cn_id (alert_node inc ev) = ''alert:'' @ cn_service (alert_node inc ev)"
    "cn_node_type (alert_node inc ev) \<noteq> ''change''"
  by (simp_all add: alert_node_def Let_def causal_node_type_def)

text \<open>What the nodes of the graph satisfy: the alerts in order of time, one for each service, after the
  change when there is one.\<close>

definition nodes_ok :: "CausalNode option \<Rightarrow> CausalNode list \<Rightarrow> bool" where
  "nodes_ok ch alerts \<longleftrightarrow> sorted (map cn_timestamp alerts) \<and> pk cn_service alerts \<and>
     (\<forall>n \<in> set alerts. cn_id n = ''alert:'' @ cn_service n \<and> cn_node_type n \<noteq> ''change'') \<and>
     (case ch of None \<Rightarrow> True | Some c \<Rightarrow> cn_node_type c = ''change'' \<and> (\<exists>x. cn_id c = ''change:'' @ x))"

lemma nodes_ok_ids: "nodes_ok ch alerts \<Longrightarrow> pk cn_id (all_nodes ch alerts)"
proof -
  assume ok: "nodes_ok ch alerts"
  then have "map cn_id alerts = map (\<lambda>s. ''alert:'' @ s) (map cn_service alerts)" by (simp add: nodes_ok_def)
  moreover have "distinct (map (\<lambda>s. ''alert:'' @ s) (map cn_service alerts))"
    using ok by (simp add: nodes_ok_def pk_def distinct_map inj_on_def)
  ultimately have "pk cn_id alerts" by (simp only: pk_def)
  with ok show ?thesis by (cases ch) (auto simp: all_nodes_def pk_def nodes_ok_def)
qed

lemma built_nodes_ok:
  assumes "env_ok env"
  shows "nodes_ok (change_node env dv (alert_nodes env (dv_incident dv) (dv_events dv))) (alert_nodes env (dv_incident dv) (dv_events dv))"
proof -
  note f = alert_nodes_facts[OF assms, where inc = "dv_incident dv" and evs = "dv_events dv"]
  from f(1) have "\<forall>n \<in> set (alert_nodes env (dv_incident dv) (dv_events dv)). cn_id n = ''alert:'' @ cn_service n \<and> cn_node_type n \<noteq> ''change''"
    unfolding first_of_def by (metis alert_node_simps)
  with f show ?thesis by (auto simp: nodes_ok_def first_of_def change_node_def Let_def)
qed

subsection \<open>The edges\<close>

definition edge_pairs :: "CausalEdge list \<Rightarrow> (string \<times> string) set" where
  "edge_pairs es = (\<lambda>e. (ce_from e, ce_to e)) ` set es"

lemma acyclic_rank:
  assumes "\<And>a b. (a, b) \<in> R \<Longrightarrow> rank a < (rank b :: int)"
  shows "acyclic R"
proof -
  have "rank a < rank b" if "(a, b) \<in> R\<^sup>+" for a b
    using that by (induction rule: trancl_induct) (use assms in \<open>auto dest: assms\<close>)
  then show ?thesis unfolding acyclic_def by (meson less_irrefl)
qed

text \<open>An edge joins two nodes, the first of them earlier.\<close>

definition forward_edge :: "CausalNode list \<Rightarrow> bool \<Rightarrow> CausalEdge \<Rightarrow> bool" where
  "forward_edge ns strict e \<longleftrightarrow> (\<exists>a \<in> set ns. \<exists>b \<in> set ns. ce_from e = cn_id a \<and> ce_to e = cn_id b \<and>
     (if strict then cn_timestamp a < cn_timestamp b else cn_timestamp a \<le> cn_timestamp b))"

lemma forward_edge_weak: "forward_edge ns strict e \<Longrightarrow> forward_edge ns False e"
  unfolding forward_edge_def by (metis less_imp_le)

lemma node_by_service_in: "node_by_service ns svc = Some n \<Longrightarrow> n \<in> set ns \<and> cn_service n = svc"
  by (auto simp: node_by_service_def dest: tbl_find_Some)

lemma hop_edge_forward:
  assumes "e \<in> set (hop_edge flt db ns a hop)" "a \<in> set ns"
  shows "forward_edge ns True e"
proof -
  from assms(1) obtain o' where o: "get_node_by_id (at_site (th_node hop) flt) (th_node hop) db = Inr o'" "o' \<noteq> None"
    unfolding hop_edge_def by (cases "get_node_by_id (at_site (th_node hop) flt) (th_node hop) db") (auto split: option.splits)
  then obtain n where n: "o' = Some n" by auto
  with assms(1) o obtain b where b: "node_by_service ns (tn_name n) = Some b"
    unfolding hop_edge_def by (cases "node_by_service ns (tn_name n)") auto
  with assms(1) o n have "earlier a b" "ce_from e = cn_id a" "ce_to e = cn_id b"
    unfolding hop_edge_def by (simp_all add: Let_def split: if_splits)
  with node_by_service_in[OF b] assms(2) show ?thesis by (auto simp: forward_edge_def earlier_def)
qed

lemma change_edge_forward:
  "e \<in> set (change_edge c a msg) \<Longrightarrow> c \<in> set ns \<Longrightarrow> a \<in> set ns \<Longrightarrow> forward_edge ns True e \<and> ce_from e = cn_id c \<and> ce_to e = cn_id a"
  by (auto simp: change_edge_def forward_edge_def Let_def split: if_splits)

lemma topology_edges_forward:
  assumes "e \<in> set (build_topology_edges env flt tenant db ns ch)" "\<And>c. ch = Some c \<Longrightarrow> c \<in> set ns"
  shows "forward_edge ns True e"
proof -
  show ?thesis
  proof (cases "\<exists>a \<in> set ns. e \<in> set (node_edges env flt tenant db ns a)")
    case True
    then obtain a :: CausalNode where a: "a \<in> set ns" "e \<in> set (node_edges env flt tenant db ns a)" by blast
    then show ?thesis using hop_edge_forward[OF _ a(1)]
      by (auto simp: node_edges_def Let_def split: sum.splits option.splits)
  next
    case False
    with assms(1) obtain c where c: "ch = Some c" by (cases ch) (auto simp: build_topology_edges_def)
    with assms(1) False obtain b where b: "node_by_service ns (cn_service c) = Some b"
      by (cases "node_by_service ns (cn_service c)") (auto simp: build_topology_edges_def)
    from assms(1) False c b obtain msg where "e \<in> set (change_edge c b msg)"
      by (auto simp: build_topology_edges_def split: if_splits)
    with change_edge_forward[OF this] assms(2)[OF c] node_by_service_in[OF b] show ?thesis by simp
  qed
qed

text \<open>Edges along a list.\<close>

definition along :: "string list \<Rightarrow> CausalEdge \<Rightarrow> bool" where
  "along xs e \<longleftrightarrow> (\<exists>i j. i < j \<and> j < length xs \<and> ce_from e = xs ! i \<and> ce_to e = xs ! j)"

lemma along_Cons: "along xs e \<Longrightarrow> along (x # xs) e"
  unfolding along_def by (metis Suc_less_eq length_Cons nth_Cons_Suc)

lemma alert_chain_along: "e \<in> set (alert_chain ns) \<Longrightarrow> along (map cn_id ns) e"
proof (induction ns rule: alert_chain.induct)
  case (1 p q ns)
  show ?case
  proof (cases "ce_from e = cn_id p \<and> ce_to e = cn_id q")
    case True
    then show ?thesis unfolding along_def by (intro exI[of _ "0::nat"] exI[of _ "1::nat"]) simp
  next
    case False
    with 1 have "along (map cn_id (q # ns)) e" by (auto simp: Let_def split: if_splits)
    from along_Cons[OF this] show ?thesis by simp
  qed
qed simp_all

lemma alert_chain_forward: "e \<in> set (alert_chain ns) \<Longrightarrow> sorted (map cn_timestamp ns) \<Longrightarrow> forward_edge ns False e"
proof (induction ns rule: alert_chain.induct)
  case (1 p q ns)
  show ?case
  proof (cases "ce_from e = cn_id p \<and> ce_to e = cn_id q")
    case True
    with 1 show ?thesis by (auto simp: forward_edge_def)
  next
    case False
    with 1 have "forward_edge (q # ns) False e" by (auto simp: Let_def split: if_splits)
    then show ?thesis by (auto simp: forward_edge_def)
  qed
qed simp_all

lemma alert_chain_confidence: "e \<in> set (alert_chain ns) \<Longrightarrow> \<exists>lag. ce_confidence e = temporal_only_conf lag"
  by (induction ns rule: alert_chain.induct) (auto simp: Let_def split: if_splits)

text \<open>The temporal edges lie along the change and the alerts in time.\<close>

lemma temporal_edges_along:
  assumes "env_ok env" "nodes_ok ch alerts"
  obtains xs where "mset xs = mset alerts" "sorted (map cn_timestamp xs)"
    "\<And>e. e \<in> set (build_temporal_edges env (all_nodes ch alerts) ch) \<Longrightarrow> along (map cn_id (all_nodes ch xs)) e"
    "\<And>e. e \<in> set (build_temporal_edges env (all_nodes ch alerts) ch) \<Longrightarrow> forward_edge (all_nodes ch alerts) False e"
proof -
  define xs where "xs = sort_slice (ca_long env) earlier (filter (\<lambda>n. cn_node_type n \<noteq> ''change'') (all_nodes ch alerts))"
  have law: "long_sort_ok (ca_long env) cn_timestamp" using assms(1) by (simp add: env_ok_def)
  have flt: "filter (\<lambda>n. cn_node_type n \<noteq> ''change'') (all_nodes ch alerts) = alerts"
    using assms(2) by (cases ch) (auto simp: all_nodes_def nodes_ok_def)
  have ms: "mset xs = mset alerts" unfolding xs_def flt earlier_key by (rule sort_slice_mset[OF law])
  have so: "sorted (map cn_timestamp xs)" unfolding xs_def flt earlier_key by (rule sort_slice_sorted[OF law])
  from ms have st: "set xs = set alerts" by (rule mset_eq_setD)
  have edges: "build_temporal_edges env (all_nodes ch alerts) ch = (case (ch, xs) of
      (Some c, a # _) \<Rightarrow> change_edge c a (cn_label c @ '' preceded the first alert on '' @ cn_service a @ '' by '') | _ \<Rightarrow> []) @ alert_chain xs"
    by (simp add: build_temporal_edges_def xs_def Let_def)
  have c_in: "c \<in> set (all_nodes ch alerts)" if "ch = Some c" for c using that by (simp add: all_nodes_def)
  have sub: "set xs \<subseteq> set (all_nodes ch alerts)" using st by (auto simp: all_nodes_def split: option.split)
  have both: "along (map cn_id (all_nodes ch xs)) e \<and> forward_edge (all_nodes ch alerts) False e"
    if "e \<in> set (build_temporal_edges env (all_nodes ch alerts) ch)" for e
  proof -
    from that[unfolded edges] consider (change) c a ys msg where "ch = Some c" "xs = a # ys" "e \<in> set (change_edge c a msg)"
      | (chain) "e \<in> set (alert_chain xs)" by (auto split: option.splits list.splits)
    then show ?thesis
    proof cases
      case change
      with change_edge_forward[OF change(3) c_in] sub have "forward_edge (all_nodes ch alerts) True e"
          "ce_from e = cn_id c" "ce_to e = cn_id a" by auto
      moreover from this change have "along (map cn_id (all_nodes ch xs)) e"
        unfolding along_def by (intro exI[of _ "0::nat"] exI[of _ "1::nat"]) (simp add: all_nodes_def)
      ultimately show ?thesis using forward_edge_weak by blast
    next
      case chain
      from alert_chain_along[OF chain] have "along (map cn_id (all_nodes ch xs)) e"
        by (auto simp: all_nodes_def along_Cons split: option.split)
      moreover have "forward_edge (all_nodes ch alerts) False e"
        using alert_chain_forward[OF chain so] sub unfolding forward_edge_def by blast
      ultimately show ?thesis ..
    qed
  qed
  show thesis by (rule that[OF ms so]) (use both in blast)+
qed

lemma along_acyclic:
  assumes "distinct xs" "\<And>e. e \<in> set es \<Longrightarrow> along xs e"
  shows "acyclic (edge_pairs es)"
proof (rule acyclic_rank)
  fix a b assume "(a, b) \<in> edge_pairs es"
  then obtain e where "e \<in> set es" "a = ce_from e" "b = ce_to e" by (auto simp: edge_pairs_def)
  with assms(2)[OF this(1)] obtain i j where e: "i < j" "j < length xs" "a = xs ! i" "b = xs ! j"
    unfolding along_def by auto
  have "(THE k. k < length xs \<and> xs ! k = xs ! i) = i" if "i < length xs" for i
    by (rule the_equality) (use assms(1) that nth_eq_iff_index_eq in blast)+
  with e show "int (THE k. k < length xs \<and> xs ! k = a) < int (THE k. k < length xs \<and> xs ! k = b)" by simp
qed

lemma forward_acyclic:
  assumes "pk cn_id ns" "\<And>e. e \<in> set es \<Longrightarrow> forward_edge ns True e"
  shows "acyclic (edge_pairs es)"
proof (rule acyclic_rank)
  fix a b assume "(a, b) \<in> edge_pairs es"
  then obtain e where "e \<in> set es" "a = ce_from e" "b = ce_to e" by (auto simp: edge_pairs_def)
  with assms(2)[OF this(1)] obtain n m where "n \<in> set ns" "m \<in> set ns" "a = cn_id n" "b = cn_id m"
      "cn_timestamp n < cn_timestamp m" unfolding forward_edge_def by auto
  with tbl_find_unique[OF assms(1)]
  show "(case tbl_find cn_id a ns of None \<Rightarrow> 0 | Some n \<Rightarrow> cn_timestamp n) < (case tbl_find cn_id b ns of None \<Rightarrow> 0 | Some n \<Rightarrow> cn_timestamp n)"
    by simp
qed

lemma all_nodes_mset: "mset xs = mset ys \<Longrightarrow> mset (all_nodes ch xs) = mset (all_nodes ch ys)"
  by (cases ch) (simp_all add: all_nodes_def)

lemma temporal_edges_ok:
  assumes "env_ok env" "nodes_ok ch alerts"
  shows "acyclic (edge_pairs (build_temporal_edges env (all_nodes ch alerts) ch)) \<and>
    (\<forall>e \<in> set (build_temporal_edges env (all_nodes ch alerts) ch). forward_edge (all_nodes ch alerts) False e)"
proof -
  let ?es = "build_temporal_edges env (all_nodes ch alerts) ch"
  obtain xs where ms: "mset xs = mset alerts" and al: "\<And>e. e \<in> set ?es \<Longrightarrow> along (map cn_id (all_nodes ch xs)) e"
    and fw: "\<And>e. e \<in> set ?es \<Longrightarrow> forward_edge (all_nodes ch alerts) False e"
    by (rule temporal_edges_along[OF assms]) (rule that)
  have "distinct (map cn_id (all_nodes ch alerts))" using nodes_ok_ids[OF assms(2)] by (simp only: pk_def)
  moreover have "mset (map cn_id (all_nodes ch xs)) = mset (map cn_id (all_nodes ch alerts))"
    using all_nodes_mset[OF ms, of ch] by (simp only: mset_map)
  ultimately have "distinct (map cn_id (all_nodes ch xs))" by (metis mset_eq_imp_distinct_iff)
  from along_acyclic[OF this al] fw show ?thesis by blast
qed

lemma topology_edges_ok:
  assumes "nodes_ok ch alerts"
  shows "acyclic (edge_pairs (build_topology_edges env flt tenant db (all_nodes ch alerts) ch)) \<and>
    (\<forall>e \<in> set (build_topology_edges env flt tenant db (all_nodes ch alerts) ch). forward_edge (all_nodes ch alerts) False e)"
proof -
  let ?es = "build_topology_edges env flt tenant db (all_nodes ch alerts) ch"
  have "c \<in> set (all_nodes ch alerts)" if "ch = Some c" for c using that by (simp add: all_nodes_def)
  then have fw: "forward_edge (all_nodes ch alerts) True e" if "e \<in> set ?es" for e
    using topology_edges_forward[OF that] by blast
  from forward_acyclic[OF nodes_ok_ids[OF assms] fw] forward_edge_weak[OF fw] show ?thesis by blast
qed

lemma causal_edges_ok:
  assumes "env_ok env" "nodes_ok ch alerts" "causal_edges env flt tenant (all_nodes ch alerts) ch = (es, algorithm)"
  shows "acyclic (edge_pairs es) \<and> (\<forall>e \<in> set es. forward_edge (all_nodes ch alerts) False e)"
proof (cases "es = build_temporal_edges env (all_nodes ch alerts) ch")
  case True
  with temporal_edges_ok[OF assms(1,2)] show ?thesis by simp
next
  case False
  with assms(3) obtain db where "es = build_topology_edges env flt tenant db (all_nodes ch alerts) ch"
    by (cases "ca_topology env") (auto simp: causal_edges_def Let_def split: if_splits)
  with topology_edges_ok[OF assms(2)] show ?thesis by simp
qed


subsection \<open>The finished graph\<close>

lemma mark_ends_keys [simp]: "map cn_id (mark_ends es ch ns) = map cn_id ns" "mark_ends es ch ns = [] \<longleftrightarrow> ns = []"
  by (simp_all add: mark_ends_def)

lemma mark_ends_ids: "cn_id ` set (mark_ends es ch ns) = cn_id ` set ns"
  by (metis mark_ends_keys(1) set_map)

lemma mark_ends_forward: "forward_edge (mark_ends es ch ns) strict e = forward_edge ns strict e"
proof -
  have "set (mark_ends es ch ns) = (\<lambda>n. n\<lparr>cn_is_root := (\<not> has_cause es (cn_id n) \<or> (case ch of None \<Rightarrow> False | Some c \<Rightarrow> cn_id n = cn_id c)),
     cn_is_leaf := (out_edges es (cn_id n) = [])\<rparr>) ` set ns" by (simp add: mark_ends_def)
  then show ?thesis by (simp only: forward_edge_def bex_simps(7)) simp
qed

lemma chain_ok_nodes: "chain_ok ns es i p q \<Longrightarrow> set p \<subseteq> set ns"
proof (induction ns es i p q rule: chain_ok.induct)
qed (auto simp: node_by_id_def dest!: tbl_find_Some)

text \<open>The primary chain runs over nodes of the graph and ends somewhere.\<close>

lemma critical_path_nodes:
  assumes "ns \<noteq> []"
  shows "cc_nodes (find_critical_path ns es) \<noteq> [] \<and> set (cc_nodes (find_critical_path ns es)) \<subseteq> set ns"
proof -
  obtain s bn be where b: "search_chains ns es = (s, bn, be)" by (metis prod_cases3)
  note taken = take_chain_best[OF b[unfolded search_chains_all]]
  have "bn = [] \<or> (\<exists>c \<in> set (cause_chains ns es). bn = fst c)"
    using taken[THEN conjunct2, THEN conjunct2] by force
  then have "set bn \<subseteq> set ns" using cause_chains_iff chain_ok_nodes by fastforce
  with assms b show ?thesis by (simp add: find_critical_path_def)
qed

lemma critical_path_confidence: "0 \<le> cc_confidence (find_critical_path ns es)"
  by (simp add: find_critical_path_def split: prod.splits)

text \<open>The graph before the impact, and the node and edge the impact adds.\<close>

definition base_dag :: "causal_env \<Rightarrow> faults \<Rightarrow> string \<Rightarrow> string \<Rightarrow> detail_view \<Rightarrow> CausalDAG" where
  "base_dag env flt incidentID tenant dv =
    (let alerts = alert_nodes env (dv_incident dv) (dv_events dv);
         ch = change_node env dv alerts;
         ns = all_nodes ch alerts;
         (es, algorithm) = causal_edges env flt tenant ns ch;
         marked = mark_ends es ch ns;
         primary = find_critical_path marked es
     in \<lparr>dag_incident_id = incidentID, dag_nodes = marked, dag_edges = es, dag_primary = primary,
         dag_alternatives = find_alternative_chains marked es primary,
         dag_overall = overall_confidence primary ch, dag_impact = None, dag_algorithm = algorithm\<rparr>)"

lemma build_causal_dag_cases:
  assumes "build_causal_dag env flt incidentID tenant = Inr dag"
  obtains dv where "ca_details env incidentID = Some dv" "dag = base_dag env flt incidentID tenant dv"
  | dv iv where "ca_details env incidentID = Some dv"
      "dag = append_impact incidentID (dv_incident dv) iv (base_dag env flt incidentID tenant dv)"
  using assms by (auto simp: build_causal_dag_def base_dag_def Let_def split: option.splits prod.splits)

lemma build_causal_dag_found: "ca_details env i = Some dv \<Longrightarrow> \<exists>dag. build_causal_dag env flt i tenant = Inr dag"
  by (simp add: build_causal_dag_def Let_def split: prod.split)

definition graph_ok :: "string \<Rightarrow> CausalDAG \<Rightarrow> bool" where
  "graph_ok i dag \<longleftrightarrow> pk cn_id (dag_nodes dag) \<and> acyclic (edge_pairs (dag_edges dag)) \<and>
     (\<forall>e \<in> set (dag_edges dag). ce_from e \<in> cn_id ` set (dag_nodes dag) \<and> ce_to e \<in> cn_id ` set (dag_nodes dag)) \<and>
     (\<forall>e \<in> set (dag_edges dag). ce_to e = ''impact:'' @ i \<or> forward_edge (dag_nodes dag) False e)"

lemma base_dag_ids:
  assumes "env_ok env" "n \<in> set (dag_nodes (base_dag env flt i tenant dv))"
  shows "\<exists>x. cn_id n = ''alert:'' @ x \<or> cn_id n = ''change:'' @ x"
proof -
  let ?alerts = "alert_nodes env (dv_incident dv) (dv_events dv)"
  from assms(2) have "cn_id n \<in> cn_id ` set (all_nodes (change_node env dv ?alerts) ?alerts)"
    using mark_ends_ids by (auto simp: base_dag_def Let_def split: prod.splits) blast
  with built_nodes_ok[OF assms(1), of dv] show ?thesis
    by (auto simp: nodes_ok_def all_nodes_def split: option.splits)
qed

lemma base_dag_ok:
  assumes "env_ok env"
  shows "graph_ok i (base_dag env flt i tenant dv)"
proof -
  let ?alerts = "alert_nodes env (dv_incident dv) (dv_events dv)"
  let ?ch = "change_node env dv ?alerts"
  obtain es algorithm where e: "causal_edges env flt tenant (all_nodes ?ch ?alerts) ?ch = (es, algorithm)" by force
  note ok = built_nodes_ok[OF assms, of dv]
  have n: "dag_nodes (base_dag env flt i tenant dv) = mark_ends es ?ch (all_nodes ?ch ?alerts)"
    and d: "dag_edges (base_dag env flt i tenant dv) = es"
    using e by (simp_all add: base_dag_def Let_def)
  have "pk cn_id (mark_ends es ?ch (all_nodes ?ch ?alerts))"
    using nodes_ok_ids[OF ok] by (simp only: pk_def mark_ends_keys)
  moreover from causal_edges_ok[OF assms ok e] have "acyclic (edge_pairs es)"
    and "\<forall>e \<in> set es. forward_edge (mark_ends es ?ch (all_nodes ?ch ?alerts)) False e"
    using mark_ends_forward by blast+
  ultimately show ?thesis unfolding graph_ok_def n d by (auto simp: forward_edge_def)
qed

lemma impact_graph_ok:
  assumes ok: "graph_ok i dag" and ids: "\<forall>n \<in> set (dag_nodes dag). cn_id n \<noteq> ''impact:'' @ i"
    and primary: "set (cc_nodes (dag_primary dag)) \<subseteq> set (dag_nodes dag)"
  shows "graph_ok i (append_impact i inc iv dag)"
proof (cases "cc_nodes (dag_primary dag) = []")
  case True
  with ok ids show ?thesis by (auto simp: graph_ok_def append_impact_def Let_def forward_edge_def pk_def)
next
  case False
  define m where "m = cn_id (last (cc_nodes (dag_primary dag)))"
  define x where "x = ''impact:'' @ i"
  have m: "m \<in> cn_id ` set (dag_nodes dag)" using False primary last_in_set unfolding m_def by blast
  then have "m \<noteq> x" using ids unfolding x_def by auto
  have no_out: "(x, y) \<notin> edge_pairs (dag_edges dag)" for y
    using ok ids by (fastforce simp: graph_ok_def edge_pairs_def x_def)
  have "(x, m) \<notin> (edge_pairs (dag_edges dag))\<^sup>*"
    using \<open>m \<noteq> x\<close> no_out by (blast elim: converse_rtranclE)
  moreover obtain e n where e: "dag_edges (append_impact i inc iv dag) = dag_edges dag @ [e]" "ce_from e = m" "ce_to e = x"
      "dag_nodes (append_impact i inc iv dag) = dag_nodes dag @ [n]" "cn_id n = x"
    using False by (auto simp: append_impact_def Let_def m_def x_def)
  moreover have "edge_pairs (dag_edges dag @ [e]) = insert (m, x) (edge_pairs (dag_edges dag))"
    using e by (simp add: edge_pairs_def)
  ultimately have "acyclic (edge_pairs (dag_edges dag @ [e]))" using ok by (simp add: graph_ok_def)
  moreover have "pk cn_id (dag_nodes dag @ [n])" using ok ids e(5) by (auto simp: graph_ok_def pk_def x_def)
  ultimately show ?thesis using ok m e unfolding graph_ok_def x_def by (auto simp: forward_edge_def)
qed

lemma base_dag_primary: "set (cc_nodes (dag_primary (base_dag env flt i tenant dv))) \<subseteq> set (dag_nodes (base_dag env flt i tenant dv))"
proof -
  obtain es algorithm where e: "causal_edges env flt tenant (all_nodes (change_node env dv (alert_nodes env (dv_incident dv) (dv_events dv)))
      (alert_nodes env (dv_incident dv) (dv_events dv))) (change_node env dv (alert_nodes env (dv_incident dv) (dv_events dv))) = (es, algorithm)" by force
  show ?thesis
  proof (cases "dag_nodes (base_dag env flt i tenant dv)")
    case Nil
    with e show ?thesis by (simp add: base_dag_def Let_def find_critical_path_def)
  next
    case Cons
    then have "dag_nodes (base_dag env flt i tenant dv) \<noteq> []" by simp
    from critical_path_nodes[OF this, of es] e show ?thesis by (simp add: base_dag_def Let_def)
  qed
qed

lemma nearest_065: "round64 (65 / 100) = Fin (5854679515581645 / 9007199254740992)"
  by code_simp

lemma score_065_95: "float_trunc (round64 (95 * (5854679515581645 / 9007199254740992))) = 61"
  by (rule float_trunc_round) simp_all

lemma score_065_87: "float_trunc (round64 (87 * (5854679515581645 / 9007199254740992))) = 56"
  by (rule float_trunc_round) simp_all

lemma score_065_76: "float_trunc (round64 (76 * (5854679515581645 / 9007199254740992))) = 49"
  by (rule float_trunc_round) simp_all

lemma score_065_62: "float_trunc (round64 (62 * (5854679515581645 / 9007199254740992))) = 40"
  by (rule float_trunc_round) simp_all

lemma score_065_44: "float_trunc (round64 (44 * (5854679515581645 / 9007199254740992))) = 28"
  by (rule float_trunc_round) simp_all

lemmas scores_065 = score_065_95 score_065_87 score_065_76 score_065_62 score_065_44

lemma temporal_only_values: "lag \<le> 30 * minute \<Longrightarrow> temporal_only_conf lag \<in> {61, 56, 49, 40, 28}"
proof -
  assume "lag \<le> 30 * minute"
  then have "causal_temporal_score lag \<in> {95, 87, 76, 62, 44}" by (simp add: causal_temporal_score_def)
  then show ?thesis unfolding temporal_only_conf_def nearest_065 gofloat.case
    by (elim insertE emptyE) (simp_all only: of_int_numeral scores_065, simp_all)
qed

lemma alert_chain_values: "e \<in> set (alert_chain ns) \<Longrightarrow> ce_confidence e \<in> {61, 56, 49, 40, 28} \<and> ce_mechanism e = ''cascade''"
proof (induction ns rule: alert_chain.induct)
  case (1 p q ns)
  show ?case
  proof (cases "e \<in> set (alert_chain (q # ns))")
    case False
    with 1(2) have "cn_timestamp q - cn_timestamp p \<le> 30 * minute"
        "ce_confidence e = temporal_only_conf (cn_timestamp q - cn_timestamp p)" "ce_mechanism e = ''cascade''"
      by (auto simp: Let_def split: if_splits)
    with temporal_only_values show ?thesis by metis
  qed (use 1 in \<open>auto simp: Let_def split: if_splits\<close>)
qed simp_all

lemma change_edge_values:
  assumes "e \<in> set (change_edge c a msg)" "0 \<le> cn_confidence c" "cn_confidence c \<le> 100"
  shows "12 \<le> ce_confidence e \<and> ce_confidence e \<le> 97 \<and> ce_mechanism e = ''config_change''"
proof -
  from assms(1) have e: "ce_mechanism e = ''config_change''"
      "ce_confidence e = change_edge_confidence (cn_timestamp a - cn_timestamp c) (cn_confidence c)"
    by (auto simp: change_edge_def Let_def split: if_splits)
  have "12 \<le> change_edge_confidence l (cn_confidence c) \<and> change_edge_confidence l (cn_confidence c) \<le> 97" for l
  proof -
    have "25 \<le> causal_temporal_score l" "causal_temporal_score l \<le> 95" by (simp_all add: causal_temporal_score_def)
    then have "25 \<le> cn_confidence c + causal_temporal_score l" "cn_confidence c + causal_temporal_score l \<le> 195"
      using assms(2,3) by linarith+
    moreover have "12 \<le> x div 2 \<and> x div 2 \<le> 97" if "25 \<le> x" "x \<le> 195" for x :: int
      using that by presburger
    ultimately show ?thesis by (simp add: change_edge_confidence_def quot_pos)
  qed
  with e show ?thesis by simp
qed

section \<open>Properties\<close>

definition sample_range_env :: causal_env where
  "sample_range_env = \<lparr>ca_numbers = exact_numbers, ca_topology = None,
     ca_details = (\<lambda>i. if i = ''i1'' then Some \<lparr>dv_incident = incident_zero\<lparr>inc_service := ''db''\<rparr>,
          dv_events = [event_zero\<lparr>ev_service := ''db'', ev_severity := ''critical'', ev_timestamp := 0\<rparr>,
                       event_zero\<lparr>ev_service := ''api'', ev_severity := ''high'', ev_timestamp := minute\<rparr>],
          dv_what_changed = \<lparr>wc_type = [], wc_service = [], wc_version = [], wc_description = [], wc_timestamp = []\<rparr>,
          dv_evidence = []\<rparr> else None),
     ca_impact = Some (\<lambda>_. Some \<lparr>iv_revenue = 100, iv_minutes = 5, iv_score = None\<rparr>),
     ca_parse_time = (\<lambda>_. None), ca_range = (\<lambda>ks. ks), ca_long = insertion_sort\<rparr>"

lemma sample_nodes:
  "map cn_id (alert_nodes sample_range_env (incident_zero\<lparr>inc_service := ''db''\<rparr>)
     [event_zero\<lparr>ev_service := ''db'', ev_severity := ''critical'', ev_timestamp := 0\<rparr>,
      event_zero\<lparr>ev_service := ''api'', ev_severity := ''high'', ev_timestamp := minute\<rparr>]) = [''alert:db'', ''alert:api'']"
  by code_simp

lemma sample_env_ok: "env_ok sample_range_env"
  by (simp add: env_ok_def range_ok_def sample_range_env_def long_sort_ok_insertion)

text \<open>Every graph the engine builds is acyclic, with unique node identifiers and edges between its
  nodes; every edge leads forward in time, except the one to the business impact, which has no effects.\<close>

theorem causal_graph_acyclic:
  assumes "env_ok env" and "build_causal_dag env flt i tenant = Inr dag"
  shows "pk cn_id (dag_nodes dag) \<and> acyclic (edge_pairs (dag_edges dag)) \<and>
    (\<forall>e \<in> set (dag_edges dag). ce_from e \<in> cn_id ` set (dag_nodes dag) \<and> ce_to e \<in> cn_id ` set (dag_nodes dag)) \<and>
    (\<forall>e \<in> set (dag_edges dag). ce_to e = ''impact:'' @ i \<or> forward_edge (dag_nodes dag) False e)"
proof -
  have "graph_ok i dag"
    using assms(2)
  proof (cases rule: build_causal_dag_cases)
    case (2 dv iv)
    have "cn_id n \<noteq> ''impact:'' @ i" if "n \<in> set (dag_nodes (base_dag env flt i tenant dv))" for n
      using base_dag_ids[OF assms(1) that] by auto
    with 2 show ?thesis using impact_graph_ok[OF base_dag_ok[OF assms(1)] _ base_dag_primary] by blast
  qed (simp add: base_dag_ok[OF assms(1)])
  then show ?thesis unfolding graph_ok_def .
qed

theorem causal_graph_acyclic_witness:
  "\<exists>dag. build_causal_dag sample_range_env no_faults ''i1'' ''t1'' = Inr dag \<and>
     map cn_id (dag_nodes dag) = [''alert:db'', ''alert:api'', ''impact:i1''] \<and> acyclic (edge_pairs (dag_edges dag))"
proof -
  obtain dv iv where "ca_details sample_range_env ''i1'' = Some dv" "ca_impact sample_range_env = Some (\<lambda>_. Some iv)"
    and dv: "dv_incident dv = incident_zero\<lparr>inc_service := ''db''\<rparr>" "wc_type (dv_what_changed dv) = []"
      "dv_events dv = [event_zero\<lparr>ev_service := ''db'', ev_severity := ''critical'', ev_timestamp := 0\<rparr>,
                       event_zero\<lparr>ev_service := ''api'', ev_severity := ''high'', ev_timestamp := minute\<rparr>]"
    by (simp add: sample_range_env_def)
  then have dag: "build_causal_dag sample_range_env no_faults ''i1'' ''t1'' =
      Inr (append_impact ''i1'' (dv_incident dv) iv (base_dag sample_range_env no_faults ''i1'' ''t1'' dv))"
    by (simp add: build_causal_dag_def base_dag_def Let_def split: prod.splits)
  have "map cn_id (dag_nodes (base_dag sample_range_env no_faults ''i1'' ''t1'' dv)) = [''alert:db'', ''alert:api'']"
    using sample_nodes dv by (simp add: base_dag_def Let_def change_node_def all_nodes_def split: prod.splits)
  then have "map cn_id (dag_nodes (append_impact ''i1'' (dv_incident dv) iv (base_dag sample_range_env no_faults ''i1'' ''t1'' dv))) =
      [''alert:db'', ''alert:api'', ''impact:i1'']" by (simp add: append_impact_def Let_def)
  with dag causal_graph_acyclic[OF sample_env_ok dag, THEN conjunct2, THEN conjunct1] show ?thesis by (intro exI conjI)
qed

definition cause_chain :: "CausalNode list \<Rightarrow> CausalEdge list \<Rightarrow> (CausalNode list \<times> CausalEdge list) \<Rightarrow> bool" where
  "cause_chain ns es c \<longleftrightarrow> (\<exists>n \<in> set ns. \<not> has_cause es (cn_id n) \<and> 2 \<le> length (fst c) \<and> length (fst c) \<le> 21 \<and>
     chain_ok ns es (cn_id n) (fst c) (snd c))"

text \<open>C26: The primary chain is a most credible one: among all chains of the graph from a node without cause
  to a node without effect, of two to twenty-one nodes, it has the greatest mean confidence, which is the
  confidence reported. Where there is no such chain, all nodes stand for one, with confidence 50.\<close>

theorem critical_path_best:
  assumes "ns \<noteq> []" and "\<forall>e \<in> set es. ce_confidence e < 2 ^ 63"
  shows "if \<exists>c. cause_chain ns es c
    then cause_chain ns es (cc_nodes (find_critical_path ns es), cc_edges (find_critical_path ns es)) \<and>
      cc_confidence (find_critical_path ns es) = harmonic_mean (cc_edges (find_critical_path ns es)) \<and>
      (\<forall>c. cause_chain ns es c \<longrightarrow> harmonic_mean (snd c) \<le> cc_confidence (find_critical_path ns es))
    else cc_nodes (find_critical_path ns es) = ns \<and> cc_edges (find_critical_path ns es) = [] \<and>
      cc_confidence (find_critical_path ns es) = 50"
proof -
  have iff: "cause_chain ns es c \<longleftrightarrow> c \<in> set (cause_chains ns es) \<and> 2 \<le> length (fst c)" for c
    unfolding cause_chain_def cause_chains_iff by blast
  from critical_path[OF assms] show ?thesis
  proof (elim disjE exE conjE)
    fix c assume b: "best_of ns es c" and eq: "cc_nodes (find_critical_path ns es) = fst c"
      "cc_edges (find_critical_path ns es) = snd c" "cc_confidence (find_critical_path ns es) = harmonic_mean (snd c)"
    from b have "cause_chain ns es c" by (simp add: best_of_def iff)
    then have ex: "\<exists>c. cause_chain ns es c" by blast
    from b have "\<forall>c'. cause_chain ns es c' \<longrightarrow> harmonic_mean (snd c') \<le> harmonic_mean (snd c)"
      unfolding best_of_def iff by blast
    with \<open>cause_chain ns es c\<close> show ?thesis unfolding if_P[OF ex] eq by simp
  next
    assume none: "\<forall>c \<in> set (cause_chains ns es). length (fst c) < 2"
      and "cc_nodes (find_critical_path ns es) = ns" "cc_edges (find_critical_path ns es) = []"
        "cc_confidence (find_critical_path ns es) = 50"
    moreover from none have "\<not> (\<exists>c. cause_chain ns es c)" unfolding iff by (meson not_le)
    ultimately show ?thesis by simp
  qed
qed

definition bare_node :: "string \<Rightarrow> CausalNode" where
  "bare_node i = \<lparr>cn_id = i, cn_node_type = ''alert'', cn_service = i, cn_event_id = [], cn_label = i, cn_detail = [],
     cn_severity = [], cn_timestamp = 0, cn_is_root = False, cn_is_leaf = False, cn_confidence = 60\<rparr>"

definition bare_edge :: "string \<Rightarrow> string \<Rightarrow> int \<Rightarrow> CausalEdge" where
  "bare_edge a b c = \<lparr>ce_from = a, ce_to = b, ce_confidence = c, ce_mechanism = ''cascade'', ce_lag_seconds = 0, ce_evidence = []\<rparr>"

theorem critical_path_best_witness:
  "harmonic_mean (cc_edges (find_critical_path [bare_node ''a'', bare_node ''b''] [bare_edge ''a'' ''b'' 40])) =
   cc_confidence (find_critical_path [bare_node ''a'', bare_node ''b''] [bare_edge ''a'' ''b'' 40])"
proof -
  let ?ns = "[bare_node ''a'', bare_node ''b'']" and ?es = "[bare_edge ''a'' ''b'' 40]"
  have "cause_chain ?ns ?es (?ns, ?es)"
    by (simp add: cause_chain_def has_cause_def bare_edge_def bare_node_def node_by_id_def out_edges_def tbl_find_Cons)
  then have ex: "\<exists>c. cause_chain ?ns ?es c" by blast
  have "?ns \<noteq> []" "\<forall>e \<in> set ?es. ce_confidence e < 2 ^ 63" by (simp_all add: bare_edge_def)
  from critical_path_best[OF this] ex show ?thesis by simp
qed

text \<open>The overall confidence lies between 0 and 98. Without topology the confidence of a step from alert to
  alert is one of five values up to 61, and of the change, where the incident gives it between 0 and 100,
  between 12 and 97.\<close>

theorem causal_confidence_bounded:
  assumes "build_causal_dag env flt i tenant = Inr dag" "ca_details env i = Some dv"
    "0 \<le> inc_what_changed_confidence (dv_incident dv)" "inc_what_changed_confidence (dv_incident dv) \<le> 100"
  shows "0 \<le> dag_overall dag \<and> dag_overall dag \<le> 98 \<and> (dag_algorithm dag = ''temporal_only'' \<longrightarrow>
    (\<forall>e \<in> set (dag_edges dag). ce_to e = ''impact:'' @ i \<or>
       (if ce_mechanism e = ''config_change'' then 12 \<le> ce_confidence e \<and> ce_confidence e \<le> 97
        else ce_mechanism e = ''cascade'' \<and> ce_confidence e \<in> {61, 56, 49, 40, 28})))"
proof -
  let ?alerts = "alert_nodes env (dv_incident dv) (dv_events dv)"
  let ?ch = "change_node env dv ?alerts"
  let ?base = "base_dag env flt i tenant dv"
  have ch: "0 \<le> cn_confidence c \<and> cn_confidence c \<le> 100" if "?ch = Some c" for c
    using that assms(3,4) by (auto simp: change_node_def Let_def split: if_splits)
  obtain es algorithm where e: "causal_edges env flt tenant (all_nodes ?ch ?alerts) ?ch = (es, algorithm)" by force
  have base: "dag_edges ?base = es" "dag_algorithm ?base = algorithm"
      "dag_overall ?base = overall_confidence (dag_primary ?base) ?ch" "0 \<le> cc_confidence (dag_primary ?base)"
    using e critical_path_confidence by (simp_all add: base_dag_def Let_def)
  have overall: "0 \<le> dag_overall ?base \<and> dag_overall ?base \<le> 98"
    using base(4) unfolding base(3) by (auto simp: overall_confidence_def quot_pos split: option.split)
  have steps: "if ce_mechanism x = ''config_change'' then 12 \<le> ce_confidence x \<and> ce_confidence x \<le> 97
      else ce_mechanism x = ''cascade'' \<and> ce_confidence x \<in> {61, 56, 49, 40, 28}"
    if "algorithm = ''temporal_only''" "x \<in> set es" for x
  proof -
    from e that(1) have "es = build_temporal_edges env (all_nodes ?ch ?alerts) ?ch"
      by (auto simp: causal_edges_def Let_def split: if_splits)
    with that(2) consider (change) c a msg where "?ch = Some c" "x \<in> set (change_edge c a msg)"
      | (chain) ns where "x \<in> set (alert_chain ns)"
      by (auto simp: build_temporal_edges_def Let_def split: option.splits list.splits)
    then show ?thesis
    proof cases
      case change
      from change_edge_values[OF change(2)] ch[OF change(1)] show ?thesis by simp
    next
      case chain
      from alert_chain_values[OF this] show ?thesis by auto
    qed
  qed
  have dag: "dag_overall dag = dag_overall ?base \<and> dag_algorithm dag = dag_algorithm ?base \<and>
      (\<forall>x \<in> set (dag_edges dag). x \<in> set (dag_edges ?base) \<or> ce_to x = ''impact:'' @ i)"
    using assms(1)
    by (cases rule: build_causal_dag_cases) (use assms(2) in \<open>auto simp: append_impact_def Let_def\<close>)
  show ?thesis
  proof (intro conjI impI ballI)
    fix x assume "dag_algorithm dag = ''temporal_only''" and x: "x \<in> set (dag_edges dag)"
    then have "algorithm = ''temporal_only''" using dag base(2) by simp
    from dag x base(1) consider "x \<in> set es" | "ce_to x = ''impact:'' @ i" by blast
    then show "ce_to x = ''impact:'' @ i \<or> (if ce_mechanism x = ''config_change'' then 12 \<le> ce_confidence x \<and> ce_confidence x \<le> 97
        else ce_mechanism x = ''cascade'' \<and> ce_confidence x \<in> {61, 56, 49, 40, 28})"
      by cases (rule disjI2, rule steps[OF \<open>algorithm = _\<close>], assumption, rule disjI1, assumption)
  qed (use overall dag in simp_all)
qed

theorem causal_confidence_bounded_witness:
  "\<exists>dag. build_causal_dag sample_range_env no_faults ''i1'' ''t1'' = Inr dag \<and> 0 \<le> dag_overall dag \<and> dag_overall dag \<le> 98"
proof -
  obtain dv where dv: "ca_details sample_range_env ''i1'' = Some dv" "dv_incident dv = incident_zero\<lparr>inc_service := ''db''\<rparr>"
    by (simp add: sample_range_env_def)
  obtain dag where "build_causal_dag sample_range_env no_faults ''i1'' ''t1'' = Inr dag"
    using build_causal_dag_found[OF dv(1)] by blast
  from causal_confidence_bounded[OF this dv(1)] this dv(2) show ?thesis by (simp add: incident_zero_def)
qed

end
