(* ===== verification/TopologyIntel.thy ===== *)
theory TopologyIntel
  imports CausalEngine Fingerprinting World
begin

text \<open>
  \<open>internal/services/topology_intelligence_service.go\<close>, \<open>internal/services/topology_service.go\<close> and the
  graph types of \<open>internal/models\<close>: the live graph of a tenant, the graph around an incident, the blast
  radius of a service and the structured root-cause analysis. The times at which results are computed
  are left out. The order in which Go ranges over a map, the sort of more than twelve elements and the
  text of a time are oracles. \<open>None\<close> for a graph or an analysis is the panic of a slice out of range.
\<close>

section \<open>Data\<close>

record GraphNode =
  gn_id :: string
  gn_label :: string
  gn_node_type :: string
  gn_severity :: string
  gn_status :: string
  gn_alert_count :: int
  gn_change_linked :: bool
  gn_evidence_count :: int

record GraphEdge =
  gr_from :: string
  gr_to :: string
  gr_relation :: string
  gr_weight :: gofloat
  gr_confidence :: int
  gr_evidence_count :: int

record GraphData =
  gd_nodes :: "GraphNode list"
  gd_edges :: "GraphEdge list"
  gd_root :: string

record LiveTopologyGraph =
  lg_tenant_id :: string
  lg_nodes :: "TopologyNode list"
  lg_edges :: "TopologyEdge list"
  lg_node_count :: nat
  lg_edge_count :: nat
  lg_layers :: "string list"

record BlastRadiusHop =
  bh_node :: TopologyNode
  bh_depth :: int
  bh_confidence :: int
  bh_relation :: string
  bh_path :: "string list"

record BlastRadiusResult =
  br_root :: TopologyNode
  br_total :: int
  br_customer_facing :: int
  br_critical :: int
  br_hops :: "BlastRadiusHop list"

record DegradationEvent =
  de_service :: string
  de_event_id :: string
  de_timestamp :: time
  de_severity :: string
  de_signal :: string
  de_description :: string
  de_is_origin :: bool

record EvidenceNode =
  en_id :: string
  en_type :: string
  en_label :: string
  en_detail :: string
  en_confidence :: int
  en_timestamp :: string
  en_supports :: string

record RootCauseNode =
  rn_type :: string
  rn_service :: string
  rn_description :: string
  rn_version :: string
  rn_timestamp :: string
  rn_confidence :: int

record ImpactSummary =
  im_service :: string
  im_node_type :: string
  im_is_customer_facing :: bool
  im_tier :: string
  im_owner_team :: string
  im_confidence :: int
  im_depth :: int

record CausalNarrative =
  na_what_happened :: string
  na_what_changed :: string
  na_how_propagated :: string
  na_who_impacted :: string
  na_confidence :: string

record CausalRCAResult =
  rca_incident_id :: string
  rca_root_cause :: RootCauseNode
  rca_chain :: "DegradationEvent list"
  rca_upstream :: "ImpactSummary list"
  rca_downstream :: "ImpactSummary list"
  rca_evidence :: "EvidenceNode list"
  rca_overall :: int
  rca_narrative :: CausalNarrative

text \<open>The local type \<open>rawEvent\<close>.\<close>

record raw_event =
  rw_service :: string
  rw_time :: time
  rw_id :: string
  rw_severity :: string
  rw_description :: string

record intel_env =
  ie_numbers :: pg_numbers
  ie_range :: "string list \<Rightarrow> string list"
  ie_parse_time :: "string \<Rightarrow> time option"
  ie_format_time :: "time \<Rightarrow> string"
  ie_raw_sort :: "raw_event long_sort"
  ie_blast_sort :: "BlastRadiusHop long_sort"

section \<open>Counting into a map\<close>

text \<open>\<open>m[k]++\<close>, in the order of first insertion, and ranging over the result.\<close>

fun bump :: "string \<Rightarrow> (string \<times> int) list \<Rightarrow> (string \<times> int) list" where
  "bump k [] = [(k, 1)]"
| "bump k ((k', n) # m) = (if k = k' then (k', n + 1) # m else (k', n) # bump k m)"

definition tally :: "string list \<Rightarrow> (string \<times> int) list" where
  "tally xs = foldl (\<lambda>m x. bump x m) [] xs"

definition ranged :: "(string list \<Rightarrow> string list) \<Rightarrow> (string \<times> 'v) list \<Rightarrow> (string \<times> 'v) list" where
  "ranged f m = concat (map (\<lambda>k. case map_of m k of None \<Rightarrow> [] | Some v \<Rightarrow> [(k, v)]) (f (map fst m)))"

section \<open>The live graph\<close>

definition build_live_graph :: "faults \<Rightarrow> string \<Rightarrow> topology_db \<Rightarrow> LiveTopologyGraph result" where
  "build_live_graph flt tenant db =
    (case get_nodes flt tenant db of
       Inl e \<Rightarrow> Inl e
     | Inr ns \<Rightarrow>
        (case get_edges flt tenant db of
           Inl e \<Rightarrow> Inl e
         | Inr es \<Rightarrow> Inr \<lparr>lg_tenant_id = tenant, lg_nodes = ns, lg_edges = es, lg_node_count = length ns,
             lg_edge_count = length es, lg_layers = sort (remdups (map tn_node_type ns))\<rparr>))"

section \<open>The graph of an incident\<close>

type_synonym graph = "GraphNode list \<times> GraphEdge list"

definition put_node :: "GraphNode \<Rightarrow> GraphNode list \<Rightarrow> GraphNode list" where
  "put_node n ns = tbl_upsert gn_id (\<lambda>_. n) n ns"

definition put_new :: "GraphNode \<Rightarrow> GraphNode list \<Rightarrow> GraphNode list" where
  "put_new n ns = (if tbl_has gn_id (gn_id n) ns then ns else ns @ [n])"

definition graph_node :: "string \<Rightarrow> string \<Rightarrow> string \<Rightarrow> GraphNode" where
  "graph_node i label ty = \<lparr>gn_id = i, gn_label = label, gn_node_type = ty, gn_severity = [], gn_status = [],
     gn_alert_count = 0, gn_change_linked = False, gn_evidence_count = 0\<rparr>"

definition graph_edge :: "string \<Rightarrow> string \<Rightarrow> string \<Rightarrow> gofloat \<Rightarrow> int \<Rightarrow> int \<Rightarrow> GraphEdge" where
  "graph_edge a b relation w c k = \<lparr>gr_from = a, gr_to = b, gr_relation = relation, gr_weight = w, gr_confidence = c,
     gr_evidence_count = k\<rparr>"

text \<open>\<open>float64(c) / 100.0\<close>.\<close>

definition weight_of :: "int \<Rightarrow> gofloat" where
  "weight_of c = float_div (float_of_int c) (Fin 100)"

definition humanize_node_label :: "string \<Rightarrow> string" where
  "humanize_node_label i = humanize_label i"

definition severity_to_status :: "string \<Rightarrow> string" where
  "severity_to_status sev =
    (let s = to_lower sev in
     if s = ''critical'' then ''down'' else if s = ''high'' then ''degraded''
     else if s = ''medium'' \<or> s = ''low'' then ''degraded'' else ''unknown'')"

definition map_db_node_type :: "string \<Rightarrow> int \<Rightarrow> string" where
  "map_db_node_type ty depth =
    (if ty = ''service'' then (if depth = 1 then ''dependency'' else ''impacted_service'')
     else if ty \<in> {''database'', ''cache'', ''queue''} then ''dependency''
     else if ty \<in> {''infra'', ''pod''} then ''infra''
     else if ty = ''team'' then ''owner''
     else ''dependency'')"

definition evidence_confidence :: "string \<Rightarrow> int \<Rightarrow> int" where
  "evidence_confidence ty n =
    min 95 (if ty = ''change'' then 85
     else if ty = ''metric'' then 70 + min (n * 3) 20
     else if ty = ''log'' then 65 + min (n * 2) 15
     else if ty = ''trace'' then 72
     else 60)"

definition root_id :: "Incident \<Rightarrow> string" where
  "root_id inc = (if inc_service inc = [] then ''unknown'' else inc_service inc)"

definition root_node :: "detail_view \<Rightarrow> GraphNode" where
  "root_node dv =
    (let inc = dv_incident dv in
     (graph_node (root_id inc) (humanize_node_label (root_id inc)) ''service'')\<lparr>gn_severity := inc_severity inc,
       gn_status := severity_to_status (inc_severity inc), gn_alert_count := inc_event_count inc,
       gn_change_linked := (inc_what_changed_type inc \<noteq> []), gn_evidence_count := int (length (dv_evidence dv))\<rparr>)"

definition enriched_root :: "faults \<Rightarrow> string \<Rightarrow> topology_db \<Rightarrow> detail_view \<Rightarrow> GraphNode" where
  "enriched_root flt tenant db dv =
    (let n = root_node dv in
     case or_keep (get_node_by_name (at_site ''enrich'' flt) tenant (gn_id n) db) None of
       None \<Rightarrow> n
     | Some d \<Rightarrow> n\<lparr>gn_label := tn_display_name d,
         gn_status := (case tn_health d of None \<Rightarrow> gn_status n | Some h \<Rightarrow> nh_status h)\<rparr>)"

definition hop_step :: "faults \<Rightarrow> topology_db \<Rightarrow> string \<Rightarrow> graph \<Rightarrow> TraversalHop \<Rightarrow> graph" where
  "hop_step flt db r g hop =
    (case or_keep (get_node_by_id (at_site (th_node hop) flt) (th_node hop) db) None of
       None \<Rightarrow> g
     | Some d \<Rightarrow>
        (put_new ((graph_node (tn_name d) (tn_display_name d) (map_db_node_type (tn_node_type d) (th_depth hop)))
            \<lparr>gn_status := (case tn_health d of None \<Rightarrow> ''unknown'' | Some h \<Rightarrow> nh_status h)\<rparr>) (fst g),
         snd g @ [graph_edge r (tn_name d) (th_relation hop) (weight_of (th_confidence hop)) (th_confidence hop) 0]))"

definition downstream_part :: "intel_env \<Rightarrow> faults \<Rightarrow> string \<Rightarrow> topology_db \<Rightarrow> string \<Rightarrow> graph \<Rightarrow> graph" where
  "downstream_part env flt tenant db r g =
    (case or_keep (get_node_by_name flt tenant r db) None of
       None \<Rightarrow> g
     | Some d \<Rightarrow> foldl (hop_step flt db r) g (or_keep (get_downstream (ie_numbers env) flt (tn_id d) tenant 3 db) []))"

definition impacted_step :: "string \<Rightarrow> graph \<Rightarrow> string \<Rightarrow> graph" where
  "impacted_step r g svc =
    (if svc = [] \<or> svc = r then g
     else
      (put_new ((graph_node svc (humanize_node_label svc) ''impacted_service'')\<lparr>gn_status := ''degraded''\<rparr>) (fst g),
       if list_ex (\<lambda>e. gr_to e = svc) (snd g) then snd g
       else snd g @ [graph_edge r svc ''impacts'' (round64 (7 / 10)) 65 0]))"

definition event_source :: "Event \<Rightarrow> string" where
  "event_source ev = (let s = to_lower (trim_space (ev_source ev)) in if s = [] then ''unknown-source'' else s)"

definition origin_step :: "string \<Rightarrow> graph \<Rightarrow> string \<times> int \<Rightarrow> graph" where
  "origin_step r g sc =
    (let i = ''origin:'' @ fst sc in
     (put_node ((graph_node i (''Alert: '' @ fst sc @ '' ('' @ show_int (snd sc) @ '')'') ''alert_origin'')\<lparr>gn_alert_count := snd sc\<rparr>) (fst g),
      snd g @ [graph_edge i r ''fired_on'' (Fin 1) 100 (snd sc)]))"

definition change_part :: "string \<Rightarrow> detail_view \<Rightarrow> graph \<Rightarrow> graph" where
  "change_part r dv g =
    (let wc = dv_what_changed dv in
     if wc_type wc = [] then g
     else
      (let svc = (if wc_service wc = [] then r else wc_service wc);
           i = ''change:'' @ svc @ '':'' @ wc_type wc;
           conf = (if inc_what_changed_confidence (dv_incident dv) = 0 then 60 else inc_what_changed_confidence (dv_incident dv));
           ns = put_node ((graph_node i (wc_type wc @ (if wc_version wc = [] then [] else '' @'' @ wc_version wc)) ''change'')
                  \<lparr>gn_change_linked := True\<rparr>) (fst g);
           es = snd g @ [graph_edge i r ''preceded'' (weight_of conf) conf 0]
       in if svc = r then (ns, es)
          else (put_new ((graph_node svc (humanize_node_label svc) ''dependency'')\<lparr>gn_change_linked := True\<rparr>) ns,
                es @ [graph_edge svc r ''change_propagated'' (weight_of conf) conf 0])))"

definition evidence_step :: "string \<Rightarrow> graph \<Rightarrow> string \<times> int \<Rightarrow> graph" where
  "evidence_step r g tc =
    (if fst tc = ''event'' then g
     else
      (let i = ''evidence:'' @ fst tc; conf = evidence_confidence (fst tc) (snd tc) in
       (put_node ((graph_node i (capitalize (fst tc) @ '' evidence ('' @ show_int (snd tc) @ '')'') ''evidence'')\<lparr>gn_evidence_count := snd tc\<rparr>) (fst g),
        snd g @ [graph_edge i r ''supports'' (weight_of conf) conf (snd tc)])))"

text \<open>The nodes in the order of a range over the map.\<close>

definition flatten_nodes :: "(string list \<Rightarrow> string list) \<Rightarrow> GraphNode list \<Rightarrow> GraphNode list" where
  "flatten_nodes f ns = map snd (ranged f (map (\<lambda>n. (gn_id n, n)) ns))"

definition incident_graph :: "intel_env \<Rightarrow> faults \<Rightarrow> string \<Rightarrow> topology_db \<Rightarrow> detail_view \<Rightarrow> graph" where
  "incident_graph env flt tenant db dv =
    (let r = root_id (dv_incident dv);
         g0 = ([enriched_root flt tenant db dv], []);
         g1 = downstream_part env flt tenant db r g0;
         g2 = foldl (impacted_step r) g1 (inc_impacted_services (dv_incident dv));
         g3 = foldl (origin_step r) g2 (ranged (ie_range env) (tally (map event_source (dv_events dv))));
         g4 = change_part r dv g3
     in foldl (evidence_step r) g4 (ranged (ie_range env) (tally (dv_evidence dv))))"

definition build_incident_topology_graph ::
    "intel_env \<Rightarrow> faults \<Rightarrow> string \<Rightarrow> topology_db \<Rightarrow> detail_view \<Rightarrow> GraphData option" where
  "build_incident_topology_graph env flt tenant db dv =
    (if [] \<in> set (dv_evidence dv) then None
     else (let g = incident_graph env flt tenant db dv in
       Some \<lparr>gd_nodes = flatten_nodes (ie_range env) (fst g), gd_edges = snd g, gd_root = root_id (dv_incident dv)\<rparr>))"

section \<open>The graph without a topology\<close>

text \<open>\<open>strings.Title\<close> of ASCII text: a letter at the start or after a separator.\<close>

fun title_from :: "bool \<Rightarrow> string \<Rightarrow> string" where
  "title_from start [] = []"
| "title_from start (c # cs) =
    (if start then upper_char c else c) # title_from (\<not> (is_letter c \<or> is_digit c \<or> c = CHR ''_'')) cs"

definition dependency_step :: "string \<Rightarrow> graph \<Rightarrow> string \<Rightarrow> graph" where
  "dependency_step r g dep =
    (if dep = [] \<or> dep = r then g
     else (put_new ((graph_node dep (humanize_node_label dep) ''dependency'')\<lparr>gn_status := ''unknown''\<rparr>) (fst g),
           snd g @ [graph_edge r dep ''depends_on'' (round64 (8 / 10)) 90 0]))"

definition plain_impacted_step :: "string \<Rightarrow> graph \<Rightarrow> string \<Rightarrow> graph" where
  "plain_impacted_step r g svc =
    (if svc = [] \<or> svc = r then g
     else (put_new ((graph_node svc (humanize_node_label svc) ''impacted_service'')\<lparr>gn_status := ''degraded''\<rparr>) (fst g),
           snd g @ [graph_edge r svc ''impacts'' (round64 (7 / 10)) 75 0]))"

definition plain_evidence_step :: "string \<Rightarrow> graph \<Rightarrow> string \<times> int \<Rightarrow> graph" where
  "plain_evidence_step r g tc =
    (if fst tc = ''event'' then g
     else
      (let i = ''evidence:'' @ fst tc in
       (put_node ((graph_node i (title_from True (fst tc) @ '' evidence ('' @ show_int (snd tc) @ '')'') ''evidence'')\<lparr>gn_evidence_count := snd tc\<rparr>) (fst g),
        snd g @ [graph_edge i r ''supports'' (round64 (6 / 10)) 70 (snd tc)])))"

definition plain_graph :: "(string list \<Rightarrow> string list) \<Rightarrow> detail_view \<Rightarrow> graph" where
  "plain_graph rng dv =
    (let r = root_id (dv_incident dv);
         g1 = foldl (dependency_step r) ([root_node dv], [])
           (case map_of ServiceDependencies (to_lower r) of None \<Rightarrow> [] | Some deps \<Rightarrow> deps);
         g2 = foldl (plain_impacted_step r) g1 (inc_impacted_services (dv_incident dv));
         g3 = foldl (origin_step r) g2 (ranged rng (tally (map event_source (dv_events dv))));
         g4 = change_part r dv g3
     in foldl (plain_evidence_step r) g4 (ranged rng (tally (dv_evidence dv))))"

definition build_topology_graph :: "(string list \<Rightarrow> string list) \<Rightarrow> detail_view \<Rightarrow> GraphData" where
  "build_topology_graph rng dv =
    (let g = plain_graph rng dv in
     \<lparr>gd_nodes = flatten_nodes rng (fst g), gd_edges = snd g, gd_root = root_id (dv_incident dv)\<rparr>)"

section \<open>Blast radius\<close>

definition blast_less :: "BlastRadiusHop \<Rightarrow> BlastRadiusHop \<Rightarrow> bool" where
  "blast_less a b =
    (let x = bh_node a; y = bh_node b in
     if tn_is_customer_facing x \<noteq> tn_is_customer_facing y then tn_is_customer_facing x
     else if tn_tier x \<noteq> tn_tier y then tn_tier x = ''critical''
     else bh_depth a < bh_depth b)"

definition blast_hop :: "faults \<Rightarrow> topology_db \<Rightarrow> TraversalHop \<Rightarrow> BlastRadiusHop list" where
  "blast_hop flt db hop =
    (case or_keep (get_node_by_id (at_site (th_node hop) flt) (th_node hop) db) None of
       None \<Rightarrow> []
     | Some n \<Rightarrow> [\<lparr>bh_node = n, bh_depth = th_depth hop, bh_confidence = th_confidence hop,
         bh_relation = th_relation hop, bh_path = th_path hop\<rparr>])"

text \<open>By name within the tenant, else by identifier.\<close>

definition resolve_node :: "faults \<Rightarrow> string \<Rightarrow> string \<Rightarrow> topology_db \<Rightarrow> TopologyNode option" where
  "resolve_node flt serviceID tenant db =
    (case or_keep (get_node_by_name flt tenant serviceID db) None of
       Some n \<Rightarrow> Some n
     | None \<Rightarrow> or_keep (get_node_by_id flt serviceID db) None)"

definition compute_blast_radius ::
    "intel_env \<Rightarrow> faults \<Rightarrow> string \<Rightarrow> string \<Rightarrow> topology_db \<Rightarrow> BlastRadiusResult result" where
  "compute_blast_radius env flt serviceID tenant db =
    (case resolve_node flt serviceID tenant db of
       None \<Rightarrow> Inl (ErrMsg (''topology: node '' @ go_quote serviceID @ '' not found for tenant '' @ go_quote tenant))
     | Some root0 \<Rightarrow>
        (case get_downstream (ie_numbers env) flt (tn_id root0) tenant 5 db of
           Inl e \<Rightarrow> Inl e
         | Inr hops \<Rightarrow>
            (let hs = concat (map (blast_hop flt db) hops) in
             Inr \<lparr>br_root = root0, br_total = int (length hs),
               br_customer_facing = int (length (filter (\<lambda>h. tn_is_customer_facing (bh_node h)) hs)),
               br_critical = int (length (filter (\<lambda>h. tn_tier (bh_node h) = ''critical'') hs)),
               br_hops = sort_slice (ie_blast_sort env) blast_less hs\<rparr>)))"

section \<open>Root-cause analysis\<close>

definition build_root_cause :: "detail_view \<Rightarrow> RootCauseNode" where
  "build_root_cause dv =
    (let wc = dv_what_changed dv; inc = dv_incident dv; ty = to_lower (wc_type wc) in
     if wc_type wc = [] then
       \<lparr>rn_type = ''unknown'', rn_service = inc_service inc,
        rn_description = ''No deployment or configuration change detected in the relevant window.'',
        rn_version = [], rn_timestamp = [], rn_confidence = 25\<rparr>
     else
       \<lparr>rn_type = (if ty \<in> {''config'', ''config_change'', ''configuration''} then ''config_change''
          else if ty \<in> {''scale'', ''scaling''} then ''traffic_surge'' else ''deployment''),
        rn_service = wc_service wc,
        rn_description = (if wc_description wc \<noteq> [] then wc_description wc
          else wc_type wc @ '' on '' @ wc_service wc @
            (if wc_version wc \<noteq> [] then '' (version '' @ wc_version wc @ '')'' else [])),
        rn_version = wc_version wc, rn_timestamp = wc_timestamp wc,
        rn_confidence = (if inc_what_changed_confidence inc = 0 then 60 else inc_what_changed_confidence inc)\<rparr>)"

definition raw_of :: "Incident \<Rightarrow> Event \<Rightarrow> raw_event" where
  "raw_of inc ev = \<lparr>rw_service = (if ev_service ev = [] then inc_service inc else ev_service ev),
     rw_time = (if ev_timestamp ev = zero_time then inc_first_event_time inc else ev_timestamp ev),
     rw_id = ev_id ev, rw_severity = ev_severity ev, rw_description = ev_title ev\<rparr>"

text \<open>The loop over the sorted events, with its index and the map \<open>seen\<close>.\<close>

fun degradation_loop :: "nat \<Rightarrow> string list \<Rightarrow> raw_event list \<Rightarrow> DegradationEvent list" where
  "degradation_loop i seen [] = []"
| "degradation_loop i seen (r # rs) =
    (if rw_service r \<in> set seen then degradation_loop (Suc i) seen rs
     else \<lparr>de_service = rw_service r, de_event_id = rw_id r, de_timestamp = rw_time r, de_severity = rw_severity r,
            de_signal = ''alert'', de_description = rw_description r, de_is_origin = (i = 0)\<rparr>
          # degradation_loop (Suc i) (rw_service r # seen) rs)"

definition build_degradation_chain :: "intel_env \<Rightarrow> detail_view \<Rightarrow> DegradationEvent list" where
  "build_degradation_chain env dv =
    (let raw = sort_slice (ie_raw_sort env) (\<lambda>a b. rw_time a < rw_time b) (map (raw_of (dv_incident dv)) (dv_events dv))
     in (case degradation_loop 0 [] raw of [] \<Rightarrow> [] | d # ds \<Rightarrow> d\<lparr>de_is_origin := True\<rparr> # ds))"

definition first_alert_of :: "DegradationEvent list \<Rightarrow> time" where
  "first_alert_of chain = (case chain of [] \<Rightarrow> zero_time | d # _ \<Rightarrow> de_timestamp d)"

definition change_evidence :: "intel_env \<Rightarrow> detail_view \<Rightarrow> time \<Rightarrow> EvidenceNode list" where
  "change_evidence env dv firstAlert =
    (let wc = dv_what_changed dv; c = inc_what_changed_confidence (dv_incident dv); conf = (if c = 0 then 65 else c) in
     if wc_type wc = [] then []
     else [\<lparr>en_id = ''change-'' @ wc_type wc, en_type = ''change'', en_label = ''Deployment / Change Event'',
       en_detail = wc_type wc @ '' on '' @ wc_service wc,
       en_confidence = (if firstAlert = zero_time then conf
         else (case ie_parse_time env (wc_timestamp wc) of
            None \<Rightarrow> conf
          | Some ts \<Rightarrow> if firstAlert - ts < hour \<and> ts < firstAlert then min (conf + 15) 95 else conf)),
       en_timestamp = wc_timestamp wc, en_supports = ''Root cause: '' @ wc_type wc @ '' preceded the incident''\<rparr>])"

definition alert_evidence :: "intel_env \<Rightarrow> Incident \<Rightarrow> time \<Rightarrow> string \<times> int \<Rightarrow> EvidenceNode" where
  "alert_evidence env inc firstAlert sc =
    \<lparr>en_id = ''alert-'' @ fst sc, en_type = ''alert'', en_label = ''Alerts from '' @ fst sc @ '' ('' @ show_int (snd sc) @ '')'',
     en_detail = show_int (snd sc) @ '' alerts fired on '' @ inc_service inc, en_confidence = min (70 + snd sc * 2) 90,
     en_timestamp = ie_format_time env firstAlert, en_supports = ''Correlated alerts confirm service degradation''\<rparr>"

definition signal_evidence :: "intel_env \<Rightarrow> time \<Rightarrow> string \<times> int \<Rightarrow> EvidenceNode list" where
  "signal_evidence env firstAlert tc =
    (if fst tc = ''event'' then []
     else [\<lparr>en_id = ''evidence-'' @ fst tc, en_type = fst tc,
       en_label = capitalize (fst tc) @ '' signals'' @ '' ('' @ show_int (snd tc) @ '')'',
       en_detail = show_int (snd tc) @ '' '' @ fst tc @ '' evidence items collected'',
       en_confidence = evidence_confidence (fst tc) (snd tc), en_timestamp = ie_format_time env firstAlert,
       en_supports = ''Confirms service state during the incident window''\<rparr>])"

definition topology_evidence :: "intel_env \<Rightarrow> detail_view \<Rightarrow> time \<Rightarrow> EvidenceNode list" where
  "topology_evidence env dv firstAlert =
    (let inc = dv_incident dv in
     if wc_type (dv_what_changed dv) \<noteq> [] \<and> 0 < length (inc_impacted_services inc) then
       [\<lparr>en_id = ''topology-propagation'', en_type = ''topology'', en_label = ''Topology Propagation'',
         en_detail = ''Failure propagated from '' @ inc_service inc @ '' to '' @
           show_int (int (length (inc_impacted_services inc))) @ '' downstream services'',
         en_confidence = 72, en_timestamp = ie_format_time env firstAlert,
         en_supports = ''Graph traversal confirms blast radius boundaries''\<rparr>]
     else [])"

definition plain_source :: "Event \<Rightarrow> string" where
  "plain_source ev = (if ev_source ev = [] then ''unknown'' else ev_source ev)"

definition build_evidence_nodes :: "intel_env \<Rightarrow> detail_view \<Rightarrow> DegradationEvent list \<Rightarrow> EvidenceNode list option" where
  "build_evidence_nodes env dv chain =
    (if [] \<in> set (dv_evidence dv) then None
     else (let firstAlert = first_alert_of chain in
       Some (change_evidence env dv firstAlert @
         map (alert_evidence env (dv_incident dv) firstAlert) (ranged (ie_range env) (tally (map plain_source (dv_events dv)))) @
         concat (map (signal_evidence env firstAlert) (ranged (ie_range env) (tally (dv_evidence dv)))) @
         topology_evidence env dv firstAlert)))"

definition evidence_weight :: "string \<Rightarrow> int" where
  "evidence_weight ty = (if ty = ''change'' then 3 else if ty = ''topology'' then 2 else if ty = ''alert'' then 2 else 1)"

definition compute_overall_confidence :: "EvidenceNode list \<Rightarrow> RootCauseNode option \<Rightarrow> int" where
  "compute_overall_confidence evs rc =
    (if evs = [] then (case rc of None \<Rightarrow> 30 | Some r \<Rightarrow> rn_confidence r)
     else
      (let (sum0, weight) = foldl (\<lambda>(s, w) n. (s + en_confidence n * evidence_weight (en_type n), w + evidence_weight (en_type n))) (0, 0) evs
       in if weight = 0 then 30
          else
           (let avg = quot sum0 weight;
                avg' = (case rc of None \<Rightarrow> avg | Some r \<Rightarrow> quot (avg * 3 + rn_confidence r) 4)
            in if 98 < avg' then 98 else avg')))"

definition describe_evidence :: "EvidenceNode list \<Rightarrow> string" where
  "describe_evidence evs = join_str '', '' (sort (remdups (map en_type evs)))"

definition impact_of :: "TopologyNode \<Rightarrow> TraversalHop \<Rightarrow> ImpactSummary" where
  "impact_of n hop = \<lparr>im_service = tn_name n, im_node_type = tn_node_type n, im_is_customer_facing = tn_is_customer_facing n,
     im_tier = tn_tier n, im_owner_team = tn_owner_team n, im_confidence = th_confidence hop, im_depth = th_depth hop\<rparr>"

definition impact_hops :: "faults \<Rightarrow> topology_db \<Rightarrow> TraversalHop list \<Rightarrow> ImpactSummary list" where
  "impact_hops flt db hops = concat (map (\<lambda>hop.
     case or_keep (get_node_by_id (at_site (th_node hop) flt) (th_node hop) db) None of
       None \<Rightarrow> [] | Some n \<Rightarrow> [impact_of n hop]) hops)"

text \<open>Downstream and upstream; without a node for the service, the impacted services of the incident.\<close>

definition impacts :: "intel_env \<Rightarrow> faults \<Rightarrow> string \<Rightarrow> topology_db \<Rightarrow> Incident \<Rightarrow> ImpactSummary list \<times> ImpactSummary list" where
  "impacts env flt tenant db inc =
    (case or_keep (get_node_by_name flt tenant (inc_service inc) db) None of
       Some d \<Rightarrow>
         (impact_hops (at_site ''down'' flt) db (or_keep (get_downstream (ie_numbers env) flt (tn_id d) tenant 5 db) []),
          impact_hops (at_site ''up'' flt) db (or_keep (get_upstream (ie_numbers env) flt (tn_id d) tenant 5 db) []))
     | None \<Rightarrow>
         (map (\<lambda>svc. \<lparr>im_service = svc, im_node_type = ''service'', im_is_customer_facing = False, im_tier = ''internal'',
             im_owner_team = [], im_confidence = 55, im_depth = 1\<rparr>)
           (filter (\<lambda>svc. svc \<noteq> [] \<and> svc \<noteq> inc_service inc) (inc_impacted_services inc)), []))"

definition narrate_happened :: "Incident \<Rightarrow> string" where
  "narrate_happened inc =
    (let s = inc_root_cause_type inc @ '' incident on '' @ inc_service inc @ '' (severity: '' @ inc_severity inc @ ''). '' @
           show_int (inc_event_count inc) @ '' events correlated, '' @ show_int (inc_impact_count inc) @ '' services impacted.''
     in if s = '' incident on  (severity: ). 0 events correlated, 0 services impacted.''
        then ''An incident was detected. See event details for more information.'' else s)"

definition narrate_change :: "RootCauseNode \<Rightarrow> string" where
  "narrate_change rc =
    (if rn_type rc = ''unknown'' then ''No deployment or configuration change was detected in the relevant window.''
     else rn_type rc @ '' on service '' @ go_quote (rn_service rc) @ '' (confidence: '' @ show_int (rn_confidence rc) @ ''%). '' @
       rn_description rc @ (if rn_timestamp rc \<noteq> [] then '' Detected at '' @ rn_timestamp rc @ ''.'' else []))"

definition narrate_propagation :: "DegradationEvent list \<Rightarrow> ImpactSummary list \<Rightarrow> string" where
  "narrate_propagation chain down =
    (case chain of
       [] \<Rightarrow> (''No topology graph data available '' @ [CHR 0xE2, CHR 0x80, CHR 0x94] @ '' propagation path unknown.'')
     | [d] \<Rightarrow> ''Degradation was isolated to '' @ go_quote (de_service d) @ ('' '' @ [CHR 0xE2, CHR 0x80, CHR 0x94] @ '' no lateral spread detected.'')
     | d # ds \<Rightarrow> ''Degradation originated in '' @ go_quote (de_service d) @ '' and propagated to: '' @
         join_str '', '' (map de_service ds) @ ''.'') @
    (if 0 < length down then
       '' Blast radius includes: '' @ join_str '', '' (map im_service (take 3 down)) @
       (if 3 < length down then '' and '' @ show_int (int (length down) - 3) @ '' more'' else []) @ ''.''
     else [])"

definition narrate_impacted :: "ImpactSummary list \<Rightarrow> ImpactSummary list \<Rightarrow> string" where
  "narrate_impacted down up =
    (if 0 < length down then
       show_int (int (length down)) @ '' downstream service(s) affected, '' @
       show_int (int (length (filter im_is_customer_facing down))) @ '' of which are customer-facing.''
     else ''No downstream impact confirmed.'') @
    (if 0 < length up then '' '' @ show_int (int (length up)) @ '' upstream caller(s) also impacted.'' else [])"

definition build_rca_narrative ::
    "Incident \<Rightarrow> RootCauseNode \<Rightarrow> DegradationEvent list \<Rightarrow> ImpactSummary list \<Rightarrow> ImpactSummary list \<Rightarrow> EvidenceNode list \<Rightarrow> int \<Rightarrow> CausalNarrative" where
  "build_rca_narrative inc rc chain down up evs overall =
    \<lparr>na_what_happened = narrate_happened inc, na_what_changed = narrate_change rc,
     na_how_propagated = narrate_propagation chain down, na_who_impacted = narrate_impacted down up,
     na_confidence = ''Overall RCA confidence: '' @ show_int overall @ ''%. Based on '' @ show_int (int (length evs)) @
       '' evidence nodes ('' @ describe_evidence evs @ '').''\<rparr>"

definition generate_causal_rca ::
    "intel_env \<Rightarrow> faults \<Rightarrow> string \<Rightarrow> topology_db \<Rightarrow> detail_view \<Rightarrow> CausalRCAResult option" where
  "generate_causal_rca env flt tenant db dv =
    (let inc = dv_incident dv;
         rc = build_root_cause dv;
         chain = build_degradation_chain env dv;
         (down, up) = impacts env flt tenant db inc
     in (case build_evidence_nodes env dv chain of
           None \<Rightarrow> None
         | Some evs \<Rightarrow>
            (let overall = compute_overall_confidence evs (Some rc) in
             Some \<lparr>rca_incident_id = inc_id inc, rca_root_cause = rc, rca_chain = chain, rca_upstream = up,
               rca_downstream = down, rca_evidence = evs, rca_overall = overall,
               rca_narrative = build_rca_narrative inc rc chain down up evs overall\<rparr>)))"

section \<open>Maps and loops\<close>

lemma foldl_keeps: "P a \<Longrightarrow> (\<And>b x. P b \<Longrightarrow> x \<in> set xs \<Longrightarrow> P (f b x)) \<Longrightarrow> P (foldl f a xs)"
  by (induction xs arbitrary: a) simp_all

lemma bump_keys: "map fst (bump k m) = (if k \<in> fst ` set m then map fst m else map fst m @ [k])"
  by (induction k m rule: bump.induct) auto

lemma bump_positive: "\<forall>e \<in> set m. 1 \<le> snd e \<Longrightarrow> \<forall>e \<in> set (bump k m). 1 \<le> snd e"
  by (induction k m rule: bump.induct) auto

lemma tally_facts: "distinct (map fst (tally xs)) \<and> fst ` set (tally xs) = set xs \<and> (\<forall>e \<in> set (tally xs). 1 \<le> snd e)"
proof (induction xs rule: rev_induct)
  case Nil
  then show ?case by (simp add: tally_def)
next
  case (snoc x xs)
  have t: "tally (xs @ [x]) = bump x (tally xs)" by (simp add: tally_def)
  have "fst ` set (bump x (tally xs)) = set (map fst (bump x (tally xs)))" by simp
  with snoc show ?case unfolding t using bump_keys[of x "tally xs"] bump_positive[of "tally xs" x] by auto
qed

lemma ranged_facts:
  assumes "range_ok f" "distinct (map fst m)"
  shows "set (ranged f m) = set m \<and> distinct (map fst (ranged f m))"
proof -
  let ?g = "\<lambda>k. case map_of m k of None \<Rightarrow> [] | Some v \<Rightarrow> [(k, v)]"
  from assms have ks: "distinct (f (map fst m))" "set (f (map fst m)) = fst ` set m" by (auto simp: range_ok_def)
  have "map fst (concat (map ?g xs)) = xs" if "set xs \<subseteq> fst ` set m" for xs
    using that by (induction xs) (auto split: option.splits simp: map_of_eq_None_iff)
  then have "map fst (ranged f m) = f (map fst m)" by (simp add: ranged_def ks)
  moreover have "set (ranged f m) = set m"
  proof
    show "set (ranged f m) \<subseteq> set m"
      unfolding ranged_def by (auto split: option.splits dest!: map_of_SomeD sym[of "Some _"])
    show "set m \<subseteq> set (ranged f m)"
    proof
      fix e assume e: "e \<in> set m"
      then have "map_of m (fst e) = Some (snd e)" using assms(2) by simp
      moreover have "fst e \<in> set (f (map fst m))" using e ks(2) by simp
      ultimately show "e \<in> set (ranged f m)" unfolding ranged_def by (auto intro!: bexI[of _ "fst e"])
    qed
  qed
  ultimately show ?thesis using ks(1) by simp
qed

section \<open>The graph is a star\<close>

definition star :: "string \<Rightarrow> string set \<Rightarrow> GraphEdge list \<Rightarrow> bool" where
  "star r ids es \<longleftrightarrow> r \<in> ids \<and> (\<forall>e \<in> set es. gr_from e \<in> ids \<and> gr_to e \<in> ids \<and> (gr_from e = r \<or> gr_to e = r)) \<and>
     (\<forall>i \<in> ids. i = r \<or> (\<exists>e \<in> set es. gr_from e = i \<or> gr_to e = i))"

definition star_graph :: "string \<Rightarrow> graph \<Rightarrow> bool" where
  "star_graph r g \<longleftrightarrow> pk gn_id (fst g) \<and> star r (gn_id ` set (fst g)) (snd g)"

lemma graph_edge_simps [simp]: "gr_from (graph_edge a b rel w c k) = a" "gr_to (graph_edge a b rel w c k) = b"
  by (simp_all add: graph_edge_def)

lemma graph_node_simps [simp]: "gn_id (graph_node i l ty) = i"
  by (simp add: graph_node_def)

lemma put_node_ids: "gn_id ` set (put_node n ns) = insert (gn_id n) (gn_id ` set ns)"
proof (cases "tbl_has gn_id (gn_id n) ns")
  case True
  have "map gn_id (tbl_update (\<lambda>x. gn_id x = gn_id n) (\<lambda>_. n) ns) = map gn_id ns" by (rule map_key_update) simp
  then have "gn_id ` set (tbl_update (\<lambda>x. gn_id x = gn_id n) (\<lambda>_. n) ns) = gn_id ` set ns" by (metis set_map)
  with True show ?thesis by (simp add: put_node_def tbl_upsert_def tbl_has_def insert_absorb)
qed (simp add: put_node_def tbl_upsert_def)

lemma put_node_pk: "pk gn_id ns \<Longrightarrow> pk gn_id (put_node n ns)"
  unfolding put_node_def by (rule pk_upsert) simp_all

lemma put_new_ids: "gn_id ` set (put_new n ns) = insert (gn_id n) (gn_id ` set ns)"
  by (auto simp: put_new_def tbl_has_def)

lemma put_new_pk: "pk gn_id ns \<Longrightarrow> pk gn_id (put_new n ns)"
  by (auto simp: put_new_def tbl_has_def pk_def)

lemma star_from: "star r ids es \<Longrightarrow> star r (insert i ids) (es @ [graph_edge i r rel w c k])"
  unfolding star_def by simp blast

lemma star_to: "star r ids es \<Longrightarrow> star r (insert i ids) (es @ [graph_edge r i rel w c k])"
  unfolding star_def by simp blast

lemma star_linked: "star r ids es \<Longrightarrow> e \<in> set es \<Longrightarrow> star r (insert (gr_to e) ids) es"
  unfolding star_def by (simp add: insert_absorb)

lemmas put_facts = put_node_ids put_node_pk put_new_ids put_new_pk

lemma hop_step_star: "star_graph r g \<Longrightarrow> star_graph r (hop_step flt db r g hop)"
  by (auto simp: hop_step_def star_graph_def put_facts star_to split: option.split)

lemma impacted_step_star:
  assumes "star_graph r g"
  shows "star_graph r (impacted_step r g svc)"
proof (cases "\<exists>e \<in> set (snd g). gr_to e = svc")
  case True
  then obtain e where e: "e \<in> set (snd g)" "svc = gr_to e" by blast
  then have "list_ex (\<lambda>e. gr_to e = svc) (snd g)" by (auto simp: list_ex_iff)
  with assms star_linked[OF _ e(1), of r "gn_id ` set (fst g)"] e(2) show ?thesis
    by (simp add: impacted_step_def star_graph_def put_facts)
next
  case False
  with assms show ?thesis by (simp add: impacted_step_def star_graph_def put_facts star_to list_ex_iff)
qed

lemma origin_step_star: "star_graph r g \<Longrightarrow> star_graph r (origin_step r g sc)"
  by (simp add: origin_step_def star_graph_def put_facts star_from Let_def)

lemma star_change: "star r ids es \<Longrightarrow>
    star r (insert j (insert i ids)) (es @ [graph_edge i r rel w c k, graph_edge j r rel' w' c' k'])"
  using star_from[OF star_from, of r ids es j i rel w c k rel' w' c' k'] by simp

lemma change_part_star: "star_graph r g \<Longrightarrow> star_graph r (change_part r dv g)"
  unfolding change_part_def star_graph_def Let_def
  by (simp add: put_facts star_from star_change)

lemma evidence_step_star: "star_graph r g \<Longrightarrow> star_graph r (evidence_step r g tc)"
  by (simp add: evidence_step_def star_graph_def put_facts star_from Let_def)

lemma dependency_step_star: "star_graph r g \<Longrightarrow> star_graph r (dependency_step r g dep)"
  by (simp add: dependency_step_def star_graph_def put_facts star_to)

lemma plain_impacted_step_star: "star_graph r g \<Longrightarrow> star_graph r (plain_impacted_step r g svc)"
  by (simp add: plain_impacted_step_def star_graph_def put_facts star_to)

lemma plain_evidence_step_star: "star_graph r g \<Longrightarrow> star_graph r (plain_evidence_step r g tc)"
  by (simp add: plain_evidence_step_def star_graph_def put_facts star_from Let_def)

lemma root_star: "gn_id n = r \<Longrightarrow> star_graph r ([n], [])"
  by (simp add: star_graph_def star_def pk_def)

lemma root_node_id [simp]: "gn_id (root_node dv) = root_id (dv_incident dv)"
    "gn_id (enriched_root flt tenant db dv) = root_id (dv_incident dv)"
  by (simp_all add: root_node_def enriched_root_def Let_def split: option.split)

lemma star_loop: "(\<And>g x. star_graph r g \<Longrightarrow> star_graph r (f g x)) \<Longrightarrow> star_graph r g \<Longrightarrow> star_graph r (foldl f g xs)"
  by (induction xs arbitrary: g) simp_all

lemmas star_steps = hop_step_star impacted_step_star origin_step_star change_part_star evidence_step_star
  dependency_step_star plain_impacted_step_star plain_evidence_step_star

lemma downstream_part_star: "star_graph r g \<Longrightarrow> star_graph r (downstream_part env flt tenant db r g)"
  by (simp add: downstream_part_def star_loop star_steps split: option.split)

lemma incident_graph_star: "star_graph (root_id (dv_incident dv)) (incident_graph env flt tenant db dv)"
  unfolding incident_graph_def Let_def
  by (intro star_loop star_steps downstream_part_star root_star root_node_id)

lemma plain_graph_star: "star_graph (root_id (dv_incident dv)) (plain_graph rng dv)"
  unfolding plain_graph_def Let_def by (intro star_loop star_steps root_star root_node_id)

lemma flatten_nodes_facts:
  assumes "range_ok f" "pk gn_id ns"
  shows "set (flatten_nodes f ns) = set ns \<and> pk gn_id (flatten_nodes f ns)"
proof -
  let ?m = "map (\<lambda>n. (gn_id n, n)) ns"
  have "distinct (map fst ?m)" using assms(2) by (simp add: pk_def comp_def)
  from ranged_facts[OF assms(1) this] have r: "set (ranged f ?m) = set ?m" "distinct (map fst (ranged f ?m))" by blast+
  have "\<forall>e \<in> set (ranged f ?m). gn_id (snd e) = fst e" unfolding r(1) by auto
  then have "map gn_id (flatten_nodes f ns) = map fst (ranged f ?m)" by (simp add: flatten_nodes_def)
  with r(2) have "pk gn_id (flatten_nodes f ns)" by (simp only: pk_def)
  moreover have "set (flatten_nodes f ns) = snd ` set ?m" unfolding flatten_nodes_def set_map r(1) ..
  ultimately show ?thesis by (simp add: image_image)
qed

section \<open>The chain of degradations\<close>

lemma degradation_loop_first:
  "map (\<lambda>d. (de_service d, de_event_id d, de_timestamp d)) (degradation_loop i seen rs) =
     map (\<lambda>r. (rw_service r, rw_id r, rw_time r)) (first_per rw_service seen rs)"
  by (induction i seen rs rule: degradation_loop.induct) auto

lemma degradation_loop_origin: "0 < i \<Longrightarrow> d \<in> set (degradation_loop i seen rs) \<Longrightarrow> \<not> de_is_origin d"
  by (induction i seen rs rule: degradation_loop.induct) (auto split: if_splits)

lemma first_per_subseq: "sorted (map key rs) \<Longrightarrow> sorted (map key (first_per f seen rs))" for key :: "'a \<Rightarrow> int"
proof (induction f seen rs rule: first_per.induct)
  case (2 f seen x xs)
  have "set (first_per f (f x # seen) xs) \<subseteq> set xs" using first_per_hd by fastforce
  with 2 show ?case by auto
qed simp

lemma first_per_least:
  fixes key :: "'a \<Rightarrow> int"
  assumes "sorted (map key rs)" "r \<in> set (first_per f seen rs)" "q \<in> set rs" "f q = f r"
  shows "key r \<le> key q"
proof -
  from first_per_hd[OF assms(2)] have r: "r = hd (filter (\<lambda>y. f y = f r) rs)" by blast
  have "sorted (map key (filter (\<lambda>y. f y = f r) rs))" using assms(1) by (rule sorted_filter)
  moreover have "q \<in> set (filter (\<lambda>y. f y = f r) rs)" using assms(3,4) by simp
  ultimately show ?thesis using r by (cases "filter (\<lambda>y. f y = f r) rs") auto
qed

lemma degradation_chain_eq:
  assumes "rs = sort_slice (ie_raw_sort env) (\<lambda>a b. rw_time a < rw_time b) (map (raw_of (dv_incident dv)) (dv_events dv))"
  shows "map (\<lambda>d. (de_service d, de_event_id d, de_timestamp d)) (build_degradation_chain env dv) =
      map (\<lambda>r. (rw_service r, rw_id r, rw_time r)) (first_per rw_service [] rs) \<and>
    map de_is_origin (build_degradation_chain env dv) =
      map (\<lambda>i. i = 0) [0..<length (build_degradation_chain env dv)]"
proof (cases rs)
  case Nil
  with assms show ?thesis by (simp add: build_degradation_chain_def Let_def)
next
  case (Cons r rs')
  let ?tail = "degradation_loop 1 [rw_service r] rs'"
  from Cons assms obtain d where d: "build_degradation_chain env dv = d # ?tail" "de_is_origin d"
      "de_service d = rw_service r" "de_event_id d = rw_id r" "de_timestamp d = rw_time r"
    by (simp add: build_degradation_chain_def Let_def)
  have "map de_is_origin (d # ?tail) = map (\<lambda>i. i = 0) [0..<length (d # ?tail)]"
  proof (rule nth_equalityI)
    fix i assume i: "i < length (map de_is_origin (d # ?tail))"
    then have "map (\<lambda>i. i = (0::nat)) [0..<length (d # ?tail)] ! i = (i = 0)" by (simp del: upt_Suc)
    moreover have "map de_is_origin (d # ?tail) ! i = (i = 0)"
      using d(2) i degradation_loop_origin[of 1 "?tail ! (i - 1)" "[rw_service r]" rs'] by (cases i) auto
    ultimately show "map de_is_origin (d # ?tail) ! i = map (\<lambda>i. i = 0) [0..<length (d # ?tail)] ! i" by simp
  qed simp
  with d Cons degradation_loop_first[of 1 "[rw_service r]" rs'] show ?thesis by simp
qed

section \<open>Confidence of the evidence\<close>

lemma evidence_confidence_bounds: "1 \<le> n \<Longrightarrow> 60 \<le> evidence_confidence ty n \<and> evidence_confidence ty n \<le> 95"
  by (auto simp: evidence_confidence_def min_def)

definition confidence_ok :: "int \<Rightarrow> bool" where "confidence_ok c \<longleftrightarrow> 1 \<le> c \<and> c \<le> 100"

lemma change_evidence_ok:
  assumes "0 \<le> inc_what_changed_confidence (dv_incident dv)" "inc_what_changed_confidence (dv_incident dv) \<le> 100"
    and "n \<in> set (change_evidence env dv firstAlert)"
  shows "confidence_ok (en_confidence n)"
proof -
  define c where "c = inc_what_changed_confidence (dv_incident dv)"
  from assms(3) have "en_confidence n \<in> {65, 80, c, min (c + 15) 95} \<and> (c = 0 \<longrightarrow> en_confidence n \<in> {65, 80})"
    by (auto simp: change_evidence_def Let_def c_def[symmetric] split: if_splits option.splits)
  with assms(1,2)[folded c_def] show ?thesis by (auto simp: confidence_ok_def min_def)
qed

lemma ranged_tally:
  assumes "range_ok f" "e \<in> set (ranged f (tally xs))"
  shows "1 \<le> snd e \<and> fst e \<in> set xs"
  using assms(2) tally_facts[of xs] ranged_facts[OF assms(1), of "tally xs"] by auto

lemma evidence_nodes_ok:
  assumes "range_ok (ie_range env)"
    and "0 \<le> inc_what_changed_confidence (dv_incident dv)" "inc_what_changed_confidence (dv_incident dv) \<le> 100"
    and "build_evidence_nodes env dv chain = Some evs" "n \<in> set evs"
  shows "confidence_ok (en_confidence n)"
proof -
  let ?t = "first_alert_of chain"
  from assms(4,5) consider "n \<in> set (change_evidence env dv ?t)"
    | sc where "sc \<in> set (ranged (ie_range env) (tally (map plain_source (dv_events dv))))" "n = alert_evidence env (dv_incident dv) ?t sc"
    | tc where "tc \<in> set (ranged (ie_range env) (tally (dv_evidence dv)))" "n \<in> set (signal_evidence env ?t tc)"
    | "n \<in> set (topology_evidence env dv ?t)"
    by (auto simp: build_evidence_nodes_def Let_def split: if_splits)
  then show ?thesis
  proof cases
    case 1
    with change_evidence_ok[OF assms(2,3)] show ?thesis by blast
  next
    case 2
    with ranged_tally[OF assms(1) 2(1)] show ?thesis by (simp add: alert_evidence_def confidence_ok_def)
  next
    case 3
    with evidence_confidence_bounds[of "snd tc" "fst tc"] ranged_tally[OF assms(1) 3(1)] show ?thesis
      by (auto simp: signal_evidence_def confidence_ok_def split: if_splits)
  next
    case 4
    then show ?thesis by (auto simp: topology_evidence_def confidence_ok_def Let_def split: if_splits)
  qed
qed

lemma evidence_weight_pos: "1 \<le> evidence_weight ty"
  by (simp add: evidence_weight_def)

lemma weighted_sum_bounds:
  assumes "\<forall>n \<in> set evs. confidence_ok (en_confidence n)"
  shows "foldl (\<lambda>(s, w) n. (s + en_confidence n * evidence_weight (en_type n), w + evidence_weight (en_type n))) (s, w) evs = (s', w') \<Longrightarrow>
    s + (w' - w) \<le> s' \<and> s' \<le> s + 100 * (w' - w) \<and> w + int (length evs) \<le> w'"
  using assms
proof (induction evs arbitrary: s w)
  case (Cons n evs)
  let ?k = "evidence_weight (en_type n)"
  have c: "1 \<le> en_confidence n" "en_confidence n \<le> 100" using Cons.prems by (simp_all add: confidence_ok_def)
  have k: "1 \<le> ?k" by (rule evidence_weight_pos)
  define m where "m = en_confidence n * ?k"
  have m: "?k \<le> m" "m \<le> 100 * ?k"
    unfolding m_def using c k mult_right_mono[of 1 "en_confidence n" ?k] mult_right_mono[of "en_confidence n" 100 ?k] by simp_all
  from Cons.prems(1) have f: "foldl (\<lambda>(s, w) n. (s + en_confidence n * evidence_weight (en_type n), w + evidence_weight (en_type n)))
      (s + en_confidence n * ?k, w + ?k) evs = (s', w')" by simp
  have "\<forall>n \<in> set evs. confidence_ok (en_confidence n)" using Cons.prems(2) by simp
  from Cons.IH[OF f this, folded m_def] k m show ?case by (simp add: distrib_left)
qed simp

lemma overall_confidence_bounds:
  assumes "evs \<noteq> []" "\<forall>n \<in> set evs. confidence_ok (en_confidence n)" "confidence_ok (rn_confidence rc)"
  shows "1 \<le> compute_overall_confidence evs (Some rc) \<and> compute_overall_confidence evs (Some rc) \<le> 98"
proof -
  obtain s w where f: "foldl (\<lambda>(s, w) n. (s + en_confidence n * evidence_weight (en_type n), w + evidence_weight (en_type n))) (0, 0) evs = (s, w)"
    by fastforce
  from weighted_sum_bounds[OF assms(2) f] have b: "w \<le> s" "s \<le> 100 * w" "int (length evs) \<le> w" by simp_all
  from assms(1) b(3) have w: "0 < w" by (cases evs) auto
  with b have "s div w * 1 \<le> 100" "1 \<le> s div w"
    using zdiv_mono1[OF b(2) w] zdiv_mono1[OF b(1) w] by simp_all
  moreover have "1 \<le> (x * 3 + y) div 4" if "1 \<le> x" "1 \<le> y" for x y :: int using that by presburger
  ultimately have "1 \<le> (s div w * 3 + rn_confidence rc) div 4" using assms(3) by (simp add: confidence_ok_def)
  moreover have "quot s w = s div w" using b w by (simp add: quot_pos)
  moreover have "quot (s div w * 3 + rn_confidence rc) 4 = (s div w * 3 + rn_confidence rc) div 4"
    using \<open>1 \<le> s div w\<close> assms(3) by (simp add: quot_pos confidence_ok_def)
  ultimately show ?thesis using assms(1) f w by (simp add: compute_overall_confidence_def Let_def)
qed

section \<open>The nodes of a blast radius\<close>

lemma hop_at_range: "hop_at R start maxDepth n d \<Longrightarrow> n \<in> Range R"
proof (cases "n = start")
  case False
  assume h: "hop_at R start maxDepth n d"
  with False have "1 \<le> d" "(start, n) \<in> R ^^ nat d" by (simp_all add: hop_at_def at_distance_def)
  then obtain k where "(start, n) \<in> R ^^ Suc k" by (cases "nat d") simp_all
  then show ?thesis by (auto elim: relpow_Suc_E)
qed (auto simp: hop_at_def)

lemma blast_hop_found:
  "(\<And>op. \<not> flt op) \<Longrightarrow> tbl_find tn_id (th_node h) (td_nodes db) = Some n \<Longrightarrow> blast_hop flt db h =
     [\<lparr>bh_node = with_health db n, bh_depth = th_depth h, bh_confidence = th_confidence h, bh_relation = th_relation h,
       bh_path = th_path h\<rparr>]"
  by (simp add: blast_hop_def get_node_by_id_def guard_db_def at_site_def)

lemma blast_hops_of:
  assumes "\<And>op. \<not> flt op" "\<forall>h \<in> set hops. tbl_has tn_id (th_node h) (td_nodes db)"
  shows "map (\<lambda>b. (tn_id (bh_node b), bh_depth b)) (concat (map (blast_hop flt db) hops)) = map (\<lambda>h. (th_node h, th_depth h)) hops"
  using assms
proof (induction hops)
  case (Cons h hops)
  then obtain n where "tbl_find tn_id (th_node h) (td_nodes db) = Some n"
    by (cases "tbl_find tn_id (th_node h) (td_nodes db)") (simp_all add: tbl_find_None)
  moreover from this have "tn_id n = th_node h" by (auto dest: tbl_find_Some)
  ultimately show ?case using Cons by (simp add: blast_hop_found with_health_def)
qed simp

lemma blast_less_customer:
  "tn_is_customer_facing (bh_node a) \<and> \<not> tn_is_customer_facing (bh_node b) \<Longrightarrow> blast_less a b"
  "blast_less a b \<Longrightarrow> tn_is_customer_facing (bh_node b) \<Longrightarrow> tn_is_customer_facing (bh_node a)"
  by (auto simp: blast_less_def Let_def split: if_splits)

lemma insertion_customer_first:
  "sorted_wrt (\<lambda>a b. tn_is_customer_facing (bh_node b) \<longrightarrow> tn_is_customer_facing (bh_node a)) (insertion_sort blast_less hs)"
proof -
  define key where "key h = (if tn_is_customer_facing (bh_node h) then 0 else 1 :: int)" for h :: BlastRadiusHop
  have "sorted (map key (insertion_sort blast_less hs))"
  proof (rule insertion_sort_sorted)
    show "blast_less x y" if "key x < key y" for x y
      using that by (intro blast_less_customer(1)) (simp add: key_def split: if_splits)
    show "key x \<le> key y" if "blast_less x y" for x y
      using blast_less_customer(2)[OF that] by (simp add: key_def)
  qed
  then show ?thesis unfolding sorted_map
    by (rule sorted_wrt_mono_rel[rotated]) (simp add: key_def split: if_splits)
qed

section \<open>Properties\<close>

text \<open>The graph around an incident is a star: its nodes have unique identifiers, every edge joins two of
  them and has the incident's service at one end, and every other node is joined to it. This holds with the
  persisted topology, whatever it holds and whichever statements fail, and for the fallback without one.\<close>

theorem incident_graph_is_star:
  assumes "range_ok (ie_range env)"
    and "g = build_topology_graph (ie_range env) dv \<or> build_incident_topology_graph env flt tenant db dv = Some g"
  shows "gd_root g = root_id (dv_incident dv) \<and> pk gn_id (gd_nodes g) \<and> gd_root g \<in> gn_id ` set (gd_nodes g) \<and>
    (\<forall>e \<in> set (gd_edges g). gr_from e \<in> gn_id ` set (gd_nodes g) \<and> gr_to e \<in> gn_id ` set (gd_nodes g) \<and>
       (gr_from e = gd_root g \<or> gr_to e = gd_root g)) \<and>
    (\<forall>n \<in> set (gd_nodes g). gn_id n = gd_root g \<or> (\<exists>e \<in> set (gd_edges g). gr_from e = gn_id n \<or> gr_to e = gn_id n))"
proof -
  define h where "h = (if g = build_topology_graph (ie_range env) dv then plain_graph (ie_range env) dv else incident_graph env flt tenant db dv)"
  have h: "star_graph (root_id (dv_incident dv)) h" unfolding h_def using incident_graph_star plain_graph_star by simp
  moreover have "gd_nodes g = flatten_nodes (ie_range env) (fst h) \<and> gd_edges g = snd h \<and> gd_root g = root_id (dv_incident dv)"
    using assms(2) unfolding h_def
    by (auto simp: build_topology_graph_def build_incident_topology_graph_def Let_def split: if_splits)
  ultimately have h: "star_graph (root_id (dv_incident dv)) h" "gd_nodes g = flatten_nodes (ie_range env) (fst h)"
      "gd_edges g = snd h" "gd_root g = root_id (dv_incident dv)" by blast+
  then have "set (gd_nodes g) = set (fst h)" "pk gn_id (gd_nodes g)"
    using flatten_nodes_facts[OF assms(1), of "fst h"] by (simp_all add: star_graph_def)
  with h show ?thesis by (simp add: star_graph_def star_def)
qed

definition sample_view :: detail_view where
  "sample_view = \<lparr>dv_incident = incident_zero\<lparr>inc_service := ''a'', inc_severity := ''high'', inc_impacted_services := [''z'']\<rparr>,
     dv_events = [event_zero\<lparr>ev_service := ''a'', ev_source := ''Zabbix'', ev_timestamp := 5\<rparr>,
                  event_zero\<lparr>ev_service := ''z'', ev_timestamp := 3\<rparr>],
     dv_what_changed = \<lparr>wc_type = ''deploy'', wc_service = ''y'', wc_version = [], wc_description = [], wc_timestamp = []\<rparr>,
     dv_evidence = [''metric'', ''event'']\<rparr>"

definition sample_intel :: intel_env where
  "sample_intel = \<lparr>ie_numbers = exact_numbers, ie_range = (\<lambda>ks. ks), ie_parse_time = (\<lambda>_. None), ie_format_time = (\<lambda>_. []),
     ie_raw_sort = insertion_sort, ie_blast_sort = insertion_sort\<rparr>"

lemma sample_range: "range_ok (ie_range sample_intel)"
  by (simp add: range_ok_def sample_intel_def)

lemma sample_graph_exists: "\<exists>g. build_incident_topology_graph sample_intel no_faults ''t1'' ring sample_view = Some g"
  by (simp add: build_incident_topology_graph_def sample_view_def Let_def)

theorem incident_graph_is_star_witness:
  "\<exists>g. build_incident_topology_graph sample_intel no_faults ''t1'' ring sample_view = Some g \<and> gd_root g = ''a'' \<and>
     ''a'' \<in> gn_id ` set (gd_nodes g)"
proof -
  obtain g where g: "build_incident_topology_graph sample_intel no_faults ''t1'' ring sample_view = Some g"
    using sample_graph_exists by blast
  note star = incident_graph_is_star[OF sample_range disjI2[OF g]]
  from star[THEN conjunct1] have "gd_root g = ''a''" by (simp add: root_id_def sample_view_def)
  with g star[THEN conjunct2, THEN conjunct2, THEN conjunct1] show ?thesis by metis
qed

text \<open>The degradation chain names every service that alerted once, with the event of that service that came
  first, in order of time, and marks the first entry alone as the origin.\<close>

theorem degradation_chain_first:
  assumes "long_sort_ok (ie_raw_sort env) rw_time"
  shows "distinct (map de_service (build_degradation_chain env dv)) \<and> sorted (map de_timestamp (build_degradation_chain env dv)) \<and>
    (\<forall>d \<in> set (build_degradation_chain env dv). \<exists>ev \<in> set (dv_events dv). rw_service (raw_of (dv_incident dv) ev) = de_service d \<and>
       ev_id ev = de_event_id d \<and> rw_time (raw_of (dv_incident dv) ev) = de_timestamp d) \<and>
    (\<forall>ev \<in> set (dv_events dv). \<exists>d \<in> set (build_degradation_chain env dv). de_service d = rw_service (raw_of (dv_incident dv) ev) \<and>
       de_timestamp d \<le> rw_time (raw_of (dv_incident dv) ev)) \<and>
    map de_is_origin (build_degradation_chain env dv) = map (\<lambda>i. i = 0) [0..<length (build_degradation_chain env dv)]"
proof -
  let ?raw = "map (raw_of (dv_incident dv)) (dv_events dv)"
  define rs where "rs = sort_slice (ie_raw_sort env) (\<lambda>a b. rw_time a < rw_time b) ?raw"
  let ?f = "first_per rw_service [] rs" and ?c = "build_degradation_chain env dv"
  note eq = degradation_chain_eq[OF rs_def]
  have so: "sorted (map rw_time rs)" and st: "set rs = set ?raw"
    unfolding rs_def by (rule sort_slice_sorted[OF assms], rule sort_slice_set[OF assms])
  have sv: "map de_service ?c = map rw_service ?f" and tm: "map de_timestamp ?c = map rw_time ?f"
    using arg_cong[OF eq[THEN conjunct1], of "map fst"] arg_cong[OF eq[THEN conjunct1], of "map (snd \<circ> snd)"]
    by (simp_all add: comp_def)
  have tri: "(\<lambda>d. (de_service d, de_event_id d, de_timestamp d)) ` set ?c = (\<lambda>r. (rw_service r, rw_id r, rw_time r)) ` set ?f"
    using arg_cong[OF eq[THEN conjunct1], of set] by simp
  have first: "distinct (map rw_service ?f) \<and> rw_service ` set ?f = rw_service ` set rs"
    using first_per_distinct[of rw_service "[]" rs] by simp
  have "\<exists>ev \<in> set (dv_events dv). rw_service (raw_of (dv_incident dv) ev) = de_service d \<and>
       ev_id ev = de_event_id d \<and> rw_time (raw_of (dv_incident dv) ev) = de_timestamp d" if "d \<in> set ?c" for d
  proof -
    from that tri have "(de_service d, de_event_id d, de_timestamp d) \<in> (\<lambda>r. (rw_service r, rw_id r, rw_time r)) ` set ?f" by blast
    then obtain r where r: "r \<in> set ?f" "de_service d = rw_service r" "de_event_id d = rw_id r" "de_timestamp d = rw_time r" by auto
    from first_per_hd[OF r(1)] st obtain ev where "ev \<in> set (dv_events dv)" "r = raw_of (dv_incident dv) ev" by auto
    with r show ?thesis by (auto simp: raw_of_def)
  qed
  moreover have "\<exists>d \<in> set ?c. de_service d = rw_service (raw_of (dv_incident dv) ev) \<and> de_timestamp d \<le> rw_time (raw_of (dv_incident dv) ev)"
    if "ev \<in> set (dv_events dv)" for ev
  proof -
    let ?q = "raw_of (dv_incident dv) ev"
    have q: "?q \<in> set rs" using that st by simp
    with first obtain r where r: "r \<in> set ?f" "rw_service ?q = rw_service r" by blast
    from first_per_least[OF so r(1) q r(2)] have "rw_time r \<le> rw_time ?q" .
    moreover from r(1) have "(rw_service r, rw_id r, rw_time r) \<in> (\<lambda>d. (de_service d, de_event_id d, de_timestamp d)) ` set ?c"
      unfolding tri by blast
    ultimately show ?thesis using r(2) by force
  qed
  moreover have "sorted (map rw_time ?f)" using so by (rule first_per_subseq)
  ultimately show ?thesis using eq[THEN conjunct2] first unfolding sv tm by blast
qed

theorem degradation_chain_first_witness:
  "map de_is_origin (build_degradation_chain sample_intel sample_view) =
     map (\<lambda>i. i = 0) [0..<length (build_degradation_chain sample_intel sample_view)] \<and>
   map de_service (build_degradation_chain sample_intel sample_view) = [''z'', ''a'']"
proof
  have "long_sort_ok (ie_raw_sort sample_intel) rw_time" by (simp add: sample_intel_def long_sort_ok_insertion)
  from degradation_chain_first[OF this, of sample_view]
  show "map de_is_origin (build_degradation_chain sample_intel sample_view) =
     map (\<lambda>i. i = 0) [0..<length (build_degradation_chain sample_intel sample_view)]" by blast
  show "map de_service (build_degradation_chain sample_intel sample_view) = [''z'', ''a'']" by code_simp
qed

text \<open>Where the incident gives the change a confidence between 0 and 100, every evidence node of the
  analysis has one between 1 and 100 and the overall confidence, a mean weighted by the kind of evidence,
  lies between 1 and 98.\<close>

theorem rca_confidence_bounded:
  assumes "range_ok (ie_range env)" "generate_causal_rca env flt tenant db dv = Some rca"
    and "0 \<le> inc_what_changed_confidence (dv_incident dv)" "inc_what_changed_confidence (dv_incident dv) \<le> 100"
  shows "(\<forall>n \<in> set (rca_evidence rca). 1 \<le> en_confidence n \<and> en_confidence n \<le> 100) \<and> 1 \<le> rca_overall rca \<and> rca_overall rca \<le> 98"
proof -
  from assms(2) have ev: "build_evidence_nodes env dv (build_degradation_chain env dv) = Some (rca_evidence rca)"
    and ov: "rca_overall rca = compute_overall_confidence (rca_evidence rca) (Some (build_root_cause dv))"
    by (auto simp: generate_causal_rca_def Let_def split: option.splits prod.splits)
  have ok: "\<forall>n \<in> set (rca_evidence rca). confidence_ok (en_confidence n)"
    using evidence_nodes_ok[OF assms(1,3,4) ev] by blast
  moreover have rc: "confidence_ok (rn_confidence (build_root_cause dv))"
    using assms(3,4) by (auto simp: build_root_cause_def Let_def confidence_ok_def)
  moreover have "1 \<le> rca_overall rca \<and> rca_overall rca \<le> 98"
  proof (cases "rca_evidence rca = []")
    case True
    with ev have "change_evidence env dv (first_alert_of (build_degradation_chain env dv)) = []"
      by (simp add: build_evidence_nodes_def Let_def split: if_splits)
    then have "wc_type (dv_what_changed dv) = []" by (simp add: change_evidence_def Let_def split: if_splits)
    with True ov show ?thesis by (simp add: compute_overall_confidence_def build_root_cause_def Let_def)
  next
    case False
    from overall_confidence_bounds[OF this ok rc] ov show ?thesis by simp
  qed
  ultimately show ?thesis by (simp add: confidence_ok_def)
qed

lemma generate_rca_found: "[] \<notin> set (dv_evidence dv) \<Longrightarrow> \<exists>rca. generate_causal_rca env flt tenant db dv = Some rca"
  by (simp add: generate_causal_rca_def build_evidence_nodes_def Let_def split: prod.split)

lemma sample_evidence: "[] \<notin> set (dv_evidence sample_view)"
  by (simp add: sample_view_def)

theorem rca_confidence_bounded_witness:
  "\<exists>rca. generate_causal_rca sample_intel no_faults ''t1'' ring sample_view = Some rca \<and> 1 \<le> rca_overall rca \<and> rca_overall rca \<le> 98"
proof -
  obtain rca where r: "generate_causal_rca sample_intel no_faults ''t1'' ring sample_view = Some rca"
    using generate_rca_found[of sample_view] sample_evidence by blast
  from rca_confidence_bounded[OF sample_range r] r show ?thesis by (simp add: sample_view_def incident_zero_def)
qed

text \<open>When no statement fails, the blast radius of a service holds the nodes within five steps downstream,
  each once with its distance, and its counts are those of its list; up to twelve hops the customer-facing
  ones come first.\<close>

theorem blast_radius_exact:
  assumes "topology_ok db" "compute_blast_radius env no_faults serviceID tenant db = Inr r"
    and "\<forall>xs. mset (ie_blast_sort env blast_less xs) = mset xs"
  shows "distinct (map (\<lambda>h. tn_id (bh_node h)) (br_hops r)) \<and>
    (\<forall>n d. (\<exists>h \<in> set (br_hops r). tn_id (bh_node h) = n \<and> bh_depth h = d) \<longleftrightarrow>
       hop_at (links te_from te_to tenant db) (tn_id (br_root r)) 5 n d) \<and>
    br_total r = int (length (br_hops r)) \<and>
    br_customer_facing r = int (length (filter (\<lambda>h. tn_is_customer_facing (bh_node h)) (br_hops r))) \<and>
    br_critical r = int (length (filter (\<lambda>h. tn_tier (bh_node h) = ''critical'') (br_hops r))) \<and>
    (length (br_hops r) \<le> 12 \<longrightarrow>
       sorted_wrt (\<lambda>a b. tn_is_customer_facing (bh_node b) \<longrightarrow> tn_is_customer_facing (bh_node a)) (br_hops r))"
proof -
  define flt where "flt = no_faults"
  have quiet: "\<And>op. \<not> flt op" by (simp add: flt_def)
  from assms(2) obtain hops hs where hops: "get_downstream (ie_numbers env) flt (tn_id (br_root r)) tenant 5 db = Inr hops"
    and hs: "hs = concat (map (blast_hop flt db) hops)"
    and r: "br_hops r = sort_slice (ie_blast_sort env) blast_less hs" "br_total r = int (length hs)"
      "br_customer_facing r = int (length (filter (\<lambda>h. tn_is_customer_facing (bh_node h)) hs))"
      "br_critical r = int (length (filter (\<lambda>h. tn_tier (bh_node h) = ''critical'') hs))"
    unfolding flt_def[symmetric] by (auto simp: compute_blast_radius_def Let_def split: option.splits sum.splits)
  have "\<forall>h \<in> set hops. tbl_has tn_id (th_node h) (td_nodes db)"
  proof
    fix h assume "h \<in> set hops"
    from hop_at_range[OF downstream.hop_facts[OF hops this]] obtain e where "e \<in> set (td_edges db)" "te_to e = th_node h"
      by (auto simp: links_def)
    with assms(1) show "tbl_has tn_id (th_node h) (td_nodes db)" by (auto simp: topology_ok_def)
  qed
  from blast_hops_of[OF quiet this] have pairs: "map (\<lambda>b. (tn_id (bh_node b), bh_depth b)) hs = map (\<lambda>h. (th_node h, th_depth h)) hops"
    unfolding hs .
  have ids: "map (\<lambda>h. tn_id (bh_node h)) hs = map th_node hops"
    using arg_cong[OF pairs, of "map fst"] by (simp add: comp_def)
  have ms: "mset (br_hops r) = mset hs" unfolding r(1) by (simp add: sort_slice_def assms(3))
  then have st: "set (br_hops r) = set hs" by (rule mset_eq_setD)
  have "(\<exists>h \<in> set hs. tn_id (bh_node h) = n \<and> bh_depth h = d) \<longleftrightarrow> (n, d) \<in> set (map (\<lambda>b. (tn_id (bh_node b), bh_depth b)) hs)" for n d
    by force
  moreover have "(n, d) \<in> set (map (\<lambda>h. (th_node h, th_depth h)) hops) \<longleftrightarrow> (\<exists>h \<in> set hops. th_node h = n \<and> th_depth h = d)" for n d
    by force
  ultimately have reach: "(\<exists>h \<in> set (br_hops r). tn_id (bh_node h) = n \<and> bh_depth h = d) \<longleftrightarrow>
      hop_at (links te_from te_to tenant db) (tn_id (br_root r)) 5 n d" for n d
    unfolding st pairs using downstream.query_hops[OF hops] by simp
  have "distinct (map th_node hops)" by (rule downstream.query_once[OF hops])
  then have once: "distinct (map (\<lambda>h. tn_id (bh_node h)) (br_hops r))"
    unfolding ids[symmetric] using ms by (metis mset_map mset_eq_imp_distinct_iff)
  have "length (filter p (br_hops r)) = length (filter p hs)" for p
    using ms by (metis mset_filter size_mset)
  moreover have "length (br_hops r) = length hs" using ms by (rule mset_eq_length)
  moreover have "sorted_wrt (\<lambda>a b. tn_is_customer_facing (bh_node b) \<longrightarrow> tn_is_customer_facing (bh_node a)) (br_hops r)"
    if "length (br_hops r) \<le> 12"
    using that \<open>length (br_hops r) = length hs\<close> insertion_customer_first unfolding r(1) by (simp add: sort_slice_def)
  ultimately show ?thesis using once reach r(2-4) by simp
qed

lemma ring_ok: "topology_ok ring"
  by (simp add: topology_ok_def ring_def pk_def node_key_def edge_key_def sample_node_def sample_edge_def tbl_has_def)

theorem blast_radius_exact_witness:
  "\<exists>r. compute_blast_radius sample_intel no_faults ''a'' ''t1'' ring = Inr r \<and>
     (\<exists>h \<in> set (br_hops r). tn_id (bh_node h) = ''b'' \<and> bh_depth h = 1)"
proof -
  obtain n where n: "resolve_node no_faults ''a'' ''t1'' ring = Some n" "tn_id n = ''a''"
    by (simp add: resolve_node_def get_node_by_name_def guard_db_def ring_def sample_node_def node_key_def tbl_find_Cons with_health_def)
  obtain hops where "get_downstream exact_numbers no_faults ''a'' ''t1'' 5 ring = Inr hops"
    using traverse_total[of exact_numbers te_from te_to "''a''" "''t1''" 5 ring] ring_rows by (auto simp: get_downstream_def)
  with n obtain r where r: "compute_blast_radius sample_intel no_faults ''a'' ''t1'' ring = Inr r" "br_root r = n"
    by (simp add: compute_blast_radius_def sample_intel_def Let_def)
  have "\<forall>xs. mset (ie_blast_sort sample_intel blast_less xs) = mset xs" by (simp add: sample_intel_def)
  from blast_radius_exact[OF ring_ok r(1) this, THEN conjunct2, THEN conjunct1]
  have "(\<exists>h \<in> set (br_hops r). tn_id (bh_node h) = ''b'' \<and> bh_depth h = 1) \<longleftrightarrow>
      hop_at (links te_from te_to ''t1'' ring) ''a'' 5 ''b'' 1" unfolding r(2) n(2) by simp
  moreover have "hop_at (links te_from te_to ''t1'' ring) ''a'' 5 ''b'' 1"
    by (auto simp: hop_at_def at_distance_def links_def ring_def sample_edge_def less_Suc_eq)
  ultimately show ?thesis using r(1) by blast
qed

end
