(* ===== verification/Replies.thy ===== *)
theory Replies
  imports GoStrings
begin

text \<open>
  What an HTTP handler answers: a refusal with its status and message, a panic (\<open>Crashed\<close>, which the recovery
  middleware answers with 500), or a value. The text of a database error is left out of an answer.
\<close>

section \<open>Answers\<close>

datatype 'a reply = Refused nat string | Crashed | Answered 'a

abbreviation refuse :: "nat \<Rightarrow> string \<Rightarrow> 'a reply" where "refuse \<equiv> reply.Refused"

definition answer :: "string \<Rightarrow> 'a result \<Rightarrow> 'a reply" where
  "answer msg r = (case r of Inl _ \<Rightarrow> Refused 500 msg | Inr x \<Rightarrow> Answered x)"

definition trim_prefix :: "string \<Rightarrow> string \<Rightarrow> string" where
  "trim_prefix s p = (if has_prefix s p then drop (length p) s else s)"

end
