(* ===== verification/TopologyApi.thy ===== *)
theory TopologyApi
  imports TopologyIntel Replies
begin

text \<open>
  \<open>internal/handlers/topology_handler.go\<close> and the discovery of \<open>internal/store/topology_store.go\<close>: who may
  read and write the topology, the defaults of a posted node or edge, and the graph mined from past
  incidents. The tenant of a request is that of its token (\<open>None\<close> without one); a body is the value
  decoded from it (\<open>None\<close> when it does not decode). The text of a database error is left out of an
  answer. \<open>Crashed\<close> is a panic, which the recovery middleware answers with 500.
\<close>

section \<open>Reading\<close>

text \<open>\<open>details\<close> is \<open>GetIncidentDetail\<close>, which takes no tenant.\<close>

definition handle_get_topology ::
    "intel_env \<Rightarrow> (string \<Rightarrow> detail_view option) \<Rightarrow> bool \<Rightarrow> faults \<Rightarrow> string option \<Rightarrow> string \<Rightarrow> topology_db \<Rightarrow> GraphData reply" where
  "handle_get_topology env details intel flt claims path db =
    (case claims of None \<Rightarrow> Refused 401 ''unauthorized''
     | Some tenant \<Rightarrow>
        (let i = trim_space (trim_prefix path ''/api/v1/incidents/topology/'') in
         if i = [] \<or> contains_str i ''/'' then Refused 400 ''missing incident id''
         else (case details i of None \<Rightarrow> Refused 404 ''incident not found''
           | Some dv \<Rightarrow>
              if intel then (case build_incident_topology_graph env flt tenant db dv of None \<Rightarrow> Crashed | Some g \<Rightarrow> Answered g)
              else Answered (build_topology_graph (ie_range env) dv))))"

definition handle_get_live_graph :: "faults \<Rightarrow> string option \<Rightarrow> topology_db \<Rightarrow> LiveTopologyGraph reply" where
  "handle_get_live_graph flt claims db =
    (case claims of None \<Rightarrow> Refused 401 ''unauthorized''
     | Some tenant \<Rightarrow> answer ''failed to build topology graph: '' (build_live_graph flt tenant db))"

definition handle_get_blast_radius ::
    "intel_env \<Rightarrow> faults \<Rightarrow> string option \<Rightarrow> string \<Rightarrow> topology_db \<Rightarrow> BlastRadiusResult reply" where
  "handle_get_blast_radius env flt claims path db =
    (case claims of None \<Rightarrow> Refused 401 ''unauthorized''
     | Some tenant \<Rightarrow>
        (let i = trim_space (trim_prefix path ''/api/v1/topology/blast-radius/'') in
         if i = [] then Refused 400 ''missing node id''
         else (case compute_blast_radius env flt i tenant db of
            Inl (ErrMsg m) \<Rightarrow> Refused 404 m
          | Inl _ \<Rightarrow> Refused 404 ''topology: downstream traversal: ''
          | Inr r \<Rightarrow> Answered r)))"

definition handle_get_rca ::
    "intel_env \<Rightarrow> (string \<Rightarrow> detail_view option) \<Rightarrow> faults \<Rightarrow> string option \<Rightarrow> string \<Rightarrow> topology_db \<Rightarrow> CausalRCAResult reply" where
  "handle_get_rca env details flt claims path db =
    (case claims of None \<Rightarrow> Refused 401 ''unauthorized''
     | Some tenant \<Rightarrow>
        (let i = trim_space (trim_prefix path ''/api/v1/topology/rca/'') in
         if i = [] then Refused 400 ''missing incident id''
         else (case details i of None \<Rightarrow> Refused 404 ''incident not found''
           | Some dv \<Rightarrow> (case generate_causal_rca env flt tenant db dv of None \<Rightarrow> Crashed | Some rca \<Rightarrow> Answered rca))))"

definition handle_get_causal_dag ::
    "causal_env option \<Rightarrow> faults \<Rightarrow> string \<Rightarrow> string option \<Rightarrow> string \<Rightarrow> CausalDAG reply" where
  "handle_get_causal_dag engine flt meth claims path =
    (if meth \<noteq> ''GET'' then Refused 405 ''method not allowed''
     else (case claims of None \<Rightarrow> Refused 401 ''unauthorized''
       | Some tenant \<Rightarrow>
          (let i = trim_space (trim_prefix path ''/api/v1/incidents/causal-dag/'') in
           if i = [] \<or> contains_str i ''/'' then Refused 400 ''missing incident id''
           else (case engine of None \<Rightarrow> Refused 503 ''causal engine not configured''
             | Some env \<Rightarrow>
                (case build_causal_dag env flt i tenant of
                   Inl (ErrMsg m) \<Rightarrow> if contains_str m ''not found'' then Refused 404 m else Refused 500 ''causal dag computation failed''
                 | Inl _ \<Rightarrow> Refused 500 ''causal dag computation failed''
                 | Inr dag \<Rightarrow> Answered dag)))))"

section \<open>Writing\<close>

definition or_default :: "string \<Rightarrow> string \<Rightarrow> string" where
  "or_default s d = (if s = [] then d else s)"

definition posted_node :: "string \<Rightarrow> TopologyNode \<Rightarrow> TopologyNode" where
  "posted_node tenant n = n\<lparr>tn_tenant_id := tenant, tn_id := or_default (tn_id n) (tenant @ '':'' @ tn_name n),
     tn_node_type := or_default (tn_node_type n) ''service'', tn_tier := or_default (tn_tier n) ''internal'',
     tn_environment := or_default (tn_environment n) ''production'', tn_display_name := or_default (tn_display_name n) (tn_name n)\<rparr>"

definition handle_upsert_node ::
    "faults \<Rightarrow> time \<Rightarrow> string option \<Rightarrow> TopologyNode option \<Rightarrow> topology_db \<Rightarrow> string reply \<times> topology_db" where
  "handle_upsert_node flt now claims body db =
    (case claims of None \<Rightarrow> (Refused 401 ''unauthorized'', db)
     | Some tenant \<Rightarrow>
        (case body of None \<Rightarrow> (Refused 400 ''invalid request body'', db)
         | Some n0 \<Rightarrow>
            if tn_name n0 = [] then (Refused 400 ''name is required'', db)
            else (let n = posted_node tenant n0 in
              case upsert_node flt now n db of
                Inl _ \<Rightarrow> (Refused 500 ''failed to upsert node: '', db)
              | Inr db' \<Rightarrow> (Answered (tn_id n), db'))))"

text \<open>The identifier is made before the default relation.\<close>

definition posted_edge :: "string \<Rightarrow> TopologyEdge \<Rightarrow> TopologyEdge" where
  "posted_edge tenant e = e\<lparr>te_tenant_id := tenant,
     te_id := or_default (te_id e) (tenant @ '':'' @ te_from e @ ''->'' @ te_to e @ '':'' @ te_relation e),
     te_relation := or_default (te_relation e) ''depends_on'',
     te_weight := (if te_weight e = 0 then 1 else te_weight e),
     te_propagation_factor := (if te_propagation_factor e = 0 then 7 / 10 else te_propagation_factor e),
     te_confidence := (if te_confidence e = 0 then 70 else te_confidence e)\<rparr>"

definition handle_upsert_edge ::
    "pg_numbers \<Rightarrow> faults \<Rightarrow> time \<Rightarrow> string option \<Rightarrow> TopologyEdge option \<Rightarrow> topology_db \<Rightarrow> string reply \<times> topology_db" where
  "handle_upsert_edge num flt now claims body db =
    (case claims of None \<Rightarrow> (Refused 401 ''unauthorized'', db)
     | Some tenant \<Rightarrow>
        (case body of None \<Rightarrow> (Refused 400 ''invalid request body'', db)
         | Some e0 \<Rightarrow>
            if te_from e0 = [] \<or> te_to e0 = [] then (Refused 400 ''from_node_id and to_node_id are required'', db)
            else (let e = posted_edge tenant e0 in
              case upsert_edge num flt now e db of
                Inl _ \<Rightarrow> (Refused 500 ''failed to upsert edge: '', db)
              | Inr db' \<Rightarrow> (Answered (te_id e), db'))))"

section \<open>Discovery\<close>

definition auto_tier :: "string \<Rightarrow> string" where
  "auto_tier name =
    (if contains_any name [''payment'', ''checkout'', ''order'', ''billing''] then ''critical''
     else if contains_any name [''api'', ''gateway'', ''auth'', ''frontend''] then ''critical''
     else if contains_any name [''worker'', ''cron'', ''batch'', ''queue''] then ''internal''
     else if contains_any name [''db'', ''database'', ''postgres'', ''mysql'', ''redis'', ''cache''] then ''infra''
     else ''internal'')"

text \<open>The store's \<open>humanizeLabel\<close>, byte by byte.\<close>

fun humanize_bytes :: "bool \<Rightarrow> string \<Rightarrow> string" where
  "humanize_bytes cap [] = []"
| "humanize_bytes cap (c # cs) =
    (if c = CHR ''-'' \<or> c = CHR ''_'' \<or> c = CHR ''.'' then CHR '' '' # humanize_bytes True cs
     else if cap then (if is_lower c then upper_char c else c) # humanize_bytes False cs
     else c # humanize_bytes False cs)"

text \<open>The rows of the query: for each service of the tenant the lists of impacted services of its
  incidents, each list once. The order of the groups and of the aggregate are PostgreSQL's.\<close>

record discover_env =
  dc_groups :: "string list \<Rightarrow> string list"
  dc_agg :: "string list list \<Rightarrow> string list list"

definition service_rows :: "discover_env \<Rightarrow> string \<Rightarrow> Incident list \<Rightarrow> (string \<times> string list list) list" where
  "service_rows env tenant incs =
    (let own = filter (\<lambda>i. inc_tenant_id i = tenant \<and> inc_service i \<noteq> []) incs in
     map (\<lambda>s. (s, dc_agg env (remdups (map inc_impacted_services (filter (\<lambda>i. inc_service i = s) own)))))
       (dc_groups env (remdups (map inc_service own))))"

text \<open>The arrays parsed back and their names, each once.\<close>

definition parse_impacted :: "string list list \<Rightarrow> string list" where
  "parse_impacted nested = first_per id [] (filter (\<lambda>s. s \<noteq> []) (concat nested))"

definition auto_node :: "string \<Rightarrow> string \<Rightarrow> TopologyNode" where
  "auto_node tenant name = \<lparr>tn_id = tenant @ '':'' @ name, tn_tenant_id = tenant, tn_node_type = ''service'', tn_name = name,
     tn_display_name = humanize_bytes True name, tn_tier = auto_tier name, tn_owner_team = [], tn_is_customer_facing = False,
     tn_version = [], tn_environment = ''production'', tn_metadata = [], tn_auto_discovered = True, tn_health = None,
     tn_created_at = 0, tn_updated_at = 0\<rparr>"

definition auto_edge :: "string \<Rightarrow> string \<Rightarrow> string \<Rightarrow> TopologyEdge" where
  "auto_edge tenant svc imp = \<lparr>te_id = tenant @ '':'' @ svc @ ''->'' @ imp @ '':impacts'', te_tenant_id = tenant,
     te_from = tenant @ '':'' @ svc, te_to = tenant @ '':'' @ imp, te_relation = ''impacts'', te_weight = 7 / 10,
     te_confidence = 60, te_propagation_factor = 6 / 10, te_latency_ms_p99 = 0, te_error_rate_pct = 0,
     te_auto_discovered = True, te_from_name = [], te_to_name = [], te_created_at = 0, te_updated_at = 0\<rparr>"

definition discover_impact ::
    "pg_numbers \<Rightarrow> faults \<Rightarrow> time \<Rightarrow> string \<Rightarrow> string \<Rightarrow> topology_db \<Rightarrow> string \<Rightarrow> topology_db" where
  "discover_impact num flt now tenant svc db imp =
    (if imp = [] \<or> imp = svc then db
     else (let flt' = at_site imp flt; db1 = or_keep (upsert_node flt' now (auto_node tenant imp) db) db
       in or_keep (upsert_edge num flt' now (auto_edge tenant svc imp) db1) db1))"

definition discover_service ::
    "pg_numbers \<Rightarrow> faults \<Rightarrow> time \<Rightarrow> string \<Rightarrow> nat \<times> topology_db \<Rightarrow> string \<times> string list list \<Rightarrow> nat \<times> topology_db" where
  "discover_service num flt now tenant acc row =
    (let (svc, nested) = row; (created, db) = acc; flt' = at_site svc flt;
         (created1, db1) = (case upsert_node flt' now (auto_node tenant svc) db of
            Inl _ \<Rightarrow> (created, db) | Inr db' \<Rightarrow> (created + 1, db'))
     in (created1, foldl (discover_impact num flt' now tenant svc) db1 (parse_impacted nested)))"

definition auto_discover ::
    "discover_env \<Rightarrow> pg_numbers \<Rightarrow> faults \<Rightarrow> time \<Rightarrow> string \<Rightarrow> Incident list \<Rightarrow> topology_db \<Rightarrow> nat result \<times> topology_db" where
  "auto_discover env num flt now tenant incs db =
    (if flt ''AutoDiscoverFromIncidents'' then (Inl ErrDB, db)
     else (let (created, db') = foldl (discover_service num flt now tenant) (0, db) (service_rows env tenant incs)
       in (Inr created, db')))"

definition handle_discover ::
    "discover_env \<Rightarrow> pg_numbers \<Rightarrow> faults \<Rightarrow> time \<Rightarrow> string option \<Rightarrow> Incident list \<Rightarrow> topology_db \<Rightarrow> nat reply \<times> topology_db" where
  "handle_discover env num flt now claims incs db =
    (case claims of None \<Rightarrow> (Refused 401 ''unauthorized'', db)
     | Some tenant \<Rightarrow> (case auto_discover env num flt now tenant incs db of
          (r, db') \<Rightarrow> (answer ''auto-discovery failed: '' r, db')))"

section \<open>Tenants\<close>

text \<open>What a tenant's writes leave alone.\<close>

definition foreign :: "string \<Rightarrow> topology_db \<Rightarrow> TopologyNode list \<times> TopologyEdge list \<times> NodeHealth list" where
  "foreign tenant db = (filter (\<lambda>n. tn_tenant_id n \<noteq> tenant) (td_nodes db), filter (\<lambda>e. te_tenant_id e \<noteq> tenant) (td_edges db), td_health db)"

lemma filter_update_other:
  "(\<And>r. p r \<Longrightarrow> \<not> q r) \<Longrightarrow> (\<And>r. p r \<Longrightarrow> \<not> q (f r)) \<Longrightarrow> filter q (tbl_update p f rs) = filter q rs"
  by (induction rs) (auto simp: tbl_update_def)

lemma upsert_node_foreign:
  assumes "upsert_node flt now n db = Inr db'"
  shows "foreign (tn_tenant_id n) db' = foreign (tn_tenant_id n) db"
proof -
  have "filter (\<lambda>m. tn_tenant_id m \<noteq> tn_tenant_id n) (tbl_update (\<lambda>r. node_key r = node_key n) (node_update now n) (td_nodes db)) =
      filter (\<lambda>m. tn_tenant_id m \<noteq> tn_tenant_id n) (td_nodes db)"
    by (rule filter_update_other) (simp_all add: node_key_def node_update_def)
  with assms show ?thesis by (auto simp: upsert_node_def foreign_def split: if_splits)
qed

lemma upsert_edge_foreign:
  assumes "upsert_edge num flt now e db = Inr db'"
  shows "foreign (te_tenant_id e) db' = foreign (te_tenant_id e) db"
proof -
  have keep: "filter (\<lambda>m. te_tenant_id m \<noteq> te_tenant_id e) (tbl_update (\<lambda>r. edge_key r = edge_key s) (edge_update now s) (td_edges db)) =
      filter (\<lambda>m. te_tenant_id m \<noteq> te_tenant_id e) (td_edges db)" if "te_tenant_id s = te_tenant_id e" for s
    by (rule filter_update_other) (use that in \<open>simp_all add: edge_key_def edge_update_def\<close>)
  obtain s where s: "stored_edge num now e = Some s" using assms by (cases "stored_edge num now e") (auto simp: upsert_edge_def)
  then have "te_tenant_id s = te_tenant_id e" by (auto simp: stored_edge_def split: option.splits)
  with assms s keep show ?thesis by (auto simp: upsert_edge_def foreign_def split: if_splits)
qed

lemma discover_impact_foreign: "foreign tenant (discover_impact num flt now tenant svc db imp) = foreign tenant db"
proof -
  have n: "foreign tenant (or_keep (upsert_node f now (auto_node tenant imp) db) db) = foreign tenant db" for f
    using upsert_node_foreign[of f now "auto_node tenant imp" db]
    by (cases "upsert_node f now (auto_node tenant imp) db") (simp_all add: auto_node_def)
  have e: "foreign tenant (or_keep (upsert_edge num f now (auto_edge tenant svc imp) d) d) = foreign tenant d" for f d
    using upsert_edge_foreign[of num f now "auto_edge tenant svc imp" d]
    by (cases "upsert_edge num f now (auto_edge tenant svc imp) d") (simp_all add: auto_edge_def)
  from n e show ?thesis by (simp add: discover_impact_def Let_def)
qed

lemma discover_service_foreign: "foreign tenant (snd (discover_service num flt now tenant acc row)) = foreign tenant (snd acc)"
proof -
  obtain svc nested created db where eq: "row = (svc, nested)" "acc = (created, db)" by fastforce
  have "foreign tenant (foldl (discover_impact num f now tenant svc) d xs) = foreign tenant d" for f d xs
    by (induction xs arbitrary: d) (simp_all add: discover_impact_foreign)
  with upsert_node_foreign[of "at_site svc flt" now "auto_node tenant svc" db] show ?thesis
    by (cases "upsert_node (at_site svc flt) now (auto_node tenant svc) db")
       (simp_all add: discover_service_def Let_def eq auto_node_def)
qed

lemma auto_discover_foreign: "foreign tenant (snd (auto_discover env num flt now tenant incs db)) = foreign tenant db"
proof -
  have "foreign tenant (snd (foldl (discover_service num flt now tenant) acc rows)) = foreign tenant (snd acc)" for acc rows
    by (induction rows arbitrary: acc) (simp_all add: discover_service_foreign)
  from this[of "(0, db)" "service_rows env tenant incs"] show ?thesis
    by (auto simp: auto_discover_def split: prod.split)
qed

text \<open>Requests that write, and a sequence of them; each with the tenant of its token and its own faults.\<close>

datatype topology_request =
    PostNode "TopologyNode option"
  | PostEdge "TopologyEdge option"
  | Discover "Incident list"

definition serve :: "discover_env \<Rightarrow> pg_numbers \<Rightarrow> topology_db \<Rightarrow> faults \<times> time \<times> string option \<times> topology_request \<Rightarrow> topology_db" where
  "serve env num db r =
    (case r of (flt, now, claims, req) \<Rightarrow>
       (case req of
          PostNode body \<Rightarrow> snd (handle_upsert_node flt now claims body db)
        | PostEdge body \<Rightarrow> snd (handle_upsert_edge num flt now claims body db)
        | Discover incs \<Rightarrow> snd (handle_discover env num flt now claims incs db)))"

definition serve_all :: "discover_env \<Rightarrow> pg_numbers \<Rightarrow> (faults \<times> time \<times> string option \<times> topology_request) list \<Rightarrow> topology_db \<Rightarrow> topology_db" where
  "serve_all env num rs db = foldl (serve env num) db rs"

definition own_rows :: "string \<Rightarrow> topology_db \<Rightarrow> TopologyNode list \<times> TopologyEdge list \<times> NodeHealth list" where
  "own_rows t db = (filter (\<lambda>n. tn_tenant_id n = t) (td_nodes db), filter (\<lambda>e. te_tenant_id e = t) (td_edges db),
     filter (\<lambda>h. nh_tenant h = t) (td_health db))"

lemma foreign_own: "foreign t' db' = foreign t' db \<Longrightarrow> t \<noteq> t' \<Longrightarrow> own_rows t db' = own_rows t db"
proof -
  assume f: "foreign t' db' = foreign t' db" and "t \<noteq> t'"
  then have n: "filter (\<lambda>n. tn_tenant_id n = t) ns = filter (\<lambda>n. tn_tenant_id n = t) (filter (\<lambda>n. tn_tenant_id n \<noteq> t') ns)"
    and e: "filter (\<lambda>e. te_tenant_id e = t) es = filter (\<lambda>e. te_tenant_id e = t) (filter (\<lambda>e. te_tenant_id e \<noteq> t') es)" for ns es
    by (auto intro!: filter_cong)
  from f show ?thesis unfolding own_rows_def foreign_def by (metis n e prod.inject)
qed

lemma posted_tenant [simp]: "tn_tenant_id (posted_node t n) = t" "te_tenant_id (posted_edge t e) = t"
  by (simp_all add: posted_node_def posted_edge_def)

lemma serve_foreign: "foreign t (serve env num db (flt, now, Some t, req)) = foreign t db"
proof (cases req)
  case (PostNode body)
  show ?thesis
  proof (cases body)
    case (Some n)
    with PostNode upsert_node_foreign[of flt now "posted_node t n" db] show ?thesis
      by (auto simp: serve_def handle_upsert_node_def Let_def split: sum.split)
  qed (simp add: serve_def handle_upsert_node_def PostNode)
next
  case (PostEdge body)
  show ?thesis
  proof (cases body)
    case (Some e)
    with PostEdge upsert_edge_foreign[of num flt now "posted_edge t e" db] show ?thesis
      by (auto simp: serve_def handle_upsert_edge_def Let_def split: sum.split)
  qed (simp add: serve_def handle_upsert_edge_def PostEdge)
next
  case (Discover incs)
  then show ?thesis using auto_discover_foreign[of t env num flt now incs db]
    by (auto simp: serve_def handle_discover_def split: prod.split)
qed

lemma serve_no_token: "serve env num db (flt, now, None, req) = db"
  by (cases req) (simp_all add: serve_def handle_upsert_node_def handle_upsert_edge_def handle_discover_def)

lemma discover_impact_ok: "topology_ok db \<Longrightarrow> topology_ok (discover_impact num flt now tenant svc db imp)"
proof -
  assume ok: "topology_ok db"
  have n: "topology_ok (or_keep (upsert_node f now n db) db)" for f n
    using ok upsert_node_ok[of f now n db] by (cases "upsert_node f now n db") simp_all
  have e: "topology_ok d \<Longrightarrow> topology_ok (or_keep (upsert_edge num f now x d) d)" for f x d
    using upsert_edge_ok[of num f now x d] by (cases "upsert_edge num f now x d") simp_all
  from n e ok show ?thesis by (simp add: discover_impact_def Let_def)
qed

lemma discover_service_ok: "topology_ok (snd acc) \<Longrightarrow> topology_ok (snd (discover_service num flt now tenant acc row))"
proof -
  assume ok: "topology_ok (snd acc)"
  obtain svc nested created db where eq: "row = (svc, nested)" "acc = (created, db)" by fastforce
  have fold: "topology_ok d \<Longrightarrow> topology_ok (foldl (discover_impact num f now tenant svc) d xs)" for f d xs
    by (induction xs arbitrary: d) (simp_all add: discover_impact_ok)
  from ok eq upsert_node_ok[of "at_site svc flt" now "auto_node tenant svc" db] show ?thesis
    by (cases "upsert_node (at_site svc flt) now (auto_node tenant svc) db") (simp_all add: discover_service_def Let_def fold)
qed

lemma auto_discover_ok: "topology_ok db \<Longrightarrow> topology_ok (snd (auto_discover env num flt now tenant incs db))"
proof -
  assume ok: "topology_ok db"
  have "topology_ok (snd acc) \<Longrightarrow> topology_ok (snd (foldl (discover_service num flt now tenant) acc rows))" for acc rows
    by (induction rows arbitrary: acc) (simp_all add: discover_service_ok)
  from this[of "(0, db)" "service_rows env tenant incs"] ok show ?thesis
    by (auto simp: auto_discover_def split: prod.split)
qed

lemma serve_ok: "topology_ok db \<Longrightarrow> topology_ok (serve env num db r)"
proof -
  assume ok: "topology_ok db"
  obtain flt now claims req where r: "r = (flt, now, claims, req)" by (metis prod_cases4)
  show ?thesis
  proof (cases req)
    case PostNode
    with ok r show ?thesis
      by (auto simp: serve_def handle_upsert_node_def Let_def split: option.split sum.split intro: upsert_node_ok)
  next
    case PostEdge
    with ok r show ?thesis
      by (auto simp: serve_def handle_upsert_edge_def Let_def split: option.split sum.split intro: upsert_edge_ok)
  next
    case (Discover incs)
    with ok r auto_discover_ok[OF ok, of env num flt now _ incs] show ?thesis
      by (auto simp: serve_def handle_discover_def split: option.split prod.split) (metis snd_conv)
  qed
qed

section \<open>Properties\<close>

text \<open>C27: A tenant's part of the topology is changed by requests with its own tokens only: a sequence of
  requests of other tenants, and of requests without a token, leaves every node, edge and health sample of
  the tenant as it was, whatever they post and whichever statements fail, and keeps the tables consistent.\<close>

theorem topology_writes_isolated:
  assumes "\<forall>(flt, now, claims, req) \<in> set rs. claims \<noteq> Some t" "topology_ok db"
  shows "own_rows t (serve_all env num rs db) = own_rows t db \<and> topology_ok (serve_all env num rs db)"
  using assms
proof (induction rs arbitrary: db)
  case (Cons r rs)
  obtain flt now claims req where r: "r = (flt, now, claims, req)" by (metis prod_cases4)
  from Cons.prems(1) r have "claims \<noteq> Some t" by simp
  then have own: "own_rows t (serve env num db r) = own_rows t db"
    unfolding r using serve_no_token foreign_own[OF serve_foreign] by (cases claims) auto
  have "own_rows t (serve_all env num rs (serve env num db r)) = own_rows t (serve env num db r) \<and>
      topology_ok (serve_all env num rs (serve env num db r))"
    using Cons.prems serve_ok by (intro Cons.IH) simp_all
  with own show ?case by (simp add: serve_all_def)
qed (simp add: serve_all_def)

theorem topology_writes_isolated_witness:
  "own_rows ''t1'' (serve_all \<lparr>dc_groups = id, dc_agg = id\<rparr> exact_numbers
     [(no_faults, 1, Some ''t2'', PostNode (Some (sample_node ''a''))), (no_faults, 2, None, PostEdge None)] ring) = own_rows ''t1'' ring"
proof -
  have "\<forall>(flt, now, claims, req) \<in> set [(no_faults, 1, Some ''t2'', PostNode (Some (sample_node ''a''))), (no_faults, 2, None, PostEdge None)].
      claims \<noteq> Some ''t1''" by simp
  from topology_writes_isolated[OF this ring_ok] show ?thesis by blast
qed

text \<open>A node that was posted and answered with an identifier can be read by its name within the tenant, with
  the values posted and the defaults for what was left out. It has the identifier of the answer unless the
  tenant had a node of that name before.\<close>

theorem posted_node_readable:
  assumes "handle_upsert_node flt now (Some tenant) (Some n) db = (Answered i, db')" "\<not> flt' ''GetNodeByName''"
  shows "\<exists>m. get_node_by_name flt' tenant (tn_name n) db' = Inr (Some m) \<and>
    tn_node_type m = or_default (tn_node_type n) ''service'' \<and> tn_tier m = or_default (tn_tier n) ''internal'' \<and>
    tn_environment m = or_default (tn_environment n) ''production'' \<and> tn_display_name m = or_default (tn_display_name n) (tn_name n) \<and>
    tn_is_customer_facing m = tn_is_customer_facing n \<and> tn_owner_team m = tn_owner_team n \<and> tn_updated_at m = now \<and>
    (tn_id m = i \<or> tbl_has node_key (tenant, tn_name n) (td_nodes db))"
proof -
  let ?p = "posted_node tenant n"
  from assms(1) have up: "upsert_node flt now ?p db = Inr db'" and i: "i = tn_id ?p"
    by (auto simp: handle_upsert_node_def Let_def split: if_splits sum.splits)
  have key: "node_key ?p = (tenant, tn_name n)" by (simp add: node_key_def posted_node_def)
  show ?thesis
  proof (cases "tbl_has node_key (tenant, tn_name n) (td_nodes db)")
    case True
    then obtain old where old: "tbl_find node_key (tenant, tn_name n) (td_nodes db) = Some old"
      by (cases "tbl_find node_key (tenant, tn_name n) (td_nodes db)") (simp_all add: tbl_find_None)
    from up True have "td_nodes db' = tbl_update (\<lambda>r. node_key r = (tenant, tn_name n)) (node_update now ?p) (td_nodes db)"
      by (auto simp: upsert_node_def key split: if_splits)
    moreover have "node_key (node_update now ?p r) = node_key r" for r by (simp add: node_key_def node_update_def)
    note tbl_find_update[of "\<lambda>r. node_key r = (tenant, tn_name n)" node_key "node_update now ?p" "(tenant, tn_name n)" "td_nodes db", OF this]
    ultimately have "tbl_find node_key (tenant, tn_name n) (td_nodes db') = Some (node_update now ?p old)"
      using old tbl_find_Some[OF old] by simp
    with assms(2) True show ?thesis
      by (simp add: get_node_by_name_def with_health_def node_update_def posted_node_def)
  next
    case False
    with up have "td_nodes db' = td_nodes db @ [?p\<lparr>tn_health := None, tn_created_at := now, tn_updated_at := now\<rparr>]"
      by (auto simp: upsert_node_def key split: if_splits)
    moreover have "tbl_find node_key (tenant, tn_name n) (td_nodes db) = None" using False by (simp add: tbl_find_None)
    ultimately have "tbl_find node_key (tenant, tn_name n) (td_nodes db') = Some (?p\<lparr>tn_health := None, tn_created_at := now, tn_updated_at := now\<rparr>)"
      using key by (simp add: tbl_find_append tbl_find_Cons node_key_def)
    with assms(2) i show ?thesis
      by (simp add: get_node_by_name_def with_health_def posted_node_def)
  qed
qed

theorem posted_node_readable_witness:
  "\<exists>db' m. handle_upsert_node no_faults 9 (Some ''t1'') (Some ((sample_node ''d'')\<lparr>tn_id := [], tn_tier := []\<rparr>)) ring =
       (Answered ''t1:d'', db') \<and>
     get_node_by_name no_faults ''t1'' ''d'' db' = Inr (Some m) \<and> tn_tier m = ''internal'' \<and> tn_id m = ''t1:d''"
proof -
  let ?n = "(sample_node ''d'')\<lparr>tn_id := [], tn_tier := []\<rparr>"
  obtain db' where db': "handle_upsert_node no_faults 9 (Some ''t1'') (Some ?n) ring = (Answered ''t1:d'', db')"
    by (simp add: handle_upsert_node_def posted_node_def upsert_node_def sample_node_def ring_def tbl_has_def node_key_def
        or_default_def Let_def)
  have q: "\<not> no_faults ''GetNodeByName''" by simp
  have fresh: "\<not> tbl_has node_key (''t1'', tn_name ?n) (td_nodes ring)"
    by (simp add: ring_def sample_node_def tbl_has_def node_key_def)
  from posted_node_readable[where flt' = no_faults, OF db' q] fresh obtain m where
    "get_node_by_name no_faults ''t1'' (tn_name ?n) db' = Inr (Some m)" "tn_tier m = or_default (tn_tier ?n) ''internal''" "tn_id m = ''t1:d''" by blast
  with db' show ?thesis by (auto simp: sample_node_def or_default_def)
qed

end
