(* ===== verification/GoJson.thy ===== *)
theory GoJson
  imports GoSha256
begin

text \<open>
  What the code uses of Go's \<open>encoding/json\<close> and \<open>unicode/utf8\<close>: how \<open>Marshal\<close> quotes a string, and how
  \<open>Unmarshal\<close> reads a text. Strings are lists of bytes. The reader is the scanner of the library, one
  transition per byte over a stack of open objects and arrays; a number stays the text it was written
  with, and the members of an object keep their order and their duplicates.
\<close>

section \<open>UTF-8\<close>

definition in_range :: "nat \<Rightarrow> nat \<Rightarrow> char \<Rightarrow> bool" where
  "in_range lo hi c = (lo \<le> ord c \<and> ord c \<le> hi)"

definition tail_bits :: "char \<Rightarrow> nat" where "tail_bits c = ord c mod 64"

text \<open>\<open>utf8.DecodeRune\<close>: the rune and the number of bytes it takes; an invalid byte is U+FFFD of one byte.\<close>

definition rune_error :: nat where "rune_error = 65533"

definition decode_rune :: "string \<Rightarrow> nat \<times> nat" where
  "decode_rune s =
    (case s of [] \<Rightarrow> (rune_error, 0)
     | b # r \<Rightarrow>
        (let n = ord b;
             c1 = (r \<noteq> [] \<and> in_range (if n = 0xE0 then 0xA0 else if n = 0xF0 then 0x90 else 0x80)
                     (if n = 0xED then 0x9F else if n = 0xF4 then 0x8F else 0xBF) (hd r));
             c2 = (2 \<le> length r \<and> in_range 0x80 0xBF (r ! 1));
             c3 = (3 \<le> length r \<and> in_range 0x80 0xBF (r ! 2))
         in if n < 0x80 then (n, 1)
            else if 0xC2 \<le> n \<and> n \<le> 0xDF \<and> c1 then ((n mod 32) * 64 + tail_bits (hd r), 2)
            else if 0xE0 \<le> n \<and> n \<le> 0xEF \<and> c1 \<and> c2 then
              ((n mod 16) * 4096 + tail_bits (hd r) * 64 + tail_bits (r ! 1), 3)
            else if 0xF0 \<le> n \<and> n \<le> 0xF4 \<and> c1 \<and> c2 \<and> c3 then
              ((n mod 8) * 262144 + tail_bits (hd r) * 4096 + tail_bits (r ! 1) * 64 + tail_bits (r ! 2), 4)
            else (rune_error, 1)))"

text \<open>\<open>utf8.EncodeRune\<close> of a rune up to U+10FFFF that is no surrogate.\<close>

definition encode_rune :: "nat \<Rightarrow> string" where
  "encode_rune n = map char_of
    (if n < 0x80 then [n]
     else if n < 0x800 then [0xC0 + n div 64, 0x80 + n mod 64]
     else if n < 0x10000 then [0xE0 + n div 4096, 0x80 + n div 64 mod 64, 0x80 + n mod 64]
     else [0xF0 + n div 262144, 0x80 + n div 4096 mod 64, 0x80 + n div 64 mod 64, 0x80 + n mod 64])"

section \<open>Writing a string\<close>

definition quote_char :: char where "quote_char = CHR 0x22"
definition backslash :: char where "backslash = CHR 0x5C"

text \<open>One byte below 0x80 under \<open>appendString\<close> with \<open>escapeHTML\<close>.\<close>

definition quote_byte :: "char \<Rightarrow> string" where
  "quote_byte c =
    (if c = backslash \<or> c = quote_char then [backslash, c]
     else if ord c = 8 then [backslash, CHR ''b'']
     else if ord c = 12 then [backslash, CHR ''f'']
     else if ord c = 10 then [backslash, CHR ''n'']
     else if ord c = 13 then [backslash, CHR ''r'']
     else if ord c = 9 then [backslash, CHR ''t'']
     else if ord c < 0x20 \<or> c = CHR ''<'' \<or> c = CHR ''>'' \<or> c = CHR ''&'' then
       [backslash, CHR ''u'', CHR ''0'', CHR ''0'', hex_digit (ord c div 16), hex_digit (ord c mod 16)]
     else [c])"

function quote_text :: "string \<Rightarrow> string" where
  "quote_text s =
    (case s of [] \<Rightarrow> []
     | c # cs \<Rightarrow>
        if ord c < 0x80 then quote_byte c @ quote_text cs
        else (let (r, n) = decode_rune s in
          if r = rune_error \<and> n = 1 then [backslash, CHR ''u''] @ ''fffd'' @ quote_text cs
          else if r = 0x2028 \<or> r = 0x2029 then
            [backslash, CHR ''u''] @ ''202'' @ [hex_digit (r mod 16)] @ quote_text (drop (n - 1) cs)
          else take n s @ quote_text (drop (n - 1) cs)))"
  by pat_completeness auto
termination by (relation "measure length") auto

declare quote_text.simps [simp del]

definition quote_string :: "string \<Rightarrow> string" where
  "quote_string s = [quote_char] @ quote_text s @ [quote_char]"

section \<open>Reading a string\<close>

definition hex_value :: "char \<Rightarrow> nat option" where
  "hex_value c = (let n = ord c in
     if 48 \<le> n \<and> n \<le> 57 then Some (n - 48) else if 97 \<le> n \<and> n \<le> 102 then Some (n - 87)
     else if 65 \<le> n \<and> n \<le> 70 then Some (n - 55) else None)"

definition hex_or_0 :: "char \<Rightarrow> nat" where
  "hex_or_0 c = (case hex_value c of None \<Rightarrow> 0 | Some v \<Rightarrow> v)"

text \<open>\<open>getu4\<close> after the backslash and the letter.\<close>

definition read_u4 :: "string \<Rightarrow> nat" where
  "read_u4 s = foldl (\<lambda>a c. 16 * a + hex_or_0 c) 0 (take 4 s)"

definition is_surrogate :: "nat \<Rightarrow> bool" where "is_surrogate r = (0xD800 \<le> r \<and> r < 0xE000)"

definition surrogate_pair :: "nat \<Rightarrow> nat \<Rightarrow> nat option" where
  "surrogate_pair a b =
    (if 0xD800 \<le> a \<and> a < 0xDC00 \<and> 0xDC00 \<le> b \<and> b < 0xE000
     then Some ((a - 0xD800) * 1024 + (b - 0xDC00) + 0x10000) else None)"

definition unescape_char :: "char \<Rightarrow> char" where
  "unescape_char e =
    (if e = CHR ''b'' then char_of (8 :: nat) else if e = CHR ''f'' then char_of (12 :: nat)
     else if e = CHR ''n'' then char_of (10 :: nat) else if e = CHR ''r'' then char_of (13 :: nat)
     else if e = CHR ''t'' then char_of (9 :: nat) else e)"

text \<open>\<open>unquote\<close> on what stands between the quotes; the scanner has checked the escapes.\<close>

function unquote :: "string \<Rightarrow> string" where
  "unquote s =
    (case s of [] \<Rightarrow> []
     | c # cs \<Rightarrow>
        if c = backslash then
          (case cs of [] \<Rightarrow> []
           | e # rest \<Rightarrow>
              if e \<noteq> CHR ''u'' then unescape_char e # unquote rest
              else (let r = read_u4 rest; after = drop 4 rest in
                if \<not> is_surrogate r then encode_rune r @ unquote after
                else (case (if has_prefix after [backslash, CHR ''u''] then surrogate_pair r (read_u4 (drop 2 after)) else None) of
                    Some p \<Rightarrow> encode_rune p @ unquote (drop 6 after)
                  | None \<Rightarrow> encode_rune rune_error @ unquote after)))
        else if ord c < 0x80 then c # unquote cs
        else (let (r, n) = decode_rune s in encode_rune r @ unquote (drop (n - 1) cs)))"
  by pat_completeness auto
termination by (relation "measure length") auto

declare unquote.simps [simp del]

section \<open>The scanner\<close>

datatype jval =
    VNull
  | VBool bool
  | VNum string
  | VStr string
  | VArr "jval list"
  | VObj "(string \<times> jval) list"

text \<open>An open object waits for a key, a colon, a value, or a comma; an open array for a value or a comma.\<close>

datatype jframe =
    FKey "(string \<times> jval) list"
  | FColon "(string \<times> jval) list" string
  | FVal "(string \<times> jval) list" string
  | FComma "(string \<times> jval) list"
  | FElem "jval list"
  | FNext "jval list"

text \<open>The steps of \<open>scanner.go\<close>; \<open>Num1\<close> is after a non-zero first digit, \<open>Num0\<close> after a zero first digit.\<close>

datatype num_state = NumNeg | Num1 | Num0 | NumDot | NumDot0 | NumE | NumESign | NumE0

datatype jmode =
    BeginValue
  | BeginValueOrEmpty
  | BeginStringOrEmpty
  | BeginString
  | EndValue
  | EndTop jval
  | InString string
  | InEscape string
  | InUnicode string nat
  | InNumber num_state string
  | InLiteral string jval
  | Broken

type_synonym jconf = "jmode \<times> jframe list"

definition json_space :: "char \<Rightarrow> bool" where
  "json_space c = (c = CHR '' '' \<or> ord c = 9 \<or> ord c = 10 \<or> ord c = 13)"

text \<open>A finished value goes into the innermost open object or array.\<close>

fun finish :: "jval \<Rightarrow> jframe list \<Rightarrow> jconf" where
  "finish v [] = (EndTop v, [])"
| "finish v (FKey ms # st) = (case v of VStr k \<Rightarrow> (EndValue, FColon ms k # st) | _ \<Rightarrow> (Broken, []))"
| "finish v (FVal ms k # st) = (EndValue, FComma (ms @ [(k, v)]) # st)"
| "finish v (FElem es # st) = (EndValue, FNext (es @ [v]) # st)"
| "finish v _ = (Broken, [])"

definition push :: "jframe \<Rightarrow> jmode \<Rightarrow> jframe list \<Rightarrow> jconf" where
  "push f m st = (if 10000 \<le> length st then (Broken, []) else (m, f # st))"

definition begin_value :: "char \<Rightarrow> jframe list \<Rightarrow> jconf" where
  "begin_value c st =
    (if json_space c then (BeginValue, st)
     else if c = CHR ''{'' then push (FKey []) BeginStringOrEmpty st
     else if c = CHR ''['' then push (FElem []) BeginValueOrEmpty st
     else if c = quote_char then (InString [], st)
     else if c = CHR ''-'' then (InNumber NumNeg [c], st)
     else if c = CHR ''0'' then (InNumber Num0 [c], st)
     else if is_digit c then (InNumber Num1 [c], st)
     else if c = CHR ''t'' then (InLiteral ''rue'' (VBool True), st)
     else if c = CHR ''f'' then (InLiteral ''alse'' (VBool False), st)
     else if c = CHR ''n'' then (InLiteral ''ull'' VNull, st)
     else (Broken, []))"

definition begin_string :: "char \<Rightarrow> jframe list \<Rightarrow> jconf" where
  "begin_string c st =
    (if json_space c then (BeginString, st)
     else if c = quote_char then (InString [], st) else (Broken, []))"

definition end_value :: "char \<Rightarrow> jframe list \<Rightarrow> jconf" where
  "end_value c st =
    (if json_space c then (EndValue, st)
     else (case st of
         FColon ms k # st' \<Rightarrow> if c = CHR '':'' then (BeginValue, FVal ms k # st') else (Broken, [])
       | FComma ms # st' \<Rightarrow>
           if c = CHR '','' then (BeginString, FKey ms # st')
           else if c = CHR ''}'' then finish (VObj ms) st' else (Broken, [])
       | FNext es # st' \<Rightarrow>
           if c = CHR '','' then (BeginValue, FElem es # st')
           else if c = CHR '']'' then finish (VArr es) st' else (Broken, [])
       | _ \<Rightarrow> (Broken, [])))"

text \<open>What follows a finished value: \<open>stateEndValue\<close>, or \<open>stateEndTop\<close> when nothing is open.\<close>

definition after_value :: "char \<Rightarrow> jconf \<Rightarrow> jconf" where
  "after_value c conf =
    (case conf of
       (EndValue, st) \<Rightarrow> end_value c st
     | (EndTop v, st) \<Rightarrow> if json_space c then conf else (Broken, [])
     | _ \<Rightarrow> (Broken, []))"

definition in_number :: "num_state \<Rightarrow> string \<Rightarrow> char \<Rightarrow> jframe list \<Rightarrow> jconf" where
  "in_number n acc c st =
    (let go = (\<lambda>n'. (InNumber n' (acc @ [c]), st)); stop = after_value c (finish (VNum acc) st);
         e = (c = CHR ''e'' \<or> c = CHR ''E'') in
     case n of
       NumNeg \<Rightarrow> if c = CHR ''0'' then go Num0 else if is_digit c then go Num1 else (Broken, [])
     | Num1 \<Rightarrow> if is_digit c then go Num1 else if c = CHR ''.'' then go NumDot else if e then go NumE else stop
     | Num0 \<Rightarrow> if c = CHR ''.'' then go NumDot else if e then go NumE else stop
     | NumDot \<Rightarrow> if is_digit c then go NumDot0 else (Broken, [])
     | NumDot0 \<Rightarrow> if is_digit c then go NumDot0 else if e then go NumE else stop
     | NumE \<Rightarrow> if c = CHR ''+'' \<or> c = CHR ''-'' then go NumESign else if is_digit c then go NumE0 else (Broken, [])
     | NumESign \<Rightarrow> if is_digit c then go NumE0 else (Broken, [])
     | NumE0 \<Rightarrow> if is_digit c then go NumE0 else stop)"

fun scan :: "jconf \<Rightarrow> char \<Rightarrow> jconf" where
  "scan (BeginValue, st) c = begin_value c st"
| "scan (BeginValueOrEmpty, st) c =
    (if json_space c then (BeginValueOrEmpty, st)
     else if c = CHR '']'' then (case st of FElem es # st' \<Rightarrow> finish (VArr es) st' | _ \<Rightarrow> (Broken, []))
     else begin_value c st)"
| "scan (BeginStringOrEmpty, st) c =
    (if json_space c then (BeginStringOrEmpty, st)
     else if c = CHR ''}'' then (case st of FKey ms # st' \<Rightarrow> finish (VObj ms) st' | _ \<Rightarrow> (Broken, []))
     else begin_string c st)"
| "scan (BeginString, st) c = begin_string c st"
| "scan (EndValue, st) c = end_value c st"
| "scan (EndTop v, st) c = after_value c (EndTop v, st)"
| "scan (InString raw, st) c =
    (if c = quote_char then finish (VStr (unquote raw)) st
     else if c = backslash then (InEscape raw, st)
     else if ord c < 0x20 then (Broken, [])
     else (InString (raw @ [c]), st))"
| "scan (InEscape raw, st) c =
    (if c \<in> set ''bfnrt/'' \<or> c = backslash \<or> c = quote_char then (InString (raw @ [backslash, c]), st)
     else if c = CHR ''u'' then (InUnicode (raw @ [backslash, c]) 4, st)
     else (Broken, []))"
| "scan (InUnicode raw n, st) c =
    (if hex_value c = None then (Broken, [])
     else if n \<le> 1 then (InString (raw @ [c]), st)
     else (InUnicode (raw @ [c]) (n - 1), st))"
| "scan (InNumber n acc, st) c = in_number n acc c st"
| "scan (InLiteral todo v, st) c =
    (case todo of [] \<Rightarrow> (Broken, [])
     | d # ds \<Rightarrow> if c \<noteq> d then (Broken, []) else if ds = [] then finish v st else (InLiteral ds v, st))"
| "scan (Broken, st) c = (Broken, st)"

text \<open>A text is a value when the scanner, fed a final space, has closed everything.\<close>

definition parse_json :: "string \<Rightarrow> jval option" where
  "parse_json s = (case fst (foldl scan (BeginValue, []) (s @ '' '')) of EndTop v \<Rightarrow> Some v | _ \<Rightarrow> None)"

section \<open>Writing a value\<close>

text \<open>The compact form \<open>Marshal\<close> writes.\<close>

fun print_json :: "jval \<Rightarrow> string" and print_members :: "(string \<times> jval) list \<Rightarrow> string"
  and print_elems :: "jval list \<Rightarrow> string" where
  "print_json VNull = ''null''"
| "print_json (VBool b) = (if b then ''true'' else ''false'')"
| "print_json (VNum n) = n"
| "print_json (VStr s) = quote_string s"
| "print_json (VArr es) = ''['' @ print_elems es @ '']''"
| "print_json (VObj ms) = ''{'' @ print_members ms @ ''}''"
| "print_members [] = []"
| "print_members ((k, v) # ms) = quote_string k @ '':'' @ print_json v @ (if ms = [] then [] else '','') @ print_members ms"
| "print_elems [] = []"
| "print_elems (v # es) = print_json v @ (if es = [] then [] else '','') @ print_elems es"

section \<open>A printed value reads back\<close>

definition ascii :: "string \<Rightarrow> bool" where "ascii s \<longleftrightarrow> (\<forall>c \<in> set s. ord c < 128)"

lemma ascii_simps [simp]: "ascii []" "ascii (c # s) \<longleftrightarrow> ord c < 128 \<and> ascii s"
  by (auto simp: ascii_def)

lemma foldl_scan_string: "\<forall>c \<in> set s. c \<noteq> quote_char \<and> c \<noteq> backslash \<and> \<not> ord c < 32 \<Longrightarrow>
    foldl scan (InString raw, st) s = (InString (raw @ s), st)"
  by (induction s arbitrary: raw) auto

lemma hex_value_char: "d < 16 \<Longrightarrow> hex_value (hex_digit d) = Some d"
  by (auto simp: hex_value_def hex_digit_def ord_char_of Let_def)

lemma scan_quote_byte: "ord c < 128 \<Longrightarrow> foldl scan (InString raw, st) (quote_byte c) = (InString (raw @ quote_byte c), st)"
proof -
  assume c: "ord c < 128"
  have z: "hex_value (CHR ''0'') = Some 0" by (simp add: hex_value_def)
  have "ord c div 16 < 16" "ord c mod 16 < 16" using c by auto
  then have "hex_value (hex_digit (ord c div 16)) = Some (ord c div 16)" "hex_value (hex_digit (ord c mod 16)) = Some (ord c mod 16)"
    by (simp_all add: hex_value_char)
  then show ?thesis using z by (simp add: quote_byte_def backslash_def quote_char_def)
qed

lemma unquote_Nil [simp]: "unquote [] = []"
  by (simp add: unquote.simps)

lemma encode_ascii: "ord c < 128 \<Longrightarrow> encode_rune (ord c) = [c]"
  by (simp add: encode_rune_def)

lemma unquote_escape: "e \<noteq> CHR ''u'' \<Longrightarrow> unquote (backslash # e # s) = unescape_char e # unquote s"
  by (subst unquote.simps) simp

lemma unquote_u4:
  assumes "ord c < 128"
  shows "unquote ([backslash, CHR ''u'', CHR ''0'', CHR ''0'', hex_digit (ord c div 16), hex_digit (ord c mod 16)] @ s) = c # unquote s"
proof -
  have "ord c div 16 < 16" "ord c mod 16 < 16" using assms by auto
  then have h: "hex_or_0 (hex_digit (ord c div 16)) = ord c div 16" "hex_or_0 (hex_digit (ord c mod 16)) = ord c mod 16"
    by (simp_all add: hex_or_0_def hex_value_char)
  have "hex_or_0 (CHR ''0'') = 0" by (simp add: hex_or_0_def hex_value_def)
  then have r: "read_u4 (CHR ''0'' # CHR ''0'' # hex_digit (ord c div 16) # hex_digit (ord c mod 16) # s) = ord c"
    using h by (simp add: read_u4_def)
  have "\<not> is_surrogate (ord c)" using assms by (simp add: is_surrogate_def)
  then show ?thesis using assms r by (subst unquote.simps) (simp add: encode_ascii)
qed

lemma unquote_plain: "ord c < 128 \<Longrightarrow> c \<noteq> backslash \<Longrightarrow> unquote (c # s) = c # unquote s"
  by (subst unquote.simps) simp

lemma ord_eq_char: "ord c = n \<Longrightarrow> c = char_of n"
  by auto

lemma unquote_quote_byte:
  assumes "ord c < 128"
  shows "unquote (quote_byte c @ s) = c # unquote s"
proof -
  note esc = unquote_escape[unfolded backslash_def] and u4 = unquote_u4[unfolded backslash_def, OF assms, of s]
    and plain = unquote_plain[unfolded backslash_def, OF assms, of s]
  consider "c = CHR 0x5C" | "c = CHR 0x22" | "c = char_of (8 :: nat)" | "c = char_of (12 :: nat)" | "c = char_of (10 :: nat)"
    | "c = char_of (13 :: nat)" | "c = char_of (9 :: nat)"
    | "c \<notin> {CHR 0x5C, CHR 0x22, char_of (8 :: nat), char_of (12 :: nat), char_of (10 :: nat), char_of (13 :: nat), char_of (9 :: nat)}"
    by blast
  then show ?thesis
  proof cases
    case 8
    then have "ord c \<notin> {8, 12, 10, 13, 9}" by (auto dest: ord_eq_char)
    with 8 show ?thesis using u4 plain by (simp add: quote_byte_def backslash_def quote_char_def)
  qed (simp_all add: quote_byte_def backslash_def quote_char_def esc unescape_char_def)
qed

lemma quote_text_Nil [simp]: "quote_text [] = []"
  by (simp add: quote_text.simps)

lemma quote_text_Cons: "ord c < 128 \<Longrightarrow> quote_text (c # s) = quote_byte c @ quote_text s"
  by (subst quote_text.simps) simp

lemma unquote_quote_text: "ascii s \<Longrightarrow> unquote (quote_text s) = s"
  by (induction s) (simp_all add: quote_text_Cons unquote_quote_byte)

lemma scan_quote_text: "ascii s \<Longrightarrow> foldl scan (InString raw, st) (quote_text s) = (InString (raw @ quote_text s), st)"
  by (induction s arbitrary: raw) (simp_all add: quote_text_Cons scan_quote_byte)

lemma scan_quote_string:
  assumes "ascii s" and "scan conf quote_char = (InString [], st)"
  shows "foldl scan conf (quote_string s) = finish (VStr s) st"
  using assms by (simp add: quote_string_def scan_quote_text unquote_quote_text)

text \<open>Numbers as \<open>Marshal\<close> writes them, depth, and the values whose text reads back.\<close>

definition terminator :: "char \<Rightarrow> bool" where "terminator c = (c \<in> set '',}] '')"

definition num_literal :: "string \<Rightarrow> bool" where
  "num_literal s \<longleftrightarrow> s \<noteq> [] \<and> \<not> json_space (hd s) \<and> hd s \<noteq> CHR '']'' \<and>
     (\<forall>st c. terminator c \<longrightarrow> foldl scan (BeginValue, st) (s @ [c]) = after_value c (finish (VNum s) st))"

fun json_depth :: "jval \<Rightarrow> nat" and members_depth :: "(string \<times> jval) list \<Rightarrow> nat" and elems_depth :: "jval list \<Rightarrow> nat" where
  "json_depth (VArr es) = Suc (elems_depth es)"
| "json_depth (VObj ms) = Suc (members_depth ms)"
| "json_depth VNull = 0"
| "json_depth (VBool b) = 0"
| "json_depth (VNum n) = 0"
| "json_depth (VStr s) = 0"
| "members_depth [] = 0"
| "members_depth ((k, v) # ms) = max (json_depth v) (members_depth ms)"
| "elems_depth [] = 0"
| "elems_depth (v # es) = max (json_depth v) (elems_depth es)"

fun json_ok :: "jval \<Rightarrow> bool" and members_ok :: "(string \<times> jval) list \<Rightarrow> bool" and elems_ok :: "jval list \<Rightarrow> bool" where
  "json_ok (VNum n) = num_literal n"
| "json_ok (VStr s) = ascii s"
| "json_ok (VArr es) = elems_ok es"
| "json_ok (VObj ms) = members_ok ms"
| "json_ok VNull = True"
| "json_ok (VBool b) = True"
| "members_ok [] = True"
| "members_ok ((k, v) # ms) \<longleftrightarrow> ascii k \<and> json_ok v \<and> members_ok ms"
| "elems_ok [] = True"
| "elems_ok (v # es) \<longleftrightarrow> json_ok v \<and> elems_ok es"

fun ready :: "jframe list \<Rightarrow> bool" where
  "ready [] = True"
| "ready (FVal ms k # st) = True"
| "ready (FElem es # st) = True"
| "ready _ = False"

lemma scan_finish: "ready st \<Longrightarrow> scan (finish v st) c = after_value c (finish v st)"
  by (cases st rule: ready.cases) (simp_all add: after_value_def)

lemma not_space [simp]:
  "\<not> json_space (CHR ''{'')" "\<not> json_space (CHR ''['')" "\<not> json_space quote_char" "\<not> json_space (CHR '':'')"
  "\<not> json_space (CHR '','')" "\<not> json_space (CHR ''}'')" "\<not> json_space (CHR '']'')" "\<not> json_space (CHR ''n'')"
  "\<not> json_space (CHR ''t'')" "\<not> json_space (CHR ''f'')"
  by (simp_all add: json_space_def quote_char_def)

lemma print_json_head:
  "json_ok v \<Longrightarrow> print_json v \<noteq> [] \<and> \<not> json_space (hd (print_json v)) \<and> hd (print_json v) \<noteq> CHR '']''"
  by (cases v) (simp_all add: num_literal_def quote_string_def quote_char_def json_space_def)

lemma foldl_first:
  assumes "s \<noteq> []" "scan conf (hd s) = scan conf' (hd s)"
  shows "foldl scan conf (s @ t) = foldl scan conf' (s @ t)"
  using assms by (cases s) simp_all

lemma scan_print:
  "json_ok v \<Longrightarrow> \<forall>st c. ready st \<longrightarrow> length st + json_depth v \<le> 10000 \<longrightarrow> terminator c \<longrightarrow>
     foldl scan (BeginValue, st) (print_json v @ [c]) = after_value c (finish v st)"
  "members_ok ms \<Longrightarrow> \<forall>st ms0. ms \<noteq> [] \<longrightarrow> Suc (length st + members_depth ms) \<le> 10000 \<longrightarrow>
     foldl scan (BeginString, FKey ms0 # st) (print_members ms @ ''}'') = finish (VObj (ms0 @ ms)) st"
  "elems_ok es \<Longrightarrow> \<forall>st es0. es \<noteq> [] \<longrightarrow> Suc (length st + elems_depth es) \<le> 10000 \<longrightarrow>
     foldl scan (BeginValue, FElem es0 # st) (print_elems es @ '']'') = finish (VArr (es0 @ es)) st"
proof (induction v and ms and es rule: print_json_print_members_print_elems.induct)
  case 1
  show ?case by (simp add: begin_value_def quote_char_def is_digit_def scan_finish)
next
  case (2 b)
  show ?case by (simp add: begin_value_def quote_char_def is_digit_def scan_finish)
next
  case (3 n)
  then show ?case by (simp add: num_literal_def)
next
  case (4 s)
  have "foldl scan (BeginValue, st) (quote_string s) = finish (VStr s) st" for st
    using 4 by (intro scan_quote_string) (simp_all add: begin_value_def quote_char_def json_space_def)
  then show ?case by (simp add: scan_finish)
next
  case (5 es)
  show ?case
  proof (intro allI impI)
    fix st c assume h: "ready st" "length st + json_depth (VArr es) \<le> 10000" "terminator c"
    have open_: "scan (BeginValue, st) (CHR ''['') = (BeginValueOrEmpty, FElem [] # st)"
      using h(2) by (simp add: begin_value_def push_def)
    have "foldl scan (BeginValueOrEmpty, FElem [] # st) (print_elems es @ '']'') = finish (VArr es) st"
    proof (cases es)
      case Nil
      then show ?thesis by simp
    next
      case (Cons v vs)
      have e: "foldl scan (BeginValue, FElem [] # st) (print_elems es @ '']'') = finish (VArr es) st"
        using 5 h(2) Cons by simp
      have "print_json v \<noteq> [] \<and> \<not> json_space (hd (print_json v)) \<and> hd (print_json v) \<noteq> CHR '']''"
        using 5(2) Cons print_json_head by simp
      then have "foldl scan (BeginValueOrEmpty, FElem [] # st) (print_elems es @ '']'') =
          foldl scan (BeginValue, FElem [] # st) (print_elems es @ '']'')"
        using Cons by (intro foldl_first) simp_all
      with e show ?thesis by simp
    qed
    with open_ show "foldl scan (BeginValue, st) (print_json (VArr es) @ [c]) = after_value c (finish (VArr es) st)"
      using h(1) by (simp add: scan_finish)
  qed
next
  case (6 ms)
  show ?case
  proof (intro allI impI)
    fix st c assume h: "ready st" "length st + json_depth (VObj ms) \<le> 10000" "terminator c"
    have open_: "scan (BeginValue, st) (CHR ''{'') = (BeginStringOrEmpty, FKey [] # st)"
      using h(2) by (simp add: begin_value_def push_def)
    have "foldl scan (BeginStringOrEmpty, FKey [] # st) (print_members ms @ ''}'') = finish (VObj ms) st"
    proof (cases ms)
      case Nil
      then show ?thesis by simp
    next
      case (Cons kv vs)
      have e: "foldl scan (BeginString, FKey [] # st) (print_members ms @ ''}'') = finish (VObj ms) st"
        using 6 h(2) Cons by simp
      have "print_members ms \<noteq> [] \<and> hd (print_members ms) = quote_char"
        using Cons by (cases kv) (simp add: quote_string_def)
      then have "foldl scan (BeginStringOrEmpty, FKey [] # st) (print_members ms @ ''}'') =
          foldl scan (BeginString, FKey [] # st) (print_members ms @ ''}'')"
        by (intro foldl_first) (simp_all add: quote_char_def json_space_def)
      with e show ?thesis by simp
    qed
    with open_ show "foldl scan (BeginValue, st) (print_json (VObj ms) @ [c]) = after_value c (finish (VObj ms) st)"
      using h(1) by (simp add: scan_finish)
  qed
next
  case 7
  show ?case by simp
next
  case (8 k v ms)
  show ?case
  proof (intro allI impI)
    fix st :: "jframe list" and ms0 assume d: "Suc (length st + members_depth ((k, v) # ms)) \<le> 10000"
    let ?c = "if ms = [] then CHR ''}'' else CHR '',''"
    have key: "foldl scan (BeginString, FKey ms0 # st) (quote_string k @ '':'') = (BeginValue, FVal ms0 k # st)"
      using 8(3) scan_quote_string[of k "(BeginString, FKey ms0 # st)" "FKey ms0 # st"]
      by (simp add: begin_string_def end_value_def)
    have val: "foldl scan (BeginValue, FVal ms0 k # st) (print_json v @ [?c]) =
        after_value ?c (finish v (FVal ms0 k # st))"
      using 8 d by (simp add: terminator_def)
    show "foldl scan (BeginString, FKey ms0 # st) (print_members ((k, v) # ms) @ ''}'') = finish (VObj (ms0 @ (k, v) # ms)) st"
    proof (cases "ms = []")
      case True
      with key val show ?thesis by (simp add: after_value_def end_value_def)
    next
      case False
      then have "foldl scan (BeginString, FKey (ms0 @ [(k, v)]) # st) (print_members ms @ ''}'') =
          finish (VObj ((ms0 @ [(k, v)]) @ ms)) st"
        using 8(2,3) d by (simp del: append_assoc)
      with False key val show ?thesis by (simp add: after_value_def end_value_def)
    qed
  qed
next
  case 9
  show ?case by simp
next
  case (10 v es)
  show ?case
  proof (intro allI impI)
    fix st :: "jframe list" and es0 assume d: "Suc (length st + elems_depth (v # es)) \<le> 10000"
    let ?c = "if es = [] then CHR '']'' else CHR '',''"
    have val: "foldl scan (BeginValue, FElem es0 # st) (print_json v @ [?c]) =
        after_value ?c (finish v (FElem es0 # st))"
      using 10 d by (simp add: terminator_def)
    show "foldl scan (BeginValue, FElem es0 # st) (print_elems (v # es) @ '']'') = finish (VArr (es0 @ v # es)) st"
    proof (cases "es = []")
      case True
      with val show ?thesis by (simp add: after_value_def end_value_def)
    next
      case False
      then have "foldl scan (BeginValue, FElem (es0 @ [v]) # st) (print_elems es @ '']'') =
          finish (VArr ((es0 @ [v]) @ es)) st"
        using 10(2,3) d by (simp del: append_assoc)
      with False val show ?thesis by (simp add: after_value_def end_value_def)
    qed
  qed
qed

theorem parse_print: "json_ok v \<Longrightarrow> json_depth v \<le> 10000 \<Longrightarrow> parse_json (print_json v) = Some v"
  using scan_print(1)[of v, THEN spec, THEN spec, of "[]" "CHR '' ''"]
  by (simp add: parse_json_def terminator_def after_value_def json_space_def)

text \<open>Printed integers are literals.\<close>

lemma show_nat_head: "hd (show_nat n) = CHR ''0'' \<Longrightarrow> n = 0"
proof (induction n rule: show_nat.induct)
  case (1 n)
  show ?case
  proof (cases "n < 10")
    case True
    with 1(2) have "ord (digit_char n) = ord (CHR ''0'')" by (simp add: show_nat.simps[of n])
    with True show ?thesis by (simp add: ord_digit_char)
  next
    case False
    with 1 have "n div 10 = 0" by (simp add: show_nat.simps[of n])
    with False show ?thesis by simp
  qed
qed

lemma scan_digits: "\<forall>c \<in> set s. is_digit c \<Longrightarrow> foldl scan (InNumber Num1 acc, st) s = (InNumber Num1 (acc @ s), st)"
  by (induction s arbitrary: acc) (simp_all add: in_number_def)

lemma terminator_number:
  "terminator c \<Longrightarrow> in_number Num1 acc c st = after_value c (finish (VNum acc) st)"
  "terminator c \<Longrightarrow> in_number Num0 acc c st = after_value c (finish (VNum acc) st)"
  by (auto simp: terminator_def in_number_def is_digit_def)

lemma digit_not: "is_digit c \<Longrightarrow> \<not> json_space c \<and> c \<noteq> CHR '']'' \<and> c \<noteq> CHR ''['' \<and> c \<noteq> CHR ''{'' \<and> c \<noteq> quote_char \<and> c \<noteq> CHR ''-''"
  by (auto simp: is_digit_def json_space_def quote_char_def)

lemma digit_0 [simp]: "digit_char 0 = CHR ''0''"
  using ord_eq_char[of "CHR ''0''" 48] by (simp add: digit_char_def)

lemma scan_show_nat:
  assumes "terminator c" and conf: "conf = (BeginValue, st) \<and> pre = [] \<or> conf = (InNumber NumNeg pre, st)"
  shows "foldl scan conf (show_nat n @ [c]) = after_value c (finish (VNum (pre @ show_nat n)) st)"
proof -
  obtain d ds where s: "show_nat n = d # ds" by (cases "show_nat n") simp_all
  have dig: "is_digit d" "\<forall>c \<in> set ds. is_digit c" using show_nat_digits[of n] s by simp_all
  show ?thesis
  proof (cases "d = CHR ''0''")
    case True
    then have "n = 0" using show_nat_head[of n] s by simp
    then have "ds = []" using s by (simp add: show_nat.simps[of 0])
    then show ?thesis using True s conf terminator_number(2)[OF assms(1)] digit_not[OF dig(1)]
      by (auto simp: begin_value_def in_number_def[of NumNeg])
  next
    case False
    then have "scan conf d = (InNumber Num1 (pre @ [d]), st)"
      using conf dig(1) digit_not[OF dig(1)] by (auto simp: begin_value_def in_number_def)
    then show ?thesis using s scan_digits[OF dig(2)] terminator_number(1)[OF assms(1)] by simp
  qed
qed

lemma show_int_literal: "num_literal (show_int i)"
proof -
  obtain d ds where s: "show_nat (nat i) = d # ds" by (cases "show_nat (nat i)") simp_all
  then have "is_digit d" using show_nat_digits[of "nat i"] by simp
  then have hd: "show_int i \<noteq> [] \<and> \<not> json_space (hd (show_int i)) \<and> hd (show_int i) \<noteq> CHR '']''"
    using s digit_not[of d] by (simp add: show_int_def json_space_def)
  moreover have "foldl scan (BeginValue, st) (show_int i @ [c]) = after_value c (finish (VNum (show_int i)) st)"
    if "terminator c" for st c
  proof (cases "i < 0")
    case True
    have "scan (BeginValue, st) (CHR ''-'') = (InNumber NumNeg ''-'', st)"
      by (simp add: begin_value_def json_space_def quote_char_def)
    then show ?thesis using True scan_show_nat[OF that, of "(InNumber NumNeg ''-'', st)" st "''-''" "nat (- i)"]
      by (simp add: show_int_def)
  next
    case False
    then show ?thesis using scan_show_nat[OF that, of "(BeginValue, st)" st "[]" "nat i"] by (simp add: show_int_def)
  qed
  ultimately show ?thesis by (simp add: num_literal_def)
qed

end
