(* ===== verification/Users.thy ===== *)
theory Users
  imports IncidentStore EventStore
begin

text \<open>
  Users and tenants: \<open>models/auth.go\<close>, \<open>models/rbac.go\<close>, \<open>models/region.go\<close>, \<open>models/tenant_config.go\<close>,
  \<open>internal/store/user_store.go\<close> and \<open>internal/store/tenant_store.go\<close>. The tables are those of the
  migrations in \<open>internal/store/db.go\<close>: \<open>users\<close> with the primary key \<open>id\<close> and a unique \<open>email\<close>,
  \<open>tenants\<close> with the primary key \<open>id\<close> and a unique \<open>slug\<close>; no foreign key ties a user to a tenant.
  The two per-minute limits of a tenant are nullable 32-bit columns.
\<close>

section \<open>Roles, regions and plans\<close>

definition RoleAdmin :: string where "RoleAdmin = ''admin''"
definition RoleOperator :: string where "RoleOperator = ''operator''"
definition RoleViewer :: string where "RoleViewer = ''viewer''"

definition role_level :: "string \<Rightarrow> nat option" where
  "role_level = map_of [(RoleViewer, 1), (RoleOperator, 2), (RoleAdmin, 3)]"

definition level_of :: "string \<Rightarrow> nat" where
  "level_of role = (case role_level role of None \<Rightarrow> 0 | Some l \<Rightarrow> l)"

definition role_satisfies :: "string \<Rightarrow> string \<Rightarrow> bool" where
  "role_satisfies userRole minRole =
    (let u = level_of userRole; m = level_of minRole in if m = 0 then False else m \<le> u)"

definition valid_role :: "string \<Rightarrow> bool" where
  "valid_role role = (role_level role \<noteq> None)"

record RegionMeta =
  rg_code :: string
  rg_display_name :: string
  rg_cloud_region :: string
  rg_city :: string
  rg_continent :: string
  rg_gdpr_scope :: bool

definition all_regions :: "(string \<times> RegionMeta) list" where
  "all_regions =
    [(''us'', \<lparr>rg_code = ''us'', rg_display_name = ''US East (Virginia)'', rg_cloud_region = ''us-east-1'',
        rg_city = ''Ashburn, VA'', rg_continent = ''North America'', rg_gdpr_scope = False\<rparr>),
     (''eu'', \<lparr>rg_code = ''eu'', rg_display_name = ''EU (Frankfurt)'', rg_cloud_region = ''eu-central-1'',
        rg_city = ''Frankfurt'', rg_continent = ''Europe'', rg_gdpr_scope = True\<rparr>),
     (''apac'', \<lparr>rg_code = ''apac'', rg_display_name = ''Asia Pacific (Singapore)'', rg_cloud_region = ''ap-southeast-1'',
        rg_city = ''Singapore'', rg_continent = ''Asia Pacific'', rg_gdpr_scope = False\<rparr>)]"

definition valid_region :: "string \<Rightarrow> bool" where
  "valid_region code = (map_of all_regions code \<noteq> None)"

record RateLimitProfile =
  rl_ingest_per_min :: int
  rl_query_per_min :: int
  rl_max_incidents :: int
  rl_max_events :: int

definition plan_defaults :: "string \<Rightarrow> RateLimitProfile" where
  "plan_defaults plan =
    (if plan = ''starter'' then \<lparr>rl_ingest_per_min = 500, rl_query_per_min = 1000, rl_max_incidents = 5000, rl_max_events = 100000\<rparr>
     else if plan = ''growth'' then \<lparr>rl_ingest_per_min = 5000, rl_query_per_min = 10000, rl_max_incidents = 50000, rl_max_events = 1000000\<rparr>
     else if plan = ''enterprise'' then \<lparr>rl_ingest_per_min = 0, rl_query_per_min = 0, rl_max_incidents = 0, rl_max_events = 0\<rparr>
     else \<lparr>rl_ingest_per_min = 50, rl_query_per_min = 100, rl_max_incidents = 500, rl_max_events = 10000\<rparr>)"

section \<open>Users\<close>

record User =
  us_id :: string
  us_tenant_id :: string
  us_email :: string
  us_password_hash :: string
  us_role :: string
  us_sso_user_id :: string
  us_sso_provider_id :: string
  us_display_name :: string
  us_scim_external_id :: string
  us_created_at :: time
  us_updated_at :: time

record TenantMaster =
  tm_id :: string
  tm_name :: string
  tm_slug :: string
  tm_deployment_mode :: string
  tm_industry_type :: string
  tm_default_currency :: string
  tm_timezone :: string
  tm_estimation_mode :: string
  tm_created_at :: time
  tm_updated_at :: time
  tm_plan :: string
  tm_state :: string
  tm_owner_email :: string
  tm_suspended_at :: "time option"
  tm_disabled_at :: "time option"
  tm_ingest_rate_per_min :: int
  tm_query_rate_per_min :: int
  tm_max_incidents :: int
  tm_max_events :: int
  tm_encryption_enabled :: bool
  tm_audit_retain_days :: int
  tm_data_region :: string

text \<open>A row of \<open>tenants\<close>: its columns as \<open>GetByID\<close> scans them, beside the two nullable limits.\<close>

record tenant_row =
  tr_tenant :: TenantMaster
  tr_ingest_rate_min :: "int option"
  tr_query_rate_min :: "int option"

record identity_db =
  idb_users :: "User list"
  idb_tenants :: "tenant_row list"
  idb_throttled :: "(string \<times> string) list"   \<comment> \<open>\<open>tenant_rate_limit_events\<close>\<close>

definition tr_id :: "tenant_row \<Rightarrow> string" where "tr_id r = tm_id (tr_tenant r)"
definition tr_slug :: "tenant_row \<Rightarrow> string" where "tr_slug r = tm_slug (tr_tenant r)"

definition identity_ok :: "identity_db \<Rightarrow> bool" where
  "identity_ok db \<longleftrightarrow> pk us_id (idb_users db) \<and> pk us_email (idb_users db) \<and>
     pk tr_id (idb_tenants db) \<and> pk tr_slug (idb_tenants db)"

text \<open>The columns most queries read.\<close>

definition basic_columns :: "User \<Rightarrow> User" where
  "basic_columns u = u\<lparr>us_sso_user_id := [], us_sso_provider_id := [], us_display_name := [], us_scim_external_id := []\<rparr>"

definition insert_user :: "User \<Rightarrow> identity_db \<Rightarrow> identity_db result" where
  "insert_user u db =
    (if tbl_has us_email (us_email u) (idb_users db) then Inl ErrUnique
     else (case tbl_insert us_id u (idb_users db) of Inl e \<Rightarrow> Inl e | Inr us \<Rightarrow> Inr (db\<lparr>idb_users := us\<rparr>)))"

definition create_user :: "faults \<Rightarrow> time \<Rightarrow> User \<Rightarrow> identity_db \<Rightarrow> identity_db result" where
  "create_user flt now u db = guard_db flt ''CreateUser''
     (insert_user ((basic_columns u)\<lparr>us_created_at := now, us_updated_at := now\<rparr>) db)"

definition create_user_sso :: "faults \<Rightarrow> time \<Rightarrow> User \<Rightarrow> identity_db \<Rightarrow> identity_db result" where
  "create_user_sso flt now u db = guard_db flt ''CreateUserSSO''
     (insert_user (u\<lparr>us_password_hash := [], us_scim_external_id := [], us_created_at := now, us_updated_at := now\<rparr>) db)"

definition get_user_by_email :: "faults \<Rightarrow> string \<Rightarrow> identity_db \<Rightarrow> User option" where
  "get_user_by_email flt email db =
    (if flt ''GetUserByEmail'' then None else map_option basic_columns (tbl_find us_email email (idb_users db)))"

definition get_user_by_id :: "faults \<Rightarrow> string \<Rightarrow> identity_db \<Rightarrow> User option" where
  "get_user_by_id flt i db =
    (if flt ''GetUserByID'' then None else map_option basic_columns (tbl_find us_id i (idb_users db)))"

text \<open>The row \<open>LIMIT 1\<close> picks is the first inserted.\<close>

definition get_user_by_sso :: "faults \<Rightarrow> string \<Rightarrow> string \<Rightarrow> identity_db \<Rightarrow> User option" where
  "get_user_by_sso flt sso tenant db =
    (if flt ''GetUserBySSOUserID'' then None
     else map_option (\<lambda>u. (basic_columns u)\<lparr>us_sso_user_id := sso\<rparr>)
       (find (\<lambda>u. us_sso_user_id u = sso \<and> us_tenant_id u = tenant) (idb_users db)))"

text \<open>The error of these counts is ignored: a failed count is 0.\<close>

definition email_exists :: "faults \<Rightarrow> string \<Rightarrow> identity_db \<Rightarrow> bool" where
  "email_exists flt email db = (\<not> flt ''EmailExists'' \<and> tbl_has us_email email (idb_users db))"

definition count_users :: "faults \<Rightarrow> identity_db \<Rightarrow> nat" where
  "count_users flt db = (if flt ''CountUsers'' then 0 else length (idb_users db))"

definition tenant_exists :: "faults \<Rightarrow> string \<Rightarrow> identity_db \<Rightarrow> bool" where
  "tenant_exists flt i db = (\<not> flt ''TenantExists'' \<and> tbl_has tr_id i (idb_tenants db))"

definition get_users_by_tenant :: "faults \<Rightarrow> string \<Rightarrow> identity_db \<Rightarrow> User list result" where
  "get_users_by_tenant flt tenant db = guard_db flt ''GetUsersByTenant''
     (Inr (map (\<lambda>u. (basic_columns u)\<lparr>us_password_hash := []\<rparr>)
        (take 500 (order_desc us_created_at (filter (\<lambda>u. us_tenant_id u = tenant) (idb_users db))))))"

definition on_user :: "(User \<Rightarrow> bool) \<Rightarrow> time \<Rightarrow> (User \<Rightarrow> User) \<Rightarrow> identity_db \<Rightarrow> identity_db" where
  "on_user p now f db = db\<lparr>idb_users := tbl_update p (\<lambda>u. (f u)\<lparr>us_updated_at := now\<rparr>) (idb_users db)\<rparr>"

definition update_password_hash :: "faults \<Rightarrow> time \<Rightarrow> string \<Rightarrow> string \<Rightarrow> identity_db \<Rightarrow> identity_db result" where
  "update_password_hash flt now i h db = guard_db flt ''UpdatePasswordHash''
     (Inr (on_user (\<lambda>u. us_id u = i) now (\<lambda>u. u\<lparr>us_password_hash := h\<rparr>) db))"

definition update_sso_fields ::
    "faults \<Rightarrow> time \<Rightarrow> string \<Rightarrow> string \<Rightarrow> string \<Rightarrow> string \<Rightarrow> identity_db \<Rightarrow> identity_db result" where
  "update_sso_fields flt now i sso provider name db = guard_db flt ''UpdateSSOFields''
     (Inr (on_user (\<lambda>u. us_id u = i) now
        (\<lambda>u. u\<lparr>us_sso_user_id := sso, us_sso_provider_id := provider, us_display_name := name\<rparr>) db))"

definition update_user_role :: "faults \<Rightarrow> time \<Rightarrow> string \<Rightarrow> string \<Rightarrow> string \<Rightarrow> identity_db \<Rightarrow> identity_db result" where
  "update_user_role flt now i tenant role db = guard_db flt ''UpdateUserRole''
     (Inr (on_user (\<lambda>u. us_id u = i \<and> us_tenant_id u = tenant) now (\<lambda>u. u\<lparr>us_role := role\<rparr>) db))"

section \<open>Tenants\<close>

definition coalesce_str :: "string \<Rightarrow> string \<Rightarrow> string" where
  "coalesce_str s d = (if s = [] then d else s)"

text \<open>\<open>Upsert\<close>. A new row takes the defaults of the columns the statement does not name.\<close>

definition new_tenant_row :: "time \<Rightarrow> TenantMaster \<Rightarrow> tenant_row" where
  "new_tenant_row now t =
    \<lparr>tr_tenant = t\<lparr>tm_created_at := (if tm_created_at t = zero_time then now else tm_created_at t),
        tm_updated_at := now, tm_plan := coalesce_str (tm_plan t) ''trial'',
        tm_state := coalesce_str (tm_state t) ''active'', tm_suspended_at := None, tm_disabled_at := None,
        tm_ingest_rate_per_min := 0, tm_query_rate_per_min := 0, tm_max_incidents := 0, tm_max_events := 0,
        tm_encryption_enabled := False, tm_audit_retain_days := 90,
        tm_data_region := coalesce_str (tm_data_region t) ''us''\<rparr>,
     tr_ingest_rate_min = None, tr_query_rate_min = None\<rparr>"

definition refresh_tenant :: "time \<Rightarrow> TenantMaster \<Rightarrow> tenant_row \<Rightarrow> tenant_row" where
  "refresh_tenant now t r = r\<lparr>tr_tenant := (tr_tenant r)\<lparr>tm_name := tm_name t, tm_slug := tm_slug t,
     tm_deployment_mode := tm_deployment_mode t, tm_industry_type := tm_industry_type t,
     tm_default_currency := tm_default_currency t, tm_timezone := tm_timezone t,
     tm_estimation_mode := tm_estimation_mode t, tm_owner_email := tm_owner_email t,
     tm_data_region := coalesce_str (tm_data_region t) ''us'', tm_updated_at := now\<rparr>\<rparr>"

definition upsert_tenant :: "faults \<Rightarrow> time \<Rightarrow> TenantMaster \<Rightarrow> identity_db \<Rightarrow> identity_db result" where
  "upsert_tenant flt now t db = guard_db flt ''Tenant.Upsert''
     (if \<exists>r \<in> set (idb_tenants db). tr_slug r = tm_slug t \<and> tr_id r \<noteq> tm_id t then Inl ErrUnique
      else Inr (db\<lparr>idb_tenants := tbl_upsert tr_id (refresh_tenant now t) (new_tenant_row now t) (idb_tenants db)\<rparr>))"

definition tenant_view :: "tenant_row \<Rightarrow> TenantMaster" where
  "tenant_view r = (tr_tenant r)\<lparr>
     tm_ingest_rate_per_min := (case tr_ingest_rate_min r of None \<Rightarrow> 0 | Some n \<Rightarrow> n),
     tm_query_rate_per_min := (case tr_query_rate_min r of None \<Rightarrow> 0 | Some n \<Rightarrow> n)\<rparr>"

definition get_tenant_by_id :: "faults \<Rightarrow> string \<Rightarrow> identity_db \<Rightarrow> TenantMaster option result" where
  "get_tenant_by_id flt i db = guard_db flt ''Tenant.GetByID''
     (Inr (map_option tenant_view (tbl_find tr_id i (idb_tenants db))))"

definition list_tenants :: "faults \<Rightarrow> identity_db \<Rightarrow> TenantMaster list result" where
  "list_tenants flt db = guard_db flt ''Tenant.List''
     (Inr (map tenant_view (order_desc (\<lambda>r. tm_created_at (tr_tenant r)) (idb_tenants db))))"

definition on_tenant :: "string \<Rightarrow> time \<Rightarrow> (tenant_row \<Rightarrow> tenant_row) \<Rightarrow> identity_db \<Rightarrow> identity_db" where
  "on_tenant i now f db = db\<lparr>idb_tenants := tbl_update (\<lambda>r. tr_id r = i)
     (\<lambda>r. (f r)\<lparr>tr_tenant := (tr_tenant (f r))\<lparr>tm_updated_at := now\<rparr>\<rparr>) (idb_tenants db)\<rparr>"

definition on_master :: "(TenantMaster \<Rightarrow> TenantMaster) \<Rightarrow> tenant_row \<Rightarrow> tenant_row" where
  "on_master f r = r\<lparr>tr_tenant := f (tr_tenant r)\<rparr>"

definition set_data_region :: "faults \<Rightarrow> time \<Rightarrow> string \<Rightarrow> string \<Rightarrow> identity_db \<Rightarrow> identity_db result" where
  "set_data_region flt now i region db = guard_db flt ''SetDataRegion''
     (Inr (on_tenant i now (on_master (\<lambda>t. t\<lparr>tm_data_region := region\<rparr>)) db))"

definition get_data_region :: "faults \<Rightarrow> string \<Rightarrow> identity_db \<Rightarrow> string" where
  "get_data_region flt i db =
    (let region = (if flt ''GetDataRegion'' then [] else
       (case tbl_find tr_id i (idb_tenants db) of None \<Rightarrow> [] | Some r \<Rightarrow> tm_data_region (tr_tenant r)))
     in if region = [] then ''us'' else region)"

definition set_state :: "faults \<Rightarrow> time \<Rightarrow> string \<Rightarrow> string \<Rightarrow> identity_db \<Rightarrow> identity_db result" where
  "set_state flt now i state db =
    (if state = ''suspended'' then guard_db flt ''SetState''
       (Inr (on_tenant i now (on_master (\<lambda>t. t\<lparr>tm_state := state, tm_suspended_at := Some now\<rparr>)) db))
     else if state = ''disabled'' then guard_db flt ''SetState''
       (Inr (on_tenant i now (on_master (\<lambda>t. t\<lparr>tm_state := state, tm_disabled_at := Some now\<rparr>)) db))
     else if state = ''active'' then guard_db flt ''SetState''
       (Inr (on_tenant i now (on_master (\<lambda>t. t\<lparr>tm_state := state, tm_suspended_at := None\<rparr>)) db))
     else Inl (ErrMsg (''unknown tenant state: '' @ state)))"

definition set_plan :: "faults \<Rightarrow> time \<Rightarrow> string \<Rightarrow> string \<Rightarrow> identity_db \<Rightarrow> identity_db result" where
  "set_plan flt now i plan db = guard_db flt ''SetPlan''
     (Inr (on_tenant i now (on_master (\<lambda>t. t\<lparr>tm_plan := plan\<rparr>)) db))"

text \<open>A limit that does not fit the 32-bit column is an error of the driver.\<close>

definition set_rate_limits :: "faults \<Rightarrow> time \<Rightarrow> string \<Rightarrow> int \<Rightarrow> int \<Rightarrow> identity_db \<Rightarrow> identity_db result" where
  "set_rate_limits flt now i ingest query db = guard_db flt ''SetRateLimits''
     (if 2 ^ 31 \<le> ingest \<or> 2 ^ 31 \<le> query then Inl ErrDB
      else Inr (on_tenant i now (\<lambda>r. r\<lparr>tr_ingest_rate_min := (if 0 < ingest then Some ingest else None),
        tr_query_rate_min := (if 0 < query then Some query else None)\<rparr>) db))"

definition set_encryption :: "faults \<Rightarrow> time \<Rightarrow> string \<Rightarrow> bool \<Rightarrow> identity_db \<Rightarrow> identity_db result" where
  "set_encryption flt now i enabled db = guard_db flt ''SetEncryption''
     (Inr (on_tenant i now (on_master (\<lambda>t. t\<lparr>tm_encryption_enabled := enabled\<rparr>)) db))"

definition override_limit :: "int option \<Rightarrow> int \<Rightarrow> int" where
  "override_limit n d = (case n of Some v \<Rightarrow> if 0 < v then v else d | None \<Rightarrow> d)"

definition get_effective_limits :: "faults \<Rightarrow> string \<Rightarrow> identity_db \<Rightarrow> RateLimitProfile result" where
  "get_effective_limits flt i db = guard_db flt ''GetEffectiveLimits''
     (case tbl_find tr_id i (idb_tenants db) of
        None \<Rightarrow> Inl ErrNoRows
      | Some r \<Rightarrow>
          (let p = plan_defaults (tm_plan (tr_tenant r)) in
           Inr (p\<lparr>rl_ingest_per_min := override_limit (tr_ingest_rate_min r) (rl_ingest_per_min p),
                  rl_query_per_min := override_limit (tr_query_rate_min r) (rl_query_per_min p)\<rparr>)))"

definition get_state :: "faults \<Rightarrow> string \<Rightarrow> identity_db \<Rightarrow> string" where
  "get_state flt i db =
    (if flt ''GetState'' then ''active''
     else (case tbl_find tr_id i (idb_tenants db) of None \<Rightarrow> ''active'' | Some r \<Rightarrow> tm_state (tr_tenant r)))"

record TenantUsage =
  tu_tenant_id :: string
  tu_incident_count :: nat
  tu_event_count :: nat
  tu_user_count :: nat

definition counted :: "faults \<Rightarrow> string \<Rightarrow> ('r \<Rightarrow> bool) \<Rightarrow> 'r list \<Rightarrow> nat" where
  "counted flt op p t = (if flt op then 0 else length (filter p t))"

definition get_usage :: "faults \<Rightarrow> string \<Rightarrow> incident_db \<Rightarrow> event_db \<Rightarrow> identity_db \<Rightarrow> TenantUsage" where
  "get_usage flt i incidents events db =
    \<lparr>tu_tenant_id = i,
     tu_incident_count = counted flt ''Usage.incidents'' (\<lambda>r. inc_tenant_id r = i) (db_rows incidents),
     tu_event_count = counted flt ''Usage.events'' (\<lambda>e. ev_tenant_id e = i) events,
     tu_user_count = counted flt ''Usage.users'' (\<lambda>u. us_tenant_id u = i) (idb_users db)\<rparr>"

definition record_rate_limit_event :: "faults \<Rightarrow> string \<Rightarrow> string \<Rightarrow> identity_db \<Rightarrow> identity_db" where
  "record_rate_limit_event flt tenant category db =
    (if flt ''RecordRateLimitEvent'' then db else db\<lparr>idb_throttled := idb_throttled db @ [(tenant, category)]\<rparr>)"

section \<open>Lemmas\<close>

lemma level_of_simps [simp]:
  "level_of RoleViewer = 1" "level_of RoleOperator = 2" "level_of RoleAdmin = 3"
  by (simp_all add: level_of_def role_level_def RoleViewer_def RoleOperator_def RoleAdmin_def)

lemma role_level_Some: "role_level r = Some l \<longleftrightarrow>
    (r = RoleViewer \<and> l = 1) \<or> (r = RoleOperator \<and> l = 2) \<or> (r = RoleAdmin \<and> l = 3)"
  by (auto simp: role_level_def RoleViewer_def RoleOperator_def RoleAdmin_def)

lemma valid_role_iff: "valid_role r \<longleftrightarrow> r \<in> {RoleViewer, RoleOperator, RoleAdmin}"
  unfolding valid_role_def by (auto simp: role_level_Some)

lemma level_of_eq: "level_of r = (if r = RoleViewer then 1 else if r = RoleOperator then 2 else if r = RoleAdmin then 3 else 0)"
  by (simp add: level_of_def role_level_def)

lemma level_of_admin: "level_of r = 3 \<longleftrightarrow> r = RoleAdmin"
  by (simp add: level_of_eq RoleViewer_def RoleOperator_def RoleAdmin_def)

lemma level_of_le: "level_of r \<le> 3"
  by (simp add: level_of_eq)

lemma role_satisfies_admin: "role_satisfies r RoleAdmin \<longleftrightarrow> r = RoleAdmin"
  using level_of_le[of r] level_of_admin[of r] by (auto simp: role_satisfies_def)

lemma user_keys [simp]: "us_id (basic_columns u) = us_id u" "us_email (basic_columns u) = us_email u"
    "us_tenant_id (basic_columns u) = us_tenant_id u" "us_role (basic_columns u) = us_role u"
    "us_password_hash (basic_columns u) = us_password_hash u"
  by (simp_all add: basic_columns_def)

lemma insert_user_Inr: "insert_user u db = Inr db' \<longleftrightarrow>
    \<not> tbl_has us_email (us_email u) (idb_users db) \<and> \<not> tbl_has us_id (us_id u) (idb_users db) \<and>
    db' = db\<lparr>idb_users := idb_users db @ [u]\<rparr>"
  by (auto simp: insert_user_def tbl_insert_def)

lemma pk_append_row: "pk key (t @ [r]) \<longleftrightarrow> pk key t \<and> \<not> tbl_has key (key r) t"
  by (auto simp: pk_def tbl_has_def)

lemma insert_user_ok [preserve]: "identity_ok db \<Longrightarrow> insert_user u db = Inr db' \<Longrightarrow> identity_ok db'"
  by (simp add: insert_user_Inr identity_ok_def pk_append_row)

lemma on_user_ok [preserve]:
  assumes "identity_ok db" and "\<And>u. us_id (f u) = us_id u" "\<And>u. us_email (f u) = us_email u"
  shows "identity_ok (on_user p now f db)"
  using assms by (auto simp: identity_ok_def on_user_def intro!: pk_update)

lemma on_tenant_ok [preserve]:
  assumes "identity_ok db" and "\<And>r. tr_id (f r) = tr_id r" "\<And>r. tr_slug (f r) = tr_slug r"
  shows "identity_ok (on_tenant i now f db)"
proof -
  have "tr_id ((f r)\<lparr>tr_tenant := (tr_tenant (f r))\<lparr>tm_updated_at := now\<rparr>\<rparr>) = tr_id r"
       "tr_slug ((f r)\<lparr>tr_tenant := (tr_tenant (f r))\<lparr>tm_updated_at := now\<rparr>\<rparr>) = tr_slug r" for r
    using assms(2)[of r] assms(3)[of r] by (simp_all add: tr_id_def tr_slug_def)
  with assms(1) show ?thesis by (auto simp: identity_ok_def on_tenant_def intro!: pk_update)
qed

lemma tenant_keys [simp]:
  "tr_id (on_master f r) = tm_id (f (tr_tenant r))" "tr_slug (on_master f r) = tm_slug (f (tr_tenant r))"
  "tr_id (r\<lparr>tr_ingest_rate_min := a\<rparr>) = tr_id r" "tr_id (r\<lparr>tr_query_rate_min := b\<rparr>) = tr_id r"
  "tr_slug (r\<lparr>tr_ingest_rate_min := a\<rparr>) = tr_slug r" "tr_slug (r\<lparr>tr_query_rate_min := b\<rparr>) = tr_slug r"
  "tr_id (refresh_tenant now t r) = tr_id r" "tr_slug (refresh_tenant now t r) = tm_slug t"
  "tr_id (new_tenant_row now t) = tm_id t" "tr_slug (new_tenant_row now t) = tm_slug t"
  by (simp_all add: tr_id_def tr_slug_def on_master_def refresh_tenant_def new_tenant_row_def)

text \<open>The row an upsert writes takes a slug no other row has.\<close>

lemma pk_rename:
  assumes "pk key t" "pk other t" "\<And>x. other x = k \<Longrightarrow> key (f x) = v" "\<forall>x \<in> set t. key x = v \<longrightarrow> other x = k"
  shows "pk key (tbl_update (\<lambda>x. other x = k) f t)"
  using assms(1,2,4)
proof (induction t)
  case Nil
  then show ?case by (simp add: pk_def)
next
  case (Cons x t)
  then have ih: "pk key (tbl_update (\<lambda>x. other x = k) f t)" by (simp add: pk_def)
  have img: "key y \<in> key ` set t \<or> (key y = v \<and> k \<in> other ` set t)"
    if "y \<in> set (tbl_update (\<lambda>x. other x = k) f t)" for y
    using that assms(3) by (auto simp: tbl_update_def split: if_splits)
  show ?case
  proof (cases "other x = k")
    case True
    then have "k \<notin> other ` set t" using Cons.prems(2) by (auto simp: pk_def)
    moreover have "v \<notin> key ` set t"
    proof
      assume "v \<in> key ` set t"
      then obtain y where y: "y \<in> set t" "key y = v" by (auto simp: image_iff)
      with Cons.prems(3) have "other y = k" by simp
      with y(1) \<open>k \<notin> other ` set t\<close> show False by (auto simp: image_iff)
    qed
    ultimately have "key (f x) \<notin> key ` set (tbl_update (\<lambda>x. other x = k) f t)"
      using img assms(3)[OF True] by auto
    with ih True show ?thesis by (simp add: pk_def)
  next
    case False
    then have "key x \<noteq> v" using Cons.prems(3) by auto
    moreover have "key x \<notin> key ` set t" using Cons.prems(1) by (simp add: pk_def)
    ultimately have "key x \<notin> key ` set (tbl_update (\<lambda>x. other x = k) f t)"
    proof (intro notI)
      assume "key x \<in> key ` set (tbl_update (\<lambda>x. other x = k) f t)"
      then obtain y where y: "y \<in> set (tbl_update (\<lambda>x. other x = k) f t)" "key x = key y"
        by (auto simp only: image_iff)
      with img[OF y(1)] \<open>key x \<noteq> v\<close> \<open>key x \<notin> key ` set t\<close> show False by simp
    qed
    with ih False show ?thesis by (simp add: pk_def)
  qed
qed

lemma upsert_tenant_ok [preserve]:
  assumes ok: "identity_ok db" and up: "upsert_tenant flt now t db = Inr db'"
  shows "identity_ok db'"
proof -
  let ?T = "idb_tenants db"
  have slug: "\<forall>r \<in> set ?T. tr_slug r = tm_slug t \<longrightarrow> tr_id r = tm_id t"
    and db': "db' = db\<lparr>idb_tenants := tbl_upsert tr_id (refresh_tenant now t) (new_tenant_row now t) ?T\<rparr>"
    using up by (auto simp: upsert_tenant_def split: if_splits)
  have "pk tr_id (tbl_upsert tr_id (refresh_tenant now t) (new_tenant_row now t) ?T)"
    using ok by (intro pk_upsert) (simp_all add: identity_ok_def)
  moreover have "pk tr_slug (tbl_upsert tr_id (refresh_tenant now t) (new_tenant_row now t) ?T)"
  proof (cases "tbl_has tr_id (tm_id t) ?T")
    case True
    have "pk tr_slug (tbl_update (\<lambda>x. tr_id x = tm_id t) (refresh_tenant now t) ?T)"
      using ok slug by (intro pk_rename[where v = "tm_slug t"]) (simp_all add: identity_ok_def)
    with True show ?thesis by (simp add: tbl_upsert_def)
  next
    case False
    then have "\<not> tbl_has tr_slug (tm_slug t) ?T" using slug by (auto simp: tbl_has_iff)
    with False ok show ?thesis by (simp add: tbl_upsert_def identity_ok_def pk_append_row)
  qed
  ultimately show ?thesis using ok db' by (simp add: identity_ok_def)
qed

section \<open>The keys under every statement\<close>

datatype identity_op =
    OpCreateUser User | OpCreateUserSSO User | OpPasswordHash string string
  | OpSSOFields string string string string | OpUserRole string string string
  | OpUpsertTenant TenantMaster | OpDataRegion string string | OpState string string | OpPlan string string
  | OpRateLimits string int int | OpEncryption string bool

fun identity_write :: "faults \<Rightarrow> time \<Rightarrow> identity_op \<Rightarrow> identity_db \<Rightarrow> identity_db result" where
  "identity_write flt now (OpCreateUser u) db = create_user flt now u db"
| "identity_write flt now (OpCreateUserSSO u) db = create_user_sso flt now u db"
| "identity_write flt now (OpPasswordHash i h) db = update_password_hash flt now i h db"
| "identity_write flt now (OpSSOFields i s p n) db = update_sso_fields flt now i s p n db"
| "identity_write flt now (OpUserRole i t r) db = update_user_role flt now i t r db"
| "identity_write flt now (OpUpsertTenant t) db = upsert_tenant flt now t db"
| "identity_write flt now (OpDataRegion i r) db = set_data_region flt now i r db"
| "identity_write flt now (OpState i s) db = set_state flt now i s db"
| "identity_write flt now (OpPlan i p) db = set_plan flt now i p db"
| "identity_write flt now (OpRateLimits i a b) db = set_rate_limits flt now i a b db"
| "identity_write flt now (OpEncryption i b) db = set_encryption flt now i b db"

fun identity_writes :: "(faults \<times> time \<times> identity_op) list \<Rightarrow> identity_db \<Rightarrow> identity_db" where
  "identity_writes [] db = db"
| "identity_writes ((flt, now, op) # ws) db =
     identity_writes ws (case identity_write flt now op db of Inl _ \<Rightarrow> db | Inr db' \<Rightarrow> db')"

lemma identity_write_ok [preserve]:
  assumes "identity_ok db" "identity_write flt now op db = Inr db'"
  shows "identity_ok db'"
proof (cases op)
  case (OpUpsertTenant t)
  with assms show ?thesis by (auto intro: upsert_tenant_ok)
next
  case (OpState i s)
  with assms show ?thesis
    by (auto simp: set_state_def tr_id_def tr_slug_def on_master_def intro!: on_tenant_ok split: if_splits)
qed (use assms in \<open>auto simp: create_user_def create_user_sso_def update_password_hash_def update_sso_fields_def
       update_user_role_def set_data_region_def set_plan_def set_rate_limits_def set_encryption_def
       tr_id_def tr_slug_def on_master_def
     intro: insert_user_ok intro!: on_user_ok on_tenant_ok split: if_splits\<close>)

lemma identity_writes_ok: "identity_ok db \<Longrightarrow> identity_ok (identity_writes ws db)"
proof (induction ws db rule: identity_writes.induct)
  case (2 flt now op ws db)
  then show ?case by (cases "identity_write flt now op db") (simp_all add: identity_write_ok)
qed simp

lemma unique_user: "identity_ok db \<Longrightarrow> u \<in> set (idb_users db) \<Longrightarrow> v \<in> set (idb_users db) \<Longrightarrow>
    us_email u = us_email v \<Longrightarrow> u = v"
  by (metis identity_ok_def option.inject tbl_find_unique)

lemma unique_slug: "identity_ok db \<Longrightarrow> r \<in> set (idb_tenants db) \<Longrightarrow> q \<in> set (idb_tenants db) \<Longrightarrow>
    tr_slug r = tr_slug q \<Longrightarrow> r = q"
  by (metis identity_ok_def option.inject tbl_find_unique)

definition fresh_install :: identity_db where
  "fresh_install = \<lparr>idb_users = [], idb_tenants =
     [\<lparr>tr_tenant = \<lparr>tm_id = ''default'', tm_name = ''Default Tenant'', tm_slug = ''default'', tm_deployment_mode = ''cloud'',
         tm_industry_type = ''general'', tm_default_currency = ''USD'', tm_timezone = ''UTC'', tm_estimation_mode = ''balanced'',
         tm_created_at = zero_time, tm_updated_at = zero_time, tm_plan = ''trial'', tm_state = ''active'', tm_owner_email = [],
         tm_suspended_at = None, tm_disabled_at = None, tm_ingest_rate_per_min = 0, tm_query_rate_per_min = 0,
         tm_max_incidents = 0, tm_max_events = 0, tm_encryption_enabled = False, tm_audit_retain_days = 90,
         tm_data_region = ''us''\<rparr>, tr_ingest_rate_min = None, tr_query_rate_min = None\<rparr>], idb_throttled = []\<rparr>"

lemma fresh_install_ok: "identity_ok fresh_install"
  by (simp add: identity_ok_def fresh_install_def pk_def)

section \<open>Properties\<close>

text \<open>After any sequence of writes to the user and tenant stores, whichever of their statements fail, from
  the tables of a fresh installation, no two users share an email address and no two tenants a slug.\<close>

theorem identity_unique:
  "let db = identity_writes ws fresh_install in
   (\<forall>u \<in> set (idb_users db). \<forall>v \<in> set (idb_users db). us_email u = us_email v \<longrightarrow> u = v) \<and>
   (\<forall>r \<in> set (idb_tenants db). \<forall>q \<in> set (idb_tenants db). tr_slug r = tr_slug q \<longrightarrow> r = q)"
  unfolding Let_def using identity_writes_ok[OF fresh_install_ok, of ws]
  by (blast intro: unique_user unique_slug)

end
