(* ===== verification/Tokens.thy ===== *)
theory Tokens
  imports GoJson AgentAuth Users
begin

text \<open>
  Tokens and passwords: \<open>GenerateToken\<close> and \<open>VerifyToken\<close> of \<open>internal/middleware/jwt_auth.go\<close> (HS256 with
  the standard library's HMAC, base64 and JSON written out), and the password helpers of
  \<open>internal/handlers/auth_handler.go\<close> (PBKDF2-HMAC-SHA256, and the older salted SHA-256 form). The salt of
  a new hash is an argument: sixteen bytes of \<open>crypto/rand\<close>, or \<open>None\<close> when reading them fails.
\<close>

section \<open>base64.RawURLEncoding\<close>

definition b64_char :: "nat \<Rightarrow> char" where
  "b64_char v = (if v < 26 then char_of (65 + v) else if v < 52 then char_of (71 + v)
     else if v < 62 then char_of (v - 4) else if v = 62 then CHR ''-'' else CHR ''_'')"

definition b64_value :: "char \<Rightarrow> nat option" where
  "b64_value c = (let n = ord c in
     if 65 \<le> n \<and> n \<le> 90 then Some (n - 65) else if 97 \<le> n \<and> n \<le> 122 then Some (n - 71)
     else if 48 \<le> n \<and> n \<le> 57 then Some (n + 4) else if c = CHR ''-'' then Some 62
     else if c = CHR ''_'' then Some 63 else None)"

fun b64_encode :: "nat list \<Rightarrow> string" where
  "b64_encode [] = []"
| "b64_encode [a] = (let v = a * 65536 in map b64_char [v div 262144 mod 64, v div 4096 mod 64])"
| "b64_encode [a, b] = (let v = a * 65536 + b * 256 in
     map b64_char [v div 262144 mod 64, v div 4096 mod 64, v div 64 mod 64])"
| "b64_encode (a # b # c # r) = (let v = a * 65536 + b * 256 + c in
     map b64_char [v div 262144 mod 64, v div 4096 mod 64, v div 64 mod 64, v mod 64]) @ b64_encode r"

fun b64_quanta :: "nat list \<Rightarrow> nat list option" where
  "b64_quanta [] = Some []"
| "b64_quanta [a] = None"
| "b64_quanta [a, b] = (let v = a * 262144 + b * 4096 in Some [v div 65536 mod 256])"
| "b64_quanta [a, b, c] = (let v = a * 262144 + b * 4096 + c * 64 in Some [v div 65536 mod 256, v div 256 mod 256])"
| "b64_quanta (a # b # c # d # r) = (let v = a * 262144 + b * 4096 + c * 64 + d in
     map_option (\<lambda>bs. [v div 65536 mod 256, v div 256 mod 256, v mod 256] @ bs) (b64_quanta r))"

text \<open>The decoder skips line breaks and does not check the unused bits of the last character.\<close>

definition b64_decode :: "string \<Rightarrow> nat list option" where
  "b64_decode s =
    (let cs = filter (\<lambda>c. ord c \<noteq> 10 \<and> ord c \<noteq> 13) s in
     if \<exists>c \<in> set cs. b64_value c = None then None else b64_quanta (map (\<lambda>c. the (b64_value c)) cs))"

section \<open>Claims\<close>

record TokenClaims =
  tc_user_id :: string
  tc_tenant_id :: string
  tc_role :: string
  tc_is_service_acct :: bool
  tc_api_key_id :: string
  tc_scopes :: "string list"
  tc_exp :: int
  tc_iat :: int

definition claims_zero :: TokenClaims where
  "claims_zero = \<lparr>tc_user_id = [], tc_tenant_id = [], tc_role = [], tc_is_service_acct = False,
     tc_api_key_id = [], tc_scopes = [], tc_exp = 0, tc_iat = 0\<rparr>"

text \<open>What \<open>Marshal\<close> makes of the struct; the three \<open>omitempty\<close> fields are left out when empty.\<close>

definition claims_json :: "TokenClaims \<Rightarrow> jval" where
  "claims_json c = VObj
    ([(''sub'', VStr (tc_user_id c)), (''tenant_id'', VStr (tc_tenant_id c)), (''role'', VStr (tc_role c))] @
     (if tc_is_service_acct c then [(''is_sa'', VBool True)] else []) @
     (if tc_api_key_id c = [] then [] else [(''key_id'', VStr (tc_api_key_id c))]) @
     (if tc_scopes c = [] then [] else [(''scopes'', VArr (map VStr (tc_scopes c)))]) @
     [(''exp'', VNum (show_int (tc_exp c))), (''iat'', VNum (show_int (tc_iat c)))])"

text \<open>\<open>Unmarshal\<close> into the struct. A key names a field up to case, where the long s and the Kelvin sign
  fold to letters; a null leaves a field as it is, and sets a slice to nil; a value of another type is an
  error, reported at the end. \<open>spare\<close> is the memory behind the slice, which a second array reuses.\<close>

fun fold_key :: "string \<Rightarrow> string" where
  "fold_key [] = []"
| "fold_key [c] = [upper_char c]"
| "fold_key [c, d] = (if ord c = 0xC5 \<and> ord d = 0xBF then ''S'' else upper_char c # fold_key [d])"
| "fold_key (c # d # e # s) =
    (if ord c = 0xC5 \<and> ord d = 0xBF then CHR ''S'' # fold_key (e # s)
     else if ord c = 0xE2 \<and> ord d = 0x84 \<and> ord e = 0xAA then CHR ''K'' # fold_key s
     else upper_char c # fold_key (d # e # s))"

declare fold_key.simps [simp del]

record claims_state =
  cl_claims :: TokenClaims
  cl_spare :: "string list"
  cl_ok :: bool

definition put_field ::
    "(jval \<Rightarrow> 'a option) \<Rightarrow> ('a \<Rightarrow> TokenClaims \<Rightarrow> TokenClaims) \<Rightarrow> jval \<Rightarrow> claims_state \<Rightarrow> claims_state" where
  "put_field get put v st =
    (if v = VNull then st
     else (case get v of None \<Rightarrow> st\<lparr>cl_ok := False\<rparr> | Some x \<Rightarrow> st\<lparr>cl_claims := put x (cl_claims st)\<rparr>))"

fun as_string :: "jval \<Rightarrow> string option" where
  "as_string (VStr s) = Some s" | "as_string _ = None"
fun as_bool :: "jval \<Rightarrow> bool option" where
  "as_bool (VBool b) = Some b" | "as_bool _ = None"
fun as_int64 :: "jval \<Rightarrow> int option" where
  "as_int64 (VNum n) = parse_int64 n" | "as_int64 _ = None"

fun fill_strings :: "jval list \<Rightarrow> string list \<Rightarrow> (string list \<times> bool)" where
  "fill_strings [] old = ([], True)"
| "fill_strings (v # vs) old =
    (let o1 = (case old of [] \<Rightarrow> [] | x # _ \<Rightarrow> x);
         (rest, ok) = fill_strings vs (tl old)
     in case v of VStr s \<Rightarrow> (s # rest, ok) | VNull \<Rightarrow> (o1 # rest, ok) | _ \<Rightarrow> (o1 # rest, False))"

definition put_scopes :: "jval \<Rightarrow> claims_state \<Rightarrow> claims_state" where
  "put_scopes v st =
    (case v of
       VNull \<Rightarrow> st\<lparr>cl_claims := (cl_claims st)\<lparr>tc_scopes := []\<rparr>, cl_spare := []\<rparr>
     | VArr vs \<Rightarrow>
        (let (xs, ok) = fill_strings vs (cl_spare st) in
         st\<lparr>cl_claims := (cl_claims st)\<lparr>tc_scopes := xs\<rparr>,
            cl_spare := (if vs = [] then [] else xs @ drop (length xs) (cl_spare st)), cl_ok := cl_ok st \<and> ok\<rparr>)
     | _ \<Rightarrow> st\<lparr>cl_ok := False\<rparr>)"

definition put_member :: "claims_state \<Rightarrow> string \<times> jval \<Rightarrow> claims_state" where
  "put_member st kv =
    (let k = fold_key (fst kv); v = snd kv in
     if k = ''SUB'' then put_field as_string (\<lambda>x c. c\<lparr>tc_user_id := x\<rparr>) v st
     else if k = ''TENANT_ID'' then put_field as_string (\<lambda>x c. c\<lparr>tc_tenant_id := x\<rparr>) v st
     else if k = ''ROLE'' then put_field as_string (\<lambda>x c. c\<lparr>tc_role := x\<rparr>) v st
     else if k = ''IS_SA'' then put_field as_bool (\<lambda>x c. c\<lparr>tc_is_service_acct := x\<rparr>) v st
     else if k = ''KEY_ID'' then put_field as_string (\<lambda>x c. c\<lparr>tc_api_key_id := x\<rparr>) v st
     else if k = ''SCOPES'' then put_scopes v st
     else if k = ''EXP'' then put_field as_int64 (\<lambda>x c. c\<lparr>tc_exp := x\<rparr>) v st
     else if k = ''IAT'' then put_field as_int64 (\<lambda>x c. c\<lparr>tc_iat := x\<rparr>) v st
     else st)"

definition claims_of_json :: "jval \<Rightarrow> TokenClaims option" where
  "claims_of_json v =
    (case v of
       VNull \<Rightarrow> Some claims_zero
     | VObj ms \<Rightarrow>
        (let st = foldl put_member \<lparr>cl_claims = claims_zero, cl_spare = [], cl_ok = True\<rparr> ms
         in if cl_ok st then Some (cl_claims st) else None)
     | _ \<Rightarrow> None)"

definition unmarshal_claims :: "string \<Rightarrow> TokenClaims option" where
  "unmarshal_claims s = (case parse_json s of None \<Rightarrow> None | Some v \<Rightarrow> claims_of_json v)"

section \<open>Tokens\<close>

definition jwt_header :: jval where
  "jwt_header = VObj [(''alg'', VStr ''HS256''), (''typ'', VStr ''JWT'')]"

definition compute_hmac :: "string \<Rightarrow> string \<Rightarrow> nat list" where
  "compute_hmac input secret = hmac_sha256 secret input"

definition generate_token :: "TokenClaims \<Rightarrow> string \<Rightarrow> string" where
  "generate_token claims secret =
    (let header = b64_encode (byte_list (print_json jwt_header));
         payload = b64_encode (byte_list (print_json (claims_json claims)));
         signingInput = header @ ''.'' @ payload
     in signingInput @ ''.'' @ b64_encode (compute_hmac signingInput secret))"

definition verify_token :: "time \<Rightarrow> string \<Rightarrow> string \<Rightarrow> TokenClaims result" where
  "verify_token now token secret =
    (case split_char (CHR ''.'') token of
       [header, payload, sig] \<Rightarrow>
        (let signingInput = header @ ''.'' @ payload in
         if b64_encode (compute_hmac signingInput secret) \<noteq> sig then Inl (ErrMsg ''jwt: invalid signature'')
         else (case b64_decode payload of
            None \<Rightarrow> Inl (ErrMsg ''jwt: decode payload: '')
          | Some bytes \<Rightarrow>
             (case unmarshal_claims (map char_of bytes) of
                None \<Rightarrow> Inl (ErrMsg ''jwt: unmarshal claims: '')
              | Some claims \<Rightarrow>
                 if 0 < tc_exp claims \<and> tc_exp claims < unix now then Inl (ErrMsg ''jwt: token expired'')
                 else Inr claims)))
     | _ \<Rightarrow> Inl (ErrMsg ''jwt: malformed token''))"

definition extract_bearer_token :: "string \<Rightarrow> string result" where
  "extract_bearer_token auth =
    (if auth = [] then Inl (ErrMsg ''no Authorization header'')
     else if \<not> has_prefix auth ''Bearer '' then Inl (ErrMsg (''Authorization header must start with '' @ [CHR 0x27] @ ''Bearer '' @ [CHR 0x27]))
     else if drop 7 auth = [] then Inl (ErrMsg ''empty bearer token'')
     else Inr (drop 7 auth))"

section \<open>Passwords\<close>

text \<open>\<open>pbkdf2Key\<close>: one block of PBKDF2.\<close>

fun pbkdf2_rounds :: "nat \<Rightarrow> string \<Rightarrow> nat list \<Rightarrow> nat list \<Rightarrow> nat list" where
  "pbkdf2_rounds 0 password prev dk = dk"
| "pbkdf2_rounds (Suc i) password prev dk =
    (let curr = hmac_sha256 password (map char_of prev)
     in pbkdf2_rounds i password curr (map2 xor_byte dk curr))"

definition pbkdf2_key :: "string \<Rightarrow> string \<Rightarrow> nat \<Rightarrow> nat \<Rightarrow> nat list" where
  "pbkdf2_key password salt iterations keyLen =
    (let dk = hmac_sha256 password (salt @ map char_of [0, 0, 0, 1 :: nat])
     in take keyLen (pbkdf2_rounds (iterations - 1) password dk dk))"

fun hex_decode :: "string \<Rightarrow> nat list option" where
  "hex_decode [] = Some []"
| "hex_decode [c] = None"
| "hex_decode (c # d # s) =
    (case (hex_value c, hex_value d, hex_decode s) of
       (Some a, Some b, Some bs) \<Rightarrow> Some ((16 * a + b) # bs)
     | _ \<Rightarrow> None)"

text \<open>\<open>strings.SplitN(s, sep, 2)\<close> when it has two parts.\<close>

definition split_first :: "char \<Rightarrow> string \<Rightarrow> (string \<times> string) option" where
  "split_first sep s =
    (case dropWhile (\<lambda>c. c \<noteq> sep) s of [] \<Rightarrow> None | _ # r \<Rightarrow> Some (takeWhile (\<lambda>c. c \<noteq> sep) s, r))"

definition hash_password :: "string option \<Rightarrow> string \<Rightarrow> string option" where
  "hash_password salt password =
    (case salt of None \<Rightarrow> None
     | Some s \<Rightarrow> Some (''pbkdf2:'' @ hex_bytes (byte_list s) @ '':'' @ hex_bytes (pbkdf2_key password s 10000 32)))"

definition check_password :: "string \<Rightarrow> string \<Rightarrow> bool" where
  "check_password password stored =
    (if has_prefix stored ''pbkdf2:'' then
       (case split_first (CHR '':'') (drop 7 stored) of
          None \<Rightarrow> False
        | Some (saltHex, hashHex) \<Rightarrow>
           (case hex_decode saltHex of
              None \<Rightarrow> False
            | Some salt \<Rightarrow>
               (case hex_decode hashHex of
                  None \<Rightarrow> False
                | Some storedHash \<Rightarrow> pbkdf2_key password (map char_of salt) 10000 32 = storedHash)))
     else
       (case split_first (CHR '':'') stored of
          None \<Rightarrow> False
        | Some (saltHex, storedHash) \<Rightarrow> hex_bytes (sha256 (saltHex @ password)) = storedHash))"

section \<open>Lemmas\<close>

subsection \<open>base64\<close>

lemma b64_value_char: "v < 64 \<Longrightarrow> b64_value (b64_char v) = Some v"
  by (auto simp: b64_value_def b64_char_def ord_char_of Let_def)

lemma b64_char_plain: "v < 64 \<Longrightarrow> b64_char v \<noteq> CHR ''.'' \<and> ord (b64_char v) \<noteq> 10 \<and> ord (b64_char v) \<noteq> 13"
  using b64_value_char[of v] by (auto simp: b64_value_def Let_def split: if_splits)

lemma b64_encode_chars: "\<forall>c \<in> set (b64_encode bs). \<exists>v < 64. c = b64_char v"
proof (induction bs rule: b64_encode.induct)
  case (2 a)
  show ?case by (simp only: b64_encode.simps Let_def list.set list.map ball_simps) (metis mod_less_divisor zero_less_numeral)
next
  case (3 a b)
  show ?case by (simp only: b64_encode.simps Let_def list.set list.map ball_simps) (metis mod_less_divisor zero_less_numeral)
next
  case (4 a b c r)
  show ?case
    by (simp only: b64_encode.simps Let_def list.set list.map ball_simps set_append ball_Un)
      (use 4 in \<open>metis mod_less_divisor zero_less_numeral\<close>)
qed simp

lemma regroup:
  fixes v :: nat
  assumes "v < 16777216"
  shows "v div 262144 mod 64 * 262144 + v div 4096 mod 64 * 4096 + v div 64 mod 64 * 64 + v mod 64 = v"
proof -
  have d: "v div 4096 = v div 64 div 64" "v div 262144 = v div 64 div 64 div 64" by (simp_all add: div_mult2_eq[symmetric])
  have "v div 64 * 64 + v mod 64 = v" "v div 64 div 64 * 64 + v div 64 mod 64 = v div 64"
    "v div 64 div 64 div 64 * 64 + v div 64 div 64 mod 64 = v div 64 div 64" by (simp_all only: div_mult_mod_eq)
  moreover have "v div 64 div 64 div 64 mod 64 = v div 64 div 64 div 64"
    using assms by (intro mod_less) (simp add: div_mult2_eq[symmetric] less_mult_imp_div_less)
  ultimately show ?thesis unfolding d by linarith
qed

lemma bytes_of:
  fixes a b c :: nat
  assumes "a < 256" "b < 256" "c < 256"
  shows "(a * 65536 + b * 256 + c) div 65536 mod 256 = a" "(a * 65536 + b * 256 + c) div 256 mod 256 = b"
    "(a * 65536 + b * 256 + c) mod 256 = c"
proof -
  have "(a * 65536 + b * 256 + c) div 256 = a * 256 + b"
    using assms by (intro div_nat_eqI) auto
  moreover have "(a * 65536 + b * 256 + c) div 65536 = a"
    using assms by (intro div_nat_eqI) auto
  moreover have "(a * 65536 + b * 256 + c) mod 256 = c mod 256"
    using mod_mult_self1[of c "a * 256 + b" 256] by (simp add: algebra_simps)
  moreover have "(a * 256 + b) mod 256 = b mod 256" by simp
  ultimately show "(a * 65536 + b * 256 + c) div 65536 mod 256 = a" "(a * 65536 + b * 256 + c) div 256 mod 256 = b"
    "(a * 65536 + b * 256 + c) mod 256 = c"
    using assms by simp_all
qed

definition b64_digits :: "string \<Rightarrow> nat list" where
  "b64_digits s = map (\<lambda>c. the (b64_value c)) s"

lemma b64_digits_char: "\<forall>v \<in> set vs. v < 64 \<Longrightarrow> b64_digits (map b64_char vs) = vs"
  by (induction vs) (simp_all add: b64_digits_def b64_value_char)

lemma b64_digits_append: "b64_digits (s @ t) = b64_digits s @ b64_digits t"
  by (simp add: b64_digits_def)

lemma quanta_encode: "\<forall>b \<in> set bs. b < 256 \<Longrightarrow> b64_quanta (b64_digits (b64_encode bs)) = Some bs"
proof (induction bs rule: b64_encode.induct)
  case 1
  show ?case by (simp add: b64_digits_def)
next
  case (2 a)
  define v where "v = a * 65536"
  have e: "b64_digits (b64_encode [a]) = [v div 262144 mod 64, v div 4096 mod 64]"
    unfolding b64_encode.simps Let_def v_def by (rule b64_digits_char) simp
  have "v div 64 mod 64 = 0" "v mod 64 = 0" by (simp_all add: v_def)
  then have "v div 262144 mod 64 * 262144 + v div 4096 mod 64 * 4096 = v"
    using regroup[of v] 2 by (simp add: v_def)
  then show ?case unfolding e using bytes_of(1)[of a 0 0] 2 by (simp only: b64_quanta.simps Let_def v_def) simp
next
  case (3 a b)
  define v where "v = a * 65536 + b * 256"
  have e: "b64_digits (b64_encode [a, b]) = [v div 262144 mod 64, v div 4096 mod 64, v div 64 mod 64]"
    unfolding b64_encode.simps Let_def v_def by (rule b64_digits_char) simp
  have "v = 64 * (a * 1024 + b * 4)" by (simp add: v_def)
  then have "v mod 64 = 0" by (metis mod_mult_self1_is_0)
  then have "v div 262144 mod 64 * 262144 + v div 4096 mod 64 * 4096 + v div 64 mod 64 * 64 = v"
    using regroup[of v] 3 by (simp add: v_def)
  moreover have "v div 65536 mod 256 = a" "v div 256 mod 256 = b"
    using bytes_of(1,2)[of a b 0] 3 by (simp_all only: v_def add_0_right) simp_all
  ultimately show ?case unfolding e by (simp only: b64_quanta.simps Let_def)
next
  case (4 a b c r)
  define v where "v = a * 65536 + b * 256 + c"
  have e: "b64_digits (b64_encode (a # b # c # r)) =
      [v div 262144 mod 64, v div 4096 mod 64, v div 64 mod 64, v mod 64] @ b64_digits (b64_encode r)"
    unfolding b64_encode.simps Let_def v_def b64_digits_append by (subst b64_digits_char) simp_all
  have "v div 262144 mod 64 * 262144 + v div 4096 mod 64 * 4096 + v div 64 mod 64 * 64 + v mod 64 = v"
    using 4(2) by (intro regroup) (simp add: v_def)
  moreover have "v div 65536 mod 256 = a" "v div 256 mod 256 = b" "v mod 256 = c"
    using bytes_of[of a b c] 4(2) by (simp_all only: v_def) simp_all
  moreover have "b64_quanta (b64_digits (b64_encode r)) = Some r" using 4 by simp
  ultimately show ?case unfolding e
    by (simp only: append_Cons append_Nil b64_quanta.simps Let_def option.map)
qed

lemma filter_all: "\<forall>x \<in> set xs. p x \<Longrightarrow> filter p xs = xs"
  by simp

lemma b64_roundtrip: "\<forall>b \<in> set bs. b < 256 \<Longrightarrow> b64_decode (b64_encode bs) = Some bs"
proof -
  assume b: "\<forall>b \<in> set bs. b < 256"
  let ?s = "b64_encode bs"
  have "(ord c \<noteq> 10 \<and> ord c \<noteq> 13) \<and> b64_value c \<noteq> None" if "c \<in> set ?s" for c
  proof -
    from that obtain v where "v < 64" "c = b64_char v" using b64_encode_chars by blast
    then show ?thesis using b64_char_plain b64_value_char by simp
  qed
  then have f: "filter (\<lambda>c. ord c \<noteq> 10 \<and> ord c \<noteq> 13) ?s = ?s" and v: "\<not> (\<exists>c \<in> set ?s. b64_value c = None)"
    by (simp_all add: filter_all)
  have "b64_decode ?s = b64_quanta (b64_digits ?s)"
    unfolding b64_decode_def Let_def b64_digits_def f if_not_P[OF v] ..
  with quanta_encode[OF b] show ?thesis by simp
qed

lemma byte_list_small: "\<forall>b \<in> set (byte_list s). b < 256"
  by (simp add: byte_list_def)

lemma char_byte_list [simp]: "map char_of (byte_list s) = s"
  by (simp add: byte_list_def o_def)

subsection \<open>Claims\<close>

lemma split_no_sep: "\<forall>c \<in> set s. \<not> p c \<Longrightarrow> split_pred p s = [s]"
  by (induction s) simp_all

lemma split_at: "\<forall>c \<in> set s. \<not> p c \<Longrightarrow> p d \<Longrightarrow> split_pred p (s @ d # t) = s # split_pred p t"
  by (induction s) (simp_all split: list.splits)

lemma split_token:
  assumes "CHR ''.'' \<notin> set h" "CHR ''.'' \<notin> set p" "CHR ''.'' \<notin> set g"
  shows "split_char (CHR ''.'') ((h @ ''.'' @ p) @ ''.'' @ g) = [h, p, g]"
proof -
  have "split_char (CHR ''.'') (h @ CHR ''.'' # p @ CHR ''.'' # g) = [h, p, g]"
    unfolding split_char_def using assms
    by (subst split_at, blast, simp, subst split_at, blast, simp) (auto intro!: split_no_sep)
  then show ?thesis by simp
qed

lemma b64_no_dot: "CHR ''.'' \<notin> set (b64_encode bs)"
proof
  assume "CHR ''.'' \<in> set (b64_encode bs)"
  then obtain v where "v < 64" "b64_char v = CHR ''.''" using b64_encode_chars by metis
  then show False using b64_char_plain by metis
qed

definition claims_ascii :: "TokenClaims \<Rightarrow> bool" where
  "claims_ascii c \<longleftrightarrow> ascii (tc_user_id c) \<and> ascii (tc_tenant_id c) \<and> ascii (tc_role c) \<and> ascii (tc_api_key_id c) \<and>
     (\<forall>s \<in> set (tc_scopes c). ascii s) \<and>
     - (2 ^ 63) \<le> tc_exp c \<and> tc_exp c < 2 ^ 63 \<and> - (2 ^ 63) \<le> tc_iat c \<and> tc_iat c < 2 ^ 63"

lemma elems_ok_strings: "\<forall>s \<in> set ss. ascii s \<Longrightarrow> elems_ok (map VStr ss) \<and> elems_depth (map VStr ss) = 0"
  by (induction ss) simp_all

lemma claims_json_ok: "claims_ascii c \<Longrightarrow> json_ok (claims_json c) \<and> json_depth (claims_json c) \<le> 2"
  using elems_ok_strings[of "tc_scopes c"] by (simp add: claims_ascii_def claims_json_def show_int_literal)

lemma parse_show_int: "- (2 ^ 63) \<le> i \<Longrightarrow> i < 2 ^ 63 \<Longrightarrow> parse_int64 (show_int i) = Some i"
proof -
  assume i: "- (2 ^ 63) \<le> i" "i < 2 ^ 63"
  have d: "list_all is_digit (show_nat n)" for n using show_nat_digits by (simp add: list_all_iff)
  have "hd (show_nat n) \<noteq> CHR ''-'' \<and> hd (show_nat n) \<noteq> CHR ''+''" for n
    using show_nat_digits[of n] by (cases "show_nat n") (auto simp: is_digit_def)
  then show ?thesis using i d
    by (cases "i < 0") (simp_all add: parse_int64_def show_int_def Let_def read_show_nat le_nat_iff)
qed

lemma fill_all: "fill_strings (map VStr ss) old = (ss, True)"
  by (induction ss arbitrary: old) (simp_all add: Let_def)

lemma fold_keys [simp]:
  "fold_key ''sub'' = ''SUB''" "fold_key ''tenant_id'' = ''TENANT_ID''" "fold_key ''role'' = ''ROLE''"
  "fold_key ''is_sa'' = ''IS_SA''" "fold_key ''key_id'' = ''KEY_ID''" "fold_key ''scopes'' = ''SCOPES''"
  "fold_key ''exp'' = ''EXP''" "fold_key ''iat'' = ''IAT''"
  by code_simp+

lemma put_members [simp]:
  "put_member st (''sub'', v) = put_field as_string (\<lambda>x c. c\<lparr>tc_user_id := x\<rparr>) v st"
  "put_member st (''tenant_id'', v) = put_field as_string (\<lambda>x c. c\<lparr>tc_tenant_id := x\<rparr>) v st"
  "put_member st (''role'', v) = put_field as_string (\<lambda>x c. c\<lparr>tc_role := x\<rparr>) v st"
  "put_member st (''is_sa'', v) = put_field as_bool (\<lambda>x c. c\<lparr>tc_is_service_acct := x\<rparr>) v st"
  "put_member st (''key_id'', v) = put_field as_string (\<lambda>x c. c\<lparr>tc_api_key_id := x\<rparr>) v st"
  "put_member st (''scopes'', v) = put_scopes v st"
  "put_member st (''exp'', v) = put_field as_int64 (\<lambda>x c. c\<lparr>tc_exp := x\<rparr>) v st"
  "put_member st (''iat'', v) = put_field as_int64 (\<lambda>x c. c\<lparr>tc_iat := x\<rparr>) v st"
  by (simp_all add: put_member_def)

lemma claims_roundtrip: "claims_ascii c \<Longrightarrow> claims_of_json (claims_json c) = Some c"
proof -
  assume a: "claims_ascii c"
  have put: "put_field as_int64 f (VNum (show_int i)) st = st\<lparr>cl_claims := f i (cl_claims st)\<rparr>"
    if "- (2 ^ 63) \<le> i" "i < 2 ^ 63" for f i st
    using parse_show_int[OF that] by (simp add: put_field_def)
  have s: "put_field as_string f (VStr x) st = st\<lparr>cl_claims := f x (cl_claims st)\<rparr>" for f x st
    by (simp add: put_field_def)
  have b: "put_field as_bool f (VBool x) st = st\<lparr>cl_claims := f x (cl_claims st)\<rparr>" for f x st
    by (simp add: put_field_def)
  show ?thesis
    using a by (cases c) (auto simp: claims_of_json_def claims_json_def claims_ascii_def put s b put_scopes_def fill_all
        claims_zero_def Let_def)
qed

lemma unmarshal_claims_json: "claims_ascii c \<Longrightarrow> unmarshal_claims (print_json (claims_json c)) = Some c"
  using claims_json_ok[of c] claims_roundtrip[of c] parse_print[of "claims_json c"]
  by (simp add: unmarshal_claims_def)

lemma verify_generate:
  assumes "claims_ascii c"
  shows "verify_token now (generate_token c secret) secret =
    (if 0 < tc_exp c \<and> tc_exp c < unix now then Inl (ErrMsg ''jwt: token expired'') else Inr c)"
proof -
  let ?h = "b64_encode (byte_list (print_json jwt_header))" and ?p = "b64_encode (byte_list (print_json (claims_json c)))"
  let ?g = "b64_encode (compute_hmac (?h @ ''.'' @ ?p) secret)"
  have t: "generate_token c secret = (?h @ ''.'' @ ?p) @ ''.'' @ ?g"
    by (simp only: generate_token_def Let_def)
  have sp: "split_char (CHR ''.'') ((?h @ ''.'' @ ?p) @ ''.'' @ ?g) = [?h, ?p, ?g]"
    by (intro split_token b64_no_dot)
  have d: "b64_decode ?p = Some (byte_list (print_json (claims_json c)))"
    by (intro b64_roundtrip byte_list_small)
  show ?thesis
    unfolding t verify_token_def sp using d unmarshal_claims_json[OF assms] by simp
qed

text \<open>What an accepted token shows.\<close>

lemma verify_token_Inr:
  "verify_token now token secret = Inr c \<longleftrightarrow>
    (\<exists>header payload bytes. split_char (CHR ''.'') token =
        [header, payload, b64_encode (compute_hmac (header @ ''.'' @ payload) secret)] \<and>
      b64_decode payload = Some bytes \<and> unmarshal_claims (map char_of bytes) = Some c \<and>
      \<not> (0 < tc_exp c \<and> tc_exp c < unix now))"
  by (auto simp: verify_token_def Let_def split: list.splits option.splits if_splits)

subsection \<open>Passwords\<close>

lemma hex_decode_bytes: "\<forall>b \<in> set bs. b < 256 \<Longrightarrow> hex_decode (hex_bytes bs) = Some bs"
proof (induction bs)
  case (Cons b bs)
  then have "hex_value (hex_digit (b div 16)) = Some (b div 16)" "hex_value (hex_digit (b mod 16)) = Some (b mod 16)"
    using hex_value_char[of "b div 16"] hex_value_char[of "b mod 16"]
    by (simp_all add: less_mult_imp_div_less)
  with Cons show ?case by (simp add: hex_bytes_def)
qed (simp add: hex_bytes_def)

lemma hex_no_colon: "\<forall>b \<in> set bs. b < 256 \<Longrightarrow> CHR '':'' \<notin> set (hex_bytes bs)"
proof -
  assume b: "\<forall>b \<in> set bs. b < 256"
  have "hex_digit d \<noteq> CHR '':'' " if "d < 16" for d
  proof
    assume "hex_digit d = CHR '':''"
    then have "ord (hex_digit d) = 58" by simp
    with that show False by (simp add: hex_digit_def ord_char_of split: if_splits)
  qed
  note digit = this
  have "CHR '':'' \<noteq> hex_digit (x div 16) \<and> CHR '':'' \<noteq> hex_digit (x mod 16)" if "x \<in> set bs" for x
  proof -
    have "x div 16 < 16" using b that by (simp add: less_mult_imp_div_less)
    moreover have "x mod 16 < 16" by simp
    ultimately show ?thesis using digit by metis
  qed
  then show ?thesis by (auto simp: hex_bytes_def)
qed

lemma split_first_app: "c \<notin> set s \<Longrightarrow> split_first c (s @ c # t) = Some (s, t)"
  by (auto simp: split_first_def takeWhile_append dropWhile_append)

lemma xor_byte_small: "xor_byte a b < 256"
  using unsigned_less[of "semiring_bit_operations_class.xor (of_nat a) (of_nat b) :: 8 word", where 'a = nat] by (simp add: xor_byte_def)

lemma sha256_bytes_small: "\<forall>b \<in> set (sha256_bytes bs). b < 256"
  by (auto simp: sha256_bytes_def Let_def dest: be_bytes_bound)

lemma pbkdf2_rounds_small: "\<forall>b \<in> set dk. b < 256 \<Longrightarrow> \<forall>b \<in> set (pbkdf2_rounds i password prev dk). b < 256"
proof (induction i arbitrary: prev dk)
  case (Suc i)
  have "\<forall>b \<in> set (map2 xor_byte dk curr). b < 256" for curr by (auto simp: xor_byte_small)
  then show ?case using Suc.IH unfolding pbkdf2_rounds.simps Let_def by blast
qed simp

lemma pbkdf2_key_small: "\<forall>b \<in> set (pbkdf2_key password salt n k). b < 256"
proof -
  have "\<forall>b \<in> set (hmac_sha256 password m). b < 256" for m
    unfolding hmac_sha256_def Let_def by (rule sha256_bytes_small)
  then show ?thesis
    using pbkdf2_rounds_small unfolding pbkdf2_key_def Let_def by (meson in_set_takeD)
qed

lemma check_hash:
  "hash_password (Some salt) password = Some h \<Longrightarrow>
   check_password p h = (pbkdf2_key p salt 10000 32 = pbkdf2_key password salt 10000 32)"
proof -
  assume "hash_password (Some salt) password = Some h"
  then have h: "h = ''pbkdf2:'' @ hex_bytes (byte_list salt) @ CHR '':'' # hex_bytes (pbkdf2_key password salt 10000 32)"
    by (simp add: hash_password_def)
  have s: "split_first (CHR '':'') (hex_bytes (byte_list salt) @ CHR '':'' # hex_bytes (pbkdf2_key password salt 10000 32)) =
      Some (hex_bytes (byte_list salt), hex_bytes (pbkdf2_key password salt 10000 32))"
    by (intro split_first_app hex_no_colon byte_list_small)
  show ?thesis
    using hex_decode_bytes[OF byte_list_small[of salt]] hex_decode_bytes[OF pbkdf2_key_small[of password salt 10000 32]]
    unfolding check_password_def h by (simp add: s)
qed

lemma check_password_empty: "\<not> check_password p []"
  by (simp add: check_password_def split_first_def)

section \<open>Properties\<close>

text \<open>C28: a token that was made for some claims verifies to exactly those claims with the secret it was made with, until the
  second after its expiry, and never after. The claims' texts are ASCII.\<close>

theorem token_roundtrip:
  assumes "claims_ascii c"
  shows "verify_token now (generate_token c secret) secret = Inr c \<longleftrightarrow> tc_exp c \<le> 0 \<or> unix now \<le> tc_exp c"
  using verify_generate[OF assms, of now secret] by auto

theorem token_roundtrip_witness:
  "verify_token 0 (generate_token (claims_zero\<lparr>tc_user_id := ''u1'', tc_exp := 60\<rparr>) ''s'') ''s'' =
      Inr (claims_zero\<lparr>tc_user_id := ''u1'', tc_exp := 60\<rparr>)"
  using token_roundtrip[of "claims_zero\<lparr>tc_user_id := ''u1'', tc_exp := 60\<rparr>" 0 "''s''"]
  by (simp add: claims_ascii_def claims_zero_def unix_def)

text \<open>A password is checked against the hash of a password exactly by comparing the two derived keys, whatever the salt,
  so a password always passes its own hash.\<close>

theorem password_check_exact:
  "hash_password (Some salt) password = Some h \<longrightarrow>
    check_password p h = (pbkdf2_key p salt 10000 32 = pbkdf2_key password salt 10000 32) \<and> check_password password h"
  using check_hash[of salt password h] by blast

end
