(* ===== verification/AuthApi.thy ===== *)
theory AuthApi
  imports Tokens Replies
begin

text \<open>
  \<open>internal/handlers/auth_handler.go\<close>: signing up, logging in, and who am I. The claims of a request are those
  the authentication middleware has put there: \<open>register_route\<close> is mounted without it
  (\<open>internal/routes/auth_routes.go\<close>), so a request that comes in over the network has none. The three places
  where \<open>Register\<close> asks whether a tenant exists have faults of their own. The random bytes of a salt and of a
  user ID are arguments; work handed to other goroutines is recorded in the order it is started.
\<close>

section \<open>Requests\<close>

record http_request =
  hq_claims :: "TokenClaims option"
  hq_tenant_header :: string      \<comment> \<open>\<open>X-Tenant-ID\<close>\<close>
  hq_tenant_query :: string       \<comment> \<open>\<open>tenant_id\<close>\<close>

record LoginRequest =
  lr_email :: string
  lr_password :: string

record RegisterRequest =
  su_email :: string
  su_password :: string
  su_role :: string
  su_tenant_id :: string
  su_data_region :: string

record auth_env =
  ae_secret :: string
  ae_region :: string
  ae_provisioner :: bool
  ae_processor :: bool

datatype auth_effect =
    AuditLogin string string string   \<comment> \<open>tenant, user, email\<close>
  | SeedDemo string

record auth_state =
  as_db :: identity_db
  as_effects :: "auth_effect list"

text \<open>\<open>TenantFromRequest\<close> of \<open>internal/middleware/tenant.go\<close>, and its strict form.\<close>

definition claims_tenant :: "http_request \<Rightarrow> string" where
  "claims_tenant r = (case hq_claims r of None \<Rightarrow> [] | Some c \<Rightarrow> tc_tenant_id c)"

definition tenant_from_request :: "http_request \<Rightarrow> string" where
  "tenant_from_request r =
    (if claims_tenant r \<noteq> [] then claims_tenant r
     else if hq_tenant_header r \<noteq> [] then hq_tenant_header r
     else if hq_tenant_query r \<noteq> [] then hq_tenant_query r
     else ''default'')"

definition tenant_from_request_strict :: "http_request \<Rightarrow> string option" where
  "tenant_from_request_strict r = (if claims_tenant r \<noteq> [] then Some (claims_tenant r) else None)"

section \<open>Tokens for users\<close>

definition jwt_ttl_seconds :: int where "jwt_ttl_seconds = 86400"

definition user_claims :: "time \<Rightarrow> User \<Rightarrow> TokenClaims" where
  "user_claims now u = claims_zero\<lparr>tc_user_id := us_id u, tc_tenant_id := us_tenant_id u, tc_role := us_role u,
     tc_iat := unix now, tc_exp := unix now + jwt_ttl_seconds\<rparr>"

definition issue_token :: "auth_env \<Rightarrow> time \<Rightarrow> User \<Rightarrow> string" where
  "issue_token env now u = generate_token (user_claims now u) (ae_secret env)"

text \<open>The JSON of a user leaves out the hash of the password.\<close>

definition user_json :: "User \<Rightarrow> User" where "user_json u = u\<lparr>us_password_hash := []\<rparr>"

section \<open>Login\<close>

definition migrate_hash :: "faults \<Rightarrow> time \<Rightarrow> string option \<Rightarrow> string \<Rightarrow> User \<Rightarrow> identity_db \<Rightarrow> identity_db" where
  "migrate_hash flt now salt password u db =
    (if has_prefix (us_password_hash u) ''pbkdf2:'' then db
     else (case hash_password salt password of
         None \<Rightarrow> db
       | Some h \<Rightarrow> (case update_password_hash flt now (us_id u) h db of Inl _ \<Rightarrow> db | Inr db' \<Rightarrow> db')))"

definition login ::
    "auth_env \<Rightarrow> faults \<Rightarrow> time \<Rightarrow> string option \<Rightarrow> LoginRequest option \<Rightarrow> auth_state \<Rightarrow> (string \<times> User) reply \<times> auth_state" where
  "login env flt now salt body st =
    (case body of None \<Rightarrow> (refuse 400 ''invalid request body'', st)
     | Some req \<Rightarrow>
        (let email = to_lower (trim_space (lr_email req)) in
         if email = [] \<or> lr_password req = [] then (refuse 400 ''email and password are required'', st)
         else (case get_user_by_email flt email (as_db st) of
            None \<Rightarrow> (refuse 401 ''invalid credentials'', st)
          | Some u \<Rightarrow>
             if \<not> check_password (lr_password req) (us_password_hash u) then (refuse 401 ''invalid credentials'', st)
             else (Answered (issue_token env now u, user_json u),
               st\<lparr>as_db := migrate_hash flt now salt (lr_password req) u (as_db st),
                  as_effects := as_effects st @ [AuditLogin (us_tenant_id u) (us_id u) (us_email u)]\<rparr>))))"

section \<open>Registration\<close>

text \<open>The tenant a registration is for; \<open>None\<close> when a stranger names one that exists.\<close>

definition resolve_tenant :: "faults \<Rightarrow> http_request \<Rightarrow> RegisterRequest \<Rightarrow> identity_db \<Rightarrow> string option" where
  "resolve_tenant flt r req db =
    (case hq_claims r of
       Some c \<Rightarrow>
         Some (if su_tenant_id req \<noteq> [] \<and> tc_role c = RoleAdmin \<and> su_tenant_id req \<noteq> tc_tenant_id c
               then su_tenant_id req else tc_tenant_id c)
     | None \<Rightarrow>
        (let tenant = (if su_tenant_id req = [] then tenant_from_request r else su_tenant_id req) in
         if tenant \<noteq> [] \<and> tenant \<noteq> ''default'' \<and> tenant_exists (at_site ''conflict'' flt) tenant db then None
         else Some tenant))"

definition is_first_user :: "faults \<Rightarrow> http_request \<Rightarrow> string \<Rightarrow> identity_db \<Rightarrow> bool" where
  "is_first_user flt r tenant db =
    (count_users flt db = 0 \<or>
     (hq_claims r = None \<and> tenant \<noteq> [] \<and> tenant \<noteq> ''default'' \<and> \<not> tenant_exists (at_site ''signup'' flt) tenant db))"

definition effective_role :: "bool \<Rightarrow> string \<Rightarrow> string" where
  "effective_role first role =
    (let r = (if first then RoleAdmin else role) in if valid_role r then r else RoleOperator)"

definition caller_is_admin :: "http_request \<Rightarrow> bool" where
  "caller_is_admin r = (case hq_claims r of None \<Rightarrow> False | Some c \<Rightarrow> tc_role c = RoleAdmin)"

definition dashed :: "string \<Rightarrow> string" where
  "dashed s = map (\<lambda>c. if c = CHR '' '' then CHR ''-'' else c) s"

definition signup_tenant :: "auth_env \<Rightarrow> RegisterRequest \<Rightarrow> string \<Rightarrow> string \<Rightarrow> TenantMaster" where
  "signup_tenant env req email tenant =
    (let region = (if valid_region (su_data_region req) then su_data_region req else ae_region env) in
     \<lparr>tm_id = tenant, tm_name = tenant, tm_slug = to_lower (dashed tenant), tm_deployment_mode = [],
      tm_industry_type = [], tm_default_currency = [], tm_timezone = [], tm_estimation_mode = [],
      tm_created_at = zero_time, tm_updated_at = zero_time, tm_plan = ''trial'', tm_state = ''active'',
      tm_owner_email = email, tm_suspended_at = None, tm_disabled_at = None, tm_ingest_rate_per_min = 0,
      tm_query_rate_per_min = 0, tm_max_incidents = 0, tm_max_events = 0, tm_encryption_enabled = False,
      tm_audit_retain_days = 90, tm_data_region = (if region = [] then ''us'' else region)\<rparr>)"

definition provision_tenant :: "auth_env \<Rightarrow> faults \<Rightarrow> time \<Rightarrow> RegisterRequest \<Rightarrow> string \<Rightarrow> string \<Rightarrow> identity_db \<Rightarrow> identity_db" where
  "provision_tenant env flt now req email tenant db =
    (if ae_provisioner env \<and> tenant \<noteq> ''default'' \<and> get_state flt tenant db = ''active'' \<and>
        \<not> tenant_exists (at_site ''provision'' flt) tenant db
     then (case upsert_tenant flt now (signup_tenant env req email tenant) db of Inl _ \<Rightarrow> db | Inr db' \<Rightarrow> db')
     else db)"

definition new_user :: "string \<Rightarrow> string \<Rightarrow> string \<Rightarrow> string \<Rightarrow> string \<Rightarrow> User" where
  "new_user rnd tenant email h role =
    \<lparr>us_id = ''usr-'' @ hex_bytes (byte_list rnd), us_tenant_id = tenant, us_email = email, us_password_hash = h,
     us_role = role, us_sso_user_id = [], us_sso_provider_id = [], us_display_name = [], us_scim_external_id = [],
     us_created_at = zero_time, us_updated_at = zero_time\<rparr>"

definition register ::
    "auth_env \<Rightarrow> faults \<Rightarrow> time \<Rightarrow> string option \<Rightarrow> string \<Rightarrow> http_request \<Rightarrow> RegisterRequest option \<Rightarrow> auth_state \<Rightarrow>
     (string \<times> User) reply \<times> auth_state" where
  "register env flt now salt rnd r body st =
    (case body of None \<Rightarrow> (refuse 400 ''invalid request body'', st)
     | Some req \<Rightarrow>
        (let email = to_lower (trim_space (su_email req)); db = as_db st in
         if email = [] \<or> su_password req = [] then (refuse 400 ''email and password are required'', st)
         else if length (su_password req) < 8 then (refuse 400 ''password must be at least 8 characters'', st)
         else if email_exists flt email db then (refuse 409 ''email already registered'', st)
         else (case resolve_tenant flt r req db of
            None \<Rightarrow> (refuse 409 ''tenant already exists'', st)
          | Some tenant \<Rightarrow>
             (let first = is_first_user flt r tenant db; role = effective_role first (su_role req) in
              if role = RoleAdmin \<and> \<not> first \<and> \<not> caller_is_admin r
              then (refuse 403 ''only admins can create admin accounts'', st)
              else (case hash_password salt (su_password req) of
                 None \<Rightarrow> (refuse 500 ''failed to hash password'', st)
               | Some h \<Rightarrow>
                  (let db1 = provision_tenant env flt now req email tenant db;
                       u = new_user rnd tenant email h role
                   in case create_user flt now u db1 of
                       Inl _ \<Rightarrow> (refuse 500 ''failed to create user'', st\<lparr>as_db := db1\<rparr>)
                     | Inr db2 \<Rightarrow>
                        (Answered (issue_token env now u, user_json u),
                         st\<lparr>as_db := db2, as_effects := as_effects st @
                           (if first \<and> ae_processor env then [SeedDemo tenant] else [])\<rparr>)))))))"

text \<open>The routes of \<open>registerAuthRoutes\<close> outside the authentication middleware.\<close>

definition register_route ::
    "auth_env \<Rightarrow> faults \<Rightarrow> time \<Rightarrow> string option \<Rightarrow> string \<Rightarrow> string \<Rightarrow> string \<Rightarrow> string \<Rightarrow> RegisterRequest option \<Rightarrow> auth_state \<Rightarrow>
     (string \<times> User) reply \<times> auth_state" where
  "register_route env flt now salt rnd meth header query body st =
    (if meth = ''POST'' then
       register env flt now salt rnd \<lparr>hq_claims = None, hq_tenant_header = header, hq_tenant_query = query\<rparr> body st
     else (refuse 405 ''method not allowed'', st))"

definition login_route ::
    "auth_env \<Rightarrow> faults \<Rightarrow> time \<Rightarrow> string option \<Rightarrow> string \<Rightarrow> LoginRequest option \<Rightarrow> auth_state \<Rightarrow>
     (string \<times> User) reply \<times> auth_state" where
  "login_route env flt now salt meth body st =
    (if meth = ''POST'' then login env flt now salt body st else (refuse 405 ''method not allowed'', st))"

definition me :: "faults \<Rightarrow> http_request \<Rightarrow> identity_db \<Rightarrow> User reply" where
  "me flt r db =
    (case hq_claims r of
       None \<Rightarrow> refuse 401 ''no auth claims''
     | Some c \<Rightarrow> (case get_user_by_id flt (tc_user_id c) db of
          None \<Rightarrow> refuse 404 ''user not found'' | Some u \<Rightarrow> Answered (user_json u)))"

section \<open>The demonstration incidents\<close>

definition demo_event ::
    "nat \<Rightarrow> time \<Rightarrow> string \<Rightarrow> string \<Rightarrow> string \<Rightarrow> string \<Rightarrow> string \<Rightarrow> string \<Rightarrow> string \<Rightarrow> string \<Rightarrow> smap \<Rightarrow> int \<Rightarrow> Event" where
  "demo_event k now tenant src svc resource severity ty title msg labels ago = event_zero\<lparr>
     ev_id := ''demo-'' @ show_nat k @ ''-'' @ show_int now, ev_tenant_id := tenant, ev_source := src,
     ev_external_id := ''demo-ext-'' @ show_nat k @ ''-'' @ show_int now, ev_service := svc, ev_resource := resource,
     ev_environment := ''production'', ev_severity := severity, ev_type := ty, ev_title := title, ev_message := msg,
     ev_labels := labels, ev_timestamp := now - ago * minute, ev_ingest_schema := ''webhook''\<rparr>"

definition demo_labels :: "string \<Rightarrow> string \<Rightarrow> smap" where
  "demo_labels k v = [(''demo'', ''true''), (''env'', ''production''), (k, v)]"

definition demo_events :: "time \<Rightarrow> string \<Rightarrow> Event list" where
  "demo_events now tenant =
    [demo_event 1 now tenant ''prometheus'' ''checkout-api'' ''checkout-api-pod-1'' ''critical'' ''error_rate''
       ''[Demo] High error rate on checkout-api''
       ''Error rate exceeded 5% threshold. 847 errors in the last 5 minutes. P99 latency: 2.3s.''
       (demo_labels ''team'' ''platform'') 8,
     demo_event 2 now tenant ''datadog'' ''checkout-api'' ''checkout-api-pod-2'' ''high'' ''latency''
       ''[Demo] P99 latency spike on checkout-api''
       ''P99 latency spiked to 4.1s (normal: 120ms). Database connection pool at 94%.''
       (demo_labels ''team'' ''platform'') 7,
     demo_event 3 now tenant ''prometheus'' ''payment-service'' ''payment-service'' ''high'' ''availability''
       ''[Demo] Payment service unhealthy''
       ''Health check failing. 3/5 replicas reporting errors. Possible database connection exhaustion.''
       (demo_labels ''team'' ''payments'') 12,
     demo_event 4 now tenant ''github'' ''auth-service'' ''auth-service-v2.3.1'' ''medium'' ''deployment''
       ''[Demo] auth-service v2.3.1 deployed''
       ''Deployment triggered 3 minutes before latency spike. Possible regression in connection pooling.''
       (demo_labels ''version'' ''v2.3.1'') 15]"

section \<open>Lemmas\<close>

lemma create_user_Inr: "create_user flt now u db = Inr db' \<longleftrightarrow>
    \<not> flt ''CreateUser'' \<and> \<not> tbl_has us_email (us_email u) (idb_users db) \<and> \<not> tbl_has us_id (us_id u) (idb_users db) \<and>
    db' = db\<lparr>idb_users := idb_users db @ [(basic_columns u)\<lparr>us_created_at := now, us_updated_at := now\<rparr>]\<rparr>"
  by (auto simp: create_user_def insert_user_Inr)

lemma provision_users [simp, frame]: "idb_users (provision_tenant env flt now req email tenant db) = idb_users db"
  by (auto simp: provision_tenant_def upsert_tenant_def guard_db_def split: sum.splits if_splits)

lemma provision_ok [preserve]: "identity_ok db \<Longrightarrow> identity_ok (provision_tenant env flt now req email tenant db)"
  by (auto simp: provision_tenant_def dest: upsert_tenant_ok split: sum.splits)

text \<open>Everything a successful registration has gone through.\<close>

lemma register_Answered:
  assumes "register env flt now salt rnd r body st = (Answered (tok, v), st')"
  obtains req email tenant h db1 where "body = Some req" "email = to_lower (trim_space (su_email req))"
    "email \<noteq> []" "su_password req \<noteq> []" "8 \<le> length (su_password req)" "\<not> email_exists flt email (as_db st)"
    "resolve_tenant flt r req (as_db st) = Some tenant"
    "effective_role (is_first_user flt r tenant (as_db st)) (su_role req) = RoleAdmin \<Longrightarrow>
       is_first_user flt r tenant (as_db st) \<or> caller_is_admin r"
    "hash_password salt (su_password req) = Some h"
    "db1 = provision_tenant env flt now req email tenant (as_db st)"
    "create_user flt now (new_user rnd tenant email h (effective_role (is_first_user flt r tenant (as_db st)) (su_role req))) db1 =
       Inr (as_db st')"
    "tok = issue_token env now (new_user rnd tenant email h (effective_role (is_first_user flt r tenant (as_db st)) (su_role req)))"
    "v = user_json (new_user rnd tenant email h (effective_role (is_first_user flt r tenant (as_db st)) (su_role req)))"
proof (cases body)
  case None
  with assms show thesis by (simp add: register_def)
next
  case (Some req)
  note b = Some
  show thesis
  proof (cases "resolve_tenant flt r req (as_db st)")
    case None
    with assms b show thesis by (simp add: register_def Let_def split: if_splits)
  next
    case (Some tenant)
    note t = Some
    show thesis
    proof (cases "hash_password salt (su_password req)")
      case None
      with assms b t show thesis by (simp add: register_def Let_def split: if_splits)
    next
      case (Some h)
      note h = Some
      let ?email = "to_lower (trim_space (su_email req))"
      let ?role = "effective_role (is_first_user flt r tenant (as_db st)) (su_role req)"
      let ?db1 = "provision_tenant env flt now req ?email tenant (as_db st)"
      show thesis
      proof (cases "create_user flt now (new_user rnd tenant ?email h ?role) ?db1")
        case (Inl e)
        with assms b t h show thesis by (simp add: register_def Let_def split: if_splits)
      next
        case (Inr db2)
        have facts: "?email \<noteq> [] \<and> su_password req \<noteq> [] \<and> 8 \<le> length (su_password req) \<and>
            \<not> email_exists flt ?email (as_db st) \<and>
            (?role = RoleAdmin \<longrightarrow> is_first_user flt r tenant (as_db st) \<or> caller_is_admin r) \<and>
            tok = issue_token env now (new_user rnd tenant ?email h ?role) \<and>
            v = user_json (new_user rnd tenant ?email h ?role) \<and> as_db st' = db2"
          using assms b t h Inr by (auto simp: register_def Let_def not_less split: if_splits)
        show thesis by (rule that[OF b HOL.refl _ _ _ _ t _ h HOL.refl]) (use facts Inr in simp_all)
      qed
    qed
  qed
qed

lemma new_user_simps [simp]:
  "us_email (new_user rnd tenant email h role) = email" "us_tenant_id (new_user rnd tenant email h role) = tenant"
  "us_role (new_user rnd tenant email h role) = role" "us_password_hash (new_user rnd tenant email h role) = h"
  "us_id (new_user rnd tenant email h role) = ''usr-'' @ hex_bytes (byte_list rnd)"
  "basic_columns (new_user rnd tenant email h role) = new_user rnd tenant email h role"
  by (simp_all add: new_user_def basic_columns_def)

lemma user_json_simps [simp]:
  "us_id (user_json u) = us_id u" "us_email (user_json u) = us_email u" "us_tenant_id (user_json u) = us_tenant_id u"
  "us_role (user_json u) = us_role u" "us_password_hash (user_json u) = []"
  by (simp_all add: user_json_def)

lemma resolve_stranger:
  "hq_claims r = None \<Longrightarrow> resolve_tenant flt r req db = Some tenant \<Longrightarrow>
   tenant = (if su_tenant_id req = [] then tenant_from_request r else su_tenant_id req) \<and> tenant \<noteq> [] \<and>
   (tenant = ''default'' \<or> \<not> tenant_exists (at_site ''conflict'' flt) tenant db)"
  by (auto simp: resolve_tenant_def Let_def tenant_from_request_def claims_tenant_def split: if_splits)

lemma tenant_exists_site: "tenant_exists (at_site site flt) i db \<longleftrightarrow>
    \<not> flt (site @ ''/TenantExists'') \<and> tbl_has tr_id i (idb_tenants db)"
  by (simp add: tenant_exists_def at_site_def)

lemma effective_role_valid: "valid_role (effective_role first role)"
  by (simp add: effective_role_def Let_def valid_role_iff)

lemma ascii_hex: "ascii (hex_bytes (byte_list s))"
proof -
  have "is_hex_char c \<Longrightarrow> ord c < 128" for c by (auto simp: is_hex_char_def is_digit_def)
  then show ?thesis using hex_bytes_ok[OF byte_list_small[of s]] by (auto simp: ascii_def)
qed

lemma ascii_append [simp]: "ascii (s @ t) \<longleftrightarrow> ascii s \<and> ascii t"
  by (auto simp: ascii_def)

lemma valid_role_ascii: "valid_role r \<Longrightarrow> ascii r"
  by (auto simp: valid_role_iff RoleAdmin_def RoleOperator_def RoleViewer_def)

lemma user_claims_ascii:
  assumes "ascii (us_id u)" "ascii (us_tenant_id u)" "ascii (us_role u)" "0 \<le> unix now" "unix now < 2 ^ 62"
  shows "claims_ascii (user_claims now u)"
  using assms by (simp add: claims_ascii_def user_claims_def claims_zero_def jwt_ttl_seconds_def)

lemma issued_token_verifies:
  assumes "ascii (us_id u)" "ascii (us_tenant_id u)" "ascii (us_role u)" "0 \<le> unix now" "unix now < 2 ^ 62"
    "unix later \<le> unix now + jwt_ttl_seconds"
  shows "verify_token later (issue_token env now u) (ae_secret env) = Inr (user_claims now u)"
  using verify_generate[OF user_claims_ascii[OF assms(1-5)]] assms(6)
  by (simp add: issue_token_def user_claims_def)

lemma migrated_hash_prefix: "hash_password salt p = Some h \<Longrightarrow> has_prefix h ''pbkdf2:''"
  by (auto simp: hash_password_def split: option.splits)

lemma login_known:
  assumes "tbl_find us_email (to_lower (trim_space (lr_email req))) (idb_users (as_db st)) = Some u"
    "\<not> flt ''GetUserByEmail''" "to_lower (trim_space (lr_email req)) \<noteq> []" "lr_password req \<noteq> []"
    "check_password (lr_password req) (us_password_hash u)" "has_prefix (us_password_hash u) ''pbkdf2:''"
  shows "login env flt now salt (Some req) st =
    (Answered (issue_token env now (basic_columns u), user_json (basic_columns u)),
     st\<lparr>as_effects := as_effects st @ [AuditLogin (us_tenant_id u) (us_id u) (us_email u)]\<rparr>)"
  using assms by (simp add: login_def Let_def get_user_by_email_def migrate_hash_def)

text \<open>A registration that passes the checks, step by step.\<close>

lemma register_fresh:
  assumes "resolve_tenant flt r req (as_db st) = Some tenant" "trim_space (su_email req) \<noteq> []" "8 \<le> length (su_password req)"
    "\<not> flt ''CreateUser''"
    "\<forall>u \<in> set (idb_users (as_db st)). us_email u \<noteq> to_lower (trim_space (su_email req)) \<and>
      us_id u \<noteq> ''usr-'' @ hex_bytes (byte_list rnd)"
    "role = effective_role (is_first_user flt r tenant (as_db st)) (su_role req)"
    "role = RoleAdmin \<Longrightarrow> is_first_user flt r tenant (as_db st) \<or> caller_is_admin r"
  shows "\<exists>h tok st'. hash_password (Some salt) (su_password req) = Some h \<and>
    register env flt now (Some salt) rnd r (Some req) st =
      (Answered (tok, user_json (new_user rnd tenant (to_lower (trim_space (su_email req))) h role)), st') \<and>
    idb_tenants (as_db st') =
      idb_tenants (provision_tenant env flt now req (to_lower (trim_space (su_email req))) tenant (as_db st))"
proof -
  let ?e = "to_lower (trim_space (su_email req))"
  obtain h where h: "hash_password (Some salt) (su_password req) = Some h" by (simp add: hash_password_def)
  have fresh: "\<not> tbl_has us_email ?e (idb_users (as_db st))"
    "\<not> tbl_has us_id (''usr-'' @ hex_bytes (byte_list rnd)) (idb_users (as_db st))"
    using assms(5) by (auto simp: tbl_has_iff)
  have "su_password req \<noteq> []" "\<not> length (su_password req) < 8" using assms(3) by auto
  moreover have "\<not> (role = RoleAdmin \<and> \<not> is_first_user flt r tenant (as_db st) \<and> \<not> caller_is_admin r)"
    using assms(7) by blast
  ultimately show ?thesis
    using assms(1,2,4) fresh h
    by (simp add: register_def Let_def email_exists_def create_user_def insert_user_def tbl_insert_def assms(6)[symmetric])
qed

section \<open>Properties\<close>

lemma registered_tenant:
  assumes "register_route env flt now salt rnd meth header query body st = (Answered (tok, v), st')"
    "\<not> flt ''conflict/TenantExists''"
  shows "us_tenant_id v \<noteq> ''default'' \<longrightarrow> \<not> tbl_has tr_id (us_tenant_id v) (idb_tenants (as_db st))"
proof -
  let ?r = "\<lparr>hq_claims = None, hq_tenant_header = header, hq_tenant_query = query\<rparr>"
  have "register env flt now salt rnd ?r body st = (Answered (tok, v), st')"
    using assms(1) by (simp add: register_route_def split: if_splits)
  then show ?thesis
  proof (rule register_Answered)
    fix req email tenant h db1
    assume t: "resolve_tenant flt ?r req (as_db st) = Some tenant"
      and v: "v = user_json (new_user rnd tenant email h (effective_role (is_first_user flt ?r tenant (as_db st)) (su_role req)))"
    have "tenant = ''default'' \<or> \<not> tenant_exists (at_site ''conflict'' flt) tenant (as_db st)"
      using resolve_stranger[of ?r, OF _ t] by auto
    with assms(2) v show ?thesis by (auto simp: tenant_exists_site)
  qed
qed

text \<open>C29: who signs up over the network joins the tenant \<open>default\<close> or a tenant that did not exist, whatever the
  request says and whichever other statements fail, as long as the first look at the tenants does not.\<close>

theorem signup_isolated:
  assumes "register_route env flt now salt rnd meth header query body st = (Answered (tok, v), st')"
    and "\<not> flt ''conflict/TenantExists''"
  shows "us_tenant_id v = ''default'' \<or>
    (\<forall>t \<in> set (idb_tenants (as_db st)). tr_id t \<noteq> us_tenant_id v)"
  using registered_tenant[OF assms] by (auto simp: tbl_has_iff)

text \<open>C30: an account is made administrator only by an administrator's token, as the first account of the system, or by a
  stranger in a tenant other than \<open>default\<close> that has no row, provided the counts of users and of tenants do not fail. The
  last case is not limited to the first account of that tenant: while the tenant stays without a row, as it does when its
  slug is taken, every stranger who signs up for it becomes administrator.\<close>

theorem admin_needs_authority:
  assumes "register env flt now salt rnd r body st = (Answered (tok, v), st')" and "us_role v = RoleAdmin"
    and "\<not> flt ''CountUsers''" and "\<not> flt ''signup/TenantExists''"
  shows "caller_is_admin r \<or> idb_users (as_db st) = [] \<or>
    (hq_claims r = None \<and> us_tenant_id v \<noteq> ''default'' \<and>
     (\<forall>t \<in> set (idb_tenants (as_db st)). tr_id t \<noteq> us_tenant_id v))"
  using assms(1)
proof (rule register_Answered)
  fix req email tenant h db1
  let ?role = "effective_role (is_first_user flt r tenant (as_db st)) (su_role req)"
  assume role: "?role = RoleAdmin \<Longrightarrow> is_first_user flt r tenant (as_db st) \<or> caller_is_admin r"
    and v: "v = user_json (new_user rnd tenant email h ?role)"
  from v assms(2) role have "is_first_user flt r tenant (as_db st) \<or> caller_is_admin r" by simp
  with assms(3,4) v show ?thesis
    by (auto simp: is_first_user_def count_users_def tenant_exists_site tbl_has_iff)
qed

text \<open>C31: a count of the users that fails is taken for zero, so that while it fails anyone who signs up in the tenant
  \<open>default\<close> becomes its administrator, however many users there are.\<close>

theorem failed_count_grants_admin:
  assumes "\<And>op. flt op = (op = ''CountUsers'')"
    and "su_tenant_id req = ''default''" and "8 \<le> length (su_password req)" and "trim_space (su_email req) \<noteq> []"
    and "\<forall>u \<in> set (idb_users (as_db st)). us_email u \<noteq> to_lower (trim_space (su_email req)) \<and>
      us_id u \<noteq> ''usr-'' @ hex_bytes (byte_list rnd)"
  shows "\<exists>tok v st'. register_route env flt now (Some salt) rnd ''POST'' header query (Some req) st = (Answered (tok, v), st') \<and>
    us_tenant_id v = ''default'' \<and> us_role v = RoleAdmin"
proof -
  let ?r = "\<lparr>hq_claims = None, hq_tenant_header = header, hq_tenant_query = query\<rparr>"
  have t: "resolve_tenant flt ?r req (as_db st) = Some ''default''" using assms(2) by (simp add: resolve_tenant_def)
  have f: "is_first_user flt ?r ''default'' (as_db st)" using assms(1) by (simp add: is_first_user_def count_users_def)
  have role: "RoleAdmin = effective_role (is_first_user flt ?r ''default'' (as_db st)) (su_role req)"
    using f by (simp add: effective_role_def valid_role_iff)
  show ?thesis
    using register_fresh[OF t assms(4,3) _ assms(5) role, of salt env now] f assms(1) by (auto simp: register_route_def)
qed

text \<open>A tenant whose name reduces to the slug of another tenant never gets a row. Each stranger who signs up for it
  becomes an administrator, and the tenants stay as they are, so the next one does too.\<close>

theorem slug_collision_leaves_tenant_open:
  assumes "t \<in> set (idb_tenants (as_db st))" and "tr_slug t = to_lower (dashed (su_tenant_id req))"
    and "\<forall>q \<in> set (idb_tenants (as_db st)). tr_id q \<noteq> su_tenant_id req"
    and "su_tenant_id req \<noteq> []" and "su_tenant_id req \<noteq> ''default''"
    and "8 \<le> length (su_password req)" and "trim_space (su_email req) \<noteq> []"
    and "\<forall>u \<in> set (idb_users (as_db st)). us_email u \<noteq> to_lower (trim_space (su_email req)) \<and>
      us_id u \<noteq> ''usr-'' @ hex_bytes (byte_list rnd)"
  shows "\<exists>tok v st'. register_route env no_faults now (Some salt) rnd ''POST'' header query (Some req) st = (Answered (tok, v), st') \<and>
    us_tenant_id v = su_tenant_id req \<and> us_role v = RoleAdmin \<and> idb_tenants (as_db st') = idb_tenants (as_db st)"
proof -
  let ?r = "\<lparr>hq_claims = None, hq_tenant_header = header, hq_tenant_query = query\<rparr>"
  let ?T = "su_tenant_id req" and ?e = "to_lower (trim_space (su_email req))"
  have new: "\<not> tbl_has tr_id ?T (idb_tenants (as_db st))" using assms(3) by (auto simp: tbl_has_iff)
  have r: "resolve_tenant no_faults ?r req (as_db st) = Some ?T"
    using assms(4) new by (simp add: resolve_tenant_def tenant_exists_def)
  have f: "is_first_user no_faults ?r ?T (as_db st)"
    using assms(4,5) new by (simp add: is_first_user_def tenant_exists_def)
  have role: "RoleAdmin = effective_role (is_first_user no_faults ?r ?T (as_db st)) (su_role req)"
    using f by (simp add: effective_role_def valid_role_iff)
  have slug: "tm_slug (signup_tenant env req ?e ?T) = tr_slug t" "tm_id (signup_tenant env req ?e ?T) = ?T"
    using assms(2) by (simp_all add: signup_tenant_def Let_def)
  have "\<exists>q \<in> set (idb_tenants (as_db st)). tr_slug q = tr_slug t \<and> tr_id q \<noteq> ?T"
    using assms(1,3) by blast
  then have "upsert_tenant no_faults now (signup_tenant env req ?e ?T) (as_db st) = Inl ErrUnique"
    unfolding upsert_tenant_def slug by simp
  then have "provision_tenant env no_faults now req ?e ?T (as_db st) = as_db st"
    by (simp add: provision_tenant_def)
  then show ?thesis
    using register_fresh[OF r assms(7,6) _ assms(8) role, of salt env now] f by (auto simp: register_route_def)
qed

text \<open>C32: who has signed up can log in: the same address and password are answered with a token that verifies, until it
  expires, to the identifier, the tenant and the role of the new account, and the login leaves the tables as they are.\<close>

theorem signup_then_login:
  assumes "register env flt now (Some salt) rnd r (Some req) st = (Answered (tok, v), st')"
    and "ascii (us_tenant_id v)" and "0 \<le> unix now'" and "unix now' < 2 ^ 62" and "unix later \<le> unix now' + 86400"
  shows "\<exists>tok' w st''. login env no_faults now' salt' (Some \<lparr>lr_email = su_email req, lr_password = su_password req\<rparr>) st' =
      (Answered (tok', w), st'') \<and> as_db st'' = as_db st' \<and>
    verify_token later tok' (ae_secret env) = Inr (user_claims now' v)"
  using assms(1)
proof (rule register_Answered)
  fix req' :: RegisterRequest and email tenant h db1
  let ?role = "effective_role (is_first_user flt r tenant (as_db st)) (su_role req')"
  let ?u = "new_user rnd tenant email h ?role"
  assume req: "Some req = Some req'" and email: "email = to_lower (trim_space (su_email req'))" "email \<noteq> []"
    and pw: "su_password req' \<noteq> []" and h: "hash_password (Some salt) (su_password req') = Some h"
    and c: "create_user flt now ?u db1 = Inr (as_db st')" and v: "v = user_json ?u"
  define row where "row = ?u\<lparr>us_created_at := now, us_updated_at := now\<rparr>"
  have "\<not> tbl_has us_email email (idb_users db1)" and us: "idb_users (as_db st') = idb_users db1 @ [row]"
    using c by (auto simp: create_user_Inr row_def)
  then have "tbl_find us_email email (idb_users db1) = None" by (simp add: tbl_find_None)
  then have find: "tbl_find us_email email (idb_users (as_db st')) = Some row"
    by (simp add: us tbl_find_append row_def)
  have ok: "check_password (su_password req') (us_password_hash row)" "has_prefix (us_password_hash row) ''pbkdf2:''"
    using check_hash[OF h, of "su_password req'"] migrated_hash_prefix[OF h] by (simp_all add: row_def)
  have cl: "user_claims now' (basic_columns row) = user_claims now' v"
    by (simp add: user_claims_def v row_def)
  have "verify_token later (issue_token env now' (basic_columns row)) (ae_secret env) = Inr (user_claims now' (basic_columns row))"
    using assms(2-5) v ascii_hex[of rnd] valid_role_ascii[OF effective_role_valid]
    by (intro issued_token_verifies) (simp_all add: row_def jwt_ttl_seconds_def)
  then show ?thesis
    using login_known[where req = "\<lparr>lr_email = su_email req, lr_password = su_password req\<rparr>" and st = st' and u = row
        and flt = no_faults and env = env and now = now' and salt = salt'] find ok email pw req cl
    by simp
qed

text \<open>A login is answered only for a stored address whose hash the password matches, with a token for that user. It
  changes at most the hash of that user, and the password still matches it.\<close>

theorem login_checks_password:
  assumes "login env flt now salt (Some req) st = (Answered (tok, v), st')"
  shows "\<exists>u h. u \<in> set (idb_users (as_db st)) \<and> us_email u = to_lower (trim_space (lr_email req)) \<and>
    check_password (lr_password req) (us_password_hash u) \<and> check_password (lr_password req) h \<and>
    tok = issue_token env now u \<and> us_id v = us_id u \<and>
    (idb_users (as_db st') = idb_users (as_db st) \<or>
     idb_users (as_db st') = map (\<lambda>x. if us_id x = us_id u then x\<lparr>us_password_hash := h, us_updated_at := now\<rparr> else x)
       (idb_users (as_db st)))"
proof -
  from assms obtain u where u: "tbl_find us_email (to_lower (trim_space (lr_email req))) (idb_users (as_db st)) = Some u"
    and ok: "check_password (lr_password req) (us_password_hash u)"
    and tv: "tok = issue_token env now (basic_columns u)" "v = user_json (basic_columns u)"
    and st': "as_db st' = migrate_hash flt now salt (lr_password req) (basic_columns u) (as_db st)"
    by (auto simp: login_def Let_def get_user_by_email_def split: if_splits option.splits)
  have tok: "tok = issue_token env now u" using tv by (simp add: issue_token_def user_claims_def)
  show ?thesis
  proof (cases "as_db st' = as_db st")
    case True
    with u ok tok tv show ?thesis by (intro exI[of _ u] exI[of _ "us_password_hash u"]) (auto dest: tbl_find_Some)
  next
    case False
    then obtain s h where s: "salt = Some s" "hash_password (Some s) (lr_password req) = Some h"
      and db: "as_db st' = on_user (\<lambda>x. us_id x = us_id u) now (\<lambda>x. x\<lparr>us_password_hash := h\<rparr>) (as_db st)"
      using st' by (cases salt) (auto simp: migrate_hash_def hash_password_def update_password_hash_def guard_db_def
          split: if_splits)
    have "idb_users (as_db st') = map (\<lambda>x. if us_id x = us_id u then x\<lparr>us_password_hash := h, us_updated_at := now\<rparr> else x)
       (idb_users (as_db st))"
      by (simp add: db on_user_def tbl_update_def)
    with u ok tok tv check_hash[OF s(2)] show ?thesis
      by (intro exI[of _ u] exI[of _ h]) (auto dest: tbl_find_Some)
  qed
qed

section \<open>Examples\<close>

definition example_signup :: RegisterRequest where
  "example_signup = \<lparr>su_email = ''Ann@acme.io'', su_password = ''correct horse'', su_role = ''viewer'', su_tenant_id = ''acme'',
     su_data_region = ''eu''\<rparr>"

definition example_env :: auth_env where
  "example_env = \<lparr>ae_secret = ''secret'', ae_region = ''us'', ae_provisioner = True, ae_processor = True\<rparr>"

definition example_state :: auth_state where
  "example_state = \<lparr>as_db = fresh_install, as_effects = []\<rparr>"

definition stranger :: http_request where
  "stranger = \<lparr>hq_claims = None, hq_tenant_header = [], hq_tenant_query = []\<rparr>"

lemma example_facts:
  "resolve_tenant no_faults stranger example_signup (as_db example_state) = Some ''acme''"
  "is_first_user no_faults stranger ''acme'' (as_db example_state)"
  "idb_users (as_db example_state) = []" "trim_space (su_email example_signup) \<noteq> []"
  "8 \<le> length (su_password example_signup)"
  by (simp_all add: resolve_tenant_def stranger_def example_signup_def tenant_exists_def example_state_def
      fresh_install_def is_first_user_def count_users_def tbl_has_def tr_id_def trim_space_def trim_left_def is_space_def)

lemma example_registration:
  obtains tok v st' where
    "register example_env no_faults now (Some salt) rnd stranger (Some example_signup) example_state = (Answered (tok, v), st')"
    "us_role v = RoleAdmin" "us_tenant_id v = ''acme''"
proof -
  have role: "RoleAdmin = effective_role (is_first_user no_faults stranger ''acme'' (as_db example_state)) (su_role example_signup)"
    using example_facts(2) by (simp add: effective_role_def valid_role_iff)
  have fresh: "\<forall>u \<in> set (idb_users (as_db example_state)). us_email u \<noteq> to_lower (trim_space (su_email example_signup)) \<and>
      us_id u \<noteq> ''usr-'' @ hex_bytes (byte_list rnd)"
    by (simp add: example_facts(3))
  show thesis
    using register_fresh[OF example_facts(1,4,5) _ fresh role, of salt example_env now] example_facts(2) that by auto
qed

theorem signup_isolated_witness:
  "\<exists>tok v st'. register_route example_env no_faults 0 (Some ''salt'') ''rnd'' ''POST'' [] [] (Some example_signup) example_state =
      (Answered (tok, v), st') \<and>
    (us_tenant_id v = ''default'' \<or> (\<forall>t \<in> set (idb_tenants (as_db example_state)). tr_id t \<noteq> us_tenant_id v))"
proof -
  obtain tok v st' where "register example_env no_faults 0 (Some ''salt'') ''rnd'' stranger (Some example_signup) example_state =
      (Answered (tok, v), st')" by (rule example_registration)
  then have "register_route example_env no_faults 0 (Some ''salt'') ''rnd'' ''POST'' [] [] (Some example_signup) example_state =
      (Answered (tok, v), st')" by (simp add: register_route_def stranger_def)
  then show ?thesis using signup_isolated[of example_env no_faults] by (metis no_faults)
qed

theorem admin_needs_authority_witness:
  "\<exists>tok v st'. register example_env no_faults 0 (Some ''salt'') ''rnd'' stranger (Some example_signup) example_state =
      (Answered (tok, v), st') \<and> us_role v = RoleAdmin \<and>
    (caller_is_admin stranger \<or> idb_users (as_db example_state) = [] \<or>
      (hq_claims stranger = None \<and> us_tenant_id v \<noteq> ''default'' \<and>
       (\<forall>t \<in> set (idb_tenants (as_db example_state)). tr_id t \<noteq> us_tenant_id v)))"
proof -
  obtain tok v st' where r: "register example_env no_faults 0 (Some ''salt'') ''rnd'' stranger (Some example_signup) example_state =
      (Answered (tok, v), st')" "us_role v = RoleAdmin" by (rule example_registration)
  then show ?thesis using admin_needs_authority[OF r no_faults no_faults] by blast
qed

theorem failed_count_grants_admin_witness:
  "\<exists>tok v st'. register_route example_env (\<lambda>op. op = ''CountUsers'') 0 (Some ''salt'') ''rnd'' ''POST'' [] []
      (Some (example_signup\<lparr>su_tenant_id := ''default''\<rparr>)) example_state = (Answered (tok, v), st') \<and>
    us_tenant_id v = ''default'' \<and> us_role v = RoleAdmin"
  by (rule failed_count_grants_admin)
    (simp_all add: example_facts(3) example_signup_def trim_space_def trim_left_def is_space_def)

theorem slug_collision_witness:
  "\<exists>tok v st'. register_route example_env no_faults 0 (Some ''salt'') ''rnd'' ''POST'' [] []
      (Some (example_signup\<lparr>su_tenant_id := ''Default''\<rparr>)) example_state = (Answered (tok, v), st') \<and>
    us_tenant_id v = su_tenant_id (example_signup\<lparr>su_tenant_id := ''Default''\<rparr>) \<and> us_role v = RoleAdmin \<and>
    idb_tenants (as_db st') = idb_tenants (as_db example_state)"
proof -
  have "to_lower (dashed ''Default'') = ''default''" by code_simp
  then show ?thesis
    by (intro slug_collision_leaves_tenant_open[where t = "hd (idb_tenants fresh_install)"])
      (simp_all add: example_state_def fresh_install_def example_signup_def trim_space_def trim_left_def is_space_def tr_slug_def
        tr_id_def)
qed

theorem signup_then_login_witness:
  "\<exists>tok v st'. register example_env no_faults 0 (Some ''salt'') ''rnd'' stranger (Some example_signup) example_state =
      (Answered (tok, v), st') \<and>
    (\<exists>tok' w st''. login example_env no_faults 0 None
        (Some \<lparr>lr_email = su_email example_signup, lr_password = su_password example_signup\<rparr>) st' =
        (Answered (tok', w), st'') \<and> as_db st'' = as_db st' \<and>
      verify_token 0 tok' (ae_secret example_env) = Inr (user_claims 0 v))"
proof -
  obtain tok v st' where r: "register example_env no_faults 0 (Some ''salt'') ''rnd'' stranger (Some example_signup) example_state =
      (Answered (tok, v), st')" "us_tenant_id v = ''acme''" by (rule example_registration)
  have "ascii (us_tenant_id v)" "0 \<le> unix 0" "unix 0 < 2 ^ 62" "unix 0 \<le> unix 0 + 86400"
    by (simp_all add: r(2) unix_def)
  then show ?thesis using signup_then_login[OF r(1)] r(1) by blast
qed

end
