(* ===== verification/HttpGate.thy ===== *)
theory HttpGate
  imports AuthApi Float64
begin

text \<open>
  What a request passes before it reaches a handler: the chain \<open>withAuth\<close> of \<open>internal/routes/routes.go\<close> with its
  links \<open>middleware/jwt_auth.go\<close>, \<open>tenant_isolation.go\<close>, \<open>data_residency.go\<close> and \<open>tenant_rate_limit.go\<close>, the
  token buckets of \<open>platform/ratelimit/limiter.go\<close> with the loader \<open>cmd/server/main.go\<close> wires in, the role checks of
  \<open>middleware/rbac.go\<close>, and the limiter of the ingest routes, \<open>middleware/rate_limiter.go\<close>. One request reads the clock
  once. A map shared by the server's goroutines is part of the state; requests take effect one after the other.
  Floating-point arithmetic is that of a machine that does not fuse a product with a sum.
\<close>

section \<open>Outcomes\<close>

datatype gate_outcome =
    Preflight                              \<comment> \<open>204, answered by the CORS wrapper\<close>
  | Stopped nat string string              \<comment> \<open>status, message, code\<close>
  | Entered TokenClaims                    \<comment> \<open>the handler runs with these claims\<close>

section \<open>Tenant isolation\<close>

type_synonym ttl_cache = "string \<rightharpoonup> string \<times> time"

definition tenantStateTTL :: duration where "tenantStateTTL = 30 * second"

definition cached_state :: "time \<Rightarrow> (string \<Rightarrow> string) \<Rightarrow> string \<Rightarrow> ttl_cache \<Rightarrow> string \<times> ttl_cache" where
  "cached_state now get tenant c =
    (let fresh = (let state = get tenant in (state, c(tenant \<mapsto> (state, now + tenantStateTTL)))) in
     case c tenant of
       Some (state, expires) \<Rightarrow> if now < expires then (state, c) else fresh
     | None \<Rightarrow> fresh)"

definition invalidate_state :: "string \<Rightarrow> ttl_cache \<Rightarrow> ttl_cache" where
  "invalidate_state tenant c = c(tenant := None)"

text \<open>\<open>None\<close>: the request is passed on.\<close>

definition enforce_isolation ::
    "time \<Rightarrow> (string \<Rightarrow> string) \<Rightarrow> TokenClaims option \<Rightarrow> ttl_cache \<Rightarrow> (nat \<times> string \<times> string) option \<times> ttl_cache" where
  "enforce_isolation now get claims c =
    (case claims of
       None \<Rightarrow> (None, c)
     | Some cl \<Rightarrow>
        if tc_tenant_id cl = [] then (None, c)
        else (let (state, c') = cached_state now get (tc_tenant_id cl) c in
          if state = ''suspended'' then (Some (403, ''tenant suspended'', ''TENANT_SUSPENDED''), c')
          else if state = ''disabled'' then (Some (403, (''account disabled '' @ [CHR 0xE2, CHR 0x80, CHR 0x94] @ '' contact support''), ''TENANT_DISABLED''), c')
          else (None, c')))"

section \<open>Data residency\<close>

definition regionCacheTTL :: duration where "regionCacheTTL = 5 * minute"

definition cached_region :: "time \<Rightarrow> (string \<Rightarrow> string) \<Rightarrow> string \<Rightarrow> ttl_cache \<Rightarrow> string \<times> ttl_cache" where
  "cached_region now get tenant c =
    (let fresh = (let region = get tenant in (region, c(tenant \<mapsto> (region, now + regionCacheTTL)))) in
     case c tenant of
       Some (region, expires) \<Rightarrow> if now < expires then (region, c) else fresh
     | None \<Rightarrow> fresh)"

definition invalidate_region :: "string \<Rightarrow> ttl_cache \<Rightarrow> ttl_cache" where
  "invalidate_region tenant c = c(tenant := None)"

definition deployment_region :: "string \<Rightarrow> string" where
  "deployment_region region = (if region = [] then ''us'' else region)"

definition enforce_residency ::
    "string \<Rightarrow> time \<Rightarrow> (string \<Rightarrow> string) \<Rightarrow> TokenClaims option \<Rightarrow> ttl_cache \<Rightarrow> (nat \<times> string \<times> string) option \<times> ttl_cache" where
  "enforce_residency region now get claims c =
    (case claims of
       None \<Rightarrow> (None, c)
     | Some cl \<Rightarrow>
        (let (r, c') = cached_region now get (tc_tenant_id cl) c in
         if r \<noteq> [] \<and> r \<noteq> deployment_region region then
           (Some (403, (''Your tenant'' @ [CHR 0x27] @ ''s data is stored in the '') @ r @ '' region. Please use the '' @ r @ '' endpoint.'',
                  ''data_residency_violation''), c')
         else (None, c')))"

section \<open>Token buckets\<close>

fun float_add :: "gofloat \<Rightarrow> gofloat \<Rightarrow> gofloat" where
  "float_add (Fin x) (Fin y) = round64 (x + y)"
| "float_add (Inf s) (Inf t) = (if s = t then Inf s else NaN)"
| "float_add (Inf s) (Fin y) = Inf s"
| "float_add (Fin x) (Inf t) = Inf t"
| "float_add NaN y = NaN"
| "float_add x NaN = NaN"

text \<open>A product of finite values, which is all the limiter forms.\<close>

fun float_mul :: "gofloat \<Rightarrow> gofloat \<Rightarrow> gofloat" where
  "float_mul (Fin x) (Fin y) = round64 (x * y)"
| "float_mul x y = NaN"

text \<open>\<open>Duration.Seconds\<close>.\<close>

definition float_seconds :: "duration \<Rightarrow> gofloat" where
  "float_seconds d = (let q = quot d second; r = d - q * second in
     float_add_fin (of_int q) (round64 (of_int r / 1000000000)))"

record token_bucket =
  bk_tokens :: gofloat
  bk_last_fill :: time
  bk_rate :: gofloat
  bk_limit :: int
  bk_loaded_at :: time

type_synonym limiter = "string \<rightharpoonup> token_bucket"

definition bucket_allow :: "time \<Rightarrow> token_bucket \<Rightarrow> bool \<times> token_bucket" where
  "bucket_allow now b =
    (if bk_limit b = 0 then (True, b)
     else (let t1 = float_add (bk_tokens b) (float_mul (float_seconds (now - bk_last_fill b)) (bk_rate b));
               t2 = (if float_less (float_of_int (bk_limit b)) t1 then float_of_int (bk_limit b) else t1);
               b' = b\<lparr>bk_tokens := t2, bk_last_fill := now\<rparr>
           in if float_less t2 (Fin 1) \<or> t2 = NaN then (False, b')
              else (True, b'\<lparr>bk_tokens := float_sub t2 (Fin 1)\<rparr>)))"

definition limiter_key :: "string \<Rightarrow> string \<Rightarrow> string" where
  "limiter_key tenant cat = tenant @ '':'' @ cat"

definition refresh_bucket :: "time \<Rightarrow> int \<Rightarrow> token_bucket \<Rightarrow> token_bucket" where
  "refresh_bucket now limit b =
    (let first = (bk_loaded_at b = zero_time);
         rate = (if limit = 0 then Fin 0 else float_div (float_of_int limit) (Fin 60));
         full = float_of_int limit
     in b\<lparr>bk_limit := limit, bk_rate := rate, bk_loaded_at := now,
          bk_tokens := (if first \<and> 0 < limit then full
            else if float_less full (bk_tokens b) \<and> 0 < limit then full else bk_tokens b)\<rparr>)"

definition limiter_allow :: "(string \<Rightarrow> string \<Rightarrow> int) \<Rightarrow> time \<Rightarrow> string \<Rightarrow> string \<Rightarrow> limiter \<Rightarrow> bool \<times> limiter" where
  "limiter_allow load now tenant cat l =
    (let key = limiter_key tenant cat;
         b = (case l key of Some b \<Rightarrow> b
              | None \<Rightarrow> \<lparr>bk_tokens = Fin 0, bk_last_fill = now, bk_rate = Fin 0, bk_limit = 0, bk_loaded_at = zero_time\<rparr>);
         b1 = (if 60 * second < now - bk_loaded_at b then refresh_bucket now (load tenant cat) b else b);
         (ok, b2) = bucket_allow now b1
     in (ok, l(key \<mapsto> b2)))"

definition limiter_evict :: "string \<Rightarrow> limiter \<Rightarrow> limiter" where
  "limiter_evict tenant l = foldl (\<lambda>l cat. l(limiter_key tenant cat := None)) l [''ingest'', ''query'', ''admin'', ''mutation'']"

text \<open>The loader of \<open>main.go\<close>.\<close>

definition load_limit :: "faults \<Rightarrow> identity_db \<Rightarrow> string \<Rightarrow> string \<Rightarrow> int" where
  "load_limit flt db tenant cat =
    (case get_effective_limits (at_site cat flt) tenant db of
       Inl _ \<Rightarrow> 100
     | Inr p \<Rightarrow> if cat = ''ingest'' then rl_ingest_per_min p else rl_query_per_min p)"

definition tenant_rate_limit ::
    "(string \<Rightarrow> string \<Rightarrow> int) \<Rightarrow> time \<Rightarrow> string \<Rightarrow> http_request \<Rightarrow> limiter \<Rightarrow> (nat \<times> string \<times> string) option \<times> limiter" where
  "tenant_rate_limit load now cat r l =
    (let tenant = tenant_from_request r in
     if tenant \<noteq> [] \<and> tenant \<noteq> ''default'' then
       (let (ok, l') = limiter_allow load now tenant cat l in
        if ok then (None, l')
        else (Some (429, (''rate limit exceeded '' @ [CHR 0xE2, CHR 0x80, CHR 0x94] @ '' retry after 60 seconds''), ''RATE_LIMIT_EXCEEDED''), l'))
     else (None, l))"

definition mutation_rate_limit ::
    "(string \<Rightarrow> string \<Rightarrow> int) \<Rightarrow> time \<Rightarrow> string \<Rightarrow> http_request \<Rightarrow> limiter \<Rightarrow> (nat \<times> string \<times> string) option \<times> limiter" where
  "mutation_rate_limit load now meth r l =
    (if meth \<in> {''GET'', ''HEAD'', ''OPTIONS''} then (None, l)
     else (let tenant = tenant_from_request r in
       if tenant \<noteq> [] \<and> tenant \<noteq> ''default'' then
         (let (ok, l') = limiter_allow load now tenant ''mutation'' l in
          if ok then (None, l')
          else (Some (429, (''mutation rate limit exceeded '' @ [CHR 0xE2, CHR 0x80, CHR 0x94] @ '' retry after 60 seconds''), ''MUTATION_RATE_LIMIT_EXCEEDED''), l'))
       else (None, l)))"

section \<open>The chain\<close>

record gate_env =
  ge_secret :: string
  ge_region :: string
  ge_isolation :: bool     \<comment> \<open>the optional links that are wired in\<close>
  ge_residency :: bool
  ge_limiter :: bool

record gate_request =
  gq_method :: string
  gq_authorization :: string
  gq_tenant_header :: string
  gq_tenant_query :: string

record gate_state =
  gs_states :: ttl_cache
  gs_regions :: ttl_cache
  gs_limiter :: limiter

definition require_auth :: "string \<Rightarrow> time \<Rightarrow> string \<Rightarrow> gate_outcome" where
  "require_auth secret now authorization =
    (case extract_bearer_token authorization of
       Inl _ \<Rightarrow> Stopped 401 ''missing or malformed authorization header'' ''AUTH_TOKEN_MISSING''
     | Inr token \<Rightarrow>
        (case verify_token now token secret of
           Inl (ErrMsg m) \<Rightarrow>
             Stopped 401 m (if contains_str m ''expired'' then ''AUTH_TOKEN_EXPIRED'' else ''AUTH_TOKEN_INVALID'')
         | Inl _ \<Rightarrow> Stopped 401 [] ''AUTH_TOKEN_INVALID''
         | Inr claims \<Rightarrow> Entered claims))"

definition with_auth ::
    "gate_env \<Rightarrow> faults \<Rightarrow> time \<Rightarrow> gate_request \<Rightarrow> identity_db \<Rightarrow> gate_state \<Rightarrow> gate_outcome \<times> gate_state" where
  "with_auth env flt now q db st =
    (if gq_method q = ''OPTIONS'' then (Preflight, st)
     else (case require_auth (ge_secret env) now (gq_authorization q) of
       Preflight \<Rightarrow> (Preflight, st)
     | Stopped s m c \<Rightarrow> (Stopped s m c, st)
     | Entered claims \<Rightarrow>
        (let r = \<lparr>hq_claims = Some claims, hq_tenant_header = gq_tenant_header q, hq_tenant_query = gq_tenant_query q\<rparr>;
             load = load_limit flt db;
             (v1, states) = (if ge_isolation env
               then enforce_isolation now (\<lambda>t. get_state flt t db) (Some claims) (gs_states st) else (None, gs_states st));
             st1 = st\<lparr>gs_states := states\<rparr>
         in case v1 of Some (s, m, c) \<Rightarrow> (Stopped s m c, st1)
          | None \<Rightarrow>
             (let (v2, regions) = (if ge_residency env
                    then enforce_residency (ge_region env) now (\<lambda>t. get_data_region flt t db) (Some claims) (gs_regions st1)
                    else (None, gs_regions st1));
                  st2 = st1\<lparr>gs_regions := regions\<rparr>
              in case v2 of Some (s, m, c) \<Rightarrow> (Stopped s m c, st2)
               | None \<Rightarrow>
                  if \<not> ge_limiter env then (Entered claims, st2)
                  else (let (v3, l3) = tenant_rate_limit load now ''query'' r (gs_limiter st2) in
                    case v3 of Some (s, m, c) \<Rightarrow> (Stopped s m c, st2\<lparr>gs_limiter := l3\<rparr>)
                    | None \<Rightarrow>
                       (let (v4, l4) = mutation_rate_limit load now (gq_method q) r l3 in
                        case v4 of Some (s, m, c) \<Rightarrow> (Stopped s m c, st2\<lparr>gs_limiter := l4\<rparr>)
                        | None \<Rightarrow> (Entered claims, st2\<lparr>gs_limiter := l4\<rparr>)))))))"

section \<open>Roles\<close>

definition require_min_role :: "string \<Rightarrow> TokenClaims option \<Rightarrow> (nat \<times> string \<times> string) option" where
  "require_min_role minRole claims =
    (case claims of
       None \<Rightarrow> Some (401, ''no auth claims in context'', ''AUTH_TOKEN_INVALID'')
     | Some c \<Rightarrow>
        if role_satisfies (tc_role c) minRole then None
        else Some (403, (''role '' @ [CHR 0x27]) @ tc_role c @ ([CHR 0x27] @ '' does not have permission; requires '' @ [CHR 0x27]) @ minRole @ ([CHR 0x27] @ '' or higher''),
                   ''ROLE_INSUFFICIENT''))"

definition require_role_middleware :: "string list \<Rightarrow> TokenClaims option \<Rightarrow> (nat \<times> string \<times> string) option" where
  "require_role_middleware roles claims =
    (case claims of
       None \<Rightarrow> Some (401, ''no auth claims in context'', ''AUTH_TOKEN_INVALID'')
     | Some c \<Rightarrow> if tc_role c = RoleAdmin \<or> tc_role c \<in> set roles then None
                else Some (403, ''insufficient permissions'', ''ROLE_INSUFFICIENT''))"

text \<open>A route behind the chain and a role, \<open>withAuth(requireAdmin(h))\<close>.\<close>

definition role_route ::
    "string \<Rightarrow> gate_env \<Rightarrow> faults \<Rightarrow> time \<Rightarrow> gate_request \<Rightarrow> identity_db \<Rightarrow> gate_state \<Rightarrow> gate_outcome \<times> gate_state" where
  "role_route minRole env flt now q db st =
    (case with_auth env flt now q db st of
       (Entered claims, st') \<Rightarrow>
         (case require_min_role minRole (Some claims) of None \<Rightarrow> (Entered claims, st') | Some (s, m, c) \<Rightarrow> (Stopped s m c, st'))
     | (outcome, st') \<Rightarrow> (outcome, st'))"

section \<open>The limiter of the ingest routes\<close>

record webhook_bucket =
  wb_tokens :: int
  wb_last_seen :: time
  wb_next_refill :: time

type_synonym webhook_limiter = "string \<rightharpoonup> webhook_bucket"

definition webhook_allow :: "int \<Rightarrow> duration \<Rightarrow> time \<Rightarrow> string \<Rightarrow> webhook_limiter \<Rightarrow> bool \<times> webhook_limiter" where
  "webhook_allow limit window now key l =
    (case l key of
       None \<Rightarrow> (True, l(key \<mapsto> \<lparr>wb_tokens = limit - 1, wb_last_seen = now, wb_next_refill = now + window\<rparr>))
     | Some b \<Rightarrow>
        (let b1 = b\<lparr>wb_last_seen := now\<rparr>;
             b2 = (if wb_next_refill b1 < now then b1\<lparr>wb_tokens := limit, wb_next_refill := now + window\<rparr> else b1)
         in if wb_tokens b2 \<le> 0 then (False, l(key \<mapsto> b2))
            else (True, l(key \<mapsto> b2\<lparr>wb_tokens := wb_tokens b2 - 1\<rparr>))))"

definition webhook_cleanup :: "time \<Rightarrow> webhook_limiter \<Rightarrow> webhook_limiter" where
  "webhook_cleanup now l =
    (\<lambda>k. case l k of None \<Rightarrow> None | Some b \<Rightarrow> if wb_last_seen b < now - 10 * minute then None else Some b)"

definition last_index :: "char \<Rightarrow> string \<Rightarrow> string option" where
  "last_index c s = (if c \<in> set s then Some (rev (tl (dropWhile (\<lambda>d. d \<noteq> c) (rev s)))) else None)"

text \<open>\<open>rateLimitKey\<close>: \<open>X-Source-Token\<close>, \<open>X-Forwarded-For\<close>, the remote address.\<close>

definition rate_limit_key :: "string \<Rightarrow> string \<Rightarrow> string \<Rightarrow> string" where
  "rate_limit_key token forwarded addr =
    (if token \<noteq> [] then ''tok:'' @ token
     else if forwarded \<noteq> [] then ''ip:'' @ takeWhile (\<lambda>c. c \<noteq> CHR '','') forwarded
     else ''ip:'' @ (case last_index (CHR '':'') addr of None \<Rightarrow> addr | Some a \<Rightarrow> a))"

definition webhook_middleware ::
    "int \<Rightarrow> duration \<Rightarrow> time \<Rightarrow> string \<Rightarrow> string \<Rightarrow> string \<Rightarrow> webhook_limiter \<Rightarrow> (nat \<times> string) option \<times> webhook_limiter" where
  "webhook_middleware limit window now token forwarded addr l =
    (let (ok, l') = webhook_allow limit window now (rate_limit_key token forwarded addr) l in
     (if ok then None else Some (429, (''rate limit exceeded '' @ [CHR 0xE2, CHR 0x80, CHR 0x94] @ '' try again later'')), l'))"

section \<open>Caches that expire\<close>

text \<open>Every state of a cache that starts empty, when the store holds \<open>hist s k\<close> for the key \<open>k\<close> at the time \<open>s\<close>.\<close>

inductive cache_reach ::
    "(time \<Rightarrow> (string \<Rightarrow> string) \<Rightarrow> string \<Rightarrow> ttl_cache \<Rightarrow> string \<times> ttl_cache) \<Rightarrow> (string \<Rightarrow> ttl_cache \<Rightarrow> ttl_cache) \<Rightarrow>
     (time \<Rightarrow> string \<Rightarrow> string) \<Rightarrow> time \<Rightarrow> ttl_cache \<Rightarrow> bool"
  for look drop hist where
  cold: "cache_reach look drop hist t Map.empty"
| tick: "cache_reach look drop hist t c \<Longrightarrow> t \<le> t' \<Longrightarrow> cache_reach look drop hist t' c"
| looked: "cache_reach look drop hist t c \<Longrightarrow> cache_reach look drop hist t (snd (look t (hist t) k c))"
| dropped: "cache_reach look drop hist t c \<Longrightarrow> cache_reach look drop hist t (drop k c)"

text \<open>What the two caches of the chain promise: a value is at most \<open>ttl\<close> old.\<close>

locale ttl_lookup =
  fixes look :: "time \<Rightarrow> (string \<Rightarrow> string) \<Rightarrow> string \<Rightarrow> ttl_cache \<Rightarrow> string \<times> ttl_cache"
    and drop_key :: "string \<Rightarrow> ttl_cache \<Rightarrow> ttl_cache"
    and ttl :: duration
  assumes hit: "c k = Some (v, e) \<Longrightarrow> now < e \<Longrightarrow> look now get k c = (v, c)"
    and expired: "c k = Some (v, e) \<Longrightarrow> e \<le> now \<Longrightarrow> look now get k c = (get k, c(k \<mapsto> (get k, now + ttl)))"
    and absent: "c k = None \<Longrightarrow> look now get k c = (get k, c(k \<mapsto> (get k, now + ttl)))"
    and dropping: "drop_key k c = c(k := None)"
begin

lemma look_cases:
  obtains v e where "c k = Some (v, e)" "now < e" "look now get k c = (v, c)"
  | "look now get k c = (get k, c(k \<mapsto> (get k, now + ttl)))"
  by (metis absent expired hit not_less option.exhaust surj_pair)

text \<open>Each entry is the value of the store at a time \<open>s\<close>, kept until \<open>s + ttl\<close>.\<close>

lemma entries_traced:
  "cache_reach look drop_key hist t c \<Longrightarrow> c k = Some (v, e) \<Longrightarrow> \<exists>s \<le> t. v = hist s k \<and> e = s + ttl"
proof (induction arbitrary: k v e rule: cache_reach.induct)
  case (cold t)
  then show ?case by simp
next
  case (tick t c t')
  then show ?case by (meson order_trans)
next
  case (looked t c j)
  show ?case
  proof (cases rule: look_cases[of c j t "hist t"])
    case (1 v' e')
    with looked show ?thesis by simp
  next
    case 2
    with looked show ?thesis by (cases "k = j") auto
  qed
next
  case (dropped t c j)
  then show ?case by (auto simp: dropping split: if_splits)
qed

lemma value_recent:
  assumes "cache_reach look drop_key hist t c"
  shows "(\<exists>s \<le> t. t < s + ttl \<and> fst (look t (hist t) k c) = hist s k) \<or> fst (look t (hist t) k c) = hist t k"
proof (cases rule: look_cases[of c k t "hist t"])
  case (1 v e)
  with entries_traced[OF assms 1(1)] show ?thesis by auto
next
  case 2
  then show ?thesis by simp
qed

text \<open>Once the store has held a value for \<open>ttl\<close>, every look returns it.\<close>

lemma settled:
  assumes "cache_reach look drop_key hist t c" "\<And>s. t0 \<le> s \<Longrightarrow> s \<le> t \<Longrightarrow> hist s k = v" "t0 + ttl \<le> t" "t0 \<le> t"
  shows "fst (look t (hist t) k c) = v"
proof -
  consider s where "s \<le> t" "t < s + ttl" "fst (look t (hist t) k c) = hist s k" | "fst (look t (hist t) k c) = hist t k"
    using value_recent[OF assms(1), of k] by blast
  then show ?thesis
  proof cases
    case 1
    moreover have "t0 \<le> s" using 1(2) assms(3) by linarith
    ultimately show ?thesis using assms(2)[of s] by simp
  next
    case 2
    then show ?thesis using assms(2)[of t] assms(4) by simp
  qed
qed

text \<open>After a drop, the next look asks the store.\<close>

lemma after_drop: "fst (look t get k (drop_key k c)) = get k"
  using absent[of "drop_key k c" k t get] by (simp add: dropping)

end

interpretation states: ttl_lookup cached_state invalidate_state tenantStateTTL
  by unfold_locales (simp_all add: cached_state_def invalidate_state_def Let_def)

interpretation regions: ttl_lookup cached_region invalidate_region regionCacheTTL
  by unfold_locales (simp_all add: cached_region_def invalidate_region_def Let_def)

section \<open>What a passed request has shown\<close>

lemma enforce_isolation_None:
  "fst (enforce_isolation now get (Some cl) c) = None \<longleftrightarrow>
    tc_tenant_id cl = [] \<or> fst (cached_state now get (tc_tenant_id cl) c) \<notin> {''suspended'', ''disabled''}"
  by (auto simp: enforce_isolation_def split: prod.splits)

lemma enforce_residency_None:
  "fst (enforce_residency region now get (Some cl) c) = None \<longleftrightarrow>
    fst (cached_region now get (tc_tenant_id cl) c) \<in> {[], deployment_region region}"
  by (auto simp: enforce_residency_def split: prod.splits)

lemma extract_bearer_Inr: "extract_bearer_token a = Inr t \<longleftrightarrow> a = ''Bearer '' @ t \<and> t \<noteq> []"
proof -
  have "has_prefix a ''Bearer '' \<longleftrightarrow> (\<exists>s. a = ''Bearer '' @ s)" by (rule has_prefix_iff)
  then show ?thesis by (auto simp: extract_bearer_token_def)
qed

lemma require_auth_Entered:
  "require_auth secret now a = Entered cl \<longleftrightarrow> (\<exists>t. a = ''Bearer '' @ t \<and> t \<noteq> [] \<and> verify_token now t secret = Inr cl)"
proof (cases "extract_bearer_token a")
  case (Inl e)
  then have "\<not> (\<exists>t. a = ''Bearer '' @ t \<and> t \<noteq> [])" using extract_bearer_Inr[of a] by fastforce
  with Inl show ?thesis by (auto simp: require_auth_def)
next
  case (Inr t)
  then have "a = ''Bearer '' @ t" "t \<noteq> []" using extract_bearer_Inr[of a t] by blast+
  with Inr show ?thesis by (auto simp: require_auth_def split: sum.splits go_error.splits)
qed

lemma with_auth_Entered:
  assumes "with_auth env flt now q db st = (Entered cl, st')"
  shows "gq_method q \<noteq> ''OPTIONS''" "require_auth (ge_secret env) now (gq_authorization q) = Entered cl"
    "ge_isolation env \<Longrightarrow> fst (enforce_isolation now (\<lambda>t. get_state flt t db) (Some cl) (gs_states st)) = None"
    "ge_residency env \<Longrightarrow>
      fst (enforce_residency (ge_region env) now (\<lambda>t. get_data_region flt t db) (Some cl) (gs_regions st)) = None"
  using assms
  by (auto simp: with_auth_def Let_def split: if_splits gate_outcome.splits prod.splits option.splits)

section \<open>How many requests the ingest limiter admits\<close>

datatype webhook_event = Ask time string | Sweep time

fun event_time :: "webhook_event \<Rightarrow> time" where
  "event_time (Ask t k) = t"
| "event_time (Sweep t) = t"

fun webhook_run :: "int \<Rightarrow> duration \<Rightarrow> webhook_event list \<Rightarrow> webhook_limiter \<Rightarrow> (string \<times> bool) list \<times> webhook_limiter" where
  "webhook_run limit window [] l = ([], l)"
| "webhook_run limit window (Sweep t # evs) l = webhook_run limit window evs (webhook_cleanup t l)"
| "webhook_run limit window (Ask t k # evs) l =
    (let (ok, l1) = webhook_allow limit window t k l; (rs, l2) = webhook_run limit window evs l1 in ((k, ok) # rs, l2))"

definition admitted :: "string \<Rightarrow> (string \<times> bool) list \<Rightarrow> int" where
  "admitted k rs = int (length (filter (\<lambda>r. r = (k, True)) rs))"

lemma admitted_simps [simp]:
  "admitted k [] = 0" "admitted k ((j, ok) # rs) = (if j = k \<and> ok then 1 else 0) + admitted k rs"
  by (simp_all add: admitted_def)

definition tokens_ok :: "int \<Rightarrow> webhook_limiter \<Rightarrow> bool" where
  "tokens_ok limit l \<longleftrightarrow> (\<forall>k b. l k = Some b \<longrightarrow> 0 \<le> wb_tokens b \<and> wb_tokens b \<le> limit)"

lemma tokens_ok_allow: "1 \<le> limit \<Longrightarrow> tokens_ok limit l \<Longrightarrow> tokens_ok limit (snd (webhook_allow limit window t k l))"
  by (auto simp: tokens_ok_def webhook_allow_def Let_def split: option.splits if_splits) force+

lemma tokens_ok_sweep: "tokens_ok limit l \<Longrightarrow> tokens_ok limit (webhook_cleanup t l)"
  by (auto simp: tokens_ok_def webhook_cleanup_def split: option.splits if_splits)

lemma tokens_ok_run: "1 \<le> limit \<Longrightarrow> tokens_ok limit l \<Longrightarrow> tokens_ok limit (snd (webhook_run limit window evs l))"
proof (induction limit window evs l rule: webhook_run.induct)
  case (3 limit window t k evs l)
  then show ?case using tokens_ok_allow[of limit l window t k] by (auto split: prod.splits)
qed (simp_all add: tokens_ok_sweep)

lemma allow_other: "k \<noteq> j \<Longrightarrow> snd (webhook_allow limit window t k l) j = l j"
  by (auto simp: webhook_allow_def Let_def split: option.splits)

text \<open>A bucket filled within the last window only empties.\<close>

lemma filled_bucket:
  assumes "window \<le> 10 * minute" "l k = Some b" "t0 + window \<le> wb_next_refill b" "t0 \<le> wb_last_seen b" "0 \<le> wb_tokens b"
    "\<forall>e \<in> set evs. t0 \<le> event_time e \<and> event_time e \<le> t0 + window"
  shows "admitted k (fst (webhook_run limit window evs l)) \<le> wb_tokens b"
  using assms
proof (induction limit window evs l arbitrary: b rule: webhook_run.induct)
  case (1 limit window l)
  then show ?case by simp
next
  case (2 limit window t evs l)
  then have "webhook_cleanup t l k = Some b" by (simp add: webhook_cleanup_def)
  with 2 show ?case by simp
next
  case (3 limit window t j evs l)
  obtain ok l1 where a: "webhook_allow limit window t j l = (ok, l1)" by fastforce
  show ?case
  proof (cases "j = k")
    case False
    then have "l1 k = Some b" using a allow_other[of j k limit window t l] 3 by simp
    with 3 a False show ?thesis by (auto split: prod.splits)
  next
    case True
    define b' where "b' = b\<lparr>wb_last_seen := t, wb_tokens := (if wb_tokens b \<le> 0 then wb_tokens b else wb_tokens b - 1)\<rparr>"
    have "t \<le> wb_next_refill b" using 3 by auto
    then have "ok \<longleftrightarrow> 0 < wb_tokens b" "l1 k = Some b'"
      using a 3 True by (auto simp: webhook_allow_def Let_def b'_def split: if_splits)
    moreover have "admitted k (fst (webhook_run limit window evs l1)) \<le> wb_tokens b'"
      using 3 a calculation by (intro "3.IH"[OF a[symmetric] HOL.refl]) (auto simp: b'_def)
    ultimately show ?thesis using a True by (auto simp: b'_def split: prod.splits if_splits)
  qed
qed

lemma any_bucket:
  assumes "window \<le> 10 * minute" "0 < window" "1 \<le> limit" "tokens_ok limit l"
    "\<forall>e \<in> set evs. t0 \<le> event_time e \<and> event_time e \<le> t0 + window"
  shows "admitted k (fst (webhook_run limit window evs l)) \<le> limit + (case l k of None \<Rightarrow> 0 | Some b \<Rightarrow> wb_tokens b)"
  using assms
proof (induction limit window evs l rule: webhook_run.induct)
  case (1 limit window l)
  then show ?case by (auto simp: tokens_ok_def split: option.splits)
next
  case (2 limit window t evs l)
  have "admitted k (fst (webhook_run limit window evs (webhook_cleanup t l))) \<le>
      limit + (case webhook_cleanup t l k of None \<Rightarrow> 0 | Some b \<Rightarrow> wb_tokens b)"
    using 2 by (simp add: tokens_ok_sweep)
  also have "(case webhook_cleanup t l k of None \<Rightarrow> 0 | Some b \<Rightarrow> wb_tokens b) \<le> (case l k of None \<Rightarrow> 0 | Some b \<Rightarrow> wb_tokens b)"
    using 2(5) by (auto simp: webhook_cleanup_def tokens_ok_def split: option.splits)
  finally show ?case by simp
next
  case (3 limit window t j evs l)
  obtain ok l1 where a: "webhook_allow limit window t j l = (ok, l1)" by fastforce
  have ok1: "tokens_ok limit l1" using tokens_ok_allow[of limit l window t j] 3 a by simp
  have times: "\<forall>e \<in> set evs. t0 \<le> event_time e \<and> event_time e \<le> t0 + window" "t0 \<le> t" using 3 by simp_all
  have ih: "admitted k (fst (webhook_run limit window evs l1)) \<le> limit + (case l1 k of None \<Rightarrow> 0 | Some b \<Rightarrow> wb_tokens b)"
    using 3 a ok1 by (intro "3.IH"[OF a[symmetric] HOL.refl]) auto
  have run: "admitted k (fst (webhook_run limit window (Ask t j # evs) l)) =
      (if j = k \<and> ok then 1 else 0) + admitted k (fst (webhook_run limit window evs l1))"
    using a by (auto split: prod.splits)
  show ?case
  proof (cases "j = k")
    case False
    then have "l1 k = l k" using a allow_other[of j k limit window t l] by simp
    with False run ih show ?thesis by simp
  next
    case True
    show ?thesis
    proof (cases "\<exists>b. l k = Some b \<and> t \<le> wb_next_refill b")
      case True
      then obtain b where b: "l k = Some b" "t \<le> wb_next_refill b" by blast
      then have "l1 k = Some (b\<lparr>wb_last_seen := t, wb_tokens := (if wb_tokens b \<le> 0 then wb_tokens b else wb_tokens b - 1)\<rparr>)"
        "ok \<longleftrightarrow> 0 < wb_tokens b"
        using a \<open>j = k\<close> by (auto simp: webhook_allow_def Let_def split: if_splits)
      with run ih b \<open>j = k\<close> show ?thesis by (auto split: if_splits)
    next
      case False
      have ok: "ok" and l1: "l1 k = Some \<lparr>wb_tokens = limit - 1, wb_last_seen = t, wb_next_refill = t + window\<rparr>"
      proof -
        show ok using a \<open>j = k\<close> False 3(4) by (auto simp: webhook_allow_def Let_def split: option.splits if_splits)
        show "l1 k = Some \<lparr>wb_tokens = limit - 1, wb_last_seen = t, wb_next_refill = t + window\<rparr>"
          using a \<open>j = k\<close> False 3(4) by (auto simp: webhook_allow_def Let_def split: option.splits if_splits)
      qed
      have "admitted k (fst (webhook_run limit window evs l1)) \<le> limit - 1"
        using filled_bucket[of window l1 k _ t0 evs limit, OF 3(2) l1] times 3(4) by simp
      moreover have "0 \<le> (case l k of None \<Rightarrow> 0 | Some b \<Rightarrow> wb_tokens b)"
        using 3(5) by (auto simp: tokens_ok_def split: option.splits)
      ultimately show ?thesis using run \<open>j = k\<close> ok by simp
    qed
  qed
qed

section \<open>Properties\<close>

text \<open>C33: a request enters a handler only with a bearer token this server's secret has signed and that has not expired,
  and only when neither the state nor the region the caches hold for its tenant forbids it; behind a role, only when the
  token's role reaches it.\<close>

theorem gate_authorises:
  assumes "role_route minRole env flt now q db st = (Entered cl, st')"
  shows "\<exists>token. gq_authorization q = ''Bearer '' @ token \<and> verify_token now token (ge_secret env) = Inr cl \<and>
    level_of minRole \<noteq> 0 \<and> level_of minRole \<le> level_of (tc_role cl) \<and>
    (ge_isolation env \<longrightarrow> tc_tenant_id cl = [] \<or>
       fst (cached_state now (\<lambda>t. get_state flt t db) (tc_tenant_id cl) (gs_states st)) \<notin> {''suspended'', ''disabled''}) \<and>
    (ge_residency env \<longrightarrow>
       fst (cached_region now (\<lambda>t. get_data_region flt t db) (tc_tenant_id cl) (gs_regions st)) \<in>
         {[], deployment_region (ge_region env)})"
proof -
  from assms obtain st1 where w: "with_auth env flt now q db st = (Entered cl, st1)"
    and r: "require_min_role minRole (Some cl) = None"
    by (auto simp: role_route_def split: prod.splits gate_outcome.splits option.splits)
  from with_auth_Entered(2)[OF w] obtain token where
    t: "gq_authorization q = ''Bearer '' @ token" "verify_token now token (ge_secret env) = Inr cl"
    unfolding require_auth_Entered by blast
  have "level_of minRole \<noteq> 0 \<and> level_of minRole \<le> level_of (tc_role cl)"
    using r by (simp add: require_min_role_def role_satisfies_def Let_def split: if_splits)
  moreover have "ge_isolation env \<longrightarrow> tc_tenant_id cl = [] \<or>
       fst (cached_state now (\<lambda>t. get_state flt t db) (tc_tenant_id cl) (gs_states st)) \<notin> {''suspended'', ''disabled''}"
    using with_auth_Entered(3)[OF w] unfolding enforce_isolation_None by blast
  moreover have "ge_residency env \<longrightarrow>
       fst (cached_region now (\<lambda>t. get_data_region flt t db) (tc_tenant_id cl) (gs_regions st)) \<in>
         {[], deployment_region (ge_region env)}"
    using with_auth_Entered(4)[OF w] unfolding enforce_residency_None by blast
  ultimately show ?thesis using t by blast
qed

text \<open>Thirty seconds after a tenant is suspended or disabled for good, no request of that tenant enters a handler on any
  server, whatever its cache has seen before. \<open>hist s t\<close> is the state the store reports for \<open>t\<close> at \<open>s\<close>.\<close>

theorem suspension_takes_effect:
  assumes "with_auth env flt now q db st = (Entered cl, st')" and "ge_isolation env"
    and "cache_reach cached_state invalidate_state hist now (gs_states st)"
    and "hist now = (\<lambda>t. get_state flt t db)"
    and "\<And>s. since \<le> s \<Longrightarrow> s \<le> now \<Longrightarrow> hist s tenant = stopped" and "stopped \<in> {''suspended'', ''disabled''}"
    and "since + 30 * second \<le> now" and "tenant \<noteq> []"
  shows "tc_tenant_id cl \<noteq> tenant"
proof
  assume t: "tc_tenant_id cl = tenant"
  have "since \<le> now" using assms(7) duration_pos(1) by linarith
  then have "fst (cached_state now (hist now) tenant (gs_states st)) = stopped"
    using assms(5,7) by (intro states.settled[OF assms(3)]) (simp_all add: tenantStateTTL_def)
  with assms(4,6,8) t with_auth_Entered(3)[OF assms(1,2)] show False
    unfolding enforce_isolation_None by auto
qed

text \<open>C34: the ingest limiter never admits more than twice its limit for one caller within any window, however the requests
  and the sweeps of idle buckets interleave and whatever went before.\<close>

theorem webhook_limit:
  assumes "1 \<le> limit" and "0 < window" and "window \<le> 10 * minute"
    and "\<forall>e \<in> set evs. start \<le> event_time e \<and> event_time e \<le> start + window"
  shows "admitted key (fst (webhook_run limit window evs (snd (webhook_run limit window earlier Map.empty)))) \<le> 2 * limit"
proof -
  let ?l = "snd (webhook_run limit window earlier Map.empty)"
  have "tokens_ok limit ?l" using assms(1) by (intro tokens_ok_run) (simp_all add: tokens_ok_def)
  then have "admitted key (fst (webhook_run limit window evs ?l)) \<le> limit + (case ?l key of None \<Rightarrow> 0 | Some b \<Rightarrow> wb_tokens b)"
    using any_bucket[OF assms(3,2,1) _ assms(4)] by blast
  also have "(case ?l key of None \<Rightarrow> 0 | Some b \<Rightarrow> wb_tokens b) \<le> limit"
    using \<open>tokens_ok limit ?l\<close> assms(1) by (auto simp: tokens_ok_def split: option.splits)
  finally show ?thesis by simp
qed

section \<open>Examples\<close>

definition example_gate :: gate_env where
  "example_gate = \<lparr>ge_secret = ''s'', ge_region = ''us'', ge_isolation = True, ge_residency = True, ge_limiter = False\<rparr>"

definition example_claims :: TokenClaims where
  "example_claims = claims_zero\<lparr>tc_user_id := ''u1'', tc_tenant_id := ''acme'', tc_role := ''admin'', tc_exp := 60\<rparr>"

definition example_request :: gate_request where
  "example_request = \<lparr>gq_method = ''GET'', gq_authorization = ''Bearer '' @ generate_token example_claims ''s'',
     gq_tenant_header = [], gq_tenant_query = []\<rparr>"

definition cold_gate :: gate_state where
  "cold_gate = \<lparr>gs_states = Map.empty, gs_regions = Map.empty, gs_limiter = Map.empty\<rparr>"

text \<open>The installation with its one tenant suspended.\<close>

definition suspended_db :: identity_db where
  "suspended_db = fresh_install\<lparr>idb_tenants := map (on_master (\<lambda>t. t\<lparr>tm_state := ''suspended''\<rparr>)) (idb_tenants fresh_install)\<rparr>"

lemma example_token: "require_auth ''s'' 0 (gq_authorization example_request) = Entered example_claims"
proof -
  have "claims_ascii example_claims" by (simp add: claims_ascii_def example_claims_def claims_zero_def)
  then have "verify_token 0 (generate_token example_claims ''s'') ''s'' = Inr example_claims"
    using verify_generate[of example_claims 0 "''s''"] by (simp add: example_claims_def unix_def)
  moreover have "generate_token example_claims ''s'' \<noteq> []" by (simp add: generate_token_def Let_def)
  ultimately show ?thesis unfolding require_auth_Entered example_request_def by auto
qed

lemma example_entered:
  assumes "get_state no_faults ''acme'' db = ''active''" "get_data_region no_faults ''acme'' db = ''us''"
    "gs_states g ''acme'' = None" "gs_regions g ''acme'' = None"
  shows "\<exists>g'. with_auth example_gate no_faults 0 example_request db g = (Entered example_claims, g')"
proof -
  have "gq_method example_request \<noteq> ''OPTIONS''" by (simp add: example_request_def)
  moreover have "require_auth (ge_secret example_gate) 0 (gq_authorization example_request) = Entered example_claims"
    using example_token by (simp add: example_gate_def)
  moreover have "tc_tenant_id example_claims = ''acme''" by (simp add: example_claims_def)
  ultimately show ?thesis
    using assms by (simp add: with_auth_def example_gate_def Let_def enforce_isolation_def enforce_residency_def
        cached_state_def cached_region_def deployment_region_def)
qed

lemma fresh_acme: "get_state no_faults ''acme'' fresh_install = ''active''" "get_data_region no_faults ''acme'' fresh_install = ''us''"
  by (simp_all add: get_state_def get_data_region_def fresh_install_def tr_id_def)

lemma suspended_acme: "get_state no_faults ''acme'' suspended_db = ''active''" "get_data_region no_faults ''acme'' suspended_db = ''us''"
    "get_state no_faults ''default'' suspended_db = ''suspended''"
  by (simp_all add: get_state_def get_data_region_def suspended_db_def fresh_install_def tr_id_def on_master_def)

theorem gate_authorises_witness:
  "\<exists>g. role_route RoleAdmin example_gate no_faults 0 example_request fresh_install cold_gate = (Entered example_claims, g) \<and>
    (\<exists>token. gq_authorization example_request = ''Bearer '' @ token \<and>
      verify_token 0 token (ge_secret example_gate) = Inr example_claims)"
proof -
  obtain g where "with_auth example_gate no_faults 0 example_request fresh_install cold_gate = (Entered example_claims, g)"
    using example_entered[OF fresh_acme, of cold_gate] by (auto simp: cold_gate_def)
  then have "role_route RoleAdmin example_gate no_faults 0 example_request fresh_install cold_gate = (Entered example_claims, g)"
    by (simp add: role_route_def require_min_role_def role_satisfies_admin) (simp add: example_claims_def RoleAdmin_def)
  then show ?thesis using gate_authorises[of RoleAdmin example_gate no_faults 0 example_request fresh_install cold_gate] by blast
qed

theorem suspension_takes_effect_witness:
  "\<exists>g. with_auth example_gate no_faults 0 example_request suspended_db cold_gate = (Entered example_claims, g) \<and>
    tc_tenant_id example_claims \<noteq> ''default''"
proof -
  obtain g where w: "with_auth example_gate no_faults 0 example_request suspended_db cold_gate = (Entered example_claims, g)"
    using example_entered[OF suspended_acme(1,2), of cold_gate] by (auto simp: cold_gate_def)
  have iso: "ge_isolation example_gate" by (simp add: example_gate_def)
  let ?hist = "\<lambda>s t. get_state no_faults t suspended_db"
  have cold: "cache_reach cached_state invalidate_state ?hist 0 (gs_states cold_gate)"
    by (simp add: cold_gate_def cache_reach.cold)
  have "tc_tenant_id example_claims \<noteq> ''default''"
    by (rule suspension_takes_effect[OF w iso cold, where since = "- (30 * second)" and stopped = "''suspended''"])
      (simp_all add: suspended_acme)
  with w show ?thesis by blast
qed

theorem webhook_limit_witness:
  "admitted ''k'' (fst (webhook_run 1 minute [Ask 10 ''k'', Ask 20 ''k'', Sweep 30, Ask (10 + minute) ''k'']
      (snd (webhook_run 1 minute [Ask 0 ''k''] Map.empty)))) \<le> 2 * 1"
  by (rule webhook_limit[where start = 10]) (simp_all add: minute_def second_def)

end
