(* ===== verification/TenantPlatform.thy ===== *)
theory TenantPlatform
  imports GoStrings "HOL-Library.Multiset"
begin

text \<open>
  The in-process stores of a tenant: \<open>internal/platform/cache/cache.go\<close> (expiring entries under a bound) and
  \<open>internal/platform/queue/queue.go\<close> (a bounded queue per tenant and a pool of workers behind one shared channel).
  The order in which Go ranges over a map is an argument. A queue keeps the jobs its channel holds; what the workers
  take from the shared channel is recorded in the order they take it.
\<close>

section \<open>The cache\<close>

type_synonym 'v entries = "(string \<times> 'v \<times> time) list"
type_synonym 'v map_order = "'v entries \<Rightarrow> 'v entries"

record 'v cache_manager =
  cm_caches :: "(string \<times> 'v entries) list"
  cm_max :: int

definition defaultTTL :: duration where "defaultTTL = 5 * minute"

definition new_cache_manager :: "int \<Rightarrow> 'v cache_manager" where
  "new_cache_manager n = \<lparr>cm_caches = [], cm_max = (if n \<le> 0 then 2000 else n)\<rparr>"

definition cache_get :: "time \<Rightarrow> string \<Rightarrow> 'v entries \<Rightarrow> 'v option" where
  "cache_get now key es =
    (case map_of es key of None \<Rightarrow> None | Some (v, e) \<Rightarrow> if e < now then None else Some v)"

definition remove_key :: "string \<Rightarrow> (string \<times> 'a) list \<Rightarrow> (string \<times> 'a) list" where
  "remove_key k es = filter (\<lambda>x. fst x \<noteq> k) es"

definition put_key :: "string \<Rightarrow> 'a \<Rightarrow> (string \<times> 'a) list \<Rightarrow> (string \<times> 'a) list" where
  "put_key k x es = remove_key k es @ [(k, x)]"

text \<open>Room for one entry: an expired one goes, and if that is not enough, any.\<close>

definition make_room :: "'v map_order \<Rightarrow> time \<Rightarrow> int \<Rightarrow> 'v entries \<Rightarrow> 'v entries" where
  "make_room rg now maxSize es =
    (if int (length es) < maxSize then es
     else (let es1 = (case find (\<lambda>x. snd (snd x) < now) (rg es) of None \<Rightarrow> es | Some x \<Rightarrow> remove_key (fst x) es)
       in if int (length es1) < maxSize then es1
          else (case rg es1 of [] \<Rightarrow> es1 | x # _ \<Rightarrow> remove_key (fst x) es1)))"

definition cache_set :: "'v map_order \<Rightarrow> time \<Rightarrow> int \<Rightarrow> string \<Rightarrow> 'v \<Rightarrow> duration \<Rightarrow> 'v entries \<Rightarrow> 'v entries" where
  "cache_set rg now maxSize key v ttl es = put_key key (v, now + ttl) (make_room rg now maxSize es)"

definition tenant_cache :: "string \<Rightarrow> 'v cache_manager \<Rightarrow> 'v entries \<times> 'v cache_manager" where
  "tenant_cache tenant m =
    (case map_of (cm_caches m) tenant of
       Some es \<Rightarrow> (es, m)
     | None \<Rightarrow> ([], m\<lparr>cm_caches := put_key tenant [] (cm_caches m)\<rparr>))"

definition manager_get :: "time \<Rightarrow> string \<Rightarrow> string \<Rightarrow> 'v cache_manager \<Rightarrow> 'v option \<times> 'v cache_manager" where
  "manager_get now tenant key m = (let (es, m') = tenant_cache tenant m in (cache_get now key es, m'))"

definition manager_set ::
    "'v map_order \<Rightarrow> time \<Rightarrow> string \<Rightarrow> string \<Rightarrow> 'v \<Rightarrow> duration \<Rightarrow> 'v cache_manager \<Rightarrow> 'v cache_manager" where
  "manager_set rg now tenant key v ttl m =
    (let (es, m') = tenant_cache tenant m;
         es' = cache_set rg now (cm_max m) key v (if ttl \<le> 0 then defaultTTL else ttl) es
     in m'\<lparr>cm_caches := put_key tenant es' (cm_caches m')\<rparr>)"

definition manager_evict :: "string \<Rightarrow> 'v cache_manager \<Rightarrow> 'v cache_manager" where
  "manager_evict tenant m =
    (case map_of (cm_caches m) tenant of None \<Rightarrow> m | Some es \<Rightarrow> m\<lparr>cm_caches := put_key tenant [] (cm_caches m)\<rparr>)"

definition manager_stats :: "time \<Rightarrow> string \<Rightarrow> 'v cache_manager \<Rightarrow> nat" where
  "manager_stats now tenant m =
    (case map_of (cm_caches m) tenant of None \<Rightarrow> 0 | Some es \<Rightarrow> length (filter (\<lambda>x. \<not> snd (snd x) < now) es))"

section \<open>The queue\<close>

record job =
  jb_tenant :: string
  jb_payload :: string
  jb_meta :: smap
  jb_enqueued_at :: time

record tenant_queue =
  tq_jobs :: "job list"
  tq_dropped :: nat

record queue_manager =
  qm_queues :: "(string \<times> tenant_queue) list"
  qm_capacity :: nat
  qm_work :: "job list"
  qm_processed :: "job list"

definition new_queue_manager :: "int \<Rightarrow> queue_manager" where
  "new_queue_manager capacity =
    \<lparr>qm_queues = [], qm_capacity = (if capacity \<le> 0 then 500 else nat capacity), qm_work = [], qm_processed = []\<rparr>"

definition tenant_queue_of :: "string \<Rightarrow> queue_manager \<Rightarrow> tenant_queue" where
  "tenant_queue_of tenant m =
    (case map_of (qm_queues m) tenant of Some q \<Rightarrow> q | None \<Rightarrow> \<lparr>tq_jobs = [], tq_dropped = 0\<rparr>)"

text \<open>\<open>Enqueue\<close>: the tenant's channel takes the job, then the shared one does if it has room.\<close>

definition enqueue :: "time \<Rightarrow> job \<Rightarrow> queue_manager \<Rightarrow> bool \<times> queue_manager" where
  "enqueue now j m =
    (let q = tenant_queue_of (jb_tenant j) m; j' = j\<lparr>jb_enqueued_at := now\<rparr> in
     if length (tq_jobs q) < qm_capacity m then
       (True, m\<lparr>qm_queues := put_key (jb_tenant j) (q\<lparr>tq_jobs := tq_jobs q @ [j']\<rparr>) (qm_queues m),
          qm_work := (if length (qm_work m) < qm_capacity m * 4 then qm_work m @ [j'] else qm_work m)\<rparr>)
     else (False, m\<lparr>qm_queues := put_key (jb_tenant j) (q\<lparr>tq_dropped := Suc (tq_dropped q)\<rparr>) (qm_queues m)\<rparr>))"

text \<open>A worker takes the next job of the shared channel.\<close>

definition run_worker :: "queue_manager \<Rightarrow> queue_manager" where
  "run_worker m =
    (case qm_work m of [] \<Rightarrow> m | j # js \<Rightarrow> m\<lparr>qm_work := js, qm_processed := qm_processed m @ [j]\<rparr>)"

definition purge :: "string \<Rightarrow> queue_manager \<Rightarrow> queue_manager" where
  "purge tenant m = m\<lparr>qm_queues := remove_key tenant (qm_queues m)\<rparr>"

definition dropped_count :: "string \<Rightarrow> queue_manager \<Rightarrow> nat" where
  "dropped_count tenant m = (case map_of (qm_queues m) tenant of None \<Rightarrow> 0 | Some q \<Rightarrow> tq_dropped q)"

definition queue_depth :: "string \<Rightarrow> queue_manager \<Rightarrow> nat" where
  "queue_depth tenant m = (case map_of (qm_queues m) tenant of None \<Rightarrow> 0 | Some q \<Rightarrow> length (tq_jobs q))"

definition queue_stats :: "queue_manager \<Rightarrow> (string \<times> nat \<times> nat) list" where
  "queue_stats m = map (\<lambda>(t, q). (t, length (tq_jobs q), tq_dropped q)) (qm_queues m)"

section \<open>Lemmas\<close>

lemma map_of_remove [simp]: "map_of (remove_key k es) j = (if j = k then None else map_of es j)"
  by (induction es) (auto simp: remove_key_def)

lemma map_of_put [simp]: "map_of (put_key k x es) j = (if j = k then Some x else map_of es j)"
  by (simp add: put_key_def map_add_def split: option.splits)

lemma distinct_remove: "distinct (map fst es) \<Longrightarrow> distinct (map fst (remove_key k es))"
  by (simp add: remove_key_def distinct_map_filter)

lemma distinct_put: "distinct (map fst es) \<Longrightarrow> distinct (map fst (put_key k x es))"
  by (auto simp: put_key_def remove_key_def distinct_map_filter)

lemma length_remove: "length (remove_key k es) \<le> length es"
  by (simp add: remove_key_def)

lemma length_remove_in: "x \<in> set es \<Longrightarrow> fst x = k \<Longrightarrow> length (remove_key k es) < length es"
  unfolding remove_key_def by (rule length_filter_less) auto

lemma length_put: "length (put_key k x es) \<le> Suc (length es)"
  using length_remove[of k es] by (simp add: put_key_def)

text \<open>The range over a map lists its entries.\<close>

definition ranges :: "'v map_order \<Rightarrow> bool" where
  "ranges rg \<longleftrightarrow> (\<forall>es. mset (rg es) = mset es)"

lemma ranges_set: "ranges rg \<Longrightarrow> set (rg es) = set es"
  by (metis ranges_def set_mset_mset)

lemma make_room_fits:
  assumes "ranges rg" "1 \<le> maxSize" "int (length es) \<le> maxSize"
  shows "int (length (make_room rg now maxSize es)) < maxSize"
proof (cases "int (length es) < maxSize")
  case True
  then show ?thesis by (simp add: make_room_def)
next
  case False
  define es1 where "es1 = (case find (\<lambda>x. snd (snd x) < now) (rg es) of None \<Rightarrow> es | Some x \<Rightarrow> remove_key (fst x) es)"
  have le: "length es1 \<le> length es" by (auto simp: es1_def length_remove split: option.splits)
  show ?thesis
  proof (cases "int (length es1) < maxSize")
    case True
    with False show ?thesis by (simp add: make_room_def Let_def es1_def[symmetric])
  next
    case full: False
    then have "es1 \<noteq> []" using assms(2) by auto
    then have "rg es1 \<noteq> []" using ranges_set[OF assms(1), of es1] by auto
    then obtain x xs where x: "rg es1 = x # xs" by (cases "rg es1") auto
    then have "x \<in> set es1" using ranges_set[OF assms(1), of es1] by auto
    then have "length (remove_key (fst x) es1) < length es1" by (rule length_remove_in) simp
    with False full le x assms(3) show ?thesis by (simp add: make_room_def Let_def es1_def[symmetric])
  qed
qed

section \<open>The cache under every sequence of calls\<close>

datatype 'v cache_op = CGet time string string | CSet "'v map_order" time string string 'v duration | CEvict string

fun cache_step :: "'v cache_op \<Rightarrow> 'v cache_manager \<Rightarrow> 'v cache_manager" where
  "cache_step (CGet now t k) m = snd (manager_get now t k m)"
| "cache_step (CSet rg now t k v ttl) m = manager_set rg now t k v ttl m"
| "cache_step (CEvict t) m = manager_evict t m"

fun ranges_op :: "'v cache_op \<Rightarrow> bool" where
  "ranges_op (CSet rg now t k v ttl) = ranges rg"
| "ranges_op _ = True"

definition caches_bounded :: "'v cache_manager \<Rightarrow> bool" where
  "caches_bounded m \<longleftrightarrow> 1 \<le> cm_max m \<and>
     (\<forall>t es. map_of (cm_caches m) t = Some es \<longrightarrow> distinct (map fst es) \<and> int (length es) \<le> cm_max m)"

lemma distinct_make_room: "distinct (map fst es) \<Longrightarrow> distinct (map fst (make_room rg now n es))"
  by (auto simp: make_room_def Let_def intro!: distinct_remove split: option.splits list.splits)

lemma caches_bounded_step [preserve]:
  assumes "caches_bounded m" "ranges_op op"
  shows "caches_bounded (cache_step op m)"
proof (cases op)
  case (CGet now t k)
  with assms(1) show ?thesis
    by (auto simp: caches_bounded_def manager_get_def tenant_cache_def split: option.splits prod.splits if_splits)
next
  case (CEvict t)
  with assms(1) show ?thesis
    by (auto simp: caches_bounded_def manager_evict_def split: option.splits if_splits)
next
  case (CSet rg now t k v ttl)
  let ?ttl = "if ttl \<le> 0 then defaultTTL else ttl"
  have r: "ranges rg" using assms(2) CSet by simp
  have set_ok: "distinct (map fst (cache_set rg now (cm_max m) k v ?ttl es)) \<and>
      int (length (cache_set rg now (cm_max m) k v ?ttl es)) \<le> cm_max m"
    if "distinct (map fst es)" "int (length es) \<le> cm_max m" for es
  proof -
    have "int (length (make_room rg now (cm_max m) es)) < cm_max m"
      using make_room_fits[OF r _ that(2)] assms(1) by (simp add: caches_bounded_def)
    then show ?thesis
      using length_put[of k "(v, now + ?ttl)" "make_room rg now (cm_max m) es"] that
      by (simp add: cache_set_def distinct_put distinct_make_room)
  qed
  show ?thesis
  proof (cases "map_of (cm_caches m) t")
    case None
    with assms(1) set_ok[of "[]"] CSet show ?thesis
      by (auto simp: caches_bounded_def manager_set_def tenant_cache_def Let_def split: if_splits)
  next
    case (Some es)
    then have "distinct (map fst es)" "int (length es) \<le> cm_max m"
      using assms(1) by (simp_all add: caches_bounded_def)
    with Some assms(1) set_ok[of es] CSet show ?thesis
      by (auto simp: caches_bounded_def manager_set_def tenant_cache_def Let_def split: if_splits)
  qed
qed

lemma cache_step_max [simp]: "cm_max (cache_step op m) = cm_max m"
  by (cases op) (auto simp: manager_get_def manager_set_def manager_evict_def tenant_cache_def Let_def split: option.splits)

lemma caches_bounded_run:
  "caches_bounded m \<Longrightarrow> \<forall>op \<in> set ops. ranges_op op \<Longrightarrow> caches_bounded (fold cache_step ops m)"
proof (induction ops arbitrary: m)
  case (Cons op ops)
  then have "caches_bounded (cache_step op m)" by (intro caches_bounded_step) simp_all
  with Cons show ?case by auto
qed simp

lemma fold_cache_step_max [simp]: "cm_max (fold cache_step ops m) = cm_max m"
  by (induction ops arbitrary: m) simp_all

lemma new_manager_bounded: "caches_bounded (new_cache_manager n)"
  by (simp add: caches_bounded_def new_cache_manager_def)

section \<open>The queue under every sequence of events\<close>

datatype queue_event = Arrive time job | Work | Purge string

fun queue_run :: "queue_event list \<Rightarrow> queue_manager \<Rightarrow> (job \<times> bool) list \<times> queue_manager" where
  "queue_run [] m = ([], m)"
| "queue_run (Arrive now j # evs) m =
    (let (ok, m1) = enqueue now j m; (rs, m2) = queue_run evs m1 in ((j, ok) # rs, m2))"
| "queue_run (Work # evs) m = queue_run evs (run_worker m)"
| "queue_run (Purge t # evs) m = queue_run evs (purge t m)"

definition accepted :: "string \<Rightarrow> (job \<times> bool) list \<Rightarrow> nat" where
  "accepted t rs = length (filter (\<lambda>r. jb_tenant (fst r) = t \<and> snd r) rs)"

lemma accepted_simps [simp]:
  "accepted t [] = 0" "accepted t ((j, ok) # rs) = (if jb_tenant j = t \<and> ok then 1 else 0) + accepted t rs"
  by (simp_all add: accepted_def)

lemma depth_of: "queue_depth t m = length (tq_jobs (tenant_queue_of t m))"
  by (simp add: queue_depth_def tenant_queue_of_def split: option.splits)

lemma enqueue_depth:
  assumes "enqueue now j m = (ok, m')"
  shows "qm_capacity m' = qm_capacity m" "ok \<longleftrightarrow> queue_depth (jb_tenant j) m < qm_capacity m"
    "queue_depth t m' = queue_depth t m + (if jb_tenant j = t \<and> ok then 1 else 0)"
  using assms by (auto simp: enqueue_def Let_def depth_of tenant_queue_of_def split: if_splits option.splits)

lemma queue_run_depth:
  "Purge t \<notin> set evs \<Longrightarrow> queue_depth t m \<le> qm_capacity m \<Longrightarrow>
   accepted t (fst (queue_run evs m)) + queue_depth t m \<le> qm_capacity m"
proof (induction evs m rule: queue_run.induct)
  case (2 now j evs m)
  obtain ok m1 where e: "enqueue now j m = (ok, m1)" by fastforce
  note d = enqueue_depth[OF e]
  have "queue_depth t m1 \<le> qm_capacity m1" using d 2(3) by (auto split: if_splits)
  then have "accepted t (fst (queue_run evs m1)) + queue_depth t m1 \<le> qm_capacity m1"
    using 2(1)[OF e[symmetric] HOL.refl] 2(2) by simp
  with d e show ?case by (auto split: prod.splits if_splits)
next
  case (3 evs m)
  have "queue_depth t (run_worker m) = queue_depth t m" "qm_capacity (run_worker m) = qm_capacity m"
    by (simp_all add: run_worker_def queue_depth_def split: list.splits)
  with 3 show ?case by simp
next
  case (4 u evs m)
  then have "queue_depth t (purge u m) = queue_depth t m" "qm_capacity (purge u m) = qm_capacity m"
    by (auto simp: purge_def queue_depth_def)
  with 4 show ?case by simp
qed simp

section \<open>Properties\<close>

text \<open>No tenant's cache ever holds more entries than the manager's bound, whatever is read, written and evicted, in
  whatever order Go ranges over the maps.\<close>

theorem cache_bounded:
  assumes "\<forall>op \<in> set ops. ranges_op op"
    and "map_of (cm_caches (fold cache_step ops (new_cache_manager n))) tenant = Some es"
  shows "int (length es) \<le> (if n \<le> 0 then 2000 else n)"
  using caches_bounded_run[OF new_manager_bounded assms(1), of n] assms(2)
  by (auto simp: caches_bounded_def new_cache_manager_def split: if_splits)

text \<open>C35: nothing but a purge empties a tenant's queue. Until one, the queue accepts at most its capacity of jobs of a tenant,
  however many of them the workers have processed meanwhile.\<close>

theorem queue_never_drains:
  assumes "Purge tenant \<notin> set evs"
  shows "accepted tenant (fst (queue_run evs (new_queue_manager capacity))) \<le> (if capacity \<le> 0 then 500 else nat capacity)"
proof -
  have "queue_depth tenant (new_queue_manager capacity) = 0" by (simp add: queue_depth_def new_queue_manager_def)
  then show ?thesis
    using queue_run_depth[OF assms, of "new_queue_manager capacity"] by (simp add: new_queue_manager_def split: if_splits)
qed

section \<open>Examples\<close>

definition example_job :: job where
  "example_job = \<lparr>jb_tenant = ''acme'', jb_payload = [], jb_meta = [], jb_enqueued_at = 0\<rparr>"

theorem queue_never_drains_witness:
  "accepted ''acme'' (fst (queue_run [Arrive 0 example_job, Work, Arrive 1 example_job, Work] (new_queue_manager 1))) \<le> 1"
  using queue_never_drains[of "''acme''" "[Arrive 0 example_job, Work, Arrive 1 example_job, Work]" 1] by simp

end
