(* ===== verification/TenantAdmin.thy ===== *)
theory TenantAdmin
  imports HttpGate TenantPlatform EventStore
begin

text \<open>
  The management plane of the tenants: \<open>internal/handlers/tenant_admin_handler.go\<close> behind
  \<open>internal/routes/tenant_admin_routes.go\<close>, with the audit log of \<open>internal/store/audit_log_store.go\<close>. It changes the
  tables of \<open>Users\<close>, the caches and limiters of \<open>HttpGate\<close> and the in-process stores of \<open>TenantPlatform\<close>. A body is given
  as what it decodes to for each kind of request (\<open>None\<close> when it does not); the times and numbers of a search are given
  as the parsers leave them. An audit entry is written by a goroutine: the entries are recorded in the order they are
  handed over.
\<close>

section \<open>The audit log\<close>

record AuditLogEntry =
  al_id :: nat
  al_tenant_id :: string
  al_actor :: string
  al_action :: string
  al_resource_type :: string
  al_resource_id :: string
  al_details_json :: string
  al_ip_address :: string
  al_created_at :: time

record audit_log =
  lg_rows :: "AuditLogEntry list"
  lg_next :: nat

text \<open>\<open>Log\<close>: the database numbers and dates the entry.\<close>

definition audit_insert :: "faults \<Rightarrow> time \<Rightarrow> AuditLogEntry \<Rightarrow> audit_log \<Rightarrow> audit_log result" where
  "audit_insert flt now e db = guard_db flt ''AuditLog.Log''
     (Inr (db\<lparr>lg_rows := lg_rows db @ [e\<lparr>al_id := lg_next db, al_created_at := now\<rparr>], lg_next := Suc (lg_next db)\<rparr>))"

definition audit_page :: "int \<Rightarrow> int \<Rightarrow> AuditLogEntry list \<Rightarrow> AuditLogEntry list" where
  "audit_page limit offset hits =
    take (nat (if limit \<le> 0 then 50 else limit)) (drop (nat (if offset < 0 then 0 else offset)) (order_desc al_created_at hits))"

definition audit_query ::
    "faults \<Rightarrow> string \<Rightarrow> string \<Rightarrow> int \<Rightarrow> int \<Rightarrow> audit_log \<Rightarrow> (AuditLogEntry list \<times> nat) result" where
  "audit_query flt tenant resourceType limit offset db =
    (let hits = filter (\<lambda>e. al_tenant_id e = tenant \<and> (resourceType \<noteq> [] \<longrightarrow> al_resource_type e = resourceType)) (lg_rows db)
     in if flt ''AuditLog.Count'' then Inl (ErrMsg ''audit_log_store: count: '')
        else if flt ''AuditLog.Query'' then Inl (ErrMsg ''audit_log_store: query: '')
        else Inr (audit_page limit offset hits, length hits))"

record AuditSearchQuery =
  sq_tenant_id :: string
  sq_actor :: string
  sq_action :: string
  sq_resource_type :: string
  sq_resource_id :: string
  sq_from :: "time option"
  sq_to :: "time option"
  sq_limit :: int
  sq_offset :: int

definition ilike :: "string \<Rightarrow> string \<Rightarrow> bool" where
  "ilike needle s = sql_like (CHR ''%'' # to_lower needle @ ''%'') (to_lower s)"

definition audit_where :: "AuditSearchQuery \<Rightarrow> AuditLogEntry \<Rightarrow> bool" where
  "audit_where q e \<longleftrightarrow> al_tenant_id e = sq_tenant_id q \<and>
     (sq_actor q \<noteq> [] \<longrightarrow> ilike (sq_actor q) (al_actor e)) \<and>
     (sq_action q \<noteq> [] \<longrightarrow> ilike (sq_action q) (al_action e)) \<and>
     (sq_resource_type q \<noteq> [] \<longrightarrow> al_resource_type e = sq_resource_type q) \<and>
     (sq_resource_id q \<noteq> [] \<longrightarrow> al_resource_id e = sq_resource_id q) \<and>
     (case sq_from q of None \<Rightarrow> True | Some t \<Rightarrow> t \<le> al_created_at e) \<and>
     (case sq_to q of None \<Rightarrow> True | Some t \<Rightarrow> al_created_at e \<le> t)"

definition audit_search :: "faults \<Rightarrow> AuditSearchQuery \<Rightarrow> audit_log \<Rightarrow> (AuditLogEntry list \<times> nat) result" where
  "audit_search flt q db =
    (let hits = filter (audit_where q) (lg_rows db)
     in if flt ''AuditSearch.Count'' then Inl (ErrMsg ''audit search count: '')
        else if flt ''AuditSearch.Query'' then Inl (ErrMsg ''audit search query: '')
        else Inr (audit_page (sq_limit q) (sq_offset q) hits, length hits))"

section \<open>Requests and answers\<close>

record admin_body =
  ab_tenant :: "TenantMaster option"
  ab_state :: "(string \<times> string) option"      \<comment> \<open>state, reason\<close>
  ab_plan :: "string option"
  ab_limits :: "(int \<times> int) option"
  ab_enabled :: "bool option"

record admin_request =
  am_claims :: "TokenClaims option"
  am_method :: string
  am_path :: string
  am_body :: admin_body
  am_search :: AuditSearchQuery               \<comment> \<open>without its tenant\<close>

datatype admin_answer =
    Tenants "TenantMaster list"
  | OneTenant TenantMaster
  | Status string
  | Plan string
  | Limits RateLimitProfile
  | Usage TenantUsage nat nat nat             \<comment> \<open>queue depth, jobs dropped, cache entries\<close>
  | Encryption bool
  | QueueStats "(string \<times> nat \<times> nat) list"
  | AuditPage "AuditLogEntry list" nat int int

record 'v admin_state =
  at_db :: identity_db
  at_audit :: audit_log
  at_entries :: "AuditLogEntry list"          \<comment> \<open>handed to the audit log\<close>
  at_gate :: gate_state
  at_caches :: "'v cache_manager"
  at_queues :: queue_manager
  at_incidents :: incident_db
  at_events :: event_db

definition audit_entry :: "TokenClaims \<Rightarrow> string \<Rightarrow> string \<Rightarrow> string \<Rightarrow> AuditLogEntry" where
  "audit_entry claims action i details =
    \<lparr>al_id = 0, al_tenant_id = tc_tenant_id claims, al_actor = tc_user_id claims, al_action = action,
     al_resource_type = ''tenant'', al_resource_id = i, al_details_json = details, al_ip_address = [],
     al_created_at = zero_time\<rparr>"

definition note_audit :: "AuditLogEntry \<Rightarrow> 'v admin_state \<Rightarrow> 'v admin_state" where
  "note_audit e st = st\<lparr>at_entries := at_entries st @ [e]\<rparr>"

definition err_text :: "go_error \<Rightarrow> string" where
  "err_text e = (case e of ErrMsg m \<Rightarrow> m | _ \<Rightarrow> [])"

section \<open>Operations\<close>

definition list_tenants_h :: "faults \<Rightarrow> 'v admin_state \<Rightarrow> admin_answer reply" where
  "list_tenants_h flt st =
    (case list_tenants flt (at_db st) of Inl e \<Rightarrow> refuse 500 (err_text e) | Inr ts \<Rightarrow> Answered (Tenants ts))"

definition get_tenant_h :: "faults \<Rightarrow> string \<Rightarrow> 'v admin_state \<Rightarrow> admin_answer reply" where
  "get_tenant_h flt i st =
    (case get_tenant_by_id flt i (at_db st) of
       Inr (Some t) \<Rightarrow> Answered (OneTenant t) | _ \<Rightarrow> refuse 404 ''tenant not found'')"

definition posted_tenant :: "TenantMaster \<Rightarrow> TenantMaster" where
  "posted_tenant t = t\<lparr>tm_slug := (if tm_slug t = [] then to_lower (dashed (tm_name t)) else tm_slug t),
     tm_plan := coalesce_str (tm_plan t) ''trial'', tm_state := coalesce_str (tm_state t) ''active'',
     tm_audit_retain_days := (if tm_audit_retain_days t = 0 then 90 else tm_audit_retain_days t)\<rparr>"

definition create_tenant ::
    "faults \<Rightarrow> time \<Rightarrow> TokenClaims \<Rightarrow> TenantMaster option \<Rightarrow> 'v admin_state \<Rightarrow> admin_answer reply \<times> 'v admin_state" where
  "create_tenant flt now claims body st =
    (case body of None \<Rightarrow> (refuse 400 ''invalid JSON'', st)
     | Some t0 \<Rightarrow>
        if tm_id t0 = [] \<or> tm_name t0 = [] then (refuse 400 ''id and name are required'', st)
        else (let t = posted_tenant t0 in
          case upsert_tenant flt now t (at_db st) of
            Inl e \<Rightarrow> (refuse 500 (err_text e), st)
          | Inr db \<Rightarrow> (Answered (OneTenant t), note_audit (audit_entry claims ''tenant.create'' (tm_id t) []) (st\<lparr>at_db := db\<rparr>))))"

definition update_tenant ::
    "faults \<Rightarrow> time \<Rightarrow> TokenClaims \<Rightarrow> string \<Rightarrow> TenantMaster option \<Rightarrow> 'v admin_state \<Rightarrow> admin_answer reply \<times> 'v admin_state" where
  "update_tenant flt now claims i body st =
    (case body of None \<Rightarrow> (refuse 400 ''invalid JSON'', st)
     | Some t \<Rightarrow>
        (case upsert_tenant flt now (t\<lparr>tm_id := i\<rparr>) (at_db st) of
           Inl e \<Rightarrow> (refuse 500 (err_text e), st)
         | Inr db \<Rightarrow> (Answered (Status ''updated''), note_audit (audit_entry claims ''tenant.update'' i []) (st\<lparr>at_db := db\<rparr>))))"

definition on_gate :: "(gate_state \<Rightarrow> gate_state) \<Rightarrow> 'v admin_state \<Rightarrow> 'v admin_state" where
  "on_gate f st = st\<lparr>at_gate := f (at_gate st)\<rparr>"

definition evict_limits :: "string \<Rightarrow> gate_state \<Rightarrow> gate_state" where
  "evict_limits i g = g\<lparr>gs_limiter := limiter_evict i (gs_limiter g)\<rparr>"

text \<open>The side effects of a change of state.\<close>

definition isolate_tenant :: "string \<Rightarrow> string \<Rightarrow> 'v admin_state \<Rightarrow> 'v admin_state" where
  "isolate_tenant i state st =
    (let st1 = on_gate (\<lambda>g. evict_limits i (g\<lparr>gs_states := invalidate_state i (gs_states g)\<rparr>)) st;
         st2 = st1\<lparr>at_caches := manager_evict i (at_caches st1)\<rparr>
     in if state = ''suspended'' \<or> state = ''disabled'' then st2\<lparr>at_queues := purge i (at_queues st2)\<rparr> else st2)"

definition quote1 :: string where "quote1 = [CHR 0x22]"

definition json_pair :: "string \<Rightarrow> string \<Rightarrow> string" where
  "json_pair k v = ''{'' @ quote1 @ k @ quote1 @ '':'' @ quote1 @ v @ quote1 @ ''}''"

definition set_state_h ::
    "faults \<Rightarrow> time \<Rightarrow> TokenClaims \<Rightarrow> string \<Rightarrow> (string \<times> string) option \<Rightarrow> 'v admin_state \<Rightarrow> admin_answer reply \<times> 'v admin_state" where
  "set_state_h flt now claims i body st =
    (case body of None \<Rightarrow> (refuse 400 ''invalid JSON'', st)
     | Some (state, reason) \<Rightarrow>
        if state = [] then (refuse 400 ''state is required'', st)
        else (case set_state flt now i state (at_db st) of
           Inl e \<Rightarrow> (refuse 400 (err_text e), st)
         | Inr db \<Rightarrow>
            (Answered (Status state),
             note_audit (audit_entry claims (''tenant.state.'' @ state) i (json_pair ''reason'' reason))
               (isolate_tenant i state (st\<lparr>at_db := db\<rparr>)))))"

definition set_plan_h ::
    "faults \<Rightarrow> time \<Rightarrow> TokenClaims \<Rightarrow> string \<Rightarrow> string option \<Rightarrow> 'v admin_state \<Rightarrow> admin_answer reply \<times> 'v admin_state" where
  "set_plan_h flt now claims i body st =
    (case body of None \<Rightarrow> (refuse 400 ''invalid JSON'', st)
     | Some plan \<Rightarrow>
        (case set_plan flt now i plan (at_db st) of
           Inl e \<Rightarrow> (refuse 500 (err_text e), st)
         | Inr db \<Rightarrow>
            (Answered (Plan plan),
             note_audit (audit_entry claims ''tenant.plan.change'' i (json_pair ''plan'' plan))
               (on_gate (evict_limits i) (st\<lparr>at_db := db\<rparr>)))))"

definition get_limits_h :: "faults \<Rightarrow> string \<Rightarrow> 'v admin_state \<Rightarrow> admin_answer reply" where
  "get_limits_h flt i st =
    (case get_effective_limits flt i (at_db st) of Inl _ \<Rightarrow> refuse 404 ''tenant not found'' | Inr p \<Rightarrow> Answered (Limits p))"

definition set_limits_h ::
    "faults \<Rightarrow> time \<Rightarrow> TokenClaims \<Rightarrow> string \<Rightarrow> (int \<times> int) option \<Rightarrow> 'v admin_state \<Rightarrow> admin_answer reply \<times> 'v admin_state" where
  "set_limits_h flt now claims i body st =
    (case body of None \<Rightarrow> (refuse 400 ''invalid JSON'', st)
     | Some (ingest, query) \<Rightarrow>
        (case set_rate_limits flt now i ingest query (at_db st) of
           Inl e \<Rightarrow> (refuse 500 (err_text e), st)
         | Inr db \<Rightarrow>
            (Answered (Status ''updated''),
             note_audit (audit_entry claims ''tenant.limits.update'' i []) (on_gate (evict_limits i) (st\<lparr>at_db := db\<rparr>)))))"

definition get_usage_h :: "faults \<Rightarrow> time \<Rightarrow> string \<Rightarrow> 'v admin_state \<Rightarrow> admin_answer reply" where
  "get_usage_h flt now i st =
    Answered (Usage (get_usage flt i (at_incidents st) (at_events st) (at_db st))
      (queue_depth i (at_queues st)) (dropped_count i (at_queues st)) (manager_stats now i (at_caches st)))"

definition set_encryption_h ::
    "faults \<Rightarrow> time \<Rightarrow> TokenClaims \<Rightarrow> string \<Rightarrow> bool option \<Rightarrow> 'v admin_state \<Rightarrow> admin_answer reply \<times> 'v admin_state" where
  "set_encryption_h flt now claims i body st =
    (case body of None \<Rightarrow> (refuse 400 ''invalid JSON'', st)
     | Some enabled \<Rightarrow>
        (case set_encryption flt now i enabled (at_db st) of
           Inl e \<Rightarrow> (refuse 500 (err_text e), st)
         | Inr db \<Rightarrow>
            (Answered (Encryption enabled),
             note_audit (audit_entry claims ''tenant.encryption.toggle'' i []) (st\<lparr>at_db := db\<rparr>))))"

definition audit_search_h :: "faults \<Rightarrow> string \<Rightarrow> string \<Rightarrow> AuditSearchQuery \<Rightarrow> 'v admin_state \<Rightarrow> admin_answer reply" where
  "audit_search_h flt meth tenant q st =
    (if meth \<noteq> ''GET'' then refuse 405 ''method not allowed''
     else (case audit_search flt (q\<lparr>sq_tenant_id := tenant\<rparr>) (at_audit st) of
         Inl e \<Rightarrow> refuse 500 (err_text e)
       | Inr (es, n) \<Rightarrow> Answered (AuditPage es n (sq_limit q) (sq_offset q))))"

section \<open>Dispatch\<close>

definition admin_path_id :: "string \<Rightarrow> string \<times> string" where
  "admin_path_id sub =
    (let s = trim_prefix sub ''/'' in
     if s = [] then ([], [])
     else (case split_first (CHR ''/'') s of None \<Rightarrow> (s, []) | Some (i, rest) \<Rightarrow> (i, CHR ''/'' # rest)))"

definition not_allowed :: "'v admin_state \<Rightarrow> admin_answer reply \<times> 'v admin_state" where
  "not_allowed st = (refuse 405 ''method not allowed'', st)"

definition admin_dispatch ::
    "faults \<Rightarrow> time \<Rightarrow> TokenClaims \<Rightarrow> admin_request \<Rightarrow> 'v admin_state \<Rightarrow> admin_answer reply \<times> 'v admin_state" where
  "admin_dispatch flt now claims r st =
        (let sub = trim_prefix (am_path r) ''/api/v1/admin/tenants''; m = am_method r; b = am_body r in
         if has_prefix (am_path r) ''/api/v1/admin/audit'' then (audit_search_h flt m (tc_tenant_id claims) (am_search r) st, st)
         else if sub = ''/queue-stats'' then
           (if m \<noteq> ''GET'' then not_allowed st else (Answered (QueueStats (queue_stats (at_queues st))), st))
         else (let (i, rest) = admin_path_id sub in
           if i = [] then
             (if m = ''GET'' then (list_tenants_h flt st, st)
              else if m = ''POST'' then create_tenant flt now claims (ab_tenant b) st
              else not_allowed st)
           else if rest = [] \<or> rest = ''/'' then
             (if m = ''GET'' then (get_tenant_h flt i st, st)
              else if m = ''PUT'' then update_tenant flt now claims i (ab_tenant b) st
              else not_allowed st)
           else if rest = ''/state'' then
             (if m = ''POST'' then set_state_h flt now claims i (ab_state b) st else not_allowed st)
           else if rest = ''/plan'' then
             (if m = ''POST'' then set_plan_h flt now claims i (ab_plan b) st else not_allowed st)
           else if rest = ''/limits'' then
             (if m = ''GET'' then (get_limits_h flt i st, st)
              else if m = ''PUT'' then set_limits_h flt now claims i (ab_limits b) st
              else not_allowed st)
           else if rest = ''/usage'' then
             (if m = ''GET'' then (get_usage_h flt now i st, st) else not_allowed st)
           else if rest = ''/encryption'' then
             (if m = ''POST'' then set_encryption_h flt now claims i (ab_enabled b) st else not_allowed st)
           else (refuse 404 ''not found'', st)))"

definition handle_admin ::
    "faults \<Rightarrow> time \<Rightarrow> admin_request \<Rightarrow> 'v admin_state \<Rightarrow> admin_answer reply \<times> 'v admin_state" where
  "handle_admin flt now r st =
    (case am_claims r of
       None \<Rightarrow> (refuse 401 ''unauthorized'', st)
     | Some claims \<Rightarrow> admin_dispatch flt now claims r st)"

text \<open>The route: the chain, the administrator's role, the handler.\<close>

definition admin_route ::
    "gate_env \<Rightarrow> faults \<Rightarrow> time \<Rightarrow> gate_request \<Rightarrow> admin_request \<Rightarrow> 'v admin_state \<Rightarrow>
     (admin_answer reply + gate_outcome) \<times> 'v admin_state" where
  "admin_route env flt now q r st =
    (case role_route RoleAdmin env flt now q (at_db st) (at_gate st) of
       (Entered claims, g) \<Rightarrow>
         (case handle_admin flt now (r\<lparr>am_claims := Some claims, am_method := gq_method q\<rparr>) (st\<lparr>at_gate := g\<rparr>) of
            (a, st') \<Rightarrow> (Inl a, st'))
     | (outcome, g) \<Rightarrow> (Inr outcome, st\<lparr>at_gate := g\<rparr>))"

section \<open>Lemmas\<close>

lemma note_audit_simps [simp]:
  "at_db (note_audit e st) = at_db st" "at_gate (note_audit e st) = at_gate st" "at_caches (note_audit e st) = at_caches st"
  "at_queues (note_audit e st) = at_queues st" "at_audit (note_audit e st) = at_audit st"
  by (simp_all add: note_audit_def)

lemma isolate_simps [simp]:
  "at_db (isolate_tenant i s st) = at_db st"
  "gs_states (at_gate (isolate_tenant i s st)) = invalidate_state i (gs_states (at_gate st))"
  by (simp_all add: isolate_tenant_def on_gate_def evict_limits_def Let_def)

lemma find_on_tenant:
  assumes "\<And>r. tr_id (f r) = tr_id r"
  shows "tbl_find tr_id i (idb_tenants (on_tenant i now f db)) =
    map_option (\<lambda>r. (f r)\<lparr>tr_tenant := (tr_tenant (f r))\<lparr>tm_updated_at := now\<rparr>\<rparr>) (tbl_find tr_id i (idb_tenants db))"
proof -
  have "tr_id ((f r)\<lparr>tr_tenant := (tr_tenant (f r))\<lparr>tm_updated_at := now\<rparr>\<rparr>) = tr_id r" for r
    using assms[of r] by (simp add: tr_id_def)
  then have "tbl_find tr_id i (idb_tenants (on_tenant i now f db)) =
      map_option (\<lambda>r. if tr_id r = i then (f r)\<lparr>tr_tenant := (tr_tenant (f r))\<lparr>tm_updated_at := now\<rparr>\<rparr> else r)
        (tbl_find tr_id i (idb_tenants db))"
    unfolding on_tenant_def by (simp add: tbl_find_update)
  then show ?thesis by (cases "tbl_find tr_id i (idb_tenants db)") (auto dest: tbl_find_Some)
qed

lemma find_on_master:
  assumes "\<And>t. tm_id (f t) = tm_id t"
  shows "tbl_find tr_id i (idb_tenants (on_tenant i now (on_master f) db)) =
    map_option (\<lambda>r. (on_master f r)\<lparr>tr_tenant := (tr_tenant (on_master f r))\<lparr>tm_updated_at := now\<rparr>\<rparr>)
      (tbl_find tr_id i (idb_tenants db))"
  using assms by (intro find_on_tenant) (simp add: tr_id_def on_master_def)

lemma state_after_set_state:
  assumes "set_state flt now i state db = Inr db'" "tbl_has tr_id i (idb_tenants db)" "\<not> flt' ''GetState''"
  shows "get_state flt' i db' = state"
proof -
  obtain r where r: "tbl_find tr_id i (idb_tenants db) = Some r"
    using assms(2) by (metis option.exhaust tbl_find_None)
  show ?thesis
    using assms(1,3) r
    by (auto simp: set_state_def get_state_def find_on_master on_master_def split: if_splits)
qed

lemma audit_page_subset: "e \<in> set (audit_page l k hits) \<Longrightarrow> e \<in> set hits"
proof -
  assume "e \<in> set (audit_page l k hits)"
  then have "e \<in> set (order_desc al_created_at hits)"
    unfolding audit_page_def by (blast dest: in_set_takeD in_set_dropD)
  then show ?thesis by simp
qed

lemma audit_search_rows:
  assumes "audit_search flt q db = Inr (es, n)" "e \<in> set es"
  shows "e \<in> set (lg_rows db) \<and> al_tenant_id e = sq_tenant_id q"
proof -
  have "es = audit_page (sq_limit q) (sq_offset q) (filter (audit_where q) (lg_rows db))"
    using assms(1) unfolding audit_search_def Let_def by (simp split: if_splits)
  then have "e \<in> set (filter (audit_where q) (lg_rows db))" using audit_page_subset assms(2) by blast
  then show ?thesis unfolding set_filter audit_where_def by blast
qed

lemma set_state_h_Answered:
  assumes "set_state_h flt now claims i (Some (state, reason)) st = (Answered a, st')"
  shows "set_state flt now i state (at_db st) = Inr (at_db st')"
    "gs_states (at_gate st') = invalidate_state i (gs_states (at_gate st))"
  using assms by (auto simp: set_state_h_def split: if_splits sum.splits)

text \<open>The same answer, and the same state up to the audit entries.\<close>

definition alike :: "admin_answer reply \<times> 'v admin_state \<Rightarrow> admin_answer reply \<times> 'v admin_state \<Rightarrow> bool" where
  "alike x y \<longleftrightarrow> fst x = fst y \<and> (snd x)\<lparr>at_entries := []\<rparr> = (snd y)\<lparr>at_entries := []\<rparr>"

lemma alike_refl: "alike x x"
  by (simp add: alike_def)

lemma alike_if: "alike a a' \<Longrightarrow> alike b b' \<Longrightarrow> alike (if P then a else b) (if P then a' else b')"
  by simp

lemma alike_prod: "(\<And>i rest. alike (f i rest) (g i rest)) \<Longrightarrow> alike (case p of (i, rest) \<Rightarrow> f i rest) (case p of (i, rest) \<Rightarrow> g i rest)"
  by (cases p) simp

lemma alike_ops:
  "alike (create_tenant flt now c1 t st) (create_tenant flt now c2 t st)"
  "alike (update_tenant flt now c1 i t st) (update_tenant flt now c2 i t st)"
  "alike (set_state_h flt now c1 i s st) (set_state_h flt now c2 i s st)"
  "alike (set_plan_h flt now c1 i p st) (set_plan_h flt now c2 i p st)"
  "alike (set_limits_h flt now c1 i l st) (set_limits_h flt now c2 i l st)"
  "alike (set_encryption_h flt now c1 i e st) (set_encryption_h flt now c2 i e st)"
  by (simp_all add: alike_def create_tenant_def update_tenant_def set_state_h_def set_plan_h_def set_limits_h_def
      set_encryption_h_def note_audit_def Let_def split: option.split sum.split prod.split)

lemma admin_dispatch_alike:
  "\<not> has_prefix (am_path r) ''/api/v1/admin/audit'' \<Longrightarrow>
   alike (admin_dispatch flt now c1 r st) (admin_dispatch flt now c2 r st)"
  unfolding admin_dispatch_def Let_def
  by (simp only: if_False) (intro alike_if alike_prod alike_ops alike_refl)

section \<open>Properties\<close>

lemma set_state_without_row:
  assumes "set_state flt now i state db = Inr db'" "\<not> tbl_has tr_id i (idb_tenants db)"
  shows "get_state flt' i db' = ''active''"
proof -
  have "tbl_find tr_id i (idb_tenants db) = None" using assms(2) by (simp add: tbl_find_None)
  then show ?thesis using assms(1)
    by (auto simp: set_state_def get_state_def find_on_master on_master_def split: if_splits)
qed

text \<open>C36: where tenants are isolated, and once the handler has answered that a tenant is suspended or disabled, the very
  next request of that tenant enters a handler of this server in two cases only: its state cannot be read at that moment,
  or the tenant has no row, and then the answer meant nothing, since its state is still read as active. So the next
  request of a tenant with a row is stopped whenever its state can be read, whatever the caches held: the state is dropped
  from the cache with the change.\<close>

theorem suspend_locks_out_at_once:
  assumes "set_state_h flt now claims i (Some (state, reason)) st = (Answered a, st')"
    and "state \<in> {''suspended'', ''disabled''}" and "i \<noteq> []"
    and "with_auth env flt' now' q (at_db st') (at_gate st') = (Entered cl, g)"
    and "ge_isolation env"
  shows "(tc_tenant_id cl = i \<longrightarrow> flt' ''GetState'' \<or> \<not> tbl_has tr_id i (idb_tenants (at_db st))) \<and>
    (\<not> tbl_has tr_id i (idb_tenants (at_db st)) \<longrightarrow> get_state flt' i (at_db st') = ''active'')"
proof (intro conjI impI)
  assume "\<not> tbl_has tr_id i (idb_tenants (at_db st))"
  with set_state_without_row set_state_h_Answered(1)[OF assms(1)] show "get_state flt' i (at_db st') = ''active''" by blast
next
  assume t: "tc_tenant_id cl = i"
  show "flt' ''GetState'' \<or> \<not> tbl_has tr_id i (idb_tenants (at_db st))"
  proof (rule ccontr)
    assume "\<not> (flt' ''GetState'' \<or> \<not> tbl_has tr_id i (idb_tenants (at_db st)))"
    then have s: "get_state flt' i (at_db st') = state"
      using state_after_set_state[of flt now i state "at_db st" "at_db st'" flt'] set_state_h_Answered(1)[OF assms(1)] by blast
    have "fst (cached_state now' (\<lambda>t. get_state flt' t (at_db st')) i (gs_states (at_gate st'))) = state"
      unfolding set_state_h_Answered(2)[OF assms(1)] using states.after_drop s by simp
    with assms(2,3) t with_auth_Entered(3)[OF assms(4,5)] show False
      unfolding enforce_isolation_None by auto
  qed
qed

text \<open>C37: an administrator's tenant plays no part in what the handler does to tenants. On every path but those of the audit
  search, the answer, the tables, the caches and the queues come out the same for any two callers, so the administrator of
  one tenant may suspend, re-plan or rename any other; only the audit entries written tell the callers apart. (The audit
  search does depend on the caller: it answers the entries of his own tenant.)\<close>

theorem admin_ignores_own_tenant:
  assumes "\<not> has_prefix (am_path r) ''/api/v1/admin/audit''"
    and "admin_dispatch flt now c1 r st = (a1, st1)" and "admin_dispatch flt now c2 r st = (a2, st2)"
  shows "a1 = a2 \<and> st1\<lparr>at_entries := []\<rparr> = st2\<lparr>at_entries := []\<rparr>"
  using admin_dispatch_alike[OF assms(1), of flt now c1 st c2] assms(2,3) by (simp add: alike_def)

text \<open>An audit search answers only entries of the tenant of the caller's token, whatever tenant the query names.\<close>

theorem audit_search_scoped:
  assumes "handle_admin flt now r st = (Answered (AuditPage es n limit offset), st')" and "am_claims r = Some c"
    and "has_prefix (am_path r) ''/api/v1/admin/audit''"
  shows "(\<forall>e \<in> set es. al_tenant_id e = tc_tenant_id c \<and> e \<in> set (lg_rows (at_audit st))) \<and> st' = st"
proof -
  let ?q = "(am_search r)\<lparr>sq_tenant_id := tc_tenant_id c\<rparr>"
  have "admin_dispatch flt now c r st = (audit_search_h flt (am_method r) (tc_tenant_id c) (am_search r) st, st)"
    unfolding admin_dispatch_def Let_def if_P[OF assms(3)] ..
  then have "audit_search_h flt (am_method r) (tc_tenant_id c) (am_search r) st = Answered (AuditPage es n limit offset)" "st' = st"
    using assms(1,2) by (auto simp: handle_admin_def)
  then have "audit_search flt ?q (at_audit st) = Inr (es, n)"
    by (cases "audit_search flt ?q (at_audit st)") (simp_all add: audit_search_h_def split: if_splits prod.splits)
  then have "e \<in> set (lg_rows (at_audit st)) \<and> al_tenant_id e = tc_tenant_id c" if "e \<in> set es" for e
    using audit_search_rows[OF _ that] by fastforce
  with \<open>st' = st\<close> show ?thesis by blast
qed

text \<open>Replacing a tenant's profile without naming a region moves it to the region us, whatever region it was assigned.\<close>

theorem update_resets_region:
  assumes "update_tenant flt now claims i (Some t) st = (Answered a, st')" and "tm_data_region t = []"
    and "tbl_has tr_id i (idb_tenants (at_db st))" and "\<not> flt' ''GetDataRegion''"
  shows "get_data_region flt' i (at_db st') = ''us''"
proof -
  let ?t = "t\<lparr>tm_id := i\<rparr>"
  obtain r where r: "tbl_find tr_id i (idb_tenants (at_db st)) = Some r"
    using assms(3) by (metis option.exhaust tbl_find_None)
  have "upsert_tenant flt now ?t (at_db st) = Inr (at_db st')"
    using assms(1) by (auto simp: update_tenant_def split: sum.splits)
  then have db: "idb_tenants (at_db st') = tbl_upsert tr_id (refresh_tenant now ?t) (new_tenant_row now ?t) (idb_tenants (at_db st))"
    by (auto simp: upsert_tenant_def dest!: sym[of _ "at_db st'"] split: if_splits)
  have "tbl_find tr_id i (idb_tenants (at_db st')) = Some (refresh_tenant now ?t r)"
    using tbl_find_upsert_same[of tr_id "new_tenant_row now ?t" "refresh_tenant now ?t" "idb_tenants (at_db st)"] r
    by (simp add: db)
  then show ?thesis using assms(2,4) by (simp add: get_data_region_def refresh_tenant_def coalesce_str_def)
qed

section \<open>Examples\<close>

definition example_admin :: "nat admin_state" where
  "example_admin = \<lparr>at_db = fresh_install, at_audit = \<lparr>lg_rows = [], lg_next = 1\<rparr>, at_entries = [], at_gate = cold_gate,
     at_caches = new_cache_manager 2000, at_queues = new_queue_manager 500, at_incidents = empty_incident_db, at_events = []\<rparr>"

theorem suspend_locks_out_witness:
  "\<exists>a st' g. set_state_h no_faults 0 example_claims ''default'' (Some (''suspended'', ''unpaid'')) example_admin = (Answered a, st') \<and>
    with_auth example_gate no_faults 0 example_request (at_db st') (at_gate st') = (Entered example_claims, g) \<and>
    tc_tenant_id example_claims \<noteq> ''default''"
proof -
  have has: "tbl_has tr_id ''default'' (idb_tenants (at_db example_admin))"
    by (simp add: example_admin_def fresh_install_def tr_id_def tbl_has_def)
  obtain a st' where s: "set_state_h no_faults 0 example_claims ''default'' (Some (''suspended'', ''unpaid'')) example_admin =
      (Answered a, st')"
    by (simp add: set_state_h_def set_state_def)
  have db: "tbl_find tr_id ''acme'' (idb_tenants (at_db st')) = None"
  proof -
    have "at_db st' = on_tenant ''default'' 0 (on_master (\<lambda>t. t\<lparr>tm_state := ''suspended'', tm_suspended_at := Some 0\<rparr>)) fresh_install"
      using set_state_h_Answered(1)[OF s] by (simp add: set_state_def example_admin_def)
    then show ?thesis by (simp add: on_tenant_def on_master_def fresh_install_def tr_id_def)
  qed
  have g: "gs_states (at_gate st') ''acme'' = None" "gs_regions (at_gate st') ''acme'' = None"
    using s by (auto simp: set_state_h_def set_state_def isolate_tenant_def on_gate_def evict_limits_def note_audit_def
        example_admin_def cold_gate_def invalidate_state_def Let_def)
  obtain g' where w: "with_auth example_gate no_faults 0 example_request (at_db st') (at_gate st') = (Entered example_claims, g')"
  proof -
    have "get_state no_faults ''acme'' (at_db st') = ''active''" "get_data_region no_faults ''acme'' (at_db st') = ''us''"
      using db by (simp_all add: get_state_def get_data_region_def)
    then show thesis using example_entered[OF _ _ g] that by blast
  qed
  have iso: "ge_isolation example_gate" by (simp add: example_gate_def)
  have "tc_tenant_id example_claims \<noteq> ''default''"
    using suspend_locks_out_at_once[OF s _ _ w iso] has by auto
  with s w show ?thesis by blast
qed

definition example_suspension :: admin_request where
  "example_suspension = \<lparr>am_claims = None, am_method = ''POST'', am_path = ''/api/v1/admin/tenants/globex/state'',
     am_body = \<lparr>ab_tenant = None, ab_state = Some (''suspended'', []), ab_plan = None, ab_limits = None, ab_enabled = None\<rparr>,
     am_search = \<lparr>sq_tenant_id = [], sq_actor = [], sq_action = [], sq_resource_type = [], sq_resource_id = [],
       sq_from = None, sq_to = None, sq_limit = 0, sq_offset = 0\<rparr>\<rparr>"

theorem admin_ignores_own_tenant_witness:
  "fst (admin_dispatch no_faults 0 example_claims example_suspension example_admin) =
   fst (admin_dispatch no_faults 0 (example_claims\<lparr>tc_tenant_id := ''globex''\<rparr>) example_suspension example_admin)"
proof -
  have "\<not> has_prefix (am_path example_suspension) ''/api/v1/admin/audit''" by (simp add: example_suspension_def)
  then show ?thesis
    using admin_ignores_own_tenant[of example_suspension no_faults 0 example_claims example_admin _ _
        "example_claims\<lparr>tc_tenant_id := ''globex''\<rparr>"] by (metis prod.collapse)
qed

end
