(* ===== verification/GoTime.thy ===== *)
theory GoTime
  imports GoStrings "HOL-Library.Monad_Syntax"
begin

text \<open>
  \<open>time.Parse(time.RFC3339, s)\<close> as the library reads it: two or one digits for the hour, an optional fraction after
  a point or a comma of which nine digits count, and \<open>Z\<close> or an offset of up to 24 hours and 60 minutes. The result is
  the instant, in nanoseconds since the epoch; the zone of the value is not kept.
\<close>

section \<open>The calendar\<close>

definition leap_year :: "int \<Rightarrow> bool" where
  "leap_year y \<longleftrightarrow> 4 dvd y \<and> (\<not> 100 dvd y \<or> 400 dvd y)"

definition month_days :: "int \<Rightarrow> nat \<Rightarrow> nat" where
  "month_days y m = (if m = 2 then (if leap_year y then 29 else 28) else if m \<in> {4, 6, 9, 11} then 30 else 31)"

text \<open>Days before a year, counted from the first of January of year 1.\<close>

definition days_before_year :: "int \<Rightarrow> int" where
  "days_before_year y = 365 * (y - 1) + (y - 1) div 4 - (y - 1) div 100 + (y - 1) div 400"

definition days_before_month :: "int \<Rightarrow> nat \<Rightarrow> int" where
  "days_before_month y m = int (sum_list (map (month_days y) [1..<m]))"

definition epoch_days :: int where "epoch_days = 719162"

definition instant :: "int \<Rightarrow> nat \<Rightarrow> nat \<Rightarrow> nat \<Rightarrow> nat \<Rightarrow> nat \<Rightarrow> nat \<Rightarrow> time" where
  "instant y m d hh mm ss ns =
    ((days_before_year y + days_before_month y m + int d - 1 - epoch_days) * 86400 +
     int hh * 3600 + int mm * 60 + int ss) * second + int ns"

section \<open>Parsing\<close>

type_synonym 'a reader = "string \<Rightarrow> ('a \<times> string) option"

definition read_year :: "int reader" where
  "read_year s = (if 4 \<le> length s \<and> list_all is_digit (take 4 s) then Some (int (read_nat (take 4 s)), drop 4 s) else None)"

text \<open>\<open>getnum\<close>: two digits, or one where they are not \<open>fixed\<close>.\<close>

definition get_num :: "bool \<Rightarrow> nat reader" where
  "get_num fixed s =
    (case s of
       a # b # r \<Rightarrow>
        if \<not> is_digit a then None
        else if is_digit b then Some (read_nat [a, b], r)
        else if fixed then None else Some (digit_val a, b # r)
     | [a] \<Rightarrow> if is_digit a \<and> \<not> fixed then Some (digit_val a, []) else None
     | [] \<Rightarrow> None)"

definition skip_char :: "char \<Rightarrow> string \<Rightarrow> string option" where
  "skip_char c s = (case s of [] \<Rightarrow> None | d # r \<Rightarrow> if d = c then Some r else None)"

text \<open>The fraction after the seconds; digits after the ninth are read and dropped.\<close>

definition read_fraction :: "nat reader" where
  "read_fraction s =
    (case s of
       c # d # r \<Rightarrow>
        if (c = CHR ''.'' \<or> c = CHR '','') \<and> is_digit d
        then (let ds = takeWhile is_digit (d # r); kept = take 9 ds
              in Some (read_nat kept * 10 ^ (9 - length kept), dropWhile is_digit (d # r)))
        else Some (0, s)
     | _ \<Rightarrow> Some (0, s))"

text \<open>Seconds east of UTC. The whole rest of the text is the zone.\<close>

definition read_zone :: "string \<Rightarrow> int option" where
  "read_zone s =
    (if s = ''Z'' then Some 0
     else if length s = 6 \<and> s ! 3 = CHR '':'' \<and> (s ! 0 = CHR ''+'' \<or> s ! 0 = CHR ''-'') then
       (case (get_num True [s ! 1, s ! 2], get_num True [s ! 4, s ! 5]) of
          (Some (hh, _), Some (mm, _)) \<Rightarrow>
            if hh \<le> 24 \<and> mm \<le> 60 then Some ((if s ! 0 = CHR ''-'' then - 1 else 1) * (int hh * 3600 + int mm * 60)) else None
        | _ \<Rightarrow> None)
     else None)"

definition parse_rfc3339 :: "string \<Rightarrow> time option" where
  "parse_rfc3339 s = do {
     (y, s) \<leftarrow> read_year s;
     s \<leftarrow> skip_char (CHR ''-'') s;
     (m, s) \<leftarrow> get_num True s;
     if m < 1 \<or> 12 < m then None else do {
       s \<leftarrow> skip_char (CHR ''-'') s;
       (d, s) \<leftarrow> get_num True s;
       s \<leftarrow> skip_char (CHR ''T'') s;
       (hh, s) \<leftarrow> get_num False s;
       if 24 \<le> hh then None else do {
         s \<leftarrow> skip_char (CHR '':'') s;
         (mm, s) \<leftarrow> get_num True s;
         if 60 \<le> mm then None else do {
           s \<leftarrow> skip_char (CHR '':'') s;
           (ss, s) \<leftarrow> get_num True s;
           if 60 \<le> ss then None else do {
             (ns, s) \<leftarrow> read_fraction s;
             zone \<leftarrow> read_zone s;
             if d < 1 \<or> month_days y m < d then None
             else Some (instant y m d hh mm ss ns - zone * second)
           }
         }
       }
     }
   }"

section \<open>Lemmas\<close>

text \<open>The first day of a month follows the last of the month before.\<close>

lemma days_before_month_Suc: "1 \<le> m \<Longrightarrow> days_before_month y (Suc m) = days_before_month y m + int (month_days y m)"
  by (simp add: days_before_month_def)

lemma days_in_year: "days_before_month y 13 = (if leap_year y then 366 else 365)"
  by (simp add: days_before_month_def month_days_def eval_nat_numeral)

lemma leap_count:
  fixes a b c a' b' c' y :: int
  assumes "a' = a + (if p then 1 else 0)" "b' = b + (if q then 1 else 0)" "c' = c + (if r then 1 else 0)"
    and "q \<Longrightarrow> p" "r \<Longrightarrow> q"
  shows "365 * y + a' - b' + c' = 365 * (y - 1) + a - b + c + (if p \<and> (\<not> q \<or> r) then 366 else 365)"
  using assms by (cases p; cases q; cases r) simp_all

lemma days_before_next_year:
  "days_before_year (y + 1) = days_before_year y + (if leap_year y then 366 else 365)"
proof -
  have d: "y div n = (y - 1) div n + (if n dvd y then 1 else 0)" if "0 < n" for n :: int
  proof (cases "n dvd y")
    case True
    then obtain k where "y = n * k" by (rule dvdE)
    moreover from this that have "(y - 1) div n = k - 1"
      by (intro int_div_pos_eq[of _ n "k - 1" "n - 1"]) (simp_all add: algebra_simps)
    ultimately show ?thesis using that True by simp
  next
    case False
    then have "1 \<le> y mod n" using that by (smt (verit) dvd_eq_mod_eq_0 pos_mod_sign)
    moreover have "y mod n < n" using that by simp
    moreover have "y = n * (y div n) + y mod n" by simp
    ultimately have "(y - 1) div n = y div n"
      by (intro int_div_pos_eq[of _ n _ "y mod n - 1"]) linarith+
    with False show ?thesis by simp
  qed
  have "4 dvd y" if "100 dvd y" using dvd_trans[OF _ that, of 4] by simp
  moreover have "100 dvd y" if "400 dvd y" using dvd_trans[OF _ that, of 100] by simp
  ultimately show ?thesis
    unfolding days_before_year_def leap_year_def add_diff_cancel_right'
    by (intro leap_count d) simp_all
qed

text \<open>The zero time of Go is the first of January of year 1, and the epoch is where it should be.\<close>

lemma instant_zero: "instant 1 1 1 0 0 0 0 = zero_time"
  by (simp add: instant_def days_before_year_def days_before_month_def epoch_days_def zero_time_def second_def)

lemma instant_epoch: "instant 1970 1 1 0 0 0 0 = 0"
  by (simp add: instant_def days_before_year_def days_before_month_def epoch_days_def)

end
