(* ===== verification/AlertService.thy ===== *)
theory AlertService
  imports GoStrings "HOL-Library.Monad_Syntax"
begin

text \<open>
  \<open>internal/ingest/alert_service.go\<close>: the service an alert is grouped under. The two regular expressions for the
  suffixes of pod names are written out (their alphabet holds no hyphen, so a name has at most one match), and so are
  \<open>net.SplitHostPort\<close> and what \<open>url.Parse\<close> does for \<open>Hostname\<close> (Go 1.25).
\<close>

section \<open>The host of an address\<close>

definition last_index_of :: "char \<Rightarrow> string \<Rightarrow> nat option" where
  "last_index_of c s =
    (if c \<in> set s then Some (length s - 1 - length (takeWhile (\<lambda>d. d \<noteq> c) (rev s))) else None)"

definition index_of :: "char \<Rightarrow> string \<Rightarrow> nat option" where
  "index_of c s = (if c \<in> set s then Some (length (takeWhile (\<lambda>d. d \<noteq> c) s)) else None)"

text \<open>\<open>net.SplitHostPort\<close>, the host alone.\<close>

definition split_host_port :: "string \<Rightarrow> string option" where
  "split_host_port hp =
    (case last_index_of (CHR '':'') hp of
       None \<Rightarrow> None
     | Some i \<Rightarrow>
        (if hd hp = CHR ''['' then
           (case index_of (CHR '']'') hp of
              None \<Rightarrow> None
            | Some e \<Rightarrow>
               if e + 1 \<noteq> i then None
               else if CHR ''['' \<in> set (tl hp) \<or> CHR '']'' \<in> set (drop (e + 1) hp) then None
               else Some (take (e - 1) (tl hp)))
         else if CHR '':'' \<in> set (take i hp) \<or> CHR ''['' \<in> set hp \<or> CHR '']'' \<in> set hp then None
         else Some (take i hp)))"

subsection \<open>url.Parse\<close>

definition cut_at :: "char \<Rightarrow> string \<Rightarrow> string \<times> string" where
  "cut_at c s = (takeWhile (\<lambda>d. d \<noteq> c) s, tl (dropWhile (\<lambda>d. d \<noteq> c) s))"

definition is_hex :: "char \<Rightarrow> bool" where
  "is_hex c \<longleftrightarrow> is_digit c \<or> (97 \<le> ord c \<and> ord c \<le> 102) \<or> (65 \<le> ord c \<and> ord c \<le> 70)"

definition un_hex :: "char \<Rightarrow> nat" where
  "un_hex c = (if is_digit c then ord c - 48 else if 97 \<le> ord c then ord c - 87 else ord c - 55)"

text \<open>\<open>unescape\<close> where every byte may stand for itself: in a path, a fragment or a user name.\<close>

fun escapes_ok :: "string \<Rightarrow> bool" where
  "escapes_ok [] = True"
| "escapes_ok (c # s) =
    (if c = CHR ''%'' then
       (case s of a # b # r \<Rightarrow> is_hex a \<and> is_hex b \<and> escapes_ok r | _ \<Rightarrow> False)
     else escapes_ok s)"

definition host_char :: "char \<Rightarrow> bool" where
  "host_char c \<longleftrightarrow> 128 \<le> ord c \<or> is_letter c \<or> is_digit c \<or>
     c \<in> set (''!$&()*+,;=:[]<>-_.~'' @ [CHR 0x27, CHR 0x22])"

text \<open>\<open>unescape\<close> of a host; \<open>zone\<close> is the mode of the part after \<open>%25\<close>.\<close>

fun unescape_host :: "bool \<Rightarrow> string \<Rightarrow> string option" where
  "unescape_host zone [] = Some []"
| "unescape_host zone (c # s) =
    (if c = CHR ''%'' then
       (case s of
          a # b # r \<Rightarrow>
            if \<not> is_hex a \<or> \<not> is_hex b then None
            else (let v = un_hex a * 16 + un_hex b; pct = (a = CHR ''2'' \<and> b = CHR ''5'') in
              if \<not> zone \<and> un_hex a < 8 \<and> \<not> pct then None
              else if zone \<and> \<not> pct \<and> v \<noteq> 32 \<and> \<not> (v < 128 \<and> host_char (char_of v)) then None
              else map_option ((#) (char_of v)) (unescape_host zone r))
        | _ \<Rightarrow> None)
     else if \<not> host_char c then None
     else map_option ((#) c) (unescape_host zone s))"

definition optional_port :: "string \<Rightarrow> bool" where
  "optional_port p \<longleftrightarrow> p = [] \<or> (hd p = CHR '':'' \<and> list_all is_digit (tl p))"

definition parse_host :: "string \<Rightarrow> string option" where
  "parse_host host =
    (if has_prefix host ''['' then
       (case last_index_of (CHR '']'') host of
          None \<Rightarrow> None
        | Some i \<Rightarrow>
           if \<not> optional_port (drop (i + 1) host) then None
           else (case index_str (take i host) ''%25'' of
              Some z \<Rightarrow> do {
                a \<leftarrow> unescape_host False (take z host);
                b \<leftarrow> unescape_host True (drop z (take i host));
                c \<leftarrow> unescape_host False (drop i host);
                Some (a @ b @ c) }
            | None \<Rightarrow> unescape_host False host))
     else (case last_index_of (CHR '':'') host of
         Some i \<Rightarrow> if optional_port (drop i host) then unescape_host False host else None
       | None \<Rightarrow> unescape_host False host))"

definition userinfo_char :: "char \<Rightarrow> bool" where
  "userinfo_char c \<longleftrightarrow> is_letter c \<or> is_digit c \<or> c \<in> set (''-._:~!$&()*+,;=%@'' @ [CHR 0x27])"

definition parse_authority :: "string \<Rightarrow> string option" where
  "parse_authority a =
    (case last_index_of (CHR ''@'') a of
       None \<Rightarrow> parse_host a
     | Some i \<Rightarrow> do {
         host \<leftarrow> parse_host (drop (i + 1) a);
         (let user = take i a in
          if list_all userinfo_char user \<and> escapes_ok (fst (cut_at (CHR '':'') user)) \<and> escapes_ok (snd (cut_at (CHR '':'') user))
          then Some host else None) })"

text \<open>\<open>getScheme\<close>: \<open>None\<close> is an error.\<close>

definition scheme_char :: "char \<Rightarrow> bool" where
  "scheme_char c \<longleftrightarrow> is_letter c \<or> is_digit c \<or> c \<in> set ''+-.''"

definition get_scheme :: "string \<Rightarrow> (string \<times> string) option" where
  "get_scheme s =
    (let p = takeWhile scheme_char s; r = dropWhile scheme_char s in
     if p \<noteq> [] \<and> \<not> is_letter (hd p) then Some ([], s)
     else if r \<noteq> [] \<and> hd r = CHR '':'' then (if p = [] then None else Some (p, tl r))
     else Some ([], s))"

definition control_byte :: "char \<Rightarrow> bool" where
  "control_byte c \<longleftrightarrow> ord c < 32 \<or> ord c = 127"

text \<open>\<open>u.Host\<close> of the parsed URL.\<close>

definition url_host :: "string \<Rightarrow> string option" where
  "url_host raw =
    (let (u, frag) = cut_at (CHR ''#'') raw in
     if list_ex control_byte u \<or> \<not> escapes_ok frag then None
     else if u = ''*'' then Some []
     else do {
       (scheme, rest) \<leftarrow> get_scheme u;
       (let rest = fst (cut_at (CHR ''?'') rest) in
        if \<not> has_prefix rest ''/'' then
          (if scheme \<noteq> [] then Some []
           else if CHR '':'' \<in> set (fst (cut_at (CHR ''/'') rest)) then None
           else if escapes_ok rest then Some [] else None)
        else if (scheme \<noteq> [] \<or> \<not> has_prefix rest ''///'') \<and> has_prefix rest ''//'' then
          (let authority = takeWhile (\<lambda>c. c \<noteq> CHR ''/'') (drop 2 rest);
               path = dropWhile (\<lambda>c. c \<noteq> CHR ''/'') (drop 2 rest)
           in case parse_authority authority of None \<Rightarrow> None
              | Some h \<Rightarrow> if escapes_ok path then Some h else None)
        else if escapes_ok rest then Some [] else None) })"

definition hostname_of :: "string \<Rightarrow> string" where
  "hostname_of hp =
    (let h = (case last_index_of (CHR '':'') hp of
                None \<Rightarrow> hp | Some i \<Rightarrow> if optional_port (drop i hp) then take i hp else hp)
     in if has_prefix h ''['' \<and> has_suffix h '']'' then take (length h - 2) (tl h) else h)"

text \<open>\<open>hostOf\<close>.\<close>

definition host_of :: "string \<Rightarrow> string" where
  "host_of instance0 =
    (let i = trim_space instance0;
         plain = (case split_host_port i of Some h \<Rightarrow> h | None \<Rightarrow> i)
     in if i = [] then []
        else if contains_str i ''://'' then
          (case url_host i of Some h \<Rightarrow> if hostname_of h \<noteq> [] then hostname_of h else plain | None \<Rightarrow> plain)
        else plain)"

section \<open>Pod names\<close>

definition k8s_safe :: "char \<Rightarrow> bool" where
  "k8s_safe c \<longleftrightarrow> c \<in> set ''bcdfghjklmnpqrstvwxz2456789''"

text \<open>Cuts \<open>-\<close> and a run of \<open>lo\<close> to \<open>hi\<close> safe characters off the end.\<close>

definition cut_suffix :: "nat \<Rightarrow> nat \<Rightarrow> string \<Rightarrow> string option" where
  "cut_suffix lo hi s =
    (let run = takeWhile k8s_safe (rev s); r = dropWhile k8s_safe (rev s)
     in if lo \<le> length run \<and> length run \<le> hi \<and> r \<noteq> [] \<and> hd r = CHR ''-'' then Some (rev (tl r)) else None)"

definition strip_pod_suffix :: "string \<Rightarrow> string" where
  "strip_pod_suffix pod =
    (case cut_suffix 5 5 pod of
       None \<Rightarrow> pod
     | Some w \<Rightarrow> (case cut_suffix 6 10 w of Some v \<Rightarrow> v | None \<Rightarrow> w))"

section \<open>The service\<close>

definition LabelServiceOriginal :: string where "LabelServiceOriginal = ''service.original''"
definition LabelServiceDerivedFrom :: string where "LabelServiceDerivedFrom = ''service.derived_from''"

definition exporter_kind :: "string \<Rightarrow> string" where
  "exporter_kind service =
    (let s = to_lower (trim_space service) in
     if s = [] then []
     else if has_suffix s ''node-exporter'' then ''node''
     else if has_suffix s ''blackbox-exporter'' then ''probe''
     else if has_suffix s ''kube-state-metrics'' \<or> s = ''kubelet'' \<or> s = ''cadvisor'' \<or>
             has_prefix s ''kube-prometheus-stack-'' then ''k8s''
     else [])"

definition workload_keys :: "string list" where
  "workload_keys = [''deployment'', ''statefulset'', ''daemonset'', ''container'', ''pod'', ''job_name'']"

fun workload_service :: "smap \<Rightarrow> string \<Rightarrow> string list \<Rightarrow> (string \<times> string) option" where
  "workload_service labels ns [] = None"
| "workload_service labels ns (key # keys) =
    (let v = trim_space (sget labels key) in
     if v = [] then workload_service labels ns keys
     else (let v' = (if key = ''pod'' then strip_pod_suffix v else v) in
           if ns \<noteq> [] then Some (ns @ ''/'' @ v', ''namespace/'' @ key) else Some (v', key)))"

definition kubernetes_service :: "string \<Rightarrow> smap \<Rightarrow> string \<times> string" where
  "kubernetes_service original labels =
    (let ns = trim_space (sget labels ''namespace'') in
     case workload_service labels ns workload_keys of
       Some r \<Rightarrow> r
     | None \<Rightarrow>
        if ns \<noteq> [] then (ns, ''namespace'')
        else (let job = trim_space (sget labels ''job'') in if job \<noteq> [] then (job, ''job'') else (original, [])))"

definition derive_alert_service :: "smap \<Rightarrow> string \<times> string" where
  "derive_alert_service labels =
    (let original = trim_space (sget labels ''service'');
         kind = exporter_kind original;
         n = trim_space (sget labels ''node'');
         h = host_of (sget labels ''instance'')
     in if kind = [] then (original, [])
        else if kind = ''node'' \<and> n \<noteq> [] then (''node/'' @ n, ''node'')
        else if kind = ''node'' \<and> h \<noteq> [] then (''node/'' @ h, ''instance'')
        else if kind = ''probe'' \<and> h \<noteq> [] then (''probe/'' @ h, ''instance'')
        else kubernetes_service original labels)"

section \<open>Lemmas\<close>

lemma hyphen_not_safe [simp]: "\<not> k8s_safe (CHR ''-'')"
  by (simp add: k8s_safe_def)

lemma cut_suffix_run:
  assumes "list_all k8s_safe run" "lo \<le> length run" "length run \<le> hi"
  shows "cut_suffix lo hi (w @ ''-'' @ run) = Some w"
proof -
  have t: "takeWhile k8s_safe (rev run @ CHR ''-'' # rev w) = rev run"
    "dropWhile k8s_safe (rev run @ CHR ''-'' # rev w) = CHR ''-'' # rev w"
    using assms(1) by (auto simp: list_all_iff takeWhile_append dropWhile_append)
  with assms show ?thesis by (simp add: cut_suffix_def)
qed

lemma exporter_kind_values: "exporter_kind s \<in> {[], ''node'', ''probe'', ''k8s''}"
  by (simp add: exporter_kind_def Let_def)

lemma workload_service_nonempty:
  "workload_service labels ns keys = Some (s, d) \<Longrightarrow> [] \<notin> set keys \<Longrightarrow> d \<noteq> []"
  by (induction keys) (auto simp: Let_def split: if_splits)

lemma cut_suffix_Some:
  "cut_suffix lo hi s = Some v \<longleftrightarrow>
     (\<exists>r. s = v @ ''-'' @ r \<and> list_all k8s_safe r \<and> lo \<le> length r \<and> length r \<le> hi)"
proof
  assume c: "cut_suffix lo hi s = Some v"
  let ?r = "rev (takeWhile k8s_safe (rev s))"
  obtain x where x: "dropWhile k8s_safe (rev s) = CHR ''-'' # x" "v = rev x" "lo \<le> length ?r" "length ?r \<le> hi"
    using c by (cases "dropWhile k8s_safe (rev s)") (auto simp: cut_suffix_def Let_def split: if_splits)
  have "rev s = takeWhile k8s_safe (rev s) @ CHR ''-'' # x" using takeWhile_dropWhile_id[of k8s_safe "rev s"] x(1) by simp
  from arg_cong[OF this, of rev] have "s = v @ ''-'' @ ?r" using x(2) by simp
  moreover have "list_all k8s_safe ?r" by (auto simp: list_all_iff dest: set_takeWhileD)
  ultimately show "\<exists>r. s = v @ ''-'' @ r \<and> list_all k8s_safe r \<and> lo \<le> length r \<and> length r \<le> hi" using x by blast
qed (use cut_suffix_run in auto)

text \<open>The name of the workload behind a pod: the pod of a deployment, of a daemon set, and any other.\<close>

definition replica_suffix :: "string \<Rightarrow> bool" where
  "replica_suffix h \<longleftrightarrow> list_all k8s_safe h \<and> 6 \<le> length h \<and> length h \<le> 10"

definition pod_suffix :: "string \<Rightarrow> bool" where
  "pod_suffix r \<longleftrightarrow> list_all k8s_safe r \<and> length r = 5"

lemma cut_replica: "cut_suffix 6 10 s = Some v \<longleftrightarrow> (\<exists>h. s = v @ ''-'' @ h \<and> replica_suffix h)"
  by (auto simp: cut_suffix_Some replica_suffix_def)

lemma cut_pod: "cut_suffix 5 5 s = Some v \<longleftrightarrow> (\<exists>r. s = v @ ''-'' @ r \<and> pod_suffix r)"
  by (auto simp: cut_suffix_Some pod_suffix_def)

lemma strip_cases:
  "(\<exists>h r. pod = strip_pod_suffix pod @ ''-'' @ h @ ''-'' @ r \<and> replica_suffix h \<and> pod_suffix r) \<or>
   (\<exists>r. pod = strip_pod_suffix pod @ ''-'' @ r \<and> pod_suffix r \<and>
      \<not> (\<exists>v h. strip_pod_suffix pod = v @ ''-'' @ h \<and> replica_suffix h)) \<or>
   strip_pod_suffix pod = pod \<and> \<not> (\<exists>v r. pod = v @ ''-'' @ r \<and> pod_suffix r)"
proof (cases "cut_suffix 5 5 pod")
  case None
  then have "\<not> (\<exists>v r. pod = v @ ''-'' @ r \<and> pod_suffix r)" by (metis cut_pod option.distinct(1))
  with None show ?thesis by (simp add: strip_pod_suffix_def)
next
  case (Some w)
  then obtain r where r: "pod = w @ ''-'' @ r" "pod_suffix r" by (auto simp: cut_pod)
  show ?thesis
  proof (cases "cut_suffix 6 10 w")
    case None
    then have "\<not> (\<exists>v h. w = v @ ''-'' @ h \<and> replica_suffix h)" by (metis cut_replica option.distinct(1))
    moreover have "strip_pod_suffix pod = w" using Some None by (simp add: strip_pod_suffix_def)
    ultimately show ?thesis using r by blast
  next
    case cut: (Some v)
    then obtain h where "w = v @ ''-'' @ h" "replica_suffix h" by (auto simp: cut_replica)
    moreover have "strip_pod_suffix pod = v" using Some cut by (simp add: strip_pod_suffix_def)
    ultimately show ?thesis using r by auto
  qed
qed

text \<open>C12: which service an alert about a pod belongs to. For an alert of a cluster-wide exporter (kube-state-metrics,
  kubelet and the like) that names a pod but no deployment, set or container, the service is the namespace and a name \<open>w\<close> cut from that
  of the pod. If the pod is named \<open>w\<close>, a replica set hash of six to ten letters and a suffix of five, as the pods of a
  deployment are, both are cut off, so that all its replicas, before and after a rollout, are one service; if it is named
  \<open>w\<close> and a suffix of five and \<open>w\<close> does not end in such a hash, as the pods of a daemon set are, the suffix is; any other
  name is kept, so each pod of a stateful set, named by its ordinal, is a service of its own. Hash and suffix are over the
  alphabet of Kubernetes. The label says what the service was derived from.\<close>

theorem pods_share_service:
  assumes "exporter_kind (trim_space (sget labels ''service'')) = ''k8s''"
    and "\<forall>k \<in> {''deployment'', ''statefulset'', ''daemonset'', ''container''}. trim_space (sget labels k) = []"
    and "pod = trim_space (sget labels ''pod'')" "pod \<noteq> []" "ns = trim_space (sget labels ''namespace'')"
  shows "\<exists>w. derive_alert_service labels = (if ns \<noteq> [] then (ns @ ''/'' @ w, ''namespace/pod'') else (w, ''pod'')) \<and>
    ((\<exists>h r. pod = w @ ''-'' @ h @ ''-'' @ r \<and> replica_suffix h \<and> pod_suffix r) \<or>
     (\<exists>r. pod = w @ ''-'' @ r \<and> pod_suffix r \<and> \<not> (\<exists>v h. w = v @ ''-'' @ h \<and> replica_suffix h)) \<or>
     w = pod \<and> \<not> (\<exists>v r. pod = v @ ''-'' @ r \<and> pod_suffix r))"
proof (rule exI[of _ "strip_pod_suffix pod"], rule conjI)
  show "derive_alert_service labels = (if ns \<noteq> [] then (ns @ ''/'' @ strip_pod_suffix pod, ''namespace/pod'')
      else (strip_pod_suffix pod, ''pod''))"
    using assms by (simp add: derive_alert_service_def kubernetes_service_def workload_keys_def Let_def)
qed (rule strip_cases)

theorem pods_share_service_witness:
  "derive_alert_service [(''service'', ''kube-state-metrics''), (''namespace'', ''data''), (''pod'', ''kafka-2'')] =
     (''data/kafka-2'', ''namespace/pod'')"
proof -
  let ?l = "[(''service'', ''kube-state-metrics''), (''namespace'', ''data''), (''pod'', ''kafka-2'')]"
  have k: "exporter_kind (trim_space (sget ?l ''service'')) = ''k8s''" by code_simp
  have m: "\<forall>k \<in> {''deployment'', ''statefulset'', ''daemonset'', ''container''}. trim_space (sget ?l k) = []" by code_simp
  have p: "''kafka-2'' = trim_space (sget ?l ''pod'')" "''kafka-2'' \<noteq> []" "''data'' = trim_space (sget ?l ''namespace'')"
    by code_simp+
  have "cut_suffix 5 5 ''kafka-2'' = None" by code_simp
  then have n: "\<not> (\<exists>v r. ''kafka-2'' = v @ ''-'' @ r \<and> pod_suffix r)" by (metis cut_pod option.distinct(1))
  from pods_share_service[OF k m p] obtain w where w: "derive_alert_service ?l = (''data/'' @ w, ''namespace/pod'')"
    "(\<exists>h r. ''kafka-2'' = w @ ''-'' @ h @ ''-'' @ r \<and> replica_suffix h \<and> pod_suffix r) \<or>
     (\<exists>r. ''kafka-2'' = w @ ''-'' @ r \<and> pod_suffix r) \<or> w = ''kafka-2''" by auto
  have "w = ''kafka-2''" using w(2) n by (metis append_assoc)
  with w(1) show ?thesis by simp
qed

end
