(* ===== verification/Sources.thy ===== *)
theory Sources
  imports AgentAuth StatusStores
begin

text \<open>
  The sources alerts come from and what their webhooks keep: \<open>models/source_connection.go\<close>, \<open>store/source_registry_store.go\<close> with
  \<open>services/source_registry_service.go\<close>, \<open>store/idempotency_store.go\<close> and \<open>store/dead_letter_store.go\<close>. Tokens are
  unique among the sources, and so are their hashes (partial indexes of \<open>store/db.go\<close>). Encryption is an argument:
  \<open>None\<close> when it is off, else the function that encrypts for a tenant. The clock of the database is the server's.
\<close>

section \<open>Sources\<close>

record SourceConnection =
  sc_id :: string
  sc_tenant_id :: string
  sc_name :: string
  sc_type :: string
  sc_token :: string
  sc_endpoint :: string
  sc_status :: string
  sc_created_at :: time
  sc_last_event_at :: "time option"
  sc_last_error :: string
  sc_last_error_at :: "time option"
  sc_error_count :: int
  sc_total_events :: int
  sc_health_score :: string

record source_row =
  so_source :: SourceConnection
  so_hash :: string

type_synonym source_db = "source_row list"
type_synonym encryptor = "(string \<Rightarrow> string \<Rightarrow> string option) option"

definition so_id :: "source_row \<Rightarrow> string" where "so_id r = sc_id (so_source r)"
definition so_tenant :: "source_row \<Rightarrow> string" where "so_tenant r = sc_tenant_id (so_source r)"
definition so_token :: "source_row \<Rightarrow> string" where "so_token r = sc_token (so_source r)"

definition token_hash :: "string \<Rightarrow> string" where "token_hash raw = hex_bytes (sha256 raw)"

text \<open>The token as it is stored, with its hash; \<open>None\<close> when encryption fails.\<close>

definition stored_token :: "encryptor \<Rightarrow> string \<Rightarrow> string \<Rightarrow> (string \<times> string) option" where
  "stored_token enc tenant token =
    (case enc of None \<Rightarrow> Some (token, []) | Some f \<Rightarrow> map_option (\<lambda>c. (c, token_hash token)) (f tenant token))"

text \<open>No other row may hold the token or the hash, unless they are empty.\<close>

definition token_free :: "string \<Rightarrow> string \<Rightarrow> string \<Rightarrow> source_db \<Rightarrow> bool" where
  "token_free i token h db \<longleftrightarrow> (\<forall>r \<in> set db. so_id r \<noteq> i \<longrightarrow>
     (token \<noteq> [] \<longrightarrow> so_token r \<noteq> token) \<and> (h \<noteq> [] \<longrightarrow> so_hash r \<noteq> h))"

definition new_source_row :: "time \<Rightarrow> string \<Rightarrow> string \<times> string \<Rightarrow> SourceConnection \<Rightarrow> source_row" where
  "new_source_row now tenant th src =
    \<lparr>so_source = src\<lparr>sc_tenant_id := tenant, sc_token := fst th, sc_created_at := now, sc_last_event_at := None,
       sc_last_error := [], sc_last_error_at := None, sc_error_count := 0, sc_health_score := []\<rparr>, so_hash = snd th\<rparr>"

definition create_source_row ::
    "encryptor \<Rightarrow> faults \<Rightarrow> time \<Rightarrow> SourceConnection \<Rightarrow> string \<Rightarrow> source_db \<Rightarrow> source_db result" where
  "create_source_row enc flt now src tenant db =
    (case stored_token enc tenant (sc_token src) of
       None \<Rightarrow> Inl (ErrMsg ''encrypt'')
     | Some (t, h) \<Rightarrow> guard_db flt ''Source.Create''
        (if tbl_has so_id (sc_id src) db then Inr db
         else if \<not> token_free (sc_id src) t h db then Inl ErrUnique
         else Inr (db @ [new_source_row now tenant (t, h) src])))"

definition list_source_rows :: "faults \<Rightarrow> string \<Rightarrow> source_db \<Rightarrow> SourceConnection list result" where
  "list_source_rows flt tenant db = guard_db flt ''Source.List''
     (Inr (take 200 (order_desc sc_created_at (map so_source (filter (\<lambda>r. so_tenant r = tenant) db)))))"

definition find_source :: "faults \<Rightarrow> string \<Rightarrow> source_db \<Rightarrow> SourceConnection option result" where
  "find_source flt i db = guard_db flt ''Source.FindByID'' (Inr (map_option so_source (tbl_find so_id i db)))"

definition find_by_ingest_token ::
    "encryptor \<Rightarrow> faults \<Rightarrow> string \<Rightarrow> source_db \<Rightarrow> (SourceConnection \<times> string) option result" where
  "find_by_ingest_token enc flt token db =
    (if token = [] then Inr None
     else if enc = None then guard_db flt ''Source.FindByIngestToken''
       (Inr (map_option (\<lambda>r. (so_source r, so_tenant r)) (find (\<lambda>r. so_token r = token) db)))
     else guard_db flt ''Source.FindByIngestToken''
       (Inr (case find (\<lambda>r. so_hash r = token_hash token) db of
               Some r \<Rightarrow> Some (so_source r, so_tenant r)
             | None \<Rightarrow>
                if flt ''Source.FindByPlainToken'' then None
                else map_option (\<lambda>r. (so_source r, so_tenant r)) (find (\<lambda>r. so_token r = token \<and> so_hash r = []) db))))"

definition on_source :: "string \<Rightarrow> (SourceConnection \<Rightarrow> SourceConnection) \<Rightarrow> source_db \<Rightarrow> source_db" where
  "on_source i f db = tbl_update (\<lambda>r. so_id r = i) (\<lambda>r. r\<lparr>so_source := f (so_source r)\<rparr>) db"

definition source_success :: "faults \<Rightarrow> time \<Rightarrow> string \<Rightarrow> nat \<Rightarrow> source_db \<Rightarrow> source_db result" where
  "source_success flt now i n db = guard_db flt ''Source.RecordSuccess''
     (Inr (on_source i (\<lambda>s. s\<lparr>sc_status := ''healthy'', sc_last_event_at := Some now,
        sc_total_events := sc_total_events s + int n, sc_error_count := 0, sc_last_error := []\<rparr>) db))"

definition source_error :: "faults \<Rightarrow> time \<Rightarrow> string \<Rightarrow> string \<Rightarrow> source_db \<Rightarrow> source_db result" where
  "source_error flt now i msg db = guard_db flt ''Source.RecordError''
     (Inr (on_source i (\<lambda>s. s\<lparr>sc_status := ''error'', sc_last_error := msg, sc_last_error_at := Some now,
        sc_error_count := sc_error_count s + 1\<rparr>) db))"

definition reset_error_count :: "faults \<Rightarrow> string \<Rightarrow> source_db \<Rightarrow> source_db result" where
  "reset_error_count flt i db = guard_db flt ''Source.ResetErrorCount''
     (Inr (on_source i (\<lambda>s. s\<lparr>sc_error_count := 0, sc_last_error := [], sc_last_error_at := None\<rparr>) db))"

definition ErrSourceNotFound :: go_error where "ErrSourceNotFound = ErrMsg ''source not found''"

definition rotate_token_row ::
    "encryptor \<Rightarrow> faults \<Rightarrow> string \<Rightarrow> string \<Rightarrow> string \<Rightarrow> source_db \<Rightarrow> source_db result" where
  "rotate_token_row enc flt tenant i token db =
    (case stored_token enc tenant token of
       None \<Rightarrow> Inl (ErrMsg ''encrypt'')
     | Some (t, h) \<Rightarrow> guard_db flt ''Source.RotateToken''
        (if \<not> (\<exists>r \<in> set db. so_id r = i \<and> so_tenant r = tenant) then Inl ErrSourceNotFound
         else if \<not> token_free i t h db then Inl ErrUnique
         else Inr (tbl_update (\<lambda>r. so_id r = i \<and> so_tenant r = tenant)
                (\<lambda>r. r\<lparr>so_source := (so_source r)\<lparr>sc_token := t\<rparr>, so_hash := h\<rparr>) db)))"

definition delete_source_row :: "faults \<Rightarrow> string \<Rightarrow> string \<Rightarrow> source_db \<Rightarrow> source_db result" where
  "delete_source_row flt tenant i db = guard_db flt ''Source.Delete''
     (if \<not> (\<exists>r \<in> set db. so_id r = i \<and> so_tenant r = tenant) then Inl ErrSourceNotFound
      else Inr (tbl_delete (\<lambda>r. so_id r = i \<and> so_tenant r = tenant) db))"

section \<open>The service\<close>

definition SupportedSourceTypes :: "string list" where
  "SupportedSourceTypes = [''otel'', ''prometheus'', ''grafana'', ''jaeger'', ''zabbix'']"

definition endpoint_for :: "string \<Rightarrow> string" where
  "endpoint_for ty =
    (if ty = ''prometheus'' then ''/api/v1/ingest/prometheus''
     else if ty = ''grafana'' then ''/api/v1/ingest/grafana''
     else if ty = ''otel'' then ''/api/v1/otel''
     else if ty = ''jaeger'' then ''/api/v1/otel/traces''
     else if ty = ''zabbix'' then ''/api/v1/ingest/zabbix''
     else [])"

text \<open>\<open>rnd\<close>: the sixteen random bytes of the token.\<close>

definition new_source :: "time \<Rightarrow> string \<Rightarrow> string \<Rightarrow> string \<Rightarrow> string \<Rightarrow> SourceConnection" where
  "new_source now rnd tenant name ty =
    \<lparr>sc_id = ''source-'' @ show_int now, sc_tenant_id = tenant, sc_name = name, sc_type = ty,
     sc_token = hex_bytes (byte_list rnd), sc_endpoint = endpoint_for ty, sc_status = ''connected'', sc_created_at = now,
     sc_last_event_at = None, sc_last_error = [], sc_last_error_at = None, sc_error_count = 0, sc_total_events = 0,
     sc_health_score = []\<rparr>"

definition create_source ::
    "encryptor \<Rightarrow> faults \<Rightarrow> time \<Rightarrow> string \<Rightarrow> string \<Rightarrow> string \<Rightarrow> string \<Rightarrow> source_db \<Rightarrow> SourceConnection result \<times> source_db" where
  "create_source enc flt now rnd tenant name ty db =
    (let s = new_source now rnd tenant name ty in
     case create_source_row enc flt now s tenant db of
       Inl e \<Rightarrow> (Inl e, db) | Inr db' \<Rightarrow> (Inr s, db'))"

definition find_for_tenant :: "faults \<Rightarrow> string \<Rightarrow> string \<Rightarrow> source_db \<Rightarrow> SourceConnection result" where
  "find_for_tenant flt tenant i db =
    (case find_source flt i db of
       Inl e \<Rightarrow> Inl e
     | Inr (Some s) \<Rightarrow> if sc_tenant_id s = tenant then Inr s else Inl ErrSourceNotFound
     | Inr None \<Rightarrow> Inl ErrSourceNotFound)"

definition rotate_token ::
    "encryptor \<Rightarrow> faults \<Rightarrow> string \<Rightarrow> string \<Rightarrow> string \<Rightarrow> source_db \<Rightarrow> SourceConnection result \<times> source_db" where
  "rotate_token enc flt rnd tenant i db =
    (let token = hex_bytes (byte_list rnd) in
     case rotate_token_row enc flt tenant i token db of
       Inl e \<Rightarrow> (Inl e, db)
     | Inr db' \<Rightarrow> (case find_for_tenant flt tenant i db' of Inl e \<Rightarrow> (Inl e, db') | Inr s \<Rightarrow> (Inr (s\<lparr>sc_token := token\<rparr>), db')))"

definition derive_health_score :: "SourceConnection \<Rightarrow> string" where
  "derive_health_score s =
    (if sc_status s = ''error'' \<or> 5 \<le> sc_error_count s then ''error''
     else if 0 < sc_error_count s then ''degraded''
     else if sc_last_event_at s = None then ''waiting'' else ''healthy'')"

definition scrubbed :: "SourceConnection \<Rightarrow> SourceConnection" where
  "scrubbed s = s\<lparr>sc_token := [], sc_health_score := derive_health_score s\<rparr>"

definition get_source :: "faults \<Rightarrow> string \<Rightarrow> string \<Rightarrow> source_db \<Rightarrow> SourceConnection result" where
  "get_source flt tenant i db = (case find_for_tenant flt tenant i db of Inl e \<Rightarrow> Inl e | Inr s \<Rightarrow> Inr (scrubbed s))"

definition list_sources :: "faults \<Rightarrow> string \<Rightarrow> source_db \<Rightarrow> SourceConnection list" where
  "list_sources flt tenant db = (case list_source_rows flt tenant db of Inl _ \<Rightarrow> [] | Inr ss \<Rightarrow> map scrubbed ss)"

definition find_by_token :: "encryptor \<Rightarrow> faults \<Rightarrow> string \<Rightarrow> source_db \<Rightarrow> (SourceConnection \<times> string) option" where
  "find_by_token enc flt token db = (case find_by_ingest_token enc flt token db of Inl _ \<Rightarrow> None | Inr r \<Rightarrow> r)"

section \<open>Idempotency keys\<close>

record idempotency_row =
  ik_key :: string
  ik_tenant :: string
  ik_source :: string
  ik_response :: string
  ik_expires :: time

definition check_key :: "faults \<Rightarrow> time \<Rightarrow> string \<Rightarrow> string \<Rightarrow> idempotency_row list \<Rightarrow> string option result" where
  "check_key flt now key tenant db =
    (if key = [] then Inr None
     else guard_db flt ''Idempotency.Check''
       (Inr (map_option ik_response (find (\<lambda>r. ik_key r = key \<and> ik_tenant r = tenant \<and> now < ik_expires r) db))))"

definition record_key ::
    "faults \<Rightarrow> time \<Rightarrow> string \<Rightarrow> string \<Rightarrow> string \<Rightarrow> string \<Rightarrow> idempotency_row list \<Rightarrow> idempotency_row list result" where
  "record_key flt now key tenant source response db =
    (if key = [] then Inr db
     else guard_db flt ''Idempotency.Record''
       (Inr (if tbl_has (\<lambda>r. (ik_key r, ik_tenant r)) (key, tenant) db then db
             else db @ [\<lparr>ik_key = key, ik_tenant = tenant, ik_source = source, ik_response = response,
                         ik_expires = now + 24 * hour\<rparr>])))"

definition clean_keys :: "faults \<Rightarrow> time \<Rightarrow> idempotency_row list \<Rightarrow> idempotency_row list result" where
  "clean_keys flt now db = guard_db flt ''Idempotency.Cleanup'' (Inr (tbl_delete (\<lambda>r. ik_expires r < now) db))"

section \<open>Dead letters\<close>

record DeadLetterEntry =
  dl_id :: nat
  dl_tenant_id :: string
  dl_source_id :: string
  dl_source_type :: string
  dl_endpoint :: string
  dl_raw_payload :: string
  dl_error :: string
  dl_retry_count :: int
  dl_created_at :: time
  dl_last_retry_at :: "time option"

record dead_letter_db =
  dl_rows :: "DeadLetterEntry list"
  dl_next :: nat

definition enqueue_letter :: "faults \<Rightarrow> time \<Rightarrow> DeadLetterEntry \<Rightarrow> dead_letter_db \<Rightarrow> dead_letter_db result" where
  "enqueue_letter flt now e db = guard_db flt ''DeadLetter.Enqueue''
     (Inr (db\<lparr>dl_rows := dl_rows db @ [e\<lparr>dl_id := dl_next db, dl_created_at := now, dl_last_retry_at := None\<rparr>],
              dl_next := Suc (dl_next db)\<rparr>))"

definition list_letters :: "faults \<Rightarrow> string \<Rightarrow> int \<Rightarrow> dead_letter_db \<Rightarrow> DeadLetterEntry list result" where
  "list_letters flt tenant limit db = guard_db flt ''DeadLetter.List''
     (Inr (take (nat (if limit \<le> 0 \<or> 500 < limit then 100 else limit))
        (order_desc dl_created_at (filter (\<lambda>e. dl_tenant_id e = tenant) (dl_rows db)))))"

definition count_letters :: "faults \<Rightarrow> string \<Rightarrow> dead_letter_db \<Rightarrow> nat result" where
  "count_letters flt tenant db = guard_db flt ''DeadLetter.Count''
     (Inr (length (filter (\<lambda>e. dl_tenant_id e = tenant) (dl_rows db))))"

record DeadLetterGroup =
  dg_source_id :: string
  dg_source_type :: string
  dg_endpoint :: string
  dg_error :: string
  dg_count :: nat
  dg_first_seen :: time
  dg_last_seen :: time
  dg_sample_payload :: string

definition maxSamplePayloadBytes :: nat where "maxSamplePayloadBytes = 2000"

definition letter_key :: "DeadLetterEntry \<Rightarrow> string \<times> string \<times> string \<times> string" where
  "letter_key e = (dl_source_id e, dl_source_type e, dl_endpoint e, dl_error e)"

text \<open>One group; its members are not empty. \<open>LEFT\<close> counts characters, which are bytes here.\<close>

definition letter_group :: "DeadLetterEntry list \<Rightarrow> DeadLetterGroup" where
  "letter_group es = (let newest = order_desc dl_created_at es; e = hd newest in
     \<lparr>dg_source_id = dl_source_id e, dg_source_type = dl_source_type e, dg_endpoint = dl_endpoint e,
      dg_error = dl_error e, dg_count = length es, dg_first_seen = dl_created_at (last newest),
      dg_last_seen = dl_created_at e, dg_sample_payload = take maxSamplePayloadBytes (dl_raw_payload e)\<rparr>)"

definition list_letter_groups :: "faults \<Rightarrow> string \<Rightarrow> int \<Rightarrow> dead_letter_db \<Rightarrow> DeadLetterGroup list result" where
  "list_letter_groups flt tenant limit db = guard_db flt ''DeadLetter.ListGrouped''
     (Inr (let es = filter (\<lambda>e. dl_tenant_id e = tenant) (dl_rows db);
               keys = remdups (map letter_key es)
           in take (nat (if limit \<le> 0 \<or> 200 < limit then 50 else limit))
                (order_desc dg_last_seen (map (\<lambda>k. letter_group (filter (\<lambda>e. letter_key e = k) es)) keys))))"

end
