(* ===== verification/GoDecode.thy ===== *)
theory GoDecode
  imports GoJson Tokens GoFloat
begin

text \<open>
  \<open>json.Unmarshal\<close> into the structs of the webhooks. A decoder takes a value and what the target holds, and is
  \<open>None\<close> on an error; every caller rejects a body with any error, so how far the decoding went does not matter.
  A key names a field up to case (\<open>fold_key\<close>), a null leaves a string or struct as it is and empties a slice, a map or
  a pointer, and a repeated key decodes into what is there. The memory behind a slice is \<open>spare\<close>: an array that
  comes again reuses the elements of the one before.
\<close>

type_synonym 'a decoder = "jval \<Rightarrow> 'a \<Rightarrow> 'a option"

definition dec_string :: "string decoder" where
  "dec_string v old = (case v of VStr s \<Rightarrow> Some s | VNull \<Rightarrow> Some old | _ \<Rightarrow> None)"

definition smap_put :: "string \<Rightarrow> string \<Rightarrow> smap \<Rightarrow> smap" where
  "smap_put k v m = filter (\<lambda>(j, _). j \<noteq> k) m @ [(k, v)]"

fun dec_entries :: "(string \<times> jval) list \<Rightarrow> smap \<Rightarrow> smap option" where
  "dec_entries [] m = Some m"
| "dec_entries ((k, v) # r) m =
    (case dec_string v [] of None \<Rightarrow> None | Some s \<Rightarrow> dec_entries r (smap_put k s m))"

definition dec_smap :: "smap decoder" where
  "dec_smap v old = (case v of VObj ms \<Rightarrow> dec_entries ms old | VNull \<Rightarrow> Some [] | _ \<Rightarrow> None)"

definition dec_int64_ptr :: "int option decoder" where
  "dec_int64_ptr v old = (case v of VNum n \<Rightarrow> map_option Some (parse_int64 n) | VNull \<Rightarrow> Some None | _ \<Rightarrow> None)"

text \<open>Into \<open>any\<close>: every number must fit a float64.\<close>

fun numbers_fit :: "jval \<Rightarrow> bool" and members_fit :: "(string \<times> jval) list \<Rightarrow> bool" and elems_fit :: "jval list \<Rightarrow> bool" where
  "numbers_fit (VNum n) = (parse_finite n \<noteq> None)"
| "numbers_fit (VObj ms) = members_fit ms"
| "numbers_fit (VArr vs) = elems_fit vs"
| "numbers_fit (VStr s) = True"
| "numbers_fit (VBool b) = True"
| "numbers_fit VNull = True"
| "members_fit [] = True"
| "members_fit ((k, v) # r) = (numbers_fit v \<and> members_fit r)"
| "elems_fit [] = True"
| "elems_fit (v # r) = (numbers_fit v \<and> elems_fit r)"

definition any_put :: "string \<Rightarrow> jval \<Rightarrow> (string \<times> jval) list \<Rightarrow> (string \<times> jval) list" where
  "any_put k v m = filter (\<lambda>(j, _). j \<noteq> k) m @ [(k, v)]"

definition dec_any_map :: "(string \<times> jval) list decoder" where
  "dec_any_map v old =
    (case v of
       VObj ms \<Rightarrow> if members_fit ms then Some (foldl (\<lambda>m (k, x). any_put k x m) old ms) else None
     | VNull \<Rightarrow> Some [] | _ \<Rightarrow> None)"

section \<open>Structs and slices\<close>

text \<open>The decoders of the fields of a struct, by the folded name.\<close>

type_synonym 's fields = "(string \<times> 's decoder) list"

definition on_field :: "('s \<Rightarrow> 'a) \<Rightarrow> ('a \<Rightarrow> 's \<Rightarrow> 's) \<Rightarrow> 'a decoder \<Rightarrow> 's decoder" where
  "on_field get put dec v s = map_option (\<lambda>x. put x s) (dec v (get s))"

fun dec_members :: "'s fields \<Rightarrow> (string \<times> jval) list \<Rightarrow> 's \<Rightarrow> 's option" where
  "dec_members fs [] s = Some s"
| "dec_members fs ((k, v) # r) s =
    (case map_of fs (fold_key k) of
       None \<Rightarrow> dec_members fs r s
     | Some dec \<Rightarrow> (case dec v s of None \<Rightarrow> None | Some s' \<Rightarrow> dec_members fs r s'))"

definition dec_struct :: "'s fields \<Rightarrow> 's decoder" where
  "dec_struct fs v s = (case v of VObj ms \<Rightarrow> dec_members fs ms s | VNull \<Rightarrow> Some s | _ \<Rightarrow> None)"

fun dec_elems :: "'s \<Rightarrow> 's decoder \<Rightarrow> jval list \<Rightarrow> 's list \<Rightarrow> 's list option" where
  "dec_elems zero dec [] old = Some []"
| "dec_elems zero dec (v # vs) old =
    (case dec v (case old of [] \<Rightarrow> zero | x # _ \<Rightarrow> x) of
       None \<Rightarrow> None
     | Some x \<Rightarrow> map_option ((#) x) (dec_elems zero dec vs (tl old)))"

text \<open>A slice with the memory behind it.\<close>

definition dec_slice :: "'s \<Rightarrow> 's decoder \<Rightarrow> ('s list \<times> 's list) decoder" where
  "dec_slice zero dec v old =
    (case v of
       VNull \<Rightarrow> Some ([], [])
     | VArr vs \<Rightarrow>
        (case dec_elems zero dec vs (snd old) of
           None \<Rightarrow> None
         | Some xs \<Rightarrow> Some (xs, if vs = [] then [] else xs @ drop (length xs) (snd old)))
     | _ \<Rightarrow> None)"

text \<open>A struct whose only field the code reads is a slice.\<close>

definition dec_only :: "string \<Rightarrow> 's \<Rightarrow> 's decoder \<Rightarrow> jval \<Rightarrow> 's list option" where
  "dec_only key zero dec v = map_option fst (dec_struct [(key, dec_slice zero dec)] v ([], []))"

section \<open>Lemmas\<close>

lemma sget_put [simp]: "sget (smap_put k v m) j = (if j = k then v else sget m j)"
proof -
  have "map_of (filter (\<lambda>(i, _). i \<noteq> k) m) j = (if j = k then None else map_of m j)"
    by (induction m) auto
  then show ?thesis by (auto simp: smap_put_def sget_def map_add_def split: option.split)
qed

lemma distinct_smap_put: "distinct (map fst m) \<Longrightarrow> distinct (map fst (smap_put k v m))"
  by (induction m) (auto simp: smap_put_def)

lemma distinct_dec_entries: "dec_entries ms m = Some m' \<Longrightarrow> distinct (map fst m) \<Longrightarrow> distinct (map fst m')"
  by (induction ms m rule: dec_entries.induct) (auto simp: distinct_smap_put split: option.splits)

end
