(* ===== verification/AlertIngest.thy ===== *)
theory AlertIngest
  imports AlertService GoTime GoDecode Sources IncidentNotes Pipeline AuthApi
begin

text \<open>
  The webhooks of Prometheus Alertmanager: \<open>internal/handlers/ingest_handler.go\<close>. A request carries the token of a
  source, which names the tenant; a key makes its repetition harmless; its body is parsed, and each alert is stored and
  handed to the correlation service. \<open>clock i\<close> is the time at which the \<open>i\<close>-th alert is handled, \<open>clock 0\<close> that of
  the rest of the request. The alerts of one request fail independently: their statements are told apart by their number.
  What \<open>encoding/json\<close> adds to the message of a body it cannot parse is left out.
\<close>

section \<open>Requests, answers, state\<close>

record webhook_request =
  wr_claims :: "TokenClaims option"
  wr_source_token :: string         \<comment> \<open>\<open>X-Source-Token\<close>\<close>
  wr_authorization :: string
  wr_key :: string                  \<comment> \<open>\<open>X-Idempotency-Key\<close>\<close>
  wr_body :: string

datatype webhook_reply =
    Served bool string              \<comment> \<open>200, whether it is a replay, the text\<close>
  | Rejected nat string

record ingest_env =
  ie_wiring :: wiring
  ie_kb :: "KnowledgeBase option"
  ie_quiet :: duration
  ie_encryptor :: encryptor
  ie_keys :: bool                   \<comment> \<open>the optional stores and services that are wired in\<close>
  ie_noter :: bool

record ingest_state =
  ig_world :: world
  ig_sources :: source_db
  ig_keys :: "idempotency_row list"

definition maxIngestBodyBytes :: nat where "maxIngestBodyBytes = 1048576"
definition maxPrometheusAlerts :: nat where "maxPrometheusAlerts = 1000"

definition source_token_from_request :: "webhook_request \<Rightarrow> string" where
  "source_token_from_request r =
    (let t = trim_space (wr_source_token r); a = trim_space (wr_authorization r); (scheme, cred) = cut_at (CHR '' '') a
     in if t \<noteq> [] then t
        else if CHR '' '' \<in> set a \<and> equal_fold scheme ''Bearer'' then trim_space cred else [])"

definition resolve_source ::
    "ingest_env \<Rightarrow> faults \<Rightarrow> webhook_request \<Rightarrow> source_db \<Rightarrow> (string \<times> SourceConnection option) option" where
  "resolve_source env flt r db =
    (case tenant_from_request_strict \<lparr>hq_claims = wr_claims r, hq_tenant_header = [], hq_tenant_query = []\<rparr> of
       Some t \<Rightarrow> Some (t, None)
     | None \<Rightarrow>
        (let token = source_token_from_request r in
         if token = [] then None
         else map_option (\<lambda>(s, t). (t, Some s)) (find_by_token (ie_encryptor env) flt token db)))"

definition check_idempotency ::
    "ingest_env \<Rightarrow> faults \<Rightarrow> time \<Rightarrow> webhook_request \<Rightarrow> string \<Rightarrow> idempotency_row list \<Rightarrow> string option result" where
  "check_idempotency env flt now r tenant db =
    (if wr_key r = [] \<or> \<not> ie_keys env then Inr None else check_key flt now (wr_key r) tenant db)"

definition record_idempotency ::
    "ingest_env \<Rightarrow> faults \<Rightarrow> time \<Rightarrow> webhook_request \<Rightarrow> string \<Rightarrow> string \<Rightarrow> string \<Rightarrow> idempotency_row list \<Rightarrow> idempotency_row list" where
  "record_idempotency env flt now r tenant source response db =
    (if wr_key r = [] \<or> \<not> ie_keys env then db
     else or_keep (record_key flt now (wr_key r) tenant source response db) db)"

definition source_id_of :: "SourceConnection option \<Rightarrow> string" where
  "source_id_of src = (case src of None \<Rightarrow> [] | Some s \<Rightarrow> sc_id s)"

type_synonym ingest_fn = "string \<Rightarrow> string \<Rightarrow> SourceConnection option \<Rightarrow> ingest_state \<Rightarrow> nat result \<times> ingest_state"

definition processed_json :: "nat \<Rightarrow> string" where
  "processed_json n = ''{'' @ ([CHR 0x22] @ ''status'' @ [CHR 0x22] @ '':'' @ [CHR 0x22] @ ''accepted'' @ [CHR 0x22] @ '','' @ [CHR 0x22] @ ''processed'' @ [CHR 0x22] @ '':'') @ show_nat n @ ''}''"

definition serve_alert_webhook ::
    "ingest_env \<Rightarrow> faults \<Rightarrow> time \<Rightarrow> string \<Rightarrow> string list \<Rightarrow> ingest_fn \<Rightarrow> webhook_request \<Rightarrow> ingest_state \<Rightarrow>
     webhook_reply \<times> ingest_state" where
  "serve_alert_webhook env flt now endpoint allowed ingest r st =
    (case resolve_source env flt r (ig_sources st) of
       None \<Rightarrow> (Rejected 401 ''missing or invalid source token (send X-Source-Token or Authorization: Bearer <token>)'', st)
     | Some (tenant, src) \<Rightarrow>
        if (case src of None \<Rightarrow> False | Some s \<Rightarrow> sc_type s \<noteq> [] \<and> sc_type s \<notin> set allowed)
        then (Rejected 403 (''source token not authorized for '' @ endpoint), st)
        else (case check_idempotency env flt now r tenant (ig_keys st) of
           Inl _ \<Rightarrow> (Rejected 503 ''service temporarily unavailable'', st)
         | Inr (Some cached) \<Rightarrow> (Served True cached, st)
         | Inr None \<Rightarrow>
            if maxIngestBodyBytes < length (wr_body r) then (Rejected 413 ''request body too large (max 1 MiB)'', st)
            else (case ingest (wr_body r) tenant src st of
               (Inl e, st1) \<Rightarrow> (Rejected 400 (case e of ErrMsg m \<Rightarrow> m | _ \<Rightarrow> []), st1)
             | (Inr n, st1) \<Rightarrow>
                (Served False (processed_json n),
                 st1\<lparr>ig_keys := record_idempotency env flt now r tenant (source_id_of src) (processed_json n) (ig_keys st1)\<rparr>))))"

section \<open>Severities\<close>

definition normalize_severity_input :: "string \<Rightarrow> string" where
  "normalize_severity_input raw =
    (let s = to_lower (trim_space raw) in
     if s \<in> {''critical'', ''crit'', ''fatal'', ''p0'', ''emergency''} then ''critical''
     else if s \<in> {''high'', ''error'', ''err'', ''p1'', ''major''} then ''high''
     else if s \<in> {''warning'', ''warn'', ''medium'', ''med'', ''p2'', ''moderate''} then ''medium''
     else if s \<in> {''low'', ''minor'', ''p3''} then ''low''
     else if s \<in> {''info'', ''information'', ''informational'', ''notice'', ''p4'', ''debug''} then ''info''
     else ''medium'')"

section \<open>Alertmanager\<close>

record am_alert =
  aa_status :: string
  aa_labels :: smap
  aa_annotations :: smap
  aa_starts_at :: string
  aa_fingerprint :: string

definition am_zero :: am_alert where
  "am_zero = \<lparr>aa_status = [], aa_labels = [], aa_annotations = [], aa_starts_at = [], aa_fingerprint = []\<rparr>"

definition am_fields :: "am_alert fields" where
  "am_fields =
    [(''STATUS'', on_field aa_status (\<lambda>x a. a\<lparr>aa_status := x\<rparr>) dec_string),
     (''LABELS'', on_field aa_labels (\<lambda>x a. a\<lparr>aa_labels := x\<rparr>) dec_smap),
     (''ANNOTATIONS'', on_field aa_annotations (\<lambda>x a. a\<lparr>aa_annotations := x\<rparr>) dec_smap),
     (''STARTSAT'', on_field aa_starts_at (\<lambda>x a. a\<lparr>aa_starts_at := x\<rparr>) dec_string),
     (''FINGERPRINT'', on_field aa_fingerprint (\<lambda>x a. a\<lparr>aa_fingerprint := x\<rparr>) dec_string)]"

definition decode_alerts :: "string \<Rightarrow> am_alert list option" where
  "decode_alerts body =
    (case parse_json body of None \<Rightarrow> None | Some v \<Rightarrow> dec_only ''ALERTS'' am_zero (dec_struct am_fields) v)"

definition PrometheusValueLabel :: string where "PrometheusValueLabel = ''annotation.value''"
definition PrometheusRunbookLabel :: string where "PrometheusRunbookLabel = ''annotation.runbook_url''"

definition put_nonempty :: "string \<Rightarrow> string \<Rightarrow> smap \<Rightarrow> smap" where
  "put_nonempty k v m = (if v = [] then m else smap_put k v m)"

definition starts_at :: "time \<Rightarrow> string \<Rightarrow> time" where
  "starts_at now s =
    (let ts = (case parse_rfc3339 s of None \<Rightarrow> zero_time | Some t \<Rightarrow> t) in if ts = zero_time then now else ts)"

definition alert_status_of :: "string \<Rightarrow> string" where
  "alert_status_of s = (if equal_fold (trim_space s) ''resolved'' then ''resolved'' else ''firing'')"

definition first_nonempty :: "string list \<Rightarrow> string" where
  "first_nonempty ss = (case filter (\<lambda>s. s \<noteq> []) ss of [] \<Rightarrow> [] | s # _ \<Rightarrow> s)"

definition am_event :: "time \<Rightarrow> string \<Rightarrow> am_alert \<Rightarrow> Event" where
  "am_event now tenant a =
    (let fp = trim_space (aa_fingerprint a); labels = aa_labels a; anns = aa_annotations a;
         (service, derived) = derive_alert_service labels
     in event_zero\<lparr>
          ev_id := (if fp \<noteq> [] then ''am-'' @ tenant @ ''-'' @ fp else ''prom-'' @ show_int now),
          ev_tenant_id := tenant, ev_source := ''prometheus'',
          ev_service := first_nonempty [service, sget labels ''alertname'', ''unknown-service''],
          ev_severity := normalize_severity_input (sget labels ''severity''), ev_type := ''alert'',
          ev_title := first_nonempty [sget anns ''summary'', sget labels ''alertname''],
          ev_message := sget anns ''description'',
          ev_labels :=
            put_nonempty LabelServiceDerivedFrom derived
             (put_nonempty LabelServiceOriginal (if derived = [] then [] else sget labels ''service'')
               (put_nonempty PrometheusRunbookLabel (trim_space (sget anns ''runbook_url''))
                 (put_nonempty PrometheusValueLabel (trim_space (sget anns ''value'')) labels))),
          ev_timestamp := starts_at now (aa_starts_at a), ev_fingerprint := aa_fingerprint a,
          ev_ingest_schema := ''prometheus'', ev_alert_status := alert_status_of (aa_status a)\<rparr>)"

section \<open>Storing and correlating\<close>

text \<open>A resolved alert feeds the quiet periods, any other the correlation.\<close>

definition route_event :: "ingest_env \<Rightarrow> faults \<Rightarrow> time \<Rightarrow> Event \<Rightarrow> world \<Rightarrow> world" where
  "route_event env flt now e w =
    (if ev_alert_status e = ''resolved'' then process_resolved (ie_wiring env) flt now (ie_quiet env) e w
     else snd (process_event (ie_wiring env) (ie_kb env) flt now e w))"

definition take_event :: "ingest_env \<Rightarrow> faults \<Rightarrow> time \<Rightarrow> Event \<Rightarrow> nat \<times> world \<Rightarrow> nat \<times> world" where
  "take_event env flt now e st =
    (case save_event (at_site ''ingest'' flt) e (w_events (snd st)) of
       Inl _ \<Rightarrow> st
     | Inr db \<Rightarrow> (fst st + 1, route_event env flt now e ((snd st)\<lparr>w_events := db\<rparr>)))"

definition nth_site :: "nat \<Rightarrow> faults \<Rightarrow> faults" where
  "nth_site i flt = at_site (''alert '' @ show_nat i) flt"

text \<open>The loops of the handlers: \<open>step i a\<close> handles the \<open>i\<close>-th alert.\<close>

fun each_alert :: "(nat \<Rightarrow> 'a \<Rightarrow> nat \<times> world \<Rightarrow> nat \<times> world) \<Rightarrow> nat \<Rightarrow> 'a list \<Rightarrow> nat \<times> world \<Rightarrow> nat \<times> world" where
  "each_alert step i [] st = st"
| "each_alert step i (a # as) st = each_alert step (Suc i) as (step i a st)"

definition batch_error :: "'a list option \<Rightarrow> go_error option" where
  "batch_error batch =
    (case batch of
       None \<Rightarrow> Some (ErrMsg ''invalid JSON: '')
     | Some as \<Rightarrow>
        if as = [] then Some (ErrMsg ''alerts array is empty or missing'')
        else if maxPrometheusAlerts < length as then Some (ErrMsg ''too many alerts (max 1000 per request)'')
        else None)"

definition ingest_batch ::
    "faults \<Rightarrow> time \<Rightarrow> 'a list option \<Rightarrow> (nat \<Rightarrow> 'a \<Rightarrow> nat \<times> world \<Rightarrow> nat \<times> world) \<Rightarrow> string \<Rightarrow> ingest_state \<Rightarrow>
     nat result \<times> ingest_state" where
  "ingest_batch flt now batch step sourceID st =
    (case batch_error batch of
       Some e \<Rightarrow> (Inl e, st)
     | None \<Rightarrow>
        (let (n, w) = each_alert step 0 (case batch of None \<Rightarrow> [] | Some as \<Rightarrow> as) (0, ig_world st);
             sources = (if sourceID = [] then ig_sources st
                        else or_keep (source_success flt now sourceID n (ig_sources st)) (ig_sources st))
         in (Inr n, st\<lparr>ig_world := w, ig_sources := sources\<rparr>)))"

definition am_step :: "ingest_env \<Rightarrow> faults \<Rightarrow> (nat \<Rightarrow> time) \<Rightarrow> string \<Rightarrow> nat \<Rightarrow> am_alert \<Rightarrow> nat \<times> world \<Rightarrow> nat \<times> world" where
  "am_step env flt clock tenant i a = take_event env (nth_site i flt) (clock i) (am_event (clock i) tenant a)"

definition ingest_alertmanager ::
    "ingest_env \<Rightarrow> faults \<Rightarrow> (nat \<Rightarrow> time) \<Rightarrow> string \<Rightarrow> string \<Rightarrow> string \<Rightarrow> ingest_state \<Rightarrow> nat result \<times> ingest_state" where
  "ingest_alertmanager env flt clock body tenant sourceID st =
     ingest_batch flt (clock 0) (decode_alerts body) (am_step env flt clock tenant) sourceID st"

text \<open>The test button of a source: the caller is authenticated and owns it.\<close>

definition send_test_alert ::
    "ingest_env \<Rightarrow> faults \<Rightarrow> (nat \<Rightarrow> time) \<Rightarrow> string \<Rightarrow> string \<Rightarrow> string \<Rightarrow> ingest_state \<Rightarrow> nat result \<times> ingest_state" where
  "send_test_alert env flt clock tenant sourceID body st = ingest_alertmanager env flt clock body tenant sourceID st"

end
