(* ===== verification/SourceIngest.thy ===== *)
theory SourceIngest
  imports AlertIngest Float64 PolicyEngine
begin

text \<open>
  The webhooks of Grafana and Zabbix (\<open>internal/handlers/grafana_ingest.go\<close>, \<open>zabbix_ingest.go\<close>) and the routing of
  Prometheus requests. The regular expression for Grafana's value strings is a parser: every repetition in it stops at
  a character the next part begins with, so there is one way to match. \<open>%q\<close> prints bytes from 128 on as they are.
\<close>

section \<open>Formatting\<close>

text \<open>\<open>strconv.ParseFloat(s, 64)\<close>; the sign of a zero is not kept.\<close>

definition parse_float :: "string \<Rightarrow> gofloat option" where
  "parse_float s =
    (let (neg, t) = split_sign s; l = to_lower t in
     if l = ''inf'' \<or> l = ''infinity'' then Some (Inf neg)
     else if to_lower s = ''nan'' then Some NaN
     else (case parse_finite s of None \<Rightarrow> None
       | Some x \<Rightarrow> (case round64 x of Fin y \<Rightarrow> Some (Fin y) | _ \<Rightarrow> None)))"

text \<open>The decimal exponent of the leading digit of a positive number.\<close>

definition leading_exp :: "rat \<Rightarrow> int" where
  "leading_exp x =
    (if 1 \<le> x then int (length (show_nat (nat \<lfloor>x\<rfloor>))) - 1
     else (case find (\<lambda>k. 1 \<le> x * 10 ^ k) [1..<400] of None \<Rightarrow> - 400 | Some k \<Rightarrow> - int k))"

text \<open>The shortest decimal \<open>c * 10 ^ q\<close> that rounds to \<open>x\<close>.\<close>

definition try_digits :: "rat \<Rightarrow> nat \<Rightarrow> (int \<times> int) option" where
  "try_digits x n =
    (let q = leading_exp x + 1 - int n; y = x / scale 10 q; lo = \<lfloor>y\<rfloor>; hi = \<lceil>y\<rceil>;
         ok = (\<lambda>c. round64 (of_int c * scale 10 q) = Fin x)
     in if ok lo \<and> (\<not> ok hi \<or> y - of_int lo \<le> of_int hi - y) then Some (lo, q)
        else if ok hi then Some (hi, q) else None)"

fun first_digits :: "rat \<Rightarrow> nat list \<Rightarrow> int \<times> int" where
  "first_digits x [] = (\<lfloor>x\<rfloor>, 0)"
| "first_digits x (n # ns) = (case try_digits x n of Some r \<Rightarrow> r | None \<Rightarrow> first_digits x ns)"

definition show_positive :: "rat \<Rightarrow> string" where
  "show_positive x =
    (let (c, q) = first_digits x [1..<18]; ds = show_nat (nat c); k = nat (- q) in
     if 0 \<le> q then ds @ replicate (nat q) (CHR ''0'')
     else (let padded = replicate (k + 1 - length ds) (CHR ''0'') @ ds; whole = take (length padded - k) padded;
               frac = rev (dropWhile (\<lambda>d. d = CHR ''0'') (rev (drop (length padded - k) padded)))
           in if frac = [] then whole else whole @ ''.'' @ frac))"

definition math_round :: "rat \<Rightarrow> rat" where
  "math_round x = (if x < 0 then - of_int \<lfloor>- x + 1 / 2\<rfloor> else of_int \<lfloor>x + 1 / 2\<rfloor>)"

text \<open>\<open>formatGrafanaValue\<close>; \<open>neg\<close> is the sign bit.\<close>

definition format_grafana_value :: "bool \<Rightarrow> gofloat \<Rightarrow> string" where
  "format_grafana_value neg v =
    (case v of
       Fin x \<Rightarrow>
         (case round64 (x * 100) of
            Fin y \<Rightarrow>
              (case round64 (math_round y / 100) of
                 Fin z \<Rightarrow> if z = 0 then (if neg then ''-0'' else ''0'')
                          else (if z < 0 then CHR ''-'' # show_positive (- z) else show_positive z)
               | _ \<Rightarrow> [])
          | _ \<Rightarrow> if x < 0 then ''-Inf'' else ''+Inf'')
     | _ \<Rightarrow> [])"

section \<open>Grafana\<close>

definition GrafanaValueLabel :: string where "GrafanaValueLabel = ''grafana.value''"
definition GrafanaRuleURLLabel :: string where "GrafanaRuleURLLabel = ''grafana.rule_url''"
definition GrafanaDashboardURLLabel :: string where "GrafanaDashboardURLLabel = ''grafana.dashboard_url''"
definition GrafanaPanelURLLabel :: string where "GrafanaPanelURLLabel = ''grafana.panel_url''"
definition GrafanaRuleUIDLabel :: string where "GrafanaRuleUIDLabel = ''grafana.rule_uid''"
definition GrafanaOrgIDLabel :: string where "GrafanaOrgIDLabel = ''grafana.org_id''"
definition GrafanaGapLabel :: string where "GrafanaGapLabel = ''grafana.monitoring_gap''"
definition TestLabel :: string where "TestLabel = ''neuroops_test''"

record grafana_alert =
  ga_status :: string
  ga_labels :: smap
  ga_annotations :: smap
  ga_starts_at :: string
  ga_fingerprint :: string
  ga_generator_url :: string
  ga_dashboard_url :: string
  ga_panel_url :: string
  ga_rule_uid :: string
  ga_org_id :: "int option"
  ga_values :: "(string \<times> jval) list"
  ga_value_string :: string

definition ga_zero :: grafana_alert where
  "ga_zero = \<lparr>ga_status = [], ga_labels = [], ga_annotations = [], ga_starts_at = [], ga_fingerprint = [],
     ga_generator_url = [], ga_dashboard_url = [], ga_panel_url = [], ga_rule_uid = [], ga_org_id = None,
     ga_values = [], ga_value_string = []\<rparr>"

definition ga_fields :: "grafana_alert fields" where
  "ga_fields =
    [(''STATUS'', on_field ga_status (\<lambda>x a. a\<lparr>ga_status := x\<rparr>) dec_string),
     (''LABELS'', on_field ga_labels (\<lambda>x a. a\<lparr>ga_labels := x\<rparr>) dec_smap),
     (''ANNOTATIONS'', on_field ga_annotations (\<lambda>x a. a\<lparr>ga_annotations := x\<rparr>) dec_smap),
     (''STARTSAT'', on_field ga_starts_at (\<lambda>x a. a\<lparr>ga_starts_at := x\<rparr>) dec_string),
     (''FINGERPRINT'', on_field ga_fingerprint (\<lambda>x a. a\<lparr>ga_fingerprint := x\<rparr>) dec_string),
     (''GENERATORURL'', on_field ga_generator_url (\<lambda>x a. a\<lparr>ga_generator_url := x\<rparr>) dec_string),
     (''DASHBOARDURL'', on_field ga_dashboard_url (\<lambda>x a. a\<lparr>ga_dashboard_url := x\<rparr>) dec_string),
     (''PANELURL'', on_field ga_panel_url (\<lambda>x a. a\<lparr>ga_panel_url := x\<rparr>) dec_string),
     (''RULEUID'', on_field ga_rule_uid (\<lambda>x a. a\<lparr>ga_rule_uid := x\<rparr>) dec_string),
     (''ORGID'', on_field ga_org_id (\<lambda>x a. a\<lparr>ga_org_id := x\<rparr>) dec_int64_ptr),
     (''VALUES'', on_field ga_values (\<lambda>x a. a\<lparr>ga_values := x\<rparr>) dec_any_map),
     (''VALUESTRING'', on_field ga_value_string (\<lambda>x a. a\<lparr>ga_value_string := x\<rparr>) dec_string)]"

definition decode_grafana :: "string \<Rightarrow> grafana_alert list option" where
  "decode_grafana body =
    (case parse_json body of None \<Rightarrow> None | Some v \<Rightarrow> dec_only ''ALERTS'' ga_zero (dec_struct ga_fields) v)"

definition is_grafana_test :: "grafana_alert \<Rightarrow> bool" where
  "is_grafana_test a \<longleftrightarrow> sget (ga_labels a) ''alertname'' = ''TestAlert'' \<and> trim_space (ga_rule_uid a) = []"

definition grafana_test_event :: "grafana_alert \<Rightarrow> string \<Rightarrow> string \<Rightarrow> time \<Rightarrow> nat \<Rightarrow> Event" where
  "grafana_test_event a tenant sourceName now index =
    (let unique = show_int (now + int index) in event_zero\<lparr>
       ev_id := ''gf-'' @ tenant @ ''-test-'' @ unique, ev_tenant_id := tenant, ev_source := ''grafana'',
       ev_service := ''grafana-test'', ev_severity := ''info'', ev_type := ''alert'',
       ev_title := ''[Test] Grafana contact point test'' @ (if sourceName = [] then [] else ('' '' @ [CHR 0xE2, CHR 0x80, CHR 0x94] @ '' '') @ sourceName),
       ev_message := (''Grafana'' @ [CHR 0x27] @ ''s Test button reached NeuroOps. The alert was received, parsed and turned into this incident; it is marked recovered and closes automatically.''),
       ev_labels := smap_put TestLabel ''true'' (ga_labels a), ev_timestamp := now,
       ev_fingerprint := ''grafana-test:'' @ tenant @ '':'' @ unique, ev_ingest_schema := ''grafana'',
       ev_alert_status := ''firing''\<rparr>)"

subsection \<open>The value\<close>

definition literal :: "string \<Rightarrow> string \<Rightarrow> string option" where
  "literal p s = (if has_prefix s p then Some (drop (length p) s) else None)"

definition up_to :: "char \<Rightarrow> string \<Rightarrow> (string \<times> string) option" where
  "up_to c s = (if c \<in> set s then Some (cut_at c s) else None)"

definition skip_quoted :: "string \<Rightarrow> string \<Rightarrow> (string \<times> string) option" where
  "skip_quoted p s = (case literal p s of None \<Rightarrow> Some ([], s) | Some t \<Rightarrow> up_to (CHR 0x27) t)"

text \<open>One entry at the start of a text: its type, its value, the rest.\<close>

definition value_entry :: "string \<Rightarrow> ((string \<times> string) \<times> string) option" where
  "value_entry s = do {
     s \<leftarrow> literal ((''[ var='' @ [CHR 0x27])) s;
     (var, s) \<leftarrow> up_to (CHR 0x27) s;
     (metric, s) \<leftarrow> skip_quoted (('' metric='' @ [CHR 0x27])) s;
     s \<leftarrow> literal ('' labels='' @ ''{'') s;
     (labels, s) \<leftarrow> up_to (CHR 0x7D) s;
     (ty, s) \<leftarrow> skip_quoted (('' type='' @ [CHR 0x27])) s;
     s \<leftarrow> literal '' value='' s;
     (let v = takeWhile (\<lambda>c. c \<noteq> CHR '' '' \<and> c \<noteq> CHR '']'') s; r = dropWhile (\<lambda>c. c \<noteq> CHR '' '' \<and> c \<noteq> CHR '']'') s in
      if v = [] then None else map_option (\<lambda>r. ((ty, v), r)) (literal '' ]'' r)) }"

text \<open>\<open>FindAllStringSubmatch\<close>: the matches from left to right, none overlapping.\<close>

function value_entries :: "string \<Rightarrow> (string \<times> string) list" where
  "value_entries [] = []"
| "value_entries (c # s) =
    (case value_entry (c # s) of
       Some (m, r) \<Rightarrow> if length r < Suc (length s) then m # value_entries r else [m]
     | None \<Rightarrow> value_entries s)"
  by pat_completeness auto
termination by (relation "measure length") auto

text \<open>The first value that is a number and no threshold.\<close>

fun first_value :: "(string \<times> string) list \<Rightarrow> string option" where
  "first_value [] = None"
| "first_value ((ty, v) # ms) =
    (if ty = ''threshold'' then first_value ms
     else (case parse_float v of
       Some f \<Rightarrow> Some (format_grafana_value (has_prefix v ''-'') f)
     | None \<Rightarrow> first_value ms))"

definition grafana_value :: "grafana_alert \<Rightarrow> string" where
  "grafana_value a =
    (let ms = value_entries (ga_value_string a); fallback = trim_space (sget (ga_annotations a) ''value'') in
     case first_value ms of
       Some v \<Rightarrow> v
     | None \<Rightarrow>
        (case (ms, ga_values a) of
           ([], [(_, VNum n)]) \<Rightarrow>
             (case parse_float n of Some f \<Rightarrow> format_grafana_value (has_prefix n ''-'') f | None \<Rightarrow> fallback)
         | _ \<Rightarrow> fallback))"

subsection \<open>The event\<close>

definition put_trimmed :: "string \<Rightarrow> string \<Rightarrow> smap \<Rightarrow> smap" where
  "put_trimmed k v m = put_nonempty k (trim_space v) m"

text \<open>What a rule that cannot evaluate says instead of its own annotations: severity, title, message, gap.\<close>

definition gap_report :: "string \<Rightarrow> string \<Rightarrow> string \<Rightarrow> smap \<Rightarrow> (string \<times> string \<times> string) option" where
  "gap_report alertname ruleName service anns =
    (let unknown = '', so it cannot tell whether '' @ service @ '' is healthy. This is a monitoring gap, not a confirmed problem.'' in
     if alertname = ''DatasourceNoData'' then
       Some (''No data: '' @ ruleName,
         ''Grafana rule '' @ go_quote ruleName @ '' got no data from its data source'' @ unknown, ''no_data'')
     else if alertname = ''DatasourceError'' then
       (let e = trim_space (sget anns ''Error'') in
        Some (''Query error: '' @ ruleName,
          ''Grafana rule '' @ go_quote ruleName @ '' could not query its data source'' @ unknown @
            (if e = [] then [] else '' Error: '' @ e), ''query_error''))
     else None)"

definition grafana_to_event :: "grafana_alert \<Rightarrow> string \<Rightarrow> string \<Rightarrow> time \<Rightarrow> nat \<Rightarrow> Event" where
  "grafana_to_event a tenant sourceName now index =
    (if is_grafana_test a then grafana_test_event a tenant sourceName now index
     else
       (let org = (case ga_org_id a of None \<Rightarrow> ''0'' | Some n \<Rightarrow> show_int n);
            fp = trim_space (ga_fingerprint a);
            alertname = sget (ga_labels a) ''alertname'';
            ruleName = first_nonempty [trim_space (sget (ga_labels a) ''rulename''), alertname];
            (derivedService, derived) = derive_alert_service (ga_labels a);
            service = first_nonempty [derivedService, trim_space (sget (ga_labels a) ''grafana_folder''), ruleName, ''unknown-service''];
            raw = trim_space (sget (ga_labels a) ''severity'');
            severity = (if raw = [] then ''medium'' else normalize_severity_input raw);
            title = first_nonempty [trim_space (sget (ga_annotations a) ''summary''), alertname];
            gap = gap_report alertname ruleName service (ga_annotations a);
            l1 = (case gap of Some (_, _, g) \<Rightarrow> smap_put GrafanaGapLabel g (ga_labels a)
                  | None \<Rightarrow> put_trimmed GrafanaValueLabel (grafana_value a) (ga_labels a));
            l2 = put_trimmed PrometheusRunbookLabel (sget (ga_annotations a) ''runbook_url'') l1;
            l3 = put_trimmed GrafanaRuleUIDLabel (ga_rule_uid a) (put_trimmed GrafanaPanelURLLabel (ga_panel_url a)
                   (put_trimmed GrafanaDashboardURLLabel (ga_dashboard_url a) (put_trimmed GrafanaRuleURLLabel (ga_generator_url a) l2)));
            l4 = (if ga_org_id a = None then l3 else smap_put GrafanaOrgIDLabel org l3);
            l5 = (if derived = [] then l4
                  else smap_put LabelServiceDerivedFrom derived (smap_put LabelServiceOriginal (sget (ga_labels a) ''service'') l4))
        in event_zero\<lparr>
             ev_id := (if fp \<noteq> [] then ''gf-'' @ tenant @ ''-'' @ org @ ''-'' @ fp
                       else ''gf-'' @ tenant @ ''-'' @ show_int (now + int index)),
             ev_tenant_id := tenant, ev_source := ''grafana'', ev_service := service,
             ev_severity := (if gap = None then severity else SeverityUnknown), ev_type := ''alert'',
             ev_title := (case gap of Some (t, _, _) \<Rightarrow> t | None \<Rightarrow> title),
             ev_message := (case gap of Some (_, m, _) \<Rightarrow> m | None \<Rightarrow> sget (ga_annotations a) ''description''),
             ev_labels := l5, ev_timestamp := starts_at now (ga_starts_at a), ev_fingerprint := fp,
             ev_ingest_schema := ''grafana'', ev_alert_status := alert_status_of (ga_status a)\<rparr>))"

text \<open>A test opens an incident and is marked recovered at once.\<close>

definition grafana_step ::
    "ingest_env \<Rightarrow> faults \<Rightarrow> (nat \<Rightarrow> time) \<Rightarrow> string \<Rightarrow> string \<Rightarrow> nat \<Rightarrow> grafana_alert \<Rightarrow> nat \<times> world \<Rightarrow> nat \<times> world" where
  "grafana_step env flt clock tenant sourceName i a st =
    (let e = grafana_to_event a tenant sourceName (clock 0) i; f = nth_site i flt in
     if is_grafana_test a then
       (case save_event (at_site ''ingest'' f) e (w_events (snd st)) of
          Inl _ \<Rightarrow> st
        | Inr db \<Rightarrow>
           (let w1 = snd (process_event (ie_wiring env) (ie_kb env) f (clock i) e ((snd st)\<lparr>w_events := db\<rparr>));
                r = e\<lparr>ev_alert_status := ''resolved''\<rparr>
            in case save_event (at_site ''resolve'' f) r (w_events w1) of
                 Inl _ \<Rightarrow> (fst st + 1, w1)
               | Inr db2 \<Rightarrow> (fst st + 1,
                   process_resolved (ie_wiring env) f (clock i) (ie_quiet env) r (w1\<lparr>w_events := db2\<rparr>))))
     else take_event env f (clock i) e st)"

definition ingest_grafana ::
    "ingest_env \<Rightarrow> faults \<Rightarrow> (nat \<Rightarrow> time) \<Rightarrow> string \<Rightarrow> string \<Rightarrow> string \<Rightarrow> string \<Rightarrow> ingest_state \<Rightarrow> nat result \<times> ingest_state" where
  "ingest_grafana env flt clock body tenant sourceID sourceName st =
     ingest_batch flt (clock 0) (decode_grafana body) (grafana_step env flt clock tenant sourceName) sourceID st"

definition grafana_webhook ::
    "ingest_env \<Rightarrow> faults \<Rightarrow> (nat \<Rightarrow> time) \<Rightarrow> webhook_request \<Rightarrow> ingest_state \<Rightarrow> webhook_reply \<times> ingest_state" where
  "grafana_webhook env flt clock r st =
     serve_alert_webhook env flt (clock 0) ''/ingest/grafana'' [''grafana'']
       (\<lambda>body tenant src st. ingest_grafana env flt clock body tenant (source_id_of src)
          (case src of None \<Rightarrow> [] | Some s \<Rightarrow> sc_name s) st) r st"

definition prometheus_webhook ::
    "ingest_env \<Rightarrow> faults \<Rightarrow> (nat \<Rightarrow> time) \<Rightarrow> webhook_request \<Rightarrow> ingest_state \<Rightarrow> webhook_reply \<times> ingest_state" where
  "prometheus_webhook env flt clock r st =
     serve_alert_webhook env flt (clock 0) ''/ingest/prometheus'' [''prometheus'', ''grafana'', ''webhook'', ''generic'']
       (\<lambda>body tenant src st.
          case src of
            Some s \<Rightarrow> if sc_type s = ''grafana'' then ingest_grafana env flt clock body tenant (sc_id s) (sc_name s) st
                      else ingest_alertmanager env flt clock body tenant (sc_id s) st
          | None \<Rightarrow> ingest_alertmanager env flt clock body tenant [] st) r st"

section \<open>Zabbix\<close>

record zabbix_tag =
  zt_tag :: string
  zt_value :: string

record zabbix_payload =
  zp_event_id :: string
  zp_event_value :: string
  zp_event_status :: string
  zp_update_status :: string
  zp_update_action :: string
  zp_update_message :: string
  zp_update_user :: string
  zp_trigger_id :: string
  zp_trigger_name :: string
  zp_event_name :: string
  zp_severity :: string
  zp_host :: string
  zp_host_name :: string
  zp_host_ip :: string
  zp_host_group :: string
  zp_tags :: "zabbix_tag list \<times> zabbix_tag list"   \<comment> \<open>the slice and the memory behind it\<close>
  zp_item_value :: string
  zp_op_data :: string
  zp_event_time :: string
  zp_zabbix_url :: string

definition zp_zero :: zabbix_payload where
  "zp_zero = \<lparr>zp_event_id = [], zp_event_value = [], zp_event_status = [], zp_update_status = [], zp_update_action = [],
     zp_update_message = [], zp_update_user = [], zp_trigger_id = [], zp_trigger_name = [], zp_event_name = [],
     zp_severity = [], zp_host = [], zp_host_name = [], zp_host_ip = [], zp_host_group = [], zp_tags = ([], []),
     zp_item_value = [], zp_op_data = [], zp_event_time = [], zp_zabbix_url = []\<rparr>"

definition zt_fields :: "zabbix_tag fields" where
  "zt_fields =
    [(''TAG'', on_field zt_tag (\<lambda>x t. t\<lparr>zt_tag := x\<rparr>) dec_string),
     (''VALUE'', on_field zt_value (\<lambda>x t. t\<lparr>zt_value := x\<rparr>) dec_string)]"

definition zp_fields :: "zabbix_payload fields" where
  "zp_fields =
    [(''EVENT_ID'', on_field zp_event_id (\<lambda>x p. p\<lparr>zp_event_id := x\<rparr>) dec_string),
     (''EVENT_VALUE'', on_field zp_event_value (\<lambda>x p. p\<lparr>zp_event_value := x\<rparr>) dec_string),
     (''EVENT_STATUS'', on_field zp_event_status (\<lambda>x p. p\<lparr>zp_event_status := x\<rparr>) dec_string),
     (''UPDATE_STATUS'', on_field zp_update_status (\<lambda>x p. p\<lparr>zp_update_status := x\<rparr>) dec_string),
     (''UPDATE_ACTION'', on_field zp_update_action (\<lambda>x p. p\<lparr>zp_update_action := x\<rparr>) dec_string),
     (''UPDATE_MESSAGE'', on_field zp_update_message (\<lambda>x p. p\<lparr>zp_update_message := x\<rparr>) dec_string),
     (''UPDATE_USER'', on_field zp_update_user (\<lambda>x p. p\<lparr>zp_update_user := x\<rparr>) dec_string),
     (''TRIGGER_ID'', on_field zp_trigger_id (\<lambda>x p. p\<lparr>zp_trigger_id := x\<rparr>) dec_string),
     (''TRIGGER_NAME'', on_field zp_trigger_name (\<lambda>x p. p\<lparr>zp_trigger_name := x\<rparr>) dec_string),
     (''EVENT_NAME'', on_field zp_event_name (\<lambda>x p. p\<lparr>zp_event_name := x\<rparr>) dec_string),
     (''SEVERITY'', on_field zp_severity (\<lambda>x p. p\<lparr>zp_severity := x\<rparr>) dec_string),
     (''HOST'', on_field zp_host (\<lambda>x p. p\<lparr>zp_host := x\<rparr>) dec_string),
     (''HOST_NAME'', on_field zp_host_name (\<lambda>x p. p\<lparr>zp_host_name := x\<rparr>) dec_string),
     (''HOST_IP'', on_field zp_host_ip (\<lambda>x p. p\<lparr>zp_host_ip := x\<rparr>) dec_string),
     (''HOST_GROUP'', on_field zp_host_group (\<lambda>x p. p\<lparr>zp_host_group := x\<rparr>) dec_string),
     (''TAGS'', on_field zp_tags (\<lambda>x p. p\<lparr>zp_tags := x\<rparr>)
        (dec_slice \<lparr>zt_tag = [], zt_value = []\<rparr> (dec_struct zt_fields))),
     (''ITEM_VALUE'', on_field zp_item_value (\<lambda>x p. p\<lparr>zp_item_value := x\<rparr>) dec_string),
     (''OPDATA'', on_field zp_op_data (\<lambda>x p. p\<lparr>zp_op_data := x\<rparr>) dec_string),
     (''EVENT_TIME'', on_field zp_event_time (\<lambda>x p. p\<lparr>zp_event_time := x\<rparr>) dec_string),
     (''ZABBIX_URL'', on_field zp_zabbix_url (\<lambda>x p. p\<lparr>zp_zabbix_url := x\<rparr>) dec_string)]"

definition decode_zabbix :: "string \<Rightarrow> zabbix_payload option" where
  "decode_zabbix body = (case parse_json body of None \<Rightarrow> None | Some v \<Rightarrow> dec_struct zp_fields v zp_zero)"

definition ZabbixValueLabel :: string where "ZabbixValueLabel = ''zabbix.item_value''"
definition ZabbixURLLabel :: string where "ZabbixURLLabel = ''zabbix.url''"

definition zabbix_severity :: "string \<Rightarrow> string option" where
  "zabbix_severity = map_of [(''5'', ''critical''), (''4'', ''high''), (''3'', ''medium''), (''2'', ''low''),
     (''1'', ''info''), (''0'', ''info'')]"

definition unexpanded_macro :: "string \<Rightarrow> bool" where
  "unexpanded_macro v0 = (let v = trim_space v0 in v = [] \<or> (has_prefix v ''{'' \<and> has_suffix v ''}''))"

datatype zabbix_kind = ZabbixProblem | ZabbixRecovery | ZabbixUpdate

definition zabbix_kind_of :: "zabbix_payload \<Rightarrow> zabbix_kind" where
  "zabbix_kind_of p =
    (if trim_space (zp_update_status p) = ''1'' then ZabbixUpdate
     else if trim_space (zp_event_value p) = ''0'' \<or> equal_fold (trim_space (zp_event_status p)) ''RESOLVED''
       then ZabbixRecovery else ZabbixProblem)"

definition set_if :: "string \<Rightarrow> string \<Rightarrow> smap \<Rightarrow> smap" where
  "set_if k v0 m = (let v = trim_space v0 in if v \<noteq> [] \<and> \<not> unexpanded_macro v then smap_put k v m else m)"

text \<open>One tag: labels, the service tag, the environment.\<close>

definition tag_step :: "smap \<times> string \<times> string \<Rightarrow> zabbix_tag \<Rightarrow> smap \<times> string \<times> string" where
  "tag_step st t =
    (let (labels, service, environment) = st; name = to_lower (trim_space (zt_tag t)); v = trim_space (zt_value t) in
     if name = [] then st
     else (smap_put (''tag.'' @ name) v labels,
           if name = ''service'' then v else service,
           if name = ''env'' \<or> name = ''environment'' then v else environment))"

definition zabbix_labels :: "zabbix_payload \<Rightarrow> smap" where
  "zabbix_labels p =
    (let l0 = smap_put ''host'' (trim_space (zp_host p)) (smap_put ''trigger_id'' (trim_space (zp_trigger_id p))
                [(''alertname'', trim_space (zp_trigger_name p))]);
         l1 = set_if ZabbixValueLabel (zp_item_value p) (set_if ''opdata'' (zp_op_data p)
                (set_if ''event_time'' (zp_event_time p) (set_if ''host_group'' (zp_host_group p)
                  (set_if ''host_ip'' (zp_host_ip p) (set_if ''host_name'' (zp_host_name p) l0)))));
         url = trim_space (zp_zabbix_url p)
     in if has_prefix url ''http'' then smap_put ZabbixURLLabel url l1 else l1)"

definition zabbix_event :: "time \<Rightarrow> string \<Rightarrow> zabbix_payload \<Rightarrow> Event" where
  "zabbix_event now tenant p =
    (let (labels, serviceTag, environment) = foldl tag_step (zabbix_labels p, [], []) (fst (zp_tags p));
         group = (if unexpanded_macro (zp_host_group p) then [] else trim_space (zp_host_group p));
         title = trim_space (zp_event_name p)
     in event_zero\<lparr>
          ev_id := ''zbx-'' @ tenant @ ''-'' @ trim_space (zp_event_id p), ev_tenant_id := tenant, ev_source := ''zabbix'',
          ev_service := first_nonempty [serviceTag, group, trim_space (zp_host p)],
          ev_resource := trim_space (zp_host p), ev_environment := environment,
          ev_severity := (case zabbix_severity (trim_space (zp_severity p)) of None \<Rightarrow> ''medium'' | Some s \<Rightarrow> s),
          ev_type := ''alert'', ev_title := (if unexpanded_macro title then trim_space (zp_trigger_name p) else title),
          ev_message := trim_space (zp_op_data p), ev_labels := labels, ev_timestamp := now,
          ev_fingerprint := ''zbx:'' @ trim_space (zp_trigger_id p) @ '':'' @ trim_space (zp_host p),
          ev_ingest_schema := ''zabbix'',
          ev_alert_status := (if zabbix_kind_of p = ZabbixRecovery then ''resolved'' else ''firing'')\<rparr>)"

datatype zabbix_error = ZabbixTest | ZabbixRefused string

definition zabbix_to_event :: "time \<Rightarrow> string \<Rightarrow> zabbix_payload \<Rightarrow> zabbix_error + (Event \<times> zabbix_kind)" where
  "zabbix_to_event now tenant p =
    (if unexpanded_macro (zp_event_id p) then Inl ZabbixTest
     else if unexpanded_macro (zp_trigger_id p) \<or> unexpanded_macro (zp_host p)
       then Inl (ZabbixRefused ''trigger_id and host are required'')
     else Inr (zabbix_event now tenant p, zabbix_kind_of p))"

definition zabbix_update_note :: "zabbix_payload \<Rightarrow> string" where
  "zabbix_update_note p =
    (let who = trim_space (zp_update_user p);
         who' = (if unexpanded_macro who \<or> equal_fold who ''Inaccessible user'' then ''a Zabbix user'' else who);
         action = trim_space (zp_update_action p);
         action' = (if unexpanded_macro action then ''updated'' else action);
         msg = trim_space (zp_update_message p)
     in ''Zabbix: '' @ who' @ '' '' @ action' @ '' the problem'' @
        (if msg \<noteq> [] \<and> \<not> unexpanded_macro msg then '': '' @ go_quote msg else []))"

type_synonym note_order = "(string \<times> string) list \<Rightarrow> (string \<times> string) list"

definition note_source :: "faults \<Rightarrow> time \<Rightarrow> string \<Rightarrow> nat \<Rightarrow> ingest_state \<Rightarrow> ingest_state" where
  "note_source flt now sourceID n st =
    (if sourceID = [] then st
     else st\<lparr>ig_sources := or_keep (source_success flt now sourceID n (ig_sources st)) (ig_sources st)\<rparr>)"

definition ingest_zabbix ::
    "ingest_env \<Rightarrow> note_order \<Rightarrow> faults \<Rightarrow> time \<Rightarrow> string \<Rightarrow> string \<Rightarrow> string \<Rightarrow> ingest_state \<Rightarrow>
     (zabbix_error + string) \<times> ingest_state" where
  "ingest_zabbix env order flt now body tenant sourceID st =
    (case decode_zabbix body of
       None \<Rightarrow> (Inl (ZabbixRefused ''invalid JSON: ''), st)
     | Some p \<Rightarrow>
        (case zabbix_to_event now tenant p of
           Inl e \<Rightarrow> (Inl e, st)
         | Inr (e, kind) \<Rightarrow>
            if kind = ZabbixUpdate then
              (Inr ''update'', note_source flt now sourceID 0
                 (if ie_noter env then st\<lparr>ig_world := snd (note_for_event order flt now tenant (ev_id e) ''zabbix''
                      (zabbix_update_note p) (ig_world st))\<rparr> else st))
            else (case save_event (at_site ''ingest'' flt) e (w_events (ig_world st)) of
               Inl _ \<Rightarrow> (Inl (ZabbixRefused ''could not store the event''), st)
             | Inr db \<Rightarrow>
                (let w1 = (ig_world st)\<lparr>w_events := db\<rparr>;
                     w2 = (if kind = ZabbixRecovery then process_resolved (ie_wiring env) flt now (ie_quiet env) e w1
                           else snd (process_event (ie_wiring env) (ie_kb env) flt now e w1))
                 in (Inr (if kind = ZabbixRecovery then ''recovery'' else ''problem''),
                     note_source flt now sourceID 1 (st\<lparr>ig_world := w2\<rparr>))))))"

definition zabbix_test_json :: string where
  "zabbix_test_json = ''{'' @ ([CHR 0x22] @ ''message'' @ [CHR 0x22] @ '':'' @ [CHR 0x22] @ ''NeuroOps received the Zabbix test message. Real problems will create incidents.'' @ [CHR 0x22] @ '','' @ [CHR 0x22] @ ''status'' @ [CHR 0x22] @ '':'' @ [CHR 0x22] @ ''test_received'' @ [CHR 0x22]) @ ''}'' @ [CHR 0x0A]"

definition zabbix_json :: "string \<Rightarrow> string" where
  "zabbix_json result = ''{'' @ ([CHR 0x22] @ ''status'' @ [CHR 0x22] @ '':'' @ [CHR 0x22] @ ''accepted'' @ [CHR 0x22] @ '','' @ [CHR 0x22] @ ''result'' @ [CHR 0x22] @ '':'') @ go_quote result @ ''}''"

definition zabbix_webhook ::
    "ingest_env \<Rightarrow> note_order \<Rightarrow> faults \<Rightarrow> (nat \<Rightarrow> time) \<Rightarrow> webhook_request \<Rightarrow> ingest_state \<Rightarrow> webhook_reply \<times> ingest_state" where
  "zabbix_webhook env order flt clock r st =
    (case resolve_source env flt r (ig_sources st) of
       None \<Rightarrow> (Rejected 401 ''missing or invalid source token (send X-Source-Token or Authorization: Bearer <token>)'', st)
     | Some (tenant, src) \<Rightarrow>
        if (case src of None \<Rightarrow> False | Some s \<Rightarrow> sc_type s \<noteq> [] \<and> sc_type s \<noteq> ''zabbix'')
        then (Rejected 403 ''source token not authorized for /ingest/zabbix'', st)
        else (case check_idempotency env flt (clock 0) r tenant (ig_keys st) of
           Inl _ \<Rightarrow> (Rejected 503 ''service temporarily unavailable'', st)
         | Inr (Some cached) \<Rightarrow> (Served True cached, st)
         | Inr None \<Rightarrow>
            if maxIngestBodyBytes < length (wr_body r) then (Rejected 413 ''request body too large (max 1 MiB)'', st)
            else (case ingest_zabbix env order flt (clock 0) (wr_body r) tenant (source_id_of src) st of
               (Inl ZabbixTest, st1) \<Rightarrow> (Served False zabbix_test_json, st1)
             | (Inl (ZabbixRefused m), st1) \<Rightarrow> (Rejected 400 m, st1)
             | (Inr result, st1) \<Rightarrow>
                (Served False (zabbix_json result),
                 st1\<lparr>ig_keys := record_idempotency env flt (clock 0) r tenant (source_id_of src) (zabbix_json result) (ig_keys st1)\<rparr>))))"

end
