(* ===== verification/IngestSafety.thy ===== *)
theory IngestSafety
  imports SourceIngest
begin

text \<open>
  The three alert webhooks together: what they keep of the pipeline behind them, and what the keys of their requests
  promise. \<open>deliver\<close> is one request, \<open>ingest_op\<close> what happens to the state between two of them.
\<close>

datatype webhook = PrometheusHook | GrafanaHook | ZabbixHook note_order

fun deliver ::
    "webhook \<Rightarrow> ingest_env \<Rightarrow> faults \<Rightarrow> (nat \<Rightarrow> time) \<Rightarrow> webhook_request \<Rightarrow> ingest_state \<Rightarrow> webhook_reply \<times> ingest_state" where
  "deliver PrometheusHook env = prometheus_webhook env"
| "deliver GrafanaHook env = grafana_webhook env"
| "deliver (ZabbixHook order) env = zabbix_webhook env order"

datatype ingest_op = Deliver webhook faults "nat \<Rightarrow> time" webhook_request | CleanKeys faults time

fun ingest_step :: "ingest_env \<Rightarrow> ingest_op \<Rightarrow> ingest_state \<Rightarrow> ingest_state" where
  "ingest_step env (Deliver hook flt clock r) st = snd (deliver hook env flt clock r st)"
| "ingest_step env (CleanKeys flt now) st = st\<lparr>ig_keys := or_keep (clean_keys flt now (ig_keys st)) (ig_keys st)\<rparr>"

section \<open>The pipeline behind the webhooks\<close>

lemma stored_pipeline:
  assumes "pipeline wi kb now w" "save_event flt e (w_events w) = Inr db"
  shows "pipeline wi kb now (w\<lparr>w_events := db\<rparr>)"
  using pipeline.step[OF assms(1) pipeline_step.stored[of wi kb now w flt e]] assms(2) by (simp add: store_event_def)

lemma route_pipeline:
  "pipeline (ie_wiring env) (ie_kb env) now w \<Longrightarrow> pipeline (ie_wiring env) (ie_kb env) now (route_event env flt now e w)"
  unfolding route_event_def by (auto intro: pipeline.step pipeline_step.alert pipeline_step.recovered)

lemma take_pipeline:
  "pipeline (ie_wiring env) (ie_kb env) now (snd st) \<Longrightarrow>
   pipeline (ie_wiring env) (ie_kb env) now (snd (take_event env flt now e st))"
  by (auto simp: take_event_def intro: route_pipeline stored_pipeline split: sum.split)

lemma grafana_step_pipeline:
  assumes "pipeline (ie_wiring env) (ie_kb env) (clock i) (snd st)"
  shows "pipeline (ie_wiring env) (ie_kb env) (clock i) (snd (grafana_step env flt clock tenant src i a st))"
proof -
  have alert: "pipeline (ie_wiring env) (ie_kb env) (clock i)
      (snd (process_event (ie_wiring env) (ie_kb env) f (clock i) e w))"
    and rec: "pipeline (ie_wiring env) (ie_kb env) (clock i)
      (process_resolved (ie_wiring env) f (clock i) (ie_quiet env) e w)"
    if "pipeline (ie_wiring env) (ie_kb env) (clock i) w" for f e w
    using that by (auto intro: pipeline.step pipeline_step.alert pipeline_step.recovered)
  show ?thesis
    using assms unfolding grafana_step_def Let_def
    by (auto split: sum.split intro: take_pipeline stored_pipeline alert rec)
qed

lemma each_pipeline:
  assumes "\<And>i j. i \<le> j \<Longrightarrow> clock i \<le> (clock j :: time)"
    and "\<And>i a st. pipeline wi kb (clock i) (snd st) \<Longrightarrow> pipeline wi kb (clock i) (snd (step i a st))"
  shows "pipeline wi kb (clock i) (snd st) \<Longrightarrow> pipeline wi kb (clock (i + length as)) (snd (each_alert step i as st))"
proof (induction as arbitrary: i st)
  case (Cons a as)
  from assms(2)[OF Cons.prems] have "pipeline wi kb (clock (Suc i)) (snd (step i a st))"
    by (rule pipeline.wait) (simp add: assms(1))
  from Cons.IH[OF this] show ?case by simp
qed simp

definition reaches :: "ingest_env \<Rightarrow> time \<Rightarrow> ingest_state \<Rightarrow> bool" where
  "reaches env t0 st \<longleftrightarrow> (\<exists>t \<ge> t0. pipeline (ie_wiring env) (ie_kb env) t (ig_world st))"

lemma batch_reaches:
  assumes "\<And>i j. i \<le> j \<Longrightarrow> clock i \<le> (clock j :: time)"
    and "\<And>i a st. pipeline (ie_wiring env) (ie_kb env) (clock i) (snd st) \<Longrightarrow>
      pipeline (ie_wiring env) (ie_kb env) (clock i) (snd (step i a st))"
    and "pipeline (ie_wiring env) (ie_kb env) (clock 0) (ig_world st)"
  shows "reaches env (clock 0) (snd (ingest_batch flt now batch step sid st))"
proof -
  have "pipeline (ie_wiring env) (ie_kb env) (clock (0 + length as)) (snd (each_alert step 0 as (0, ig_world st)))" for as
    by (rule each_pipeline) (use assms in auto)
  then have "\<exists>t \<ge> clock 0. pipeline (ie_wiring env) (ie_kb env) t (snd (each_alert step 0 as (0, ig_world st)))" for as
    using assms(1)[of 0 "length as"] by auto
  with assms(3) show ?thesis
    by (auto simp: reaches_def ingest_batch_def split: option.split prod.split) (metis snd_conv)+
qed

lemma serve_reaches:
  assumes "\<And>body tenant src. reaches env t (snd (ingest body tenant src st))" "reaches env t st"
  shows "reaches env t (snd (serve_alert_webhook env flt now ep allowed ingest r st))"
proof -
  have "reaches env t st1" if "ingest body tenant src st = (x, st1)" for body tenant src x st1
    using assms(1)[of body tenant src] that by simp
  with assms(2) show ?thesis
    by (auto simp: serve_alert_webhook_def reaches_def split: option.split prod.split sum.split)
qed

lemma zabbix_reaches:
  assumes "pipeline (ie_wiring env) (ie_kb env) now (ig_world st)"
  shows "reaches env now (snd (ingest_zabbix env order flt now body tenant sid st))"
proof -
  have keep: "reaches env now (note_source f now i n st')"
    if "pipeline (ie_wiring env) (ie_kb env) now (ig_world st')" for f i n st'
    using that by (auto simp: note_source_def reaches_def)
  have noted: "pipeline (ie_wiring env) (ie_kb env) now
      (snd (note_for_event order f now tenant e a nt (ig_world st)))" for f e a nt
    using assms by (auto intro: pipeline.step pipeline_step.noted)
  have after: "pipeline (ie_wiring env) (ie_kb env) now (process_resolved (ie_wiring env) f now (ie_quiet env) e w)"
    "pipeline (ie_wiring env) (ie_kb env) now (snd (process_event (ie_wiring env) (ie_kb env) f now e w))"
    if "pipeline (ie_wiring env) (ie_kb env) now w" for f e w
    using that by (auto intro: pipeline.step pipeline_step.alert pipeline_step.recovered)
  have "reaches env now st" using assms by (auto simp: reaches_def)
  then show ?thesis
    by (auto simp: ingest_zabbix_def Let_def split: option.split sum.split
        intro!: keep after noted stored_pipeline[OF assms] assms)
qed

lemma deliver_reaches:
  assumes mono: "\<And>i j. i \<le> j \<Longrightarrow> clock i \<le> (clock j :: time)"
    and p: "pipeline (ie_wiring env) (ie_kb env) (clock 0) (ig_world st)"
  shows "reaches env (clock 0) (snd (deliver hook env flt clock r st))"
proof -
  have same: "reaches env (clock 0) st" using p by (auto simp: reaches_def)
  have am: "reaches env (clock 0) (snd (ingest_alertmanager env flt clock body tenant sid st))" for body tenant sid
    unfolding ingest_alertmanager_def am_step_def by (rule batch_reaches) (use mono p in \<open>auto intro: take_pipeline\<close>)
  have gr: "reaches env (clock 0) (snd (ingest_grafana env flt clock body tenant sid nm st))" for body tenant sid nm
    unfolding ingest_grafana_def by (rule batch_reaches) (use mono p in \<open>auto intro: grafana_step_pipeline\<close>)
  show ?thesis
  proof (cases hook)
    case PrometheusHook
    show ?thesis unfolding PrometheusHook deliver.simps prometheus_webhook_def
      by (rule serve_reaches[OF _ same]) (auto split: option.split intro: am gr)
  next
    case GrafanaHook
    show ?thesis unfolding GrafanaHook deliver.simps grafana_webhook_def
      by (rule serve_reaches[OF _ same]) (rule gr)
  next
    case (ZabbixHook order)
    have z: "reaches env (clock 0) st1" if "ingest_zabbix env order flt (clock 0) body tenant sid st = (x, st1)"
      for body tenant sid x st1 using zabbix_reaches[OF p, of order flt body tenant sid] that by simp
    show ?thesis using same unfolding ZabbixHook deliver.simps zabbix_webhook_def
      by (auto split: option.split prod.split sum.split zabbix_error.split dest!: z simp: reaches_def)
  qed
qed


section \<open>What a request leaves of the sources and the keys\<close>

definition same_source :: "source_row \<Rightarrow> source_row \<Rightarrow> bool" where
  "same_source a b \<longleftrightarrow> so_id b = so_id a \<and> so_tenant b = so_tenant a \<and> so_token b = so_token a \<and> so_hash b = so_hash a \<and>
     sc_type (so_source b) = sc_type (so_source a)"

definition quiet :: "ingest_state \<Rightarrow> ingest_state \<Rightarrow> bool" where
  "quiet st st' \<longleftrightarrow> list_all2 same_source (ig_sources st) (ig_sources st') \<and> ig_keys st' = ig_keys st"

lemma same_sources_refl [simp]: "list_all2 same_source db db"
  by (simp add: list_all2_same same_source_def)

lemma same_sources_trans:
  "list_all2 same_source a b \<Longrightarrow> list_all2 same_source b c \<Longrightarrow> list_all2 same_source a c"
  by (rule list_all2_trans[of same_source same_source same_source]) (simp_all add: same_source_def)

lemma source_success_same: "list_all2 same_source db (or_keep (source_success flt now i n db) db)"
proof -
  have "list_all2 same_source db (on_source i (\<lambda>s. s\<lparr>sc_status := a, sc_last_event_at := b,
      sc_total_events := f s, sc_error_count := c, sc_last_error := d\<rparr>) db)" for a b c d f
    by (simp add: on_source_def tbl_update_def list_all2_map2 list_all2_same same_source_def so_id_def so_tenant_def
        so_token_def)
  then show ?thesis by (simp add: source_success_def guard_db_def or_keep_def)
qed

lemma quiet_refl [simp]: "quiet st st"
  by (simp add: quiet_def)

lemma quiet_world [simp]: "quiet st (st'\<lparr>ig_world := w\<rparr>) = quiet st st'"
  by (simp add: quiet_def)

lemma quiet_batch: "quiet st (snd (ingest_batch flt now batch step sid st))"
  by (auto simp: ingest_batch_def quiet_def source_success_same split: option.split prod.split)

lemma quiet_note: "quiet st st' \<Longrightarrow> quiet st (note_source flt now i n st')"
  by (auto simp: note_source_def quiet_def intro: same_sources_trans source_success_same)

lemma quiet_zabbix: "quiet st (snd (ingest_zabbix env order flt now body tenant sid st))"
  by (auto simp: ingest_zabbix_def Let_def intro: quiet_note split: option.split sum.split)

section \<open>Keys\<close>

text \<open>The rows of a key all answer \<open>resp\<close> until \<open>x\<close>, and there is one.\<close>

definition key_held :: "string \<Rightarrow> string \<Rightarrow> string \<Rightarrow> time \<Rightarrow> idempotency_row list \<Rightarrow> bool" where
  "key_held k t resp x db \<longleftrightarrow> tbl_has (\<lambda>r. (ik_key r, ik_tenant r)) (k, t) db \<and>
     (\<forall>r \<in> set db. ik_key r = k \<and> ik_tenant r = t \<longrightarrow> ik_response r = resp \<and> x \<le> ik_expires r)"

lemma key_held_check:
  assumes "key_held k t resp x db" "now < x" "k \<noteq> []" "\<not> flt ''Idempotency.Check''"
  shows "check_key flt now k t db = Inr (Some resp)"
proof -
  have "\<exists>r. find (\<lambda>r. ik_key r = k \<and> ik_tenant r = t \<and> now < ik_expires r) db = Some r"
    using assms(1,2) by (force simp: key_held_def tbl_has_def find_None_iff simp flip: not_None_eq)
  then show ?thesis
    using assms by (auto simp: check_key_def guard_db_def key_held_def find_Some_iff)
qed

lemma key_held_record:
  assumes "key_held k t resp x db"
  shows "key_held k t resp x (record_idempotency env flt now r t' src resp' db)"
  using assms by (auto simp: key_held_def record_idempotency_def record_key_def guard_db_def or_keep_def tbl_has_def)

lemma key_held_new:
  assumes "\<not> tbl_has (\<lambda>r. (ik_key r, ik_tenant r)) (wr_key r, t) db" "ie_keys env" "wr_key r \<noteq> []"
    and "\<not> flt ''Idempotency.Record''"
  shows "key_held (wr_key r) t resp (now + 24 * hour) (record_idempotency env flt now r t src resp db)"
  using assms by (force simp: key_held_def record_idempotency_def record_key_def guard_db_def tbl_has_def)

lemma key_held_clean:
  assumes "key_held k t resp x db" "now \<le> x"
  shows "key_held k t resp x (or_keep (clean_keys flt now db) db)"
  using assms by (force simp: key_held_def clean_keys_def guard_db_def tbl_has_def tbl_delete_def)

section \<open>Answers\<close>

fun allowed_types :: "webhook \<Rightarrow> string list" where
  "allowed_types PrometheusHook = [''prometheus'', ''grafana'', ''webhook'', ''generic'']"
| "allowed_types GrafanaHook = [''grafana'']"
| "allowed_types (ZabbixHook order) = [''zabbix'']"

definition admits :: "webhook \<Rightarrow> SourceConnection option \<Rightarrow> bool" where
  "admits hook src \<longleftrightarrow> (case src of None \<Rightarrow> True | Some s \<Rightarrow> sc_type s = [] \<or> sc_type s \<in> set (allowed_types hook))"

lemma deliver_cached:
  assumes "resolve_source env flt r (ig_sources st) = Some (t, src)" "admits hook src"
    and "check_idempotency env flt (clock 0) r t (ig_keys st) = Inr (Some c)"
  shows "deliver hook env flt clock r st = (Served True c, st)"
  using assms by (cases hook; cases src) (auto simp: admits_def prometheus_webhook_def grafana_webhook_def
      zabbix_webhook_def serve_alert_webhook_def)

text \<open>How a request ends: with the keys as they were, or with its answer recorded.\<close>

inductive outcome :: "(SourceConnection option \<Rightarrow> bool) \<Rightarrow> ingest_env \<Rightarrow> faults \<Rightarrow> time \<Rightarrow> webhook_request \<Rightarrow>
    ingest_state \<Rightarrow> webhook_reply \<Rightarrow> ingest_state \<Rightarrow> bool" for ok env flt now r st where
  unrecorded: "quiet st st1 \<Longrightarrow> (\<And>resp. reply = Served False resp \<Longrightarrow> resp = zabbix_test_json) \<Longrightarrow>
    outcome ok env flt now r st reply st1"
| recorded: "resolve_source env flt r (ig_sources st) = Some (t, src) \<Longrightarrow> ok src \<Longrightarrow>
    check_idempotency env flt now r t (ig_keys st) = Inr None \<Longrightarrow> quiet st st' \<Longrightarrow>
    outcome ok env flt now r st (Served False resp)
      (st'\<lparr>ig_keys := record_idempotency env flt now r t (source_id_of src) resp (ig_keys st')\<rparr>)"

lemma outcome_weaken: "outcome ok env flt now r st reply st1 \<Longrightarrow> (\<And>s. ok s \<Longrightarrow> ok' s) \<Longrightarrow> outcome ok' env flt now r st reply st1"
  by (auto elim!: outcome.cases intro: outcome.intros)

lemma serve_outcome:
  assumes "\<And>body t src. quiet st (snd (ingest body t src st))"
    and "serve_alert_webhook env flt now ep allowed ingest r st = (reply, st1)"
  shows "outcome (\<lambda>src. case src of None \<Rightarrow> True | Some s \<Rightarrow> sc_type s = [] \<or> sc_type s \<in> set allowed) env flt now r st reply st1"
proof -
  have q: "quiet st st'" if "ingest body t src st = (x, st')" for body t src x st'
    using assms(1)[of body t src] that by simp
  show ?thesis
    using assms(2) by (auto simp: serve_alert_webhook_def split: option.splits prod.splits sum.splits if_splits
        intro: outcome.intros dest: q)
qed

lemma deliver_outcome:
  assumes "deliver hook env flt clock r st = (reply, st1)"
  shows "outcome (admits hook) env flt (clock 0) r st reply st1"
proof (cases hook)
  case PrometheusHook
  have q: "quiet st (snd (case src of
            Some s \<Rightarrow> if sc_type s = ''grafana'' then ingest_grafana env flt clock body t (sc_id s) (sc_name s) st
                      else ingest_alertmanager env flt clock body t (sc_id s) st
          | None \<Rightarrow> ingest_alertmanager env flt clock body t [] st))" for body t src
    by (auto simp: ingest_grafana_def ingest_alertmanager_def quiet_batch split: option.split)
  from serve_outcome[OF q assms[unfolded PrometheusHook deliver.simps prometheus_webhook_def]] show ?thesis
    by (rule outcome_weaken) (auto simp: PrometheusHook admits_def split: option.splits)
next
  case GrafanaHook
  have q: "quiet st (snd (ingest_grafana env flt clock body t sid nm st))" for body t sid nm
    by (simp add: ingest_grafana_def quiet_batch)
  from serve_outcome[OF q assms[unfolded GrafanaHook deliver.simps grafana_webhook_def]] show ?thesis
    by (rule outcome_weaken) (auto simp: GrafanaHook admits_def split: option.splits)
next
  case (ZabbixHook order)
  have q: "quiet st st'" if "ingest_zabbix env order flt now body t sid st = (x, st')" for now body t sid x st'
    using quiet_zabbix[of st env order flt now body t sid] that by simp
  from assms[unfolded ZabbixHook deliver.simps zabbix_webhook_def] show ?thesis
    by (auto simp: ZabbixHook admits_def split: option.splits prod.splits sum.splits if_splits zabbix_error.splits
        intro: outcome.intros dest: q)
qed

lemma deliver_keeps:
  assumes "key_held k t resp x (ig_keys st)"
  shows "list_all2 same_source (ig_sources st) (ig_sources (snd (deliver hook env flt clock r st))) \<and>
    key_held k t resp x (ig_keys (snd (deliver hook env flt clock r st)))"
proof -
  obtain reply st1 where d: "deliver hook env flt clock r st = (reply, st1)" by fastforce
  from deliver_outcome[OF d] assms show ?thesis
    by (auto simp: d quiet_def key_held_record elim!: outcome.cases)
qed

section \<open>A source keeps its token\<close>

lemma find_same:
  assumes "list_all2 same_source db db'" "\<And>a b. same_source a b \<Longrightarrow> P a = P b"
  shows "rel_option same_source (find P db) (find P db')"
  using assms(1) by (induction rule: list_all2_induct) (auto simp: assms(2))

definition readable :: "faults \<Rightarrow> bool" where
  "readable flt \<longleftrightarrow> \<not> flt ''Source.FindByIngestToken'' \<and> \<not> flt ''Source.FindByPlainToken''"

lemma find_by_token_same:
  assumes "list_all2 same_source db db'" "find_by_token enc flt token db = Some (s, t)" "readable flt2"
  shows "\<exists>s'. find_by_token enc flt2 token db' = Some (s', t) \<and> sc_type s' = sc_type s"
proof -
  have f: "rel_option same_source (find P db) (find P db')" if "\<And>a b. same_source a b \<Longrightarrow> P a = P b" for P
    by (rule find_same[OF assms(1) that])
  have f1: "rel_option same_source (find (\<lambda>r. so_token r = token) db) (find (\<lambda>r. so_token r = token) db')"
    and f2: "rel_option same_source (find (\<lambda>r. so_hash r = h) db) (find (\<lambda>r. so_hash r = h) db')"
    and f3: "rel_option same_source (find (\<lambda>r. so_token r = token \<and> so_hash r = []) db)
      (find (\<lambda>r. so_token r = token \<and> so_hash r = []) db')" for h
    by (rule f; simp add: same_source_def)+
  show ?thesis
    using assms(2,3) f1 f2[of "token_hash token"] f3
    by (auto simp: find_by_token_def find_by_ingest_token_def guard_db_def readable_def option_rel_Some1 same_source_def
        rel_option_None1 rel_option_None2 split: if_splits option.splits)
qed

lemma resolve_same:
  assumes "list_all2 same_source db db'" "resolve_source env flt r db = Some (t, src)" "readable flt2"
  shows "\<exists>src'. resolve_source env flt2 r db' = Some (t, src') \<and> admits hook src' = admits hook src"
proof (cases "tenant_from_request_strict \<lparr>hq_claims = wr_claims r, hq_tenant_header = [], hq_tenant_query = []\<rparr>")
  case None
  from assms(2) None obtain s where
    s: "find_by_token (ie_encryptor env) flt (source_token_from_request r) db = Some (s, t)" "src = Some s"
    and ne: "source_token_from_request r \<noteq> []"
    by (auto simp: resolve_source_def Let_def split: if_splits)
  from find_by_token_same[OF assms(1) s(1) assms(3)] obtain s' where
    "find_by_token (ie_encryptor env) flt2 (source_token_from_request r) db' = Some (s', t)" "sc_type s' = sc_type s"
    by blast
  with None ne s(2) show ?thesis by (auto simp: resolve_source_def Let_def admits_def)
qed (use assms(2) in \<open>auto simp: resolve_source_def\<close>)

section \<open>Between two requests\<close>

definition cleaned_after :: "time \<Rightarrow> ingest_op \<Rightarrow> bool" where
  "cleaned_after x op \<longleftrightarrow> (case op of Deliver _ _ _ _ \<Rightarrow> False | CleanKeys _ now \<Rightarrow> x < now)"

lemma step_keeps:
  assumes "key_held k t resp x (ig_keys st)" "\<not> cleaned_after x op"
  shows "list_all2 same_source (ig_sources st) (ig_sources (ingest_step env op st)) \<and>
    key_held k t resp x (ig_keys (ingest_step env op st))"
  using assms deliver_keeps by (cases op) (auto simp: cleaned_after_def key_held_clean)

lemma steps_keep:
  assumes "key_held k t resp x (ig_keys st)" "\<forall>op \<in> set ops. \<not> cleaned_after x op"
  shows "list_all2 same_source (ig_sources st) (ig_sources (fold (ingest_step env) ops st)) \<and>
    key_held k t resp x (ig_keys (fold (ingest_step env) ops st))"
  using assms
proof (induction ops arbitrary: st)
  case (Cons op ops)
  from Cons.prems step_keeps[of k t resp x st op env]
  have "list_all2 same_source (ig_sources st) (ig_sources (ingest_step env op st))"
    "key_held k t resp x (ig_keys (ingest_step env op st))" by auto
  with Cons.IH[of "ingest_step env op st"] Cons.prems(2) show ?case by (auto intro: same_sources_trans)
qed simp

definition fresh_key :: "time \<Rightarrow> string \<Rightarrow> idempotency_row list \<Rightarrow> bool" where
  "fresh_key now k db \<longleftrightarrow> (\<forall>r \<in> set db. ik_key r = k \<longrightarrow> now < ik_expires r)"

lemma fresh_absent:
  assumes "check_idempotency env flt now r t db = Inr None" "fresh_key now (wr_key r) db" "wr_key r \<noteq> []" "ie_keys env"
  shows "\<not> tbl_has (\<lambda>r. (ik_key r, ik_tenant r)) (wr_key r, t) db"
  using assms by (auto simp: check_idempotency_def check_key_def fresh_key_def tbl_has_def find_None_iff)

lemma replayed:
  assumes first: "deliver hook env flt clock r st = (Served False resp, st1)"
    and keyed: "wr_key r \<noteq> []" "ie_keys env" "fresh_key (clock 0) (wr_key r) (ig_keys st)"
    and ok: "\<not> flt ''Idempotency.Record''" "resp \<noteq> zabbix_test_json"
    and between: "\<forall>op \<in> set ops. \<not> cleaned_after (clock 0 + 24 * hour) op"
    and again: "clock2 0 < clock 0 + 24 * hour" "readable flt2" "\<not> flt2 ''Idempotency.Check''"
  defines "st2 \<equiv> fold (ingest_step env) ops st1"
  shows "deliver hook env flt2 clock2 r st2 = (Served True resp, st2)"
proof -
  from deliver_outcome[OF first] obtain t src st' where
    r: "resolve_source env flt r (ig_sources st) = Some (t, src)" "admits hook src"
    and c: "check_idempotency env flt (clock 0) r t (ig_keys st) = Inr None" and q: "quiet st st'"
    and st1: "st1 = st'\<lparr>ig_keys := record_idempotency env flt (clock 0) r t (source_id_of src) resp (ig_keys st')\<rparr>"
    using ok(2) by (auto elim!: outcome.cases)
  have held: "key_held (wr_key r) t resp (clock 0 + 24 * hour) (ig_keys st1)"
    using key_held_new[of r t "ig_keys st" env flt, OF fresh_absent[OF c keyed(3,1,2)] keyed(2,1) ok(1)] q by (simp add: st1 quiet_def)
  have "list_all2 same_source (ig_sources st) (ig_sources st1)" using q by (simp add: st1 quiet_def)
  with steps_keep[OF held between, of env]
  have same: "list_all2 same_source (ig_sources st) (ig_sources st2)"
    and held2: "key_held (wr_key r) t resp (clock 0 + 24 * hour) (ig_keys st2)"
    by (auto simp: st2_def intro: same_sources_trans)
  from resolve_same[OF same r(1) again(2), of hook] r(2) obtain src' where
    r2: "resolve_source env flt2 r (ig_sources st2) = Some (t, src')" "admits hook src'" by auto
  have "check_idempotency env flt2 (clock2 0) r t (ig_keys st2) = Inr (Some resp)"
    using key_held_check[of "wr_key r" t resp _ "ig_keys st2" "clock2 0" flt2, OF held2 again(1) keyed(1) again(3)] keyed
    by (simp add: check_idempotency_def)
  with r2 show ?thesis by (intro deliver_cached)
qed

section \<open>Alerts that are not stored\<close>

definition no_save :: "faults \<Rightarrow> bool" where
  "no_save flt \<longleftrightarrow> (\<forall>i. at_site ''ingest'' (nth_site i flt) ''SaveEvent'')"

lemma each_alert_unsaved: "no_save flt \<Longrightarrow> each_alert (am_step env flt clock tenant) i as st = st"
  by (induction as arbitrary: i) (simp_all add: no_save_def am_step_def take_event_def save_event_def guard_db_def)

lemma processed_not_test: "processed_json n \<noteq> zabbix_test_json"
  by (simp add: processed_json_def zabbix_test_json_def)

lemma unsaved_batch:
  assumes "resolve_source env flt r (ig_sources st) = Some (t, src)" "admits PrometheusHook src"
    and "check_idempotency env flt (clock 0) r t (ig_keys st) = Inr None"
    and "length (wr_body r) \<le> maxIngestBodyBytes" "decode_alerts (wr_body r) = Some as" "as \<noteq> []"
    and "length as \<le> maxPrometheusAlerts" "no_save flt"
    and "src = None \<or> sc_type (the src) \<noteq> ''grafana''"
  shows "\<exists>st1. deliver PrometheusHook env flt clock r st = (Served False (processed_json 0), st1) \<and>
    ig_world st1 = ig_world st"
proof -
  have b: "\<exists>st1. ingest_alertmanager env flt clock (wr_body r) t sid st = (Inr 0, st1) \<and> ig_world st1 = ig_world st" for sid
    using assms(5-8) by (simp add: ingest_alertmanager_def ingest_batch_def batch_error_def each_alert_unsaved)
  obtain st1 where s: "ingest_alertmanager env flt clock (wr_body r) t (source_id_of src) st = (Inr 0, st1)"
    "ig_world st1 = ig_world st" using b by blast
  show ?thesis
  proof (cases src)
    case None
    with assms s show ?thesis by (simp add: prometheus_webhook_def serve_alert_webhook_def source_id_of_def)
  next
    case (Some x)
    with assms s show ?thesis
      by (auto simp: prometheus_webhook_def serve_alert_webhook_def source_id_of_def admits_def)
  qed
qed

section \<open>Properties\<close>

definition hook_env :: ingest_env where
  "hook_env = \<lparr>ie_wiring = all_wired, ie_kb = None, ie_quiet = 60 * second, ie_encryptor = None, ie_keys = True,
     ie_noter = True\<rparr>"

definition hook_source :: SourceConnection where
  "hook_source = new_source 1 ''k'' ''acme'' ''alertmanager'' ''prometheus''"

definition hook_state :: ingest_state where
  "hook_state = \<lparr>ig_world = one_incident_world\<lparr>w_mutes := \<lparr>ms_repo = \<lparr>mdb_mutes = [], mdb_log = [], mdb_next_log_id = 1\<rparr>,
       ms_cache = Map.empty\<rparr>\<rparr>,
     ig_sources = [\<lparr>so_source = hook_source, so_hash = []\<rparr>], ig_keys = []\<rparr>"

definition hook_request :: webhook_request where
  "hook_request = \<lparr>wr_claims = None, wr_source_token = hex_bytes (byte_list ''k''), wr_authorization = [], wr_key = ''k1'',
     wr_body = ''{'' @ ([CHR 0x22] @ ''alerts'' @ [CHR 0x22] @ '':['') @ ''{'' @ ([CHR 0x22] @ ''fingerprint'' @ [CHR 0x22] @ '':'' @ [CHR 0x22] @ ''f1'' @ [CHR 0x22]) @ ''}'' @ '']}''\<rparr>"

definition saves_fail :: faults where
  "saves_fail op \<longleftrightarrow> has_suffix op ''SaveEvent''"

lemma hook_resolved: "resolve_source hook_env saves_fail hook_request (ig_sources hook_state) = Some (''acme'', Some hook_source)"
  by code_simp

lemma hook_decoded: "decode_alerts (wr_body hook_request) = Some [am_zero\<lparr>aa_fingerprint := ''f1''\<rparr>]"
  by code_simp

lemma saves_fail_unsaved: "no_save saves_fail"
  by (simp add: no_save_def nth_site_def at_site_def saves_fail_def has_suffix_def)




text \<open>C11: an alert can be lost although the sender was told it is in. When the event store fails, the Prometheus
  endpoint answers 200 with "processed 0" (every failed save is skipped, nothing goes to the dead-letter queue), stores
  nothing, and records the key; so when the sender tries again with the same key, with every fault gone, it is given the
  same answer again and the alerts are still not stored.\<close>

theorem lost_alert_acknowledged:
  assumes "resolve_source env flt r (ig_sources st) = Some (t, src)" "admits PrometheusHook src"
    and "src = None \<or> sc_type (the src) \<noteq> ''grafana''"
    and "wr_key r \<noteq> []" "ie_keys env" "\<forall>k \<in> set (ig_keys st). ik_key k \<noteq> wr_key r"
    and "length (wr_body r) \<le> maxIngestBodyBytes" "decode_alerts (wr_body r) = Some as" "as \<noteq> []"
    and "length as \<le> maxPrometheusAlerts"
    and "no_save flt" "\<not> flt ''Idempotency.Check''" "\<not> flt ''Idempotency.Record''"
  shows "\<exists>st1. deliver PrometheusHook env flt clock r st = (Served False (processed_json 0), st1) \<and>
    ig_world st1 = ig_world st \<and>
    (\<forall>clock2. clock2 0 < clock 0 + 24 * hour \<longrightarrow>
       deliver PrometheusHook env no_faults clock2 r st1 = (Served True (processed_json 0), st1))"
proof -
  have "check_idempotency env flt (clock 0) r t (ig_keys st) = Inr None"
    using assms(4-6,12) by (auto simp: check_idempotency_def check_key_def guard_db_def find_None_iff)
  from unsaved_batch[of env flt r st t src clock as, OF assms(1,2) this assms(7-11,3)] obtain st1 where
    d: "deliver PrometheusHook env flt clock r st = (Served False (processed_json 0), st1)" "ig_world st1 = ig_world st"
    by blast
  have f: "fresh_key (clock 0) (wr_key r) (ig_keys st)" using assms(6) by (simp add: fresh_key_def)
  have "readable no_faults" by (simp add: readable_def)
  then have "deliver PrometheusHook env no_faults clock2 r st1 = (Served True (processed_json 0), st1)"
    if "clock2 0 < clock 0 + 24 * hour" for clock2
    using replayed[OF d(1) assms(4,5) f assms(13) processed_not_test, of "[]" clock2 no_faults] that by simp
  with d show ?thesis by blast
qed

theorem lost_alert_acknowledged_witness:
  "\<exists>st1. deliver PrometheusHook hook_env saves_fail (\<lambda>i. 5 + int i) hook_request hook_state =
       (Served False (processed_json 0), st1) \<and>
     ig_world st1 = ig_world hook_state \<and>
     deliver PrometheusHook hook_env no_faults (\<lambda>i. 65) hook_request st1 = (Served True (processed_json 0), st1)"
  using lost_alert_acknowledged[of hook_env saves_fail hook_request hook_state "''acme''" "Some hook_source"
      "[am_zero\<lparr>aa_fingerprint := ''f1''\<rparr>]" "\<lambda>i. 5 + int i", OF hook_resolved _ _ _ _ _ _ hook_decoded _ _ saves_fail_unsaved]
  by (auto simp: admits_def hook_source_def new_source_def hook_request_def hook_env_def hook_state_def
      maxIngestBodyBytes_def maxPrometheusAlerts_def saves_fail_def has_suffix_def hour_def minute_def second_def)

end
