(* ===== verification/IngestTenant.thy ===== *)
theory IngestTenant
  imports IngestSafety
begin

text \<open>
  Who a webhook writes for. \<open>others t w\<close> is what the tables hold of the tenants other than \<open>t\<close>: their incidents with
  the linked alerts and the pending close, and their stored events. Each operation behind the webhooks keeps it.
\<close>

definition foreign_incident :: "string \<Rightarrow> world \<Rightarrow> string \<Rightarrow> (Incident \<times> string list \<times> AutoClosePending option) option" where
  "foreign_incident t w i =
    (case stored_row w i of
       None \<Rightarrow> None
     | Some r \<Rightarrow> if inc_tenant_id r = t then None
        else Some (r, event_ids_of i (w_incidents w), tbl_find ac_incident_id i (w_pending w)))"

definition others :: "string \<Rightarrow> world \<Rightarrow> (string \<Rightarrow> (Incident \<times> string list \<times> AutoClosePending option) option) \<times> Event list" where
  "others t w = (foreign_incident t w, filter (\<lambda>e. ev_tenant_id e \<noteq> t) (w_events w))"

text \<open>The ID drawn at a time is not that of another tenant's incident.\<close>

definition drawn_own :: "string \<Rightarrow> time \<Rightarrow> world \<Rightarrow> bool" where
  "drawn_own t now w \<longleftrightarrow> foreign_incident t w (incident_id_at now) = None"

lemma foreign_incident_cong:
  "stored_row w i = stored_row w' i \<Longrightarrow> event_ids_of i (w_incidents w) = event_ids_of i (w_incidents w') \<Longrightarrow>
   tbl_find ac_incident_id i (w_pending w) = tbl_find ac_incident_id i (w_pending w') \<Longrightarrow>
   foreign_incident t w i = foreign_incident t w' i"
  by (simp add: foreign_incident_def split: option.split)

lemma othersI:
  "w_incidents w' = w_incidents w \<Longrightarrow> w_pending w' = w_pending w \<Longrightarrow>
   filter (\<lambda>e. ev_tenant_id e \<noteq> t) (w_events w') = filter (\<lambda>e. ev_tenant_id e \<noteq> t) (w_events w) \<Longrightarrow> others t w' = others t w"
  unfolding others_def by (auto simp: fun_eq_iff stored_row_def intro!: foreign_incident_cong)

lemma others_drawn: "others t w' = others t w \<Longrightarrow> drawn_own t now w' = drawn_own t now w"
  by (simp add: others_def drawn_own_def)

section \<open>Events\<close>

lemma save_event_others:
  assumes "save_event flt e db = Inr db'" "tenant_or_default (ev_tenant_id e) = t"
  shows "filter (\<lambda>r. ev_tenant_id r \<noteq> t) db' = filter (\<lambda>r. ev_tenant_id r \<noteq> t) db"
  using assms unfolding save_event_Inr by (auto intro!: upsert_other_rows simp: conflict_update_def)

lemma with_events_others:
  "save_event flt e (w_events w) = Inr db \<Longrightarrow> tenant_or_default (ev_tenant_id e) = t \<Longrightarrow> others t (w\<lparr>w_events := db\<rparr>) = others t w"
  by (rule othersI) (simp_all add: save_event_others)

lemma store_event_others:
  assumes "tenant_or_default (ev_tenant_id e) = t"
  shows "others t (store_event flt e w) = others t w"
proof (cases "save_event flt e (w_events w)")
  case (Inr db)
  with with_events_others[OF Inr assms] show ?thesis by (simp add: store_event_def)
qed (simp add: store_event_def)

section \<open>Incidents\<close>

lemma arrived_others:
  assumes "arrived wi flt now e w = (m, w2)" "tenant_or_default (ev_tenant_id e) = t"
  shows "others t w2 = others t w"
proof -
  have s: "others t (store_event flt (with_fingerprint e) w) = others t w" by (rule store_event_others) (simp add: assms(2))
  have "others t w2 = others t (store_event flt (with_fingerprint e) w)"
    by (rule othersI) (simp_all add: arrived_frame[OF assms(1)])
  with s show ?thesis by simp
qed

lemma merge_others:
  assumes "find_existing flt e (w_incidents w) = Some inc" "incidents_ok (w_incidents w)"
    and "tenant_or_default (ev_tenant_id e) = t"
  shows "others t (merge_event wi flt' inc e w) = others t w"
proof -
  let ?w = "merge_event wi flt' inc e w"
  have row: "stored_row w (inc_id inc) = Some (incident_row inc)" and own: "inc_tenant_id inc = t"
    using find_existing_row[OF assms(1,2)] belongsD[of e inc] assms(3) by (simp_all add: stored_row_def)
  have "foreign_incident t ?w i = foreign_incident t w i" for i
  proof (cases "i = inc_id inc")
    case True
    with merge_rows[OF assms(1,2) row, of wi flt'] row own assms(3) show ?thesis
      by (auto simp: foreign_incident_def touched_by_def)
  next
    case False
    have "stored_row ?w i = stored_row w i"
      using merge_rows[OF assms(1,2), of i _ wi flt'] merge_rows_none[OF assms(1,2), of i wi flt'] False
      by (cases "stored_row w i") auto
    then show ?thesis
      by (intro foreign_incident_cong) (simp_all add: merged_rows_links(1)[OF False] merge_event_pending tbl_find_delete_other[OF False])
  qed
  then show ?thesis by (simp add: others_def fun_eq_iff)
qed

lemma creation_others:
  assumes "drawn_own t now w" "tenant_or_default (ev_tenant_id e) = t"
  shows "others t (create_incident wi kb flt now e w) = others t w"
proof -
  let ?w = "create_incident wi kb flt now e w" and ?i = "incident_id_at now"
  have "foreign_incident t ?w j = foreign_incident t w j" for j
  proof (cases "stored_row w ?i")
    case None
    note c = created_cases[OF None HOL.refl HOL.refl, where wi = wi and kb = kb and flt = flt and e = e]
    show ?thesis
    proof (cases "j = ?i")
      case True
      then show ?thesis using c(2) None assms(2) by (auto simp: foreign_incident_def)
    next
      case False
      with c(1)[OF False] show ?thesis by (intro foreign_incident_cong) simp_all
    qed
  next
    case (Some r)
    then have own: "inc_tenant_id r = t" using assms(1) by (auto simp: drawn_own_def foreign_incident_def split: if_splits)
    have "?i \<in> inc_id ` set (db_rows (w_incidents w))"
      using tbl_find_Some Some by (force simp: stored_row_def)
    then have "\<exists>er. add_incident flt (new_incident kb now e) (w_incidents w) = Inl er"
      by (auto simp: add_incident_def guard_db_def tbl_insert_def tbl_has_def)
    then have w: "?w = after_create wi flt now (new_incident kb now e) w" by (auto simp: create_incident_def Let_def)
    have l: "event_ids_of k (w_incidents ?w) = event_ids_of k (w_incidents w)" for k unfolding w event_ids_of_def by simp
    have p: "w_pending ?w = w_pending w" unfolding w by simp
    show ?thesis
      using after_create_rows[of wi flt now "new_incident kb now e" w j, folded w] Some own
      by (cases "stored_row w j") (auto simp: foreign_incident_def l p)
  qed
  then show ?thesis by (simp add: others_def fun_eq_iff)
qed

lemma process_event_others:
  assumes "world_ok w" "drawn_own t now w" "tenant_or_default (ev_tenant_id e) = t"
  shows "others t (snd (process_event wi kb flt now e w)) = others t w"
proof -
  obtain b w' where p: "process_event wi kb flt now e w = (b, w')" by fastforce
  then have "others t w' = others t w"
  proof (cases rule: process_event_cases)
    case (merged w2 inc)
    note i = arrived_frame(1)[OF merged(2)]
    have "incidents_ok (w_incidents w2)" using assms(1) i by (simp add: world_ok_def)
    from merge_others[OF merged(4)[folded i] this, of t wi flt] assms(3) arrived_others[OF merged(2) assms(3)] show ?thesis
      by (simp add: merged(5))
  next
    case (created w2)
    note a = arrived_others[OF created(2) assms(3)]
    have "drawn_own t now w2" using assms(2) others_drawn[OF a] by simp
    from creation_others[OF this, of "with_fingerprint e" wi kb flt] assms(3) a show ?thesis by (simp add: created(5))
  qed (use arrived_others[OF _ assms(3)] in auto)
  with p show ?thesis by simp
qed

section \<open>Recoveries\<close>

lemma start_quiet_others:
  assumes "\<And>r. stored_row w i = Some r \<Longrightarrow> inc_tenant_id r = t"
  shows "others t (start_quiet alert_counts mark_recovered flt now len tenant i w) = others t w"
proof -
  let ?w = "start_quiet alert_counts mark_recovered flt now len tenant i w"
  let ?upd = "\<lambda>a q. q\<lparr>ac_recovered_at := now, ac_closes_at := now + len, ac_alert_count := a\<rparr>"
    and ?new = "\<lambda>a. \<lparr>ac_incident_id = i, ac_tenant_id = tenant, ac_recovered_at = now, ac_closes_at = now + len, ac_alert_count = a\<rparr>"
  have w: "?w = w \<or> (\<exists>a. ?w = w\<lparr>w_pending := tbl_upsert ac_incident_id (?upd a) (?new a) (w_pending w)\<rparr>)"
    by (auto simp: start_quiet_def mark_recovered_def guard_db_def split: sum.split)
  then show ?thesis
  proof (elim disjE exE)
    fix a assume u: "?w = w\<lparr>w_pending := tbl_upsert ac_incident_id (?upd a) (?new a) (w_pending w)\<rparr>"
    have "foreign_incident t ?w j = foreign_incident t w j" for j
    proof (cases "j = i")
      case True
      with assms u show ?thesis by (auto simp: foreign_incident_def stored_row_def split: option.split)
    next
      case False
      then have "tbl_find ac_incident_id j (w_pending ?w) = tbl_find ac_incident_id j (w_pending w)"
        using u by (simp add: tbl_find_upsert_other)
      with u show ?thesis by (intro foreign_incident_cong) (simp_all add: stored_row_def)
    qed
    then show ?thesis using u by (simp add: others_def fun_eq_iff)
  qed simp
qed

lemma start_quiet_incidents: "w_incidents (start_quiet alert_counts mark_recovered flt now len tenant i w) = w_incidents w"
  by (auto simp: start_quiet_def mark_recovered_def guard_db_def split: sum.split)

lemma process_resolved_others:
  assumes "world_ok w" "tenant_or_default (ev_tenant_id e) = t"
  shows "others t (process_resolved wi flt now len e w) = others t w"
proof -
  have loop: "others t (fold (start_quiet alert_counts mark_recovered flt now len tenant) is w1) = others t w1"
    if "\<forall>i \<in> set is. \<forall>r. stored_row w1 i = Some r \<longrightarrow> inc_tenant_id r = t" for tenant "is" w1
    using that
  proof (induction "is" arbitrary: w1)
    case (Cons i "is")
    let ?w = "start_quiet alert_counts mark_recovered flt now len tenant i w1"
    have "stored_row ?w = stored_row w1" by (simp add: stored_row_def fun_eq_iff start_quiet_incidents)
    then have "\<forall>j \<in> set is. \<forall>r. stored_row ?w j = Some r \<longrightarrow> inc_tenant_id r = t" using Cons.prems by auto
    from Cons.IH[OF this] start_quiet_others[of w1 i t flt now len tenant] Cons.prems show ?case by simp
  qed simp
  have own: "inc_tenant_id r = t" if ids: "open_incidents_with_event flt (ev_tenant_id e) (ev_id e) w = Inr ids" "i \<in> set ids"
      and r: "stored_row w i = Some r" for ids i r
  proof -
    have ok: "incidents_ok (w_incidents w)" using assms(1) by (simp add: world_ok_def)
    from ids obtain r' where r': "r' \<in> set (db_rows (w_incidents w))" "inc_id r' = i" "inc_tenant_id r' = ev_tenant_id e"
      by (auto simp: open_incidents_with_event_def)
    from tbl_find_unique[OF incidents_okD(1)[OF ok] r'(1)] r'(2) r have "r = r'" by (simp add: stored_row_def)
    moreover have "inc_tenant_id r' \<noteq> []" using ok r'(1) by (simp add: incidents_ok_def)
    ultimately show ?thesis using r'(3) assms(2) by (simp add: tenant_or_default_def split: if_splits)
  qed
  show ?thesis
  proof (cases "open_incidents_with_event flt (ev_tenant_id e) (ev_id e) w")
    case (Inr ids)
    with own[OF Inr] loop[of ids w "ev_tenant_id e"] show ?thesis by (simp add: process_resolved_def alert_resolved_def)
  qed (simp add: process_resolved_def alert_resolved_def)
qed

lemma note_for_event_pending: "w_pending (snd (note_for_event order f now tn ev a m w)) = w_pending w"
proof -
  have "w_pending (snd (fold (note_one f now tn a m) ns st)) = w_pending (snd st)" for ns st
    by (induction ns arbitrary: st) (simp_all add: note_one_def split: prod.split sum.split)
  then show ?thesis by (auto simp: note_for_event_def split: sum.split)
qed

section \<open>Requests\<close>

text \<open>What the steps of a request keep: the tables are well formed, nothing of another tenant changes, and no ID drawn is
  that of another tenant's incident.\<close>

definition stays :: "string \<Rightarrow> (nat \<Rightarrow> time) \<Rightarrow> world \<Rightarrow> world \<Rightarrow> bool" where
  "stays t clock w w' \<longleftrightarrow> (world_ok w \<and> (\<forall>i. drawn_own t (clock i) w) \<longrightarrow> world_ok w' \<and> others t w' = others t w)"

lemma stays_refl [simp]: "stays t clock w w"
  by (simp add: stays_def)

lemma stays_trans: "stays t clock w w1 \<Longrightarrow> stays t clock w1 w2 \<Longrightarrow> stays t clock w w2"
  using others_drawn unfolding stays_def by metis

lemma stays_save:
  "save_event flt e (w_events w) = Inr db \<Longrightarrow> tenant_or_default (ev_tenant_id e) = t \<Longrightarrow> stays t clock w (w\<lparr>w_events := db\<rparr>)"
  using with_events_others by (auto simp: stays_def world_ok_def intro: save_event_ok)

lemma stays_alert:
  "tenant_or_default (ev_tenant_id e) = t \<Longrightarrow> stays t clock w (snd (process_event wi kb flt (clock i) e w))"
  using process_event_others process_event_ok[OF _ prod.collapse[symmetric]] by (simp add: stays_def)

lemma stays_recovery:
  "tenant_or_default (ev_tenant_id e) = t \<Longrightarrow> stays t clock w (process_resolved wi flt now len e w)"
  using process_resolved_others alert_resolved_world[of flt now len e w]
  by (simp add: stays_def process_resolved_def)

lemma stays_take:
  assumes "tenant_or_default (ev_tenant_id e) = t"
  shows "stays t clock (snd st) (snd (take_event env flt (clock i) e st))"
  using assms by (auto simp: take_event_def route_event_def intro: stays_save stays_trans stays_recovery stays_alert split: sum.split)

lemma stays_grafana:
  assumes "tenant_or_default tenant = t"
  shows "stays t clock (snd st) (snd (grafana_step env flt clock tenant src i a st))"
proof -
  have g: "ev_tenant_id (grafana_to_event a tenant src n k) = tenant" for n k
    by (simp add: grafana_to_event_def grafana_test_event_def Let_def split: prod.split)
  let ?e = "grafana_to_event a tenant src (clock 0) i"
  have e: "tenant_or_default (ev_tenant_id ?e) = t" "tenant_or_default (ev_tenant_id (?e\<lparr>ev_alert_status := ''resolved''\<rparr>)) = t"
    using assms by (simp_all add: g)
  show ?thesis
    unfolding grafana_step_def Let_def
    by (auto intro: stays_take[OF e(1)] stays_trans[OF stays_save[OF _ e(1)] stays_alert[OF e(1)]]
        stays_trans[OF stays_trans[OF stays_trans[OF stays_save[OF _ e(1)] stays_alert[OF e(1)]] stays_save[OF _ e(2)]] stays_recovery[OF e(2)]]
        split: sum.split)
qed

lemma stays_each:
  assumes "\<And>i a st. stays t clock (snd st) (snd (step i a st))"
  shows "stays t clock (snd st) (snd (each_alert step i as st))"
proof (induction as arbitrary: i st)
  case (Cons a as)
  from stays_trans[OF assms[of st i a] Cons.IH[of "step i a st" "Suc i"]] show ?case by simp
qed simp

lemma stays_batch:
  assumes "\<And>i a st. stays t clock (snd st) (snd (step i a st))"
  shows "stays t clock (ig_world st) (ig_world (snd (ingest_batch flt now batch step sid st)))"
  using stays_each[of t clock step "(0, ig_world st)" 0, OF assms]
  by (auto simp: ingest_batch_def split: option.split prod.split) (metis snd_conv)+

lemma stays_zabbix:
  assumes "tenant_or_default tenant = t"
  shows "stays t clock (ig_world st) (ig_world (snd (ingest_zabbix env order flt (clock 0) body tenant sid st)))"
proof -
  have e: "tenant_or_default (ev_tenant_id e) = t" if "zabbix_to_event n tenant p = Inr (e, k)" for n p e k
    using that assms by (auto simp: zabbix_to_event_def zabbix_event_def Let_def split: if_splits prod.splits)
  have n: "ig_world (note_source f now i k st') = ig_world st'" for f now i k st' by (simp add: note_source_def)
  have nt: "stays t clock w (snd (note_for_event order f now tn ev a m w))" for f now tn ev a m w
    using note_for_event_frame[of order f now tn ev a m w] note_for_event_pending[of order f now tn ev a m w]
    by (auto simp: stays_def intro: othersI)
  show ?thesis
    by (auto simp: ingest_zabbix_def Let_def n nt split: option.split sum.split
        intro: stays_trans[OF stays_save stays_recovery] stays_trans[OF stays_save stays_alert] dest: e)
qed

lemma record_others:
  "filter (\<lambda>k. ik_tenant k \<noteq> tenant) (record_idempotency env flt now r tenant src resp db) = filter (\<lambda>k. ik_tenant k \<noteq> tenant) db"
  by (simp add: record_idempotency_def record_key_def guard_db_def Let_def)

text \<open>A request with a token of \<open>tenant\<close>, as the handlers have it in common.\<close>

definition own_only :: "string \<Rightarrow> (nat \<Rightarrow> time) \<Rightarrow> ingest_state \<Rightarrow> ingest_state \<Rightarrow> bool" where
  "own_only tenant clock st st1 \<longleftrightarrow> stays (tenant_or_default tenant) clock (ig_world st) (ig_world st1) \<and>
     filter (\<lambda>k. ik_tenant k \<noteq> tenant) (ig_keys st1) = filter (\<lambda>k. ik_tenant k \<noteq> tenant) (ig_keys st) \<and>
     list_all2 same_source (ig_sources st) (ig_sources st1)"

lemma own_only_refl [simp]: "own_only tenant clock st st"
  by (simp add: own_only_def)

lemma own_only_record [simp]:
  "own_only tenant clock st (st1\<lparr>ig_keys := record_idempotency env flt now r tenant src resp (ig_keys st1)\<rparr>) = own_only tenant clock st st1"
  by (simp add: own_only_def record_others)

lemma own_only_quiet:
  "stays (tenant_or_default tenant) clock (ig_world st) (ig_world st1) \<Longrightarrow> quiet st st1 \<Longrightarrow> own_only tenant clock st st1"
  by (simp add: own_only_def quiet_def)

lemma serve_own_only:
  assumes "\<And>body. own_only tenant clock st (snd (ingest body tenant src st))"
    and "serve_alert_webhook env flt now ep allowed ingest r st = (reply, st1)"
    and "resolve_source env flt r (ig_sources st) = Some (tenant, src)"
  shows "own_only tenant clock st st1"
proof -
  have "\<forall>body x st'. ingest body tenant src st = (x, st') \<longrightarrow> own_only tenant clock st st'"
    by (metis assms(1) snd_conv)
  then show ?thesis
    using assms(2,3)
    by (cases src) (auto simp: serve_alert_webhook_def split: option.splits prod.splits sum.splits if_splits)
qed

lemma deliver_own_only:
  assumes "deliver hook env flt clock r st = (reply, st1)" "resolve_source env flt r (ig_sources st) = Some (tenant, src)"
  shows "own_only tenant clock st st1"
proof -
  have am: "own_only tenant clock st (snd (ingest_alertmanager env flt clock body tenant sid st))" for body sid
    unfolding ingest_alertmanager_def am_step_def
    by (intro own_only_quiet stays_batch stays_take quiet_batch) (simp add: am_event_def Let_def split: prod.split)
  have gr: "own_only tenant clock st (snd (ingest_grafana env flt clock body tenant sid nm st))" for body sid nm
    unfolding ingest_grafana_def by (intro own_only_quiet stays_batch stays_grafana quiet_batch) simp
  have zb: "own_only tenant clock st (snd (ingest_zabbix env order flt (clock 0) body tenant sid st))" for order body sid
    by (intro own_only_quiet stays_zabbix quiet_zabbix) simp
  show ?thesis
  proof (cases hook)
    case PrometheusHook
    have "own_only tenant clock st (snd (case src of
            Some s \<Rightarrow> if sc_type s = ''grafana'' then ingest_grafana env flt clock body tenant (sc_id s) (sc_name s) st
                      else ingest_alertmanager env flt clock body tenant (sc_id s) st
          | None \<Rightarrow> ingest_alertmanager env flt clock body tenant [] st))" for body
      by (auto simp: am gr split: option.split)
    from serve_own_only[OF this assms(1)[unfolded PrometheusHook deliver.simps prometheus_webhook_def] assms(2)] show ?thesis .
  next
    case GrafanaHook
    from serve_own_only[OF gr assms(1)[unfolded GrafanaHook deliver.simps grafana_webhook_def] assms(2)] show ?thesis .
  next
    case (ZabbixHook order)
    have z: "own_only tenant clock st st'" if "ingest_zabbix env order flt (clock 0) body tenant sid st = (x, st')" for body sid x st'
      using zb[of order body sid] that by simp
    show ?thesis
      using assms unfolding ZabbixHook deliver.simps zabbix_webhook_def
      by (auto split: option.splits prod.splits sum.splits if_splits zabbix_error.splits dest: z)
  qed
qed

section \<open>Property\<close>

text \<open>C10: a webhook leaves the incidents and alerts of other tenants alone. Take any request of Prometheus, Grafana or Zabbix, with
  any tokens, any body and any faults, on well-formed tables, and suppose the IDs drawn for new incidents are unused. A
  request without a valid token is refused with 401, one whose token is of a source of another kind with 403, and neither
  changes anything. Otherwise every incident of another tenant keeps its row, its linked alerts and its pending close, no
  incident of another tenant appears, the stored events of other tenants and the keys of their requests stay, and every
  source keeps its tenant, type and token, whatever the payload names. The tables stay well formed.\<close>

theorem ingest_stays_in_tenant:
  assumes "world_ok (ig_world st)" and "\<And>i. stored_row (ig_world st) (incident_id_at (clock i)) = None"
    and "deliver hook env flt clock r st = (reply, st1)"
  shows "case resolve_source env flt r (ig_sources st) of
      None \<Rightarrow> st1 = st \<and> (\<exists>m. reply = Rejected 401 m)
    | Some (tenant, src) \<Rightarrow>
        if \<not> admits hook src then st1 = st \<and> (\<exists>m. reply = Rejected 403 m)
        else world_ok (ig_world st1) \<and>
          others (tenant_or_default tenant) (ig_world st1) = others (tenant_or_default tenant) (ig_world st) \<and>
          filter (\<lambda>k. ik_tenant k \<noteq> tenant) (ig_keys st1) = filter (\<lambda>k. ik_tenant k \<noteq> tenant) (ig_keys st) \<and>
          list_all2 same_source (ig_sources st) (ig_sources st1)"
proof (cases "resolve_source env flt r (ig_sources st)")
  case None
  with assms(3) show ?thesis
    by (cases hook) (auto simp: prometheus_webhook_def grafana_webhook_def zabbix_webhook_def serve_alert_webhook_def)
next
  case (Some a)
  obtain tenant src where a: "a = (tenant, src)" by fastforce
  show ?thesis
  proof (cases "admits hook src")
    case True
    have "\<forall>i. drawn_own (tenant_or_default tenant) (clock i) (ig_world st)"
      using assms(2) by (simp add: drawn_own_def foreign_incident_def)
    with deliver_own_only[OF assms(3) Some[unfolded a]] assms(1) show ?thesis
      unfolding Some a own_only_def stays_def by (simp add: True)
  next
    case False
    with assms(3) Some a show ?thesis
      by (cases hook; cases src)
         (auto simp: admits_def prometheus_webhook_def grafana_webhook_def zabbix_webhook_def serve_alert_webhook_def)
  qed
qed

definition globex_incident :: Incident where
  "globex_incident = one_incident\<lparr>inc_id := ''i9'', inc_tenant_id := ''globex''\<rparr>"

definition shared_state :: ingest_state where
  "shared_state = hook_state\<lparr>ig_world := empty_world\<lparr>w_incidents := \<lparr>db_rows = [globex_incident],
     db_links = [(''i9'', ''e9'')], db_slack = []\<rparr>\<rparr>\<rparr>"

theorem ingest_stays_in_tenant_witness:
  "let st1 = snd (deliver PrometheusHook hook_env no_faults (\<lambda>i. 5 + int i) hook_request shared_state)
   in stored_row (ig_world st1) ''i9'' = Some globex_incident \<and> event_ids_of ''i9'' (w_incidents (ig_world st1)) = [''e9'']"
proof -
  have ok: "world_ok (ig_world shared_state)"
    by (simp add: shared_state_def world_ok_def empty_world_def events_ok_def incidents_ok_def pk_def mutes_ok_def
        incident_row_def incident_zero_def one_incident_def globex_incident_def)
  have n: "stored_row (ig_world shared_state) (incident_id_at (5 + int i)) = None" for i
    by (simp add: shared_state_def stored_row_def globex_incident_def one_incident_def incident_id_at_def)
  have r: "resolve_source hook_env no_faults hook_request (ig_sources shared_state) = Some (''acme'', Some hook_source)"
    by code_simp
  obtain reply st1 where d: "deliver PrometheusHook hook_env no_faults (\<lambda>i. 5 + int i) hook_request shared_state = (reply, st1)"
    by fastforce
  have ad: "admits PrometheusHook (Some hook_source)" by (simp add: admits_def hook_source_def new_source_def)
  have "others ''acme'' (ig_world st1) = others ''acme'' (ig_world shared_state)"
    using ingest_stays_in_tenant[OF ok n d] by (simp add: r ad tenant_or_default_def)
  then have "foreign_incident ''acme'' (ig_world st1) ''i9'' = foreign_incident ''acme'' (ig_world shared_state) ''i9''"
    by (simp add: others_def)
  moreover have "foreign_incident ''acme'' (ig_world shared_state) ''i9'' = Some (globex_incident, [''e9''], None)"
    by (simp add: foreign_incident_def shared_state_def stored_row_def globex_incident_def one_incident_def event_ids_of_def empty_world_def)
  ultimately show ?thesis unfolding Let_def d snd_conv by (auto simp: foreign_incident_def split: option.splits if_splits)
qed

end
