(* ===== verification/KbSystem.thy ===== *)
theory KbSystem
  imports KnowledgeMatch
begin

text \<open>
  The entries of \<open>services/kb_system_metrics.go\<close>: processors, memory, disks, network and hosts.
  One definition per builder, in the order of the source; a long builder is in numbered pieces.
\<close>

definition cpu_entries_1 :: "KnowledgeEntry list" where
  "cpu_entries_1 =
    [\<lparr>kb_id = ''cpu-high-85'', kb_category = ''system_metric'', kb_sub_category = ''cpu'',
      kb_keywords = [''cpu'', ''high cpu'', ''cpu usage'', ''cpu used''],
      kb_anti_words = [''steal'', ''iowait'', ''nice''], kb_metric_name = ''system.cpu.used.percent'',
      kb_severity = ''high'',
      kb_root_cause = ''CPU utilization has exceeded 85%, indicating the host is under heavy compute load'',
      kb_reasoning = [''CPU usage above 85% leaves insufficient headroom for traffic spikes or background tasks'',
       ''Sustained high CPU causes increased request latency and can trigger upstream timeouts'',
       ''Common triggers include traffic surges, inefficient code paths, or runaway processes''],
      kb_impact = ''Service response times degrade; upstream callers may time out; user-facing latency increases'',
      kb_resolution_steps = [''Identify top CPU consumers: top -o %CPU -b -n 1 | head -20'',
       ''Check for recently deployed services: systemctl list-units --type=service --state=running'',
       ''Profile the hot process: perf top -p <PID> (Linux) or use async-profiler for Java'',
       ''Scale horizontally if load is legitimate: add more replicas behind the load balancer'',
       ''Check for cron jobs or batch processes that should be scheduled off-peak''],
      kb_prevention = ''Set up CPU usage alerts at 75% warning and 85% critical thresholds; implement auto-scaling policies'',
      kb_base_confidence = 75, kb_base_risk_score = 65\<rparr>,
     \<lparr>kb_id = ''cpu-critical-95'', kb_category = ''system_metric'', kb_sub_category = ''cpu'',
      kb_keywords = [''cpu 95'', ''cpu 96'', ''cpu 97'', ''cpu 98'', ''cpu 99'', ''cpu 100'', ''critical cpu''],
      kb_anti_words = [], kb_metric_name = ''system.cpu.used.percent'', kb_severity = ''critical'',
      kb_root_cause = ''CPU utilization has reached critical levels above 95%, host is nearly saturated'',
      kb_reasoning = [''At 95%+ CPU the OS scheduler cannot allocate cycles for new work'',
       ''Context switching overhead increases dramatically at saturation'',
       ''Processes start queueing, load average climbs, and cascading failures begin''],
      kb_impact = ''Services become unresponsive; health checks fail; cascading failures to dependent services'',
      kb_resolution_steps = [''Immediately identify the runaway process: ps aux --sort=-%cpu | head -10'',
       ''Kill runaway process if safe: kill -9 <PID>'',
       ''Check if a crypto miner or fork bomb is present: pstree -p | head -50'',
       ''Restart the offending service after taking a thread dump: kill -3 <PID> (Java)'',
       ''Add emergency compute capacity or redirect traffic to healthy nodes''],
      kb_prevention = ''Implement resource limits (cgroups/containers); deploy CPU-based auto-scaling with a 75% target'',
      kb_base_confidence = 85, kb_base_risk_score = 90\<rparr>,
     \<lparr>kb_id = ''cpu-spike-sudden'', kb_category = ''system_metric'', kb_sub_category = ''cpu'',
      kb_keywords = [''cpu spike'', ''sudden cpu'', ''cpu jump'', ''cpu surge''], kb_anti_words = [],
      kb_metric_name = [], kb_severity = ''high'',
      kb_root_cause = ''Sudden CPU spike detected, likely caused by a new deployment, batch job, or runaway process'',
      kb_reasoning = [''A sudden jump in CPU (more than 30% increase within minutes) indicates a new workload arrived'',
       ''Common causes: bad deployment with infinite loop, crypto miner, fork bomb, or burst of traffic'',
       ''Correlate the spike timing with recent deploys or cron job schedules''],
      kb_impact = ''Latency spikes for all services on the host; potential cascading timeouts'',
      kb_resolution_steps = [(''Correlate spike time with deploys: git log --since='' @ [CHR 0x27] @ ''1 hour ago'' @ [CHR 0x27] @ '' --oneline''),
       ''Find the new process consuming CPU: ps aux --sort=-%cpu | head -5'',
       ''Check for fork bomb: ps aux | wc -l (abnormally high count = fork bomb)'',
       ''Roll back recent deployment if it aligns with spike onset'',
       ''Apply CPU cgroup limits to contain the process: systemctl set-property <service> CPUQuota=50%''],
      kb_prevention = ''Use canary deployments; set CPU resource limits in container specs; monitor process count'',
      kb_base_confidence = 70, kb_base_risk_score = 70\<rparr>,
     \<lparr>kb_id = ''cpu-single-core-100'', kb_category = ''system_metric'', kb_sub_category = ''cpu'',
      kb_keywords = [''single core'', ''one core'', ''single thread'', ''single cpu 100''], kb_anti_words = [],
      kb_metric_name = [], kb_severity = ''medium'',
      kb_root_cause = ''One CPU core pinned at 100% while others are idle, indicating a single-threaded bottleneck'',
      kb_reasoning = [''A single core at 100% with others idle indicates the workload cannot parallelize'',
       ''Common in single-threaded runtimes (Node.js event loop, Python GIL, Ruby MRI)'',
       ''The overall CPU average may look normal but the service is fully saturated on its thread''],
      kb_impact = ''The single-threaded service hits throughput ceiling; requests queue behind the bottleneck'',
      kb_resolution_steps = [''Identify the pinned process: mpstat -P ALL 1 5 (find core at 100%)'',
       ''Check if Node.js: consider using cluster module or worker_threads'',
       ''For Python: use multiprocessing instead of threading; consider gunicorn workers'',
       ''Profile the hot code path: perf record -p <PID> -g -- sleep 10 && perf report'',
       ''Scale out to multiple process instances behind a load balancer''],
      kb_prevention = ''Use multi-process architectures for CPU-bound workloads; monitor per-core utilization'',
      kb_base_confidence = 70, kb_base_risk_score = 55\<rparr>,
     \<lparr>kb_id = ''cpu-steal-high'', kb_category = ''system_metric'', kb_sub_category = ''cpu'',
      kb_keywords = [''cpu steal'', ''steal time'', ''noisy neighbor'', ''steal percent''], kb_anti_words = [],
      kb_metric_name = [], kb_severity = ''high'',
      kb_root_cause = ''High CPU steal time indicates the hypervisor is taking cycles away from this VM (noisy neighbor)'',
      kb_reasoning = [''CPU steal > 10% means the physical host is overcommitted and your VM is being throttled'',
       (''This is outside your control '' @ [CHR 0xE2, CHR 0x80, CHR 0x94] @ '' the hypervisor prioritizes other VMs on the same host''),
       ''Performance degradation is real but no amount of application tuning will fix it''],
      kb_impact = ''Unpredictable latency spikes; CPU-bound operations take longer; SLA violations'',
      kb_resolution_steps = [(''Confirm steal time: vmstat 1 5 (check '' @ [CHR 0x27] @ ''st'' @ [CHR 0x27] @ '' column)''),
       ''Contact cloud provider to migrate VM to a less loaded host'',
       ''For AWS: stop and start the instance (NOT reboot) to move to new hardware'',
       ''Consider dedicated/reserved instances to avoid noisy neighbor issues'',
       ''Monitor steal time trend: sar -u 1 10''],
      kb_prevention = ''Use dedicated instances for production workloads; monitor steal time with alerts at 5%'',
      kb_base_confidence = 80, kb_base_risk_score = 60\<rparr>,
     \<lparr>kb_id = ''cpu-iowait-high'', kb_category = ''system_metric'', kb_sub_category = ''cpu'',
      kb_keywords = [''iowait'', ''io wait'', ''cpu io'', ''waiting for io''], kb_anti_words = [], kb_metric_name = [],
      kb_severity = ''high'',
      kb_root_cause = ''High CPU iowait indicates processes are blocked waiting for disk I/O to complete'',
      kb_reasoning = [''iowait > 30% means CPUs are idle but processes cannot proceed because disk is slow'',
       ''Common causes: slow disk, RAID rebuild, heavy logging, database checkpoint, or swap thrashing'',
       ''This manifests as high load average but low CPU user/system time''],
      kb_impact = ''All I/O-dependent operations slow down; database queries lag; log writes block'',
      kb_resolution_steps = [''Identify I/O-heavy processes: iotop -o (or pidstat -d 1 5)'',
       ''Check disk throughput and latency: iostat -x 1 5 (look for high await, low throughput)'',
       ''Check if swap is being used heavily: swapon --show && free -h'',
       ''Reduce logging verbosity if logs are the culprit: check /var/log sizes'',
       ''Move database or logs to faster storage (SSD/NVMe)''],
      kb_prevention = ''Use SSDs for write-heavy workloads; separate log volume from data volume; disable swap for databases'',
      kb_base_confidence = 75, kb_base_risk_score = 65\<rparr>,
     \<lparr>kb_id = ''cpu-system-high'', kb_category = ''system_metric'', kb_sub_category = ''cpu'',
      kb_keywords = [''cpu system'', ''system time'', ''kernel cpu'', ''syscall overhead''], kb_anti_words = [],
      kb_metric_name = [], kb_severity = ''medium'',
      kb_root_cause = ''High system CPU time indicates excessive kernel overhead from system calls or context switching'',
      kb_reasoning = [''System CPU > 50% means the kernel is doing more work than user applications'',
       ''Common causes: excessive logging, network packet processing, many small I/O operations'',
       ''Too many context switches from high thread/process counts amplify kernel overhead''],
      kb_impact = ''Reduced application throughput; higher latency; wasted compute resources'',
      kb_resolution_steps = [(''Check context switch rate: vmstat 1 5 (look at '' @ [CHR 0x27] @ ''cs'' @ [CHR 0x27] @ '' column)''),
       ''Profile system calls: strace -c -p <PID> (find which syscalls dominate)'',
       ''Reduce number of threads/processes if context switching is high'',
       ''Batch small I/O operations; use buffered writes instead of sync writes'',
       ''Check for network interrupt storms: cat /proc/interrupts | head -20''],
      kb_prevention = ''Use async I/O; batch small operations; tune thread pool sizes to match core count'',
      kb_base_confidence = 65, kb_base_risk_score = 50\<rparr>,
     \<lparr>kb_id = ''cpu-nice-high'', kb_category = ''system_metric'', kb_sub_category = ''cpu'',
      kb_keywords = [''cpu nice'', ''nice priority'', ''low priority cpu''], kb_anti_words = [], kb_metric_name = [],
      kb_severity = ''low'',
      kb_root_cause = ''Low-priority (nice) processes are consuming significant CPU, starving normal-priority work'',
      kb_reasoning = [''High nice CPU usage means background tasks (backups, batch jobs) are using available cycles'',
       ''While nice processes yield to normal priority, at high levels they still consume resources'',
       ''This is usually benign but can indicate runaway background jobs''],
      kb_impact = ''Background tasks compete with production workloads during load spikes'',
      kb_resolution_steps = [''Identify nice processes: ps -eo pid,ni,%cpu,comm --sort=-%cpu | head -20'',
       ''Reschedule background jobs to off-peak hours'', ''Lower the priority further: renice +19 -p <PID>'',
       ''Set CPU quotas for background services via cgroups''],
      kb_prevention = ''Schedule batch jobs during maintenance windows; use cgroup CPU quotas for background work'',
      kb_base_confidence = 60, kb_base_risk_score = 30\<rparr>,
     \<lparr>kb_id = ''load-avg-high'', kb_category = ''system_metric'', kb_sub_category = ''cpu'',
      kb_keywords = [''load average'', ''high load'', ''system load'', ''load critical''], kb_anti_words = [],
      kb_metric_name = ''system.load.1'', kb_severity = ''high'',
      kb_root_cause = ''System load average exceeds 2x the CPU core count, indicating severe resource contention'',
      kb_reasoning = [''Load average counts processes in the run queue plus those waiting for I/O'',
       ''When load exceeds 2x cores, processes spend more time waiting than executing'',
       ''High load with low CPU may indicate I/O bottleneck; high load with high CPU indicates compute saturation''],
      kb_impact = ''All processes on the host experience scheduling delays; SSH becomes slow; monitoring may lag'',
      kb_resolution_steps = [''Check load vs CPU count: nproc && uptime'', ''If CPU-bound: top -o %CPU -b -n 1 | head -10 to find culprit'',
       ''If I/O-bound: iotop -o to find disk-heavy processes'',
       ''Check for process storms: ps aux | wc -l (normal is < 300)'',
       ''Shed non-essential workload or scale horizontally''],
      kb_prevention = ''Set load average alerts relative to core count (warn at 1.5x, critical at 2x cores)'',
      kb_base_confidence = 75, kb_base_risk_score = 70\<rparr>]"

definition cpu_entries_2 :: "KnowledgeEntry list" where
  "cpu_entries_2 =
    [\<lparr>kb_id = ''load-avg-critical'', kb_category = ''system_metric'', kb_sub_category = ''cpu'',
      kb_keywords = [''load average'', ''load 4x'', ''extreme load'', ''overloaded''], kb_anti_words = [],
      kb_metric_name = ''system.load.1'', kb_severity = ''critical'',
      kb_root_cause = ''System load average exceeds 4x the CPU core count, the host is critically overloaded'',
      kb_reasoning = [''At 4x core count load, the OS run queue is severely backed up'',
       ''New processes may fail to start; SSH connections may time out'',
       ''This level typically indicates a fork bomb, runaway job, or complete resource exhaustion''],
      kb_impact = ''Host is effectively unusable; services are unresponsive; monitoring agents may fail to report'',
      kb_resolution_steps = [''If SSH works: immediately check for fork bomb: ps aux | wc -l'',
       ''Kill all processes from the offending user: pkill -u <username>'',
       ''If SSH fails: use out-of-band management (IPMI/iLO/cloud console) to restart'',
       ''After recovery: check /var/log/syslog for OOM killer or kernel messages'',
       ''Implement process limits: /etc/security/limits.conf set nproc limits''],
      kb_prevention = ''Set nproc limits per user; use cgroups to limit process spawning; alert on load > 3x cores'',
      kb_base_confidence = 85, kb_base_risk_score = 90\<rparr>,
     \<lparr>kb_id = ''cpu-throttled'', kb_category = ''system_metric'', kb_sub_category = ''cpu'',
      kb_keywords = [''cpu throttled'', ''throttling'', ''cpu limit'', ''cgroup throttle'', ''nr_throttled''],
      kb_anti_words = [], kb_metric_name = [], kb_severity = ''medium'',
      kb_root_cause = ''Container or process is being CPU-throttled by cgroup resource limits'',
      kb_reasoning = [''Throttling occurs when the process exceeds its allocated CPU quota within the cgroup period'',
       ''The process is forced to wait even though physical CPU is available'',
       ''This causes tail latency spikes at periodic intervals matching the cgroup period (usually 100ms)''],
      kb_impact = ''Periodic latency spikes; P99 latency much higher than P50; intermittent timeouts'',
      kb_resolution_steps = [''Check throttling stats: cat /sys/fs/cgroup/cpu/*/cpu.stat | grep throttled'',
       ''Increase CPU limit in container spec or cgroup configuration'',
       ''For Kubernetes: increase resources.limits.cpu in the pod spec'',
       ''Profile to reduce CPU usage: optimize hot code paths'',
       ''Consider using burstable CPU classes if supported by your orchestrator''],
      kb_prevention = ''Set CPU limits 20% above average usage; monitor nr_throttled counter; use CPU requests = limits for latency-sensitive services'',
      kb_base_confidence = 70, kb_base_risk_score = 55\<rparr>]"

definition cpu_entries :: "KnowledgeEntry list" where
  "cpu_entries = cpu_entries_1 @ cpu_entries_2"

definition memory_entries_1 :: "KnowledgeEntry list" where
  "memory_entries_1 =
    [\<lparr>kb_id = ''mem-high-90'', kb_category = ''system_metric'', kb_sub_category = ''memory'',
      kb_keywords = [''memory'', ''high memory'', ''memory usage'', ''memory used''],
      kb_anti_words = [''swap'', ''oom'', ''killed''], kb_metric_name = ''system.memory.used.percent'',
      kb_severity = ''high'',
      kb_root_cause = ''Memory utilization has exceeded 90%, leaving little headroom for allocation spikes'',
      kb_reasoning = [''At 90%+ memory, the kernel starts reclaiming page cache aggressively'',
       ''Any new allocation spike (deploy, traffic burst) can push the system into OOM'',
       ''Application performance degrades as the kernel spends time in memory reclamation''],
      kb_impact = ''Risk of OOM kills; degraded I/O performance from reduced page cache; potential service restarts'',
      kb_resolution_steps = [''Check memory breakdown: free -h (look at available, not free)'',
       ''Find memory-hungry processes: ps aux --sort=-%mem | head -10'',
       ''Check for memory leaks: monitor RSS growth over time for top processes'',
       ''Clear page cache if temporary relief needed: sync && echo 3 > /proc/sys/vm/drop_caches'',
       ''Add memory or migrate workloads to reduce pressure''],
      kb_prevention = ''Set memory alerts at 80% warning; right-size container memory limits; implement memory leak detection'',
      kb_base_confidence = 75, kb_base_risk_score = 70\<rparr>,
     \<lparr>kb_id = ''mem-critical-95'', kb_category = ''system_metric'', kb_sub_category = ''memory'',
      kb_keywords = [''memory 95'', ''memory 96'', ''memory 97'', ''memory 98'', ''memory 99'', ''critical memory''],
      kb_anti_words = [], kb_metric_name = ''system.memory.used.percent'', kb_severity = ''critical'',
      kb_root_cause = ''Memory utilization is critically high above 95%, OOM kill is imminent'',
      kb_reasoning = [''At 95%+ the OOM killer is likely to activate on the next allocation'',
       ''The kernel has exhausted all page cache and buffer reclamation options'',
       ''Any new process or memory allocation will fail or trigger OOM kill''],
      kb_impact = ''Imminent process kills by OOM killer; critical services may be terminated unexpectedly'',
      kb_resolution_steps = [''Identify and restart the leaking process: smem -t -k -s rss | tail -10'',
       ''Restart the largest non-critical process to free memory immediately'',
       ''Check for runaway cache: slabtop to see kernel slab allocations'',
       ''If container: increase memory limit and restart pod'',
       ''Emergency: add swap temporarily: fallocate -l 2G /swapfile && mkswap /swapfile && swapon /swapfile''],
      kb_prevention = ''Implement memory limits per service; use memory-based auto-scaling; run leak detection in CI'',
      kb_base_confidence = 85, kb_base_risk_score = 90\<rparr>,
     \<lparr>kb_id = ''oom-killed'', kb_category = ''system_metric'', kb_sub_category = ''memory'',
      kb_keywords = [''oom'', ''out of memory'', ''oom killer'', ''killed process'', ''oom-kill'', ''oomkilled''],
      kb_anti_words = [], kb_metric_name = [], kb_severity = ''critical'',
      kb_root_cause = ''The Linux OOM killer terminated a process because the system ran out of available memory'',
      kb_reasoning = [''The kernel OOM killer selects processes with the highest oom_score to free memory'',
       (''The killed process may not be the one causing the leak '' @ [CHR 0xE2, CHR 0x80, CHR 0x94] @ '' it is the one easiest to kill''),
       ''After OOM kill, remaining processes may be in inconsistent state''],
      kb_impact = ''Service outage for the killed process; data loss if writes were in-flight; cascading failures'',
      kb_resolution_steps = [(''Check which process was killed: dmesg | grep -i '' @ [CHR 0x27] @ ''oom'' @ [CHR 0x5C] @ ''|killed process'' @ [CHR 0x27]),
       ''Check OOM scores: cat /proc/*/oom_score_adj for critical services set to -1000'',
       ''Find the actual memory hog: journalctl -k | grep -i oom'',
       ''Increase memory for the service or fix the memory leak'',
       ''Protect critical processes: echo -1000 > /proc/<PID>/oom_score_adj''],
      kb_prevention = ''Set oom_score_adj=-1000 for critical services; implement memory limits; monitor RSS growth trends'',
      kb_base_confidence = 90, kb_base_risk_score = 90\<rparr>,
     \<lparr>kb_id = ''swap-usage-50'', kb_category = ''system_metric'', kb_sub_category = ''memory'',
      kb_keywords = [''swap usage'', ''swap used'', ''swapping'', ''swap space''],
      kb_anti_words = [''swap 80'', ''swap 90'', ''thrashing''], kb_metric_name = [], kb_severity = ''medium'',
      kb_root_cause = ''System is using swap space, indicating physical memory is insufficient for the current workload'',
      kb_reasoning = [''Swap usage means pages are being moved to disk, which is 100-1000x slower than RAM'',
       ''Database and latency-sensitive services suffer severely from swap'',
       (''Swap can mask a memory leak '' @ [CHR 0xE2, CHR 0x80, CHR 0x94] @ '' the process grows without being OOM-killed'')],
      kb_impact = ''Performance degradation for all swapped processes; increased I/O load; unpredictable latency'',
      kb_resolution_steps = [''Check swap details: swapon --show && free -h'',
       (''Find swapped processes: for pid in /proc/[0-9]*; do echo '' @ [CHR 0x22] @ ''$(cat $pid/status 2>/dev/null | grep VmSwap) PID=$(basename $pid)'' @ [CHR 0x22] @ ''; done | sort -k2 -rn | head -10''),
       ''Set swappiness to minimum for servers: sysctl vm.swappiness=1'', ''Add physical memory or reduce workload'',
       ''For databases: disable swap entirely: swapoff -a''],
      kb_prevention = ''Set vm.swappiness=1 for servers; never run databases with swap enabled; alert on swap > 10%'',
      kb_base_confidence = 70, kb_base_risk_score = 55\<rparr>,
     \<lparr>kb_id = ''swap-thrashing'', kb_category = ''system_metric'', kb_sub_category = ''memory'',
      kb_keywords = [''swap thrashing'', ''swap 80'', ''swap 90'', ''heavy swap'', ''swap critical''],
      kb_anti_words = [], kb_metric_name = [], kb_severity = ''critical'',
      kb_root_cause = (''System is swap thrashing '' @ [CHR 0xE2, CHR 0x80, CHR 0x94] @ '' continuously moving pages between RAM and disk''),
      kb_reasoning = [''Swap thrashing creates a feedback loop: pages swapped out are immediately needed again'',
       ''CPU spends most time on page fault handling instead of useful work'',
       ''The system becomes effectively unusable even though it has not OOM-killed anything''],
      kb_impact = ''System nearly unresponsive; all services experience extreme latency; SSH may time out'',
      kb_resolution_steps = [''Check swap I/O rate: vmstat 1 5 (look at si/so columns for high values)'',
       ''Kill the largest memory consumer to break the thrashing cycle'',
       ''Disable swap: swapoff -a (warning: may trigger OOM killer)'',
       ''Add memory urgently or migrate workloads off this host'',
       ''As last resort, reboot the host and increase memory before restarting services''],
      kb_prevention = ''Size memory at 120% of working set; disable swap for production servers; use memory-based OOM protection'',
      kb_base_confidence = 80, kb_base_risk_score = 85\<rparr>,
     \<lparr>kb_id = ''memory-leak'', kb_category = ''system_metric'', kb_sub_category = ''memory'',
      kb_keywords = [''memory leak'', ''rss growing'', ''memory growing'', ''heap growing''], kb_anti_words = [],
      kb_metric_name = [], kb_severity = ''high'',
      kb_root_cause = (''A memory leak is detected '' @ [CHR 0xE2, CHR 0x80, CHR 0x94] @ '' process RSS is growing steadily over time without release''),
      kb_reasoning = [''Monotonically increasing RSS that never decreases indicates leaked allocations'',
       ''The process will eventually consume all available memory and be OOM-killed'',
       ''Memory leaks are typically caused by unclosed connections, growing caches, or reference cycles''],
      kb_impact = ''Gradual performance degradation leading to eventual OOM kill and service outage'',
      kb_resolution_steps = [''Track RSS over time: pidstat -r -p <PID> 60 (every minute)'',
       ''For Java: take heap dump: jmap -dump:live,format=b,file=heap.hprof <PID>'',
       ''For Python: use tracemalloc to identify allocation sites'',
       ''For Node.js: take heap snapshot via Chrome DevTools protocol'',
       ''Restart the process as temporary mitigation while investigating the leak''],
      kb_prevention = ''Run memory profiling in CI; implement periodic heap dump analysis; set RSS growth rate alerts'',
      kb_base_confidence = 75, kb_base_risk_score = 70\<rparr>,
     \<lparr>kb_id = ''buffer-cache-pressure'', kb_category = ''system_metric'', kb_sub_category = ''memory'',
      kb_keywords = [''buffer cache'', ''page cache'', ''cache pressure'', ''reclaiming cache''], kb_anti_words = [],
      kb_metric_name = [], kb_severity = ''medium'',
      kb_root_cause = ''System page cache is being aggressively reclaimed, degrading I/O read performance'',
      kb_reasoning = [(''When memory is tight, the kernel reclaims page cache first '' @ [CHR 0xE2, CHR 0x80, CHR 0x94] @ '' this is by design''),
       ''However, aggressive reclamation means repeated file reads go to disk instead of cache'',
       ''Applications that rely on warm file cache (databases, search) see performance regression''],
      kb_impact = ''Increased disk I/O; slower file reads; database query latency increases'',
      kb_resolution_steps = [''Check cache size: free -h (look at buff/cache column)'',
       (''Check reclaim rate: vmstat 1 5 (look at '' @ [CHR 0x27] @ ''cache'' @ [CHR 0x27] @ '' column trend)''),
       ''Identify what is consuming memory besides cache: ps aux --sort=-%mem | head -10'',
       ''Add memory to increase cache capacity'',
       ''Move the cache-dependent workload to a dedicated host with more RAM''],
      kb_prevention = ''Size memory to allow 30%+ for page cache; separate cache-sensitive workloads from memory-heavy apps'',
      kb_base_confidence = 60, kb_base_risk_score = 45\<rparr>,
     \<lparr>kb_id = ''huge-pages-exhausted'', kb_category = ''system_metric'', kb_sub_category = ''memory'',
      kb_keywords = [''huge pages'', ''hugepages'', ''transparent huge'', ''thp'', ''hugetlb''], kb_anti_words = [],
      kb_metric_name = [], kb_severity = ''medium'',
      kb_root_cause = ''Huge page allocation pool is exhausted, causing fallback to standard 4KB pages'',
      kb_reasoning = [''Applications configured for huge pages (databases, JVMs) lose TLB efficiency without them'',
       ''Fallback to 4KB pages increases TLB misses and reduces memory access performance'',
       ''This often happens after other VMs or processes consume the pre-allocated huge page pool''],
      kb_impact = ''Database and JVM performance degradation; increased CPU usage for TLB miss handling'',
      kb_resolution_steps = [''Check huge page usage: cat /proc/meminfo | grep -i huge'',
       ''Allocate more huge pages: sysctl vm.nr_hugepages=<count>'',
       ''Verify the application is configured to use huge pages'',
       ''Disable THP if causing latency issues: echo never > /sys/kernel/mm/transparent_hugepage/enabled''],
      kb_prevention = ''Pre-allocate huge pages at boot time in /etc/sysctl.conf; monitor huge page free count'',
      kb_base_confidence = 60, kb_base_risk_score = 40\<rparr>,
     \<lparr>kb_id = ''shared-memory-full'', kb_category = ''system_metric'', kb_sub_category = ''memory'',
      kb_keywords = [''shared memory'', ''shm full'', ''shmget'', ''out of shared memory''], kb_anti_words = [],
      kb_metric_name = [], kb_severity = ''high'',
      kb_root_cause = ''System shared memory segment is full, preventing inter-process communication'',
      kb_reasoning = [''Shared memory limits (SHMMAX, SHMALL) are exceeded by database or application demands'',
       ''PostgreSQL, Oracle, and other databases use shared memory extensively'',
       ''New connections or operations that need shared memory will fail''],
      kb_impact = ''Database connections may fail; IPC between processes breaks; new sessions rejected'',
      kb_resolution_steps = [''Check shared memory usage: ipcs -m'', ''Check kernel limits: sysctl kernel.shmmax kernel.shmall'',
       ''Increase limits: sysctl -w kernel.shmmax=<bytes>'',
       ''For PostgreSQL: reduce shared_buffers or increase kernel.shmmax'',
       ''Clean up orphaned segments: ipcrm -m <shmid>''],
      kb_prevention = ''Set shmmax and shmall in /etc/sysctl.conf based on database requirements; monitor with ipcs'',
      kb_base_confidence = 70, kb_base_risk_score = 65\<rparr>]"

definition memory_entries_2 :: "KnowledgeEntry list" where
  "memory_entries_2 =
    [\<lparr>kb_id = ''mem-fragmentation'', kb_category = ''system_metric'', kb_sub_category = ''memory'',
      kb_keywords = [''memory fragmentation'', ''fragmentation ratio'', ''fragmented memory''], kb_anti_words = [],
      kb_metric_name = [], kb_severity = ''medium'',
      kb_root_cause = ''Memory is heavily fragmented, preventing allocation of large contiguous blocks'',
      kb_reasoning = [''High fragmentation means free memory exists but not in contiguous chunks'',
       ''Large allocations (huge pages, DMA buffers) fail even though total free memory is sufficient'',
       ''This typically builds up over time on long-running systems''],
      kb_impact = ''Large memory allocations fail; huge page allocation fails; kernel may panic in extreme cases'',
      kb_resolution_steps = [''Check fragmentation: cat /proc/buddyinfo'',
       ''Trigger memory compaction: echo 1 > /proc/sys/vm/compact_memory'',
       ''Drop caches to aid compaction: sync && echo 3 > /proc/sys/vm/drop_caches'',
       ''Schedule periodic reboots for long-running hosts if fragmentation is chronic''],
      kb_prevention = ''Use huge pages to reduce fragmentation; schedule maintenance reboots for long-running hosts'',
      kb_base_confidence = 60, kb_base_risk_score = 40\<rparr>]"

definition memory_entries :: "KnowledgeEntry list" where
  "memory_entries = memory_entries_1 @ memory_entries_2"

definition disk_entries_1 :: "KnowledgeEntry list" where
  "disk_entries_1 =
    [\<lparr>kb_id = ''disk-warning-85'', kb_category = ''system_metric'', kb_sub_category = ''disk'',
      kb_keywords = [''disk'', ''disk usage'', ''disk used'', ''filesystem''],
      kb_anti_words = [''inode'', ''iops'', ''latency'', ''read-only''], kb_metric_name = ''disk.used.percent'',
      kb_severity = ''high'', kb_root_cause = ''Disk utilization has exceeded 85%, approaching capacity'',
      kb_reasoning = [''At 85% disk, the system has limited space for logs, temp files, and data growth'',
       ''Some filesystems (ext4) reserve 5% for root by default, so usable space is even less'',
       ''Applications writing to disk may fail or slow down as free space dwindles''],
      kb_impact = ''Risk of write failures; log rotation may fail; database writes may stall'',
      kb_resolution_steps = [''Check disk usage: df -h'', ''Find large files and directories: du -sh /* 2>/dev/null | sort -hr | head -20'',
       (''Clean old logs: find /var/log -name '' @ [CHR 0x27] @ ''*.gz'' @ [CHR 0x27] @ '' -mtime +30 -delete''),
       ''Remove unused Docker images: docker system prune -a --volumes'', ''Expand the volume if on cloud storage''],
      kb_prevention = ''Set disk alerts at 75% warning; implement log rotation; use separate volumes for data and logs'',
      kb_base_confidence = 70, kb_base_risk_score = 60\<rparr>,
     \<lparr>kb_id = ''disk-critical-95'', kb_category = ''system_metric'', kb_sub_category = ''disk'',
      kb_keywords = [''disk 95'', ''disk 96'', ''disk 97'', ''disk 98'', ''disk 99'', ''disk critical''],
      kb_anti_words = [], kb_metric_name = ''disk.used.percent'', kb_severity = ''critical'',
      kb_root_cause = ''Disk utilization is critically high above 95%, writes are at risk of failing'',
      kb_reasoning = [''At 95%+ the filesystem may transition to read-only mode to prevent corruption'',
       ''Database WAL/binlog writes will fail, causing database crashes'',
       ''Application logs cannot be written, making debugging impossible''],
      kb_impact = ''Services crash due to write failures; databases stop; logging fails; system may become read-only'',
      kb_resolution_steps = [''Emergency: find and remove large dispensable files: find /tmp /var/tmp -type f -size +100M -delete'',
       ''Truncate large log files: truncate -s 0 /var/log/syslog'',
       ''Remove old journal logs: journalctl --vacuum-time=1d'', ''If Docker: docker system prune -af --volumes'',
       ''Expand volume immediately if on cloud: aws ec2 modify-volume / gcloud disks resize''],
      kb_prevention = ''Automate log rotation with size limits; use separate data volumes; implement auto-expanding volumes'',
      kb_base_confidence = 85, kb_base_risk_score = 90\<rparr>,
     \<lparr>kb_id = ''disk-full-100'', kb_category = ''system_metric'', kb_sub_category = ''disk'',
      kb_keywords = [''disk full'', ''no space left'', ''disk 100'', ''filesystem full''], kb_anti_words = [],
      kb_metric_name = [], kb_severity = ''critical'',
      kb_root_cause = (''Disk is completely full '' @ [CHR 0xE2, CHR 0x80, CHR 0x94] @ '' all write operations are failing''),
      kb_reasoning = [''With 0 bytes free, all write system calls return ENOSPC'',
       ''Databases crash because they cannot write WAL/transaction logs'',
       ''Services cannot write logs, temp files, or state, causing cascading failures''],
      kb_impact = ''Complete service outage for all processes writing to this filesystem; data corruption risk'',
      kb_resolution_steps = [''Emergency: remove dispensable files: rm -rf /tmp/* /var/tmp/*'',
       ''Truncate the largest log file: ls -lhS /var/log/ | head -5 && truncate -s 0 /var/log/<largest>'',
       (''Find and remove core dumps: find / -name '' @ [CHR 0x27] @ ''core.*'' @ [CHR 0x27] @ '' -delete 2>/dev/null''),
       ''Check for deleted-but-open files: lsof +L1 | grep deleted (restart those processes to reclaim)'',
       ''Expand filesystem: resize2fs /dev/<device> (after expanding the underlying volume)''],
      kb_prevention = ''Never allow production disks above 80%; use monitoring with auto-remediation for disk cleanup'',
      kb_base_confidence = 90, kb_base_risk_score = 95\<rparr>,
     \<lparr>kb_id = ''inode-exhaustion'', kb_category = ''system_metric'', kb_sub_category = ''disk'',
      kb_keywords = [''inode'', ''no inodes'', ''inode exhaustion'', ''no space left''], kb_anti_words = [],
      kb_metric_name = [], kb_severity = ''critical'',
      kb_root_cause = (''Filesystem inodes are exhausted '' @ [CHR 0xE2, CHR 0x80, CHR 0x94] @ '' cannot create new files even though disk space is available''),
      kb_reasoning = [''Each file and directory consumes one inode; when all inodes are used, no new files can be created'',
       ''df -h shows space available but df -i shows 100% inode usage'',
       ''Common causes: millions of small files (session files, cache files, mail queue)''],
      kb_impact = ''Cannot create new files anywhere on the filesystem; services that write temp files fail'',
      kb_resolution_steps = [''Confirm inode exhaustion: df -i'',
       (''Find directories with many files: find / -xdev -printf '' @ [CHR 0x27] @ ''%h'' @ [CHR 0x5C] @ ''n'' @ [CHR 0x27] @ '' | sort | uniq -c | sort -rn | head -20''),
       ''Delete the small files causing exhaustion: find /path/to/dir -type f -delete'',
       ''Common culprits: /tmp, /var/spool/postfix, PHP session directories'',
       ''Reformat with more inodes if chronic: mkfs.ext4 -N <inode_count> /dev/<device>''],
      kb_prevention = ''Monitor inode usage alongside disk space; clean up session/cache directories with cron'',
      kb_base_confidence = 80, kb_base_risk_score = 85\<rparr>,
     \<lparr>kb_id = ''disk-io-latency'', kb_category = ''system_metric'', kb_sub_category = ''disk'',
      kb_keywords = [''disk latency'', ''io latency'', ''disk slow'', ''high await''], kb_anti_words = [],
      kb_metric_name = [], kb_severity = ''high'',
      kb_root_cause = ''Disk I/O latency is elevated above 100ms, causing slow reads and writes'',
      kb_reasoning = [''Normal disk latency is < 10ms for SSD and < 20ms for HDD'',
       ''Latency > 100ms indicates disk saturation, failing hardware, or storage backend issues'',
       ''All I/O-dependent services (databases, logging) are affected''],
      kb_impact = ''Database queries slow down; log writes block; application response time increases proportionally'',
      kb_resolution_steps = [''Check disk I/O metrics: iostat -x 1 10 (look at await and %util columns)'',
       ''Identify I/O-heavy processes: iotop -o'',
       (''Check for disk errors: dmesg | grep -i '' @ [CHR 0x27] @ ''error'' @ [CHR 0x5C] @ ''|fail'' @ [CHR 0x5C] @ ''|reset'' @ [CHR 0x27]),
       ''If cloud: check for burst credit exhaustion (AWS gp2/gp3 burst balance)'',
       ''Move to faster storage tier: migrate to NVMe or provisioned IOPS''],
      kb_prevention = ''Use provisioned IOPS for databases; monitor disk latency; separate log I/O from data I/O'',
      kb_base_confidence = 75, kb_base_risk_score = 65\<rparr>,
     \<lparr>kb_id = ''disk-read-write-errors'', kb_category = ''system_metric'', kb_sub_category = ''disk'',
      kb_keywords = [''disk error'', ''read error'', ''write error'', ''i/o error'', ''medium error''],
      kb_anti_words = [], kb_metric_name = [], kb_severity = ''critical'',
      kb_root_cause = ''Physical disk is reporting read/write errors, indicating hardware failure'',
      kb_reasoning = [''Disk I/O errors in dmesg indicate the physical media is failing'',
       ''The filesystem may remount as read-only to protect data'',
       ''Data on the failing sectors may already be lost''],
      kb_impact = ''Data loss risk; filesystem may go read-only; services crash on write failures'',
      kb_resolution_steps = [''Check disk health: smartctl -a /dev/sda (look for Reallocated_Sector_Ct)'',
       (''Check kernel messages: dmesg | grep -i '' @ [CHR 0x27] @ ''error'' @ [CHR 0x5C] @ ''|fail'' @ [CHR 0x5C] @ ''|ata'' @ [CHR 0x5C] @ ''|scsi'' @ [CHR 0x27]),
       ''If SMART shows pending sectors: back up data immediately'', ''Replace the disk and restore from backup'',
       ''For cloud instances: stop instance, detach volume, create new volume from snapshot''],
      kb_prevention = ''Monitor SMART health weekly; use RAID for data redundancy; maintain regular backups'',
      kb_base_confidence = 85, kb_base_risk_score = 90\<rparr>,
     \<lparr>kb_id = ''filesystem-readonly'', kb_category = ''system_metric'', kb_sub_category = ''disk'',
      kb_keywords = [''read-only'', ''readonly'', ''remount read-only'', ''ro filesystem''], kb_anti_words = [],
      kb_metric_name = [], kb_severity = ''critical'',
      kb_root_cause = ''Filesystem has been remounted as read-only, typically due to disk errors or corruption'',
      kb_reasoning = [''The kernel remounts filesystems read-only when it detects I/O errors to prevent further corruption'',
       (''This is a protective mechanism '' @ [CHR 0xE2, CHR 0x80, CHR 0x94] @ '' the underlying disk or filesystem has serious issues''),
       (''All write operations fail with '' @ [CHR 0x27] @ ''Read-only file system'' @ [CHR 0x27] @ '' error'')],
      kb_impact = ''All writes fail; services crash; databases cannot operate; logs cannot be written'',
      kb_resolution_steps = [(''Check mount status: mount | grep '' @ [CHR 0x27] @ ''ro,'' @ [CHR 0x27]),
       ''Check dmesg for the cause: dmesg | tail -50'',
       ''If disk errors: replace disk (see disk-read-write-errors steps)'',
       ''If filesystem corruption: run fsck (requires unmount): umount /dev/<device> && fsck -y /dev/<device>'',
       ''Remount as read-write after fixing: mount -o remount,rw /''],
      kb_prevention = ''Monitor disk health; use journaling filesystems (ext4, xfs); maintain RAID arrays'',
      kb_base_confidence = 85, kb_base_risk_score = 90\<rparr>,
     \<lparr>kb_id = ''raid-degraded'', kb_category = ''system_metric'', kb_sub_category = ''disk'',
      kb_keywords = [''raid degraded'', ''raid rebuild'', ''disk array'', ''mdadm''], kb_anti_words = [],
      kb_metric_name = [], kb_severity = ''high'',
      kb_root_cause = (''RAID array is operating in degraded mode '' @ [CHR 0xE2, CHR 0x80, CHR 0x94] @ '' one or more disks have failed''),
      kb_reasoning = [(''A degraded RAID has lost redundancy '' @ [CHR 0xE2, CHR 0x80, CHR 0x94] @ '' another disk failure means data loss''),
       ''Rebuild operations put extra stress on remaining disks, increasing failure risk'',
       ''Performance may be reduced during rebuild as the array reconstructs parity''],
      kb_impact = (''No redundancy '' @ [CHR 0xE2, CHR 0x80, CHR 0x94] @ '' next disk failure causes data loss; degraded I/O performance during rebuild''),
      kb_resolution_steps = [''Check RAID status: cat /proc/mdstat (software RAID) or vendor-specific tool'',
       ''Identify failed disk: mdadm --detail /dev/md0'',
       ''Replace failed disk and add to array: mdadm --add /dev/md0 /dev/<new_disk>'',
       ''Monitor rebuild progress: watch cat /proc/mdstat'',
       ''Do NOT reboot during rebuild unless absolutely necessary''],
      kb_prevention = ''Monitor RAID health daily; keep hot spares; replace disks proactively when SMART warns'',
      kb_base_confidence = 80, kb_base_risk_score = 80\<rparr>,
     \<lparr>kb_id = ''lvm-snapshot-full'', kb_category = ''system_metric'', kb_sub_category = ''disk'',
      kb_keywords = [''lvm snapshot'', ''snapshot full'', ''snapshot overflow'', ''snapshot invalid''],
      kb_anti_words = [], kb_metric_name = [], kb_severity = ''high'',
      kb_root_cause = ''LVM snapshot has run out of space and been invalidated'',
      kb_reasoning = [''LVM snapshots store only the changed blocks (COW); if the snapshot volume fills up, it is dropped'',
       ''An invalid snapshot means the backup taken from it is incomplete'',
       ''The origin volume continues to work but the snapshot is lost''],
      kb_impact = ''Backup from this snapshot is invalid; must retake backup from scratch'',
      kb_resolution_steps = [''Check snapshot status: lvs -o lv_name,lv_size,snap_percent'',
       ''Remove invalid snapshot: lvremove /dev/<vg>/<snapshot>'',
       ''Create new snapshot with more space: lvcreate -L 10G -s -n snap /dev/<vg>/<origin>'',
       ''Monitor snapshot fill rate: watch lvs -o snap_percent''],
      kb_prevention = ''Size snapshots to handle expected change rate; monitor snap_percent; keep snapshots short-lived'',
      kb_base_confidence = 65, kb_base_risk_score = 55\<rparr>]"

definition disk_entries_2 :: "KnowledgeEntry list" where
  "disk_entries_2 =
    [\<lparr>kb_id = ''filesystem-corruption'', kb_category = ''system_metric'', kb_sub_category = ''disk'',
      kb_keywords = [''filesystem corruption'', ''fsck needed'', ''superblock'', ''corrupt filesystem''],
      kb_anti_words = [], kb_metric_name = [], kb_severity = ''critical'',
      kb_root_cause = ''Filesystem metadata is corrupted, requiring repair before safe operation'',
      kb_reasoning = [''Corruption occurs from power loss, disk errors, or kernel bugs during writes'',
       ''Files may be missing, directories may show wrong sizes, or data may be silently wrong'',
       ''Continuing to use a corrupted filesystem risks spreading the damage''],
      kb_impact = ''Data integrity compromised; reads may return wrong data; writes may fail or corrupt further'',
      kb_resolution_steps = [(''Check filesystem: dmesg | grep -i '' @ [CHR 0x27] @ ''ext4'' @ [CHR 0x5C] @ ''|xfs'' @ [CHR 0x5C] @ ''|corrupt'' @ [CHR 0x27]),
       ''Unmount the filesystem: umount /mount/point'', ''Run filesystem check: fsck -y /dev/<device>'',
       ''For XFS: xfs_repair /dev/<device>'', ''Restore from backup if fsck reports unrecoverable errors''],
      kb_prevention = ''Use UPS/battery backup; enable filesystem journaling; schedule periodic fsck on reboot'',
      kb_base_confidence = 80, kb_base_risk_score = 90\<rparr>]"

definition disk_entries :: "KnowledgeEntry list" where
  "disk_entries = disk_entries_1 @ disk_entries_2"

definition network_entries_1 :: "KnowledgeEntry list" where
  "network_entries_1 =
    [\<lparr>kb_id = ''network-errors'', kb_category = ''system_metric'', kb_sub_category = ''network'',
      kb_keywords = [''network error'', ''interface error'', ''rx_errors'', ''tx_errors''], kb_anti_words = [],
      kb_metric_name = [], kb_severity = ''high'',
      kb_root_cause = ''Network interface is reporting errors, indicating physical or driver issues'',
      kb_reasoning = [''Network errors on the interface level indicate cable, NIC, or driver problems'',
       ''Even a small error rate causes TCP retransmissions and application-level timeouts'',
       ''Errors tend to worsen over time as the underlying hardware degrades''],
      kb_impact = ''Packet loss causes retransmissions; TCP connections stall; application latency spikes'',
      kb_resolution_steps = [''Check interface errors: ip -s link show'',
       ''Check for cable issues: ethtool <interface> (check link detected, speed)'',
       (''Check driver errors: dmesg | grep -i '' @ [CHR 0x27] @ ''eth'' @ [CHR 0x5C] @ ''|enic'' @ [CHR 0x5C] @ ''|ixgbe'' @ [CHR 0x27]),
       ''Replace network cable if physical'', ''Update NIC driver: modinfo <driver_name> to check version''],
      kb_prevention = ''Monitor interface error counters; use bonded interfaces for redundancy; keep NIC drivers updated'',
      kb_base_confidence = 70, kb_base_risk_score = 65\<rparr>,
     \<lparr>kb_id = ''packet-drops'', kb_category = ''system_metric'', kb_sub_category = ''network'',
      kb_keywords = [''packet drop'', ''dropped packet'', ''rx_dropped'', ''tx_dropped''], kb_anti_words = [],
      kb_metric_name = [], kb_severity = ''high'',
      kb_root_cause = ''Network packets are being dropped at the host level'',
      kb_reasoning = [''Drops occur when the kernel receive buffer overflows or the NIC ring buffer is full'',
       ''High interrupt rates without enough CPU capacity cause drops'',
       ''Each dropped packet triggers a TCP retransmission, amplifying latency''],
      kb_impact = ''Increased latency from retransmissions; potential connection resets; degraded throughput'',
      kb_resolution_steps = [''Check drop counters: netstat -s | grep -i drop'', ''Increase ring buffer: ethtool -G <interface> rx 4096'',
       ''Increase kernel receive buffer: sysctl -w net.core.rmem_max=16777216'',
       ''Check for NIC interrupt affinity: cat /proc/interrupts | grep <interface>'',
       ''Enable receive packet steering (RPS) for multi-core: echo <mask> > /sys/class/net/<iface>/queues/rx-0/rps_cpus''],
      kb_prevention = ''Tune ring buffer and kernel socket buffers; use NAPI/interrupt coalescing; monitor drop rates'',
      kb_base_confidence = 70, kb_base_risk_score = 65\<rparr>,
     \<lparr>kb_id = ''interface-down'', kb_category = ''system_metric'', kb_sub_category = ''network'',
      kb_keywords = [''interface down'', ''link down'', ''nic down'', ''carrier lost''], kb_anti_words = [],
      kb_metric_name = [], kb_severity = ''critical'',
      kb_root_cause = (''Network interface is down '' @ [CHR 0xE2, CHR 0x80, CHR 0x94] @ '' all network connectivity through this interface is lost''),
      kb_reasoning = [''Interface down means complete network isolation via this path'',
       ''Could be cable disconnection, switch port issue, or NIC failure'',
       ''If this is the only interface, the host is completely unreachable''],
      kb_impact = ''Complete network outage via this interface; services unreachable; monitoring blind spot'',
      kb_resolution_steps = [''Check interface status: ip link show'', ''Bring interface up: ip link set <interface> up'',
       ''Check physical cable connection'', ''Check switch port status (contact network team)'',
       ''If bonded interface: verify secondary is active: cat /proc/net/bonding/bond0''],
      kb_prevention = ''Use bonded/teamed interfaces for redundancy; monitor link state; use out-of-band management (IPMI)'',
      kb_base_confidence = 85, kb_base_risk_score = 90\<rparr>,
     \<lparr>kb_id = ''bandwidth-saturation'', kb_category = ''system_metric'', kb_sub_category = ''network'',
      kb_keywords = [''bandwidth'', ''saturated'', ''throughput limit'', ''network capacity''], kb_anti_words = [],
      kb_metric_name = [], kb_severity = ''high'',
      kb_root_cause = ''Network bandwidth is saturated, causing congestion and increased latency'',
      kb_reasoning = [''When link capacity is reached, packets queue and latency increases dramatically'',
       ''TCP flows compete and each gets progressively less bandwidth (congestion collapse)'',
       ''Burst traffic from batch jobs or large transfers can saturate links quickly''],
      kb_impact = ''All network traffic on the link experiences increased latency; packet loss increases'',
      kb_resolution_steps = [''Check bandwidth usage: iftop -i <interface> or nload'',
       ''Identify top bandwidth consumers: nethogs <interface>'',
       ''Rate-limit non-critical traffic: tc qdisc add dev <iface> root tbf rate 500mbit burst 32kbit'',
       ''Move bulk transfers to off-peak hours'', ''Upgrade link capacity or add additional network paths''],
      kb_prevention = ''Monitor bandwidth utilization; implement QoS for critical traffic; schedule bulk transfers off-peak'',
      kb_base_confidence = 70, kb_base_risk_score = 60\<rparr>,
     \<lparr>kb_id = ''tcp-retransmissions'', kb_category = ''system_metric'', kb_sub_category = ''network'',
      kb_keywords = [''retransmission'', ''tcp retrans'', ''packet retransmit''], kb_anti_words = [],
      kb_metric_name = [], kb_severity = ''high'',
      kb_root_cause = ''High TCP retransmission rate indicates network path issues between hosts'',
      kb_reasoning = [''Retransmissions occur when TCP ACKs are not received within the timeout window'',
       ''Each retransmission adds at least one RTT of latency to the affected flow'',
       ''Common causes: congested links, faulty cables, or overloaded intermediate switches''],
      kb_impact = ''Increased tail latency; reduced throughput; TCP connections may reset after max retries'',
      kb_resolution_steps = [''Check retransmission stats: ss -ti | grep retrans'',
       ''Monitor retransmit rate: netstat -s | grep retransmit'',
       ''Trace the network path: mtr <destination> (identifies lossy hops)'',
       ''Check for duplex mismatch: ethtool <interface>'',
       ''Adjust TCP congestion control: sysctl net.ipv4.tcp_congestion_control=bbr''],
      kb_prevention = ''Monitor retransmission rate; use TCP BBR congestion control; maintain network hardware'',
      kb_base_confidence = 70, kb_base_risk_score = 60\<rparr>,
     \<lparr>kb_id = ''dns-resolution-failure'', kb_category = ''system_metric'', kb_sub_category = ''network'',
      kb_keywords = [''dns resolution'', ''dns failure'', ''name resolution'', ''nxdomain'', ''nslookup failed'', ''getaddrinfo''],
      kb_anti_words = [], kb_metric_name = [], kb_severity = ''critical'',
      kb_root_cause = ''DNS resolution is failing, preventing services from connecting to dependencies by hostname'',
      kb_reasoning = [(''DNS failures affect every service that resolves hostnames '' @ [CHR 0xE2, CHR 0x80, CHR 0x94] @ '' virtually everything''),
       ''Could be DNS server down, /etc/resolv.conf misconfigured, or upstream DNS issue'',
       ''Services cache DNS records for TTL, so failures may appear with a delay after DNS goes down''],
      kb_impact = ''All hostname-based connections fail; services cannot reach databases, APIs, or each other'',
      kb_resolution_steps = [''Test DNS resolution: dig example.com @<dns_server>'', ''Check resolv.conf: cat /etc/resolv.conf'',
       ''Test with public DNS: dig example.com @8.8.8.8'',
       ''Restart local DNS cache: systemctl restart systemd-resolved'',
       ''If using CoreDNS (Kubernetes): kubectl get pods -n kube-system -l k8s-app=kube-dns''],
      kb_prevention = ''Use multiple DNS servers in resolv.conf; implement DNS caching; monitor DNS latency and failures'',
      kb_base_confidence = 85, kb_base_risk_score = 85\<rparr>,
     \<lparr>kb_id = ''arp-storm'', kb_category = ''system_metric'', kb_sub_category = ''network'',
      kb_keywords = [''arp storm'', ''arp flood'', ''arp broadcast'', ''arp table full''], kb_anti_words = [],
      kb_metric_name = [], kb_severity = ''high'',
      kb_root_cause = ''ARP broadcast storm is flooding the network segment with excessive ARP traffic'',
      kb_reasoning = [''ARP storms occur from misconfigured hosts, loops, or ARP spoofing attacks'',
       ''Excessive ARP traffic consumes bandwidth and CPU on all hosts in the broadcast domain'',
       ''Switches may become overwhelmed and start flooding all traffic''],
      kb_impact = ''Network segment congestion; all hosts on the segment experience latency; switch CPU spikes'',
      kb_resolution_steps = [''Check ARP table: arp -n | wc -l (abnormally high count = storm)'',
       ''Identify the source: tcpdump -i <interface> arp | head -50'',
       ''Check for network loops: look for STP topology changes in switch logs'',
       ''Implement ARP rate limiting on switches'', ''Isolate the offending host by disabling its switch port''],
      kb_prevention = ''Enable STP (Spanning Tree Protocol) on switches; implement dynamic ARP inspection; use VLANs'',
      kb_base_confidence = 65, kb_base_risk_score = 60\<rparr>,
     \<lparr>kb_id = ''network-latency-spike'', kb_category = ''system_metric'', kb_sub_category = ''network'',
      kb_keywords = [''network latency'', ''latency spike'', ''high latency'', ''ping timeout'', ''round trip''],
      kb_anti_words = [], kb_metric_name = [], kb_severity = ''high'',
      kb_root_cause = ''Network latency between hosts has spiked significantly above baseline'',
      kb_reasoning = [''Latency spikes indicate congestion, routing changes, or link degradation on the path'',
       ''Applications with tight timeout settings will fail during latency spikes'',
       ''Intermittent spikes suggest shared infrastructure contention (cloud networks, busy switches)''],
      kb_impact = ''Service timeouts; database query latency increases; distributed system clock sync issues'',
      kb_resolution_steps = [''Measure latency and find the bottleneck hop: mtr -r -c 100 <destination>'',
       ''Check for congestion on the local interface: ethtool -S <interface> | grep -i coll'',
       ''Verify routing has not changed: ip route show'', ''Check for QoS or traffic shaping affecting the flow'',
       ''Contact network team with mtr output showing the problematic hop''],
      kb_prevention = ''Monitor inter-host latency; use dedicated network links for critical traffic; implement circuit breakers'',
      kb_base_confidence = 70, kb_base_risk_score = 60\<rparr>,
     \<lparr>kb_id = ''conntrack-table-full'', kb_category = ''system_metric'', kb_sub_category = ''network'',
      kb_keywords = [''conntrack'', ''connection tracking'', ''nf_conntrack'', ''table full''], kb_anti_words = [],
      kb_metric_name = [], kb_severity = ''critical'',
      kb_root_cause = ''Linux connection tracking table (nf_conntrack) is full, dropping new connections'',
      kb_reasoning = [''Every network connection uses an entry in the conntrack table (used by iptables/NAT)'',
       ''Default limit is often 65536, which is too low for busy servers or load balancers'',
       (''When full, new connections are silently dropped '' @ [CHR 0xE2, CHR 0x80, CHR 0x94] @ '' no error message on the client side'')],
      kb_impact = ''New TCP connections randomly fail; load balancer drops requests; intermittent connectivity'',
      kb_resolution_steps = [''Check current usage: cat /proc/sys/net/netfilter/nf_conntrack_count'',
       ''Check limit: cat /proc/sys/net/netfilter/nf_conntrack_max'',
       ''Increase limit: sysctl -w net.netfilter.nf_conntrack_max=262144'',
       ''Reduce timeout for established connections: sysctl -w net.netfilter.nf_conntrack_tcp_timeout_established=600'',
       ''Check for connection leaks: conntrack -L | wc -l''],
      kb_prevention = ''Set nf_conntrack_max to at least 4x expected concurrent connections; reduce timeout values; monitor conntrack usage'',
      kb_base_confidence = 80, kb_base_risk_score = 80\<rparr>]"

definition network_entries_2 :: "KnowledgeEntry list" where
  "network_entries_2 =
    [\<lparr>kb_id = ''mtu-mismatch'', kb_category = ''system_metric'', kb_sub_category = ''network'',
      kb_keywords = [''mtu mismatch'', ''mtu'', ''packet too large'', ''fragmentation needed''], kb_anti_words = [],
      kb_metric_name = [], kb_severity = ''medium'',
      kb_root_cause = ''MTU mismatch on network path causing packet fragmentation or drops'',
      kb_reasoning = [''Different MTU settings along a path cause large packets to be dropped if DF bit is set'',
       ''Common in VPN tunnels, overlay networks, and cloud environments with jumbo frames'',
       ''Symptoms: small requests work fine but large responses fail intermittently''],
      kb_impact = ''Large transfers fail; intermittent connection resets; TLS handshakes may fail'',
      kb_resolution_steps = [''Test MTU on the path: ping -M do -s 1472 <destination>'', ''Check interface MTU: ip link show | grep mtu'',
       ''Reduce MTU to account for encapsulation: ip link set <interface> mtu 1400'',
       ''For VPN/overlay: set tunnel MTU to account for overhead (typically 1400 for VXLAN)'',
       ''Enable PMTUD: sysctl -w net.ipv4.ip_no_pmtu_disc=0''],
      kb_prevention = ''Standardize MTU across the infrastructure; document MTU for overlay/tunnel networks'',
      kb_base_confidence = 65, kb_base_risk_score = 50\<rparr>]"

definition network_entries :: "KnowledgeEntry list" where
  "network_entries = network_entries_1 @ network_entries_2"

definition system_entries :: "KnowledgeEntry list" where
  "system_entries =
    [\<lparr>kb_id = ''system-load-critical'', kb_category = ''system_metric'', kb_sub_category = ''system'',
      kb_keywords = [''system load'', ''system overloaded'', ''load critical''], kb_anti_words = [],
      kb_metric_name = [], kb_severity = ''critical'',
      kb_root_cause = (''System is critically overloaded '' @ [CHR 0xE2, CHR 0x80, CHR 0x94] @ '' load average far exceeds available CPU cores''),
      kb_reasoning = [''Critical system load means the run queue has many more processes than the CPU can handle'',
       ''Processes compete for CPU time, causing everything to slow down'',
       ''May be caused by a fork bomb, runaway process spawning, or resource exhaustion''],
      kb_impact = ''All services on the host are affected; SSH may be unresponsive; monitoring may fail'',
      kb_resolution_steps = [''Check load and CPU count: nproc && cat /proc/loadavg'',
       ''Kill runaway processes: ps aux --sort=-%cpu | head -5'', ''Check for fork bomb: ps aux | wc -l'',
       ''Reboot if host is unresponsive via out-of-band management'',
       ''After recovery, identify root cause in /var/log/syslog''],
      kb_prevention = ''Set per-user process limits in /etc/security/limits.conf; monitor load average relative to core count'',
      kb_base_confidence = 80, kb_base_risk_score = 85\<rparr>,
     \<lparr>kb_id = ''system-reboot'', kb_category = ''system_metric'', kb_sub_category = ''system'',
      kb_keywords = [''just rebooted'', ''uptime 0'', ''system restarted'', ''unexpected reboot''], kb_anti_words = [],
      kb_metric_name = [], kb_severity = ''high'',
      kb_root_cause = ''System has recently rebooted, possibly due to kernel panic, OOM, or hardware failure'',
      kb_reasoning = [''An unexpected reboot indicates a critical system failure occurred'',
       ''Check if it was a planned maintenance or unplanned crash'',
       ''Services may not have started correctly after the reboot''],
      kb_impact = ''Service interruption during reboot; potential data loss from unclean shutdown'',
      kb_resolution_steps = [''Check uptime: uptime'', ''Check last reboot cause: last reboot | head -5'',
       ''Check for kernel panic: dmesg | grep -i panic'',
       ''Check for OOM kill before reboot: journalctl -b -1 | grep -i oom'',
       ''Verify all services started: systemctl --failed''],
      kb_prevention = ''Implement watchdog timers; use HA failover for critical services; monitor uptime alerts'',
      kb_base_confidence = 70, kb_base_risk_score = 60\<rparr>,
     \<lparr>kb_id = ''ntp-drift'', kb_category = ''system_metric'', kb_sub_category = ''system'',
      kb_keywords = [''ntp drift'', ''clock skew'', ''time sync'', ''time drift'', ''clock drift''],
      kb_anti_words = [], kb_metric_name = [], kb_severity = ''medium'',
      kb_root_cause = ''System clock has drifted from NTP reference, causing time synchronization issues'',
      kb_reasoning = [''Clock drift > 1s causes issues with TLS certificate validation, Kerberos auth, and distributed systems'',
       ''Database replication, distributed locks, and event ordering break with clock skew'',
       ''Common causes: NTP service not running, firewall blocking NTP, or virtualization overhead''],
      kb_impact = ''Authentication failures; database replication issues; incorrect log timestamps; distributed system inconsistency'',
      kb_resolution_steps = [''Check clock offset: timedatectl status'', ''Force sync: chronyc makestep (or ntpdate -u pool.ntp.org)'',
       ''Check NTP service: systemctl status chronyd (or ntpd)'',
       ''Verify NTP server reachability: chronyc sources -v'',
       ''Check firewall allows UDP 123: iptables -L -n | grep 123''],
      kb_prevention = ''Ensure chrony/NTP is configured and running; monitor clock offset; alert at > 100ms drift'',
      kb_base_confidence = 65, kb_base_risk_score = 50\<rparr>,
     \<lparr>kb_id = ''kernel-panic'', kb_category = ''system_metric'', kb_sub_category = ''system'',
      kb_keywords = [''kernel panic'', ''system panic'', ''kernel oops'', ''kernel crash''], kb_anti_words = [],
      kb_metric_name = [], kb_severity = ''critical'',
      kb_root_cause = (''Kernel panic '' @ [CHR 0xE2, CHR 0x80, CHR 0x94] @ '' the operating system encountered an unrecoverable error and halted''),
      kb_reasoning = [''Kernel panics are caused by hardware failures, driver bugs, or kernel bugs'',
       ''The system halts immediately; all processes are terminated without cleanup'',
       ''Data on disk may be in inconsistent state if writes were in-flight''],
      kb_impact = ''Complete system outage; potential data corruption; requires reboot to recover'',
      kb_resolution_steps = [''Check panic message: dmesg | grep -A5 panic (after reboot)'',
       ''Check /var/crash or /var/log/kern.log for crash dump'',
       ''If hardware error: check memory (memtest86+), disk (smartctl), CPU temperature'',
       ''If driver: check for kernel module updates or remove the offending module'',
       ''If repeating: collect crash dump with kdump and file a kernel bug report''],
      kb_prevention = ''Keep kernel updated; test hardware with memtest86+; configure kdump for crash analysis; monitor dmesg for warnings'',
      kb_base_confidence = 90, kb_base_risk_score = 95\<rparr>,
     \<lparr>kb_id = ''zombie-processes'', kb_category = ''system_metric'', kb_sub_category = ''system'',
      kb_keywords = [''zombie'', ''defunct'', ''zombie process'', ''Z state''], kb_anti_words = [],
      kb_metric_name = [], kb_severity = ''medium'',
      kb_root_cause = (''Zombie processes are accumulating '' @ [CHR 0xE2, CHR 0x80, CHR 0x94] @ '' parent process is not reaping child exit statuses''),
      kb_reasoning = [''Zombie processes do not consume CPU or memory but do consume a PID entry'',
       ''If PID table fills up, no new processes can be started (critical failure)'',
       ''Zombies indicate the parent process has a bug in signal handling or wait() calls''],
      kb_impact = ''PID table may fill up preventing new process creation; indicates buggy parent process'',
      kb_resolution_steps = [(''Count zombies: ps aux | awk '' @ [CHR 0x27] @ ''$8=='' @ [CHR 0x22] @ ''Z'' @ [CHR 0x22] @ '' {print}'' @ [CHR 0x27] @ '' | wc -l''),
       (''Find zombie parents: ps -eo pid,ppid,stat,cmd | awk '' @ [CHR 0x27] @ ''$3=='' @ [CHR 0x22] @ ''Z'' @ [CHR 0x22] @ '' {print $2}'' @ [CHR 0x27] @ '' | sort -u''),
       ''Restart the parent process to clear zombies'',
       ''If parent is PID 1 (init): this is a system-level bug, check init system'',
       ''Monitor PID limit: cat /proc/sys/kernel/pid_max''],
      kb_prevention = ''Implement proper signal handling in parent processes; use wait()/waitpid() in fork-based code'',
      kb_base_confidence = 60, kb_base_risk_score = 40\<rparr>]"

end
