(* ===== verification/KbApplication.thy ===== *)
theory KbApplication
  imports KnowledgeMatch
begin

text \<open>
  The entries of \<open>services/kb_application.go\<close>: Java, Python, Node, Go and other applications.
  One definition per builder, in the order of the source; a long builder is in numbered pieces.
\<close>

definition java_entries_1 :: "KnowledgeEntry list" where
  "java_entries_1 =
    [\<lparr>kb_id = ''java-heap-oom'', kb_category = ''application'', kb_sub_category = ''java'',
      kb_keywords = [''outofmemoryerror'', ''java heap space'', ''java.lang.outofmemoryerror''], kb_anti_words = [],
      kb_metric_name = [], kb_severity = ''critical'',
      kb_root_cause = (''Java process ran out of heap memory '' @ [CHR 0xE2, CHR 0x80, CHR 0x94] @ '' the JVM cannot allocate more objects''),
      kb_reasoning = [''The JVM heap is full and garbage collection cannot free enough memory'',
       ''Common causes: memory leak, undersized heap, or loading too much data into memory'',
       ''The process will either crash or become unresponsive with constant GC''],
      kb_impact = ''Service crashes or hangs; requests fail; potential data loss from in-flight transactions'',
      kb_resolution_steps = [''Take heap dump before restart: jmap -dump:live,format=b,file=heap.hprof <PID>'',
       ''Increase heap size: -Xmx4g (double current value as temporary fix)'',
       ''Analyze heap dump with Eclipse MAT or VisualVM to find the leak'',
       ''Check for common leaks: unclosed connections, growing caches, static collections'',
       ''Restart the service as immediate mitigation''],
      kb_prevention = ''Set -XX:+HeapDumpOnOutOfMemoryError -XX:HeapDumpPath=/tmp; monitor heap usage trends; run leak detection in staging'',
      kb_base_confidence = 90, kb_base_risk_score = 85\<rparr>,
     \<lparr>kb_id = ''java-metaspace-oom'', kb_category = ''application'', kb_sub_category = ''java'',
      kb_keywords = [''metaspace'', ''outofmemoryerror: metaspace'', ''permgen''], kb_anti_words = [],
      kb_metric_name = [], kb_severity = ''critical'',
      kb_root_cause = ''Java Metaspace (class metadata area) is exhausted, usually from classloader leaks'',
      kb_reasoning = [(''Metaspace grows when new classes are loaded; it does not shrink unless classloaders are GC'' @ [CHR 0x27] @ ''d''),
       ''Common in applications with hot-reloading, many dynamic proxies, or reflection-heavy frameworks'',
       ''Repeated deployments without full restart in app servers often cause this''],
      kb_impact = ''JVM crashes; no new classes can be loaded; application cannot process requests'',
      kb_resolution_steps = [''Increase Metaspace: -XX:MaxMetaspaceSize=512m'', ''Check classloader count: jcmd <PID> VM.classloaders'',
       ''For app servers (Tomcat): do a full restart instead of hot-deploy'',
       ''Profile class loading: -verbose:class to see what is loading classes'',
       ''Check for Groovy/scripting engines that generate classes dynamically''],
      kb_prevention = ''Set MaxMetaspaceSize explicitly; avoid hot-deploy in production; monitor Metaspace usage'',
      kb_base_confidence = 85, kb_base_risk_score = 80\<rparr>,
     \<lparr>kb_id = ''java-stackoverflow'', kb_category = ''application'', kb_sub_category = ''java'',
      kb_keywords = [''stackoverflowerror'', ''stack overflow java'', ''java.lang.stackoverflowerror''],
      kb_anti_words = [], kb_metric_name = [], kb_severity = ''high'',
      kb_root_cause = ''Java thread exceeded its stack size due to deep or infinite recursion'',
      kb_reasoning = [''Each method call adds a frame to the thread stack; infinite recursion exhausts it'',
       ''Default thread stack is 512KB-1MB, which handles ~5000-10000 frames'',
       ''Usually a bug in recursive algorithms without proper termination conditions''],
      kb_impact = ''The affected thread dies; if it is a request handler thread, that request fails'',
      kb_resolution_steps = [''Check the stack trace to find the recursive call cycle'',
       ''Fix the recursive algorithm to have a proper base case'', ''Convert deep recursion to iterative approach'',
       ''If legitimate deep recursion: increase stack size with -Xss2m'',
       ''Check for circular bean dependencies in Spring (common cause)''],
      kb_prevention = ''Code review recursive methods for termination conditions; limit recursion depth in algorithms'',
      kb_base_confidence = 80, kb_base_risk_score = 60\<rparr>,
     \<lparr>kb_id = ''java-nullpointer'', kb_category = ''application'', kb_sub_category = ''java'',
      kb_keywords = [''nullpointerexception'', ''null pointer'', ''java.lang.nullpointerexception''],
      kb_anti_words = [], kb_metric_name = [], kb_severity = ''high'',
      kb_root_cause = (''NullPointerException '' @ [CHR 0xE2, CHR 0x80, CHR 0x94] @ '' code attempted to use a null reference''),
      kb_reasoning = [''A variable expected to hold an object reference is null'',
       ''Common causes: missing input validation, failed dependency injection, or race conditions'',
       ''The stack trace shows exactly where the null dereference occurred''],
      kb_impact = ''Request fails with 500 error; if in a critical path, all similar requests fail'',
      kb_resolution_steps = [''Read the stack trace to identify the exact line and variable that is null'',
       ''Check if the null comes from a database query returning no results'',
       ''Add null checks or use Optional<T> for values that can legitimately be absent'',
       ''Check if a Spring/DI bean failed to inject (look for @Autowired on the field)'',
       ''Deploy a fix or rollback to the previous version''],
      kb_prevention = ''Use @NonNull annotations; adopt Optional<T>; add null checks at service boundaries'',
      kb_base_confidence = 75, kb_base_risk_score = 55\<rparr>,
     \<lparr>kb_id = ''java-classnotfound'', kb_category = ''application'', kb_sub_category = ''java'',
      kb_keywords = [''classnotfoundexception'', ''classnotfounderror'', ''noclassdeffounderror''], kb_anti_words = [],
      kb_metric_name = [], kb_severity = ''high'',
      kb_root_cause = (''Java cannot find a required class at runtime '' @ [CHR 0xE2, CHR 0x80, CHR 0x94] @ '' classpath issue or missing dependency''),
      kb_reasoning = [''The class exists at compile time but is missing at runtime'',
       ''Common causes: missing JAR in deployment, version conflict, or shade/relocate issue'',
       ''NoClassDefFoundError specifically means the class was available at compile time but not at runtime''],
      kb_impact = ''Application fails to start or specific functionality breaks'',
      kb_resolution_steps = [''Check which class is missing from the exception message'',
       (''Verify the dependency is in the classpath: find /app -name '' @ [CHR 0x27] @ ''*.jar'' @ [CHR 0x27] @ '' | xargs grep -l <ClassName>''),
       ''Check for dependency conflicts: mvn dependency:tree or gradle dependencies'',
       ''Rebuild and redeploy the application with all dependencies'',
       ''Check if a transitive dependency was excluded in pom.xml/build.gradle''],
      kb_prevention = ''Use dependency management (BOM); run integration tests before deploy; use fat JARs for deployment'',
      kb_base_confidence = 80, kb_base_risk_score = 65\<rparr>,
     \<lparr>kb_id = ''java-connection-pool'', kb_category = ''application'', kb_sub_category = ''java'',
      kb_keywords = [''connection pool exhausted'', ''pool exhausted'', ''hikaripool'', ''connection pool timeout''],
      kb_anti_words = [], kb_metric_name = [], kb_severity = ''critical'',
      kb_root_cause = (''Database connection pool is exhausted '' @ [CHR 0xE2, CHR 0x80, CHR 0x94] @ '' all connections are in use and new requests cannot get a connection''),
      kb_reasoning = [''All connections in the pool are checked out by active queries or leaked transactions'',
       ''Slow queries hold connections longer, reducing pool throughput'',
       ''Connection leaks (not closing connections) gradually exhaust the pool''],
      kb_impact = ''All database operations block; request queue grows; service becomes unresponsive'',
      kb_resolution_steps = [''Check pool metrics: look for HikariCP metrics in /actuator/metrics or JMX'',
       (''Identify long-running queries: SELECT pid, now() - pg_stat_activity.query_start AS duration, query FROM pg_stat_activity WHERE state != '' @ [CHR 0x27] @ ''idle'' @ [CHR 0x27] @ '' ORDER BY duration DESC''),
       ''Increase pool size temporarily: spring.datasource.hikari.maximum-pool-size=20'',
       ''Fix connection leaks: ensure try-with-resources or @Transactional on all DB operations'',
       ''Kill long-running queries: SELECT pg_terminate_backend(<pid>)''],
      kb_prevention = ''Set connection pool leak detection: spring.datasource.hikari.leak-detection-threshold=30000; monitor pool utilization'',
      kb_base_confidence = 85, kb_base_risk_score = 80\<rparr>,
     \<lparr>kb_id = ''java-gc-overhead'', kb_category = ''application'', kb_sub_category = ''java'',
      kb_keywords = [''gc overhead limit exceeded'', ''gc overhead'', ''excessive gc''], kb_anti_words = [],
      kb_metric_name = [], kb_severity = ''critical'',
      kb_root_cause = ''JVM is spending more than 98% of time in garbage collection and recovering less than 2% of heap'',
      kb_reasoning = [''This indicates the heap is nearly full and GC cannot free enough memory'',
       (''The application is effectively stalled '' @ [CHR 0xE2, CHR 0x80, CHR 0x94] @ '' all threads are waiting for GC''),
       ''It is a precursor to OutOfMemoryError and service failure''],
      kb_impact = ''Application is frozen; all requests time out; effectively an outage'',
      kb_resolution_steps = [''Restart the service immediately to restore availability'', ''Increase heap size: -Xmx (at least 2x current)'',
       ''Enable GC logging: -Xlog:gc*:file=gc.log to analyze GC behavior'',
       ''Take heap dump for analysis: jmap -dump:live,format=b,file=heap.hprof <PID>'',
       ''Switch to G1GC or ZGC for better large-heap performance: -XX:+UseG1GC''],
      kb_prevention = ''Monitor GC pause times and frequency; set heap size to at least 2x live data; use G1GC or ZGC'',
      kb_base_confidence = 85, kb_base_risk_score = 85\<rparr>,
     \<lparr>kb_id = ''java-deadlock'', kb_category = ''application'', kb_sub_category = ''java'',
      kb_keywords = [''deadlock detected'', ''thread deadlock'', ''java deadlock'', ''waiting to lock''],
      kb_anti_words = [], kb_metric_name = [], kb_severity = ''critical'',
      kb_root_cause = (''Thread deadlock detected '' @ [CHR 0xE2, CHR 0x80, CHR 0x94] @ '' two or more threads are permanently blocked waiting on each other''),
      kb_reasoning = [''Deadlocks occur when threads acquire locks in inconsistent order'',
       ''The deadlocked threads will never recover without intervention'',
       ''Other threads may cascade-block if they need the same locks''],
      kb_impact = ''Affected threads are permanently stuck; requests to those code paths hang indefinitely'',
      kb_resolution_steps = [''Get thread dump to see the deadlock: jstack <PID>'', ''Restart the service as immediate mitigation'',
       ''Identify the lock ordering from the thread dump'',
       ''Fix lock ordering: always acquire locks in the same global order'',
       ''Consider using java.util.concurrent locks with tryLock timeout instead of synchronized''],
      kb_prevention = ''Use consistent lock ordering; prefer java.util.concurrent utilities; add deadlock detection to monitoring'',
      kb_base_confidence = 90, kb_base_risk_score = 80\<rparr>,
     \<lparr>kb_id = ''java-connect-refused'', kb_category = ''application'', kb_sub_category = ''java'',
      kb_keywords = [''java.net.connectexception'', ''connection refused java'', ''connect exception''],
      kb_anti_words = [], kb_metric_name = [], kb_severity = ''high'',
      kb_root_cause = (''Java application cannot connect to a downstream service '' @ [CHR 0xE2, CHR 0x80, CHR 0x94] @ '' connection refused''),
      kb_reasoning = [''Connection refused means the target host is reachable but nothing is listening on the port'',
       ''The target service may be down, restarting, or the port is wrong'',
       ''Network firewalls may also manifest as connection refused in some configurations''],
      kb_impact = ''Dependent functionality fails; requests relying on the downstream service return errors'',
      kb_resolution_steps = [''Check if target service is running: curl -v <host>:<port>'',
       ''Verify the connection string (host, port) in application config'',
       ''Check target service logs for startup errors'', ''Verify network path: telnet <host> <port>'',
       ''Check firewall rules: iptables -L -n | grep <port>''],
      kb_prevention = ''Implement circuit breaker pattern (Resilience4j, Hystrix); add health checks for dependencies; use service discovery'',
      kb_base_confidence = 75, kb_base_risk_score = 65\<rparr>]"

definition java_entries_2 :: "KnowledgeEntry list" where
  "java_entries_2 =
    [\<lparr>kb_id = ''java-socket-timeout'', kb_category = ''application'', kb_sub_category = ''java'',
      kb_keywords = [''sockettimeoutexception'', ''socket timeout'', ''read timed out java''], kb_anti_words = [],
      kb_metric_name = [], kb_severity = ''high'',
      kb_root_cause = (''Java socket read/connect timeout '' @ [CHR 0xE2, CHR 0x80, CHR 0x94] @ '' downstream service is not responding in time''),
      kb_reasoning = [''The downstream service accepted the connection but did not respond within the timeout period'',
       ''The downstream may be overloaded, GC-paused, or processing a slow query'',
       ''Network latency spikes can also cause socket timeouts''],
      kb_impact = ''Requests to the downstream fail; user-facing latency if on critical path; potential cascading failure'',
      kb_resolution_steps = [''Check downstream service health and response time'',
       ''Increase timeout if downstream is legitimately slow: setConnectTimeout/setReadTimeout'',
       ''Add retry logic with exponential backoff for transient timeouts'',
       ''Check if downstream is GC-pausing: review GC logs on the downstream'',
       ''Implement circuit breaker to fail fast instead of waiting for timeout''],
      kb_prevention = ''Set appropriate timeouts for each dependency; implement circuit breakers; monitor downstream latency'',
      kb_base_confidence = 75, kb_base_risk_score = 60\<rparr>,
     \<lparr>kb_id = ''java-ssl-handshake'', kb_category = ''application'', kb_sub_category = ''java'',
      kb_keywords = [''sslhandshakeexception'', ''ssl handshake'', ''certificate_unknown'', ''handshake_failure java''],
      kb_anti_words = [], kb_metric_name = [], kb_severity = ''high'',
      kb_root_cause = (''TLS/SSL handshake failed '' @ [CHR 0xE2, CHR 0x80, CHR 0x94] @ '' certificate validation or protocol mismatch''),
      kb_reasoning = [''Common causes: expired certificate, untrusted CA, hostname mismatch, or TLS version incompatibility'',
       ''Java truststore may not contain the required CA certificate'',
       ''Server may require TLS 1.2+ while client is offering older versions''],
      kb_impact = ''All HTTPS connections to the target fail; service-to-service communication breaks'',
      kb_resolution_steps = [''Check certificate expiry: openssl s_client -connect <host>:443 2>/dev/null | openssl x509 -noout -dates'',
       ''Import CA certificate to Java truststore: keytool -importcert -keystore $JAVA_HOME/lib/security/cacerts -file ca.crt'',
       ''Check TLS version: openssl s_client -connect <host>:443 -tls1_2'',
       ''Verify hostname matches certificate CN/SAN'',
       (''Update Java truststore password from default '' @ [CHR 0x27] @ ''changeit'' @ [CHR 0x27] @ '' if security requires'')],
      kb_prevention = ''Monitor certificate expiry 30 days in advance; automate cert renewal; keep JDK updated for latest CA roots'',
      kb_base_confidence = 80, kb_base_risk_score = 65\<rparr>,
     \<lparr>kb_id = ''java-file-not-found'', kb_category = ''application'', kb_sub_category = ''java'',
      kb_keywords = [''filenotfoundexception'', ''java file not found'', ''no such file java''], kb_anti_words = [],
      kb_metric_name = [], kb_severity = ''medium'',
      kb_root_cause = ''Java application cannot find a required file at the expected path'',
      kb_reasoning = [''The file path may be wrong, the file was not deployed, or permissions prevent access'',
       ''Configuration files, keystores, and data files are common causes'',
       ''In containers, the file may exist on the image but not be mounted at runtime''],
      kb_impact = ''Feature dependent on the file fails; may prevent service startup'',
      kb_resolution_steps = [''Check the full path from the exception message'', ''Verify the file exists: ls -la <path>'',
       ''Check file permissions: stat <path>'',
       ''For containers: verify volume mounts are correct in the deployment spec'',
       (''Check if path is relative '' @ [CHR 0xE2, CHR 0x80, CHR 0x94] @ '' it resolves from the working directory, not the JAR location'')],
      kb_prevention = ''Use absolute paths in configuration; validate required files at startup; document required volume mounts'',
      kb_base_confidence = 65, kb_base_risk_score = 45\<rparr>,
     \<lparr>kb_id = ''java-illegal-state'', kb_category = ''application'', kb_sub_category = ''java'',
      kb_keywords = [''illegalstateexception'', ''illegal state'', ''invalid state java''], kb_anti_words = [],
      kb_metric_name = [], kb_severity = ''high'',
      kb_root_cause = ''Java method invoked at an inappropriate time or object is in invalid state'',
      kb_reasoning = [''Common causes: calling methods on closed resources, using objects before initialization'',
       ''Spring context not fully initialized when beans are accessed'',
       ''Thread safety issues where shared state is modified without synchronization''],
      kb_impact = ''Request handling fails; may indicate a concurrency bug affecting multiple requests'',
      kb_resolution_steps = [''Read the full exception message and stack trace for context'',
       ''Check if the exception comes from a framework (Spring, Hibernate) lifecycle issue'',
       ''Verify object lifecycle: was the resource closed/disposed before use?'',
       ''Check for thread-safety issues: is the object shared across threads without synchronization?'',
       ''Add proper initialization checks or use @PostConstruct for setup''],
      kb_prevention = ''Use proper lifecycle management; implement thread-safe patterns; validate preconditions at method entry'',
      kb_base_confidence = 70, kb_base_risk_score = 55\<rparr>,
     \<lparr>kb_id = ''java-concurrent-modification'', kb_category = ''application'', kb_sub_category = ''java'',
      kb_keywords = [''concurrentmodificationexception'', ''concurrent modification'', ''fail-fast iterator''],
      kb_anti_words = [], kb_metric_name = [], kb_severity = ''high'',
      kb_root_cause = ''A collection was modified while being iterated, violating the fail-fast iterator contract'',
      kb_reasoning = [(''This is almost always a thread-safety bug '' @ [CHR 0xE2, CHR 0x80, CHR 0x94] @ '' multiple threads accessing the same collection''),
       ''Can also happen in single-threaded code if removing elements during for-each iteration'',
       ''The exception may be intermittent, appearing only under specific timing conditions''],
      kb_impact = ''Intermittent request failures; data corruption if the collection contains shared state'',
      kb_resolution_steps = [''Check the stack trace to find which collection is being modified'',
       ''Use ConcurrentHashMap instead of HashMap for shared maps'',
       ''Use CopyOnWriteArrayList instead of ArrayList for shared lists'',
       ''For single-threaded iteration: use Iterator.remove() instead of Collection.remove()'',
       ''Add proper synchronization around the collection access''],
      kb_prevention = ''Use concurrent collections from java.util.concurrent; review shared mutable state in code reviews'',
      kb_base_confidence = 75, kb_base_risk_score = 60\<rparr>,
     \<lparr>kb_id = ''java-spring-bean-error'', kb_category = ''application'', kb_sub_category = ''java'',
      kb_keywords = [''beancreationexception'', ''unsatisfied dependency'', ''no qualifying bean'', ''spring context''],
      kb_anti_words = [], kb_metric_name = [], kb_severity = ''high'',
      kb_root_cause = ''Spring application context failed to start due to bean creation or dependency injection error'',
      kb_reasoning = [''A Spring bean could not be created because its dependencies are missing or circular'',
       ''This typically prevents the entire application from starting'',
       ''Common after dependency version upgrades or configuration changes''],
      kb_impact = ''Application fails to start; complete service outage until fixed and redeployed'',
      kb_resolution_steps = [(''Read the full error chain '' @ [CHR 0xE2, CHR 0x80, CHR 0x94] @ '' Spring reports the root cause at the bottom''),
       ''Check if a required bean is missing: verify @Component/@Service/@Repository annotation'',
       ''Check for circular dependencies: Spring reports these explicitly'',
       ''Verify @ConditionalOnProperty or @Profile conditions match the environment'',
       ''Rollback to the previous version if this is a recent deployment issue''],
      kb_prevention = ''Run integration tests before deploy; use constructor injection to catch circular deps at compile time'',
      kb_base_confidence = 80, kb_base_risk_score = 70\<rparr>]"

definition java_entries :: "KnowledgeEntry list" where
  "java_entries = java_entries_1 @ java_entries_2"

definition python_entries_1 :: "KnowledgeEntry list" where
  "python_entries_1 =
    [\<lparr>kb_id = ''py-memory-error'', kb_category = ''application'', kb_sub_category = ''python'',
      kb_keywords = [''memoryerror'', ''python out of memory'', ''killed signal 9 python''], kb_anti_words = [],
      kb_metric_name = [], kb_severity = ''critical'',
      kb_root_cause = (''Python process ran out of memory '' @ [CHR 0xE2, CHR 0x80, CHR 0x94] @ '' allocation failed''),
      kb_reasoning = [''Python has no heap limit by default, so MemoryError means the OS refused more memory'',
       ''Common causes: loading entire large files into memory, growing lists without bounds'',
       ''The process was either killed by OOM killer (signal 9) or raised MemoryError''],
      kb_impact = ''Service crash; in-flight requests lost; potential data corruption if writes were buffered'',
      kb_resolution_steps = [''Profile memory usage: python -m tracemalloc in the code'',
       ''Use generators instead of lists for large datasets: (x for x in ...) instead of [x for x in ...]'',
       ''Process files line-by-line instead of loading entirely: for line in open(file)'',
       ''Check for memory leaks with objgraph: objgraph.show_most_common_types()'',
       ''Increase container/server memory as temporary mitigation''],
      kb_prevention = ''Stream large datasets; use memory profiling in CI; set container memory limits with OOM alerts'',
      kb_base_confidence = 85, kb_base_risk_score = 85\<rparr>,
     \<lparr>kb_id = ''py-recursion-error'', kb_category = ''application'', kb_sub_category = ''python'',
      kb_keywords = [''recursionerror'', ''maximum recursion depth'', ''recursion limit''], kb_anti_words = [],
      kb_metric_name = [], kb_severity = ''high'',
      kb_root_cause = ''Python hit the maximum recursion depth limit (default 1000)'',
      kb_reasoning = [''Python does not optimize tail recursion, so deep recursion always hits the limit'',
       ''Common causes: infinite recursion bug, deeply nested data structures'',
       (''Increasing the limit is a band-aid '' @ [CHR 0xE2, CHR 0x80, CHR 0x94] @ '' convert to iterative approach'')],
      kb_impact = ''Request fails; the recursive operation is aborted'',
      kb_resolution_steps = [''Find the recursive function in the stack trace'',
       ''Convert recursive logic to iterative with an explicit stack'',
       ''If legitimate depth: sys.setrecursionlimit(3000) as temporary fix'',
       ''Check for circular references in data structures (e.g., self-referencing dicts)'',
       ''Use functools.lru_cache to avoid redundant recursive calls''],
      kb_prevention = ''Prefer iterative algorithms; limit recursion depth in business logic; test with deep inputs'',
      kb_base_confidence = 75, kb_base_risk_score = 55\<rparr>,
     \<lparr>kb_id = ''py-import-error'', kb_category = ''application'', kb_sub_category = ''python'',
      kb_keywords = [''importerror'', ''modulenotfounderror'', ''no module named''], kb_anti_words = [],
      kb_metric_name = [], kb_severity = ''high'',
      kb_root_cause = (''Python cannot find a required module '' @ [CHR 0xE2, CHR 0x80, CHR 0x94] @ '' missing dependency or virtual environment issue''),
      kb_reasoning = [''The module is not installed in the current Python environment'',
       ''Common causes: missing from requirements.txt, wrong virtualenv, or Python version mismatch'',
       ''In containers: a dependency may be missing from the Docker image''],
      kb_impact = ''Application fails to start; or a specific feature fails when the import is triggered'',
      kb_resolution_steps = [''Install the missing module: pip install <module_name>'',
       ''Verify virtual environment is activated: which python && pip list'',
       ''Check requirements.txt includes the dependency: grep <module> requirements.txt'',
       ''For containers: rebuild the image with pip install -r requirements.txt'',
       ''Check Python version compatibility: python --version''],
      kb_prevention = ''Pin all dependencies in requirements.txt; use pip freeze; run import checks in CI'',
      kb_base_confidence = 80, kb_base_risk_score = 65\<rparr>,
     \<lparr>kb_id = ''py-connection-refused'', kb_category = ''application'', kb_sub_category = ''python'',
      kb_keywords = [''connectionrefusederror'', ''connection refused python'', ''errno 111''], kb_anti_words = [],
      kb_metric_name = [], kb_severity = ''high'',
      kb_root_cause = (''Python application cannot connect to a service '' @ [CHR 0xE2, CHR 0x80, CHR 0x94] @ '' target is not listening''),
      kb_reasoning = [''Connection refused means the target host is reachable but the port is not open'',
       ''The target service may be down, restarting, or misconfigured'',
       ''Check database, Redis, or API service that the Python app depends on''],
      kb_impact = ''All operations requiring the downstream service fail'',
      kb_resolution_steps = [''Verify target service is running: systemctl status <service>'',
       (''Test connectivity: python -c '' @ [CHR 0x22] @ ''import socket; s=socket.socket(); s.connect(('' @ [CHR 0x27] @ ''<host>'' @ [CHR 0x27] @ '', <port>))'' @ [CHR 0x22]),
       ''Check target service logs for errors'', ''Verify connection string in environment variables or config'',
       ''Check firewall and security groups between the two hosts''],
      kb_prevention = ''Add health checks for dependencies at startup; implement retry logic with backoff; use circuit breakers'',
      kb_base_confidence = 75, kb_base_risk_score = 65\<rparr>,
     \<lparr>kb_id = ''py-timeout-error'', kb_category = ''application'', kb_sub_category = ''python'',
      kb_keywords = [''timeouterror'', ''timeout python'', ''timed out python'', ''readtimeouterror''],
      kb_anti_words = [], kb_metric_name = [], kb_severity = ''high'',
      kb_root_cause = (''Python operation timed out '' @ [CHR 0xE2, CHR 0x80, CHR 0x94] @ '' downstream service or I/O took too long''),
      kb_reasoning = [''The downstream service or network operation did not complete within the timeout window'',
       ''Common in HTTP requests (requests library), database queries, and external API calls'',
       ''The downstream may be overloaded, network may be congested, or the operation is inherently slow''],
      kb_impact = ''Request fails; upstream callers also wait longer; potential cascading timeout'',
      kb_resolution_steps = [''Check downstream service health and response time'',
       ''Increase timeout if the operation is legitimately slow: requests.get(url, timeout=30)'',
       ''Add retry with exponential backoff: from urllib3.util.retry import Retry'',
       ''Implement async processing for long operations'', ''Add circuit breaker: pip install pybreaker''],
      kb_prevention = ''Always set explicit timeouts on all external calls; implement circuit breakers; monitor p99 latency'',
      kb_base_confidence = 70, kb_base_risk_score = 60\<rparr>,
     \<lparr>kb_id = ''py-permission-error'', kb_category = ''application'', kb_sub_category = ''python'',
      kb_keywords = [''permissionerror'', ''permission denied python'', ''errno 13 python''], kb_anti_words = [],
      kb_metric_name = [], kb_severity = ''medium'',
      kb_root_cause = ''Python process lacks filesystem permissions to read or write the target file/directory'',
      kb_reasoning = [''The OS denied access due to file ownership or permission bits'',
       ''Common in containers where the process runs as non-root'',
       ''SELinux or AppArmor may also deny access even with correct UNIX permissions''],
      kb_impact = ''Specific file operations fail; may prevent logging, config reading, or data writes'',
      kb_resolution_steps = [''Check file permissions: ls -la <path>'', ''Check process user: id'',
       ''Fix ownership: chown <user>:<group> <path>'',
       ''Fix permissions: chmod 644 <path> (files) or chmod 755 <path> (directories)'',
       ''Check SELinux: getenforce && ausearch -m avc | tail -5''],
      kb_prevention = ''Run containers as non-root with appropriate UID; set correct file permissions in Dockerfile; test file access'',
      kb_base_confidence = 70, kb_base_risk_score = 45\<rparr>,
     \<lparr>kb_id = ''py-key-error'', kb_category = ''application'', kb_sub_category = ''python'',
      kb_keywords = [''keyerror'', ''key error python''], kb_anti_words = [], kb_metric_name = [],
      kb_severity = ''medium'',
      kb_root_cause = (''Python dictionary key access failed '' @ [CHR 0xE2, CHR 0x80, CHR 0x94] @ '' the key does not exist''),
      kb_reasoning = [''Code accessed dict[key] but the key is not in the dictionary'',
       ''Common causes: changed API response format, missing config key, or data inconsistency'',
       ''Use dict.get(key, default) to safely access keys that may be absent''],
      kb_impact = ''Request fails with 500 error; specific data processing pipeline breaks'',
      kb_resolution_steps = [''Check the KeyError message to identify which key is missing'',
       (''Use dict.get('' @ [CHR 0x27] @ ''key'' @ [CHR 0x27] @ '', default_value) instead of dict['' @ [CHR 0x27] @ ''key'' @ [CHR 0x27] @ '']''),
       ''Validate the input data structure before accessing nested keys'',
       ''Check if the upstream API changed its response format'',
       (''Add defensive coding: if '' @ [CHR 0x27] @ ''key'' @ [CHR 0x27] @ '' in data: ...'')],
      kb_prevention = ''Use .get() with defaults; validate API responses against schemas; add type hints'',
      kb_base_confidence = 65, kb_base_risk_score = 45\<rparr>,
     \<lparr>kb_id = ''py-json-decode-error'', kb_category = ''application'', kb_sub_category = ''python'',
      kb_keywords = [''json.decoder.jsondecodeerror'', ''json decode error'', ''expecting value'', ''json loads''],
      kb_anti_words = [], kb_metric_name = [], kb_severity = ''medium'',
      kb_root_cause = (''Python failed to parse JSON '' @ [CHR 0xE2, CHR 0x80, CHR 0x94] @ '' the input is not valid JSON''),
      kb_reasoning = [''The input string is either empty, truncated, or contains invalid JSON syntax'',
       ''Common causes: empty HTTP response body, HTML error page instead of JSON, or encoding issues'',
       ''The upstream service may be returning an error page instead of a JSON API response''],
      kb_impact = ''Data parsing fails; dependent operations cannot proceed'',
      kb_resolution_steps = [''Log the raw input before json.loads() to see what was received'',
       ''Check if the upstream service is returning an error page (HTML 500/502/503)'',
       ''Handle empty responses: if response.text: data = response.json()'',
       ''Check Content-Type header: ensure response is application/json'',
       ''Wrap json.loads in try/except with meaningful error logging''],
      kb_prevention = ''Validate Content-Type before parsing; handle empty responses; log raw responses on parse failure'',
      kb_base_confidence = 65, kb_base_risk_score = 45\<rparr>,
     \<lparr>kb_id = ''py-unicode-error'', kb_category = ''application'', kb_sub_category = ''python'',
      kb_keywords = [''unicodedecodeerror'', ''unicode error'', (''codec can'' @ [CHR 0x27] @ ''t decode''),
       ''encoding error python''],
      kb_anti_words = [], kb_metric_name = [], kb_severity = ''medium'',
      kb_root_cause = ''Python encountered bytes that cannot be decoded with the expected encoding'',
      kb_reasoning = [''The file or data stream contains bytes that are not valid in the assumed encoding (usually UTF-8)'',
       ''Common when reading files created on different OS (Windows Latin-1 vs Linux UTF-8)'',
       ''Database content may have mixed encodings from legacy data imports''],
      kb_impact = ''Data processing fails for records with non-standard characters'',
      kb_resolution_steps = [(''Specify encoding explicitly: open(file, encoding='' @ [CHR 0x27] @ ''utf-8'' @ [CHR 0x27] @ '', errors='' @ [CHR 0x27] @ ''replace'' @ [CHR 0x27] @ '')''),
       ''Detect encoding: pip install chardet && chardet.detect(raw_bytes)'',
       (''Use errors='' @ [CHR 0x27] @ ''replace'' @ [CHR 0x27] @ '' or errors='' @ [CHR 0x27] @ ''ignore'' @ [CHR 0x27] @ '' for resilient parsing''),
       ''For database: verify database and connection encoding match'',
       ''Convert the source data to UTF-8: iconv -f <source_encoding> -t utf-8 <file>''],
      kb_prevention = ''Always specify encoding; use UTF-8 everywhere; validate encoding at data ingestion boundaries'',
      kb_base_confidence = 60, kb_base_risk_score = 40\<rparr>]"

definition python_entries_2 :: "KnowledgeEntry list" where
  "python_entries_2 =
    [\<lparr>kb_id = ''py-celery-max-retries'', kb_category = ''application'', kb_sub_category = ''python'',
      kb_keywords = [''maxretriesexceedederror'', ''max retries exceeded'', ''celery retry''], kb_anti_words = [],
      kb_metric_name = [], kb_severity = ''high'',
      kb_root_cause = ''Celery task has exceeded its maximum retry count and permanently failed'',
      kb_reasoning = [''The task kept failing on every retry attempt, indicating a persistent issue'',
       ''The underlying cause (DB down, service unavailable) persisted longer than the retry window'',
       ''The task is now dead-lettered and its work is lost unless the result is stored''],
      kb_impact = ''Background job permanently failed; any work it was supposed to do is not completed'',
      kb_resolution_steps = [''Check Celery logs for the original exception causing retries'',
       ''Fix the underlying cause (DB connectivity, service availability)'',
       ''Resubmit the failed task manually: task.apply_async(args=...)'',
       ''Increase max_retries or retry_backoff in the task decorator'',
       ''Set up a dead-letter queue to capture permanently failed tasks''],
      kb_prevention = ''Use exponential backoff for retries; implement dead-letter queues; monitor task failure rate'',
      kb_base_confidence = 70, kb_base_risk_score = 60\<rparr>,
     \<lparr>kb_id = ''py-django-operational-error'', kb_category = ''application'', kb_sub_category = ''python'',
      kb_keywords = [''django.db.utils.operationalerror'', ''operational error django'', ''database operational error''],
      kb_anti_words = [], kb_metric_name = [], kb_severity = ''high'',
      kb_root_cause = (''Django database operational error '' @ [CHR 0xE2, CHR 0x80, CHR 0x94] @ '' cannot connect to or query the database''),
      kb_reasoning = [''OperationalError covers connection failures, timeouts, and server-side issues'',
       ''The database server may be down, overloaded, or the connection pool is exhausted'',
       ''This blocks all database-dependent views and API endpoints''],
      kb_impact = ''All database-dependent requests fail; site is effectively down'',
      kb_resolution_steps = [''Check database connectivity: python manage.py dbshell'',
       ''Verify DATABASE_URL or DATABASES config in settings.py'',
       ''Check database server status: systemctl status postgresql'',
       ''Check for connection pool exhaustion: increase CONN_MAX_AGE or pool size'',
       ''Restart Django application to reset stale connections''],
      kb_prevention = ''Use database connection pooling (django-db-connection-pool); add database health checks; monitor query performance'',
      kb_base_confidence = 80, kb_base_risk_score = 70\<rparr>,
     \<lparr>kb_id = ''py-gunicorn-timeout'', kb_category = ''application'', kb_sub_category = ''python'',
      kb_keywords = [''gunicorn timeout'', ''worker timeout'', ''gunicorn worker killed''], kb_anti_words = [],
      kb_metric_name = [], kb_severity = ''high'',
      kb_root_cause = ''Gunicorn worker process was killed for exceeding the request timeout'',
      kb_reasoning = [(''Default gunicorn timeout is 30 seconds '' @ [CHR 0xE2, CHR 0x80, CHR 0x94] @ '' any request taking longer kills the worker''),
       ''The worker is killed with SIGKILL, so cleanup code does not run'',
       ''Common causes: slow database query, external API timeout, or CPU-intensive processing''],
      kb_impact = ''The request fails; the worker is respawned but in-flight request data is lost'',
      kb_resolution_steps = [''Increase timeout: gunicorn --timeout 120 (if long requests are expected)'',
       ''Identify slow requests: check access logs for response times'',
       ''Move long operations to background tasks (Celery)'',
       ''Use async workers for I/O-bound requests: gunicorn -k uvicorn.workers.UvicornWorker'',
       ''Add request timeout monitoring to identify consistently slow endpoints''],
      kb_prevention = ''Use background tasks for long operations; set appropriate timeouts; monitor p95 response times'',
      kb_base_confidence = 75, kb_base_risk_score = 60\<rparr>,
     \<lparr>kb_id = ''py-ssl-error'', kb_category = ''application'', kb_sub_category = ''python'',
      kb_keywords = [''ssl.sslerror'', ''certificate_verify_failed'', ''ssl error python''], kb_anti_words = [],
      kb_metric_name = [], kb_severity = ''high'',
      kb_root_cause = ''Python SSL certificate verification failed when connecting to an HTTPS endpoint'',
      kb_reasoning = [''The server certificate is expired, self-signed, or the CA is not trusted by the system'',
       ''The certifi package may be outdated and missing recent CA certificates'',
       ''In containers, the CA bundle may not be installed''],
      kb_impact = ''All HTTPS connections to the affected endpoint fail'',
      kb_resolution_steps = [''Check certificate: openssl s_client -connect <host>:443 2>/dev/null | openssl x509 -noout -dates'',
       ''Update certifi: pip install --upgrade certifi'',
       ''For self-signed certs: set REQUESTS_CA_BUNDLE=/path/to/ca-bundle.crt'',
       ''Install CA certificates in container: apt-get install ca-certificates'',
       (''Do NOT use verify=False in production '' @ [CHR 0xE2, CHR 0x80, CHR 0x94] @ '' it disables all certificate validation'')],
      kb_prevention = ''Keep certifi updated; automate certificate renewal; monitor certificate expiry'',
      kb_base_confidence = 75, kb_base_risk_score = 60\<rparr>,
     \<lparr>kb_id = ''py-type-error'', kb_category = ''application'', kb_sub_category = ''python'',
      kb_keywords = [''typeerror'', ''type error python'', ''not subscriptable'', ''not callable'', ''not iterable''],
      kb_anti_words = [], kb_metric_name = [], kb_severity = ''medium'',
      kb_root_cause = (''Python TypeError '' @ [CHR 0xE2, CHR 0x80, CHR 0x94] @ '' operation applied to an object of inappropriate type''),
      kb_reasoning = [''Common causes: None where an object is expected, str where int is needed, or wrong argument count'',
       ''Often indicates missing type validation at API boundaries'',
       ''May be caused by API changes in upstream libraries after version update''],
      kb_impact = ''Request processing fails; specific code paths break'',
      kb_resolution_steps = [(''Read the TypeError message '' @ [CHR 0xE2, CHR 0x80, CHR 0x94] @ '' it describes exactly what went wrong''),
       ''Check if a function is receiving None instead of an expected value'',
       ''Add type hints and use mypy for static analysis: mypy <module>'',
       ''Validate input types at API boundaries before processing'',
       ''Check if a library version change altered function signatures''],
      kb_prevention = ''Use type hints and mypy; validate inputs at boundaries; pin dependency versions'',
      kb_base_confidence = 65, kb_base_risk_score = 45\<rparr>,
     \<lparr>kb_id = ''py-value-error'', kb_category = ''application'', kb_sub_category = ''python'',
      kb_keywords = [''valueerror'', ''value error python'', ''invalid literal''], kb_anti_words = [],
      kb_metric_name = [], kb_severity = ''medium'',
      kb_root_cause = (''Python ValueError '' @ [CHR 0xE2, CHR 0x80, CHR 0x94] @ '' function received an argument with the right type but wrong value''),
      kb_reasoning = [(''Common causes: int('' @ [CHR 0x27] @ ''abc'' @ [CHR 0x27] @ ''), invalid date format, or out-of-range values''),
       ''Often from user input that was not validated before processing'',
       ''Can also come from data corruption or format changes in external data sources''],
      kb_impact = ''Data processing fails for the affected input; request returns 400/500'',
      kb_resolution_steps = [''Read the ValueError message to see what value was invalid'',
       ''Add input validation before the operation: try/except ValueError'',
       ''Use a validation library (pydantic, marshmallow) for structured input'',
       ''Check if external data format changed (API response, file format)'',
       ''Log the invalid value for debugging: log the input that caused the error''],
      kb_prevention = ''Validate all external input; use pydantic models; add error handling around type conversions'',
      kb_base_confidence = 60, kb_base_risk_score = 40\<rparr>]"

definition python_entries :: "KnowledgeEntry list" where
  "python_entries = python_entries_1 @ python_entries_2"

definition node_entries_1 :: "KnowledgeEntry list" where
  "node_entries_1 =
    [\<lparr>kb_id = ''node-oom'', kb_category = ''application'', kb_sub_category = ''nodejs'',
      kb_keywords = [''javascript heap out of memory'', ''heap out of memory'', ''fatal error: allocation'', ''v8 heap''],
      kb_anti_words = [], kb_metric_name = [], kb_severity = ''critical'',
      kb_root_cause = (''Node.js V8 heap memory exhausted '' @ [CHR 0xE2, CHR 0x80, CHR 0x94] @ '' process cannot allocate more memory''),
      kb_reasoning = [''V8 has a default heap limit (~1.7GB on 64-bit) which was exceeded'',
       ''Common causes: large data processing in memory, memory leaks, or unbounded caches'',
       ''The process crashes immediately when the heap limit is reached''],
      kb_impact = ''Process crash; all in-flight requests are lost; service outage until restart'',
      kb_resolution_steps = [''Increase heap limit: node --max-old-space-size=4096 app.js'',
       ''Profile heap: use --inspect flag and Chrome DevTools Memory tab'',
       ''Check for memory leaks: take two heap snapshots 5 min apart and compare'',
       ''Stream large data instead of loading into memory: use Node.js streams API'',
       ''Use worker_threads for memory-intensive operations''],
      kb_prevention = ''Set --max-old-space-size explicitly; monitor process.memoryUsage().heapUsed; take periodic heap snapshots'',
      kb_base_confidence = 85, kb_base_risk_score = 85\<rparr>,
     \<lparr>kb_id = ''node-econnrefused'', kb_category = ''application'', kb_sub_category = ''nodejs'',
      kb_keywords = [''econnrefused'', ''connection refused node'', ''connect econnrefused''], kb_anti_words = [],
      kb_metric_name = [], kb_severity = ''high'',
      kb_root_cause = (''Node.js cannot connect to a downstream service '' @ [CHR 0xE2, CHR 0x80, CHR 0x94] @ '' the target port is not listening''),
      kb_reasoning = [(''ECONNREFUSED means TCP handshake was rejected '' @ [CHR 0xE2, CHR 0x80, CHR 0x94] @ '' nothing listening on the target port''),
       ''The target service (database, Redis, API) may be down or misconfigured'',
       ''Firewall rules may also cause connection refusals''],
      kb_impact = ''All requests depending on the downstream service fail'',
      kb_resolution_steps = [''Check target service health: curl -v <host>:<port>'',
       ''Verify connection string in .env or config: echo $DATABASE_URL'',
       ''Restart the target service: systemctl restart <service>'',
       ''Check firewall rules: iptables -L -n | grep <port>'', ''Implement retry logic: npm install retry or p-retry''],
      kb_prevention = ''Add startup health checks for dependencies; implement circuit breakers; use connection retry with backoff'',
      kb_base_confidence = 75, kb_base_risk_score = 65\<rparr>,
     \<lparr>kb_id = ''node-etimedout'', kb_category = ''application'', kb_sub_category = ''nodejs'',
      kb_keywords = [''etimedout'', ''connect etimedout'', ''socket timeout node''], kb_anti_words = [],
      kb_metric_name = [], kb_severity = ''high'',
      kb_root_cause = ''Node.js connection or socket timed out waiting for a response'',
      kb_reasoning = [''ETIMEDOUT means the TCP handshake or data read exceeded the timeout'',
       ''The target service may be overloaded or network path has high latency'',
       ''Different from ECONNREFUSED: here the host is reachable but not responding''],
      kb_impact = ''Requests to the downstream service hang then fail; event loop may become congested with pending connections'',
      kb_resolution_steps = [''Check downstream service response time'', ''Increase timeout: {timeout: 30000} in request options'',
       ''Check network latency: ping <host>'', ''Add connection pooling with keep-alive'',
       ''Implement circuit breaker: npm install opossum''],
      kb_prevention = ''Set explicit timeouts on all outbound connections; implement circuit breakers; monitor downstream latency'',
      kb_base_confidence = 70, kb_base_risk_score = 60\<rparr>,
     \<lparr>kb_id = ''node-eaddrinuse'', kb_category = ''application'', kb_sub_category = ''nodejs'',
      kb_keywords = [''eaddrinuse'', ''address already in use'', ''port already in use node''], kb_anti_words = [],
      kb_metric_name = [], kb_severity = ''high'',
      kb_root_cause = ''Node.js cannot bind to the port because another process is already using it'',
      kb_reasoning = [''EADDRINUSE occurs when server.listen() attempts to bind to an occupied port'',
       ''The previous instance may not have shut down cleanly'',
       ''Multiple instances may be configured to use the same port''],
      kb_impact = ''Application fails to start; service outage until the port conflict is resolved'',
      kb_resolution_steps = [''Find the process using the port: lsof -i :<port>'', ''Kill the old process: kill <PID>'',
       ''If stuck in TIME_WAIT: sysctl -w net.ipv4.tcp_tw_reuse=1'',
       (''Use SO_REUSEADDR: server.listen(port, () => {}).on('' @ [CHR 0x27] @ ''error'' @ [CHR 0x27] @ '', ...)''),
       ''Change the application port in configuration''],
      kb_prevention = ''Implement graceful shutdown with server.close(); use process managers (PM2) for restart handling'',
      kb_base_confidence = 80, kb_base_risk_score = 55\<rparr>,
     \<lparr>kb_id = ''node-unhandled-promise'', kb_category = ''application'', kb_sub_category = ''nodejs'',
      kb_keywords = [''unhandledpromiserejection'', ''unhandled promise rejection'', ''unhandledrejection''],
      kb_anti_words = [], kb_metric_name = [], kb_severity = ''high'',
      kb_root_cause = ''A Promise was rejected but no .catch() handler was attached'',
      kb_reasoning = [''Unhandled rejections indicate missing error handling in async code'',
       ''In Node.js 15+, unhandled rejections crash the process by default'',
       ''Common causes: missing .catch(), forgetting await in try/catch, or uncaught async errors in event handlers''],
      kb_impact = ''Process may crash (Node 15+); the operation silently fails in older versions; data may be lost'',
      kb_resolution_steps = [''Add .catch() to the Promise chain shown in the warning'',
       (''Add global handler: process.on('' @ [CHR 0x27] @ ''unhandledRejection'' @ [CHR 0x27] @ '', (reason) => { console.error(reason); })''),
       ''Use try/catch with await instead of .then().catch()'', ''Add error handling to all async Express middleware'',
       ''Check for missing await before async function calls''],
      kb_prevention = ''Use eslint rule no-floating-promises; add global unhandledRejection handler; use async error middleware in Express'',
      kb_base_confidence = 75, kb_base_risk_score = 60\<rparr>,
     \<lparr>kb_id = ''node-event-loop-blocked'', kb_category = ''application'', kb_sub_category = ''nodejs'',
      kb_keywords = [''event loop blocked'', ''event loop lag'', ''event loop delay'', ''event loop stuck''],
      kb_anti_words = [], kb_metric_name = [], kb_severity = ''high'',
      kb_root_cause = ''Node.js event loop is blocked by synchronous code, preventing all I/O processing'',
      kb_reasoning = [(''When the event loop is blocked, no callbacks fire '' @ [CHR 0xE2, CHR 0x80, CHR 0x94] @ '' all network I/O stalls''),
       ''Common causes: CPU-intensive computation, synchronous file I/O, JSON.parse on large data'',
       ''Even 100ms of blocking causes noticeable request latency for all connections''],
      kb_impact = ''All requests stall; health checks fail; WebSocket connections drop; process appears hung'',
      kb_resolution_steps = [''Profile with clinic.js: npx clinic doctor -- node app.js'',
       ''Use --prof flag: node --prof app.js (then process with --prof-process)'',
       ''Move CPU-intensive work to worker_threads'',
       ''Replace sync file ops with async: fs.readFileSync -> fs.promises.readFile'',
       ''Use streaming JSON parsing for large payloads: npm install stream-json''],
      kb_prevention = ''Monitor event loop lag; use eslint rules to flag sync I/O; offload CPU-bound work to worker threads'',
      kb_base_confidence = 75, kb_base_risk_score = 65\<rparr>,
     \<lparr>kb_id = ''node-max-listeners'', kb_category = ''application'', kb_sub_category = ''nodejs'',
      kb_keywords = [''maxlistenersexceededwarning'', ''max listeners'', ''possible eventemitter memory leak''],
      kb_anti_words = [], kb_metric_name = [], kb_severity = ''medium'',
      kb_root_cause = ''EventEmitter has more than the default 10 listeners, indicating a likely memory leak'',
      kb_reasoning = [''Node.js warns at 11+ listeners because it usually indicates handlers being added but not removed'',
       ''Each request adding a listener without cleanup will grow the listener count indefinitely'',
       ''This is a classic memory/resource leak pattern in Node.js''],
      kb_impact = ''Memory leak; degrading performance over time; eventual crash'',
      kb_resolution_steps = [''Find where listeners are being added: search code for .on( or .addListener('',
       ''Remove listeners when no longer needed: emitter.removeListener() or emitter.off()'',
       ''If legitimate: increase limit for that emitter: emitter.setMaxListeners(50)'',
       ''Check for listeners added in request handlers that are never removed'',
       ''Use once() instead of on() for one-time event listeners''],
      kb_prevention = ''Use .once() for one-time listeners; always removeListener in cleanup; monitor emitter listener counts'',
      kb_base_confidence = 70, kb_base_risk_score = 50\<rparr>,
     \<lparr>kb_id = ''node-require-esm'', kb_category = ''application'', kb_sub_category = ''nodejs'',
      kb_keywords = [''err_require_esm'', ''cannot use import statement'', ''require() of es module''],
      kb_anti_words = [], kb_metric_name = [], kb_severity = ''medium'',
      kb_root_cause = ''Node.js tried to require() an ES Module package, which is not supported'',
      kb_reasoning = [''The dependency has been updated to ESM-only (e.g., got, chalk, node-fetch v3+)'',
       ''CommonJS require() cannot load ES Modules directly'',
       ''This is increasingly common as the npm ecosystem migrates to ESM''],
      kb_impact = ''Application fails to start or the specific import fails at runtime'',
      kb_resolution_steps = [(''Use dynamic import: const pkg = await import('' @ [CHR 0x27] @ ''package-name'' @ [CHR 0x27] @ '')''),
       ''Downgrade to the last CommonJS version of the package'',
       (''Convert your project to ESM: set '' @ [CHR 0x22] @ ''type'' @ [CHR 0x22] @ '': '' @ [CHR 0x22] @ ''module'' @ [CHR 0x22] @ '' in package.json''),
       ''Use an ESM-compatible wrapper if available'',
       (''For TypeScript: set moduleResolution to '' @ [CHR 0x27] @ ''nodenext'' @ [CHR 0x27] @ '' in tsconfig.json'')],
      kb_prevention = ''Check package changelogs before major version updates; use import() for ESM packages in CommonJS'',
      kb_base_confidence = 70, kb_base_risk_score = 45\<rparr>,
     \<lparr>kb_id = ''node-mongoose-timeout'', kb_category = ''application'', kb_sub_category = ''nodejs'',
      kb_keywords = [''mongoose timeout'', ''mongooseerror'', ''operation timed out mongodb'', ''mongodb connection error''],
      kb_anti_words = [], kb_metric_name = [], kb_severity = ''high'',
      kb_root_cause = (''Mongoose/MongoDB operation timed out '' @ [CHR 0xE2, CHR 0x80, CHR 0x94] @ '' database is not responding''),
      kb_reasoning = [''The MongoDB server is not responding within the configured timeout'',
       ''Common causes: MongoDB is down, network issues, or the query is too slow'',
       ''Connection pool may be exhausted from slow queries holding connections''],
      kb_impact = ''All database operations fail; application cannot read or write data'',
      kb_resolution_steps = [(''Check MongoDB connectivity: mongosh --eval '' @ [CHR 0x27] @ ''db.serverStatus()'' @ [CHR 0x27]),
       ''Check MongoDB logs: journalctl -u mongod | tail -50'',
       ''Increase timeout: mongoose.connect(uri, { serverSelectionTimeoutMS: 10000 })'',
       (''Check for slow queries: db.currentOp({'' @ [CHR 0x22] @ ''secs_running'' @ [CHR 0x22] @ '': {'' @ [CHR 0x22] @ ''$gt'' @ [CHR 0x22] @ '': 5}})''),
       ''Restart MongoDB if unresponsive: systemctl restart mongod''],
      kb_prevention = ''Monitor MongoDB health; set appropriate timeouts; add indexes for common queries; use connection pooling'',
      kb_base_confidence = 75, kb_base_risk_score = 65\<rparr>]"

definition node_entries_2 :: "KnowledgeEntry list" where
  "node_entries_2 =
    [\<lparr>kb_id = ''node-sequelize-error'', kb_category = ''application'', kb_sub_category = ''nodejs'',
      kb_keywords = [''sequelizeconnectionerror'', ''sequelize connection'', ''sequelize error''], kb_anti_words = [],
      kb_metric_name = [], kb_severity = ''high'', kb_root_cause = ''Sequelize ORM cannot connect to the database'',
      kb_reasoning = [''The database connection configured in Sequelize is failing'',
       ''Common causes: wrong credentials, database server down, or network issues'',
       ''Connection pool may be exhausted from leaked connections''],
      kb_impact = ''All database operations fail; API requests return 500 errors'',
      kb_resolution_steps = [''Verify DATABASE_URL or Sequelize config: check host, port, user, password, database name'',
       ''Test database connectivity directly: psql -h <host> -U <user> <database>'',
       ''Check database server status: systemctl status postgresql'',
       ''Increase pool size: sequelize = new Sequelize({ pool: { max: 20 } })'',
       ''Run pending migrations: npx sequelize-cli db:migrate''],
      kb_prevention = ''Use environment variables for DB config; implement connection health checks; monitor pool usage'',
      kb_base_confidence = 75, kb_base_risk_score = 65\<rparr>,
     \<lparr>kb_id = ''node-headers-sent'', kb_category = ''application'', kb_sub_category = ''nodejs'',
      kb_keywords = [''err_http_headers_sent'', ''cannot set headers'', ''headers already sent''], kb_anti_words = [],
      kb_metric_name = [], kb_severity = ''medium'',
      kb_root_cause = ''Express/Node.js tried to send a response after headers were already sent'',
      kb_reasoning = [''This happens when response methods (res.send, res.json, res.end) are called multiple times'',
       ''Common causes: missing return after res.send(), async callback executing after response'',
       ''Middleware calling next() and also sending a response''],
      kb_impact = ''Request may get incomplete response; server logs error; no data loss but poor user experience'',
      kb_resolution_steps = [''Find the route handler with multiple response calls in the stack trace'',
       (''Add '' @ [CHR 0x27] @ ''return'' @ [CHR 0x27] @ '' before res.send() / res.json() to prevent further execution''),
       ''Check for async callbacks that fire after the response was already sent'',
       ''Use a flag to track if response was sent: if (res.headersSent) return'',
       ''Fix middleware that both sends a response and calls next()''],
      kb_prevention = ''Always return after sending a response; use async/await instead of callbacks; lint for double-response patterns'',
      kb_base_confidence = 65, kb_base_risk_score = 35\<rparr>,
     \<lparr>kb_id = ''node-entity-too-large'', kb_category = ''application'', kb_sub_category = ''nodejs'',
      kb_keywords = [''request entity too large'', ''payload too large'', ''413 node''], kb_anti_words = [],
      kb_metric_name = [], kb_severity = ''medium'',
      kb_root_cause = ''Request body exceeds the configured size limit in Express/Node.js'',
      kb_reasoning = [''Express body-parser defaults to 100KB limit for JSON payloads'',
       ''The client is sending a request larger than this limit'',
       ''May be legitimate (file upload, large JSON) or an attack (body bomb)''],
      kb_impact = ''The specific request fails with 413; legitimate large requests are blocked'',
      kb_resolution_steps = [(''Increase body limit: app.use(express.json({ limit: '' @ [CHR 0x27] @ ''10mb'' @ [CHR 0x27] @ '' }))''),
       ''For file uploads: use multer middleware with appropriate limits'',
       ''Check if the large request is legitimate or an attack'',
       ''Implement request size validation per route for security'',
       ''Use streaming for very large payloads instead of body parsing''],
      kb_prevention = ''Set per-route body size limits; use streaming for large uploads; implement rate limiting'',
      kb_base_confidence = 65, kb_base_risk_score = 35\<rparr>,
     \<lparr>kb_id = ''node-dns-failure'', kb_category = ''application'', kb_sub_category = ''nodejs'',
      kb_keywords = [''enotfound'', ''getaddrinfo enotfound'', ''dns lookup failed node''], kb_anti_words = [],
      kb_metric_name = [], kb_severity = ''high'',
      kb_root_cause = (''Node.js DNS resolution failed '' @ [CHR 0xE2, CHR 0x80, CHR 0x94] @ '' the hostname cannot be resolved''),
      kb_reasoning = [''ENOTFOUND means the DNS server returned no records for the hostname'',
       ''Common causes: typo in hostname, DNS server unreachable, or the domain does not exist'',
       ''In Kubernetes: CoreDNS may be overloaded or the service name may be wrong''],
      kb_impact = ''All connections to the unresolvable hostname fail; dependent service is unreachable'',
      kb_resolution_steps = [''Verify the hostname is correct in configuration'',
       ''Test DNS resolution: nslookup <hostname> or dig <hostname>'',
       ''Check /etc/resolv.conf for correct DNS servers'',
       ''In Kubernetes: check CoreDNS pods: kubectl get pods -n kube-system -l k8s-app=kube-dns'',
       ''Use IP address as temporary workaround while fixing DNS''],
      kb_prevention = ''Validate hostnames in configuration; monitor DNS resolution latency; use multiple DNS servers'',
      kb_base_confidence = 75, kb_base_risk_score = 60\<rparr>,
     \<lparr>kb_id = ''node-cert-error'', kb_category = ''application'', kb_sub_category = ''nodejs'',
      kb_keywords = [''unable_to_verify_leaf_signature'', ''self_signed_cert'', ''certificate expired node'', ''cert_has_expired''],
      kb_anti_words = [], kb_metric_name = [], kb_severity = ''high'',
      kb_root_cause = ''Node.js TLS certificate validation failed'',
      kb_reasoning = [''The server certificate is expired, self-signed, or issued by an untrusted CA'',
       ''Node.js uses its own CA bundle which may not include custom or internal CAs'',
       ''Setting NODE_TLS_REJECT_UNAUTHORIZED=0 is dangerous and should never be used in production''],
      kb_impact = ''All HTTPS connections to the endpoint fail; service-to-service communication breaks'',
      kb_resolution_steps = [''Check certificate: openssl s_client -connect <host>:443'',
       ''Set NODE_EXTRA_CA_CERTS=/path/to/ca.crt for custom CA'', ''Renew the certificate if expired'',
       ''Update Node.js to get latest CA roots'', ''For development only: use --tls-min-v1.0 if version mismatch''],
      kb_prevention = ''Monitor certificate expiry; automate renewal with cert-manager/certbot; keep Node.js updated'',
      kb_base_confidence = 75, kb_base_risk_score = 60\<rparr>,
     \<lparr>kb_id = ''node-file-descriptor'', kb_category = ''application'', kb_sub_category = ''nodejs'',
      kb_keywords = [''emfile'', ''too many open files node'', ''enfile''], kb_anti_words = [], kb_metric_name = [],
      kb_severity = ''high'', kb_root_cause = ''Node.js process exceeded the file descriptor limit'',
      kb_reasoning = [''Each file open, socket connection, and pipe uses a file descriptor'',
       ''Default ulimit is often 1024 which is too low for busy services'',
       ''Leaked file descriptors (unclosed files/sockets) exhaust the limit over time''],
      kb_impact = ''Cannot open new files or network connections; service degrades and eventually fails'',
      kb_resolution_steps = [(''Check current limits: cat /proc/<PID>/limits | grep '' @ [CHR 0x27] @ ''Max open files'' @ [CHR 0x27]),
       ''Increase limit: ulimit -n 65536 (or set in /etc/security/limits.conf)'',
       ''Find open file descriptors: ls /proc/<PID>/fd | wc -l'',
       ''Check for leaked file handles: lsof -p <PID> | wc -l'',
       ''Use graceful-fs: npm install graceful-fs (queues opens when limit is near)''],
      kb_prevention = ''Set ulimit -n 65536 in service config; always close files in finally blocks; monitor FD count'',
      kb_base_confidence = 75, kb_base_risk_score = 65\<rparr>]"

definition node_entries :: "KnowledgeEntry list" where
  "node_entries = node_entries_1 @ node_entries_2"

definition go_entries_1 :: "KnowledgeEntry list" where
  "go_entries_1 =
    [\<lparr>kb_id = ''go-oom'', kb_category = ''application'', kb_sub_category = ''go'',
      kb_keywords = [''runtime: out of memory'', ''go out of memory'', ''fatal error: runtime: out of memory''],
      kb_anti_words = [], kb_metric_name = [], kb_severity = ''critical'',
      kb_root_cause = (''Go process ran out of memory '' @ [CHR 0xE2, CHR 0x80, CHR 0x94] @ '' the runtime cannot allocate more''),
      kb_reasoning = [''Go has no configurable heap limit; it grows until the OS refuses more memory'',
       ''Common causes: goroutine leak with per-goroutine allocations, unbounded caches, or large slice growth'',
       (''The process exits with a fatal error '' @ [CHR 0xE2, CHR 0x80, CHR 0x94] @ '' there is no recovery'')],
      kb_impact = ''Process crash; all in-flight requests lost; service outage'',
      kb_resolution_steps = [''Profile memory: go tool pprof http://localhost:6060/debug/pprof/heap'',
       ''Check for goroutine leaks: curl http://localhost:6060/debug/pprof/goroutine?debug=1 | head -50'',
       ''Set GOMEMLIMIT environment variable (Go 1.19+): export GOMEMLIMIT=2GiB'',
       ''Review code for unbounded slice/map growth'',
       ''Restart the service and increase container memory limit as temporary fix''],
      kb_prevention = ''Set GOMEMLIMIT; enable pprof endpoint in production; monitor goroutine count and heap usage'',
      kb_base_confidence = 85, kb_base_risk_score = 85\<rparr>,
     \<lparr>kb_id = ''go-goroutine-leak'', kb_category = ''application'', kb_sub_category = ''go'',
      kb_keywords = [''goroutine leak'', ''goroutine count growing'', ''too many goroutines'', ''goroutine''],
      kb_anti_words = [], kb_metric_name = [], kb_severity = ''high'',
      kb_root_cause = (''Goroutine leak detected '' @ [CHR 0xE2, CHR 0x80, CHR 0x94] @ '' goroutine count is growing without bound''),
      kb_reasoning = [''Goroutines stuck on blocked channel operations, network I/O, or mutexes accumulate'',
       ''Each goroutine consumes ~8KB stack initially, growing to MB if active'',
       ''Common causes: channel without consumer, HTTP client without timeout, missing context cancellation''],
      kb_impact = ''Increasing memory usage; eventual OOM; CPU wasted on blocked goroutines'',
      kb_resolution_steps = [''Check goroutine count: curl http://localhost:6060/debug/pprof/goroutine?debug=1 | head -5'',
       ''Profile goroutine stacks: go tool pprof http://localhost:6060/debug/pprof/goroutine'',
       ''Look for goroutines stuck on channel receive or network I/O'',
       ''Add context.WithTimeout to all outbound network calls'',
       ''Ensure all spawned goroutines have a shutdown path via context or channel close''],
      kb_prevention = ''Always pass context.Context to goroutines; use errgroup for goroutine lifecycle management; monitor goroutine count'',
      kb_base_confidence = 75, kb_base_risk_score = 70\<rparr>,
     \<lparr>kb_id = ''go-index-out-of-range'', kb_category = ''application'', kb_sub_category = ''go'',
      kb_keywords = [''index out of range'', ''runtime error: index out of range'', ''slice bounds out of range''],
      kb_anti_words = [], kb_metric_name = [], kb_severity = ''high'',
      kb_root_cause = (''Go runtime panic '' @ [CHR 0xE2, CHR 0x80, CHR 0x94] @ '' slice or array access with an invalid index''),
      kb_reasoning = [''Code accessed a slice/array at an index beyond its length'',
       ''Common causes: empty slice access, off-by-one errors, or concurrent slice modification'',
       ''The panic crashes the goroutine; if unrecovered, crashes the process''],
      kb_impact = ''Request fails with panic; if in main goroutine, process crashes'',
      kb_resolution_steps = [''Check the stack trace for the exact file and line number'',
       ''Add bounds checking: if len(slice) > index { ... }'',
       ''Check for concurrent access: use sync.Mutex or channels'',
       ''Add recover() in HTTP handlers to prevent process crash on panic'',
       ''Review the data pipeline to understand why the slice is shorter than expected''],
      kb_prevention = ''Always check slice length before access; use recover() in request handlers; add race detector to tests: go test -race'',
      kb_base_confidence = 75, kb_base_risk_score = 60\<rparr>,
     \<lparr>kb_id = ''go-nil-pointer'', kb_category = ''application'', kb_sub_category = ''go'',
      kb_keywords = [''nil pointer dereference'', ''invalid memory address'', ''nil pointer'', ''runtime error: invalid memory''],
      kb_anti_words = [], kb_metric_name = [], kb_severity = ''high'',
      kb_root_cause = (''Go runtime panic '' @ [CHR 0xE2, CHR 0x80, CHR 0x94] @ '' nil pointer dereference (accessing a field or method on a nil pointer)''),
      kb_reasoning = [''A variable of pointer type is nil and was used as if it had a value'',
       ''Common causes: error not checked and result used, uninitialized pointer, or interface value is nil'',
       ''The panic crashes the goroutine; must be caught with recover() to prevent process exit''],
      kb_impact = ''Request fails with panic; potential process crash if recover() is not in place'',
      kb_resolution_steps = [''Check the stack trace for the file and line of the nil dereference'',
       ''Add nil checks before using pointers: if ptr != nil { ... }'',
       (''Check all error returns: if err != nil { return err } '' @ [CHR 0xE2, CHR 0x80, CHR 0x94] @ '' do not use the result when err is set''),
       ''Add recover() middleware in HTTP server to catch panics gracefully'',
       ''Check interface assertions: use val, ok := iface.(Type) instead of val := iface.(Type)''],
      kb_prevention = ''Use go vet and staticcheck; check all errors; add nil guards; use recover() in handlers'',
      kb_base_confidence = 75, kb_base_risk_score = 60\<rparr>,
     \<lparr>kb_id = ''go-context-deadline'', kb_category = ''application'', kb_sub_category = ''go'',
      kb_keywords = [''context deadline exceeded'', ''context canceled'', ''deadline exceeded go''],
      kb_anti_words = [], kb_metric_name = [], kb_severity = ''high'',
      kb_root_cause = (''Go context deadline expired '' @ [CHR 0xE2, CHR 0x80, CHR 0x94] @ '' the operation took too long and was cancelled''),
      kb_reasoning = [''The context.WithTimeout or context.WithDeadline timer expired before the operation completed'',
       ''The downstream service is too slow or the timeout is too short'',
       (''This is working as intended '' @ [CHR 0xE2, CHR 0x80, CHR 0x94] @ '' timeouts prevent unbounded waits'')],
      kb_impact = ''The specific request fails; resources used by the timed-out operation may not be cleaned up'',
      kb_resolution_steps = [''Check which operation timed out from the error context'',
       ''Increase the timeout if the operation legitimately takes longer'',
       ''Investigate why the downstream is slow: check its logs and metrics'',
       ''Add timeout logging: log the operation duration before the deadline'',
       ''Implement retry with backoff for transient timeouts''],
      kb_prevention = ''Set appropriate timeouts per operation; monitor operation durations; implement circuit breakers'',
      kb_base_confidence = 70, kb_base_risk_score = 55\<rparr>,
     \<lparr>kb_id = ''go-tls-unknown-authority'', kb_category = ''application'', kb_sub_category = ''go'',
      kb_keywords = [''x509: certificate signed by unknown authority'', ''x509 unknown authority'', ''certificate verify go''],
      kb_anti_words = [], kb_metric_name = [], kb_severity = ''high'',
      kb_root_cause = (''Go TLS client does not trust the server certificate '' @ [CHR 0xE2, CHR 0x80, CHR 0x94] @ '' unknown certificate authority''),
      kb_reasoning = [''The server certificate was signed by a CA not in the system CA store'',
       ''Common with internal/private CAs, self-signed certificates, or missing intermediate certs'',
       ''Go uses the system CA store by default; custom CAs need explicit configuration''],
      kb_impact = ''All HTTPS connections to the affected endpoint fail'',
      kb_resolution_steps = [''Check the certificate chain: openssl s_client -connect <host>:443 -showcerts'',
       ''Add the CA cert to the system store: cp ca.crt /usr/local/share/ca-certificates/ && update-ca-certificates'',
       ''In code: load custom CA into tls.Config.RootCAs'',
       ''Check for missing intermediate certificates on the server'',
       ''Set SSL_CERT_FILE env var to point to the CA bundle''],
      kb_prevention = ''Include all intermediate certs in server configuration; distribute internal CA certs to all services'',
      kb_base_confidence = 75, kb_base_risk_score = 60\<rparr>,
     \<lparr>kb_id = ''go-too-many-open-files'', kb_category = ''application'', kb_sub_category = ''go'',
      kb_keywords = [''too many open files go'', ''socket: too many open files'', ''open files go''],
      kb_anti_words = [], kb_metric_name = [], kb_severity = ''high'',
      kb_root_cause = ''Go process exceeded the file descriptor limit'',
      kb_reasoning = [''Each open file, socket, and pipe uses a file descriptor'',
       ''Leaked HTTP response bodies (not calling resp.Body.Close()) are the most common cause in Go'',
       ''The default ulimit may be too low for a busy server''],
      kb_impact = ''Cannot open new files or connections; all network operations fail'',
      kb_resolution_steps = [''Increase file descriptor limit: ulimit -n 65536'',
       ''Check for leaked file descriptors: ls /proc/<PID>/fd | wc -l'',
       ''Audit code for unclosed resp.Body: always defer resp.Body.Close()'',
       ''Check for unclosed os.File handles: search for os.Open without defer f.Close()'',
       ''Set in systemd service: LimitNOFILE=65536''],
      kb_prevention = ''Always close HTTP response bodies; use defer for file closes; set high ulimit for server processes'',
      kb_base_confidence = 75, kb_base_risk_score = 65\<rparr>,
     \<lparr>kb_id = ''go-http-wrong-protocol'', kb_category = ''application'', kb_sub_category = ''go'',
      kb_keywords = [''http: server gave http response to https client'', ''wrong protocol go''], kb_anti_words = [],
      kb_metric_name = [], kb_severity = ''medium'',
      kb_root_cause = ''Go HTTP client sent HTTPS but the server responded with plain HTTP'',
      kb_reasoning = [''The URL uses https:// but the server is only serving HTTP'',
       ''Common when TLS termination is done at a load balancer and the backend is HTTP'',
       ''Internal service-to-service calls may not need HTTPS if within a trusted network''],
      kb_impact = ''Connection fails; requests to this endpoint do not complete'',
      kb_resolution_steps = [''Change the URL from https:// to http:// if TLS is terminated upstream'',
       ''Or configure TLS on the target server'', ''Check if a proxy or load balancer is doing TLS termination'',
       (''Verify the port '' @ [CHR 0xE2, CHR 0x80, CHR 0x94] @ '' HTTPS is typically 443, HTTP is typically 80/8080'')],
      kb_prevention = ''Document which services use TLS vs plain HTTP; standardize on TLS for all services'',
      kb_base_confidence = 70, kb_base_risk_score = 40\<rparr>,
     \<lparr>kb_id = ''go-connection-refused'', kb_category = ''application'', kb_sub_category = ''go'',
      kb_keywords = [''connection refused go'', ''dial tcp.*refused'', ''connect: connection refused''],
      kb_anti_words = [], kb_metric_name = [], kb_severity = ''high'',
      kb_root_cause = (''Go application cannot connect to a downstream service '' @ [CHR 0xE2, CHR 0x80, CHR 0x94] @ '' connection refused''),
      kb_reasoning = [(''The TCP handshake was rejected '' @ [CHR 0xE2, CHR 0x80, CHR 0x94] @ '' nothing is listening on the target port''),
       (''The target service is down, hasn'' @ [CHR 0x27] @ ''t started yet, or the address/port is wrong''),
       ''In Kubernetes: the Service may have no ready endpoints''],
      kb_impact = ''All requests depending on the downstream service fail with errors'',
      kb_resolution_steps = [''Check if target service is running: curl -v <host>:<port>'',
       ''Verify connection details in environment config'', ''Check target service logs for startup errors'',
       ''In Kubernetes: kubectl get endpoints <service-name>'',
       ''Implement retry with exponential backoff for startup races''],
      kb_prevention = ''Implement health check dependencies; add connection retry at startup; use circuit breakers'',
      kb_base_confidence = 75, kb_base_risk_score = 65\<rparr>]"

definition go_entries_2 :: "KnowledgeEntry list" where
  "go_entries_2 =
    [\<lparr>kb_id = ''go-dns-lookup-failed'', kb_category = ''application'', kb_sub_category = ''go'',
      kb_keywords = [''dial tcp: lookup'', ''no such host'', ''dns lookup go''], kb_anti_words = [],
      kb_metric_name = [], kb_severity = ''high'',
      kb_root_cause = (''Go DNS resolution failed for a hostname '' @ [CHR 0xE2, CHR 0x80, CHR 0x94] @ '' the hostname cannot be resolved''),
      kb_reasoning = [''The DNS server returned NXDOMAIN or no records for the hostname'',
       ''Common causes: wrong hostname in config, DNS server unreachable, or network isolation'',
       ''In Kubernetes: service may not exist in the namespace or CoreDNS is down''],
      kb_impact = ''Cannot connect to the service by hostname; dependent operations fail'',
      kb_resolution_steps = [''Verify hostname: nslookup <hostname>'', ''Check /etc/resolv.conf for DNS server configuration'',
       ''In Kubernetes: verify service exists: kubectl get svc <name>'',
       ''Check CoreDNS health: kubectl get pods -n kube-system -l k8s-app=kube-dns'',
       ''Use IP address as temporary workaround''],
      kb_prevention = ''Validate hostnames in config; monitor DNS health; use service discovery'',
      kb_base_confidence = 75, kb_base_risk_score = 60\<rparr>]"

definition go_entries :: "KnowledgeEntry list" where
  "go_entries = go_entries_1 @ go_entries_2"

definition generic_app_entries_1 :: "KnowledgeEntry list" where
  "generic_app_entries_1 =
    [\<lparr>kb_id = ''app-connection-refused'', kb_category = ''application'', kb_sub_category = ''generic'',
      kb_keywords = [''connection refused'', ''econnrefused'', ''connect refused''],
      kb_anti_words = [''java'', ''python'', ''node'', ''go'', ''redis'', ''postgres'', ''mysql'', ''mongodb''],
      kb_metric_name = [], kb_severity = ''high'',
      kb_root_cause = (''Application cannot connect to a dependency '' @ [CHR 0xE2, CHR 0x80, CHR 0x94] @ '' the target service is not listening on the expected port''),
      kb_reasoning = [''Connection refused means the target host received the TCP SYN but nothing is listening'',
       ''The dependency may be down, restarting, or the port number is wrong'',
       ''Firewall resets can also manifest as connection refused''],
      kb_impact = ''All functionality depending on the unreachable service fails'',
      kb_resolution_steps = [''Check if target service is running: systemctl status <service> or docker ps'',
       ''Test connectivity: telnet <host> <port> or nc -zv <host> <port>'',
       ''Verify the host:port in application configuration or environment variables'',
       ''Check firewall rules: iptables -L -n | grep <port>'', ''Restart the target service if it is down''],
      kb_prevention = ''Implement health checks for dependencies; use circuit breaker pattern; add connection retry with backoff'',
      kb_base_confidence = 75, kb_base_risk_score = 65\<rparr>,
     \<lparr>kb_id = ''app-connection-timeout'', kb_category = ''application'', kb_sub_category = ''generic'',
      kb_keywords = [''connection timeout'', ''connect timeout'', ''timed out connecting''],
      kb_anti_words = [''read timeout'', ''socket timeout''], kb_metric_name = [], kb_severity = ''high'',
      kb_root_cause = (''TCP connection attempt timed out '' @ [CHR 0xE2, CHR 0x80, CHR 0x94] @ '' the target host is unreachable or a firewall is silently dropping packets''),
      kb_reasoning = [(''Unlike connection refused, a timeout means no response at all '' @ [CHR 0xE2, CHR 0x80, CHR 0x94] @ '' the SYN packet was lost''),
       ''Common causes: wrong IP, firewall dropping packets, network partition, or host is down'',
       ''The application waits for the full timeout period, wasting resources''],
      kb_impact = ''Requests hang for the timeout duration then fail; thread/connection pool may become saturated'',
      kb_resolution_steps = [''Check if host is reachable: ping <host>'', ''Trace the network path: traceroute <host>'',
       ''Check firewall rules for the port: nmap -p <port> <host>'', ''Verify the target IP/hostname is correct'',
       ''Reduce connection timeout to fail faster: typically 3-5 seconds is appropriate''],
      kb_prevention = ''Set short connection timeouts (3-5s); implement circuit breakers; verify network path for all dependencies'',
      kb_base_confidence = 70, kb_base_risk_score = 60\<rparr>,
     \<lparr>kb_id = ''app-connection-reset'', kb_category = ''application'', kb_sub_category = ''generic'',
      kb_keywords = [''connection reset by peer'', ''connection reset'', ''econnreset''], kb_anti_words = [],
      kb_metric_name = [], kb_severity = ''high'',
      kb_root_cause = ''The remote side forcefully closed the TCP connection by sending a RST packet'',
      kb_reasoning = [''Connection reset indicates the remote server crashed, restarted, or hit a resource limit'',
       ''Load balancers reset connections when backends are unhealthy or idle timeout expires'',
       ''Firewalls may reset connections that exceed state table limits''],
      kb_impact = ''In-flight request fails; data may have been partially sent; client must retry'',
      kb_resolution_steps = [''Check target service logs for crashes or restarts'', ''Check load balancer idle timeout settings'',
       ''Verify keep-alive settings match between client and server'',
       ''Check firewall connection state table: conntrack -L | wc -l'',
       ''Implement automatic retry for idempotent operations''],
      kb_prevention = ''Align keep-alive timeouts; implement retry for transient errors; monitor connection reset rates'',
      kb_base_confidence = 70, kb_base_risk_score = 55\<rparr>,
     \<lparr>kb_id = ''app-ssl-handshake-failure'', kb_category = ''application'', kb_sub_category = ''generic'',
      kb_keywords = [''ssl handshake'', ''tls handshake'', ''handshake failure'', ''certificate expired''],
      kb_anti_words = [], kb_metric_name = [], kb_severity = ''high'',
      kb_root_cause = (''TLS/SSL handshake failed '' @ [CHR 0xE2, CHR 0x80, CHR 0x94] @ '' certificate issue, protocol mismatch, or cipher incompatibility''),
      kb_reasoning = [''TLS handshake failures block all encrypted communication to the endpoint'',
       ''Common causes: expired certificate, untrusted CA, hostname mismatch, or TLS version mismatch'',
       ''After a certificate expires, all clients fail simultaneously''],
      kb_impact = ''All HTTPS/TLS connections to the endpoint fail; services cannot communicate securely'',
      kb_resolution_steps = [''Check certificate: openssl s_client -connect <host>:<port> 2>/dev/null | openssl x509 -noout -dates -subject -issuer'',
       ''Verify certificate covers the hostname: check SAN (Subject Alternative Name)'',
       ''Check TLS version compatibility: openssl s_client -connect <host>:<port> -tls1_2'',
       ''Renew certificate if expired'',
       ''Check cipher suite compatibility: openssl s_client -connect <host>:<port> -cipher <suite>''],
      kb_prevention = ''Monitor certificate expiry 30+ days in advance; automate renewal; maintain a certificate inventory'',
      kb_base_confidence = 80, kb_base_risk_score = 70\<rparr>,
     \<lparr>kb_id = ''app-auth-failure-401'', kb_category = ''application'', kb_sub_category = ''generic'',
      kb_keywords = [''401 unauthorized'', ''authentication failure'', ''auth failed'', ''invalid credentials'', ''token expired''],
      kb_anti_words = [], kb_metric_name = [], kb_severity = ''high'',
      kb_root_cause = (''Authentication failure '' @ [CHR 0xE2, CHR 0x80, CHR 0x94] @ '' credentials, tokens, or API keys are invalid or expired''),
      kb_reasoning = [(''The service rejected authentication '' @ [CHR 0xE2, CHR 0x80, CHR 0x94] @ '' this is not a connectivity issue''),
       ''Common causes: rotated API keys, expired JWT tokens, or wrong credentials in config'',
       ''If all requests suddenly fail with 401, a credential rotation likely happened''],
      kb_impact = ''All authenticated requests to the service fail; functionality requiring this service is broken'',
      kb_resolution_steps = [''Check if API keys or passwords were recently rotated'',
       ''Verify credentials in environment variables or secrets manager'',
       ''Check token expiry: decode JWT at jwt.io to check exp claim'',
       ''Regenerate API key if compromised or expired'',
       ''Check if the service account was deactivated or permissions changed''],
      kb_prevention = ''Automate credential rotation with advance notice; monitor 401 response rates; use short-lived tokens with auto-refresh'',
      kb_base_confidence = 75, kb_base_risk_score = 55\<rparr>,
     \<lparr>kb_id = ''app-permission-denied-403'', kb_category = ''application'', kb_sub_category = ''generic'',
      kb_keywords = [''403 forbidden'', ''permission denied'', ''access denied'', ''forbidden''],
      kb_anti_words = [''filesystem'', ''file permission'', ''linux permission''], kb_metric_name = [],
      kb_severity = ''medium'',
      kb_root_cause = (''Authorization failure '' @ [CHR 0xE2, CHR 0x80, CHR 0x94] @ '' the authenticated identity lacks permission for the requested operation''),
      kb_reasoning = [''Authentication succeeded but the user/service does not have the required permissions'',
       ''Common after role changes, policy updates, or resource permission modifications'',
       ''IAM policy changes can take minutes to propagate in cloud environments''],
      kb_impact = ''Specific operations are blocked; the service can still perform other authorized operations'',
      kb_resolution_steps = [''Identify which permission is needed from the 403 response body'',
       ''Check IAM/RBAC policies for the service account or user'',
       ''Grant the required permission: follow least-privilege principle'',
       ''If cloud: check resource-level policies (S3 bucket policy, GCS IAM)'',
       ''Wait 5-10 minutes for IAM policy propagation in cloud environments''],
      kb_prevention = ''Test IAM policies in staging before production; audit permission changes; use infrastructure-as-code for policies'',
      kb_base_confidence = 70, kb_base_risk_score = 45\<rparr>,
     \<lparr>kb_id = ''app-rate-limited-429'', kb_category = ''application'', kb_sub_category = ''generic'',
      kb_keywords = [''429 too many requests'', ''rate limited'', ''throttled'', ''rate limit exceeded''],
      kb_anti_words = [], kb_metric_name = [], kb_severity = ''medium'',
      kb_root_cause = (''API rate limit exceeded '' @ [CHR 0xE2, CHR 0x80, CHR 0x94] @ '' the service is sending too many requests''),
      kb_reasoning = [''The upstream API has a rate limit and the application is exceeding it'',
       (''Retry storms can amplify rate limiting '' @ [CHR 0xE2, CHR 0x80, CHR 0x94] @ '' failed requests retry immediately and hit the limit again''),
       ''Bursty traffic patterns can exceed per-second limits even when average is within budget''],
      kb_impact = ''Requests to the rate-limited API fail; dependent functionality degrades'',
      kb_resolution_steps = [''Check the Retry-After header in the 429 response for wait time'',
       ''Implement exponential backoff: wait 2^n seconds between retries'',
       ''Add request queuing or batching to smooth out burst traffic'', ''Reduce request rate by caching responses'',
       ''Request a higher rate limit from the API provider if legitimately needed''],
      kb_prevention = ''Implement client-side rate limiting; use exponential backoff; cache responses; monitor request rates'',
      kb_base_confidence = 70, kb_base_risk_score = 45\<rparr>,
     \<lparr>kb_id = ''app-internal-server-error-500'', kb_category = ''application'', kb_sub_category = ''generic'',
      kb_keywords = [''500 internal server error'', ''internal server error'', ''500 error''], kb_anti_words = [],
      kb_metric_name = [], kb_severity = ''high'',
      kb_root_cause = (''Upstream service returned HTTP 500 '' @ [CHR 0xE2, CHR 0x80, CHR 0x94] @ '' an unhandled error occurred on the server''),
      kb_reasoning = [''500 errors indicate a bug or unhandled exception in the upstream service'',
       ''The error is on the server side, not the client side'',
       ''If intermittent: may be a race condition or resource exhaustion; if constant: a bug or outage''],
      kb_impact = ''Requests to the upstream fail; functionality depending on it is broken'',
      kb_resolution_steps = [''Check the upstream service error logs for the stack trace'',
       ''Look for recent deployments to the upstream service'', ''Check if the 500 is intermittent or constant'',
       ''If intermittent: check for resource exhaustion (DB connections, memory, threads)'',
       ''If constant: rollback the upstream service to the previous version''],
      kb_prevention = ''Add comprehensive error handling; implement canary deployments; monitor 5xx rates per service'',
      kb_base_confidence = 65, kb_base_risk_score = 60\<rparr>,
     \<lparr>kb_id = ''app-bad-gateway-502'', kb_category = ''application'', kb_sub_category = ''generic'',
      kb_keywords = [''502 bad gateway'', ''bad gateway'', ''502''], kb_anti_words = [], kb_metric_name = [],
      kb_severity = ''high'',
      kb_root_cause = ''Load balancer or proxy received an invalid response from the upstream service'',
      kb_reasoning = [''502 means the proxy connected to the backend but got a malformed response'',
       ''Common causes: backend crashed mid-request, backend not ready, or protocol mismatch'',
       (''The proxy (nginx, ALB, ingress) is working '' @ [CHR 0xE2, CHR 0x80, CHR 0x94] @ '' the issue is the backend behind it'')],
      kb_impact = ''Requests fail at the proxy layer; end users see 502 errors'',
      kb_resolution_steps = [''Check backend service health: is it running and responding?'',
       ''Check proxy/load balancer logs for connection errors to backends'',
       ''Verify backend health check is passing'',
       ''Check if backend process crashed: systemctl status <service> or kubectl get pods'',
       ''Restart backend service if it is in a bad state''],
      kb_prevention = ''Implement proper health checks; use graceful shutdown in backends; configure proxy timeouts appropriately'',
      kb_base_confidence = 70, kb_base_risk_score = 65\<rparr>]"

definition generic_app_entries_2 :: "KnowledgeEntry list" where
  "generic_app_entries_2 =
    [\<lparr>kb_id = ''app-service-unavailable-503'', kb_category = ''application'', kb_sub_category = ''generic'',
      kb_keywords = [''503 service unavailable'', ''service unavailable'', ''503''], kb_anti_words = [],
      kb_metric_name = [], kb_severity = ''high'',
      kb_root_cause = (''Service is temporarily unavailable '' @ [CHR 0xE2, CHR 0x80, CHR 0x94] @ '' typically overloaded or in maintenance''),
      kb_reasoning = [''503 indicates the server cannot handle the request right now but may recover'',
       ''Common causes: all backends down, circuit breaker open, or maintenance mode'',
       (''Unlike 500, 503 is often intentional '' @ [CHR 0xE2, CHR 0x80, CHR 0x94] @ '' the service is protecting itself from overload'')],
      kb_impact = ''All requests to the service fail; users experience outage'',
      kb_resolution_steps = [''Check if the service is in maintenance mode'', ''Check backend instance health: are pods/instances running?'',
       ''Check if a circuit breaker tripped: review circuit breaker metrics'',
       ''Scale up backend instances if overloaded'',
       ''Check if a deployment is in progress and wait for it to complete''],
      kb_prevention = ''Implement auto-scaling; use circuit breakers with sensible thresholds; add health checks; implement graceful degradation'',
      kb_base_confidence = 70, kb_base_risk_score = 65\<rparr>,
     \<lparr>kb_id = ''app-gateway-timeout-504'', kb_category = ''application'', kb_sub_category = ''generic'',
      kb_keywords = [''504 gateway timeout'', ''gateway timeout'', ''504''], kb_anti_words = [], kb_metric_name = [],
      kb_severity = ''high'',
      kb_root_cause = ''The proxy/load balancer timed out waiting for a response from the backend'',
      kb_reasoning = [(''504 means the backend did not respond within the proxy'' @ [CHR 0x27] @ ''s configured timeout''),
       ''The backend is likely processing a slow query, waiting on a dependency, or hung'',
       (''The proxy timeout is typically 60 seconds '' @ [CHR 0xE2, CHR 0x80, CHR 0x94] @ '' if the backend takes longer, it gets a 504'')],
      kb_impact = ''Long-running requests fail; users see timeout errors'',
      kb_resolution_steps = [''Check backend service response times: are requests slow?'',
       ''Increase proxy timeout if long requests are expected (nginx: proxy_read_timeout)'',
       ''Check backend for slow database queries or dependency timeouts'',
       ''Move long operations to async processing with a job queue'',
       ''Check if the backend is deadlocked or GC-paused''],
      kb_prevention = ''Optimize slow operations; use async processing for long tasks; set appropriate proxy timeouts; add request timeout monitoring'',
      kb_base_confidence = 70, kb_base_risk_score = 60\<rparr>,
     \<lparr>kb_id = ''app-file-descriptor-exhaustion'', kb_category = ''application'', kb_sub_category = ''generic'',
      kb_keywords = [''too many open files'', ''file descriptor'', ''ulimit'', ''emfile'', ''enfile''],
      kb_anti_words = [''node'', ''go''], kb_metric_name = [], kb_severity = ''high'',
      kb_root_cause = (''Process has exhausted its file descriptor limit '' @ [CHR 0xE2, CHR 0x80, CHR 0x94] @ '' cannot open new files or sockets''),
      kb_reasoning = [''Every open file, socket, and pipe uses a file descriptor'',
       ''The default ulimit (1024) is often too low for server processes'',
       ''Leaked connections or unclosed files gradually exhaust the limit''],
      kb_impact = ''Cannot open new files or network connections; service degrades and fails'',
      kb_resolution_steps = [(''Check current limit and usage: cat /proc/<PID>/limits | grep '' @ [CHR 0x27] @ ''Max open files'' @ [CHR 0x27] @ '' && ls /proc/<PID>/fd | wc -l''),
       ''Increase limit: ulimit -n 65536 (temporary) or edit /etc/security/limits.conf (permanent)'',
       ''For systemd: add LimitNOFILE=65536 to the service unit'',
       ''Find leaked file descriptors: lsof -p <PID> | sort -k9 | tail -20'',
       ''Fix leaked connections in application code''],
      kb_prevention = ''Set high ulimit for server processes; audit code for resource leaks; monitor open FD count'',
      kb_base_confidence = 75, kb_base_risk_score = 65\<rparr>,
     \<lparr>kb_id = ''app-segfault'', kb_category = ''application'', kb_sub_category = ''generic'',
      kb_keywords = [''segfault'', ''segmentation fault'', ''core dumped'', ''sigsegv''], kb_anti_words = [],
      kb_metric_name = [], kb_severity = ''critical'',
      kb_root_cause = (''Process received SIGSEGV '' @ [CHR 0xE2, CHR 0x80, CHR 0x94] @ '' segmentation fault from invalid memory access''),
      kb_reasoning = [''The process accessed memory that it is not allowed to (null pointer, freed memory, stack overflow)'',
       ''Common in C/C++ applications, native library bindings, or JNI/CGo code'',
       ''A core dump may have been generated for post-mortem analysis''],
      kb_impact = ''Process crash; all in-flight operations are lost; requires restart'',
      kb_resolution_steps = [''Check for core dump: ls /var/crash/ or /tmp/core.*'', ''Analyze core dump: gdb <program> <core-dump>'',
       ''Check dmesg for the fault details: dmesg | grep segfault'',
       ''If in a native library: check library version compatibility'',
       ''Enable core dumps: ulimit -c unlimited && sysctl kernel.core_pattern=/tmp/core.%e.%p''],
      kb_prevention = ''Use memory-safe languages; run with AddressSanitizer in testing; keep native libraries updated'',
      kb_base_confidence = 85, kb_base_risk_score = 80\<rparr>,
     \<lparr>kb_id = ''app-dns-failure'', kb_category = ''application'', kb_sub_category = ''generic'',
      kb_keywords = [''dns resolution failure'', ''name resolution failed'', ''could not resolve host''],
      kb_anti_words = [''kubernetes'', ''coredns'', ''node'', ''go''], kb_metric_name = [], kb_severity = ''critical'',
      kb_root_cause = (''DNS resolution failed '' @ [CHR 0xE2, CHR 0x80, CHR 0x94] @ '' the application cannot resolve hostnames to IP addresses''),
      kb_reasoning = [''DNS failures affect all hostname-based connections across the application'',
       ''The DNS server may be unreachable, overloaded, or misconfigured'',
       ''Cached DNS entries expire after TTL, so failures appear with a delay after DNS goes down''],
      kb_impact = ''All connections using hostnames fail; virtually every external dependency becomes unreachable'',
      kb_resolution_steps = [''Test DNS: dig <hostname> @<dns_server>'', ''Check resolv.conf: cat /etc/resolv.conf'',
       ''Try public DNS: dig <hostname> @8.8.8.8'', ''Restart DNS resolver: systemctl restart systemd-resolved'',
       ''Check if DNS port (UDP 53) is blocked by firewall''],
      kb_prevention = ''Use multiple DNS servers; implement DNS caching; monitor DNS resolution latency'',
      kb_base_confidence = 80, kb_base_risk_score = 80\<rparr>]"

definition generic_app_entries :: "KnowledgeEntry list" where
  "generic_app_entries = generic_app_entries_1 @ generic_app_entries_2"

end
