(* ===== verification/KbDatabase.thy ===== *)
theory KbDatabase
  imports KnowledgeMatch
begin

text \<open>
  The entries of \<open>services/kb_database.go\<close>: PostgreSQL, MySQL, Redis and MongoDB.
  One definition per builder, in the order of the source; a long builder is in numbered pieces.
\<close>

definition postgres_entries_1 :: "KnowledgeEntry list" where
  "postgres_entries_1 =
    [\<lparr>kb_id = ''pg-conn-refused'', kb_category = ''database'', kb_sub_category = ''postgres'',
      kb_keywords = [''connection refused 5432'', ''postgres connection refused'', ''could not connect to server postgres''],
      kb_anti_words = [], kb_metric_name = [], kb_severity = ''critical'',
      kb_root_cause = (''PostgreSQL is not accepting connections '' @ [CHR 0xE2, CHR 0x80, CHR 0x94] @ '' the database server may be down''),
      kb_reasoning = [''Nothing is listening on port 5432, which means the PostgreSQL process is not running'',
       ''Could be a crash, failed restart, or the server was intentionally stopped'',
       ''All services depending on this database are affected simultaneously''],
      kb_impact = ''Complete database outage; all queries fail; application cannot read or write data'',
      kb_resolution_steps = [''Check PostgreSQL status: systemctl status postgresql'',
       ''Check for crash logs: tail -100 /var/log/postgresql/postgresql-*-main.log'',
       ''Restart PostgreSQL: systemctl restart postgresql'',
       ''If crash-looping: check disk space (df -h) and memory (free -h)'',
       ''Check pg_hba.conf for connection restrictions: cat /etc/postgresql/*/main/pg_hba.conf''],
      kb_prevention = ''Monitor PostgreSQL process health; set up automatic failover with Patroni/repmgr; use connection pooling (PgBouncer)'',
      kb_base_confidence = 90, kb_base_risk_score = 90\<rparr>,
     \<lparr>kb_id = ''pg-too-many-connections'', kb_category = ''database'', kb_sub_category = ''postgres'',
      kb_keywords = [''too many connections'', ''remaining connection slots'', ''max_connections postgres''],
      kb_anti_words = [], kb_metric_name = [], kb_severity = ''critical'',
      kb_root_cause = (''PostgreSQL has reached its maximum connection limit '' @ [CHR 0xE2, CHR 0x80, CHR 0x94] @ '' no new connections can be established''),
      kb_reasoning = [''Default max_connections is 100, which is easily exhausted without connection pooling'',
       ''Each connection consumes ~10MB of memory plus backend process overhead'',
       ''Connection leaks, pool misconfigurations, or traffic spikes cause exhaustion''],
      kb_impact = ''New queries and connections are rejected; applications fail to connect; users see errors'',
      kb_resolution_steps = [''Check current connections: SELECT count(*), state FROM pg_stat_activity GROUP BY state'',
       (''Kill idle connections: SELECT pg_terminate_backend(pid) FROM pg_stat_activity WHERE state = '' @ [CHR 0x27] @ ''idle'' @ [CHR 0x27] @ '' AND query_start < now() - interval '' @ [CHR 0x27] @ ''5 minutes'' @ [CHR 0x27]),
       ''Increase max_connections in postgresql.conf (requires restart): max_connections = 200'',
       ''Deploy PgBouncer as connection pooler: pgbouncer -d pgbouncer.ini'',
       ''Check for connection leaks in application code: ensure connections are returned to pool''],
      kb_prevention = ''Use PgBouncer for connection pooling; set idle_in_transaction_session_timeout; monitor connection count'',
      kb_base_confidence = 85, kb_base_risk_score = 85\<rparr>,
     \<lparr>kb_id = ''pg-auth-failed'', kb_category = ''database'', kb_sub_category = ''postgres'',
      kb_keywords = [''password authentication failed'', ''auth failed postgres'', ''pg_hba.conf rejects''],
      kb_anti_words = [], kb_metric_name = [], kb_severity = ''high'',
      kb_root_cause = (''PostgreSQL authentication failed '' @ [CHR 0xE2, CHR 0x80, CHR 0x94] @ '' wrong password or pg_hba.conf rejects the connection method''),
      kb_reasoning = [''The credentials in the application config do not match the PostgreSQL user password'',
       ''pg_hba.conf may require a different authentication method (peer, md5, scram-sha-256)'',
       ''This may follow a password rotation that was not propagated to all services''],
      kb_impact = ''Applications using the failed credentials cannot connect; service outage for affected apps'',
      kb_resolution_steps = [''Verify the password in application config matches PostgreSQL: PGPASSWORD=<pwd> psql -h <host> -U <user> <db>'',
       (''Check pg_hba.conf: cat /etc/postgresql/*/main/pg_hba.conf | grep -v '' @ [CHR 0x27] @ ''^#'' @ [CHR 0x27]),
       (''Reset the password: ALTER USER <username> PASSWORD '' @ [CHR 0x27] @ ''<new_password>'' @ [CHR 0x27]),
       ''Reload pg_hba.conf after changes: SELECT pg_reload_conf()'',
       ''Check if password was recently rotated in secrets manager and update application config''],
      kb_prevention = ''Use secrets manager with automatic rotation; synchronize password changes across all services; test auth before cutover'',
      kb_base_confidence = 80, kb_base_risk_score = 65\<rparr>,
     \<lparr>kb_id = ''pg-database-not-exist'', kb_category = ''database'', kb_sub_category = ''postgres'',
      kb_keywords = [''database does not exist'', ''database not found postgres'', ''fatal: database''],
      kb_anti_words = [], kb_metric_name = [], kb_severity = ''high'',
      kb_root_cause = ''PostgreSQL connection failed because the specified database does not exist'',
      kb_reasoning = [''The database name in the connection string is wrong or the database was dropped'',
       ''May occur after a migration or environment setup issue'',
       ''Check if the database name uses uppercase or special characters that require quoting''],
      kb_impact = ''Application cannot connect at all; complete functionality failure for affected service'',
      kb_resolution_steps = [''List existing databases: psql -l'', ''Create the database if missing: CREATE DATABASE <name>'',
       ''Check connection string in application config for typos'',
       ''If migrating: ensure the database was created before running migrations'',
       ''Check if the database was accidentally dropped: review PostgreSQL logs''],
      kb_prevention = ''Include database creation in deployment scripts; protect production databases with pg_hba.conf restrictions'',
      kb_base_confidence = 80, kb_base_risk_score = 60\<rparr>,
     \<lparr>kb_id = ''pg-relation-not-exist'', kb_category = ''database'', kb_sub_category = ''postgres'',
      kb_keywords = [''relation does not exist'', ''table not found postgres'', ''undefined table''],
      kb_anti_words = [], kb_metric_name = [], kb_severity = ''high'',
      kb_root_cause = ''Query references a table or view that does not exist in the database'',
      kb_reasoning = [''The table was not created (migration not run), was dropped, or the schema is wrong'',
       ''Search_path may not include the schema where the table lives'',
       ''Case-sensitive table names require double-quoting in queries''],
      kb_impact = ''Queries referencing this table fail; specific functionality is broken'',
      kb_resolution_steps = [(''Check if table exists: '' @ [CHR 0x5C] @ ''dt <table_name> or SELECT * FROM information_schema.tables WHERE table_name = '' @ [CHR 0x27] @ ''<name>'' @ [CHR 0x27]),
       ''Run pending migrations: alembic upgrade head / migrate / flyway migrate'',
       ''Check search_path: SHOW search_path'', ''If wrong schema: SET search_path TO <schema>,public'',
       ''Check for case sensitivity: table names are lowercase unless double-quoted''],
      kb_prevention = ''Run migrations as part of deployment pipeline; validate schema after migration; use CI checks for SQL syntax'',
      kb_base_confidence = 75, kb_base_risk_score = 55\<rparr>,
     \<lparr>kb_id = ''pg-deadlock'', kb_category = ''database'', kb_sub_category = ''postgres'',
      kb_keywords = [''deadlock detected'', ''deadlock postgres''], kb_anti_words = [], kb_metric_name = [],
      kb_severity = ''high'', kb_root_cause = ''PostgreSQL detected a deadlock between two or more transactions'',
      kb_reasoning = [''Two transactions each hold locks that the other needs, creating a circular wait'',
       ''PostgreSQL automatically aborts one transaction to break the deadlock'',
       ''The aborted transaction receives an error; the other proceeds normally''],
      kb_impact = ''One transaction is rolled back with an error; retry logic can usually recover'',
      kb_resolution_steps = [''Check deadlock details in PostgreSQL logs: grep -i deadlock /var/log/postgresql/*.log | tail -20'',
       ''Review the two queries involved to understand the lock ordering conflict'',
       ''Ensure all transactions access tables in the same order (e.g., always lock table A before table B)'',
       ''Add retry logic in the application for deadlock errors'',
       ''Use SELECT ... FOR UPDATE SKIP LOCKED for queue-like patterns''],
      kb_prevention = ''Standardize lock ordering across the application; add retry logic for deadlock errors; use advisory locks for complex coordination'',
      kb_base_confidence = 80, kb_base_risk_score = 55\<rparr>,
     \<lparr>kb_id = ''pg-out-of-shared-memory'', kb_category = ''database'', kb_sub_category = ''postgres'',
      kb_keywords = [''out of shared memory'', ''shared memory postgres'', ''shmem''], kb_anti_words = [],
      kb_metric_name = [], kb_severity = ''critical'',
      kb_root_cause = (''PostgreSQL ran out of shared memory '' @ [CHR 0xE2, CHR 0x80, CHR 0x94] @ '' cannot allocate resources for locks or buffers''),
      kb_reasoning = [''Shared memory is used for shared_buffers, lock tables, and inter-process communication'',
       ''Too many concurrent locks (large batch operations) can exhaust the lock table'',
       ''shared_buffers may be set too high relative to available system memory''],
      kb_impact = ''Queries fail; new connections may be rejected; database becomes partially unusable'',
      kb_resolution_steps = [''Check shared memory settings: SHOW shared_buffers; SHOW max_locks_per_transaction'',
       ''If lock table full: reduce batch sizes in application queries'',
       ''Increase max_locks_per_transaction in postgresql.conf (requires restart)'',
       ''Check system shared memory: sysctl kernel.shmmax'',
       ''Increase kernel.shmmax: sysctl -w kernel.shmmax=<bytes>''],
      kb_prevention = ''Size shared_buffers to 25% of RAM; set max_locks_per_transaction based on workload; monitor shared memory usage'',
      kb_base_confidence = 80, kb_base_risk_score = 80\<rparr>,
     \<lparr>kb_id = ''pg-standby-conflict'', kb_category = ''database'', kb_sub_category = ''postgres'',
      kb_keywords = [''canceling statement due to conflict'', ''conflict with recovery'', ''standby conflict''],
      kb_anti_words = [], kb_metric_name = [], kb_severity = ''medium'',
      kb_root_cause = ''Query on PostgreSQL replica was cancelled because it conflicts with WAL replay'',
      kb_reasoning = [''Hot standby must replay WAL records to stay in sync with the primary'',
       ''If a query on the standby holds a snapshot that conflicts with a WAL operation, the query is cancelled'',
       ''This is more common with long-running analytical queries on replicas''],
      kb_impact = ''Read queries on the replica are cancelled; application sees query errors'',
      kb_resolution_steps = [(''Increase standby delay: SET max_standby_streaming_delay = '' @ [CHR 0x27] @ ''60s'' @ [CHR 0x27]),
       ''Enable hot_standby_feedback on the replica: ALTER SYSTEM SET hot_standby_feedback = on'',
       ''Use a dedicated replica for analytics with higher delay tolerance'',
       ''Optimize long-running queries to reduce snapshot hold time'',
       ''Reload configuration: SELECT pg_reload_conf()''],
      kb_prevention = ''Set hot_standby_feedback=on; use dedicated replicas for analytics; keep analytical queries short'',
      kb_base_confidence = 70, kb_base_risk_score = 45\<rparr>,
     \<lparr>kb_id = ''pg-replication-lag'', kb_category = ''database'', kb_sub_category = ''postgres'',
      kb_keywords = [''replication lag'', ''replication delay'', ''pg_stat_replication'', ''replica lag postgres''],
      kb_anti_words = [], kb_metric_name = [], kb_severity = ''high'',
      kb_root_cause = (''PostgreSQL replication is lagging '' @ [CHR 0xE2, CHR 0x80, CHR 0x94] @ '' the replica is behind the primary''),
      kb_reasoning = [''Replication lag means reads from the replica return stale data'',
       ''Common causes: network bandwidth between primary and replica, slow disk on replica, or heavy write load'',
       ''Large transactions (bulk imports) can cause temporary replication lag spikes''],
      kb_impact = ''Read queries on replica return stale data; failover to replica would lose recent writes'',
      kb_resolution_steps = [''Check lag: SELECT now() - pg_last_xact_replay_timestamp() AS replication_lag'',
       ''On primary: SELECT pid, client_addr, state, sent_lsn, write_lsn, replay_lsn FROM pg_stat_replication'',
       ''Check network bandwidth: iperf3 -c <replica_host>'', ''Check replica disk I/O: iostat -x 1 5 on the replica'',
       ''If chronic: increase wal_sender_timeout and consider faster network/disk''],
      kb_prevention = ''Monitor replication lag; provision fast disks on replicas; set up lag alerts at > 10s'',
      kb_base_confidence = 75, kb_base_risk_score = 65\<rparr>]"

definition postgres_entries_2 :: "KnowledgeEntry list" where
  "postgres_entries_2 =
    [\<lparr>kb_id = ''pg-disk-full'', kb_category = ''database'', kb_sub_category = ''postgres'',
      kb_keywords = [''no space left on device postgres'', ''disk full postgres'', ''could not write to file postgres''],
      kb_anti_words = [], kb_metric_name = [], kb_severity = ''critical'',
      kb_root_cause = (''PostgreSQL data directory disk is full '' @ [CHR 0xE2, CHR 0x80, CHR 0x94] @ '' all writes fail''),
      kb_reasoning = [''PostgreSQL needs disk space for WAL, data files, temp files, and pg_xlog/pg_wal'',
       ''Without space for WAL, the database cannot commit transactions'',
       ''Disk full during a checkpoint can cause data corruption''],
      kb_impact = ''All write operations fail; database may crash; risk of data corruption'',
      kb_resolution_steps = [''Check disk: df -h $(SHOW data_directory)'',
       (''Clear WAL archives if using archiving: find /archive -name '' @ [CHR 0x27] @ ''*.gz'' @ [CHR 0x27] @ '' -mtime +7 -delete''),
       ''Remove old backups from the data disk'',
       ''Vacuum to reclaim space: VACUUM FULL <large_table> (requires exclusive lock)'',
       ''Expand the data volume: resize2fs /dev/<device> (after expanding underlying storage)''],
      kb_prevention = ''Monitor data directory disk usage; separate WAL to its own volume; automate WAL archival cleanup'',
      kb_base_confidence = 90, kb_base_risk_score = 95\<rparr>,
     \<lparr>kb_id = ''pg-slow-query'', kb_category = ''database'', kb_sub_category = ''postgres'',
      kb_keywords = [''slow query postgres'', ''query time exceeded'', ''statement timeout postgres''],
      kb_anti_words = [], kb_metric_name = [], kb_severity = ''medium'',
      kb_root_cause = (''PostgreSQL query is running longer than expected '' @ [CHR 0xE2, CHR 0x80, CHR 0x94] @ '' possible missing index or table scan''),
      kb_reasoning = [''A query exceeding a few seconds in OLTP workloads usually indicates a missing index'',
       ''The query planner may be choosing a sequential scan due to stale statistics'',
       ''Large result sets being materialized in memory can also cause slow queries''],
      kb_impact = ''Slow queries hold connections longer, reducing pool throughput; user-facing latency increases'',
      kb_resolution_steps = [(''Identify the slow query: SELECT pid, now() - query_start AS duration, query FROM pg_stat_activity WHERE state = '' @ [CHR 0x27] @ ''active'' @ [CHR 0x27] @ '' ORDER BY duration DESC LIMIT 10''),
       ''Analyze the query plan: EXPLAIN (ANALYZE, BUFFERS) <query>'',
       ''Check for missing indexes: look for Seq Scan on large tables in the plan'',
       ''Create an index: CREATE INDEX CONCURRENTLY idx_name ON table(column)'',
       ''Update statistics: ANALYZE <table>''],
      kb_prevention = ''Enable pg_stat_statements; set log_min_duration_statement=1000; review slow query logs regularly'',
      kb_base_confidence = 70, kb_base_risk_score = 50\<rparr>,
     \<lparr>kb_id = ''pg-idle-in-transaction'', kb_category = ''database'', kb_sub_category = ''postgres'',
      kb_keywords = [''idle in transaction'', ''long transaction'', ''transaction idle postgres''], kb_anti_words = [],
      kb_metric_name = [], kb_severity = ''medium'',
      kb_root_cause = ''A PostgreSQL session has been idle inside a transaction for too long, holding locks and preventing VACUUM'',
      kb_reasoning = [''An idle-in-transaction session holds locks and prevents autovacuum from cleaning dead tuples'',
       ''Common causes: application code that opens a transaction but forgets to commit/rollback'',
       ''Network issues between application and database can leave transactions hanging''],
      kb_impact = ''Table bloat from blocked autovacuum; locks may block other queries; connection pool slot wasted'',
      kb_resolution_steps = [(''Find idle transactions: SELECT pid, now() - xact_start AS duration, query FROM pg_stat_activity WHERE state = '' @ [CHR 0x27] @ ''idle in transaction'' @ [CHR 0x27] @ '' ORDER BY duration DESC''),
       (''Kill old idle transactions: SELECT pg_terminate_backend(pid) FROM pg_stat_activity WHERE state = '' @ [CHR 0x27] @ ''idle in transaction'' @ [CHR 0x27] @ '' AND xact_start < now() - interval '' @ [CHR 0x27] @ ''10 minutes'' @ [CHR 0x27]),
       (''Set timeout: ALTER SYSTEM SET idle_in_transaction_session_timeout = '' @ [CHR 0x27] @ ''5min'' @ [CHR 0x27]),
       ''Reload config: SELECT pg_reload_conf()'', ''Fix application code to properly commit/rollback transactions''],
      kb_prevention = ''Set idle_in_transaction_session_timeout=300000; use connection pool health checks; audit transaction management in code'',
      kb_base_confidence = 70, kb_base_risk_score = 50\<rparr>,
     \<lparr>kb_id = ''pg-lock-timeout'', kb_category = ''database'', kb_sub_category = ''postgres'',
      kb_keywords = [''lock timeout'', ''lock wait timeout postgres'', ''waiting for lock postgres''],
      kb_anti_words = [], kb_metric_name = [], kb_severity = ''high'',
      kb_root_cause = ''PostgreSQL query timed out waiting to acquire a lock held by another transaction'',
      kb_reasoning = [''Another transaction is holding the required lock (row lock, table lock, or advisory lock)'',
       ''DDL operations like ALTER TABLE acquire exclusive locks that block all queries'',
       ''Long-running transactions can hold locks for extended periods''],
      kb_impact = ''Blocked queries fail or hang; application requests time out; potential cascading timeouts'',
      kb_resolution_steps = [''Find blocking queries: SELECT blocked.pid AS blocked_pid, blocked.query AS blocked_query, blocking.pid AS blocking_pid, blocking.query AS blocking_query FROM pg_stat_activity blocked JOIN pg_locks bl ON bl.pid = blocked.pid JOIN pg_locks bk ON bk.pid != bl.pid AND bk.relation = bl.relation JOIN pg_stat_activity blocking ON blocking.pid = bk.pid WHERE NOT bl.granted'',
       ''Kill the blocking query: SELECT pg_terminate_backend(<blocking_pid>)'',
       (''Set lock_timeout: SET lock_timeout = '' @ [CHR 0x27] @ ''5s'' @ [CHR 0x27]),
       ''Use CONCURRENTLY for index creation: CREATE INDEX CONCURRENTLY ...'',
       ''Schedule DDL operations during maintenance windows''],
      kb_prevention = ''Set lock_timeout globally; use CREATE INDEX CONCURRENTLY; avoid DDL during peak traffic; keep transactions short'',
      kb_base_confidence = 75, kb_base_risk_score = 60\<rparr>,
     \<lparr>kb_id = ''pg-connection-pool-pgbouncer'', kb_category = ''database'', kb_sub_category = ''postgres'',
      kb_keywords = [''pgbouncer'', ''connection pool exhausted postgres'', ''pgbouncer pool full''],
      kb_anti_words = [], kb_metric_name = [], kb_severity = ''high'',
      kb_root_cause = (''PgBouncer connection pool is exhausted '' @ [CHR 0xE2, CHR 0x80, CHR 0x94] @ '' no available connections for new queries''),
      kb_reasoning = [''All pooled connections are in use by active queries'',
       ''Slow queries hold connections longer, reducing effective pool size'',
       ''PgBouncer pool size may be too small for the current workload''],
      kb_impact = ''New database queries are queued or rejected; application response times increase'',
      kb_resolution_steps = [''Check pool status: SHOW POOLS in pgbouncer admin console'',
       ''Check server connections: SHOW SERVERS in pgbouncer admin console'',
       ''Increase pool size: edit default_pool_size in pgbouncer.ini'',
       ''Kill long-running queries on the database side'', ''Restart PgBouncer: systemctl restart pgbouncer''],
      kb_prevention = ''Monitor PgBouncer pool utilization; size pools based on peak workload; optimize slow queries'',
      kb_base_confidence = 75, kb_base_risk_score = 65\<rparr>,
     \<lparr>kb_id = ''pg-wal-archive-failed'', kb_category = ''database'', kb_sub_category = ''postgres'',
      kb_keywords = [''archive command failed'', ''wal archive failed'', ''wal archiving postgres''],
      kb_anti_words = [], kb_metric_name = [], kb_severity = ''high'',
      kb_root_cause = (''PostgreSQL WAL archiving is failing '' @ [CHR 0xE2, CHR 0x80, CHR 0x94] @ '' cannot send WAL segments to the archive destination''),
      kb_reasoning = [''WAL archiving is required for point-in-time recovery (PITR)'',
       ''If archiving fails, pg_wal directory fills up, eventually causing disk full'',
       ''Common causes: archive destination unreachable, disk full at destination, or permissions issue''],
      kb_impact = ''PITR capability is lost; pg_wal directory may fill up and crash the database'',
      kb_resolution_steps = [''Check archive status: SELECT * FROM pg_stat_archiver'',
       ''Test archive command manually: run the archive_command with a WAL file'',
       ''Check archive destination: verify disk space and permissions'', ''Fix archive_command in postgresql.conf'',
       ''If pg_wal is growing: free space urgently and fix archiving''],
      kb_prevention = ''Monitor pg_stat_archiver; alert on archive failures; test archive destination connectivity'',
      kb_base_confidence = 75, kb_base_risk_score = 70\<rparr>,
     \<lparr>kb_id = ''pg-sequence-overflow'', kb_category = ''database'', kb_sub_category = ''postgres'',
      kb_keywords = [''sequence overflow'', ''nextval out of range'', ''integer out of range postgres''],
      kb_anti_words = [], kb_metric_name = [], kb_severity = ''critical'',
      kb_root_cause = (''Integer primary key sequence has overflowed '' @ [CHR 0xE2, CHR 0x80, CHR 0x94] @ '' cannot generate new IDs''),
      kb_reasoning = [(''32-bit integer (SERIAL) max is 2,147,483,647 '' @ [CHR 0xE2, CHR 0x80, CHR 0x94] @ '' exhausted after ~2 billion inserts''),
       ''This prevents any new rows from being inserted into the table'',
       ''The fix requires a schema change (ALTER to BIGSERIAL) which takes a lock on the table''],
      kb_impact = ''Cannot insert new rows into the affected table; write operations fail with an error'',
      kb_resolution_steps = [(''Identify the sequence: SELECT * FROM information_schema.sequences WHERE sequence_name LIKE '' @ [CHR 0x27] @ ''%<table>%'' @ [CHR 0x27]),
       ''Check current value: SELECT last_value FROM <sequence_name>'',
       ''Alter column to BIGINT: ALTER TABLE <table> ALTER COLUMN id TYPE BIGINT'',
       ''Alter sequence: ALTER SEQUENCE <sequence_name> AS BIGINT'',
       ''If table is huge: use pg_repack for online column type change to avoid long lock''],
      kb_prevention = ''Use BIGSERIAL (BIGINT) for primary keys from the start; monitor sequence utilization'',
      kb_base_confidence = 85, kb_base_risk_score = 85\<rparr>,
     \<lparr>kb_id = ''pg-index-corruption'', kb_category = ''database'', kb_sub_category = ''postgres'',
      kb_keywords = [''invalid page'', ''index corrupt'', ''relation invalid postgres''], kb_anti_words = [],
      kb_metric_name = [], kb_severity = ''critical'',
      kb_root_cause = (''PostgreSQL index corruption detected '' @ [CHR 0xE2, CHR 0x80, CHR 0x94] @ '' queries using this index may return wrong results''),
      kb_reasoning = [''Index corruption can be caused by hardware failures, filesystem bugs, or PostgreSQL bugs'',
       ''Queries using the corrupt index silently return incorrect results'',
       ''Data in the table itself may still be correct even if the index is corrupt''],
      kb_impact = ''Queries may return incorrect results; data integrity is compromised'',
      kb_resolution_steps = [(''Verify corruption: SELECT * FROM pg_amcheck.check_index('' @ [CHR 0x27] @ ''<index_name>'' @ [CHR 0x27] @ '')''),
       ''Rebuild the index: REINDEX TABLE <table_name>'',
       ''For concurrent rebuild: REINDEX TABLE CONCURRENTLY <table_name> (PostgreSQL 12+)'',
       ''Check hardware: run SMART test on disk, check ECC memory'',
       ''If data corruption: restore from backup and replay WAL''],
      kb_prevention = ''Use ECC memory; monitor disk health; enable data checksums at initdb; run amcheck periodically'',
      kb_base_confidence = 85, kb_base_risk_score = 90\<rparr>,
     \<lparr>kb_id = ''pg-xid-wraparound'', kb_category = ''database'', kb_sub_category = ''postgres'',
      kb_keywords = [''transaction id wraparound'', ''xid wraparound'', ''vacuum to prevent wraparound''],
      kb_anti_words = [], kb_metric_name = [], kb_severity = ''critical'',
      kb_root_cause = (''PostgreSQL is at risk of transaction ID wraparound '' @ [CHR 0xE2, CHR 0x80, CHR 0x94] @ '' data will become invisible without VACUUM FREEZE''),
      kb_reasoning = [''PostgreSQL uses 32-bit transaction IDs that wrap around after ~2 billion transactions'',
       ''Without VACUUM FREEZE, old tuples become invisible (appears as data loss)'',
       ''At 40 million transactions remaining, PostgreSQL enters read-only mode to prevent corruption''],
      kb_impact = ''Data becomes invisible; database may enter read-only mode; effectively a data loss scenario'',
      kb_resolution_steps = [''Check current XID age: SELECT datname, age(datfrozenxid) FROM pg_database ORDER BY age DESC'',
       ''Run vacuum freeze on affected databases: VACUUM FREEZE'', ''For specific tables: VACUUM FREEZE <table_name>'',
       ''Tune autovacuum: SET autovacuum_freeze_max_age = 200000000'',
       ''If in single-user mode: pg_ctl stop && postgres --single <database> then VACUUM FREEZE''],
      kb_prevention = ''Tune autovacuum aggressively; monitor datfrozenxid age; alert at > 1 billion age'',
      kb_base_confidence = 90, kb_base_risk_score = 95\<rparr>]"

definition postgres_entries_3 :: "KnowledgeEntry list" where
  "postgres_entries_3 =
    [\<lparr>kb_id = ''pg-checkpoint-warning'', kb_category = ''database'', kb_sub_category = ''postgres'',
      kb_keywords = [''checkpoint occurring too frequently'', ''checkpoint warning postgres'',
       ''checkpoints are occurring too frequently''],
      kb_anti_words = [], kb_metric_name = [], kb_severity = ''medium'',
      kb_root_cause = ''PostgreSQL checkpoints are occurring too frequently, indicating high write load or undersized WAL'',
      kb_reasoning = [''Frequent checkpoints increase I/O load and WAL write amplification'',
       ''Default max_wal_size (1GB) may be too small for write-heavy workloads'',
       ''This degrades performance but is not an immediate risk to data integrity''],
      kb_impact = ''Increased disk I/O; slightly higher write latency; more WAL generated'',
      kb_resolution_steps = [''Check checkpoint frequency: SELECT * FROM pg_stat_bgwriter'',
       (''Increase max_wal_size: ALTER SYSTEM SET max_wal_size = '' @ [CHR 0x27] @ ''4GB'' @ [CHR 0x27]),
       ''Increase checkpoint_completion_target: ALTER SYSTEM SET checkpoint_completion_target = 0.9'',
       ''Reload config: SELECT pg_reload_conf()'', ''Check for bulk write operations that could be batched''],
      kb_prevention = ''Set max_wal_size based on write volume; tune checkpoint_completion_target=0.9; monitor checkpoint frequency'',
      kb_base_confidence = 65, kb_base_risk_score = 40\<rparr>]"

definition postgres_entries :: "KnowledgeEntry list" where
  "postgres_entries = postgres_entries_1 @ postgres_entries_2 @ postgres_entries_3"

definition mysql_entries_1 :: "KnowledgeEntry list" where
  "mysql_entries_1 =
    [\<lparr>kb_id = ''mysql-too-many-connections'', kb_category = ''database'', kb_sub_category = ''mysql'',
      kb_keywords = [''too many connections mysql'', ''max_connections mysql'', ''connection limit mysql''],
      kb_anti_words = [], kb_metric_name = [], kb_severity = ''critical'',
      kb_root_cause = (''MySQL has reached its maximum connection limit '' @ [CHR 0xE2, CHR 0x80, CHR 0x94] @ '' new connections are rejected''),
      kb_reasoning = [''Default max_connections is 151, which is quickly exhausted without pooling'',
       ''Each connection uses memory for the thread stack and per-session buffers'',
       ''Connection leaks or slow queries holding connections cause pool exhaustion''],
      kb_impact = ''New database connections are rejected; applications fail to connect; user-facing errors'',
      kb_resolution_steps = [(''Check connections: SHOW STATUS LIKE '' @ [CHR 0x27] @ ''Threads_connected'' @ [CHR 0x27]),
       ''Increase limit: SET GLOBAL max_connections = 300'',
       (''Kill idle connections: SELECT CONCAT('' @ [CHR 0x27] @ ''KILL '' @ [CHR 0x27] @ '', id, '' @ [CHR 0x27] @ '';'' @ [CHR 0x27] @ '') FROM information_schema.processlist WHERE command = '' @ [CHR 0x27] @ ''Sleep'' @ [CHR 0x27] @ '' AND time > 300''),
       ''Deploy connection pooler (ProxySQL, MySQL Router)'', ''Fix connection leaks in application code''],
      kb_prevention = ''Use connection pooling; set wait_timeout to close idle connections; monitor connection count'',
      kb_base_confidence = 85, kb_base_risk_score = 80\<rparr>,
     \<lparr>kb_id = ''mysql-lock-wait-timeout'', kb_category = ''database'', kb_sub_category = ''mysql'',
      kb_keywords = [''lock wait timeout exceeded'', ''lock wait timeout mysql'', ''innodb lock timeout''],
      kb_anti_words = [], kb_metric_name = [], kb_severity = ''high'',
      kb_root_cause = (''MySQL InnoDB lock wait timeout exceeded '' @ [CHR 0xE2, CHR 0x80, CHR 0x94] @ '' a transaction is blocking another''),
      kb_reasoning = [''A query waited longer than innodb_lock_wait_timeout (default 50s) for a row lock'',
       ''The blocking transaction is holding a lock and not releasing it'',
       ''Common with long-running UPDATE/DELETE statements or forgotten transactions''],
      kb_impact = ''Blocked queries fail; application requests time out; user experience degraded'',
      kb_resolution_steps = [''Find blocking transactions: SELECT * FROM information_schema.innodb_lock_waits'',
       ''Show lock details: SHOW ENGINE INNODB STATUS (look for LATEST DETECTED DEADLOCK)'',
       ''Kill blocking query: KILL <processlist_id>'', ''Increase timeout: SET GLOBAL innodb_lock_wait_timeout = 120'',
       ''Optimize the blocking query to hold locks for less time''],
      kb_prevention = ''Keep transactions short; avoid SELECT ... FOR UPDATE on large result sets; use READ COMMITTED isolation when possible'',
      kb_base_confidence = 75, kb_base_risk_score = 60\<rparr>,
     \<lparr>kb_id = ''mysql-deadlock'', kb_category = ''database'', kb_sub_category = ''mysql'',
      kb_keywords = [''deadlock found mysql'', ''deadlock mysql'', ''innodb deadlock''], kb_anti_words = [],
      kb_metric_name = [], kb_severity = ''high'',
      kb_root_cause = ''MySQL detected a deadlock between two transactions'',
      kb_reasoning = [''Two transactions each hold locks needed by the other, creating circular wait'',
       ''InnoDB automatically rolls back the smaller transaction to break the deadlock'',
       ''The application receives an error for the rolled-back transaction''],
      kb_impact = ''One transaction is rolled back; retry logic can typically recover'',
      kb_resolution_steps = [''Check deadlock details: SHOW ENGINE INNODB STATUS (search for LATEST DETECTED DEADLOCK)'',
       ''Add retry logic in application for deadlock errors (MySQL error 1213)'',
       ''Ensure transactions access tables in consistent order'',
       ''Keep transactions as short as possible to reduce lock hold time'',
       ''Consider using SELECT ... FOR UPDATE SKIP LOCKED''],
      kb_prevention = ''Standardize table access order; keep transactions short; add automatic retry for deadlock errors'',
      kb_base_confidence = 75, kb_base_risk_score = 55\<rparr>,
     \<lparr>kb_id = ''mysql-table-full'', kb_category = ''database'', kb_sub_category = ''mysql'',
      kb_keywords = [''table is full'', ''table full mysql'', ''innodb tablespace full''], kb_anti_words = [],
      kb_metric_name = [], kb_severity = ''critical'',
      kb_root_cause = (''MySQL table or tablespace is full '' @ [CHR 0xE2, CHR 0x80, CHR 0x94] @ '' cannot insert new rows''),
      kb_reasoning = [''InnoDB tablespace or data directory disk is full'',
       ''If using innodb_file_per_table: the individual .ibd file cannot grow'',
       ''Temp table space may also fill up during large sorts or joins''],
      kb_impact = ''All inserts and updates to the affected table fail; application write operations break'',
      kb_resolution_steps = [''Check disk space: df -h'', ''Check InnoDB space: SELECT * FROM information_schema.innodb_tablespaces'',
       ''Free space: OPTIMIZE TABLE <table_name> (reclaims fragmented space)'',
       ''Delete unnecessary data or archive old records'', ''Expand disk or tablespace''],
      kb_prevention = ''Monitor table sizes and disk space; archive old data regularly; use partitioning for large tables'',
      kb_base_confidence = 80, kb_base_risk_score = 80\<rparr>,
     \<lparr>kb_id = ''mysql-max-packet'', kb_category = ''database'', kb_sub_category = ''mysql'',
      kb_keywords = [''max_allowed_packet'', ''packet bigger than'', ''packet too large mysql''], kb_anti_words = [],
      kb_metric_name = [], kb_severity = ''medium'',
      kb_root_cause = ''MySQL query or result exceeds max_allowed_packet size'',
      kb_reasoning = [''Default max_allowed_packet is 64MB; large BLOBs or batch inserts can exceed this'',
       (''Replication also uses packets '' @ [CHR 0xE2, CHR 0x80, CHR 0x94] @ '' if the primary has a larger setting, replication breaks''),
       ''This is a configuration issue, not a data corruption issue''],
      kb_impact = ''The specific query fails; large inserts or reads are rejected'',
      kb_resolution_steps = [(''Check current value: SHOW VARIABLES LIKE '' @ [CHR 0x27] @ ''max_allowed_packet'' @ [CHR 0x27]),
       ''Increase: SET GLOBAL max_allowed_packet = 256*1024*1024'', ''Set in my.cnf: max_allowed_packet = 256M'',
       ''Ensure primary and replica have the same setting'',
       ''Consider using LOAD DATA INFILE for large batch inserts''],
      kb_prevention = ''Set max_allowed_packet to 256M for all servers; keep primary/replica settings in sync'',
      kb_base_confidence = 70, kb_base_risk_score = 40\<rparr>,
     \<lparr>kb_id = ''mysql-host-blocked'', kb_category = ''database'', kb_sub_category = ''mysql'',
      kb_keywords = [''host is blocked'', ''max_connect_errors'', ''blocked mysql''], kb_anti_words = [],
      kb_metric_name = [], kb_severity = ''high'',
      kb_root_cause = ''MySQL blocked a host because it exceeded max_connect_errors (too many failed connection attempts)'',
      kb_reasoning = [''After max_connect_errors (default 100) failed connections, MySQL blocks the host entirely'',
       ''This can happen from application connection errors, not just malicious attempts'',
       ''The block persists until FLUSH HOSTS is run or mysqld is restarted''],
      kb_impact = ''All connections from the blocked host are rejected; application on that host has complete DB outage'',
      kb_resolution_steps = [''Unblock the host: FLUSH HOSTS'', ''Increase limit: SET GLOBAL max_connect_errors = 10000'',
       ''Check why connections were failing in the first place (auth errors, network issues)'',
       ''Set in my.cnf: max_connect_errors = 10000'', ''Fix the root cause of connection failures''],
      kb_prevention = ''Set max_connect_errors high (10000+); fix authentication issues promptly; use connection pooling'',
      kb_base_confidence = 75, kb_base_risk_score = 55\<rparr>,
     \<lparr>kb_id = ''mysql-replication-lag'', kb_category = ''database'', kb_sub_category = ''mysql'',
      kb_keywords = [''replication lag mysql'', ''seconds behind master'', ''slave lag mysql''], kb_anti_words = [],
      kb_metric_name = [], kb_severity = ''high'',
      kb_root_cause = ''MySQL replication slave/replica is lagging behind the primary'',
      kb_reasoning = [''The replica is applying changes slower than the primary generates them'',
       ''Common causes: heavy write load, slow replica disk, or single-threaded replication'',
       ''Reads from the replica return stale data proportional to the lag''],
      kb_impact = ''Stale data served from replica; failover would lose recent writes equal to the lag'',
      kb_resolution_steps = [(''Check lag: SHOW SLAVE STATUS'' @ [CHR 0x5C] @ ''G (look at Seconds_Behind_Master)''),
       ''Enable parallel replication: SET GLOBAL slave_parallel_workers = 8'',
       ''Check replica disk I/O: iostat -x 1 5'', ''Optimize large transactions on the primary'',
       ''Upgrade replica disk to SSD/NVMe for faster relay log replay''],
      kb_prevention = ''Monitor Seconds_Behind_Master; use parallel replication; provision fast storage on replicas'',
      kb_base_confidence = 75, kb_base_risk_score = 65\<rparr>,
     \<lparr>kb_id = ''mysql-buffer-pool-small'', kb_category = ''database'', kb_sub_category = ''mysql'',
      kb_keywords = [''innodb buffer pool'', ''buffer pool too small'', ''buffer pool hit rate mysql''],
      kb_anti_words = [], kb_metric_name = [], kb_severity = ''medium'',
      kb_root_cause = ''InnoDB buffer pool is too small, causing excessive disk reads'',
      kb_reasoning = [''A low buffer pool hit rate means most data reads go to disk instead of cache'',
       ''Recommended buffer pool size is 70-80% of available RAM on dedicated DB servers'',
       ''An undersized buffer pool causes high I/O load and slow queries''],
      kb_impact = ''Slow queries; high disk I/O; increased query latency; reduced throughput'',
      kb_resolution_steps = [(''Check hit rate: SHOW STATUS LIKE '' @ [CHR 0x27] @ ''Innodb_buffer_pool_read_requests'' @ [CHR 0x27] @ ''; SHOW STATUS LIKE '' @ [CHR 0x27] @ ''Innodb_buffer_pool_reads'' @ [CHR 0x27]),
       (''Current size: SHOW VARIABLES LIKE '' @ [CHR 0x27] @ ''innodb_buffer_pool_size'' @ [CHR 0x27]),
       ''Increase: SET GLOBAL innodb_buffer_pool_size = <70% of RAM>'',
       ''Set in my.cnf: innodb_buffer_pool_size = 12G'', ''After change: monitor hit rate improvement''],
      kb_prevention = ''Set buffer pool to 70-80% of RAM on dedicated DB servers; monitor buffer pool hit rate'',
      kb_base_confidence = 65, kb_base_risk_score = 50\<rparr>,
     \<lparr>kb_id = ''mysql-binlog-disk-full'', kb_category = ''database'', kb_sub_category = ''mysql'',
      kb_keywords = [''binary log disk full'', ''binlog full mysql'', ''binlog disk space''], kb_anti_words = [],
      kb_metric_name = [], kb_severity = ''critical'',
      kb_root_cause = (''MySQL binary log directory disk is full '' @ [CHR 0xE2, CHR 0x80, CHR 0x94] @ '' replication and PITR are at risk''),
      kb_reasoning = [''Binary logs grow continuously with write activity'',
       ''Without expire_logs_days or binlog_expire_logs_seconds, old logs accumulate forever'',
       ''A full binlog disk prevents new transactions from being written''],
      kb_impact = ''Write operations fail; replication breaks; cannot create backups'',
      kb_resolution_steps = [''Free space: PURGE BINARY LOGS BEFORE DATE(NOW() - INTERVAL 3 DAY)'',
       ''Set automatic expiry: SET GLOBAL binlog_expire_logs_seconds = 604800 (7 days)'',
       (''Check disk: df -h $(SHOW VARIABLES LIKE '' @ [CHR 0x27] @ ''log_bin_basename'' @ [CHR 0x27] @ '')''),
       ''Move binlog to larger volume: stop MySQL, move files, update my.cnf log_bin path'',
       (''If urgent: RESET MASTER (WARNING: breaks replication '' @ [CHR 0xE2, CHR 0x80, CHR 0x94] @ '' only if no replicas)'')],
      kb_prevention = ''Set binlog_expire_logs_seconds=604800; monitor binlog disk space; use a dedicated binlog volume'',
      kb_base_confidence = 80, kb_base_risk_score = 80\<rparr>]"

definition mysql_entries_2 :: "KnowledgeEntry list" where
  "mysql_entries_2 =
    [\<lparr>kb_id = ''mysql-fk-constraint'', kb_category = ''database'', kb_sub_category = ''mysql'',
      kb_keywords = [''foreign key constraint fails'', ''cannot add or update'', ''foreign key mysql''],
      kb_anti_words = [], kb_metric_name = [], kb_severity = ''medium'',
      kb_root_cause = (''MySQL foreign key constraint violation '' @ [CHR 0xE2, CHR 0x80, CHR 0x94] @ '' referenced row does not exist or cannot be deleted''),
      kb_reasoning = [''An INSERT/UPDATE references a parent row that does not exist'',
       ''Or a DELETE/UPDATE on a parent row would orphan child rows'',
       ''This is data integrity enforcement working correctly''],
      kb_impact = ''The specific write operation fails; application must handle the constraint error'',
      kb_resolution_steps = [''Check which constraint failed from the error message'',
       ''Verify the parent row exists before inserting child rows'',
       ''Use ON DELETE CASCADE or ON DELETE SET NULL if child rows should follow parent'',
       ''For bulk operations: SET FOREIGN_KEY_CHECKS = 0 (only temporarily and with caution)'',
       ''Fix application logic to handle the dependency correctly''],
      kb_prevention = ''Validate referential integrity in application code before writes; use proper CASCADE rules; test with realistic data'',
      kb_base_confidence = 65, kb_base_risk_score = 35\<rparr>]"

definition mysql_entries :: "KnowledgeEntry list" where
  "mysql_entries = mysql_entries_1 @ mysql_entries_2"

definition redis_entries_1 :: "KnowledgeEntry list" where
  "redis_entries_1 =
    [\<lparr>kb_id = ''redis-conn-refused'', kb_category = ''database'', kb_sub_category = ''redis'',
      kb_keywords = [''connection refused 6379'', ''redis connection refused'', ''redis connect refused''],
      kb_anti_words = [], kb_metric_name = [], kb_severity = ''critical'',
      kb_root_cause = (''Redis is not accepting connections '' @ [CHR 0xE2, CHR 0x80, CHR 0x94] @ '' the Redis process may be down''),
      kb_reasoning = [''Nothing is listening on port 6379, meaning the Redis server process is not running'',
       ''Redis may have crashed due to memory limits, disk full, or a bug'',
       ''All caching and session data is lost if Redis was not configured for persistence''],
      kb_impact = ''All Redis-dependent operations fail; cache misses increase database load; sessions may be lost'',
      kb_resolution_steps = [''Check Redis status: systemctl status redis-server (or redis)'',
       ''Check for crash: tail -50 /var/log/redis/redis-server.log'',
       ''Restart Redis: systemctl restart redis-server'', ''Check memory: redis-cli INFO memory (after restart)'',
       ''If OOM killed: increase maxmemory and configure eviction policy''],
      kb_prevention = ''Monitor Redis process health; configure maxmemory with appropriate eviction policy; use Redis Sentinel for HA'',
      kb_base_confidence = 90, kb_base_risk_score = 85\<rparr>,
     \<lparr>kb_id = ''redis-maxmemory'', kb_category = ''database'', kb_sub_category = ''redis'',
      kb_keywords = [''maxmemory'', ''redis out of memory'', ''redis oom'', ''oom command not allowed''],
      kb_anti_words = [], kb_metric_name = [], kb_severity = ''critical'',
      kb_root_cause = ''Redis has reached its maxmemory limit and cannot accept new write commands'',
      kb_reasoning = [''When maxmemory is reached, Redis behavior depends on the eviction policy'',
       ''With noeviction policy, all write commands are rejected with OOM error'',
       ''With allkeys-lru, older keys are evicted to make room but writes still succeed''],
      kb_impact = ''Write operations rejected (noeviction) or data evicted (lru); cache data loss; application errors'',
      kb_resolution_steps = [''Check memory: redis-cli INFO memory'', ''Check eviction policy: redis-cli CONFIG GET maxmemory-policy'',
       ''Set eviction policy: redis-cli CONFIG SET maxmemory-policy allkeys-lru'',
       ''Increase maxmemory: redis-cli CONFIG SET maxmemory 2gb'', ''Find large keys: redis-cli --bigkeys'',
       ''Clean up: redis-cli FLUSHDB (only in non-production)''],
      kb_prevention = ''Set maxmemory with a buffer; use allkeys-lru for caches; monitor memory usage with alerts at 80%'',
      kb_base_confidence = 85, kb_base_risk_score = 80\<rparr>,
     \<lparr>kb_id = ''redis-loading'', kb_category = ''database'', kb_sub_category = ''redis'',
      kb_keywords = [''redis is loading'', ''loading the dataset'', ''redis loading''], kb_anti_words = [],
      kb_metric_name = [], kb_severity = ''high'',
      kb_root_cause = (''Redis is loading its RDB/AOF dataset into memory '' @ [CHR 0xE2, CHR 0x80, CHR 0x94] @ '' not yet ready to serve''),
      kb_reasoning = [''Redis loads the entire dataset from disk at startup before accepting commands'',
       ''Large datasets (>10GB) can take minutes to load'',
       ''During loading, all commands except INFO and SUBSCRIBE are rejected''],
      kb_impact = ''Redis is temporarily unavailable; all dependent services get errors until loading completes'',
      kb_resolution_steps = [''Check loading progress: redis-cli INFO persistence (look at loading_eta_seconds)'',
       (''Wait for loading to complete '' @ [CHR 0xE2, CHR 0x80, CHR 0x94] @ '' this is normal after a restart''),
       ''If too slow: check disk I/O speed: iostat -x 1 5'',
       ''Consider reducing dataset size if loading takes too long'',
       ''Use Redis replication: keep a replica ready so primary restarts are faster''],
      kb_prevention = ''Use Redis replication with automatic failover (Sentinel); keep dataset size manageable; use fast disks'',
      kb_base_confidence = 70, kb_base_risk_score = 55\<rparr>,
     \<lparr>kb_id = ''redis-readonly-replica'', kb_category = ''database'', kb_sub_category = ''redis'',
      kb_keywords = [''readonly'', ''read only replica'', (''can'' @ [CHR 0x27] @ ''t write against''), ''redis readonly''],
      kb_anti_words = [], kb_metric_name = [], kb_severity = ''high'',
      kb_root_cause = ''Application is trying to write to a Redis replica, which is read-only by default'',
      kb_reasoning = [''Redis replicas are read-only to prevent data conflicts with the primary'',
       ''The application may be connecting to a replica instead of the primary'',
       ''After a failover, the old primary may have become a replica''],
      kb_impact = ''All write operations fail; application cannot update cache or session data'',
      kb_resolution_steps = [''Check role: redis-cli INFO replication (look for role:master vs role:slave)'',
       ''Point application to the primary: update REDIS_URL in config'',
       ''If using Sentinel: ensure application uses Sentinel-aware client'',
       ''Check if a failover occurred: redis-cli SENTINEL get-master-addr-by-name <master-name>'',
       ''If intentional replica: enable writes: CONFIG SET slave-read-only no (not recommended)''],
      kb_prevention = ''Use Sentinel-aware Redis clients; verify connection targets in config; monitor Redis role changes'',
      kb_base_confidence = 75, kb_base_risk_score = 60\<rparr>,
     \<lparr>kb_id = ''redis-cluster-down'', kb_category = ''database'', kb_sub_category = ''redis'',
      kb_keywords = [''clusterdown'', ''cluster is down'', ''cluster_state:fail''], kb_anti_words = [],
      kb_metric_name = [], kb_severity = ''critical'',
      kb_root_cause = (''Redis cluster has entered a failed state '' @ [CHR 0xE2, CHR 0x80, CHR 0x94] @ '' one or more hash slots are not covered''),
      kb_reasoning = [''A cluster fails when a primary node and all its replicas are down'',
       (''The hash slots owned by that node are unassigned '' @ [CHR 0xE2, CHR 0x80, CHR 0x94] @ '' keys in those slots are inaccessible''),
       ''With cluster-require-full-coverage=yes (default), the entire cluster refuses commands''],
      kb_impact = ''Entire Redis cluster is unavailable; all cache/session operations fail across all applications'',
      kb_resolution_steps = [''Check cluster state: redis-cli CLUSTER INFO'', ''Find failed nodes: redis-cli CLUSTER NODES | grep fail'',
       ''If node is recoverable: restart it and let it rejoin'',
       ''If node is lost: add a new node and reassign slots: redis-cli CLUSTER ADDSLOTS <slot>'',
       ''Temporary fix: redis-cli CONFIG SET cluster-require-full-coverage no''],
      kb_prevention = ''Run at least 1 replica per primary; use 3+ primary nodes; monitor cluster health; set up alerts on cluster_state'',
      kb_base_confidence = 90, kb_base_risk_score = 90\<rparr>,
     \<lparr>kb_id = ''redis-sentinel-failover'', kb_category = ''database'', kb_sub_category = ''redis'',
      kb_keywords = [''sentinel failover'', ''sentinel promoted'', ''failover triggered redis''], kb_anti_words = [],
      kb_metric_name = [], kb_severity = ''high'',
      kb_root_cause = (''Redis Sentinel triggered a failover '' @ [CHR 0xE2, CHR 0x80, CHR 0x94] @ '' the primary has changed''),
      kb_reasoning = [''Sentinel promoted a replica to primary because the old primary was unreachable'',
       ''Applications using the old primary address will get connection errors'',
       ''Data written between the last replication sync and the failover may be lost''],
      kb_impact = ''Brief disruption during failover; applications not using Sentinel-aware clients lose connectivity'',
      kb_resolution_steps = [''Check new primary: redis-cli -p 26379 SENTINEL get-master-addr-by-name <master-name>'',
       ''Verify all replicas are syncing to new primary: redis-cli INFO replication on the new primary'',
       ''Update application config if not using Sentinel-aware client'',
       ''Investigate why the old primary failed: check its logs'',
       ''Verify data integrity: compare key counts between old primary (if recovered) and new''],
      kb_prevention = ''Use Sentinel-aware Redis clients (e.g., redis-py with Sentinel); run 3+ Sentinel instances; monitor failover events'',
      kb_base_confidence = 75, kb_base_risk_score = 65\<rparr>,
     \<lparr>kb_id = ''redis-slow-query'', kb_category = ''database'', kb_sub_category = ''redis'',
      kb_keywords = [''redis slow'', ''slowlog'', ''redis latency spike''], kb_anti_words = [], kb_metric_name = [],
      kb_severity = ''medium'',
      kb_root_cause = (''Redis slow queries detected '' @ [CHR 0xE2, CHR 0x80, CHR 0x94] @ '' commands are taking longer than expected''),
      kb_reasoning = [''Redis is single-threaded; one slow command blocks all other commands'',
       ''KEYS, SORT, and operations on large data structures are common offenders'',
       ''Background operations (RDB save, AOF rewrite) can also cause latency spikes''],
      kb_impact = ''All Redis operations are delayed while slow command runs; tail latency increases'',
      kb_resolution_steps = [''Check slow log: redis-cli SLOWLOG GET 25'', ''Find large keys: redis-cli --bigkeys'',
       ''Replace KEYS with SCAN: use SCAN cursor instead of KEYS pattern'',
       ''Break large operations into smaller batches: use pipelines'',
       ''Check for background save causing latency: redis-cli INFO persistence''],
      kb_prevention = ''Never use KEYS in production; use SCAN instead; monitor SLOWLOG; avoid large single-key operations'',
      kb_base_confidence = 65, kb_base_risk_score = 50\<rparr>,
     \<lparr>kb_id = ''redis-persistence-failure'', kb_category = ''database'', kb_sub_category = ''redis'',
      kb_keywords = [''rdb save failed'', ''aof rewrite failed'', ''redis persistence error'', ''bgsave error''],
      kb_anti_words = [], kb_metric_name = [], kb_severity = ''high'',
      kb_root_cause = (''Redis persistence (RDB snapshot or AOF rewrite) failed '' @ [CHR 0xE2, CHR 0x80, CHR 0x94] @ '' data durability at risk''),
      kb_reasoning = [(''If persistence fails, Redis data exists only in memory '' @ [CHR 0xE2, CHR 0x80, CHR 0x94] @ '' a crash means total data loss''),
       ''Common causes: disk full, insufficient memory for fork(), or filesystem errors'',
       ''BGSAVE/BGREWRITEAOF fork the Redis process, requiring extra memory''],
      kb_impact = ''Data is not persisted to disk; crash would cause complete data loss'',
      kb_resolution_steps = [''Check last save status: redis-cli LASTSAVE && redis-cli INFO persistence'', ''Check disk space: df -h'',
       ''Check memory for fork: Redis needs ~2x memory for BGSAVE fork'',
       ''Set overcommit: sysctl -w vm.overcommit_memory=1'', ''Trigger manual save after fixing: redis-cli BGSAVE''],
      kb_prevention = ''Set vm.overcommit_memory=1; monitor persistence status; ensure adequate disk space and memory'',
      kb_base_confidence = 75, kb_base_risk_score = 70\<rparr>,
     \<lparr>kb_id = ''redis-client-limit'', kb_category = ''database'', kb_sub_category = ''redis'',
      kb_keywords = [''max clients reached'', ''redis clients limit'', ''too many redis clients''], kb_anti_words = [],
      kb_metric_name = [], kb_severity = ''high'',
      kb_root_cause = (''Redis has reached its maxclients limit '' @ [CHR 0xE2, CHR 0x80, CHR 0x94] @ '' no new connections can be established''),
      kb_reasoning = [''Default maxclients is 10,000 but may be limited by system file descriptor limits'',
       ''Connection leaks in applications gradually consume client slots'',
       ''Each connected client uses memory even when idle''],
      kb_impact = ''New connections rejected; applications cannot connect to Redis; errors cascade'',
      kb_resolution_steps = [''Check connected clients: redis-cli INFO clients'', ''Check limit: redis-cli CONFIG GET maxclients'',
       ''Find clients consuming slots: redis-cli CLIENT LIST | wc -l'',
       ''Increase maxclients: redis-cli CONFIG SET maxclients 20000'',
       ''Kill idle clients: redis-cli CLIENT KILL ID <id> (for old idle connections)''],
      kb_prevention = ''Set maxclients appropriately; configure client timeout for idle connections; fix connection leaks; use connection pooling'',
      kb_base_confidence = 75, kb_base_risk_score = 65\<rparr>]"

definition redis_entries_2 :: "KnowledgeEntry list" where
  "redis_entries_2 =
    [\<lparr>kb_id = ''redis-latency-spike'', kb_category = ''database'', kb_sub_category = ''redis'',
      kb_keywords = [''redis latency'', ''redis response time'', ''intrinsic latency redis''], kb_anti_words = [],
      kb_metric_name = [], kb_severity = ''high'',
      kb_root_cause = ''Redis latency has spiked significantly above baseline'',
      kb_reasoning = [''Redis should respond in < 1ms for most operations; spikes indicate a problem'',
       ''Causes: slow commands, background persistence, system-level issues (swap, CPU contention)'',
       ''Network latency between client and Redis can also manifest as Redis latency''],
      kb_impact = ''All Redis-dependent operations slow down; cache misses increase; application latency rises'',
      kb_resolution_steps = [''Check latency history: redis-cli --latency-history'', ''Check slow log: redis-cli SLOWLOG GET 25'',
       ''Check for background operations: redis-cli INFO persistence (rdb_last_bgsave_status)'',
       ''Check swap usage: redis-cli INFO memory (look for used_memory_rss vs used_memory)'',
       ''Check if Transparent Huge Pages is enabled: cat /sys/kernel/mm/transparent_hugepage/enabled''],
      kb_prevention = ''Disable THP: echo never > /sys/kernel/mm/transparent_hugepage/enabled; monitor latency; avoid slow commands'',
      kb_base_confidence = 70, kb_base_risk_score = 55\<rparr>,
     \<lparr>kb_id = ''redis-fragmentation'', kb_category = ''database'', kb_sub_category = ''redis'',
      kb_keywords = [''memory fragmentation'', ''fragmentation ratio'', ''redis fragmentation''], kb_anti_words = [],
      kb_metric_name = [], kb_severity = ''medium'',
      kb_root_cause = ''Redis memory fragmentation ratio is high (>1.5), wasting memory'',
      kb_reasoning = [''High fragmentation means Redis allocated more memory from the OS than it actually uses'',
       ''Caused by frequent creation and deletion of variable-size keys'',
       ''The ratio used_memory_rss / used_memory should be close to 1.0''],
      kb_impact = ''Wasted memory; may hit maxmemory or OOM earlier than expected'',
      kb_resolution_steps = [''Check fragmentation: redis-cli INFO memory | grep fragmentation'',
       ''Enable active defrag: redis-cli CONFIG SET activedefrag yes'',
       ''Set defrag thresholds: CONFIG SET active-defrag-threshold-lower 10'',
       ''Restart Redis to reset fragmentation (if maintenance window available)'',
       ''Switch to jemalloc allocator if not already using it''],
      kb_prevention = ''Enable active-defrag; use jemalloc allocator; monitor fragmentation ratio'',
      kb_base_confidence = 60, kb_base_risk_score = 40\<rparr>,
     \<lparr>kb_id = ''redis-auth-failure'', kb_category = ''database'', kb_sub_category = ''redis'',
      kb_keywords = [''redis auth failed'', ''noauth'', ''redis wrong password'', ''authentication required redis''],
      kb_anti_words = [], kb_metric_name = [], kb_severity = ''high'',
      kb_root_cause = (''Redis authentication failed '' @ [CHR 0xE2, CHR 0x80, CHR 0x94] @ '' wrong password or authentication not provided''),
      kb_reasoning = [''Redis requirepass is set but the client is using the wrong password or no password'',
       ''May occur after a password rotation that was not propagated to all clients'',
       ''Redis 6+ supports ACL with per-user authentication which adds complexity''],
      kb_impact = ''Application cannot connect to Redis; all cache/session operations fail'',
      kb_resolution_steps = [''Verify password: redis-cli AUTH <password>'', ''Check redis.conf for requirepass setting'',
       ''Update REDIS_PASSWORD in application environment variables'',
       ''For Redis 6+ ACL: redis-cli ACL LIST to check user configuration'',
       ''Test connection: redis-cli -a <password> PING''],
      kb_prevention = ''Use secrets manager for Redis passwords; synchronize rotation across all services; test auth before cutover'',
      kb_base_confidence = 80, kb_base_risk_score = 60\<rparr>,
     \<lparr>kb_id = ''redis-eviction-rate-high'', kb_category = ''database'', kb_sub_category = ''redis'',
      kb_keywords = [''keys evicted'', ''evicted_keys'', ''redis eviction'', ''high eviction''], kb_anti_words = [],
      kb_metric_name = [], kb_severity = ''medium'',
      kb_root_cause = ''Redis is actively evicting keys at a high rate to stay under maxmemory'',
      kb_reasoning = [''High eviction rate means the dataset is larger than the allocated memory'',
       ''Evicted keys cause cache misses, increasing load on the backend database'',
       ''If eviction outpaces ingestion, the cache becomes ineffective''],
      kb_impact = ''Increased cache miss rate; higher database load; degraded application performance'',
      kb_resolution_steps = [''Check eviction stats: redis-cli INFO stats | grep evicted_keys'',
       ''Check memory usage: redis-cli INFO memory'', ''Increase maxmemory: redis-cli CONFIG SET maxmemory 4gb'',
       ''Audit key TTLs: look for keys with no expiry that could be time-limited'',
       ''Find large keys to optimize: redis-cli --bigkeys''],
      kb_prevention = ''Size Redis memory for the working set; set TTLs on all cache keys; monitor eviction rate'',
      kb_base_confidence = 65, kb_base_risk_score = 50\<rparr>,
     \<lparr>kb_id = ''redis-keyspace-miss-rate'', kb_category = ''database'', kb_sub_category = ''redis'',
      kb_keywords = [''keyspace miss'', ''cache miss rate'', ''miss rate high redis''], kb_anti_words = [],
      kb_metric_name = [], kb_severity = ''medium'',
      kb_root_cause = (''High keyspace miss rate in Redis '' @ [CHR 0xE2, CHR 0x80, CHR 0x94] @ '' many lookups are finding no data''),
      kb_reasoning = [''High miss rate means applications are looking for keys that do not exist in Redis'',
       ''Could indicate cache warming issues, wrong key names, or eviction happening too fast'',
       ''Each miss typically results in a backend database query, increasing database load''],
      kb_impact = ''Degraded cache effectiveness; increased database load; higher application latency'',
      kb_resolution_steps = [''Check hit/miss ratio: redis-cli INFO stats | grep keyspace'',
       ''Review cache key naming conventions in application code'',
       ''Implement cache warming on startup for frequently accessed data'',
       ''Check TTL settings: keys expiring too quickly cause misses'',
       ''Add negative caching: cache the absence of data to prevent repeated DB lookups''],
      kb_prevention = ''Monitor hit/miss ratio; implement cache warming; use appropriate TTLs; add negative caching'',
      kb_base_confidence = 60, kb_base_risk_score = 40\<rparr>]"

definition redis_entries :: "KnowledgeEntry list" where
  "redis_entries = redis_entries_1 @ redis_entries_2"

definition mongo_entries_1 :: "KnowledgeEntry list" where
  "mongo_entries_1 =
    [\<lparr>kb_id = ''mongo-pool-exhausted'', kb_category = ''database'', kb_sub_category = ''mongodb'',
      kb_keywords = [''connection pool exhausted mongodb'', ''mongo pool exhausted'', ''mongo connection pool''],
      kb_anti_words = [], kb_metric_name = [], kb_severity = ''high'',
      kb_root_cause = (''MongoDB connection pool is exhausted '' @ [CHR 0xE2, CHR 0x80, CHR 0x94] @ '' all connections are in use''),
      kb_reasoning = [''All connections in the MongoDB driver pool are occupied by active operations'',
       ''Slow queries or operations hold connections longer, reducing effective pool size'',
       ''The application cannot create new database operations until a connection is freed''],
      kb_impact = ''New database operations are queued or fail; application response times increase dramatically'',
      kb_resolution_steps = [''Check active connections: db.serverStatus().connections'',
       ''Increase pool size in connection string: ?maxPoolSize=100'',
       ''Kill long-running operations: db.currentOp({secs_running: {$gt: 10}})'',
       ''Optimize slow queries: check explain() output'', ''Add connection timeout: ?waitQueueTimeoutMS=5000''],
      kb_prevention = ''Size connection pool based on workload; optimize slow queries; monitor pool utilization'',
      kb_base_confidence = 75, kb_base_risk_score = 65\<rparr>,
     \<lparr>kb_id = ''mongo-write-concern-timeout'', kb_category = ''database'', kb_sub_category = ''mongodb'',
      kb_keywords = [''write concern timeout'', ''writeconcernerror'', ''write concern mongodb''], kb_anti_words = [],
      kb_metric_name = [], kb_severity = ''high'',
      kb_root_cause = (''MongoDB write concern timeout '' @ [CHR 0xE2, CHR 0x80, CHR 0x94] @ '' the write was not acknowledged by enough replicas''),
      kb_reasoning = [''The write was committed to the primary but could not be replicated to enough nodes within the timeout'',
       ''If the primary fails before replication completes, the write may be lost (rollback)'',
       ''Common causes: replica lag, network issues between primary and replicas''],
      kb_impact = ''Writes may not be durable; data could be lost on primary failure; application sees timeout errors'',
      kb_resolution_steps = [''Check replica status: rs.status()'', ''Check replication lag: rs.printSecondaryReplicationInfo()'',
       (''Increase write concern timeout: {w: '' @ [CHR 0x27] @ ''majority'' @ [CHR 0x27] @ '', wtimeout: 10000}''),
       ''Check network between primary and replicas: ping and bandwidth'',
       ''If chronic: investigate slow disk on replicas''],
      kb_prevention = (''Monitor replication lag; use w:'' @ [CHR 0x27] @ ''majority'' @ [CHR 0x27] @ '' with appropriate timeout; provision fast disks on all replicas''),
      kb_base_confidence = 70, kb_base_risk_score = 60\<rparr>,
     \<lparr>kb_id = ''mongo-replication-lag'', kb_category = ''database'', kb_sub_category = ''mongodb'',
      kb_keywords = [''replication lag mongodb'', ''mongo replica lag'', ''oplog lag''], kb_anti_words = [],
      kb_metric_name = [], kb_severity = ''high'',
      kb_root_cause = (''MongoDB replica is lagging behind the primary '' @ [CHR 0xE2, CHR 0x80, CHR 0x94] @ '' reads from secondaries return stale data''),
      kb_reasoning = [''The oplog is being written faster than the secondary can apply operations'',
       ''Slow disk I/O on the secondary is the most common cause'',
       ''Large write volumes (bulk imports, migrations) cause temporary lag spikes''],
      kb_impact = ''Stale reads from secondaries; failover would lose recent writes; risk of oplog window closing'',
      kb_resolution_steps = [''Check lag: rs.printSecondaryReplicationInfo()'', ''Check replica status: rs.status()'',
       ''Check secondary disk I/O: iostat -x 1 5 on the secondary'',
       ''If oplog window is closing: increase oplog size'', ''Optimize large write operations on the primary''],
      kb_prevention = ''Monitor replication lag; provision SSDs for all replicas; size oplog for 24h+ of operations'',
      kb_base_confidence = 75, kb_base_risk_score = 65\<rparr>,
     \<lparr>kb_id = ''mongo-wiredtiger-cache'', kb_category = ''database'', kb_sub_category = ''mongodb'',
      kb_keywords = [''wiredtiger cache'', ''cache pressure mongodb'', ''cache full mongodb''], kb_anti_words = [],
      kb_metric_name = [], kb_severity = ''high'',
      kb_root_cause = (''WiredTiger internal cache is under pressure '' @ [CHR 0xE2, CHR 0x80, CHR 0x94] @ '' eviction rate is high''),
      kb_reasoning = [''WiredTiger uses an internal cache (default: 50% of RAM - 1GB) for data and indexes'',
       ''High cache pressure means more data is being accessed than fits in cache'',
       ''Eviction threads spend too much CPU evicting pages, reducing query throughput''],
      kb_impact = ''Query latency increases; CPU usage rises from cache eviction; disk I/O increases'',
      kb_resolution_steps = [''Check cache stats: db.serverStatus().wiredTiger.cache'',
       ''Increase cache size: add --wiredTigerCacheSizeGB=4 to mongod'',
       ''Optimize queries to reduce working set: add indexes, limit result sets'',
       ''Check for table scans: db.currentOp() and check for COLLSCAN'',
       ''Add indexes for frequent queries: db.collection.createIndex({field: 1})''],
      kb_prevention = ''Size WiredTiger cache for your working set; add appropriate indexes; monitor cache hit rate'',
      kb_base_confidence = 70, kb_base_risk_score = 60\<rparr>,
     \<lparr>kb_id = ''mongo-shard-migration'', kb_category = ''database'', kb_sub_category = ''mongodb'',
      kb_keywords = [''chunk migration'', ''moveChunk'', ''sharding migration'', ''balancer mongodb''],
      kb_anti_words = [], kb_metric_name = [], kb_severity = ''medium'',
      kb_root_cause = ''MongoDB chunk migration is in progress, causing increased I/O and latency'',
      kb_reasoning = [''The balancer moves chunks between shards to equalize data distribution'',
       ''During migration, the affected range is temporarily served by both shards'',
       ''This increases network traffic, disk I/O, and CPU on both source and target shards''],
      kb_impact = ''Increased latency for queries hitting migrating chunks; higher I/O on affected shards'',
      kb_resolution_steps = [''Check balancer status: sh.getBalancerState()'',
       ''Check active migrations: db.adminCommand({currentOp: 1, $opsWaitingForLock: true})'',
       ''Stop the balancer during peak: sh.stopBalancer()'',
       (''Schedule balancer window: db.settings.update({_id: '' @ [CHR 0x27] @ ''balancer'' @ [CHR 0x27] @ ''}, {$set: {activeWindow: {start: '' @ [CHR 0x27] @ ''02:00'' @ [CHR 0x27] @ '', stop: '' @ [CHR 0x27] @ ''06:00'' @ [CHR 0x27] @ ''}}})''),
       ''Check shard imbalance: sh.status()''],
      kb_prevention = ''Schedule balancer windows during off-peak; choose a good shard key to minimize migrations; monitor chunk distribution'',
      kb_base_confidence = 60, kb_base_risk_score = 45\<rparr>,
     \<lparr>kb_id = ''mongo-oplog-window'', kb_category = ''database'', kb_sub_category = ''mongodb'',
      kb_keywords = [''oplog window'', ''oplog shrinking'', ''oplog too small mongodb''], kb_anti_words = [],
      kb_metric_name = [], kb_severity = ''high'',
      kb_root_cause = (''MongoDB oplog window is shrinking '' @ [CHR 0xE2, CHR 0x80, CHR 0x94] @ '' replicas may fall off the replication chain''),
      kb_reasoning = [''The oplog is a capped collection; when it wraps, old entries are lost'',
       ''If a replica needs entries older than what the oplog holds, it must full resync'',
       ''Full resync of a large dataset can take hours and causes additional load''],
      kb_impact = ''Replica may need full resync (hours of downtime); reduced fault tolerance during resync'',
      kb_resolution_steps = [''Check oplog window: rs.printReplicationInfo()'',
       ''Increase oplog size (MongoDB 4.0+): db.adminCommand({replSetResizeOplog: 1, size: 51200})'',
       ''For older versions: stop secondary, drop local DB, restart to trigger initial sync with larger oplog'',
       ''Reduce write volume: defer bulk operations'', ''Fix any lagging replica before the oplog window closes''],
      kb_prevention = ''Size oplog for at least 24-72h of write operations; monitor oplog window size; alert at < 6h'',
      kb_base_confidence = 70, kb_base_risk_score = 65\<rparr>,
     \<lparr>kb_id = ''mongo-election'', kb_category = ''database'', kb_sub_category = ''mongodb'',
      kb_keywords = [''election in progress'', ''mongodb election'', ''stepping down'', ''primary election''],
      kb_anti_words = [], kb_metric_name = [], kb_severity = ''high'',
      kb_root_cause = (''MongoDB replica set election is in progress '' @ [CHR 0xE2, CHR 0x80, CHR 0x94] @ '' temporary write unavailability''),
      kb_reasoning = [''The primary has stepped down and an election is happening to choose a new primary'',
       ''During election (typically 10-30 seconds), no writes are possible'',
       ''Reads from secondaries continue to work during election''],
      kb_impact = ''Write operations fail for 10-30 seconds; applications without retry logic see errors'',
      kb_resolution_steps = [''Check election status: rs.status()'', ''Investigate why the primary stepped down: check mongod logs'',
       ''If deliberate: wait for election to complete'',
       ''If caused by network partition: check network between nodes'',
       ''Ensure application has retry logic for transient errors''],
      kb_prevention = ''Use retryWrites=true in connection string; monitor primary health; ensure stable network between nodes'',
      kb_base_confidence = 75, kb_base_risk_score = 60\<rparr>,
     \<lparr>kb_id = ''mongo-cursor-timeout'', kb_category = ''database'', kb_sub_category = ''mongodb'',
      kb_keywords = [''cursor timeout'', ''cursor not found'', ''cursor expired mongodb''], kb_anti_words = [],
      kb_metric_name = [], kb_severity = ''medium'',
      kb_root_cause = (''MongoDB cursor timed out '' @ [CHR 0xE2, CHR 0x80, CHR 0x94] @ '' client did not iterate results within the timeout period''),
      kb_reasoning = [''Cursors expire after 10 minutes of inactivity by default'',
       ''If the application takes too long to process results between iterations, the cursor dies'',
       ''Large result sets with slow processing are common triggers''],
      kb_impact = ''Application loses its place in the result set; must restart the query from the beginning'',
      kb_resolution_steps = [''Use noCursorTimeout option: db.collection.find().noCursorTimeout()'',
       ''Process results faster in the application'', ''Use smaller batch sizes: db.collection.find().batchSize(100)'',
       ''Implement pagination instead of cursoring through large result sets'',
       ''Close cursors explicitly when done: cursor.close()''],
      kb_prevention = ''Use pagination for large result sets; set appropriate batch sizes; implement cursor retry logic'',
      kb_base_confidence = 60, kb_base_risk_score = 35\<rparr>,
     \<lparr>kb_id = ''mongo-index-build-failure'', kb_category = ''database'', kb_sub_category = ''mongodb'',
      kb_keywords = [''index build failed'', ''createIndex error'', ''index creation mongodb''], kb_anti_words = [],
      kb_metric_name = [], kb_severity = ''high'',
      kb_root_cause = (''MongoDB index build failed '' @ [CHR 0xE2, CHR 0x80, CHR 0x94] @ '' commonly due to insufficient disk space or duplicate keys''),
      kb_reasoning = [''Index builds require temporary disk space approximately equal to the index size'',
       ''Unique index builds fail if the collection contains duplicate values for the indexed field'',
       ''Background index builds can still impact read/write performance''],
      kb_impact = ''Index not created; queries remain slow; subsequent operations expecting the index may plan incorrectly'',
      kb_resolution_steps = [''Check disk space: df -h'',
       (''For unique index: find duplicates: db.collection.aggregate([{$group:{_id:'' @ [CHR 0x27] @ ''$field'' @ [CHR 0x27] @ '', count:{$sum:1}}},{$match:{count:{$gt:1}}}])''),
       ''Clean up duplicates before retrying unique index'',
       ''Retry index build: db.collection.createIndex({field: 1}, {background: true})'',
       ''For large collections: build index during maintenance window''],
      kb_prevention = ''Validate data uniqueness before creating unique indexes; ensure adequate disk space; build indexes during low-traffic periods'',
      kb_base_confidence = 65, kb_base_risk_score = 50\<rparr>]"

definition mongo_entries_2 :: "KnowledgeEntry list" where
  "mongo_entries_2 =
    [\<lparr>kb_id = ''mongo-storage-error'', kb_category = ''database'', kb_sub_category = ''mongodb'',
      kb_keywords = [''storage engine error'', ''wiredtiger error'', ''storage error mongodb''], kb_anti_words = [],
      kb_metric_name = [], kb_severity = ''critical'',
      kb_root_cause = (''MongoDB storage engine encountered an error '' @ [CHR 0xE2, CHR 0x80, CHR 0x94] @ '' potential data corruption or disk failure''),
      kb_reasoning = [''WiredTiger storage errors usually indicate disk-level problems'',
       ''The database may shut down to prevent further damage'',
       ''Data files on the affected volume may be corrupted''],
      kb_impact = ''Database may become unavailable; data integrity is at risk; potential data loss'',
      kb_resolution_steps = [''Check mongod logs for specific error details'', ''Check disk health: smartctl -a /dev/sda'',
       (''If disk is failing: do not restart on the same disk '' @ [CHR 0xE2, CHR 0x80, CHR 0x94] @ '' restore from backup''),
       ''Run validate on affected collections: db.collection.validate()'',
       ''If data is corrupt: restore from backup and replay oplog''],
      kb_prevention = ''Monitor disk health; use ECC memory; maintain regular backups; test restore procedures'',
      kb_base_confidence = 85, kb_base_risk_score = 90\<rparr>]"

definition mongo_entries :: "KnowledgeEntry list" where
  "mongo_entries = mongo_entries_1 @ mongo_entries_2"

end
