(* ===== verification/KbKubernetes.thy ===== *)
theory KbKubernetes
  imports KnowledgeMatch
begin

text \<open>
  The entries of \<open>services/kb_kubernetes.go\<close>: Kubernetes.
  One definition per builder, in the order of the source; a long builder is in numbered pieces.
\<close>

definition kubernetes_entries_1 :: "KnowledgeEntry list" where
  "kubernetes_entries_1 =
    [\<lparr>kb_id = ''k8s-crashloopbackoff'', kb_category = ''kubernetes'', kb_sub_category = ''pod'',
      kb_keywords = [''crashloopbackoff'', ''crash loop'', ''back-off restarting''], kb_anti_words = [],
      kb_metric_name = [], kb_severity = ''critical'',
      kb_root_cause = (''Pod is crash-looping '' @ [CHR 0xE2, CHR 0x80, CHR 0x94] @ '' the container starts, crashes, and restarts repeatedly''),
      kb_reasoning = [''The container exits almost immediately after starting, triggering Kubernetes restart'',
       ''Kubernetes applies exponential backoff between restarts (10s, 20s, 40s...)'',
       ''Common causes: missing config/secrets, unresolvable dependencies, application bugs''],
      kb_impact = ''Service is effectively down; pods never reach Ready state; no traffic is served'',
      kb_resolution_steps = [''Check crash logs: kubectl logs <pod> --previous'', ''Check events: kubectl describe pod <pod>'',
       ''Check if configmap/secret is missing: kubectl get configmap,secret -n <namespace>'',
       ''Check if the image exists and is pullable: docker pull <image>'',
       ''Fix the application error, rebuild and redeploy''],
      kb_prevention = ''Test container startup in CI; validate all required env vars/secrets exist; use readiness/liveness probes'',
      kb_base_confidence = 85, kb_base_risk_score = 85\<rparr>,
     \<lparr>kb_id = ''k8s-oomkilled'', kb_category = ''kubernetes'', kb_sub_category = ''pod'',
      kb_keywords = [''oomkilled'', ''oom killed'', ''out of memory killed kubernetes''], kb_anti_words = [],
      kb_metric_name = [], kb_severity = ''critical'',
      kb_root_cause = ''Pod was killed by Kubernetes OOM killer because it exceeded its memory limit'',
      kb_reasoning = [''The container tried to use more memory than its resources.limits.memory allows'',
       (''Kubernetes kills the container immediately '' @ [CHR 0xE2, CHR 0x80, CHR 0x94] @ '' no graceful shutdown''),
       ''The pod will be restarted, but may OOM-kill again if the limit is too low''],
      kb_impact = ''Service interruption during restart; in-flight requests lost; may repeat if limit is wrong'',
      kb_resolution_steps = [(''Check OOM details: kubectl describe pod <pod> | grep -A5 '' @ [CHR 0x27] @ ''Last State'' @ [CHR 0x27]),
       ''Increase memory limit: resources.limits.memory in the pod spec'',
       ''Profile memory: check application metrics for heap/RSS growth'',
       ''Check for memory leaks in the application'',
       ''Set resources.requests.memory close to resources.limits.memory for predictable behavior''],
      kb_prevention = ''Right-size memory limits based on profiling; set memory requests = limits; implement memory leak detection'',
      kb_base_confidence = 85, kb_base_risk_score = 80\<rparr>,
     \<lparr>kb_id = ''k8s-imagepullbackoff'', kb_category = ''kubernetes'', kb_sub_category = ''pod'',
      kb_keywords = [''imagepullbackoff'', ''errimagepull'', ''failed to pull image''], kb_anti_words = [],
      kb_metric_name = [], kb_severity = ''high'',
      kb_root_cause = (''Pod cannot pull its container image '' @ [CHR 0xE2, CHR 0x80, CHR 0x94] @ '' image does not exist or registry auth failed''),
      kb_reasoning = [''The container image tag does not exist in the registry, or the registry is unreachable'',
       ''ImagePullSecrets may be missing or contain wrong credentials'',
       ''Private registries require authentication that may have expired''],
      kb_impact = ''Pod cannot start; service is unavailable; deployment is stuck'',
      kb_resolution_steps = [''Check error detail: kubectl describe pod <pod> | grep -A3 Events'',
       ''Verify image exists: docker pull <image> (from a machine with access)'',
       (''Check imagePullSecrets: kubectl get pod <pod> -o jsonpath='' @ [CHR 0x27] @ ''{.spec.imagePullSecrets}'' @ [CHR 0x27]),
       ''Create/update pull secret: kubectl create secret docker-registry regcred --docker-server=<url> --docker-username=<user> --docker-password=<pass>'',
       ''Verify image tag is correct in the deployment spec''],
      kb_prevention = ''Use immutable image tags (SHA digests); validate image existence in CI before deploy; automate registry credentials'',
      kb_base_confidence = 80, kb_base_risk_score = 65\<rparr>,
     \<lparr>kb_id = ''k8s-node-not-ready'', kb_category = ''kubernetes'', kb_sub_category = ''node'',
      kb_keywords = [''node not ready'', ''nodenotready'', ''node condition''], kb_anti_words = [],
      kb_metric_name = [], kb_severity = ''critical'',
      kb_root_cause = (''Kubernetes node is in NotReady state '' @ [CHR 0xE2, CHR 0x80, CHR 0x94] @ '' kubelet is not reporting healthy status''),
      kb_reasoning = [''The kubelet on the node stopped heartbeating to the API server'',
       ''Common causes: kubelet crash, disk pressure, memory pressure, or network partition'',
       ''Pods on the NotReady node will be evicted after the pod-eviction-timeout (5 min default)''],
      kb_impact = ''Pods on the node will be evicted; scheduling capacity reduced; potential service degradation'',
      kb_resolution_steps = [''Check node status: kubectl describe node <node>'',
       ''SSH to node and check kubelet: systemctl status kubelet'',
       (''Check kubelet logs: journalctl -u kubelet --since '' @ [CHR 0x27] @ ''10 min ago'' @ [CHR 0x27]),
       ''Check disk pressure: df -h on the node'', ''Check memory pressure: free -h on the node''],
      kb_prevention = ''Monitor node health; run node problem detector; set up automatic node repair; use cluster autoscaler'',
      kb_base_confidence = 85, kb_base_risk_score = 85\<rparr>,
     \<lparr>kb_id = ''k8s-pvc-pending'', kb_category = ''kubernetes'', kb_sub_category = ''storage'',
      kb_keywords = [''pvc pending'', ''persistentvolumeclaim pending'', ''no persistent volumes available''],
      kb_anti_words = [], kb_metric_name = [], kb_severity = ''high'',
      kb_root_cause = (''PersistentVolumeClaim is stuck in Pending '' @ [CHR 0xE2, CHR 0x80, CHR 0x94] @ '' no matching PersistentVolume available''),
      kb_reasoning = [(''No PV matches the PVC'' @ [CHR 0x27] @ ''s storage class, size, or access mode requirements''),
       ''The StorageClass provisioner may be failing to create new volumes'',
       ''Cloud provider quota for the volume type may be exceeded''],
      kb_impact = ''Pod cannot start because its volume is not available; data-dependent service is down'',
      kb_resolution_steps = [''Check PVC events: kubectl describe pvc <name>'', ''Check if StorageClass exists: kubectl get storageclass'',
       ''Check provisioner pods: kubectl get pods -n kube-system | grep csi'',
       ''Check cloud provider quotas for volumes'', ''Manually create a PV if dynamic provisioning is not working''],
      kb_prevention = ''Validate StorageClass before deployment; monitor cloud provider quotas; test PVC binding in staging'',
      kb_base_confidence = 75, kb_base_risk_score = 65\<rparr>,
     \<lparr>kb_id = ''k8s-resource-quota'', kb_category = ''kubernetes'', kb_sub_category = ''namespace'',
      kb_keywords = [''exceeded quota'', ''resource quota'', ''namespace quota exceeded''], kb_anti_words = [],
      kb_metric_name = [], kb_severity = ''high'',
      kb_root_cause = (''Namespace resource quota is exceeded '' @ [CHR 0xE2, CHR 0x80, CHR 0x94] @ '' cannot create new pods or increase resource usage''),
      kb_reasoning = [''The namespace has a ResourceQuota that limits total CPU, memory, or pod count'',
       ''New deployments or scaling operations are blocked when the quota is hit'',
       (''This is a governance mechanism '' @ [CHR 0xE2, CHR 0x80, CHR 0x94] @ '' the quota may need adjustment for the workload'')],
      kb_impact = ''Cannot deploy new pods; scaling operations fail; deployments stuck'',
      kb_resolution_steps = [''Check quota usage: kubectl describe resourcequota -n <namespace>'',
       ''Reduce resource requests on existing pods'',
       ''Request quota increase: kubectl edit resourcequota <name> -n <namespace>'',
       ''Delete unused pods/deployments to free quota'',
       ''Optimize resource requests to be more accurate (not over-provisioned)''],
      kb_prevention = ''Right-size resource requests; monitor quota utilization; set up alerts at 80% quota usage'',
      kb_base_confidence = 75, kb_base_risk_score = 60\<rparr>,
     \<lparr>kb_id = ''k8s-readiness-probe-fail'', kb_category = ''kubernetes'', kb_sub_category = ''pod'',
      kb_keywords = [''readiness probe failed'', ''not ready'', ''unhealthy: readiness''], kb_anti_words = [],
      kb_metric_name = [], kb_severity = ''high'',
      kb_root_cause = (''Readiness probe is failing '' @ [CHR 0xE2, CHR 0x80, CHR 0x94] @ '' pod is removed from service endpoints and receives no traffic''),
      kb_reasoning = [''The readiness probe endpoint is not responding with a success status'',
       ''Common causes: application not fully started, dependency unavailable, or health endpoint bug'',
       ''Unlike liveness probe failure, readiness failure does not restart the pod''],
      kb_impact = ''Pod receives no traffic; if all pods fail readiness, service has zero capacity'',
      kb_resolution_steps = [''Check probe details: kubectl describe pod <pod>'',
       ''Test the health endpoint: kubectl exec <pod> -- curl -v http://localhost:<port><path>'',
       ''Check application logs: kubectl logs <pod>'', ''Increase initialDelaySeconds if app starts slowly'',
       ''Check if a dependency (DB, Redis) is down, causing health check to fail''],
      kb_prevention = ''Set appropriate initialDelaySeconds; make health endpoints lightweight; do not check all dependencies in readiness probe'',
      kb_base_confidence = 75, kb_base_risk_score = 60\<rparr>,
     \<lparr>kb_id = ''k8s-liveness-probe-fail'', kb_category = ''kubernetes'', kb_sub_category = ''pod'',
      kb_keywords = [''liveness probe failed'', ''unhealthy: liveness'', ''restarting due to liveness''],
      kb_anti_words = [], kb_metric_name = [], kb_severity = ''high'',
      kb_root_cause = (''Liveness probe is failing '' @ [CHR 0xE2, CHR 0x80, CHR 0x94] @ '' Kubernetes is restarting the pod repeatedly''),
      kb_reasoning = [''Liveness probe failures cause Kubernetes to kill and restart the container'',
       ''If the underlying issue persists, this creates a restart loop similar to CrashLoopBackOff'',
       ''Common causes: application hang/deadlock, resource exhaustion, or aggressive probe settings''],
      kb_impact = ''Pod is repeatedly restarted; service availability is degraded; in-flight requests are dropped'',
      kb_resolution_steps = [''Check probe config: kubectl describe pod <pod> | grep -A5 Liveness'',
       ''Test liveness endpoint: kubectl exec <pod> -- curl -v http://localhost:<port><path>'',
       ''Increase timeoutSeconds and failureThreshold if the probe is too aggressive'',
       ''Check for application deadlocks or thread starvation'',
       ''Increase initialDelaySeconds for slow-starting applications''],
      kb_prevention = ''Use generous liveness probe settings; do not check dependencies in liveness probe; start with readiness probe only'',
      kb_base_confidence = 75, kb_base_risk_score = 65\<rparr>,
     \<lparr>kb_id = ''k8s-hpa-max-replicas'', kb_category = ''kubernetes'', kb_sub_category = ''autoscaling'',
      kb_keywords = [''hpa max replicas'', ''maxreplicas reached'', ''horizontal pod autoscaler maximum''],
      kb_anti_words = [], kb_metric_name = [], kb_severity = ''high'',
      kb_root_cause = ''HPA has scaled to maximum replicas but load is still increasing'',
      kb_reasoning = [''The autoscaler has reached its configured maximum and cannot add more pods'',
       ''CPU/memory utilization remains above the target despite maximum replicas'',
       ''Either the maxReplicas is too low or the application cannot handle the current load''],
      kb_impact = ''Service is at capacity ceiling; response times increase; potential SLA violation'',
      kb_resolution_steps = [''Check HPA status: kubectl describe hpa <name>'',
       (''Increase maxReplicas: kubectl patch hpa <name> -p '' @ [CHR 0x27] @ ''{'' @ [CHR 0x22] @ ''spec'' @ [CHR 0x22] @ '':{'' @ [CHR 0x22] @ ''maxReplicas'' @ [CHR 0x22] @ '':20}}'' @ [CHR 0x27]),
       ''Check if node capacity allows more pods: kubectl describe nodes | grep -A5 Allocatable'',
       ''Optimize application to handle more requests per pod'',
       ''Add more nodes to the cluster if scheduling capacity is the limit''],
      kb_prevention = ''Set maxReplicas with headroom above expected peak; monitor HPA scaling events; load test to validate capacity'',
      kb_base_confidence = 75, kb_base_risk_score = 70\<rparr>]"

definition kubernetes_entries_2 :: "KnowledgeEntry list" where
  "kubernetes_entries_2 =
    [\<lparr>kb_id = ''k8s-dns-failure'', kb_category = ''kubernetes'', kb_sub_category = ''networking'',
      kb_keywords = [''dns resolution failed kubernetes'', ''coredns error'', ''nxdomain kubernetes''],
      kb_anti_words = [], kb_metric_name = [], kb_severity = ''critical'',
      kb_root_cause = (''Kubernetes cluster DNS (CoreDNS) is failing '' @ [CHR 0xE2, CHR 0x80, CHR 0x94] @ '' service discovery is broken''),
      kb_reasoning = [''CoreDNS is the central DNS service for all in-cluster service discovery'',
       (''If CoreDNS fails, pods cannot resolve service names like '' @ [CHR 0x27] @ ''my-service.namespace.svc.cluster.local'' @ [CHR 0x27]),
       ''All inter-service communication using DNS breaks simultaneously''],
      kb_impact = ''All service-to-service communication fails; cluster-wide outage'',
      kb_resolution_steps = [''Check CoreDNS pods: kubectl get pods -n kube-system -l k8s-app=kube-dns'',
       ''Check CoreDNS logs: kubectl logs -n kube-system -l k8s-app=kube-dns --tail=50'',
       ''Restart CoreDNS: kubectl rollout restart deployment coredns -n kube-system'',
       ''Test DNS from a pod: kubectl exec <pod> -- nslookup kubernetes.default'',
       ''Check CoreDNS config: kubectl get configmap coredns -n kube-system -o yaml''],
      kb_prevention = ''Monitor CoreDNS health and latency; run CoreDNS with at least 2 replicas; implement DNS caching in pods'',
      kb_base_confidence = 85, kb_base_risk_score = 90\<rparr>,
     \<lparr>kb_id = ''k8s-rbac-denied'', kb_category = ''kubernetes'', kb_sub_category = ''security'',
      kb_keywords = [''forbidden'', ''rbac denied'', ''cannot get'', ''cannot list'', ''unauthorized kubernetes''],
      kb_anti_words = [], kb_metric_name = [], kb_severity = ''high'',
      kb_root_cause = (''RBAC permission denied '' @ [CHR 0xE2, CHR 0x80, CHR 0x94] @ '' the service account lacks required permissions''),
      kb_reasoning = [(''The pod'' @ [CHR 0x27] @ ''s service account does not have a ClusterRole/Role granting the required verb on the resource''),
       ''Common after changes to RBAC policies, namespace migration, or new API usage'',
       (''Kubernetes RBAC is deny-by-default '' @ [CHR 0xE2, CHR 0x80, CHR 0x94] @ '' if no rule grants access, it is denied'')],
      kb_impact = ''The specific Kubernetes API operation fails; application cannot manage resources'',
      kb_resolution_steps = [''Check which permission is needed from the error message'',
       (''Check service account: kubectl get pod <pod> -o jsonpath='' @ [CHR 0x27] @ ''{.spec.serviceAccountName}'' @ [CHR 0x27]),
       ''Check roles: kubectl get rolebinding,clusterrolebinding --all-namespaces -o wide | grep <sa_name>'',
       ''Create a role: kubectl create role <name> --verb=get,list --resource=configmaps -n <ns>'',
       ''Bind it: kubectl create rolebinding <name> --role=<role> --serviceaccount=<ns>:<sa>''],
      kb_prevention = ''Define RBAC policies in version-controlled YAML; test permissions in staging; use least-privilege principle'',
      kb_base_confidence = 75, kb_base_risk_score = 55\<rparr>,
     \<lparr>kb_id = ''k8s-secret-not-found'', kb_category = ''kubernetes'', kb_sub_category = ''config'',
      kb_keywords = [''secret not found'', ''secret does not exist'', ''failed to get secret''], kb_anti_words = [],
      kb_metric_name = [], kb_severity = ''critical'',
      kb_root_cause = (''Required Kubernetes Secret is missing '' @ [CHR 0xE2, CHR 0x80, CHR 0x94] @ '' pod cannot mount or reference the secret''),
      kb_reasoning = [''The pod spec references a Secret that does not exist in the namespace'',
       ''This prevents the pod from starting entirely (CreateContainerConfigError)'',
       ''May happen when deploying to a new namespace without creating prerequisites''],
      kb_impact = ''Pod cannot start; service is down until the secret is created'',
      kb_resolution_steps = [''Check events: kubectl describe pod <pod>'', ''List secrets: kubectl get secrets -n <namespace>'',
       ''Create the secret: kubectl create secret generic <name> --from-literal=<key>=<value>'',
       ''Or from file: kubectl create secret generic <name> --from-file=<path>'',
       ''Verify the secret name matches what the pod spec references''],
      kb_prevention = ''Include secrets in deployment pipeline; use sealed-secrets or external-secrets-operator; validate before deploy'',
      kb_base_confidence = 80, kb_base_risk_score = 70\<rparr>,
     \<lparr>kb_id = ''k8s-configmap-not-found'', kb_category = ''kubernetes'', kb_sub_category = ''config'',
      kb_keywords = [''configmap not found'', ''configmap does not exist'', ''failed to get configmap''],
      kb_anti_words = [], kb_metric_name = [], kb_severity = ''high'',
      kb_root_cause = (''Required ConfigMap is missing '' @ [CHR 0xE2, CHR 0x80, CHR 0x94] @ '' pod cannot mount or reference the config''),
      kb_reasoning = [''The pod spec references a ConfigMap that does not exist in the namespace'',
       ''This prevents the pod from starting or injecting the expected environment variables'',
       ''Common when deploying to a new namespace or after config cleanup''],
      kb_impact = ''Pod cannot start or runs with missing configuration; application may behave incorrectly'',
      kb_resolution_steps = [''Check events: kubectl describe pod <pod>'', ''List configmaps: kubectl get configmaps -n <namespace>'',
       ''Create the ConfigMap: kubectl create configmap <name> --from-literal=<key>=<value>'',
       ''Or from file: kubectl create configmap <name> --from-file=<path>'',
       ''Make the ConfigMap optional if appropriate: optional: true in the volume source''],
      kb_prevention = ''Include ConfigMaps in deployment pipeline; validate prerequisites before pod creation'',
      kb_base_confidence = 75, kb_base_risk_score = 60\<rparr>,
     \<lparr>kb_id = ''k8s-network-policy-blocking'', kb_category = ''kubernetes'', kb_sub_category = ''networking'',
      kb_keywords = [''network policy blocking'', ''networkpolicy'', ''traffic dropped kubernetes''],
      kb_anti_words = [], kb_metric_name = [], kb_severity = ''high'',
      kb_root_cause = ''Kubernetes NetworkPolicy is blocking expected traffic between pods or namespaces'',
      kb_reasoning = [''A NetworkPolicy with ingress/egress rules is preventing required communication'',
       ''When a NetworkPolicy is applied to a pod, all traffic not explicitly allowed is blocked'',
       ''Common after security hardening or namespace isolation changes''],
      kb_impact = ''Service-to-service communication fails; specific pods cannot reach dependencies'',
      kb_resolution_steps = [''Check network policies: kubectl get networkpolicy -n <namespace>'',
       ''Describe the policy: kubectl describe networkpolicy <name> -n <namespace>'',
       ''Test connectivity: kubectl exec <pod> -- nc -zv <target-service> <port>'',
       ''Add an allow rule for the required traffic'',
       ''Temporarily delete the policy to verify it is the cause: kubectl delete networkpolicy <name>''],
      kb_prevention = ''Test NetworkPolicies in staging; use network policy visualization tools; document required traffic flows'',
      kb_base_confidence = 70, kb_base_risk_score = 55\<rparr>,
     \<lparr>kb_id = ''k8s-ingress-error'', kb_category = ''kubernetes'', kb_sub_category = ''networking'',
      kb_keywords = [''ingress error'', ''nginx ingress error'', ''502 bad gateway ingress'', ''ingress controller error''],
      kb_anti_words = [], kb_metric_name = [], kb_severity = ''high'',
      kb_root_cause = (''Kubernetes Ingress controller is returning errors '' @ [CHR 0xE2, CHR 0x80, CHR 0x94] @ '' backend service is unreachable''),
      kb_reasoning = [''The Ingress controller cannot forward traffic to the backend service/pods'',
       ''Common causes: backend pods not ready, wrong service port, or no endpoints'',
       ''502 from ingress specifically means the backend returned an invalid response''],
      kb_impact = ''External traffic cannot reach the service; users see 502/503 errors'',
      kb_resolution_steps = [''Check ingress controller logs: kubectl logs -n <ingress-ns> -l app.kubernetes.io/name=ingress-nginx --tail=50'',
       ''Check backend endpoints: kubectl get endpoints <service-name>'',
       ''Verify service port matches pod port: kubectl describe svc <service-name>'',
       ''Check pod readiness: kubectl get pods -l <selector>'',
       ''Verify ingress spec: kubectl describe ingress <name>''],
      kb_prevention = ''Use readiness probes; monitor endpoint count; validate ingress config in CI'',
      kb_base_confidence = 75, kb_base_risk_score = 65\<rparr>,
     \<lparr>kb_id = ''k8s-pod-eviction'', kb_category = ''kubernetes'', kb_sub_category = ''pod'',
      kb_keywords = [''pod evicted'', ''eviction kubernetes'', ''low disk space kubernetes''], kb_anti_words = [],
      kb_metric_name = [], kb_severity = ''high'',
      kb_root_cause = ''Pod was evicted due to node resource pressure (disk, memory, or PID)'',
      kb_reasoning = [''The kubelet evicts pods when the node is under resource pressure'',
       ''Pods without resource limits or with BestEffort QoS are evicted first'',
       ''Evicted pods are rescheduled on other nodes if capacity allows''],
      kb_impact = ''Service disruption during rescheduling; data loss if using emptyDir volumes'',
      kb_resolution_steps = [''Check eviction reason: kubectl describe pod <pod> | grep -A3 Status'',
       ''Check node conditions: kubectl describe node <node> | grep -A5 Conditions'',
       ''If disk pressure: clean up on the node (docker prune, log cleanup)'',
       ''If memory pressure: add memory or reduce workload on the node'',
       ''Set resource requests and limits to get Guaranteed QoS class''],
      kb_prevention = ''Set resource requests and limits; monitor node resource usage; use PodDisruptionBudgets'',
      kb_base_confidence = 75, kb_base_risk_score = 60\<rparr>,
     \<lparr>kb_id = ''k8s-webhook-denied'', kb_category = ''kubernetes'', kb_sub_category = ''config'',
      kb_keywords = [''admission webhook'', ''webhook denied'', ''validating webhook'', ''mutating webhook denied''],
      kb_anti_words = [], kb_metric_name = [], kb_severity = ''high'',
      kb_root_cause = ''Admission webhook is blocking resource creation or modification'',
      kb_reasoning = [''A ValidatingWebhookConfiguration or MutatingWebhookConfiguration is rejecting the request'',
       ''The webhook enforces a policy (security, naming, resource limits) that the resource violates'',
       ''If the webhook server is down, requests may also be blocked (failurePolicy: Fail)''],
      kb_impact = ''Cannot create or update Kubernetes resources; deployments are blocked'',
      kb_resolution_steps = [''Check error message for which webhook and why it denied'',
       ''Check webhook configurations: kubectl get validatingwebhookconfigurations,mutatingwebhookconfigurations'',
       ''Check webhook server health: kubectl get pods in the webhook namespace'',
       ''Fix the resource to comply with webhook policy'',
       ''If webhook server is down: set failurePolicy to Ignore temporarily''],
      kb_prevention = ''Test resources against webhook policies in CI; monitor webhook server health; set failurePolicy wisely'',
      kb_base_confidence = 70, kb_base_risk_score = 55\<rparr>,
     \<lparr>kb_id = ''k8s-etcd-error'', kb_category = ''kubernetes'', kb_sub_category = ''control-plane'',
      kb_keywords = [''etcd error'', ''etcd cluster'', ''etcdserver'', ''etcd unavailable''], kb_anti_words = [],
      kb_metric_name = [], kb_severity = ''critical'',
      kb_root_cause = (''etcd cluster error '' @ [CHR 0xE2, CHR 0x80, CHR 0x94] @ '' Kubernetes control plane data store is degraded or unavailable''),
      kb_reasoning = [(''etcd stores all Kubernetes cluster state '' @ [CHR 0xE2, CHR 0x80, CHR 0x94] @ '' without it, the API server cannot function''),
       ''etcd requires a quorum (majority of nodes); losing quorum halts all write operations'',
       ''Common causes: disk full on etcd volume, slow disk I/O, or network partition between etcd members''],
      kb_impact = ''All Kubernetes API operations may fail; cannot create, update, or delete any resources; existing workloads continue running'',
      kb_resolution_steps = [''Check etcd pod health: kubectl get pods -n kube-system -l component=etcd'',
       ''Check etcd member status: kubectl exec -n kube-system etcd-<node> -- etcdctl member list'',
       ''Check etcd disk latency: kubectl exec -n kube-system etcd-<node> -- etcdctl endpoint status'',
       ''Free disk space on etcd data volume if full'',
       ''If quorum lost: follow etcd disaster recovery documentation''],
      kb_prevention = ''Use SSD/NVMe for etcd storage; monitor etcd disk latency; run 3 or 5 etcd members; regular etcd backups'',
      kb_base_confidence = 90, kb_base_risk_score = 95\<rparr>]"

definition kubernetes_entries_3 :: "KnowledgeEntry list" where
  "kubernetes_entries_3 =
    [\<lparr>kb_id = ''k8s-api-server-unavailable'', kb_category = ''kubernetes'', kb_sub_category = ''control-plane'',
      kb_keywords = [''unable to connect to server'', ''api server unreachable'', ''kube-apiserver unavailable''],
      kb_anti_words = [], kb_metric_name = [], kb_severity = ''critical'',
      kb_root_cause = (''Kubernetes API server is unreachable '' @ [CHR 0xE2, CHR 0x80, CHR 0x94] @ '' cluster management operations are impossible''),
      kb_reasoning = [''The API server is the gateway for all cluster operations (kubectl, controllers, kubelets)'',
       ''If the API server is down, no new pods can be scheduled and no changes can be made'',
       ''Existing running pods continue to function but cannot be managed''],
      kb_impact = ''All kubectl commands fail; controllers cannot reconcile; auto-scaling and self-healing stop'',
      kb_resolution_steps = [''Check if API server pod is running (access control plane node directly)'',
       ''Check API server logs on the control plane node: journalctl -u kube-apiserver or docker logs'',
       ''Verify etcd is healthy (API server depends on etcd)'',
       ''Check API server certificates: they may have expired'',
       ''Restart API server: systemctl restart kube-apiserver (or re-create the static pod)''],
      kb_prevention = ''Run HA control plane (3+ masters); monitor API server health externally; automate certificate renewal'',
      kb_base_confidence = 90, kb_base_risk_score = 95\<rparr>,
     \<lparr>kb_id = ''k8s-init-container-fail'', kb_category = ''kubernetes'', kb_sub_category = ''pod'',
      kb_keywords = [''init container failed'', ''init:error'', ''init container error''], kb_anti_words = [],
      kb_metric_name = [], kb_severity = ''high'',
      kb_root_cause = ''Init container failed, preventing the main container from starting'',
      kb_reasoning = [''Init containers run before main containers and must complete successfully'',
       ''Common uses: database migration, config download, or dependency waiting'',
       ''If the init container fails, the main application never starts''],
      kb_impact = ''Pod cannot start; service remains unavailable until init container succeeds'',
      kb_resolution_steps = [''Check init container logs: kubectl logs <pod> -c <init-container-name>'',
       ''Check init container status: kubectl describe pod <pod>'',
       ''Verify what the init container does and fix its failure'',
       ''If waiting for a dependency: check if the dependency is available'',
       ''Increase init container timeout or add retry logic''],
      kb_prevention = ''Test init containers independently; make them idempotent; add timeout and retry logic'',
      kb_base_confidence = 75, kb_base_risk_score = 60\<rparr>,
     \<lparr>kb_id = ''k8s-volume-mount-fail'', kb_category = ''kubernetes'', kb_sub_category = ''storage'',
      kb_keywords = [''volume mount error'', ''failed to mount volume'', ''volumemount error''], kb_anti_words = [],
      kb_metric_name = [], kb_severity = ''high'',
      kb_root_cause = (''Pod cannot mount a volume '' @ [CHR 0xE2, CHR 0x80, CHR 0x94] @ '' the volume path, permissions, or driver is failing''),
      kb_reasoning = [''Volume mount failures prevent the pod from starting if the volume is required'',
       ''Common causes: PVC not bound, CSI driver error, NFS server unreachable, or wrong subpath'',
       (''Permissions on the mounted path may not match the pod'' @ [CHR 0x27] @ ''s security context'')],
      kb_impact = ''Pod cannot start; service is unavailable; data access is blocked'',
      kb_resolution_steps = [''Check pod events: kubectl describe pod <pod>'', ''Check PVC status: kubectl get pvc'',
       ''Check CSI driver pods: kubectl get pods -n kube-system | grep csi'',
       ''Verify NFS/storage backend is accessible from the node'',
       ''Check fsGroup and runAsUser in securityContext for permission issues''],
      kb_prevention = ''Test volume mounts in staging; validate PVCs before deployment; monitor storage backend health'',
      kb_base_confidence = 75, kb_base_risk_score = 65\<rparr>,
     \<lparr>kb_id = ''k8s-cronjob-missed'', kb_category = ''kubernetes'', kb_sub_category = ''workload'',
      kb_keywords = [''cronjob missed'', ''startingdeadlineseconds'', ''cronjob failed to schedule''],
      kb_anti_words = [], kb_metric_name = [], kb_severity = ''medium'',
      kb_root_cause = ''Kubernetes CronJob missed its scheduled execution window'',
      kb_reasoning = [''If the CronJob controller cannot schedule the job within startingDeadlineSeconds, it is missed'',
       ''Common causes: controller overloaded, node scheduling pressure, or too short deadline'',
       ''Missed jobs are not retried unless concurrencyPolicy allows it''],
      kb_impact = ''Scheduled task did not run; data may not be processed; reports may be delayed'',
      kb_resolution_steps = [''Check CronJob events: kubectl describe cronjob <name>'',
       ''Increase startingDeadlineSeconds: 200 (default is 100)'',
       ''Check controller manager health: kubectl get pods -n kube-system | grep controller-manager'',
       ''Manually trigger: kubectl create job --from=cronjob/<name> manual-<timestamp>'',
       ''Check if node scheduling capacity is available''],
      kb_prevention = ''Set startingDeadlineSeconds generously; monitor CronJob execution; alert on missed schedules'',
      kb_base_confidence = 65, kb_base_risk_score = 45\<rparr>,
     \<lparr>kb_id = ''k8s-cert-expired'', kb_category = ''kubernetes'', kb_sub_category = ''security'',
      kb_keywords = [''certificate expired kubernetes'', ''tls certificate expired k8s'', ''x509: certificate has expired''],
      kb_anti_words = [], kb_metric_name = [], kb_severity = ''critical'',
      kb_root_cause = (''TLS certificate in Kubernetes has expired '' @ [CHR 0xE2, CHR 0x80, CHR 0x94] @ '' secure communication is broken''),
      kb_reasoning = [''Kubernetes uses TLS certificates for API server, kubelet, and inter-component communication'',
       ''Expired certificates cause all authenticated communication to fail'',
       ''cert-manager managed certificates should auto-renew but can fail silently''],
      kb_impact = ''Cluster components cannot communicate; kubectl fails; nodes disconnect from control plane'',
      kb_resolution_steps = [''Check certificate expiry: kubeadm certs check-expiration'', ''Renew certificates: kubeadm certs renew all'',
       ''For cert-manager: kubectl describe certificate <name> to check status'',
       ''Restart affected components after renewal: systemctl restart kubelet'',
       ''For managed Kubernetes: contact cloud provider if control plane certs expired''],
      kb_prevention = ''Monitor certificate expiry 30 days in advance; use cert-manager with auto-renewal; set up expiry alerts'',
      kb_base_confidence = 85, kb_base_risk_score = 85\<rparr>,
     \<lparr>kb_id = ''k8s-cni-error'', kb_category = ''kubernetes'', kb_sub_category = ''networking'',
      kb_keywords = [''cni error'', ''network plugin'', ''failed to set up pod network'', ''calico error'', ''flannel error'',
       ''cilium error''],
      kb_anti_words = [], kb_metric_name = [], kb_severity = ''critical'',
      kb_root_cause = (''Container Network Interface (CNI) plugin error '' @ [CHR 0xE2, CHR 0x80, CHR 0x94] @ '' pod networking is broken''),
      kb_reasoning = [''The CNI plugin is responsible for assigning IP addresses and setting up network for pods'',
       ''If CNI fails, new pods cannot get network connectivity'',
       ''Common causes: CNI pod crashed, IP address exhaustion, or configuration error''],
      kb_impact = ''New pods cannot get network; existing pods may lose connectivity; cluster networking degraded'',
      kb_resolution_steps = [(''Check CNI pods: kubectl get pods -n kube-system | grep -E '' @ [CHR 0x27] @ ''calico|flannel|cilium|weave'' @ [CHR 0x27]),
       ''Check CNI pod logs: kubectl logs -n kube-system <cni-pod>'',
       ''Check if IP pool is exhausted: for Calico: calicoctl ipam show'',
       ''Restart CNI pods: kubectl delete pods -n kube-system -l k8s-app=<cni-app>'',
       ''Check node network configuration: ip addr show on affected nodes''],
      kb_prevention = ''Monitor CNI pod health; size IP pools for growth; keep CNI plugin updated; run redundant CNI pods'',
      kb_base_confidence = 85, kb_base_risk_score = 85\<rparr>,
     \<lparr>kb_id = ''k8s-service-no-endpoints'', kb_category = ''kubernetes'', kb_sub_category = ''networking'',
      kb_keywords = [''no endpoints'', ''endpoints not ready'', ''service unavailable kubernetes''],
      kb_anti_words = [], kb_metric_name = [], kb_severity = ''critical'',
      kb_root_cause = (''Kubernetes Service has no ready endpoints '' @ [CHR 0xE2, CHR 0x80, CHR 0x94] @ '' no pods are serving traffic''),
      kb_reasoning = [''No pods match the service selector, or all matching pods have failed readiness probes'',
       ''Traffic sent to the service gets connection refused or timeout'',
       ''This effectively means the service is down even though the Service object exists''],
      kb_impact = ''All traffic to the service fails; dependent services experience connection errors'',
      kb_resolution_steps = [''Check endpoints: kubectl get endpoints <service-name>'',
       ''Check if pods match the selector: kubectl get pods -l <selector-from-service>'',
       ''Check pod readiness: kubectl get pods -l <selector> -o wide'',
       ''Check readiness probe results: kubectl describe pod <pod>'',
       ''Fix readiness probe or the underlying issue causing pods to be not ready''],
      kb_prevention = ''Monitor endpoint count per service; set up alerts when endpoints drop to zero; use PodDisruptionBudgets'',
      kb_base_confidence = 80, kb_base_risk_score = 80\<rparr>,
     \<lparr>kb_id = ''k8s-deployment-stuck'', kb_category = ''kubernetes'', kb_sub_category = ''workload'',
      kb_keywords = [''deployment stuck'', ''rollout stuck'', ''deployment not progressing''], kb_anti_words = [],
      kb_metric_name = [], kb_severity = ''high'',
      kb_root_cause = ''Kubernetes Deployment rollout is stuck and not making progress'',
      kb_reasoning = [''New pods from the Deployment cannot reach Ready state'',
       ''Common causes: image pull errors, readiness probe failures, or resource exhaustion'',
       ''Old ReplicaSet pods continue serving while new ones fail to start''],
      kb_impact = ''New version is not deployed; old version continues running; rollback may be needed'',
      kb_resolution_steps = [''Check rollout status: kubectl rollout status deployment/<name>'',
       ''Check new ReplicaSet pods: kubectl get pods -l app=<name> --sort-by=.metadata.creationTimestamp'',
       ''Describe failing pods: kubectl describe pod <new-pod>'',
       ''Roll back if needed: kubectl rollout undo deployment/<name>'',
       ''Fix the issue (image, config, resources) and redeploy''],
      kb_prevention = ''Use canary deployments; set progressDeadlineSeconds; validate images before deploy; use CI/CD pipelines'',
      kb_base_confidence = 75, kb_base_risk_score = 65\<rparr>,
     \<lparr>kb_id = ''k8s-statefulset-stuck'', kb_category = ''kubernetes'', kb_sub_category = ''workload'',
      kb_keywords = [''statefulset stuck'', ''statefulset not ready'', ''statefulset rollout''], kb_anti_words = [],
      kb_metric_name = [], kb_severity = ''high'',
      kb_root_cause = (''StatefulSet rollout is stuck '' @ [CHR 0xE2, CHR 0x80, CHR 0x94] @ '' pods are not reaching Ready state in order''),
      kb_reasoning = [''StatefulSets update pods one at a time in order; if one pod fails, the rollout stops'',
       ''PVC binding issues are common because each pod needs its own PVC'',
       ''The pod may be waiting for a volume or failing its readiness check''],
      kb_impact = ''StatefulSet update stalled; older pods continue running; data services may be partially updated'',
      kb_resolution_steps = [''Check StatefulSet status: kubectl describe statefulset <name>'',
       ''Check stuck pod: kubectl describe pod <name>-<ordinal>'',
       ''Check PVC: kubectl get pvc | grep <statefulset-name>'',
       ''Delete the stuck pod to retry: kubectl delete pod <name>-<ordinal>'',
       ''Roll back: kubectl rollout undo statefulset/<name>''],
      kb_prevention = ''Test StatefulSet updates in staging; use partition-based rolling updates; validate PVCs before rollout'',
      kb_base_confidence = 75, kb_base_risk_score = 65\<rparr>]"

definition kubernetes_entries_4 :: "KnowledgeEntry list" where
  "kubernetes_entries_4 =
    [\<lparr>kb_id = ''k8s-daemonset-not-scheduled'', kb_category = ''kubernetes'', kb_sub_category = ''workload'',
      kb_keywords = [''daemonset not scheduled'', ''daemonset pod failed'', ''daemonset error''], kb_anti_words = [],
      kb_metric_name = [], kb_severity = ''high'',
      kb_root_cause = ''DaemonSet pods are not being scheduled on all expected nodes'',
      kb_reasoning = [''DaemonSet pods must run on every node (or selected nodes via nodeSelector/tolerations)'',
       ''Missing tolerations cause pods to not schedule on tainted nodes'',
       ''Resource constraints (insufficient CPU/memory) can prevent scheduling''],
      kb_impact = ''Infrastructure agent or logging daemon not running on some nodes; monitoring blind spots'',
      kb_resolution_steps = [''Check DaemonSet status: kubectl describe daemonset <name>'',
       ''Check which nodes are missing pods: kubectl get pods -l <selector> -o wide'',
       ''Check node taints: kubectl describe node <node> | grep Taint'',
       ''Add required tolerations to the DaemonSet spec'',
       ''Check resource requests: reduce if nodes cannot accommodate''],
      kb_prevention = ''Add tolerations for all expected taints; set low resource requests for infrastructure DaemonSets; monitor pod count'',
      kb_base_confidence = 70, kb_base_risk_score = 55\<rparr>,
     \<lparr>kb_id = ''k8s-job-failed'', kb_category = ''kubernetes'', kb_sub_category = ''workload'',
      kb_keywords = [''job failed'', ''backofflimitexceeded'', ''job pod failed''], kb_anti_words = [],
      kb_metric_name = [], kb_severity = ''high'',
      kb_root_cause = (''Kubernetes Job exceeded its backoff limit '' @ [CHR 0xE2, CHR 0x80, CHR 0x94] @ '' the job has permanently failed''),
      kb_reasoning = [(''The Job'' @ [CHR 0x27] @ ''s pods failed on every retry attempt up to the backoffLimit''),
       ''Common causes: wrong command, missing config, or dependent service unavailable'',
       ''The Job will not be retried automatically after exceeding the limit''],
      kb_impact = ''Batch processing did not complete; data may not be processed; dependent workflows blocked'',
      kb_resolution_steps = [''Check job status: kubectl describe job <name>'', ''Check failed pod logs: kubectl logs job/<name>'',
       ''Fix the underlying issue (config, dependencies)'', ''Delete the failed job and create a new one'',
       ''Increase backoffLimit if failures are transient: spec.backoffLimit: 6''],
      kb_prevention = ''Test jobs in staging; increase backoffLimit for flaky operations; implement dead-letter handling'',
      kb_base_confidence = 70, kb_base_risk_score = 55\<rparr>,
     \<lparr>kb_id = ''k8s-kubelet-error'', kb_category = ''kubernetes'', kb_sub_category = ''node'',
      kb_keywords = [''kubelet error'', ''kubelet exited'', ''failed to run kubelet''], kb_anti_words = [],
      kb_metric_name = [], kb_severity = ''critical'',
      kb_root_cause = ''Kubelet process on the node has crashed or is not running'',
      kb_reasoning = [''Without kubelet, the node cannot manage pods or report health to the API server'',
       ''The node will be marked NotReady after the node-monitor-grace-period (40s default)'',
       ''Pods on this node may be evicted and rescheduled elsewhere''],
      kb_impact = ''Node becomes NotReady; all pods on the node are at risk; scheduling capacity reduced'',
      kb_resolution_steps = [''SSH to the node and check kubelet: systemctl status kubelet'',
       (''Check kubelet logs: journalctl -u kubelet --since '' @ [CHR 0x27] @ ''10 min ago'' @ [CHR 0x27]),
       ''Restart kubelet: systemctl restart kubelet'', ''Check disk space on the node: df -h'',
       ''Check if certificates expired: kubelet certificate check''],
      kb_prevention = ''Monitor kubelet health on all nodes; use node auto-repair in managed Kubernetes; keep kubelet updated'',
      kb_base_confidence = 85, kb_base_risk_score = 85\<rparr>,
     \<lparr>kb_id = ''k8s-affinity-conflict'', kb_category = ''kubernetes'', kb_sub_category = ''scheduling'',
      kb_keywords = [''pod affinity'', ''anti-affinity'', ''no nodes match'', ''affinity conflict''],
      kb_anti_words = [], kb_metric_name = [], kb_severity = ''high'',
      kb_root_cause = ''Pod cannot be scheduled because no nodes satisfy its affinity/anti-affinity rules'',
      kb_reasoning = [''The pod specifies nodeAffinity, podAffinity, or podAntiAffinity rules that no node can satisfy'',
       ''Anti-affinity rules may prevent co-location with existing pods'',
       ''Node labels may have changed, invalidating the affinity rules''],
      kb_impact = ''Pod remains Pending indefinitely; service capacity reduced'',
      kb_resolution_steps = [''Check pod events: kubectl describe pod <pod> | grep -A5 Events'',
       ''Check node labels: kubectl get nodes --show-labels'',
       ''Relax affinity rules: change requiredDuringScheduling to preferredDuringScheduling'',
       ''Add required labels to nodes: kubectl label node <node> <key>=<value>'',
       ''Add more nodes with the required labels''],
      kb_prevention = ''Use preferredDuringScheduling when possible; validate node labels; test scheduling in staging'',
      kb_base_confidence = 70, kb_base_risk_score = 55\<rparr>,
     \<lparr>kb_id = ''k8s-hpa-thrashing'', kb_category = ''kubernetes'', kb_sub_category = ''autoscaling'',
      kb_keywords = [''hpa thrashing'', ''hpa scaling'', ''hpa flapping'', ''autoscaler oscillating''],
      kb_anti_words = [], kb_metric_name = [], kb_severity = ''medium'',
      kb_root_cause = ''HPA is oscillating between scaling up and scaling down (thrashing)'',
      kb_reasoning = [''Rapid scale-up followed by scale-down indicates the metric is bouncing around the target'',
       ''New pods need time to warm up and take load, causing the metric to temporarily drop'',
       ''The stabilization window may be too short for the workload characteristics''],
      kb_impact = ''Constant pod churn; wasted resources during scale-up; potential brief degradation during scale-down'',
      kb_resolution_steps = [''Check HPA events: kubectl describe hpa <name>'',
       ''Increase stabilization window: behavior.scaleDown.stabilizationWindowSeconds: 300'',
       ''Increase scaleDown policies to be less aggressive'',
       ''Adjust target CPU/memory percentage (try 70% instead of 50%)'', ''Use custom metrics that are less volatile''],
      kb_prevention = ''Set stabilization windows; use moderate target values; tune HPA behavior policies; test with load simulation'',
      kb_base_confidence = 65, kb_base_risk_score = 40\<rparr>,
     \<lparr>kb_id = ''k8s-scheduler-failure'', kb_category = ''kubernetes'', kb_sub_category = ''control-plane'',
      kb_keywords = [''scheduler failure'', ''scheduler error'', ''kube-scheduler''], kb_anti_words = [],
      kb_metric_name = [], kb_severity = ''critical'',
      kb_root_cause = (''Kubernetes scheduler is failing '' @ [CHR 0xE2, CHR 0x80, CHR 0x94] @ '' new pods cannot be assigned to nodes''),
      kb_reasoning = [''Without the scheduler, Pending pods stay Pending forever'',
       ''Existing running pods are not affected but new deployments cannot proceed'',
       ''The scheduler may have crashed or lost leadership in HA setup''],
      kb_impact = ''No new pods can be scheduled; scaling and deployments are blocked'',
      kb_resolution_steps = [''Check scheduler pods: kubectl get pods -n kube-system -l component=kube-scheduler'',
       ''Check scheduler logs: kubectl logs -n kube-system <scheduler-pod>'',
       ''Restart scheduler: delete the pod if running as static pod'',
       ''Check if leader election is working in HA setup'',
       ''Manually assign pods if urgent: spec.nodeName in pod spec (temporary workaround)''],
      kb_prevention = ''Run HA scheduler (multiple replicas); monitor scheduler health; set up alerts on unschedulable pods'',
      kb_base_confidence = 85, kb_base_risk_score = 90\<rparr>,
     \<lparr>kb_id = ''k8s-vpa-oom'', kb_category = ''kubernetes'', kb_sub_category = ''autoscaling'',
      kb_keywords = [''vertical pod autoscaler'', ''vpa oom'', ''vpa recommendation''], kb_anti_words = [],
      kb_metric_name = [], kb_severity = ''high'',
      kb_root_cause = (''VPA is unable to prevent OOM kills '' @ [CHR 0xE2, CHR 0x80, CHR 0x94] @ '' recommendations may be lagging behind actual usage''),
      kb_reasoning = [''VPA adjusts resource requests based on historical usage, which may lag behind sudden spikes'',
       ''In UpdateMode, VPA restarts pods to apply new limits, causing brief disruption'',
       ''If memory spikes faster than VPA can react, OOM kills still occur''],
      kb_impact = ''Pods are OOM-killed despite VPA; brief service disruption during VPA-triggered restarts'',
      kb_resolution_steps = [''Check VPA recommendations: kubectl describe vpa <name>'',
       ''Set a minimum resource bound: minAllowed in VPA spec'',
       ''Switch to Off mode and apply recommendations manually'', ''Increase memory limits manually as immediate fix'',
       ''Check if the application has a memory leak (VPA cannot fix leaks)''],
      kb_prevention = ''Set VPA minAllowed to prevent under-provisioning; combine VPA with HPA carefully; fix memory leaks'',
      kb_base_confidence = 70, kb_base_risk_score = 60\<rparr>,
     \<lparr>kb_id = ''k8s-istio-sidecar-crash'', kb_category = ''kubernetes'', kb_sub_category = ''service-mesh'',
      kb_keywords = [''istio sidecar'', ''envoy crash'', ''sidecar crash'', ''istio-proxy error''], kb_anti_words = [],
      kb_metric_name = [], kb_severity = ''high'',
      kb_root_cause = ''Istio/Envoy sidecar proxy is crashing, disrupting service mesh traffic'',
      kb_reasoning = [''The Envoy sidecar handles all network traffic for the pod in a service mesh'',
       ''If the sidecar crashes, the pod may lose network connectivity entirely'',
       ''Common causes: invalid Istio configuration, resource limits too low, or Envoy bug''],
      kb_impact = ''Pod loses mesh connectivity; requests to/from the pod fail; mTLS breaks'',
      kb_resolution_steps = [''Check sidecar logs: kubectl logs <pod> -c istio-proxy'',
       ''Check Istio configuration: istioctl analyze -n <namespace>'',
       ''Increase sidecar resources: add proxy resource annotations to the pod'',
       ''Check for invalid VirtualService or DestinationRule resources'',
       ''Restart the pod: kubectl delete pod <pod>''],
      kb_prevention = ''Validate Istio config with istioctl analyze; set appropriate sidecar resource limits; monitor sidecar health'',
      kb_base_confidence = 70, kb_base_risk_score = 60\<rparr>,
     \<lparr>kb_id = ''k8s-kube-proxy-error'', kb_category = ''kubernetes'', kb_sub_category = ''networking'',
      kb_keywords = [''kube-proxy error'', ''kube-proxy iptables'', ''service routing error''], kb_anti_words = [],
      kb_metric_name = [], kb_severity = ''high'',
      kb_root_cause = ''kube-proxy is failing to maintain service routing rules on the node'',
      kb_reasoning = [''kube-proxy programs iptables/ipvs rules to route Service traffic to pods'',
       ''If kube-proxy fails, new Services or endpoint changes are not reflected in routing'',
       ''Existing rules continue to work but stale rules may route to dead pods''],
      kb_impact = ''Service discovery may route to wrong or dead pods; intermittent connectivity failures'',
      kb_resolution_steps = [''Check kube-proxy pods: kubectl get pods -n kube-system -l k8s-app=kube-proxy'',
       ''Check kube-proxy logs: kubectl logs -n kube-system <kube-proxy-pod>'',
       ''Restart kube-proxy: kubectl delete pod -n kube-system <kube-proxy-pod>'',
       ''Check iptables rules: iptables -t nat -L KUBE-SERVICES (on the node)'',
       ''Verify kube-proxy mode (iptables vs ipvs): kubectl get configmap kube-proxy -n kube-system -o yaml''],
      kb_prevention = ''Monitor kube-proxy health; keep Kubernetes updated; consider ipvs mode for large clusters'',
      kb_base_confidence = 75, kb_base_risk_score = 65\<rparr>]"

definition kubernetes_entries_5 :: "KnowledgeEntry list" where
  "kubernetes_entries_5 =
    [\<lparr>kb_id = ''k8s-csi-driver-failure'', kb_category = ''kubernetes'', kb_sub_category = ''storage'',
      kb_keywords = [''csi driver failure'', ''csi error'', ''csi volume'', ''csi plugin''], kb_anti_words = [],
      kb_metric_name = [], kb_severity = ''high'',
      kb_root_cause = (''CSI (Container Storage Interface) driver is failing '' @ [CHR 0xE2, CHR 0x80, CHR 0x94] @ '' volumes cannot be attached or mounted''),
      kb_reasoning = [''The CSI driver is responsible for provisioning, attaching, and mounting storage volumes'',
       ''If the CSI driver pods are unhealthy, PVCs cannot be bound and pods cannot start'',
       ''Common causes: driver pod crash, storage backend unreachable, or permission issues''],
      kb_impact = ''New volumes cannot be created or attached; pods waiting for volumes remain Pending'',
      kb_resolution_steps = [''Check CSI driver pods: kubectl get pods -n kube-system | grep csi'',
       ''Check CSI driver logs: kubectl logs -n kube-system <csi-pod>'',
       ''Check VolumeAttachment objects: kubectl get volumeattachments'',
       ''Verify storage backend connectivity and credentials'',
       ''Restart CSI driver pods: kubectl delete pods -n kube-system -l app=<csi-driver>''],
      kb_prevention = ''Monitor CSI driver health; keep drivers updated; maintain storage backend connectivity; test volume operations regularly'',
      kb_base_confidence = 75, kb_base_risk_score = 65\<rparr>,
     \<lparr>kb_id = ''k8s-pod-disruption-budget'', kb_category = ''kubernetes'', kb_sub_category = ''workload'',
      kb_keywords = [''pod disruption budget'', ''pdb violated'', ''cannot evict'', ''disruption budget''],
      kb_anti_words = [], kb_metric_name = [], kb_severity = ''medium'',
      kb_root_cause = ''PodDisruptionBudget is preventing node drain or voluntary pod eviction'',
      kb_reasoning = [''PDB ensures a minimum number of pods remain available during voluntary disruptions'',
       ''Node drain, rolling updates, or cluster upgrades are blocked by strict PDBs'',
       (''This is working as intended '' @ [CHR 0xE2, CHR 0x80, CHR 0x94] @ '' PDB is protecting service availability'')],
      kb_impact = ''Node maintenance or cluster upgrades are blocked; drain operations hang'',
      kb_resolution_steps = [''Check PDB status: kubectl get pdb -n <namespace>'',
       ''Check which PDB is blocking: kubectl describe pdb <name>'',
       ''Scale up the deployment to meet PDB requirements before draining'',
       ''Temporarily adjust PDB if safe: kubectl edit pdb <name>'',
       ''Use --disable-eviction flag with kubectl drain (forces eviction, use cautiously)''],
      kb_prevention = ''Set PDB minAvailable to n-1 (not n); ensure enough replicas before maintenance; test drain procedures'',
      kb_base_confidence = 65, kb_base_risk_score = 40\<rparr>,
     \<lparr>kb_id = ''k8s-topology-spread'', kb_category = ''kubernetes'', kb_sub_category = ''scheduling'',
      kb_keywords = [''topology spread'', ''topologykey'', ''spread constraint''], kb_anti_words = [],
      kb_metric_name = [], kb_severity = ''medium'',
      kb_root_cause = (''Pod topology spread constraint cannot be satisfied '' @ [CHR 0xE2, CHR 0x80, CHR 0x94] @ '' not enough topology domains''),
      kb_reasoning = [''The pod requires spreading across zones or nodes, but not enough domains are available'',
       ''Common when cluster has fewer zones/nodes than the maxSkew allows'',
       ''The constraint prevents uneven distribution which could cause outage if a zone fails''],
      kb_impact = ''Pod remains Pending; deployment cannot reach desired replica count'',
      kb_resolution_steps = [''Check constraint: kubectl describe pod <pod> | grep -A5 TopologySpreadConstraint'',
       ''Check available topology domains: kubectl get nodes -L topology.kubernetes.io/zone'',
       ''Relax the constraint: increase maxSkew or change whenUnsatisfiable to ScheduleAnyway'',
       ''Add nodes in additional topology domains'', ''Remove the constraint temporarily if not critical''],
      kb_prevention = ''Use whenUnsatisfiable: ScheduleAnyway for non-critical workloads; ensure cluster spans enough zones'',
      kb_base_confidence = 65, kb_base_risk_score = 40\<rparr>]"

definition kubernetes_entries :: "KnowledgeEntry list" where
  "kubernetes_entries = kubernetes_entries_1 @ kubernetes_entries_2 @ kubernetes_entries_3 @ kubernetes_entries_4 @ kubernetes_entries_5"

end
