(* ===== verification/KbCloud.thy ===== *)
theory KbCloud
  imports KnowledgeMatch
begin

text \<open>
  The entries of \<open>services/kb_infra_cloud.go\<close>: infrastructure, AWS, GCP and Azure.
  One definition per builder, in the order of the source; a long builder is in numbered pieces.
\<close>

definition infra_entries_1 :: "KnowledgeEntry list" where
  "infra_entries_1 =
    [\<lparr>kb_id = ''infra-firewall-block'', kb_category = ''infrastructure'', kb_sub_category = ''firewall'',
      kb_keywords = [''firewall block'', ''connection blocked'', ''iptables drop'', ''security group block''],
      kb_anti_words = [], kb_metric_name = [], kb_severity = ''high'',
      kb_root_cause = ''Firewall rule is blocking expected network traffic'',
      kb_reasoning = [''A firewall rule (iptables, security group, or network ACL) is silently dropping packets'',
       ''Symptoms: connection timeouts (not connection refused) to specific ports'',
       ''May be caused by a security policy change or incorrect rule deployment''],
      kb_impact = ''Traffic to/from the affected service is blocked; connection timeouts from clients'',
      kb_resolution_steps = [''Check iptables rules: iptables -L -n -v | grep <port>'',
       ''For AWS: check security group rules in the EC2 console'',
       ''For GCP: check VPC firewall rules: gcloud compute firewall-rules list'',
       ''Test connectivity: nc -zv <host> <port>'', ''Add the required firewall rule to allow traffic''],
      kb_prevention = ''Manage firewall rules as code (Terraform/Pulumi); test connectivity after changes; document required ports'',
      kb_base_confidence = 75, kb_base_risk_score = 60\<rparr>,
     \<lparr>kb_id = ''infra-lb-502-503'', kb_category = ''infrastructure'', kb_sub_category = ''load_balancer'',
      kb_keywords = [''load balancer error'', ''backend unhealthy'', ''502 load balancer'', ''503 load balancer''],
      kb_anti_words = [], kb_metric_name = [], kb_severity = ''critical'',
      kb_root_cause = (''Load balancer is returning 502/503 errors '' @ [CHR 0xE2, CHR 0x80, CHR 0x94] @ '' backends are unhealthy or not responding''),
      kb_reasoning = [''The load balancer cannot forward requests to healthy backend instances'',
       ''502 means backend sent an invalid response; 503 means no healthy backends available'',
       ''All backend instances may have failed health checks simultaneously''],
      kb_impact = ''All user traffic through the load balancer fails; complete service outage from user perspective'',
      kb_resolution_steps = [''Check backend health: review load balancer target group health status'',
       ''Check if backend instances are running: systemctl status <service> or kubectl get pods'',
       ''Check LB access logs for error patterns'',
       ''Verify health check path returns 200: curl http://<backend>:<port><health-path>'',
       ''Add healthy instances or fix the failing ones''],
      kb_prevention = ''Configure proper health checks; ensure minimum healthy instances; use auto-scaling; monitor LB error rates'',
      kb_base_confidence = 80, kb_base_risk_score = 80\<rparr>,
     \<lparr>kb_id = ''infra-ssl-cert-expiring'', kb_category = ''infrastructure'', kb_sub_category = ''tls'',
      kb_keywords = [''certificate expiring'', ''ssl expiry'', ''tls expiry'', ''cert expires soon''],
      kb_anti_words = [], kb_metric_name = [], kb_severity = ''critical'',
      kb_root_cause = ''TLS/SSL certificate is expiring or has already expired'',
      kb_reasoning = [''TLS certificates have a fixed validity period; when they expire, all TLS connections fail'',
       ''Browsers show security warnings; API clients reject the connection entirely'',
       (''Once expired, there is no grace period '' @ [CHR 0xE2, CHR 0x80, CHR 0x94] @ '' all secure connections fail immediately'')],
      kb_impact = ''All HTTPS connections fail after expiry; users see browser security warnings; API integrations break'',
      kb_resolution_steps = [''Check expiry: openssl s_client -connect <host>:443 2>/dev/null | openssl x509 -noout -dates'',
       ''Renew with certbot: certbot renew'', ''For AWS ACM: certificates auto-renew if DNS validation is configured'',
       ''Deploy new certificate to the web server/load balancer'',
       ''Reload the server after installing new cert: nginx -s reload''],
      kb_prevention = (''Use auto-renewing certificates (Let'' @ [CHR 0x27] @ ''s Encrypt/ACM); monitor expiry 30+ days ahead; maintain certificate inventory''),
      kb_base_confidence = 85, kb_base_risk_score = 85\<rparr>,
     \<lparr>kb_id = ''infra-dns-propagation'', kb_category = ''infrastructure'', kb_sub_category = ''dns'',
      kb_keywords = [''dns propagation'', ''dns not resolving'', ''dns change not working''], kb_anti_words = [],
      kb_metric_name = [], kb_severity = ''high'',
      kb_root_cause = ''DNS change has not propagated to all resolvers yet'',
      kb_reasoning = [''DNS changes can take up to 48 hours to propagate globally (depends on TTL)'',
       ''Cached entries at various resolver levels serve stale data until TTL expires'',
       ''Some resolvers may honor TTL while others cache more aggressively''],
      kb_impact = ''Some users/services resolve the old IP; inconsistent connectivity; partial outage'',
      kb_resolution_steps = [''Check propagation: dig <domain> @8.8.8.8 vs dig <domain> @1.1.1.1'',
       ''Lower TTL before making changes: set TTL to 60s at least 1 hour before the change'',
       ''Flush local DNS cache: systemd-resolve --flush-caches'', ''Wait for propagation (up to old TTL value)'',
       ''Use DNS propagation checker: https://dnschecker.org''],
      kb_prevention = ''Lower TTL well before DNS changes; plan for propagation delay; keep old endpoints alive during transition'',
      kb_base_confidence = 65, kb_base_risk_score = 50\<rparr>,
     \<lparr>kb_id = ''infra-vpn-down'', kb_category = ''infrastructure'', kb_sub_category = ''vpn'',
      kb_keywords = [''vpn down'', ''vpn disconnected'', ''tunnel down'', ''ipsec down''], kb_anti_words = [],
      kb_metric_name = [], kb_severity = ''high'',
      kb_root_cause = (''VPN tunnel is down '' @ [CHR 0xE2, CHR 0x80, CHR 0x94] @ '' private network connectivity between sites is lost''),
      kb_reasoning = [''VPN tunnel failure breaks connectivity between VPC/datacenter sites'',
       ''Services that communicate across the tunnel will fail with connection timeouts'',
       ''May be caused by certificate expiry, peer IP change, or network device failure''],
      kb_impact = ''Cross-site service communication fails; databases in other sites unreachable'',
      kb_resolution_steps = [''Check VPN status: show vpn ipsec status (or cloud provider console)'',
       ''Check if the peer IP/endpoint has changed'', ''Verify VPN certificates have not expired'',
       ''Restart the VPN service: systemctl restart strongswan (or ipsec restart)'',
       ''For cloud: check VPN gateway status in the provider console''],
      kb_prevention = ''Monitor VPN tunnel status; set up redundant tunnels; automate certificate renewal; maintain backup connectivity'',
      kb_base_confidence = 75, kb_base_risk_score = 65\<rparr>,
     \<lparr>kb_id = ''infra-ntp-sync'', kb_category = ''infrastructure'', kb_sub_category = ''system'',
      kb_keywords = [''ntp failure'', ''time sync failure'', ''chronyd error'', ''ntpd not running''],
      kb_anti_words = [], kb_metric_name = [], kb_severity = ''medium'',
      kb_root_cause = (''NTP time synchronization has failed '' @ [CHR 0xE2, CHR 0x80, CHR 0x94] @ '' system clock may be drifting''),
      kb_reasoning = [''Without NTP, system clock drifts at the rate of the hardware oscillator'',
       ''Clock drift causes issues with TLS, Kerberos, distributed systems, and log correlation'',
       ''Virtual machines drift faster than physical hardware''],
      kb_impact = ''Time-sensitive operations may fail; log timestamps become unreliable; distributed consensus breaks'',
      kb_resolution_steps = [''Check NTP status: chronyc tracking (or ntpstat)'',
       ''Restart NTP service: systemctl restart chronyd (or ntpd)'', ''Force sync: chronyc makestep'',
       ''Check NTP servers are reachable: chronyc sources -v'',
       ''Verify firewall allows UDP 123: iptables -L -n | grep 123''],
      kb_prevention = ''Ensure NTP service is running on all hosts; monitor clock offset; use multiple NTP servers'',
      kb_base_confidence = 65, kb_base_risk_score = 45\<rparr>,
     \<lparr>kb_id = ''infra-kernel-panic'', kb_category = ''infrastructure'', kb_sub_category = ''system'',
      kb_keywords = [''kernel panic'', ''kernel oops'', ''system panic infra''], kb_anti_words = [],
      kb_metric_name = [], kb_severity = ''critical'',
      kb_root_cause = (''Kernel panic '' @ [CHR 0xE2, CHR 0x80, CHR 0x94] @ '' the operating system crashed and the host requires reboot''),
      kb_reasoning = [''Kernel panics indicate a critical bug in the kernel, a driver, or hardware failure'',
       ''The system halted immediately; all processes were terminated without cleanup'',
       ''Requires reboot and post-mortem analysis of /var/crash or kdump''],
      kb_impact = ''Complete host outage; all services on the host are down; potential data corruption'',
      kb_resolution_steps = [''Reboot the host (may have auto-rebooted if panic_on_oops is set)'',
       ''Check crash logs: dmesg | grep -B5 -A10 panic'', ''Check /var/crash for kdump crash dumps'',
       ''If hardware: run memtest86+, check disk SMART, check CPU temperature'',
       ''If driver: update or blacklist the offending kernel module''],
      kb_prevention = ''Keep kernel updated; test hardware with memtest86+; configure kdump; monitor for kernel warnings in dmesg'',
      kb_base_confidence = 85, kb_base_risk_score = 95\<rparr>,
     \<lparr>kb_id = ''infra-docker-daemon-crash'', kb_category = ''infrastructure'', kb_sub_category = ''container_runtime'',
      kb_keywords = [''docker daemon'', ''docker error'', ''dockerd crash'', ''containerd error''], kb_anti_words = [],
      kb_metric_name = [], kb_severity = ''critical'',
      kb_root_cause = (''Docker daemon or containerd has crashed '' @ [CHR 0xE2, CHR 0x80, CHR 0x94] @ '' containers cannot be managed''),
      kb_reasoning = [''Without the container runtime, no containers can be started, stopped, or managed'',
       ''Running containers may continue to run but cannot be managed or health-checked'',
       ''Kubernetes kubelet will report the node as NotReady if the runtime is down''],
      kb_impact = ''Cannot manage containers; new pods cannot be scheduled; existing containers become unmanaged'',
      kb_resolution_steps = [''Check daemon status: systemctl status docker (or containerd)'',
       (''Check logs: journalctl -u docker --since '' @ [CHR 0x27] @ ''10 min ago'' @ [CHR 0x27]),
       ''Restart daemon: systemctl restart docker'', ''Check disk space: docker can crash if disk is full'',
       ''Check for corrupted overlay filesystem: check dmesg for filesystem errors''],
      kb_prevention = ''Monitor container runtime health; ensure adequate disk space; keep docker/containerd updated; use systemd restart=always'',
      kb_base_confidence = 85, kb_base_risk_score = 85\<rparr>,
     \<lparr>kb_id = ''infra-systemd-service-failure'', kb_category = ''infrastructure'', kb_sub_category = ''system'',
      kb_keywords = [''systemd service failure'', ''service failed'', ''failed to start'', ''unit entered failed state''],
      kb_anti_words = [], kb_metric_name = [], kb_severity = ''high'',
      kb_root_cause = ''A systemd-managed service has failed to start or has crashed'',
      kb_reasoning = [''The service process exited with a non-zero exit code'',
       ''Common causes: configuration error, dependency not available, or binary crash'',
       ''systemd may attempt automatic restarts depending on the Restart= directive''],
      kb_impact = ''The specific service is unavailable; dependent services may cascade-fail'',
      kb_resolution_steps = [''Check service status: systemctl status <service>'',
       (''Check logs: journalctl -u <service> --since '' @ [CHR 0x27] @ ''10 min ago'' @ [CHR 0x27]),
       ''Check for configuration errors: <service> --check-config (if supported)'',
       ''Restart the service: systemctl restart <service>'',
       ''Check dependencies: systemctl list-dependencies <service>''],
      kb_prevention = ''Use Restart=on-failure in service units; validate config before deploy; monitor service health'',
      kb_base_confidence = 75, kb_base_risk_score = 60\<rparr>]"

definition infra_entries_2 :: "KnowledgeEntry list" where
  "infra_entries_2 =
    [\<lparr>kb_id = ''infra-cgroup-memory-limit'', kb_category = ''infrastructure'', kb_sub_category = ''container'',
      kb_keywords = [''cgroup memory'', ''memory cgroup'', ''memory limit container''], kb_anti_words = [],
      kb_metric_name = [], kb_severity = ''high'',
      kb_root_cause = (''Container hit its cgroup memory limit '' @ [CHR 0xE2, CHR 0x80, CHR 0x94] @ '' OOM kill by the kernel cgroup controller''),
      kb_reasoning = [''The container tried to allocate more memory than its cgroup limit allows'',
       ''This is different from system OOM: only the container is affected, not the host'',
       ''The container runtime (Docker/containerd) reports this as OOMKilled''],
      kb_impact = ''Container is killed; service restarts; in-flight requests are lost'',
      kb_resolution_steps = [''Check container memory limit: docker inspect <container> | grep Memory'',
       ''Check cgroup stats: cat /sys/fs/cgroup/memory/<cgroup>/memory.max_usage_in_bytes'',
       ''Increase memory limit in container spec or docker-compose'',
       ''Profile application memory usage to right-size the limit'', ''Check for memory leaks in the application''],
      kb_prevention = ''Right-size container memory limits; monitor memory usage trends; implement memory leak detection'',
      kb_base_confidence = 80, kb_base_risk_score = 70\<rparr>,
     \<lparr>kb_id = ''infra-inotify-limit'', kb_category = ''infrastructure'', kb_sub_category = ''system'',
      kb_keywords = [''inotify watch limit'', ''too many inotify'', ''inotify limit exceeded''], kb_anti_words = [],
      kb_metric_name = [], kb_severity = ''medium'',
      kb_root_cause = (''System inotify watch limit exceeded '' @ [CHR 0xE2, CHR 0x80, CHR 0x94] @ '' file watchers cannot be created''),
      kb_reasoning = [''Applications that watch file changes (IDEs, webpack, containers) use inotify watches'',
       ''Default limit (8192) is too low for systems running many containers or dev tools'',
       ''When exhausted, new file watches fail silently or with ENOSPC''],
      kb_impact = ''File watching applications malfunction; live-reload stops working; some services fail to start'',
      kb_resolution_steps = [''Check current watches: cat /proc/sys/fs/inotify/max_user_watches'',
       ''Increase limit: sysctl -w fs.inotify.max_user_watches=524288'',
       (''Make persistent: echo '' @ [CHR 0x27] @ ''fs.inotify.max_user_watches=524288'' @ [CHR 0x27] @ '' >> /etc/sysctl.conf''),
       (''Check which processes use most watches: find /proc/*/fd -lname anon_inode:inotify 2>/dev/null | cut -d/ -f3 | xargs -I{} sh -c '' @ [CHR 0x27] @ ''echo $(wc -l < /proc/{}/fdinfo/$(ls /proc/{}/fd 2>/dev/null | head -1)) {}'' @ [CHR 0x27])],
      kb_prevention = ''Set max_user_watches=524288 on all servers; include in server provisioning scripts'',
      kb_base_confidence = 65, kb_base_risk_score = 40\<rparr>,
     \<lparr>kb_id = ''infra-port-conflict'', kb_category = ''infrastructure'', kb_sub_category = ''network'',
      kb_keywords = [''address already in use'', ''port already bound'', ''port conflict'', ''bind: address already in use''],
      kb_anti_words = [], kb_metric_name = [], kb_severity = ''high'',
      kb_root_cause = (''Port conflict '' @ [CHR 0xE2, CHR 0x80, CHR 0x94] @ '' another process is already using the required port''),
      kb_reasoning = [''Two processes cannot bind to the same port on the same address'',
       ''The previous instance may not have shut down cleanly, leaving the port in use'',
       ''TCP TIME_WAIT state can keep the port bound for up to 2 minutes after close''],
      kb_impact = ''Service fails to start; the port-bound service is unavailable until conflict is resolved'',
      kb_resolution_steps = [''Find process using the port: lsof -i :<port>'', ''Or: ss -tlnp | grep <port>'',
       ''Kill the conflicting process: kill <PID>'', ''Enable port reuse: sysctl -w net.ipv4.tcp_tw_reuse=1'',
       ''Use SO_REUSEADDR in application code''],
      kb_prevention = ''Implement graceful shutdown; use SO_REUSEADDR; assign unique ports per service'',
      kb_base_confidence = 80, kb_base_risk_score = 55\<rparr>,
     \<lparr>kb_id = ''infra-selinux-denial'', kb_category = ''infrastructure'', kb_sub_category = ''security'',
      kb_keywords = [''selinux denial'', ''apparmor denied'', ''selinux avc denied'', ''permission denied selinux''],
      kb_anti_words = [], kb_metric_name = [], kb_severity = ''medium'',
      kb_root_cause = ''SELinux or AppArmor is blocking an operation that the application needs'',
      kb_reasoning = [''Mandatory access control (MAC) is denying access beyond standard UNIX permissions'',
       ''The application may work on one system but fail on another with stricter MAC policies'',
       ''Denials are logged in audit log but may not produce a user-visible error message''],
      kb_impact = ''Specific file access or network operation fails; application may behave unexpectedly'',
      kb_resolution_steps = [''Check SELinux denials: ausearch -m avc -ts recent'', ''Check AppArmor: dmesg | grep apparmor'',
       ''Generate and apply a policy module: audit2allow -a -M mypolicy && semodule -i mypolicy.pp'',
       ''Temporarily set permissive: setenforce 0 (WARNING: reduces security)'',
       ''For containers: adjust the SELinux label: docker run --security-opt label=disable''],
      kb_prevention = ''Test with MAC enabled in staging; create custom policies for your applications; never run permissive in production'',
      kb_base_confidence = 65, kb_base_risk_score = 40\<rparr>,
     \<lparr>kb_id = ''infra-hardware-ecc-error'', kb_category = ''infrastructure'', kb_sub_category = ''hardware'',
      kb_keywords = [''ecc error'', ''memory error hardware'', ''correctable error'', ''uncorrectable error''],
      kb_anti_words = [], kb_metric_name = [], kb_severity = ''critical'',
      kb_root_cause = (''Hardware ECC memory error detected '' @ [CHR 0xE2, CHR 0x80, CHR 0x94] @ '' potential data corruption or system instability''),
      kb_reasoning = [''Correctable ECC errors indicate a DIMM is degrading and may fail soon'',
       ''Uncorrectable errors cause immediate data corruption and often kernel panics'',
       ''The affected DIMM should be replaced before it fails completely''],
      kb_impact = ''Risk of data corruption; kernel panics; application crashes from corrupted data in memory'',
      kb_resolution_steps = [''Check ECC errors: edac-util -s (or mcelog --client)'',
       (''Check dmesg: dmesg | grep -i '' @ [CHR 0x27] @ ''mce'' @ [CHR 0x5C] @ ''|edac'' @ [CHR 0x5C] @ ''|error'' @ [CHR 0x27]),
       ''Identify failing DIMM: edac-util -r'', ''Schedule DIMM replacement with hardware vendor'',
       ''For cloud: stop and start instance to move to different hardware''],
      kb_prevention = ''Monitor ECC error counters; replace DIMMs proactively; use cloud instances with ECC memory'',
      kb_base_confidence = 80, kb_base_risk_score = 85\<rparr>,
     \<lparr>kb_id = ''infra-disk-smart-warning'', kb_category = ''infrastructure'', kb_sub_category = ''hardware'',
      kb_keywords = [''smart warning'', ''smart error'', ''disk health warning'', ''reallocated sector''],
      kb_anti_words = [], kb_metric_name = [], kb_severity = ''high'',
      kb_root_cause = (''Disk SMART health check is reporting warnings '' @ [CHR 0xE2, CHR 0x80, CHR 0x94] @ '' disk may be failing''),
      kb_reasoning = [''SMART attributes like Reallocated_Sector_Ct and Current_Pending_Sector indicate disk degradation'',
       ''The disk is still functioning but reliability is decreasing'',
       ''Failure is likely within weeks to months; back up data immediately''],
      kb_impact = ''Risk of sudden disk failure; data loss without backup; increasing I/O errors'',
      kb_resolution_steps = [''Check SMART status: smartctl -a /dev/sda'',
       (''Check specific attributes: smartctl -A /dev/sda | grep -E '' @ [CHR 0x27] @ ''Reallocated|Pending|Offline'' @ [CHR 0x27]),
       ''Start backup immediately: rsync -av /data /backup/'', ''Order replacement disk'',
       ''Schedule disk replacement during maintenance window''],
      kb_prevention = ''Monitor SMART health weekly; use RAID for redundancy; maintain regular backups; schedule proactive disk replacement'',
      kb_base_confidence = 80, kb_base_risk_score = 75\<rparr>,
     \<lparr>kb_id = ''infra-tcp-backlog-overflow'', kb_category = ''infrastructure'', kb_sub_category = ''network'',
      kb_keywords = [''tcp backlog'', ''syn backlog'', ''listen overflow'', ''connection backlog''],
      kb_anti_words = [], kb_metric_name = [], kb_severity = ''high'',
      kb_root_cause = (''TCP listen backlog is overflowing '' @ [CHR 0xE2, CHR 0x80, CHR 0x94] @ '' new connections are being dropped''),
      kb_reasoning = [(''The application'' @ [CHR 0x27] @ ''s listen backlog queue is full; new SYN packets are dropped''),
       ''This happens when connections arrive faster than the application can accept() them'',
       ''The kernel has its own backlog limit (somaxconn) which may also be too low''],
      kb_impact = ''New connections are silently dropped; clients see connection timeouts'',
      kb_resolution_steps = [(''Check overflow: netstat -s | grep '' @ [CHR 0x27] @ ''listen queue'' @ [CHR 0x27]),
       ''Increase kernel limit: sysctl -w net.core.somaxconn=65535'',
       ''Increase SYN backlog: sysctl -w net.ipv4.tcp_max_syn_backlog=65535'',
       ''Increase application listen backlog: e.g., server.listen(port, backlog=4096)'',
       ''Scale the application to accept connections faster''],
      kb_prevention = ''Set somaxconn=65535 on all servers; match application backlog to somaxconn; monitor listen overflows'',
      kb_base_confidence = 70, kb_base_risk_score = 60\<rparr>,
     \<lparr>kb_id = ''infra-swap-thrashing'', kb_category = ''infrastructure'', kb_sub_category = ''memory'',
      kb_keywords = [''swap thrashing'', ''swapping heavily'', ''swap in/out''], kb_anti_words = [],
      kb_metric_name = [], kb_severity = ''critical'',
      kb_root_cause = (''System is swap thrashing '' @ [CHR 0xE2, CHR 0x80, CHR 0x94] @ '' pages are constantly moving between RAM and disk''),
      kb_reasoning = [''The working set exceeds physical memory, causing constant page faults'',
       ''Each page fault adds milliseconds of latency as pages are read from disk'',
       ''The system becomes effectively unusable even though it has not OOM-killed''],
      kb_impact = ''System nearly unresponsive; all processes slow to a crawl; SSH may time out'',
      kb_resolution_steps = [''Check swap activity: vmstat 1 5 (si/so columns)'', ''Kill the largest memory consumer to break the cycle'',
       ''Disable swap: swapoff -a (warning: may trigger OOM)'', ''Add physical memory to the system'',
       ''Set swappiness to minimum: sysctl -w vm.swappiness=1''],
      kb_prevention = ''Size memory for the workload; disable swap for latency-sensitive services; set vm.swappiness=1'',
      kb_base_confidence = 80, kb_base_risk_score = 85\<rparr>,
     \<lparr>kb_id = ''infra-process-core-dump'', kb_category = ''infrastructure'', kb_sub_category = ''system'',
      kb_keywords = [''core dump'', ''core dumped'', ''segmentation fault core''], kb_anti_words = [],
      kb_metric_name = [], kb_severity = ''critical'',
      kb_root_cause = (''A process generated a core dump '' @ [CHR 0xE2, CHR 0x80, CHR 0x94] @ '' it crashed due to a memory access violation''),
      kb_reasoning = [''Core dumps are generated on SIGSEGV, SIGABRT, or SIGFPE signals'',
       ''The crash is typically in native code (C/C++, CGo, JNI, native Python extensions)'',
       ''The core file contains the process memory state at the time of crash for debugging''],
      kb_impact = ''Process crash; service outage until restart; potential data corruption'',
      kb_resolution_steps = [(''Find the core dump: find / -name '' @ [CHR 0x27] @ ''core.*'' @ [CHR 0x27] @ '' -mmin -60 2>/dev/null''),
       ''Analyze with gdb: gdb <program> <core_file>'', ''Get backtrace in gdb: bt full'',
       ''Check dmesg for fault details: dmesg | grep -i segfault'',
       ''Update the crashed program or library to latest version''],
      kb_prevention = ''Run memory sanitizers in testing; keep libraries updated; monitor for segfaults in dmesg'',
      kb_base_confidence = 80, kb_base_risk_score = 75\<rparr>]"

definition infra_entries_3 :: "KnowledgeEntry list" where
  "infra_entries_3 =
    [\<lparr>kb_id = ''infra-watchdog-expired'', kb_category = ''infrastructure'', kb_sub_category = ''system'',
      kb_keywords = [''watchdog timer'', ''watchdog expired'', ''watchdog timeout''], kb_anti_words = [],
      kb_metric_name = [], kb_severity = ''critical'',
      kb_root_cause = (''Hardware or software watchdog timer expired '' @ [CHR 0xE2, CHR 0x80, CHR 0x94] @ '' the system may have been rebooted''),
      kb_reasoning = [''Watchdog timers detect system hangs by requiring periodic heartbeat resets'',
       ''If the system is so hung that it cannot reset the watchdog, the watchdog triggers a reboot'',
       ''This indicates the kernel or critical system process was completely stuck''],
      kb_impact = ''System was forcefully rebooted; all processes were terminated without cleanup'',
      kb_resolution_steps = [''Check dmesg for watchdog trigger: dmesg | grep -i watchdog'',
       (''Check system logs before the reboot: journalctl -b -1 --since '' @ [CHR 0x27] @ ''10 min ago'' @ [CHR 0x27]),
       ''Look for the root cause: kernel hang, I/O stall, or interrupt storm'',
       ''Check hardware: CPU temperature, memory errors, disk health'',
       ''If software issue: analyze the hang cause from logs''],
      kb_prevention = ''Configure watchdog with appropriate timeout; monitor for kernel warnings; investigate any hang events'',
      kb_base_confidence = 75, kb_base_risk_score = 80\<rparr>,
     \<lparr>kb_id = ''infra-raid-degraded'', kb_category = ''infrastructure'', kb_sub_category = ''storage'',
      kb_keywords = [''raid degraded'', ''raid rebuild'', ''disk array degraded'', ''mdadm degraded''],
      kb_anti_words = [], kb_metric_name = [], kb_severity = ''high'',
      kb_root_cause = ''RAID array is operating in degraded mode after a disk failure'',
      kb_reasoning = [''One or more disks in the RAID array have failed'',
       (''The array has lost redundancy '' @ [CHR 0xE2, CHR 0x80, CHR 0x94] @ '' another failure means data loss''),
       ''I/O performance may be reduced during rebuild''],
      kb_impact = ''No fault tolerance; data loss risk on next disk failure; possible performance degradation'',
      kb_resolution_steps = [''Check RAID status: cat /proc/mdstat (Linux software RAID)'',
       ''Identify failed disk: mdadm --detail /dev/md0'',
       ''Replace failed disk and add to array: mdadm --add /dev/md0 /dev/sd<x>'',
       ''Monitor rebuild: watch cat /proc/mdstat'', ''Do NOT reboot during rebuild''],
      kb_prevention = ''Monitor RAID health; keep hot spares; schedule proactive disk replacement on SMART warnings'',
      kb_base_confidence = 80, kb_base_risk_score = 80\<rparr>,
     \<lparr>kb_id = ''infra-deployment-failed'', kb_category = ''infrastructure'', kb_sub_category = ''deploy'',
      kb_keywords = [''deployment failed'', ''deploy failed'', ''rollout failed'', ''release failed''],
      kb_anti_words = [], kb_metric_name = [], kb_severity = ''critical'',
      kb_root_cause = (''Service deployment failed '' @ [CHR 0xE2, CHR 0x80, CHR 0x94] @ '' the new version could not be successfully rolled out''),
      kb_reasoning = [''The deployment process encountered an error during rollout'',
       ''Common causes: failing health checks, missing configuration, or incompatible changes'',
       ''The previous version may still be running (rolling update) or may have been stopped (blue-green)''],
      kb_impact = ''New features not delivered; old version may still be running; if old version was stopped, service outage'',
      kb_resolution_steps = [''Check deployment logs for the specific failure reason'',
       ''Roll back to previous version immediately if service is impacted'',
       ''For Kubernetes: kubectl rollout undo deployment/<name>'',
       ''Check health check endpoints for the new version'', ''Fix the issue and redeploy through the CI/CD pipeline''],
      kb_prevention = ''Use canary deployments; validate health checks before full rollout; implement automatic rollback; test in staging'',
      kb_base_confidence = 80, kb_base_risk_score = 75\<rparr>,
     \<lparr>kb_id = ''infra-backup-failed'', kb_category = ''infrastructure'', kb_sub_category = ''backup'',
      kb_keywords = [''backup failed'', ''backup error'', ''snapshot failed''], kb_anti_words = [],
      kb_metric_name = [], kb_severity = ''high'',
      kb_root_cause = (''Backup job failed '' @ [CHR 0xE2, CHR 0x80, CHR 0x94] @ '' data is not being backed up''),
      kb_reasoning = [''The backup process failed due to storage, connectivity, or permission issues'',
       ''Without successful backups, recovery point objective (RPO) is at risk'',
       ''Multiple consecutive failures indicate a persistent infrastructure issue''],
      kb_impact = ''Data not protected; disaster recovery capability compromised; compliance risk'',
      kb_resolution_steps = [''Check backup job logs for specific error'', ''Verify backup storage/destination is accessible and has space'',
       ''Check backup tool credentials and permissions'',
       ''Run backup manually to test: trigger the backup job manually'',
       (''Alert if backup hasn'' @ [CHR 0x27] @ ''t succeeded in > 24 hours'')],
      kb_prevention = ''Monitor backup success/failure; test restore procedures regularly; alert on backup failures immediately'',
      kb_base_confidence = 70, kb_base_risk_score = 60\<rparr>,
     \<lparr>kb_id = ''infra-ssh-failure'', kb_category = ''infrastructure'', kb_sub_category = ''access'',
      kb_keywords = [''ssh connection refused'', ''ssh timeout'', ''permission denied publickey'', ''ssh failed''],
      kb_anti_words = [], kb_metric_name = [], kb_severity = ''high'',
      kb_root_cause = (''SSH access to the server has failed '' @ [CHR 0xE2, CHR 0x80, CHR 0x94] @ '' cannot remotely manage the host''),
      kb_reasoning = [''SSH may be refused due to: service not running, firewall blocking port 22, or key authentication failure'',
       ''If the host is otherwise running, this is an access issue, not a service issue'',
       ''Failed SSH means no remote management capability for troubleshooting''],
      kb_impact = ''Cannot remotely access the server; troubleshooting and management are blocked'',
      kb_resolution_steps = [''Check if SSH service is running: systemctl status sshd (from console)'',
       ''Check firewall: iptables -L -n | grep 22'', ''Verify SSH key: ssh-keygen -l -f ~/.ssh/authorized_keys'',
       ''Try alternative access: console, IPMI/iLO, cloud serial console'',
       ''Check /var/log/auth.log for authentication failure details''],
      kb_prevention = ''Monitor SSH service health; use multiple access methods (SSH + console); rotate keys regularly; keep sshd updated'',
      kb_base_confidence = 70, kb_base_risk_score = 55\<rparr>,
     \<lparr>kb_id = ''infra-queue-backlog'', kb_category = ''infrastructure'', kb_sub_category = ''messaging'',
      kb_keywords = [''queue depth'', ''message queue full'', ''backlog growing'', ''queue backlog''],
      kb_anti_words = [], kb_metric_name = [], kb_severity = ''high'',
      kb_root_cause = (''Message queue backlog is growing '' @ [CHR 0xE2, CHR 0x80, CHR 0x94] @ '' consumers are not keeping up with producers''),
      kb_reasoning = [''Messages are accumulating faster than consumers can process them'',
       ''Consumers may be slow, failing, or insufficient in number'',
       ''Old messages may expire if TTL is configured, causing data loss''],
      kb_impact = ''Processing delay grows; downstream systems receive stale data; messages may expire'',
      kb_resolution_steps = [''Check queue depth: rabbitmqctl list_queues name messages (or equivalent for your broker)'',
       ''Scale up consumer instances'', ''Check consumer logs for processing errors or slow processing'',
       ''Purge old messages if they are no longer relevant'',
       ''Investigate why consumers slowed down (dependency issue, resource exhaustion)''],
      kb_prevention = ''Monitor queue depth; auto-scale consumers based on backlog; set dead-letter queues; implement backpressure'',
      kb_base_confidence = 70, kb_base_risk_score = 60\<rparr>,
     \<lparr>kb_id = ''infra-gc-pause'', kb_category = ''infrastructure'', kb_sub_category = ''runtime'',
      kb_keywords = [''gc pause'', ''garbage collection pause'', ''stop the world'', ''gc latency''],
      kb_anti_words = [], kb_metric_name = [], kb_severity = ''medium'',
      kb_root_cause = ''Long garbage collection pauses are causing application latency spikes'',
      kb_reasoning = [''Stop-the-world GC pauses freeze all application threads'',
       ''Long pauses (> 200ms) are visible to users as latency spikes'',
       ''Causes: large heap, high allocation rate, or using a non-concurrent GC''],
      kb_impact = ''Periodic latency spikes; health check failures during long pauses; timeout errors from callers'',
      kb_resolution_steps = [''Check GC logs: -Xlog:gc*:file=gc.log (Java) or GODEBUG=gctrace=1 (Go)'',
       ''Switch to a low-latency GC: -XX:+UseZGC or -XX:+UseShenandoahGC (Java)'',
       ''Reduce heap pressure: optimize object allocation in hot paths'',
       ''Increase heap size to reduce GC frequency: -Xmx4g'', ''For Go: set GOMEMLIMIT to reduce GC frequency''],
      kb_prevention = ''Use low-latency GCs for latency-sensitive services; monitor GC pause times; optimize allocation rates'',
      kb_base_confidence = 65, kb_base_risk_score = 50\<rparr>,
     \<lparr>kb_id = ''infra-open-files-limit'', kb_category = ''infrastructure'', kb_sub_category = ''system'',
      kb_keywords = [''too many open files infra'', ''file descriptor limit infra'', ''ulimit reached''],
      kb_anti_words = [], kb_metric_name = [], kb_severity = ''high'',
      kb_root_cause = (''System or process file descriptor limit reached '' @ [CHR 0xE2, CHR 0x80, CHR 0x94] @ '' cannot open new files or connections''),
      kb_reasoning = [''Every file, socket, and pipe uses a file descriptor'',
       ''Default limits (1024) are too low for server processes'',
       ''Leaked connections or file handles gradually exhaust the limit''],
      kb_impact = ''Cannot open new files or network connections; service fails to handle new requests'',
      kb_resolution_steps = [(''Check limits: cat /proc/<PID>/limits | grep '' @ [CHR 0x27] @ ''Max open files'' @ [CHR 0x27]),
       ''Check usage: ls /proc/<PID>/fd | wc -l'',
       ''Increase limit: ulimit -n 65536 or set in /etc/security/limits.conf'',
       ''For systemd: add LimitNOFILE=65536 to the service unit'',
       ''Find leaked file descriptors: lsof -p <PID> | wc -l''],
      kb_prevention = ''Set high ulimit for server processes; audit code for resource leaks; monitor FD count'',
      kb_base_confidence = 75, kb_base_risk_score = 65\<rparr>,
     \<lparr>kb_id = ''infra-health-check-fail'', kb_category = ''infrastructure'', kb_sub_category = ''monitoring'',
      kb_keywords = [''health check failed'', ''healthcheck failing'', ''health endpoint error''], kb_anti_words = [],
      kb_metric_name = [], kb_severity = ''high'',
      kb_root_cause = ''Service health check endpoint is returning errors or not responding'',
      kb_reasoning = [''The health check may be checking dependencies that are down'',
       ''The service itself may be in a degraded state'',
       (''Load balancers use health checks to route traffic '' @ [CHR 0xE2, CHR 0x80, CHR 0x94] @ '' failing checks remove the instance'')],
      kb_impact = ''Instance removed from load balancer rotation; reduced capacity; potential service degradation'',
      kb_resolution_steps = [''Test health endpoint directly: curl -v http://localhost:<port>/health'',
       ''Check which dependency is causing the health check to fail'',
       ''Check application logs for errors around the health check time'',
       ''Verify the health check path and port are configured correctly'',
       ''If the service is healthy but the check is wrong: fix the health check configuration''],
      kb_prevention = ''Make health checks lightweight; separate liveness from readiness checks; do not check all dependencies in health endpoint'',
      kb_base_confidence = 70, kb_base_risk_score = 60\<rparr>]"

definition infra_entries_4 :: "KnowledgeEntry list" where
  "infra_entries_4 =
    [\<lparr>kb_id = ''infra-config-error'', kb_category = ''infrastructure'', kb_sub_category = ''config'',
      kb_keywords = [''configuration error'', ''invalid config'', ''config parse error'', ''config syntax error''],
      kb_anti_words = [], kb_metric_name = [], kb_severity = ''high'',
      kb_root_cause = (''Service configuration is invalid '' @ [CHR 0xE2, CHR 0x80, CHR 0x94] @ '' the service cannot start or is misconfigured''),
      kb_reasoning = [''Configuration file has syntax errors, missing required fields, or invalid values'',
       ''This typically prevents the service from starting entirely'',
       ''May be caused by a recent configuration change or deployment''],
      kb_impact = ''Service fails to start; functionality breaks due to misconfiguration'',
      kb_resolution_steps = [''Check configuration syntax: <service> --check-config or validate against the schema'',
       ''Compare with the last known working configuration'', ''Check for environment variable substitution failures'',
       ''Roll back the configuration change'', ''Validate configuration in CI before deploying to production''],
      kb_prevention = ''Validate configuration in CI/CD pipeline; use config schemas; test config changes in staging; version control all configs'',
      kb_base_confidence = 75, kb_base_risk_score = 60\<rparr>,
     \<lparr>kb_id = ''infra-api-gateway-error'', kb_category = ''infrastructure'', kb_sub_category = ''gateway'',
      kb_keywords = [''api gateway error'', ''api gateway timeout'', ''gateway 504'', ''gateway 502''],
      kb_anti_words = [], kb_metric_name = [], kb_severity = ''high'',
      kb_root_cause = (''API gateway is returning errors '' @ [CHR 0xE2, CHR 0x80, CHR 0x94] @ '' backend service is unreachable or timing out''),
      kb_reasoning = [''The gateway cannot forward requests to the backend service successfully'',
       ''502/504 from the gateway indicates backend connectivity or timeout issues'',
       ''Rate limiting at the gateway level may also be rejecting requests''],
      kb_impact = ''API requests fail; external consumers receive error responses; integrations break'',
      kb_resolution_steps = [''Check gateway logs for backend connection errors'',
       ''Check backend service health directly (bypass gateway)'',
       ''Verify gateway route configuration points to correct backend'',
       ''Increase gateway timeout if backend is legitimately slow'',
       ''Check rate limit configuration: adjust if legitimate traffic is being rejected''],
      kb_prevention = ''Monitor gateway error rates; configure appropriate timeouts; implement circuit breakers at gateway level'',
      kb_base_confidence = 70, kb_base_risk_score = 60\<rparr>]"

definition infra_entries :: "KnowledgeEntry list" where
  "infra_entries = infra_entries_1 @ infra_entries_2 @ infra_entries_3 @ infra_entries_4"

definition aws_entries_1 :: "KnowledgeEntry list" where
  "aws_entries_1 =
    [\<lparr>kb_id = ''aws-ec2-unreachable'', kb_category = ''cloud'', kb_sub_category = ''aws'',
      kb_keywords = [''ec2 unreachable'', ''ec2 instance unreachable'', ''instance not reachable aws''],
      kb_anti_words = [], kb_metric_name = [], kb_severity = ''critical'',
      kb_root_cause = (''AWS EC2 instance is unreachable '' @ [CHR 0xE2, CHR 0x80, CHR 0x94] @ '' the instance may have failed or lost network''),
      kb_reasoning = [''The instance may have crashed, hit a hardware failure, or lost its network interface'',
       ''AWS may have retired the underlying hardware without automatic recovery'',
       ''Security group or network ACL changes may have blocked access''],
      kb_impact = ''Service on the instance is completely unavailable; no SSH access possible'',
      kb_resolution_steps = [''Check instance status: aws ec2 describe-instance-status --instance-id <id>'',
       ''Check system and instance status checks in AWS Console'',
       ''Try stopping and starting the instance (moves to new hardware): aws ec2 stop-instances --instance-ids <id> && aws ec2 start-instances --instance-ids <id>'',
       ''Check VPC flow logs for rejected traffic'',
       ''Check security groups: aws ec2 describe-security-groups --group-ids <sg-id>''],
      kb_prevention = ''Use auto-scaling groups; enable detailed monitoring; configure instance recovery alarms; use multiple AZs'',
      kb_base_confidence = 80, kb_base_risk_score = 85\<rparr>,
     \<lparr>kb_id = ''aws-rds-connection-limit'', kb_category = ''cloud'', kb_sub_category = ''aws'',
      kb_keywords = [''rds connection limit'', ''rds too many connections'', ''rds max connections''],
      kb_anti_words = [], kb_metric_name = [], kb_severity = ''critical'',
      kb_root_cause = ''AWS RDS instance has reached its maximum connection limit'',
      kb_reasoning = [''RDS max_connections is determined by the instance class memory'',
       ''Without connection pooling, each application instance opens its own connections'',
       ''Connection leaks or slow queries exacerbate the problem''],
      kb_impact = ''New database connections are rejected; applications fail to connect; user-facing errors'',
      kb_resolution_steps = [(''Check connections: SELECT count(*) FROM pg_stat_activity (PostgreSQL) or SHOW STATUS LIKE '' @ [CHR 0x27] @ ''Threads_connected'' @ [CHR 0x27] @ '' (MySQL)''),
       ''Use RDS Proxy for connection pooling: aws rds create-db-proxy'', ''Kill idle connections on the database'',
       ''Scale up to a larger instance class (more connections)'',
       ''Deploy application-level connection pooling (PgBouncer, ProxySQL)''],
      kb_prevention = ''Use RDS Proxy or PgBouncer; right-size instance class; monitor connection count; set connection timeouts'',
      kb_base_confidence = 80, kb_base_risk_score = 80\<rparr>,
     \<lparr>kb_id = ''aws-s3-access-denied'', kb_category = ''cloud'', kb_sub_category = ''aws'',
      kb_keywords = [''s3 access denied'', ''s3 403'', ''bucket policy denied''], kb_anti_words = [],
      kb_metric_name = [], kb_severity = ''high'',
      kb_root_cause = (''AWS S3 access denied '' @ [CHR 0xE2, CHR 0x80, CHR 0x94] @ '' IAM policy or bucket policy is blocking the operation''),
      kb_reasoning = [''The IAM role/user does not have the required S3 permissions'',
       ''The bucket policy may explicitly deny the operation'',
       ''S3 Block Public Access settings may be blocking the request''],
      kb_impact = ''Cannot read/write to S3; file uploads/downloads fail; application functionality breaks'',
      kb_resolution_steps = [''Check IAM policy: aws iam get-role-policy --role-name <role> --policy-name <policy>'',
       ''Check bucket policy: aws s3api get-bucket-policy --bucket <name>'',
       ''Check Block Public Access: aws s3api get-public-access-block --bucket <name>'',
       ''Test with AWS CLI: aws s3 ls s3://<bucket>/'',
       ''Grant required permissions: add s3:GetObject, s3:PutObject to the IAM policy''],
      kb_prevention = ''Use infrastructure-as-code for IAM policies; test permissions before deploy; use least-privilege principle'',
      kb_base_confidence = 75, kb_base_risk_score = 55\<rparr>,
     \<lparr>kb_id = ''aws-lambda-timeout'', kb_category = ''cloud'', kb_sub_category = ''aws'',
      kb_keywords = [''lambda timeout'', ''task timed out lambda'', ''lambda duration exceeded''], kb_anti_words = [],
      kb_metric_name = [], kb_severity = ''high'',
      kb_root_cause = ''AWS Lambda function exceeded its configured timeout'',
      kb_reasoning = [''Lambda has a maximum timeout of 15 minutes (default is often 3 seconds)'',
       ''The function is taking longer than expected due to slow dependencies or cold start'',
       ''Cold starts add 100ms-10s of latency depending on runtime and VPC configuration''],
      kb_impact = ''Function invocation fails; downstream systems do not receive the result'',
      kb_resolution_steps = [''Increase timeout: aws lambda update-function-configuration --function-name <name> --timeout 30'',
       ''Check CloudWatch logs for where time is spent'',
       ''Optimize cold start: use provisioned concurrency for critical functions'',
       ''Move long operations to Step Functions or ECS tasks'',
       ''Check if the function is waiting on a VPC resource (common cold start cause)''],
      kb_prevention = ''Set appropriate timeouts; use provisioned concurrency; optimize function code; avoid VPC when not needed'',
      kb_base_confidence = 70, kb_base_risk_score = 55\<rparr>,
     \<lparr>kb_id = ''aws-elb-5xx'', kb_category = ''cloud'', kb_sub_category = ''aws'',
      kb_keywords = [''elb 5xx'', ''alb 502'', ''alb 503'', ''elb errors aws''], kb_anti_words = [],
      kb_metric_name = [], kb_severity = ''high'',
      kb_root_cause = (''AWS ELB/ALB is returning 5xx errors '' @ [CHR 0xE2, CHR 0x80, CHR 0x94] @ '' backend targets are unhealthy or not responding''),
      kb_reasoning = [''502 means the target sent an invalid response; 503 means no healthy targets'',
       ''504 means the target did not respond within the idle timeout'',
       ''All target instances may have failed health checks''],
      kb_impact = ''User traffic receives error responses; service degraded or unavailable'',
      kb_resolution_steps = [''Check target health: aws elbv2 describe-target-health --target-group-arn <arn>'',
       ''Check ALB access logs in S3 for error details'', ''Verify target instances are running and healthy'',
       ''Check security groups between ALB and targets'',
       ''Increase deregistration delay to allow in-flight requests to complete''],
      kb_prevention = ''Configure proper health checks; use auto-scaling; monitor target health; set appropriate timeouts'',
      kb_base_confidence = 75, kb_base_risk_score = 65\<rparr>,
     \<lparr>kb_id = ''aws-sqs-visibility-timeout'', kb_category = ''cloud'', kb_sub_category = ''aws'',
      kb_keywords = [''sqs visibility timeout'', ''message reprocessed'', ''sqs duplicate''], kb_anti_words = [],
      kb_metric_name = [], kb_severity = ''medium'',
      kb_root_cause = (''SQS message visibility timeout expired '' @ [CHR 0xE2, CHR 0x80, CHR 0x94] @ '' messages are being reprocessed''),
      kb_reasoning = [''When a consumer takes longer than the visibility timeout, the message becomes visible again'',
       ''Another consumer picks it up, leading to duplicate processing'',
       ''Default visibility timeout is 30 seconds, which may be too short''],
      kb_impact = ''Messages processed multiple times; duplicate actions; data inconsistency'',
      kb_resolution_steps = [''Increase visibility timeout: aws sqs set-queue-attributes --queue-url <url> --attributes VisibilityTimeout=300'',
       ''Make message processing idempotent'',
       ''Use SQS FIFO queues with exactly-once processing for critical messages'',
       ''Monitor ApproximateNumberOfMessagesNotVisible metric'',
       ''Delete messages immediately after successful processing''],
      kb_prevention = ''Set visibility timeout to 6x average processing time; make consumers idempotent; use dead-letter queues'',
      kb_base_confidence = 65, kb_base_risk_score = 45\<rparr>,
     \<lparr>kb_id = ''aws-dynamodb-throttling'', kb_category = ''cloud'', kb_sub_category = ''aws'',
      kb_keywords = [''dynamodb throttling'', ''provisioned throughput exceeded'', ''dynamodb capacity''],
      kb_anti_words = [], kb_metric_name = [], kb_severity = ''high'',
      kb_root_cause = (''DynamoDB is throttling requests '' @ [CHR 0xE2, CHR 0x80, CHR 0x94] @ '' provisioned capacity or on-demand limits exceeded''),
      kb_reasoning = [''Requests exceed the provisioned read/write capacity units (RCU/WCU)'',
       ''Hot partition keys cause throttling even when total capacity is sufficient'',
       ''Burst capacity may have been exhausted by sustained high traffic''],
      kb_impact = ''Read/write requests are rejected; application sees throttling errors; data operations slow down'',
      kb_resolution_steps = [''Check throttling: CloudWatch ThrottledRequests metric'',
       ''Switch to on-demand capacity: aws dynamodb update-table --billing-mode PAY_PER_REQUEST'',
       ''Or increase provisioned capacity: aws dynamodb update-table --provisioned-throughput ReadCapacityUnits=100,WriteCapacityUnits=100'',
       ''Check for hot keys: enable CloudWatch Contributor Insights'', ''Distribute load across partition keys''],
      kb_prevention = ''Use on-demand for unpredictable workloads; implement exponential backoff; design for uniform key distribution'',
      kb_base_confidence = 75, kb_base_risk_score = 60\<rparr>,
     \<lparr>kb_id = ''aws-iam-permission-denied'', kb_category = ''cloud'', kb_sub_category = ''aws'',
      kb_keywords = [''iam permission denied'', ''access denied aws'', ''not authorized aws'', ''iam policy''],
      kb_anti_words = [], kb_metric_name = [], kb_severity = ''high'',
      kb_root_cause = (''AWS IAM permission denied '' @ [CHR 0xE2, CHR 0x80, CHR 0x94] @ '' the role/user lacks required permissions for the API call''),
      kb_reasoning = [''The IAM policy attached to the role/user does not include the required AWS action'',
       ''Service Control Policies (SCPs) may be blocking the action at the organization level'',
       ''Resource-based policies may explicitly deny the action''],
      kb_impact = ''The specific AWS API call fails; functionality depending on that AWS service breaks'',
      kb_resolution_steps = [''Check which action was denied from the error message'',
       ''Check IAM policies: aws iam list-attached-role-policies --role-name <role>'',
       ''Use IAM Access Analyzer to identify missing permissions'', ''Add the required permission to the IAM policy'',
       ''Check SCPs if in AWS Organizations: aws organizations list-policies --filter SERVICE_CONTROL_POLICY''],
      kb_prevention = ''Use IAM Access Analyzer; manage policies as code (Terraform/CDK); test permissions in staging'',
      kb_base_confidence = 75, kb_base_risk_score = 55\<rparr>,
     \<lparr>kb_id = ''aws-route53-health-check'', kb_category = ''cloud'', kb_sub_category = ''aws'',
      kb_keywords = [''route53 health check failed'', ''route53 unhealthy'', ''health check failed aws''],
      kb_anti_words = [], kb_metric_name = [], kb_severity = ''high'',
      kb_root_cause = (''AWS Route53 health check is failing '' @ [CHR 0xE2, CHR 0x80, CHR 0x94] @ '' DNS failover may have triggered''),
      kb_reasoning = [''Route53 health checks monitor endpoint availability from multiple regions'',
       ''A failing health check can trigger DNS failover to a secondary endpoint'',
       ''The endpoint may be down, returning errors, or network path is blocked''],
      kb_impact = ''DNS may failover to secondary; if no failover configured, users are routed to unhealthy endpoint'',
      kb_resolution_steps = [''Check health check status: aws route53 get-health-check-status --health-check-id <id>'',
       ''Verify the endpoint is accessible from the internet'',
       ''Check if the health check path returns 200: curl -v https://<endpoint>/<path>'',
       ''Check security groups allow Route53 health check IPs'',
       ''Fix the endpoint issue or update the health check configuration''],
      kb_prevention = ''Configure failover routing with health checks; monitor health check status; ensure health check endpoints are lightweight'',
      kb_base_confidence = 70, kb_base_risk_score = 60\<rparr>]"

definition aws_entries_2 :: "KnowledgeEntry list" where
  "aws_entries_2 =
    [\<lparr>kb_id = ''aws-cloudwatch-alarm'', kb_category = ''cloud'', kb_sub_category = ''aws'',
      kb_keywords = [''cloudwatch alarm'', ''alarm triggered aws'', ''alarm state aws''], kb_anti_words = [],
      kb_metric_name = [], kb_severity = ''high'',
      kb_root_cause = (''AWS CloudWatch alarm has triggered '' @ [CHR 0xE2, CHR 0x80, CHR 0x94] @ '' a monitored metric exceeded its threshold''),
      kb_reasoning = [''A metric crossed the alarm threshold for the required number of evaluation periods'',
       (''This is an early warning system '' @ [CHR 0xE2, CHR 0x80, CHR 0x94] @ '' the underlying issue needs investigation''),
       ''The alarm may trigger SNS notifications, Auto Scaling actions, or Lambda functions''],
      kb_impact = ''Depends on the metric that triggered; may indicate resource exhaustion, errors, or performance degradation'',
      kb_resolution_steps = [''Check alarm details: aws cloudwatch describe-alarms --alarm-names <name>'',
       ''Check the metric: aws cloudwatch get-metric-statistics (for the triggering metric)'',
       ''Identify the resource and metric from the alarm configuration'',
       ''Investigate the underlying cause based on the metric type'',
       ''Acknowledge and resolve the issue; set alarm back to OK after fix''],
      kb_prevention = ''Set appropriate alarm thresholds; configure actions (SNS, Auto Scaling); review alarm history regularly'',
      kb_base_confidence = 65, kb_base_risk_score = 55\<rparr>]"

definition aws_entries :: "KnowledgeEntry list" where
  "aws_entries = aws_entries_1 @ aws_entries_2"

definition gcp_entries_1 :: "KnowledgeEntry list" where
  "gcp_entries_1 =
    [\<lparr>kb_id = ''gcp-compute-preemption'', kb_category = ''cloud'', kb_sub_category = ''gcp'',
      kb_keywords = [''preempted'', ''compute preemption'', ''preemptible vm gcp'', ''spot instance gcp''],
      kb_anti_words = [], kb_metric_name = [], kb_severity = ''high'',
      kb_root_cause = (''GCP preemptible/spot VM was preempted '' @ [CHR 0xE2, CHR 0x80, CHR 0x94] @ '' instance was terminated by Google''),
      kb_reasoning = [''Preemptible VMs can be stopped by Google at any time with 30 seconds notice'',
       ''This is expected behavior for cost savings but requires fault-tolerant architecture'',
       ''Preemption typically happens when GCP needs capacity back''],
      kb_impact = ''Instance terminated; service on that instance goes down; workload must be rescheduled'',
      kb_resolution_steps = [(''Check preemption: gcloud compute operations list --filter='' @ [CHR 0x27] @ ''operationType=compute.instances.preempted'' @ [CHR 0x27]),
       ''Verify new instances were created by the managed instance group'',
       ''Use managed instance groups with auto-healing for automatic replacement'',
       ''Mix preemptible and on-demand instances in the group'',
       ''Implement graceful shutdown handling for the 30s warning''],
      kb_prevention = ''Use managed instance groups; mix preemptible with on-demand; implement graceful shutdown; use GKE Spot pods'',
      kb_base_confidence = 70, kb_base_risk_score = 55\<rparr>,
     \<lparr>kb_id = ''gcp-cloud-sql-connection-limit'', kb_category = ''cloud'', kb_sub_category = ''gcp'',
      kb_keywords = [''cloud sql connection limit'', ''cloud sql too many connections'', ''cloud sql max connections''],
      kb_anti_words = [], kb_metric_name = [], kb_severity = ''critical'',
      kb_root_cause = ''GCP Cloud SQL has reached its maximum connection limit'',
      kb_reasoning = [''Cloud SQL max_connections is set based on the instance tier/memory'',
       ''Without connection pooling, each application instance opens its own connections'',
       ''Connection leaks in application code gradually exhaust the pool''],
      kb_impact = ''New connections rejected; applications fail; user-facing errors'',
      kb_resolution_steps = [''Check connections via Cloud SQL Admin API or Cloud Console'',
       ''Use Cloud SQL Auth Proxy for connection management'', ''Deploy PgBouncer or ProxySQL as a connection pooler'',
       ''Scale up the Cloud SQL instance tier for more connections'', ''Fix connection leaks in application code''],
      kb_prevention = ''Use Cloud SQL Auth Proxy; implement connection pooling; monitor connection count; set connection timeouts'',
      kb_base_confidence = 80, kb_base_risk_score = 80\<rparr>,
     \<lparr>kb_id = ''gcp-gke-node-pool-exhausted'', kb_category = ''cloud'', kb_sub_category = ''gcp'',
      kb_keywords = [''gke node pool exhausted'', ''no nodes available gke'', ''insufficient resources gke''],
      kb_anti_words = [], kb_metric_name = [], kb_severity = ''high'',
      kb_root_cause = (''GKE node pool has no capacity for new pods '' @ [CHR 0xE2, CHR 0x80, CHR 0x94] @ '' all nodes are fully allocated''),
      kb_reasoning = [''All nodes in the pool have fully committed CPU and memory resources'',
       ''The cluster autoscaler may have hit its maximum node count'',
       ''The GCP project may have hit its compute engine quota''],
      kb_impact = ''New pods remain Pending; deployments cannot scale; services cannot grow'',
      kb_resolution_steps = [''Check pending pods: kubectl get pods --field-selector=status.phase=Pending'',
       ''Check cluster autoscaler: kubectl describe configmap cluster-autoscaler-status -n kube-system'',
       ''Increase max nodes: gcloud container node-pools update <pool> --max-nodes=10'',
       ''Check GCP quotas: gcloud compute project-info describe'', ''Add a new node pool with larger machines''],
      kb_prevention = ''Configure cluster autoscaler with appropriate max nodes; monitor resource utilization; set GCP quota alerts'',
      kb_base_confidence = 75, kb_base_risk_score = 65\<rparr>,
     \<lparr>kb_id = ''gcp-cloud-functions-timeout'', kb_category = ''cloud'', kb_sub_category = ''gcp'',
      kb_keywords = [''cloud functions timeout'', ''function timeout gcp'', ''function exceeded deadline''],
      kb_anti_words = [], kb_metric_name = [], kb_severity = ''high'',
      kb_root_cause = ''GCP Cloud Function exceeded its configured timeout (max 540s for 1st gen, 3600s for 2nd gen)'',
      kb_reasoning = [''The function took longer than its timeout to complete'',
       ''Common causes: slow external API calls, large data processing, or cold start'',
       ''2nd gen functions support up to 60 minutes; 1st gen is limited to 9 minutes''],
      kb_impact = ''Function invocation fails; dependent systems do not receive results; event may be retried'',
      kb_resolution_steps = [''Increase timeout: gcloud functions deploy <name> --timeout=300s'',
       ''Check Cloud Logging for function execution details'',
       ''Optimize function code: reduce API calls, use caching'',
       ''Use Cloud Run for long-running workloads (up to 60 minutes)'',
       ''Consider using Pub/Sub + Cloud Run for async processing''],
      kb_prevention = ''Set appropriate timeouts; optimize function performance; use Cloud Run for long tasks; monitor execution duration'',
      kb_base_confidence = 70, kb_base_risk_score = 55\<rparr>,
     \<lparr>kb_id = ''gcp-lb-5xx'', kb_category = ''cloud'', kb_sub_category = ''gcp'',
      kb_keywords = [''cloud load balancing 5xx'', ''gcp lb error'', ''backend service unhealthy gcp''],
      kb_anti_words = [], kb_metric_name = [], kb_severity = ''high'',
      kb_root_cause = (''GCP Cloud Load Balancing is returning 5xx errors '' @ [CHR 0xE2, CHR 0x80, CHR 0x94] @ '' backends are unhealthy''),
      kb_reasoning = [''Backend instances or NEGs are failing health checks'',
       ''502 indicates backend sent invalid response; 503 means no healthy backends'',
       ''Firewall rules may be blocking health check probes from GCP ranges''],
      kb_impact = ''User-facing traffic receives error responses; service availability degraded'',
      kb_resolution_steps = [''Check backend health: gcloud compute backend-services get-health <name>'',
       ''Check health check configuration: gcloud compute health-checks describe <name>'',
       ''Verify firewall allows GCP health check ranges (130.211.0.0/22, 35.191.0.0/16)'',
       ''Check backend instance/pod health directly'', ''Review load balancer logs in Cloud Logging''],
      kb_prevention = ''Allow GCP health check IP ranges in firewall; configure proper health checks; monitor backend health'',
      kb_base_confidence = 75, kb_base_risk_score = 65\<rparr>,
     \<lparr>kb_id = ''gcp-pubsub-backlog'', kb_category = ''cloud'', kb_sub_category = ''gcp'',
      kb_keywords = [''pubsub backlog'', ''message backlog gcp'', ''pubsub undelivered''], kb_anti_words = [],
      kb_metric_name = [], kb_severity = ''high'',
      kb_root_cause = (''GCP Pub/Sub subscription has a growing message backlog '' @ [CHR 0xE2, CHR 0x80, CHR 0x94] @ '' consumers are not keeping up''),
      kb_reasoning = [''Messages are being published faster than subscribers can process them'',
       ''Subscribers may be failing, slow, or insufficient in number'',
       ''Old messages may expire (default retention is 7 days)''],
      kb_impact = ''Message processing delay grows; downstream systems receive stale data; messages may expire'',
      kb_resolution_steps = [''Check backlog: gcloud pubsub subscriptions describe <name> (look at backlog_message_count)'',
       ''Scale up consumer instances'', ''Check consumer logs for processing errors'',
       ''Increase ack deadline: gcloud pubsub subscriptions update <name> --ack-deadline=60'',
       ''Purge old messages if needed: gcloud pubsub subscriptions seek <name> --time=now''],
      kb_prevention = ''Monitor subscription backlog; auto-scale consumers based on backlog; set appropriate ack deadlines'',
      kb_base_confidence = 70, kb_base_risk_score = 55\<rparr>,
     \<lparr>kb_id = ''gcp-bigquery-quota'', kb_category = ''cloud'', kb_sub_category = ''gcp'',
      kb_keywords = [''bigquery quota'', ''bigquery rate limit'', ''exceeded quota bigquery''], kb_anti_words = [],
      kb_metric_name = [], kb_severity = ''medium'',
      kb_root_cause = (''GCP BigQuery quota exceeded '' @ [CHR 0xE2, CHR 0x80, CHR 0x94] @ '' queries or API calls are being rate limited''),
      kb_reasoning = [''BigQuery has quotas on concurrent queries, bytes scanned, and API calls'',
       ''Concurrent query limit is typically 100 per project'',
       ''Streaming insert quota can also be exceeded with high-throughput applications''],
      kb_impact = ''Queries fail or are queued; analytics pipelines are delayed'',
      kb_resolution_steps = [''Check quotas: gcloud alpha bq quotas list'', ''Reduce concurrent queries by batching or scheduling'',
       ''Request quota increase: GCP Console > IAM > Quotas'', ''Use BigQuery reservations for guaranteed capacity'',
       ''Optimize queries to scan less data (use partitioned tables)''],
      kb_prevention = ''Monitor quota usage; use reservations for production workloads; partition and cluster tables; batch queries'',
      kb_base_confidence = 65, kb_base_risk_score = 45\<rparr>,
     \<lparr>kb_id = ''gcp-iam-denied'', kb_category = ''cloud'', kb_sub_category = ''gcp'',
      kb_keywords = [''iam permission denied gcp'', ''access denied gcp'', ''not authorized gcp''], kb_anti_words = [],
      kb_metric_name = [], kb_severity = ''high'',
      kb_root_cause = (''GCP IAM permission denied '' @ [CHR 0xE2, CHR 0x80, CHR 0x94] @ '' the service account lacks required permissions''),
      kb_reasoning = [''The service account does not have the required IAM role for the operation'',
       ''Organization policies may restrict certain operations'',
       ''IAM permission changes can take up to 60 seconds to propagate''],
      kb_impact = ''The specific GCP API call fails; application functionality depending on that API breaks'',
      kb_resolution_steps = [''Check error details for which permission is needed'',
       ''Check current roles: gcloud projects get-iam-policy <project>'',
       ''Grant required role: gcloud projects add-iam-policy-binding <project> --member=<sa> --role=<role>'',
       ''Use IAM recommender: gcloud recommender recommendations list --recommender=google.iam.policy.Recommender'',
       ''Check organization policies: gcloud resource-manager org-policies list''],
      kb_prevention = ''Use infrastructure-as-code for IAM; test permissions in staging; follow least-privilege principle'',
      kb_base_confidence = 75, kb_base_risk_score = 55\<rparr>,
     \<lparr>kb_id = ''gcp-dns-failure'', kb_category = ''cloud'', kb_sub_category = ''gcp'',
      kb_keywords = [''cloud dns failure'', ''gcp dns error'', ''dns resolution gcp''], kb_anti_words = [],
      kb_metric_name = [], kb_severity = ''critical'',
      kb_root_cause = (''GCP Cloud DNS resolution failure '' @ [CHR 0xE2, CHR 0x80, CHR 0x94] @ '' managed zone records are not resolving''),
      kb_reasoning = [''Cloud DNS managed zones may have misconfigured records'', ''DNS propagation for new records takes time'',
       ''NS delegation to Cloud DNS may not be properly configured at the registrar''],
      kb_impact = ''DNS resolution fails; services cannot be reached by hostname; user traffic affected'',
      kb_resolution_steps = [''Check records: gcloud dns record-sets list --zone=<zone>'',
       ''Test resolution: dig <domain> @ns-cloud-a1.googledomains.com'',
       ''Verify NS delegation at registrar matches Cloud DNS nameservers'',
       ''Check managed zone status: gcloud dns managed-zones describe <zone>'',
       ''Wait for propagation if records were recently changed''],
      kb_prevention = ''Lower TTL before DNS changes; verify NS delegation; monitor DNS resolution; use multiple zones for redundancy'',
      kb_base_confidence = 75, kb_base_risk_score = 70\<rparr>]"

definition gcp_entries_2 :: "KnowledgeEntry list" where
  "gcp_entries_2 =
    [\<lparr>kb_id = ''gcp-gcs-access-denied'', kb_category = ''cloud'', kb_sub_category = ''gcp'',
      kb_keywords = [''gcs access denied'', ''gcs 403'', ''bucket access denied gcp'', ''storage access denied''],
      kb_anti_words = [], kb_metric_name = [], kb_severity = ''high'',
      kb_root_cause = (''GCP Cloud Storage access denied '' @ [CHR 0xE2, CHR 0x80, CHR 0x94] @ '' insufficient permissions on the bucket or object''),
      kb_reasoning = [''The service account or user lacks the required storage IAM role'',
       ''Bucket-level ACLs may be overriding IAM policies'',
       ''Uniform bucket-level access may prevent object-level ACLs from working''],
      kb_impact = ''Cannot read/write to Cloud Storage; file operations fail; application functionality broken'',
      kb_resolution_steps = [''Check bucket IAM: gsutil iam get gs://<bucket>'',
       ''Grant access: gsutil iam ch serviceAccount:<sa>:objectViewer gs://<bucket>'',
       ''Check uniform bucket-level access: gsutil ubla get gs://<bucket>'', ''Test access: gsutil ls gs://<bucket>/'',
       ''Verify the service account is attached to the workload''],
      kb_prevention = ''Use uniform bucket-level access; manage IAM with infrastructure-as-code; test permissions in staging'',
      kb_base_confidence = 75, kb_base_risk_score = 55\<rparr>]"

definition gcp_entries :: "KnowledgeEntry list" where
  "gcp_entries = gcp_entries_1 @ gcp_entries_2"

definition azure_entries_1 :: "KnowledgeEntry list" where
  "azure_entries_1 =
    [\<lparr>kb_id = ''azure-vm-not-responding'', kb_category = ''cloud'', kb_sub_category = ''azure'',
      kb_keywords = [''azure vm not responding'', ''vm unresponsive azure'', ''azure instance unreachable''],
      kb_anti_words = [], kb_metric_name = [], kb_severity = ''critical'',
      kb_root_cause = (''Azure VM is not responding '' @ [CHR 0xE2, CHR 0x80, CHR 0x94] @ '' the instance may have crashed or lost network''),
      kb_reasoning = [''The VM may have experienced a host-level failure or guest OS crash'',
       ''Azure may have initiated maintenance that affected the VM'',
       ''Network Security Group rules may have been changed, blocking access''],
      kb_impact = ''Service on the VM is completely unavailable; cannot SSH/RDP to the VM'',
      kb_resolution_steps = [''Check VM status: az vm get-instance-view --resource-group <rg> --name <vm>'',
       ''Check boot diagnostics: az vm boot-diagnostics get-boot-log --resource-group <rg> --name <vm>'',
       ''Restart the VM: az vm restart --resource-group <rg> --name <vm>'',
       ''If unresponsive: redeploy to new host: az vm redeploy --resource-group <rg> --name <vm>'',
       ''Check NSG rules: az network nsg rule list --nsg-name <nsg> --resource-group <rg>''],
      kb_prevention = ''Use availability sets/zones; enable boot diagnostics; configure Azure Monitor alerts; use VMSS for auto-healing'',
      kb_base_confidence = 80, kb_base_risk_score = 85\<rparr>,
     \<lparr>kb_id = ''azure-sql-throttling'', kb_category = ''cloud'', kb_sub_category = ''azure'',
      kb_keywords = [''azure sql throttling'', ''dtu limit exceeded'', ''azure sql rate limit''], kb_anti_words = [],
      kb_metric_name = [], kb_severity = ''high'',
      kb_root_cause = (''Azure SQL Database is throttling requests '' @ [CHR 0xE2, CHR 0x80, CHR 0x94] @ '' DTU or vCore limit exceeded''),
      kb_reasoning = [''Azure SQL enforces resource limits based on the service tier (DTU or vCore)'',
       ''Exceeding these limits results in request throttling (wait/retry required)'',
       ''Common during traffic spikes or complex queries that consume excessive resources''],
      kb_impact = ''Database queries are delayed or rejected; application response times increase'',
      kb_resolution_steps = [''Check DTU usage: Azure Portal > SQL Database > Metrics > DTU percentage'',
       ''Scale up: az sql db update --resource-group <rg> --server <server> --name <db> --service-objective S3'',
       ''Optimize queries consuming excessive DTUs'', ''Implement retry logic with exponential backoff'',
       ''Consider elastic pools for variable workloads''],
      kb_prevention = ''Monitor DTU/vCore usage; set alerts at 80%; use auto-scaling; optimize query performance'',
      kb_base_confidence = 75, kb_base_risk_score = 60\<rparr>,
     \<lparr>kb_id = ''azure-aks-node-not-ready'', kb_category = ''cloud'', kb_sub_category = ''azure'',
      kb_keywords = [''aks node not ready'', ''azure kubernetes node'', ''aks node issue''], kb_anti_words = [],
      kb_metric_name = [], kb_severity = ''critical'',
      kb_root_cause = (''AKS node is in NotReady state '' @ [CHR 0xE2, CHR 0x80, CHR 0x94] @ '' kubelet is not healthy on the node''),
      kb_reasoning = [''The Azure node may have disk pressure, memory pressure, or kubelet crash'',
       ''Azure may be performing node maintenance or OS updates'',
       ''Virtual machine scale set instance may have failed''],
      kb_impact = ''Pods on the node are evicted; scheduling capacity reduced; potential service degradation'',
      kb_resolution_steps = [''Check node status: kubectl describe node <node>'',
       ''Check AKS health: az aks show --resource-group <rg> --name <cluster>'',
       ''Cordon and drain the unhealthy node: kubectl cordon <node> && kubectl drain <node>'',
       ''Restart the node: restart the VMSS instance via Azure Portal'',
       ''If persistent: delete the node and let AKS auto-scale a replacement''],
      kb_prevention = ''Use cluster autoscaler; enable node auto-repair; monitor node health; use multiple node pools'',
      kb_base_confidence = 80, kb_base_risk_score = 75\<rparr>,
     \<lparr>kb_id = ''azure-functions-timeout'', kb_category = ''cloud'', kb_sub_category = ''azure'',
      kb_keywords = [''azure functions timeout'', ''function timeout azure'', ''function exceeded timeout''],
      kb_anti_words = [], kb_metric_name = [], kb_severity = ''high'',
      kb_root_cause = ''Azure Function exceeded its timeout limit (5 min consumption, 30 min premium/dedicated)'',
      kb_reasoning = [''The function took longer than the maximum allowed execution time'',
       ''Cold starts in consumption plan can add seconds to startup'',
       ''The function may be waiting on a slow external dependency''],
      kb_impact = ''Function invocation fails; dependent systems do not receive the result'',
      kb_resolution_steps = [''Increase timeout in host.json: functionTimeout setting'',
       ''Use Premium plan for longer timeouts and no cold starts'',
       ''Optimize function execution time: reduce external calls, use caching'',
       ''Use Durable Functions for long-running workflows'',
       ''Move to Azure Container Apps for workloads requiring > 30 min''],
      kb_prevention = ''Set appropriate timeouts; use Premium plan for production; optimize function code; use Durable Functions for orchestration'',
      kb_base_confidence = 70, kb_base_risk_score = 55\<rparr>,
     \<lparr>kb_id = ''azure-app-gateway-5xx'', kb_category = ''cloud'', kb_sub_category = ''azure'',
      kb_keywords = [''application gateway 5xx'', ''app gateway error azure'', ''app gateway backend unhealthy''],
      kb_anti_words = [], kb_metric_name = [], kb_severity = ''high'',
      kb_root_cause = (''Azure Application Gateway is returning 5xx errors '' @ [CHR 0xE2, CHR 0x80, CHR 0x94] @ '' backend pool is unhealthy''),
      kb_reasoning = [''Backend instances are failing the Application Gateway health probe'',
       ''502 means backend returned invalid response; 503 means no healthy backends'',
       ''NSG rules may be blocking health probe traffic from the gateway subnet''],
      kb_impact = ''External traffic receives errors; users cannot access the application'',
      kb_resolution_steps = [''Check backend health: az network application-gateway show-backend-health --name <gw> --resource-group <rg>'',
       ''Check health probe configuration: az network application-gateway probe list --gateway-name <gw> --resource-group <rg>'',
       ''Verify NSG allows traffic from the Application Gateway subnet'', ''Check backend instance health directly'',
       ''Review Application Gateway access logs for error details''],
      kb_prevention = ''Configure proper health probes; allow health probe traffic in NSGs; monitor backend health; use auto-scaling for backends'',
      kb_base_confidence = 75, kb_base_risk_score = 65\<rparr>,
     \<lparr>kb_id = ''azure-service-bus-dead-letter'', kb_category = ''cloud'', kb_sub_category = ''azure'',
      kb_keywords = [''service bus dead letter'', ''dead letter queue azure'', ''dlq azure''], kb_anti_words = [],
      kb_metric_name = [], kb_severity = ''medium'',
      kb_root_cause = ''Messages are accumulating in Azure Service Bus dead-letter queue'',
      kb_reasoning = [''Messages land in DLQ after exceeding MaxDeliveryCount (default 10) or TTL expiry'',
       ''The consumer is failing to process certain messages, causing repeated retries'',
       ''DLQ messages require manual inspection and remediation''],
      kb_impact = ''Some messages are not being processed; business operations depending on those messages are delayed'',
      kb_resolution_steps = [''Check DLQ: az servicebus queue show --name <queue>$DeadLetterQueue --namespace-name <ns> --resource-group <rg>'',
       ''Peek at DLQ messages to understand failure reasons'', ''Fix the processing issue in the consumer'',
       ''Resubmit salvageable messages from DLQ to the main queue'',
       ''Increase MaxDeliveryCount if failures are transient''],
      kb_prevention = ''Monitor DLQ depth; make consumers idempotent; handle poison messages gracefully; set alerts on DLQ growth'',
      kb_base_confidence = 65, kb_base_risk_score = 45\<rparr>,
     \<lparr>kb_id = ''azure-cosmos-rate-limited'', kb_category = ''cloud'', kb_sub_category = ''azure'',
      kb_keywords = [''cosmos db rate limited'', ''cosmos 429'', ''cosmos throttled'', ''request rate large''],
      kb_anti_words = [], kb_metric_name = [], kb_severity = ''high'',
      kb_root_cause = (''Azure Cosmos DB is rate limiting requests '' @ [CHR 0xE2, CHR 0x80, CHR 0x94] @ '' provisioned RU/s exceeded''),
      kb_reasoning = [''The request consumed more RU/s than the provisioned throughput allows'',
       ''Hot partitions can cause throttling even when total RU/s is sufficient'',
       ''Large queries or cross-partition queries consume more RUs''],
      kb_impact = ''Read/write operations are throttled; application latency increases; requests fail with 429'',
      kb_resolution_steps = [''Check RU consumption: Azure Portal > Cosmos DB > Metrics > Total Request Units'',
       ''Increase provisioned throughput: az cosmosdb sql container throughput update --throughput <RUs>'',
       ''Use autoscale throughput for variable workloads'',
       ''Optimize queries: use point reads instead of queries; filter by partition key'',
       ''Distribute data evenly across partitions''],
      kb_prevention = ''Use autoscale throughput; design for even partition distribution; monitor RU consumption; optimize query RU cost'',
      kb_base_confidence = 75, kb_base_risk_score = 60\<rparr>,
     \<lparr>kb_id = ''azure-key-vault-denied'', kb_category = ''cloud'', kb_sub_category = ''azure'',
      kb_keywords = [''key vault access denied'', ''key vault 403'', ''azure key vault forbidden''],
      kb_anti_words = [], kb_metric_name = [], kb_severity = ''high'',
      kb_root_cause = (''Azure Key Vault access denied '' @ [CHR 0xE2, CHR 0x80, CHR 0x94] @ '' identity lacks required access policy or RBAC role''),
      kb_reasoning = [''The managed identity or service principal does not have a Key Vault access policy'',
       ''If using RBAC: the required Key Vault role (Secret User, Crypto User) is not assigned'',
       ''Key Vault firewall may be blocking the request if network rules are configured''],
      kb_impact = ''Application cannot read secrets, keys, or certificates; startup may fail; encryption/decryption fails'',
      kb_resolution_steps = [''Check access policies: az keyvault show --name <vault>'',
       ''Add access policy: az keyvault set-policy --name <vault> --object-id <identity> --secret-permissions get list'',
       (''Or grant RBAC: az role assignment create --role '' @ [CHR 0x27] @ ''Key Vault Secrets User'' @ [CHR 0x27] @ '' --assignee <identity> --scope <vault-id>''),
       ''Check network rules: az keyvault network-rule list --name <vault>'',
       ''Verify managed identity is enabled on the compute resource''],
      kb_prevention = ''Use managed identities for authentication; manage access policies as code; monitor Key Vault access logs'',
      kb_base_confidence = 75, kb_base_risk_score = 60\<rparr>,
     \<lparr>kb_id = ''azure-dns-failure'', kb_category = ''cloud'', kb_sub_category = ''azure'',
      kb_keywords = [''azure dns failure'', ''azure dns error'', ''private dns zone azure''], kb_anti_words = [],
      kb_metric_name = [], kb_severity = ''critical'',
      kb_root_cause = (''Azure DNS zone resolution failure '' @ [CHR 0xE2, CHR 0x80, CHR 0x94] @ '' DNS records are not resolving correctly''),
      kb_reasoning = [''Azure DNS zone may have incorrect records or the zone may not be linked to the VNet'',
       ''Private DNS zones must be linked to VNets to resolve within those networks'',
       ''DNS propagation may not be complete for recent changes''],
      kb_impact = ''Services cannot resolve hostnames; connectivity breaks; application errors'',
      kb_resolution_steps = [''Check DNS zone records: az network dns record-set list --zone-name <zone> --resource-group <rg>'',
       ''For private DNS: verify VNet link: az network private-dns link vnet list --zone-name <zone> --resource-group <rg>'',
       ''Test resolution: nslookup <record> from within the VNet'',
       ''Check if the zone is properly delegated (for public zones)'',
       ''Create missing records or fix incorrect ones''],
      kb_prevention = ''Automate DNS management with infrastructure-as-code; monitor DNS resolution; verify VNet links after changes'',
      kb_base_confidence = 75, kb_base_risk_score = 70\<rparr>]"

definition azure_entries_2 :: "KnowledgeEntry list" where
  "azure_entries_2 =
    [\<lparr>kb_id = ''azure-blob-access-denied'', kb_category = ''cloud'', kb_sub_category = ''azure'',
      kb_keywords = [''blob storage access denied'', ''azure storage 403'', ''blob access denied''],
      kb_anti_words = [], kb_metric_name = [], kb_severity = ''high'',
      kb_root_cause = (''Azure Blob Storage access denied '' @ [CHR 0xE2, CHR 0x80, CHR 0x94] @ '' insufficient permissions or incorrect credentials''),
      kb_reasoning = [''The identity does not have the required RBAC role (Storage Blob Data Reader/Contributor)'',
       ''The shared access signature (SAS) may have expired'',
       ''The storage account firewall may be blocking the request''],
      kb_impact = ''Cannot read/write to Blob Storage; file operations fail; application functionality broken'',
      kb_resolution_steps = [''Check RBAC: az role assignment list --scope <storage-account-id>'',
       (''Grant access: az role assignment create --role '' @ [CHR 0x27] @ ''Storage Blob Data Contributor'' @ [CHR 0x27] @ '' --assignee <identity> --scope <id>''),
       ''Check SAS token expiry if using SAS authentication'',
       ''Check firewall rules: az storage account show --name <account> --query networkRuleSet'',
       ''Use managed identity instead of connection strings for authentication''],
      kb_prevention = ''Use managed identities; manage RBAC as code; monitor access denied events; set firewall rules appropriately'',
      kb_base_confidence = 75, kb_base_risk_score = 55\<rparr>]"

definition azure_entries :: "KnowledgeEntry list" where
  "azure_entries = azure_entries_1 @ azure_entries_2"

end
