(* ===== verification/KbAdvancedHosts.thy ===== *)
theory KbAdvancedHosts
  imports KnowledgeMatch
begin

text \<open>
  The entries of \<open>services/kb_advanced.go\<close>: advanced patterns of Linux, networks, containers, queues and delivery.
  One definition per builder, in the order of the source; a long builder is in numbered pieces.
\<close>

definition advanced_linux_entries_1 :: "KnowledgeEntry list" where
  "advanced_linux_entries_1 =
    [\<lparr>kb_id = ''linux-rsyslog-crash'', kb_category = ''system'', kb_sub_category = ''syslog'',
      kb_keywords = [''rsyslog'', ''syslog crash'', ''rsyslogd'', ''imjournal''],
      kb_anti_words = [''fluentd'', ''logstash''], kb_metric_name = [], kb_severity = ''high'',
      kb_root_cause = (''rsyslog daemon crashed or stopped '' @ [CHR 0xE2, CHR 0x80, CHR 0x94] @ '' system logs are no longer being collected''),
      kb_reasoning = [''rsyslog segfaults can be caused by malformed log messages or module bugs'',
       ''When rsyslog stops, all local syslog routing ceases including auth and kernel logs'',
       ''Other services relying on syslog for output will block or silently drop messages''],
      kb_impact = ''Complete loss of system log collection; compliance and audit gaps; delayed incident detection'',
      kb_resolution_steps = [''Check rsyslog status: systemctl status rsyslog'',
       (''Review crash logs: journalctl -u rsyslog --since '' @ [CHR 0x27] @ ''1 hour ago'' @ [CHR 0x27]),
       ''Restart rsyslog: systemctl restart rsyslog'', ''Validate config: rsyslogd -N1'',
       ''Check for core dump: coredumpctl list rsyslogd''],
      kb_prevention = ''Monitor rsyslog process; set up watchdog timer; test config changes with rsyslogd -N1 before applying'',
      kb_base_confidence = 75, kb_base_risk_score = 65\<rparr>,
     \<lparr>kb_id = ''linux-logrotate-failure'', kb_category = ''system'', kb_sub_category = ''syslog'',
      kb_keywords = [''logrotate'', ''logrotate failure'', ''logrotate error'', ''log rotation failed''],
      kb_anti_words = [''application log'', ''access log''], kb_metric_name = [], kb_severity = ''medium'',
      kb_root_cause = (''logrotate failed to rotate log files '' @ [CHR 0xE2, CHR 0x80, CHR 0x94] @ '' logs will grow unbounded and fill disk''),
      kb_reasoning = [''logrotate failures can be caused by permission issues or processes holding log file handles'',
       ''Unrotated logs grow without bound, eventually consuming all disk space'',
       ''Some services write to a specific log path and will fail if the path becomes a directory''],
      kb_impact = ''Disk space consumption from growing logs; eventual disk full condition; log analysis tools may fail on huge files'',
      kb_resolution_steps = [''Run logrotate manually: logrotate -d /etc/logrotate.conf (dry run)'',
       ''Force rotation: logrotate -f /etc/logrotate.d/<service>'',
       ''Check permissions on log files and logrotate state: cat /var/lib/logrotate/status'',
       ''Ensure services can reopen log files after rotation (copytruncate or SIGHUP)''],
      kb_prevention = ''Monitor logrotate exit status via cron; ensure copytruncate or postrotate hooks are correct; test config changes'',
      kb_base_confidence = 70, kb_base_risk_score = 50\<rparr>,
     \<lparr>kb_id = ''linux-cron-job-failed'', kb_category = ''system'', kb_sub_category = ''cron'',
      kb_keywords = [''cron failed'', ''cron job error'', ''crontab'', ''cron exit''],
      kb_anti_words = [''kubernetes cronjob'', ''k8s cron''], kb_metric_name = [], kb_severity = ''medium'',
      kb_root_cause = (''A cron job exited with a non-zero status '' @ [CHR 0xE2, CHR 0x80, CHR 0x94] @ '' the scheduled task did not complete successfully''),
      kb_reasoning = [''Cron jobs run in a minimal environment; missing PATH or environment variables are common causes'',
       ''Failed cron jobs often go unnoticed because output is only emailed to the local mailbox'',
       ''Dependencies (databases, APIs) may not be available at the scheduled time''],
      kb_impact = ''Scheduled maintenance tasks not performed; data not processed on time; potential cascade failures'',
      kb_resolution_steps = [''Check cron logs: grep CRON /var/log/syslog'', ''Check local mail for error output: mail -u root'',
       (''Run the command manually to reproduce: sudo -u <cronuser> /bin/bash -c '' @ [CHR 0x27] @ ''<command>'' @ [CHR 0x27]),
       ''Ensure PATH and environment are set in the crontab or script'',
       ''Redirect output to a log: */5 * * * * /path/script.sh >> /var/log/cron-script.log 2>&1''],
      kb_prevention = ''Always redirect cron output to logs; add health checks for cron results; set explicit PATH in crontab'',
      kb_base_confidence = 65, kb_base_risk_score = 45\<rparr>,
     \<lparr>kb_id = ''linux-nfs-stale-handle'', kb_category = ''system'', kb_sub_category = ''nfs'',
      kb_keywords = [''nfs stale'', ''stale file handle'', ''nfs mount'', ''nfs timeout''],
      kb_anti_words = [''ceph'', ''gluster''], kb_metric_name = [], kb_severity = ''high'',
      kb_root_cause = (''NFS stale file handle '' @ [CHR 0xE2, CHR 0x80, CHR 0x94] @ '' the NFS server export was changed or the server was restarted while clients had open handles''),
      kb_reasoning = [''Stale NFS handles occur when the server-side inode/export changes but the client cache is stale'',
       ''Any process attempting to use the stale mount will get I/O errors'',
       ''Applications writing to NFS will hang or crash when encountering stale handles''],
      kb_impact = ''Application I/O errors; data writes fail; services relying on NFS may crash or hang'',
      kb_resolution_steps = [''Identify stale mounts: mount | grep nfs'', ''Check for errors: dmesg | grep -i nfs'',
       ''Unmount and remount: umount -l /mnt/nfs && mount /mnt/nfs'',
       ''If unmount fails, restart the NFS client: systemctl restart nfs-client.target'',
       ''Verify NFS server exports: showmount -e <nfs-server>''],
      kb_prevention = ''Use soft mounts with timeout (mount -o soft,timeo=30); monitor NFS mount health; coordinate NFS server changes'',
      kb_base_confidence = 75, kb_base_risk_score = 60\<rparr>,
     \<lparr>kb_id = ''linux-kernel-hung-task'', kb_category = ''system'', kb_sub_category = ''kernel'',
      kb_keywords = [''hung task'', ''blocked for more than'', ''hung_task_timeout'', ''INFO: task''],
      kb_anti_words = [''container'', ''pod''], kb_metric_name = [], kb_severity = ''critical'',
      kb_root_cause = (''Kernel detected a hung task '' @ [CHR 0xE2, CHR 0x80, CHR 0x94] @ '' a process has been in uninterruptible sleep (D state) for too long''),
      kb_reasoning = [''Hung tasks usually indicate I/O subsystem problems: stuck disk, NFS server unreachable, or kernel bug'',
       ''Processes in D state cannot be killed with SIGKILL because they are waiting for kernel I/O completion'',
       ''Multiple hung tasks often indicate a systemic storage or driver issue''],
      kb_impact = ''Affected processes are completely stuck; may cascade to dependent services; system may need reboot'',
      kb_resolution_steps = [''Check dmesg for kernel messages: dmesg -T | grep -i hung'',
       (''Identify D-state processes: ps aux | awk '' @ [CHR 0x27] @ ''$8 ~ /D/'' @ [CHR 0x27]),
       ''Check I/O subsystem: iostat -x 1 5'', ''Check NFS/storage health if applicable'',
       ''If persistent, reboot may be required: sync && reboot''],
      kb_prevention = ''Monitor for D-state processes; set appropriate I/O timeouts; use watchdog timers; keep kernel updated'',
      kb_base_confidence = 85, kb_base_risk_score = 85\<rparr>,
     \<lparr>kb_id = ''linux-kernel-soft-lockup'', kb_category = ''system'', kb_sub_category = ''kernel'',
      kb_keywords = [''soft lockup'', ''softlockup'', ''CPU stuck'', ''BUG: soft lockup''],
      kb_anti_words = [''hard lockup''], kb_metric_name = [], kb_severity = ''critical'',
      kb_root_cause = (''Kernel soft lockup detected '' @ [CHR 0xE2, CHR 0x80, CHR 0x94] @ '' a CPU has been spinning in kernel mode without scheduling for too long''),
      kb_reasoning = [''Soft lockups indicate a kernel code path is monopolizing a CPU without yielding'',
       ''Common causes: spinlock contention, faulty device driver, kernel bug'',
       ''The watchdog thread could not run on the affected CPU for at least 20 seconds''],
      kb_impact = ''Affected CPU is unavailable for user processes; system may be partially unresponsive; potential data corruption'',
      kb_resolution_steps = [''Check kernel logs: dmesg -T | grep -i lockup'', ''Note the call trace to identify the offending code path'',
       ''Check for known kernel bugs matching the call trace'',
       ''Update kernel if a fix is available: apt upgrade linux-image-* or yum update kernel'',
       ''If caused by a driver, update or disable the faulty driver module''],
      kb_prevention = ''Keep kernel updated; test new kernels in staging; monitor for lockup messages; avoid untested kernel modules'',
      kb_base_confidence = 90, kb_base_risk_score = 90\<rparr>,
     \<lparr>kb_id = ''linux-kernel-hard-lockup'', kb_category = ''system'', kb_sub_category = ''kernel'',
      kb_keywords = [''hard lockup'', ''hardlockup'', ''NMI watchdog'', ''BUG: hard lockup''],
      kb_anti_words = [''soft lockup''], kb_metric_name = [], kb_severity = ''critical'',
      kb_root_cause = (''Kernel hard lockup '' @ [CHR 0xE2, CHR 0x80, CHR 0x94] @ '' a CPU is stuck in kernel mode with interrupts disabled''),
      kb_reasoning = [''Hard lockups mean the CPU is not even processing interrupts, which is more severe than a soft lockup'',
       ''Only an NMI (non-maskable interrupt) watchdog can detect this condition'',
       ''Usually caused by hardware issues, firmware bugs, or critical kernel bugs''],
      kb_impact = ''CPU completely unavailable; system may freeze entirely; high risk of data corruption'',
      kb_resolution_steps = [(''Check dmesg for NMI watchdog output: dmesg -T | grep -i '' @ [CHR 0x27] @ ''hard lockup'' @ [CHR 0x5C] @ ''|NMI'' @ [CHR 0x27]),
       ''Record the full stack trace for bug reporting'', ''Check hardware health: mcelog --client for MCE events'',
       ''Update BIOS/firmware if hardware-related'', ''If reproducible, file a kernel bug with the stack trace''],
      kb_prevention = ''Keep firmware and kernel updated; run hardware diagnostics regularly; monitor MCE events'',
      kb_base_confidence = 90, kb_base_risk_score = 95\<rparr>,
     \<lparr>kb_id = ''linux-page-alloc-failure'', kb_category = ''system'', kb_sub_category = ''kernel'',
      kb_keywords = [''page allocation failure'', ''order allocation'', ''out of memory'', ''page_alloc''],
      kb_anti_words = [''oom killer'', ''java heap''], kb_metric_name = [], kb_severity = ''high'',
      kb_root_cause = (''Kernel page allocation failure '' @ [CHR 0xE2, CHR 0x80, CHR 0x94] @ '' unable to allocate contiguous memory of the requested order''),
      kb_reasoning = [''High-order page allocations fail when physical memory is too fragmented'',
       ''Common for order-2+ allocations needed by network drivers, jumbo frames, or transparent huge pages'',
       ''The system may have free memory but not in contiguous blocks of the required size''],
      kb_impact = ''Network packet drops; allocation-dependent operations fail; potential system instability'',
      kb_resolution_steps = [''Check memory fragmentation: cat /proc/buddyinfo'', ''Compact memory: echo 1 > /proc/sys/vm/compact_memory'',
       ''Reduce minimum watermark: sysctl -w vm.min_free_kbytes=65536'',
       ''Disable transparent huge pages if not needed: echo never > /sys/kernel/mm/transparent_hugepage/enabled'',
       ''Reduce MTU if jumbo frames cause allocation failures''],
      kb_prevention = ''Monitor memory fragmentation; tune vm.min_free_kbytes; consider disabling THP on fragmentation-prone systems'',
      kb_base_confidence = 75, kb_base_risk_score = 70\<rparr>,
     \<lparr>kb_id = ''linux-kernel-bug-at'', kb_category = ''system'', kb_sub_category = ''kernel'',
      kb_keywords = [''BUG at'', ''kernel BUG'', ''kernel panic'', ''BUG:'', ''invalid opcode''],
      kb_anti_words = [''soft lockup'', ''hard lockup''], kb_metric_name = [], kb_severity = ''critical'',
      kb_root_cause = (''Kernel BUG assertion triggered '' @ [CHR 0xE2, CHR 0x80, CHR 0x94] @ '' the kernel hit an unexpected state it cannot safely recover from''),
      kb_reasoning = [''BUG() calls are placed in kernel code at points that should be unreachable'',
       ''This indicates a kernel code bug, memory corruption, or hardware error'',
       ''The affected subsystem is identified in the call trace''],
      kb_impact = ''Kernel may panic and reboot; potential data loss if write operations were in-flight'',
      kb_resolution_steps = [''Capture the full dmesg output: dmesg -T > /tmp/kernel-bug.log'',
       ''Check if the kernel version has known bugs: search the call trace'',
       ''Update to the latest stable kernel: apt upgrade linux-image-* or yum update kernel'',
       ''Run hardware diagnostics: memtest86+, smartctl for disks'',
       ''File a kernel bug report with the full trace if no known fix exists''],
      kb_prevention = ''Use LTS kernels in production; keep kernel updated; run memory tests on new hardware'',
      kb_base_confidence = 85, kb_base_risk_score = 90\<rparr>]"

definition advanced_linux_entries_2 :: "KnowledgeEntry list" where
  "advanced_linux_entries_2 =
    [\<lparr>kb_id = ''linux-kernel-warning-at'', kb_category = ''system'', kb_sub_category = ''kernel'',
      kb_keywords = [''WARNING at'', ''kernel WARNING'', ''WARNING:'', ''WARN_ON''],
      kb_anti_words = [''BUG at'', ''panic''], kb_metric_name = [], kb_severity = ''medium'',
      kb_root_cause = (''Kernel WARNING triggered '' @ [CHR 0xE2, CHR 0x80, CHR 0x94] @ '' the kernel detected an anomalous but recoverable condition''),
      kb_reasoning = [''WARN_ON calls flag unexpected states that the kernel can recover from'',
       ''Repeated warnings may indicate a latent bug that could escalate to a BUG/panic'',
       ''The call trace identifies the subsystem and code path with the issue''],
      kb_impact = ''Usually non-fatal but may indicate degraded subsystem behavior; repeated occurrences suggest a real problem'',
      kb_resolution_steps = [''Check the warning details: dmesg -T | grep -A 20 WARNING'',
       ''Search for the call trace in kernel bug trackers'', ''Update kernel if a fix is available'',
       (''Monitor frequency '' @ [CHR 0xE2, CHR 0x80, CHR 0x94] @ '' escalate if warnings increase'')],
      kb_prevention = ''Keep kernel updated; monitor dmesg for warnings; test kernel upgrades in staging'',
      kb_base_confidence = 60, kb_base_risk_score = 40\<rparr>,
     \<lparr>kb_id = ''linux-systemd-restart-loop'', kb_category = ''system'', kb_sub_category = ''systemd'',
      kb_keywords = [''restart loop'', ''start-limit-hit'', ''service failed'', ''too many restarts'', ''StartLimitBurst''],
      kb_anti_words = [''kubernetes'', ''docker restart''], kb_metric_name = [], kb_severity = ''high'',
      kb_root_cause = (''Systemd service is in a restart loop '' @ [CHR 0xE2, CHR 0x80, CHR 0x94] @ '' the service keeps crashing and restarting, hitting the start limit''),
      kb_reasoning = [''Services configured with Restart=always will restart on failure, but systemd limits restart frequency'',
       ''Once StartLimitBurst is exceeded, systemd stops trying and marks the unit as failed'',
       ''The root cause is the underlying service crash, not systemd itself''],
      kb_impact = ''Service is down and will not auto-recover; dependent services may also fail'',
      kb_resolution_steps = [''Check service status: systemctl status <service>'',
       (''View recent logs: journalctl -u <service> --since '' @ [CHR 0x27] @ ''30 minutes ago'' @ [CHR 0x27]),
       ''Reset the failure counter: systemctl reset-failed <service>'',
       ''Fix the underlying crash cause before restarting'', ''Restart after fix: systemctl start <service>''],
      kb_prevention = ''Set reasonable StartLimitBurst and StartLimitIntervalSec; monitor service restarts; add health checks'',
      kb_base_confidence = 80, kb_base_risk_score = 70\<rparr>,
     \<lparr>kb_id = ''linux-systemd-dependency-failed'', kb_category = ''system'', kb_sub_category = ''systemd'',
      kb_keywords = [''dependency failed'', ''Requires='', ''After='', ''systemd dependency'', ''unit not found''],
      kb_anti_words = [''helm'', ''chart dependency''], kb_metric_name = [], kb_severity = ''medium'',
      kb_root_cause = ''Systemd unit failed to start because a dependency unit is not available or failed'',
      kb_reasoning = [''Units with Requires= or BindsTo= dependencies will fail if the dependency fails'',
       ''Missing dependency can be caused by uninstalled packages or renamed units'',
       ''Ordering cycles can also prevent units from starting''],
      kb_impact = ''Service cannot start; cascading failure if other services depend on it'',
      kb_resolution_steps = [''Check dependency tree: systemctl list-dependencies <service>'',
       ''Check status of failed dependency: systemctl status <dependency>'',
       ''Check for ordering cycles: systemd-analyze verify <service>.service'',
       ''Install or fix the missing dependency unit''],
      kb_prevention = ''Use Wants= instead of Requires= where possible; test service files with systemd-analyze verify'',
      kb_base_confidence = 70, kb_base_risk_score = 55\<rparr>,
     \<lparr>kb_id = ''linux-systemd-unit-masked'', kb_category = ''system'', kb_sub_category = ''systemd'',
      kb_keywords = [''unit masked'', ''masked unit'', ''unit is masked'', ''cannot start masked''],
      kb_anti_words = [''kubernetes''], kb_metric_name = [], kb_severity = ''medium'',
      kb_root_cause = (''Systemd unit is masked '' @ [CHR 0xE2, CHR 0x80, CHR 0x94] @ '' it has been explicitly disabled and cannot be started''),
      kb_reasoning = [''Masked units are symlinked to /dev/null, preventing any start attempt'',
       ''This is often intentional but can be forgotten, leading to confusion during troubleshooting'',
       ''Masking takes priority over enable/disable state''],
      kb_impact = ''Service cannot be started by any means until unmasked; dependent services may fail'',
      kb_resolution_steps = [''Confirm unit is masked: systemctl status <service>'', ''Unmask the unit: systemctl unmask <service>'',
       ''Enable and start: systemctl enable --now <service>'', ''Verify it was intentionally masked before unmasking''],
      kb_prevention = ''Document masked units; use disable instead of mask when appropriate; check mask status during troubleshooting'',
      kb_base_confidence = 75, kb_base_risk_score = 40\<rparr>,
     \<lparr>kb_id = ''linux-systemd-socket-activation-failed'', kb_category = ''system'', kb_sub_category = ''systemd'',
      kb_keywords = [''socket activation'', ''socket failed'', ''ListenStream'', ''Accept='', ''socket unit''],
      kb_anti_words = [''websocket'', ''unix socket''], kb_metric_name = [], kb_severity = ''high'',
      kb_root_cause = (''Systemd socket activation failed '' @ [CHR 0xE2, CHR 0x80, CHR 0x94] @ '' the socket unit cannot bind or the triggered service fails on activation''),
      kb_reasoning = [''Socket activation creates the listening socket before the service starts'',
       ''Binding failures occur when the port is already in use or permissions are insufficient'',
       ''If the triggered service fails on first connection, all queued connections are lost''],
      kb_impact = ''Service unreachable on the configured port; incoming connections refused'',
      kb_resolution_steps = [''Check socket status: systemctl status <service>.socket'',
       ''Check for port conflicts: ss -tlnp | grep <port>'',
       ''Check triggered service: systemctl status <service>.service'',
       ''Restart the socket unit: systemctl restart <service>.socket''],
      kb_prevention = ''Ensure no port conflicts; test socket units after changes; monitor socket unit status'',
      kb_base_confidence = 70, kb_base_risk_score = 60\<rparr>,
     \<lparr>kb_id = ''linux-pam-auth-failure'', kb_category = ''system'', kb_sub_category = ''auth'',
      kb_keywords = [''pam_unix'', ''authentication failure'', ''pam auth'', ''failed password'', ''pam_authenticate''],
      kb_anti_words = [''api auth'', ''jwt'', ''oauth''], kb_metric_name = [], kb_severity = ''high'',
      kb_root_cause = (''PAM authentication failures detected '' @ [CHR 0xE2, CHR 0x80, CHR 0x94] @ '' repeated failed login attempts on the system''),
      kb_reasoning = [''Multiple PAM failures may indicate a brute-force attack or misconfigured service credentials'',
       ''PAM failures are logged to auth.log/secure and can trigger account lockouts'',
       ''Automated services with expired credentials can cause repeated failures''],
      kb_impact = ''Potential unauthorized access attempts; account lockouts; security compliance violations'',
      kb_resolution_steps = [(''Check auth logs: grep '' @ [CHR 0x27] @ ''authentication failure'' @ [CHR 0x27] @ '' /var/log/auth.log''),
       (''Identify source IPs: grep '' @ [CHR 0x27] @ ''Failed password'' @ [CHR 0x27] @ '' /var/log/auth.log | awk '' @ [CHR 0x27] @ ''{print $(NF-3)}'' @ [CHR 0x27] @ '' | sort | uniq -c | sort -rn''),
       ''Block offending IPs with fail2ban or firewall: fail2ban-client status sshd'',
       ''Reset locked accounts if legitimate: pam_tally2 --reset --user=<user>''],
      kb_prevention = ''Use fail2ban; disable password auth for SSH (use keys); enable MFA; monitor auth failure rates'',
      kb_base_confidence = 75, kb_base_risk_score = 70\<rparr>,
     \<lparr>kb_id = ''linux-sudo-failure'', kb_category = ''system'', kb_sub_category = ''auth'',
      kb_keywords = [''sudo'', ''not in sudoers'', ''sudo failure'', ''3 incorrect password attempts'', ''sudo: pam_authenticate''],
      kb_anti_words = [''docker sudo''], kb_metric_name = [], kb_severity = ''high'',
      kb_root_cause = (''sudo authentication failure '' @ [CHR 0xE2, CHR 0x80, CHR 0x94] @ '' a user attempted privileged operations without proper authorization''),
      kb_reasoning = [''Failed sudo attempts are logged and may indicate privilege escalation attempts'',
       ''Users not in sudoers file receive explicit warnings that are reported to administrators'',
       ''Repeated sudo failures from a single user warrant investigation''],
      kb_impact = ''Potential security incident; administrative operations blocked for the user'',
      kb_resolution_steps = [''Check sudo log: grep sudo /var/log/auth.log | tail -20'', ''Verify user sudo access: sudo -l -U <username>'',
       ''If legitimate, add user to sudo group: usermod -aG sudo <username>'',
       ''If suspicious, investigate the user account and recent activity''],
      kb_prevention = ''Use role-based sudo rules in /etc/sudoers.d/; audit sudo usage; enable sudo logging'',
      kb_base_confidence = 70, kb_base_risk_score = 65\<rparr>,
     \<lparr>kb_id = ''linux-ssh-brute-force'', kb_category = ''system'', kb_sub_category = ''auth'',
      kb_keywords = [''ssh brute force'', ''ssh failed'', ''sshd'', ''invalid user'', ''too many authentication failures''],
      kb_anti_words = [''ssh key rotation''], kb_metric_name = [], kb_severity = ''critical'',
      kb_root_cause = (''SSH brute-force attack detected '' @ [CHR 0xE2, CHR 0x80, CHR 0x94] @ '' high volume of failed SSH login attempts from external sources''),
      kb_reasoning = [''Rapid SSH login failures from the same or multiple IPs indicate automated brute-force attacks'',
       ''Attackers scan for weak passwords and common usernames'',
       ''Successful brute-force leads to full system compromise''],
      kb_impact = ''Risk of unauthorized access; system resource consumption from connection handling; sshd slowdown'',
      kb_resolution_steps = [(''Check SSH failures: grep '' @ [CHR 0x27] @ ''Failed password'' @ [CHR 0x27] @ '' /var/log/auth.log | tail -50''),
       (''List top attacking IPs: grep '' @ [CHR 0x27] @ ''Failed password'' @ [CHR 0x27] @ '' /var/log/auth.log | awk '' @ [CHR 0x27] @ ''{print $(NF-3)}'' @ [CHR 0x27] @ '' | sort | uniq -c | sort -rn | head''),
       ''Block attackers: fail2ban-client set sshd banip <IP>'',
       ''Disable password auth: set PasswordAuthentication no in /etc/ssh/sshd_config && systemctl reload sshd'',
       ''Restrict SSH access to known IP ranges via firewall''],
      kb_prevention = ''Disable password authentication; use SSH keys only; run fail2ban; change SSH port; use VPN for access'',
      kb_base_confidence = 85, kb_base_risk_score = 80\<rparr>,
     \<lparr>kb_id = ''linux-inotify-limit'', kb_category = ''system'', kb_sub_category = ''limits'',
      kb_keywords = [''inotify'', ''watch limit'', ''inotify_add_watch'', ''no space left on device inotify'',
       ''too many open files inotify''],
      kb_anti_words = [''disk space''], kb_metric_name = [], kb_severity = ''medium'',
      kb_root_cause = (''inotify watch limit reached '' @ [CHR 0xE2, CHR 0x80, CHR 0x94] @ '' applications cannot watch additional files or directories for changes''),
      kb_reasoning = [''Each inotify watch consumes kernel memory; the default limit (8192) is often too low for IDEs and file sync tools'',
       ''Applications like VS Code, webpack, and docker use many inotify watches'',
       ''When the limit is reached, new watch requests fail with ENOSPC''],
      kb_impact = ''File-watching applications fail to detect changes; build tools miss file updates; sync tools stop working'',
      kb_resolution_steps = [''Check current usage: cat /proc/sys/fs/inotify/max_user_watches'',
       ''Increase limit temporarily: sysctl -w fs.inotify.max_user_watches=524288'',
       (''Make permanent: echo '' @ [CHR 0x27] @ ''fs.inotify.max_user_watches=524288'' @ [CHR 0x27] @ '' >> /etc/sysctl.d/99-inotify.conf && sysctl --system''),
       (''Find heavy users: find /proc/*/fd -lname anon_inode:inotify 2>/dev/null | cut -d/ -f3 | xargs -I{} sh -c '' @ [CHR 0x27] @ ''echo -n '' @ [CHR 0x22] @ ''{} '' @ [CHR 0x22] @ ''; wc -l /proc/{}/fdinfo/* 2>/dev/null | tail -1'' @ [CHR 0x27])],
      kb_prevention = ''Set inotify watch limit to 524288 on development and CI machines; monitor inotify usage'',
      kb_base_confidence = 75, kb_base_risk_score = 40\<rparr>]"

definition advanced_linux_entries_3 :: "KnowledgeEntry list" where
  "advanced_linux_entries_3 =
    [\<lparr>kb_id = ''linux-fd-limit'', kb_category = ''system'', kb_sub_category = ''limits'',
      kb_keywords = [''file descriptor limit'', ''too many open files'', ''ulimit'', ''nofile'', ''EMFILE''],
      kb_anti_words = [''inotify''], kb_metric_name = [], kb_severity = ''high'',
      kb_root_cause = (''File descriptor limit reached '' @ [CHR 0xE2, CHR 0x80, CHR 0x94] @ '' the process or system has exhausted its allowed number of open files''),
      kb_reasoning = [''Each open file, socket, and pipe consumes a file descriptor'',
       ''The default per-process limit (1024) is often too low for servers handling many connections'',
       ''System-wide limit (fs.file-max) can also be exhausted under high load''],
      kb_impact = ''New connections refused; file operations fail; cascading errors in the application'',
      kb_resolution_steps = [''Check system-wide usage: cat /proc/sys/fs/file-nr'', ''Check per-process: ls /proc/<PID>/fd | wc -l'',
       ''Increase system limit: sysctl -w fs.file-max=1000000'',
       ''Increase process limit in systemd unit: LimitNOFILE=65536'',
       (''Find FD leak: ls -la /proc/<PID>/fd | awk '' @ [CHR 0x27] @ ''{print $NF}'' @ [CHR 0x27] @ '' | sort | uniq -c | sort -rn | head'')],
      kb_prevention = ''Set appropriate LimitNOFILE in service files; monitor open FD count; detect FD leaks early'',
      kb_base_confidence = 80, kb_base_risk_score = 70\<rparr>,
     \<lparr>kb_id = ''linux-process-limit'', kb_category = ''system'', kb_sub_category = ''limits'',
      kb_keywords = [''process limit'', ''fork failed'', ''cannot allocate'', ''nproc'', ''max processes'', ''EAGAIN''],
      kb_anti_words = [''thread pool''], kb_metric_name = [], kb_severity = ''high'',
      kb_root_cause = (''Process/thread limit reached '' @ [CHR 0xE2, CHR 0x80, CHR 0x94] @ '' the system or user cannot create new processes''),
      kb_reasoning = [''The nproc ulimit limits the number of processes per user'',
       ''The kernel.pid_max and kernel.threads-max set system-wide limits'',
       ''Fork bombs or runaway process creation can exhaust these limits quickly''],
      kb_impact = ''No new processes can be created; cron jobs fail; SSH login may be impossible; system partially unusable'',
      kb_resolution_steps = [''Check system-wide: cat /proc/sys/kernel/threads-max'',
       ''Check per-user processes: ps -u <user> --no-headers | wc -l'',
       ''Increase limit: sysctl -w kernel.pid_max=65536'', ''Kill runaway processes: pkill -u <user> -f <pattern>'',
       (''Set per-user limit: edit /etc/security/limits.conf '' @ [CHR 0xE2, CHR 0x80, CHR 0x94] @ '' <user> hard nproc 8192'')],
      kb_prevention = ''Set reasonable nproc limits; monitor process counts per user; implement process creation rate limiting'',
      kb_base_confidence = 80, kb_base_risk_score = 75\<rparr>,
     \<lparr>kb_id = ''linux-time-drift'', kb_category = ''system'', kb_sub_category = ''time'',
      kb_keywords = [''time drift'', ''clock skew'', ''chrony'', ''ntpd'', ''time synchronization'', ''ntp offset''],
      kb_anti_words = [''timeout'', ''time out''], kb_metric_name = [], kb_severity = ''high'',
      kb_root_cause = (''System clock drift detected '' @ [CHR 0xE2, CHR 0x80, CHR 0x94] @ '' NTP/chrony is unable to keep the system clock synchronized''),
      kb_reasoning = [''Clock drift causes TLS certificate validation failures when the clock is too far off'',
       ''Distributed systems rely on synchronized clocks for ordering events and lease management'',
       ''Database replication, Kerberos auth, and log correlation all break with clock skew''],
      kb_impact = ''TLS failures; distributed system coordination errors; incorrect log timestamps; authentication failures'',
      kb_resolution_steps = [''Check chrony status: chronyc tracking'', ''Check NTP status: ntpstat or ntpq -p'',
       ''Force sync: chronyc makestep or ntpdate -u pool.ntp.org'',
       ''Check if NTP servers are reachable: chronyc sources -v'',
       ''Verify firewall allows UDP 123: ss -ulnp | grep 123''],
      kb_prevention = ''Monitor NTP offset; alert on drift > 100ms; use multiple NTP sources; ensure UDP 123 is open'',
      kb_base_confidence = 75, kb_base_risk_score = 65\<rparr>,
     \<lparr>kb_id = ''linux-leap-second'', kb_category = ''system'', kb_sub_category = ''time'',
      kb_keywords = [''leap second'', ''leap-second'', ''clock step'', ''UTC adjustment''],
      kb_anti_words = [''leap year''], kb_metric_name = [], kb_severity = ''medium'',
      kb_root_cause = (''Leap second event causing system instability '' @ [CHR 0xE2, CHR 0x80, CHR 0x94] @ '' some applications handle the extra second poorly''),
      kb_reasoning = [''Leap seconds can cause CPU spikes in applications using certain timer implementations'',
       ''Java applications with older JVMs may enter high-CPU loops during leap second events'',
       ''Linux kernels before 3.4 had known leap second bugs causing system hangs''],
      kb_impact = ''CPU spikes; application hangs; time-sensitive operations may fail briefly'',
      kb_resolution_steps = [''Check for leap second: adjtimex --print | grep status'',
       ''Use leap second smearing (Google-style): configure chrony with leapsecmode slew'',
       ''Restart affected applications that are in high-CPU state'',
       ''Ensure kernel is version 3.4+ for proper leap second handling''],
      kb_prevention = ''Use leap smearing NTP servers; keep kernel and JVM updated; test applications around leap second events'',
      kb_base_confidence = 60, kb_base_risk_score = 35\<rparr>,
     \<lparr>kb_id = ''linux-oom-cgroup'', kb_category = ''system'', kb_sub_category = ''memory'',
      kb_keywords = [''oom cgroup'', ''memory cgroup'', ''cgroup oom'', ''memory.max'', ''memory limit exceeded''],
      kb_anti_words = [''java heap'', ''kubernetes oom''], kb_metric_name = [], kb_severity = ''high'',
      kb_root_cause = (''cgroup memory limit exceeded '' @ [CHR 0xE2, CHR 0x80, CHR 0x94] @ '' the OOM killer terminated a process within a resource-constrained cgroup''),
      kb_reasoning = [''cgroup memory limits restrict how much memory a group of processes can use'',
       ''When the limit is reached, the kernel OOM killer selects a process to kill within the cgroup'',
       ''This is different from system-wide OOM as the system may have free memory''],
      kb_impact = ''Process killed; service disruption; potential data loss from unexpected termination'',
      kb_resolution_steps = [(''Check OOM events: dmesg -T | grep -i '' @ [CHR 0x27] @ ''oom'' @ [CHR 0x5C] @ ''|killed process'' @ [CHR 0x27]),
       ''Check cgroup limits: cat /sys/fs/cgroup/memory/<group>/memory.limit_in_bytes'',
       ''Increase the cgroup limit if too restrictive'', ''Profile application memory usage to find leaks'',
       ''Tune the application to use less memory (cache sizes, buffer sizes)''],
      kb_prevention = ''Set cgroup limits with headroom; monitor memory usage within cgroups; profile before setting limits'',
      kb_base_confidence = 80, kb_base_risk_score = 75\<rparr>,
     \<lparr>kb_id = ''linux-kernel-taint'', kb_category = ''system'', kb_sub_category = ''kernel'',
      kb_keywords = [''tainted kernel'', ''kernel taint'', ''tainted:'', ''proprietary module''],
      kb_anti_words = [''container''], kb_metric_name = [], kb_severity = ''medium'',
      kb_root_cause = (''Kernel is tainted '' @ [CHR 0xE2, CHR 0x80, CHR 0x94] @ '' a proprietary or out-of-tree module has been loaded, limiting kernel debug support''),
      kb_reasoning = [''Tainted kernels have loaded modules that are not part of the upstream kernel'',
       ''Proprietary GPU drivers (nvidia), custom modules, or forced module loads cause tainting'',
       ''Kernel developers may decline to investigate bugs on tainted kernels''],
      kb_impact = ''Reduced kernel debugging capability; potential stability issues from out-of-tree modules'',
      kb_resolution_steps = [''Check taint status: cat /proc/sys/kernel/tainted'',
       ''Decode taint flags: see Documentation/admin-guide/tainted-kernels.rst'',
       (''List loaded modules: lsmod | grep -v '' @ [CHR 0x27] @ ''^Module'' @ [CHR 0x27]),
       ''Identify the tainting module: dmesg | grep -i taint''],
      kb_prevention = ''Use open-source drivers where possible; test proprietary modules in staging; document taint reasons'',
      kb_base_confidence = 60, kb_base_risk_score = 35\<rparr>,
     \<lparr>kb_id = ''linux-kernel-module-load-fail'', kb_category = ''system'', kb_sub_category = ''kernel'',
      kb_keywords = [''modprobe'', ''insmod'', ''module load failed'', ''unknown symbol'', ''module verification''],
      kb_anti_words = [''python module'', ''node module''], kb_metric_name = [], kb_severity = ''high'',
      kb_root_cause = (''Kernel module failed to load '' @ [CHR 0xE2, CHR 0x80, CHR 0x94] @ '' missing dependencies, version mismatch, or signature verification failure''),
      kb_reasoning = [''Module version must match the running kernel exactly'',
       ''Secure Boot requires signed modules; unsigned modules are rejected'',
       ''Missing symbol errors indicate the module depends on another module not loaded''],
      kb_impact = ''Hardware device not functional; filesystem not mountable; network driver unavailable'',
      kb_resolution_steps = [''Check error: dmesg -T | tail -20'', ''Check module info: modinfo <module>'',
       ''Load dependencies: modprobe --show-depends <module>'',
       ''Rebuild module for current kernel: dkms autoinstall''],
      kb_prevention = ''Use DKMS for out-of-tree modules; keep kernel and modules in sync; test module loads after kernel updates'',
      kb_base_confidence = 70, kb_base_risk_score = 55\<rparr>,
     \<lparr>kb_id = ''linux-swap-thrashing'', kb_category = ''system'', kb_sub_category = ''memory'',
      kb_keywords = [''swap thrashing'', ''swap in'', ''swap out'', ''swapping'', ''high swap'', ''si so''],
      kb_anti_words = [''swap file creation''], kb_metric_name = [], kb_severity = ''high'',
      kb_root_cause = (''System is thrashing swap '' @ [CHR 0xE2, CHR 0x80, CHR 0x94] @ '' excessive swapping in and out indicating memory pressure''),
      kb_reasoning = [''When physical RAM is exhausted, the kernel swaps pages to disk, which is orders of magnitude slower'',
       ''Thrashing occurs when the working set exceeds physical memory, causing constant page faults'',
       ''Application performance degrades dramatically during swap thrashing''],
      kb_impact = ''Severe performance degradation; application response times increase 100-1000x; system may become unresponsive'',
      kb_resolution_steps = [''Check swap usage: free -h && swapon --show'', ''Monitor swap activity: vmstat 1 5 (si/so columns)'',
       ''Identify memory-hungry processes: ps aux --sort=-%mem | head'', ''Reduce memory usage or add more RAM'',
       ''Adjust swappiness: sysctl -w vm.swappiness=10''],
      kb_prevention = ''Size memory adequately; set vm.swappiness=10 for databases; monitor swap usage; set swap alerts'',
      kb_base_confidence = 80, kb_base_risk_score = 75\<rparr>]"

definition advanced_linux_entries :: "KnowledgeEntry list" where
  "advanced_linux_entries = advanced_linux_entries_1 @ advanced_linux_entries_2 @ advanced_linux_entries_3"

definition advanced_network_entries_1 :: "KnowledgeEntry list" where
  "advanced_network_entries_1 =
    [\<lparr>kb_id = ''net-syn-flood'', kb_category = ''network'', kb_sub_category = ''tcp'',
      kb_keywords = [''syn flood'', ''syn attack'', ''tcp syn'', ''synflood'', ''possible SYN flooding''],
      kb_anti_words = [''syn cookie''], kb_metric_name = [], kb_severity = ''critical'',
      kb_root_cause = (''TCP SYN flood attack '' @ [CHR 0xE2, CHR 0x80, CHR 0x94] @ '' the server is receiving an overwhelming number of SYN packets exhausting connection resources''),
      kb_reasoning = [''SYN flood fills the TCP backlog queue with half-open connections'',
       ''Legitimate connection requests are dropped when the backlog is full'',
       ''Each half-open connection consumes memory in the kernel TCP stack''],
      kb_impact = ''Service unreachable for new connections; existing connections unaffected but no new ones accepted'',
      kb_resolution_steps = [''Enable SYN cookies: sysctl -w net.ipv4.tcp_syncookies=1'',
       ''Increase backlog: sysctl -w net.ipv4.tcp_max_syn_backlog=65536'',
       ''Rate limit SYN packets: iptables -A INPUT -p tcp --syn -m limit --limit 100/s --limit-burst 200 -j ACCEPT'',
       (''Identify source IPs: ss -tn state syn-recv | awk '' @ [CHR 0x27] @ ''{print $4}'' @ [CHR 0x27] @ '' | sort | uniq -c | sort -rn''),
       ''Engage upstream DDoS mitigation if volume is high''],
      kb_prevention = ''Enable SYN cookies permanently; use DDoS protection service; rate-limit at the edge; increase backlog'',
      kb_base_confidence = 85, kb_base_risk_score = 85\<rparr>,
     \<lparr>kb_id = ''net-rst-flood'', kb_category = ''network'', kb_sub_category = ''tcp'',
      kb_keywords = [''rst flood'', ''tcp reset'', ''connection reset by peer'', ''rst packet''],
      kb_anti_words = [''syn flood''], kb_metric_name = [], kb_severity = ''high'',
      kb_root_cause = (''TCP RST flood '' @ [CHR 0xE2, CHR 0x80, CHR 0x94] @ '' excessive TCP reset packets are terminating established connections''),
      kb_reasoning = [''RST floods can be an attack vector to disrupt existing TCP connections'',
       ''Misconfigured firewalls or load balancers can also generate excessive RSTs'',
       ''A crashed backend behind a load balancer will RST all incoming connections''],
      kb_impact = (''Active connections disrupted; clients see '' @ [CHR 0x27] @ ''connection reset by peer'' @ [CHR 0x27] @ '' errors; data transfers interrupted''),
      kb_resolution_steps = [(''Capture RST packets: tcpdump -i any '' @ [CHR 0x27] @ ''tcp[tcpflags] & tcp-rst != 0'' @ [CHR 0x27] @ '' -c 100''),
       ''Check if a specific backend is generating RSTs: correlate source IPs'',
       ''Verify backend health: curl -v http://<backend>:<port>/health'',
       ''Check firewall rules for incorrect RST generation''],
      kb_prevention = ''Monitor RST rates; configure connection timeouts properly; use health checks on load balancers'',
      kb_base_confidence = 70, kb_base_risk_score = 65\<rparr>,
     \<lparr>kb_id = ''net-finwait-accumulation'', kb_category = ''network'', kb_sub_category = ''tcp'',
      kb_keywords = [''FIN_WAIT'', ''fin_wait2'', ''fin_wait1'', ''time_wait accumulation'', ''socket leak''],
      kb_anti_words = [''syn flood''], kb_metric_name = [], kb_severity = ''high'',
      kb_root_cause = (''TCP FIN_WAIT/TIME_WAIT connections accumulating '' @ [CHR 0xE2, CHR 0x80, CHR 0x94] @ '' connections are not being properly closed''),
      kb_reasoning = [''FIN_WAIT1 accumulation indicates the local side sent FIN but no ACK was received'',
       ''FIN_WAIT2 means the remote side has not sent its FIN to complete the close'',
       ''Excessive TIME_WAIT sockets consume ephemeral ports and can prevent new connections''],
      kb_impact = ''Ephemeral port exhaustion; new outbound connections fail; connection resources depleted'',
      kb_resolution_steps = [''Check connection states: ss -s'',
       (''Count by state: ss -tan | awk '' @ [CHR 0x27] @ ''{print $1}'' @ [CHR 0x27] @ '' | sort | uniq -c | sort -rn''),
       ''Reduce TIME_WAIT: sysctl -w net.ipv4.tcp_fin_timeout=15'',
       ''Enable port reuse: sysctl -w net.ipv4.tcp_tw_reuse=1'',
       ''Identify the process creating leaked connections: ss -tnp | grep FIN_WAIT''],
      kb_prevention = ''Tune tcp_fin_timeout; enable tcp_tw_reuse; ensure applications close connections properly; monitor connection states'',
      kb_base_confidence = 75, kb_base_risk_score = 60\<rparr>,
     \<lparr>kb_id = ''net-mtu-blackhole'', kb_category = ''network'', kb_sub_category = ''mtu'',
      kb_keywords = [''mtu black hole'', ''pmtud'', ''path mtu'', ''fragmentation needed'', ''packet too big''],
      kb_anti_words = [''jumbo frame''], kb_metric_name = [], kb_severity = ''high'',
      kb_root_cause = (''MTU black hole '' @ [CHR 0xE2, CHR 0x80, CHR 0x94] @ '' ICMP '' @ [CHR 0x27] @ ''fragmentation needed'' @ [CHR 0x27] @ '' messages are being blocked, causing large packets to be silently dropped''),
      kb_reasoning = [(''Path MTU Discovery relies on ICMP '' @ [CHR 0x27] @ ''fragmentation needed'' @ [CHR 0x27] @ '' responses''),
       ''When firewalls block these ICMP messages, the sender never learns the correct MTU'',
       ''Small packets (handshakes) work but large data transfers stall or time out''],
      kb_impact = ''Large data transfers fail; TLS handshakes may succeed but data transfer stalls; intermittent connectivity'',
      kb_resolution_steps = [''Test with different packet sizes: ping -M do -s 1400 <target>'',
       ''Check current PMTU: ip route get <destination>'',
       ''Set interface MTU manually: ip link set dev <iface> mtu 1400'',
       ''Allow ICMP type 3 code 4: iptables -A INPUT -p icmp --icmp-type 3/4 -j ACCEPT'',
       ''Use MSS clamping: iptables -t mangle -A FORWARD -p tcp --tcp-flags SYN,RST SYN -j TCPMSS --clamp-mss-to-pmtu''],
      kb_prevention = ''Never block ICMP type 3 code 4; use MSS clamping on VPN/tunnel interfaces; document MTU requirements'',
      kb_base_confidence = 70, kb_base_risk_score = 60\<rparr>,
     \<lparr>kb_id = ''net-pmtud-failure'', kb_category = ''network'', kb_sub_category = ''mtu'',
      kb_keywords = [''pmtud failure'', ''path mtu discovery failed'', ''mtu mismatch'', ''df bit''],
      kb_anti_words = [''jumbo''], kb_metric_name = [], kb_severity = ''medium'',
      kb_root_cause = (''Path MTU Discovery is failing '' @ [CHR 0xE2, CHR 0x80, CHR 0x94] @ '' packets are being dropped because the Don'' @ [CHR 0x27] @ ''t Fragment bit is set but the packet exceeds the path MTU''),
      kb_reasoning = [''When DF is set and a packet exceeds the link MTU, it is dropped'',
       ''The ICMP response that should inform the sender may be filtered'',
       ''VPNs and tunnels reduce effective MTU due to encapsulation overhead''],
      kb_impact = ''Intermittent connection failures; large file transfers fail; VPN connections unreliable'',
      kb_resolution_steps = [''Test PMTUD: tracepath <destination>'', ''Lower MTU on tunnel interface: ip link set dev tun0 mtu 1400'',
       ''Enable MSS clamping for TCP: iptables -t mangle -A FORWARD -p tcp --tcp-flags SYN,RST SYN -j TCPMSS --set-mss 1360'',
       ''Check for ICMP filtering on the path''],
      kb_prevention = ''Configure correct MTU on tunnel interfaces; use MSS clamping; allow ICMP unreachable messages'',
      kb_base_confidence = 65, kb_base_risk_score = 50\<rparr>,
     \<lparr>kb_id = ''net-bgp-session-down'', kb_category = ''network'', kb_sub_category = ''routing'',
      kb_keywords = [''bgp session down'', ''bgp neighbor'', ''bgp peer'', ''bgp hold timer expired'', ''bgp notification''],
      kb_anti_words = [''ospf''], kb_metric_name = [], kb_severity = ''critical'',
      kb_root_cause = (''BGP session went down '' @ [CHR 0xE2, CHR 0x80, CHR 0x94] @ '' routing between autonomous systems is disrupted''),
      kb_reasoning = [''BGP session loss causes route withdrawals propagated to all peers'',
       ''Traffic to destinations learned via the lost peer will be blackholed or rerouted'',
       ''Hold timer expiry (default 180s) indicates the peer has not sent keepalives''],
      kb_impact = ''Network reachability lost for prefixes from the downed peer; traffic rerouting may cause congestion'',
      kb_resolution_steps = [''Check BGP summary: show ip bgp summary (on the router)'', ''Verify physical connectivity to the peer'',
       ''Check BGP logs for notification messages and error codes'', ''Clear the BGP session: clear ip bgp <peer-ip>'',
       ''Verify configuration matches on both sides''],
      kb_prevention = ''Use BFD for fast BGP failure detection; configure graceful restart; monitor BGP session status; have redundant peers'',
      kb_base_confidence = 85, kb_base_risk_score = 90\<rparr>,
     \<lparr>kb_id = ''net-ospf-neighbor-lost'', kb_category = ''network'', kb_sub_category = ''routing'',
      kb_keywords = [''ospf neighbor'', ''ospf adjacency'', ''ospf down'', ''ospf dead timer'', ''ospf hello''],
      kb_anti_words = [''bgp''], kb_metric_name = [], kb_severity = ''high'',
      kb_root_cause = (''OSPF neighbor adjacency lost '' @ [CHR 0xE2, CHR 0x80, CHR 0x94] @ '' internal routing convergence disrupted''),
      kb_reasoning = [''OSPF neighbor loss triggers SPF recalculation across the area'',
       ''Traffic may be rerouted through longer paths during reconvergence'',
       ''Dead timer expiry indicates hello packets are not being received''],
      kb_impact = ''Temporary routing blackholes during convergence; increased latency via alternate paths'',
      kb_resolution_steps = [''Check OSPF neighbors: show ip ospf neighbor'', ''Verify interface is up: show ip ospf interface'',
       ''Check for MTU mismatch between neighbors'', ''Verify hello/dead timer match on both sides'',
       ''Check for network issues between neighbors: ping <neighbor-ip>''],
      kb_prevention = ''Match hello/dead timers; match MTU on OSPF interfaces; use BFD; monitor OSPF neighbor state'',
      kb_base_confidence = 75, kb_base_risk_score = 70\<rparr>,
     \<lparr>kb_id = ''net-vxlan-failure'', kb_category = ''network'', kb_sub_category = ''overlay'',
      kb_keywords = [''vxlan'', ''overlay network'', ''vtep'', ''vni'', ''vxlan tunnel''],
      kb_anti_words = [''calico'', ''flannel''], kb_metric_name = [], kb_severity = ''high'',
      kb_root_cause = (''VXLAN/overlay network failure '' @ [CHR 0xE2, CHR 0x80, CHR 0x94] @ '' hosts cannot communicate over the overlay network''),
      kb_reasoning = [''VXLAN requires UDP port 4789 to be open between all VTEP endpoints'',
       ''MTU issues are common: VXLAN adds 50 bytes of overhead requiring a lower inner MTU'',
       ''ARP/FDB table issues can cause intermittent connectivity in the overlay''],
      kb_impact = ''Cross-host communication fails; containers/VMs on different hosts cannot reach each other'',
      kb_resolution_steps = [''Check VXLAN interface: ip -d link show vxlan0'',
       ''Verify UDP 4789 connectivity between hosts: nc -zu <remote-host> 4789'',
       ''Check FDB entries: bridge fdb show dev vxlan0'',
       ''Verify inner MTU is 50 bytes less than outer: ip link show vxlan0'',
       ''Check for VXLAN packet drops: ethtool -S <iface> | grep drop''],
      kb_prevention = ''Ensure UDP 4789 is allowed; set correct inner MTU; monitor overlay health; use health checks'',
      kb_base_confidence = 70, kb_base_risk_score = 65\<rparr>,
     \<lparr>kb_id = ''net-lb-502'', kb_category = ''network'', kb_sub_category = ''loadbalancer'',
      kb_keywords = [''502 bad gateway'', ''502'', ''upstream connection error'', ''no healthy upstream''],
      kb_anti_words = [''403'', ''404'', ''500''], kb_metric_name = [], kb_severity = ''high'',
      kb_root_cause = (''Load balancer returning 502 Bad Gateway '' @ [CHR 0xE2, CHR 0x80, CHR 0x94] @ '' the backend server sent an invalid response or is unreachable''),
      kb_reasoning = [''502 means the LB connected to the backend but received an invalid or no response'',
       ''Backend may have crashed, be overloaded, or be returning malformed HTTP'',
       ''Connection refused from the backend also manifests as 502 at the LB''],
      kb_impact = ''Users see 502 errors; service partially or fully unavailable depending on how many backends are affected'',
      kb_resolution_steps = [''Check backend health: curl -v http://<backend>:<port>/health'',
       ''Check LB health checks: verify healthy backend count'', ''Check backend logs for crashes or errors'',
       ''Verify backend is listening: ss -tlnp | grep <port>'', ''Check LB error logs for detailed upstream error''],
      kb_prevention = ''Configure proper health checks; set up backend monitoring; use circuit breakers; deploy with rolling updates'',
      kb_base_confidence = 80, kb_base_risk_score = 70\<rparr>]"

definition advanced_network_entries_2 :: "KnowledgeEntry list" where
  "advanced_network_entries_2 =
    [\<lparr>kb_id = ''net-lb-503'', kb_category = ''network'', kb_sub_category = ''loadbalancer'',
      kb_keywords = [''503 service unavailable'', ''503'', ''no available backends'', ''service unavailable''],
      kb_anti_words = [''502'', ''504'', ''429''], kb_metric_name = [], kb_severity = ''critical'',
      kb_root_cause = (''Load balancer returning 503 Service Unavailable '' @ [CHR 0xE2, CHR 0x80, CHR 0x94] @ '' no healthy backends are available to handle requests''),
      kb_reasoning = [''503 from the LB means all backends have failed health checks'',
       ''This can be caused by a deployment that broke all backends simultaneously'',
       ''Network partition between the LB and backends also causes this''],
      kb_impact = ''Complete service outage for all users; 100% request failure rate'',
      kb_resolution_steps = [''Check LB backend pool: verify all backends are marked unhealthy'',
       ''Check backend status: systemctl status <service> on backend hosts'',
       ''Check for recent deployments: git log --oneline -5 or deployment history'',
       ''Roll back the last deployment if it caused the issue'',
       ''Manually verify health endpoint on backends: curl http://<backend>/health''],
      kb_prevention = ''Use canary deployments; configure proper health checks; implement deployment rollback automation'',
      kb_base_confidence = 85, kb_base_risk_score = 90\<rparr>,
     \<lparr>kb_id = ''net-lb-504'', kb_category = ''network'', kb_sub_category = ''loadbalancer'',
      kb_keywords = [''504 gateway timeout'', ''504'', ''upstream timeout'', ''backend timeout''],
      kb_anti_words = [''502'', ''503''], kb_metric_name = [], kb_severity = ''high'',
      kb_root_cause = (''Load balancer returning 504 Gateway Timeout '' @ [CHR 0xE2, CHR 0x80, CHR 0x94] @ '' the backend did not respond within the configured timeout''),
      kb_reasoning = [''504 indicates the backend is reachable but responding too slowly'',
       ''Long-running queries, external API delays, or resource exhaustion cause slow backends'',
       ''The LB timeout may be too short for legitimate long operations''],
      kb_impact = ''Slow requests fail; users see timeout errors; time-sensitive operations may partially complete'',
      kb_resolution_steps = [''Increase LB timeout if operations legitimately take longer'',
       (''Check backend response times: tail -f <access-log> | awk '' @ [CHR 0x27] @ ''{print $NF}'' @ [CHR 0x27]),
       ''Profile slow requests on the backend'', ''Check for database or downstream service slowness'',
       ''Scale up backends to handle load''],
      kb_prevention = ''Set appropriate timeouts; monitor backend response times; use async processing for long operations'',
      kb_base_confidence = 75, kb_base_risk_score = 65\<rparr>,
     \<lparr>kb_id = ''net-tls-handshake-timeout'', kb_category = ''network'', kb_sub_category = ''tls'',
      kb_keywords = [''tls handshake timeout'', ''ssl handshake'', ''handshake timeout'', ''ssl timeout''],
      kb_anti_words = [''certificate expired''], kb_metric_name = [], kb_severity = ''high'',
      kb_root_cause = (''TLS/SSL handshake timeout '' @ [CHR 0xE2, CHR 0x80, CHR 0x94] @ '' the TLS negotiation is not completing within the expected time''),
      kb_reasoning = [''Slow TLS handshakes can be caused by CPU exhaustion on the server handling crypto operations'',
       ''Network latency or packet loss during the handshake causes retransmissions and timeouts'',
       ''OCSP stapling failures or CRL download timeouts also delay handshakes''],
      kb_impact = ''New HTTPS connections fail; users see connection timeout errors; API clients get SSL errors'',
      kb_resolution_steps = [''Test TLS handshake: openssl s_client -connect <host>:443 -msg'',
       ''Check server CPU usage during handshake: top -bn1 | head'',
       ''Enable OCSP stapling to avoid client-side OCSP lookups'',
       ''Check for MTU issues on the TLS path: adjust MSS if needed'',
       ''Consider using session tickets to avoid full handshakes: ssl_session_tickets on''],
      kb_prevention = ''Enable OCSP stapling; use TLS session resumption; monitor handshake latency; size CPU for crypto load'',
      kb_base_confidence = 70, kb_base_risk_score = 60\<rparr>,
     \<lparr>kb_id = ''net-cert-chain-incomplete'', kb_category = ''network'', kb_sub_category = ''tls'',
      kb_keywords = [''certificate chain'', ''incomplete chain'', ''unable to verify'', ''intermediate certificate'',
       ''chain incomplete''],
      kb_anti_words = [''expired''], kb_metric_name = [], kb_severity = ''high'',
      kb_root_cause = (''TLS certificate chain is incomplete '' @ [CHR 0xE2, CHR 0x80, CHR 0x94] @ '' the server is not sending required intermediate certificates''),
      kb_reasoning = [''Browsers may have intermediate certs cached but programmatic clients often do not'',
       ''Missing intermediate certificates cause verification failures in API clients, curl, and scripts'',
       ''This issue is often masked in browser testing but fails in production API calls''],
      kb_impact = ''API clients fail to connect; automated integrations break; mobile apps may fail to connect'',
      kb_resolution_steps = [''Check chain: openssl s_client -connect <host>:443 -showcerts'',
       ''Verify chain completeness: openssl verify -CAfile /etc/ssl/certs/ca-certificates.crt <cert.pem>'',
       ''Download missing intermediate from your CA and concatenate: cat server.crt intermediate.crt > fullchain.pem'',
       ''Update the server config to use the full chain'', ''Test with: curl -v https://<host>/''],
      kb_prevention = ''Always configure full certificate chains; test with openssl s_client; use automated certificate management (certbot)'',
      kb_base_confidence = 80, kb_base_risk_score = 65\<rparr>,
     \<lparr>kb_id = ''net-dns-nxdomain'', kb_category = ''network'', kb_sub_category = ''dns'',
      kb_keywords = [''NXDOMAIN'', ''dns resolution failed'', ''name not found'', ''no such host'', ''dns nxdomain''],
      kb_anti_words = [''SERVFAIL''], kb_metric_name = [], kb_severity = ''high'',
      kb_root_cause = (''DNS NXDOMAIN response '' @ [CHR 0xE2, CHR 0x80, CHR 0x94] @ '' the queried domain name does not exist in DNS''),
      kb_reasoning = [''NXDOMAIN means the authoritative DNS server confirmed the name does not exist'',
       ''Possible causes: typo in domain name, expired domain, DNS zone not loaded, or deleted record'',
       ''Negative caching may prolong the issue even after the record is added''],
      kb_impact = ''Service cannot be reached by name; all clients querying this name will fail; API calls fail'',
      kb_resolution_steps = [''Verify the DNS record: dig <domain> +short'', ''Check with authoritative server: dig <domain> @<ns-server>'',
       ''If record is missing, add it via your DNS provider'',
       ''Flush local DNS cache: systemd-resolve --flush-caches or rndc flush'',
       ''Check for negative TTL caching: dig <domain> +ttlid''],
      kb_prevention = ''Monitor DNS records; use short TTLs for critical records; automate DNS record validation; set up synthetic monitoring'',
      kb_base_confidence = 80, kb_base_risk_score = 70\<rparr>,
     \<lparr>kb_id = ''net-dns-servfail'', kb_category = ''network'', kb_sub_category = ''dns'',
      kb_keywords = [''SERVFAIL'', ''dns server failure'', ''dns servfail'', ''resolution failure''],
      kb_anti_words = [''NXDOMAIN''], kb_metric_name = [], kb_severity = ''high'',
      kb_root_cause = (''DNS SERVFAIL '' @ [CHR 0xE2, CHR 0x80, CHR 0x94] @ '' the DNS server encountered an error and cannot resolve the query''),
      kb_reasoning = [''SERVFAIL can indicate DNSSEC validation failure, upstream server unreachable, or zone misconfiguration'',
       ''If the authoritative server is down, recursive resolvers will return SERVFAIL'',
       ''Expired DNSSEC signatures also cause SERVFAIL at validating resolvers''],
      kb_impact = ''DNS resolution fails; services cannot discover endpoints; cascading failures across all dependent services'',
      kb_resolution_steps = [''Test with different DNS server: dig <domain> @8.8.8.8'',
       ''Check DNSSEC: dig <domain> +dnssec +cd (cd flag disables validation)'',
       ''Check authoritative server: dig <domain> @$(dig NS <domain> +short | head -1)'',
       ''If DNSSEC issue: re-sign the zone or disable DNSSEC validation temporarily''],
      kb_prevention = ''Monitor authoritative DNS servers; automate DNSSEC key rotation; use redundant DNS providers'',
      kb_base_confidence = 75, kb_base_risk_score = 70\<rparr>,
     \<lparr>kb_id = ''net-dns-truncated'', kb_category = ''network'', kb_sub_category = ''dns'',
      kb_keywords = [''dns truncated'', ''truncated response'', ''TC bit'', ''dns tcp fallback''],
      kb_anti_words = [''NXDOMAIN'', ''SERVFAIL''], kb_metric_name = [], kb_severity = ''medium'',
      kb_root_cause = (''DNS response truncated '' @ [CHR 0xE2, CHR 0x80, CHR 0x94] @ '' the response exceeds 512 bytes and TCP fallback may be blocked''),
      kb_reasoning = [''Large DNS responses (many records, DNSSEC) exceed the UDP 512-byte limit'',
       ''The TC bit tells the client to retry over TCP, but firewalls may block DNS over TCP'',
       ''EDNS0 extends the UDP limit but may not be supported by all resolvers''],
      kb_impact = ''Incomplete DNS responses; some records missing; resolution may fail entirely if TCP is blocked'',
      kb_resolution_steps = [''Test TCP fallback: dig <domain> +tcp'', ''Enable TCP port 53 in firewalls for DNS'',
       ''Enable EDNS0 with larger buffer: dig <domain> +bufsize=4096'',
       ''Reduce the number of records in the DNS response if possible''],
      kb_prevention = ''Allow DNS over TCP (port 53) in all firewalls; enable EDNS0; keep record sets small'',
      kb_base_confidence = 60, kb_base_risk_score = 45\<rparr>,
     \<lparr>kb_id = ''net-ipv6-failure'', kb_category = ''network'', kb_sub_category = ''ipv6'',
      kb_keywords = [''ipv6 unreachable'', ''ipv6 failure'', ''ipv6 connectivity'', ''network unreachable ipv6'', ''dual stack''],
      kb_anti_words = [''ipv4''], kb_metric_name = [], kb_severity = ''medium'',
      kb_root_cause = (''IPv6 connectivity failure '' @ [CHR 0xE2, CHR 0x80, CHR 0x94] @ '' IPv6 is configured but not working, causing delays in dual-stack environments''),
      kb_reasoning = [''Happy Eyeballs (RFC 6555) tries IPv6 first with a short timeout before falling back to IPv4'',
       ''Broken IPv6 causes a delay on every new connection as IPv6 times out'',
       ''Misconfigured IPv6 routing, missing default gateway, or blocked ICMPv6 are common causes''],
      kb_impact = ''Connection delays for all dual-stack services; perceived slowness; some IPv6-only services unreachable'',
      kb_resolution_steps = [''Test IPv6 connectivity: ping6 -c 3 2001:4860:4860::8888'', ''Check IPv6 routes: ip -6 route show'',
       ''Disable IPv6 if not needed: sysctl -w net.ipv6.conf.all.disable_ipv6=1'',
       ''Verify ICMPv6 is not blocked: ip6tables -L -n | grep icmpv6''],
      kb_prevention = ''Test IPv6 connectivity in monitoring; use Happy Eyeballs in applications; ensure ICMPv6 is allowed'',
      kb_base_confidence = 65, kb_base_risk_score = 45\<rparr>,
     \<lparr>kb_id = ''net-proxy-connect-failure'', kb_category = ''network'', kb_sub_category = ''proxy'',
      kb_keywords = [''proxy connect failed'', ''proxy error'', ''upstream proxy'', ''CONNECT tunnel'', ''proxy authentication''],
      kb_anti_words = [''reverse proxy''], kb_metric_name = [], kb_severity = ''high'',
      kb_root_cause = (''Forward proxy CONNECT failure '' @ [CHR 0xE2, CHR 0x80, CHR 0x94] @ '' the proxy cannot establish a tunnel to the target destination''),
      kb_reasoning = [''Proxy CONNECT failures can be caused by ACL denying the target, proxy overload, or upstream connectivity loss'',
       ''Corporate proxies may block certain ports or domains'',
       ''Proxy authentication failures cause all tunneled connections to fail''],
      kb_impact = ''Outbound HTTPS connections fail; API calls to external services blocked; package downloads fail'',
      kb_resolution_steps = [''Test proxy directly: curl -x http://<proxy>:3128 -v https://<target>'',
       ''Check proxy logs for deny/error entries'', ''Verify proxy authentication credentials'',
       (''Test without proxy to confirm target is reachable: curl --noproxy '' @ [CHR 0x27] @ ''*'' @ [CHR 0x27] @ '' -v https://<target>'')],
      kb_prevention = ''Monitor proxy health and capacity; maintain proxy ACLs; test connectivity through proxy in CI/CD'',
      kb_base_confidence = 70, kb_base_risk_score = 55\<rparr>]"

definition advanced_network_entries_3 :: "KnowledgeEntry list" where
  "advanced_network_entries_3 =
    [\<lparr>kb_id = ''net-http2-stream-error'', kb_category = ''network'', kb_sub_category = ''http'',
      kb_keywords = [''http2 stream'', ''GOAWAY'', ''stream error'', ''http2 error'', ''h2 error'', ''stream reset''],
      kb_anti_words = [''grpc''], kb_metric_name = [], kb_severity = ''medium'',
      kb_root_cause = (''HTTP/2 stream error '' @ [CHR 0xE2, CHR 0x80, CHR 0x94] @ '' the server or client sent a stream reset or GOAWAY frame disrupting requests''),
      kb_reasoning = [''GOAWAY frames tell the client to stop sending new requests on this connection'',
       ''Stream resets can be caused by server resource limits (max concurrent streams) or bugs'',
       (''HTTP/2 connection coalescing issues can cause stream errors when certificates don'' @ [CHR 0x27] @ ''t match'')],
      kb_impact = ''Individual HTTP/2 requests fail; client must retry on a new connection; intermittent errors'',
      kb_resolution_steps = [''Check server HTTP/2 settings: max concurrent streams, max header list size'',
       ''Review server logs for HTTP/2 specific errors'',
       ''Test with HTTP/1.1 fallback: curl --http1.1 https://<target>'',
       ''Check for TLS certificate coalescing issues with multiple domains''],
      kb_prevention = ''Configure appropriate HTTP/2 limits; monitor stream error rates; test HTTP/2 specific functionality'',
      kb_base_confidence = 60, kb_base_risk_score = 45\<rparr>]"

definition advanced_network_entries :: "KnowledgeEntry list" where
  "advanced_network_entries = advanced_network_entries_1 @ advanced_network_entries_2 @ advanced_network_entries_3"

definition advanced_container_entries_1 :: "KnowledgeEntry list" where
  "advanced_container_entries_1 =
    [\<lparr>kb_id = ''docker-containerd-crash'', kb_category = ''container'', kb_sub_category = ''runtime'',
      kb_keywords = [''containerd crash'', ''containerd died'', ''containerd'', ''container runtime down''],
      kb_anti_words = [''dockerd''], kb_metric_name = [], kb_severity = ''critical'',
      kb_root_cause = (''containerd process crashed '' @ [CHR 0xE2, CHR 0x80, CHR 0x94] @ '' the container runtime is down, no containers can be managed''),
      kb_reasoning = [''containerd is the low-level runtime managing container lifecycle'',
       ''When containerd crashes, existing containers may continue running but cannot be managed'',
       ''New containers cannot be created, and stopped containers cannot be started''],
      kb_impact = ''Container management disabled; deployments and scaling blocked; running containers become unmanageable'',
      kb_resolution_steps = [''Check containerd status: systemctl status containerd'',
       (''Review crash logs: journalctl -u containerd --since '' @ [CHR 0x27] @ ''1 hour ago'' @ [CHR 0x27]),
       ''Restart containerd: systemctl restart containerd'',
       (''Check for OOM: dmesg | grep -i '' @ [CHR 0x27] @ ''containerd.*oom'' @ [CHR 0x27]),
       ''Verify containers recovered: crictl ps or docker ps''],
      kb_prevention = ''Monitor containerd process; set memory limits appropriately; keep containerd updated; enable core dumps for debugging'',
      kb_base_confidence = 85, kb_base_risk_score = 90\<rparr>,
     \<lparr>kb_id = ''docker-dockerd-oom'', kb_category = ''container'', kb_sub_category = ''runtime'',
      kb_keywords = [''dockerd oom'', ''docker daemon killed'', ''dockerd killed'', ''docker out of memory''],
      kb_anti_words = [''containerd''], kb_metric_name = [], kb_severity = ''critical'',
      kb_root_cause = (''Docker daemon was OOM-killed '' @ [CHR 0xE2, CHR 0x80, CHR 0x94] @ '' excessive memory usage by dockerd caused the kernel to terminate it''),
      kb_reasoning = [''dockerd can accumulate memory from build caches, unused images, and log handling'',
       ''Large numbers of containers with json-file logging driver consume dockerd memory'',
       ''Memory leaks in older docker versions are known issues''],
      kb_impact = ''All container management stops; existing containers may continue but cannot be inspected or stopped gracefully'',
      kb_resolution_steps = [''Check OOM events: dmesg -T | grep -i dockerd'', ''Restart docker: systemctl restart docker'',
       ''Prune unused resources: docker system prune -af --volumes'',
       ''Configure log driver limits: set max-size and max-file in daemon.json'',
       ''Upgrade docker to latest stable version''],
      kb_prevention = ''Configure log rotation for containers; regularly prune unused resources; monitor dockerd memory usage; upgrade docker'',
      kb_base_confidence = 80, kb_base_risk_score = 85\<rparr>,
     \<lparr>kb_id = ''docker-runc-exec-failed'', kb_category = ''container'', kb_sub_category = ''runtime'',
      kb_keywords = [''runc'', ''exec failed'', ''OCI runtime'', ''container start failed'', ''runc exec''],
      kb_anti_words = [''build''], kb_metric_name = [], kb_severity = ''high'',
      kb_root_cause = (''runc execution failed '' @ [CHR 0xE2, CHR 0x80, CHR 0x94] @ '' the OCI runtime cannot start or exec into a container''),
      kb_reasoning = [''runc is the low-level OCI runtime that actually creates container processes'',
       ''Failures can be caused by seccomp/AppArmor/SELinux policy denials'',
       ''Missing or corrupt container filesystem layers also cause runc failures''],
      kb_impact = ''Container cannot start; exec commands fail; affected deployments are stuck'',
      kb_resolution_steps = [''Check detailed error: docker logs <container> or crictl logs <container>'',
       ''Check security modules: ausearch -m avc -ts recent (SELinux) or dmesg | grep apparmor'',
       ''Verify image layers: docker inspect <image> and check layer integrity'',
       ''Try recreating the container: docker rm <container> && docker run ...''],
      kb_prevention = ''Keep runc updated; test security policies in staging; validate images before deployment'',
      kb_base_confidence = 75, kb_base_risk_score = 70\<rparr>,
     \<lparr>kb_id = ''docker-image-pull-ratelimit'', kb_category = ''container'', kb_sub_category = ''registry'',
      kb_keywords = [''pull rate limit'', ''rate limit exceeded'', ''429 too many requests'', ''docker hub limit'',
       ''toomanyrequests''],
      kb_anti_words = [''push''], kb_metric_name = [], kb_severity = ''high'',
      kb_root_cause = (''Container image pull rate limit reached '' @ [CHR 0xE2, CHR 0x80, CHR 0x94] @ '' Docker Hub or another registry is throttling pull requests''),
      kb_reasoning = [''Docker Hub limits anonymous pulls to 100/6h and free authenticated to 200/6h per IP'',
       ''CI/CD pipelines pulling frequently from shared IPs hit limits quickly'',
       ''ECR and GCR have their own rate limits that can also be hit during large-scale deployments''],
      kb_impact = ''New deployments fail; scaling events blocked; CI/CD pipelines broken; existing containers unaffected'',
      kb_resolution_steps = [(''Check remaining pulls: curl -s '' @ [CHR 0x27] @ ''https://auth.docker.io/token?service=registry.docker.io&scope=repository:library/alpine:pull'' @ [CHR 0x27] @ '' | jq''),
       ''Authenticate to increase limits: docker login'',
       ''Use a registry mirror or cache: configure registry-mirrors in daemon.json'',
       ''Pull and push critical images to a private registry'', ''For ECR: request a limit increase via AWS support''],
      kb_prevention = ''Mirror critical images to private registry; configure pull-through cache; authenticate to registries; monitor pull rates'',
      kb_base_confidence = 80, kb_base_risk_score = 65\<rparr>,
     \<lparr>kb_id = ''docker-overlay2-issue'', kb_category = ''container'', kb_sub_category = ''storage'',
      kb_keywords = [''overlay2'', ''storage driver'', ''overlay filesystem'', ''no space left overlay'', ''overlay mount failed''],
      kb_anti_words = [''devicemapper''], kb_metric_name = [], kb_severity = ''high'',
      kb_root_cause = (''Overlay2 storage driver issue '' @ [CHR 0xE2, CHR 0x80, CHR 0x94] @ '' the container filesystem layer management is failing''),
      kb_reasoning = [''Overlay2 issues often stem from the underlying filesystem running out of inodes or space'',
       ''Corrupt layer metadata can prevent containers from starting'',
       ''Too many layers or very large images can cause performance issues with overlay2''],
      kb_impact = ''Containers cannot start; image operations fail; builds fail with I/O errors'',
      kb_resolution_steps = [''Check disk space: df -h /var/lib/docker'', ''Check inodes: df -i /var/lib/docker'',
       ''Prune unused images and containers: docker system prune -af'',
       ''Check for corrupt layers: docker image inspect <image>'',
       ''If corrupt, remove and re-pull: docker rmi <image> && docker pull <image>''],
      kb_prevention = ''Monitor /var/lib/docker disk usage; regularly prune unused resources; use separate partition for docker data'',
      kb_base_confidence = 75, kb_base_risk_score = 65\<rparr>,
     \<lparr>kb_id = ''docker-devicemapper-thinpool-full'', kb_category = ''container'', kb_sub_category = ''storage'',
      kb_keywords = [''devicemapper'', ''thin pool'', ''dm thin pool'', ''pool full'', ''devicemapper full''],
      kb_anti_words = [''overlay2''], kb_metric_name = [], kb_severity = ''critical'',
      kb_root_cause = (''Devicemapper thin pool is full '' @ [CHR 0xE2, CHR 0x80, CHR 0x94] @ '' no more space available for container storage operations''),
      kb_reasoning = [''The thin pool has a fixed size and fills up with container layers and writable layers'',
       ''Without auto-extend, the pool becomes full and all container writes fail'',
       ''This is more common with the deprecated devicemapper storage driver''],
      kb_impact = ''All containers writing data fail; new containers cannot be created; databases in containers crash'',
      kb_resolution_steps = [(''Check thin pool usage: docker info | grep -A5 '' @ [CHR 0x27] @ ''Storage Driver'' @ [CHR 0x27]),
       ''Extend the thin pool: lvextend -L +10G /dev/docker/thinpool'',
       ''Prune unused data: docker system prune -af --volumes'', ''Migrate to overlay2 storage driver'',
       ''Configure auto-extend in /etc/lvm/profile/docker-thinpool.profile''],
      kb_prevention = ''Migrate to overlay2; configure thin pool auto-extend; monitor thin pool usage; set disk usage alerts'',
      kb_base_confidence = 80, kb_base_risk_score = 80\<rparr>,
     \<lparr>kb_id = ''docker-netns-leak'', kb_category = ''container'', kb_sub_category = ''network'',
      kb_keywords = [''network namespace leak'', ''netns leak'', ''veth leak'', ''orphaned network'', ''network namespace''],
      kb_anti_words = [''kubernetes cni''], kb_metric_name = [], kb_severity = ''medium'',
      kb_root_cause = (''Container network namespace leak '' @ [CHR 0xE2, CHR 0x80, CHR 0x94] @ '' orphaned network namespaces consuming system resources''),
      kb_reasoning = [''When containers are not cleanly removed, their network namespaces may persist'',
       ''Each leaked namespace holds veth pairs, iptables rules, and routing tables'',
       ''Over time, leaked namespaces exhaust system resources and cause networking issues''],
      kb_impact = ''Network resource exhaustion; slow container creation; potential connectivity issues'',
      kb_resolution_steps = [''List network namespaces: ip netns list'', ''Count vs running containers: docker ps -q | wc -l'',
       ''Clean orphaned namespaces: ip netns delete <ns>'', ''Restart docker to clean up: systemctl restart docker'',
       ''Check for sandbox leaks: ls /var/run/docker/netns/''],
      kb_prevention = ''Keep docker updated; use docker system prune regularly; monitor network namespace count; avoid force-killing containers'',
      kb_base_confidence = 65, kb_base_risk_score = 50\<rparr>,
     \<lparr>kb_id = ''docker-socket-permission'', kb_category = ''container'', kb_sub_category = ''access'',
      kb_keywords = [''docker socket'', ''permission denied docker'', ''/var/run/docker.sock'', ''docker.sock permission'',
       ''dial unix docker''],
      kb_anti_words = [''kubernetes''], kb_metric_name = [], kb_severity = ''medium'',
      kb_root_cause = (''Docker socket permission denied '' @ [CHR 0xE2, CHR 0x80, CHR 0x94] @ '' the user or process does not have access to the Docker daemon socket''),
      kb_reasoning = [''The Docker socket is owned by root:docker and requires group membership or root access'',
       ''CI/CD agents or application processes may not be in the docker group'',
       ''Socket permissions can be reset after Docker daemon restart or system updates''],
      kb_impact = ''Docker commands fail for the affected user; CI/CD pipelines break; automation scripts fail'',
      kb_resolution_steps = [''Check socket permissions: ls -la /var/run/docker.sock'',
       ''Add user to docker group: usermod -aG docker <user>'',
       ''User must re-login for group changes to take effect'',
       ''Alternatively, set socket permissions: chmod 666 /var/run/docker.sock (less secure)''],
      kb_prevention = ''Add required users to docker group during provisioning; document group requirements; use rootless docker where possible'',
      kb_base_confidence = 80, kb_base_risk_score = 35\<rparr>,
     \<lparr>kb_id = ''docker-build-cache-exhausted'', kb_category = ''container'', kb_sub_category = ''build'',
      kb_keywords = [''build cache'', ''cache exhausted'', ''no space left during build'', ''docker build failed'',
       ''build context too large''],
      kb_anti_words = [''npm cache''], kb_metric_name = [], kb_severity = ''medium'',
      kb_root_cause = (''Docker build cache exhausted '' @ [CHR 0xE2, CHR 0x80, CHR 0x94] @ '' builds fail due to insufficient disk space or cache pollution''),
      kb_reasoning = [''Each docker build step creates a layer cached on disk'',
       ''Frequent builds with changing dependencies create many cached layers'',
       ''Build contexts that include unnecessary files waste disk space''],
      kb_impact = ''Builds fail; CI/CD pipelines blocked; development velocity reduced'',
      kb_resolution_steps = [''Prune build cache: docker builder prune -af'', ''Check disk usage: docker system df'',
       ''Add .dockerignore to exclude unnecessary files from build context'',
       ''Use multi-stage builds to reduce final image and intermediate layer size''],
      kb_prevention = ''Use .dockerignore; prune build cache periodically; use multi-stage builds; set cache limits in buildkit'',
      kb_base_confidence = 70, kb_base_risk_score = 40\<rparr>]"

definition advanced_container_entries_2 :: "KnowledgeEntry list" where
  "advanced_container_entries_2 =
    [\<lparr>kb_id = ''docker-layer-push-failure'', kb_category = ''container'', kb_sub_category = ''registry'',
      kb_keywords = [''layer push failed'', ''push failed'', ''blob upload'', ''registry push error'', ''layer upload''],
      kb_anti_words = [''pull''], kb_metric_name = [], kb_severity = ''medium'',
      kb_root_cause = (''Docker image layer push failure '' @ [CHR 0xE2, CHR 0x80, CHR 0x94] @ '' unable to upload image layers to the container registry''),
      kb_reasoning = [''Large layer uploads can time out on slow connections'',
       ''Registry storage quota exceeded prevents new pushes'',
       ''Authentication token expiry during long uploads causes failures''],
      kb_impact = ''Images not available for deployment; CI/CD pipeline fails at publish step; deployments use stale images'',
      kb_resolution_steps = [''Retry the push: docker push <image>'', ''Check registry connectivity: curl -v https://<registry>/v2/'',
       ''Check registry storage quota and clean old images'', ''Re-authenticate: docker login <registry>'',
       ''Reduce image size to speed up uploads: use multi-stage builds''],
      kb_prevention = ''Use multi-stage builds for smaller images; configure adequate registry storage; use registry garbage collection'',
      kb_base_confidence = 65, kb_base_risk_score = 50\<rparr>,
     \<lparr>kb_id = ''docker-swarm-election'', kb_category = ''container'', kb_sub_category = ''orchestration'',
      kb_keywords = [''swarm manager'', ''raft election'', ''swarm leader'', ''manager election'', ''swarm cluster''],
      kb_anti_words = [''kubernetes'', ''k8s''], kb_metric_name = [], kb_severity = ''critical'',
      kb_root_cause = (''Docker Swarm manager election failure '' @ [CHR 0xE2, CHR 0x80, CHR 0x94] @ '' the Swarm cluster cannot elect a leader and is unavailable''),
      kb_reasoning = [''Swarm uses Raft consensus and requires a majority of managers to be available'',
       ''With 3 managers, losing 2 makes the cluster unable to reach quorum'',
       ''Network partitions between managers can cause split-brain scenarios''],
      kb_impact = ''No new deployments, scaling, or service updates possible; existing services continue running but unmanaged'',
      kb_resolution_steps = [''Check Swarm status: docker node ls'', ''Check Raft state: docker info | grep -A10 Swarm'',
       ''If quorum lost, recover from backup: docker swarm init --force-new-cluster'',
       ''Restore manager nodes and rejoin them: docker swarm join --token <manager-token>'',
       ''Verify services: docker service ls''],
      kb_prevention = ''Use 3 or 5 manager nodes (odd number); place managers in different availability zones; monitor manager health'',
      kb_base_confidence = 80, kb_base_risk_score = 85\<rparr>,
     \<lparr>kb_id = ''docker-raft-log-corruption'', kb_category = ''container'', kb_sub_category = ''orchestration'',
      kb_keywords = [''raft log'', ''wal corruption'', ''swarm raft'', ''raft corruption'', ''snap corruption''],
      kb_anti_words = [''etcd'', ''kubernetes''], kb_metric_name = [], kb_severity = ''critical'',
      kb_root_cause = (''Docker Swarm Raft log corruption '' @ [CHR 0xE2, CHR 0x80, CHR 0x94] @ '' the consensus log is corrupt, preventing cluster operation''),
      kb_reasoning = [''Raft log corruption can be caused by sudden power loss, disk errors, or filesystem corruption'',
       ''The Swarm manager cannot participate in consensus with a corrupt log'',
       ''All cluster state including service definitions is stored in the Raft log''],
      kb_impact = ''Affected manager cannot participate in cluster; if majority affected, cluster is unavailable'',
      kb_resolution_steps = [''Stop the affected manager: systemctl stop docker'',
       ''Back up the Swarm state: cp -r /var/lib/docker/swarm /var/lib/docker/swarm.bak'',
       ''Remove the corrupt state: rm -rf /var/lib/docker/swarm'',
       ''Rejoin as a new manager: docker swarm join --token <manager-token> <leader>:2377'',
       ''If only manager, force new cluster: docker swarm init --force-new-cluster''],
      kb_prevention = ''Use reliable storage for /var/lib/docker/swarm; maintain backups; use UPS for sudden power loss; monitor disk health'',
      kb_base_confidence = 75, kb_base_risk_score = 85\<rparr>,
     \<lparr>kb_id = ''docker-dns-resolution-failure'', kb_category = ''container'', kb_sub_category = ''network'',
      kb_keywords = [''docker dns'', ''container dns'', ''resolve host'', ''dns resolution container'', ''embedded dns''],
      kb_anti_words = [''kubernetes dns''], kb_metric_name = [], kb_severity = ''high'',
      kb_root_cause = (''Container DNS resolution failure '' @ [CHR 0xE2, CHR 0x80, CHR 0x94] @ '' containers cannot resolve DNS names via Docker'' @ [CHR 0x27] @ ''s embedded DNS server''),
      kb_reasoning = [(''Docker'' @ [CHR 0x27] @ ''s embedded DNS server (127.0.0.11) may fail if the host DNS config is broken''),
       ''Custom network configurations may not include DNS settings'',
       ''Containers using --dns flags may point to unreachable DNS servers''],
      kb_impact = ''Containers cannot reach external services by name; inter-container name resolution fails'',
      kb_resolution_steps = [''Test DNS inside container: docker exec <container> nslookup google.com'',
       ''Check container DNS config: docker exec <container> cat /etc/resolv.conf'',
       ''Check host DNS: cat /etc/resolv.conf'', ''Restart docker to reset embedded DNS: systemctl restart docker''],
      kb_prevention = ''Configure reliable DNS servers on the host; use Docker DNS options in daemon.json; monitor DNS resolution from containers'',
      kb_base_confidence = 70, kb_base_risk_score = 60\<rparr>,
     \<lparr>kb_id = ''docker-container-runtime-shim'', kb_category = ''container'', kb_sub_category = ''runtime'',
      kb_keywords = [''containerd-shim'', ''shim died'', ''shim error'', ''shim process'', ''shim exit''],
      kb_anti_words = [''kubernetes''], kb_metric_name = [], kb_severity = ''high'',
      kb_root_cause = (''containerd-shim process died '' @ [CHR 0xE2, CHR 0x80, CHR 0x94] @ '' the container loses its management process and may become orphaned''),
      kb_reasoning = [''The shim process manages the lifecycle of a single container between containerd and runc'',
       ''Shim crashes can orphan containers, leaving them running but unmanageable'',
       ''Resource exhaustion (PID limit, memory) can kill shim processes''],
      kb_impact = ''Affected container becomes unmanageable; logs and stats unavailable; cannot stop gracefully'',
      kb_resolution_steps = [''Check for orphaned container processes: ps aux | grep <container-id>'',
       ''Kill the orphaned process: kill <PID>'', ''Remove the container: docker rm -f <container>'',
       ''Restart containerd if shims are consistently crashing: systemctl restart containerd''],
      kb_prevention = ''Keep containerd updated; monitor shim processes; ensure adequate system resources (PIDs, memory)'',
      kb_base_confidence = 70, kb_base_risk_score = 65\<rparr>,
     \<lparr>kb_id = ''docker-cgroup-v2-incompatible'', kb_category = ''container'', kb_sub_category = ''runtime'',
      kb_keywords = [''cgroup v2'', ''cgroupv2'', ''cgroup2'', ''cgroup incompatible'', ''unified cgroup''],
      kb_anti_words = [''cgroup v1''], kb_metric_name = [], kb_severity = ''medium'',
      kb_root_cause = (''Container runtime cgroup v2 incompatibility '' @ [CHR 0xE2, CHR 0x80, CHR 0x94] @ '' applications or runtimes do not support cgroup v2''),
      kb_reasoning = [''Newer Linux distributions default to cgroup v2 (unified hierarchy)'',
       ''Older container runtimes and applications may not support cgroup v2'',
       ''Resource limits may not be enforced correctly with incompatible versions''],
      kb_impact = ''Container resource limits not applied; container startup failures; incorrect resource accounting'',
      kb_resolution_steps = [''Check cgroup version: stat -fc %T /sys/fs/cgroup (cgroup2fs = v2)'',
       ''Update container runtime to a version supporting cgroup v2'',
       ''As workaround, boot with systemd.unified_cgroup_hierarchy=0 for cgroup v1'',
       ''Update applications to work with cgroup v2 interfaces''],
      kb_prevention = ''Test with cgroup v2 before OS upgrades; keep runtimes updated; validate resource limits after migration'',
      kb_base_confidence = 65, kb_base_risk_score = 45\<rparr>,
     \<lparr>kb_id = ''docker-image-manifest-error'', kb_category = ''container'', kb_sub_category = ''registry'',
      kb_keywords = [''manifest unknown'', ''manifest error'', ''image manifest'', ''manifest not found'', ''unsupported manifest''],
      kb_anti_words = [''helm chart''], kb_metric_name = [], kb_severity = ''medium'',
      kb_root_cause = (''Container image manifest error '' @ [CHR 0xE2, CHR 0x80, CHR 0x94] @ '' the requested image tag or manifest does not exist in the registry''),
      kb_reasoning = [''Manifest not found typically means the image tag was deleted or never pushed'',
       ''Architecture mismatch (requesting linux/arm64 when only linux/amd64 exists) also causes this'',
       ''Registry garbage collection may have removed the manifest''],
      kb_impact = ''Container cannot be pulled; deployments using this image fail; rollouts stall'',
      kb_resolution_steps = [''Verify image exists: docker manifest inspect <image>:<tag>'',
       ''List available tags: curl -s https://<registry>/v2/<repo>/tags/list'',
       ''Check for architecture mismatch: docker manifest inspect --verbose <image>:<tag>'',
       ''Re-push the image if it was accidentally deleted''],
      kb_prevention = ''Use immutable tags (digest-based references); protect tags from deletion; use image lifecycle policies carefully'',
      kb_base_confidence = 75, kb_base_risk_score = 50\<rparr>]"

definition advanced_container_entries :: "KnowledgeEntry list" where
  "advanced_container_entries = advanced_container_entries_1 @ advanced_container_entries_2"

definition advanced_message_queue_entries_1 :: "KnowledgeEntry list" where
  "advanced_message_queue_entries_1 =
    [\<lparr>kb_id = ''kafka-broker-down'', kb_category = ''messaging'', kb_sub_category = ''kafka'',
      kb_keywords = [''kafka broker'', ''broker down'', ''kafka unavailable'', ''broker not available'',
       ''kafka connection refused''],
      kb_anti_words = [''rabbitmq'', ''redis''], kb_metric_name = [], kb_severity = ''critical'',
      kb_root_cause = (''Kafka broker is down '' @ [CHR 0xE2, CHR 0x80, CHR 0x94] @ '' the broker process crashed or became unreachable''),
      kb_reasoning = [''A broker going down causes partition leadership to be transferred to other brokers'',
       ''If the broker was the only ISR for some partitions, those partitions become unavailable'',
       ''Producers and consumers connected to the downed broker must reconnect to other brokers''],
      kb_impact = ''Partitions led by the downed broker temporarily unavailable; increased load on remaining brokers; potential message delays'',
      kb_resolution_steps = [''Check broker status: systemctl status kafka'', ''View broker logs: tail -100 /var/log/kafka/server.log'',
       ''Check ZooKeeper/KRaft for broker registration: zookeeper-shell <zk-host>:2181 ls /brokers/ids'',
       ''Restart the broker: systemctl restart kafka'',
       ''Verify partition reassignment completed: kafka-topics.sh --describe --bootstrap-server <broker>:9092''],
      kb_prevention = ''Use replication factor >= 3; monitor broker health; set min.insync.replicas=2; use rack awareness'',
      kb_base_confidence = 85, kb_base_risk_score = 85\<rparr>,
     \<lparr>kb_id = ''kafka-leader-election'', kb_category = ''messaging'', kb_sub_category = ''kafka'',
      kb_keywords = [''kafka leader election'', ''leader not available'', ''preferred leader'', ''leader epoch'', ''kafka election''],
      kb_anti_words = [''swarm election'', ''etcd election''], kb_metric_name = [], kb_severity = ''high'',
      kb_root_cause = (''Kafka partition leader election in progress '' @ [CHR 0xE2, CHR 0x80, CHR 0x94] @ '' partitions are temporarily unavailable during leader transition''),
      kb_reasoning = [''Leader elections occur when the current leader broker fails or is shut down'',
       ''During election, the partition cannot accept reads or writes'',
       ''Unclean leader election can cause data loss if the new leader is behind''],
      kb_impact = ''Temporary message production/consumption pause for affected partitions; potential data loss with unclean election'',
      kb_resolution_steps = [''Check partition leaders: kafka-topics.sh --describe --bootstrap-server <broker>:9092 --topic <topic>'',
       ''Verify ISR list is healthy: look for partitions with ISR count < replication factor'',
       ''Trigger preferred leader election: kafka-leader-election.sh --bootstrap-server <broker>:9092 --election-type PREFERRED --all-topic-partitions'',
       ''Monitor election completion in broker logs''],
      kb_prevention = ''Set unclean.leader.election.enable=false; maintain ISR >= min.insync.replicas; use preferred leader election scheduling'',
      kb_base_confidence = 75, kb_base_risk_score = 70\<rparr>,
     \<lparr>kb_id = ''kafka-isr-shrink'', kb_category = ''messaging'', kb_sub_category = ''kafka'',
      kb_keywords = [''ISR shrink'', ''in-sync replica'', ''under replicated'', ''under-replicated'', ''replica lag''],
      kb_anti_words = [''rabbitmq'', ''redis''], kb_metric_name = [], kb_severity = ''high'',
      kb_root_cause = (''Kafka ISR (In-Sync Replica) shrinking '' @ [CHR 0xE2, CHR 0x80, CHR 0x94] @ '' replicas are falling behind the leader, reducing fault tolerance''),
      kb_reasoning = [''ISR shrink means follower replicas are not keeping up with the leader'',
       ''Causes include: disk I/O bottleneck on followers, network issues, or GC pauses'',
       ''When ISR count drops below min.insync.replicas, producers with acks=all will be blocked''],
      kb_impact = ''Reduced fault tolerance; risk of data loss if leader fails; producer blocks if ISR < min.insync.replicas'',
      kb_resolution_steps = [''Check under-replicated partitions: kafka-topics.sh --describe --under-replicated-partitions --bootstrap-server <broker>:9092'',
       ''Check replica lag: kafka-consumer-groups.sh --bootstrap-server <broker>:9092 --describe --group <group>'',
       ''Investigate follower broker: check disk I/O, CPU, network'',
       ''Restart lagging broker if I/O is fine: systemctl restart kafka''],
      kb_prevention = ''Monitor ISR count; ensure follower disk I/O keeps up; tune replica.fetch.max.bytes; use dedicated disks for Kafka'',
      kb_base_confidence = 80, kb_base_risk_score = 75\<rparr>,
     \<lparr>kb_id = ''kafka-consumer-lag'', kb_category = ''messaging'', kb_sub_category = ''kafka'',
      kb_keywords = [''consumer lag'', ''consumer group lag'', ''kafka lag'', ''offset lag'', ''consumer behind''],
      kb_anti_words = [''rabbitmq'', ''redis streams''], kb_metric_name = [], kb_severity = ''high'',
      kb_root_cause = (''Kafka consumer lag is growing '' @ [CHR 0xE2, CHR 0x80, CHR 0x94] @ '' consumers are not processing messages fast enough''),
      kb_reasoning = [''Growing consumer lag means the production rate exceeds the consumption rate'',
       ''Causes include slow processing, insufficient consumer instances, or consumer crashes'',
       ''If lag grows unboundedly, old data may be deleted before being consumed (log retention)''],
      kb_impact = ''Delayed data processing; stale data in downstream systems; potential data loss from retention expiry'',
      kb_resolution_steps = [''Check consumer lag: kafka-consumer-groups.sh --describe --group <group> --bootstrap-server <broker>:9092'',
       ''Scale consumer group: add more consumer instances (up to partition count)'',
       ''Check for slow processing: profile consumer application'',
       ''Increase partition count to allow more parallelism: kafka-topics.sh --alter --partitions <N>'',
       ''Temporarily increase retention to prevent data loss: kafka-configs.sh --alter --entity-type topics --entity-name <topic> --add-config retention.ms=<value>''],
      kb_prevention = ''Monitor consumer lag; auto-scale consumers; set lag alerts; tune consumer fetch and processing parameters'',
      kb_base_confidence = 80, kb_base_risk_score = 65\<rparr>,
     \<lparr>kb_id = ''kafka-topic-partition-offline'', kb_category = ''messaging'', kb_sub_category = ''kafka'',
      kb_keywords = [''offline partition'', ''partition offline'', ''no leader'', ''leader -1'', ''topic unavailable''],
      kb_anti_words = [''rabbitmq''], kb_metric_name = [], kb_severity = ''critical'',
      kb_root_cause = (''Kafka partition is offline '' @ [CHR 0xE2, CHR 0x80, CHR 0x94] @ '' no broker is available to serve as leader for the partition''),
      kb_reasoning = [''An offline partition means all replicas for that partition are down'',
       (''This can happen when all brokers hosting a partition'' @ [CHR 0x27] @ ''s replicas are unavailable''),
       ''Messages to the offline partition are rejected with NotLeaderOrFollower errors''],
      kb_impact = ''Complete data loss risk for the partition; producers fail; consumers cannot read'',
      kb_resolution_steps = [''Check offline partitions: kafka-topics.sh --describe --unavailable-partitions --bootstrap-server <broker>:9092'',
       ''Bring downed brokers back online: systemctl start kafka'',
       ''If brokers lost data, trigger reassignment: kafka-reassign-partitions.sh'',
       ''Check for disk failures on affected brokers''],
      kb_prevention = ''Use replication factor >= 3; spread replicas across racks; monitor broker health; use rack awareness'',
      kb_base_confidence = 90, kb_base_risk_score = 90\<rparr>,
     \<lparr>kb_id = ''rabbitmq-queue-full'', kb_category = ''messaging'', kb_sub_category = ''rabbitmq'',
      kb_keywords = [''rabbitmq queue full'', ''queue length'', ''queue overflow'', ''rabbit queue'', ''queue limit''],
      kb_anti_words = [''kafka'', ''redis'', ''sqs''], kb_metric_name = [], kb_severity = ''high'',
      kb_root_cause = (''RabbitMQ queue is full '' @ [CHR 0xE2, CHR 0x80, CHR 0x94] @ '' the queue has reached its length or memory limit and is rejecting or blocking publishers''),
      kb_reasoning = [''When a queue reaches its x-max-length, new messages are dropped or the oldest messages are dead-lettered'',
       ''Queue buildup indicates consumers are down, too slow, or the consumer channel is blocked'',
       ''RabbitMQ memory alarms trigger flow control, blocking all publishers''],
      kb_impact = ''New messages lost or rejected; publishers blocked; downstream processing delayed'',
      kb_resolution_steps = [''Check queue depth: rabbitmqctl list_queues name messages consumers'',
       ''Check memory alarm: rabbitmqctl status | grep -A5 alarms'', ''Restart stuck consumers or add more consumers'',
       ''Purge queue if messages are stale: rabbitmqctl purge_queue <queue>'',
       ''Increase memory limit: rabbitmqctl set_vm_memory_high_watermark 0.6''],
      kb_prevention = ''Set queue length limits with DLQ; monitor queue depth; auto-scale consumers; configure memory alarms'',
      kb_base_confidence = 80, kb_base_risk_score = 70\<rparr>,
     \<lparr>kb_id = ''rabbitmq-connection-limit'', kb_category = ''messaging'', kb_sub_category = ''rabbitmq'',
      kb_keywords = [''rabbitmq connection limit'', ''too many connections'', ''connection refused rabbit'', ''channel limit''],
      kb_anti_words = [''kafka'', ''redis''], kb_metric_name = [], kb_severity = ''high'',
      kb_root_cause = (''RabbitMQ connection or channel limit reached '' @ [CHR 0xE2, CHR 0x80, CHR 0x94] @ '' no new connections can be established''),
      kb_reasoning = [''Each connection and channel consumes memory in the broker'',
       ''Applications that do not reuse connections can exhaust the limit quickly'',
       ''Connection leaks in application code are a common cause''],
      kb_impact = ''New consumers and producers cannot connect; existing connections may be unaffected'',
      kb_resolution_steps = [''Check connections: rabbitmqctl list_connections | wc -l'',
       ''List connections by client: rabbitmqctl list_connections client_properties peer_host'',
       (''Close idle connections: rabbitmqctl close_connection <conn-pid> '' @ [CHR 0x27] @ ''cleaning up'' @ [CHR 0x27]),
       ''Fix connection leak in application code'',
       (''Increase limit if needed: rabbitmqctl eval '' @ [CHR 0x27] @ ''application:set_env(rabbit, connection_max, 1000).'' @ [CHR 0x27])],
      kb_prevention = ''Use connection pooling; monitor connection count; set appropriate limits; close connections on shutdown'',
      kb_base_confidence = 75, kb_base_risk_score = 65\<rparr>,
     \<lparr>kb_id = ''rabbitmq-cluster-partition'', kb_category = ''messaging'', kb_sub_category = ''rabbitmq'',
      kb_keywords = [''rabbitmq partition'', ''network partition rabbit'', ''cluster partition'', ''mnesia partitioned'',
       ''rabbit split brain''],
      kb_anti_words = [''kafka'', ''redis''], kb_metric_name = [], kb_severity = ''critical'',
      kb_root_cause = (''RabbitMQ cluster network partition '' @ [CHR 0xE2, CHR 0x80, CHR 0x94] @ '' nodes cannot communicate and have diverged state''),
      kb_reasoning = [''Network partitions cause RabbitMQ nodes to operate independently with divergent queue state'',
       ''The partition handling strategy (ignore/pause_minority/autoheal) determines recovery behavior'',
       ''During partition, messages may be delivered to queues on both sides, causing duplicates''],
      kb_impact = ''Data inconsistency; duplicate messages; queues may have divergent state requiring manual resolution'',
      kb_resolution_steps = [''Check for partitions: rabbitmqctl cluster_status | grep partitions'',
       ''Identify the partition: check network connectivity between nodes'', ''Fix the network issue first'',
       ''Restart the minority side: rabbitmqctl stop_app && rabbitmqctl start_app'',
       ''Verify cluster health: rabbitmqctl cluster_status''],
      kb_prevention = ''Use reliable networking between nodes; configure partition_handling=autoheal; monitor cluster status; use short net_ticktime'',
      kb_base_confidence = 80, kb_base_risk_score = 85\<rparr>,
     \<lparr>kb_id = ''redis-streams-consumer-lag'', kb_category = ''messaging'', kb_sub_category = ''redis'',
      kb_keywords = [''redis stream lag'', ''XREADGROUP'', ''consumer group lag'', ''pending entries'', ''redis stream behind''],
      kb_anti_words = [''kafka'', ''rabbitmq''], kb_metric_name = [], kb_severity = ''medium'',
      kb_root_cause = (''Redis Streams consumer group lag '' @ [CHR 0xE2, CHR 0x80, CHR 0x94] @ '' consumers are falling behind and messages are accumulating''),
      kb_reasoning = [(''Pending entries list (PEL) grows when consumers read but don'' @ [CHR 0x27] @ ''t acknowledge messages''),
       ''Slow consumers cause the stream to grow in memory, increasing Redis memory usage'',
       ''Unacknowledged messages are not trimmed even with MAXLEN configured''],
      kb_impact = ''Increased Redis memory usage; delayed message processing; stale pending entries'',
      kb_resolution_steps = [''Check consumer group info: XINFO GROUPS <stream>'', ''Check pending entries: XPENDING <stream> <group>'',
       ''Check consumer lag: XINFO STREAM <stream>'',
       ''Claim stale pending messages: XAUTOCLAIM <stream> <group> <consumer> <min-idle-time> 0-0''],
      kb_prevention = ''Monitor pending entry list size; set idle consumer timeout; implement message acknowledgment; use XTRIM'',
      kb_base_confidence = 70, kb_base_risk_score = 50\<rparr>]"

definition advanced_message_queue_entries_2 :: "KnowledgeEntry list" where
  "advanced_message_queue_entries_2 =
    [\<lparr>kb_id = ''redis-streams-xreadgroup-timeout'', kb_category = ''messaging'', kb_sub_category = ''redis'',
      kb_keywords = [''XREADGROUP timeout'', ''redis stream timeout'', ''XREAD timeout'', ''block timeout''],
      kb_anti_words = [''kafka consumer''], kb_metric_name = [], kb_severity = ''medium'',
      kb_root_cause = (''Redis XREADGROUP consistently timing out '' @ [CHR 0xE2, CHR 0x80, CHR 0x94] @ '' no new messages arriving or consumer is misconfigured''),
      kb_reasoning = [''XREADGROUP with BLOCK times out when no new messages arrive within the timeout period'',
       ''Consumers configured with wrong group name or stream key will never receive messages'',
       ''Producer failures upstream mean no new messages are being added to the stream''],
      kb_impact = ''Consumer is idle; downstream processing stalled; potential monitoring gap'',
      kb_resolution_steps = [''Verify stream exists and has data: XLEN <stream>'', ''Verify consumer group exists: XINFO GROUPS <stream>'',
       ''Check producer health: verify messages are being added'',
       ''Reset consumer position: XGROUP SETID <stream> <group> $''],
      kb_prevention = ''Monitor stream length; verify consumer group configuration; health check producers; use reasonable block timeouts'',
      kb_base_confidence = 60, kb_base_risk_score = 35\<rparr>,
     \<lparr>kb_id = ''nats-slow-consumer'', kb_category = ''messaging'', kb_sub_category = ''nats'',
      kb_keywords = [''nats slow consumer'', ''slow consumer'', ''nats dropped'', ''nats pending'', ''consumer too slow''],
      kb_anti_words = [''kafka'', ''rabbitmq''], kb_metric_name = [], kb_severity = ''high'',
      kb_root_cause = (''NATS slow consumer detected '' @ [CHR 0xE2, CHR 0x80, CHR 0x94] @ '' the subscriber cannot keep up with the message rate and messages are being dropped''),
      kb_reasoning = [''NATS drops messages for slow consumers to protect the server from memory exhaustion'',
       (''The subscriber'' @ [CHR 0x27] @ ''s pending message limit determines when messages are dropped''),
       ''Slow consumers get disconnected if they exceed the max pending bytes/messages''],
      kb_impact = ''Messages lost for the slow consumer; data processing gaps; potential data inconsistency'',
      kb_resolution_steps = [''Check for slow consumers in NATS monitoring: nats server check connection'',
       ''Increase pending limits: set MaxPending in subscriber options'',
       ''Optimize message processing in the consumer'',
       ''Use JetStream for persistent messaging with acknowledgments'', ''Scale consumers to distribute load''],
      kb_prevention = ''Use JetStream for guaranteed delivery; tune pending limits; monitor consumer processing rates; use queue groups'',
      kb_base_confidence = 75, kb_base_risk_score = 60\<rparr>,
     \<lparr>kb_id = ''nats-cluster-route-disconnect'', kb_category = ''messaging'', kb_sub_category = ''nats'',
      kb_keywords = [''nats route disconnect'', ''nats cluster'', ''route closed'', ''nats cluster partition'', ''nats reconnect''],
      kb_anti_words = [''kafka'', ''rabbitmq''], kb_metric_name = [], kb_severity = ''high'',
      kb_root_cause = (''NATS cluster route disconnected '' @ [CHR 0xE2, CHR 0x80, CHR 0x94] @ '' server-to-server communication is broken in the cluster''),
      kb_reasoning = [''Route disconnections cause messages to not be forwarded to subscribers on other nodes'',
       ''Network issues, firewall changes, or server restarts can break routes'',
       ''During disconnection, the cluster behaves as separate independent servers''],
      kb_impact = ''Messages not delivered to subscribers on disconnected nodes; cluster state inconsistency'',
      kb_resolution_steps = [''Check NATS routes: nats server report connections'',
       ''Verify network connectivity between NATS nodes: nc -zv <peer>:6222'',
       ''Check NATS logs for route error details'', ''Restart NATS on the disconnected node: systemctl restart nats''],
      kb_prevention = ''Use reliable networking between NATS nodes; monitor route status; configure route reconnect; use super-cluster for WAN'',
      kb_base_confidence = 70, kb_base_risk_score = 65\<rparr>,
     \<lparr>kb_id = ''sqs-throttling'', kb_category = ''messaging'', kb_sub_category = ''sqs'',
      kb_keywords = [''sqs throttling'', ''sqs rate exceeded'', ''sqs throttle'', ''OverLimit'', ''sqs limit''],
      kb_anti_words = [''kafka'', ''rabbitmq''], kb_metric_name = [], kb_severity = ''high'',
      kb_root_cause = (''AWS SQS API throttling '' @ [CHR 0xE2, CHR 0x80, CHR 0x94] @ '' the request rate to SQS has exceeded the allowed limit''),
      kb_reasoning = [''SQS has per-queue and per-account API request limits'',
       ''FIFO queues have lower throughput limits (300 TPS without batching)'',
       ''Polling too aggressively or too many consumers calling ReceiveMessage causes throttling''],
      kb_impact = ''Message send/receive operations delayed or fail; processing backlog grows; increased error rates'',
      kb_resolution_steps = [''Check CloudWatch SQS metrics: NumberOfMessagesSent, ApproximateNumberOfMessagesVisible'',
       ''Reduce polling frequency: use long polling (WaitTimeSeconds=20)'',
       ''Use batching: SendMessageBatch and ReceiveMessage with MaxNumberOfMessages=10'',
       ''Request a limit increase via AWS Support'', ''For FIFO: use message group IDs for higher throughput''],
      kb_prevention = ''Use long polling; batch operations; monitor SQS CloudWatch metrics; design for backoff on throttle'',
      kb_base_confidence = 75, kb_base_risk_score = 60\<rparr>,
     \<lparr>kb_id = ''sqs-dlq-overflow'', kb_category = ''messaging'', kb_sub_category = ''sqs'',
      kb_keywords = [''sqs dead letter'', ''DLQ overflow'', ''dead letter queue'', ''dlq messages'', ''maxReceiveCount''],
      kb_anti_words = [''kafka'', ''rabbitmq''], kb_metric_name = [], kb_severity = ''high'',
      kb_root_cause = (''SQS Dead Letter Queue (DLQ) is accumulating messages '' @ [CHR 0xE2, CHR 0x80, CHR 0x94] @ '' messages are repeatedly failing processing''),
      kb_reasoning = [''Messages end up in the DLQ after exceeding maxReceiveCount attempts'',
       ''A persistent processing bug or invalid message format causes repeated failures'',
       ''DLQ messages require manual investigation and may need to be replayed''],
      kb_impact = ''Business data not processed; potential data loss if DLQ retention expires; indicates a processing bug'',
      kb_resolution_steps = [''Check DLQ message count: aws sqs get-queue-attributes --queue-url <dlq-url> --attribute-names ApproximateNumberOfMessages'',
       ''Sample DLQ messages: aws sqs receive-message --queue-url <dlq-url> --max-number-of-messages 5'',
       ''Investigate failure pattern in consumer logs'', ''Fix the processing bug'',
       ''Replay DLQ messages back to the main queue after fix''],
      kb_prevention = ''Monitor DLQ message count; alert on DLQ growth; implement DLQ message processing; log failure reasons'',
      kb_base_confidence = 75, kb_base_risk_score = 65\<rparr>,
     \<lparr>kb_id = ''kafka-disk-full'', kb_category = ''messaging'', kb_sub_category = ''kafka'',
      kb_keywords = [''kafka disk full'', ''log segment'', ''kafka no space'', ''kafka storage'', ''log.dirs full''],
      kb_anti_words = [''rabbitmq''], kb_metric_name = [], kb_severity = ''critical'',
      kb_root_cause = (''Kafka broker disk is full '' @ [CHR 0xE2, CHR 0x80, CHR 0x94] @ '' the broker cannot write new log segments and will stop accepting messages''),
      kb_reasoning = [''Kafka stores messages on disk in log segments; when disk is full, the broker shuts down'',
       ''Insufficient log retention or topic cleanup policies cause disk to fill'',
       ''High throughput topics with long retention are the primary consumers of disk space''],
      kb_impact = ''Broker goes offline; partitions led by this broker become unavailable; potential data loss'',
      kb_resolution_steps = [''Check disk usage: df -h /var/lib/kafka'',
       ''Reduce retention: kafka-configs.sh --alter --entity-type topics --entity-name <topic> --add-config retention.ms=86400000'',
       ''Delete old segments: kafka-delete-records.sh --bootstrap-server <broker>:9092 --offset-json-file offsets.json'',
       ''Add disk capacity or move log.dirs to a larger volume''],
      kb_prevention = ''Monitor disk usage; set appropriate retention; use tiered storage; alert at 80% disk usage'',
      kb_base_confidence = 85, kb_base_risk_score = 85\<rparr>,
     \<lparr>kb_id = ''rabbitmq-memory-alarm'', kb_category = ''messaging'', kb_sub_category = ''rabbitmq'',
      kb_keywords = [''rabbitmq memory alarm'', ''memory alarm'', ''rabbit memory'', ''flow control'', ''vm_memory_high_watermark''],
      kb_anti_words = [''kafka'', ''redis''], kb_metric_name = [], kb_severity = ''high'',
      kb_root_cause = (''RabbitMQ memory alarm triggered '' @ [CHR 0xE2, CHR 0x80, CHR 0x94] @ '' the broker has exceeded its memory watermark and is blocking publishers''),
      kb_reasoning = [''When memory usage exceeds the high watermark (default 40% of RAM), publishers are blocked'',
       ''Large queues, lazy queues not configured, or memory leaks can trigger the alarm'',
       ''All connections that publish are blocked until memory drops below the threshold''],
      kb_impact = ''All publishers blocked; messages not accepted; consumers continue draining but new messages stop'',
      kb_resolution_steps = [''Check alarm status: rabbitmqctl status | grep alarms'',
       ''Check queue memory: rabbitmqctl list_queues name memory messages'', ''Consume or purge backed-up queues'',
       ''Increase memory limit: rabbitmqctl set_vm_memory_high_watermark 0.6'',
       (''Convert large queues to lazy queues: rabbitmqctl set_policy lazy-queues '' @ [CHR 0x27] @ ''.*'' @ [CHR 0x27] @ '' '' @ [CHR 0x27] @ ''{'' @ [CHR 0x22] @ ''queue-mode'' @ [CHR 0x22] @ '':'' @ [CHR 0x22] @ ''lazy'' @ [CHR 0x22] @ ''}'' @ [CHR 0x27])],
      kb_prevention = ''Use lazy queues for large queues; monitor memory usage; set appropriate watermark; implement flow control handling in producers'',
      kb_base_confidence = 80, kb_base_risk_score = 70\<rparr>,
     \<lparr>kb_id = ''rabbitmq-disk-alarm'', kb_category = ''messaging'', kb_sub_category = ''rabbitmq'',
      kb_keywords = [''rabbitmq disk alarm'', ''disk alarm'', ''disk free limit'', ''rabbit disk'', ''insufficient disk''],
      kb_anti_words = [''kafka''], kb_metric_name = [], kb_severity = ''critical'',
      kb_root_cause = (''RabbitMQ disk alarm triggered '' @ [CHR 0xE2, CHR 0x80, CHR 0x94] @ '' insufficient disk space is blocking all publishers''),
      kb_reasoning = [''RabbitMQ blocks publishers when free disk drops below disk_free_limit (default 50MB)'',
       ''Persistent messages are stored on disk and consume space proportional to queue depth'',
       ''Log files and Mnesia database also consume disk space''],
      kb_impact = ''All publishing stopped; service effectively in read-only mode; existing messages can be consumed'',
      kb_resolution_steps = [''Check disk alarm: rabbitmqctl status | grep disk_free'',
       ''Free disk space: clean old logs, purge stale queues'', ''Move data directory to a larger volume'',
       (''Increase disk_free_limit only if appropriate: rabbitmqctl eval '' @ [CHR 0x27] @ ''application:set_env(rabbit, disk_free_limit, 1073741824).'' @ [CHR 0x27])],
      kb_prevention = ''Monitor disk usage; set disk alerts at 80%; use adequate storage; clean old logs regularly'',
      kb_base_confidence = 85, kb_base_risk_score = 80\<rparr>,
     \<lparr>kb_id = ''nats-jetstream-storage-full'', kb_category = ''messaging'', kb_sub_category = ''nats'',
      kb_keywords = [''jetstream storage'', ''jetstream full'', ''nats storage limit'', ''stream limit'', ''jetstream disk''],
      kb_anti_words = [''kafka'', ''rabbitmq''], kb_metric_name = [], kb_severity = ''high'',
      kb_root_cause = (''NATS JetStream storage limit reached '' @ [CHR 0xE2, CHR 0x80, CHR 0x94] @ '' streams cannot accept new messages''),
      kb_reasoning = [''JetStream has per-stream and global storage limits that cap message retention'',
       ''When the limit is reached, the oldest messages are discarded or new messages are rejected based on policy'',
       ''High-throughput streams with long retention quickly consume storage''],
      kb_impact = ''New messages rejected or oldest messages lost depending on discard policy; data processing gaps'',
      kb_resolution_steps = [''Check stream info: nats stream info <stream>'', ''Check storage usage: nats server report jetstream'',
       ''Purge old messages: nats stream purge <stream>'',
       ''Increase storage limit: nats stream edit <stream> --max-bytes <new-limit>''],
      kb_prevention = ''Set appropriate max-bytes and max-age limits; monitor stream storage; use tiered retention policies'',
      kb_base_confidence = 70, kb_base_risk_score = 60\<rparr>]"

definition advanced_message_queue_entries :: "KnowledgeEntry list" where
  "advanced_message_queue_entries = advanced_message_queue_entries_1 @ advanced_message_queue_entries_2"

definition advanced_cicd_entries_1 :: "KnowledgeEntry list" where
  "advanced_cicd_entries_1 =
    [\<lparr>kb_id = ''cicd-build-timeout'', kb_category = ''cicd'', kb_sub_category = ''build'',
      kb_keywords = [''build timeout'', ''build timed out'', ''job timeout'', ''pipeline timeout'', ''execution expired''],
      kb_anti_words = [''deployment timeout'', ''request timeout''], kb_metric_name = [], kb_severity = ''medium'',
      kb_root_cause = (''CI/CD build job timed out '' @ [CHR 0xE2, CHR 0x80, CHR 0x94] @ '' the build exceeded the maximum allowed execution time''),
      kb_reasoning = [''Build timeouts can be caused by slow dependency downloads, long test suites, or infinite loops'',
       ''Network issues to package registries slow down dependency resolution'',
       ''Insufficient build resources (CPU, memory) also cause slow builds''],
      kb_impact = ''Code not built; deployment blocked; developer productivity reduced; merge queue backed up'',
      kb_resolution_steps = [''Check build logs for the last completed step before timeout'',
       ''Increase timeout if the build is legitimately slow'',
       ''Cache dependencies to speed up builds: configure CI cache for node_modules, .m2, etc.'',
       ''Profile the build to find slow steps'', ''Use parallel build steps where possible''],
      kb_prevention = ''Cache dependencies; optimize build steps; use parallel execution; monitor build duration trends'',
      kb_base_confidence = 70, kb_base_risk_score = 45\<rparr>,
     \<lparr>kb_id = ''cicd-artifact-upload-failure'', kb_category = ''cicd'', kb_sub_category = ''build'',
      kb_keywords = [''artifact upload'', ''artifact failed'', ''upload artifact'', ''artifact storage'', ''artifact too large''],
      kb_anti_words = [''docker push''], kb_metric_name = [], kb_severity = ''medium'',
      kb_root_cause = (''CI/CD artifact upload failed '' @ [CHR 0xE2, CHR 0x80, CHR 0x94] @ '' the build output could not be stored in the artifact repository''),
      kb_reasoning = [''Network timeouts during upload cause partial or failed artifact storage'',
       ''Artifact storage quota may be exceeded'', ''Large artifacts may exceed upload size limits''],
      kb_impact = ''Deployment uses stale artifacts; downstream jobs cannot access build output; release blocked'',
      kb_resolution_steps = [''Retry the upload: re-run the failed job'', ''Check artifact storage quota and clean old artifacts'',
       ''Verify network connectivity to artifact repository'', ''Reduce artifact size by excluding unnecessary files'',
       ''Check artifact repository health and disk space''],
      kb_prevention = ''Clean up old artifacts; set retention policies; monitor artifact storage; use .artifactignore to exclude files'',
      kb_base_confidence = 65, kb_base_risk_score = 45\<rparr>,
     \<lparr>kb_id = ''cicd-deployment-rollback'', kb_category = ''cicd'', kb_sub_category = ''deployment'',
      kb_keywords = [''rollback triggered'', ''deployment rollback'', ''rolling back'', ''revert deployment'',
       ''deployment failed rollback''],
      kb_anti_words = [''manual rollback''], kb_metric_name = [], kb_severity = ''high'',
      kb_root_cause = (''Automated deployment rollback triggered '' @ [CHR 0xE2, CHR 0x80, CHR 0x94] @ '' the new version failed health checks and was rolled back''),
      kb_reasoning = [''Automated rollbacks occur when the new version fails readiness or liveness probes'',
       ''The deployment strategy detected errors (high error rate, failed health checks) and reverted'',
       ''This is a safety mechanism working correctly, but the root cause is in the new code''],
      kb_impact = ''New features not deployed; users remain on old version; development iteration delayed'',
      kb_resolution_steps = [''Check deployment logs for the failure reason'',
       (''Review health check failures: look at the new version'' @ [CHR 0x27] @ ''s logs and metrics''),
       ''Test the new version locally or in staging'', ''Fix the issue and redeploy'',
       ''Verify rollback completed: check running version''],
      kb_prevention = ''Test in staging before production; use canary deployments; implement comprehensive health checks; run integration tests'',
      kb_base_confidence = 75, kb_base_risk_score = 60\<rparr>,
     \<lparr>kb_id = ''cicd-canary-failure'', kb_category = ''cicd'', kb_sub_category = ''deployment'',
      kb_keywords = [''canary failure'', ''canary failed'', ''canary rollback'', ''canary analysis'', ''canary error rate''],
      kb_anti_words = [''blue green''], kb_metric_name = [], kb_severity = ''high'',
      kb_root_cause = (''Canary deployment failed '' @ [CHR 0xE2, CHR 0x80, CHR 0x94] @ '' the canary version showed degraded metrics compared to the baseline''),
      kb_reasoning = [''Canary analysis detected higher error rates, latency, or other metric degradation'',
       ''A small percentage of traffic to the canary version exposed issues not caught in testing'',
       ''The automatic canary analysis correctly prevented a bad deployment from reaching all users''],
      kb_impact = ''Deployment blocked; only canary traffic was affected; minimal user impact due to early detection'',
      kb_resolution_steps = [''Review canary analysis report: compare canary vs baseline metrics'', ''Check canary version logs for errors'',
       ''Reproduce the issue in staging environment'', ''Fix the root cause and create a new canary deployment'',
       ''Validate fix in canary before promoting to full deployment''],
      kb_prevention = ''Comprehensive test coverage; staging environment that mirrors production; progressive rollout percentages'',
      kb_base_confidence = 75, kb_base_risk_score = 55\<rparr>,
     \<lparr>kb_id = ''cicd-helm-upgrade-failed'', kb_category = ''cicd'', kb_sub_category = ''kubernetes'',
      kb_keywords = [''helm upgrade failed'', ''helm install failed'', ''helm release'', ''tiller error'', ''helm rollback''],
      kb_anti_words = [''argocd''], kb_metric_name = [], kb_severity = ''high'',
      kb_root_cause = (''Helm upgrade failed '' @ [CHR 0xE2, CHR 0x80, CHR 0x94] @ '' the Kubernetes deployment via Helm chart did not complete successfully''),
      kb_reasoning = [''Helm upgrade failures can be caused by invalid values, template rendering errors, or resource conflicts'',
       (''Failed upgrades leave the release in a '' @ [CHR 0x27] @ ''failed'' @ [CHR 0x27] @ '' state that blocks subsequent upgrades''),
       ''Resource quota exceeded or PodSecurityPolicy violations also cause failures''],
      kb_impact = ''Application not updated; release stuck in failed state; manual intervention required'',
      kb_resolution_steps = [''Check release status: helm status <release> -n <namespace>'',
       ''View release history: helm history <release> -n <namespace>'',
       ''Roll back to last working version: helm rollback <release> <revision> -n <namespace>'',
       ''Debug template issues: helm template <chart> --values values.yaml | kubectl apply --dry-run=client -f -'',
       ''Fix values or chart and retry: helm upgrade <release> <chart> -n <namespace> --values values.yaml''],
      kb_prevention = ''Validate charts with helm lint; use --dry-run before upgrade; pin chart versions; test in staging'',
      kb_base_confidence = 80, kb_base_risk_score = 65\<rparr>,
     \<lparr>kb_id = ''cicd-helm-dependency-missing'', kb_category = ''cicd'', kb_sub_category = ''kubernetes'',
      kb_keywords = [''chart dependency'', ''dependency missing'', ''helm dependency'', ''chart not found'', ''requirements.yaml''],
      kb_anti_words = [''npm dependency'', ''pip dependency''], kb_metric_name = [], kb_severity = ''medium'',
      kb_root_cause = (''Helm chart dependency missing '' @ [CHR 0xE2, CHR 0x80, CHR 0x94] @ '' a required sub-chart or dependency chart cannot be found''),
      kb_reasoning = [''Dependencies declared in Chart.yaml must be downloaded before installation'',
       ''Chart repositories may be unreachable or the version specified does not exist'',
       ''Running helm dependency update is required after changing dependencies''],
      kb_impact = ''Chart installation fails; deployment blocked; missing sub-chart features unavailable'',
      kb_resolution_steps = [''Update dependencies: helm dependency update <chart-path>'',
       ''Add missing repository: helm repo add <name> <url>'',
       ''Check available versions: helm search repo <chart> --versions'',
       ''Verify Chart.yaml dependencies section for typos'',
       ''Build dependencies: helm dependency build <chart-path>''],
      kb_prevention = ''Run helm dependency update in CI before deploy; pin dependency versions; mirror charts to a local repo'',
      kb_base_confidence = 70, kb_base_risk_score = 45\<rparr>,
     \<lparr>kb_id = ''cicd-argocd-sync-failed'', kb_category = ''cicd'', kb_sub_category = ''gitops'',
      kb_keywords = [''argocd sync failed'', ''sync error'', ''argocd out of sync'', ''application sync'',
       ''argocd health degraded''],
      kb_anti_words = [''helm install''], kb_metric_name = [], kb_severity = ''high'',
      kb_root_cause = (''ArgoCD sync failed '' @ [CHR 0xE2, CHR 0x80, CHR 0x94] @ '' the application state in the cluster does not match the desired state in Git''),
      kb_reasoning = [''Sync failures can be caused by invalid YAML, resource conflicts, or admission webhook rejections'',
       ''Out-of-sync state may result from manual changes to the cluster that conflict with Git'',
       ''Webhook or policy violations (OPA/Gatekeeper, Kyverno) can block resource creation''],
      kb_impact = ''Application not updated to desired state; drift between Git and cluster; manual intervention needed'',
      kb_resolution_steps = [''Check sync status: argocd app get <app-name>'', ''View sync details: argocd app sync <app-name> --dry-run'',
       ''Check for error messages in the ArgoCD UI or CLI'', ''Fix invalid manifests in the Git repository'',
       ''Force sync if needed: argocd app sync <app-name> --force''],
      kb_prevention = ''Validate manifests in CI; use ArgoCD notifications; disable manual cluster changes; implement pre-sync hooks'',
      kb_base_confidence = 75, kb_base_risk_score = 60\<rparr>,
     \<lparr>kb_id = ''cicd-gitops-drift'', kb_category = ''cicd'', kb_sub_category = ''gitops'',
      kb_keywords = [''gitops drift'', ''drift detected'', ''out of sync'', ''config drift'', ''desired state mismatch''],
      kb_anti_words = [''feature drift''], kb_metric_name = [], kb_severity = ''medium'',
      kb_root_cause = (''GitOps drift detected '' @ [CHR 0xE2, CHR 0x80, CHR 0x94] @ '' the actual cluster state has diverged from the desired state defined in Git''),
      kb_reasoning = [''Manual kubectl edits or other controllers modifying resources cause drift'',
       ''Drift means the cluster is running a different configuration than what is version-controlled'',
       ''Some drifts are benign (HPA scaling replicas) but others indicate unauthorized changes''],
      kb_impact = ''Running configuration unknown; deployments may revert manual fixes; audit trail broken'',
      kb_resolution_steps = [''Review drift details in ArgoCD or Flux UI'', ''Determine if drift is from a legitimate manual change'',
       ''If legitimate, commit the change to Git to sync'',
       ''If unauthorized, sync from Git to restore desired state: argocd app sync <app-name>'',
       ''Identify who/what caused the drift''],
      kb_prevention = ''Disable manual cluster edits; use ArgoCD with auto-sync; restrict RBAC to prevent direct changes; monitor drift'',
      kb_base_confidence = 65, kb_base_risk_score = 45\<rparr>,
     \<lparr>kb_id = ''cicd-registry-unreachable'', kb_category = ''cicd'', kb_sub_category = ''registry'',
      kb_keywords = [''registry unreachable'', ''registry timeout'', ''cannot reach registry'', ''image registry down'',
       ''registry connection''],
      kb_anti_words = [''npm registry'', ''pip registry''], kb_metric_name = [], kb_severity = ''high'',
      kb_root_cause = (''Container registry is unreachable '' @ [CHR 0xE2, CHR 0x80, CHR 0x94] @ '' CI/CD pipeline cannot push or pull images''),
      kb_reasoning = [''Registry downtime blocks both image push (from CI) and image pull (during deployment)'',
       ''DNS resolution failure for the registry hostname can cause this'',
       ''Network changes or firewall rules may have blocked access to the registry''],
      kb_impact = ''Builds cannot publish images; deployments cannot pull new images; pipeline completely blocked'',
      kb_resolution_steps = [''Test registry connectivity: curl -v https://<registry>/v2/'',
       ''Check DNS resolution: dig <registry-hostname>'', ''Verify authentication: docker login <registry>'',
       (''Check for registry service status on provider'' @ [CHR 0x27] @ ''s status page''),
       ''Use a fallback registry if available''],
      kb_prevention = ''Use a registry mirror/cache; monitor registry health; have fallback registries; pre-pull critical images'',
      kb_base_confidence = 75, kb_base_risk_score = 70\<rparr>]"

definition advanced_cicd_entries_2 :: "KnowledgeEntry list" where
  "advanced_cicd_entries_2 =
    [\<lparr>kb_id = ''cicd-test-flake'', kb_category = ''cicd'', kb_sub_category = ''testing'',
      kb_keywords = [''flaky test'', ''test flake'', ''intermittent failure'', ''test randomly fails'', ''non-deterministic test''],
      kb_anti_words = [''build timeout''], kb_metric_name = [], kb_severity = ''medium'',
      kb_root_cause = (''Flaky test detected '' @ [CHR 0xE2, CHR 0x80, CHR 0x94] @ '' a test is failing intermittently without code changes, blocking the CI pipeline''),
      kb_reasoning = [''Flaky tests are often caused by race conditions, timing dependencies, or shared state'',
       ''Tests relying on external services or specific timing are inherently non-deterministic'',
       ''Flaky tests erode developer trust in the CI pipeline and slow down development''],
      kb_impact = ''CI pipeline intermittently blocked; developer time wasted on reruns; reduced confidence in test suite'',
      kb_resolution_steps = [''Identify the flaky test from CI logs'',
       ''Run the test in isolation with retries to reproduce: go test -count=10 -run <TestName>'',
       ''Check for race conditions: go test -race or thread-safety analysis'',
       ''Add proper synchronization or mock external dependencies'',
       ''Quarantine the test until fixed to unblock the pipeline''],
      kb_prevention = ''Use deterministic test designs; mock external dependencies; avoid time-dependent assertions; track flake rates'',
      kb_base_confidence = 65, kb_base_risk_score = 35\<rparr>,
     \<lparr>kb_id = ''cicd-secret-scanning-block'', kb_category = ''cicd'', kb_sub_category = ''security'',
      kb_keywords = [''secret detected'', ''secret scanning'', ''credential detected'', ''pre-commit hook secret'',
       ''secret blocked''],
      kb_anti_words = [''feature flag''], kb_metric_name = [], kb_severity = ''high'',
      kb_root_cause = (''CI/CD pipeline blocked by secret scanning '' @ [CHR 0xE2, CHR 0x80, CHR 0x94] @ '' a potential secret or credential was detected in the code''),
      kb_reasoning = [''Secret scanning tools (GitLeaks, TruffleHog) detected patterns matching API keys, tokens, or passwords'',
       ''Committing secrets to version control exposes them to anyone with repository access'',
       ''Even after removal, secrets remain in Git history unless force-pushed''],
      kb_impact = ''Pipeline blocked; potential secret exposure if pushed; manual review required'',
      kb_resolution_steps = [''Review the detected secret in the scan report'', ''If it is a real secret, rotate it immediately'',
       ''Remove the secret from code and use environment variables or a secret manager'',
       ''Add the pattern to .gitignore or the secret scanning allowlist if false positive'',
       ''Force-push to remove from history if already committed: git filter-branch or BFG''],
      kb_prevention = ''Use pre-commit hooks for secret scanning; use environment variables or vault for secrets; train developers'',
      kb_base_confidence = 80, kb_base_risk_score = 75\<rparr>,
     \<lparr>kb_id = ''cicd-dependency-vulnerability'', kb_category = ''cicd'', kb_sub_category = ''security'',
      kb_keywords = [''dependency vulnerability'', ''CVE detected'', ''vulnerable dependency'', ''security scan failed'', ''snyk'',
       ''dependabot''],
      kb_anti_words = [''feature''], kb_metric_name = [], kb_severity = ''high'',
      kb_root_cause = (''CI/CD pipeline blocked by dependency vulnerability scan '' @ [CHR 0xE2, CHR 0x80, CHR 0x94] @ '' a known CVE was found in a project dependency''),
      kb_reasoning = [''Vulnerability scanners check dependencies against CVE databases'',
       ''High or critical severity CVEs may block the pipeline per security policy'',
       ''Transitive dependencies (dependencies of dependencies) are common sources of vulnerabilities''],
      kb_impact = ''Pipeline blocked; deployment delayed; potential security risk if deployed with known vulnerability'',
      kb_resolution_steps = [''Review the CVE details and severity in the scan report'',
       ''Update the vulnerable dependency: check for a patched version'',
       ''If no patch available, assess the actual risk and consider a temporary exception'',
       ''For transitive dependencies, use resolution overrides to force the patched version'',
       ''Document any accepted risks in the security exception process''],
      kb_prevention = ''Enable automated dependency updates; run vulnerability scans in CI; maintain a dependency update cadence'',
      kb_base_confidence = 75, kb_base_risk_score = 60\<rparr>]"

definition advanced_cicd_entries :: "KnowledgeEntry list" where
  "advanced_cicd_entries = advanced_cicd_entries_1 @ advanced_cicd_entries_2"

end
