(* ===== verification/KbAdvanced.thy ===== *)
theory KbAdvanced
  imports KbAdvancedHosts
begin

text \<open>
  The entries of \<open>services/kb_advanced.go\<close>: advanced patterns of security, storage, monitoring, APIs and the rest; the earlier builders are in \<open>KbAdvancedHosts\<close>.
  One definition per builder, in the order of the source; a long builder is in numbered pieces.
\<close>

definition advanced_security_entries_1 :: "KnowledgeEntry list" where
  "advanced_security_entries_1 =
    [\<lparr>kb_id = ''sec-brute-force-login'', kb_category = ''security'', kb_sub_category = ''authentication'',
      kb_keywords = [''brute force'', ''failed login'', ''login attempts'', ''account lockout'', ''too many login''],
      kb_anti_words = [''ssh brute force'', ''pam_unix''], kb_metric_name = [], kb_severity = ''critical'',
      kb_root_cause = (''Brute-force login attack '' @ [CHR 0xE2, CHR 0x80, CHR 0x94] @ '' more than 10 failed login attempts detected from the same source''),
      kb_reasoning = [''Rapid sequential login failures from one IP/user indicate automated credential stuffing or brute force'',
       ''Attackers use dictionaries and leaked credential databases to attempt access'',
       ''Without rate limiting, attackers can try thousands of combinations quickly''],
      kb_impact = ''Account compromise risk; account lockouts affecting legitimate users; resource consumption'',
      kb_resolution_steps = [''Block the offending IP: iptables -A INPUT -s <IP> -j DROP'',
       ''Check if any accounts were compromised: review successful logins from the same IP'',
       ''Force password reset for targeted accounts'',
       ''Enable account lockout policy: lock after N failures for M minutes'',
       ''Implement CAPTCHA or rate limiting on login endpoints''],
      kb_prevention = ''Implement rate limiting; use CAPTCHA; enable MFA; use account lockout policies; monitor login failure rates'',
      kb_base_confidence = 85, kb_base_risk_score = 80\<rparr>,
     \<lparr>kb_id = ''sec-privilege-escalation'', kb_category = ''security'', kb_sub_category = ''authorization'',
      kb_keywords = [''privilege escalation'', ''unauthorized root'', ''setuid'', ''capability'', ''escalated privileges''],
      kb_anti_words = [''sudo failure''], kb_metric_name = [], kb_severity = ''critical'',
      kb_root_cause = (''Privilege escalation attempt detected '' @ [CHR 0xE2, CHR 0x80, CHR 0x94] @ '' a process or user is attempting to gain higher privileges than authorized''),
      kb_reasoning = [''Privilege escalation exploits vulnerabilities to gain root or elevated access'',
       ''SUID binaries, kernel exploits, or misconfigured capabilities can be exploited'',
       ''Container escape attempts also fall under privilege escalation''],
      kb_impact = ''Full system compromise if successful; data exfiltration; persistent backdoor installation'',
      kb_resolution_steps = [''Investigate the alert: check process details and user context'',
       ''Check for SUID binaries: find / -perm -4000 -type f 2>/dev/null'',
       ''Review audit logs: ausearch -m execve -i --success yes | grep -i escalat'',
       ''Isolate the affected system immediately if active exploit'', ''Patch the vulnerability used for escalation''],
      kb_prevention = ''Keep systems patched; minimize SUID binaries; use SELinux/AppArmor; audit capabilities; run containers as non-root'',
      kb_base_confidence = 85, kb_base_risk_score = 95\<rparr>,
     \<lparr>kb_id = ''sec-403-spike'', kb_category = ''security'', kb_sub_category = ''authorization'',
      kb_keywords = [''403 spike'', ''forbidden spike'', ''unauthorized access'', ''403 forbidden'', ''access denied spike''],
      kb_anti_words = [''cors'', ''csrf''], kb_metric_name = [], kb_severity = ''high'',
      kb_root_cause = (''Spike in 403 Forbidden responses '' @ [CHR 0xE2, CHR 0x80, CHR 0x94] @ '' indicates a sudden increase in unauthorized API access attempts''),
      kb_reasoning = [''A spike in 403s can indicate automated scanning or unauthorized access attempts'',
       ''Misconfigured permissions after a deployment can also cause legitimate 403 spikes'',
       ''API key expiration affecting multiple clients causes sudden 403 increases''],
      kb_impact = ''Potential security breach attempt; legitimate users may be affected if permissions are misconfigured'',
      kb_resolution_steps = [''Analyze 403 sources: check access logs for source IPs and requested URLs'',
       ''Determine if a recent deployment changed permissions'', ''Check for expired API keys or tokens'',
       ''Block suspicious IPs if attack is confirmed'', ''Roll back permission changes if a deployment caused it''],
      kb_prevention = ''Monitor 403 rates; implement rate limiting per IP; use Web Application Firewall; review permission changes before deploy'',
      kb_base_confidence = 70, kb_base_risk_score = 65\<rparr>,
     \<lparr>kb_id = ''sec-ssl-cert-expired'', kb_category = ''security'', kb_sub_category = ''certificates'',
      kb_keywords = [''certificate expired'', ''cert expired'', ''ssl expired'', ''tls expired'', ''x509 certificate has expired''],
      kb_anti_words = [''about to expire''], kb_metric_name = [], kb_severity = ''critical'',
      kb_root_cause = (''SSL/TLS certificate has expired '' @ [CHR 0xE2, CHR 0x80, CHR 0x94] @ '' HTTPS connections are failing with certificate validation errors''),
      kb_reasoning = [''Expired certificates cause all clients that validate certificates to reject the connection'',
       ''Automated certificate renewal (certbot, ACME) may have failed silently'',
       ''Some certificate authorities have strict reissuance timelines after expiry''],
      kb_impact = ''All HTTPS connections fail; API integrations break; browsers show security warnings; complete service disruption'',
      kb_resolution_steps = [''Check certificate expiry: openssl s_client -connect <host>:443 2>/dev/null | openssl x509 -noout -dates'',
       ''Renew the certificate: certbot renew or request new certificate from CA'',
       ''Install the new certificate and reload the web server: nginx -s reload or systemctl reload apache2'',
       ''Verify renewal: openssl s_client -connect <host>:443 2>/dev/null | openssl x509 -noout -enddate''],
      kb_prevention = ''Automate certificate renewal with certbot/ACME; monitor certificate expiry; set alerts 30 days before expiry'',
      kb_base_confidence = 90, kb_base_risk_score = 90\<rparr>,
     \<lparr>kb_id = ''sec-ssl-cert-expiring-soon'', kb_category = ''security'', kb_sub_category = ''certificates'',
      kb_keywords = [''certificate expiring'', ''cert expiring soon'', ''certificate about to expire'', ''cert renewal'',
       ''certificate warning''],
      kb_anti_words = [''expired''], kb_metric_name = [], kb_severity = ''high'',
      kb_root_cause = (''SSL/TLS certificate expiring soon '' @ [CHR 0xE2, CHR 0x80, CHR 0x94] @ '' the certificate will expire within 30 days and must be renewed''),
      kb_reasoning = [''Certificates nearing expiry require proactive renewal to prevent outages'',
       ''Automated renewal may be configured but should be verified'',
       ''Certificate pinning in clients may require advance notice of certificate changes''],
      kb_impact = ''Impending service disruption if not renewed; client certificate pinning may break'',
      kb_resolution_steps = [''Check exact expiry: openssl s_client -connect <host>:443 2>/dev/null | openssl x509 -noout -enddate'',
       ''Trigger renewal: certbot renew --dry-run (then without --dry-run)'',
       ''Verify auto-renewal is configured: systemctl list-timers | grep certbot'',
       ''Notify teams if certificate pinning is used so they can update clients''],
      kb_prevention = ''Automate renewal; monitor certificate expiry; use short-lived certificates with auto-renewal; set multiple alert thresholds'',
      kb_base_confidence = 80, kb_base_risk_score = 55\<rparr>,
     \<lparr>kb_id = ''sec-suspicious-process'', kb_category = ''security'', kb_sub_category = ''intrusion'',
      kb_keywords = [''suspicious process'', ''unknown process'', ''cryptominer'', ''reverse shell'', ''unusual process'',
       ''malware''],
      kb_anti_words = [''health check''], kb_metric_name = [], kb_severity = ''critical'',
      kb_root_cause = (''Suspicious process execution detected '' @ [CHR 0xE2, CHR 0x80, CHR 0x94] @ '' an unknown or unauthorized process is running on the system''),
      kb_reasoning = [''Unauthorized processes can indicate a system compromise, malware, or cryptominer installation'',
       ''Reverse shells are commonly established after initial exploitation'',
       ''Processes running as unexpected users or from unexpected paths are highly suspicious''],
      kb_impact = ''System compromised; data exfiltration risk; resource theft (cryptomining); lateral movement possible'',
      kb_resolution_steps = [''Investigate the process: ps aux | grep <suspicious-pid>'',
       ''Check process details: ls -la /proc/<pid>/exe && cat /proc/<pid>/cmdline'',
       ''Check network connections: ss -tnp | grep <pid>'', ''Kill the process: kill -9 <pid>'',
       ''Isolate the system from the network: ip link set <iface> down'', ''Conduct full forensic investigation''],
      kb_prevention = ''Use application whitelisting; enable auditd; run EDR/antimalware; restrict user access; monitor process creation'',
      kb_base_confidence = 80, kb_base_risk_score = 90\<rparr>,
     \<lparr>kb_id = ''sec-firewall-violation-spike'', kb_category = ''security'', kb_sub_category = ''firewall'',
      kb_keywords = [''firewall violation'', ''firewall deny'', ''iptables drop'', ''firewall block spike'',
       ''blocked connection spike''],
      kb_anti_words = [''rate limit''], kb_metric_name = [], kb_severity = ''high'',
      kb_root_cause = (''Spike in firewall rule violations '' @ [CHR 0xE2, CHR 0x80, CHR 0x94] @ '' a sudden increase in blocked connections indicates scanning or attack activity''),
      kb_reasoning = [''A spike in firewall denies often precedes a targeted attack as attackers scan for open ports'',
       ''DDoS attacks also manifest as a spike in firewall drops'',
       ''Misconfigured applications or services trying to reach blocked destinations also cause spikes''],
      kb_impact = ''Potential active attack; firewall performance may degrade under high deny rate; legitimate traffic may be affected'',
      kb_resolution_steps = [''Analyze blocked traffic: iptables -L -n -v | head -50'',
       (''Identify top blocked sources: grep DROP /var/log/kern.log | awk '' @ [CHR 0x27] @ ''{print $SRC}'' @ [CHR 0x27] @ '' | sort | uniq -c | sort -rn | head''),
       ''Determine if it is an attack or misconfiguration'',
       ''Block entire subnets if attack: iptables -A INPUT -s <subnet> -j DROP'',
       ''Enable rate limiting on firewall rules''],
      kb_prevention = ''Monitor firewall deny rates; use IDS/IPS; implement rate limiting; keep firewall rules updated'',
      kb_base_confidence = 70, kb_base_risk_score = 65\<rparr>,
     \<lparr>kb_id = ''sec-cors-violation'', kb_category = ''security'', kb_sub_category = ''web'',
      kb_keywords = [''cors violation'', ''cross-origin'', ''CORS error'', ''access-control-allow-origin'', ''blocked by CORS''],
      kb_anti_words = [''csp'', ''csrf''], kb_metric_name = [], kb_severity = ''medium'',
      kb_root_cause = (''CORS violation '' @ [CHR 0xE2, CHR 0x80, CHR 0x94] @ '' the browser is blocking cross-origin requests because the server does not include the correct CORS headers''),
      kb_reasoning = [''CORS errors occur when a frontend on one domain makes requests to an API on a different domain'',
       ''The server must explicitly allow the requesting origin in Access-Control-Allow-Origin'',
       ''Preflight (OPTIONS) requests must also be handled correctly''],
      kb_impact = ''Frontend application cannot communicate with the API; features break for users; no backend impact'',
      kb_resolution_steps = [''Check the browser console for the specific CORS error message'',
       ''Add the requesting origin to Access-Control-Allow-Origin: http://frontend.example.com'',
       ''Handle OPTIONS preflight requests: return 204 with appropriate CORS headers'',
       ''If using a reverse proxy, configure CORS at the proxy level'',
       ''For development, use a proxy to avoid CORS: configure frontend proxy''],
      kb_prevention = ''Configure CORS headers in the API; test cross-origin requests in CI; use a reverse proxy for same-origin in production'',
      kb_base_confidence = 75, kb_base_risk_score = 30\<rparr>,
     \<lparr>kb_id = ''sec-csp-violation'', kb_category = ''security'', kb_sub_category = ''web'',
      kb_keywords = [''csp violation'', ''content security policy'', ''CSP error'', ''csp report'', ''inline script blocked''],
      kb_anti_words = [''cors''], kb_metric_name = [], kb_severity = ''medium'',
      kb_root_cause = (''Content Security Policy violation '' @ [CHR 0xE2, CHR 0x80, CHR 0x94] @ '' the browser blocked a resource load or script execution''),
      kb_reasoning = [''CSP policies restrict which resources can be loaded and executed on a page'',
       ''Inline scripts, eval(), and third-party resources are commonly blocked by CSP'',
       ''CSP violations may indicate XSS attempts being blocked by the policy''],
      kb_impact = ''Page functionality may be broken if legitimate resources are blocked; security protection working correctly if blocking attacks'',
      kb_resolution_steps = [''Check CSP violation report in browser console or report-uri endpoint'',
       ''If legitimate resource: update CSP to allow it with specific hash or nonce'',
       ''If inline script: move to external file and reference with nonce'',
       ''If third-party: add the specific domain to the CSP directive'',
       ''Do not use unsafe-inline or unsafe-eval as a fix''],
      kb_prevention = ''Use nonces for inline scripts; whitelist specific sources; test CSP changes in report-only mode first'',
      kb_base_confidence = 65, kb_base_risk_score = 35\<rparr>]"

definition advanced_security_entries_2 :: "KnowledgeEntry list" where
  "advanced_security_entries_2 =
    [\<lparr>kb_id = ''sec-api-key-exposed'', kb_category = ''security'', kb_sub_category = ''secrets'',
      kb_keywords = [''api key exposed'', ''token in logs'', ''secret in log'', ''credential leak'', ''api key leaked''],
      kb_anti_words = [''secret scanning''], kb_metric_name = [], kb_severity = ''critical'',
      kb_root_cause = (''API key or token found exposed in logs '' @ [CHR 0xE2, CHR 0x80, CHR 0x94] @ '' sensitive credentials are being logged in plaintext''),
      kb_reasoning = [''Applications may accidentally log request headers, query parameters, or bodies containing secrets'',
       ''Log aggregation systems then store and index these secrets, widening the exposure'',
       ''Anyone with log access can extract and misuse the exposed credentials''],
      kb_impact = ''Credential compromise; unauthorized access using leaked credentials; compliance violation'',
      kb_resolution_steps = [''Immediately rotate the exposed credential'',
       ''Identify and fix the code logging the secret: search for the logging statement'',
       ''Scrub the secret from log storage if possible'',
       ''Audit for any unauthorized use of the compromised credential'',
       ''Add log sanitization middleware to mask sensitive values''],
      kb_prevention = ''Implement log sanitization; never log full request headers/bodies; use structured logging with field filtering; code review'',
      kb_base_confidence = 90, kb_base_risk_score = 90\<rparr>,
     \<lparr>kb_id = ''sec-sql-injection'', kb_category = ''security'', kb_sub_category = ''application'',
      kb_keywords = [''sql injection'', ''sqli'', ''sql syntax error'', ''union select'', ''DROP TABLE'', ''1=1'',
       ([CHR 0x27] @ '' OR '' @ [CHR 0x27])],
      kb_anti_words = [''sanitized''], kb_metric_name = [], kb_severity = ''critical'',
      kb_root_cause = (''SQL injection attempt detected '' @ [CHR 0xE2, CHR 0x80, CHR 0x94] @ '' malicious SQL payloads are being sent to application endpoints''),
      kb_reasoning = [''SQL injection allows attackers to read, modify, or delete database data'',
       ''Common payloads include UNION SELECT, OR 1=1, and DROP TABLE'',
       ''Applications using string concatenation for SQL queries are vulnerable''],
      kb_impact = ''Database compromise; data exfiltration; data deletion; potential system-level access via SQL injection'',
      kb_resolution_steps = [''Verify the application is using parameterized queries, not string concatenation'',
       ''Block the attacking IP immediately'',
       ''Check for successful injections: review database logs and application logs'',
       ''Deploy a Web Application Firewall (WAF) rule for SQLi'',
       ''Audit all database query code for injection vulnerabilities''],
      kb_prevention = ''Use parameterized queries/prepared statements exclusively; deploy WAF; input validation; regular security audits'',
      kb_base_confidence = 85, kb_base_risk_score = 90\<rparr>,
     \<lparr>kb_id = ''sec-xss-attempt'', kb_category = ''security'', kb_sub_category = ''application'',
      kb_keywords = [''xss attempt'', ''cross-site scripting'', ''script injection'', ''<script>'', ''xss detected'',
       ''reflected xss''],
      kb_anti_words = [''csrf''], kb_metric_name = [], kb_severity = ''high'',
      kb_root_cause = (''Cross-Site Scripting (XSS) attempt detected '' @ [CHR 0xE2, CHR 0x80, CHR 0x94] @ '' malicious scripts are being injected via user input''),
      kb_reasoning = [(''XSS attacks inject JavaScript that runs in other users'' @ [CHR 0x27] @ '' browsers''),
       ''Reflected XSS sends the payload via URL parameters; stored XSS saves it in the database'',
       ''Successful XSS can steal session cookies, redirect users, or deface pages''],
      kb_impact = ''User session hijacking; data theft; phishing via injected content; reputation damage'',
      kb_resolution_steps = [''Verify all user input is being HTML-escaped on output'',
       ''Implement Content Security Policy headers to block inline scripts'', ''Deploy WAF with XSS protection rules'',
       ''Review and fix the vulnerable endpoint'',
       ''Check for stored XSS: scan database for script tags in user-generated content''],
      kb_prevention = ''Use auto-escaping templates; implement CSP; validate and sanitize all input; use HttpOnly cookie flag'',
      kb_base_confidence = 80, kb_base_risk_score = 80\<rparr>,
     \<lparr>kb_id = ''sec-jwt-token-expired'', kb_category = ''security'', kb_sub_category = ''authentication'',
      kb_keywords = [''jwt expired'', ''token expired'', ''jwt invalid'', ''token validation failed'', ''exp claim''],
      kb_anti_words = [''ssl cert expired''], kb_metric_name = [], kb_severity = ''medium'',
      kb_root_cause = (''JWT token expired '' @ [CHR 0xE2, CHR 0x80, CHR 0x94] @ '' authentication tokens are past their expiration time and being rejected''),
      kb_reasoning = [''JWT tokens have an expiration claim (exp) that limits their validity period'',
       ''Client-side token refresh logic may be failing, causing requests with expired tokens'',
       ''Clock skew between token issuer and validator can cause premature expiration''],
      kb_impact = ''Users unable to authenticate; API calls rejected with 401; user experience degradation'',
      kb_resolution_steps = [''Verify token expiration: decode the JWT and check the exp claim'',
       ''Check for clock skew between the auth server and API server'',
       ''Implement token refresh logic in the client'',
       ''Add a clock skew tolerance in token validation: allow 30-60 seconds of skew''],
      kb_prevention = ''Implement proper token refresh; use sliding expiration; allow small clock skew; monitor auth failure rates'',
      kb_base_confidence = 70, kb_base_risk_score = 40\<rparr>,
     \<lparr>kb_id = ''sec-oauth-misconfiguration'', kb_category = ''security'', kb_sub_category = ''authentication'',
      kb_keywords = [''oauth error'', ''oauth misconfigured'', ''redirect_uri mismatch'', ''invalid_client'', ''oauth callback''],
      kb_anti_words = [''jwt''], kb_metric_name = [], kb_severity = ''high'',
      kb_root_cause = (''OAuth misconfiguration '' @ [CHR 0xE2, CHR 0x80, CHR 0x94] @ '' the OAuth flow is failing due to incorrect client configuration''),
      kb_reasoning = [''redirect_uri mismatch is the most common OAuth error: the registered URI does not match the request'',
       ''Invalid client credentials prevent the token exchange'',
       ''Scope changes or deprecated OAuth endpoints also cause failures''],
      kb_impact = ''Users cannot login via OAuth; social login broken; third-party integrations fail'',
      kb_resolution_steps = [''Check the exact error from the OAuth provider response'',
       ''Verify redirect_uri matches exactly (including trailing slash) in the provider config'',
       ''Verify client_id and client_secret are correct'',
       ''Check if OAuth scopes have changed: review provider documentation''],
      kb_prevention = ''Test OAuth flows in CI; monitor OAuth success rates; keep provider configurations documented; use environment variables for credentials'',
      kb_base_confidence = 75, kb_base_risk_score = 55\<rparr>,
     \<lparr>kb_id = ''sec-rate-limit-bypass'', kb_category = ''security'', kb_sub_category = ''abuse'',
      kb_keywords = [''rate limit bypass'', ''rate limiting evasion'', ''distributed attack'', ''rotating IPs'',
       ''rate limit ineffective''],
      kb_anti_words = [''429''], kb_metric_name = [], kb_severity = ''high'',
      kb_root_cause = (''Rate limiting is being bypassed '' @ [CHR 0xE2, CHR 0x80, CHR 0x94] @ '' attackers are using techniques to evade IP-based rate limiting''),
      kb_reasoning = [''Attackers distribute requests across many IPs using botnets or rotating proxies'',
       ''Header spoofing (X-Forwarded-For) can bypass rate limits if the server trusts proxy headers'',
       ''Rate limiting only by IP is insufficient against sophisticated attacks''],
      kb_impact = ''API abuse continues despite rate limiting; resource exhaustion; potential data scraping'',
      kb_resolution_steps = [''Add rate limiting by API key/user in addition to IP'', ''Validate X-Forwarded-For only from trusted proxies'',
       ''Implement CAPTCHA for endpoints under attack'', ''Use behavioral analysis to detect automated requests'',
       ''Deploy a bot management solution''],
      kb_prevention = ''Multi-layer rate limiting (IP + user + fingerprint); behavioral analysis; bot management; CAPTCHA for sensitive endpoints'',
      kb_base_confidence = 65, kb_base_risk_score = 70\<rparr>,
     \<lparr>kb_id = ''sec-csrf-attack'', kb_category = ''security'', kb_sub_category = ''web'',
      kb_keywords = [''csrf'', ''cross-site request forgery'', ''csrf token'', ''csrf invalid'', ''state parameter''],
      kb_anti_words = [''cors'', ''xss''], kb_metric_name = [], kb_severity = ''high'',
      kb_root_cause = (''CSRF attack detected or CSRF protection failing '' @ [CHR 0xE2, CHR 0x80, CHR 0x94] @ '' cross-site request forgery protection is not working''),
      kb_reasoning = [''CSRF attacks trick authenticated users into making unintended requests'',
       ''Missing or invalid CSRF tokens indicate either an attack or misconfigured protection'',
       ''SameSite cookie attribute provides additional CSRF protection''],
      kb_impact = ''Unauthorized actions on behalf of authenticated users; state-changing operations without user consent'',
      kb_resolution_steps = [''Verify CSRF tokens are being generated and validated on all state-changing endpoints'',
       ''Check that the CSRF token is included in the form or request header'',
       ''Set SameSite=Strict or SameSite=Lax on session cookies'',
       ''Verify the origin/referer header in addition to CSRF tokens''],
      kb_prevention = ''Use framework CSRF protection; set SameSite cookie attribute; validate origin headers; use custom request headers'',
      kb_base_confidence = 70, kb_base_risk_score = 65\<rparr>,
     \<lparr>kb_id = ''sec-directory-traversal'', kb_category = ''security'', kb_sub_category = ''application'',
      kb_keywords = [''directory traversal'', ''path traversal'', ''../'', ''..%2f'', ''local file inclusion''],
      kb_anti_words = [''directory listing''], kb_metric_name = [], kb_severity = ''critical'',
      kb_root_cause = (''Directory traversal attempt detected '' @ [CHR 0xE2, CHR 0x80, CHR 0x94] @ '' an attacker is trying to access files outside the intended directory''),
      kb_reasoning = [''Path traversal uses ../ sequences to navigate out of the web root to access system files'',
       ''URL-encoded variants like %2e%2e%2f are used to bypass basic filters'',
       ''Successful traversal can expose /etc/passwd, configuration files, or source code''],
      kb_impact = ''Sensitive file exposure; source code leak; credential theft; potential remote code execution'',
      kb_resolution_steps = [''Validate and sanitize all file path inputs: reject any path containing .. or %2e'',
       ''Use a whitelist of allowed file paths or a chroot-like restriction'',
       ''Deploy WAF rules to block path traversal patterns'', ''Audit all file-serving endpoints in the application''],
      kb_prevention = ''Never use user input in file paths directly; use path canonicalization; deploy WAF; use chroot for file serving'',
      kb_base_confidence = 80, kb_base_risk_score = 85\<rparr>]"

definition advanced_security_entries :: "KnowledgeEntry list" where
  "advanced_security_entries = advanced_security_entries_1 @ advanced_security_entries_2"

definition advanced_storage_entries_1 :: "KnowledgeEntry list" where
  "advanced_storage_entries_1 =
    [\<lparr>kb_id = ''storage-nfs-stale-handle'', kb_category = ''storage'', kb_sub_category = ''nfs'',
      kb_keywords = [''stale file handle nfs'', ''nfs ESTALE'', ''nfs stale handle'', ''errno 116''],
      kb_anti_words = [''ceph'', ''gluster'', ''s3''], kb_metric_name = [], kb_severity = ''high'',
      kb_root_cause = (''NFS stale file handle (ESTALE) '' @ [CHR 0xE2, CHR 0x80, CHR 0x94] @ '' the file handle cached by the client no longer matches the server export''),
      kb_reasoning = [''NFS clients cache file handles; server-side changes (re-export, delete, rename) invalidate them'',
       ''Applications get I/O errors when using invalidated handles'',
       ''Hard mounts will hang indefinitely; soft mounts return errors after timeout''],
      kb_impact = ''Application I/O failures; data operations interrupted; dependent services may crash'',
      kb_resolution_steps = [(''Identify stale mounts: find /mnt -maxdepth 2 -exec stat {} '' @ [CHR 0x5C] @ ''; 2>&1 | grep '' @ [CHR 0x27] @ ''Stale'' @ [CHR 0x27]),
       ''Lazy unmount and remount: umount -l /mnt/nfs && mount -a'',
       ''Verify server-side export: exportfs -v on the NFS server'',
       ''Check mount options: use soft,timeo=30 for non-critical mounts''],
      kb_prevention = ''Use soft NFS mounts where possible; monitor NFS mount health; coordinate server-side changes with clients'',
      kb_base_confidence = 75, kb_base_risk_score = 65\<rparr>,
     \<lparr>kb_id = ''storage-nfs-mount-timeout'', kb_category = ''storage'', kb_sub_category = ''nfs'',
      kb_keywords = [''nfs mount timeout'', ''mount.nfs timed out'', ''nfs server not responding'', ''rpc timeout''],
      kb_anti_words = [''ceph''], kb_metric_name = [], kb_severity = ''high'',
      kb_root_cause = (''NFS mount timeout '' @ [CHR 0xE2, CHR 0x80, CHR 0x94] @ '' the NFS server is not responding to mount requests''),
      kb_reasoning = [''NFS mount timeouts can be caused by network issues, firewall rules blocking NFS ports, or a down NFS server'',
       ''NFS requires multiple ports (2049, 111, and dynamically assigned) to all be accessible'',
       ''Heavy load on the NFS server can cause slow responses that trigger timeouts''],
      kb_impact = ''Services waiting for NFS mounts are blocked at startup; applications cannot access shared storage'',
      kb_resolution_steps = [''Check NFS server status: rpcinfo -p <nfs-server>'', ''Verify network connectivity: nc -zv <nfs-server> 2049'',
       ''Check mount with verbose: mount -v -t nfs <server>:/export /mnt/nfs'',
       ''Check NFS server load: check CPU and I/O on the server''],
      kb_prevention = ''Use bg,soft mount options for non-critical mounts; monitor NFS server health; ensure firewall allows NFS ports'',
      kb_base_confidence = 70, kb_base_risk_score = 60\<rparr>,
     \<lparr>kb_id = ''storage-ceph-osd-down'', kb_category = ''storage'', kb_sub_category = ''ceph'',
      kb_keywords = [''ceph osd down'', ''osd out'', ''ceph osd'', ''osd failure'', ''ceph degraded''],
      kb_anti_words = [''nfs'', ''gluster'', ''s3''], kb_metric_name = [], kb_severity = ''high'',
      kb_root_cause = (''Ceph OSD is down '' @ [CHR 0xE2, CHR 0x80, CHR 0x94] @ '' an Object Storage Daemon has failed, reducing cluster storage capacity and redundancy''),
      kb_reasoning = [''A down OSD means the placement groups it served must be remapped to other OSDs'',
       (''Data rebalancing starts after the OSD is marked '' @ [CHR 0x27] @ ''out'' @ [CHR 0x27] @ '' (default: 10 minutes)''),
       ''If too many OSDs go down, placement groups become unavailable''],
      kb_impact = ''Reduced storage redundancy; rebalancing I/O affects performance; data availability at risk if more OSDs fail'',
      kb_resolution_steps = [''Check cluster status: ceph status'', ''Check OSD status: ceph osd tree'',
       ''Investigate the down OSD: systemctl status ceph-osd@<id>'',
       (''Check OSD logs: journalctl -u ceph-osd@<id> --since '' @ [CHR 0x27] @ ''1 hour ago'' @ [CHR 0x27]),
       ''If disk failure, replace the disk and re-create the OSD''],
      kb_prevention = ''Monitor OSD health; set appropriate replication factor; use multiple failure domains; replace disks proactively on SMART warnings'',
      kb_base_confidence = 80, kb_base_risk_score = 75\<rparr>,
     \<lparr>kb_id = ''storage-ceph-pg-degraded'', kb_category = ''storage'', kb_sub_category = ''ceph'',
      kb_keywords = [''pg degraded'', ''placement group'', ''ceph pg'', ''undersized'', ''peering''],
      kb_anti_words = [''nfs'', ''gluster''], kb_metric_name = [], kb_severity = ''high'',
      kb_root_cause = (''Ceph placement groups (PGs) are in degraded state '' @ [CHR 0xE2, CHR 0x80, CHR 0x94] @ '' not all replicas are available''),
      kb_reasoning = [''Degraded PGs have fewer copies than configured replication factor'',
       ''PGs in peering state are trying to establish consensus on their current state'',
       ''Undersized PGs can still serve reads but have reduced fault tolerance''],
      kb_impact = ''Reduced data redundancy; reads may still work but writes may be slower; risk of data loss if more OSDs fail'',
      kb_resolution_steps = [''Check PG status: ceph pg stat'', ''List degraded PGs: ceph pg dump_stuck degraded'',
       ''Check for down OSDs and bring them back: ceph osd tree'',
       ''Wait for recovery: ceph -w (watch recovery progress)'',
       ''If PGs stuck, query specific PG: ceph pg <pg-id> query''],
      kb_prevention = ''Maintain adequate OSD count for replication; monitor PG health; set recovery priority tuning; use pool-level min_size'',
      kb_base_confidence = 75, kb_base_risk_score = 70\<rparr>,
     \<lparr>kb_id = ''storage-s3-access-denied'', kb_category = ''storage'', kb_sub_category = ''s3'',
      kb_keywords = [''s3 access denied'', ''s3 403'', ''bucket access denied'', ''minio access denied'', ''s3 permission''],
      kb_anti_words = [''nfs'', ''ceph''], kb_metric_name = [], kb_severity = ''high'',
      kb_root_cause = (''S3/MinIO bucket access denied '' @ [CHR 0xE2, CHR 0x80, CHR 0x94] @ '' the IAM policy, bucket policy, or ACL is preventing access''),
      kb_reasoning = [''S3 access requires both IAM permissions AND bucket policy to allow the action'',
       ''Bucket policies with explicit Deny override all Allow statements'',
       ''Cross-account access requires both source account IAM and destination bucket policy''],
      kb_impact = ''Application cannot read/write to storage; data pipeline failures; backup failures'',
      kb_resolution_steps = [''Check IAM policy: aws iam get-user-policy or aws iam get-role-policy'',
       ''Check bucket policy: aws s3api get-bucket-policy --bucket <bucket>'',
       ''Check ACL: aws s3api get-bucket-acl --bucket <bucket>'', ''Test access: aws s3 ls s3://<bucket>/ --debug'',
       ''Use IAM policy simulator to diagnose: aws iam simulate-principal-policy''],
      kb_prevention = ''Use least-privilege IAM policies; test access changes in staging; use S3 access analyzer; document bucket policies'',
      kb_base_confidence = 80, kb_base_risk_score = 60\<rparr>,
     \<lparr>kb_id = ''storage-s3-upload-failed'', kb_category = ''storage'', kb_sub_category = ''s3'',
      kb_keywords = [''s3 upload failed'', ''put object failed'', ''multipart upload'', ''s3 upload timeout'', ''upload error''],
      kb_anti_words = [''docker push''], kb_metric_name = [], kb_severity = ''medium'',
      kb_root_cause = (''S3 upload failure '' @ [CHR 0xE2, CHR 0x80, CHR 0x94] @ '' the object upload could not complete due to size, timeout, or throttling''),
      kb_reasoning = [''Large uploads may time out on slow connections; multipart upload should be used for files > 100MB'',
       ''S3 throttles requests per prefix at high request rates (5500 GET/3500 PUT per second)'',
       ''Incomplete multipart uploads consume storage and must be cleaned up''],
      kb_impact = ''Data not stored; downstream processing fails; backup incomplete'',
      kb_resolution_steps = [''Retry the upload with multipart: aws s3 cp --expected-size'',
       ''Check for incomplete multipart uploads: aws s3api list-multipart-uploads --bucket <bucket>'',
       ''Clean up incomplete uploads: aws s3api abort-multipart-upload --bucket <bucket> --key <key> --upload-id <id>'',
       ''Distribute objects across multiple prefixes to avoid throttling''],
      kb_prevention = ''Use multipart upload for large files; distribute objects across prefixes; configure lifecycle rules to clean up incomplete uploads'',
      kb_base_confidence = 65, kb_base_risk_score = 45\<rparr>,
     \<lparr>kb_id = ''storage-ebs-detached'', kb_category = ''storage'', kb_sub_category = ''ebs'',
      kb_keywords = [''ebs detached'', ''volume detached'', ''ebs unavailable'', ''volume state available'', ''device not found''],
      kb_anti_words = [''ceph'', ''nfs''], kb_metric_name = [], kb_severity = ''critical'',
      kb_root_cause = (''AWS EBS volume detached '' @ [CHR 0xE2, CHR 0x80, CHR 0x94] @ '' the block storage volume was disconnected from the instance''),
      kb_reasoning = [''EBS volumes can detach due to instance stop/termination, API calls, or hardware issues'',
       ''Force-detaching a volume while in use causes filesystem corruption'',
       ''The instance sees I/O errors on the device immediately upon detachment''],
      kb_impact = ''Complete data loss for writes in flight; filesystem corruption; application crash'',
      kb_resolution_steps = [''Check volume state: aws ec2 describe-volumes --volume-ids <vol-id>'',
       ''Reattach the volume: aws ec2 attach-volume --volume-id <vol-id> --instance-id <instance-id> --device /dev/xvdf'',
       ''Run filesystem check: fsck /dev/xvdf'', ''Mount the volume: mount /dev/xvdf /mnt/data'',
       ''Check for data integrity after reattach''],
      kb_prevention = ''Use delete-on-termination=false for data volumes; monitor volume attachment state; use multi-attach for HA; take regular snapshots'',
      kb_base_confidence = 80, kb_base_risk_score = 85\<rparr>,
     \<lparr>kb_id = ''storage-ebs-throughput-exceeded'', kb_category = ''storage'', kb_sub_category = ''ebs'',
      kb_keywords = [''ebs throughput'', ''iops exceeded'', ''volume throughput'', ''ebs throttle'', ''burst balance depleted''],
      kb_anti_words = [''ceph''], kb_metric_name = [], kb_severity = ''high'',
      kb_root_cause = (''EBS volume throughput or IOPS exceeded '' @ [CHR 0xE2, CHR 0x80, CHR 0x94] @ '' the volume'' @ [CHR 0x27] @ ''s provisioned capacity has been reached''),
      kb_reasoning = [''EBS gp2/gp3 volumes have burst credits that deplete under sustained I/O'',
       ''io1/io2 volumes have provisioned IOPS limits that cause throttling when exceeded'',
       ''Volume and instance throughput limits are independent; either can be the bottleneck''],
      kb_impact = ''Disk operations slowed; database queries take longer; application performance degrades'',
      kb_resolution_steps = [''Check burst balance: aws cloudwatch get-metric-statistics --namespace AWS/EBS --metric-name BurstBalance'',
       ''Check IOPS: aws cloudwatch get-metric-statistics --namespace AWS/EBS --metric-name VolumeReadOps'',
       ''Upgrade volume type: aws ec2 modify-volume --volume-id <vol-id> --volume-type gp3 --iops 10000'',
       ''Check instance-level throughput limits: ensure instance type supports the volume throughput''],
      kb_prevention = ''Use gp3 or io2 for I/O-intensive workloads; monitor burst balance; provision IOPS based on workload requirements'',
      kb_base_confidence = 75, kb_base_risk_score = 65\<rparr>,
     \<lparr>kb_id = ''storage-zfs-pool-degraded'', kb_category = ''storage'', kb_sub_category = ''zfs'',
      kb_keywords = [''zfs degraded'', ''zpool status'', ''zfs pool degraded'', ''zfs FAULTED'', ''zfs resilver''],
      kb_anti_words = [''ceph'', ''nfs''], kb_metric_name = [], kb_severity = ''high'',
      kb_root_cause = (''ZFS pool is in degraded state '' @ [CHR 0xE2, CHR 0x80, CHR 0x94] @ '' one or more drives have failed but the pool is still operational on redundancy''),
      kb_reasoning = [''ZFS mirrors and raidz pools continue operating with reduced redundancy when a drive fails'',
       ''The pool is resilvering (rebuilding) to restore full redundancy if a spare is available'',
       ''During resilvering, I/O performance is reduced and the pool is vulnerable to additional failures''],
      kb_impact = ''Reduced data redundancy; performance degradation during resilver; data loss risk if another drive fails'',
      kb_resolution_steps = [''Check pool status: zpool status'', ''Replace the failed drive: zpool replace <pool> <old-dev> <new-dev>'',
       ''Monitor resilver progress: zpool status -v'', ''Check for additional drive issues: smartctl -a /dev/<drive>''],
      kb_prevention = ''Monitor drive health with SMART; keep spare drives available; use raidz2/3 for additional redundancy; run regular scrubs'',
      kb_base_confidence = 80, kb_base_risk_score = 70\<rparr>]"

definition advanced_storage_entries_2 :: "KnowledgeEntry list" where
  "advanced_storage_entries_2 =
    [\<lparr>kb_id = ''storage-zfs-scrub-error'', kb_category = ''storage'', kb_sub_category = ''zfs'',
      kb_keywords = [''zfs scrub error'', ''zfs checksum'', ''zfs data error'', ''cksum error'', ''zfs scrub''],
      kb_anti_words = [''ceph''], kb_metric_name = [], kb_severity = ''high'',
      kb_root_cause = (''ZFS scrub found errors '' @ [CHR 0xE2, CHR 0x80, CHR 0x94] @ '' data corruption detected on the storage pool''),
      kb_reasoning = [''ZFS scrubs verify all data against checksums, detecting silent corruption (bit rot)'',
       ''Errors found during scrub indicate disk, controller, or cable problems'',
       ''ZFS can auto-repair from redundant copies in mirror/raidz configurations''],
      kb_impact = ''Data integrity compromised; affected files may be corrupt; failing hardware needs replacement'',
      kb_resolution_steps = [''View scrub results: zpool status -v'', ''Check which files are affected: zfs list -o space'',
       ''Replace failing drive: zpool replace <pool> <dev>'',
       ''Run another scrub after replacement: zpool scrub <pool>'', ''Verify data integrity of critical files''],
      kb_prevention = ''Schedule weekly scrubs; monitor SMART data; use ECC RAM; replace drives at first SMART warning'',
      kb_base_confidence = 75, kb_base_risk_score = 65\<rparr>,
     \<lparr>kb_id = ''storage-gluster-split-brain'', kb_category = ''storage'', kb_sub_category = ''glusterfs'',
      kb_keywords = [''gluster split brain'', ''split-brain'', ''gluster heal'', ''glusterfs split'', ''gluster arbiter''],
      kb_anti_words = [''rabbitmq partition'', ''ceph''], kb_metric_name = [], kb_severity = ''critical'',
      kb_root_cause = (''GlusterFS split-brain '' @ [CHR 0xE2, CHR 0x80, CHR 0x94] @ '' replicated volumes have diverged and cannot auto-resolve which copy is correct''),
      kb_reasoning = [''Split-brain occurs when both copies of a file are modified independently during a network partition'',
       ''GlusterFS cannot automatically determine which copy is the correct one'',
       ''Applications see different data depending on which brick they access''],
      kb_impact = ''Data inconsistency; applications may see stale or wrong data; manual resolution required'',
      kb_resolution_steps = [''Check for split-brain: gluster volume heal <vol> info split-brain'',
       ''Identify affected files: gluster volume heal <vol> info'',
       ''Resolve by choosing the correct copy: gluster volume heal <vol> split-brain source-brick <brick> <file>'',
       ''Alternatively, use the bigger-file or latest-mtime policy'',
       ''Trigger a full heal: gluster volume heal <vol> full''],
      kb_prevention = ''Use arbiter volumes (3-way with arbiter); ensure reliable network between bricks; monitor heal status'',
      kb_base_confidence = 80, kb_base_risk_score = 80\<rparr>,
     \<lparr>kb_id = ''storage-gluster-heal-failed'', kb_category = ''storage'', kb_sub_category = ''glusterfs'',
      kb_keywords = [''gluster heal failed'', ''heal pending'', ''gluster heal'', ''heal crawl'', ''entries to heal''],
      kb_anti_words = [''ceph'', ''zfs''], kb_metric_name = [], kb_severity = ''high'',
      kb_root_cause = (''GlusterFS heal failing '' @ [CHR 0xE2, CHR 0x80, CHR 0x94] @ '' the self-heal daemon cannot repair data inconsistencies between bricks''),
      kb_reasoning = [''Heal failures can be caused by the self-heal daemon being stopped or overloaded'',
       ''Disk I/O issues on the bricks prevent heal operations from completing'',
       ''Too many pending heals can overwhelm the heal daemon''],
      kb_impact = ''Data inconsistencies persist; some files may be stale on some bricks; reduced redundancy'',
      kb_resolution_steps = [''Check heal status: gluster volume heal <vol> info'', ''Check self-heal daemon: gluster volume status <vol>'',
       ''Restart self-heal if needed: gluster volume heal <vol> enable'',
       ''Check brick disk health: df -h and iostat on brick hosts'',
       ''Trigger full heal: gluster volume heal <vol> full''],
      kb_prevention = ''Monitor heal entry count; ensure adequate brick disk I/O capacity; monitor self-heal daemon health'',
      kb_base_confidence = 70, kb_base_risk_score = 60\<rparr>,
     \<lparr>kb_id = ''storage-lvm-thinpool-full'', kb_category = ''storage'', kb_sub_category = ''lvm'',
      kb_keywords = [''thin pool full'', ''lvm thin'', ''data percent'', ''metadata percent'', ''thinpool exhausted''],
      kb_anti_words = [''devicemapper docker''], kb_metric_name = [], kb_severity = ''critical'',
      kb_root_cause = (''LVM thin pool is full '' @ [CHR 0xE2, CHR 0x80, CHR 0x94] @ '' no space available for new allocations in the thin-provisioned pool''),
      kb_reasoning = [''Thin pools can be over-provisioned, allowing more logical volume space than physical storage'',
       ''When physical storage is exhausted, all thin volumes writing data will fail'',
       ''Metadata pool exhaustion is even more critical and can make the pool unusable''],
      kb_impact = ''All write operations to thin volumes fail; databases crash; applications hang'',
      kb_resolution_steps = [''Check thin pool usage: lvs -o+data_percent,metadata_percent'',
       ''Extend the thin pool: lvextend -L +50G <vg/thinpool>'', ''Remove unused thin volumes: lvremove <vg/lv>'',
       ''Check for metadata space: lvextend --poolmetadatasize +1G <vg/thinpool>''],
      kb_prevention = ''Monitor thin pool data and metadata usage; configure auto-extend; do not over-provision beyond 80%'',
      kb_base_confidence = 80, kb_base_risk_score = 85\<rparr>,
     \<lparr>kb_id = ''storage-iscsi-session-lost'', kb_category = ''storage'', kb_sub_category = ''iscsi'',
      kb_keywords = [''iscsi session'', ''iscsi lost'', ''iscsi timeout'', ''target unreachable'', ''iscsi reconnect''],
      kb_anti_words = [''nfs'', ''ceph''], kb_metric_name = [], kb_severity = ''high'',
      kb_root_cause = (''iSCSI session lost '' @ [CHR 0xE2, CHR 0x80, CHR 0x94] @ '' the iSCSI initiator lost connection to the target, causing storage to become unavailable''),
      kb_reasoning = [''Network disruptions between initiator and target cause session timeouts'',
       ''The default replacement_timeout (120s) determines how long I/O is held before failing'',
       ''Applications see I/O errors once the session timeout expires''],
      kb_impact = ''Block storage unavailable; applications using the iSCSI device see I/O errors; databases may crash'',
      kb_resolution_steps = [''Check iSCSI sessions: iscsiadm -m session'', ''Check for connectivity: ping <iscsi-target>'',
       ''Reconnect session: iscsiadm -m node -T <target-iqn> -p <ip>:3260 --login'',
       ''Check multipath if configured: multipath -ll'',
       ''Verify the target is accepting sessions: check target-side logs''],
      kb_prevention = ''Use multipath for redundancy; configure proper timeouts; monitor iSCSI session health; use redundant networks'',
      kb_base_confidence = 75, kb_base_risk_score = 70\<rparr>]"

definition advanced_storage_entries :: "KnowledgeEntry list" where
  "advanced_storage_entries = advanced_storage_entries_1 @ advanced_storage_entries_2"

definition advanced_monitoring_entries_1 :: "KnowledgeEntry list" where
  "advanced_monitoring_entries_1 =
    [\<lparr>kb_id = ''mon-prometheus-target-down'', kb_category = ''monitoring'', kb_sub_category = ''prometheus'',
      kb_keywords = [''prometheus target down'', ''target down'', ''scrape failed'', ''endpoint down'', ''up == 0''],
      kb_anti_words = [''grafana'', ''elasticsearch''], kb_metric_name = [], kb_severity = ''high'',
      kb_root_cause = (''Prometheus scrape target is down '' @ [CHR 0xE2, CHR 0x80, CHR 0x94] @ '' metrics are no longer being collected from one or more endpoints''),
      kb_reasoning = [''Target down means Prometheus cannot reach the metrics endpoint'',
       ''The target service may have crashed, or a network/firewall change blocked access'',
       ''Missing metrics means alerting rules for the target will not fire''],
      kb_impact = ''Gap in metrics collection; alerting disabled for the target; SLO tracking inaccurate'',
      kb_resolution_steps = [''Check Prometheus targets page: http://<prometheus>:9090/targets'',
       ''Test the target endpoint: curl -v http://<target>:<port>/metrics'',
       ''Check target service status: systemctl status <service>'',
       ''Check network/firewall between Prometheus and target'', ''Check Prometheus service discovery configuration''],
      kb_prevention = ''Alert on up metric = 0; use blackbox exporter for synthetic checks; monitor Prometheus itself; use federation for HA'',
      kb_base_confidence = 75, kb_base_risk_score = 60\<rparr>,
     \<lparr>kb_id = ''mon-prometheus-scrape-timeout'', kb_category = ''monitoring'', kb_sub_category = ''prometheus'',
      kb_keywords = [''scrape timeout'', ''prometheus timeout'', ''context deadline exceeded scrape'', ''scrape duration''],
      kb_anti_words = [''grafana''], kb_metric_name = [], kb_severity = ''medium'',
      kb_root_cause = (''Prometheus scrape timeout '' @ [CHR 0xE2, CHR 0x80, CHR 0x94] @ '' the target is too slow to respond with metrics within the scrape interval''),
      kb_reasoning = [''Targets with many metrics or expensive metric collection take longer to respond'',
       ''The default scrape_timeout (10s) may be insufficient for large targets'',
       ''Target CPU exhaustion or lock contention can slow the metrics endpoint''],
      kb_impact = ''Intermittent metrics gaps; some scrapes succeed, others timeout; unreliable alerting'',
      kb_resolution_steps = [''Check scrape duration: query prometheus_target_scrape_pool_exceeded_target_limit'',
       ''Increase scrape_timeout in Prometheus config for slow targets'',
       (''Optimize the target'' @ [CHR 0x27] @ ''s metric collection: reduce cardinality''),
       ''Check target performance: profile the /metrics endpoint'',
       ''Split high-cardinality metrics into separate endpoints''],
      kb_prevention = ''Set appropriate scrape_timeout per target; monitor scrape duration; limit metric cardinality'',
      kb_base_confidence = 65, kb_base_risk_score = 40\<rparr>,
     \<lparr>kb_id = ''mon-prometheus-tsdb-corruption'', kb_category = ''monitoring'', kb_sub_category = ''prometheus'',
      kb_keywords = [''TSDB corruption'', ''WAL corruption'', ''prometheus data'', ''checkpoint error'', ''compaction error''],
      kb_anti_words = [''elasticsearch''], kb_metric_name = [], kb_severity = ''critical'',
      kb_root_cause = (''Prometheus TSDB corruption '' @ [CHR 0xE2, CHR 0x80, CHR 0x94] @ '' the time-series database is corrupted, preventing proper metric storage and querying''),
      kb_reasoning = [''TSDB corruption can result from unclean shutdown (power loss, OOM kill)'',
       ''Disk failures or filesystem errors cause write-ahead log corruption'',
       ''Running out of disk space during compaction can corrupt data blocks''],
      kb_impact = ''Historical metrics lost; queries fail or return incorrect data; alerting may be disrupted'',
      kb_resolution_steps = [(''Check Prometheus logs: journalctl -u prometheus --since '' @ [CHR 0x27] @ ''1 hour ago'' @ [CHR 0x27]),
       ''If WAL corruption, try to repair: promtool tsdb clean-tombstones <data-dir>'',
       ''As last resort, remove corrupt WAL: rm -rf <data-dir>/wal/ (loses recent data)'',
       ''Restart Prometheus: systemctl restart prometheus'', ''Verify data integrity: promtool tsdb list <data-dir>''],
      kb_prevention = ''Monitor disk space; use UPS for clean shutdowns; take snapshots; use Prometheus with Thanos/Cortex for HA'',
      kb_base_confidence = 80, kb_base_risk_score = 80\<rparr>,
     \<lparr>kb_id = ''mon-grafana-datasource-error'', kb_category = ''monitoring'', kb_sub_category = ''grafana'',
      kb_keywords = [''grafana datasource'', ''datasource error'', ''grafana connection'', ''datasource unreachable'',
       ''grafana proxy error''],
      kb_anti_words = [''prometheus''], kb_metric_name = [], kb_severity = ''medium'',
      kb_root_cause = (''Grafana datasource error '' @ [CHR 0xE2, CHR 0x80, CHR 0x94] @ '' Grafana cannot connect to the configured data source (Prometheus, InfluxDB, etc.)''),
      kb_reasoning = [''Network changes or credential rotation can break datasource connectivity'',
       ''The datasource service may be down or overloaded'',
       ''Incorrect URL or authentication configuration in Grafana''],
      kb_impact = ''Dashboards show no data or errors; monitoring visibility lost; on-call responders lack dashboards'',
      kb_resolution_steps = [''Test datasource in Grafana: Settings > Data Sources > Test'',
       ''Verify the datasource URL is reachable from Grafana: curl http://<datasource-url>'',
       ''Check datasource credentials: ensure API keys or passwords are current'',
       ''Check Grafana logs: tail -100 /var/log/grafana/grafana.log''],
      kb_prevention = ''Monitor Grafana datasource health; use provisioned datasources; rotate credentials in both Grafana and the source'',
      kb_base_confidence = 70, kb_base_risk_score = 45\<rparr>,
     \<lparr>kb_id = ''mon-grafana-dashboard-timeout'', kb_category = ''monitoring'', kb_sub_category = ''grafana'',
      kb_keywords = [''grafana timeout'', ''dashboard timeout'', ''panel timeout'', ''query timeout grafana'', ''grafana slow''],
      kb_anti_words = [''datasource error''], kb_metric_name = [], kb_severity = ''medium'',
      kb_root_cause = (''Grafana dashboard timeout '' @ [CHR 0xE2, CHR 0x80, CHR 0x94] @ '' dashboard queries are taking too long to return results''),
      kb_reasoning = [''Complex PromQL/SQL queries with high cardinality or long time ranges are slow'',
       ''Multiple panels querying simultaneously can overload the datasource'',
       ''Missing recording rules for frequently-used queries cause repeated expensive computation''],
      kb_impact = ''Dashboards unusable during incidents; monitoring visibility degraded when needed most'',
      kb_resolution_steps = [''Simplify the query: reduce time range or add label selectors'',
       ''Create recording rules for complex queries used in dashboards'',
       ''Increase query timeout in Grafana: dataproxy.timeout in grafana.ini'',
       ''Reduce dashboard panel count: split into multiple dashboards'',
       ''Check datasource performance: is Prometheus/InfluxDB overloaded?''],
      kb_prevention = ''Use recording rules for dashboard queries; limit dashboard time ranges; optimize high-cardinality queries'',
      kb_base_confidence = 65, kb_base_risk_score = 35\<rparr>,
     \<lparr>kb_id = ''mon-elk-cluster-red'', kb_category = ''monitoring'', kb_sub_category = ''elasticsearch'',
      kb_keywords = [''elasticsearch red'', ''cluster red'', ''elasticsearch health'', ''index red'', ''shard unassigned''],
      kb_anti_words = [''grafana'', ''prometheus''], kb_metric_name = [], kb_severity = ''critical'',
      kb_root_cause = (''Elasticsearch cluster status is RED '' @ [CHR 0xE2, CHR 0x80, CHR 0x94] @ '' one or more primary shards are unassigned, causing data unavailability''),
      kb_reasoning = [''A red cluster means some indices have primary shards that are not allocated to any node'',
       ''Node failures, disk watermark breaches, or insufficient nodes cause unassigned shards'',
       ''Searches and writes to affected indices fail or return incomplete results''],
      kb_impact = ''Log search returns incomplete results; some log data inaccessible; alerting based on logs may miss events'',
      kb_resolution_steps = [''Check cluster health: curl -s localhost:9200/_cluster/health | jq'',
       ''Find unassigned shards: curl -s localhost:9200/_cat/shards?h=index,shard,prirep,state,unassigned.reason | grep UNASSIGNED'',
       ''Check node status: curl -s localhost:9200/_cat/nodes?v'',
       ''Reroute stuck shards: curl -XPOST localhost:9200/_cluster/reroute?retry_failed=true'',
       ''Check disk watermarks: curl -s localhost:9200/_cat/allocation?v''],
      kb_prevention = ''Monitor cluster health; set appropriate disk watermarks; maintain adequate node capacity; use ILM for old indices'',
      kb_base_confidence = 85, kb_base_risk_score = 85\<rparr>,
     \<lparr>kb_id = ''mon-elk-index-readonly'', kb_category = ''monitoring'', kb_sub_category = ''elasticsearch'',
      kb_keywords = [''index read-only'', ''read_only_allow_delete'', ''elasticsearch readonly'', ''index blocked'',
       ''cluster_block_exception''],
      kb_anti_words = [''grafana''], kb_metric_name = [], kb_severity = ''high'',
      kb_root_cause = (''Elasticsearch index set to read-only '' @ [CHR 0xE2, CHR 0x80, CHR 0x94] @ '' disk watermark was breached causing automatic write block''),
      kb_reasoning = [''When disk usage exceeds the flood_stage watermark (95%), ES sets all indices to read-only'',
       ''This prevents disk full from crashing the entire cluster'',
       ''New log ingestion stops, causing a gap in log data''],
      kb_impact = ''No new data can be written; log ingestion stopped; alerting and dashboards use stale data'',
      kb_resolution_steps = [''Check disk usage: curl -s localhost:9200/_cat/allocation?v'',
       ''Free disk space: delete old indices with ILM or manually: curl -XDELETE localhost:9200/<old-index>'',
       (''Remove read-only block: curl -XPUT localhost:9200/_all/_settings -H '' @ [CHR 0x27] @ ''Content-Type: application/json'' @ [CHR 0x27] @ '' -d '' @ [CHR 0x27] @ ''{'' @ [CHR 0x22] @ ''index.blocks.read_only_allow_delete'' @ [CHR 0x22] @ '': null}'' @ [CHR 0x27]),
       ''Add disk capacity or move data to a larger volume''],
      kb_prevention = ''Configure ILM to auto-delete old indices; set disk alerts at 80%; monitor index sizes; use hot-warm architecture'',
      kb_base_confidence = 80, kb_base_risk_score = 70\<rparr>,
     \<lparr>kb_id = ''mon-fluentd-buffer-overflow'', kb_category = ''monitoring'', kb_sub_category = ''log-collector'',
      kb_keywords = [''fluentd buffer'', ''fluentbit buffer'', ''buffer overflow'', ''buffer full'', ''buffer_queue_full''],
      kb_anti_words = [''rabbitmq buffer''], kb_metric_name = [], kb_severity = ''high'',
      kb_root_cause = (''Fluentd/Fluent Bit buffer overflow '' @ [CHR 0xE2, CHR 0x80, CHR 0x94] @ '' the log forwarder'' @ [CHR 0x27] @ ''s buffer is full and logs are being dropped''),
      kb_reasoning = [''Buffer overflow occurs when the output destination is slower than the input rate'',
       ''Network issues or destination unavailability cause buffer buildup'',
       ''Insufficient buffer size configuration for the log volume''],
      kb_impact = ''Log data loss; gaps in centralized logging; compliance and audit issues; incident investigation hindered'',
      kb_resolution_steps = [''Check fluentd status: fluent-cat --monitor or check /api/plugins.json endpoint'',
       ''Increase buffer size: configure total_limit_size and chunk_limit_size'',
       ''Check output destination health: verify Elasticsearch/S3/etc. is accepting logs'',
       ''Use file-based buffer instead of memory: set buffer type to file'',
       ''Reduce log volume: filter unnecessary log lines before forwarding''],
      kb_prevention = ''Use file-based buffers; monitor buffer utilization; set adequate buffer sizes; implement back-pressure handling'',
      kb_base_confidence = 75, kb_base_risk_score = 60\<rparr>,
     \<lparr>kb_id = ''mon-fluentd-output-retry'', kb_category = ''monitoring'', kb_sub_category = ''log-collector'',
      kb_keywords = [''fluentd retry'', ''fluentbit retry'', ''output retry'', ''retry limit'', ''retry exceeded''],
      kb_anti_words = [''rabbitmq retry''], kb_metric_name = [], kb_severity = ''medium'',
      kb_root_cause = (''Fluentd/Fluent Bit output retries exhausted '' @ [CHR 0xE2, CHR 0x80, CHR 0x94] @ '' the log forwarder cannot deliver logs to the destination''),
      kb_reasoning = [''Output plugins retry on failure with exponential backoff'',
       ''After exhausting retry limits, chunks are either dropped or moved to a secondary output'',
       ''Persistent destination unavailability causes all retries to fail''],
      kb_impact = ''Log chunks permanently lost if no secondary configured; gaps in centralized logging'',
      kb_resolution_steps = [''Check retry metrics: look for retry_count in fluentd monitoring'',
       ''Verify destination connectivity and health'',
       ''Increase retry limits: retry_max_times and retry_wait configuration'',
       ''Configure a secondary output for failed chunks: add <secondary> block'',
       ''Restart fluentd after fixing the destination: systemctl restart td-agent''],
      kb_prevention = ''Configure secondary output for failures; use persistent file buffers; monitor retry rates; ensure destination HA'',
      kb_base_confidence = 65, kb_base_risk_score = 50\<rparr>]"

definition advanced_monitoring_entries_2 :: "KnowledgeEntry list" where
  "advanced_monitoring_entries_2 =
    [\<lparr>kb_id = ''mon-otel-collector-blocked'', kb_category = ''monitoring'', kb_sub_category = ''opentelemetry'',
      kb_keywords = [''otel collector'', ''pipeline blocked'', ''opentelemetry blocked'', ''collector backpressure'',
       ''otel queue full''],
      kb_anti_words = [''prometheus''], kb_metric_name = [], kb_severity = ''high'',
      kb_root_cause = (''OpenTelemetry Collector pipeline blocked '' @ [CHR 0xE2, CHR 0x80, CHR 0x94] @ '' data is backing up due to exporter issues or resource limits''),
      kb_reasoning = [''Exporter failures (backend unreachable) cause the pipeline to apply back-pressure'',
       ''Queue size limits reached cause data to be dropped'',
       ''CPU or memory exhaustion on the collector host also causes blocking''],
      kb_impact = ''Telemetry data (traces, metrics, logs) lost; observability gaps; incident response hampered'',
      kb_resolution_steps = [''Check collector health: curl http://<collector>:13133/'',
       ''Review collector logs for errors: journalctl -u otel-collector'',
       ''Check exporter destination health and connectivity'', ''Increase queue_size in the exporter configuration'',
       ''Scale collector replicas if CPU/memory constrained''],
      kb_prevention = ''Monitor collector health; use persistent queue; scale collectors; configure retry with back-off; set adequate resources'',
      kb_base_confidence = 70, kb_base_risk_score = 60\<rparr>,
     \<lparr>kb_id = ''mon-otel-export-failed'', kb_category = ''monitoring'', kb_sub_category = ''opentelemetry'',
      kb_keywords = [''otel export failed'', ''otlp export'', ''exporter error'', ''export deadline'', ''otel sending failed''],
      kb_anti_words = [''prometheus export''], kb_metric_name = [], kb_severity = ''high'',
      kb_root_cause = (''OpenTelemetry export failed '' @ [CHR 0xE2, CHR 0x80, CHR 0x94] @ '' the collector cannot send telemetry data to the backend''),
      kb_reasoning = [''Export failures indicate the backend (Jaeger, Tempo, Loki, etc.) is unreachable or rejecting data'',
       ''gRPC deadline exceeded errors suggest the backend is too slow to accept data'',
       ''Authentication or certificate issues prevent the OTLP connection''],
      kb_impact = ''Traces, metrics, and logs not delivered to the backend; observability data lost'',
      kb_resolution_steps = [''Check backend connectivity: test endpoint from collector host'',
       ''Verify authentication credentials in the collector config'',
       ''Check for TLS/certificate issues in OTLP connection'',
       ''Increase export timeout: set timeout in exporter config'',
       ''Check backend capacity: is Jaeger/Tempo/etc. overloaded?''],
      kb_prevention = ''Monitor export success rate; use retry with back-off; configure adequate timeouts; ensure backend HA'',
      kb_base_confidence = 70, kb_base_risk_score = 55\<rparr>,
     \<lparr>kb_id = ''mon-alertmanager-notification-failed'', kb_category = ''monitoring'', kb_sub_category = ''alerting'',
      kb_keywords = [''alertmanager failed'', ''notification failed'', ''alert not sent'', ''alertmanager error'',
       ''notification error''],
      kb_anti_words = [''prometheus scrape''], kb_metric_name = [], kb_severity = ''high'',
      kb_root_cause = (''Alertmanager notification delivery failed '' @ [CHR 0xE2, CHR 0x80, CHR 0x94] @ '' alerts are firing but notifications are not reaching the on-call team''),
      kb_reasoning = [''Notification failures mean critical alerts are not reaching engineers'',
       ''Webhook endpoints, Slack, PagerDuty, or email may be misconfigured or unreachable'',
       ''Alertmanager silences or inhibition rules may be incorrectly suppressing alerts''],
      kb_impact = ''On-call team unaware of incidents; increased MTTR; SLA violations'',
      kb_resolution_steps = [''Check Alertmanager UI for failed notifications: http://<alertmanager>:9093'',
       ''Test notification endpoint manually: curl the webhook URL'',
       ''Check Alertmanager logs: journalctl -u alertmanager'', ''Verify receiver configuration in alertmanager.yml'',
       ''Check for active silences that may be suppressing alerts''],
      kb_prevention = ''Test notification pipelines regularly; monitor Alertmanager notification success; use multiple notification channels'',
      kb_base_confidence = 80, kb_base_risk_score = 75\<rparr>,
     \<lparr>kb_id = ''mon-prometheus-high-cardinality'', kb_category = ''monitoring'', kb_sub_category = ''prometheus'',
      kb_keywords = [''high cardinality'', ''too many time series'', ''label explosion'', ''series count'', ''cardinality limit''],
      kb_anti_words = [''grafana''], kb_metric_name = [], kb_severity = ''medium'',
      kb_root_cause = (''Prometheus high cardinality '' @ [CHR 0xE2, CHR 0x80, CHR 0x94] @ '' too many time series are being created, consuming excessive memory''),
      kb_reasoning = [''Each unique combination of metric name and label values creates a new time series'',
       ''Labels with high cardinality (user IDs, request IDs, IP addresses) cause exponential series growth'',
       ''Prometheus memory usage scales linearly with the number of active time series''],
      kb_impact = ''Prometheus OOM risk; slow queries; high memory and storage usage; scrape performance degradation'',
      kb_resolution_steps = [(''Find high-cardinality metrics: query topk(10, count by (__name__)({__name__=~'' @ [CHR 0x27] @ ''.+'' @ [CHR 0x27] @ ''}))''),
       ''Use relabeling to drop unnecessary labels: metric_relabel_configs in Prometheus config'',
       ''Fix the source: remove high-cardinality labels from application metrics'',
       ''Set per-target series limits: sample_limit in scrape_config''],
      kb_prevention = ''Review metric cardinality before deploying; avoid user/request IDs as labels; use histograms instead of per-value metrics'',
      kb_base_confidence = 70, kb_base_risk_score = 50\<rparr>,
     \<lparr>kb_id = ''mon-prometheus-oom'', kb_category = ''monitoring'', kb_sub_category = ''prometheus'',
      kb_keywords = [''prometheus oom'', ''prometheus killed'', ''prometheus out of memory'', ''prometheus memory''],
      kb_anti_words = [''grafana'', ''elasticsearch''], kb_metric_name = [], kb_severity = ''critical'',
      kb_root_cause = (''Prometheus OOM killed '' @ [CHR 0xE2, CHR 0x80, CHR 0x94] @ '' Prometheus consumed too much memory and was killed by the system OOM killer''),
      kb_reasoning = [''Prometheus keeps all active time series in memory'',
       ''High cardinality metrics, many scrape targets, or long retention with WAL can exhaust memory'',
       ''Complex queries or large query results also consume significant memory''],
      kb_impact = ''Complete monitoring outage; no metrics collection; all alerts based on Prometheus stop firing'',
      kb_resolution_steps = [''Restart Prometheus: systemctl restart prometheus'', ''Check OOM event: dmesg -T | grep -i prometheus'',
       ''Reduce series count: drop unnecessary metrics with relabeling'',
       ''Increase memory limit: adjust systemd MemoryMax or container limits'',
       ''Reduce retention: --storage.tsdb.retention.time=7d''],
      kb_prevention = ''Monitor Prometheus memory usage; control cardinality; set memory limits with headroom; use Thanos for long-term storage'',
      kb_base_confidence = 85, kb_base_risk_score = 80\<rparr>]"

definition advanced_monitoring_entries :: "KnowledgeEntry list" where
  "advanced_monitoring_entries = advanced_monitoring_entries_1 @ advanced_monitoring_entries_2"

definition advanced_api_entries_1 :: "KnowledgeEntry list" where
  "advanced_api_entries_1 =
    [\<lparr>kb_id = ''api-rate-limit-429'', kb_category = ''api'', kb_sub_category = ''rate-limit'',
      kb_keywords = [''429'', ''rate limit'', ''too many requests'', ''throttled'', ''rate exceeded''],
      kb_anti_words = [''sqs throttle''], kb_metric_name = [], kb_severity = ''high'',
      kb_root_cause = (''API rate limit hit (HTTP 429) '' @ [CHR 0xE2, CHR 0x80, CHR 0x94] @ '' the client has exceeded the allowed request rate''),
      kb_reasoning = [''Rate limiting protects the API from abuse and overload'',
       ''Retry storms can worsen the situation if clients retry immediately without backoff'',
       ''Multiple clients behind the same IP or API key share the rate limit''],
      kb_impact = ''API requests rejected; feature degradation for users; retry storms can cascade'',
      kb_resolution_steps = [''Check rate limit headers: X-RateLimit-Remaining, Retry-After'',
       ''Implement exponential backoff with jitter in the client'',
       ''Request a rate limit increase from the API provider'', ''Cache responses to reduce request frequency'',
       ''Distribute requests across multiple API keys if allowed''],
      kb_prevention = ''Implement client-side rate limiting; use exponential backoff; cache responses; monitor rate limit headers'',
      kb_base_confidence = 80, kb_base_risk_score = 55\<rparr>,
     \<lparr>kb_id = ''api-circuit-breaker-open'', kb_category = ''api'', kb_sub_category = ''resilience'',
      kb_keywords = [''circuit breaker'', ''circuit open'', ''fallback triggered'', ''circuit breaker opened'', ''hystrix''],
      kb_anti_words = [''electrical circuit''], kb_metric_name = [], kb_severity = ''high'',
      kb_root_cause = (''Circuit breaker opened '' @ [CHR 0xE2, CHR 0x80, CHR 0x94] @ '' the downstream service has been failing and the circuit breaker is preventing further requests''),
      kb_reasoning = [''Circuit breakers open after a threshold of failures to prevent cascading failures'',
       ''While open, all requests immediately fail with a fallback response'',
       ''The circuit breaker will periodically try half-open state to test recovery''],
      kb_impact = ''Downstream service calls fail fast; degraded functionality; fallback responses served to users'',
      kb_resolution_steps = [''Identify the downstream service that triggered the circuit breaker'',
       ''Check downstream service health and fix the root cause'',
       ''Monitor the circuit breaker state: check metrics for open/half-open/closed transitions'',
       ''Once downstream recovers, the circuit breaker will auto-close'',
       ''If urgent, manually reset the circuit breaker if the framework supports it''],
      kb_prevention = ''Set appropriate failure thresholds; implement meaningful fallbacks; monitor circuit breaker state; fix downstream issues promptly'',
      kb_base_confidence = 75, kb_base_risk_score = 60\<rparr>,
     \<lparr>kb_id = ''api-payload-too-large-413'', kb_category = ''api'', kb_sub_category = ''request'',
      kb_keywords = [''413'', ''payload too large'', ''request entity too large'', ''body too large'', ''content-length exceeded''],
      kb_anti_words = [''disk full''], kb_metric_name = [], kb_severity = ''medium'',
      kb_root_cause = (''Request payload too large (HTTP 413) '' @ [CHR 0xE2, CHR 0x80, CHR 0x94] @ '' the request body exceeds the server'' @ [CHR 0x27] @ ''s maximum allowed size''),
      kb_reasoning = [''Web servers and reverse proxies have configurable maximum request body sizes'',
       ''Nginx default is 1MB (client_max_body_size); most frameworks have similar limits'',
       ''File uploads, batch API calls, or large JSON payloads can exceed these limits''],
      kb_impact = ''Request rejected; file uploads fail; batch operations fail; client receives 413 error'',
      kb_resolution_steps = [''Increase the limit in the web server: nginx: client_max_body_size 50m'',
       ''Increase in the application framework if applicable'', ''Implement chunked upload for large files'',
       ''Compress the request body if the server supports it'', ''Split large batch requests into smaller ones''],
      kb_prevention = ''Set appropriate body size limits; implement chunked uploads; document API size limits; validate client-side'',
      kb_base_confidence = 75, kb_base_risk_score = 35\<rparr>,
     \<lparr>kb_id = ''api-method-not-allowed-405'', kb_category = ''api'', kb_sub_category = ''routing'',
      kb_keywords = [''405'', ''method not allowed'', ''http method'', ''wrong method'', ''method not supported''],
      kb_anti_words = [''cors''], kb_metric_name = [], kb_severity = ''low'',
      kb_root_cause = (''HTTP 405 Method Not Allowed '' @ [CHR 0xE2, CHR 0x80, CHR 0x94] @ '' the request used an HTTP method not supported by the endpoint''),
      kb_reasoning = [''The endpoint exists but does not accept the HTTP method used (e.g., POST to a GET-only endpoint)'',
       ''API version changes may have altered supported methods'',
       ''Client-side bugs or incorrect API documentation cause method mismatches''],
      kb_impact = ''Specific API operations fail; usually affects a single integration or client'',
      kb_resolution_steps = [''Check the correct HTTP method in API documentation'',
       ''Verify the endpoint URL is correct (no typos or wrong version)'',
       ''Check if the API version has changed methods: review changelog'',
       ''Fix the client to use the correct method''],
      kb_prevention = ''Document supported methods per endpoint; use OpenAPI/Swagger for API contracts; version APIs properly'',
      kb_base_confidence = 70, kb_base_risk_score = 25\<rparr>,
     \<lparr>kb_id = ''api-service-mesh-sidecar-failed'', kb_category = ''api'', kb_sub_category = ''service-mesh'',
      kb_keywords = [''sidecar injection'', ''sidecar failed'', ''envoy sidecar'', ''istio inject'', ''sidecar container''],
      kb_anti_words = [''motorcycle sidecar''], kb_metric_name = [], kb_severity = ''high'',
      kb_root_cause = (''Service mesh sidecar injection failed '' @ [CHR 0xE2, CHR 0x80, CHR 0x94] @ '' the proxy sidecar container could not be injected or started''),
      kb_reasoning = [''Sidecar injection is done by a mutating webhook that modifies the pod spec'',
       ''If the webhook is down or misconfigured, pods may be created without sidecars'',
       ''Resource limits on the sidecar may prevent it from starting''],
      kb_impact = ''Pod cannot communicate via the service mesh; mTLS and traffic policies not enforced; service discovery broken'',
      kb_resolution_steps = [''Check webhook status: kubectl get mutatingwebhookconfigurations'',
       ''Check sidecar container logs: kubectl logs <pod> -c istio-proxy'',
       ''Verify namespace label: kubectl get namespace <ns> --show-labels'',
       ''Restart the sidecar injector: kubectl rollout restart deploy/istiod -n istio-system'',
       ''Recreate the pod to trigger re-injection: kubectl delete pod <pod>''],
      kb_prevention = ''Monitor sidecar injection success; set resource requests/limits for sidecars; validate webhook health'',
      kb_base_confidence = 70, kb_base_risk_score = 60\<rparr>,
     \<lparr>kb_id = ''api-service-mesh-mtls-error'', kb_category = ''api'', kb_sub_category = ''service-mesh'',
      kb_keywords = [''mtls error'', ''mutual tls'', ''peer certificate'', ''tls handshake mesh'', ''mtls handshake''],
      kb_anti_words = [''cors''], kb_metric_name = [], kb_severity = ''high'',
      kb_root_cause = (''Service mesh mTLS handshake error '' @ [CHR 0xE2, CHR 0x80, CHR 0x94] @ '' mutual TLS authentication between services is failing''),
      kb_reasoning = [''mTLS requires both client and server to present valid certificates'',
       ''Certificate rotation issues or mismatched root CAs cause handshake failures'',
       ''Services without sidecars trying to communicate with mesh services fail mTLS''],
      kb_impact = ''Inter-service communication fails; requests rejected by the proxy; cascading failures'',
      kb_resolution_steps = [''Check sidecar proxy logs: kubectl logs <pod> -c istio-proxy | grep -i tls'',
       ''Verify certificate validity: istioctl proxy-config secret <pod>'',
       ''Check mesh-wide mTLS policy: kubectl get peerauthentication -A'',
       ''Set PERMISSIVE mode temporarily to diagnose: update PeerAuthentication'',
       (''Check if the calling service has a sidecar: kubectl get pod <pod> -o jsonpath='' @ [CHR 0x27] @ ''{.spec.containers[*].name}'' @ [CHR 0x27])],
      kb_prevention = ''Monitor certificate expiry; use automatic certificate rotation; validate mTLS in staging; use PERMISSIVE mode during migration'',
      kb_base_confidence = 70, kb_base_risk_score = 65\<rparr>,
     \<lparr>kb_id = ''api-grpc-deadline-exceeded'', kb_category = ''api'', kb_sub_category = ''grpc'',
      kb_keywords = [''grpc deadline exceeded'', ''deadline exceeded'', ''DEADLINE_EXCEEDED'', ''grpc timeout'',
       ''context deadline''],
      kb_anti_words = [''prometheus scrape''], kb_metric_name = [], kb_severity = ''high'',
      kb_root_cause = (''gRPC DEADLINE_EXCEEDED '' @ [CHR 0xE2, CHR 0x80, CHR 0x94] @ '' the RPC call did not complete within the client-specified deadline''),
      kb_reasoning = [''gRPC deadlines propagate through the call chain, so upstream timeouts propagate to downstream calls'',
       ''Server overload, slow databases, or network latency cause the server to miss the deadline'',
       ''Deadline budgets need careful tuning across the call chain''],
      kb_impact = ''RPC calls fail; cascading failures if many calls exceed deadline; user-facing latency spikes'',
      kb_resolution_steps = [''Increase the client deadline if operations legitimately take longer'',
       ''Check server-side processing time: profile the RPC handler'',
       ''Check for downstream dependencies slowing the response'',
       ''Add deadline awareness: propagate remaining deadline to downstream calls'',
       ''Implement retry with reduced scope for transient failures''],
      kb_prevention = ''Set appropriate deadlines per RPC; propagate deadline budgets; profile RPC latency; implement deadline-aware retries'',
      kb_base_confidence = 75, kb_base_risk_score = 60\<rparr>,
     \<lparr>kb_id = ''api-grpc-resource-exhausted'', kb_category = ''api'', kb_sub_category = ''grpc'',
      kb_keywords = [''RESOURCE_EXHAUSTED'', ''grpc resource'', ''max message size'', ''grpc memory'', ''grpc limit''],
      kb_anti_words = [''deadline''], kb_metric_name = [], kb_severity = ''high'',
      kb_root_cause = (''gRPC RESOURCE_EXHAUSTED '' @ [CHR 0xE2, CHR 0x80, CHR 0x94] @ '' the request or response exceeded resource limits (message size, concurrent streams)''),
      kb_reasoning = [''Default gRPC max message size is 4MB; large payloads exceed this limit'',
       ''Max concurrent streams per connection can be exhausted under high load'',
       ''Server-side memory limits may reject large requests''],
      kb_impact = ''Large RPC calls fail; bulk data operations broken; streaming RPCs disrupted'',
      kb_resolution_steps = [''Increase max message size: set MaxRecvMsgSize/MaxSendMsgSize in gRPC options'',
       ''Implement pagination for large result sets'',
       ''Use gRPC streaming for bulk data transfer instead of single large messages'',
       ''Check concurrent stream limits: increase MaxConcurrentStreams''],
      kb_prevention = ''Use streaming for large data; set appropriate message size limits; paginate responses; monitor message sizes'',
      kb_base_confidence = 70, kb_base_risk_score = 55\<rparr>,
     \<lparr>kb_id = ''api-grpc-stream-reset'', kb_category = ''api'', kb_sub_category = ''grpc'',
      kb_keywords = [''grpc stream reset'', ''stream RST_STREAM'', ''grpc stream error'', ''INTERNAL grpc'', ''stream terminated''],
      kb_anti_words = [''http2 stream''], kb_metric_name = [], kb_severity = ''medium'',
      kb_root_cause = (''gRPC stream reset '' @ [CHR 0xE2, CHR 0x80, CHR 0x94] @ '' the RPC stream was unexpectedly terminated by the server or an intermediary''),
      kb_reasoning = [''Stream resets can be caused by server crashes, load balancer timeouts, or proxy issues'',
       ''HTTP/2 RST_STREAM frames from intermediaries (envoy, nginx) reset the gRPC stream'',
       ''gRPC keepalive settings mismatch between client and server cause disconnections''],
      kb_impact = ''In-flight RPCs fail; streaming data transfers interrupted; client must reconnect and retry'',
      kb_resolution_steps = [''Check server logs for crashes or errors around the reset time'',
       ''Verify keepalive settings match between client and server'',
       ''Check intermediary (envoy/nginx) logs for timeout or RST reasons'',
       ''Adjust load balancer idle timeout to exceed the keepalive interval''],
      kb_prevention = ''Configure consistent keepalive settings; set appropriate LB timeouts; monitor stream error rates'',
      kb_base_confidence = 65, kb_base_risk_score = 45\<rparr>]"

definition advanced_api_entries_2 :: "KnowledgeEntry list" where
  "advanced_api_entries_2 =
    [\<lparr>kb_id = ''api-websocket-reset'', kb_category = ''api'', kb_sub_category = ''websocket'',
      kb_keywords = [''websocket reset'', ''websocket closed'', ''ws connection reset'', ''websocket error'', ''1006 abnormal''],
      kb_anti_words = [''grpc stream''], kb_metric_name = [], kb_severity = ''medium'',
      kb_root_cause = (''WebSocket connection reset '' @ [CHR 0xE2, CHR 0x80, CHR 0x94] @ '' the WebSocket was abnormally closed without a proper close handshake''),
      kb_reasoning = [''Close code 1006 indicates the connection was lost without a close frame'',
       ''Proxies and load balancers may terminate idle WebSocket connections'',
       ''Server crashes or network interruptions cause abnormal closures''],
      kb_impact = ''Real-time communication interrupted; users must reconnect; data may be lost in transit'',
      kb_resolution_steps = [''Implement automatic reconnection with exponential backoff in the client'',
       ''Check proxy/LB WebSocket timeout settings: increase idle timeout'',
       ''Implement WebSocket ping/pong to keep connections alive'',
       ''Check server-side WebSocket handling for errors''],
      kb_prevention = ''Implement client-side reconnection; use ping/pong keepalive; configure proxy WebSocket support; monitor connection drops'',
      kb_base_confidence = 65, kb_base_risk_score = 40\<rparr>,
     \<lparr>kb_id = ''api-websocket-handshake-failed'', kb_category = ''api'', kb_sub_category = ''websocket'',
      kb_keywords = [''websocket handshake'', ''101 switching'', ''upgrade failed'', ''websocket upgrade'', ''handshake failed ws''],
      kb_anti_words = [''tls handshake''], kb_metric_name = [], kb_severity = ''high'',
      kb_root_cause = (''WebSocket handshake failed '' @ [CHR 0xE2, CHR 0x80, CHR 0x94] @ '' the HTTP Upgrade to WebSocket was rejected by the server or intermediary''),
      kb_reasoning = [''WebSocket requires HTTP/1.1 Upgrade support; HTTP/2 proxies may not forward Upgrade headers'',
       ''Reverse proxies must be explicitly configured to proxy WebSocket connections'',
       ''Missing or incorrect Sec-WebSocket-Key header causes handshake rejection''],
      kb_impact = ''WebSocket connections cannot be established; real-time features unavailable; fallback to polling if implemented'',
      kb_resolution_steps = [''Verify proxy supports WebSocket: nginx needs proxy_set_header Upgrade $http_upgrade'',
       (''Test handshake: curl -v -H '' @ [CHR 0x27] @ ''Upgrade: websocket'' @ [CHR 0x27] @ '' -H '' @ [CHR 0x27] @ ''Connection: Upgrade'' @ [CHR 0x27] @ '' http://<host>''),
       ''Check the HTTP status code: 101 expected, anything else is a failure'',
       ''Verify the backend supports WebSocket on the requested path''],
      kb_prevention = ''Configure proxies for WebSocket support; test WebSocket connectivity in CI; monitor handshake success rates'',
      kb_base_confidence = 70, kb_base_risk_score = 55\<rparr>,
     \<lparr>kb_id = ''api-graphql-complexity-exceeded'', kb_category = ''api'', kb_sub_category = ''graphql'',
      kb_keywords = [''graphql complexity'', ''query complexity'', ''depth limit'', ''graphql too complex'', ''max depth''],
      kb_anti_words = [''rest api''], kb_metric_name = [], kb_severity = ''medium'',
      kb_root_cause = (''GraphQL query complexity exceeded '' @ [CHR 0xE2, CHR 0x80, CHR 0x94] @ '' the query is too deeply nested or complex for the server to execute''),
      kb_reasoning = [''GraphQL servers limit query complexity to prevent denial-of-service attacks'',
       ''Deeply nested queries can cause N+1 query problems and exponential database load'',
       ''Complexity limits protect the server from unbounded resource consumption''],
      kb_impact = ''The specific query is rejected; client must simplify the query; feature may be partially broken'',
      kb_resolution_steps = [''Simplify the GraphQL query: reduce nesting depth'',
       ''Use pagination instead of fetching all related objects'',
       ''Request complexity limit increase if the query is legitimate'',
       ''Use persisted queries for known complex queries that are pre-approved''],
      kb_prevention = ''Use persisted queries; implement query cost analysis; set appropriate complexity limits; educate API consumers'',
      kb_base_confidence = 65, kb_base_risk_score = 35\<rparr>,
     \<lparr>kb_id = ''api-graphql-resolver-timeout'', kb_category = ''api'', kb_sub_category = ''graphql'',
      kb_keywords = [''graphql resolver timeout'', ''resolver error'', ''graphql timeout'', ''resolver failed'', ''field resolver''],
      kb_anti_words = [''rest api''], kb_metric_name = [], kb_severity = ''high'',
      kb_root_cause = (''GraphQL resolver timeout '' @ [CHR 0xE2, CHR 0x80, CHR 0x94] @ '' a field resolver took too long to return data''),
      kb_reasoning = [''Resolver timeouts indicate the underlying data source is slow or unavailable'',
       ''N+1 query problems cause resolvers to make many sequential database calls'',
       ''Missing dataloaders lead to redundant resolver calls for the same data''],
      kb_impact = ''Partial response with errors; some fields return null; degraded user experience'',
      kb_resolution_steps = [''Identify the slow resolver from the error response'',
       ''Check the data source backing the resolver: database, API, etc.'',
       ''Implement dataloader for batching and caching resolver calls'', ''Add timeout limits per resolver'',
       ''Profile resolver execution: use Apollo tracing or similar''],
      kb_prevention = ''Use dataloaders to batch and cache; set per-resolver timeouts; profile resolvers; monitor resolver latency'',
      kb_base_confidence = 70, kb_base_risk_score = 55\<rparr>,
     \<lparr>kb_id = ''api-version-deprecated'', kb_category = ''api'', kb_sub_category = ''versioning'',
      kb_keywords = [''api deprecated'', ''api version deprecated'', ''deprecated endpoint'', ''sunset header'', ''api sunset''],
      kb_anti_words = [''library deprecated''], kb_metric_name = [], kb_severity = ''medium'',
      kb_root_cause = (''API version deprecated '' @ [CHR 0xE2, CHR 0x80, CHR 0x94] @ '' the endpoint or API version being used has been deprecated and may stop working''),
      kb_reasoning = [''API providers deprecate old versions to reduce maintenance burden'',
       ''Deprecated APIs may continue working for a sunset period but will eventually be removed'',
       ''The Sunset HTTP header indicates when the endpoint will stop working''],
      kb_impact = ''Integration will break when the API is removed; functionality may already be degraded'',
      kb_resolution_steps = [''Check the deprecation notice for the sunset date'', ''Review migration guide from the API provider'',
       ''Update the client to use the new API version'', ''Test the migration thoroughly in staging'',
       ''Update API endpoints, authentication, and request/response formats''],
      kb_prevention = ''Monitor API deprecation notices; subscribe to API provider changelogs; plan migration well before sunset date'',
      kb_base_confidence = 65, kb_base_risk_score = 40\<rparr>,
     \<lparr>kb_id = ''api-cors-preflight-failure'', kb_category = ''api'', kb_sub_category = ''cors'',
      kb_keywords = [''preflight failed'', ''options request failed'', ''cors preflight'', ''preflight response'',
       ''access-control-allow-methods''],
      kb_anti_words = [''csp''], kb_metric_name = [], kb_severity = ''medium'',
      kb_root_cause = (''CORS preflight request failed '' @ [CHR 0xE2, CHR 0x80, CHR 0x94] @ '' the OPTIONS request returned an error or missing CORS headers''),
      kb_reasoning = [''Browsers send OPTIONS preflight for non-simple requests (custom headers, PUT/DELETE, etc.)'',
       ''The server must respond to OPTIONS with appropriate Access-Control-Allow-* headers'',
       ''Some frameworks or middlewares do not handle OPTIONS requests by default''],
      kb_impact = ''Cross-origin API calls fail in browsers; SPA applications cannot communicate with the API'',
      kb_resolution_steps = [''Handle OPTIONS requests on the server: return 204 with CORS headers'',
       ''Set Access-Control-Allow-Methods to include the required methods'',
       ''Set Access-Control-Allow-Headers to include custom headers used by the client'',
       ''If using a framework, enable CORS middleware with correct configuration'',
       (''Test with: curl -X OPTIONS -v -H '' @ [CHR 0x27] @ ''Origin: http://frontend.example.com'' @ [CHR 0x27] @ '' http://api.example.com'')],
      kb_prevention = ''Configure CORS middleware; handle OPTIONS on all endpoints; test preflight in CI; document CORS requirements'',
      kb_base_confidence = 75, kb_base_risk_score = 30\<rparr>,
     \<lparr>kb_id = ''api-request-validation-error'', kb_category = ''api'', kb_sub_category = ''validation'',
      kb_keywords = [''validation error'', ''invalid request'', ''422'', ''unprocessable entity'', ''schema validation''],
      kb_anti_words = [''cors'', ''auth''], kb_metric_name = [], kb_severity = ''low'',
      kb_root_cause = (''API request validation error (HTTP 422) '' @ [CHR 0xE2, CHR 0x80, CHR 0x94] @ '' the request body does not conform to the expected schema''),
      kb_reasoning = [''Strict schema validation rejects requests with missing required fields, wrong types, or invalid values'',
       ''API contract changes may break existing clients that send old-format requests'',
       ''Batch requests may fail entirely if one item fails validation''],
      kb_impact = ''Specific API operations fail; client must fix the request; usually affects a single integration'',
      kb_resolution_steps = [''Check the validation error details in the response body'',
       ''Compare the request against the API schema/documentation'', ''Fix the request to match the expected format'',
       ''If API changed, update the client to the new schema''],
      kb_prevention = ''Use API schema validation in client; version APIs with backward compatibility; communicate changes to consumers'',
      kb_base_confidence = 70, kb_base_risk_score = 25\<rparr>,
     \<lparr>kb_id = ''api-connection-pool-exhausted'', kb_category = ''api'', kb_sub_category = ''connection'',
      kb_keywords = [''connection pool exhausted'', ''no available connections'', ''pool timeout'', ''connection wait timeout'',
       ''http client pool''],
      kb_anti_words = [''thread pool'', ''database pool''], kb_metric_name = [], kb_severity = ''high'',
      kb_root_cause = (''HTTP connection pool exhausted '' @ [CHR 0xE2, CHR 0x80, CHR 0x94] @ '' the client cannot create new outbound connections because all pool slots are in use''),
      kb_reasoning = [''Connection pools limit the number of concurrent outbound connections per host'',
       ''Slow responses from the target service hold connections open longer'',
       ''Connection leaks (not closing response bodies) gradually exhaust the pool''],
      kb_impact = ''Outbound HTTP requests blocked; dependent service calls fail with timeout; cascading failures'',
      kb_resolution_steps = [''Increase connection pool size: set MaxIdleConnsPerHost and MaxConnsPerHost'',
       ''Check for connection leaks: ensure all response bodies are closed'',
       ''Profile slow downstream calls that hold connections'',
       ''Implement timeouts on outbound connections: set Transport.ResponseHeaderTimeout''],
      kb_prevention = ''Always close response bodies; set appropriate pool sizes; implement connection timeouts; monitor pool utilization'',
      kb_base_confidence = 75, kb_base_risk_score = 65\<rparr>,
     \<lparr>kb_id = ''api-idempotency-violation'', kb_category = ''api'', kb_sub_category = ''consistency'',
      kb_keywords = [''idempotency'', ''duplicate request'', ''duplicate transaction'', ''retry duplicate'', ''idempotency key''],
      kb_anti_words = [''deduplication''], kb_metric_name = [], kb_severity = ''high'',
      kb_root_cause = (''API idempotency violation '' @ [CHR 0xE2, CHR 0x80, CHR 0x94] @ '' a retried request was processed more than once, causing duplicate operations''),
      kb_reasoning = [''Without idempotency keys, retried requests (from timeouts, client errors) create duplicate resources'',
       ''Payment processing, order creation, and other side-effectful operations must be idempotent'',
       ''Network errors between the response being sent and received cause the client to retry''],
      kb_impact = ''Duplicate transactions; double charges; inconsistent data; customer complaints'',
      kb_resolution_steps = [''Implement idempotency keys: require a unique key per request'',
       ''Store and check idempotency keys server-side before processing'',
       ''Deduplicate the affected records: identify and remove/reverse duplicates'',
       ''Add database unique constraints to prevent duplicate records''],
      kb_prevention = ''Implement idempotency keys for all mutating endpoints; use database unique constraints; design for at-least-once delivery'',
      kb_base_confidence = 70, kb_base_risk_score = 70\<rparr>]"

definition advanced_api_entries_3 :: "KnowledgeEntry list" where
  "advanced_api_entries_3 =
    [\<lparr>kb_id = ''api-timeout-cascade'', kb_category = ''api'', kb_sub_category = ''resilience'',
      kb_keywords = [''timeout cascade'', ''cascading timeout'', ''upstream timeout'', ''timeout chain'', ''dependent timeout''],
      kb_anti_words = [''circuit breaker''], kb_metric_name = [], kb_severity = ''high'',
      kb_root_cause = (''Timeout cascade '' @ [CHR 0xE2, CHR 0x80, CHR 0x94] @ '' a slow downstream service is causing timeouts to propagate upstream through the call chain''),
      kb_reasoning = [''When service A calls B calls C, a timeout in C causes B to time out, which causes A to time out'',
       ''Each layer consumes its timeout budget waiting, leaving less time for actual processing'',
       ''Without proper timeout budgets, a single slow service can bring down the entire call chain''],
      kb_impact = ''Multiple services experience timeouts; end-user latency spikes; system-wide degradation'',
      kb_resolution_steps = [''Identify the bottom of the cascade: which service is the root slow one?'',
       ''Fix the slow service: check its dependencies, database, and resource usage'',
       ''Implement timeout budgets: each layer should use a fraction of the upstream timeout'',
       ''Add circuit breakers to fail fast on known-slow services''],
      kb_prevention = ''Set decreasing timeouts down the call chain; implement circuit breakers; add bulkhead isolation; monitor end-to-end latency'',
      kb_base_confidence = 70, kb_base_risk_score = 70\<rparr>]"

definition advanced_api_entries :: "KnowledgeEntry list" where
  "advanced_api_entries = advanced_api_entries_1 @ advanced_api_entries_2 @ advanced_api_entries_3"

definition advanced_misc_entries_1 :: "KnowledgeEntry list" where
  "advanced_misc_entries_1 =
    [\<lparr>kb_id = ''misc-crontab-syntax-error'', kb_category = ''system'', kb_sub_category = ''cron'',
      kb_keywords = [''crontab syntax'', ''cron syntax error'', ''bad minute'', ''crontab error'', ''cron parse error''],
      kb_anti_words = [''kubernetes cronjob''], kb_metric_name = [], kb_severity = ''medium'',
      kb_root_cause = (''Crontab syntax error '' @ [CHR 0xE2, CHR 0x80, CHR 0x94] @ '' the cron expression is malformed and the job will not be scheduled''),
      kb_reasoning = [''Cron syntax has five fields (minute, hour, day, month, weekday) and common mistakes include wrong field count'',
       ''Using 6 fields (seconds) is not supported by standard cron'',
       ''Invalid ranges (e.g., 60 for minutes) are silently rejected or cause errors''],
      kb_impact = ''Scheduled job does not run; maintenance tasks skipped; data not processed on time'',
      kb_resolution_steps = [''Validate cron syntax: use crontab.guru or similar tool'', ''Check cron logs: grep CRON /var/log/syslog'',
       ''Edit crontab: crontab -e'', ''Use five fields: minute(0-59) hour(0-23) day(1-31) month(1-12) weekday(0-6)''],
      kb_prevention = ''Validate cron expressions before deploying; use named schedules (@daily, @hourly); test in staging'',
      kb_base_confidence = 70, kb_base_risk_score = 35\<rparr>,
     \<lparr>kb_id = ''misc-cron-daemon-not-running'', kb_category = ''system'', kb_sub_category = ''cron'',
      kb_keywords = [''cron daemon'', ''crond not running'', ''cron service'', ''cron stopped'', ''crond dead''],
      kb_anti_words = [''kubernetes''], kb_metric_name = [], kb_severity = ''high'',
      kb_root_cause = (''Cron daemon is not running '' @ [CHR 0xE2, CHR 0x80, CHR 0x94] @ '' no cron jobs are being executed on the system''),
      kb_reasoning = [''All crontab entries depend on the cron daemon (crond/cron) being active'',
       ''The daemon may have been stopped by an administrator or crashed'',
       ''In containers, cron is often not installed or started by default''],
      kb_impact = ''All scheduled tasks stopped; backups, cleanup, and maintenance not performed'',
      kb_resolution_steps = [''Check cron status: systemctl status cron (Debian) or systemctl status crond (RHEL)'',
       ''Start cron: systemctl start cron && systemctl enable cron'', ''Verify jobs are loaded: crontab -l'',
       (''Check for crash logs: journalctl -u cron --since '' @ [CHR 0x27] @ ''1 hour ago'' @ [CHR 0x27])],
      kb_prevention = ''Monitor cron daemon status; enable cron on boot; use process supervisors; alert on cron down'',
      kb_base_confidence = 75, kb_base_risk_score = 60\<rparr>,
     \<lparr>kb_id = ''misc-disk-full-from-logs'', kb_category = ''system'', kb_sub_category = ''disk'',
      kb_keywords = [''disk full logs'', ''log files full'', ''no space left'', ''disk usage logs'', ''/var/log full''],
      kb_anti_words = [''database full''], kb_metric_name = [], kb_severity = ''high'',
      kb_root_cause = (''Disk full from log files '' @ [CHR 0xE2, CHR 0x80, CHR 0x94] @ '' application or system logs have consumed all available disk space''),
      kb_reasoning = [''Verbose logging, debug mode left on, or logrotate failure causes logs to grow unbounded'',
       ''Applications logging stack traces on every error can fill disks quickly'',
       ''/var/log on the root partition can make the entire system unusable when full''],
      kb_impact = ''System unable to write; applications crash; new logins may fail; services cannot start'',
      kb_resolution_steps = [''Identify large log files: du -sh /var/log/* | sort -rh | head'',
       ''Truncate the offending log: truncate -s 0 /var/log/<large-file>.log'',
       ''Fix logrotate if broken: logrotate -d /etc/logrotate.conf'',
       ''Reduce log verbosity: change log level from DEBUG to INFO/WARN'', ''Move /var/log to a separate partition''],
      kb_prevention = ''Use separate partition for /var/log; configure logrotate; set max log size; monitor disk usage'',
      kb_base_confidence = 80, kb_base_risk_score = 65\<rparr>,
     \<lparr>kb_id = ''misc-ssh-host-key-changed'', kb_category = ''system'', kb_sub_category = ''ssh'',
      kb_keywords = [''host key changed'', ''REMOTE HOST IDENTIFICATION HAS CHANGED'', ''man in the middle'', ''ssh host key'',
       ''known_hosts''],
      kb_anti_words = [''brute force''], kb_metric_name = [], kb_severity = ''high'',
      kb_root_cause = (''SSH host key changed warning '' @ [CHR 0xE2, CHR 0x80, CHR 0x94] @ '' the server'' @ [CHR 0x27] @ ''s SSH key does not match the one stored in known_hosts''),
      kb_reasoning = [''Host key changes can indicate a MITM attack or that the server was reinstalled/reprovisioned'',
       ''Cloud instances that are terminated and recreated get new host keys'',
       ''SSH clients refuse to connect when the host key does not match to prevent MITM attacks''],
      kb_impact = ''SSH connections refused; automated scripts and deploys that use SSH fail'',
      kb_resolution_steps = [''Verify the host key change is legitimate: contact the server administrator'',
       ''If legitimate, remove old key: ssh-keygen -R <hostname>'',
       ''Reconnect to accept the new key: ssh <hostname>'',
       ''For automation, update the known_hosts file in CI/CD secrets''],
      kb_prevention = ''Document server reprovisioning procedures; use SSH certificate authority; maintain known_hosts in config management'',
      kb_base_confidence = 75, kb_base_risk_score = 55\<rparr>,
     \<lparr>kb_id = ''misc-package-lock-stuck'', kb_category = ''system'', kb_sub_category = ''package'',
      kb_keywords = [''lock file'', ''dpkg lock'', ''apt lock'', ''yum lock'', ''package manager lock'', ''Could not get lock''],
      kb_anti_words = [''npm lock''], kb_metric_name = [], kb_severity = ''medium'',
      kb_root_cause = (''Package manager lock file stuck '' @ [CHR 0xE2, CHR 0x80, CHR 0x94] @ '' another process is holding the lock or a previous operation was interrupted''),
      kb_reasoning = [''Package managers use lock files to prevent concurrent operations'',
       ''If a package operation is killed or crashes, the lock file may remain'',
       ''Unattended upgrades running in the background can hold the lock''],
      kb_impact = ''Cannot install, update, or remove packages; system updates blocked; security patches delayed'',
      kb_resolution_steps = [(''Check for running package processes: ps aux | grep -E '' @ [CHR 0x27] @ ''apt|dpkg|yum'' @ [CHR 0x27]),
       ''Wait for the process to finish if legitimate'',
       ''If no process, remove the lock: rm /var/lib/dpkg/lock-frontend && rm /var/lib/apt/lists/lock'',
       ''Repair dpkg if needed: dpkg --configure -a'', ''Then retry: apt update && apt upgrade''],
      kb_prevention = (''Don'' @ [CHR 0x27] @ ''t kill package operations; configure unattended-upgrades schedule; use flock in scripts that call package managers''),
      kb_base_confidence = 75, kb_base_risk_score = 35\<rparr>,
     \<lparr>kb_id = ''misc-selinux-denial'', kb_category = ''system'', kb_sub_category = ''security'',
      kb_keywords = [''selinux denied'', ''selinux'', ''avc denied'', ''apparmor denied'', ''apparmor DENIED''],
      kb_anti_words = [''firewall''], kb_metric_name = [], kb_severity = ''high'',
      kb_root_cause = (''SELinux/AppArmor denial '' @ [CHR 0xE2, CHR 0x80, CHR 0x94] @ '' a mandatory access control policy prevented an operation''),
      kb_reasoning = [''SELinux/AppArmor enforce security policies that restrict what processes can do'',
       ''New software or configuration changes may violate existing policies'',
       ''Denial logs indicate the policy is working but may need updating for legitimate operations''],
      kb_impact = ''Application functionality blocked; file access denied; network connections prevented; service may not start'',
      kb_resolution_steps = [''For SELinux: check denials: ausearch -m avc -ts recent'',
       ''Generate a policy module: audit2allow -a -M mymodule && semodule -i mymodule.pp'',
       ''For AppArmor: check logs: dmesg | grep DENIED'',
       ''Set profile to complain mode to debug: aa-complain <profile>'',
       ''Only disable SELinux/AppArmor as last resort: setenforce 0 (temporary)''],
      kb_prevention = ''Test new applications in permissive mode first; use audit2allow to create proper policies; do not disable MAC globally'',
      kb_base_confidence = 75, kb_base_risk_score = 55\<rparr>,
     \<lparr>kb_id = ''misc-env-var-missing'', kb_category = ''application'', kb_sub_category = ''config'',
      kb_keywords = [''environment variable missing'', ''env var not set'', ''undefined variable'', ''config not found'',
       ''required env''],
      kb_anti_words = [''feature flag''], kb_metric_name = [], kb_severity = ''high'',
      kb_root_cause = (''Required environment variable missing '' @ [CHR 0xE2, CHR 0x80, CHR 0x94] @ '' the application cannot start or function correctly without it''),
      kb_reasoning = [''Applications often read configuration from environment variables at startup'',
       ''Missing variables cause panics, crashes, or degraded functionality depending on the application'',
       ''Deployment environments (staging, production) may have different variable sets''],
      kb_impact = ''Application fails to start; features broken if the variable controls runtime behavior; service outage'',
      kb_resolution_steps = [''Check which variable is missing from the error message'',
       ''Set the variable: export VAR=value or add to .env file'',
       ''For systemd services: add Environment= or EnvironmentFile= to the unit'',
       ''For containers: add -e VAR=value or update the deployment manifest'',
       (''Check if the variable exists in the deployment'' @ [CHR 0x27] @ ''s secret/configmap'')],
      kb_prevention = ''Document all required environment variables; validate at startup; use defaults where appropriate; use a .env.example file'',
      kb_base_confidence = 75, kb_base_risk_score = 55\<rparr>,
     \<lparr>kb_id = ''misc-config-parse-error'', kb_category = ''application'', kb_sub_category = ''config'',
      kb_keywords = [''config parse error'', ''yaml parse'', ''json parse error'', ''invalid YAML'', ''invalid JSON'',
       ''syntax error config''],
      kb_anti_words = [''sql syntax''], kb_metric_name = [], kb_severity = ''high'',
      kb_root_cause = (''Configuration file syntax error '' @ [CHR 0xE2, CHR 0x80, CHR 0x94] @ '' YAML, JSON, or other config file has invalid syntax''),
      kb_reasoning = [''Common YAML errors: incorrect indentation, tabs instead of spaces, unclosed quotes'',
       ''JSON errors: trailing commas, unquoted keys, single quotes instead of double'',
       ''Configuration changes not validated before deployment cause runtime parse failures''],
      kb_impact = ''Application fails to start; uses stale configuration if reload fails; service outage'',
      kb_resolution_steps = [(''Validate YAML: python3 -c '' @ [CHR 0x27] @ ''import yaml; yaml.safe_load(open('' @ [CHR 0x22] @ ''config.yaml'' @ [CHR 0x22] @ ''))'' @ [CHR 0x27]),
       ''Validate JSON: python3 -m json.tool config.json'', ''Use a linter: yamllint config.yaml'',
       ''Fix the syntax error and restart the application'', ''Check diff of the last change to the config file''],
      kb_prevention = ''Validate config files in CI; use schema validation; review config changes before deploy; use typed config libraries'',
      kb_base_confidence = 80, kb_base_risk_score = 55\<rparr>,
     \<lparr>kb_id = ''misc-graceful-shutdown-timeout'', kb_category = ''application'', kb_sub_category = ''lifecycle'',
      kb_keywords = [''graceful shutdown'', ''shutdown timeout'', ''SIGTERM timeout'', ''drain timeout'', ''graceful termination''],
      kb_anti_words = [''startup''], kb_metric_name = [], kb_severity = ''medium'',
      kb_root_cause = (''Graceful shutdown timeout '' @ [CHR 0xE2, CHR 0x80, CHR 0x94] @ '' the application did not shut down within the allowed time after receiving SIGTERM''),
      kb_reasoning = [''Applications should handle SIGTERM by finishing in-flight requests and releasing resources'',
       ''Long-running operations or stuck connections prevent timely shutdown'',
       ''After the grace period, SIGKILL is sent, which cannot be handled''],
      kb_impact = ''In-flight requests terminated abruptly; database transactions rolled back; data loss possible'',
      kb_resolution_steps = [''Increase the shutdown timeout if operations legitimately need more time'',
       ''Check for stuck connections or operations during shutdown'',
       ''Implement proper SIGTERM handler: stop accepting new work, finish in-flight, close connections'',
       ''Check for shutdown hooks that hang: database connections, file handles''],
      kb_prevention = ''Implement proper signal handling; set appropriate grace periods; test shutdown behavior; monitor shutdown duration'',
      kb_base_confidence = 65, kb_base_risk_score = 45\<rparr>]"

definition advanced_misc_entries_2 :: "KnowledgeEntry list" where
  "advanced_misc_entries_2 =
    [\<lparr>kb_id = ''misc-health-check-non-200'', kb_category = ''application'', kb_sub_category = ''health'',
      kb_keywords = [''health check failed'', ''health endpoint'', ''readiness probe failed'', ''health returning 500'',
       ''health check non-200''],
      kb_anti_words = [''liveness probe kubernetes''], kb_metric_name = [], kb_severity = ''high'',
      kb_root_cause = (''Health check endpoint returning non-200 '' @ [CHR 0xE2, CHR 0x80, CHR 0x94] @ '' the application reports itself as unhealthy''),
      kb_reasoning = [''Health endpoints check internal state: database connectivity, cache availability, etc.'',
       ''A non-200 response triggers load balancer removal and Kubernetes pod restarts'',
       ''Transient dependency failures may cause intermittent health check failures''],
      kb_impact = ''Service removed from load balancer; traffic not routed to the instance; potential cascading failures'',
      kb_resolution_steps = [''Check the health endpoint response: curl -v http://<host>:<port>/health'',
       ''Review what the health check validates: check dependencies it reports on'',
       ''Fix the failing dependency: database, cache, external service'',
       ''If a transient issue, the health check should recover automatically''],
      kb_prevention = ''Health checks should be lightweight; separate liveness from readiness; use appropriate check intervals and thresholds'',
      kb_base_confidence = 75, kb_base_risk_score = 60\<rparr>,
     \<lparr>kb_id = ''misc-feature-flag-unreachable'', kb_category = ''application'', kb_sub_category = ''feature-flags'',
      kb_keywords = [''feature flag service'', ''feature flag unreachable'', ''flag service down'', ''launchdarkly'',
       ''feature toggle''],
      kb_anti_words = [''env var''], kb_metric_name = [], kb_severity = ''high'',
      kb_root_cause = (''Feature flag service unreachable '' @ [CHR 0xE2, CHR 0x80, CHR 0x94] @ '' the application cannot reach the feature flag provider''),
      kb_reasoning = [''When the feature flag service is unreachable, the application falls back to cached or default values'',
       ''If no cached values exist, all flagged features use the coded default (often disabled)'',
       ''This can silently disable features or enable experimental features in production''],
      kb_impact = ''Features may be unexpectedly enabled/disabled; A/B tests may be disrupted; gradual rollouts may stall'',
      kb_resolution_steps = [''Check feature flag service status: curl -v https://<flag-service>/health'',
       ''Verify network connectivity from the application to the flag service'',
       (''Check cached flag values: verify the application'' @ [CHR 0x27] @ ''s fallback behavior''),
       ''Restart the application to re-establish connection if using a persistent connection''],
      kb_prevention = ''Cache flag values locally; implement proper fallback behavior; monitor flag service connectivity; use SDK with offline mode'',
      kb_base_confidence = 70, kb_base_risk_score = 55\<rparr>,
     \<lparr>kb_id = ''misc-dns-cache-stale'', kb_category = ''system'', kb_sub_category = ''dns'',
      kb_keywords = [''dns cache stale'', ''cached dns'', ''dns ttl'', ''stale dns'', ''dns not updating''],
      kb_anti_words = [''NXDOMAIN'', ''SERVFAIL''], kb_metric_name = [], kb_severity = ''medium'',
      kb_root_cause = (''Stale DNS cache '' @ [CHR 0xE2, CHR 0x80, CHR 0x94] @ '' the local DNS resolver is serving cached records that no longer point to the correct IP''),
      kb_reasoning = [''DNS records are cached based on their TTL value'',
       ''After a DNS change, clients must wait for the TTL to expire before seeing the new IP'',
       ''Some resolvers cache beyond TTL (negative caching, non-compliant resolvers)''],
      kb_impact = ''Traffic routed to old IP; connections fail if old server is down; migration/failover incomplete'',
      kb_resolution_steps = [''Flush local DNS cache: systemd-resolve --flush-caches'',
       ''Check current cached value: dig <domain> @127.0.0.1'',
       ''Check authoritative answer: dig <domain> @$(dig NS <domain> +short | head -1)'',
       ''Wait for TTL to expire naturally if global propagation needed''],
      kb_prevention = ''Use low TTLs for records that change often; plan DNS changes ahead of migrations; test with direct queries to authoritative servers'',
      kb_base_confidence = 65, kb_base_risk_score = 40\<rparr>,
     \<lparr>kb_id = ''misc-timezone-mismatch'', kb_category = ''system'', kb_sub_category = ''time'',
      kb_keywords = [''timezone mismatch'', ''timezone error'', ''wrong timezone'', ''UTC mismatch'', ''TZ variable''],
      kb_anti_words = [''time drift''], kb_metric_name = [], kb_severity = ''medium'',
      kb_root_cause = (''Timezone mismatch '' @ [CHR 0xE2, CHR 0x80, CHR 0x94] @ '' the application or system timezone does not match expected configuration, causing incorrect timestamps''),
      kb_reasoning = [''Different components using different timezones cause timestamp inconsistencies'',
       ''Database and application timezone mismatch causes incorrect date queries'',
       ''Cron jobs run at wrong times if the system timezone is not what is expected''],
      kb_impact = ''Incorrect timestamps in data; cron jobs run at wrong times; log correlation difficult; reporting errors'',
      kb_resolution_steps = [''Check system timezone: timedatectl'', ''Set timezone: timedatectl set-timezone UTC'',
       ''Check application timezone config: look for TZ environment variable'',
       ''Standardize on UTC: set TZ=UTC in application environment''],
      kb_prevention = ''Standardize on UTC everywhere; document timezone requirements; validate timezone in deployment checks'',
      kb_base_confidence = 65, kb_base_risk_score = 35\<rparr>,
     \<lparr>kb_id = ''misc-symlink-broken'', kb_category = ''system'', kb_sub_category = ''filesystem'',
      kb_keywords = [''broken symlink'', ''dangling symlink'', ''dead symlink'', ''symbolic link broken'',
       ''symlink target missing''],
      kb_anti_words = [''hard link''], kb_metric_name = [], kb_severity = ''medium'',
      kb_root_cause = (''Broken symlink '' @ [CHR 0xE2, CHR 0x80, CHR 0x94] @ '' a symbolic link points to a target that no longer exists''),
      kb_reasoning = [''Symlinks can become broken when the target file is deleted, moved, or renamed'',
       ''Package removal or version changes can leave behind broken symlinks'',
       (''Applications following the symlink will get '' @ [CHR 0x27] @ ''No such file or directory'' @ [CHR 0x27] @ '' errors'')],
      kb_impact = ''Application cannot find the file it needs; service startup failures; configuration loading errors'',
      kb_resolution_steps = [''Find broken symlinks: find /path -xtype l'', ''Check what the symlink points to: ls -la <symlink>'',
       ''Recreate the symlink with correct target: ln -sf <correct-target> <symlink>'',
       ''Or remove the broken symlink: rm <symlink>''],
      kb_prevention = ''Update symlinks during deployments; test for broken symlinks in CI; use absolute paths in symlinks'',
      kb_base_confidence = 65, kb_base_risk_score = 30\<rparr>,
     \<lparr>kb_id = ''misc-tmp-space-full'', kb_category = ''system'', kb_sub_category = ''disk'',
      kb_keywords = [''/tmp full'', ''tmp space'', ''tmpfs full'', ''temp directory full'', ''no space in tmp''],
      kb_anti_words = [''/var/log full''], kb_metric_name = [], kb_severity = ''high'',
      kb_root_cause = (''/tmp directory full '' @ [CHR 0xE2, CHR 0x80, CHR 0x94] @ '' temporary file space is exhausted, preventing applications from creating temp files''),
      kb_reasoning = [''Many applications and tools use /tmp for temporary files, sockets, and IPC'',
       ''tmpfs mounts have a size limit (often 50% of RAM) that can be exhausted'',
       (''Applications that create temp files but don'' @ [CHR 0x27] @ ''t clean them up cause /tmp to fill'')],
      kb_impact = ''Application failures; sort/merge operations fail; file uploads fail; build tools crash'',
      kb_resolution_steps = [''Check /tmp usage: df -h /tmp && du -sh /tmp/* | sort -rh | head'',
       ''Clean old temp files: find /tmp -type f -mtime +7 -delete'',
       ''Identify the process filling /tmp: lsof +D /tmp | head -20'',
       ''Increase tmpfs size: mount -o remount,size=4G /tmp''],
      kb_prevention = ''Monitor /tmp usage; use systemd-tmpfiles for automatic cleanup; set appropriate tmpfs size; clean temp files in application code'',
      kb_base_confidence = 75, kb_base_risk_score = 55\<rparr>,
     \<lparr>kb_id = ''misc-core-dump-generation'', kb_category = ''system'', kb_sub_category = ''process'',
      kb_keywords = [''core dump'', ''core dumped'', ''segfault'', ''segmentation fault'', ''signal 11''],
      kb_anti_words = [''java heap dump''], kb_metric_name = [], kb_severity = ''high'',
      kb_root_cause = ''Process crashed with a segmentation fault and generated a core dump'',
      kb_reasoning = [''Segfaults indicate the process accessed memory it should not have (null pointer, buffer overflow)'',
       ''Core dumps capture the process memory state at crash time for debugging'',
       ''Repeated segfaults indicate a reproducible bug in the application or library''],
      kb_impact = ''Application process died; service disruption; potential data corruption from incomplete operations'',
      kb_resolution_steps = [''Check for core dumps: coredumpctl list'',
       ''Analyze the core dump: coredumpctl debug <PID> or gdb <binary> <core>'',
       ''Check crash details: dmesg -T | grep -i segfault'',
       ''Update the application or library if this is a known bug'',
       ''Report the bug with the stack trace from the core dump''],
      kb_prevention = ''Enable ASAN/UBSAN in testing; run memory safety analysis; keep libraries updated; use memory-safe languages'',
      kb_base_confidence = 80, kb_base_risk_score = 65\<rparr>,
     \<lparr>kb_id = ''misc-systemd-watchdog-timeout'', kb_category = ''system'', kb_sub_category = ''systemd'',
      kb_keywords = [''watchdog timeout'', ''WatchdogSec'', ''watchdog timestamp'', ''service watchdog'', ''systemd watchdog''],
      kb_anti_words = [''hardware watchdog''], kb_metric_name = [], kb_severity = ''high'',
      kb_root_cause = (''Systemd watchdog timeout '' @ [CHR 0xE2, CHR 0x80, CHR 0x94] @ '' the service failed to notify systemd within the watchdog interval and was killed''),
      kb_reasoning = [''Services with WatchdogSec must periodically call sd_notify(WATCHDOG=1)'',
       ''If the notification is not sent, systemd considers the service hung and restarts it'',
       ''The service may be stuck in a blocking operation, deadlock, or CPU starvation''],
      kb_impact = ''Service forcefully restarted; in-flight operations lost; brief service disruption'',
      kb_resolution_steps = [(''Check service journal: journalctl -u <service> --since '' @ [CHR 0x27] @ ''30 minutes ago'' @ [CHR 0x27]),
       ''Look for watchdog timeout messages: grep -i watchdog in journal output'',
       ''Investigate what the service was doing when it missed the watchdog'',
       ''Increase WatchdogSec if the service legitimately takes longer between notifications'',
       ''Fix blocking operations that prevent watchdog notifications''],
      kb_prevention = ''Implement proper watchdog notification; use async watchdog notification; set appropriate WatchdogSec; profile blocking operations'',
      kb_base_confidence = 70, kb_base_risk_score = 60\<rparr>,
     \<lparr>kb_id = ''misc-pid-file-stale'', kb_category = ''system'', kb_sub_category = ''process'',
      kb_keywords = [''pid file stale'', ''stale pid'', ''pidfile'', ''already running'', ''pid file exists''],
      kb_anti_words = [''docker''], kb_metric_name = [], kb_severity = ''medium'',
      kb_root_cause = (''Stale PID file '' @ [CHR 0xE2, CHR 0x80, CHR 0x94] @ '' a previous process did not clean up its PID file, preventing the service from starting''),
      kb_reasoning = [''Services create PID files to prevent multiple instances from running'',
       ''If the process crashes or is killed, the PID file remains on disk'',
       ''The new instance sees the PID file and assumes another instance is running''],
      kb_impact = ''Service refuses to start; manual intervention required; automated restart fails'',
      kb_resolution_steps = [''Check if the PID in the file corresponds to a running process: cat /var/run/<service>.pid && ps -p <pid>'',
       ''If no process running, remove the stale PID file: rm /var/run/<service>.pid'',
       ''Start the service: systemctl start <service>'',
       ''Use systemd instead of PID files for service management where possible''],
      kb_prevention = ''Use systemd for service management; implement proper signal handling for cleanup; use flock instead of PID files'',
      kb_base_confidence = 70, kb_base_risk_score = 35\<rparr>]"

definition advanced_misc_entries_3 :: "KnowledgeEntry list" where
  "advanced_misc_entries_3 =
    [\<lparr>kb_id = ''misc-ulimit-stack-size'', kb_category = ''system'', kb_sub_category = ''limits'',
      kb_keywords = [''stack overflow'', ''stack size'', ''ulimit stack'', ''stack limit'', ''SIGSEGV stack''],
      kb_anti_words = [''buffer overflow'', ''heap''], kb_metric_name = [], kb_severity = ''medium'',
      kb_root_cause = (''Stack size limit reached '' @ [CHR 0xE2, CHR 0x80, CHR 0x94] @ '' a process exceeded its stack size causing a stack overflow crash''),
      kb_reasoning = [''Deep recursion or large stack-allocated buffers can exceed the default stack limit'',
       ''The default stack size (8MB on Linux) may be insufficient for some applications'',
       ''Stack overflow crashes are reported as SIGSEGV (segmentation fault)''],
      kb_impact = ''Process crash; data loss from incomplete operations; service disruption'',
      kb_resolution_steps = [''Check current stack limit: ulimit -s'', ''Increase stack limit: ulimit -s 16384 (16MB)'',
       ''For systemd services: add LimitSTACK=16777216 to the unit file'',
       ''Fix deep recursion in the application code: convert to iterative approach''],
      kb_prevention = ''Avoid deep recursion; set appropriate stack limits; use iterative algorithms; monitor for repeated SIGSEGV'',
      kb_base_confidence = 65, kb_base_risk_score = 50\<rparr>,
     \<lparr>kb_id = ''misc-locale-error'', kb_category = ''system'', kb_sub_category = ''config'',
      kb_keywords = [''locale error'', ''locale not found'', ''LC_ALL'', ''locale-gen'', ''unsupported locale''],
      kb_anti_words = [''timezone''], kb_metric_name = [], kb_severity = ''low'',
      kb_root_cause = (''Locale not available '' @ [CHR 0xE2, CHR 0x80, CHR 0x94] @ '' the system locale is set to a value that is not generated/installed''),
      kb_reasoning = [''Applications may display warnings or errors when the configured locale is not available'',
       ''Some tools may fall back to C locale, changing sorting and character handling behavior'',
       ''Container images often have minimal locale support to reduce image size''],
      kb_impact = ''Warning messages in output; potential character encoding issues; sorting behavior may change'',
      kb_resolution_steps = [''Check available locales: locale -a'', ''Generate the needed locale: locale-gen en_US.UTF-8'',
       ''Set the locale: update-locale LANG=en_US.UTF-8'',
       ''For containers, install locales package and generate needed locale''],
      kb_prevention = ''Include locale generation in base images; set LANG=C.UTF-8 for containers; document locale requirements'',
      kb_base_confidence = 60, kb_base_risk_score = 20\<rparr>]"

definition advanced_misc_entries :: "KnowledgeEntry list" where
  "advanced_misc_entries = advanced_misc_entries_1 @ advanced_misc_entries_2 @ advanced_misc_entries_3"

definition advanced_supplemental_entries_1 :: "KnowledgeEntry list" where
  "advanced_supplemental_entries_1 =
    [\<lparr>kb_id = ''linux-dmesg-flood'', kb_category = ''system'', kb_sub_category = ''kernel'',
      kb_keywords = [''dmesg flood'', ''printk'', ''console flood'', ''kernel message flood'', ''log spam kernel''],
      kb_anti_words = [''application log''], kb_metric_name = [], kb_severity = ''medium'',
      kb_root_cause = (''Kernel dmesg log flooding '' @ [CHR 0xE2, CHR 0x80, CHR 0x94] @ '' the kernel is generating messages at an extremely high rate, consuming CPU and hiding important messages''),
      kb_reasoning = [''A driver or subsystem in an error loop can emit thousands of messages per second'',
       ''Printk rate limiting may not be enabled, causing console and log subsystem overload'',
       ''Important messages get lost in the flood, delaying incident detection''],
      kb_impact = ''CPU wasted on logging; important kernel messages lost; syslog and journald may fall behind'',
      kb_resolution_steps = [''Enable printk rate limiting: sysctl -w kernel.printk_ratelimit=5'',
       ''Identify the flooding subsystem from dmesg output'',
       ''Fix or disable the offending driver: modprobe -r <module>'', ''Clear dmesg ring buffer: dmesg -c''],
      kb_prevention = ''Enable printk rate limiting; monitor dmesg message rates; test kernel modules in staging'',
      kb_base_confidence = 60, kb_base_risk_score = 40\<rparr>,
     \<lparr>kb_id = ''linux-auditd-backlog'', kb_category = ''system'', kb_sub_category = ''audit'',
      kb_keywords = [''audit backlog'', ''auditd'', ''audit queue'', ''backlog limit'', ''audit lost''],
      kb_anti_words = [''kubernetes audit''], kb_metric_name = [], kb_severity = ''high'',
      kb_root_cause = (''Audit daemon backlog full '' @ [CHR 0xE2, CHR 0x80, CHR 0x94] @ '' audit events are being dropped because the audit queue is full''),
      kb_reasoning = [''High system activity combined with too many audit rules can overwhelm the audit queue'',
       ''Dropped audit events create gaps in compliance and security audit trails'',
       ''The default backlog limit (64) is often too low for busy servers''],
      kb_impact = ''Audit trail gaps; compliance violations; security events may go unlogged'',
      kb_resolution_steps = [''Check audit status: auditctl -s'', ''Increase backlog limit: auditctl -b 8192'',
       ''Make permanent: edit /etc/audit/auditd.conf and set backlog_limit = 8192'',
       ''Reduce excessive audit rules: auditctl -l and remove unnecessary ones''],
      kb_prevention = ''Set adequate backlog_limit; tune audit rules to avoid excessive logging; monitor audit lost count'',
      kb_base_confidence = 70, kb_base_risk_score = 55\<rparr>,
     \<lparr>kb_id = ''net-arp-table-full'', kb_category = ''network'', kb_sub_category = ''arp'',
      kb_keywords = [''arp table full'', ''neighbor table overflow'', ''arp cache'', ''no ARP entry'', ''arp_cache''],
      kb_anti_words = [''dns''], kb_metric_name = [], kb_severity = ''high'',
      kb_root_cause = (''ARP/neighbor table overflow '' @ [CHR 0xE2, CHR 0x80, CHR 0x94] @ '' the kernel ARP cache is full and cannot resolve new MAC addresses''),
      kb_reasoning = [''Large flat networks (e.g., /16 subnets) can cause ARP table exhaustion from scans or many hosts'',
       ''The default ARP table limits (gc_thresh3 = 1024) are too low for large subnets'',
       ''Container and VM environments can multiply the number of entries needed''],
      kb_impact = ''New host-to-host communication fails; intermittent connectivity issues; packet drops'',
      kb_resolution_steps = [''Check ARP table size: ip neigh show | wc -l'',
       ''Increase limits: sysctl -w net.ipv4.neigh.default.gc_thresh3=4096'',
       ''Also increase thresh1 and thresh2: sysctl -w net.ipv4.neigh.default.gc_thresh1=1024 -w net.ipv4.neigh.default.gc_thresh2=2048'',
       ''Flush stale entries: ip neigh flush all''],
      kb_prevention = ''Size ARP limits for the subnet; use smaller subnets; monitor ARP table occupancy; tune GC intervals'',
      kb_base_confidence = 70, kb_base_risk_score = 60\<rparr>,
     \<lparr>kb_id = ''net-conntrack-full'', kb_category = ''network'', kb_sub_category = ''conntrack'',
      kb_keywords = [''conntrack table full'', ''nf_conntrack'', ''conntrack limit'', ''table full dropping'', ''conntrack max''],
      kb_anti_words = [''arp table''], kb_metric_name = [], kb_severity = ''critical'',
      kb_root_cause = (''Connection tracking (conntrack) table full '' @ [CHR 0xE2, CHR 0x80, CHR 0x94] @ '' the netfilter conntrack table has no room for new connections''),
      kb_reasoning = [''Every NAT, iptables, or firewall-tracked connection uses a conntrack entry'',
       ''The default limit (65536) can be exhausted on busy load balancers or NAT gateways'',
       (''Once full, new connections are dropped with '' @ [CHR 0x27] @ ''table full, dropping packet'' @ [CHR 0x27] @ '' in dmesg'')],
      kb_impact = ''New connections randomly dropped; intermittent connectivity; severe impact on NAT gateways and load balancers'',
      kb_resolution_steps = [''Check current count: cat /proc/sys/net/netfilter/nf_conntrack_count'',
       ''Check limit: cat /proc/sys/net/netfilter/nf_conntrack_max'',
       ''Increase limit: sysctl -w net.netfilter.nf_conntrack_max=262144'',
       ''Reduce timeout: sysctl -w net.netfilter.nf_conntrack_tcp_timeout_time_wait=30'',
       (''Use NOTRACK for high-traffic services that don'' @ [CHR 0x27] @ ''t need connection tracking'')],
      kb_prevention = ''Size conntrack table for expected connections; reduce timeouts; use NOTRACK where possible; monitor conntrack usage'',
      kb_base_confidence = 85, kb_base_risk_score = 80\<rparr>,
     \<lparr>kb_id = ''net-dns-lookup-slow'', kb_category = ''network'', kb_sub_category = ''dns'',
      kb_keywords = [''dns slow'', ''dns lookup slow'', ''dns latency'', ''resolve slow'', ''getaddrinfo slow''],
      kb_anti_words = [''NXDOMAIN'', ''SERVFAIL''], kb_metric_name = [], kb_severity = ''medium'',
      kb_root_cause = (''DNS resolution is slow '' @ [CHR 0xE2, CHR 0x80, CHR 0x94] @ '' lookups taking significantly longer than expected, adding latency to all network operations''),
      kb_reasoning = [''The configured DNS server may be overloaded or geographically distant'',
       ''nsswitch.conf may be configured to try multiple sources (mDNS, LDAP) before DNS'',
       ''IPv6 AAAA queries timing out before falling back to A records cause doubled lookup time''],
      kb_impact = ''Application latency increased; every new connection pays the DNS lookup penalty; user experience degraded'',
      kb_resolution_steps = [(''Measure DNS latency: dig <domain> | grep '' @ [CHR 0x27] @ ''Query time'' @ [CHR 0x27]),
       ''Check resolver config: cat /etc/resolv.conf'', ''Check nsswitch.conf: grep hosts /etc/nsswitch.conf'',
       ''Try a faster DNS server: dig <domain> @8.8.8.8'',
       ''Disable IPv6 DNS if not needed: options single-request-reopen in resolv.conf''],
      kb_prevention = ''Use local DNS cache (systemd-resolved, dnsmasq); tune nsswitch.conf; monitor DNS resolution latency'',
      kb_base_confidence = 65, kb_base_risk_score = 40\<rparr>,
     \<lparr>kb_id = ''docker-healthcheck-failing'', kb_category = ''container'', kb_sub_category = ''health'',
      kb_keywords = [''docker healthcheck'', ''container unhealthy'', ''health check failing'', ''unhealthy container'',
       ''HEALTHCHECK''],
      kb_anti_words = [''kubernetes probe''], kb_metric_name = [], kb_severity = ''medium'',
      kb_root_cause = (''Docker container health check is failing '' @ [CHR 0xE2, CHR 0x80, CHR 0x94] @ '' the container reports unhealthy status''),
      kb_reasoning = [''Docker HEALTHCHECK commands run inside the container and report status'',
       ''The application inside may have a dependency failure (DB, cache) making it unhealthy'',
       ''The health check command itself may have a bug or incorrect endpoint''],
      kb_impact = ''Container marked unhealthy; Swarm may reschedule it; dependent services alerted'',
      kb_resolution_steps = [(''Check container health: docker inspect --format='' @ [CHR 0x27] @ ''{{json .State.Health}}'' @ [CHR 0x27] @ '' <container>''),
       ''Run the health check manually: docker exec <container> <healthcheck-command>'',
       ''Check application logs: docker logs <container>'',
       ''Fix the underlying issue causing the health check to fail''],
      kb_prevention = ''Test health check commands; make health checks lightweight; monitor container health status'',
      kb_base_confidence = 70, kb_base_risk_score = 45\<rparr>,
     \<lparr>kb_id = ''docker-volume-mount-error'', kb_category = ''container'', kb_sub_category = ''storage'',
      kb_keywords = [''volume mount error'', ''mount denied'', ''docker volume'', ''bind mount'', ''volume not found''],
      kb_anti_words = [''nfs mount''], kb_metric_name = [], kb_severity = ''high'',
      kb_root_cause = (''Docker volume mount failed '' @ [CHR 0xE2, CHR 0x80, CHR 0x94] @ '' the container cannot mount the requested volume or bind mount''),
      kb_reasoning = [''Volume mount failures can be caused by missing host paths, permission issues, or SELinux labels'',
       ''Named volumes that were deleted but are still referenced by containers cause errors'',
       ''NFS-backed volumes failing silently during mount also manifest as mount errors''],
      kb_impact = ''Container cannot start; data not accessible; application cannot persist data'',
      kb_resolution_steps = [''Verify host path exists: ls -la <host-path>'',
       ''Check permissions: ensure container user can access the path'',
       ''For SELinux: add :z or :Z flag to bind mount'',
       ''Recreate the volume if it was deleted: docker volume create <name>''],
      kb_prevention = ''Use named volumes over bind mounts; verify paths in deployment scripts; test volume mounts in CI'',
      kb_base_confidence = 75, kb_base_risk_score = 55\<rparr>,
     \<lparr>kb_id = ''kafka-consumer-rebalance-storm'', kb_category = ''messaging'', kb_sub_category = ''kafka'',
      kb_keywords = [''consumer rebalance'', ''rebalance storm'', ''group coordinator'', ''join group'', ''rebalancing kafka''],
      kb_anti_words = [''rabbitmq''], kb_metric_name = [], kb_severity = ''high'',
      kb_root_cause = (''Kafka consumer group rebalance storm '' @ [CHR 0xE2, CHR 0x80, CHR 0x94] @ '' consumers are continuously joining and leaving, causing repeated rebalances''),
      kb_reasoning = [''Rebalance storms occur when consumers crash and restart repeatedly, or process too slowly (exceeding max.poll.interval.ms)'',
       ''During rebalance, all consumers in the group stop processing, causing a pause'',
       ''Slow heartbeats (session.timeout.ms exceeded) cause the coordinator to evict consumers''],
      kb_impact = ''Repeated processing pauses; consumer lag grows; messages not processed during rebalance windows'',
      kb_resolution_steps = [''Check consumer group status: kafka-consumer-groups.sh --describe --group <group> --bootstrap-server <broker>:9092'',
       ''Increase max.poll.interval.ms if processing takes longer'',
       ''Increase session.timeout.ms: consumer config session.timeout.ms=30000'',
       ''Use static group membership (group.instance.id) to reduce rebalances'',
       ''Fix consumer crashes that trigger the rebalance cycle''],
      kb_prevention = ''Use static group membership; tune poll and session timeouts; monitor rebalance frequency; avoid long processing in poll loop'',
      kb_base_confidence = 75, kb_base_risk_score = 65\<rparr>,
     \<lparr>kb_id = ''redis-cluster-slot-migration'', kb_category = ''messaging'', kb_sub_category = ''redis'',
      kb_keywords = [''redis cluster'', ''slot migration'', ''MOVED'', ''ASK redirect'', ''redis slot''],
      kb_anti_words = [''kafka'', ''rabbitmq''], kb_metric_name = [], kb_severity = ''medium'',
      kb_root_cause = (''Redis Cluster slot migration in progress '' @ [CHR 0xE2, CHR 0x80, CHR 0x94] @ '' clients receiving MOVED/ASK redirections during resharding''),
      kb_reasoning = [''During slot migration (resharding), keys in the migrating slot may be on either the source or target node'',
       (''Clients that don'' @ [CHR 0x27] @ ''t handle MOVED/ASK redirects will fail for keys in migrating slots''),
       ''High-traffic keys in migrating slots can cause latency spikes''],
      kb_impact = ''Increased latency for affected keys; clients without redirect handling get errors; temporary performance degradation'',
      kb_resolution_steps = [''Check cluster status: redis-cli cluster info'', ''Check slot migration: redis-cli cluster slots'',
       ''Wait for migration to complete if it is in progress'',
       ''Use a client library that supports cluster redirections (MOVED/ASK)''],
      kb_prevention = ''Use cluster-aware client libraries; schedule resharding during low traffic; monitor cluster slot distribution'',
      kb_base_confidence = 65, kb_base_risk_score = 45\<rparr>]"

definition advanced_supplemental_entries_2 :: "KnowledgeEntry list" where
  "advanced_supplemental_entries_2 =
    [\<lparr>kb_id = ''cicd-docker-layer-cache-miss'', kb_category = ''cicd'', kb_sub_category = ''build'',
      kb_keywords = [''cache miss'', ''layer cache miss'', ''docker cache'', ''rebuild all layers'', ''no cache from''],
      kb_anti_words = [''npm cache''], kb_metric_name = [], kb_severity = ''medium'',
      kb_root_cause = (''Docker layer cache miss in CI '' @ [CHR 0xE2, CHR 0x80, CHR 0x94] @ '' all layers are being rebuilt from scratch, significantly slowing the build''),
      kb_reasoning = [(''CI environments often don'' @ [CHR 0x27] @ ''t persist Docker layer cache between runs''),
       ''Changes to early Dockerfile steps (e.g., COPY . .) invalidate all subsequent cached layers'',
       ''BuildKit cache mounts or external cache storage may not be configured''],
      kb_impact = ''Build times significantly increased; CI pipeline queues backed up; developer wait time increased'',
      kb_resolution_steps = [''Order Dockerfile to maximize cache hits: copy dependency files before source code'',
       ''Use BuildKit cache: DOCKER_BUILDKIT=1 docker build --cache-from <image>'',
       ''Configure CI cache for Docker layers: use registry-based caching'',
       ''Use multi-stage builds to separate dependency installation from code copy''],
      kb_prevention = ''Structure Dockerfiles for cache optimization; use BuildKit with --cache-to/--cache-from; persist cache between CI runs'',
      kb_base_confidence = 65, kb_base_risk_score = 30\<rparr>,
     \<lparr>kb_id = ''sec-ssh-key-rotation-needed'', kb_category = ''security'', kb_sub_category = ''credentials'',
      kb_keywords = [''ssh key rotation'', ''ssh key expired'', ''ssh key age'', ''key rotation'', ''authorized_keys''],
      kb_anti_words = [''ssh brute force''], kb_metric_name = [], kb_severity = ''medium'',
      kb_root_cause = (''SSH keys need rotation '' @ [CHR 0xE2, CHR 0x80, CHR 0x94] @ '' authentication keys have exceeded the recommended maximum age''),
      kb_reasoning = [''Long-lived SSH keys increase the window of opportunity if compromised'',
       ''Former employees or team members may still have valid keys'',
       ''Compliance frameworks often require regular key rotation''],
      kb_impact = ''Increased risk of unauthorized access; compliance violations; audit findings'',
      kb_resolution_steps = [''Audit authorized keys: cat ~/.ssh/authorized_keys'',
       (''Generate new key pair: ssh-keygen -t ed25519 -C '' @ [CHR 0x27] @ ''rotated-$(date +%Y%m%d)'' @ [CHR 0x27]),
       ''Deploy new public key to servers: ssh-copy-id -i ~/.ssh/id_ed25519.pub user@host'',
       ''Remove old keys from authorized_keys'', ''Update CI/CD systems with new keys''],
      kb_prevention = ''Implement key rotation policy; use SSH certificate authority; audit authorized_keys regularly; use short-lived certificates'',
      kb_base_confidence = 60, kb_base_risk_score = 45\<rparr>,
     \<lparr>kb_id = ''sec-container-escape-attempt'', kb_category = ''security'', kb_sub_category = ''container'',
      kb_keywords = [''container escape'', ''container breakout'', ''privilege container'', ''host namespace'', ''nsenter''],
      kb_anti_words = [''container crash''], kb_metric_name = [], kb_severity = ''critical'',
      kb_root_cause = (''Container escape attempt '' @ [CHR 0xE2, CHR 0x80, CHR 0x94] @ '' a process inside a container is attempting to break out to the host''),
      kb_reasoning = [''Privileged containers or containers with host namespace access can access host resources'',
       ''CVEs in runc, containerd, or the kernel can enable container escapes'',
       ''Mounting the Docker socket inside a container effectively grants host root access''],
      kb_impact = ''Full host compromise; access to all containers on the host; lateral movement across infrastructure'',
      kb_resolution_steps = [''Isolate the affected host immediately'',
       ''Identify the container and process: check for processes in host namespaces'',
       ''Stop the affected container: docker stop <container>'',
       ''Audit container security: check for privileged mode, host mounts, capabilities'',
       ''Patch the container runtime if a CVE is involved''],
      kb_prevention = ''Never run privileged containers in production; drop all capabilities; use seccomp and AppArmor; patch runc/containerd'',
      kb_base_confidence = 85, kb_base_risk_score = 95\<rparr>,
     \<lparr>kb_id = ''storage-filesystem-readonly'', kb_category = ''storage'', kb_sub_category = ''filesystem'',
      kb_keywords = [''read-only filesystem'', ''read only file system'', ''remounted read-only'', ''ext4 error'', ''xfs error''],
      kb_anti_words = [''elasticsearch read-only''], kb_metric_name = [], kb_severity = ''critical'',
      kb_root_cause = (''Filesystem remounted read-only '' @ [CHR 0xE2, CHR 0x80, CHR 0x94] @ '' the kernel detected filesystem errors and remounted to prevent corruption''),
      kb_reasoning = [''The kernel remounts filesystems read-only when it detects metadata corruption or I/O errors'',
       ''This is a protective measure to prevent further data loss'',
       ''The underlying cause is usually a failing disk, controller, or cable''],
      kb_impact = ''All write operations fail; applications crash; databases shut down; service completely disrupted'',
      kb_resolution_steps = [(''Check dmesg for filesystem errors: dmesg -T | grep -i '' @ [CHR 0x27] @ ''error'' @ [CHR 0x5C] @ ''|readonly'' @ [CHR 0x5C] @ ''|read-only'' @ [CHR 0x27]),
       ''Check disk health: smartctl -a /dev/<disk>'', ''If disk is healthy, remount: mount -o remount,rw /'',
       ''Run filesystem check (requires unmount): umount /dev/<disk> && fsck /dev/<disk>'',
       ''Replace the disk if SMART reports issues''],
      kb_prevention = ''Monitor SMART data; use RAID for redundancy; run periodic fsck; replace disks at first SMART warning'',
      kb_base_confidence = 85, kb_base_risk_score = 90\<rparr>,
     \<lparr>kb_id = ''mon-metrics-gap'', kb_category = ''monitoring'', kb_sub_category = ''metrics'',
      kb_keywords = [''metrics gap'', ''missing metrics'', ''data gap'', ''no data points'', ''metrics missing''],
      kb_anti_words = [''grafana timeout''], kb_metric_name = [], kb_severity = ''high'',
      kb_root_cause = (''Metrics collection gap '' @ [CHR 0xE2, CHR 0x80, CHR 0x94] @ '' a period with no data points indicating the collection pipeline was interrupted''),
      kb_reasoning = [''Metrics gaps can be caused by agent crashes, network issues, or pipeline overload'',
       ''The gap may affect specific metrics or all metrics from a source'',
       ''SLO calculations and alerting are inaccurate during gaps''],
      kb_impact = ''Alerting blind spots; inaccurate SLO calculations; incomplete incident data; compliance gaps'',
      kb_resolution_steps = [''Identify the gap period and affected metrics'',
       ''Check the metrics agent/collector on the source: systemctl status <agent>'',
       ''Check the metrics pipeline (Prometheus, OTEL collector) for errors'',
       ''Verify network connectivity between source and collection endpoint'',
       ''Restart the agent if it crashed: systemctl restart <agent>''],
      kb_prevention = ''Monitor the monitoring pipeline itself; use redundant collection paths; alert on scrape failures; use heartbeat metrics'',
      kb_base_confidence = 70, kb_base_risk_score = 55\<rparr>,
     \<lparr>kb_id = ''api-retry-storm'', kb_category = ''api'', kb_sub_category = ''resilience'',
      kb_keywords = [''retry storm'', ''thundering herd'', ''retry flood'', ''exponential backoff missing'', ''retry loop''],
      kb_anti_words = [''circuit breaker''], kb_metric_name = [], kb_severity = ''high'',
      kb_root_cause = (''Retry storm '' @ [CHR 0xE2, CHR 0x80, CHR 0x94] @ '' multiple clients retrying failed requests simultaneously are overwhelming the recovering service''),
      kb_reasoning = [''When a service recovers from an outage, all queued retries hit it at once'',
       ''Without jitter and exponential backoff, retries synchronize and create load spikes'',
       ''The thundering herd effect prevents the service from recovering''],
      kb_impact = ''Service cannot recover; load amplified by retries; prolonged outage; cascading to other services'',
      kb_resolution_steps = [''Add exponential backoff with jitter to all retry logic'',
       ''Implement circuit breakers to stop retries while the service is down'',
       ''Rate limit inbound requests during recovery'', ''Scale up the recovering service to handle the retry burst'',
       ''Stagger client retries with random initial delay''],
      kb_prevention = ''Always use exponential backoff with jitter; implement circuit breakers; use retry budgets; rate limit at the edge'',
      kb_base_confidence = 75, kb_base_risk_score = 70\<rparr>,
     \<lparr>kb_id = ''api-header-size-exceeded'', kb_category = ''api'', kb_sub_category = ''request'',
      kb_keywords = [''header too large'', ''431'', ''request header fields too large'', ''header size exceeded'',
       ''cookie too large''],
      kb_anti_words = [''413 payload''], kb_metric_name = [], kb_severity = ''medium'',
      kb_root_cause = (''HTTP request header too large (431) '' @ [CHR 0xE2, CHR 0x80, CHR 0x94] @ '' the request headers exceed the server'' @ [CHR 0x27] @ ''s maximum allowed size''),
      kb_reasoning = [''Large cookies, excessive custom headers, or long JWT tokens can exceed header limits'',
       ''The default header size limit varies: nginx 8KB, Apache 8KB, Go 1MB'',
       ''Accumulating cookies over time can gradually push header size over the limit''],
      kb_impact = ''Request rejected; specific users with large cookies affected; API calls with many headers fail'',
      kb_resolution_steps = [''Increase header limit: nginx: large_client_header_buffers 4 32k'',
       ''Check which headers are large: inspect the request headers'',
       ''Clear old cookies: set Max-Age=0 for unnecessary cookies'',
       ''Move large tokens from headers to request body''],
      kb_prevention = ''Monitor cookie sizes; set reasonable header limits; use session storage instead of large cookies; limit JWT payload'',
      kb_base_confidence = 65, kb_base_risk_score = 30\<rparr>,
     \<lparr>kb_id = ''misc-service-dependency-cycle'', kb_category = ''application'', kb_sub_category = ''architecture'',
      kb_keywords = [''circular dependency'', ''dependency cycle'', ''deadlock startup'', ''service dependency loop'',
       ''init order''],
      kb_anti_words = [''helm dependency''], kb_metric_name = [], kb_severity = ''high'',
      kb_root_cause = (''Service dependency cycle '' @ [CHR 0xE2, CHR 0x80, CHR 0x94] @ '' services have circular dependencies preventing proper startup ordering''),
      kb_reasoning = [''Service A depends on B, and B depends on A, creating an unresolvable startup order'',
       ''All services in the cycle wait for each other, creating a deadlock'',
       ''This often manifests as intermittent startup failures depending on timing''],
      kb_impact = ''Services cannot start reliably; requires manual intervention to break the cycle; deployment failures'',
      kb_resolution_steps = [''Map the dependency graph to identify the cycle'',
       ''Break the cycle by introducing async initialization or lazy loading'',
       ''Use health check retries with backoff instead of strict startup ordering'',
       ''Decouple the circular dependency via events, queues, or service discovery''],
      kb_prevention = ''Review dependency graphs before adding new dependencies; use async patterns; avoid tight coupling between services'',
      kb_base_confidence = 70, kb_base_risk_score = 55\<rparr>]"

definition advanced_supplemental_entries_3 :: "KnowledgeEntry list" where
  "advanced_supplemental_entries_3 =
    [\<lparr>kb_id = ''misc-goroutine-leak'', kb_category = ''application'', kb_sub_category = ''go'',
      kb_keywords = [''goroutine leak'', ''goroutine count'', ''too many goroutines'', ''goroutine growing'',
       ''runtime.NumGoroutine''],
      kb_anti_words = [''java thread''], kb_metric_name = [], kb_severity = ''high'',
      kb_root_cause = (''Go goroutine leak '' @ [CHR 0xE2, CHR 0x80, CHR 0x94] @ '' goroutines are being created but not properly terminated, consuming memory''),
      kb_reasoning = [''Goroutine leaks occur when goroutines block on channels, mutexes, or I/O that never completes'',
       ''Each goroutine consumes at least 2KB of stack, growing to MB if stack grows'',
       ''Leaked goroutines accumulate over time and eventually cause OOM''],
      kb_impact = ''Memory usage grows steadily; eventual OOM crash; performance degradation from GC pressure'',
      kb_resolution_steps = [''Check goroutine count: curl http://localhost:6060/debug/pprof/goroutine?debug=1'',
       ''Profile goroutines: go tool pprof http://localhost:6060/debug/pprof/goroutine'',
       ''Identify the blocked goroutines and their stack traces'',
       ''Use context.Context with cancellation for all goroutines'',
       ''Ensure all channels are properly closed and select has a done case''],
      kb_prevention = ''Always use context.Context; ensure goroutines have exit paths; use goleak in tests; monitor goroutine count'',
      kb_base_confidence = 75, kb_base_risk_score = 65\<rparr>,
     \<lparr>kb_id = ''misc-iptables-rule-conflict'', kb_category = ''system'', kb_sub_category = ''firewall'',
      kb_keywords = [''iptables conflict'', ''iptables rule'', ''nftables conflict'', ''firewall rule conflict'', ''chain conflict''],
      kb_anti_words = [''security group''], kb_metric_name = [], kb_severity = ''medium'',
      kb_root_cause = (''iptables/nftables rule conflict '' @ [CHR 0xE2, CHR 0x80, CHR 0x94] @ '' conflicting firewall rules are causing unexpected traffic blocking or allowing''),
      kb_reasoning = [''Multiple tools managing iptables (Docker, k8s, fail2ban, firewalld) can create conflicting rules'',
       ''Rule ordering matters: an early DROP rule overrides later ACCEPT rules'',
       ''Docker adds its own chains that can interfere with user-defined rules''],
      kb_impact = ''Unexpected traffic blocks; services unreachable; security rules ineffective'',
      kb_resolution_steps = [''List all rules: iptables -L -n -v --line-numbers'',
       ''Check all chains including Docker: iptables -t nat -L -n -v'',
       ''Identify conflicting rules and their sources'',
       ''Reorganize rules: ensure custom rules come before auto-generated ones''],
      kb_prevention = ''Use a single firewall management tool; document rule ownership; test rule changes in staging; monitor rule count'',
      kb_base_confidence = 65, kb_base_risk_score = 50\<rparr>,
     \<lparr>kb_id = ''misc-database-migration-failed'', kb_category = ''application'', kb_sub_category = ''database'',
      kb_keywords = [''migration failed'', ''schema migration'', ''migrate error'', ''flyway error'', ''alembic error'',
       ''dirty migration''],
      kb_anti_words = [''data migration''], kb_metric_name = [], kb_severity = ''high'',
      kb_root_cause = (''Database schema migration failed '' @ [CHR 0xE2, CHR 0x80, CHR 0x94] @ '' an automatic migration did not complete successfully, leaving the schema in a dirty state''),
      kb_reasoning = [''Failed migrations can leave the database in an inconsistent state between versions'',
       (''The migration tool marks the state as '' @ [CHR 0x27] @ ''dirty'' @ [CHR 0x27] @ '', preventing further migrations''),
       ''Partially applied DDL changes may break the application''],
      kb_impact = ''Application cannot start with schema mismatch; future migrations blocked; data integrity risk'',
      kb_resolution_steps = [(''Check migration status: the migration tool'' @ [CHR 0x27] @ ''s version/status command''),
       ''Review the failed migration SQL and the error message'',
       ''Manually fix the schema to match the expected state'',
       ''Force-set the migration version: mark as clean at the correct version'',
       ''Test the fix by running the next migration''],
      kb_prevention = ''Test migrations in staging; use transactions for DDL where supported; backup before migration; review migration SQL in code review'',
      kb_base_confidence = 75, kb_base_risk_score = 65\<rparr>,
     \<lparr>kb_id = ''misc-tls-protocol-mismatch'', kb_category = ''network'', kb_sub_category = ''tls'',
      kb_keywords = [''tls version mismatch'', ''protocol version'', ''no protocols available'', ''tls 1.0 disabled'',
       ''sslv3 alert''],
      kb_anti_words = [''certificate expired''], kb_metric_name = [], kb_severity = ''high'',
      kb_root_cause = (''TLS protocol version mismatch '' @ [CHR 0xE2, CHR 0x80, CHR 0x94] @ '' client and server cannot agree on a common TLS version''),
      kb_reasoning = [''Server may have disabled older TLS versions (1.0, 1.1) for security compliance'',
       ''Old clients or libraries may not support TLS 1.2 or 1.3'',
       ''Corporate proxies or security appliances may downgrade TLS versions''],
      kb_impact = ''Connection refused; old clients cannot connect; integrations with legacy systems break'',
      kb_resolution_steps = [''Test supported versions: nmap --script ssl-enum-ciphers -p 443 <host>'',
       ''Check client TLS support: openssl s_client -connect <host>:443 -tls1_2'',
       ''Update the client to support TLS 1.2+'',
       ''If needed temporarily, enable TLS 1.1 on the server: add to ssl_protocols in nginx''],
      kb_prevention = ''Keep clients and servers on TLS 1.2+; test protocol compatibility; monitor for handshake failures; document minimum TLS version'',
      kb_base_confidence = 70, kb_base_risk_score = 55\<rparr>,
     \<lparr>kb_id = ''misc-cpu-throttling-cgroup'', kb_category = ''system'', kb_sub_category = ''cpu'',
      kb_keywords = [''cpu throttling'', ''cpu throttled'', ''cfs throttled'', ''cpu quota'', ''nr_throttled''],
      kb_anti_words = [''network throttle'', ''disk throttle''], kb_metric_name = [], kb_severity = ''high'',
      kb_root_cause = (''CPU throttling by cgroup '' @ [CHR 0xE2, CHR 0x80, CHR 0x94] @ '' the process is being throttled because it exceeded its CPU quota''),
      kb_reasoning = [''CFS (Completely Fair Scheduler) enforces cpu.cfs_quota_us limits per cgroup'',
       ''When a process uses its entire CPU quota in a period, it is suspended until the next period'',
       ''This causes latency spikes that correlate with the CFS period (usually 100ms)''],
      kb_impact = ''Application latency spikes every ~100ms; tail latency severely affected; throughput reduced'',
      kb_resolution_steps = [''Check throttling: cat /sys/fs/cgroup/cpu/<group>/cpu.stat (look for nr_throttled)'',
       ''Increase CPU quota: echo 200000 > /sys/fs/cgroup/cpu/<group>/cpu.cfs_quota_us'',
       ''For Kubernetes: increase CPU limits in the pod spec'', ''Profile CPU usage to optimize the application'',
       ''Consider removing CPU limits if burstable is acceptable''],
      kb_prevention = ''Set CPU limits based on profiling; monitor throttling metrics; use CPU requests without limits for non-critical services'',
      kb_base_confidence = 80, kb_base_risk_score = 60\<rparr>,
     \<lparr>kb_id = ''misc-signal-handling-issue'', kb_category = ''application'', kb_sub_category = ''lifecycle'',
      kb_keywords = [''signal handling'', ''SIGTERM ignored'', ''signal not caught'', ''zombie process'', ''orphan process''],
      kb_anti_words = [''shutdown timeout''], kb_metric_name = [], kb_severity = ''medium'',
      kb_root_cause = (''Signal handling issue '' @ [CHR 0xE2, CHR 0x80, CHR 0x94] @ '' the application does not properly handle Unix signals (SIGTERM, SIGINT), causing improper shutdown''),
      kb_reasoning = [''PID 1 processes in containers have special signal handling: SIGTERM is ignored by default'',
       (''Applications that don'' @ [CHR 0x27] @ ''t handle SIGTERM will be SIGKILL-ed after the grace period''),
       (''Zombie processes accumulate when parent processes don'' @ [CHR 0x27] @ ''t reap child processes'')],
      kb_impact = ''Unclean shutdowns; data loss; zombie processes consuming PID table entries; container stop takes 30+ seconds'',
      kb_resolution_steps = [''Verify signal handling: send SIGTERM and check if the process shuts down'',
       (''Use exec form in Dockerfile: CMD ['' @ [CHR 0x22] @ ''app'' @ [CHR 0x22] @ ''] not CMD app (avoids shell wrapper)''),
       ''Use tini or dumb-init as PID 1 for signal forwarding'',
       ''Implement signal handlers: trap SIGTERM in shell scripts; os/signal in Go''],
      kb_prevention = ''Use init process (tini) in containers; implement signal handlers; test shutdown behavior; use exec form in CMD'',
      kb_base_confidence = 65, kb_base_risk_score = 40\<rparr>,
     \<lparr>kb_id = ''misc-memory-leak-native'', kb_category = ''application'', kb_sub_category = ''memory'',
      kb_keywords = [''memory leak'', ''RSS growing'', ''resident memory'', ''memory increase'', ''leak detected''],
      kb_anti_words = [''java heap'', ''goroutine leak''], kb_metric_name = [], kb_severity = ''high'',
      kb_root_cause = (''Native memory leak '' @ [CHR 0xE2, CHR 0x80, CHR 0x94] @ '' the application'' @ [CHR 0x27] @ ''s RSS is steadily growing over time without releasing memory''),
      kb_reasoning = [(''Memory leaks in native code (C/C++ libraries, CGo) are not visible to the language runtime'' @ [CHR 0x27] @ ''s GC''),
       ''Leaked allocations accumulate until the process is OOM-killed'',
       ''Common sources: unreleased buffers, unclosed connections, growing caches without eviction''],
      kb_impact = ''Gradual memory exhaustion; eventual OOM kill; service restarts with increasing frequency'',
      kb_resolution_steps = [(''Monitor RSS over time: watch -n 60 '' @ [CHR 0x27] @ ''ps -o rss= -p <PID>'' @ [CHR 0x27]),
       ''Profile memory: valgrind --tool=massif <binary> or pprof for Go'',
       ''Check for CGo leaks: use GODEBUG=madvdontneed=1 for Go applications'',
       ''Identify the leaking component and fix the allocation/deallocation mismatch''],
      kb_prevention = ''Profile memory usage in testing; set memory limits with alerts; use ASAN in development; monitor RSS trends'',
      kb_base_confidence = 75, kb_base_risk_score = 65\<rparr>,
     \<lparr>kb_id = ''misc-disk-inode-exhaustion'', kb_category = ''system'', kb_sub_category = ''disk'',
      kb_keywords = [''no space left inode'', ''inode exhaustion'', ''inode full'', ''no inodes'', ''inode limit''],
      kb_anti_words = [''disk space''], kb_metric_name = [], kb_severity = ''high'',
      kb_root_cause = (''Filesystem inode exhaustion '' @ [CHR 0xE2, CHR 0x80, CHR 0x94] @ '' all inodes are consumed even though disk space is available''),
      kb_reasoning = [''Each file and directory consumes one inode regardless of file size'',
       ''Millions of tiny files (session files, cache entries, mail queue) exhaust inodes'',
       ''The df -h output shows free space but df -i shows 100% inode usage''],
      kb_impact = (''Cannot create new files; applications fail with '' @ [CHR 0x27] @ ''no space left on device'' @ [CHR 0x27] @ '' despite free disk space''),
      kb_resolution_steps = [''Check inode usage: df -i'',
       (''Find directories with many files: find / -xdev -printf '' @ [CHR 0x27] @ ''%h'' @ [CHR 0x5C] @ ''n'' @ [CHR 0x27] @ '' | sort | uniq -c | sort -rn | head''),
       ''Delete unnecessary small files: find /tmp -type f -mtime +30 -delete'',
       ''If persistent issue, reformat with more inodes: mkfs.ext4 -N <count> /dev/<disk>''],
      kb_prevention = ''Monitor inode usage; clean temporary files regularly; use filesystems with dynamic inodes (XFS, btrfs)'',
      kb_base_confidence = 80, kb_base_risk_score = 65\<rparr>,
     \<lparr>kb_id = ''sec-open-redirect'', kb_category = ''security'', kb_sub_category = ''web'',
      kb_keywords = [''open redirect'', ''redirect vulnerability'', ''url redirect'', ''unvalidated redirect'',
       ''redirect to external''],
      kb_anti_words = [''http redirect''], kb_metric_name = [], kb_severity = ''medium'',
      kb_root_cause = (''Open redirect vulnerability '' @ [CHR 0xE2, CHR 0x80, CHR 0x94] @ '' the application redirects users to arbitrary external URLs without validation''),
      kb_reasoning = [''Open redirects are used in phishing attacks to make malicious URLs appear legitimate'',
       ''The redirect URL is taken from user input (query parameter, form field) without validation'',
       ''OAuth flows are particularly vulnerable if the redirect_uri is not strictly validated''],
      kb_impact = (''Phishing attacks using the application'' @ [CHR 0x27] @ ''s domain; OAuth token theft; user trust erosion''),
      kb_resolution_steps = [''Validate redirect URLs against a whitelist of allowed domains'',
       ''Use relative URLs for redirects instead of absolute URLs'',
       ''Implement a redirect confirmation page for external URLs'',
       ''Audit all redirect endpoints for user-controlled redirect targets''],
      kb_prevention = ''Whitelist allowed redirect domains; use relative redirects; validate redirect_uri in OAuth; code review redirect logic'',
      kb_base_confidence = 70, kb_base_risk_score = 55\<rparr>]"

definition advanced_supplemental_entries :: "KnowledgeEntry list" where
  "advanced_supplemental_entries = advanced_supplemental_entries_1 @ advanced_supplemental_entries_2 @ advanced_supplemental_entries_3"

definition advanced_entries :: "KnowledgeEntry list" where
  "advanced_entries = advanced_linux_entries @ advanced_network_entries @ advanced_container_entries @ advanced_message_queue_entries @ advanced_cicd_entries @ advanced_security_entries @ advanced_storage_entries @ advanced_monitoring_entries @ advanced_api_entries @ advanced_misc_entries @ advanced_supplemental_entries"

end
