(* ===== verification/KnowledgeEntries.thy ===== *)
theory KnowledgeEntries
  imports KbSystem KbApplication KbDatabase KbKubernetes KbCloud KbExtras KbAdvanced Correlation
begin

text \<open>
  \<open>buildAllEntries\<close> of \<open>services/knowledge_base.go\<close>: the whole knowledge base, and what holds of its 502 entries.
  Each table is checked by evaluation; \<open>table_ok\<close> puts the checks together.
\<close>

definition build_all_entries :: "KnowledgeEntry list" where
  "build_all_entries =
    cpu_entries @ memory_entries @ disk_entries @ network_entries @ system_entries @ java_entries @ 
     python_entries @ node_entries @ go_entries @ generic_app_entries @ postgres_entries @ mysql_entries @ 
     redis_entries @ mongo_entries @ kubernetes_entries @ infra_entries @ aws_entries @ gcp_entries @ 
     azure_entries @ extra_system_entries @ extra_app_entries @ advanced_entries"

section \<open>Checks\<close>

text \<open>The fields are filled and in range.\<close>

definition entry_filled :: "KnowledgeEntry \<Rightarrow> bool" where
  "entry_filled e \<longleftrightarrow> kb_id e \<noteq> [] \<and> kb_category e \<noteq> [] \<and> kb_root_cause e \<noteq> [] \<and> kb_reasoning e \<noteq> [] \<and>
     kb_resolution_steps e \<noteq> [] \<and> list_all (\<lambda>kw. str_fields (to_lower kw) \<noteq> []) (kb_keywords e) \<and>
     kb_severity e \<in> {''critical'', ''high'', ''medium'', ''low''} \<and>
     60 \<le> kb_base_confidence e \<and> kb_base_confidence e \<le> 90 \<and> 20 \<le> kb_base_risk_score e \<and> kb_base_risk_score e \<le> 95"

text \<open>Some keyword that can stand alone is live, and a text of it contains no anti-word.\<close>

definition recognisable :: "KnowledgeEntry \<Rightarrow> bool" where
  "recognisable e \<longleftrightarrow>
    (case find (\<lambda>kw. is_standalone_keyword kw \<and> \<not> keyword_dead kw) (kb_keywords e) of
       None \<Rightarrow> False
     | Some kw \<Rightarrow> tokenize kw \<noteq> [] \<and> list_all (\<lambda>aw. \<not> keyword_hits (tokenize kw) aw) (kb_anti_words e))"

definition dead_keywords :: "KnowledgeEntry list \<Rightarrow> string list" where
  "dead_keywords es = filter keyword_dead (concat (map kb_keywords es))"

definition table_ok :: "KnowledgeEntry list \<Rightarrow> nat \<Rightarrow> nat \<Rightarrow> bool" where
  "table_ok es n d \<longleftrightarrow> list_all entry_filled es \<and> list_all recognisable es \<and> length es = n \<and> length (dead_keywords es) = d"

lemma table_ok_append:
  "table_ok xs n d \<Longrightarrow> table_ok ys m e \<Longrightarrow> table_ok (xs @ ys) (n + m) (d + e)"
  by (simp add: table_ok_def dead_keywords_def)

lemma cpu_entries_ok: "table_ok cpu_entries 11 1"
  by code_simp

lemma memory_entries_ok: "table_ok memory_entries 10 1"
  by code_simp

lemma disk_entries_ok: "table_ok disk_entries 10 3"
  by code_simp

lemma network_entries_ok: "table_ok network_entries 10 5"
  by code_simp

lemma system_entries_ok: "table_ok system_entries 5 0"
  by code_simp

lemma java_entries_ok: "table_ok java_entries 15 7"
  by code_simp

lemma python_entries_ok: "table_ok python_entries 15 5"
  by code_simp

lemma node_entries_ok: "table_ok node_entries 15 5"
  by code_simp

lemma go_entries_ok: "table_ok go_entries 10 1"
  by code_simp

lemma generic_app_entries_ok: "table_ok generic_app_entries 14 0"
  by code_simp

lemma postgres_entries_ok: "table_ok postgres_entries 19 3"
  by code_simp

lemma mysql_entries_ok: "table_ok mysql_entries 10 3"
  by code_simp

lemma redis_entries_ok: "table_ok redis_entries 14 3"
  by code_simp

lemma mongo_entries_ok: "table_ok mongo_entries 10 0"
  by code_simp

lemma kubernetes_entries_ok: "table_ok kubernetes_entries 39 8"
  by code_simp

lemma infra_entries_ok: "table_ok infra_entries 29 1"
  by code_simp

lemma aws_entries_ok: "table_ok aws_entries 10 0"
  by code_simp

lemma gcp_entries_ok: "table_ok gcp_entries 10 0"
  by code_simp

lemma azure_entries_ok: "table_ok azure_entries 10 0"
  by code_simp

lemma extra_system_entries_ok: "table_ok extra_system_entries 5 3"
  by code_simp

lemma extra_app_entries_ok: "table_ok extra_app_entries 30 4"
  by code_simp

lemma advanced_linux_entries_ok: "table_ok advanced_linux_entries 26 13"
  by code_simp

lemma advanced_network_entries_ok: "table_ok advanced_network_entries 19 4"
  by code_simp

lemma advanced_container_entries_ok: "table_ok advanced_container_entries 16 3"
  by code_simp

lemma advanced_message_queue_entries_ok: "table_ok advanced_message_queue_entries 18 5"
  by code_simp

lemma advanced_cicd_entries_ok: "table_ok advanced_cicd_entries 12 3"
  by code_simp

lemma advanced_security_entries_ok: "table_ok advanced_security_entries 17 10"
  by code_simp

lemma advanced_storage_entries_ok: "table_ok advanced_storage_entries 14 2"
  by code_simp

lemma advanced_monitoring_entries_ok: "table_ok advanced_monitoring_entries 14 5"
  by code_simp

lemma advanced_api_entries_ok: "table_ok advanced_api_entries 19 5"
  by code_simp

lemma advanced_misc_entries_ok: "table_ok advanced_misc_entries 20 6"
  by code_simp

lemma advanced_supplemental_entries_ok: "table_ok advanced_supplemental_entries 26 8"
  by code_simp

lemmas tables_ok =
    cpu_entries_ok memory_entries_ok disk_entries_ok network_entries_ok system_entries_ok java_entries_ok
    python_entries_ok node_entries_ok go_entries_ok generic_app_entries_ok postgres_entries_ok
    mysql_entries_ok redis_entries_ok mongo_entries_ok kubernetes_entries_ok infra_entries_ok aws_entries_ok
    gcp_entries_ok azure_entries_ok extra_system_entries_ok extra_app_entries_ok advanced_linux_entries_ok
    advanced_network_entries_ok advanced_container_entries_ok advanced_message_queue_entries_ok
    advanced_cicd_entries_ok advanced_security_entries_ok advanced_storage_entries_ok
    advanced_monitoring_entries_ok advanced_api_entries_ok advanced_misc_entries_ok
    advanced_supplemental_entries_ok

lemma build_all_entries_ok: "table_ok build_all_entries 502 117"
proof -
  have adv: "table_ok advanced_entries (26 + (19 + (16 + (18 + (12 + (17 + (14 + (14 + (19 + (20 + 26))))))))))
    (13 + (4 + (3 + (5 + (3 + (10 + (2 + (5 + (5 + (6 + 8))))))))))"
    unfolding advanced_entries_def by (intro table_ok_append tables_ok)
  have "table_ok build_all_entries
    (11 + (10 + (10 + (10 + (5 + (15 + (15 + (15 + (10 + (14 + (19 + (10 + (14 + (10 + (39 + (29 + (10 + (10 + (10 + (5 + (30 + 201)))))))))))))))))))))
    (1 + (1 + (3 + (5 + (0 + (7 + (5 + (5 + (1 + (0 + (3 + (3 + (3 + (0 + (8 + (1 + (0 + (0 + (0 + (3 + (4 + 64)))))))))))))))))))))"
    unfolding build_all_entries_def by (intro table_ok_append tables_ok adv[simplified])
  then show ?thesis by simp
qed

lemma entry_facts:
  assumes "e \<in> set build_all_entries"
  shows "entry_filled e" "recognisable e"
  using assms build_all_entries_ok by (auto simp: table_ok_def list_all_iff)

section \<open>Properties\<close>

lemma tokenize_blank: "tokenize (s @ '' '') = tokenize s"
proof -
  have "\<not> is_word_char (CHR '' '')" by code_simp
  moreover have "to_lower '' '' = '' ''" by code_simp
  ultimately show ?thesis
    using split_pred_append[of "\<lambda>c. \<not> is_word_char c" "CHR '' ''" "to_lower s" "[]"]
    by (simp add: tokenize_def to_lower_def)
qed

lemma recognised_by_keyword:
  assumes "recognisable e" "list_all (\<lambda>kw. str_fields (to_lower kw) \<noteq> []) (kb_keywords e)"
  shows "\<exists>kw \<in> set (kb_keywords e). tokenize kw \<noteq> [] \<and> eligible (tokenize kw) e"
proof -
  from assms(1) obtain kw where f: "find (\<lambda>kw. is_standalone_keyword kw \<and> \<not> keyword_dead kw) (kb_keywords e) = Some kw"
    and t: "tokenize kw \<noteq> []" and a: "\<forall>aw \<in> set (kb_anti_words e). \<not> keyword_hits (tokenize kw) aw"
    by (auto simp: recognisable_def list_all_iff split: option.splits)
  then have kw: "kw \<in> set (kb_keywords e)" "is_standalone_keyword kw" "\<not> keyword_dead kw"
    by (auto simp: find_Some_iff in_set_conv_nth)
  with assms(2) have h: "keyword_hits (tokenize kw) kw" by (simp add: live_keyword_hits list_all_iff)
  then have "hit_count (tokenize kw) e \<noteq> 0" "hit_standalone (tokenize kw) e"
    using kw by (auto simp: hit_count_def filter_empty_conv hit_standalone_def list_ex_iff)
  with a t kw(1) show ?thesis by (auto simp: eligible_def entry_excluded_def list_ex_iff)
qed

lemma eligible_matched:
  assumes "e \<in> set es" "tokenize kw \<noteq> []" "eligible (tokenize kw) e"
  shows "\<exists>m \<in> set es. kb_match (new_knowledge_base es) kw [] [] = Some m \<and> eligible (tokenize kw) m \<and>
    hit_count (tokenize kw) e \<le> hit_count (tokenize kw) m"
proof -
  have "kw \<noteq> []" using assms(2) by (auto simp: tokenize_def to_lower_def)
  then have "to_lower (kw @ '' '') \<noteq> '' ''" by (simp add: to_lower_def)
  then have k: "kb_match (new_knowledge_base es) kw [] [] = best_keyword_match es (kw @ '' '')"
    by (simp add: kb_match_def Let_def)
  from best_match_None[of es "kw @ '' ''" e] assms obtain m where m: "best_keyword_match es (kw @ '' '') = Some m"
    by (auto simp: tokenize_blank)
  from best_match_Some[OF m] assms(1,3) k m show ?thesis by (auto simp: tokenize_blank)
qed

text \<open>C38: no entry of the knowledge base is out of reach. For each of the 502 entries one of its own keywords is enough:
  an alert with that keyword as its title is matched, by an entry that qualifies and has at least as many keyword hits.\<close>

theorem every_entry_recognised:
  assumes "e \<in> set build_all_entries"
  shows "\<exists>kw \<in> set (kb_keywords e). \<exists>m \<in> set build_all_entries.
    kb_match (new_knowledge_base build_all_entries) kw [] [] = Some m \<and> eligible (tokenize kw) e \<and>
    eligible (tokenize kw) m \<and> hit_count (tokenize kw) e \<le> hit_count (tokenize kw) m"
proof -
  from recognised_by_keyword[of e] entry_facts[OF assms] obtain kw where
    "kw \<in> set (kb_keywords e)" "tokenize kw \<noteq> []" "eligible (tokenize kw) e" by (auto simp: entry_filled_def)
  with eligible_matched[OF assms this(2,3)] show ?thesis by blast
qed

theorem every_entry_recognised_witness:
  "\<exists>kw \<in> set (kb_keywords (hd cpu_entries)). \<exists>m \<in> set build_all_entries.
    kb_match (new_knowledge_base build_all_entries) kw [] [] = Some m"
proof -
  have "cpu_entries \<noteq> []" using cpu_entries_ok by (auto simp: table_ok_def)
  then have "hd cpu_entries \<in> set build_all_entries" by (simp add: build_all_entries_def)
  from every_entry_recognised[OF this] show ?thesis by blast
qed

text \<open>Exactly 117 of the keywords of the knowledge base are dead. They never hit on any text, because a word of them
  has a separator inside; every other keyword hits, at least on its own text.\<close>

theorem dead_keywords_exact:
  "length (dead_keywords build_all_entries) = 117 \<and>
   (\<forall>e \<in> set build_all_entries. \<forall>kw \<in> set (kb_keywords e).
      if kw \<in> set (dead_keywords build_all_entries) then \<forall>text. \<not> keyword_hits (tokenize text) kw
      else keyword_hits (tokenize kw) kw)"
proof -
  have "str_fields (to_lower kw) \<noteq> []" if "e \<in> set build_all_entries" "kw \<in> set (kb_keywords e)" for e kw
    using entry_facts(1)[OF that(1)] that(2) by (simp add: entry_filled_def list_all_iff)
  then show ?thesis
    using build_all_entries_ok by (auto simp: table_ok_def dead_keywords_def dead_never live_keyword_hits)
qed

theorem dead_keywords_exact_witness:
  "\<exists>kw. kw \<in> set (dead_keywords build_all_entries) \<and> \<not> keyword_hits (tokenize kw) kw"
proof -
  have "dead_keywords build_all_entries \<noteq> []" using dead_keywords_exact by auto
  then obtain kw where kw: "kw \<in> set (dead_keywords build_all_entries)" by (cases "dead_keywords build_all_entries") auto
  then obtain e where "e \<in> set build_all_entries" "kw \<in> set (kb_keywords e)" by (auto simp: dead_keywords_def)
  with dead_keywords_exact kw have "\<not> keyword_hits (tokenize kw) kw" by (metis (no_types, lifting))
  with kw show ?thesis by blast
qed

text \<open>What a new incident claims about itself is bounded. With the knowledge base of the code, the confidence of
  every new incident lies between 45 and 90 and its risk between 20 and 95, whatever the alert; an entry that is found
  brings a cause, a reasoning and steps.\<close>

theorem new_incident_bounded:
  "let inc = new_incident (Some (new_knowledge_base build_all_entries)) now e in
   45 \<le> inc_confidence inc \<and> inc_confidence inc \<le> 90 \<and> 20 \<le> inc_risk_score inc \<and> inc_risk_score inc \<le> 95 \<and>
   (\<forall>k. kb_entry_for (Some (new_knowledge_base build_all_entries)) e = Some k \<longrightarrow>
      inc_root_cause_summary inc = kb_root_cause k \<and> inc_reasoning inc = kb_reasoning k \<and> kb_root_cause k \<noteq> [] \<and>
      kb_reasoning k \<noteq> [] \<and> kb_resolution_steps k \<noteq> [])"
proof -
  have "entry_filled k" if "kb_entry_for (Some (new_knowledge_base build_all_entries)) e = Some k" for k
    using that kb_match_member[of build_all_entries] entry_facts(1) by (auto simp: kb_entry_for_def)
  then show ?thesis
    by (auto simp: new_incident_def Let_def rescored_def entry_filled_def initial_confidence_def initial_risk_score_def
        split: option.split)
qed

end
