(* ===== verification/ChangeStore.thy ===== *)
theory ChangeStore
  imports World
begin

text \<open>
  \<open>models/change_intelligence.go\<close> with \<open>store/change_intelligence_store.go\<close> and \<open>store/change_store.go\<close>: changes, flips
  of feature flags, the known-good configuration of a service, and the drift from it. The IDs come from sequences; a
  map without entries and a nil map are both \<open>[]\<close>. \<open>order\<close> is the order in which Go ranges over a map.
\<close>

section \<open>Data\<close>

record ChangeEvent =
  ch_id :: nat
  ch_tenant_id :: string
  ch_service :: string
  ch_type :: string
  ch_environment :: string
  ch_version :: string
  ch_description :: string
  ch_commit_sha :: string
  ch_author :: string
  ch_pr_number :: string
  ch_changed_files_count :: int
  ch_change_source :: string
  ch_metadata :: smap
  ch_correlation_score :: int
  ch_linked_incident_id :: string
  ch_timestamp :: time

record FeatureFlagChange =
  ff_id :: nat
  ff_tenant_id :: string
  ff_flag_name :: string
  ff_flag_key :: string
  ff_environment :: string
  ff_old_value :: string
  ff_new_value :: string
  ff_changed_by :: string
  ff_affected_pct :: int
  ff_timestamp :: time
  ff_linked_incident_id :: string
  ff_correlation_score :: int

record ConfigDriftEvent =
  cd_id :: nat
  cd_tenant_id :: string
  cd_service :: string
  cd_config_key :: string
  cd_baseline_value :: string
  cd_current_value :: string
  cd_drift_severity :: string
  cd_detected_at :: time
  cd_linked_incident_id :: string

record config_baseline =
  cb_tenant :: string
  cb_service :: string
  cb_key :: string
  cb_value :: string

record change_db =
  xd_changes :: "ChangeEvent list"
  xd_next_change :: nat
  xd_flags :: "FeatureFlagChange list"
  xd_next_flag :: nat
  xd_baselines :: "config_baseline list"
  xd_drift :: "ConfigDriftEvent list"
  xd_next_drift :: nat

section \<open>Changes\<close>

definition or_now :: "time \<Rightarrow> time \<Rightarrow> time" where
  "or_now now t = (if t = zero_time then now else t)"

definition insert_change :: "ChangeEvent \<Rightarrow> change_db \<Rightarrow> nat \<times> change_db" where
  "insert_change c db = (xd_next_change db, db\<lparr>xd_changes := xd_changes db @ [c\<lparr>ch_id := xd_next_change db\<rparr>],
     xd_next_change := Suc (xd_next_change db)\<rparr>)"

definition add_enriched_change :: "faults \<Rightarrow> time \<Rightarrow> ChangeEvent \<Rightarrow> change_db \<Rightarrow> (nat \<times> change_db) result" where
  "add_enriched_change flt now c db = guard_db flt ''Change.AddEnriched''
     (Inr (insert_change (c\<lparr>ch_timestamp := or_now now (ch_timestamp c)\<rparr>) db))"

definition update_correlation :: "faults \<Rightarrow> nat \<Rightarrow> string \<Rightarrow> int \<Rightarrow> change_db \<Rightarrow> change_db result" where
  "update_correlation flt i incident score db = guard_db flt ''Change.UpdateCorrelation''
     (Inr (db\<lparr>xd_changes := tbl_update (\<lambda>r. ch_id r = i)
        (\<lambda>r. r\<lparr>ch_correlation_score := score, ch_linked_incident_id := incident\<rparr>) (xd_changes db)\<rparr>))"

text \<open>The rows of a tenant, and those of the default tenant with them.\<close>

definition of_tenant :: "('r \<Rightarrow> string) \<Rightarrow> string \<Rightarrow> 'r \<Rightarrow> bool" where
  "of_tenant f tenant r \<longleftrightarrow> f r = tenant \<or> f r = ''default''"

definition in_window :: "time \<Rightarrow> time \<Rightarrow> time \<Rightarrow> bool" where
  "in_window since until t \<longleftrightarrow> since \<le> t \<and> t \<le> until"

definition get_recent_changes :: "faults \<Rightarrow> string \<Rightarrow> time \<Rightarrow> time \<Rightarrow> int \<Rightarrow> change_db \<Rightarrow> ChangeEvent list result" where
  "get_recent_changes flt tenant since until limit db = guard_db flt ''Change.GetRecent''
     (Inr (take (nat (if limit \<le> 0 then 100 else limit)) (order_desc ch_timestamp
        (filter (\<lambda>c. of_tenant ch_tenant_id tenant c \<and> in_window since until (ch_timestamp c)) (xd_changes db)))))"

definition get_changes_for_service ::
    "faults \<Rightarrow> string \<Rightarrow> string \<Rightarrow> time \<Rightarrow> time \<Rightarrow> change_db \<Rightarrow> ChangeEvent list result" where
  "get_changes_for_service flt tenant service since until db = guard_db flt ''Change.GetForService''
     (Inr (order_asc ch_timestamp (filter (\<lambda>c. of_tenant ch_tenant_id tenant c \<and> ch_service c = service \<and>
        in_window since until (ch_timestamp c)) (xd_changes db))))"

definition get_changes_in_window :: "faults \<Rightarrow> string \<Rightarrow> time \<Rightarrow> time \<Rightarrow> change_db \<Rightarrow> ChangeEvent list result" where
  "get_changes_in_window flt tenant since until db = guard_db flt ''Change.GetInWindow''
     (Inr (take 200 (order_asc ch_timestamp
        (filter (\<lambda>c. of_tenant ch_tenant_id tenant c \<and> in_window since until (ch_timestamp c)) (xd_changes db)))))"

subsection \<open>The plain store\<close>

record ChangeRecord =
  cg_id :: nat
  cg_tenant_id :: string
  cg_service :: string
  cg_type :: string
  cg_version :: string
  cg_description :: string
  cg_timestamp :: time

definition plain_change :: "string \<Rightarrow> string \<Rightarrow> string \<Rightarrow> string \<Rightarrow> string \<Rightarrow> time \<Rightarrow> ChangeEvent" where
  "plain_change tenant service ty version description ts =
    \<lparr>ch_id = 0, ch_tenant_id = tenant, ch_service = service, ch_type = ty, ch_environment = ''production'',
     ch_version = version, ch_description = description, ch_commit_sha = [], ch_author = [], ch_pr_number = [],
     ch_changed_files_count = 0, ch_change_source = ''webhook'', ch_metadata = [], ch_correlation_score = 0,
     ch_linked_incident_id = [], ch_timestamp = ts\<rparr>"

definition add_change ::
    "faults \<Rightarrow> string \<Rightarrow> string \<Rightarrow> string \<Rightarrow> string \<Rightarrow> string \<Rightarrow> time \<Rightarrow> change_db \<Rightarrow> change_db result" where
  "add_change flt tenant service ty version description ts db = guard_db flt ''Change.Add''
     (Inr (snd (insert_change (plain_change (if tenant = [] then ''default'' else tenant) service ty version description ts) db)))"

definition change_record :: "ChangeEvent \<Rightarrow> ChangeRecord" where
  "change_record c = \<lparr>cg_id = ch_id c, cg_tenant_id = ch_tenant_id c, cg_service = ch_service c, cg_type = ch_type c,
     cg_version = ch_version c, cg_description = ch_description c, cg_timestamp = ch_timestamp c\<rparr>"

definition get_recent_change_by_service ::
    "faults \<Rightarrow> string \<Rightarrow> string \<Rightarrow> time \<Rightarrow> change_db \<Rightarrow> ChangeRecord option result" where
  "get_recent_change_by_service flt tenant service t db = guard_db flt ''Change.GetRecentByService''
     (Inr (map_option change_record (first_row (order_desc ch_timestamp
        (filter (\<lambda>c. ch_tenant_id c = (if tenant = [] then ''default'' else tenant) \<and> ch_service c = service \<and>
           in_window (t - 10 * minute) (t + 2 * minute) (ch_timestamp c)) (xd_changes db))))))"

section \<open>Feature flags\<close>

definition add_flag_change :: "faults \<Rightarrow> time \<Rightarrow> FeatureFlagChange \<Rightarrow> change_db \<Rightarrow> (nat \<times> change_db) result" where
  "add_flag_change flt now f db = guard_db flt ''Flag.Add''
     (Inr (xd_next_flag db, db\<lparr>xd_flags := xd_flags db @ [f\<lparr>ff_id := xd_next_flag db, ff_timestamp := or_now now (ff_timestamp f)\<rparr>],
        xd_next_flag := Suc (xd_next_flag db)\<rparr>))"

definition get_recent_flag_changes :: "faults \<Rightarrow> string \<Rightarrow> time \<Rightarrow> time \<Rightarrow> change_db \<Rightarrow> FeatureFlagChange list result" where
  "get_recent_flag_changes flt tenant since until db = guard_db flt ''Flag.GetRecent''
     (Inr (order_asc ff_timestamp
        (filter (\<lambda>f. of_tenant ff_tenant_id tenant f \<and> in_window since until (ff_timestamp f)) (xd_flags db))))"

definition update_flag_correlation :: "faults \<Rightarrow> nat \<Rightarrow> string \<Rightarrow> int \<Rightarrow> change_db \<Rightarrow> change_db result" where
  "update_flag_correlation flt i incident score db = guard_db flt ''Flag.UpdateCorrelation''
     (Inr (db\<lparr>xd_flags := tbl_update (\<lambda>f. ff_id f = i)
        (\<lambda>f. f\<lparr>ff_linked_incident_id := incident, ff_correlation_score := score\<rparr>) (xd_flags db)\<rparr>))"

section \<open>Configuration\<close>

definition cb_pk :: "config_baseline \<Rightarrow> string \<times> string \<times> string" where
  "cb_pk b = (cb_tenant b, cb_service b, cb_key b)"

definition upsert_baseline :: "faults \<Rightarrow> string \<Rightarrow> string \<Rightarrow> string \<Rightarrow> string \<Rightarrow> change_db \<Rightarrow> change_db result" where
  "upsert_baseline flt tenant service key v db = guard_db flt ''Baseline.Upsert''
     (Inr (db\<lparr>xd_baselines := tbl_upsert cb_pk (\<lambda>b. b\<lparr>cb_value := v\<rparr>)
        \<lparr>cb_tenant = tenant, cb_service = service, cb_key = key, cb_value = v\<rparr> (xd_baselines db)\<rparr>))"

definition get_baselines :: "faults \<Rightarrow> string \<Rightarrow> string \<Rightarrow> change_db \<Rightarrow> smap result" where
  "get_baselines flt tenant service db = guard_db flt ''Baseline.Get''
     (Inr (map (\<lambda>b. (cb_key b, cb_value b)) (filter (\<lambda>b. cb_tenant b = tenant \<and> cb_service b = service) (xd_baselines db))))"

definition record_drift :: "faults \<Rightarrow> ConfigDriftEvent \<Rightarrow> change_db \<Rightarrow> (nat \<times> change_db) result" where
  "record_drift flt d db = guard_db flt ''Drift.Record''
     (Inr (xd_next_drift db, db\<lparr>xd_drift := xd_drift db @ [d\<lparr>cd_id := xd_next_drift db\<rparr>],
        xd_next_drift := Suc (xd_next_drift db)\<rparr>))"

definition get_recent_drift :: "faults \<Rightarrow> string \<Rightarrow> time \<Rightarrow> time \<Rightarrow> change_db \<Rightarrow> ConfigDriftEvent list result" where
  "get_recent_drift flt tenant since until db = guard_db flt ''Drift.GetRecent''
     (Inr (order_asc cd_detected_at
        (filter (\<lambda>d. of_tenant cd_tenant_id tenant d \<and> in_window since until (cd_detected_at d)) (xd_drift db))))"

definition contains_any_kw :: "string \<Rightarrow> string list \<Rightarrow> bool" where
  "contains_any_kw s kws \<longleftrightarrow> list_ex (contains_str s) kws"

definition classify_drift_severity :: "string \<Rightarrow> string" where
  "classify_drift_severity key =
    (let lower = to_lower key in
     if contains_any_kw lower [''secret'', ''password'', ''token'', ''key'', ''cert'', ''tls''] then ''critical''
     else if contains_any_kw lower [''replica'', ''shard'', ''memory'', ''cpu'', ''timeout'', ''limit'', ''rate''] then ''high''
     else if contains_any_kw lower [''url'', ''host'', ''port'', ''endpoint'', ''feature'', ''flag'', ''enable'', ''disable''] then ''medium''
     else ''low'')"

definition drift_event :: "time \<Rightarrow> string \<Rightarrow> string \<Rightarrow> string \<Rightarrow> string \<Rightarrow> string \<Rightarrow> ConfigDriftEvent" where
  "drift_event now tenant service key baseline current =
    \<lparr>cd_id = 0, cd_tenant_id = tenant, cd_service = service, cd_config_key = key, cd_baseline_value = baseline,
     cd_current_value = current, cd_drift_severity = classify_drift_severity key, cd_detected_at = now,
     cd_linked_incident_id = []\<rparr>"

text \<open>One key of the snapshot: a new key becomes its baseline, a deviating one is recorded and reported, and reported
  without an ID when it cannot be recorded.\<close>

definition drift_step ::
    "faults \<Rightarrow> time \<Rightarrow> string \<Rightarrow> string \<Rightarrow> smap \<Rightarrow> string \<times> string \<Rightarrow> ConfigDriftEvent list \<times> change_db \<Rightarrow>
     ConfigDriftEvent list \<times> change_db" where
  "drift_step flt now tenant service baselines kv st =
    (let (key, current) = kv; (ds, db) = st; f = at_site key flt in
     case map_of baselines key of
       None \<Rightarrow> (ds, or_keep (upsert_baseline f tenant service key current db) db)
     | Some baseline \<Rightarrow>
        if baseline = current then st
        else (let d = drift_event now tenant service key baseline current in
              case record_drift f d db of
                Inl _ \<Rightarrow> (ds @ [d], db)
              | Inr (i, db') \<Rightarrow> (ds @ [d\<lparr>cd_id := i\<rparr>], db')))"

definition detect_and_record_drift ::
    "(smap \<Rightarrow> smap) \<Rightarrow> faults \<Rightarrow> time \<Rightarrow> string \<Rightarrow> string \<Rightarrow> smap \<Rightarrow> change_db \<Rightarrow> ConfigDriftEvent list result \<times> change_db" where
  "detect_and_record_drift order flt now tenant service config db =
    (case get_baselines flt tenant service db of
       Inl _ \<Rightarrow> (Inl (ErrMsg ''change_intel: read baselines''), db)
     | Inr baselines \<Rightarrow>
        (let (ds, db') = fold (drift_step flt now tenant service baselines) (order config) ([], db) in (Inr ds, db')))"

section \<open>Drift\<close>

text \<open>The value a baseline holds.\<close>

definition baseline_of :: "change_db \<Rightarrow> string \<Rightarrow> string \<Rightarrow> string \<Rightarrow> string option" where
  "baseline_of db tenant service key =
     map_option cb_value (tbl_find cb_pk (tenant, service, key) (xd_baselines db))"

definition deviation :: "smap \<Rightarrow> string \<times> string \<Rightarrow> (string \<times> string \<times> string) list" where
  "deviation baselines kv =
    (case map_of baselines (fst kv) of None \<Rightarrow> [] | Some b \<Rightarrow> if b = snd kv then [] else [(fst kv, b, snd kv)])"

definition drift_facts :: "ConfigDriftEvent \<Rightarrow> string \<times> string \<times> string" where
  "drift_facts d = (cd_config_key d, cd_baseline_value d, cd_current_value d)"

lemma get_baselines_lookup:
  assumes "get_baselines flt tenant service db = Inr bs"
  shows "map_of bs key = baseline_of db tenant service key"
proof -
  have *: "map_of (map (\<lambda>b. (cb_key b, cb_value b)) (filter (\<lambda>b. cb_tenant b = tenant \<and> cb_service b = service) rows)) key =
      map_option cb_value (find (\<lambda>b. cb_pk b = (tenant, service, key)) rows)" for rows
    by (induction rows) (auto simp: cb_pk_def)
  from assms have "bs = map (\<lambda>b. (cb_key b, cb_value b)) (filter (\<lambda>b. cb_tenant b = tenant \<and> cb_service b = service) (xd_baselines db))"
    by (auto simp: get_baselines_def)
  then show ?thesis by (simp add: * baseline_of_def tbl_find_def)
qed

lemma upsert_baseline_of:
  assumes "upsert_baseline flt tenant service key v db = Inr db'" "baseline_of db tenant service key = None"
  shows "baseline_of db' t s k = (if (t, s, k) = (tenant, service, key) then Some v else baseline_of db t s k)"
proof -
  have n: "\<not> tbl_has cb_pk (tenant, service, key) (xd_baselines db)"
    using assms(2) by (auto simp: baseline_of_def tbl_find_def tbl_has_def find_None_iff)
  have f: "find P (xs @ [y]) = (case find P xs of None \<Rightarrow> if P y then Some y else None | Some x \<Rightarrow> Some x)"
    for P xs and y :: config_baseline by (induction xs) auto
  have "xd_baselines db' = xd_baselines db @ [\<lparr>cb_tenant = tenant, cb_service = service, cb_key = key, cb_value = v\<rparr>]"
    using assms(1) n by (auto simp: upsert_baseline_def tbl_upsert_def cb_pk_def)
  with assms(2) show ?thesis
    by (auto simp: baseline_of_def tbl_find_def f cb_pk_def split: option.splits)
qed

lemma record_drift_baselines [simp]:
  "record_drift flt d db = Inr (i, db') \<Longrightarrow> xd_baselines db' = xd_baselines db"
  by (auto simp: record_drift_def)

text \<open>One step, whatever fails: what is reported, and what becomes of the baselines.\<close>

lemma drift_step_effect:
  assumes step: "drift_step flt now tenant service bs (key, v) (ds, db) = (ds', db')"
    and bs: "map_of bs key = baseline_of db tenant service key"
  shows "map drift_facts ds' = map drift_facts ds @ deviation bs (key, v) \<and>
    (\<forall>t s k. baseline_of db' t s k = baseline_of db t s k \<or>
       baseline_of db t s k = None \<and> (t, s, k) = (tenant, service, key) \<and> baseline_of db' t s k = Some v) \<and>
    ((\<forall>op. \<not> flt op) \<longrightarrow> baseline_of db' tenant service key \<noteq> None)"
proof (cases "map_of bs key")
  case None
  then have n: "baseline_of db tenant service key = None" using bs by simp
  have st: "ds' = ds" "db' = or_keep (upsert_baseline (at_site key flt) tenant service key v db) db"
    using step None by (simp_all add: drift_step_def Let_def)
  show ?thesis
  proof (cases "upsert_baseline (at_site key flt) tenant service key v db")
    case (Inl e)
    then have "\<exists>op. flt op" by (auto simp: upsert_baseline_def guard_db_def at_site_def split: if_splits)
    with Inl st None show ?thesis by (auto simp: deviation_def)
  next
    case (Inr db1)
    with st None n show ?thesis by (simp add: deviation_def upsert_baseline_of[OF Inr n])
  qed
next
  case (Some b)
  then have old: "baseline_of db tenant service key = Some b" using bs by simp
  show ?thesis
  proof (cases "b = v")
    case True
    with step Some old show ?thesis by (simp add: drift_step_def deviation_def)
  next
    case False
    let ?d = "drift_event now tenant service key b v"
    show ?thesis
    proof (cases "record_drift (at_site key flt) ?d db")
      case (Inl e)
      with step Some False have "ds' = ds @ [?d]" "db' = db" by (simp_all add: drift_step_def Let_def)
      with old False Some show ?thesis by (simp add: deviation_def drift_facts_def drift_event_def)
    next
      case (Inr r)
      obtain i db1 where r: "r = (i, db1)" by fastforce
      with step Some False Inr have "ds' = ds @ [?d\<lparr>cd_id := i\<rparr>]" "db' = db1" by (simp_all add: drift_step_def Let_def)
      moreover have "baseline_of db1 = baseline_of db"
        using record_drift_baselines[OF Inr[unfolded r]] by (simp add: baseline_of_def fun_eq_iff)
      ultimately show ?thesis using old False Some by (simp add: deviation_def drift_facts_def drift_event_def)
    qed
  qed
qed

lemma drift_steps_effect:
  assumes "fold (drift_step flt now tenant service bs) kvs (ds, db) = (ds', db')" "distinct (map fst kvs)"
    and "\<forall>k \<in> set (map fst kvs). map_of bs k = baseline_of db tenant service k"
  shows "map drift_facts ds' = map drift_facts ds @ concat (map (deviation bs) kvs) \<and>
    (\<forall>t s k. baseline_of db' t s k = baseline_of db t s k \<or>
       baseline_of db t s k = None \<and> t = tenant \<and> s = service \<and> baseline_of db' t s k = map_of kvs k) \<and>
    ((\<forall>op. \<not> flt op) \<longrightarrow> (\<forall>k \<in> set (map fst kvs). baseline_of db' tenant service k \<noteq> None))"
  using assms
proof (induction kvs arbitrary: ds db)
  case (Cons kv kvs)
  obtain k0 v0 where kv: "kv = (k0, v0)" by fastforce
  obtain ds1 db1 where s: "drift_step flt now tenant service bs (k0, v0) (ds, db) = (ds1, db1)" by fastforce
  have k0: "map_of bs k0 = baseline_of db tenant service k0" using Cons.prems(3) kv by simp
  from drift_step_effect[OF s k0] have e: "map drift_facts ds1 = map drift_facts ds @ deviation bs (k0, v0)"
    "\<And>t s k. baseline_of db1 t s k = baseline_of db t s k \<or>
       baseline_of db t s k = None \<and> (t, s, k) = (tenant, service, k0) \<and> baseline_of db1 t s k = Some v0"
    "(\<forall>op. \<not> flt op) \<longrightarrow> baseline_of db1 tenant service k0 \<noteq> None" by blast+
  have f: "fold (drift_step flt now tenant service bs) kvs (ds1, db1) = (ds', db')" using Cons.prems(1) kv s by simp
  have d: "distinct (map fst kvs)" "k0 \<notin> set (map fst kvs)" using Cons.prems(2) kv by auto
  have b: "\<forall>k \<in> set (map fst kvs). map_of bs k = baseline_of db1 tenant service k"
  proof
    fix k assume k: "k \<in> set (map fst kvs)"
    with d(2) have "k \<noteq> k0" by blast
    with e(2)[of tenant service k] k Cons.prems(3) kv show "map_of bs k = baseline_of db1 tenant service k" by auto
  qed
  from Cons.IH[OF f d(1) b] have IH: "map drift_facts ds' = map drift_facts ds1 @ concat (map (deviation bs) kvs)"
    "\<And>t s k. baseline_of db' t s k = baseline_of db1 t s k \<or>
       baseline_of db1 t s k = None \<and> t = tenant \<and> s = service \<and> baseline_of db' t s k = map_of kvs k"
    "(\<forall>op. \<not> flt op) \<longrightarrow> (\<forall>k \<in> set (map fst kvs). baseline_of db' tenant service k \<noteq> None)" by blast+
  have n: "map_of kvs k0 = None" using d(2) by (simp add: map_of_eq_None_iff)
  have "baseline_of db' t s k = baseline_of db t s k \<or>
       baseline_of db t s k = None \<and> t = tenant \<and> s = service \<and> baseline_of db' t s k = map_of (kv # kvs) k" for t s k
    using e(2)[of t s k] IH(2)[of t s k] n kv by (cases "k = k0") auto
  moreover have "baseline_of db' tenant service k0 \<noteq> None" if "\<forall>op. \<not> flt op"
    using e(3) IH(2)[of tenant service k0] that by auto
  ultimately show ?case using e(1) IH(1,3) kv by auto
qed simp

text \<open>What is stored of what is reported.\<close>

lemma drift_step_recorded:
  assumes "drift_step flt now tenant service bs (key, v) (ds, db) = (ds', db')"
  shows "\<exists>es. ds' = ds @ es \<and> xd_drift db' = xd_drift db @ filter (\<lambda>d. \<not> flt (cd_config_key d @ ''/Drift.Record'')) es"
proof (cases "map_of bs key")
  case None
  with assms have "ds' = ds" "db' = or_keep (upsert_baseline (at_site key flt) tenant service key v db) db"
    by (simp_all add: drift_step_def Let_def)
  then show ?thesis by (intro exI[of _ "[]"]) (simp add: upsert_baseline_def guard_db_def)
next
  case (Some b)
  let ?d = "drift_event now tenant service key b v"
  show ?thesis
  proof (cases "b = v")
    case True
    with assms Some show ?thesis by (simp add: drift_step_def)
  next
    case new: False
    have k: "cd_config_key ?d = key" by (simp add: drift_event_def)
    show ?thesis
    proof (cases "record_drift (at_site key flt) ?d db")
      case (Inl e)
      then have "flt (key @ ''/Drift.Record'')" by (simp add: record_drift_def guard_db_def at_site_def split: if_splits)
      moreover have "ds' = ds @ [?d]" "db' = db" using assms Some new Inl by (simp_all add: drift_step_def Let_def)
      ultimately show ?thesis by (intro exI[of _ "[?d]"]) (simp add: k)
    next
      case (Inr r)
      then have r: "r = (xd_next_drift db, snd r)" "\<not> flt (key @ ''/Drift.Record'')"
        "xd_drift (snd r) = xd_drift db @ [?d\<lparr>cd_id := xd_next_drift db\<rparr>]"
        by (auto simp: record_drift_def guard_db_def at_site_def split: if_splits)
      have "ds' = ds @ [?d\<lparr>cd_id := xd_next_drift db\<rparr>]" "db' = snd r"
        using assms Some new Inr by (subst (asm) r(1), simp_all add: drift_step_def Let_def)+
      with r show ?thesis by (intro exI[of _ "[?d\<lparr>cd_id := xd_next_drift db\<rparr>]"]) (simp add: k)
    qed
  qed
qed

lemma drift_recorded:
  assumes "fold (drift_step flt now tenant service bs) kvs (ds, db) = (ds', db')"
  shows "\<exists>es. ds' = ds @ es \<and> xd_drift db' = xd_drift db @ filter (\<lambda>d. \<not> flt (cd_config_key d @ ''/Drift.Record'')) es"
  using assms
proof (induction kvs arbitrary: ds db)
  case (Cons kv kvs)
  obtain ds1 db1 where s: "drift_step flt now tenant service bs (fst kv, snd kv) (ds, db) = (ds1, db1)" by fastforce
  with Cons.prems have "fold (drift_step flt now tenant service bs) kvs (ds1, db1) = (ds', db')" by simp
  from Cons.IH[OF this] drift_step_recorded[OF s] show ?case by auto
qed simp

section \<open>Properties\<close>

text \<open>C39: what drift detection reports and stores. When the baselines cannot be read it fails and changes nothing.
  Otherwise, whatever statements fail later, and in whatever order Go ranges over the snapshot, exactly the keys are
  reported whose baseline exists and differs, with both values, and exactly those of them are stored whose own insert did
  not fail: the answer also names events that were never recorded. No baseline is ever changed by a snapshot; a key
  without one gets the value of the snapshot, unless that write fails. So the same deviating snapshot is reported again
  every time.\<close>

theorem drift_exact:
  assumes "detect_and_record_drift order flt now tenant service config db = (res, db')"
    and "distinct (map fst (order config))"
  shows "case res of
      Inl _ \<Rightarrow> flt ''Baseline.Get'' \<and> db' = db
    | Inr ds \<Rightarrow>
       map drift_facts ds = concat (map (\<lambda>(k, v). case baseline_of db tenant service k of None \<Rightarrow> []
         | Some b \<Rightarrow> if b = v then [] else [(k, b, v)]) (order config)) \<and>
       xd_drift db' = xd_drift db @ filter (\<lambda>d. \<not> flt (cd_config_key d @ ''/Drift.Record'')) ds \<and>
       (\<forall>t s k. baseline_of db' t s k = baseline_of db t s k \<or>
          baseline_of db t s k = None \<and> t = tenant \<and> s = service \<and> baseline_of db' t s k = map_of (order config) k) \<and>
       ((\<forall>op. \<not> flt op) \<longrightarrow> (\<forall>k \<in> set (map fst (order config)). baseline_of db' tenant service k \<noteq> None))"
proof (cases "get_baselines flt tenant service db")
  case (Inl e)
  with assms(1) show ?thesis by (auto simp: detect_and_record_drift_def get_baselines_def guard_db_def split: if_splits)
next
  case bs: (Inr bs)
  obtain ds where r: "res = Inr ds" and f: "fold (drift_step flt now tenant service bs) (order config) ([], db) = (ds, db')"
    using assms(1) bs by (auto simp: detect_and_record_drift_def split: prod.splits)
  have "deviation bs = (\<lambda>(k, v). case baseline_of db tenant service k of None \<Rightarrow> []
        | Some b \<Rightarrow> if b = v then [] else [(k, b, v)])"
    by (auto simp: deviation_def get_baselines_lookup[OF bs] fun_eq_iff split: option.split)
  with drift_steps_effect[OF f assms(2)] get_baselines_lookup[OF bs] drift_recorded[OF f] show ?thesis by (simp add: r)
qed

definition example_change_db :: change_db where
  "example_change_db = \<lparr>xd_changes = [], xd_next_change = 1, xd_flags = [], xd_next_flag = 1,
     xd_baselines = [\<lparr>cb_tenant = ''acme'', cb_service = ''api'', cb_key = ''timeout'', cb_value = ''30''\<rparr>],
     xd_drift = [], xd_next_drift = 1\<rparr>"

theorem drift_exact_witness:
  "\<exists>ds db'. detect_and_record_drift id (\<lambda>op. op = ''timeout/Drift.Record'') 5 ''acme'' ''api'' [(''timeout'', ''5''), (''url'', ''x'')]
       example_change_db = (Inr ds, db') \<and>
     map drift_facts ds = [(''timeout'', ''30'', ''5'')] \<and> xd_drift db' = [] \<and>
     baseline_of db' ''acme'' ''api'' ''timeout'' = Some ''30''"
proof -
  let ?c = "[(''timeout'', ''5''), (''url'', ''x'')]" and ?f = "\<lambda>op. op = ''timeout/Drift.Record''"
  obtain r db' where r: "detect_and_record_drift id ?f 5 ''acme'' ''api'' ?c example_change_db = (r, db')" by fastforce
  then obtain ds where ds: "r = Inr ds"
    by (auto simp: detect_and_record_drift_def get_baselines_def guard_db_def split: prod.splits)
  have b: "baseline_of example_change_db ''acme'' ''api'' ''timeout'' = Some ''30''"
    "baseline_of example_change_db ''acme'' ''api'' ''url'' = None" "xd_drift example_change_db = []" by code_simp+
  have "distinct (map fst (id ?c))" by simp
  from drift_exact[OF r[unfolded ds] this] b
  have d: "map drift_facts ds = [(''timeout'', ''30'', ''5'')]"
    and x: "xd_drift db' = filter (\<lambda>d. \<not> ?f (cd_config_key d @ ''/Drift.Record'')) ds"
    and k: "\<forall>t s k. baseline_of db' t s k = baseline_of example_change_db t s k \<or> baseline_of example_change_db t s k = None \<and>
      t = ''acme'' \<and> s = ''api'' \<and> baseline_of db' t s k = map_of (id ?c) k" by simp_all
  have "xd_drift db' = []" using d x by (auto simp: drift_facts_def filter_empty_conv)
  moreover have "baseline_of db' ''acme'' ''api'' ''timeout'' = Some ''30''"
    using k[rule_format, of "''acme''" "''api''" "''timeout''"] b by simp
  ultimately show ?thesis using d r ds by (intro exI[of _ ds] exI[of _ db']) simp
qed

end
