(* ===== verification/ChangeIntel.thy ===== *)
theory ChangeIntel
  imports ChangeStore GoSort
begin

text \<open>
  \<open>services/change_intelligence_service.go\<close> and \<open>services/change_linker_service.go\<close>: what changed around an incident.
  \<open>long\<close> sorts slices of more than twelve elements; within the window of a report seconds and hours are exact, so the
  float64 comparisons of the code are comparisons of nanoseconds.
\<close>

section \<open>Scores\<close>

definition capped :: "int \<Rightarrow> int" where "capped score = (if 100 < score then 100 else score)"

definition blank_fold :: "string \<Rightarrow> string" where "blank_fold s = to_lower (trim_space s)"

definition change_proximity :: "time \<Rightarrow> int" where
  "change_proximity lag =
    (if lag \<le> 0 \<and> - lag \<le> 120 * second then 50
     else if lag \<le> 0 \<and> - lag \<le> 300 * second then 45
     else if lag \<le> 0 \<and> - lag \<le> 600 * second then 38
     else if lag \<le> 0 \<and> - lag \<le> 900 * second then 28
     else if lag \<le> 0 \<and> - lag \<le> 1800 * second then 18
     else if lag \<le> 0 \<and> - lag \<le> 3600 * second then 8
     else if 0 < lag \<and> lag \<le> 5 * minute then 5
     else 0)"

definition service_affinity :: "string \<Rightarrow> string \<Rightarrow> int" where
  "service_affinity incSvc chSvc =
    (if equal_fold incSvc chSvc then 25
     else if has_prefix incSvc chSvc \<or> has_prefix chSvc incSvc then 15
     else if contains_str incSvc chSvc \<or> contains_str chSvc incSvc then 8
     else 0)"

definition change_type_weight :: "string \<Rightarrow> int" where
  "change_type_weight ty =
    (let t = to_lower ty in
     if t = ''deployment'' then 15 else if t = ''rollback'' then 14 else if t = ''release'' then 12
     else if t \<in> {''infra'', ''terraform''} then 10 else if t \<in> {''config_change'', ''config''} then 9
     else if t = ''commit'' then 6 else 0)"

definition score_change_correlation :: "ChangeEvent \<Rightarrow> Incident \<Rightarrow> time \<Rightarrow> int" where
  "score_change_correlation c inc lag =
     capped (change_proximity lag + service_affinity (blank_fold (inc_service inc)) (blank_fold (ch_service c)) +
       change_type_weight (ch_type c) + (if to_lower (ch_environment c) \<in> {''production'', ''prod''} then 10 else 0))"

definition score_flag_correlation :: "FeatureFlagChange \<Rightarrow> Incident \<Rightarrow> int" where
  "score_flag_correlation f inc =
    (let lag = ff_timestamp f - inc_first_event_time inc in
     capped ((if lag \<le> 0 then
           (if - lag \<le> 300 * second then 50 else if - lag \<le> 900 * second then 38
            else if - lag \<le> 1800 * second then 22 else if - lag \<le> 3600 * second then 10 else 0) else 0) +
       (if 100 \<le> ff_affected_pct f then 20 else if 50 \<le> ff_affected_pct f then 14
        else if 10 \<le> ff_affected_pct f then 8 else 0) +
       (if to_lower (ff_environment f) = ''production'' then 10 else 0) +
       (if (ff_old_value f = ''false'' \<and> ff_new_value f = ''true'') \<or>
           (ff_old_value f = ''true'' \<and> ff_new_value f = ''false'') then 10 else 0) +
       (if 0 < ff_affected_pct f then 10 else 0)))"

definition score_drift_correlation :: "ConfigDriftEvent \<Rightarrow> Incident \<Rightarrow> time \<Rightarrow> int" where
  "score_drift_correlation d inc lag =
     capped ((if lag \<le> 0 then
           (if - lag \<le> 600 * second then 45 else if - lag \<le> 1800 * second then 28
            else if - lag \<le> 3600 * second then 12 else 0) else 0) +
       (if equal_fold (cd_service d) (inc_service inc) then 25
        else if contains_str (to_lower (inc_service inc)) (to_lower (cd_service d)) then 12 else 0) +
       (if cd_drift_severity d = ''critical'' then 20 else if cd_drift_severity d = ''high'' then 14
        else if cd_drift_severity d = ''medium'' then 8 else if cd_drift_severity d = ''low'' then 3 else 0))"

section \<open>Texts\<close>

definition format_lag :: "time \<Rightarrow> string" where
  "format_lag d0 =
    (let d = \<bar>d0\<bar>; h = d div hour; m = d div minute mod 60; s = d div second mod 60
     in (if d0 < 0 then ''-'' else ''+'') @ (if 0 < h then show_int h @ ''h'' else []) @
        (if 0 < m then show_int m @ ''m'' else []) @
        (if 0 < s \<or> (h = 0 \<and> m = 0) then show_int s @ ''s'' else []))"

definition change_title :: "ChangeEvent \<Rightarrow> string" where
  "change_title c =
    (let svc = (if ch_service c = [] then ''unknown'' else ch_service c); t = to_lower (ch_type c) in
     if t = ''deployment'' then
       (if ch_version c \<noteq> [] then ''Deployed '' @ svc @ ''@'' @ ch_version c else ''Deployment: '' @ svc)
     else if t = ''rollback'' then ''Rollback: '' @ svc @ ('' '' @ [CHR 0xE2, CHR 0x86, CHR 0x92] @ '' '') @ ch_version c
     else if t = ''release'' then ''Release '' @ ch_version c @ '' ('' @ svc @ '')''
     else if t = ''commit'' then
       (if ch_commit_sha c \<noteq> [] then ''Commit '' @ take 8 (ch_commit_sha c) @ '' on '' @ svc else ''Commit on '' @ svc)
     else if t \<in> {''infra'', ''terraform''} then ''Infra change: '' @ svc
     else if t \<in> {''config_change'', ''config''} then ''Config change: '' @ svc
     else (case ch_type c of [] \<Rightarrow> [] | x # xs \<Rightarrow> to_upper [x] @ to_lower xs) @ '': '' @ svc)"

definition flag_key_to_service :: "string \<Rightarrow> string" where
  "flag_key_to_service key = (if key = [] then ''unknown'' else hd (split_char (CHR ''.'') key))"

section \<open>The timeline\<close>

record ChangeTimelineEntry =
  tl_entry_type :: string
  tl_change_id :: string
  tl_service :: string
  tl_environment :: string
  tl_title :: string
  tl_description :: string
  tl_author :: string
  tl_version :: string
  tl_timestamp :: time
  tl_correlation_score :: int
  tl_lag_from_incident :: string
  tl_lag_seconds :: int
  tl_is_first_change :: bool
  tl_is_primary_corr :: bool
  tl_metadata :: smap

definition change_entry :: "time \<Rightarrow> Incident \<Rightarrow> ChangeEvent \<Rightarrow> ChangeTimelineEntry" where
  "change_entry anchor inc c =
    (let lag = ch_timestamp c - anchor in
     \<lparr>tl_entry_type = to_lower (ch_type c), tl_change_id = show_nat (ch_id c), tl_service = ch_service c,
      tl_environment = ch_environment c, tl_title = change_title c, tl_description = ch_description c,
      tl_author = ch_author c, tl_version = ch_version c, tl_timestamp = ch_timestamp c,
      tl_correlation_score = score_change_correlation c inc lag, tl_lag_from_incident = format_lag lag,
      tl_lag_seconds = quot lag second, tl_is_first_change = False, tl_is_primary_corr = False,
      tl_metadata = ch_metadata c\<rparr>)"

definition flag_entry :: "time \<Rightarrow> Incident \<Rightarrow> FeatureFlagChange \<Rightarrow> ChangeTimelineEntry" where
  "flag_entry anchor inc f =
    (let lag = ff_timestamp f - anchor in
     \<lparr>tl_entry_type = ''feature_flag'', tl_change_id = ''ff-'' @ show_nat (ff_id f),
      tl_service = flag_key_to_service (ff_flag_key f), tl_environment = ff_environment f,
      tl_title = ''Flag: '' @ ff_flag_name f @ ('' '' @ [CHR 0xE2, CHR 0x86, CHR 0x92] @ '' '') @ ff_new_value f,
      tl_description = ''Changed by '' @ ff_changed_by f @ ''; affects '' @ show_int (ff_affected_pct f) @ ''% traffic'',
      tl_author = ff_changed_by f, tl_version = [], tl_timestamp = ff_timestamp f,
      tl_correlation_score = score_flag_correlation f inc, tl_lag_from_incident = format_lag lag,
      tl_lag_seconds = quot lag second, tl_is_first_change = False, tl_is_primary_corr = False,
      tl_metadata = [(''old_value'', ff_old_value f), (''new_value'', ff_new_value f),
        (''affected_pct'', show_int (ff_affected_pct f) @ ''%'')]\<rparr>)"

definition drift_entry :: "time \<Rightarrow> Incident \<Rightarrow> ConfigDriftEvent \<Rightarrow> ChangeTimelineEntry" where
  "drift_entry anchor inc d =
    (let lag = cd_detected_at d - anchor in
     \<lparr>tl_entry_type = ''config_drift'', tl_change_id = ''cd-'' @ show_nat (cd_id d), tl_service = cd_service d,
      tl_environment = [], tl_title = ''Config drift: '' @ cd_config_key d,
      tl_description = cd_baseline_value d @ ('' '' @ [CHR 0xE2, CHR 0x86, CHR 0x92] @ '' '') @ cd_current_value d, tl_author = [], tl_version = [],
      tl_timestamp = cd_detected_at d, tl_correlation_score = score_drift_correlation d inc lag,
      tl_lag_from_incident = format_lag lag, tl_lag_seconds = quot lag second, tl_is_first_change = False,
      tl_is_primary_corr = False, tl_metadata = [(''severity'', cd_drift_severity d)]\<rparr>)"

definition first_index :: "('a \<Rightarrow> bool) \<Rightarrow> 'a list \<Rightarrow> nat option" where
  "first_index p xs = (let i = length (takeWhile (\<lambda>x. \<not> p x) xs) in if i < length xs then Some i else None)"

definition mark_first :: "ChangeTimelineEntry list \<Rightarrow> ChangeTimelineEntry list" where
  "mark_first es =
    (case first_index (\<lambda>e. tl_lag_seconds e \<le> 0) es of
       None \<Rightarrow> es | Some i \<Rightarrow> es[i := (es ! i)\<lparr>tl_is_first_change := True\<rparr>])"

text \<open>The loop for the best score: the index so far, the score so far.\<close>

definition best_entry_step :: "nat \<times> ChangeTimelineEntry \<Rightarrow> nat option \<times> int \<Rightarrow> nat option \<times> int" where
  "best_entry_step ie st =
    (if tl_lag_seconds (snd ie) \<le> 0 \<and> snd st < tl_correlation_score (snd ie)
     then (Some (fst ie), tl_correlation_score (snd ie)) else st)"

definition best_entry :: "ChangeTimelineEntry list \<Rightarrow> nat option" where
  "best_entry es = fst (fold best_entry_step (enumerate 0 es) (None, -1))"

definition mark_primary :: "ChangeTimelineEntry list \<Rightarrow> ChangeTimelineEntry list" where
  "mark_primary es = (case best_entry es of None \<Rightarrow> es | Some i \<Rightarrow> es[i := (es ! i)\<lparr>tl_is_primary_corr := True\<rparr>])"

definition entries_of ::
    "time \<Rightarrow> Incident \<Rightarrow> ChangeEvent list \<Rightarrow> FeatureFlagChange list \<Rightarrow> ConfigDriftEvent list \<Rightarrow> ChangeTimelineEntry list" where
  "entries_of anchor inc changes flags drift =
     map (change_entry anchor inc) changes @ map (flag_entry anchor inc) flags @ map (drift_entry anchor inc) drift"

definition build_causality_timeline ::
    "ChangeTimelineEntry long_sort \<Rightarrow> ChangeEvent list \<Rightarrow> FeatureFlagChange list \<Rightarrow> ConfigDriftEvent list \<Rightarrow> time \<Rightarrow>
     Incident \<Rightarrow> ChangeTimelineEntry list" where
  "build_causality_timeline long changes flags drift anchor inc =
     mark_primary (mark_first (sort_slice long (\<lambda>a b. tl_timestamp a < tl_timestamp b)
       (entries_of anchor inc changes flags drift)))"

definition compute_overall_change_confidence :: "ChangeTimelineEntry list \<Rightarrow> nat \<Rightarrow> nat \<Rightarrow> int" where
  "compute_overall_change_confidence tln flags drift =
    (if tln = [] then 0
     else (let best = fold (\<lambda>e b. max b (tl_correlation_score e)) tln 0;
               c1 = (if 0 < flags then min 100 (best + 5) else best)
           in if 0 < drift then min 100 (c1 + 5) else c1))"

section \<open>The report\<close>

record ChangeIntelligenceReport =
  cr_incident_id :: string
  cr_service :: string
  cr_window_start :: time
  cr_window_end :: time
  cr_deployments :: "ChangeEvent list"
  cr_feature_flag_changes :: "FeatureFlagChange list"
  cr_config_drift :: "ConfigDriftEvent list"
  cr_infra_changes :: "ChangeEvent list"
  cr_causality_timeline :: "ChangeTimelineEntry list"
  cr_first_change :: "ChangeTimelineEntry option"
  cr_primary_correlation :: "ChangeEvent option"
  cr_overall_confidence :: int
  cr_generated_at :: time

definition changeWindowBefore :: duration where "changeWindowBefore = 60 * minute"
definition changeWindowAfter :: duration where "changeWindowAfter = 15 * minute"

definition is_deployment :: "ChangeEvent \<Rightarrow> bool" where
  "is_deployment c \<longleftrightarrow> to_lower (ch_type c) \<in> {''deployment'', ''commit'', ''release'', ''rollback''}"

definition is_infra :: "ChangeEvent \<Rightarrow> bool" where
  "is_infra c \<longleftrightarrow> to_lower (ch_type c) \<in> {''infra'', ''config_change'', ''config'', ''terraform''}"

definition or_empty :: "'a list result \<Rightarrow> 'a list" where
  "or_empty r = (case r of Inl _ \<Rightarrow> [] | Inr xs \<Rightarrow> xs)"

text \<open>\<open>primaryCorr\<close> points into the deployments, so its score shows there too; the last deployment of the ID wins.\<close>

definition rescore_primary :: "ChangeTimelineEntry list \<Rightarrow> ChangeEvent list \<Rightarrow> ChangeEvent list" where
  "rescore_primary tln ds = fold (\<lambda>e. map (\<lambda>c. if tl_is_primary_corr e \<and> show_nat (ch_id c) = tl_change_id e
     then c\<lparr>ch_correlation_score := tl_correlation_score e\<rparr> else c)) tln ds"

definition primary_change :: "ChangeTimelineEntry list \<Rightarrow> ChangeEvent list \<Rightarrow> ChangeEvent option" where
  "primary_change tln ds = fold (\<lambda>e p. if tl_is_primary_corr e then fold (\<lambda>c q. if show_nat (ch_id c) = tl_change_id e then Some c else q) ds p
     else p) tln None"

text \<open>\<open>Sscanf\<close> with \<open>%d\<close> reads the number of a change and fails on the IDs of flags and drift.\<close>

definition scanned_id :: "string \<Rightarrow> nat" where
  "scanned_id s = (let ds = takeWhile is_digit s in foldl (\<lambda>n c. 10 * n + (ord c - 48)) 0 ds)"

definition persist_score :: "faults \<Rightarrow> string \<Rightarrow> ChangeTimelineEntry \<Rightarrow> change_db \<Rightarrow> change_db" where
  "persist_score flt incident e db =
    (let i = scanned_id (tl_change_id e) in
     if tl_correlation_score e < 30 then db
     else if 0 < i \<and> tl_entry_type e \<notin> {''feature_flag'', ''config_drift''}
       then or_keep (update_correlation (at_site (tl_change_id e) flt) i incident (tl_correlation_score e) db) db
     else db)"

definition build_report ::
    "ChangeTimelineEntry long_sort \<Rightarrow> faults \<Rightarrow> time \<Rightarrow> Incident \<Rightarrow> change_db \<Rightarrow> ChangeIntelligenceReport \<times> change_db" where
  "build_report long flt now inc db =
    (let anchor = or_now now (inc_first_event_time inc);
         since = anchor - changeWindowBefore; until = anchor + changeWindowAfter;
         tenant = (if inc_tenant_id inc = [] then ''default'' else inc_tenant_id inc);
         changes = or_empty (get_changes_in_window flt tenant since until db);
         flags = or_empty (get_recent_flag_changes flt tenant since until db);
         drift = or_empty (get_recent_drift flt tenant since until db);
         tln = build_causality_timeline long changes flags drift anchor inc;
         ds = rescore_primary tln (filter is_deployment changes)
     in (\<lparr>cr_incident_id = inc_id inc, cr_service = inc_service inc, cr_window_start = since, cr_window_end = until,
          cr_deployments = ds, cr_feature_flag_changes = flags, cr_config_drift = drift,
          cr_infra_changes = filter is_infra changes, cr_causality_timeline = tln,
          cr_first_change = fold (\<lambda>e r. if tl_is_first_change e then Some e else r) tln None,
          cr_primary_correlation = primary_change tln ds,
          cr_overall_confidence = compute_overall_change_confidence tln (length flags) (length drift),
          cr_generated_at = now\<rparr>,
         fold (persist_score flt (inc_id inc)) tln db))"

section \<open>Ingesting\<close>

definition defaulted_flag :: "time \<Rightarrow> string \<Rightarrow> FeatureFlagChange \<Rightarrow> FeatureFlagChange" where
  "defaulted_flag now tenant f =
     f\<lparr>ff_tenant_id := (if ff_tenant_id f = [] then tenant else ff_tenant_id f), ff_timestamp := or_now now (ff_timestamp f),
       ff_environment := (if ff_environment f = [] then ''production'' else ff_environment f),
       ff_affected_pct := (if ff_affected_pct f = 0 then 100 else ff_affected_pct f)\<rparr>"

definition linked_flag :: "faults \<Rightarrow> incident_db \<Rightarrow> FeatureFlagChange \<Rightarrow> FeatureFlagChange" where
  "linked_flag flt idb f =
    (if ff_flag_key f = [] then f
     else (case find_open_for_service flt (ff_tenant_id f) (flag_key_to_service (ff_flag_key f)) (ff_timestamp f - 30 * minute) idb of
             None \<Rightarrow> f
           | Some inc \<Rightarrow> f\<lparr>ff_linked_incident_id := inc_id inc, ff_correlation_score := score_flag_correlation f inc\<rparr>))"

definition ingest_feature_flag ::
    "faults \<Rightarrow> time \<Rightarrow> string \<Rightarrow> FeatureFlagChange \<Rightarrow> incident_db \<Rightarrow> change_db \<Rightarrow> FeatureFlagChange result \<times> change_db" where
  "ingest_feature_flag flt now tenant f0 idb db =
    (let f = linked_flag flt idb (defaulted_flag now tenant f0) in
     case add_flag_change flt now f db of
       Inl _ \<Rightarrow> (Inl (ErrMsg ''change_intel: ingest flag''), db)
     | Inr (i, db') \<Rightarrow> (Inr (f\<lparr>ff_id := i\<rparr>), db'))"

definition detect_config_drift ::
    "(smap \<Rightarrow> smap) \<Rightarrow> faults \<Rightarrow> time \<Rightarrow> string \<Rightarrow> string \<Rightarrow> smap \<Rightarrow> change_db \<Rightarrow> ConfigDriftEvent list result \<times> change_db" where
  "detect_config_drift order flt now tenant service config db = detect_and_record_drift order flt now tenant service config db"

section \<open>Linking deployments\<close>

definition semver_like :: "string \<Rightarrow> bool" where
  "semver_like v =
    (let w = (if has_prefix v ''v'' then List.tl v else v); r = dropWhile is_digit w in
     w \<noteq> [] \<and> is_digit (hd w) \<and> (case r of d # c # _ \<Rightarrow> d = CHR ''.'' \<and> is_digit c | _ \<Rightarrow> False))"

definition compute_link_confidence :: "string \<Rightarrow> Incident \<Rightarrow> time \<Rightarrow> string \<Rightarrow> string \<Rightarrow> int" where
  "compute_link_confidence service inc ts ty version =
    (let gap = (if inc_first_event_time inc = zero_time then 0 else \<bar>ts - inc_first_event_time inc\<bar>);
         t = to_lower ty; incSvc = blank_fold (inc_service inc); chSvc = blank_fold service
     in capped ((if gap \<le> 2 * minute then 60 else if gap \<le> 5 * minute then 50 else if gap \<le> 10 * minute then 40
           else if gap \<le> 15 * minute then 30 else if gap \<le> 20 * minute then 20 else 10) +
         (if t = ''deployment'' then 20 else if t = ''release'' then 15 else if t = ''commit'' then 8 else 5) +
         (if semver_like version then 10 else if 8 \<le> length version then 7 else if version \<noteq> [] then 3 else 0) +
         (if incSvc = chSvc then 10 else if has_prefix incSvc chSvc \<or> has_prefix chSvc incSvc then 6 else 0)))"

definition link_to_incident ::
    "faults \<Rightarrow> string \<Rightarrow> string \<Rightarrow> string \<Rightarrow> string \<Rightarrow> string \<Rightarrow> time \<Rightarrow> incident_db \<Rightarrow> Incident option \<times> incident_db" where
  "link_to_incident flt tenant service ty version description ts idb =
    (case find_open_for_service flt tenant service (ts - 30 * minute) idb of
       None \<Rightarrow> (None, idb)
     | Some inc \<Rightarrow>
        (let inc' = inc\<lparr>inc_what_changed_type := ty, inc_what_changed_service := service,
               inc_what_changed_version := version, inc_what_changed_description := description,
               inc_what_changed_timestamp := Some ts,
               inc_what_changed_confidence := compute_link_confidence service inc ts ty version\<rparr>
         in case update_incident flt inc' idb of Inl _ \<Rightarrow> (None, idb) | Inr idb' \<Rightarrow> (Some inc', idb')))"

definition link_deploy ::
    "faults \<Rightarrow> string \<Rightarrow> string \<Rightarrow> string \<Rightarrow> string \<Rightarrow> string \<Rightarrow> time \<Rightarrow> change_db \<times> incident_db \<Rightarrow>
     Incident option \<times> change_db \<times> incident_db" where
  "link_deploy flt tenant service ty version description ts st =
    (let db = or_keep (add_change flt tenant service ty version description ts (fst st)) (fst st);
         (r, idb) = link_to_incident flt tenant service ty version description ts (snd st)
     in (r, db, idb))"

text \<open>\<open>enriched\<close>: whether the enriched store is wired in. A failed insert falls back to the plain store.\<close>

definition link_deploy_enriched ::
    "bool \<Rightarrow> faults \<Rightarrow> time \<Rightarrow> ChangeEvent \<Rightarrow> change_db \<times> incident_db \<Rightarrow> Incident option \<times> change_db \<times> incident_db" where
  "link_deploy_enriched enriched flt now c st =
    (let stored = (if enriched then add_enriched_change flt now c (fst st) else Inl ErrDB) in
     case stored of
       Inr (_, db) \<Rightarrow>
        (let (r, idb) = link_to_incident flt (ch_tenant_id c) (ch_service c) (ch_type c) (ch_version c) (ch_description c)
           (ch_timestamp c) (snd st) in (r, db, idb))
     | Inl _ \<Rightarrow> link_deploy flt (ch_tenant_id c) (ch_service c) (ch_type c) (ch_version c) (ch_description c)
           (ch_timestamp c) st)"

section \<open>Lemmas\<close>

lemma quot_second_le0: "quot lag second \<le> 0 \<longleftrightarrow> lag < second"
  by (auto simp: quot_def second_def Let_def)

lemma capped_bounds: "0 \<le> x \<Longrightarrow> 0 \<le> capped x \<and> capped x \<le> 100"
  by (simp add: capped_def)

lemma change_score_bounds: "0 \<le> score_change_correlation c inc lag \<and> score_change_correlation c inc lag \<le> 100"
  unfolding score_change_correlation_def
  by (rule capped_bounds) (simp add: change_proximity_def service_affinity_def change_type_weight_def Let_def)

lemma flag_score_bounds: "0 \<le> score_flag_correlation f inc \<and> score_flag_correlation f inc \<le> 100"
  unfolding score_flag_correlation_def Let_def by (rule capped_bounds) simp

lemma drift_score_bounds: "0 \<le> score_drift_correlation d inc lag \<and> score_drift_correlation d inc lag \<le> 100"
  unfolding score_drift_correlation_def by (rule capped_bounds) simp

text \<open>An entry before it is marked.\<close>

definition plain_entry :: "time \<Rightarrow> ChangeTimelineEntry \<Rightarrow> bool" where
  "plain_entry anchor e \<longleftrightarrow> tl_lag_seconds e = quot (tl_timestamp e - anchor) second \<and> 0 \<le> tl_correlation_score e \<and>
     tl_correlation_score e \<le> 100 \<and> \<not> tl_is_first_change e \<and> \<not> tl_is_primary_corr e"

lemma entries_plain: "e \<in> set (entries_of anchor inc changes flags drift) \<Longrightarrow> plain_entry anchor e"
  using change_score_bounds flag_score_bounds drift_score_bounds
  by (auto simp: entries_of_def plain_entry_def change_entry_def flag_entry_def drift_entry_def Let_def)

lemma first_index_Some:
  assumes "first_index p xs = Some i"
  shows "i < length xs \<and> p (xs ! i) \<and> (\<forall>j < i. \<not> p (xs ! j))"
proof -
  from assms have i: "i = length (takeWhile (\<lambda>x. \<not> p x) xs)" "i < length xs"
    by (auto simp: first_index_def Let_def split: if_splits)
  moreover have "p (xs ! i)" using nth_length_takeWhile[of "\<lambda>x. \<not> p x" xs] i by simp
  moreover have "\<not> p (xs ! j)" if "j < i" for j
    using that i(1) by (metis nth_mem set_takeWhileD takeWhile_nth)
  ultimately show ?thesis by blast
qed

lemma first_index_None: "first_index p xs = None \<longleftrightarrow> (\<forall>x \<in> set xs. \<not> p x)"
proof -
  have "length (takeWhile (\<lambda>x. \<not> p x) xs) < length xs \<longleftrightarrow> (\<exists>x \<in> set xs. p x)"
    by (metis length_takeWhile_le nat_less_le takeWhile_eq_all_conv takeWhile_eq_take take_all_iff order_refl)
  then show ?thesis by (simp add: first_index_def Let_def)
qed

definition best_is :: "ChangeTimelineEntry list \<Rightarrow> nat option \<times> int \<Rightarrow> bool" where
  "best_is es st \<longleftrightarrow>
    (case st of
       (None, s) \<Rightarrow> s = -1 \<and> (\<forall>e \<in> set es. \<not> tl_lag_seconds e \<le> 0)
     | (Some i, s) \<Rightarrow> i < length es \<and> tl_lag_seconds (es ! i) \<le> 0 \<and> s = tl_correlation_score (es ! i) \<and> 0 \<le> s \<and>
         (\<forall>e \<in> set es. tl_lag_seconds e \<le> 0 \<longrightarrow> tl_correlation_score e \<le> s))"

lemma best_entry_fold:
  assumes "\<forall>e \<in> set es. 0 \<le> tl_correlation_score e"
  shows "best_is es (fold best_entry_step (enumerate 0 es) (None, -1))"
  using assms
proof (induction es rule: rev_induct)
  case (snoc e es)
  then have IH: "best_is es (fold best_entry_step (enumerate 0 es) (None, -1))" by simp
  obtain b s where st: "fold best_entry_step (enumerate 0 es) (None, -1) = (b, s)" by fastforce
  have step: "fold best_entry_step (enumerate 0 (es @ [e])) (None, -1) = best_entry_step (length es, e) (b, s)"
    using st by (simp add: enumerate_append_eq)
  show ?case
    using IH snoc.prems unfolding step st
    by (cases b) (auto simp: best_is_def best_entry_step_def nth_append)
qed (simp add: best_is_def)

lemma update_nth: "j < length xs \<Longrightarrow> xs[i := x] ! j = (if i = j then x else xs ! j)"
  by (cases "i = j") simp_all

lemma marked_nth:
  assumes "\<forall>e \<in> set es. plain_entry anchor e" "j < length es"
  defines "fi \<equiv> first_index (\<lambda>e. tl_lag_seconds e \<le> 0) es"
  shows "mark_primary (mark_first es) ! j =
    (es ! j)\<lparr>tl_is_first_change := (fi = Some j), tl_is_primary_corr := (best_entry (mark_first es) = Some j)\<rparr>"
proof -
  have p: "\<not> tl_is_first_change (es ! j)" "\<not> tl_is_primary_corr (es ! j)"
    using assms(1,2) by (auto simp: plain_entry_def)
  have id: "e = e\<lparr>tl_is_first_change := False, tl_is_primary_corr := False\<rparr>"
    if "\<not> tl_is_first_change e" "\<not> tl_is_primary_corr e" for e :: ChangeTimelineEntry using that by simp
  have m: "mark_first es ! j = (es ! j)\<lparr>tl_is_first_change := (fi = Some j), tl_is_primary_corr := False\<rparr>"
    using p assms(2) by (auto simp: mark_first_def fi_def update_nth split: option.split intro: id)
  have "length (mark_first es) = length es" by (simp add: mark_first_def split: option.split)
  with m assms(2) show ?thesis
    by (auto simp: mark_primary_def update_nth split: option.split)
qed

lemma marked_length [simp]: "length (mark_primary (mark_first es)) = length es" "length (mark_first es) = length es"
  by (simp_all add: mark_primary_def mark_first_def split: option.split)

lemma mark_first_best:
  assumes "\<forall>e \<in> set es. plain_entry anchor e"
  shows "best_is es (best_entry (mark_first es), snd (fold best_entry_step (enumerate 0 (mark_first es)) (None, -1)))"
proof -
  have same: "tl_lag_seconds (mark_first es ! j) = tl_lag_seconds (es ! j) \<and>
      tl_correlation_score (mark_first es ! j) = tl_correlation_score (es ! j)" if "j < length es" for j
    using that by (auto simp: mark_first_def update_nth split: option.split)
  have "\<forall>e \<in> set (mark_first es). 0 \<le> tl_correlation_score e"
    using assms same by (auto simp: in_set_conv_nth[of _ "mark_first es"] plain_entry_def)
  from best_entry_fold[OF this] have "best_is (mark_first es)
      (best_entry (mark_first es), snd (fold best_entry_step (enumerate 0 (mark_first es)) (None, -1)))"
    by (simp add: best_entry_def)
  then show ?thesis using same by (auto simp: best_is_def all_set_conv_all_nth split: option.splits)
qed

lemma one_marked:
  assumes "\<And>j. j < length xs \<Longrightarrow> P (xs ! j) \<longleftrightarrow> k = Some j" "k = Some i" "i < length xs"
  shows "length (filter P xs) = 1"
proof -
  have "{j. j < length xs \<and> P (xs ! j)} = {i}" using assms by auto
  then show ?thesis by (simp add: length_filter_conv_card)
qed

text \<open>What marking does to a sorted list of plain entries.\<close>

lemma plain_early:
  assumes "\<forall>e \<in> set es. plain_entry anchor e" "j < length es"
  shows "tl_lag_seconds (es ! j) \<le> 0 \<longleftrightarrow> tl_timestamp (es ! j) < anchor + second"
  using assms by (auto simp: plain_entry_def quot_second_le0)

lemma marked_unmarked:
  assumes "\<forall>e \<in> set es. plain_entry anchor e"
  defines "tln \<equiv> mark_primary (mark_first es)"
  shows "map (\<lambda>e. e\<lparr>tl_is_first_change := False, tl_is_primary_corr := False\<rparr>) tln = es"
    and "map tl_timestamp tln = map tl_timestamp es"
    and "\<forall>e \<in> set tln. 0 \<le> tl_correlation_score e \<and> tl_correlation_score e \<le> 100"
proof -
  note nth = marked_nth[OF assms(1), folded tln_def]
  have len: "length tln = length es" by (simp add: tln_def)
  show "map (\<lambda>e. e\<lparr>tl_is_first_change := False, tl_is_primary_corr := False\<rparr>) tln = es"
  proof (rule nth_equalityI)
    fix j assume "j < length (map (\<lambda>e. e\<lparr>tl_is_first_change := False, tl_is_primary_corr := False\<rparr>) tln)"
    then have j: "j < length es" by (simp add: len)
    with assms(1) have "\<not> tl_is_first_change (es ! j)" "\<not> tl_is_primary_corr (es ! j)" by (auto simp: plain_entry_def)
    with j nth[OF j] show "map (\<lambda>e. e\<lparr>tl_is_first_change := False, tl_is_primary_corr := False\<rparr>) tln ! j = es ! j"
      by (simp add: len)
  qed (simp add: len)
  show "map tl_timestamp tln = map tl_timestamp es" by (rule nth_equalityI) (simp_all add: len nth)
  show "\<forall>e \<in> set tln. 0 \<le> tl_correlation_score e \<and> tl_correlation_score e \<le> 100"
    using assms(1) nth by (simp add: all_set_conv_all_nth len plain_entry_def)
qed

lemma marked_first:
  assumes plain: "\<forall>e \<in> set es. plain_entry anchor e" and so: "sorted (map tl_timestamp es)"
    and e: "e \<in> set (mark_primary (mark_first es))" "tl_is_first_change e"
  shows "tl_timestamp e < anchor + second \<and> (\<forall>x \<in> set (mark_primary (mark_first es)). tl_timestamp e \<le> tl_timestamp x)"
proof -
  note nth = marked_nth[OF plain]
  from e obtain i where i: "i < length es" "e = mark_primary (mark_first es) ! i"
    "first_index (\<lambda>e. tl_lag_seconds e \<le> 0) es = Some i" by (auto simp: in_set_conv_nth nth)
  have same: "tl_timestamp e = tl_timestamp (es ! i)" using nth[OF i(1)] i(2) by simp
  with first_index_Some[OF i(3)] plain_early[OF plain] have early: "tl_timestamp e < anchor + second"
    and before: "\<forall>j < i. \<not> tl_timestamp (es ! j) < anchor + second" using i(1) by auto
  have "tl_timestamp e \<le> tl_timestamp (es ! j)" if j: "j < length es" for j
  proof (cases "i \<le> j")
    case True
    with so j same show ?thesis by (auto simp: sorted_iff_nth_mono)
  next
    case False
    with before early show ?thesis by (meson le_less_linear less_le_trans not_less order.strict_implies_order)
  qed
  with early nth show ?thesis by (simp add: all_set_conv_all_nth)
qed

lemma marked_primary:
  assumes plain: "\<forall>e \<in> set es. plain_entry anchor e"
    and e: "e \<in> set (mark_primary (mark_first es))" "tl_is_primary_corr e"
  shows "tl_timestamp e < anchor + second \<and> (\<forall>x \<in> set (mark_primary (mark_first es)).
    tl_timestamp x < anchor + second \<longrightarrow> tl_correlation_score x \<le> tl_correlation_score e)"
proof -
  note nth = marked_nth[OF plain] and lag = plain_early[OF plain] and best = mark_first_best[OF plain]
  from e obtain i where i: "i < length es" "e = mark_primary (mark_first es) ! i" "best_entry (mark_first es) = Some i"
    by (auto simp: in_set_conv_nth nth)
  have same: "tl_timestamp e = tl_timestamp (es ! i)" "tl_correlation_score e = tl_correlation_score (es ! i)"
    using nth[OF i(1)] i(2) by simp_all
  have b: "tl_lag_seconds (es ! i) \<le> 0"
    "\<forall>j < length es. tl_lag_seconds (es ! j) \<le> 0 \<longrightarrow> tl_correlation_score (es ! j) \<le> tl_correlation_score (es ! i)"
    using best i(3) by (auto simp: best_is_def all_set_conv_all_nth)
  then show ?thesis using lag nth i(1) by (simp add: all_set_conv_all_nth same)
qed

lemma marked_once:
  assumes plain: "\<forall>e \<in> set es. plain_entry anchor e"
    and e: "\<exists>e \<in> set (mark_primary (mark_first es)). tl_timestamp e < anchor + second"
  shows "length (filter tl_is_first_change (mark_primary (mark_first es))) = 1 \<and>
    length (filter tl_is_primary_corr (mark_primary (mark_first es))) = 1"
proof -
  note nth = marked_nth[OF plain] and lag = plain_early[OF plain] and best = mark_first_best[OF plain]
  from e obtain j where j: "j < length es" "tl_timestamp (es ! j) < anchor + second"
    by (auto simp: in_set_conv_nth nth)
  let ?fi = "first_index (\<lambda>e. tl_lag_seconds e \<le> 0) es" and ?bi = "best_entry (mark_first es)"
  have "?fi \<noteq> None" using first_index_None[of "\<lambda>e. tl_lag_seconds e \<le> 0" es] lag j by auto
  moreover have "?bi \<noteq> None" using best j lag by (cases ?bi) (auto simp: best_is_def)
  ultimately obtain a b where ab: "?fi = Some a" "?bi = Some b" by blast
  have "a < length es" using ab(1) first_index_Some by fastforce
  moreover have "b < length es" using ab(2) best by (simp add: best_is_def)
  ultimately show ?thesis
    using one_marked[of "mark_primary (mark_first es)" tl_is_first_change ?fi a]
      one_marked[of "mark_primary (mark_first es)" tl_is_primary_corr ?bi b] ab nth by simp
qed

section \<open>Properties\<close>

text \<open>C40: the timeline of an incident tells what changed first and what fits best. It holds every change, flag and drift
  of the window once and in the order of time. When some of them happened before the incident began, or less than a
  second after it (lags are cut to whole seconds), exactly one of these is marked as the first change, and none is
  earlier; and exactly one as the primary correlation, and none scores higher. All scores lie between 0 and 100.\<close>

theorem timeline_exact:
  assumes law: "long_sort_ok long tl_timestamp"
  shows "let tln = build_causality_timeline long changes flags drift anchor inc;
             early = (\<lambda>e. tl_timestamp e < anchor + second)
    in mset (map (\<lambda>e. e\<lparr>tl_is_first_change := False, tl_is_primary_corr := False\<rparr>) tln) =
         mset (entries_of anchor inc changes flags drift) \<and>
       sorted (map tl_timestamp tln) \<and>
       (\<forall>e \<in> set tln. 0 \<le> tl_correlation_score e \<and> tl_correlation_score e \<le> 100) \<and>
       (\<forall>e \<in> set tln. tl_is_first_change e \<longrightarrow> early e \<and> (\<forall>x \<in> set tln. tl_timestamp e \<le> tl_timestamp x)) \<and>
       (\<forall>e \<in> set tln. tl_is_primary_corr e \<longrightarrow> early e \<and>
          (\<forall>x \<in> set tln. early x \<longrightarrow> tl_correlation_score x \<le> tl_correlation_score e)) \<and>
       ((\<exists>e \<in> set tln. early e) \<longrightarrow>
          length (filter tl_is_first_change tln) = 1 \<and> length (filter tl_is_primary_corr tln) = 1)"
proof -
  define es where "es = sort_slice long (\<lambda>a b. tl_timestamp a < tl_timestamp b) (entries_of anchor inc changes flags drift)"
  have ms: "mset es = mset (entries_of anchor inc changes flags drift)" unfolding es_def by (rule sort_slice_mset[OF law])
  have so: "sorted (map tl_timestamp es)" unfolding es_def by (rule sort_slice_sorted[OF law])
  have plain: "\<forall>e \<in> set es. plain_entry anchor e" using mset_eq_setD[OF ms] entries_plain by blast
  have t: "build_causality_timeline long changes flags drift anchor inc = mark_primary (mark_first es)"
    by (simp only: es_def build_causality_timeline_def)
  show ?thesis
    unfolding t Let_def marked_unmarked(1,2)[OF plain] ms
    using so marked_unmarked(3)[OF plain] marked_first[OF plain so] marked_primary[OF plain] marked_once[OF plain] by blast
qed

theorem timeline_exact_witness:
  "long_sort_ok insertion_sort tl_timestamp \<and>
   sorted (map tl_timestamp (build_causality_timeline insertion_sort [plain_change ''t'' ''api'' ''deployment'' ''v1.2'' [] 50] [] [] 100
     incident_zero))"
  using timeline_exact[OF long_sort_ok_insertion] long_sort_ok_insertion by (simp add: Let_def)

end
