(* ===== verification/Spec2Isabelle.thy ===== *)
theory Spec2Isabelle
  imports CommandPolicy EventStore IncidentStore AlertMuteStore AlertMutes StatusStores World IncidentOps
    AutoClose AutoResolve KnowledgeMatch GoSha256 Fingerprinting Correlation Pipeline
    Executions PolicyStore PolicyEngine Actions Float64 LogStore AgentStore AgentAuth Verification
    IncidentMemory Orchestrator ActionApi Topology GoSort CausalEngine TopologyIntel TopologyApi
    Replies GoJson Users Tokens AuthApi HttpGate TenantPlatform TenantAdmin
    GoTime AlertService Sources GoDecode IncidentNotes AlertIngest SourceIngest IngestSafety IngestTenant
    KbSystem KbApplication KbDatabase KbKubernetes KbCloud KbExtras KbAdvancedHosts KbAdvanced KnowledgeEntries
    ChangeStore ChangeIntel
begin

text \<open>
  A verification development for the backend of AI-Incident-Intelligence
  (\<open>src/backend/internal\<close>): the path of an alert from its arrival to an incident, what happens to
  the incident afterwards, and how a remediation is proposed, authorised, run on an agent and verified.

  \<^bold>\<open>The program.\<close> Ingest handlers turn the payload of a source into an \<open>Event\<close> and call
  \<open>CorrelationService.ProcessEvent\<close>. The event is stored (\<open>store/event_store.go\<close>), checked against
  the mutes admins created (\<open>services/alert_mute_service.go\<close>), deduplicated by its fingerprint,
  merged into an open incident or turned into a new one (\<open>store/incident_store.go\<close>); a knowledge
  base enriches a new incident and auto-resolve rules may resolve it at once. A recovery goes to
  \<open>ProcessResolved\<close>, which starts a quiet period (\<open>services/auto_close_service.go\<close>); a periodic
  sweep closes incidents whose quiet period is over. Operators change the status of an incident
  and list incidents (\<open>services/incident_service.go\<close>). For a grave incident the orchestrator
  (\<open>services/remediation_orchestrator.go\<close>) takes the first remediation of the proposed actions
  (\<open>services/action_service.go\<close>), asks the policy engine (\<open>services/policy_service.go\<close>), stores an
  execution, sends the command to an agent when it may, and lets the verification service
  (\<open>services/verification_service.go\<close>) decide whether the incident can be closed. Every command for
  an agent passes \<open>security/command_policy.go\<close>. Agents enrol with single-use tokens and sign their
  requests (\<open>handlers/agent_handler.go\<close>, \<open>middleware/agent_auth.go\<close>).

  \<^bold>\<open>Theories, in the order of the imports.\<close> The properties are the theorems that open with a number.
  \<^item> \<open>Prelude\<close>: errors, time, faults, and tables with the SQL statements used on them.
  \<^item> \<open>GoStrings\<close>, \<open>GoFloat\<close>, \<open>Float64\<close>, \<open>GoSha256\<close>: the parts of Go's library the code uses
    (strings, SQL \<open>LIKE\<close>, number formats, floating-point text, binary64 arithmetic with its rounding,
    SHA-256).
  \<^item> \<open>CommandPolicy\<close>: \<open>security/command_policy.go\<close>. The promise of the gate is the locale
    \<open>command_gate\<close>, on which the orchestrator rests.
  \<^item> \<open>Models\<close>: \<open>Event\<close>, \<open>Incident\<close> and the list filter of \<open>models/\<close>.
  \<^item> \<open>EventStore\<close>, \<open>IncidentStore\<close>: the two main tables with every query. The contract of
    the queries that find an incident to merge into is the locale \<open>incident_finder\<close>, interpreted
    three times.
  \<^item> \<open>AlertMuteStore\<close>, \<open>AlertMutes\<close>: mutes, their cache and their log. The contract
    between service and store is the locale \<open>mute_repository\<close>; \<open>mute_run\<close> are the states one
    instance of the service reaches.
  \<^item> \<open>StatusStores\<close>, \<open>World\<close>, \<open>IncidentOps\<close>: status history and metrics, the state of the whole
    pipeline, status changes and the incident list.
  \<^item> \<open>AutoClose\<close>: quiet periods and the sweep, over the locale \<open>auto_close_store\<close>.
  \<^item> \<open>AutoResolve\<close>, \<open>KnowledgeMatch\<close>, \<open>Fingerprinting\<close>: rules, the knowledge base, and the pure
    part of the correlation service.
  \<^item> \<open>Correlation\<close>: \<open>ProcessEvent\<close> and \<open>MergeIncidents\<close>.
  \<^item> \<open>Pipeline\<close>: sequences of operations; \<open>pipeline\<close> is the set of states the running system
    reaches under any interleaving and any faults.
  \<^item> \<open>Executions\<close>, \<open>PolicyStore\<close>, \<open>PolicyEngine\<close>: the table of executions with its approval, the
    policies, breakers and trail, and the evaluation of a policy with its simulation.
  \<^item> \<open>Actions\<close>: the list of actions proposed for an incident.
  \<^item> \<open>LogStore\<close>: log entries, their queries, and the stream that tails them; \<open>stream_run\<close>
    interleaves writers and one reader.
  \<^item> \<open>AgentStore\<close>, \<open>AgentAuth\<close>: agents, metrics and enrolment tokens; signed requests with nonces
    and the 64-bit clock comparison (\<open>nonce_run\<close> is one server over time), registration and rotation.
  \<^item> \<open>Verification\<close>: snapshots, checks, proof items and the records; \<open>verification_run\<close> are the
    states of the table.
  \<^item> \<open>IncidentMemory\<close>: recorded resolutions and the playbook.
  \<^item> \<open>Orchestrator\<close>: the closed loop over all of these.
  \<^item> \<open>ActionApi\<close>: the handlers that run an action on an agent with its audit and that record, approve,
    reject and roll back executions.
  \<^item> \<open>Topology\<close>, \<open>GoSort\<close>: nodes, edges and health of the service graph with its two recursive
    queries (locale \<open>traversal_query\<close>), and \<open>sort.Slice\<close> (locale \<open>slice_sorting\<close>).
  \<^item> \<open>CausalEngine\<close>, \<open>TopologyIntel\<close>, \<open>TopologyApi\<close>: the causal graph of an incident and the search for its
    most credible chain, the graphs, blast radius and root-cause analysis over the topology, and the
    handlers that read, post and discover it.
  \<^item> \<open>Replies\<close>, \<open>GoJson\<close>: the answers of handlers, and the JSON printer and parser of the
    library with their round trip \<open>parse_print\<close>.
  \<^item> \<open>Users\<close>, \<open>Tokens\<close>, \<open>AuthApi\<close>: the users and tenants tables, signed tokens and password hashes,
    login and sign-up.
  \<^item> \<open>HttpGate\<close>: the chain an authenticated request passes (token, tenant isolation, data residency,
    rate limits, roles); the two expiring caches share the locale \<open>ttl_lookup\<close>.
  \<^item> \<open>TenantPlatform\<close>, \<open>TenantAdmin\<close>: caches and job queues per tenant, the administration of
    tenants with its effects on the gate, and the audit log.
  \<^item> \<open>GoTime\<close>, \<open>GoDecode\<close>, \<open>AlertService\<close>: timestamps, decoding of JSON into structs, and the service an
    alert is about.
  \<^item> \<open>Sources\<close>: sources with their tokens, idempotency keys, dead letters.
  \<^item> \<open>AlertIngest\<close>, \<open>SourceIngest\<close>, \<open>IncidentNotes\<close>: the webhooks of Alertmanager, Grafana and Zabbix, and
    the notes of an update; \<open>IngestSafety\<close> has what a key promises and how an alert is lost,
    \<open>IngestTenant\<close> that a webhook leaves other tenants alone.
  \<^item> \<open>KbSystem\<close> to \<open>KbAdvanced\<close>: the 502 entries of the knowledge base, as the builders list them, and
    \<open>KnowledgeEntries\<close>, what holds of all of them.
  \<^item> \<open>ChangeStore\<close>, \<open>ChangeIntel\<close>: changes, feature flags, baselines and drift, and the timeline of
    what changed around an incident.

  \<^bold>\<open>How the model reads.\<close> A Go struct is a record with its fields in order. A store is a function on
  its table; a table is the list of its rows and \<open>pk\<close> states its primary key. A service that is
  given an interface in the code takes the operations of the interface as arguments here. A Go
  error is a value of \<open>go_error\<close>; a function that returns an error returns a sum. Every
  statement sent to the database may fail: an oracle \<open>faults\<close> says which ones do, theorems that
  speak of failures quantify over it, and \<open>no_faults\<close> is the oracle under which none does.
  Where one operation issues the same statement at several places, \<open>at_site\<close> keeps their faults
  apart. Work started with \<open>go\<close> is appended to \<open>w_async\<close> with its arguments. Loops are recursion
  on lists or on the depth limits of the source (21 nodes of a causal chain, 10 of an alternative), so every definition is total; no fuel is used.

  \<^bold>\<open>Bounds and assumptions of the model.\<close>
  \<^item> A time is an integer number of nanoseconds; an operation reads the clock once, an execution
    and the check of an agent's request twice (before and after the agent; for the window and the nonce).
  \<^item> Strings are byte strings; changing case is ASCII only (Go and PostgreSQL change case of other
    letters too). Text is ordered bytewise, as under the C collation.
  \<^item> Go's \<open>int\<close> is an unbounded integer where the code adds small counts; the clock comparison of
    the agent middleware, where wrapping matters, is in 64-bit words.
  \<^item> A floating-point value is exact where it is only parsed and compared; where the code computes
    with it, each operation rounds to binary64 (\<open>Float64\<close>).
  \<^item> One operation is one step: two operations do not interleave between their statements. A
    transaction is atomic; a sequence of statements without a transaction can stop between two of
    them, which the faults show.
  \<^item> IDs built from the clock are modelled as such, so two incidents created in the same
    nanosecond collide, as in the code; theorems that need a fresh ID say so.
  \<^item> What agents, Slack, AES-GCM, the time-zone database and the order of map iteration do is an
    argument of the definitions that use it.

  \<^bold>\<open>Not modelled\<close>: handlers without logic of their own, language-model calls, notifications, the
  analytics services, billing and workflow records, single sign-on, the frontend and the agent program.
  \<^bold>\<open>Planned next\<close>: access control, business impact and the mappers of custom schemas and telemetry.
\<close>

end
